(* ===== verification/Go_Prelude.thy ===== *)
theory Go_Prelude
  imports Main "HOL-Library.List_Lexorder" "HOL-Library.Char_ord" "HOL-Library.Multiset"
begin

text \<open>
  Shared vocabulary of the development: the parts of the Go language and of its standard
  library (\<^verbatim>\<open>strings\<close>, \<^verbatim>\<open>slices\<close>, \<^verbatim>\<open>strconv\<close>, \<^verbatim>\<open>path\<close>, \<^verbatim>\<open>time\<close>) that the modelled code
  uses, with the lemmas on lists, strings, numbers and finite maps that every component
  shares.  A Go string is a byte list (\<open>string\<close>), compared bytewise (\<open>List_Lexorder\<close> over
  \<open>Char_ord\<close>); a \<^verbatim>\<open>time.Time\<close> is the number of nanoseconds since the zero instant, so the zero
  time is \<open>0\<close>; an error return is the \<open>Inl\<close> of a sum.
\<close>

named_theorems go_simps "evaluation rules of the Go library functions"
named_theorems key_simps "injectivity and shape of composed identity keys"

type_synonym time = int

definition time_is_zero :: "time \<Rightarrow> bool" where
  "time_is_zero t \<longleftrightarrow> t = 0"

section \<open>Results\<close>

abbreviation is_ok :: "'e + 'a \<Rightarrow> bool" where
  "is_ok r \<equiv> (\<exists>x. r = Inr x)"

fun err_bind :: "'e + 'a \<Rightarrow> ('a \<Rightarrow> 'e + 'b) \<Rightarrow> 'e + 'b" where
  "err_bind (Inl e) f = Inl e"
| "err_bind (Inr x) f = f x"

definition guard_err :: "bool \<Rightarrow> 'e \<Rightarrow> 'e + unit" where
  "guard_err bad e = (if bad then Inl e else Inr ())"

lemma err_bind_Inr [simp]: "err_bind r f = Inr y \<longleftrightarrow> (\<exists>x. r = Inr x \<and> f x = Inr y)"
  by (cases r) auto

lemma guard_err_Inr [simp]: "guard_err bad e = Inr u \<longleftrightarrow> \<not> bad"
  by (simp add: guard_err_def)

section \<open>Integers as decimal text\<close>

definition digit_char :: "nat \<Rightarrow> char" where
  "digit_char d = ''0123456789'' ! d"

fun nat_text :: "nat \<Rightarrow> string" where
  "nat_text n = (if n < 10 then [digit_char n] else nat_text (n div 10) @ [digit_char (n mod 10)])"

declare nat_text.simps [simp del]

definition itoa :: "int \<Rightarrow> string" where
  "itoa i = (if i < 0 then CHR ''-'' # nat_text (nat (- i)) else nat_text (nat i))"

lemma digit_char_cases:
  assumes "d < 10"
  shows "digit_char d \<in> set ''0123456789''"
proof -
  have "d < length ''0123456789''" using assms by simp
  then show ?thesis unfolding digit_char_def by (rule nth_mem)
qed

lemma digit_char_inj:
  assumes "a < 10" "b < 10" "digit_char a = digit_char b"
  shows "a = b"
proof -
  have "distinct ''0123456789''" by simp
  moreover have "a < length ''0123456789''" "b < length ''0123456789''" using assms by simp_all
  ultimately show ?thesis using assms(3) unfolding digit_char_def by (simp only: nth_eq_iff_index_eq)
qed

lemma nat_text_digits: "set (nat_text n) \<subseteq> set ''0123456789''"
proof (induction n rule: nat_text.induct)
  case (1 n)
  show ?case
  proof (cases "n < 10")
    case True
    then show ?thesis using digit_char_cases[OF True] by (subst nat_text.simps) auto
  next
    case False
    have "digit_char (n mod 10) \<in> set ''0123456789''" by (rule digit_char_cases) simp
    with False 1 show ?thesis by (subst nat_text.simps) auto
  qed
qed

lemma nat_text_nonempty [simp]: "nat_text n \<noteq> []" "[] \<noteq> nat_text n"
  by (subst nat_text.simps, simp)+

lemma nat_text_inj: "nat_text m = nat_text n \<Longrightarrow> m = n"
proof (induction m arbitrary: n rule: nat_text.induct)
  case (1 m)
  show ?case
  proof (cases "m < 10")
    case True
    show ?thesis
    proof (cases "n < 10")
      case n: True
      have "[digit_char m] = [digit_char n]"
        using "1.prems" True n by (simp add: nat_text.simps[of m] nat_text.simps[of n])
      then show ?thesis using digit_char_inj[OF True n] by simp
    next
      case False
      with True "1.prems" show ?thesis
        by (simp add: nat_text.simps[of m] nat_text.simps[of n])
    qed
  next
    case m: False
    show ?thesis
    proof (cases "n < 10")
      case True
      with m "1.prems" show ?thesis by (simp add: nat_text.simps[of m] nat_text.simps[of n])
    next
      case False
      have "nat_text (m div 10) = nat_text (n div 10)" "digit_char (m mod 10) = digit_char (n mod 10)"
        using "1.prems" m False by (simp_all add: nat_text.simps[of m] nat_text.simps[of n])
      moreover have "m div 10 = n div 10" using "1.IH"[OF m] calculation(1) by simp
      moreover have "m mod 10 = n mod 10"
        using digit_char_inj[of "m mod 10" "n mod 10"] calculation(2) by simp
      ultimately show ?thesis by (metis div_mult_mod_eq)
    qed
  qed
qed

lemma digits_no_sign: "CHR ''-'' \<notin> set (nat_text n)" "CHR ''#'' \<notin> set (nat_text n)"
  "CHR ''/'' \<notin> set (nat_text n)" "CHR '':'' \<notin> set (nat_text n)"
  using nat_text_digits[of n] by auto

lemma itoa_inj [key_simps]: "itoa a = itoa b \<longleftrightarrow> a = b"
proof
  assume eq: "itoa a = itoa b"
  have nn: "nat_text k \<noteq> CHR ''-'' # xs" for k xs
    using digits_no_sign(1)[of k] by auto
  have np: "CHR ''-'' # xs \<noteq> nat_text k" for k xs
    using nn[of k xs] by metis
  show "a = b"
  proof (cases "a < 0"; cases "b < 0")
    assume "a < 0" "b < 0"
    with eq have "nat_text (nat (- a)) = nat_text (nat (- b))" by (simp add: itoa_def)
    from nat_text_inj[OF this] show ?thesis using \<open>a < 0\<close> \<open>b < 0\<close> by simp
  next
    assume "\<not> a < 0" "\<not> b < 0"
    with eq have "nat_text (nat a) = nat_text (nat b)" by (simp add: itoa_def)
    from nat_text_inj[OF this] show ?thesis using \<open>\<not> a < 0\<close> \<open>\<not> b < 0\<close> by simp
  qed (use eq nn np in \<open>auto simp: itoa_def\<close>)
qed simp

lemma itoa_no_hash [simp]: "CHR ''#'' \<notin> set (itoa n)" "CHR ''/'' \<notin> set (itoa n)" "CHR '':'' \<notin> set (itoa n)"
  using digits_no_sign[of "nat n"] digits_no_sign[of "nat (- n)"] by (auto simp: itoa_def)

lemma sep_split_eq:
  assumes "xs @ c # ys = xs' @ c # ys'" "c \<notin> set ys" "c \<notin> set ys'"
  shows "xs = xs' \<and> ys = ys'"
proof -
  have tw: "takeWhile (\<lambda>x. x \<noteq> c) (ws @ c # vs) = ws" if "c \<notin> set ws" for ws vs
    using that by (induction ws) auto
  have *: "takeWhile (\<lambda>x. x \<noteq> c) (rev (as @ c # zs)) = rev zs" if "c \<notin> set zs" for as zs
    using tw[of "rev zs" "rev as"] that by simp
  have "rev ys = rev ys'"
    using *[OF assms(2), of xs] *[OF assms(3), of xs'] assms(1) by metis
  then have "ys = ys'" by simp
  with assms(1) show ?thesis by simp
qed

section \<open>Slices\<close>

text \<open>\<^verbatim>\<open>slices.Sort\<close> followed by \<^verbatim>\<open>slices.Compact\<close>.\<close>

definition sort_compact :: "'a::linorder list \<Rightarrow> 'a list" where
  "sort_compact xs = remdups_adj (sort xs)"

lemma set_sort_compact [simp]: "set (sort_compact xs) = set xs"
  by (simp add: sort_compact_def)

lemma sorted_sort_compact [simp]: "sorted (sort_compact xs)"
  by (simp add: sort_compact_def sorted_remdups_adj)

lemma distinct_remdups_adj_sorted: "sorted xs \<Longrightarrow> distinct (remdups_adj xs)"
  by (induction xs rule: remdups_adj.induct) (auto simp: less_le)

lemma distinct_sort_compact [simp]: "distinct (sort_compact xs)"
  by (simp add: sort_compact_def distinct_remdups_adj_sorted)

lemma sort_compact_cong: "set xs = set ys \<Longrightarrow> sort_compact xs = sort_compact ys"
  by (rule sorted_distinct_set_unique) auto

lemma sort_compact_idem [simp]: "sort_compact (sort_compact xs) = sort_compact xs"
  by (rule sort_compact_cong) simp

text \<open>\<^verbatim>\<open>slices.SortFunc\<close> with a comparison into negative, zero and positive numbers.\<close>

definition cmp_le :: "('a \<Rightarrow> 'a \<Rightarrow> int) \<Rightarrow> 'a \<Rightarrow> 'a \<Rightarrow> bool" where
  "cmp_le cmp a b \<longleftrightarrow> cmp a b \<le> 0"

fun insert_func :: "('a \<Rightarrow> 'a \<Rightarrow> int) \<Rightarrow> 'a \<Rightarrow> 'a list \<Rightarrow> 'a list" where
  "insert_func cmp x [] = [x]"
| "insert_func cmp x (y # ys) = (if cmp_le cmp x y then x # y # ys else y # insert_func cmp x ys)"

fun sort_func :: "('a \<Rightarrow> 'a \<Rightarrow> int) \<Rightarrow> 'a list \<Rightarrow> 'a list" where
  "sort_func cmp [] = []"
| "sort_func cmp (x # xs) = insert_func cmp x (sort_func cmp xs)"

lemma mset_insert_func [simp]: "mset (insert_func cmp x xs) = add_mset x (mset xs)"
  by (induction xs) auto

lemma mset_sort_func [simp]: "mset (sort_func cmp xs) = mset xs"
  by (induction xs) auto

lemma set_insert_func [simp]: "set (insert_func cmp x xs) = insert x (set xs)"
  by (induction xs) auto

lemma set_sort_func [simp]: "set (sort_func cmp xs) = set xs"
  by (induction xs) auto

lemma distinct_sort_func [simp]: "distinct (sort_func cmp xs) = distinct xs"
  by (metis mset_sort_func mset_eq_imp_distinct_iff)

text \<open>The contract of a comparison function: the locale that makes \<open>sort_func\<close> sort.\<close>

locale go_compare =
  fixes cmp :: "'a \<Rightarrow> 'a \<Rightarrow> int"
  assumes cmp_refl: "cmp a a = 0"
    and cmp_antisym: "(cmp a b \<le> 0) = (0 \<le> cmp b a)"
    and cmp_trans: "cmp a b \<le> 0 \<Longrightarrow> cmp b c \<le> 0 \<Longrightarrow> cmp a c \<le> 0"
begin

lemma le_total: "\<not> cmp_le cmp a b \<Longrightarrow> cmp_le cmp b a"
  using cmp_antisym[of a b] by (simp add: cmp_le_def)

lemma sorted_insert_func:
  "sorted_wrt (cmp_le cmp) xs \<Longrightarrow> sorted_wrt (cmp_le cmp) (insert_func cmp x xs)"
proof (induction xs)
  case (Cons y ys)
  then show ?case
    using le_total[of x y] cmp_trans[of x y] by (auto simp: cmp_le_def)
qed simp

lemma sorted_sort_func: "sorted_wrt (cmp_le cmp) (sort_func cmp xs)"
  by (induction xs) (auto intro: sorted_insert_func)

text \<open>Two arrangements of the same elements that are both sorted agree when the comparison
  separates the elements: any correct (also an unstable) sort returns this list.\<close>

lemma sorted_unique:
  assumes "sorted_wrt (cmp_le cmp) xs" "sorted_wrt (cmp_le cmp) ys" "mset xs = mset ys"
    and "\<And>a b. a \<in> set xs \<Longrightarrow> b \<in> set xs \<Longrightarrow> cmp a b = 0 \<Longrightarrow> a = b"
  shows "xs = ys"
  using assms
proof (induction xs arbitrary: ys)
  case Nil
  then show ?case by simp
next
  case (Cons x xs)
  then obtain y ys' where ys: "ys = y # ys'" by (cases ys) auto
  have sets: "insert x (set xs) = insert y (set ys')"
    using Cons.prems(3) ys by (metis list.simps(15) mset_eq_setD)
  have "y \<in> insert x (set xs)" "x \<in> insert y (set ys')" using sets by auto
  then have "cmp x y \<le> 0" "cmp y x \<le> 0"
    using Cons.prems(1,2) ys cmp_refl[of x] by (auto simp: cmp_le_def)
  then have "cmp x y = 0" using cmp_antisym[of x y] cmp_antisym[of y x] by linarith
  then have xy: "x = y" using Cons.prems(4)[of x y] sets by auto
  have "xs = ys'"
    using Cons.IH[of ys'] Cons.prems ys xy by auto
  then show ?case using ys xy by simp
qed

lemma sort_func_perm:
  assumes "mset xs = mset ys"
    and "\<And>a b. a \<in> set xs \<Longrightarrow> b \<in> set xs \<Longrightarrow> cmp a b = 0 \<Longrightarrow> a = b"
  shows "sort_func cmp xs = sort_func cmp ys"
  by (rule sorted_unique) (use assms in \<open>auto intro: sorted_sort_func\<close>)

end

text \<open>\<^verbatim>\<open>cmp.Compare\<close> and \<^verbatim>\<open>strings.Compare\<close>.\<close>

definition compare_ord :: "'a::linorder \<Rightarrow> 'a \<Rightarrow> int" where
  "compare_ord a b = (if a < b then -1 else if b < a then 1 else 0)"

lemma compare_ord_0 [simp]: "compare_ord a b = 0 \<longleftrightarrow> a = b"
  by (auto simp: compare_ord_def)

section \<open>Strings\<close>

definition has_prefix :: "string \<Rightarrow> string \<Rightarrow> bool" where
  "has_prefix s p \<longleftrightarrow> take (length p) s = p"

definition has_suffix :: "string \<Rightarrow> string \<Rightarrow> bool" where
  "has_suffix s p \<longleftrightarrow> has_prefix (rev s) (rev p)"

fun contains_str :: "string \<Rightarrow> string \<Rightarrow> bool" where
  "contains_str [] p = (p = [])"
| "contains_str (c # cs) p = (has_prefix (c # cs) p \<or> contains_str cs p)"

definition contains_any :: "string \<Rightarrow> string \<Rightarrow> bool" where
  "contains_any s cs \<longleftrightarrow> list_ex (\<lambda>c. List.member cs c) s"

fun join_str :: "string list \<Rightarrow> string \<Rightarrow> string" where
  "join_str [] sep = []"
| "join_str [x] sep = x"
| "join_str (x # y # ys) sep = x @ sep @ join_str (y # ys) sep"

fun split_char :: "char \<Rightarrow> string \<Rightarrow> string list" where
  "split_char c [] = [[]]"
| "split_char c (x # xs) =
     (if x = c then [] # split_char c xs
      else (case split_char c xs of [] \<Rightarrow> [[x]] | w # ws \<Rightarrow> (x # w) # ws))"

text \<open>\<^verbatim>\<open>strings.ToLower\<close> and \<^verbatim>\<open>strings.ToUpper\<close> on ASCII text.\<close>

definition lower_char :: "char \<Rightarrow> char" where
  "lower_char c = (let n = of_char c :: nat in if 65 \<le> n \<and> n \<le> 90 then char_of (n + 32) else c)"

definition upper_char :: "char \<Rightarrow> char" where
  "upper_char c = (let n = of_char c :: nat in if 97 \<le> n \<and> n \<le> 122 then char_of (n - 32) else c)"

text \<open>
  \<^verbatim>\<open>strings.TrimSpace\<close>: the UTF-8 encodings of the code points for which \<^verbatim>\<open>unicode.IsSpace\<close>
  holds, removed from both ends.
\<close>

definition bytes :: "nat list \<Rightarrow> string" where
  "bytes ns = map char_of ns"

definition space_encodings :: "string list" where
  "space_encodings =
     map (\<lambda>n. bytes [n]) [9, 10, 11, 12, 13, 32] @
     [bytes [194, 133], bytes [194, 160], bytes [225, 154, 128]] @
     map (\<lambda>n. bytes [226, 128, n]) [128, 129, 130, 131, 132, 133, 134, 135, 136, 137, 138, 168, 169, 175] @
     [bytes [226, 129, 159], bytes [227, 128, 128]]"

fun strip_one :: "string list \<Rightarrow> string \<Rightarrow> string option" where
  "strip_one [] s = None"
| "strip_one (e # es) s =
     (if e \<noteq> [] \<and> has_prefix s e then Some (drop (length e) s) else strip_one es s)"

lemma strip_one_shorter: "strip_one es s = Some t \<Longrightarrow> length t < length s"
proof (induction es)
  case (Cons e es)
  show ?case
  proof (cases "e \<noteq> [] \<and> has_prefix s e")
    case True
    then have "t = drop (length e) s" and "e \<noteq> []" and "take (length e) s = e"
      using Cons.prems by (auto simp: has_prefix_def)
    moreover from this have "s \<noteq> []" by auto
    ultimately show ?thesis by (simp add: diff_less)
  next
    case False
    with Cons show ?thesis by (simp split: if_splits)
  qed
qed simp

function strip_all :: "string list \<Rightarrow> string \<Rightarrow> string" where
  "strip_all es s = (case strip_one es s of None \<Rightarrow> s | Some t \<Rightarrow> strip_all es t)"
  by pat_completeness auto
termination
  by (relation "measure (\<lambda>(es, s). length s)") (auto dest: strip_one_shorter)

declare strip_all.simps [simp del]

definition trim_space :: "string \<Rightarrow> string" where
  "trim_space s =
     rev (strip_all (map rev space_encodings) (rev (strip_all space_encodings s)))"

definition blank :: "string \<Rightarrow> bool" where
  "blank s \<longleftrightarrow> trim_space s = []"

lemma blank_Nil [simp]: "blank []"
  by (simp add: blank_def trim_space_def strip_all.simps space_encodings_def bytes_def has_prefix_def)

text \<open>Text that begins and ends with printable ASCII characters is already trimmed.\<close>

definition graphic :: "char \<Rightarrow> bool" where
  "graphic c \<longleftrightarrow> 33 \<le> (of_char c :: nat) \<and> (of_char c :: nat) < 128"

lemma strip_one_outside: "\<forall>e \<in> set es. e \<noteq> [] \<longrightarrow> hd e \<noteq> c \<Longrightarrow> strip_one es (c # s) = None"
  by (induction es) (auto simp: has_prefix_def neq_Nil_conv)

lemma space_heads:
  "e \<in> set space_encodings \<Longrightarrow> \<not> graphic (hd e) \<and> \<not> graphic (last e) \<and> e \<noteq> []"
  by (auto simp: space_encodings_def bytes_def graphic_def)

lemma graphic_outside:
  assumes "graphic c"
  shows "strip_one space_encodings (c # s) = None" "strip_one (map rev space_encodings) (c # s) = None"
proof -
  have "hd e \<noteq> c" "last e \<noteq> c" if "e \<in> set space_encodings" for e using space_heads[OF that] assms by auto
  then show "strip_one space_encodings (c # s) = None" "strip_one (map rev space_encodings) (c # s) = None"
    by (intro strip_one_outside ballI impI; force simp: hd_rev)+
qed

lemma trim_space_graphic:
  assumes "graphic (hd s)" "graphic (last s)"
  shows "trim_space s = s"
proof (cases s)
  case Nil
  then show ?thesis using blank_Nil by (simp add: blank_def)
next
  case (Cons c t)
  then obtain d u where r: "rev s = d # u" by (cases "rev s") auto
  then have "last s = d" by (metis last_rev list.sel(1) rev_rev_ident hd_rev)
  with assms Cons have "graphic c" "graphic d" by auto
  then show ?thesis
    using r unfolding trim_space_def Cons
    by (simp add: strip_all.simps graphic_outside) (metis rev.simps(2) rev_rev_ident)
qed

section \<open>Paths\<close>

text \<open>\<^verbatim>\<open>path.Clean\<close> (and \<^verbatim>\<open>filepath.Clean\<close> on Unix): the elements between slashes, folded with a
  stack whose head is the last element kept.\<close>

fun clean_step :: "bool \<Rightarrow> string list \<Rightarrow> string \<Rightarrow> string list" where
  "clean_step rooted st e =
     (if e = [] \<or> e = ''.'' then st
      else if e = ''..'' then
        (case st of
           [] \<Rightarrow> if rooted then [] else [''..'']
         | t # ts \<Rightarrow> if t = ''..'' then ''..'' # t # ts else ts)
      else e # st)"

definition path_is_abs :: "string \<Rightarrow> bool" where
  "path_is_abs p \<longleftrightarrow> has_prefix p ''/''"

definition path_clean :: "string \<Rightarrow> string" where
  "path_clean p =
     (let rooted = path_is_abs p;
          body = join_str (rev (foldl (clean_step rooted) [] (split_char (CHR ''/'') p))) ''/''
      in if rooted then CHR ''/'' # body else if body = [] then ''.'' else body)"

section \<open>Finite maps\<close>

lemma option_eqI: "(\<And>v. x = Some v \<longleftrightarrow> y = Some v) \<Longrightarrow> x = y"
  by (cases x; cases y) auto

text \<open>\<^verbatim>\<open>range\<close> over a Go map visits the entries in an unspecified order: an order is a
  rearrangement of the entries.\<close>

definition arrangement :: "('a list \<Rightarrow> 'a list) \<Rightarrow> bool" where
  "arrangement f \<longleftrightarrow> (\<forall>xs. mset (f xs) = mset xs)"

lemma arrangement_mset [simp]: "arrangement f \<Longrightarrow> mset (f xs) = mset xs"
  by (simp add: arrangement_def)

lemma arrangement_set [simp]: "arrangement f \<Longrightarrow> set (f xs) = set xs"
  by (metis arrangement_mset mset_eq_setD)

lemma arrangement_id [simp]: "arrangement (\<lambda>xs. xs)" "arrangement id" "arrangement rev"
  by (simp_all add: arrangement_def)

end
