(* ===== verification/Backlog.thy ===== *)
theory Backlog
  imports Go_Prelude "HOL-Library.AList"
begin

text \<open>
  The backlog data of \<^verbatim>\<open>internal/orchestrator/scheduler.go\<close>: issues, capacity, decisions, the
  comparison that orders the backlog, and \<^verbatim>\<open>normalize\<close>, which merges repeated snapshots of one
  issue and records the issues whose snapshots contradict each other.  The lemmas show that
  normalisation is a function of the \<^emph>\<open>set\<close> of delivered snapshots.
\<close>

section \<open>Data\<close>

record Issue =
  i_Repository :: string
  i_Number :: int
  i_Priority :: int
  i_CreatedAt :: time
  i_Dependencies :: "int list"
  i_SatisfiedDependencies :: "int list"
  i_Paths :: "string list"
  i_Eligible :: bool
  i_Blockers :: "string list"
  i_Active :: bool
  i_Completed :: bool
  i_Cancelled :: bool

record Capacity =
  c_Global :: int
  c_Repositories :: "(string \<times> int) list"

datatype State = Blocked | Queued | Runnable | Active | Completed | Cancelled

record Decision =
  d_Repository :: string
  d_Number :: int
  d_State :: State
  d_Explanation :: string

section \<open>Identity, order and equality of issues\<close>

definition key :: "Issue \<Rightarrow> string" where
  "key issue = i_Repository issue @ CHR ''#'' # itoa (i_Number issue)"

definition issue_key :: "string \<Rightarrow> int \<Rightarrow> string" where
  "issue_key r n = r @ CHR ''#'' # itoa n"

lemma issue_key_inj [key_simps]: "issue_key r n = issue_key r' n' \<longleftrightarrow> r = r' \<and> n = n'"
proof
  assume eq: "issue_key r n = issue_key r' n'"
  have "r @ CHR ''#'' # itoa n = r' @ CHR ''#'' # itoa n'" using eq by (simp add: issue_key_def)
  from sep_split_eq[OF this] show "r = r' \<and> n = n'" by (auto simp: key_simps)
qed simp

lemma key_issue_key: "key i = issue_key (i_Repository i) (i_Number i)"
  by (simp add: key_def issue_key_def)

lemma key_inj: "key a = key b \<longleftrightarrow> i_Repository a = i_Repository b \<and> i_Number a = i_Number b"
  by (simp add: key_issue_key key_simps)

definition compareIssues :: "Issue \<Rightarrow> Issue \<Rightarrow> int" where
  "compareIssues a b =
     (let n = compare_ord (i_Priority a) (i_Priority b) in if n \<noteq> 0 then n
      else let n = compare_ord (i_CreatedAt a) (i_CreatedAt b) in if n \<noteq> 0 then n
      else let n = compare_ord (i_Number a) (i_Number b) in if n \<noteq> 0 then n
      else compare_ord (i_Repository a) (i_Repository b))"

definition equalIssue :: "Issue \<Rightarrow> Issue \<Rightarrow> bool" where
  "equalIssue a b \<longleftrightarrow>
     i_Repository a = i_Repository b \<and> i_Number a = i_Number b \<and> i_Priority a = i_Priority b \<and>
     i_CreatedAt a = i_CreatedAt b \<and> i_Dependencies a = i_Dependencies b \<and>
     i_SatisfiedDependencies a = i_SatisfiedDependencies b \<and> i_Paths a = i_Paths b \<and>
     i_Eligible a = i_Eligible b \<and> i_Blockers a = i_Blockers b \<and> i_Active a = i_Active b \<and>
     i_Completed a = i_Completed b \<and> i_Cancelled a = i_Cancelled b"

lemma equalIssue_iff [simp]: "equalIssue a b \<longleftrightarrow> a = b"
  by (auto simp: equalIssue_def)

interpretation issue_order: go_compare compareIssues
proof unfold_locales
  fix a b c :: Issue
  show "compareIssues a a = 0" by (simp add: compareIssues_def compare_ord_def)
  show "(compareIssues a b \<le> 0) = (0 \<le> compareIssues b a)"
    by (auto simp: compareIssues_def compare_ord_def Let_def)
  show "compareIssues a b \<le> 0 \<Longrightarrow> compareIssues b c \<le> 0 \<Longrightarrow> compareIssues a c \<le> 0"
    by (auto simp: compareIssues_def compare_ord_def Let_def split: if_splits)
qed

lemma compareIssues_0:
  "compareIssues a b = 0 \<longleftrightarrow>
     i_Priority a = i_Priority b \<and> i_CreatedAt a = i_CreatedAt b \<and> i_Number a = i_Number b \<and>
     i_Repository a = i_Repository b"
  by (auto simp: compareIssues_def Let_def)

lemma compareIssues_cong:
  assumes "i_Priority a = i_Priority a'" "i_CreatedAt a = i_CreatedAt a'"
    "i_Number a = i_Number a'" "i_Repository a = i_Repository a'"
    "i_Priority b = i_Priority b'" "i_CreatedAt b = i_CreatedAt b'"
    "i_Number b = i_Number b'" "i_Repository b = i_Repository b'"
  shows "compareIssues a b = compareIssues a' b'"
  using assms by (simp add: compareIssues_def)

section \<open>Normalisation\<close>

definition sortedUnique :: "int list \<Rightarrow> int list" where
  "sortedUnique values = sort_compact values"

definition sortedUniqueStrings :: "string list \<Rightarrow> string list" where
  "sortedUniqueStrings values = sort_compact values"

definition normal_fields :: "Issue \<Rightarrow> Issue" where
  "normal_fields issue =
     issue\<lparr>i_Dependencies := sortedUnique (i_Dependencies issue),
           i_SatisfiedDependencies := sortedUnique (i_SatisfiedDependencies issue),
           i_Paths := sortedUniqueStrings (i_Paths issue),
           i_Blockers := sortedUniqueStrings (i_Blockers issue)\<rparr>"

fun normalize_step ::
  "(string \<times> Issue) list \<times> string list \<Rightarrow> Issue \<Rightarrow> (string \<times> Issue) list \<times> string list" where
  "normalize_step (seen, contradictions) raw =
     (let issue = normal_fields raw; k = key issue in
      case map_of seen k of
        Some previous \<Rightarrow>
          if \<not> equalIssue previous issue
          then (if compareIssues issue previous < 0 then AList.update k issue seen else seen,
                k # contradictions)
          else (AList.update k issue seen, contradictions)
      | None \<Rightarrow> (AList.update k issue seen, contradictions))"

definition normalize_maps :: "Issue list \<Rightarrow> (string \<times> Issue) list \<times> string list" where
  "normalize_maps input = foldl normalize_step ([], []) input"

text \<open>The values of the map \<^verbatim>\<open>seen\<close> come out in the order \<open>sh\<close> of a map iteration.\<close>

definition normalize :: "(Issue list \<Rightarrow> Issue list) \<Rightarrow> Issue list \<Rightarrow> Issue list \<times> string list" where
  "normalize sh input =
     (let (seen, contradictions) = normalize_maps input in (sh (map snd seen), contradictions))"

section \<open>What normalisation computes\<close>

definition snapshots :: "Issue set \<Rightarrow> string \<Rightarrow> Issue set" where
  "snapshots S k = {i \<in> normal_fields ` S. key i = k}"

definition contradictory :: "Issue set \<Rightarrow> string \<Rightarrow> bool" where
  "contradictory S k \<longleftrightarrow> (\<exists>i \<in> snapshots S k. \<exists>j \<in> snapshots S k. i \<noteq> j)"

definition normalized :: "Issue set \<Rightarrow> (string \<times> Issue) list \<times> string list \<Rightarrow> bool" where
  "normalized S st \<longleftrightarrow>
     distinct (map fst (fst st)) \<and> fst ` set (fst st) = key ` normal_fields ` S \<and>
     (\<forall>k i. map_of (fst st) k = Some i \<longrightarrow>
        i \<in> snapshots S k \<and> (\<forall>j \<in> snapshots S k. compareIssues i j \<le> 0)) \<and>
     (\<forall>k. k \<in> set (snd st) \<longleftrightarrow> contradictory S k)"

lemma snapshots_insert:
  "snapshots (insert x S) k =
     (if key (normal_fields x) = k then insert (normal_fields x) (snapshots S k) else snapshots S k)"
  by (auto simp: snapshots_def)

lemma contradictory_insert:
  "contradictory (insert x S) k \<longleftrightarrow>
     contradictory S k \<or> key (normal_fields x) = k \<and> (\<exists>j \<in> snapshots S k. j \<noteq> normal_fields x)"
  unfolding contradictory_def snapshots_insert by (cases "key (normal_fields x) = k") (simp, metis, simp)

lemma normalized_step:
  assumes "normalized S st"
  shows "normalized (insert x S) (normalize_step st x)"
proof -
  obtain seen con where st: "st = (seen, con)" by (cases st)
  let ?i = "normal_fields x" let ?k = "key ?i"
  have inv: "distinct (map fst seen)" "fst ` set seen = key ` normal_fields ` S"
    "\<And>k i. map_of seen k = Some i \<Longrightarrow> i \<in> snapshots S k \<and> (\<forall>j \<in> snapshots S k. compareIssues i j \<le> 0)"
    "\<And>k. k \<in> set con \<longleftrightarrow> contradictory S k"
    using assms by (auto simp: normalized_def st)
  show ?thesis
  proof (cases "map_of seen ?k")
    case None
    then have none: "snapshots S ?k = {}"
      using inv(2) unfolding snapshots_def map_of_eq_None_iff by (auto, metis image_eqI)
    have "\<not> contradictory S ?k" using none by (simp add: contradictory_def)
    then show ?thesis
      using None inv none
      by (auto simp: normalized_def st Let_def distinct_update dom_update update_conv'
        snapshots_insert contradictory_insert issue_order.cmp_refl simp del: map_of_eq_Some_iff split: if_splits)
  next
    case (Some p)
    have p: "p \<in> snapshots S ?k" "\<forall>j \<in> snapshots S ?k. compareIssues p j \<le> 0" using inv(3)[OF Some] by auto
    have kin: "?k \<in> fst ` set seen" using Some by (metis image_eqI fst_conv map_of_SomeD)
    show ?thesis
    proof (cases "p = ?i")
      case True
      have "contradictory S ?k" if "j \<in> snapshots S ?k" "j \<noteq> ?i" for j
        using that p(1) True by (auto simp: contradictory_def)
      then show ?thesis
        using Some True inv p kin
        by (auto simp: normalized_def st Let_def distinct_update dom_update update_conv'
          snapshots_insert contradictory_insert issue_order.cmp_refl simp del: map_of_eq_Some_iff split: if_splits)
    next
      case False
      show ?thesis
      proof (cases "compareIssues ?i p < 0")
        case True
        have "compareIssues ?i j \<le> 0" if "j \<in> snapshots S ?k" for j
          using True p(2) that issue_order.cmp_trans[of ?i p j] by auto
        then show ?thesis
          using Some True False inv p kin
          by (auto simp: normalized_def st Let_def distinct_update dom_update update_conv'
            snapshots_insert contradictory_insert issue_order.cmp_refl simp del: map_of_eq_Some_iff split: if_splits)
      next
        case ge: False
        then have "compareIssues p ?i \<le> 0" using issue_order.cmp_antisym[of p ?i] by simp
        then show ?thesis
          using Some False ge inv p kin
          by (auto simp: normalized_def st Let_def snapshots_insert contradictory_insert
            issue_order.cmp_refl simp del: map_of_eq_Some_iff split: if_splits)
      qed
    qed
  qed
qed

lemma normalized_fold:
  "normalized S st \<Longrightarrow> normalized (S \<union> set xs) (foldl normalize_step st xs)"
proof (induction xs arbitrary: S st)
  case (Cons x xs)
  have "normalized (insert x S \<union> set xs) (foldl normalize_step (normalize_step st x) xs)"
    by (rule Cons.IH) (rule normalized_step[OF Cons.prems])
  then show ?case by simp
qed simp

lemma normalized_maps: "normalized (set input) (normalize_maps input)"
proof -
  have "normalized {} ([], [])" by (simp add: normalized_def contradictory_def snapshots_def)
  from normalized_fold[OF this, of input] show ?thesis by (simp add: normalize_maps_def)
qed

text \<open>The scheduler reads only the identity and the order of a contradictory issue.\<close>

definition erased :: "(string \<Rightarrow> bool) \<Rightarrow> Issue \<Rightarrow> Issue" where
  "erased con i =
     (if con (key i)
      then i\<lparr>i_Dependencies := [], i_SatisfiedDependencies := [], i_Paths := [], i_Eligible := False,
             i_Blockers := [], i_Active := False, i_Completed := False, i_Cancelled := False\<rparr>
      else i)"

lemma erased_fields [simp]:
  "i_Repository (erased c i) = i_Repository i" "i_Number (erased c i) = i_Number i"
  "i_Priority (erased c i) = i_Priority i" "i_CreatedAt (erased c i) = i_CreatedAt i"
  "key (erased c i) = key i" "\<not> c (key i) \<Longrightarrow> erased c i = i"
  by (simp_all add: erased_def key_def)

lemma compareIssues_erased [simp]: "compareIssues (erased c a) (erased c b) = compareIssues a b"
  by (rule compareIssues_cong) simp_all

lemma insert_func_erased:
  "map (erased c) (insert_func compareIssues x xs) = insert_func compareIssues (erased c x) (map (erased c) xs)"
  by (induction xs) (auto simp: cmp_le_def)

lemma sort_func_erased:
  "map (erased c) (sort_func compareIssues xs) = sort_func compareIssues (map (erased c) xs)"
  by (induction xs) (simp_all add: insert_func_erased)

lemma normalized_image:
  assumes "normalized S st" "normalized S st'"
  shows "erased (contradictory S) ` snd ` set (fst st) \<subseteq> erased (contradictory S) ` snd ` set (fst st')"
proof
  fix e assume "e \<in> erased (contradictory S) ` snd ` set (fst st)"
  then obtain k i where i: "(k, i) \<in> set (fst st)" "e = erased (contradictory S) i" by auto
  have m: "map_of (fst st) k = Some i" using assms(1) i(1) by (simp add: normalized_def)
  have "k \<in> fst ` set (fst st')" using assms i(1) unfolding normalized_def by (metis fst_conv image_eqI)
  then obtain j where j: "(k, j) \<in> set (fst st')" by auto
  have m': "map_of (fst st') k = Some j" using assms(2) j by (simp add: normalized_def)
  have ij: "i \<in> snapshots S k" "j \<in> snapshots S k" "compareIssues i j \<le> 0" "compareIssues j i \<le> 0"
    using assms m m' by (auto simp: normalized_def)
  have ki: "key i = k" "key j = k" using ij by (auto simp: snapshots_def)
  have "compareIssues i j = 0" using ij(3,4) issue_order.cmp_antisym[of j i] by linarith
  then have "erased (contradictory S) i = erased (contradictory S) j"
  proof (cases "contradictory S k")
    case True
    with \<open>compareIssues i j = 0\<close> ki show ?thesis by (auto simp: compareIssues_0 erased_def)
  next
    case False
    with ij ki show ?thesis by (auto simp: contradictory_def)
  qed
  then have "e = erased (contradictory S) (snd (k, j))" using i(2) by simp
  then show "e \<in> erased (contradictory S) ` snd ` set (fst st')" using j by blast
qed

lemma normalized_values:
  assumes "normalized S st" "(k, i) \<in> set (fst st)"
  shows "key i = k"
proof -
  have "map_of (fst st) k = Some i" using assms by (simp add: normalized_def)
  then have "i \<in> snapshots S k" using assms(1) by (simp add: normalized_def)
  then show ?thesis by (simp add: snapshots_def)
qed

lemma normalized_keys: "normalized S st \<Longrightarrow> map key (map snd (fst st)) = map fst (fst st)"
  by (auto simp: normalized_values intro!: map_cong)

lemma normalized_distinct: "normalized S st \<Longrightarrow> distinct (map key (map snd (fst st)))"
  unfolding normalized_keys by (simp add: normalized_def)

text \<open>The sorted backlog, with the contradictory issues erased, is a function of the set of
  snapshots: neither their order, their repetitions nor the map iteration order matter.\<close>

lemma sorted_backlog_determined:
  assumes "set input = set input'" "arrangement sh" "arrangement sh'"
  defines "c \<equiv> contradictory (set input)"
  shows "map (erased c) (sort_func compareIssues (fst (normalize sh input))) =
         map (erased c) (sort_func compareIssues (fst (normalize sh' input')))"
proof -
  let ?a = "map (erased c) (map snd (fst (normalize_maps input)))"
  let ?b = "map (erased c) (map snd (fst (normalize_maps input')))"
  have n: "normalized (set input) (normalize_maps input)" "normalized (set input) (normalize_maps input')"
    using normalized_maps[of input] normalized_maps[of input'] assms(1) by simp_all
  have keys: "map key (map (erased c) xs) = map key xs" for xs by simp
  have d: "distinct ?a" "distinct ?b"
    using normalized_distinct[OF n(1)] normalized_distinct[OF n(2)] keys by (metis distinct_map)+
  have s: "set ?a = set ?b"
    using normalized_image[OF n(1) n(2)] normalized_image[OF n(2) n(1)] unfolding c_def set_map by (rule subset_antisym)
  have m: "mset (map (erased c) (fst (normalize sh input))) = mset ?a"
    "mset (map (erased c) (fst (normalize sh' input'))) = mset ?b"
    using assms(2,3) by (simp_all add: normalize_def split_beta multiset.map_comp)
  have dk: "inj_on key (set ?a)"
    using normalized_distinct[OF n(1)] keys by (metis distinct_map)
  have "sort_func compareIssues (map (erased c) (fst (normalize sh input))) =
        sort_func compareIssues (map (erased c) (fst (normalize sh' input')))"
  proof (rule issue_order.sort_func_perm)
    show "mset (map (erased c) (fst (normalize sh input))) = mset (map (erased c) (fst (normalize sh' input')))"
      using m d s by (metis set_eq_iff_mset_eq_distinct)
    fix x y assume xy: "x \<in> set (map (erased c) (fst (normalize sh input)))"
      "y \<in> set (map (erased c) (fst (normalize sh input)))" "compareIssues x y = 0"
    have se: "set (map (erased c) (fst (normalize sh input))) = set ?a" by (rule mset_eq_setD[OF m(1)])
    have xy': "x \<in> set ?a" "y \<in> set ?a" using xy(1,2) unfolding se .
    have "key x = key y" using xy(3) by (simp add: compareIssues_0 key_inj)
    from inj_onD[OF dk this xy'] show "x = y" .
  qed
  then show ?thesis by (simp add: sort_func_erased)
qed

end
