(* ===== verification/Dependency_Cycles.thy ===== *)
theory Dependency_Cycles
  imports Backlog
begin

text \<open>
  \<^verbatim>\<open>dependencyCycles\<close> of \<^verbatim>\<open>internal/orchestrator/scheduler.go\<close>: a depth-first search over the
  unresolved dependencies between known issues of one repository, with the colours 0 (unseen),
  1 (on the stack) and 2 (finished).  The order in which Go ranges over the issue map is the
  parameter \<open>order\<close>.  The recursion of \<^verbatim>\<open>visit\<close> is bounded by a fuel of one more than the number
  of known issues, which \<open>visit_total\<close> shows to be always enough.
\<close>

section \<open>The search\<close>

record Dfs =
  f_state :: "int \<Rightarrow> nat"
  f_stack :: "int list"
  f_cycles :: "string list"

fun mark_down :: "string \<Rightarrow> int \<Rightarrow> int list \<Rightarrow> string list \<Rightarrow> string list" where
  "mark_down repository dependency [] cycles = cycles"
| "mark_down repository dependency (n # ns) cycles =
     (if n = dependency then issue_key repository n # cycles
      else mark_down repository dependency ns (issue_key repository n # cycles))"

definition deps_of :: "(int \<Rightarrow> Issue option) \<Rightarrow> int \<Rightarrow> int list" where
  "deps_of issues n = (case issues n of Some i \<Rightarrow> i_Dependencies i | None \<Rightarrow> [])"

definition satisfied_of :: "(int \<Rightarrow> Issue option) \<Rightarrow> int \<Rightarrow> int list" where
  "satisfied_of issues n = (case issues n of Some i \<Rightarrow> i_SatisfiedDependencies i | None \<Rightarrow> [])"

definition enter :: "int \<Rightarrow> Dfs \<Rightarrow> Dfs" where
  "enter n s = s\<lparr>f_state := (f_state s)(n := 1), f_stack := n # f_stack s\<rparr>"

definition leave :: "int \<Rightarrow> Dfs \<Rightarrow> Dfs" where
  "leave n s = s\<lparr>f_stack := tl (f_stack s), f_state := (f_state s)(n := 2)\<rparr>"

fun visit :: "nat \<Rightarrow> string \<Rightarrow> (int \<Rightarrow> Issue option) \<Rightarrow> int \<Rightarrow> Dfs \<Rightarrow> Dfs option"
  and visit_deps :: "nat \<Rightarrow> string \<Rightarrow> (int \<Rightarrow> Issue option) \<Rightarrow> int \<Rightarrow> int list \<Rightarrow> Dfs \<Rightarrow> Dfs option" where
  "visit 0 repository issues number s = None"
| "visit (Suc k) repository issues number s =
     map_option (leave number)
       (visit_deps k repository issues number (deps_of issues number) (enter number s))"
| "visit_deps k repository issues number [] s = Some s"
| "visit_deps k repository issues number (dependency # ds) s =
     (if dependency \<in> set (satisfied_of issues number) then visit_deps k repository issues number ds s
      else if issues dependency = None then visit_deps k repository issues number ds s
      else if f_state s dependency = 0 then
        (case visit k repository issues dependency s of
           None \<Rightarrow> None
         | Some s' \<Rightarrow> visit_deps k repository issues number ds s')
      else if f_state s dependency = 1 then
        visit_deps k repository issues number ds
          (s\<lparr>f_cycles := mark_down repository dependency (f_stack s) (f_cycles s)\<rparr>)
      else visit_deps k repository issues number ds s)"

fun visit_all :: "nat \<Rightarrow> string \<Rightarrow> (int \<Rightarrow> Issue option) \<Rightarrow> int list \<Rightarrow> Dfs \<Rightarrow> Dfs option" where
  "visit_all k repository issues [] s = Some s"
| "visit_all k repository issues (number # ns) s =
     (if f_state s number = 0 then
        (case visit k repository issues number s of
           None \<Rightarrow> None
         | Some s' \<Rightarrow> visit_all k repository issues ns s')
      else visit_all k repository issues ns s)"

definition dfs_start :: Dfs where
  "dfs_start = \<lparr>f_state = (\<lambda>_. 0), f_stack = [], f_cycles = []\<rparr>"

definition repository_cycles :: "string \<Rightarrow> (int \<Rightarrow> Issue option) \<Rightarrow> int list \<Rightarrow> string list option" where
  "repository_cycles repository issues order =
     map_option f_cycles (visit_all (Suc (length order)) repository issues order dfs_start)"

section \<open>The graph it searches\<close>

definition edges :: "(int \<Rightarrow> Issue option) \<Rightarrow> (int \<times> int) set" where
  "edges issues = {(n, d). d \<in> set (deps_of issues n) \<and> d \<notin> set (satisfied_of issues n) \<and> issues d \<noteq> None}"

definition on_cycle :: "(int \<Rightarrow> Issue option) \<Rightarrow> int \<Rightarrow> bool" where
  "on_cycle issues n \<longleftrightarrow> (n, n) \<in> (edges issues)\<^sup>+"

definition unseen :: "(int \<Rightarrow> Issue option) \<Rightarrow> Dfs \<Rightarrow> int set" where
  "unseen issues s = {n. issues n \<noteq> None \<and> f_state s n = 0}"

fun stack_path :: "(int \<times> int) set \<Rightarrow> int list \<Rightarrow> bool" where
  "stack_path E (a # b # ns) = ((b, a) \<in> E \<and> stack_path E (b # ns))"
| "stack_path E _ = True"

definition finished_closed :: "(int \<times> int) set \<Rightarrow> Dfs \<Rightarrow> bool" where
  "finished_closed E s \<longleftrightarrow>
     (\<forall>n m. f_state s n = 2 \<longrightarrow> (n, m) \<in> E \<longrightarrow> f_state s m = 2) \<and>
     (\<forall>n. f_state s n = 2 \<longrightarrow> (n, n) \<notin> E\<^sup>+)"

definition good :: "string \<Rightarrow> (int \<Rightarrow> Issue option) \<Rightarrow> Dfs \<Rightarrow> bool" where
  "good r issues s \<longleftrightarrow>
     distinct (f_stack s) \<and> set (f_stack s) = {n. f_state s n = 1} \<and>
     (\<forall>n. f_state s n \<in> {0, 1, 2}) \<and>
     stack_path (edges issues) (f_stack s) \<and>
     set (f_cycles s) \<subseteq> issue_key r ` {n. on_cycle issues n} \<and>
     (f_cycles s = [] \<longrightarrow> finished_closed (edges issues) s)"

definition advances :: "Dfs \<Rightarrow> Dfs \<Rightarrow> bool" where
  "advances s s' \<longleftrightarrow>
     f_stack s' = f_stack s \<and> (\<forall>n. f_state s' n = 1 \<longleftrightarrow> f_state s n = 1) \<and>
     (\<forall>n. f_state s n = 2 \<longrightarrow> f_state s' n = 2) \<and> set (f_cycles s) \<subseteq> set (f_cycles s')"

lemma advances_refl [simp]: "advances s s"
  by (simp add: advances_def)

lemma advances_trans: "advances s t \<Longrightarrow> advances t u \<Longrightarrow> advances s u"
  by (auto simp: advances_def)

lemma advances_empty: "advances s s' \<Longrightarrow> f_cycles s' = [] \<Longrightarrow> f_cycles s = []"
  by (auto simp: advances_def)

lemma advances_zero:
  assumes "advances s s'" "f_state s n \<in> {0, 1, 2}" "f_state s' n = 0"
  shows "f_state s n = 0"
proof -
  have "f_state s' n = 1 \<longleftrightarrow> f_state s n = 1" using assms(1) unfolding advances_def by blast
  moreover have "f_state s n = 2 \<longrightarrow> f_state s' n = 2" using assms(1) unfolding advances_def by blast
  ultimately show ?thesis using assms(2,3) by auto
qed

lemma good_colour: "good r issues s \<Longrightarrow> f_state s n \<in> {0, 1, 2}"
  unfolding good_def by blast

lemma advances_unseen:
  assumes "good r issues s" "advances s s'"
  shows "unseen issues s' \<subseteq> unseen issues s"
  using advances_zero[OF assms(2) good_colour[OF assms(1)]] unfolding unseen_def by auto

section \<open>Soundness of the marking\<close>

lemma mark_down_set:
  "d \<in> set st \<Longrightarrow> set (mark_down r d st c) = issue_key r ` (set (takeWhile (\<lambda>x. x \<noteq> d) st) \<union> {d}) \<union> set c"
  by (induction st arbitrary: c) auto

lemma stack_path_Cons: "stack_path E (a # ns) \<Longrightarrow> stack_path E ns"
  by (cases ns) auto

lemma stack_path_reaches_top:
  "stack_path E st \<Longrightarrow> x \<in> set st \<Longrightarrow> (x, hd st) \<in> E\<^sup>*"
proof (induction st)
  case (Cons a st)
  show ?case
  proof (cases "x = a")
    case False
    then have x: "x \<in> set st" using Cons.prems(2) by simp
    then obtain b ns where st: "st = b # ns" by (cases st) auto
    have "(x, b) \<in> E\<^sup>*" using Cons.IH stack_path_Cons[OF Cons.prems(1)] x st by simp
    moreover have "(b, a) \<in> E" using Cons.prems(1) st by simp
    ultimately show ?thesis by simp
  qed simp
qed simp

lemma stack_path_from:
  "stack_path E st \<Longrightarrow> d \<in> set st \<Longrightarrow> x \<in> set (takeWhile (\<lambda>y. y \<noteq> d) st) \<Longrightarrow> (d, x) \<in> E\<^sup>*"
proof (induction st)
  case (Cons a st)
  then have a: "a \<noteq> d" and d: "d \<in> set st" by (auto split: if_splits)
  then obtain b ns where st: "st = b # ns" by (cases st) auto
  show ?case
  proof (cases "x = a")
    case True
    have ba: "(b, a) \<in> E" using Cons.prems(1) st by simp
    have "(d, b) \<in> E\<^sup>*"
    proof (cases "b = d")
      case False
      then show ?thesis
        using Cons.IH[of] stack_path_Cons[OF Cons.prems(1)] d st
          stack_path_reaches_top[OF stack_path_Cons[OF Cons.prems(1)] d] by simp
    qed simp
    with ba True show ?thesis by simp
  next
    case False
    then show ?thesis using Cons a d stack_path_Cons[OF Cons.prems(1)] by (auto split: if_splits)
  qed
qed simp

lemma mark_down_sound:
  assumes "good r issues s" "f_stack s = n # rest" "f_state s d = 1" "(n, d) \<in> edges issues"
  shows "set (mark_down r d (f_stack s) (f_cycles s)) \<subseteq> issue_key r ` {n. on_cycle issues n}"
proof -
  let ?E = "edges issues"
  have path: "stack_path ?E (f_stack s)" and d: "d \<in> set (f_stack s)"
    using assms(1,3) by (auto simp: good_def)
  have "on_cycle issues x" if "x \<in> set (takeWhile (\<lambda>y. y \<noteq> d) (f_stack s)) \<union> {d}" for x
  proof -
    have "x \<in> set (f_stack s)" using that d by (auto dest: set_takeWhileD)
    then have xn: "(x, n) \<in> ?E\<^sup>*" using stack_path_reaches_top[OF path] assms(2) by fastforce
    have dx: "(d, x) \<in> ?E\<^sup>*" using that stack_path_from[OF path d] by auto
    show ?thesis unfolding on_cycle_def
      by (rule trancl_rtrancl_trancl[OF rtrancl_into_trancl1[OF xn assms(4)] dx])
  qed
  then show ?thesis using assms(1) by (auto simp: mark_down_set[OF d] good_def)
qed

section \<open>The invariant of the search\<close>

lemma finished_reaches:
  assumes "finished_closed E s" "(n, m) \<in> E\<^sup>*" "f_state s n = 2"
  shows "f_state s m = 2"
  using assms(2,1,3) by (induction rule: rtrancl_induct) (auto simp: finished_closed_def)

lemma finished_closed_enter:
  assumes "finished_closed E s" "f_state s n = 0"
  shows "finished_closed E (enter n s)"
proof -
  have two: "f_state (enter n s) m = 2 \<longleftrightarrow> f_state s m = 2" for m
    using assms(2) by (simp add: enter_def)
  show ?thesis using assms(1) unfolding finished_closed_def two .
qed

lemma enter_good:
  assumes g: "good r issues s" and n0: "f_state s n = 0"
    and top: "f_stack s = [] \<or> (hd (f_stack s), n) \<in> edges issues"
  shows "good r issues (enter n s)"
proof -
  have stack: "set (f_stack s) = {n. f_state s n = 1}" using g by (simp add: good_def)
  have out: "n \<notin> set (f_stack s)" unfolding stack using n0 by simp
  have "set (f_stack (enter n s)) = {m. f_state (enter n s) m = 1}"
    unfolding enter_def using stack by auto
  moreover have "stack_path (edges issues) (n # f_stack s)"
    using g top by (cases "f_stack s") (auto simp: good_def)
  moreover have "f_state (enter n s) m \<in> {0, 1, 2}" for m
    using good_colour[OF g, of m] by (auto simp: enter_def)
  moreover have "finished_closed (edges issues) (enter n s)" if "f_cycles s = []"
    using finished_closed_enter n0 g that by (simp add: good_def)
  ultimately show ?thesis
    using out g unfolding good_def by (auto simp: enter_def)
qed

lemma leave_good:
  assumes g: "good r issues s" and st: "f_stack s = n # rest"
    and fin: "f_cycles s = [] \<longrightarrow> (\<forall>d. (n, d) \<in> edges issues \<longrightarrow> f_state s d = 2)"
  shows "good r issues (leave n s)"
proof -
  let ?E = "edges issues"
  have n1: "f_state s n = 1" using g st by (auto simp: good_def)
  have path: "stack_path ?E rest" using g st stack_path_Cons by (metis good_def)
  have "finished_closed ?E (leave n s)" if c: "f_cycles s = []"
  proof -
    have fc: "finished_closed ?E s" using g c by (simp add: good_def)
    have out: "\<forall>d. (n, d) \<in> ?E \<longrightarrow> f_state s d = 2" using fin c by simp
    have "(n, n) \<notin> ?E\<^sup>+"
    proof
      assume "(n, n) \<in> ?E\<^sup>+"
      then obtain m where "(n, m) \<in> ?E" "(m, n) \<in> ?E\<^sup>*" by (meson tranclD)
      then have "f_state s n = 2" using finished_reaches[OF fc] out by blast
      then show False using n1 by simp
    qed
    then show ?thesis using fc out by (auto simp: finished_closed_def leave_def)
  qed
  then show ?thesis using g st n1 path by (auto simp: good_def leave_def)
qed

lemma leave_advances:
  assumes "f_state s n = 0" "advances (enter n s) s'"
  shows "advances s (leave n s')"
  using assms unfolding advances_def enter_def leave_def by (auto split: if_splits)

lemma mark_good:
  assumes "good r issues s" "f_stack s = n # rest" "f_state s d = 1" "(n, d) \<in> edges issues"
  defines "s' \<equiv> s\<lparr>f_cycles := mark_down r d (f_stack s) (f_cycles s)\<rparr>"
  shows "good r issues s'" "advances s s'" "f_cycles s' \<noteq> []"
proof -
  have "d \<in> set (f_stack s)" using assms(1,3) by (auto simp: good_def)
  note m = mark_down_set[OF this, of r "f_cycles s"]
  show ne: "f_cycles s' \<noteq> []" using m by (auto simp: s'_def)
  show "good r issues s'"
    using assms(1) mark_down_sound[OF assms(1-4)] ne by (auto simp: good_def s'_def)
  show "advances s s'" using m by (auto simp: advances_def s'_def)
qed

definition visit_post :: "string \<Rightarrow> (int \<Rightarrow> Issue option) \<Rightarrow> Dfs \<Rightarrow> Dfs \<Rightarrow> bool" where
  "visit_post r issues s s' \<longleftrightarrow> good r issues s' \<and> advances s s'"

lemma visit_post_trans: "visit_post r issues s t \<Longrightarrow> visit_post r issues t u \<Longrightarrow> visit_post r issues s u"
  by (auto simp: visit_post_def intro: advances_trans)

lemma finite_unseen: "finite (dom issues) \<Longrightarrow> finite (unseen issues s)"
  by (rule finite_subset[of _ "dom issues"]) (auto simp: unseen_def)

lemma unseen_card_mono:
  "finite (dom issues) \<Longrightarrow> good r issues s \<Longrightarrow> visit_post r issues s s' \<Longrightarrow>
    card (unseen issues s') \<le> card (unseen issues s)"
  by (rule card_mono) (auto simp: visit_post_def finite_unseen dest: advances_unseen)

lemma unseen_enter:
  assumes "finite (dom issues)" "f_state s n = 0" "issues n \<noteq> None"
  shows "card (unseen issues (enter n s)) < card (unseen issues s)"
proof (rule psubset_card_mono)
  show "finite (unseen issues s)" by (rule finite_unseen[OF assms(1)])
  show "unseen issues (enter n s) \<subset> unseen issues s"
    using assms(2,3) by (auto simp: unseen_def enter_def split: if_splits)
qed

lemma visit_invariant:
  assumes fin: "finite (dom issues)"
  shows "good r issues s \<Longrightarrow> f_state s n = 0 \<Longrightarrow> issues n \<noteq> None \<Longrightarrow>
      f_stack s = [] \<or> (hd (f_stack s), n) \<in> edges issues \<Longrightarrow> card (unseen issues s) \<le> k \<Longrightarrow>
      \<exists>s'. visit k r issues n s = Some s' \<and> visit_post r issues s s' \<and> f_state s' n = 2"
    and "good r issues s \<Longrightarrow> f_stack s = n # rest \<Longrightarrow> set ds \<subseteq> set (deps_of issues n) \<Longrightarrow>
      card (unseen issues s) \<le> k \<Longrightarrow>
      \<exists>s'. visit_deps k r issues n ds s = Some s' \<and> visit_post r issues s s' \<and>
        (f_cycles s' = [] \<longrightarrow> (\<forall>d \<in> set ds. (n, d) \<in> edges issues \<longrightarrow> f_state s' d = 2))"
  using fin
proof (induction k r issues n s and k r issues n ds s arbitrary: and rest rule: visit_visit_deps.induct)
  case (1 r issues n s)
  have "n \<in> unseen issues s" using 1 by (simp add: unseen_def)
  then show ?case using 1 finite_unseen[of issues s] by (auto simp: card_eq_0_iff)
next
  case (2 k r issues n s)
  let ?e = "enter n s"
  have g: "good r issues ?e" using enter_good 2 by blast
  have st: "f_stack ?e = n # f_stack s" by (simp add: enter_def)
  have "card (unseen issues ?e) \<le> k"
    using unseen_enter[of issues s n] 2 by simp
  from "2.IH"[OF g st subset_refl this "2.prems"(6)] obtain t where t:
    "visit_deps k r issues n (deps_of issues n) ?e = Some t" "visit_post r issues ?e t"
    "f_cycles t = [] \<longrightarrow> (\<forall>d \<in> set (deps_of issues n). (n, d) \<in> edges issues \<longrightarrow> f_state t d = 2)"
    by blast
  have tst: "f_stack t = n # f_stack s" using t(2) st by (simp add: visit_post_def advances_def)
  have "good r issues (leave n t)"
  proof (rule leave_good[OF _ tst])
    show "good r issues t" using t(2) by (simp add: visit_post_def)
    show "f_cycles t = [] \<longrightarrow> (\<forall>d. (n, d) \<in> edges issues \<longrightarrow> f_state t d = 2)"
      using t(3) by (auto simp: edges_def)
  qed
  moreover have "advances s (leave n t)"
    using leave_advances[of s n t] t(2) 2 by (simp add: visit_post_def)
  ultimately show ?case using t(1) by (auto simp: visit_post_def leave_def)
next
  case (3 k r issues n s)
  then show ?case by (auto simp: visit_post_def)
next
  case (4 k r issues n d ds s)
  have sub: "set ds \<subseteq> set (deps_of issues n)" and din: "d \<in> set (deps_of issues n)"
    using "4.prems"(3) by auto
  show ?case
  proof (cases "d \<in> set (satisfied_of issues n) \<or> issues d = None")
    case True
    then have ne: "(n, d) \<notin> edges issues" by (auto simp: edges_def)
    have "\<exists>s'. visit_deps k r issues n ds s = Some s' \<and> visit_post r issues s s' \<and>
        (f_cycles s' = [] \<longrightarrow> (\<forall>d \<in> set ds. (n, d) \<in> edges issues \<longrightarrow> f_state s' d = 2))"
      using True "4.IH"(1,2) "4.prems" sub by auto
    then show ?thesis using ne True by auto
  next
    case False
    then have edge: "(n, d) \<in> edges issues" using din by (auto simp: edges_def)
    have nf: "d \<notin> set (satisfied_of issues n)" "issues d \<noteq> None" using False by auto
    have col: "f_state s d = 0 \<or> f_state s d = 1 \<or> f_state s d = 2"
      using "4.prems"(1) by (auto simp: good_def)
    from col consider "f_state s d = 0" | "f_state s d = 1" | "f_state s d = 2" by (elim disjE)
    then show ?thesis
    proof cases
      case 1
      have "f_stack s = [] \<or> (hd (f_stack s), d) \<in> edges issues" using "4.prems"(2) edge by simp
      from "4.IH"(3)[OF nf 1 "4.prems"(1) 1 nf(2) this "4.prems"(4,5)] obtain t where t:
        "visit k r issues d s = Some t" "visit_post r issues s t" "f_state t d = 2" by blast
      have tst: "f_stack t = n # rest" using t(2) "4.prems"(2) by (simp add: visit_post_def advances_def)
      have tc: "card (unseen issues t) \<le> k"
        using unseen_card_mono[OF "4.prems"(5,1) t(2)] "4.prems"(4) by simp
      have tg: "good r issues t" using t(2) by (simp add: visit_post_def)
      from "4.IH"(4)[OF nf 1 t(1) tg tst sub tc "4.prems"(5)] obtain u where u:
        "visit_deps k r issues n ds t = Some u" "visit_post r issues t u"
        "f_cycles u = [] \<longrightarrow> (\<forall>d \<in> set ds. (n, d) \<in> edges issues \<longrightarrow> f_state u d = 2)" by blast
      have "f_state u d = 2" using u(2) t(3) by (simp add: visit_post_def advances_def)
      then show ?thesis using u t(1) nf 1 visit_post_trans[OF t(2) u(2)] by auto
    next
      case 2
      let ?m = "s\<lparr>f_cycles := mark_down r d (f_stack s) (f_cycles s)\<rparr>"
      note m = mark_good[OF "4.prems"(1,2) 2 edge]
      have "unseen issues ?m = unseen issues s" "f_stack ?m = n # rest"
        using "4.prems"(2) by (simp_all add: unseen_def)
      with "4.IH"(5)[OF nf _ 2 m(1) _ sub _ "4.prems"(5), of rest] "4.prems"(4) 2 obtain u where u:
        "visit_deps k r issues n ds ?m = Some u" "visit_post r issues ?m u" by auto
      have "f_cycles u \<noteq> []"
        using m(3) u(2) advances_empty[of ?m u] by (auto simp: visit_post_def)
      moreover have "visit_post r issues s u"
        using u(2) m(2) advances_trans[of s ?m u] by (simp add: visit_post_def)
      ultimately show ?thesis using u(1) nf 2 by auto
    next
      case 3
      with "4.IH"(6)[OF nf _ _ "4.prems"(1,2) sub "4.prems"(4,5)] obtain u where u:
        "visit_deps k r issues n ds s = Some u" "visit_post r issues s u"
        "f_cycles u = [] \<longrightarrow> (\<forall>d \<in> set ds. (n, d) \<in> edges issues \<longrightarrow> f_state u d = 2)" by auto
      have "f_state u d = 2" using u(2) 3 by (simp add: visit_post_def advances_def)
      then show ?thesis using u nf 3 by auto
    qed
  qed
qed


section \<open>The search of one repository\<close>

lemma good_start: "good r issues dfs_start"
  by (auto simp: good_def dfs_start_def finished_closed_def)

lemma visit_all_invariant:
  assumes fin: "finite (dom issues)"
  shows "good r issues s \<Longrightarrow> f_stack s = [] \<Longrightarrow> set ns \<subseteq> dom issues \<Longrightarrow> card (unseen issues s) \<le> k \<Longrightarrow>
    \<exists>s'. visit_all k r issues ns s = Some s' \<and> visit_post r issues s s' \<and> (\<forall>n \<in> set ns. f_state s' n = 2)"
proof (induction ns arbitrary: s)
  case Nil
  then show ?case by (simp add: visit_post_def)
next
  case (Cons n ns)
  have known: "issues n \<noteq> None" and sub: "set ns \<subseteq> dom issues" using Cons.prems(3) by auto
  have not1: "f_state s n \<noteq> 1" using Cons.prems(1,2) by (auto simp: good_def)
  show ?case
  proof (cases "f_state s n = 0")
    case True
    have "f_stack s = [] \<or> (hd (f_stack s), n) \<in> edges issues" using Cons.prems(2) by simp
    from visit_invariant(1)[OF fin Cons.prems(1) True known this Cons.prems(4)]
    obtain t where t: "visit k r issues n s = Some t" "visit_post r issues s t" "f_state t n = 2" by blast
    have tg: "good r issues t" "f_stack t = []"
      using t(2) Cons.prems(2) by (simp_all add: visit_post_def advances_def)
    have "card (unseen issues t) \<le> k"
      using unseen_card_mono[OF fin Cons.prems(1) t(2)] Cons.prems(4) by simp
    from Cons.IH[OF tg sub this] obtain u where u: "visit_all k r issues ns t = Some u"
      "visit_post r issues t u" "\<forall>n \<in> set ns. f_state u n = 2" by blast
    have "f_state u n = 2" using u(2) t(3) by (simp add: visit_post_def advances_def)
    then show ?thesis using u t(1) True visit_post_trans[OF t(2) u(2)] by auto
  next
    case False
    then have two: "f_state s n = 2" using good_colour[OF Cons.prems(1), of n] not1 by auto
    from Cons.IH[OF Cons.prems(1,2) sub Cons.prems(4)] obtain u where u:
      "visit_all k r issues ns s = Some u" "visit_post r issues s u" "\<forall>n \<in> set ns. f_state u n = 2" by blast
    have "f_state u n = 2" using u(2) two by (simp add: visit_post_def advances_def)
    then show ?thesis using u False by auto
  qed
qed

lemma on_cycle_known: "on_cycle issues n \<Longrightarrow> n \<in> dom issues"
  unfolding on_cycle_def by (drule tranclD2) (auto simp: edges_def)

lemma repository_cycles_spec:
  assumes dom: "set order = dom issues"
  shows "\<exists>cs. repository_cycles r issues order = Some cs \<and>
    set cs \<subseteq> issue_key r ` {n. on_cycle issues n} \<and> (cs = [] \<longleftrightarrow> (\<forall>n. \<not> on_cycle issues n))"
proof -
  have fin: "finite (dom issues)" unfolding dom[symmetric] by simp
  have "card (unseen issues dfs_start) \<le> card (dom issues)"
    by (rule card_mono[OF fin]) (auto simp: unseen_def)
  also have "\<dots> \<le> Suc (length order)" using card_length[of order] dom by simp
  finally obtain s where s: "visit_all (Suc (length order)) r issues order dfs_start = Some s"
    "visit_post r issues dfs_start s" "\<forall>n \<in> set order. f_state s n = 2"
    using visit_all_invariant[OF fin good_start _ eq_refl[OF dom], where k = "Suc (length order)" and r = r]
    by (auto simp: dfs_start_def)
  have g: "good r issues s" using s(2) by (simp add: visit_post_def)
  then have sound: "set (f_cycles s) \<subseteq> issue_key r ` {n. on_cycle issues n}" by (simp add: good_def)
  have "\<not> on_cycle issues n" if "f_cycles s = []" for n
  proof
    assume c: "on_cycle issues n"
    then have "f_state s n = 2" using s(3) on_cycle_known[OF c] dom by simp
    then show False using g that c by (auto simp: good_def finished_closed_def on_cycle_def)
  qed
  then show ?thesis using s(1) sound by (auto simp: repository_cycles_def)
qed

section \<open>All repositories\<close>

text \<open>The nested map \<^verbatim>\<open>byRepo\<close>; \<open>repos\<close> and \<open>numbers\<close> are the orders in which its two levels are
  ranged over.\<close>

fun dependencyCycles ::
  "(string \<Rightarrow> int list) \<Rightarrow> (string \<Rightarrow> int \<Rightarrow> Issue option) \<Rightarrow> string list \<Rightarrow> string list option" where
  "dependencyCycles numbers byRepo [] = Some []"
| "dependencyCycles numbers byRepo (repository # repos) =
     (case repository_cycles repository (byRepo repository) (numbers repository) of
        None \<Rightarrow> None
      | Some cs \<Rightarrow> map_option (\<lambda>rest. cs @ rest) (dependencyCycles numbers byRepo repos))"

lemma dependencyCycles_spec:
  assumes "\<And>r. r \<in> set repos \<Longrightarrow> set (numbers r) = dom (byRepo r)"
  shows "\<exists>cs. dependencyCycles numbers byRepo repos = Some cs \<and>
    set cs \<subseteq> {issue_key r n | r n. r \<in> set repos \<and> on_cycle (byRepo r) n} \<and>
    (cs = [] \<longleftrightarrow> (\<forall>r \<in> set repos. \<forall>n. \<not> on_cycle (byRepo r) n))"
  using assms
proof (induction repos)
  case (Cons r repos)
  obtain cs where cs: "dependencyCycles numbers byRepo repos = Some cs"
    "set cs \<subseteq> {issue_key r n | r n. r \<in> set repos \<and> on_cycle (byRepo r) n}"
    "cs = [] \<longleftrightarrow> (\<forall>r \<in> set repos. \<forall>n. \<not> on_cycle (byRepo r) n)"
    using Cons by auto
  obtain ds where ds: "repository_cycles r (byRepo r) (numbers r) = Some ds"
    "set ds \<subseteq> issue_key r ` {n. on_cycle (byRepo r) n}"
    "ds = [] \<longleftrightarrow> (\<forall>n. \<not> on_cycle (byRepo r) n)"
    using repository_cycles_spec[of "numbers r" "byRepo r" r] Cons.prems by auto
  have "set (ds @ cs) \<subseteq> {issue_key q n | q n. q \<in> set (r # repos) \<and> on_cycle (byRepo q) n}"
    using cs(2) ds(2) by fastforce
  moreover have "ds @ cs = [] \<longleftrightarrow> (\<forall>q \<in> set (r # repos). \<forall>n. \<not> on_cycle (byRepo q) n)"
    using cs(3) ds(3) by auto
  ultimately show ?case using cs(1) ds(1) by auto
qed simp

end
