(* ===== verification/Scheduler.thy ===== *)
theory Scheduler
  imports Dependency_Cycles
begin

text \<open>
  \<^verbatim>\<open>Schedule\<close> of \<^verbatim>\<open>internal/orchestrator/scheduler.go\<close>: the projection of the normalised backlog
  to decisions.  The three map iterations are parameters: \<open>sh\<close> for the values of \<^verbatim>\<open>seen\<close>, \<open>ro\<close>
  for the repositories and \<open>no\<close> for the issue numbers of one repository.  The result is \<open>None\<close> only
  if the dependency search runs out of fuel, which \<open>Schedule_total\<close> excludes.
\<close>

section \<open>Operations\<close>

fun blocking_dependency :: "Issue \<Rightarrow> (int \<Rightarrow> Issue option) \<Rightarrow> int list \<Rightarrow> string" where
  "blocking_dependency issue known [] = []"
| "blocking_dependency issue known (dependency # ds) =
     (if dependency \<in> set (i_SatisfiedDependencies issue) then blocking_dependency issue known ds
      else if dependency = i_Number issue then ''blocked: issue depends on itself''
      else case known dependency of
        None \<Rightarrow> ''blocked: dependency #'' @ itoa dependency @ '' is unknown''
      | Some other \<Rightarrow>
          if \<not> i_Completed other then ''blocked: dependency #'' @ itoa dependency @ '' is incomplete''
          else blocking_dependency issue known ds)"

definition dependencyBlocker :: "Issue \<Rightarrow> (int \<Rightarrow> Issue option) \<Rightarrow> string" where
  "dependencyBlocker issue known = blocking_dependency issue known (i_Dependencies issue)"

definition validScope :: "string list \<Rightarrow> bool" where
  "validScope paths \<longleftrightarrow>
     paths \<noteq> [] \<and>
     list_all (\<lambda>p. \<not> (p = [] \<or> p = ''.'' \<or> p = ''..'' \<or> path_is_abs p \<or>
       contains_any p [char_of (92::nat), char_of (0::nat)] \<or> path_clean p \<noteq> p \<or> has_prefix p ''../'')) paths"

definition pathsOverlap :: "string list \<Rightarrow> string list \<Rightarrow> bool" where
  "pathsOverlap a b \<longleftrightarrow>
     list_ex (\<lambda>left. list_ex (\<lambda>right.
       left = right \<or> has_prefix left (right @ ''/'') \<or> has_prefix right (left @ ''/'')) b) a"

fun scopeConflict :: "Issue \<Rightarrow> Issue list \<Rightarrow> Issue option" where
  "scopeConflict issue [] = None"
| "scopeConflict issue (l # locks) =
     (if i_Repository issue \<noteq> i_Repository l then scopeConflict issue locks
      else if \<not> validScope (i_Paths issue) \<or> \<not> validScope (i_Paths l) \<or> pathsOverlap (i_Paths issue) (i_Paths l)
      then Some l
      else scopeConflict issue locks)"

definition repositoryLimit :: "string \<Rightarrow> Capacity \<Rightarrow> int" where
  "repositoryLimit repository capacity =
     (case map_of (c_Repositories capacity) repository of
        Some limit \<Rightarrow> limit
      | None \<Rightarrow> c_Global capacity)"

definition explainBlockers :: "Issue \<Rightarrow> string" where
  "explainBlockers issue =
     (if i_Blockers issue = [] then ''issue is ineligible'' else join_str (i_Blockers issue) ''; '')"

text \<open>\<^verbatim>\<open>byRepo\<close>: the issues that are not contradictory, by repository and number.\<close>

definition known_issues :: "string list \<Rightarrow> Issue list \<Rightarrow> Issue list" where
  "known_issues contradictions issues = filter (\<lambda>i. key i \<notin> set contradictions) issues"

definition byRepo_of :: "Issue list \<Rightarrow> string \<Rightarrow> int \<Rightarrow> Issue option" where
  "byRepo_of known repository number =
     map_of (map (\<lambda>i. (i_Number i, i)) (rev (filter (\<lambda>i. i_Repository i = repository) known))) number"

definition numbers_of :: "Issue list \<Rightarrow> string \<Rightarrow> int list" where
  "numbers_of known repository =
     remdups (map i_Number (filter (\<lambda>i. i_Repository i = repository) known))"

record Occupancy =
  o_globalActive :: int
  o_repositoryActive :: "string \<Rightarrow> int"
  o_locks :: "Issue list"

definition occupy :: "Issue \<Rightarrow> Occupancy \<Rightarrow> Occupancy" where
  "occupy issue o' =
     o'\<lparr>o_globalActive := o_globalActive o' + 1,
        o_repositoryActive := (o_repositoryActive o')
          (i_Repository issue := o_repositoryActive o' (i_Repository issue) + 1),
        o_locks := o_locks o' @ [issue]\<rparr>"

definition holds_capacity :: "string list \<Rightarrow> Issue \<Rightarrow> bool" where
  "holds_capacity contradictions issue \<longleftrightarrow>
     key issue \<notin> set contradictions \<and> i_Active issue \<and> \<not> i_Cancelled issue \<and> \<not> i_Completed issue"

definition occupancy_start :: Occupancy where
  "occupancy_start = \<lparr>o_globalActive = 0, o_repositoryActive = (\<lambda>_. 0), o_locks = []\<rparr>"

definition active_occupancy :: "string list \<Rightarrow> Issue list \<Rightarrow> Occupancy" where
  "active_occupancy contradictions issues =
     foldl (\<lambda>o' i. if holds_capacity contradictions i then occupy i o' else o') occupancy_start issues"

definition verdict ::
  "string list \<Rightarrow> string list \<Rightarrow> (string \<Rightarrow> int \<Rightarrow> Issue option) \<Rightarrow> Capacity \<Rightarrow> Occupancy \<Rightarrow> Issue \<Rightarrow> State \<times> string" where
  "verdict contradictions cycles byRepo capacity o' issue =
     (if key issue \<in> set contradictions then (Blocked, ''blocked: contradictory snapshots for this issue'')
      else if i_Completed issue then (Completed, ''completed: GitHub reports completed work'')
      else if i_Cancelled issue then (Cancelled, ''cancelled: current GitHub state cancels the issue'')
      else if i_Active issue then (Active, ''active: an existing attempt already owns capacity'')
      else if \<not> i_Eligible issue \<or> i_Blockers issue \<noteq> [] then (Blocked, ''blocked: '' @ explainBlockers issue)
      else if i_Number issue \<le> 0 \<or> i_Repository issue = [] \<or> i_Priority issue < 1 \<or> 3 < i_Priority issue \<or>
        time_is_zero (i_CreatedAt issue)
      then (Blocked, ''blocked: invalid normalized issue identity, priority, or creation time'')
      else if i_Number issue \<in> set (i_Dependencies issue) then (Blocked, ''blocked: issue depends on itself'')
      else if key issue \<in> set cycles then (Blocked, ''blocked: dependency cycle'')
      else
        let reason = dependencyBlocker issue (byRepo (i_Repository issue)) in
        if reason \<noteq> [] then (Blocked, reason)
        else if c_Global capacity \<le> 0 \<or> c_Global capacity \<le> o_globalActive o'
        then (Queued, ''queued: global capacity is full'')
        else
          let limit = repositoryLimit (i_Repository issue) capacity in
          if limit \<le> 0 \<or> limit \<le> o_repositoryActive o' (i_Repository issue)
          then (Queued, ''queued: repository capacity is full'')
          else case scopeConflict issue (o_locks o') of
            Some conflict \<Rightarrow>
              (Queued, ''queued: path scope is not provably disjoint from #'' @ itoa (i_Number conflict))
          | None \<Rightarrow> (Runnable, ''runnable: dependencies, path scope, and capacity permit dispatch''))"

fun schedule_loop ::
  "string list \<Rightarrow> string list \<Rightarrow> (string \<Rightarrow> int \<Rightarrow> Issue option) \<Rightarrow> Capacity \<Rightarrow> Occupancy \<Rightarrow> Issue list \<Rightarrow> Decision list" where
  "schedule_loop contradictions cycles byRepo capacity o' [] = []"
| "schedule_loop contradictions cycles byRepo capacity o' (issue # issues) =
     (let (state, why) = verdict contradictions cycles byRepo capacity o' issue in
      \<lparr>d_Repository = i_Repository issue, d_Number = i_Number issue, d_State = state, d_Explanation = why\<rparr> #
      schedule_loop contradictions cycles byRepo capacity
        (if state = Runnable then occupy issue o' else o') issues)"

type_synonym map_orders =
  "(Issue list \<Rightarrow> Issue list) \<times> (string list \<Rightarrow> string list) \<times> (string \<Rightarrow> int list \<Rightarrow> int list)"

definition backlog_cycles :: "map_orders \<Rightarrow> Issue list \<Rightarrow> string list option" where
  "backlog_cycles mo known =
     dependencyCycles (\<lambda>r. snd (snd mo) r (numbers_of known r)) (byRepo_of known)
       (fst (snd mo) (remdups (map i_Repository known)))"

definition backlog :: "(Issue list \<Rightarrow> Issue list) \<Rightarrow> Issue list \<Rightarrow> Issue list" where
  "backlog sh input = sort_func compareIssues (fst (normalize sh input))"

definition Schedule :: "map_orders \<Rightarrow> Issue list \<Rightarrow> Capacity \<Rightarrow> Decision list option" where
  "Schedule mo input capacity =
     (let (issues, contradictions) = normalize (fst mo) input;
          known = known_issues contradictions issues;
          sorted = sort_func compareIssues issues in
      case backlog_cycles mo known of
        None \<Rightarrow> None
      | Some cycles \<Rightarrow>
          Some (schedule_loop contradictions cycles (byRepo_of known) capacity
            (active_occupancy contradictions sorted) sorted))"

definition map_order :: "map_orders \<Rightarrow> bool" where
  "map_order mo \<longleftrightarrow> arrangement (fst mo) \<and> arrangement (fst (snd mo)) \<and> (\<forall>r. arrangement (snd (snd mo) r))"

definition runnable_issues :: "Issue list \<Rightarrow> Decision list \<Rightarrow> Issue list" where
  "runnable_issues issues ds = map fst (filter (\<lambda>(i, d). d_State d = Runnable) (zip issues ds))"

section \<open>The maps of one run\<close>

lemma known_issues_set: "set (known_issues con xs) = {i \<in> set xs. key i \<notin> set con}"
  by (auto simp: known_issues_def)

lemma byRepo_of_map:
  "byRepo_of known r = map_of (map (\<lambda>i. (i_Number i, i)) (rev (filter (\<lambda>i. i_Repository i = r) known)))"
  by (rule ext) (simp add: byRepo_of_def)

lemma byRepo_of_dom: "dom (byRepo_of known r) = i_Number ` {i \<in> set known. i_Repository i = r}"
  unfolding byRepo_of_map dom_map_of_conv_image_fst by force

lemma numbers_of_dom: "set (numbers_of known r) = dom (byRepo_of known r)"
  by (auto simp: numbers_of_def byRepo_of_dom)

lemma byRepo_of_sound:
  "byRepo_of known r n = Some i \<Longrightarrow> i \<in> set known \<and> i_Repository i = r \<and> i_Number i = n"
  by (auto simp: byRepo_of_def dest!: map_of_SomeD)

lemma byRepo_of_iff:
  assumes "inj_on key (set known)"
  shows "byRepo_of known r n = Some i \<longleftrightarrow> i \<in> set known \<and> i_Repository i = r \<and> i_Number i = n"
proof
  assume i: "i \<in> set known \<and> i_Repository i = r \<and> i_Number i = n"
  then have "n \<in> dom (byRepo_of known r)" by (auto simp: byRepo_of_dom)
  then obtain j where j: "byRepo_of known r n = Some j" by auto
  from byRepo_of_sound[OF this] i have "key i = key j" by (simp add: key_inj)
  then have "i = j" using inj_onD[OF assms] i byRepo_of_sound[OF j] by blast
  with j show "byRepo_of known r n = Some i" by simp
qed (rule byRepo_of_sound)

lemma byRepo_of_cong:
  assumes "inj_on key (set known)" "set known = set known'"
  shows "byRepo_of known = byRepo_of known'"
proof (intro ext)
  fix r n
  have "byRepo_of known r n = Some i \<longleftrightarrow> byRepo_of known' r n = Some i" for i
    using byRepo_of_iff[OF assms(1)] byRepo_of_iff[of known'] assms by simp
  then show "byRepo_of known r n = byRepo_of known' r n" by (rule option_eqI)
qed

lemma backlog_cycles_spec:
  assumes "map_order mo"
  shows "\<exists>cs. backlog_cycles mo known = Some cs \<and>
    set cs \<subseteq> {issue_key r n | r n. on_cycle (byRepo_of known r) n} \<and>
    (cs = [] \<longleftrightarrow> (\<forall>r n. \<not> on_cycle (byRepo_of known r) n))"
proof -
  let ?repos = "fst (snd mo) (remdups (map i_Repository known))"
  have s: "set ?repos = i_Repository ` set known" using assms by (simp add: map_order_def)
  have d: "set (snd (snd mo) r (numbers_of known r)) = dom (byRepo_of known r)" for r
    using assms by (simp add: map_order_def numbers_of_dom)
  from dependencyCycles_spec[of ?repos "\<lambda>r. snd (snd mo) r (numbers_of known r)" "byRepo_of known", OF d] obtain cs where cs:
    "backlog_cycles mo known = Some cs"
    "set cs \<subseteq> {issue_key r n | r n. r \<in> set ?repos \<and> on_cycle (byRepo_of known r) n}"
    "cs = [] \<longleftrightarrow> (\<forall>r \<in> set ?repos. \<forall>n. \<not> on_cycle (byRepo_of known r) n)"
    by (auto simp: backlog_cycles_def)
  have "r \<in> set ?repos" if "on_cycle (byRepo_of known r) n" for r n
    using on_cycle_known[OF that] unfolding s byRepo_of_dom by auto
  then show ?thesis using cs by blast
qed

section \<open>One decision\<close>

lemma blocking_dependency_Nil:
  "blocking_dependency issue known ds = [] \<longleftrightarrow>
     (\<forall>d \<in> set ds. d \<notin> set (i_SatisfiedDependencies issue) \<longrightarrow>
        d \<noteq> i_Number issue \<and> (\<exists>other. known d = Some other \<and> i_Completed other))"
  by (induction ds) (auto split: option.splits)

lemmas verdict_splits = if_splits option.splits

lemma verdict_contradictory: "fst (verdict con cyc m cap o' i) \<noteq> Blocked \<Longrightarrow> key i \<notin> set con"
  by (auto simp: verdict_def)

lemma verdict_runnable:
  "fst (verdict con cyc m cap o' i) = Runnable \<longleftrightarrow>
     key i \<notin> set con \<and> \<not> i_Completed i \<and> \<not> i_Cancelled i \<and> \<not> i_Active i \<and>
     i_Eligible i \<and> i_Blockers i = [] \<and>
     0 < i_Number i \<and> i_Repository i \<noteq> [] \<and> 1 \<le> i_Priority i \<and> i_Priority i \<le> 3 \<and>
     \<not> time_is_zero (i_CreatedAt i) \<and> i_Number i \<notin> set (i_Dependencies i) \<and> key i \<notin> set cyc \<and>
     dependencyBlocker i (m (i_Repository i)) = [] \<and>
     0 < c_Global cap \<and> o_globalActive o' < c_Global cap \<and>
     0 < repositoryLimit (i_Repository i) cap \<and>
     o_repositoryActive o' (i_Repository i) < repositoryLimit (i_Repository i) cap \<and>
     scopeConflict i (o_locks o') = None"
  unfolding verdict_def Let_def by (auto split: verdict_splits)

lemma verdict_erased:
  "set con = {k. c k} \<Longrightarrow> verdict con cyc m cap o' (erased c i) = verdict con cyc m cap o' i"
  by (cases "c (key i)") (auto simp: verdict_def)

lemma verdict_cong: "set con = set con' \<Longrightarrow> verdict con cyc m cap o' i = verdict con' cyc m cap o' i"
  by (simp add: verdict_def)

section \<open>The pass over the sorted backlog\<close>

lemma schedule_loop_length [simp]: "length (schedule_loop con cyc m cap o' xs) = length xs"
  by (induction xs arbitrary: o') (auto simp: Let_def split_beta)

lemma schedule_loop_identity:
  "map (\<lambda>d. (d_Repository d, d_Number d)) (schedule_loop con cyc m cap o' xs) =
     map (\<lambda>i. (i_Repository i, i_Number i)) xs"
  by (induction xs arbitrary: o') (auto simp: Let_def split_beta)

lemma schedule_loop_cong:
  "set con = set con' \<Longrightarrow> schedule_loop con cyc m cap o' xs = schedule_loop con' cyc m cap o' xs"
proof (induction xs arbitrary: o')
  case (Cons x xs)
  then show ?case using verdict_cong[OF Cons.prems, of cyc m cap o' x] by (simp add: Let_def split_beta)
qed simp

lemma schedule_loop_erased:
  assumes "set con = {k. c k}"
  shows "schedule_loop con cyc m cap o' (map (erased c) xs) = schedule_loop con cyc m cap o' xs"
proof (induction xs arbitrary: o')
  case (Cons x xs)
  have "erased c x = x" if "fst (verdict con cyc m cap o' x) = Runnable"
    using verdict_contradictory[of con cyc m cap o' x] that assms by simp
  then show ?case
    using Cons verdict_erased[OF assms, of cyc m cap o' x] by (auto simp: Let_def split_beta)
qed simp

lemma holds_capacity_erased:
  "set con = {k. c k} \<Longrightarrow> holds_capacity con (erased c i) = holds_capacity con i"
  by (cases "c (key i)") (auto simp: holds_capacity_def)

lemma active_occupancy_erased:
  assumes "set con = {k. c k}"
  shows "active_occupancy con (map (erased c) xs) = active_occupancy con xs"
proof -
  have step: "(if holds_capacity con (erased c i) then occupy (erased c i) o' else o') =
        (if holds_capacity con i then occupy i o' else o')" for i o'
    using holds_capacity_erased[OF assms, of i] assms by (auto simp: holds_capacity_def)
  have "foldl (\<lambda>o' i. if holds_capacity con i then occupy i o' else o') s (map (erased c) xs) =
        foldl (\<lambda>o' i. if holds_capacity con i then occupy i o' else o') s xs" for s
    by (induction xs arbitrary: s) (simp_all add: step)
  then show ?thesis by (simp add: active_occupancy_def)
qed

lemma active_occupancy_cong:
  "set con = set con' \<Longrightarrow> active_occupancy con xs = active_occupancy con' xs"
  by (simp add: active_occupancy_def holds_capacity_def)

definition occupies :: "Issue list \<Rightarrow> Occupancy \<Rightarrow> bool" where
  "occupies L o' \<longleftrightarrow>
     o_locks o' = L \<and> o_globalActive o' = int (length L) \<and>
     (\<forall>r. o_repositoryActive o' r = int (length (filter (\<lambda>i. i_Repository i = r) L)))"

lemma occupies_occupy: "occupies L o' \<Longrightarrow> occupies (L @ [i]) (occupy i o')"
  by (auto simp: occupies_def occupy_def)

lemma active_occupancy_occupies:
  "occupies (filter (holds_capacity con) xs) (active_occupancy con xs)"
proof -
  have "occupies L s \<Longrightarrow>
    occupies (L @ filter (holds_capacity con) xs)
      (foldl (\<lambda>o' i. if holds_capacity con i then occupy i o' else o') s xs)" for L s
  proof (induction xs arbitrary: L s)
    case (Cons x xs)
    then show ?case
      using Cons.IH[of "L @ [x]" "occupy x s"] Cons.IH[of L s] occupies_occupy[of L s x] by auto
  qed simp
  from this[of "[]" occupancy_start] show ?thesis
    by (simp add: active_occupancy_def occupies_def occupancy_start_def)
qed

fun admitted :: "Capacity \<Rightarrow> Issue list \<Rightarrow> Issue list \<Rightarrow> bool" where
  "admitted cap L [] = True"
| "admitted cap L (i # R) \<longleftrightarrow>
     int (length L) < c_Global cap \<and>
     int (length (filter (\<lambda>j. i_Repository j = i_Repository i) L)) < repositoryLimit (i_Repository i) cap \<and>
     scopeConflict i L = None \<and> admitted cap (L @ [i]) R"

lemma runnable_issues_Cons:
  "runnable_issues (i # is) (d # ds) =
     (if d_State d = Runnable then i # runnable_issues is ds else runnable_issues is ds)"
  by (simp add: runnable_issues_def)

lemma runnable_issues_Nil [simp]: "runnable_issues [] ds = []"
  by (simp add: runnable_issues_def)

lemma schedule_loop_admitted:
  "occupies L o' \<Longrightarrow> admitted cap L (runnable_issues xs (schedule_loop con cyc m cap o' xs))"
proof (induction xs arbitrary: L o')
  case (Cons x xs)
  show ?case
  proof (cases "fst (verdict con cyc m cap o' x) = Runnable")
    case True
    note v = True[unfolded verdict_runnable]
    have "admitted cap (L @ [x]) (runnable_issues xs (schedule_loop con cyc m cap (occupy x o') xs))"
      by (rule Cons.IH[OF occupies_occupy[OF Cons.prems]])
    then show ?thesis using True v Cons.prems
      by (auto simp: Let_def split_beta runnable_issues_Cons occupies_def)
  next
    case False
    then show ?thesis using Cons.IH[OF Cons.prems]
      by (auto simp: Let_def split_beta runnable_issues_Cons)
  qed
qed simp

lemma admitted_global:
  "admitted cap L R \<Longrightarrow> R \<noteq> [] \<Longrightarrow> int (length L + length R) \<le> c_Global cap"
proof (induction cap L R rule: admitted.induct)
  case (2 cap L i R)
  then show ?case by (cases R) auto
qed simp

lemma admitted_repository:
  "admitted cap L R \<Longrightarrow> i \<in> set R \<Longrightarrow>
   int (length (filter (\<lambda>j. i_Repository j = i_Repository i) (L @ R))) \<le> repositoryLimit (i_Repository i) cap"
proof (induction cap L R arbitrary: i rule: admitted.induct)
  case (2 cap L x R)
  show ?case
  proof (cases "\<exists>j \<in> set R. i_Repository j = i_Repository i")
    case True
    then obtain j where j: "j \<in> set R" "i_Repository j = i_Repository i" by blast
    have "admitted cap (L @ [x]) R" using "2.prems" by simp
    from "2.IH"[OF this j(1)] show ?thesis unfolding j(2) by simp
  next
    case False
    then have e: "filter (\<lambda>j. i_Repository j = i_Repository i) R = []" by (simp add: filter_empty_conv)
    have "i \<notin> set R" using False by auto
    then have "i = x" using "2.prems"(2) by simp
    then show ?thesis using "2.prems"(1) e by simp
  qed
qed simp

definition disjoint_scopes :: "Issue \<Rightarrow> Issue \<Rightarrow> bool" where
  "disjoint_scopes a b \<longleftrightarrow>
     (i_Repository a = i_Repository b \<longrightarrow>
       validScope (i_Paths a) \<and> validScope (i_Paths b) \<and> \<not> pathsOverlap (i_Paths a) (i_Paths b))"

lemma scopeConflict_None: "scopeConflict i L = None \<longleftrightarrow> (\<forall>l \<in> set L. disjoint_scopes i l)"
  by (induction L) (auto simp: disjoint_scopes_def)

lemma pathsOverlap_sym: "pathsOverlap a b \<longleftrightarrow> pathsOverlap b a"
  by (auto simp: pathsOverlap_def list_ex_iff)

lemma disjoint_scopes_sym: "disjoint_scopes a b \<longleftrightarrow> disjoint_scopes b a"
  by (auto simp: disjoint_scopes_def pathsOverlap_sym)

lemma admitted_scopes:
  "admitted cap L R \<Longrightarrow> sorted_wrt disjoint_scopes R \<and> (\<forall>i \<in> set R. \<forall>l \<in> set L. disjoint_scopes i l)"
  by (induction cap L R rule: admitted.induct) (auto simp: scopeConflict_None disjoint_scopes_sym)

lemma schedule_loop_runnable:
  assumes "k < length xs" "d_State (schedule_loop con cyc m cap o' xs ! k) = Runnable"
  shows "\<exists>o''. fst (verdict con cyc m cap o'' (xs ! k)) = Runnable"
  using assms
proof (induction xs arbitrary: o' k)
  case (Cons x xs)
  then show ?case by (cases k) (auto simp: Let_def split_beta)
qed simp

section \<open>The whole projection\<close>

definition contradictions_of :: "Issue list \<Rightarrow> string list" where
  "contradictions_of input = snd (normalize_maps input)"

definition backlog_known :: "(Issue list \<Rightarrow> Issue list) \<Rightarrow> Issue list \<Rightarrow> Issue list" where
  "backlog_known sh input = known_issues (contradictions_of input) (fst (normalize sh input))"

definition backlog_active :: "(Issue list \<Rightarrow> Issue list) \<Rightarrow> Issue list \<Rightarrow> Issue list" where
  "backlog_active sh input = filter (holds_capacity (contradictions_of input)) (backlog sh input)"

lemma snd_normalize: "snd (normalize sh input) = contradictions_of input"
  by (simp add: normalize_def contradictions_of_def split_beta)

lemma Schedule_loop:
  "Schedule mo input cap =
     map_option (\<lambda>cyc. schedule_loop (contradictions_of input) cyc (byRepo_of (backlog_known (fst mo) input)) cap
        (active_occupancy (contradictions_of input) (backlog (fst mo) input)) (backlog (fst mo) input))
      (backlog_cycles mo (backlog_known (fst mo) input))"
  unfolding Schedule_def
  by (auto simp: Let_def split_beta snd_normalize backlog_def backlog_known_def split: option.splits)

lemma contradictions_of_set: "set (contradictions_of input) = {k. contradictory (set input) k}"
  using normalized_maps[of input] by (auto simp: normalized_def contradictions_of_def)

lemma backlog_set: "arrangement sh \<Longrightarrow> set (backlog sh input) = snd ` set (fst (normalize_maps input))"
  by (simp add: backlog_def normalize_def split_beta)

lemma backlog_distinct: "arrangement sh \<Longrightarrow> distinct (map key (backlog sh input))"
proof -
  assume a: "arrangement sh"
  have "mset (map key (backlog sh input)) = mset (map key (map snd (fst (normalize_maps input))))"
    unfolding mset_map using a by (simp add: backlog_def normalize_def split_beta)
  from mset_eq_imp_distinct_iff[OF this] show ?thesis using normalized_distinct[OF normalized_maps] by blast
qed

lemma backlog_keys: "arrangement sh \<Longrightarrow> set (map key (backlog sh input)) = key ` set input"
proof -
  assume a: "arrangement sh"
  have n: "normalized (set input) (normalize_maps input)" by (rule normalized_maps)
  have "set (map key (backlog sh input)) = set (map key (map snd (fst (normalize_maps input))))"
    using backlog_set[OF a] by (simp add: image_image)
  also have "\<dots> = fst ` set (fst (normalize_maps input))" using normalized_keys[OF n] by (metis set_map)
  also have "\<dots> = key ` normal_fields ` set input" using n by (simp add: normalized_def)
  also have "\<dots> = key ` set input" by (simp add: image_image key_def normal_fields_def)
  finally show ?thesis .
qed

lemma backlog_known_iff:
  assumes "arrangement sh"
  shows "i \<in> set (backlog_known sh input) \<longleftrightarrow>
    i \<in> snd ` set (fst (normalize_maps input)) \<and> \<not> contradictory (set input) (key i)"
proof -
  have "set (fst (normalize sh input)) = snd ` set (fst (normalize_maps input))"
    using assms by (simp add: normalize_def split_beta)
  then show ?thesis unfolding backlog_known_def known_issues_set contradictions_of_set by simp
qed

lemma known_determined:
  assumes "set input = set input'" "arrangement sh" "arrangement sh'"
  shows "set (backlog_known sh input) \<subseteq> set (backlog_known sh' input')"
proof
  fix i assume i: "i \<in> set (backlog_known sh input)"
  let ?c = "contradictory (set input)"
  have n: "normalized (set input) (normalize_maps input)" "normalized (set input) (normalize_maps input')"
    using normalized_maps[of input] normalized_maps[of input'] assms(1) by simp_all
  have im: "i \<in> snd ` set (fst (normalize_maps input))" and nc: "\<not> ?c (key i)"
    using i unfolding backlog_known_iff[OF assms(2)] by simp_all
  have "erased ?c i \<in> erased ?c ` snd ` set (fst (normalize_maps input'))"
    using normalized_image[OF n] im by blast
  then obtain j where j: "j \<in> snd ` set (fst (normalize_maps input'))" "erased ?c i = erased ?c j" by blast
  have "key j = key i" using arg_cong[OF j(2), of key] by simp
  then have "\<not> ?c (key j)" using nc by metis
  then have "j = i" using j(2) erased_fields(6)[of ?c i, OF nc] erased_fields(6)[of ?c j] by metis
  then show "i \<in> set (backlog_known sh' input')"
    using j(1) nc unfolding backlog_known_iff[OF assms(3)] assms(1) by simp
qed

lemma known_inj: "arrangement sh \<Longrightarrow> inj_on key (set (backlog_known sh input))"
proof (rule inj_on_subset)
  assume a: "arrangement sh"
  show "inj_on key (set (backlog sh input))" using backlog_distinct[OF a] by (simp add: distinct_map)
  show "set (backlog_known sh input) \<subseteq> set (backlog sh input)"
    by (auto simp: backlog_known_def known_issues_set backlog_def)
qed

lemma byRepo_determined:
  assumes "set input = set input'" "arrangement sh" "arrangement sh'"
  shows "byRepo_of (backlog_known sh input) = byRepo_of (backlog_known sh' input')"
proof (rule byRepo_of_cong[OF known_inj[OF assms(2)]])
  show "set (backlog_known sh input) = set (backlog_known sh' input')"
    by (rule subset_antisym) (rule known_determined[OF assms], rule known_determined[OF assms(1)[symmetric] assms(3,2)])
qed

lemma loop_determined:
  assumes "set input = set input'" "arrangement sh" "arrangement sh'"
  shows "schedule_loop (contradictions_of input) cyc m cap
           (active_occupancy (contradictions_of input) (backlog sh input)) (backlog sh input) =
         schedule_loop (contradictions_of input') cyc m cap
           (active_occupancy (contradictions_of input') (backlog sh' input')) (backlog sh' input')"
proof -
  let ?c = "contradictory (set input)"
  have s: "set (contradictions_of input) = {k. ?c k}" "set (contradictions_of input') = {k. ?c k}"
    using contradictions_of_set[of input] contradictions_of_set[of input'] assms(1) by simp_all
  have b: "map (erased ?c) (backlog sh input) = map (erased ?c) (backlog sh' input')"
    unfolding backlog_def by (rule sorted_backlog_determined[OF assms])
  have c: "set (contradictions_of input) = set (contradictions_of input')" using s by simp
  show ?thesis
    using schedule_loop_erased[OF s(1)] schedule_loop_erased[OF s(2)]
      active_occupancy_erased[OF s(1)] active_occupancy_erased[OF s(2)]
      schedule_loop_cong[OF c] active_occupancy_cong[OF c] b by metis
qed

section \<open>Properties\<close>

definition sample_issue :: "int \<Rightarrow> int list \<Rightarrow> bool \<Rightarrow> string list \<Rightarrow> Issue" where
  "sample_issue n ds done paths =
     \<lparr>i_Repository = ''o/r'', i_Number = n, i_Priority = 1, i_CreatedAt = 5, i_Dependencies = ds,
      i_SatisfiedDependencies = [], i_Paths = paths, i_Eligible = True, i_Blockers = [],
      i_Active = False, i_Completed = done, i_Cancelled = False\<rparr>"

definition sample_orders :: map_orders where
  "sample_orders = ((\<lambda>xs. xs), (\<lambda>xs. xs), (\<lambda>_ xs. xs))"

definition reversed_orders :: map_orders where
  "reversed_orders = ((\<lambda>xs. xs), (\<lambda>xs. xs), (\<lambda>_. rev))"

definition sample_backlog :: "Issue list" where
  "sample_backlog = [sample_issue 2 [1] False [''b''], sample_issue 1 [] True [''a''], sample_issue 3 [] False [''c'']]"

definition sample_capacity :: Capacity where
  "sample_capacity = \<lparr>c_Global = 2, c_Repositories = []\<rparr>"

lemma sample_orders_ok [simp]: "map_order sample_orders" "map_order reversed_orders"
  by (simp_all add: map_order_def sample_orders_def reversed_orders_def)

lemma Schedule_SomeE:
  assumes "Schedule mo input cap = Some ds"
  obtains cyc where "backlog_cycles mo (backlog_known (fst mo) input) = Some cyc"
    "ds = schedule_loop (contradictions_of input) cyc (byRepo_of (backlog_known (fst mo) input)) cap
      (active_occupancy (contradictions_of input) (backlog (fst mo) input)) (backlog (fst mo) input)"
  using assms unfolding Schedule_loop by auto

text \<open>
  C27: For every order in which Go iterates its maps, Schedule returns (the depth-first search ends),
  and it decides each delivered issue exactly once: the decisions carry pairwise different issue
  keys, together the keys of the input, in the order of compareIssues.
\<close>

theorem Schedule_total:
  assumes "map_order mo"
  shows "\<exists>ds. Schedule mo input cap = Some ds \<and>
    distinct (map (\<lambda>d. issue_key (d_Repository d) (d_Number d)) ds) \<and>
    set (map (\<lambda>d. issue_key (d_Repository d) (d_Number d)) ds) = key ` set input \<and>
    map (\<lambda>d. (d_Repository d, d_Number d)) ds =
      map (\<lambda>i. (i_Repository i, i_Number i)) (backlog (fst mo) input) \<and>
    sorted_wrt (\<lambda>a b. compareIssues a b \<le> 0) (backlog (fst mo) input)"
proof -
  obtain cyc where c: "backlog_cycles mo (backlog_known (fst mo) input) = Some cyc"
    using backlog_cycles_spec[OF assms] by blast
  have a: "arrangement (fst mo)" using assms by (simp add: map_order_def)
  let ?ds = "schedule_loop (contradictions_of input) cyc (byRepo_of (backlog_known (fst mo) input)) cap
      (active_occupancy (contradictions_of input) (backlog (fst mo) input)) (backlog (fst mo) input)"
  have ids: "map (\<lambda>d. (d_Repository d, d_Number d)) ?ds =
      map (\<lambda>i. (i_Repository i, i_Number i)) (backlog (fst mo) input)" by (rule schedule_loop_identity)
  have k: "map (\<lambda>d. issue_key (d_Repository d) (d_Number d)) ?ds = map key (backlog (fst mo) input)"
    using arg_cong[OF ids, of "map (\<lambda>(r, n). issue_key r n)"]
    by (simp add: comp_def split_beta key_issue_key[abs_def])
  have srt: "sorted_wrt (\<lambda>a b. compareIssues a b \<le> 0) (backlog (fst mo) input)"
    unfolding backlog_def using issue_order.sorted_sort_func by (simp add: cmp_le_def[abs_def])
  show ?thesis
  proof (intro exI conjI)
    show "Schedule mo input cap = Some ?ds" unfolding Schedule_loop c by simp
    show "distinct (map (\<lambda>d. issue_key (d_Repository d) (d_Number d)) ?ds)"
      unfolding k by (rule backlog_distinct[OF a])
    show "set (map (\<lambda>d. issue_key (d_Repository d) (d_Number d)) ?ds) = key ` set input"
      unfolding k by (rule backlog_keys[OF a])
  qed (rule ids, rule srt)
qed

theorem Schedule_total_witness:
  "\<exists>ds. Schedule sample_orders sample_backlog sample_capacity = Some ds \<and> length ds = 3"
proof -
  obtain ds where ds: "Schedule sample_orders sample_backlog sample_capacity = Some ds"
    "map (\<lambda>d. (d_Repository d, d_Number d)) ds =
       map (\<lambda>i. (i_Repository i, i_Number i)) (backlog (fst sample_orders) sample_backlog)"
    using Schedule_total[OF sample_orders_ok(1), of sample_backlog sample_capacity] by blast
  have "length (backlog (fst sample_orders) sample_backlog) = 3" by code_simp
  then have "length ds = 3" using arg_cong[OF ds(2), of length] by simp
  then show ?thesis using ds(1) by blast
qed

definition sample_decision :: "int \<Rightarrow> State \<Rightarrow> string \<Rightarrow> Decision" where
  "sample_decision n st why = \<lparr>d_Repository = ''o/r'', d_Number = n, d_State = st, d_Explanation = why\<rparr>"

definition sample_decisions :: "Decision list" where
  "sample_decisions =
     [sample_decision 1 Completed ''completed: GitHub reports completed work'',
      sample_decision 2 Runnable ''runnable: dependencies, path scope, and capacity permit dispatch'',
      sample_decision 3 Runnable ''runnable: dependencies, path scope, and capacity permit dispatch'']"

lemma sample_schedule: "Schedule sample_orders sample_backlog sample_capacity = Some sample_decisions"
  by code_simp

text \<open>
  C25: Dispatch capacity.  If a run makes any issue Runnable, then the issues that already hold
  capacity and the Runnable ones together do not exceed the global capacity; and in the repository
  of each Runnable issue they do not exceed that repository's limit.
\<close>

theorem Schedule_capacity:
  assumes "Schedule mo input cap = Some ds"
  defines "R \<equiv> runnable_issues (backlog (fst mo) input) ds"
    and "A \<equiv> backlog_active (fst mo) input"
  shows "(R \<noteq> [] \<longrightarrow> int (length A + length R) \<le> c_Global cap) \<and>
    (\<forall>i \<in> set R. int (length (filter (\<lambda>j. i_Repository j = i_Repository i) (A @ R)))
       \<le> repositoryLimit (i_Repository i) cap)"
proof -
  have "admitted cap A R"
    using assms(1) unfolding R_def A_def backlog_active_def
    by (elim Schedule_SomeE) (simp add: schedule_loop_admitted active_occupancy_occupies)
  then show ?thesis using admitted_global admitted_repository by blast
qed

theorem Schedule_capacity_witness:
  "map i_Number (runnable_issues (backlog (fst sample_orders) sample_backlog) sample_decisions) = [2, 3] \<and>
   int (length (runnable_issues (backlog (fst sample_orders) sample_backlog) sample_decisions)) \<le> c_Global sample_capacity"
proof -
  have "map i_Number (runnable_issues (backlog (fst sample_orders) sample_backlog) sample_decisions) = [2, 3]"
    by code_simp
  then show ?thesis using Schedule_capacity[OF sample_schedule] by auto
qed

text \<open>
  C26: Path isolation.  The issues a run makes Runnable have pairwise disjoint path scopes, and none
  of them overlaps an issue that already holds capacity: within one repository both scopes are
  well formed and no path of one equals or contains a path of the other.
\<close>

theorem Schedule_scopes_disjoint:
  assumes "Schedule mo input cap = Some ds"
  defines "R \<equiv> runnable_issues (backlog (fst mo) input) ds"
  shows "sorted_wrt disjoint_scopes R \<and>
    (\<forall>i \<in> set R. \<forall>l \<in> set (backlog_active (fst mo) input). disjoint_scopes i l)"
proof (rule admitted_scopes)
  show "admitted cap (backlog_active (fst mo) input) R"
    using assms(1) unfolding R_def backlog_active_def
    by (elim Schedule_SomeE) (simp add: schedule_loop_admitted active_occupancy_occupies)
qed

theorem Schedule_scopes_disjoint_witness:
  "sorted_wrt disjoint_scopes (runnable_issues (backlog (fst sample_orders) sample_backlog) sample_decisions)"
  using Schedule_scopes_disjoint[OF sample_schedule] by blast

definition ready :: "(int \<Rightarrow> Issue option) \<Rightarrow> Issue \<Rightarrow> bool" where
  "ready known i \<longleftrightarrow>
     i_Eligible i \<and> i_Blockers i = [] \<and> \<not> i_Active i \<and> \<not> i_Completed i \<and> \<not> i_Cancelled i \<and>
     0 < i_Number i \<and> i_Repository i \<noteq> [] \<and> i_Priority i \<in> {1, 2, 3} \<and> \<not> time_is_zero (i_CreatedAt i) \<and>
     (\<forall>d \<in> set (i_Dependencies i). d \<noteq> i_Number i \<and>
        (d \<in> set (i_SatisfiedDependencies i) \<or> (\<exists>other. known d = Some other \<and> i_Completed other)))"

text \<open>
  Readiness.  An issue is only Runnable when its snapshots agree, it is eligible and has no
  blocker, is neither active, completed nor cancelled, has a valid identity, priority and creation
  time, and each of its dependencies is another issue that is satisfied or known and completed.
\<close>

theorem Schedule_runnable_ready:
  assumes "Schedule mo input cap = Some ds" "k < length ds" "d_State (ds ! k) = Runnable"
  shows "let i = backlog (fst mo) input ! k in
    \<not> contradictory (set input) (key i) \<and>
    ready (byRepo_of (backlog_known (fst mo) input) (i_Repository i)) i"
proof -
  obtain cyc o' where ds: "ds = schedule_loop (contradictions_of input) cyc
      (byRepo_of (backlog_known (fst mo) input)) cap o' (backlog (fst mo) input)"
    using assms(1) by (elim Schedule_SomeE)
  have k: "k < length (backlog (fst mo) input)" using assms(2) ds by simp
  let ?i = "backlog (fst mo) input ! k"
  have run: "d_State (schedule_loop (contradictions_of input) cyc
      (byRepo_of (backlog_known (fst mo) input)) cap o' (backlog (fst mo) input) ! k) = Runnable"
    using assms(3) unfolding ds .
  obtain o'' where v: "fst (verdict (contradictions_of input) cyc (byRepo_of (backlog_known (fst mo) input))
      cap o'' ?i) = Runnable"
    using schedule_loop_runnable[OF k run] by blast
  from v[unfolded verdict_runnable dependencyBlocker_def blocking_dependency_Nil contradictions_of_set]
  show ?thesis unfolding ready_def Let_def by (intro conjI) auto
qed

theorem Schedule_runnable_ready_witness:
  "ready (byRepo_of (backlog_known (fst sample_orders) sample_backlog) ''o/r'')
     (backlog (fst sample_orders) sample_backlog ! 1)"
proof -
  have "1 < length sample_decisions" "d_State (sample_decisions ! 1) = Runnable"
    by (simp_all add: sample_decisions_def sample_decision_def)
  moreover have "i_Repository (backlog (fst sample_orders) sample_backlog ! 1) = ''o/r''" by code_simp
  ultimately show ?thesis
    using Schedule_runnable_ready[OF sample_schedule, of 1] by (simp add: Let_def)
qed

text \<open>
  Determinism.  When the dependency graph of the known issues is free of marked cycles, the
  decisions are a function of the set of delivered snapshots and the capacity: the order and the
  repetition of the snapshots and all map iteration orders are irrelevant.
\<close>

theorem Schedule_deterministic:
  assumes "set input = set input'" "map_order mo" "map_order mo'"
    and "backlog_cycles mo (backlog_known (fst mo) input) = Some []"
  shows "Schedule mo input cap = Schedule mo' input' cap"
proof -
  have a: "arrangement (fst mo)" "arrangement (fst mo')" using assms(2,3) by (simp_all add: map_order_def)
  note b = byRepo_determined[OF assms(1) a]
  have "\<not> on_cycle (byRepo_of (backlog_known (fst mo) input) r) n" for r n
    using backlog_cycles_spec[OF assms(2), of "backlog_known (fst mo) input"] assms(4) by auto
  then have "backlog_cycles mo' (backlog_known (fst mo') input') = Some []"
    using backlog_cycles_spec[OF assms(3), of "backlog_known (fst mo') input'"] unfolding b by auto
  then show ?thesis unfolding Schedule_loop assms(4) b loop_determined[OF assms(1) a] by simp
qed

theorem Schedule_deterministic_witness:
  "Schedule sample_orders sample_backlog sample_capacity =
     Schedule reversed_orders (rev sample_backlog @ sample_backlog) sample_capacity"
proof (rule Schedule_deterministic)
  show "backlog_cycles sample_orders (backlog_known (fst sample_orders) sample_backlog) = Some []" by code_simp
qed auto

text \<open>
  The cycle search.  For every map order it ends; it marks only issues that really lie on a
  cycle of unresolved dependencies between known issues of one repository; and it marks nothing
  exactly when there is no such cycle.
\<close>

theorem dependencyCycles_sound:
  assumes "map_order mo"
  shows "\<exists>cs. backlog_cycles mo known = Some cs \<and>
    (\<forall>k \<in> set cs. \<exists>r n. k = issue_key r n \<and> on_cycle (byRepo_of known r) n) \<and>
    (cs = [] \<longleftrightarrow> (\<forall>r n. \<not> on_cycle (byRepo_of known r) n))"
  using backlog_cycles_spec[OF assms, of known] by blast

theorem dependencyCycles_sound_witness:
  "\<exists>cs. backlog_cycles reversed_orders sample_backlog = Some cs"
  using dependencyCycles_sound[OF sample_orders_ok(2), of sample_backlog] by blast

definition tangled_backlog :: "Issue list" where
  "tangled_backlog =
     [sample_issue 1 [2, 3] False [''a''], sample_issue 2 [1] True [''b''], sample_issue 3 [2] False [''c'']]"

text \<open>
  C28: The marking depends on the map iteration order.  On one and the same backlog, where the open
  issue 3 lies on the cycle 1 - 3 - 2 - 1 and issue 2 is completed, one order of the issue numbers
  makes issue 3 Runnable and another one makes it Blocked: Schedule is not deterministic on
  backlogs with overlapping cycles.
\<close>

theorem Schedule_order_dependent:
  "map_order sample_orders \<and> map_order reversed_orders \<and>
   on_cycle (byRepo_of (backlog_known (fst sample_orders) tangled_backlog) ''o/r'') 3 \<and>
   map_option (map d_State) (Schedule sample_orders tangled_backlog sample_capacity) =
     Some [Blocked, Completed, Runnable] \<and>
   map_option (map d_State) (Schedule reversed_orders tangled_backlog sample_capacity) =
     Some [Blocked, Completed, Blocked]"
proof (intro conjI)
  let ?m = "byRepo_of (backlog_known (fst sample_orders) tangled_backlog) ''o/r''"
  have e: "(3, 2) \<in> edges ?m" "(2, 1) \<in> edges ?m" "(1, 3) \<in> edges ?m"
    unfolding edges_def mem_Collect_eq case_prod_conv by code_simp+
  show "on_cycle ?m 3" unfolding on_cycle_def
    by (rule trancl_trans[OF r_into_trancl[OF e(1)] trancl_trans[OF r_into_trancl[OF e(2)] r_into_trancl[OF e(3)]]])
  show "map_option (map d_State) (Schedule sample_orders tangled_backlog sample_capacity) =
     Some [Blocked, Completed, Runnable]" by code_simp
  show "map_option (map d_State) (Schedule reversed_orders tangled_backlog sample_capacity) =
     Some [Blocked, Completed, Blocked]" by code_simp
qed simp_all

end
