(* ===== verification/Go_Maps.thy ===== *)
theory Go_Maps
  imports Go_Prelude "HOL-Library.Finite_Map" "HOL-Library.Word"
begin

text \<open>
  Go maps as finite maps, \<^verbatim>\<open>uint64\<close> as 64-bit words, hexadecimal text and the error values of
  the runtime owner.  A \<^verbatim>\<open>range\<close> loop that treats every entry on its own is \<open>fm_keep\<close> (entries
  deleted), \<open>fm_step\<close> (entries rewritten or deleted) or \<open>fm_ex\<close> (a search for a witness): their
  results do not depend on the iteration order.
\<close>

named_theorems map_simps "lookups in updated finite maps"

type_synonym uint64 = "64 word"

section \<open>Errors\<close>

datatype owner_error =
    StaleStateResult
  | AttemptTombstoned
  | StateConflict
  | OtherError string

type_synonym 'a owner_result = "owner_error + 'a"

section \<open>Maps\<close>

definition fm_get :: "('k, 'v) fmap \<Rightarrow> 'k \<Rightarrow> 'v \<Rightarrow> 'v" where
  "fm_get m k d = (case fmlookup m k of Some v \<Rightarrow> v | None \<Rightarrow> d)"

definition fm_has :: "('k, 'v) fmap \<Rightarrow> 'k \<Rightarrow> bool" where
  "fm_has m k \<longleftrightarrow> fmlookup m k \<noteq> None"

definition fm_ex :: "('k \<Rightarrow> 'v \<Rightarrow> bool) \<Rightarrow> ('k, 'v) fmap \<Rightarrow> bool" where
  "fm_ex P m \<longleftrightarrow> \<not> fmpred (\<lambda>k v. \<not> P k v) m"

definition fm_keep :: "('k \<Rightarrow> 'v \<Rightarrow> bool) \<Rightarrow> ('k, 'v) fmap \<Rightarrow> ('k, 'v) fmap" where
  "fm_keep P m = fmfilter (\<lambda>k. case fmlookup m k of Some v \<Rightarrow> P k v | None \<Rightarrow> False) m"

definition fm_step :: "('k \<Rightarrow> 'v \<Rightarrow> 'v option) \<Rightarrow> ('k, 'v) fmap \<Rightarrow> ('k, 'v) fmap" where
  "fm_step f m = fmmap_keys (\<lambda>k v. case f k v of Some v' \<Rightarrow> v' | None \<Rightarrow> v) (fm_keep (\<lambda>k v. f k v \<noteq> None) m)"

text \<open>The entries in the order in which a loop that can return early meets them.\<close>

definition fm_entries :: "('k list \<Rightarrow> 'k list) \<Rightarrow> ('k::linorder, 'v) fmap \<Rightarrow> ('k \<times> 'v) list" where
  "fm_entries ord m = map (\<lambda>k. (k, the (fmlookup m k))) (ord (sorted_list_of_fset (fmdom m)))"

lemma fm_ex_iff [map_simps]: "fm_ex P m \<longleftrightarrow> (\<exists>k v. fmlookup m k = Some v \<and> P k v)"
  by (auto simp: fm_ex_def fmpred_iff)

lemma fm_keep_lookup [map_simps]:
  "fmlookup (fm_keep P m) k = (case fmlookup m k of Some v \<Rightarrow> if P k v then Some v else None | None \<Rightarrow> None)"
  by (auto simp: fm_keep_def split: option.splits)

lemma fm_keep_SomeD: "fmlookup (fm_keep P m) k = Some v \<Longrightarrow> fmlookup m k = Some v \<and> P k v"
  by (auto simp: fm_keep_lookup split: option.splits if_splits)

lemma fm_step_lookup [map_simps]:
  "fmlookup (fm_step f m) k = (case fmlookup m k of Some v \<Rightarrow> f k v | None \<Rightarrow> None)"
  by (auto simp: fm_step_def fm_keep_lookup split: option.splits)

lemma fm_get_upd [simp]: "fm_get (fmupd k v m) k' d = (if k' = k then v else fm_get m k' d)"
  by (auto simp: fm_get_def)

lemma fm_get_drop [simp]: "fm_get (fmdrop k m) k' d = (if k' = k then d else fm_get m k' d)"
  by (auto simp: fm_get_def)

lemma fm_has_upd [simp]: "fm_has (fmupd k v m) k' \<longleftrightarrow> k' = k \<or> fm_has m k'"
  by (auto simp: fm_has_def)

lemma fm_has_drop [simp]: "fm_has (fmdrop k m) k' \<longleftrightarrow> k' \<noteq> k \<and> fm_has m k'"
  by (auto simp: fm_has_def)

lemma fm_has_empty [simp]: "\<not> fm_has fmempty k" and fm_get_empty [simp]: "fm_get fmempty k d = d"
  by (simp_all add: fm_has_def fm_get_def)

lemma fm_hasE: "fm_has m k \<Longrightarrow> (\<And>v. fmlookup m k = Some v \<Longrightarrow> thesis) \<Longrightarrow> thesis"
  by (auto simp: fm_has_def)

lemma fm_entries_set:
  "arrangement ord \<Longrightarrow> set (fm_entries ord m) = {(k, v). fmlookup m k = Some v}"
  by (force simp: fm_entries_def fmlookup_dom_iff)

section \<open>Unsigned 64-bit counters\<close>

abbreviation uint64_max :: uint64 where
  "uint64_max \<equiv> - 1"

lemma uint64_inc: "(x :: uint64) \<noteq> uint64_max \<Longrightarrow> unat (x + 1) = unat x + 1"
  using unatSuc[of x] by (simp add: add.commute eq_neg_iff_add_eq_0)

lemma uint64_inc_gt: "(x :: uint64) \<noteq> uint64_max \<Longrightarrow> x < x + 1"
  by (simp add: word_less_nat_alt uint64_inc)

lemma uint64_inc_nz: "(x :: uint64) \<noteq> uint64_max \<Longrightarrow> x + 1 \<noteq> 0"
  using uint64_inc_gt[of x] by auto

lemma uint64_inc_le: "(x :: uint64) \<le> y \<Longrightarrow> y \<noteq> uint64_max \<Longrightarrow> x < y + 1"
  using uint64_inc_gt[of y] by auto

section \<open>Hexadecimal text\<close>

definition hex_char :: "char \<Rightarrow> bool" where
  "hex_char c \<longleftrightarrow> c \<in> set ''0123456789abcdefABCDEF''"

text \<open>\<^verbatim>\<open>hex.DecodeString(value)\<close> succeeds with \<open>n\<close> bytes.\<close>

definition hex_bytes :: "nat \<Rightarrow> string \<Rightarrow> bool" where
  "hex_bytes n value \<longleftrightarrow> list_all hex_char value \<and> length value = 2 * n"

definition validDigest :: "string \<Rightarrow> bool" where
  "validDigest value \<longleftrightarrow> hex_bytes 32 value"

definition ValidLaunchToken :: "string \<Rightarrow> bool" where
  "ValidLaunchToken value \<longleftrightarrow> hex_bytes 16 value"

definition ValidEffectRequestDigest :: "string \<Rightarrow> bool" where
  "ValidEffectRequestDigest value \<longleftrightarrow> hex_bytes 32 value"

lemma validDigest_nonempty [simp]: "\<not> validDigest []" "\<not> ValidLaunchToken []" "\<not> ValidEffectRequestDigest []"
  by (simp_all add: validDigest_def ValidLaunchToken_def ValidEffectRequestDigest_def hex_bytes_def)

definition boundedText :: "string \<Rightarrow> nat \<Rightarrow> bool \<Rightarrow> bool" where
  "boundedText value limit required \<longleftrightarrow>
     (\<not> required \<or> trim_space value \<noteq> []) \<and> length value \<le> limit \<and> char_of (0::nat) \<notin> set value"

definition NUL :: string where
  "NUL = [char_of (0::nat)]"

text \<open>The decimal text of a \<^verbatim>\<open>uint64\<close>, as \<^verbatim>\<open>%d\<close> prints it.\<close>

definition utoa :: "uint64 \<Rightarrow> string" where
  "utoa w = nat_text (unat w)"

lemma utoa_inj [key_simps]: "utoa a = utoa b \<longleftrightarrow> a = b"
  by (auto simp: utoa_def dest: nat_text_inj word_unat_eq_iff[THEN iffD2])

end
