(* ===== verification/Go_Text.thy ===== *)
theory Go_Text
  imports Go_Maps
begin

text \<open>
  Parsing and path functions of the Go library: \<^verbatim>\<open>strconv.Atoi\<close> and \<^verbatim>\<open>ParseUint\<close>,
  \<^verbatim>\<open>strings.Cut\<close>, \<^verbatim>\<open>TrimRight\<close> and \<^verbatim>\<open>EqualFold\<close>, \<^verbatim>\<open>filepath.Join\<close>, \<^verbatim>\<open>Dir\<close> and \<^verbatim>\<open>Base\<close>,
  and the regular expressions of the modelled packages.
\<close>

section \<open>Numbers\<close>

definition is_digit :: "char \<Rightarrow> bool" where
  "is_digit c \<longleftrightarrow> c \<in> set ''0123456789''"

definition digit_value :: "char \<Rightarrow> nat" where
  "digit_value c = (of_char c :: nat) - 48"

definition digits_value :: "string \<Rightarrow> nat" where
  "digits_value s = foldl (\<lambda>v c. v * 10 + digit_value c) 0 s"

definition max_int :: int where "max_int = 9223372036854775807"
definition min_int :: int where "min_int = - 9223372036854775808"

text \<open>\<^verbatim>\<open>strconv.Atoi\<close>: the value and whether there was no error.  A syntax error gives 0, a value
  out of range the nearest bound.\<close>

definition atoi :: "string \<Rightarrow> int \<times> bool" where
  "atoi s =
     (let neg = has_prefix s ''-'';
          ds = (if neg \<or> has_prefix s ''+'' then drop 1 s else s);
          v = (if neg then - int (digits_value ds) else int (digits_value ds)) in
      if ds = [] \<or> \<not> list_all is_digit ds then (0, False)
      else if max_int < v then (max_int, False)
      else if v < min_int then (min_int, False)
      else (v, True))"

definition parse_uint64 :: "string \<Rightarrow> bool" where
  "parse_uint64 s \<longleftrightarrow> s \<noteq> [] \<and> list_all is_digit s \<and> digits_value s < 2 ^ 64"

lemma digit_value_char: "d < 10 \<Longrightarrow> digit_value (digit_char d) = d"
proof -
  assume "d < 10"
  then have "d \<in> {0, 1, 2, 3, 4, 5, 6, 7, 8, 9}" by auto
  then show ?thesis by (auto simp: digit_value_def digit_char_def)
qed

lemma digits_value_append:
  "digits_value (xs @ [c]) = digits_value xs * 10 + digit_value c"
  by (simp add: digits_value_def)

lemma digits_value_nat_text [simp]: "digits_value (nat_text n) = n"
proof (induction n rule: nat_text.induct)
  case (1 n)
  show ?case
  proof (cases "n < 10")
    case True
    then show ?thesis by (subst nat_text.simps) (simp add: digits_value_def digit_value_char)
  next
    case False
    then show ?thesis
      by (subst nat_text.simps) (simp add: digits_value_append digit_value_char 1)
  qed
qed

lemma nat_text_all_digits: "list_all is_digit (nat_text n)"
  unfolding list_all_iff is_digit_def using nat_text_digits[of n] by blast

lemma has_prefix_char: "has_prefix s [c] \<Longrightarrow> c \<in> set s"
  by (cases s) (auto simp: has_prefix_def)

lemma nat_text_no_sign: "\<not> has_prefix (nat_text n) ''-''" "\<not> has_prefix (nat_text n) ''+''"
proof -
  have "CHR ''+'' \<notin> set (nat_text n)" using nat_text_digits[of n] by auto
  then show "\<not> has_prefix (nat_text n) ''-''" "\<not> has_prefix (nat_text n) ''+''"
    using has_prefix_char digits_no_sign(1)[of n] by blast+
qed

lemma atoi_nat: "atoi (nat_text k) = (if int k \<le> max_int then (int k, True) else (max_int, False))"
  unfolding atoi_def Let_def using nat_text_no_sign[of k] nat_text_all_digits[of k]
  by (simp add: min_int_def)

lemma atoi_neg:
  "atoi (CHR ''-'' # nat_text k) = (if min_int \<le> - int k then (- int k, True) else (min_int, False))"
proof -
  have "has_prefix (CHR ''-'' # nat_text k) ''-''" by (simp add: has_prefix_def)
  then show ?thesis
    unfolding atoi_def Let_def using nat_text_all_digits[of k] by (simp add: max_int_def)
qed

lemma atoi_itoa: "min_int \<le> n \<Longrightarrow> n \<le> max_int \<Longrightarrow> atoi (itoa n) = (n, True)"
  by (cases "n < 0") (simp_all add: itoa_def atoi_nat atoi_neg)

section \<open>Strings\<close>

fun cut_str :: "string \<Rightarrow> string \<Rightarrow> (string \<times> string) option" where
  "cut_str [] sep = (if sep = [] then Some ([], []) else None)"
| "cut_str (c # cs) sep =
     (if has_prefix (c # cs) sep then Some ([], drop (length sep) (c # cs))
      else map_option (\<lambda>(a, b). (c # a, b)) (cut_str cs sep))"

lemma cut_str_char: "c \<notin> set xs \<Longrightarrow> cut_str (xs @ c # ys) [c] = Some (xs, ys)"
  by (induction xs) (auto simp: has_prefix_def)

definition trim_right :: "string \<Rightarrow> string \<Rightarrow> string" where
  "trim_right s cutset = rev (dropWhile (\<lambda>c. c \<in> set cutset) (rev s))"

definition trim_prefix :: "string \<Rightarrow> string \<Rightarrow> string" where
  "trim_prefix s p = (if has_prefix s p then drop (length p) s else s)"

definition equal_fold :: "string \<Rightarrow> string \<Rightarrow> bool" where
  "equal_fold a b \<longleftrightarrow> map lower_char a = map lower_char b"

section \<open>Paths\<close>

definition path_join :: "string list \<Rightarrow> string" where
  "path_join ps = (case filter (\<lambda>p. p \<noteq> []) ps of [] \<Rightarrow> [] | qs \<Rightarrow> path_clean (join_str qs ''/''))"

definition path_split :: "string \<Rightarrow> string \<times> string" where
  "path_split p = (rev (dropWhile (\<lambda>c. c \<noteq> CHR ''/'') (rev p)), rev (takeWhile (\<lambda>c. c \<noteq> CHR ''/'') (rev p)))"

definition path_dir :: "string \<Rightarrow> string" where
  "path_dir p = path_clean (fst (path_split p))"

definition path_base :: "string \<Rightarrow> string" where
  "path_base p =
     (if p = [] then ''.'' else
      let q = trim_right p ''/'' in if q = [] then ''/'' else snd (path_split q))"

section \<open>Regular expressions\<close>

definition is_alnum :: "char \<Rightarrow> bool" where
  "is_alnum c \<longleftrightarrow> c \<in> set ''ABCDEFGHIJKLMNOPQRSTUVWXYZabcdefghijklmnopqrstuvwxyz0123456789''"

text \<open>\<^verbatim>\<open>component\<close>: an alphanumeric character, then at most 62 of these or dots, underscores and
  dashes; \<^verbatim>\<open>commitID\<close>: 7 to 64 hexadecimal characters; \<^verbatim>\<open>preflightObjectID\<close>: 40 to 64 lower-case
  ones.\<close>

definition component :: "string \<Rightarrow> bool" where
  "component s \<longleftrightarrow>
     (case s of [] \<Rightarrow> False
      | c # cs \<Rightarrow> is_alnum c \<and> length cs \<le> 62 \<and> list_all (\<lambda>x. is_alnum x \<or> x \<in> set ''._-'') cs)"

definition commitID :: "string \<Rightarrow> bool" where
  "commitID s \<longleftrightarrow> 7 \<le> length s \<and> length s \<le> 64 \<and> list_all hex_char s"

definition preflightObjectID :: "string \<Rightarrow> bool" where
  "preflightObjectID s \<longleftrightarrow> 40 \<le> length s \<and> length s \<le> 64 \<and> list_all (\<lambda>c. c \<in> set ''0123456789abcdef'') s"

definition validOptionalObjectID :: "string \<Rightarrow> bool" where
  "validOptionalObjectID value \<longleftrightarrow> value = [] \<or> preflightObjectID value"

end
