(* ===== verification/Owner_Types.thy ===== *)
theory Owner_Types
  imports Go_Maps
begin

text \<open>
  The data of the runtime owner: one record per Go struct of
  \<^verbatim>\<open>cmd/agent-symphony/state_owner.go\<close> and of the structs it embeds (runtime manifests and
  bindings, reconciliation requests, results and observations, pull-request state, control
  requests and receipts).  The fields keep their Go names behind a prefix that is unique to the
  record; a pointer is an \<open>option\<close>, a map a finite map, \<^verbatim>\<open>int\<close> an \<open>int\<close>, \<^verbatim>\<open>uint64\<close> a 64-bit word.
\<close>

section \<open>Runtime identities\<close>

record hostBootIdentity =
  hb_Source :: "string"
  hb_UUID :: "string"

record Manifest =
  m_Version :: "int"
  m_LaunchToken :: "string"
  m_LaunchID :: "string"
  m_Repository :: "string"
  m_Issue :: "int"
  m_Attempt :: "int"
  m_Branch :: "string"
  m_Worktree :: "string"
  m_Session :: "string"
  m_BaseSHA :: "string"
  m_LogPath :: "string"
  m_State :: "string"
  m_Diagnostic :: "string"
  m_Interactive :: "bool"
  m_ImplementationAgent :: "string"
  m_ReviewAgent :: "string"
  m_ReviewState :: "string"
  m_ReviewDiagnostic :: "string"
  m_ReviewInvalidated :: "bool"
  m_ReviewMode :: "string"
  m_ReviewTarget :: "string"
  m_ReviewRunID :: "string"
  m_ReviewRunCleaned :: "bool"
  m_ReviewBase :: "string"
  m_ReviewHead :: "string"
  m_ReviewSnapshot :: "string"
  m_ReviewSession :: "string"
  m_ReviewFindings :: "string list"
  m_ReviewHandoffQueued :: "bool"
  m_ReviewHandoffAck :: "bool"
  m_WorkerStatus :: "string"
  m_WorkerStatusReason :: "string"
  m_WorkerStatusSeq :: "uint64"
  m_WorkerStatusApplied :: "uint64"
  m_WorkerGeneration :: "uint64"
  m_WorkerProfileDigest :: "string"
  m_CreatedAt :: "time"
  m_UpdatedAt :: "time"

record ImplementationLaunchBinding =
  ib_Version :: "int"
  ib_Role :: "string"
  ib_Token :: "string"
  ib_EffectID :: "string"
  ib_ServerPID :: "int"
  ib_ServerStart :: "uint64"
  ib_SessionName :: "string"
  ib_SessionID :: "string"
  ib_PaneID :: "string"
  ib_PanePID :: "int"
  ib_StartPath :: "string"
  ib_Command :: "string"

record TerminalBrokerBinding =
  tb_Version :: "int"
  tb_OuterPID :: "int"
  tb_InnerPID :: "int"
  tb_InnerPGID :: "int"
  tb_SocketPath :: "string"
  tb_SocketDev :: "uint64"
  tb_SocketIno :: "uint64"
  tb_Secret :: "string"

record ReviewTransition =
  rt_State :: "string"
  rt_Mode :: "string"
  rt_Target :: "string"
  rt_RunID :: "string"
  rt_Base :: "string"
  rt_Head :: "string"
  rt_Snapshot :: "string"
  rt_Session :: "string"
  rt_Findings :: "string list"
  rt_HandoffQueued :: "bool"
  rt_HandoffAcknowledged :: "bool"

record EffectCleanupPolicy =
  cp_Action :: "string"
  cp_PublishedHead :: "string"
  cp_CompatibilityManifestSeen :: "bool"
  cp_CompatibilityLogSeen :: "bool"
  cp_Unlaunched :: "bool"

record PaneStatus =
  ps_Dead :: "bool"
  ps_Ready :: "bool"
  ps_ExitStatus :: "int"
  ps_Signal :: "string"

record reviewerPaneIdentity =
  pi_Status :: "PaneStatus"
  pi_SessionID :: "string"
  pi_PaneID :: "string"
  pi_PID :: "int"
  pi_ServerPID :: "int"
  pi_StartTime :: "uint64"
  pi_Name :: "string"
  pi_Start :: "string"

record reviewerPaneCertificate =
  pc_ServerPID :: "int"
  pc_ServerStart :: "uint64"
  pc_SessionName :: "string"
  pc_SessionID :: "string"
  pc_PaneID :: "string"
  pc_PanePID :: "int"

section \<open>Pull-request governance\<close>

record GovernancePhase =
  gp_ID :: "string"
  gp_Kind :: "string"
  gp_Repository :: "string"
  gp_HeadSHA :: "string"
  gp_PayloadDigest :: "string"
  gp_Payload :: "string"
  gp_PR :: "int"
  gp_Issue :: "int"
  gp_Attempt :: "int"
  gp_Epoch :: "uint64"
  gp_SourceRevision :: "uint64"
  gp_IssueGeneration :: "uint64"
  gp_AttemptGeneration :: "uint64"
  gp_State :: "string"

record Feedback =
  fb_ID :: "int"
  fb_Source :: "string"
  fb_ActorID :: "int"
  fb_Body :: "string"
  fb_CreatedAt :: "time"
  fb_State :: "string"
  fb_Execution :: "string"
  fb_Authorized :: "bool"
  fb_Delegated :: "bool"
  fb_Evidence :: "string"

record PRFacts =
  pf_IssueOpen :: "bool"
  pf_IssueEligible :: "bool"
  pf_AutonomousMerge :: "bool"
  pf_PRIsOpen :: "bool"
  pf_Draft :: "bool"
  pf_Mergeable :: "bool"
  pf_Behind :: "bool"
  pf_BaseRequiresCurrent :: "bool"
  pf_HeadSHA :: "string"
  pf_ValidationSHA :: "string"
  pf_DocumentationSHA :: "string"
  pf_NeedsHumanReview :: "bool"
  pf_ApprovalRequired :: "bool"
  pf_Approved :: "bool"
  pf_ChangesRequested :: "bool"
  pf_CodeOwnerApprovalRequired :: "bool"
  pf_CodeOwnerApproved :: "bool"
  pf_LastPushApprovalRequired :: "bool"
  pf_LastPushApproved :: "bool"
  pf_RequiredChecksPass :: "bool"
  pf_PolicyCheckRequired :: "bool"
  pf_MergePermission :: "bool"
  pf_BranchProtectionAllows :: "bool"
  pf_ConflictingScope :: "bool"
  pf_BranchModifiedOutsideAttempt :: "bool"
  pf_Feedback :: "Feedback list"

record PRDecision =
  pd_ID :: "string"
  pd_Body :: "string"
  pd_Recorded :: "bool"

record RecoveryHandoff =
  rh_Key :: "string"
  rh_Repository :: "string"
  rh_PR :: "int"
  rh_Issue :: "int"
  rh_Attempt :: "int"
  rh_HeadSHA :: "string"
  rh_Validation :: "bool"
  rh_ValidationGeneration :: "uint64"
  rh_Feedback :: "Feedback list"

record FeedbackOutcome =
  fo_ID :: "int"
  fo_Source :: "string"
  fo_State :: "string"
  fo_Evidence :: "string"

record HandoffOutcome =
  ho_Key :: "string"
  ho_Feedback :: "FeedbackOutcome list"
  ho_ValidationResult :: "string"
  ho_ValidationEvidence :: "string"
  ho_Retryable :: "bool"

record PreparedPublication =
  pp_Handoff :: "RecoveryHandoff"
  pp_Outcome :: "HandoffOutcome"
  pp_HeadSHA :: "string"

record PRAdapterConfig =
  pa_Repository :: "string"
  pa_ReadyLabel :: "string"
  pa_IssueFilterLabel :: "string"
  pa_HumanReviewLabel :: "string"
  pa_AutonomousMergeLabel :: "string"
  pa_MergeMethod :: "string"
  pa_PriorityP1Label :: "string"
  pa_PriorityP2Label :: "string"
  pa_PriorityP3Label :: "string"
  pa_DependencySection :: "string"
  pa_DefaultCompletion :: "string"
  pa_ApprovalCommand :: "string"
  pa_CancelCommand :: "string"
  pa_RetryCommand :: "string"
  pa_ActorID :: "int"

record PRState =
  pr_Repository :: "string"
  pr_HeadSHA :: "string"
  pr_CheckHead :: "string"
  pr_PolicyStatus :: "string"
  pr_ValidationQueuedSHA :: "string"
  pr_ValidationInFlightSHA :: "string"
  pr_ValidationGeneration :: "uint64"
  pr_ValidationResult :: "string"
  pr_ValidationEvidence :: "string"
  pr_MergeAttemptSHA :: "string"
  pr_MergePhase :: "string"
  pr_Number :: "int"
  pr_Issue :: "int"
  pr_Attempt :: "int"
  pr_ReviewLabelPresent :: "bool"
  pr_Facts :: "PRFacts"
  pr_Decisions :: "PRDecision list"
  pr_PendingDispositions :: "Feedback list"
  pr_ConfirmedDispositions :: "Feedback list"
  pr_HandoffReceipts :: "(string, bool) fmap"
  pr_PreparedPublication :: "PreparedPublication option"

section \<open>Reconciliation effects\<close>

record githubBindEffectRequest =
  gb_BaseSHA :: "string"
  gb_Branch :: "string"
  gb_Detail :: "string"

record githubPublishEffectRequest =
  gq_Title :: "string"
  gq_BaseBranch :: "string"
  gq_HeadSHA :: "string"
  gq_Validation :: "string"
  gq_Documentation :: "string"
  gq_Decisions :: "string"
  gq_Prepared :: "PreparedPublication option"

record githubIssueUpdateEffectRequest =
  gu_Kind :: "string"
  gu_HeadSHA :: "string"
  gu_Diagnostic :: "string"
  gu_Findings :: "string list"
  gu_FailedAtUnixNano :: "int"
  gu_ControlSnapshotDigest :: "string"
  gu_ControlSnapshotBody :: "string"
  gu_AttributionAttempt :: "int"
  gu_Dependency :: "int"
  gu_PullRequest :: "int"
  gu_Status :: "string"
  gu_StatusReason :: "string"
  gu_StatusSequence :: "uint64"
  gu_StatusSource :: "string"
  gu_StatusSourceSequence :: "uint64"

record githubGovernanceEffectRequest =
  gg_PR :: "int"
  gg_HeadSHA :: "string"
  gg_Policy :: "PRAdapterConfig"

record reviewerEffectRequest =
  rv_Phase :: "string"
  rv_Mode :: "string"
  rv_Target :: "string"
  rv_BaseSHA :: "string"
  rv_HeadSHA :: "string"
  rv_RunID :: "string"
  rv_Snapshot :: "string"
  rv_Session :: "string"
  rv_DigestVersion :: "int"

record handoffEffectRequest =
  hf_Kind :: "string"
  hf_HeadSHA :: "string"
  hf_Key :: "string"
  hf_Findings :: "string list"
  hf_HumanInstructions :: "string list"
  hf_Recovery :: "RecoveryHandoff option"
  hf_Outcome :: "HandoffOutcome option"
  hf_OutcomePath :: "string"
  hf_OutcomeToken :: "string"
  hf_CandidateLaunchToken :: "string"
  hf_CurrentImplementation :: "ImplementationLaunchBinding option"
  hf_CurrentTerminal :: "TerminalBrokerBinding option"

record retireCompletedEffectRequest =
  rc_Mode :: "string"
  rc_HeadSHA :: "string"

record monitoringCheckInEffectRequest =
  ci_Session :: "string"
  ci_Binding :: "string"
  ci_Payload :: "string"

record reconciliationEffectRequest =
  rq_Action :: "string"
  rq_Repository :: "string"
  rq_Issue :: "int"
  rq_Attempt :: "int"
  rq_Manifest :: "Manifest option"
  rq_ObservationGeneration :: "uint64"
  rq_ObservationCycleID :: "uint64"
  rq_BodyDigest :: "string"
  rq_ExecutionDigest :: "string"
  rq_ControlGeneration :: "uint64"
  rq_ControlRepair :: "bool"
  rq_GitHubBind :: "githubBindEffectRequest option"
  rq_GitHubPublish :: "githubPublishEffectRequest option"
  rq_GitHubIssueUpdate :: "githubIssueUpdateEffectRequest option"
  rq_GitHubPRGovernance :: "githubGovernanceEffectRequest option"
  rq_Reviewer :: "reviewerEffectRequest option"
  rq_Handoff :: "handoffEffectRequest option"
  rq_Retire :: "retireCompletedEffectRequest option"
  rq_CheckIn :: "monitoringCheckInEffectRequest option"

record githubBindEffectResult =
  gbr_Observed :: "bool"

record githubPublishEffectResult =
  gqr_PR :: "int"
  gqr_HeadSHA :: "string"
  gqr_BoundBodyDigest :: "string"
  gqr_Evidence :: "bool"
  gqr_PublishedComment :: "bool"

record githubIssueUpdateEffectResult =
  gur_Kind :: "string"
  gur_Observed :: "bool"

record githubGovernanceEffectResult =
  ggr_PR :: "int"
  ggr_HeadSHA :: "string"
  ggr_Observed :: "bool"

record reviewerEffectResult =
  rvr_Phase :: "string"
  rvr_Status :: "string"
  rvr_Mode :: "string"
  rvr_Target :: "string"
  rvr_RunID :: "string"
  rvr_BaseSHA :: "string"
  rvr_HeadSHA :: "string"
  rvr_Snapshot :: "string"
  rvr_Session :: "string"
  rvr_Findings :: "string list"
  rvr_Diagnostic :: "string"

record handoffEffectResult =
  hfr_Kind :: "string"
  hfr_Key :: "string"
  hfr_OutcomePath :: "string"
  hfr_OutcomeToken :: "string"
  hfr_Observed :: "bool"
  hfr_LaunchToken :: "string"
  hfr_LaunchID :: "string"

record retireCompletedEffectResult =
  rcr_ResourcesGone :: "bool"

record monitoringCheckInEffectResult =
  cir_Session :: "string"
  cir_Observed :: "bool"

record reconciliationEffectResult =
  rs_Action :: "string"
  rs_GitHubBind :: "githubBindEffectResult option"
  rs_GitHubPublish :: "githubPublishEffectResult option"
  rs_GitHubIssueUpdate :: "githubIssueUpdateEffectResult option"
  rs_GitHubPRGovernance :: "githubGovernanceEffectResult option"
  rs_Reviewer :: "reviewerEffectResult option"
  rs_Handoff :: "handoffEffectResult option"
  rs_Retire :: "retireCompletedEffectResult option"
  rs_CheckIn :: "monitoringCheckInEffectResult option"

section \<open>Observations\<close>

record reconciliationAttemptFact =
  af_Repository :: "string"
  af_Issue :: "int"
  af_Attempt :: "int"
  af_PR :: "int"
  af_BaseSHA :: "string"
  af_HeadSHA :: "string"
  af_State :: "string"
  af_PublicationConfirmed :: "bool"
  af_Diagnostic :: "string"
  af_Checks :: "string list"

record reconciliationIssueFact =
  fi_Repository :: "string"
  fi_Title :: "string"
  fi_BodyDigest :: "string"
  fi_BaseSHA :: "string"
  fi_BaseBranch :: "string"
  fi_Issue :: "int"
  fi_Attempt :: "int"
  fi_CurrentAttempt :: "int"
  fi_Priority :: "int"
  fi_CreatedAtUnixNano :: "int"
  fi_Dependencies :: "int list"
  fi_SatisfiedDependencies :: "int list"
  fi_Paths :: "string list"
  fi_Blockers :: "string list"
  fi_Eligible :: "bool"
  fi_Active :: "bool"
  fi_Completed :: "bool"
  fi_Retry :: "bool"
  fi_Cancelled :: "bool"
  fi_Closed :: "bool"
  fi_DispatchAuthorized :: "bool"
  fi_RecoveryAuthorized :: "bool"
  fi_RecoveryAttempt :: "int"
  fi_NeedsAttention :: "bool"
  fi_MachineStatusProtocol :: "int"
  fi_MachineStatusAttempt :: "int"
  fi_MachineStatusSequence :: "uint64"
  fi_MachineStatusNeedsAttention :: "bool"
  fi_MachineStatusReason :: "string"
  fi_ActiveAttempt :: "reconciliationAttemptFact option"
  fi_TerminalAttempts :: "reconciliationAttemptFact list"

record reconciliationAttemptObservation =
  ao_Present :: "bool"
  ao_Generation :: "uint64"
  ao_OwnerGeneration :: "uint64"
  ao_SourceIssueGeneration :: "uint64"
  ao_ObservationEpoch :: "uint64"
  ao_LastCycleID :: "uint64"
  ao_Fact :: "reconciliationAttemptFact"

record reconciliationIssueUpdateProposal =
  up_Repository :: "string"
  up_Issue :: "int"
  up_Kind :: "string"
  up_ControlSnapshotDigest :: "string"
  up_AttributionAttempt :: "int"
  up_Dependency :: "int"
  up_PullRequest :: "int"

record reconciliationObservation =
  ob_Present :: "bool"
  ob_Generation :: "uint64"
  ob_OwnerGeneration :: "uint64"
  ob_ObservationEpoch :: "uint64"
  ob_LastCycleID :: "uint64"
  ob_InputDigest :: "string"
  ob_Fact :: "reconciliationIssueFact"
  ob_IssueUpdates :: "reconciliationIssueUpdateProposal list"
  ob_Attempts :: "(string, reconciliationAttemptObservation) fmap"

record reconciliationScope =
  sk_Kind :: "string"
  sk_Repository :: "string"
  sk_Issue :: "int"

record reconciliationIssueGroup =
  ig_Fact :: "reconciliationIssueFact"
  ig_IssueUpdates :: "reconciliationIssueUpdateProposal list"
  ig_Attempts :: "reconciliationAttemptFact list"

section \<open>Operator control\<close>

record controlRequest =
  q_Version :: "int"
  q_RequestID :: "string"
  q_Repository :: "string"
  q_Action :: "string"
  q_Issue :: "int"
  q_Attempt :: "int"
  q_Confirm :: "bool"

record controlResult =
  cr_Version :: "int"
  cr_RequestID :: "string"
  cr_Action :: "string"
  cr_OK :: "bool"
  cr_Retryable :: "bool"
  cr_Status :: "int"
  cr_OwnerRevision :: "uint64"
  cr_Data :: "string"
  cr_Error :: "string"

record operatorAdmission =
  ad_Epoch :: "uint64"
  ad_IssueGeneration :: "uint64"
  ad_AttemptGeneration :: "uint64"
  ad_Manifest :: "Manifest"
  ad_IssueClosed :: "bool"
  ad_RemoteOnly :: "bool"
  ad_ObservationGeneration :: "uint64"
  ad_ObservationCycleID :: "uint64"
  ad_ObservationBodyDigest :: "string"

record controlReceipt =
  r_Request :: "controlRequest"
  r_State :: "string"
  r_Phase :: "string"
  r_EffectID :: "string"
  r_Diagnostic :: "string"
  r_Result :: "controlResult option"
  r_Admission :: "operatorAdmission option"

section \<open>The ledger\<close>

record workerResult =
  wr_Type :: "string"
  wr_Validation :: "string"
  wr_Documentation :: "string"
  wr_Decisions :: "string"

record workerSealSelection =
  ws_Generation :: "uint64"
  ws_HeadSHA :: "string"
  ws_Root :: "string"
  ws_BundleSHA256 :: "string"
  ws_ProfileDigest :: "string"
  ws_Result :: "workerResult"

record machineStatusRecord =
  ms_Repository :: "string"
  ms_Issue :: "int"
  ms_Attempt :: "int"
  ms_IssueGeneration :: "uint64"
  ms_AttemptGeneration :: "uint64"
  ms_Sequence :: "uint64"
  ms_AppliedSequence :: "uint64"
  ms_Source :: "string"
  ms_SourceID :: "string"
  ms_SourceSequence :: "uint64"
  ms_Status :: "string"
  ms_Reason :: "string"

record controlSnapshotRepair =
  sr_Generation :: "uint64"
  sr_Body :: "string"

record runtimeAttemptRecord =
  a_Generation :: "uint64"
  a_ObservationEpoch :: "uint64"
  a_LastCycleID :: "uint64"
  a_StopEffectID :: "string"
  a_WorkerAuthorityRevokedDigest :: "string"
  a_Manifest :: "Manifest"
  a_WorkerSeal :: "workerSealSelection option"
  a_ImplementationBinding :: "ImplementationLaunchBinding option"
  a_TerminalBroker :: "TerminalBrokerBinding option"

record reviewerProcessProof =
  p_Repository :: "string"
  p_Issue :: "int"
  p_Attempt :: "int"
  p_Target :: "string"
  p_RunID :: "string"
  p_Mode :: "string"
  p_EffectID :: "string"
  p_IssueGeneration :: "uint64"
  p_AttemptGeneration :: "uint64"
  p_GroupPID :: "int"
  p_DeadProved :: "bool"
  p_NeverRan :: "bool"
  p_LegacyUnverified :: "bool"
  p_ProfileDigest :: "string"
  p_ConfinementVersion :: "uint64"
  p_Pane :: "reviewerPaneCertificate option"
  p_TerminalBroker :: "TerminalBrokerBinding option"
  p_BrokerPath :: "string"

record runtimePRRecovery =
  rr_IssueGeneration :: "uint64"
  rr_AttemptGeneration :: "uint64"
  rr_State :: "PRState"

record invalidatedExternalOutcome =
  xo_Action :: "string"
  xo_Observed :: "bool"
  xo_Merged :: "bool"
  xo_Superseded :: "bool"
  xo_PR :: "int"
  xo_HeadSHA :: "string"
  xo_StatusSequence :: "uint64"

record startGateCandidate =
  sg_Nonce :: "string"
  sg_MayRun :: "bool"

record startCandidateInvalidation =
  sc_EffectID :: "string"
  sc_Manifest :: "Manifest"
  sc_Candidates :: "startGateCandidate list"

record handoffCandidateInvalidation =
  hc_EffectID :: "string"
  hc_Token :: "string"
  hc_Key :: "string"
  hc_Manifest :: "Manifest"
  hc_Implementation :: "ImplementationLaunchBinding option"
  hc_Terminal :: "TerminalBrokerBinding option"

record runtimeTombstone =
  t_Repository :: "string"
  t_Issue :: "int"
  t_Attempt :: "int"
  t_Action :: "string"
  t_InvalidatedGeneration :: "uint64"
  t_Generation :: "uint64"
  t_Revision :: "uint64"
  t_CleanupPhase :: "string"
  t_PublishedHead :: "string"
  t_Manifest :: "Manifest option"
  t_CleanupPolicy :: "EffectCleanupPolicy option"
  t_EffectID :: "string"
  t_ReviewerLeaseID :: "string"
  t_WorkerAuthorityRevokedDigest :: "string"
  t_Diagnostic :: "string"
  t_InvalidatedHandoff :: "handoffCandidateInvalidation option"
  t_HandoffCompensated :: "bool"
  t_InvalidatedStart :: "startCandidateInvalidation option"
  t_ExternalOutcomes :: "(string, invalidatedExternalOutcome) fmap"

record runtimeEffectIntent =
  e_ID :: "string"
  e_Action :: "string"
  e_Repository :: "string"
  e_Issue :: "int"
  e_Attempt :: "int"
  e_IssueGeneration :: "uint64"
  e_AttemptGeneration :: "uint64"
  e_IntentEpoch :: "uint64"
  e_IntentRevision :: "uint64"
  e_State :: "string"
  e_Dispatched :: "bool"
  e_GovernancePhases :: "GovernancePhase list"
  e_RequestDigest :: "string"
  e_MachineStatusSequence :: "uint64"
  e_CandidateLaunchToken :: "string"
  e_StartGateNonce :: "string"
  e_StartMayRun :: "bool"
  e_StartCandidates :: "startGateCandidate list"
  e_Reason :: "string"
  e_Review :: "ReviewTransition option"
  e_Reconciliation :: "reconciliationEffectRequest option"
  e_ReconciliationResult :: "reconciliationEffectResult option"
  e_ReviewerLaunched :: "bool"
  e_ReviewerSourceRevision :: "uint64"
  e_ReviewerGateProtocol :: "bool"
  e_ReviewerSessionRequested :: "bool"
  e_ReviewerGroupPID :: "int"
  e_ReviewerResultDigest :: "string"
  e_ReviewerProfileDigest :: "string"
  e_ReviewerConfinementVersion :: "uint64"
  e_ReviewerStopped :: "bool"
  e_ReviewerRevoked :: "bool"
  e_SupersededReviewerID :: "string"
  e_SupersededReviewerGroupPID :: "int"
  e_SupersededReviewerGateProtocol :: "bool"
  e_SupersededReviewerSessionRequested :: "bool"
  e_SupersededReviewerRequestDigest :: "string"
  e_SupersededReviewerProfileDigest :: "string"
  e_SupersededReviewerConfinementVersion :: "uint64"
  e_SupersededReviewerTarget :: "string"
  e_SupersededReviewerRunID :: "string"
  e_SupersededReviewerMode :: "string"
  e_SupersededReviewerIssueGeneration :: "uint64"
  e_SupersededReviewerAttemptGeneration :: "uint64"
  e_ReviewerCleanupDigest :: "string"
  e_Diagnostic :: "string"
  e_InvalidatedHandoff :: "handoffCandidateInvalidation option"
  e_InvalidatedStart :: "startCandidateInvalidation option"
  e_HandoffImplementation :: "ImplementationLaunchBinding option"
  e_HandoffTerminal :: "TerminalBrokerBinding option"

record legacyReviewerBaseline =
  lb_Boot :: "hostBootIdentity"
  lb_Evidence :: "string"

record legacyReviewerRelease =
  lr_Before :: "hostBootIdentity"
  lr_After :: "hostBootIdentity"

record stateResultIdentity =
  id_Epoch :: "uint64"
  id_SourceRevision :: "uint64"
  id_CycleID :: "uint64"
  id_IssueGeneration :: "uint64"
  id_AttemptGeneration :: "uint64"
  id_EffectID :: "string"
  id_RequestDigest :: "string"
  id_ReviewRunID :: "string"
  id_ReviewerProfileDigest :: "string"

record runtimeOwnerState =
  s_WorkerProfileDigest :: "string"
  s_Version :: "int"
  s_Repository :: "string"
  s_Epoch :: "uint64"
  s_Revision :: "uint64"
  s_IssueGenerations :: "(string, uint64) fmap"
  s_AttemptGenerations :: "(string, uint64) fmap"
  s_Attempts :: "(string, runtimeAttemptRecord) fmap"
  s_Observations :: "(string, reconciliationObservation) fmap"
  s_Recoveries :: "(string, runtimePRRecovery) fmap"
  s_Tombstones :: "(string, runtimeTombstone) fmap"
  s_Effects :: "(string, runtimeEffectIntent) fmap"
  s_ReviewerProofs :: "(string, reviewerProcessProof) fmap"
  s_ReviewerSafetyMigrated :: "bool"
  s_ReviewerConfinementTracked :: "bool"
  s_ReviewerRunTracked :: "bool"
  s_ReviewerPolicyTracked :: "bool"
  s_ReviewerPolicyVersion :: "uint64"
  s_DismissCleanupTracked :: "bool"
  s_LegacyReviewerQuarantines :: "(string, string) fmap"
  s_LegacyReviewerBaselines :: "(string, legacyReviewerBaseline) fmap"
  s_LegacyReviewerReleases :: "(string, legacyReviewerRelease) fmap"
  s_LegacyBootUnavailable :: "bool"
  s_ReviewerRevocationTracked :: "bool"
  s_ExternalDispatchTracked :: "bool"
  s_ControlReceipts :: "controlReceipt list"
  s_ControlGenerations :: "(string, uint64) fmap"
  s_ControlRepairs :: "(string, controlSnapshotRepair) fmap"
  s_MachineStatuses :: "(string, machineStatusRecord) fmap"
  s_CycleDiagnostic :: "string"
  s_CycleDiagnosticAt :: "time"
  s_CycleOutcomeEpoch :: "uint64"
  s_CycleOutcomeID :: "uint64"
  s_CycleOutcomeSource :: "uint64"
  s_StaleReconciliations :: "uint64"

section \<open>Commands\<close>

record upsertAttemptCommand =
  ua_Manifest :: "Manifest"
  ua_ExpectedIssueGeneration :: "uint64"
  ua_ExpectedAttemptGeneration :: "uint64"

record advanceIssueGenerationCommand =
  ag_Repository :: "string"
  ag_Issue :: "int"
  ag_ExpectedGeneration :: "uint64"

record invalidateAttemptCommand =
  iv_Repository :: "string"
  iv_Issue :: "int"
  iv_Attempt :: "int"
  iv_ExpectedIssueGeneration :: "uint64"
  iv_ExpectedAttemptGeneration :: "uint64"
  iv_Action :: "string"
  iv_CleanupPhase :: "string"
  iv_PublishedHead :: "string"
  iv_Manifest :: "Manifest option"
  iv_CleanupPolicy :: "EffectCleanupPolicy option"
  iv_Diagnostic :: "string"
  iv_EffectAction :: "string"
  iv_EffectRequestDigest :: "string"

record recordEffectCommand =
  re_Identity :: "stateResultIdentity"
  re_Action :: "string"
  re_Manifest :: "Manifest"

record completeEffectCommand =
  ce_Identity :: "stateResultIdentity"
  ce_Diagnostic :: "string"

record beginRuntimeEffectCommand =
  br_Identity :: "stateResultIdentity"
  br_Action :: "string"
  br_Manifest :: "Manifest"
  br_Reason :: "string"
  br_RequestDigest :: "string"
  br_Review :: "ReviewTransition option"
  br_SupersededReviewerID :: "string"
  br_CandidateLaunchToken :: "string"
  br_StartGateNonce :: "string"

record finishRuntimeEffectCommand =
  fr_Identity :: "stateResultIdentity"
  fr_Action :: "string"
  fr_Manifest :: "Manifest"
  fr_ImplementationBinding :: "ImplementationLaunchBinding option"
  fr_TerminalBroker :: "TerminalBrokerBinding option"

record authorizeRuntimeEffectCommand =
  ar_Identity :: "stateResultIdentity"
  ar_Action :: "string"
  ar_GateNonce :: "string"

record rotateStartGateCommand =
  rg_Identity :: "stateResultIdentity"
  rg_OldNonce :: "string"
  rg_NewNonce :: "string"

record diagnoseRuntimeEffectCommand =
  dr_Identity :: "stateResultIdentity"
  dr_Action :: "string"
  dr_Diagnostic :: "string"

record selectWorkerSealCommand =
  sw_Repository :: "string"
  sw_Issue :: "int"
  sw_Attempt :: "int"
  sw_ExpectedGeneration :: "uint64"
  sw_Selection :: "workerSealSelection"

record admitMachineStatusCommand =
  am_Repository :: "string"
  am_Issue :: "int"
  am_Attempt :: "int"
  am_ExpectedIssueGeneration :: "uint64"
  am_ExpectedAttemptGeneration :: "uint64"
  am_ExpectedObservationGeneration :: "uint64"
  am_ExpectedStatusSequence :: "uint64"
  am_Dependency :: "int"
  am_PullRequest :: "int"
  am_Source :: "string"
  am_SourceID :: "string"
  am_SourceSequence :: "uint64"
  am_ExpectedCausalityToken :: "string"
  am_Status :: "string"
  am_Reason :: "string"

record markPlanReviewRunningCommand =
  mp_Identity :: "stateResultIdentity"
  mp_GroupPID :: "int"
  mp_Pane :: "reviewerPaneIdentity option"
  mp_TerminalBroker :: "TerminalBrokerBinding option"
  mp_BrokerPath :: "string"

record markHandoffPreparedCommand =
  mh_Identity :: "stateResultIdentity"
  mh_Implementation :: "ImplementationLaunchBinding"
  mh_Terminal :: "TerminalBrokerBinding"

record markReviewerSessionRequestedCommand =
  mq_Identity :: "stateResultIdentity"

record proveReviewerDeadCommand =
  pv_Identity :: "stateResultIdentity"
  pv_GroupPID :: "int"
  pv_NeverRan :: "bool"

record reviewerStopObservation =
  so_GroupPID :: "int"
  so_NeverRan :: "bool"

record markReviewerStoppedCommand =
  mk_Identity :: "stateResultIdentity"
  mk_Observation :: "reviewerStopObservation"

record bindReviewerStoppingCommand =
  bs_Identity :: "stateResultIdentity"
  bs_GroupPID :: "int"
  bs_Pane :: "reviewerPaneIdentity option"
  bs_TerminalBroker :: "TerminalBrokerBinding option"
  bs_BrokerPath :: "string"

record forgetReviewerProofCommand =
  fg_Identity :: "stateResultIdentity"
  fg_Proof :: "reviewerProcessProof"

record markReviewerResourcesCleanedCommand =
  mc_Identity :: "stateResultIdentity"
  mc_Proofs :: "reviewerProcessProof list"

record resolveInvalidatedReconciliationEffectCommand =
  ri_Identity :: "stateResultIdentity"
  ri_Outcome :: "invalidatedExternalOutcome"

record recordOperatorDiagnosticCommand =
  od_RequestID :: "string"
  od_Phase :: "string"
  od_EffectID :: "string"
  od_Diagnostic :: "string"

record handoffCompensationProof =
  hp_EffectID :: "string"
  hp_Token :: "string"
  hp_OldSessionID :: "string"
  hp_OldPaneID :: "string"
  hp_PreserveOld :: "bool"
  hp_Disposition :: "string"

record completeHandoffCompensationCommand =
  ch_RequestID :: "string"
  ch_Proof :: "handoffCompensationProof"

record recordCycleOutcomeCommand =
  co_Identity :: "stateResultIdentity"
  co_Diagnostic :: "string"
  co_At :: "time"

end
