(* ===== verification/Runtime_Identity.thy ===== *)
theory Runtime_Identity
  imports Go_Text Owner_Types
begin

text \<open>
  The deterministic identity of an attempt: \<^verbatim>\<open>internal/github/attempt_identity.go\<close>, the session
  names, review targets and \<^verbatim>\<open>ValidateManifest\<close> of \<^verbatim>\<open>internal/runtime/runtime.go\<close>, the launch and
  terminal bindings of \<^verbatim>\<open>implementation_identity.go\<close> and \<^verbatim>\<open>terminal_broker.go\<close>.  The only external
  function is SHA-256: \<open>sha\<close> gives the hexadecimal digest of a byte string.
\<close>

section \<open>Names\<close>

definition RepositoryIdentifier :: "(string \<Rightarrow> string) \<Rightarrow> string \<Rightarrow> string" where
  "RepositoryIdentifier sha repository =
     (let slug = map lower_char (map (\<lambda>c. if c = CHR ''/'' then CHR ''-'' else c) repository);
          slug = (if 40 < length slug then trim_right (take 40 slug) ''.-_'' else slug)
      in slug @ ''-'' @ take 12 (sha repository))"

definition AttemptBranch :: "(string \<Rightarrow> string) \<Rightarrow> string \<Rightarrow> int \<Rightarrow> int \<Rightarrow> string option" where
  "AttemptBranch sha repository issue attempt =
     (if length (split_char CHR ''/'' repository) \<noteq> 2 \<or> issue < 1 \<or> attempt < 1 then None
      else Some (''agent-symphony/'' @ RepositoryIdentifier sha repository @ ''/'' @ itoa issue @ ''-'' @ itoa attempt))"

definition AttemptBranchFromBranch :: "string \<Rightarrow> int \<Rightarrow> int \<Rightarrow> string option" where
  "AttemptBranchFromBranch branch issue attempt =
     (let parts = split_char CHR ''/'' branch in
      if length parts \<noteq> 3 \<or> parts ! 0 \<noteq> ''agent-symphony'' then None
      else Some (''agent-symphony/'' @ parts ! 1 @ ''/'' @ itoa issue @ ''-'' @ itoa attempt))"

definition SessionRoleImplementation :: string where "SessionRoleImplementation = ''implementation''"
definition SessionRoleReviewer :: string where "SessionRoleReviewer = ''reviewer''"
definition ReviewModePlan :: string where "ReviewModePlan = ''plan-review''"
definition ReviewModeImplementation :: string where "ReviewModeImplementation = ''implementation-review''"
definition ManifestVersion2 :: int where "ManifestVersion2 = 2"
definition manifestVersion :: int where "manifestVersion = 1"
definition maxResourceName :: nat where "maxResourceName = 64"
definition maxPathLength :: nat where "maxPathLength = 4096"

definition two_components :: "string list \<Rightarrow> bool" where
  "two_components parts \<longleftrightarrow> length parts = 2 \<and> component (parts ! 0) \<and> component (parts ! 1)"

definition AttemptSessionName :: "(string \<Rightarrow> string) \<Rightarrow> string \<Rightarrow> string \<Rightarrow> int \<Rightarrow> int \<Rightarrow> string option" where
  "AttemptSessionName sha role repository issue attempt =
     (if \<not> two_components (split_char CHR ''/'' repository) \<or> issue < 1 \<or> attempt < 1 then None
      else
        let suffix = ''-'' @ itoa issue @ ''-'' @ itoa attempt;
            name = (if role = SessionRoleImplementation
                    then Some (''as-'' @ RepositoryIdentifier sha repository @ suffix)
                    else if role = SessionRoleReviewer
                    then Some (''as-r-'' @ take 16 (sha repository) @ suffix)
                    else None)
        in case name of None \<Rightarrow> None
           | Some n \<Rightarrow> if maxResourceName < length n then None else Some n)"

definition line_breaks :: string where
  "line_breaks = [char_of (0::nat), char_of (13::nat), char_of (10::nat)]"

definition ReviewSessionName :: "(string \<Rightarrow> string) \<Rightarrow> string \<Rightarrow> int \<Rightarrow> int \<Rightarrow> string \<Rightarrow> string option" where
  "ReviewSessionName sha repository issue attempt target =
     (case AttemptSessionName sha SessionRoleReviewer repository issue attempt of
        None \<Rightarrow> None
      | Some base \<Rightarrow>
          if trim_space target = [] \<or> 512 < length target \<or> contains_any target line_breaks then None
          else Some (''as-r-'' @ take 48 (sha (base @ NUL @ target))))"

definition ReviewRunSessionName ::
  "(string \<Rightarrow> string) \<Rightarrow> string \<Rightarrow> int \<Rightarrow> int \<Rightarrow> string \<Rightarrow> string \<Rightarrow> string option" where
  "ReviewRunSessionName sha repository issue attempt target runID =
     (case AttemptSessionName sha SessionRoleReviewer repository issue attempt of
        None \<Rightarrow> None
      | Some base \<Rightarrow>
          if trim_space target = [] \<or> 4096 < length target \<or> contains_any target line_breaks \<or> \<not> hex_bytes 32 runID
          then None
          else Some (''as-r-'' @ take 48 (sha (base @ NUL @ ''target'' @ NUL @ target @ NUL @ ''run'' @ NUL @ runID))))"

section \<open>Review targets\<close>

definition ValidReviewMetadata :: "string \<Rightarrow> string \<Rightarrow> bool" where
  "ValidReviewMetadata mode target \<longleftrightarrow>
     mode = [] \<and> target = [] \<or>
     mode \<in> {ReviewModePlan, ReviewModeImplementation} \<and> trim_space target \<noteq> [] \<and> length target \<le> 512 \<and>
     \<not> contains_any target line_breaks"

definition ValidReviewTarget :: "string \<Rightarrow> string \<Rightarrow> string \<Rightarrow> int \<Rightarrow> bool" where
  "ValidReviewTarget mode target repository issue \<longleftrightarrow>
     (if mode = ReviewModePlan then
        let prefix = repository @ ''#'' @ itoa issue @ '' plan sha256:'';
            digest = trim_prefix target prefix
        in has_prefix target prefix \<and> length digest = 64 \<and> commitID digest
      else if mode = ReviewModeImplementation then
        (case cut_str target ''..'' of
           None \<Rightarrow> False
         | Some (base, head) \<Rightarrow> commitID base \<and> commitID head \<and> \<not> equal_fold base head)
      else False)"

definition ValidReviewBinding ::
  "string \<Rightarrow> string \<Rightarrow> string \<Rightarrow> int \<Rightarrow> string \<Rightarrow> string \<Rightarrow> string \<Rightarrow> bool" where
  "ValidReviewBinding mode target repository issue base head attemptBase \<longleftrightarrow>
     (if \<not> ValidReviewTarget mode target repository issue \<or> \<not> commitID base \<or> \<not> commitID head then False
      else if mode = ReviewModePlan then equal_fold base head \<and> equal_fold base attemptBase
      else case cut_str target ''..'' of
        None \<Rightarrow> equal_fold target base \<and> equal_fold [] head
      | Some (targetBase, targetHead) \<Rightarrow> equal_fold targetBase base \<and> equal_fold targetHead head)"

section \<open>Manifests\<close>

definition ValidManifestVersion :: "Manifest \<Rightarrow> bool" where
  "ValidManifestVersion manifest \<longleftrightarrow>
     (if m_Version manifest = manifestVersion then m_LaunchToken manifest = [] \<and> m_LaunchID manifest = []
      else m_Version manifest = ManifestVersion2 \<and> hex_bytes 16 (m_LaunchToken manifest) \<and>
        (m_LaunchID manifest = [] \<or> hex_bytes 16 (m_LaunchID manifest)))"

record ResourceIdentity =
  ri_Branch :: string
  ri_Worktree :: string
  ri_Session :: string
  ri_LogPath :: string

definition path_escapes :: "string \<Rightarrow> string \<Rightarrow> bool" where
  "path_escapes root worktree \<longleftrightarrow>
     worktree = root \<or> \<not> has_prefix worktree (if root = ''/'' then ''/'' else root @ ''/'')"

definition attemptIdentity ::
  "(string \<Rightarrow> string) \<Rightarrow> string \<Rightarrow> string \<Rightarrow> int \<Rightarrow> int \<Rightarrow> string \<Rightarrow> ResourceIdentity option" where
  "attemptIdentity sha root repository issue attempt baseSHA =
     (if \<not> path_is_abs root \<or> path_clean root \<noteq> root then None
      else if \<not> two_components (split_char CHR ''/'' repository) \<or> issue < 1 \<or> attempt < 1 \<or> \<not> commitID baseSHA
      then None
      else
        let name = RepositoryIdentifier sha repository @ ''-'' @ itoa issue @ ''-'' @ itoa attempt in
        case AttemptBranch sha repository issue attempt of
          None \<Rightarrow> None
        | Some branch \<Rightarrow>
            (case AttemptSessionName sha SessionRoleImplementation repository issue attempt of
               None \<Rightarrow> None
             | Some session \<Rightarrow>
                 if maxResourceName < length name \<or> maxResourceName < length branch \<or> maxResourceName < length session
                 then None
                 else
                   let worktree = path_join [root, name] in
                   if path_escapes root worktree then None
                   else if maxPathLength < length worktree \<or>
                     maxPathLength < length (path_join [worktree, ''.agent-symphony'', ''result.json'']) then None
                   else Some \<lparr>ri_Branch = branch, ri_Worktree = worktree, ri_Session = session, ri_LogPath = []\<rparr>))"

definition review_state_ok :: "Manifest \<Rightarrow> bool" where
  "review_state_ok m \<longleftrightarrow>
     (if m_ReviewState m = [] then
        m_ReviewMode m = [] \<and> m_ReviewTarget m = [] \<and> m_ReviewRunID m = [] \<and> \<not> m_ReviewRunCleaned m \<and>
        m_ReviewSession m = []
      else if m_ReviewState m \<in> {''preparing'', ''running'', ''clean'', ''findings-queued'', ''failed''} then
        let legacy = (m_ReviewMode m = [] \<and> m_ReviewTarget m = []) in
        (legacy \<or>
          ValidReviewMetadata (m_ReviewMode m) (m_ReviewTarget m) \<and>
          ValidReviewTarget (m_ReviewMode m) (m_ReviewTarget m) (m_Repository m) (m_Issue m)) \<and>
        (legacy \<or>
          ValidReviewBinding (m_ReviewMode m) (m_ReviewTarget m) (m_Repository m) (m_Issue m)
            (m_ReviewBase m) (m_ReviewHead m) (m_BaseSHA m)) \<and>
        \<not> (m_ReviewState m = ''failed'' \<and> (m_ReviewDiagnostic m = [] \<or> 4096 < length (m_ReviewDiagnostic m)))
      else False)"

definition review_session_ok :: "(string \<Rightarrow> string) \<Rightarrow> Manifest \<Rightarrow> bool" where
  "review_session_ok sha m \<longleftrightarrow>
     (if m_ReviewSession m = [] then True
      else if m_ReviewRunID m \<noteq> [] then
        ReviewRunSessionName sha (m_Repository m) (m_Issue m) (m_Attempt m) (m_ReviewTarget m) (m_ReviewRunID m) =
          Some (m_ReviewSession m)
      else
        (case ReviewSessionName sha (m_Repository m) (m_Issue m) (m_Attempt m) (m_ReviewTarget m) of
           None \<Rightarrow> False
         | Some targetReview \<Rightarrow>
             m_ReviewSession m = targetReview \<or>
             AttemptSessionName sha SessionRoleReviewer (m_Repository m) (m_Issue m) (m_Attempt m) =
               Some (m_ReviewSession m)))"

definition validateManifestIdentity :: "(string \<Rightarrow> string) \<Rightarrow> ResourceIdentity \<Rightarrow> Manifest \<Rightarrow> bool" where
  "validateManifestIdentity sha want m \<longleftrightarrow>
     ValidManifestVersion m \<and> m_Branch m = ri_Branch want \<and> m_Worktree m = ri_Worktree want \<and>
     m_Session m = ri_Session want \<and> m_LogPath m = ri_LogPath want \<and>
     (m_WorkerGeneration m = 0) = (m_WorkerProfileDigest m = []) \<and>
     (m_WorkerProfileDigest m \<noteq> [] \<longrightarrow> ValidEffectRequestDigest (m_WorkerProfileDigest m)) \<and>
     review_state_ok m \<and>
     (m_ReviewState m \<noteq> ''failed'' \<longrightarrow> m_ReviewDiagnostic m = []) \<and>
     (m_ReviewInvalidated m \<longrightarrow> m_ReviewState m = ''failed'') \<and>
     (m_ReviewBase m \<noteq> [] \<longrightarrow> commitID (m_ReviewBase m)) \<and>
     (m_ReviewHead m \<noteq> [] \<longrightarrow> commitID (m_ReviewHead m)) \<and>
     review_session_ok sha m \<and>
     (m_ReviewRunCleaned m \<longrightarrow>
        m_ReviewRunID m = [] \<and> m_ReviewSnapshot m = [] \<and> m_ReviewSession m = [] \<and>
        m_ReviewState m \<in> {''clean'', ''findings-queued'', ''failed''}) \<and>
     m_State m \<in> {''preparing'', ''running'', ''completed'', ''failed'', ''cancelled''}"

definition ValidateManifest :: "(string \<Rightarrow> string) \<Rightarrow> string \<Rightarrow> string \<Rightarrow> Manifest \<Rightarrow> bool" where
  "ValidateManifest sha root stateRoot m \<longleftrightarrow>
     (case attemptIdentity sha root (m_Repository m) (m_Issue m) (m_Attempt m) (m_BaseSHA m) of
        None \<Rightarrow> False
      | Some want \<Rightarrow>
          path_is_abs stateRoot \<and> path_clean stateRoot = stateRoot \<and>
          (let log = path_join [stateRoot, ''attempts'', RepositoryIdentifier sha (m_Repository m),
                 itoa (m_Issue m) @ ''-'' @ itoa (m_Attempt m), ''agent.log''] in
           length log \<le> maxPathLength \<and> validateManifestIdentity sha (want\<lparr>ri_LogPath := log\<rparr>) m))"

definition sameAttemptIdentity :: "Manifest \<Rightarrow> Manifest \<Rightarrow> bool" where
  "sameAttemptIdentity left right \<longleftrightarrow>
     m_Repository left = m_Repository right \<and> m_Issue left = m_Issue right \<and> m_Attempt left = m_Attempt right \<and>
     m_Branch left = m_Branch right \<and> m_Worktree left = m_Worktree right \<and> m_Session left = m_Session right \<and>
     m_BaseSHA left = m_BaseSHA right \<and> m_LogPath left = m_LogPath right"

definition sameOptionalAttemptIdentity :: "Manifest option \<Rightarrow> Manifest option \<Rightarrow> bool" where
  "sameOptionalAttemptIdentity left right \<longleftrightarrow>
     (case (left, right) of
        (Some l, Some r) \<Rightarrow> sameAttemptIdentity l r
      | _ \<Rightarrow> left = None \<and> right = None)"

section \<open>Worker confinement\<close>

definition BindWorkerConfinement :: "Manifest \<Rightarrow> uint64 \<Rightarrow> string \<Rightarrow> Manifest option" where
  "BindWorkerConfinement manifest generation profileDigest =
     (if generation = 0 \<or> \<not> ValidEffectRequestDigest profileDigest \<or> m_WorkerGeneration manifest \<noteq> 0 \<or>
       m_WorkerProfileDigest manifest \<noteq> [] then None
      else Some (manifest\<lparr>m_WorkerGeneration := generation, m_WorkerProfileDigest := profileDigest\<rparr>))"

definition WorkerConfinementBound :: "Manifest \<Rightarrow> uint64 \<Rightarrow> string \<Rightarrow> bool" where
  "WorkerConfinementBound manifest generation profileDigest \<longleftrightarrow>
     m_Version manifest = ManifestVersion2 \<and> generation \<noteq> 0 \<and> m_WorkerGeneration manifest = generation \<and>
     m_WorkerProfileDigest manifest = profileDigest \<and> ValidEffectRequestDigest profileDigest"

definition WorkerConfinementMatches :: "Manifest \<Rightarrow> uint64 \<Rightarrow> string \<Rightarrow> bool" where
  "WorkerConfinementMatches manifest generation profileDigest \<longleftrightarrow>
     WorkerConfinementBound manifest generation profileDigest \<and> m_LaunchID manifest \<noteq> []"

section \<open>Launch and terminal bindings\<close>

definition validImplementationRole :: "string \<Rightarrow> bool" where
  "validImplementationRole role \<longleftrightarrow> role = ''capture'' \<or> role = ''interactive'' \<or> role = ''unknown''"

definition tmuxLaunchID :: "string \<Rightarrow> bool" where
  "tmuxLaunchID value \<longleftrightarrow> hex_bytes 16 value"

definition tmuxID :: "string \<Rightarrow> char \<Rightarrow> bool" where
  "tmuxID value prefix \<longleftrightarrow>
     (case value of [] \<Rightarrow> False | c # cs \<Rightarrow> cs \<noteq> [] \<and> c = prefix \<and> parse_uint64 cs)"

definition ValidImplementationBinding :: "Manifest \<Rightarrow> ImplementationLaunchBinding \<Rightarrow> string \<Rightarrow> bool" where
  "ValidImplementationBinding manifest binding launchID \<longleftrightarrow>
     ib_Version binding = 1 \<and> validImplementationRole (ib_Role binding) \<and>
     ib_Token binding = m_LaunchToken manifest \<and> ib_SessionName binding = m_Session manifest \<and>
     ib_StartPath binding = m_Worktree manifest \<and> ib_EffectID binding = launchID \<and> tmuxLaunchID launchID \<and>
     ib_Command binding \<noteq> [] \<and> 2 \<le> ib_PanePID binding \<and> 2 \<le> ib_ServerPID binding \<and>
     ib_ServerStart binding \<noteq> 0 \<and> tmuxID (ib_SessionID binding) CHR ''$'' \<and> tmuxID (ib_PaneID binding) CHR ''%''"

definition ImplementationBindingPath :: "Manifest \<Rightarrow> string \<Rightarrow> string" where
  "ImplementationBindingPath manifest launchID =
     path_join [path_dir (m_LogPath manifest), ''implementation-launch-'' @ launchID @ ''.json'']"

definition TerminalBrokerPath :: "Manifest \<Rightarrow> string" where
  "TerminalBrokerPath manifest = ImplementationBindingPath manifest (m_LaunchID manifest) @ ''.terminal''"

definition TerminalBrokerSocketPath :: "(string \<Rightarrow> string) \<Rightarrow> string \<Rightarrow> string \<Rightarrow> string" where
  "TerminalBrokerSocketPath sha recordPath socketDir =
     path_join [socketDir, ''t-'' @ take 32 (sha recordPath) @ ''.sock'']"

definition TerminalBrokerSocketDirForState :: "(string \<Rightarrow> string) \<Rightarrow> string \<Rightarrow> string" where
  "TerminalBrokerSocketDirForState sha stateRoot =
     path_join [''/tmp'', ''as-t-'' @ take 24 (sha (path_clean stateRoot))]"

definition TerminalBrokerSocketDir :: "(string \<Rightarrow> string) \<Rightarrow> Manifest \<Rightarrow> string" where
  "TerminalBrokerSocketDir sha manifest =
     TerminalBrokerSocketDirForState sha (path_dir (path_dir (path_dir (path_dir (m_LogPath manifest)))))"

definition terminalBrokerVersion :: int where "terminalBrokerVersion = 1"

definition ValidTerminalBrokerBinding :: "TerminalBrokerBinding \<Rightarrow> bool" where
  "ValidTerminalBrokerBinding b \<longleftrightarrow>
     hex_bytes 32 (tb_Secret b) \<and> tb_Version b = terminalBrokerVersion \<and> 2 \<le> tb_OuterPID b \<and> 2 \<le> tb_InnerPID b \<and>
     tb_InnerPGID b = tb_InnerPID b \<and> path_is_abs (tb_SocketPath b) \<and> path_clean (tb_SocketPath b) = tb_SocketPath b \<and>
     tb_SocketDev b \<noteq> 0 \<and> tb_SocketIno b \<noteq> 0"

definition ValidTerminalBrokerAt :: "(string \<Rightarrow> string) \<Rightarrow> string \<Rightarrow> string \<Rightarrow> TerminalBrokerBinding \<Rightarrow> bool" where
  "ValidTerminalBrokerAt sha recordPath socketDir b \<longleftrightarrow>
     path_is_abs recordPath \<and> path_clean recordPath = recordPath \<and> path_is_abs socketDir \<and>
     path_clean socketDir = socketDir \<and> ValidTerminalBrokerBinding b \<and>
     tb_SocketPath b = TerminalBrokerSocketPath sha recordPath socketDir"

definition ValidImplementationTerminalBinding :: "(string \<Rightarrow> string) \<Rightarrow> Manifest \<Rightarrow> TerminalBrokerBinding \<Rightarrow> bool" where
  "ValidImplementationTerminalBinding sha manifest b \<longleftrightarrow>
     ValidTerminalBrokerAt sha (TerminalBrokerPath manifest) (TerminalBrokerSocketDir sha manifest) b"

definition bound_pair :: "(string \<Rightarrow> string) \<Rightarrow> Manifest \<Rightarrow> ImplementationLaunchBinding \<Rightarrow> TerminalBrokerBinding \<Rightarrow> bool" where
  "bound_pair sha manifest implementation terminal \<longleftrightarrow>
     ValidImplementationBinding manifest implementation (m_LaunchID manifest) \<and>
     ValidImplementationTerminalBinding sha manifest terminal \<and> tb_OuterPID terminal = ib_PanePID implementation"

section \<open>Review results\<close>

definition review_handoff_mutable :: "Manifest \<Rightarrow> ReviewTransition \<Rightarrow> bool" where
  "review_handoff_mutable m v \<longleftrightarrow>
     (m_ReviewHandoffQueued m \<and> rt_State v = ''findings-queued'' \<longrightarrow>
        rt_HandoffQueued v \<and> m_ReviewHead m = rt_Head v \<and> m_ReviewFindings m = rt_Findings v \<and>
        (m_ReviewHandoffAck m \<longrightarrow> rt_HandoffAcknowledged v) \<and> m_ReviewMode m = rt_Mode v \<and>
        m_ReviewTarget m = rt_Target v \<and> m_ReviewRunID m = rt_RunID v \<and> m_ReviewBase m = rt_Base v \<and>
        m_ReviewSnapshot m = rt_Snapshot v \<and> m_ReviewSession m = rt_Session v)"

definition review_applied :: "Manifest \<Rightarrow> ReviewTransition \<Rightarrow> time \<Rightarrow> Manifest" where
  "review_applied m v now =
     (let queued = (rt_State v = ''findings-queued'');
          m1 = m\<lparr>m_ReviewState := rt_State v, m_ReviewMode := rt_Mode v, m_ReviewTarget := rt_Target v,
             m_ReviewRunID := rt_RunID v, m_ReviewBase := rt_Base v, m_ReviewHead := rt_Head v,
             m_ReviewSnapshot := rt_Snapshot v, m_ReviewSession := rt_Session v,
             m_ReviewFindings := (if queued then rt_Findings v else []),
             m_ReviewHandoffQueued := queued \<and> rt_HandoffQueued v,
             m_ReviewHandoffAck := queued \<and> rt_HandoffAcknowledged v\<rparr>;
          m2 = (if rt_HandoffAcknowledged v \<and> m_State m1 = ''completed''
                then m1\<lparr>m_State := ''running'', m_Diagnostic := []\<rparr> else m1)
      in m2\<lparr>m_UpdatedAt := now\<rparr>)"

definition ReviewEffectResult ::
  "(string \<Rightarrow> string) \<Rightarrow> string \<Rightarrow> string \<Rightarrow> Manifest \<Rightarrow> ReviewTransition \<Rightarrow> time \<Rightarrow> Manifest option" where
  "ReviewEffectResult sha root stateRoot m v now =
     (if review_handoff_mutable m v \<and> ValidateManifest sha root stateRoot (review_applied m v now)
      then Some (review_applied m v now) else None)"

end
