(* ===== verification/Attempt_Recovery.thy ===== *)
theory Attempt_Recovery
  imports Runtime_Identity
begin

text \<open>
  \<^verbatim>\<open>internal/orchestrator/recovery.go\<close>: the status of every attempt, joined from the authoritative facts
  read from GitHub and the local manifests.  The join has no effects.  \<open>check\<close> stands for the runtime
  check of the caller (\<^verbatim>\<open>ExactRuntimeCheck\<close> asks git and tmux) and answers \<open>None\<close> or a classified
  error with its text; \<open>ord\<close> is the order in which the range loop over the map of facts meets its keys.
\<close>

record AttemptFact =
  at_Repository :: string
  at_Issue :: int
  at_Attempt :: int
  at_BaseSHA :: string
  at_HeadSHA :: string
  at_PR :: int
  at_State :: string
  at_Priority :: int
  at_Dependencies :: "int list"
  at_Checks :: "string list"
  at_Diagnostic :: string

record AttemptSession =
  as_Role :: string
  as_Name :: string
  as_State :: string
  as_Mode :: string
  as_Target :: string
  as_RunID :: string
  as_Current :: bool
  as_CreatedAt :: time
  as_UpdatedAt :: time

record RecoveryStatus =
  st_Repository :: string
  st_Issue :: int
  st_Title :: string
  st_Attempt :: int
  st_State :: string
  st_Branch :: string
  st_Worktree :: string
  st_Session :: string
  st_Sessions :: "AttemptSession list"
  st_CurrentPhase :: string
  st_PR :: int
  st_HeadSHA :: string
  st_Priority :: int
  st_Dependencies :: "int list"
  st_ImplementationAgent :: string
  st_ReviewAgent :: string
  st_Checks :: "string list"
  st_Blockers :: "string list"
  st_Diagnostic :: string
  st_Action :: string
  st_Retryable :: bool
  st_DispatchAuthorized :: bool
  st_NeedsAttention :: bool
  st_IssueClosed :: bool
  st_OperatorBlocked :: bool
  st_IssueGeneration :: uint64
  st_AttemptGeneration :: uint64
  st_MachineStatusSequence :: uint64
  st_OwnerCausalityToken :: string

datatype runtime_fault = WorktreeMissing | WorktreeUnsafe | WorktreeNonCanonical | OtherFault

type_synonym RuntimeCheck = "Manifest \<Rightarrow> AttemptFact \<Rightarrow> (runtime_fault \<times> string) option"

definition empty_recovery_status :: RecoveryStatus where
  "empty_recovery_status = \<lparr>st_Repository = [], st_Issue = 0, st_Title = [], st_Attempt = 0, st_State = [], st_Branch = [],
     st_Worktree = [], st_Session = [], st_Sessions = [], st_CurrentPhase = [], st_PR = 0, st_HeadSHA = [],
     st_Priority = 0, st_Dependencies = [], st_ImplementationAgent = [], st_ReviewAgent = [], st_Checks = [],
     st_Blockers = [], st_Diagnostic = [], st_Action = [], st_Retryable = False,
     st_DispatchAuthorized = False, st_NeedsAttention = False, st_IssueClosed = False, st_OperatorBlocked = False,
     st_IssueGeneration = 0, st_AttemptGeneration = 0, st_MachineStatusSequence = 0, st_OwnerCausalityToken = []\<rparr>"

definition live_states :: "string list" where
  "live_states = [''active'', ''review-ready'']"

definition MatchesPublishedAttempt :: "Manifest \<Rightarrow> AttemptFact \<Rightarrow> bool" where
  "MatchesPublishedAttempt m f \<longleftrightarrow>
     m_State m = ''completed'' \<and> 0 < at_PR f \<and> at_State f \<in> set [''active'', ''review-ready'', ''completed''] \<and>
     m_Repository m = at_Repository f \<and> m_Issue m = at_Issue f \<and> m_Attempt m = at_Attempt f \<and>
     m_BaseSHA m = at_BaseSHA f \<and> m_ReviewHead m \<noteq> [] \<and> m_ReviewHead m = at_HeadSHA f"

definition attemptKey :: "string \<Rightarrow> int \<Rightarrow> int \<Rightarrow> string" where
  "attemptKey repository issue attempt = repository @ ''#'' @ itoa issue @ ''/'' @ itoa attempt"

definition fact_key :: "AttemptFact \<Rightarrow> string" where
  "fact_key f = attemptKey (at_Repository f) (at_Issue f) (at_Attempt f)"

definition runtimeWorktreeBlocker :: "(runtime_fault \<times> string) option \<Rightarrow> string" where
  "runtimeWorktreeBlocker err =
     (case err of
        Some (WorktreeMissing, _) \<Rightarrow> ''runtime worktree missing''
      | Some (WorktreeUnsafe, _) \<Rightarrow> ''runtime worktree unsafe''
      | Some (WorktreeNonCanonical, _) \<Rightarrow> ''runtime worktree noncanonical''
      | _ \<Rightarrow> [])"

section \<open>The life cycle of an attempt\<close>

definition session_entry ::
  "string option \<Rightarrow> Manifest \<Rightarrow> string \<Rightarrow> string \<Rightarrow> string \<Rightarrow> string \<Rightarrow> string \<Rightarrow> string \<Rightarrow> time \<Rightarrow> AttemptSession list" where
  "session_entry want m role name state mode target runID created =
     (if want = Some name \<and> state \<noteq> []
      then [\<lparr>as_Role = role, as_Name = name, as_State = state, as_Mode = mode, as_Target = target, as_RunID = runID,
             as_Current = False, as_CreatedAt = created, as_UpdatedAt = m_UpdatedAt m\<rparr>] else [])"

definition attempt_sessions :: "(string \<Rightarrow> string) \<Rightarrow> Manifest \<Rightarrow> AttemptSession list" where
  "attempt_sessions sha m =
     session_entry (AttemptSessionName sha SessionRoleImplementation (m_Repository m) (m_Issue m) (m_Attempt m))
       m SessionRoleImplementation (m_Session m) (m_State m) [] [] [] (m_CreatedAt m) @
     (if m_ReviewSession m \<noteq> [] \<and> ValidReviewBinding (m_ReviewMode m) (m_ReviewTarget m) (m_Repository m) (m_Issue m)
          (m_ReviewBase m) (m_ReviewHead m) (m_BaseSHA m)
      then session_entry (ReviewRunSessionName sha (m_Repository m) (m_Issue m) (m_Attempt m) (m_ReviewTarget m) (m_ReviewRunID m))
        m SessionRoleReviewer (m_ReviewSession m) (m_ReviewState m) (m_ReviewMode m) (m_ReviewTarget m) (m_ReviewRunID m) 0
      else [])"

definition lifecycle_phase :: "RecoveryStatus \<Rightarrow> Manifest \<Rightarrow> string" where
  "lifecycle_phase s m =
     (if m_State m \<in> set [''failed'', ''cancelled''] then m_State m
      else if m_ReviewMode m = ReviewModePlan \<and> m_ReviewState m \<in> set [''preparing'', ''running''] then ''review''
      else if m_State m \<in> set [''preparing'', ''running''] then
        (if m_ReviewState m = ''findings-queued'' then ''findings-handoff'' else ''implementation'')
      else if m_ReviewState m \<in> set [''preparing'', ''running''] then ''review''
      else if m_ReviewState m = ''findings-queued'' then ''findings-handoff''
      else if m_ReviewState m = ''clean'' then ''publication''
      else if m_State m = ''completed'' then ''validation''
      else st_State s)"

definition phase_role :: "string \<Rightarrow> string" where
  "phase_role phase =
     (if phase \<in> set [''implementation'', ''findings-handoff''] then SessionRoleImplementation
      else if phase = ''review'' then SessionRoleReviewer else [])"

definition phase_action :: "RecoveryStatus \<Rightarrow> Manifest \<Rightarrow> string" where
  "phase_action s m =
     (let phase = st_CurrentPhase s in
      if phase = ''implementation'' then ''monitor the implementation session''
      else if phase = ''validation'' then ''validate the completed implementation result''
      else if phase = ''review'' then
        (if list_ex (\<lambda>x. as_Role x = SessionRoleReviewer) (st_Sessions s)
         then ''monitor the independent reviewer session'' else ''restore or restart the exact reviewer session'')
      else if phase = ''findings-handoff'' then
        (if m_ReviewHandoffAck m then ''monitor follow-up implementation after review findings''
         else ''deliver review findings to the implementation session'')
      else if phase = ''publication'' then
        (if 0 < st_PR s then ''monitor the matching published pull request''
         else ''publish the independently reviewed implementation'')
      else st_Action s)"

definition project_phase :: "RecoveryStatus \<Rightarrow> Manifest \<Rightarrow> RecoveryStatus" where
  "project_phase s m =
     (let phase = lifecycle_phase s m; role = phase_role phase;
          s1 = s\<lparr>st_CurrentPhase := phase,
            st_Sessions := map (\<lambda>x. x\<lparr>as_Current := (as_Role x = role)\<rparr>) (st_Sessions s)\<rparr> in
      if st_Blockers s1 \<noteq> [] \<or> st_State s1 \<notin> set live_states then s1 else s1\<lparr>st_Action := phase_action s1 m\<rparr>)"

definition projectAttemptLifecycle :: "(string \<Rightarrow> string) \<Rightarrow> RecoveryStatus \<Rightarrow> Manifest \<Rightarrow> RecoveryStatus" where
  "projectAttemptLifecycle sha s m =
     (let s1 = (if m_ReviewState m = ''failed'' \<and> m_ReviewDiagnostic m \<noteq> [] then s\<lparr>st_Diagnostic := m_ReviewDiagnostic m\<rparr>
                else s);
          s2 = s1\<lparr>st_Sessions := st_Sessions s1 @ attempt_sessions sha m\<rparr> in
      if st_State s2 \<in> set [''completed'', ''failed'', ''cancelled'', ''orphaned'', ''conflicting'']
      then s2\<lparr>st_CurrentPhase := st_State s2\<rparr>
      else if st_State s2 = ''blocked'' then s2\<lparr>st_CurrentPhase := ''blocked''\<rparr>
      else project_phase s2 m)"

section \<open>Facts of one issue\<close>

definition seen_facts :: "AttemptFact list \<Rightarrow> (string, AttemptFact) fmap" where
  "seen_facts facts = foldl (\<lambda>m f. fmupd (fact_key f) f m) fmempty facts"

text \<open>A key is conflicting when a fact differs from the previous one with the same key.\<close>

fun conflicting_keys :: "(string, AttemptFact) fmap \<Rightarrow> AttemptFact list \<Rightarrow> string list" where
  "conflicting_keys seen [] = []"
| "conflicting_keys seen (f # fs) =
     (let rest = conflicting_keys (fmupd (fact_key f) f seen) fs in
      case fmlookup seen (fact_key f) of
        Some old \<Rightarrow> if old \<noteq> f then fact_key f # rest else rest
      | None \<Rightarrow> rest)"

definition issue_facts :: "AttemptFact list \<Rightarrow> AttemptFact \<Rightarrow> AttemptFact list" where
  "issue_facts facts f =
     filter (\<lambda>g. at_Repository g @ ''#'' @ itoa (at_Issue g) = at_Repository f @ ''#'' @ itoa (at_Issue f)) facts"

definition issue_conflict :: "AttemptFact list \<Rightarrow> bool" where
  "issue_conflict others \<longleftrightarrow>
     (let active = length (filter (\<lambda>g. at_State g \<in> set live_states) others);
          completed = length (filter (\<lambda>g. at_State g = ''completed'') others) in
      1 < active \<or> (0 < active \<and> 0 < completed) \<or> 1 < completed)"

definition latest_attempt :: "AttemptFact list \<Rightarrow> AttemptFact \<Rightarrow> int" where
  "latest_attempt others f = foldl (\<lambda>n g. max n (at_Attempt g)) (at_Attempt f) others"

definition retry_conflict :: "string list \<Rightarrow> AttemptFact list \<Rightarrow> AttemptFact \<Rightarrow> bool" where
  "retry_conflict conflicting others f \<longleftrightarrow>
     list_ex (\<lambda>g. at_Attempt g \<noteq> at_Attempt f \<and> at_State g \<noteq> ''failed'' \<or> fact_key g \<in> set conflicting) others"

section \<open>The join\<close>

definition blocked_as :: "RecoveryStatus \<Rightarrow> string \<Rightarrow> string \<Rightarrow> string \<Rightarrow> bool \<Rightarrow> RecoveryStatus" where
  "blocked_as s blocker diagnostic action retryable =
     s\<lparr>st_State := ''blocked'', st_Blockers := [blocker], st_Diagnostic := diagnostic, st_Action := action,
       st_Retryable := retryable\<rparr>"

definition conflicting_status :: "AttemptFact \<Rightarrow> RecoveryStatus" where
  "conflicting_status f = empty_recovery_status\<lparr>st_Repository := at_Repository f, st_Issue := at_Issue f,
     st_Attempt := at_Attempt f, st_State := ''conflicting'',
     st_Diagnostic := ''GitHub reports contradictory attempt facts'',
     st_Action := ''repair the coordinator-authored attempt markers, then reconcile''\<rparr>"

definition fact_status :: "AttemptFact \<Rightarrow> RecoveryStatus" where
  "fact_status f = empty_recovery_status\<lparr>st_Repository := at_Repository f, st_Issue := at_Issue f,
     st_Attempt := at_Attempt f, st_State := at_State f, st_PR := at_PR f, st_HeadSHA := at_HeadSHA f,
     st_Priority := at_Priority f, st_Dependencies := at_Dependencies f, st_Checks := at_Checks f,
     st_Diagnostic := at_Diagnostic f\<rparr>"

definition failed_status :: "RecoveryStatus \<Rightarrow> Manifest \<Rightarrow> bool \<Rightarrow> RecoveryStatus" where
  "failed_status s m retryable =
     (let s1 = s\<lparr>st_Retryable := retryable, st_Action :=
            (if retryable then ''recover this failed attempt to request a new attempt''
             else ''terminalize the matching local runtime before requesting a retry'')\<rparr> in
      if m_State m = ''failed'' then s1\<lparr>st_Diagnostic := m_Diagnostic m\<rparr> else s1)"

definition check_error :: "RuntimeCheck option \<Rightarrow> Manifest \<Rightarrow> AttemptFact \<Rightarrow> (runtime_fault \<times> string) option" where
  "check_error check m f =
     (case check of
        None \<Rightarrow> None
      | Some c \<Rightarrow> if at_State f \<in> set live_states \<and> m_State m = ''running'' then c m f else None)"

definition joined_status ::
  "RuntimeCheck option \<Rightarrow> bool \<Rightarrow> bool \<Rightarrow> RecoveryStatus \<Rightarrow> AttemptFact \<Rightarrow> Manifest \<Rightarrow> RecoveryStatus" where
  "joined_status check conflict may_retry s f m =
     (let err = check_error check m f; live = (at_State f \<in> set live_states) in
      if at_State f = ''completed'' then
        s\<lparr>st_State := ''completed'', st_Diagnostic := [], st_Action := ''none; completed work must not be redispatched'',
          st_Retryable := False\<rparr>
      else if conflict then s
      else if m_BaseSHA m \<noteq> at_BaseSHA f then
        blocked_as s ''runtime base mismatch'' ''local base does not match GitHub''
          ''preserve diagnostics and create a new traceable attempt'' False
      else if at_State f = ''failed'' then
        failed_status s m (may_retry \<and> m_State m \<in> set [''failed'', ''cancelled'', ''completed''])
      else if m_State m = ''cancelled'' then
        s\<lparr>st_State := ''cancelled'', st_Diagnostic := m_Diagnostic m, st_Action := ''none; cancelled work must not be resumed'',
          st_Retryable := False\<rparr>
      else if m_State m = ''failed'' then
        s\<lparr>st_State := ''failed'', st_Diagnostic := m_Diagnostic m,
          st_Action := ''inspect the retained log and retry with a new attempt''\<rparr>
      else if at_State f = ''active'' \<and> at_PR f = 0 \<and> m_State m = ''completed'' then
        s\<lparr>st_Action := ''resume publication of the matching completed attempt''\<rparr>
      else if MatchesPublishedAttempt m f then s\<lparr>st_Action := ''monitor the matching published pull request''\<rparr>
      else if live \<and> m_State m = ''running'' \<and> check \<noteq> None \<and> err = None then
        s\<lparr>st_Action := ''resume monitoring the matching attempt''\<rparr>
      else if live \<and> runtimeWorktreeBlocker err \<noteq> [] then
        blocked_as s (runtimeWorktreeBlocker err) (case err of Some (_, t) \<Rightarrow> t | None \<Rightarrow> [])
          ''repair or reconstruct the exact worktree; automatic recovery is suppressed'' False
      else if live then
        blocked_as s ''runtime liveness mismatch''
          (case err of Some (_, t) \<Rightarrow> t | None \<Rightarrow> ''local attempt is not running'')
          ''recover this attempt or restore its exact runtime resources'' True
      else s)"

definition local_matches :: "AttemptFact \<Rightarrow> Manifest \<Rightarrow> bool" where
  "local_matches f m \<longleftrightarrow> m_Repository m = at_Repository f \<and> m_Issue m = at_Issue f \<and> m_Attempt m = at_Attempt f"

definition bind_local :: "RecoveryStatus \<Rightarrow> Manifest \<Rightarrow> RecoveryStatus" where
  "bind_local s m = s\<lparr>st_Branch := m_Branch m, st_Worktree := m_Worktree m, st_Session := m_Session m,
     st_ImplementationAgent := m_ImplementationAgent m, st_ReviewAgent := m_ReviewAgent m\<rparr>"

definition close_status :: "RecoveryStatus \<Rightarrow> RecoveryStatus" where
  "close_status s =
     (let s1 = (if st_State s \<in> set live_states \<and> st_Session s = [] then
            s\<lparr>st_State := ''blocked'', st_CurrentPhase := ''blocked'', st_Blockers := [''runtime resources missing''],
              st_Diagnostic := ''GitHub says active but local attempt resources are missing'',
              st_Action := ''reconstruct the resources or create a new traceable attempt''\<rparr> else s) in
      if st_CurrentPhase s1 = [] then s1\<lparr>st_CurrentPhase := st_State s1\<rparr> else s1)"

definition status_of_fact ::
  "(string \<Rightarrow> string) \<Rightarrow> RuntimeCheck option \<Rightarrow> AttemptFact list \<Rightarrow> Manifest list \<Rightarrow> AttemptFact \<Rightarrow> RecoveryStatus" where
  "status_of_fact sha check facts locals f =
     (let conflicting = conflicting_keys fmempty facts in
      if fact_key f \<in> set conflicting then conflicting_status f
      else
        let others = issue_facts facts f; conflict = issue_conflict others;
            may_retry = (at_Attempt f = latest_attempt others f \<and> \<not> retry_conflict conflicting others f);
            s = (if conflict then blocked_as (fact_status f) ''conflicting authoritative attempts''
                  ''GitHub reports duplicate active/completed attempts for this issue''
                  ''repair coordinator-authored markers; dispatch is suppressed'' False else fact_status f) in
        close_status
          (case find (local_matches f) locals of
             None \<Rightarrow> s
           | Some m \<Rightarrow> projectAttemptLifecycle sha (joined_status check conflict may_retry (bind_local s m) f m) m))"

text \<open>
  A manifest is used when it is the first one of an attempt whose fact is not conflicting.
\<close>

fun unused_locals :: "(Manifest \<Rightarrow> bool) \<Rightarrow> Manifest list \<Rightarrow> Manifest list \<Rightarrow> Manifest list" where
  "unused_locals joined before [] = []"
| "unused_locals joined before (m # ms) =
     (let rest = unused_locals joined (m # before) ms in
      if joined m \<and> \<not> list_ex (\<lambda>x. m_Repository x = m_Repository m \<and> m_Issue x = m_Issue m \<and> m_Attempt x = m_Attempt m) before
      then rest else m # rest)"

definition joins_fact :: "AttemptFact list \<Rightarrow> Manifest \<Rightarrow> bool" where
  "joins_fact facts m \<longleftrightarrow>
     list_ex (\<lambda>f. local_matches f m \<and> fact_key f \<notin> set (conflicting_keys fmempty facts)) facts"

definition orphan_status :: "(string \<Rightarrow> string) \<Rightarrow> Manifest \<Rightarrow> RecoveryStatus" where
  "orphan_status sha m =
     projectAttemptLifecycle sha
       (empty_recovery_status\<lparr>st_Repository := m_Repository m, st_Issue := m_Issue m, st_Attempt := m_Attempt m,
          st_State := ''orphaned'', st_Branch := m_Branch m, st_Worktree := m_Worktree m, st_Session := m_Session m,
          st_Diagnostic := ''local attempt has no authoritative GitHub marker'',
          st_Action := ''preserve diagnostics; do not attach or dispatch''\<rparr>) m"

definition compareStatus :: "RecoveryStatus \<Rightarrow> RecoveryStatus \<Rightarrow> int" where
  "compareStatus a b =
     (if st_Repository a \<noteq> st_Repository b then compare_ord (st_Repository a) (st_Repository b)
      else if st_Issue a \<noteq> st_Issue b then st_Issue a - st_Issue b
      else st_Attempt a - st_Attempt b)"

definition RecoverChecked ::
  "(string \<Rightarrow> string) \<Rightarrow> (string list \<Rightarrow> string list) \<Rightarrow> AttemptFact list \<Rightarrow> Manifest list \<Rightarrow> RuntimeCheck option \<Rightarrow>
   RecoveryStatus list" where
  "RecoverChecked sha ord facts locals check =
     sort_func compareStatus
       (map (\<lambda>(_, f). status_of_fact sha check facts locals f) (fm_entries ord (seen_facts facts)) @
        map (orphan_status sha) (unused_locals (joins_fact facts) [] locals))"

definition Recover :: "(string \<Rightarrow> string) \<Rightarrow> (string list \<Rightarrow> string list) \<Rightarrow> AttemptFact list \<Rightarrow> Manifest list \<Rightarrow> RecoveryStatus list" where
  "Recover sha ord facts locals = RecoverChecked sha ord facts locals None"

section \<open>The loop's schedule\<close>

text \<open>
  \<^verbatim>\<open>reconcileLoop\<close> computes from the planned time and the current time the first planned time that is
  still ahead; the number of steps is bounded by the distance.
\<close>

function next_after :: "int \<Rightarrow> int \<Rightarrow> int \<Rightarrow> int" where
  "next_after interval current next_at =
     (if interval \<le> 0 \<or> current < next_at then next_at else next_after interval current (next_at + interval))"
  by pat_completeness auto
termination by (relation "measure (\<lambda>(interval, current, next_at). nat (current - next_at + 1))") auto

declare next_after.simps [simp del]

text \<open>
  One round of the loop reads the clock, plans the next round and waits; a failed wait ends the loop.
  \<open>rounds\<close> lists the clock readings with whether the wait failed, the result the delays waited for.
\<close>

definition MaxReconcileInterval :: int where "MaxReconcileInterval = 60000000000"

fun loop_delays :: "int \<Rightarrow> int \<Rightarrow> (int \<times> bool) list \<Rightarrow> int list" where
  "loop_delays interval next_at [] = []"
| "loop_delays interval next_at ((current, failed) # rounds) =
     (let planned = next_after interval current next_at in
      (planned - current) # (if failed then [] else loop_delays interval planned rounds))"

definition reconcileLoop :: "int \<Rightarrow> int \<Rightarrow> (int \<times> bool) list \<Rightarrow> int list option" where
  "reconcileLoop interval start rounds =
     (if interval \<le> 0 \<or> MaxReconcileInterval < interval then None
      else Some (loop_delays interval (start + interval) rounds))"

end
