(* ===== verification/Github_Text.thy ===== *)
theory Github_Text
  imports Runtime_Identity
begin

text \<open>
  The texts that \<^verbatim>\<open>internal/github\<close> writes to GitHub and reads back: control snapshot comments
  (\<^verbatim>\<open>issue.go\<close>), attributed bodies, attempt markers, pull request bodies and governance phases
  (\<^verbatim>\<open>pull_request.go\<close>).  JSON encoding and decoding belong to the standard library: \<open>marshal\<close> encodes a
  value, \<open>decode\<close> reads a snapshot without unknown fields or trailing data.
\<close>

datatype json =
    JString string
  | JInt int
  | JUint uint64
  | JBool bool
  | JArray "json list"
  | JObject "(string \<times> json) list"
  | JNull

definition LF :: string where "LF = [char_of (10::nat)]"

section \<open>Control snapshots\<close>

record Anchor =
  an_EditID :: "string"
  an_IssueNodeID :: "string"
  an_CreatedAt :: "time"
  an_ChangedAt :: "time"
  an_AuthorID :: "int"

record Provenance =
  pv_Name :: "string"
  pv_Value :: "string"
  pv_Source :: "string"
  pv_EventID :: "int"
  pv_ActorID :: "int"
  pv_CreatedAt :: "time"

record Snapshot =
  sn_Version :: "int"
  sn_OwnerGeneration :: "uint64"
  sn_ControlsHash :: "string"
  sn_BodyHash :: "string"
  sn_Anchor :: "Anchor"
  sn_ApprovalID :: "int"
  sn_ApprovalActor :: "int"
  sn_Provenance :: "Provenance list"

definition snapshotVersion :: int where "snapshotVersion = 2"

definition snapshotPrefix :: string where
  "snapshotPrefix = ''<!-- agent-symphony:controls:v2'' @ LF"

definition comment_end :: string where
  "comment_end = LF @ ''-->''"

definition trim_suffix :: "string \<Rightarrow> string \<Rightarrow> string" where
  "trim_suffix s x = (if has_suffix s x then take (length s - length x) s else s)"

definition SnapshotComment :: "(json \<Rightarrow> string) \<Rightarrow> (Snapshot \<Rightarrow> json) \<Rightarrow> Snapshot \<Rightarrow> string" where
  "SnapshotComment marshal json_snapshot snapshot = snapshotPrefix @ marshal (json_snapshot snapshot) @ comment_end"

definition ParseSnapshotComment :: "(string \<Rightarrow> Snapshot option) \<Rightarrow> string \<Rightarrow> int \<Rightarrow> int \<Rightarrow> Snapshot option" where
  "ParseSnapshotComment decode body authorID coordinatorID =
     (if authorID \<noteq> coordinatorID \<or> \<not> has_prefix body snapshotPrefix \<or> 16 * 1024 < length body \<or>
        \<not> has_suffix body comment_end then None
      else case decode (trim_suffix (trim_prefix body snapshotPrefix) comment_end) of
        None \<Rightarrow> None
      | Some snapshot \<Rightarrow> if sn_Version snapshot \<noteq> snapshotVersion then None else Some snapshot)"

section \<open>Bodies and markers\<close>

definition regexpSHA :: "string \<Rightarrow> bool" where
  "regexpSHA s \<longleftrightarrow> 7 \<le> length s \<and> length s \<le> 64 \<and> list_all hex_char s"

definition AttributedBody :: "int \<Rightarrow> int \<Rightarrow> string \<Rightarrow> string option" where
  "AttributedBody issue attempt message =
     (if issue \<le> 0 \<or> attempt \<le> 0 \<or> trim_space message = [] then None
      else Some (message @ LF @ LF @ ''<!-- agent-symphony:issue:'' @ itoa issue @ '':attempt:'' @ itoa attempt @ '' -->''))"

definition recoveryMarkerPrefix :: string where
  "recoveryMarkerPrefix = ''<!-- agent-symphony:attempt:v1'' @ LF"

definition AttemptMarker :: "(json \<Rightarrow> string) \<Rightarrow> int \<Rightarrow> int \<Rightarrow> string \<Rightarrow> string \<Rightarrow> int \<Rightarrow> string \<Rightarrow> string option" where
  "AttemptMarker marshal issue attempt branch head pr outcome =
     (case AttemptBranchFromBranch branch issue attempt of
        None \<Rightarrow> None
      | Some want \<Rightarrow>
          if branch \<noteq> want \<or> \<not> regexpSHA head \<or> pr \<le> 0 \<or> outcome \<noteq> ''review'' then None
          else Some (recoveryMarkerPrefix @ marshal (JObject
            [(''version'', JInt 1), (''issue'', JInt issue), (''attempt'', JInt attempt), (''branch'', JString branch),
             (''head'', JString head), (''pr'', JInt pr), (''outcome'', JString outcome)]) @ comment_end))"

definition PullRequestBody :: "int \<Rightarrow> int \<Rightarrow> string \<Rightarrow> string \<Rightarrow> string \<Rightarrow> string option" where
  "PullRequestBody issue attempt validation documentation decisions =
     (if trim_space validation = [] \<or> trim_space documentation = [] then None
      else
        let body = ''Closes #'' @ itoa issue @ LF @ LF @ ''Attempt: '' @ itoa attempt @ LF @ LF @ ''## Validation'' @ LF @
              validation @ LF @ LF @ ''## Documentation impact'' @ LF @ documentation;
            body' = (if trim_space decisions \<noteq> []
              then body @ LF @ LF @ ''## Implementation decisions'' @ LF @ decisions else body) in
        AttributedBody issue attempt body')"

definition BindPullRequestBody ::
  "(json \<Rightarrow> string) \<Rightarrow> string \<Rightarrow> int \<Rightarrow> int \<Rightarrow> string \<Rightarrow> string \<Rightarrow> int \<Rightarrow> string option" where
  "BindPullRequestBody marshal body issue attempt branch head pr =
     (case AttemptMarker marshal issue attempt branch head pr ''review'' of
        None \<Rightarrow> None
      | Some marker \<Rightarrow> Some (body @ LF @ LF @ marker))"

section \<open>Governance phases\<close>

definition governance_kinds :: "string list" where
  "governance_kinds =
     [''review-label'', ''decision-comment'', ''feedback-disposition-comment'', ''feedback-delegation'',
      ''validation-queue'', ''policy-status'', ''policy-failure-comment'', ''merge-prepared-comment'',
      ''merge-dispatched-comment'', ''merge-resolved-comment'', ''merge'']"

definition phase_id :: "(string \<Rightarrow> string) \<Rightarrow> GovernancePhase \<Rightarrow> string" where
  "phase_id sha p =
     sha (gp_Kind p @ NUL @ gp_Repository p @ NUL @ itoa (gp_PR p) @ NUL @ gp_HeadSHA p @ NUL @ sha (gp_Payload p))"

definition ValidGovernancePhase :: "(string \<Rightarrow> string) \<Rightarrow> GovernancePhase \<Rightarrow> bool" where
  "ValidGovernancePhase sha p \<longleftrightarrow>
     \<not> (gp_Repository p = [] \<or> gp_PR p < 1 \<or> gp_Issue p < 1 \<or> gp_Attempt p < 1 \<or> \<not> regexpSHA (gp_HeadSHA p) \<or>
        gp_Payload p = [] \<or> gp_Kind p \<notin> set governance_kinds) \<and>
     gp_PayloadDigest p = sha (gp_Payload p) \<and> gp_ID p = phase_id sha p"

section \<open>A snapshot that is written can be read\<close>

text \<open>The round trip needs of JSON only that decoding inverts encoding.\<close>

lemma has_prefix_append [simp]: "has_prefix (p @ s) p"
  by (simp add: has_prefix_def)

lemma has_suffix_append [simp]: "has_suffix (s @ p) p"
  by (simp add: has_suffix_def)

lemma trim_prefix_append [simp]: "trim_prefix (p @ s) p = s"
  by (simp add: trim_prefix_def)

lemma trim_suffix_append [simp]: "trim_suffix (s @ p) p = s"
  by (simp add: trim_suffix_def)

lemma snapshot_comment_affixes:
  "has_prefix (SnapshotComment marshal js snapshot) snapshotPrefix"
  "has_suffix (SnapshotComment marshal js snapshot) comment_end"
  unfolding SnapshotComment_def using has_prefix_append has_suffix_append[of "snapshotPrefix @ x" for x]
  by auto

text \<open>
  C29: Snapshot round trip.  A version 2 snapshot written as a comment of at most 16 KiB is read back
  unchanged by the coordinator itself, and by nobody else.
\<close>

theorem snapshot_roundtrip:
  assumes "decode (marshal (js snapshot)) = Some snapshot" "sn_Version snapshot = snapshotVersion"
    "length (SnapshotComment marshal js snapshot) \<le> 16 * 1024"
  shows "ParseSnapshotComment decode (SnapshotComment marshal js snapshot) author coordinator =
    (if author = coordinator then Some snapshot else None)"
  using assms snapshot_comment_affixes[of marshal js snapshot]
  by (simp add: ParseSnapshotComment_def) (simp add: SnapshotComment_def)

theorem snapshot_roundtrip_witness:
  "ParseSnapshotComment
     (\<lambda>s. if s = ''{}'' then Some \<lparr>sn_Version = 2, sn_OwnerGeneration = 3, sn_ControlsHash = [], sn_BodyHash = [],
        sn_Anchor = \<lparr>an_EditID = [], an_IssueNodeID = [], an_CreatedAt = 0, an_ChangedAt = 0, an_AuthorID = 0\<rparr>,
        sn_ApprovalID = 0, sn_ApprovalActor = 0, sn_Provenance = []\<rparr> else None)
     (SnapshotComment (\<lambda>_. ''{}'') (\<lambda>_. JBool True) \<lparr>sn_Version = 2, sn_OwnerGeneration = 3, sn_ControlsHash = [],
        sn_BodyHash = [], sn_Anchor = \<lparr>an_EditID = [], an_IssueNodeID = [], an_CreatedAt = 0, an_ChangedAt = 0,
        an_AuthorID = 0\<rparr>, sn_ApprovalID = 0, sn_ApprovalActor = 0, sn_Provenance = []\<rparr>) 1 1 \<noteq> None"
  by (subst snapshot_roundtrip)
    (simp_all add: snapshotVersion_def SnapshotComment_def snapshotPrefix_def comment_end_def LF_def)

end
