(* ===== verification/Owner_State.thy ===== *)
theory Owner_State
  imports Github_Text
begin

text \<open>
  Keys, constants and read-only predicates of the runtime owner
  (\<^verbatim>\<open>cmd/agent-symphony/state_owner.go\<close>, \<^verbatim>\<open>legacy_reviewer_boot.go\<close>, \<^verbatim>\<open>boot_identity.go\<close>).
  The record \<open>Env\<close> holds what the owner calls outside the modelled files: SHA-256, the JSON encoder
  of the standard library, the compiled-in worker profile digest, the order in which a search over
  a map meets its entries, the directories and the clock.
\<close>

section \<open>Environment\<close>

record Env =
  v_AttemptRoot :: string
  v_StateRoot :: string
  v_SnapshotRoot :: string
  v_sha :: "string \<Rightarrow> string"
  v_marshal :: "json \<Rightarrow> string"
  v_json_manifest :: "Manifest \<Rightarrow> json"
  v_json_proof :: "reviewerProcessProof \<Rightarrow> json"
  v_json_request :: "reconciliationEffectRequest \<Rightarrow> json"
  v_json_result :: "reconciliationEffectResult \<Rightarrow> json"
  v_json_fact :: "reconciliationIssueFact \<Rightarrow> json"
  v_json_proposal :: "reconciliationIssueUpdateProposal \<Rightarrow> json"
  v_json_causality :: "uint64 \<Rightarrow> uint64 \<Rightarrow> runtimeAttemptRecord option \<Rightarrow> reconciliationObservation option \<Rightarrow>
    runtimePRRecovery option \<Rightarrow> runtimeTombstone option \<Rightarrow> machineStatusRecord option \<Rightarrow>
    runtimeEffectIntent list \<Rightarrow> json"
  v_profile :: string
  v_order :: "string list \<Rightarrow> string list"
  v_json_snapshot :: "Snapshot \<Rightarrow> json"
  v_decode_snapshot :: "string \<Rightarrow> Snapshot option"
  v_json_observations :: "(string, reconciliationObservation) fmap \<Rightarrow> json"
  v_json_valid :: "string \<Rightarrow> bool"
  v_now :: time
  v_json_group :: "reconciliationIssueGroup \<Rightarrow> json"
  v_quote :: "string \<Rightarrow> string"

definition digestText :: "Env \<Rightarrow> string \<Rightarrow> string" where
  "digestText env value = v_sha env value"

section \<open>Constants\<close>

definition EffectPrepare :: string where "EffectPrepare = ''prepare''"
definition EffectStart :: string where "EffectStart = ''start''"
definition EffectMonitor :: string where "EffectMonitor = ''monitor''"
definition EffectStop :: string where "EffectStop = ''stop''"
definition EffectReview :: string where "EffectReview = ''review''"
definition EffectHandoff :: string where "EffectHandoff = ''handoff''"
definition EffectCleanup :: string where "EffectCleanup = ''cleanup''"

lemmas effect_actions =
  EffectPrepare_def EffectStart_def EffectMonitor_def EffectStop_def EffectReview_def EffectHandoff_def EffectCleanup_def

definition reconciliationGitHubBind :: string where "reconciliationGitHubBind = ''github-bind''"
definition reconciliationGitHubPublish :: string where "reconciliationGitHubPublish = ''github-publish''"
definition reconciliationGitHubIssueUpdate :: string where
  "reconciliationGitHubIssueUpdate = ''github-issue-update''"
definition reconciliationGitHubPRGovernance :: string where
  "reconciliationGitHubPRGovernance = ''github-pr-governance''"
definition reconciliationReviewer :: string where "reconciliationReviewer = ''reviewer''"
definition reconciliationHandoffDeliver :: string where "reconciliationHandoffDeliver = ''handoff-deliver''"

lemmas reconciliation_actions =
  reconciliationGitHubBind_def reconciliationGitHubPublish_def reconciliationGitHubIssueUpdate_def
  reconciliationGitHubPRGovernance_def reconciliationReviewer_def reconciliationHandoffDeliver_def

definition githubIssueTerminalFailure :: string where "githubIssueTerminalFailure = ''terminal-failure''"
definition githubIssueRetry :: string where "githubIssueRetry = ''retry''"
definition githubIssueControlSnapshot :: string where "githubIssueControlSnapshot = ''control-snapshot''"
definition githubIssueDependencyClear :: string where "githubIssueDependencyClear = ''dependency-clear''"
definition githubIssueMachineStatus :: string where "githubIssueMachineStatus = ''worker-status''"

definition operatorPhaseAdmissionPending :: string where "operatorPhaseAdmissionPending = ''admission-pending''"
definition operatorPhaseCleanupPending :: string where "operatorPhaseCleanupPending = ''cleanup-pending''"
definition operatorPhaseCleanupStarted :: string where "operatorPhaseCleanupStarted = ''cleanup-started''"
definition operatorPhaseStopPending :: string where "operatorPhaseStopPending = ''stop-pending''"
definition operatorPhaseTerminalAwait :: string where "operatorPhaseTerminalAwait = ''terminal-awaiting''"
definition operatorPhaseTerminal :: string where "operatorPhaseTerminal = ''terminal-pending''"
definition operatorPhaseRetryAwait :: string where "operatorPhaseRetryAwait = ''retry-awaiting''"
definition operatorPhaseRetryPending :: string where "operatorPhaseRetryPending = ''retry-pending''"
definition operatorPhaseReviewPending :: string where "operatorPhaseReviewPending = ''review-pending''"
definition operatorPhaseHandoffCleanup :: string where "operatorPhaseHandoffCleanup = ''handoff-cleanup-pending''"
definition operatorPhaseStartCleanup :: string where "operatorPhaseStartCleanup = ''start-cleanup-pending''"
definition operatorPhaseCompleted :: string where "operatorPhaseCompleted = ''completed''"

definition reviewerConfinementVersion :: uint64 where "reviewerConfinementVersion = 1"
definition maxReconciliationStringBytes :: nat where "maxReconciliationStringBytes = 4096"
definition maxControlReceipts :: nat where "maxControlReceipts = 128"
definition controlVersion :: int where "controlVersion = 1"
definition runtimeOwnerStateVersion :: int where "runtimeOwnerStateVersion = 2"

section \<open>Keys\<close>

definition ownerIssueKey :: "string \<Rightarrow> int \<Rightarrow> string" where
  "ownerIssueKey repository issue = repository @ CHR ''#'' # itoa issue"

definition ownerAttemptKey :: "string \<Rightarrow> int \<Rightarrow> int \<Rightarrow> string" where
  "ownerAttemptKey repository issue attempt = ownerIssueKey repository issue @ CHR ''/'' # itoa attempt"

definition issueFromOwnerKey :: "string \<Rightarrow> int" where
  "issueFromOwnerKey k = (case cut_str k ''#'' of None \<Rightarrow> 0 | Some (_, value) \<Rightarrow> fst (atoi value))"

definition parseOwnerAttemptKey :: "string \<Rightarrow> (string \<times> int \<times> int \<times> bool)" where
  "parseOwnerAttemptKey k =
     (case cut_str k ''#'' of
        None \<Rightarrow> ([], 0, 0, False)
      | Some (repository, rest) \<Rightarrow>
          (case cut_str rest ''/'' of
             None \<Rightarrow> (repository, fst (atoi rest), fst (atoi []), False)
           | Some (issueText, attemptText) \<Rightarrow>
               (repository, fst (atoi issueText), fst (atoi attemptText),
                snd (atoi issueText) \<and> snd (atoi attemptText))))"

definition reviewerProofKey :: "string \<Rightarrow> int \<Rightarrow> int \<Rightarrow> string \<Rightarrow> string \<Rightarrow> string" where
  "reviewerProofKey repository issue attempt mode target =
     ownerAttemptKey repository issue attempt @ NUL @ mode @ NUL @ target"

lemma ownerIssueKey_inj [key_simps]: "ownerIssueKey r i = ownerIssueKey r' i' \<longleftrightarrow> r = r' \<and> i = i'"
proof
  assume "ownerIssueKey r i = ownerIssueKey r' i'"
  then have e: "r @ CHR ''#'' # itoa i = r' @ CHR ''#'' # itoa i'" by (simp add: ownerIssueKey_def)
  from sep_split_eq[OF e] show "r = r' \<and> i = i'" by (simp add: key_simps)
qed simp

lemma ownerAttemptKey_inj [key_simps]:
  "ownerAttemptKey r i a = ownerAttemptKey r' i' a' \<longleftrightarrow> r = r' \<and> i = i' \<and> a = a'"
proof
  assume "ownerAttemptKey r i a = ownerAttemptKey r' i' a'"
  then have e: "ownerIssueKey r i @ CHR ''/'' # itoa a = ownerIssueKey r' i' @ CHR ''/'' # itoa a'"
    by (simp add: ownerAttemptKey_def)
  from sep_split_eq[OF e] show "r = r' \<and> i = i' \<and> a = a'" by (simp add: key_simps)
qed simp

definition int64 :: "int \<Rightarrow> bool" where
  "int64 n \<longleftrightarrow> min_int \<le> n \<and> n \<le> max_int"

lemma issueFromOwnerKey_key: "CHR ''#'' \<notin> set r \<Longrightarrow> int64 i \<Longrightarrow> issueFromOwnerKey (ownerIssueKey r i) = i"
  by (simp add: issueFromOwnerKey_def ownerIssueKey_def cut_str_char atoi_itoa int64_def)

lemma parse_attempt_key:
  assumes "CHR ''#'' \<notin> set r" "int64 i" "int64 a"
  shows "parseOwnerAttemptKey (ownerAttemptKey r i a) = (r, i, a, True)"
proof -
  have "ownerAttemptKey r i a = r @ CHR ''#'' # (itoa i @ CHR ''/'' # itoa a)"
    by (simp add: ownerAttemptKey_def ownerIssueKey_def)
  then show ?thesis
    using assms by (simp add: parseOwnerAttemptKey_def cut_str_char atoi_itoa int64_def)
qed

section \<open>Boot identities and historical releases\<close>

definition zero_boot :: hostBootIdentity where
  "zero_boot = \<lparr>hb_Source = [], hb_UUID = []\<rparr>"

definition parseHostBootIdentity :: "string \<Rightarrow> string \<Rightarrow> hostBootIdentity" where
  "parseHostBootIdentity source raw =
     (let value = map lower_char raw in
      if source \<noteq> ''linux-boot-id-v1'' \<and> source \<noteq> ''darwin-bootsessionuuid-v1'' then zero_boot
      else if length value \<noteq> 36 \<or> value = ''00000000-0000-0000-0000-000000000000'' then zero_boot
      else if list_all (\<lambda>i. if i \<in> {8, 13, 18, 23} then value ! i = CHR ''-''
          else value ! i \<in> set ''0123456789abcdef'') [0..<36]
      then \<lparr>hb_Source = source, hb_UUID = value\<rparr> else zero_boot)"

definition boot_valid :: "hostBootIdentity \<Rightarrow> bool" where
  "boot_valid identity \<longleftrightarrow> identity \<noteq> zero_boot \<and> parseHostBootIdentity (hb_Source identity) (hb_UUID identity) = identity"

definition laterThan :: "hostBootIdentity \<Rightarrow> hostBootIdentity \<Rightarrow> bool" where
  "laterThan identity previous \<longleftrightarrow>
     boot_valid identity \<and> boot_valid previous \<and> hb_Source identity = hb_Source previous \<and>
     hb_UUID identity \<noteq> hb_UUID previous"

definition legacyReviewerDigest :: "Env \<Rightarrow> string \<Rightarrow> json \<Rightarrow> string" where
  "legacyReviewerDigest env kind value = digestText env (kind @ NUL @ v_marshal env value)"

definition empty_manifest :: Manifest where
  "empty_manifest =
     \<lparr>m_Version = 0, m_LaunchToken = [], m_LaunchID = [], m_Repository = [], m_Issue = 0, m_Attempt = 0,
      m_Branch = [], m_Worktree = [], m_Session = [], m_BaseSHA = [], m_LogPath = [], m_State = [],
      m_Diagnostic = [], m_Interactive = False, m_ImplementationAgent = [], m_ReviewAgent = [],
      m_ReviewState = [], m_ReviewDiagnostic = [], m_ReviewInvalidated = False, m_ReviewMode = [],
      m_ReviewTarget = [], m_ReviewRunID = [], m_ReviewRunCleaned = False, m_ReviewBase = [], m_ReviewHead = [],
      m_ReviewSnapshot = [], m_ReviewSession = [], m_ReviewFindings = [], m_ReviewHandoffQueued = False,
      m_ReviewHandoffAck = False, m_WorkerStatus = [], m_WorkerStatusReason = [], m_WorkerStatusSeq = 0,
      m_WorkerStatusApplied = 0, m_WorkerGeneration = 0, m_WorkerProfileDigest = [], m_CreatedAt = 0,
      m_UpdatedAt = 0\<rparr>"

definition legacyManifestDigest :: "Env \<Rightarrow> Manifest \<Rightarrow> uint64 \<Rightarrow> string" where
  "legacyManifestDigest env m generation =
     legacyReviewerDigest env ''manifest''
       (JObject [(''Generation'', JUint generation),
         (''Identity'', v_json_manifest env (empty_manifest\<lparr>
            m_Repository := m_Repository m, m_Issue := m_Issue m, m_Attempt := m_Attempt m,
            m_LaunchID := m_LaunchID m, m_CreatedAt := m_CreatedAt m, m_ReviewMode := m_ReviewMode m,
            m_ReviewTarget := m_ReviewTarget m, m_ReviewRunID := m_ReviewRunID m, m_ReviewBase := m_ReviewBase m,
            m_ReviewHead := m_ReviewHead m, m_ReviewSnapshot := m_ReviewSnapshot m,
            m_ReviewSession := m_ReviewSession m\<rparr>))])"

definition legacyRecordReleased :: "runtimeOwnerState \<Rightarrow> string \<Rightarrow> bool" where
  "legacyRecordReleased state digest \<longleftrightarrow>
     (case fmlookup (s_LegacyReviewerReleases state) digest of
        None \<Rightarrow> False
      | Some release \<Rightarrow> laterThan (lr_After release) (lr_Before release))"

definition admitLegacyReviewerQuarantine :: "runtimeOwnerState \<Rightarrow> string \<Rightarrow> string \<Rightarrow> runtimeOwnerState" where
  "admitLegacyReviewerQuarantine state issueKey diagnostic =
     state\<lparr>s_LegacyReviewerQuarantines := fmupd issueKey diagnostic (s_LegacyReviewerQuarantines state),
           s_LegacyReviewerBaselines := fmdrop issueKey (s_LegacyReviewerBaselines state)\<rparr>"

definition legacyQuarantineDiagnostic :: "runtimeOwnerState \<Rightarrow> string \<Rightarrow> string" where
  "legacyQuarantineDiagnostic state issueKey =
     (let diagnostic = fm_get (s_LegacyReviewerQuarantines state) issueKey [] in
      if diagnostic \<noteq> [] \<and> s_LegacyBootUnavailable state
      then ''legacy reviewer quarantine remains active; verified reboot recovery unavailable: restore the host boot identity source, start to persist a baseline, then reboot and start again''
      else diagnostic)"

section \<open>Effect identities\<close>

definition runtimeEffectID :: "Env \<Rightarrow> runtimeEffectIntent \<Rightarrow> string" where
  "runtimeEffectID env e =
     (let material = join_str
            [e_Action e, e_Repository e, itoa (e_Issue e), itoa (e_Attempt e), utoa (e_IssueGeneration e),
             utoa (e_AttemptGeneration e), utoa (e_IntentRevision e), utoa (e_IntentEpoch e), e_RequestDigest e,
             e_Reason e] NUL;
          extra = (if e_SupersededReviewerID e \<noteq> [] then
              NUL @ join_str [e_SupersededReviewerID e, e_SupersededReviewerMode e, e_SupersededReviewerTarget e,
                e_SupersededReviewerRunID e, utoa (e_SupersededReviewerIssueGeneration e),
                utoa (e_SupersededReviewerAttemptGeneration e)] NUL else [])
      in take 32 (v_sha env (material @ extra)))"

definition legacyEffectDigest :: "Env \<Rightarrow> runtimeEffectIntent \<Rightarrow> string" where
  "legacyEffectDigest env e =
     legacyReviewerDigest env ''effect'' (JArray
       [JString (e_ID e), JString (runtimeEffectID env e), JString (e_RequestDigest e),
        JUint (e_ReviewerSourceRevision e), JBool (e_ReviewerGateProtocol e), JInt (e_ReviewerGroupPID e),
        JString (e_ReviewerProfileDigest e), JUint (e_ReviewerConfinementVersion e),
        JInt (e_SupersededReviewerGroupPID e), JBool (e_SupersededReviewerGateProtocol e),
        JString (e_SupersededReviewerRequestDigest e), JString (e_SupersededReviewerProfileDigest e),
        JUint (e_SupersededReviewerConfinementVersion e)])"

definition legacyTombstoneDigest :: "Env \<Rightarrow> runtimeTombstone \<Rightarrow> string" where
  "legacyTombstoneDigest env t =
     legacyReviewerDigest env ''tombstone'' (JArray
       [JString (t_Repository t), JInt (t_Issue t), JInt (t_Attempt t), JUint (t_Generation t),
        JUint (t_InvalidatedGeneration t),
        JString (case t_Manifest t of None \<Rightarrow> [] | Some m \<Rightarrow> legacyManifestDigest env m (t_InvalidatedGeneration t))])"

definition revokedWorkerDigest :: "Env \<Rightarrow> Manifest \<Rightarrow> uint64 \<Rightarrow> string" where
  "revokedWorkerDigest env m revokedGeneration =
     (if m_Version m \<noteq> ManifestVersion2 \<or> m_State m \<noteq> ''cancelled'' \<or> m_LaunchID m = [] \<or>
       \<not> ValidLaunchToken (m_LaunchToken m) \<or> m_WorkerGeneration m = 0 \<or> m_WorkerGeneration m = uint64_max \<or>
       m_WorkerGeneration m + 1 \<noteq> revokedGeneration \<or> \<not> ValidEffectRequestDigest (m_WorkerProfileDigest m)
      then []
      else v_sha env (v_marshal env (JObject
        [(''Domain'', JString ''agent-symphony-revoked-worker-v1''), (''Repository'', JString (m_Repository m)),
         (''Issue'', JInt (m_Issue m)), (''Attempt'', JInt (m_Attempt m)), (''Branch'', JString (m_Branch m)),
         (''Worktree'', JString (m_Worktree m)), (''Session'', JString (m_Session m)),
         (''LaunchToken'', JString (m_LaunchToken m)), (''LaunchID'', JString (m_LaunchID m)),
         (''WorkerGeneration'', JUint (m_WorkerGeneration m)), (''RevokedGeneration'', JUint revokedGeneration),
         (''ProfileDigest'', JString (m_WorkerProfileDigest m))])))"

definition revokedWorkerCredentialCurrent :: "Env \<Rightarrow> runtimeAttemptRecord \<Rightarrow> bool" where
  "revokedWorkerCredentialCurrent env record' \<longleftrightarrow>
     (if m_LaunchID (a_Manifest record') = [] then a_WorkerAuthorityRevokedDigest record' = []
      else validDigest (a_WorkerAuthorityRevokedDigest record') \<and>
        a_WorkerAuthorityRevokedDigest record' = revokedWorkerDigest env (a_Manifest record') (a_Generation record'))"

definition revokedWorkerTombstoneCredentialCurrent :: "Env \<Rightarrow> runtimeTombstone \<Rightarrow> bool" where
  "revokedWorkerTombstoneCredentialCurrent env t \<longleftrightarrow>
     (case t_Manifest t of
        None \<Rightarrow> t_WorkerAuthorityRevokedDigest t = []
      | Some m \<Rightarrow>
          if m_LaunchID m = [] then t_WorkerAuthorityRevokedDigest t = []
          else
            let revokedGeneration = m_WorkerGeneration m + 1 in
            1 < revokedGeneration \<and> revokedGeneration \<le> t_InvalidatedGeneration t \<and>
            validDigest (t_WorkerAuthorityRevokedDigest t) \<and>
            t_WorkerAuthorityRevokedDigest t = revokedWorkerDigest env m revokedGeneration)"

definition activeWorkerProfileDigest :: "Env \<Rightarrow> runtimeOwnerState \<Rightarrow> string" where
  "activeWorkerProfileDigest env state =
     (if validDigest (s_WorkerProfileDigest state) then s_WorkerProfileDigest state else v_profile env)"

definition validateOwnerManifest :: "Env \<Rightarrow> string \<Rightarrow> Manifest \<Rightarrow> bool" where
  "validateOwnerManifest env repository m \<longleftrightarrow>
     m_Repository m = repository \<and> 1 \<le> m_Issue m \<and> 1 \<le> m_Attempt m \<and> path_is_abs (v_StateRoot env) \<and>
     ValidateManifest (v_sha env) (v_AttemptRoot env) (v_StateRoot env) m"

definition controlGeneration :: "runtimeOwnerState \<Rightarrow> string \<Rightarrow> uint64" where
  "controlGeneration state issueKey =
     (let generation = fm_get (s_ControlGenerations state) issueKey 0 in if 0 < generation then generation else 1)"

definition issueGeneration :: "runtimeOwnerState \<Rightarrow> string \<Rightarrow> int \<Rightarrow> uint64" where
  "issueGeneration state repository issue = fm_get (s_IssueGenerations state) (ownerIssueKey repository issue) 0"

definition attemptGeneration :: "runtimeOwnerState \<Rightarrow> string \<Rightarrow> int \<Rightarrow> int \<Rightarrow> uint64" where
  "attemptGeneration state repository issue attempt =
     fm_get (s_AttemptGenerations state) (ownerAttemptKey repository issue attempt) 0"

end
