(* ===== verification/Owner_Reviewers.thy ===== *)
theory Owner_Reviewers
  imports Owner_State
begin

text \<open>
  The predicates of \<^verbatim>\<open>state_owner.go\<close> about reviewer process proofs, pending effects, tombstones
  and receipts, on which the transitions base their guards, and the searches for the one pending
  reviewer, handoff or start of an attempt.
\<close>

section \<open>Zero values\<close>

definition empty_effect :: runtimeEffectIntent where
  "empty_effect =
     \<lparr>e_ID = [], e_Action = [], e_Repository = [], e_Issue = 0, e_Attempt = 0, e_IssueGeneration = 0,
      e_AttemptGeneration = 0, e_IntentEpoch = 0, e_IntentRevision = 0, e_State = [], e_Dispatched = False,
      e_GovernancePhases = [], e_RequestDigest = [], e_MachineStatusSequence = 0, e_CandidateLaunchToken = [],
      e_StartGateNonce = [], e_StartMayRun = False, e_StartCandidates = [], e_Reason = [], e_Review = None,
      e_Reconciliation = None, e_ReconciliationResult = None, e_ReviewerLaunched = False,
      e_ReviewerSourceRevision = 0, e_ReviewerGateProtocol = False, e_ReviewerSessionRequested = False,
      e_ReviewerGroupPID = 0, e_ReviewerResultDigest = [], e_ReviewerProfileDigest = [],
      e_ReviewerConfinementVersion = 0, e_ReviewerStopped = False, e_ReviewerRevoked = False,
      e_SupersededReviewerID = [], e_SupersededReviewerGroupPID = 0, e_SupersededReviewerGateProtocol = False,
      e_SupersededReviewerSessionRequested = False, e_SupersededReviewerRequestDigest = [],
      e_SupersededReviewerProfileDigest = [], e_SupersededReviewerConfinementVersion = 0,
      e_SupersededReviewerTarget = [], e_SupersededReviewerRunID = [], e_SupersededReviewerMode = [],
      e_SupersededReviewerIssueGeneration = 0, e_SupersededReviewerAttemptGeneration = 0,
      e_ReviewerCleanupDigest = [], e_Diagnostic = [], e_InvalidatedHandoff = None, e_InvalidatedStart = None,
      e_HandoffImplementation = None, e_HandoffTerminal = None\<rparr>"

definition empty_proof :: reviewerProcessProof where
  "empty_proof =
     \<lparr>p_Repository = [], p_Issue = 0, p_Attempt = 0, p_Target = [], p_RunID = [], p_Mode = [],
      p_EffectID = [], p_IssueGeneration = 0, p_AttemptGeneration = 0, p_GroupPID = 0, p_DeadProved = False,
      p_NeverRan = False, p_LegacyUnverified = False, p_ProfileDigest = [], p_ConfinementVersion = 0,
      p_Pane = None, p_TerminalBroker = None, p_BrokerPath = []\<rparr>"

definition empty_tombstone :: runtimeTombstone where
  "empty_tombstone =
     \<lparr>t_Repository = [], t_Issue = 0, t_Attempt = 0, t_Action = [], t_InvalidatedGeneration = 0,
      t_Generation = 0, t_Revision = 0, t_CleanupPhase = [], t_PublishedHead = [], t_Manifest = None,
      t_CleanupPolicy = None, t_EffectID = [], t_ReviewerLeaseID = [], t_WorkerAuthorityRevokedDigest = [],
      t_Diagnostic = [], t_InvalidatedHandoff = None, t_HandoffCompensated = False, t_InvalidatedStart = None,
      t_ExternalOutcomes = fmempty\<rparr>"

definition empty_status :: machineStatusRecord where
  "empty_status =
     \<lparr>ms_Repository = [], ms_Issue = 0, ms_Attempt = 0, ms_IssueGeneration = 0, ms_AttemptGeneration = 0,
      ms_Sequence = 0, ms_AppliedSequence = 0, ms_Source = [], ms_SourceID = [], ms_SourceSequence = 0,
      ms_Status = [], ms_Reason = []\<rparr>"

section \<open>Effects\<close>

definition e_of_attempt :: "runtimeEffectIntent \<Rightarrow> string \<Rightarrow> int \<Rightarrow> int \<Rightarrow> bool" where
  "e_of_attempt e repository issue attempt \<longleftrightarrow>
     e_Repository e = repository \<and> e_Issue e = issue \<and> e_Attempt e = attempt"

definition p_of_attempt :: "reviewerProcessProof \<Rightarrow> string \<Rightarrow> int \<Rightarrow> int \<Rightarrow> bool" where
  "p_of_attempt p repository issue attempt \<longleftrightarrow>
     p_Repository p = repository \<and> p_Issue p = issue \<and> p_Attempt p = attempt"

definition reconciliationMutatesGitHub :: "string \<Rightarrow> bool" where
  "reconciliationMutatesGitHub action \<longleftrightarrow>
     action = reconciliationGitHubBind \<or> action = reconciliationGitHubPublish \<or>
     action = reconciliationGitHubIssueUpdate \<or> action = reconciliationGitHubPRGovernance"

definition machineStatusRequest :: "reconciliationEffectRequest \<Rightarrow> bool" where
  "machineStatusRequest q \<longleftrightarrow>
     rq_Action q = reconciliationGitHubIssueUpdate \<and>
     (case rq_GitHubIssueUpdate q of None \<Rightarrow> False | Some u \<Rightarrow> gu_Kind u = githubIssueMachineStatus)"

text \<open>A pending run of a reviewer: the shape most guards look for.\<close>

definition run_observe :: "runtimeEffectIntent \<Rightarrow> reviewerEffectRequest option" where
  "run_observe e =
     (case e_Reconciliation e of
        None \<Rightarrow> None
      | Some q \<Rightarrow>
          if rq_Action q \<noteq> reconciliationReviewer then None
          else (case rq_Reviewer q of
                  None \<Rightarrow> None
                | Some v \<Rightarrow> if rv_Phase v = ''run-observe'' then Some v else None))"

definition issueHasPendingReviewer :: "runtimeOwnerState \<Rightarrow> string \<Rightarrow> int \<Rightarrow> bool" where
  "issueHasPendingReviewer state repository issue \<longleftrightarrow>
     fm_ex (\<lambda>_ e. e_Repository e = repository \<and> e_Issue e = issue \<and> e_State e = ''pending'' \<and>
       run_observe e \<noteq> None) (s_Effects state)"

definition effectReferencedByReceipt :: "runtimeOwnerState \<Rightarrow> string \<Rightarrow> bool" where
  "effectReferencedByReceipt state effectID \<longleftrightarrow> list_ex (\<lambda>r. r_EffectID r = effectID) (s_ControlReceipts state)"

definition tombstoneReferencesEffect :: "runtimeOwnerState \<Rightarrow> string \<Rightarrow> bool" where
  "tombstoneReferencesEffect state effectID \<longleftrightarrow> fm_ex (\<lambda>_ t. t_EffectID t = effectID) (s_Tombstones state)"

definition effectAuthorizedByTombstone :: "runtimeOwnerState \<Rightarrow> runtimeEffectIntent \<Rightarrow> bool" where
  "effectAuthorizedByTombstone state e \<longleftrightarrow>
     (case fmlookup (s_Tombstones state) (ownerAttemptKey (e_Repository e) (e_Issue e) (e_Attempt e)) of
        None \<Rightarrow> False
      | Some t \<Rightarrow> t_EffectID t = e_ID e \<and> t_Generation t = e_AttemptGeneration e)"

definition invalidatedExternalEffect :: "runtimeOwnerState \<Rightarrow> runtimeEffectIntent \<Rightarrow> bool" where
  "invalidatedExternalEffect state e \<longleftrightarrow>
     (case e_Reconciliation e of
        None \<Rightarrow> False
      | Some q \<Rightarrow>
          if \<not> e_Dispatched e \<or> e_State e \<noteq> ''invalidated'' \<and> e_State e \<noteq> ''invalidated-resolved'' then False
          else if e_Attempt e = 0 then
            (case rq_GitHubIssueUpdate q of
               Some u \<Rightarrow>
                 if gu_Kind u = githubIssueMachineStatus then
                   (case fmlookup (s_MachineStatuses state) (ownerIssueKey (e_Repository e) (e_Issue e)) of
                      None \<Rightarrow> False
                    | Some status \<Rightarrow> gu_StatusSequence u < ms_Sequence status)
                 else rq_ControlGeneration q < controlGeneration state (ownerIssueKey (e_Repository e) (e_Issue e))
             | None \<Rightarrow> rq_ControlGeneration q < controlGeneration state (ownerIssueKey (e_Repository e) (e_Issue e)))
          else
            (case fmlookup (s_Tombstones state) (ownerAttemptKey (e_Repository e) (e_Issue e) (e_Attempt e)) of
               None \<Rightarrow> False
             | Some t \<Rightarrow> t_InvalidatedGeneration t = e_AttemptGeneration e))"

definition unresolvedExternalEffect :: "runtimeEffectIntent \<Rightarrow> bool" where
  "unresolvedExternalEffect e \<longleftrightarrow>
     e_State e = ''invalidated'' \<and> e_Dispatched e \<and>
     (case e_Reconciliation e of None \<Rightarrow> False | Some q \<Rightarrow> reconciliationMutatesGitHub (rq_Action q))"

definition issueHasUnresolvedExternalEffect :: "runtimeOwnerState \<Rightarrow> string \<Rightarrow> int \<Rightarrow> bool" where
  "issueHasUnresolvedExternalEffect state repository issue \<longleftrightarrow>
     fm_ex (\<lambda>_ e. e_Repository e = repository \<and> e_Issue e = issue \<and> unresolvedExternalEffect e) (s_Effects state)"

definition hasAttemptEffect :: "runtimeOwnerState \<Rightarrow> string \<Rightarrow> int \<Rightarrow> int \<Rightarrow> bool" where
  "hasAttemptEffect state repository issue attempt \<longleftrightarrow>
     fm_ex (\<lambda>_ e. e_of_attempt e repository issue attempt) (s_Effects state)"

definition reconciliationEffectIdentityMatches :: "runtimeEffectIntent \<Rightarrow> stateResultIdentity \<Rightarrow> bool" where
  "reconciliationEffectIdentityMatches e identity \<longleftrightarrow>
     (let runID = (case e_Reconciliation e of None \<Rightarrow> []
          | Some q \<Rightarrow> (case rq_Reviewer q of None \<Rightarrow> [] | Some v \<Rightarrow> rv_RunID v)) in
      id_Epoch identity = e_IntentEpoch e \<and> id_SourceRevision identity = e_IntentRevision e \<and>
      id_IssueGeneration identity = e_IssueGeneration e \<and>
      id_AttemptGeneration identity = e_AttemptGeneration e \<and>
      id_RequestDigest identity = e_RequestDigest e \<and> id_ReviewRunID identity = runID)"

text \<open>The same comparison without the reviewer run, as the runtime transitions write it out.\<close>

definition effect_identity_matches :: "runtimeEffectIntent \<Rightarrow> stateResultIdentity \<Rightarrow> bool" where
  "effect_identity_matches e identity \<longleftrightarrow>
     e_IntentEpoch e = id_Epoch identity \<and> e_IntentRevision e = id_SourceRevision identity \<and>
     e_IssueGeneration e = id_IssueGeneration identity \<and>
     e_AttemptGeneration e = id_AttemptGeneration identity \<and> e_RequestDigest e = id_RequestDigest identity"

section \<open>Reviewer proofs\<close>

definition reviewerCleanupAuthorized :: "reviewerProcessProof \<Rightarrow> bool" where
  "reviewerCleanupAuthorized p \<longleftrightarrow>
     p_DeadProved p \<and>
     (p_NeverRan p \<and> p_GroupPID p = 0 \<or>
      validDigest (p_RunID p) \<and> 2 \<le> p_GroupPID p \<and> \<not> p_LegacyUnverified p \<and> validDigest (p_ProfileDigest p) \<and>
      p_ConfinementVersion p = reviewerConfinementVersion)"

definition reviewerProofMatchesSuperseded :: "runtimeEffectIntent \<Rightarrow> reviewerProcessProof \<Rightarrow> bool" where
  "reviewerProofMatchesSuperseded e p \<longleftrightarrow>
     e_SupersededReviewerID e \<noteq> [] \<and> p_EffectID p = e_SupersededReviewerID e \<and>
     p_RunID p = e_SupersededReviewerRunID e \<and> p_Mode p = e_SupersededReviewerMode e \<and>
     p_Target p = e_SupersededReviewerTarget e \<and>
     p_IssueGeneration p = e_SupersededReviewerIssueGeneration e \<and>
     p_AttemptGeneration p = e_SupersededReviewerAttemptGeneration e \<and>
     p_GroupPID p = e_SupersededReviewerGroupPID e \<and>
     p_ProfileDigest p = e_SupersededReviewerProfileDigest e \<and>
     p_ConfinementVersion p = e_SupersededReviewerConfinementVersion e"

definition sameReviewerProofIdentity :: "reviewerProcessProof \<Rightarrow> reviewerProcessProof \<Rightarrow> bool" where
  "sameReviewerProofIdentity left right \<longleftrightarrow>
     p_Repository left = p_Repository right \<and> p_Issue left = p_Issue right \<and> p_Attempt left = p_Attempt right \<and>
     p_Mode left = p_Mode right \<and> p_Target left = p_Target right \<and> p_RunID left = p_RunID right \<and>
     p_EffectID left = p_EffectID right \<and> p_IssueGeneration left = p_IssueGeneration right \<and>
     p_AttemptGeneration left = p_AttemptGeneration right \<and> p_GroupPID left = p_GroupPID right \<and>
     p_ProfileDigest left = p_ProfileDigest right \<and> p_ConfinementVersion left = p_ConfinementVersion right"

definition issueHasUnprovedReviewer :: "runtimeOwnerState \<Rightarrow> string \<Rightarrow> int \<Rightarrow> bool" where
  "issueHasUnprovedReviewer state repository issue \<longleftrightarrow>
     fm_get (s_LegacyReviewerQuarantines state) (ownerIssueKey repository issue) [] \<noteq> [] \<or>
     fm_ex (\<lambda>_ p. p_Repository p = repository \<and> p_Issue p = issue \<and> \<not> reviewerCleanupAuthorized p)
       (s_ReviewerProofs state)"

definition unconfined_proof :: "Env \<Rightarrow> runtimeOwnerState \<Rightarrow> reviewerProcessProof \<Rightarrow> bool" where
  "unconfined_proof env state p \<longleftrightarrow>
     \<not> p_NeverRan p \<and> \<not> reviewerCleanupAuthorized p \<and>
     (p_LegacyUnverified p \<or> \<not> validDigest (p_RunID p) \<or> p_ProfileDigest p \<noteq> activeWorkerProfileDigest env state)"

definition issueHasUnconfinedReviewer :: "Env \<Rightarrow> runtimeOwnerState \<Rightarrow> string \<Rightarrow> int \<Rightarrow> bool" where
  "issueHasUnconfinedReviewer env state repository issue \<longleftrightarrow>
     fm_get (s_LegacyReviewerQuarantines state) (ownerIssueKey repository issue) [] \<noteq> [] \<or>
     fm_ex (\<lambda>_ p. p_Repository p = repository \<and> p_Issue p = issue \<and> unconfined_proof env state p)
       (s_ReviewerProofs state)"

definition attemptHasUnprovedReviewer :: "runtimeOwnerState \<Rightarrow> string \<Rightarrow> int \<Rightarrow> int \<Rightarrow> bool" where
  "attemptHasUnprovedReviewer state repository issue attempt \<longleftrightarrow>
     fm_get (s_LegacyReviewerQuarantines state) (ownerIssueKey repository issue) [] \<noteq> [] \<or>
     fm_ex (\<lambda>_ p. p_of_attempt p repository issue attempt \<and> \<not> reviewerCleanupAuthorized p) (s_ReviewerProofs state)"

definition attemptHasReviewerProof :: "runtimeOwnerState \<Rightarrow> string \<Rightarrow> int \<Rightarrow> int \<Rightarrow> bool" where
  "attemptHasReviewerProof state repository issue attempt \<longleftrightarrow>
     fm_ex (\<lambda>_ p. p_of_attempt p repository issue attempt) (s_ReviewerProofs state)"

definition attemptHasUnconfinedReviewer :: "Env \<Rightarrow> runtimeOwnerState \<Rightarrow> string \<Rightarrow> int \<Rightarrow> int \<Rightarrow> bool" where
  "attemptHasUnconfinedReviewer env state repository issue attempt \<longleftrightarrow>
     fm_ex (\<lambda>_ p. p_of_attempt p repository issue attempt \<and> unconfined_proof env state p) (s_ReviewerProofs state)"

definition reviewerAdmissionBlocked :: "Env \<Rightarrow> runtimeOwnerState \<Rightarrow> reconciliationEffectRequest \<Rightarrow> bool" where
  "reviewerAdmissionBlocked env state q \<longleftrightarrow>
     (case rq_Reviewer q of
        None \<Rightarrow> True
      | Some v \<Rightarrow>
          issueHasUnconfinedReviewer env state (rq_Repository q) (rq_Issue q) \<or>
          (case fmlookup (s_ReviewerProofs state)
              (reviewerProofKey (rq_Repository q) (rq_Issue q) (rq_Attempt q) (rv_Mode v) (rv_Target v)) of
             None \<Rightarrow> False
           | Some p \<Rightarrow> \<not> p_NeverRan p \<and> \<not> p_DeadProved p))"

definition pendingReviewerDeathUnproved :: "runtimeOwnerState \<Rightarrow> runtimeEffectIntent \<Rightarrow> bool" where
  "pendingReviewerDeathUnproved state e \<longleftrightarrow>
     e_State e = ''pending'' \<and>
     (case run_observe e of
        None \<Rightarrow> False
      | Some v \<Rightarrow>
          (case fmlookup (s_ReviewerProofs state)
              (reviewerProofKey (e_Repository e) (e_Issue e) (e_Attempt e) (rv_Mode v) (rv_Target v)) of
             None \<Rightarrow> True
           | Some p \<Rightarrow> p_EffectID p \<noteq> e_ID e \<or> p_RunID p \<noteq> rv_RunID v \<or> \<not> p_DeadProved p))"

text \<open>The proofs of one attempt, in the order of their keys.\<close>

definition attemptReviewerProofs :: "runtimeOwnerState \<Rightarrow> string \<Rightarrow> int \<Rightarrow> int \<Rightarrow> reviewerProcessProof list" where
  "attemptReviewerProofs state repository issue attempt =
     map snd (fm_entries (\<lambda>ks. ks)
       (fm_keep (\<lambda>_ p. p_of_attempt p repository issue attempt) (s_ReviewerProofs state)))"

definition reviewerProofSetDigest :: "Env \<Rightarrow> reviewerProcessProof list \<Rightarrow> string" where
  "reviewerProofSetDigest env proofs = v_sha env (v_marshal env (JArray (map (v_json_proof env) proofs)))"

definition stop_proof_blocks :: "runtimeEffectIntent \<Rightarrow> reviewerProcessProof \<Rightarrow> bool" where
  "stop_proof_blocks e p \<longleftrightarrow>
     p_AttemptGeneration p = 0 \<or> e_AttemptGeneration e \<le> p_AttemptGeneration p \<or> \<not> reviewerCleanupAuthorized p \<or>
     p_EffectID p = e_SupersededReviewerID e \<and> \<not> reviewerProofMatchesSuperseded e p"

definition effectReviewerCleanupBlocked :: "Env \<Rightarrow> runtimeOwnerState \<Rightarrow> runtimeEffectIntent \<Rightarrow> bool" where
  "effectReviewerCleanupBlocked env state e \<longleftrightarrow>
     (if fm_get (s_LegacyReviewerQuarantines state) (ownerIssueKey (e_Repository e) (e_Issue e)) [] \<noteq> [] then True
      else if e_Action e = EffectStop then
        if e_SupersededReviewerID e \<noteq> [] \<and> \<not> e_ReviewerStopped e then True
        else
          let proofs = attemptReviewerProofs state (e_Repository e) (e_Issue e) (e_Attempt e);
              resources = (case fmlookup (s_Attempts state)
                  (ownerAttemptKey (e_Repository e) (e_Issue e) (e_Attempt e)) of
                 None \<Rightarrow> False
               | Some a \<Rightarrow> m_ReviewRunID (a_Manifest a) \<noteq> [] \<or> m_ReviewSnapshot (a_Manifest a) \<noteq> [] \<or>
                   m_ReviewSession (a_Manifest a) \<noteq> []);
              digest = e_ReviewerCleanupDigest e in
          (proofs \<noteq> [] \<or> resources) \<and> (digest = [] \<or> digest \<noteq> reviewerProofSetDigest env proofs) \<or>
          digest \<noteq> [] \<and> digest \<noteq> reviewerProofSetDigest env proofs \<or>
          list_ex (stop_proof_blocks e) proofs
      else
        let bound = (if e_Action e = EffectCleanup then
              (case fmlookup (s_Tombstones state) (ownerAttemptKey (e_Repository e) (e_Issue e) (e_Attempt e)) of
                 None \<Rightarrow> None
               | Some t \<Rightarrow>
                   if t_EffectID t \<noteq> e_ID e \<or> t_Generation t \<noteq> e_AttemptGeneration e \<or>
                     t_InvalidatedGeneration t + 1 \<noteq> t_Generation t then None
                   else Some (t_InvalidatedGeneration t))
            else Some (e_AttemptGeneration e)) in
        case bound of
          None \<Rightarrow> True
        | Some expected \<Rightarrow>
            fm_ex (\<lambda>_ p. p_of_attempt p (e_Repository e) (e_Issue e) (e_Attempt e) \<and>
                (p_AttemptGeneration p = 0 \<or> expected < p_AttemptGeneration p \<or> \<not> reviewerCleanupAuthorized p))
              (s_ReviewerProofs state))"

section \<open>The pending effects of one attempt\<close>

fun select_reviewer ::
  "uint64 \<Rightarrow> uint64 \<Rightarrow> runtimeEffectIntent option \<Rightarrow> runtimeEffectIntent list \<Rightarrow> runtimeEffectIntent option owner_result" where
  "select_reviewer issueGen attemptGen selected [] = Inr selected"
| "select_reviewer issueGen attemptGen selected (e # es) =
     (if (case selected of None \<Rightarrow> False | Some s \<Rightarrow> e_ID s \<noteq> []) \<or>
        e_IssueGeneration e \<noteq> issueGen \<or> e_AttemptGeneration e \<noteq> attemptGen
      then Inl StateConflict
      else select_reviewer issueGen attemptGen (Some e) es)"

definition pendingReviewerEffect ::
  "Env \<Rightarrow> runtimeOwnerState \<Rightarrow> string \<Rightarrow> int \<Rightarrow> int \<Rightarrow> runtimeEffectIntent option owner_result" where
  "pendingReviewerEffect env state repository issue attempt =
     select_reviewer (issueGeneration state repository issue) (attemptGeneration state repository issue attempt) None
       (filter (\<lambda>e. e_of_attempt e repository issue attempt \<and> e_State e = ''pending'' \<and> run_observe e \<noteq> None)
         (map snd (fm_entries (v_order env) (s_Effects state))))"

definition effect_id :: "runtimeEffectIntent option \<Rightarrow> string" where
  "effect_id selected = (case selected of None \<Rightarrow> [] | Some e \<Rightarrow> e_ID e)"

definition bindSupersededReviewer :: "runtimeEffectIntent \<Rightarrow> runtimeEffectIntent option \<Rightarrow> runtimeEffectIntent" where
  "bindSupersededReviewer effect selected =
     (case selected of
        None \<Rightarrow> effect
      | Some r \<Rightarrow>
          if e_ID r = [] then effect
          else
            let v = (case e_Reconciliation r of None \<Rightarrow> None | Some q \<Rightarrow> rq_Reviewer q) in
            effect\<lparr>
              e_SupersededReviewerID := e_ID r,
              e_SupersededReviewerGroupPID := e_ReviewerGroupPID r,
              e_SupersededReviewerGateProtocol := e_ReviewerGateProtocol r,
              e_SupersededReviewerSessionRequested := e_ReviewerSessionRequested r,
              e_SupersededReviewerRequestDigest := e_RequestDigest r,
              e_SupersededReviewerProfileDigest := e_ReviewerProfileDigest r,
              e_SupersededReviewerConfinementVersion := e_ReviewerConfinementVersion r,
              e_SupersededReviewerMode := (case v of None \<Rightarrow> [] | Some w \<Rightarrow> rv_Mode w),
              e_SupersededReviewerTarget := (case v of None \<Rightarrow> [] | Some w \<Rightarrow> rv_Target w),
              e_SupersededReviewerRunID := (case v of None \<Rightarrow> [] | Some w \<Rightarrow> rv_RunID w),
              e_SupersededReviewerIssueGeneration := e_IssueGeneration r,
              e_SupersededReviewerAttemptGeneration := e_AttemptGeneration r\<rparr>)"

definition handoff_candidate :: "runtimeEffectIntent \<Rightarrow> (Manifest \<times> handoffEffectRequest) option" where
  "handoff_candidate e =
     (case e_Reconciliation e of
        None \<Rightarrow> None
      | Some q \<Rightarrow>
          (case (rq_Manifest q, rq_Handoff q) of
             (Some m, Some h) \<Rightarrow> if m_Version m = ManifestVersion2 then Some (m, h) else None
           | _ \<Rightarrow> None))"

fun select_handoff ::
  "handoffCandidateInvalidation option \<Rightarrow> runtimeEffectIntent list \<Rightarrow> handoffCandidateInvalidation option owner_result" where
  "select_handoff candidate [] = Inr candidate"
| "select_handoff candidate (e # es) =
     (case handoff_candidate e of
        None \<Rightarrow> select_handoff candidate es
      | Some (m, h) \<Rightarrow>
          if candidate \<noteq> None \<or> \<not> ValidLaunchToken (hf_CandidateLaunchToken h) then Inl StateConflict
          else select_handoff (Some
            \<lparr>hc_EffectID = e_ID e, hc_Token = hf_CandidateLaunchToken h, hc_Key = hf_Key h, hc_Manifest = m,
             hc_Implementation = e_HandoffImplementation e, hc_Terminal = e_HandoffTerminal e\<rparr>) es)"

definition pendingHandoffCandidate ::
  "Env \<Rightarrow> runtimeOwnerState \<Rightarrow> string \<Rightarrow> int \<Rightarrow> int \<Rightarrow> handoffCandidateInvalidation option owner_result" where
  "pendingHandoffCandidate env state repository issue attempt =
     select_handoff None
       (filter (\<lambda>e. e_State e = ''pending'' \<and> e_Action e = reconciliationHandoffDeliver \<and>
           e_of_attempt e repository issue attempt)
         (map snd (fm_entries (v_order env) (s_Effects state))))"

fun select_start ::
  "Manifest \<Rightarrow> startCandidateInvalidation option \<Rightarrow> runtimeEffectIntent list \<Rightarrow> startCandidateInvalidation option owner_result" where
  "select_start manifest candidate [] = Inr candidate"
| "select_start manifest candidate (e # es) =
     (if candidate \<noteq> None \<or> m_Version manifest \<noteq> ManifestVersion2 then Inl StateConflict
      else
        let gates = (if e_StartCandidates e = [] then [\<lparr>sg_Nonce = e_ID e, sg_MayRun = True\<rparr>]
                     else e_StartCandidates e) in
        select_start manifest (Some \<lparr>sc_EffectID = e_ID e, sc_Manifest = manifest, sc_Candidates = gates\<rparr>) es)"

definition pendingStartCandidate ::
  "Env \<Rightarrow> runtimeOwnerState \<Rightarrow> Manifest \<Rightarrow> startCandidateInvalidation option owner_result" where
  "pendingStartCandidate env state manifest =
     select_start manifest None
       (filter (\<lambda>e. e_State e = ''pending'' \<and> e_Action e = EffectStart \<and>
           e_of_attempt e (m_Repository manifest) (m_Issue manifest) (m_Attempt manifest))
         (map snd (fm_entries (v_order env) (s_Effects state))))"

section \<open>Start and handoff candidates\<close>

fun start_candidates_ok :: "string list \<Rightarrow> startGateCandidate list \<Rightarrow> bool" where
  "start_candidates_ok seen [] = True"
| "start_candidates_ok seen (c # cs) \<longleftrightarrow>
     \<not> (\<not> ValidLaunchToken (sg_Nonce c) \<or> sg_Nonce c \<in> set seen \<or> sg_MayRun c \<and> cs \<noteq> []) \<and>
     start_candidates_ok (sg_Nonce c # seen) cs"

definition validStartCandidates :: "startGateCandidate list \<Rightarrow> bool" where
  "validStartCandidates candidates \<longleftrightarrow> candidates \<noteq> [] \<and> start_candidates_ok [] candidates"

definition validStartCandidateInvalidation :: "startCandidateInvalidation \<Rightarrow> Manifest \<Rightarrow> bool" where
  "validStartCandidateInvalidation c manifest \<longleftrightarrow>
     ValidLaunchToken (sc_EffectID c) \<and> m_Version (sc_Manifest c) = ManifestVersion2 \<and>
     sameAttemptIdentity (sc_Manifest c) manifest \<and> m_LaunchToken (sc_Manifest c) = m_LaunchToken manifest \<and>
     m_LaunchID (sc_Manifest c) = m_LaunchID manifest \<and> validStartCandidates (sc_Candidates c)"

definition validHandoffCandidateInvalidation ::
  "(string \<Rightarrow> string) \<Rightarrow> handoffCandidateInvalidation \<Rightarrow> Manifest \<Rightarrow> bool" where
  "validHandoffCandidateInvalidation sha c manifest \<longleftrightarrow>
     (if \<not> (hex_bytes 16 (hc_EffectID c) \<and> ValidLaunchToken (hc_Token c) \<and> hc_Token c \<noteq> m_LaunchToken manifest \<and>
          hc_Key c \<noteq> [] \<and> path_base (hc_Key c) = hc_Key c \<and>
          \<not> contains_any (hc_Key c) (CHR ''/'' # char_of (92::nat) # line_breaks) \<and>
          m_Version (hc_Manifest c) = ManifestVersion2 \<and> sameAttemptIdentity (hc_Manifest c) manifest \<and>
          m_LaunchToken (hc_Manifest c) = m_LaunchToken manifest \<and> m_LaunchID (hc_Manifest c) = m_LaunchID manifest)
      then False
      else case (hc_Implementation c, hc_Terminal c) of
        (None, None) \<Rightarrow> True
      | (Some i, Some t) \<Rightarrow>
          bound_pair sha ((hc_Manifest c)\<lparr>m_LaunchToken := hc_Token c, m_LaunchID := hc_EffectID c\<rparr>) i t
      | _ \<Rightarrow> False)"

end
