(* ===== verification/Owner_Status.thy ===== *)
theory Owner_Status
  imports Owner_Reviewers
begin

text \<open>
  The pieces from which the attempt transitions of \<^verbatim>\<open>state_owner.go\<close> are built: machine-status
  admission (\<^verbatim>\<open>applyAdmitMachineStatus\<close>), the deletion, pruning and invalidation of effects,
  observations and recoveries, and the invalidation of the control snapshot.  The lemmas give the
  order of machine statuses and what happens to each single effect.
\<close>

section \<open>Deleting and invalidating effects\<close>

definition deleteIssueRecoveries :: "runtimeOwnerState \<Rightarrow> string \<Rightarrow> int \<Rightarrow> runtimeOwnerState" where
  "deleteIssueRecoveries state repository issue =
     state\<lparr>s_Recoveries := fm_keep (\<lambda>k _. case parseOwnerAttemptKey k of (repo, number, _, ok) \<Rightarrow>
         \<not> (ok \<and> repo = repository \<and> number = issue)) (s_Recoveries state)\<rparr>"

definition deleteAttemptEffects :: "runtimeOwnerState \<Rightarrow> string \<Rightarrow> int \<Rightarrow> int \<Rightarrow> runtimeOwnerState" where
  "deleteAttemptEffects state repository issue attempt =
     state\<lparr>s_Effects := fm_keep (\<lambda>k e. \<not> (\<not> effectReferencedByReceipt state k \<and> e_of_attempt e repository issue attempt))
       (s_Effects state)\<rparr>"

definition mutating_effect :: "runtimeEffectIntent \<Rightarrow> bool" where
  "mutating_effect e \<longleftrightarrow>
     (case e_Reconciliation e of None \<Rightarrow> False | Some q \<Rightarrow> reconciliationMutatesGitHub (rq_Action q))"

definition invalidated_effect ::
  "runtimeOwnerState \<Rightarrow> string \<Rightarrow> int \<Rightarrow> int \<Rightarrow> string \<Rightarrow> runtimeEffectIntent \<Rightarrow> runtimeEffectIntent option" where
  "invalidated_effect state repository issue attempt k e =
     (if effectReferencedByReceipt state k \<or> \<not> e_of_attempt e repository issue attempt then Some e
      else if mutating_effect e \<and> e_State e = ''pending'' \<and> e_Dispatched e
      then Some (e\<lparr>e_State := ''invalidated'', e_Diagnostic := []\<rparr>)
      else None)"

definition invalidateAttemptEffects :: "runtimeOwnerState \<Rightarrow> string \<Rightarrow> int \<Rightarrow> int \<Rightarrow> runtimeOwnerState" where
  "invalidateAttemptEffects state repository issue attempt =
     state\<lparr>s_Effects := fm_step (invalidated_effect state repository issue attempt) (s_Effects state)\<rparr>"

text \<open>An effect of an older issue generation that neither a tombstone nor an invalidated external
  outcome keeps alive.\<close>

definition superseded_effect ::
  "runtimeOwnerState \<Rightarrow> string \<Rightarrow> int \<Rightarrow> uint64 \<Rightarrow> runtimeEffectIntent \<Rightarrow> bool" where
  "superseded_effect state repository issue nextGeneration e \<longleftrightarrow>
     e_Repository e = repository \<and> e_Issue e = issue \<and> e_IssueGeneration e < nextGeneration \<and>
     \<not> effectAuthorizedByTombstone state e \<and> \<not> invalidatedExternalEffect state e"

definition pruneSupersededIssueEffects ::
  "runtimeOwnerState \<Rightarrow> string \<Rightarrow> int \<Rightarrow> uint64 \<Rightarrow> runtimeOwnerState owner_result" where
  "pruneSupersededIssueEffects state repository issue nextGeneration =
     (if fm_ex (\<lambda>k e. superseded_effect state repository issue nextGeneration e \<and>
          (if effectReferencedByReceipt state k then e_State e = ''pending'' else pendingReviewerDeathUnproved state e))
        (s_Effects state)
      then Inl StateConflict
      else Inr (state\<lparr>s_Effects := fm_keep (\<lambda>k e. \<not> superseded_effect state repository issue nextGeneration e \<or>
          effectReferencedByReceipt state k) (s_Effects state)\<rparr>))"

definition pruneCompletedAttemptEffects :: "runtimeOwnerState \<Rightarrow> string \<Rightarrow> int \<Rightarrow> int \<Rightarrow> runtimeOwnerState" where
  "pruneCompletedAttemptEffects state repository issue attempt =
     (let tombstoneEffect = (case fmlookup (s_Tombstones state) (ownerAttemptKey repository issue attempt) of
          None \<Rightarrow> [] | Some t \<Rightarrow> t_EffectID t) in
      state\<lparr>s_Effects := fm_keep (\<lambda>k e. \<not> (k \<noteq> tombstoneEffect \<and> \<not> effectReferencedByReceipt state k \<and>
          e_of_attempt e repository issue attempt \<and> e_State e = ''completed'')) (s_Effects state)\<rparr>)"

section \<open>Observations\<close>

definition dependency_clear_of :: "int \<Rightarrow> reconciliationIssueUpdateProposal \<Rightarrow> bool" where
  "dependency_clear_of attempt u \<longleftrightarrow> up_Kind u = githubIssueDependencyClear \<and> up_AttributionAttempt u = attempt"

definition forget_attempt_facts :: "reconciliationObservation \<Rightarrow> string \<Rightarrow> int \<Rightarrow> int \<Rightarrow> reconciliationObservation" where
  "forget_attempt_facts o' repository issue attempt =
     (let fact = ob_Fact o';
          active = (case fi_ActiveAttempt fact of
              None \<Rightarrow> None | Some f \<Rightarrow> if af_Attempt f = attempt then None else Some f) in
      o'\<lparr>ob_Attempts := fmdrop (ownerAttemptKey repository issue attempt) (ob_Attempts o'),
         ob_Fact := fact\<lparr>fi_ActiveAttempt := active,
           fi_TerminalAttempts := filter (\<lambda>f. af_Attempt f \<noteq> attempt) (fi_TerminalAttempts fact)\<rparr>\<rparr>)"

definition dependency_clear_effect :: "string \<Rightarrow> int \<Rightarrow> int \<Rightarrow> runtimeEffectIntent \<Rightarrow> bool" where
  "dependency_clear_effect repository issue attempt e \<longleftrightarrow>
     e_State e = ''pending'' \<and>
     (case e_Reconciliation e of
        None \<Rightarrow> False
      | Some q \<Rightarrow>
          (case rq_GitHubIssueUpdate q of
             None \<Rightarrow> False
           | Some u \<Rightarrow> rq_Repository q = repository \<and> rq_Issue q = issue \<and>
               gu_Kind u = githubIssueDependencyClear \<and> gu_AttributionAttempt u = attempt))"

definition deleteAttemptObservation ::
  "Env \<Rightarrow> runtimeOwnerState \<Rightarrow> string \<Rightarrow> int \<Rightarrow> int \<Rightarrow> runtimeOwnerState owner_result" where
  "deleteAttemptObservation env state repository issue attempt =
     (let k = ownerIssueKey repository issue in
      case fmlookup (s_Observations state) k of
        None \<Rightarrow> Inr state
      | Some observation \<Rightarrow>
          let o1 = forget_attempt_facts observation repository issue attempt;
              updates = filter (\<lambda>u. \<not> dependency_clear_of attempt u) (ob_IssueUpdates o1) in
          if length updates \<noteq> length (ob_IssueUpdates o1) then
            if ob_Generation o1 = uint64_max then Inl (OtherError ''issue observation generation overflow'')
            else
              let o2 = o1\<lparr>ob_Generation := ob_Generation o1 + 1, ob_IssueUpdates := updates, ob_Attempts := fmempty,
                    ob_InputDigest := v_sha env (v_marshal env (JObject
                      [(''Fact'', v_json_fact env (ob_Fact o1)),
                       (''Updates'', JArray (map (v_json_proposal env) updates))]))\<rparr> in
              Inr (state\<lparr>s_Effects := fm_keep (\<lambda>_ e. \<not> dependency_clear_effect repository issue attempt e) (s_Effects state),
                         s_Observations := fmupd k o2 (s_Observations state)\<rparr>)
          else Inr (state\<lparr>s_Observations := fmupd k o1 (s_Observations state)\<rparr>))"

section \<open>Control snapshots\<close>

definition snapshot_effect :: "string \<Rightarrow> runtimeEffectIntent \<Rightarrow> githubIssueUpdateEffectRequest option" where
  "snapshot_effect issueKey e =
     (case e_Reconciliation e of
        None \<Rightarrow> None
      | Some q \<Rightarrow>
          if e_State e \<noteq> ''pending'' \<or> ownerIssueKey (e_Repository e) (e_Issue e) \<noteq> issueKey \<or>
            rq_Action q \<noteq> reconciliationGitHubIssueUpdate then None
          else (case rq_GitHubIssueUpdate q of
                  None \<Rightarrow> None
                | Some u \<Rightarrow> if gu_Kind u = githubIssueControlSnapshot then Some u else None))"

definition latest_body :: "string \<Rightarrow> string \<Rightarrow> runtimeEffectIntent list \<Rightarrow> string" where
  "latest_body issueKey body es =
     foldl (\<lambda>b e. case snapshot_effect issueKey e of
         None \<Rightarrow> b
       | Some u \<Rightarrow> if gu_ControlSnapshotBody u \<noteq> [] then gu_ControlSnapshotBody u else b) body es"

definition invalidateControlSnapshot :: "Env \<Rightarrow> runtimeOwnerState \<Rightarrow> string \<Rightarrow> runtimeOwnerState" where
  "invalidateControlSnapshot env state issueKey =
     (let generation = controlGeneration state issueKey + 1;
          stored = (case fmlookup (s_ControlRepairs state) issueKey of None \<Rightarrow> [] | Some r \<Rightarrow> sr_Body r);
          body = latest_body issueKey stored (map snd (fm_entries (v_order env) (s_Effects state)));
          effects = fm_step (\<lambda>_ e. case snapshot_effect issueKey e of
              None \<Rightarrow> Some e
            | Some _ \<Rightarrow> if e_Dispatched e then Some (e\<lparr>e_State := ''invalidated''\<rparr>) else None) (s_Effects state);
          s1 = state\<lparr>s_ControlGenerations := fmupd issueKey generation (s_ControlGenerations state),
                     s_Effects := effects\<rparr> in
      if body = [] then s1
      else case ParseSnapshotComment (v_decode_snapshot env) body 1 1 of
        None \<Rightarrow> s1
      | Some snapshot \<Rightarrow>
          s1\<lparr>s_ControlRepairs := fmupd issueKey \<lparr>sr_Generation = generation,
            sr_Body = SnapshotComment (v_marshal env) (v_json_snapshot env) (snapshot\<lparr>sn_OwnerGeneration := generation\<rparr>)\<rparr>
            (s_ControlRepairs s1)\<rparr>)"

section \<open>Machine status\<close>

definition status_sources :: "string list" where
  "status_sources = [''worker'', ''dependency'', ''orchestrator'', ''destructive'']"

definition status_of :: "runtimeOwnerState \<Rightarrow> string \<Rightarrow> int \<Rightarrow> machineStatusRecord" where
  "status_of state repository issue = fm_get (s_MachineStatuses state) (ownerIssueKey repository issue) empty_status"

definition admission_malformed :: "runtimeOwnerState \<Rightarrow> admitMachineStatusCommand \<Rightarrow> bool" where
  "admission_malformed state c \<longleftrightarrow>
     am_Repository c \<noteq> s_Repository state \<or> am_Issue c < 1 \<or> am_Attempt c < 1 \<or>
     issueGeneration state (am_Repository c) (am_Issue c) \<noteq> am_ExpectedIssueGeneration c \<or>
     am_ExpectedIssueGeneration c = 0 \<or> am_Source c \<notin> set status_sources \<or>
     \<not> boundedText (am_SourceID c) 128 True \<or>
     am_Source c = ''worker'' \<and> am_SourceSequence c = 0 \<or> am_Source c \<noteq> ''worker'' \<and> am_SourceSequence c \<noteq> 0 \<or>
     am_Status c \<notin> {''needs-attention'', ''clear''} \<or> \<not> boundedText (am_Reason c) 1024 True"

definition admission_unbound :: "runtimeOwnerState \<Rightarrow> admitMachineStatusCommand \<Rightarrow> bool" where
  "admission_unbound state c \<longleftrightarrow>
     (let attemptGen = attemptGeneration state (am_Repository c) (am_Issue c) (am_Attempt c) in
      if am_Source c = ''dependency'' then
        (case fmlookup (s_Observations state) (ownerIssueKey (am_Repository c) (am_Issue c)) of
           None \<Rightarrow> True
         | Some observation \<Rightarrow>
             \<not> ob_Present observation \<or> ob_Generation observation \<noteq> am_ExpectedObservationGeneration c \<or>
             ob_OwnerGeneration observation \<noteq> am_ExpectedIssueGeneration c \<or>
             \<lparr>up_Repository = am_Repository c, up_Issue = am_Issue c, up_Kind = githubIssueDependencyClear,
              up_ControlSnapshotDigest = [], up_AttributionAttempt = am_Attempt c, up_Dependency = am_Dependency c,
              up_PullRequest = am_PullRequest c\<rparr> \<notin> set (ob_IssueUpdates observation) \<or>
             am_ExpectedAttemptGeneration c = 0 \<or> attemptGen \<noteq> am_ExpectedAttemptGeneration c \<or>
             ms_Repository (status_of state (am_Repository c) (am_Issue c)) \<noteq> [] \<and>
             ms_Source (status_of state (am_Repository c) (am_Issue c)) \<noteq> ''dependency'')
      else if am_Source c \<noteq> ''destructive'' then
        (case fmlookup (s_Attempts state) (ownerAttemptKey (am_Repository c) (am_Issue c) (am_Attempt c)) of
           None \<Rightarrow> True
         | Some a \<Rightarrow> a_Generation a \<noteq> am_ExpectedAttemptGeneration c \<or> attemptGen \<noteq> am_ExpectedAttemptGeneration c)
      else attemptGen \<noteq> am_ExpectedAttemptGeneration c)"

definition admission_repeated :: "machineStatusRecord \<Rightarrow> admitMachineStatusCommand \<Rightarrow> bool" where
  "admission_repeated current c \<longleftrightarrow>
     ms_Repository current \<noteq> [] \<and> ms_Source current = am_Source c \<and> ms_SourceID current = am_SourceID c \<and>
     ms_Attempt current = am_Attempt c \<and> ms_AttemptGeneration current = am_ExpectedAttemptGeneration c \<and>
     ms_Status current = am_Status c \<and> ms_Reason current = am_Reason c"

definition status_effect :: "string \<Rightarrow> int \<Rightarrow> runtimeEffectIntent \<Rightarrow> bool" where
  "status_effect repository issue e \<longleftrightarrow>
     e_Repository e = repository \<and> e_Issue e = issue \<and> e_State e = ''pending'' \<and>
     (case e_Reconciliation e of
        None \<Rightarrow> False
      | Some q \<Rightarrow> (case rq_GitHubIssueUpdate q of None \<Rightarrow> False | Some u \<Rightarrow> gu_Kind u = githubIssueMachineStatus))"

definition supersede_status_effects :: "runtimeOwnerState \<Rightarrow> string \<Rightarrow> int \<Rightarrow> runtimeOwnerState" where
  "supersede_status_effects state repository issue =
     state\<lparr>s_Effects := fm_step (\<lambda>_ e.
         if \<not> status_effect repository issue e then Some e
         else if e_Dispatched e then Some (e\<lparr>e_State := ''invalidated'', e_Diagnostic := []\<rparr>)
         else None) (s_Effects state)\<rparr>"

definition admitted_status :: "machineStatusRecord \<Rightarrow> admitMachineStatusCommand \<Rightarrow> machineStatusRecord" where
  "admitted_status current c =
     (let sequence = (if ms_Sequence current + 1 = 0 then 1 else ms_Sequence current + 1);
          sourceSequence = (if am_Source c = ''worker'' then am_SourceSequence c else sequence) in
      \<lparr>ms_Repository = am_Repository c, ms_Issue = am_Issue c, ms_Attempt = am_Attempt c,
       ms_IssueGeneration = am_ExpectedIssueGeneration c, ms_AttemptGeneration = am_ExpectedAttemptGeneration c,
       ms_Sequence = sequence, ms_AppliedSequence = ms_AppliedSequence current, ms_Source = am_Source c,
       ms_SourceID = am_SourceID c, ms_SourceSequence = sourceSequence, ms_Status = am_Status c,
       ms_Reason = trim_space (am_Reason c)\<rparr>)"

text \<open>The digest of everything the ledger holds about one attempt; the JSON encoder writes a missing
  record as its zero value.\<close>

definition ownerAttemptCausalityToken :: "Env \<Rightarrow> runtimeOwnerState \<Rightarrow> string \<Rightarrow> int \<Rightarrow> int \<Rightarrow> string" where
  "ownerAttemptCausalityToken env state repository issue attempt =
     (let issueKey = ownerIssueKey repository issue; attemptKey = ownerAttemptKey repository issue attempt;
          effects = sort_func (\<lambda>a b. compare_ord (e_ID a) (e_ID b))
            (filter (\<lambda>e. e_Repository e = repository \<and> e_Issue e = issue \<and> (e_Attempt e = 0 \<or> e_Attempt e = attempt))
              (map snd (fm_entries (v_order env) (s_Effects state)))) in
      digestText env (v_marshal env (v_json_causality env
        (issueGeneration state repository issue) (attemptGeneration state repository issue attempt)
        (fmlookup (s_Attempts state) attemptKey) (fmlookup (s_Observations state) issueKey)
        (fmlookup (s_Recoveries state) attemptKey) (fmlookup (s_Tombstones state) attemptKey)
        (fmlookup (s_MachineStatuses state) issueKey) effects)))"

definition applyAdmitMachineStatus ::
  "Env \<Rightarrow> runtimeOwnerState \<Rightarrow> admitMachineStatusCommand \<Rightarrow> runtimeOwnerState owner_result" where
  "applyAdmitMachineStatus env state command =
     (let c = command\<lparr>am_Reason := trim_space (am_Reason command)\<rparr>;
          current = status_of state (am_Repository c) (am_Issue c) in
      if admission_malformed state c then Inl StaleStateResult
      else if admission_unbound state c then Inl StaleStateResult
      else if admission_repeated current c then Inr state
      else if am_Source c = ''orchestrator'' \<and>
        (\<not> validDigest (am_ExpectedCausalityToken c) \<or>
         ownerAttemptCausalityToken env state (am_Repository c) (am_Issue c) (am_Attempt c) \<noteq> am_ExpectedCausalityToken c)
      then Inl StaleStateResult
      else if am_Source c \<noteq> ''orchestrator'' \<and> am_ExpectedCausalityToken c \<noteq> [] then Inl StaleStateResult
      else if ms_Sequence current \<noteq> am_ExpectedStatusSequence c then Inl StaleStateResult
      else if ms_Sequence current = uint64_max then Inl (OtherError ''machine status sequence overflow'')
      else
        let s1 = supersede_status_effects state (am_Repository c) (am_Issue c) in
        Inr (s1\<lparr>s_MachineStatuses :=
          fmupd (ownerIssueKey (am_Repository c) (am_Issue c)) (admitted_status current c) (s_MachineStatuses s1)\<rparr>))"

text \<open>The admission that every destructive transition makes for its own issue.\<close>

definition destructive_status ::
  "string \<Rightarrow> int \<Rightarrow> int \<Rightarrow> uint64 \<Rightarrow> uint64 \<Rightarrow> uint64 \<Rightarrow> string \<Rightarrow> string \<Rightarrow> admitMachineStatusCommand" where
  "destructive_status repository issue attempt issueGen attemptGen sequence sourceID reason =
     \<lparr>am_Repository = repository, am_Issue = issue, am_Attempt = attempt, am_ExpectedIssueGeneration = issueGen,
      am_ExpectedAttemptGeneration = attemptGen, am_ExpectedObservationGeneration = 0,
      am_ExpectedStatusSequence = sequence, am_Dependency = 0, am_PullRequest = 0, am_Source = ''destructive'',
      am_SourceID = sourceID, am_SourceSequence = 0, am_ExpectedCausalityToken = [], am_Status = ''clear'',
      am_Reason = reason\<rparr>"

end
