(* ===== verification/Owner_Attempts.thy ===== *)
theory Owner_Attempts
  imports Owner_Status
begin

text \<open>
  The transitions of \<^verbatim>\<open>state_owner.go\<close> on issue and attempt generations: a new issue generation, a
  new manifest of an attempt, the tombstone of an invalidated attempt, the selection of a worker
  seal, and the bare record/complete pair of an effect.
\<close>

section \<open>Issue generations\<close>

definition bump_issue :: "Env \<Rightarrow> runtimeOwnerState \<Rightarrow> string \<Rightarrow> int \<Rightarrow> int \<Rightarrow> uint64 \<Rightarrow> uint64 \<Rightarrow> string \<Rightarrow> string \<Rightarrow>
    runtimeOwnerState owner_result" where
  "bump_issue env state repository issue attempt issueGen attemptGen sourceID reason =
     (if \<not> fm_has (s_MachineStatuses state) (ownerIssueKey repository issue) then Inr state
      else applyAdmitMachineStatus env state (destructive_status repository issue attempt issueGen attemptGen
        (ms_Sequence (status_of state repository issue)) sourceID reason))"

definition applyAdvanceIssueGeneration ::
  "Env \<Rightarrow> runtimeOwnerState \<Rightarrow> advanceIssueGenerationCommand \<Rightarrow> runtimeOwnerState owner_result" where
  "applyAdvanceIssueGeneration env state c =
     (let k = ownerIssueKey (ag_Repository c) (ag_Issue c);
          generation = issueGeneration state (ag_Repository c) (ag_Issue c);
          attempt = ms_Attempt (status_of state (ag_Repository c) (ag_Issue c)) in
      if ag_Repository c \<noteq> s_Repository state \<or> ag_Issue c < 1 then Inl StateConflict
      else if generation \<noteq> ag_ExpectedGeneration c then Inl StaleStateResult
      else if generation = uint64_max then Inl (OtherError ''issue generation overflow'')
      else if issueHasUnprovedReviewer state (ag_Repository c) (ag_Issue c) then Inl StateConflict
      else if fm_ex (\<lambda>_ e. e_Repository e = ag_Repository c \<and> e_Issue e = ag_Issue c \<and>
          \<not> effectAuthorizedByTombstone state e \<and> pendingReviewerDeathUnproved state e) (s_Effects state)
      then Inl StateConflict
      else
        err_bind
          (bump_issue env (state\<lparr>s_IssueGenerations := fmupd k (generation + 1) (s_IssueGenerations state)\<rparr>)
            (ag_Repository c) (ag_Issue c) attempt (generation + 1)
            (attemptGeneration state (ag_Repository c) (ag_Issue c) attempt)
            (''issue:'' @ utoa (generation + 1)) ''issue generation invalidated'')
          (\<lambda>s1.
            let s2 = deleteIssueRecoveries (s1\<lparr>s_Observations := fmdrop k (s_Observations s1)\<rparr>)
                  (ag_Repository c) (ag_Issue c) in
            Inr (s2\<lparr>s_Effects := fm_keep (\<lambda>_ e. \<not> (e_Repository e = ag_Repository c \<and> e_Issue e = ag_Issue c \<and>
              \<not> effectAuthorizedByTombstone s2 e \<and> \<not> invalidatedExternalEffect s2 e)) (s_Effects s2)\<rparr>)))"

section \<open>Attempt generations\<close>

definition first_generation ::
  "Env \<Rightarrow> runtimeOwnerState \<Rightarrow> Manifest \<Rightarrow> uint64 \<Rightarrow> runtimeOwnerState owner_result" where
  "first_generation env state m issueGen =
     (let issueKey = ownerIssueKey (m_Repository m) (m_Issue m);
          attemptKey = ownerAttemptKey (m_Repository m) (m_Issue m) (m_Attempt m) in
      if issueHasUnconfinedReviewer env state (m_Repository m) (m_Issue m) \<or>
        issueHasUnresolvedExternalEffect state (m_Repository m) (m_Issue m) then Inl StateConflict
      else if issueGen = uint64_max then Inl (OtherError ''issue generation overflow'')
      else
        err_bind
          (bump_issue env (state\<lparr>s_IssueGenerations := fmupd issueKey (issueGen + 1) (s_IssueGenerations state),
                                s_AttemptGenerations := fmupd attemptKey 1 (s_AttemptGenerations state)\<rparr>)
            (m_Repository m) (m_Issue m) (m_Attempt m) (issueGen + 1) 1 ''attempt:1'' ''attempt superseded'')
          (\<lambda>s1. err_bind (pruneSupersededIssueEffects s1 (m_Repository m) (m_Issue m) (issueGen + 1))
            (\<lambda>s2. Inr (deleteIssueRecoveries (s2\<lparr>s_Observations := fmdrop issueKey (s_Observations s2)\<rparr>)
              (m_Repository m) (m_Issue m)))))"

definition next_generation ::
  "runtimeOwnerState \<Rightarrow> Manifest \<Rightarrow> uint64 \<Rightarrow> string \<Rightarrow> runtimeOwnerState owner_result" where
  "next_generation state m generation supersededReviewerID =
     (if generation = uint64_max then Inl (OtherError ''attempt generation overflow'')
      else if fm_ex (\<lambda>_ e. e_of_attempt e (m_Repository m) (m_Issue m) (m_Attempt m) \<and>
          e_ID e \<noteq> supersededReviewerID \<and> \<not> effectReferencedByReceipt state (e_ID e) \<and>
          pendingReviewerDeathUnproved state e) (s_Effects state)
      then Inl StateConflict
      else
        let s1 = deleteAttemptEffects state (m_Repository m) (m_Issue m) (m_Attempt m) in
        Inr (s1\<lparr>s_Recoveries :=
          fmdrop (ownerAttemptKey (m_Repository m) (m_Issue m) (m_Attempt m)) (s_Recoveries s1)\<rparr>))"

definition stop_effect_of :: "runtimeOwnerState \<Rightarrow> string \<Rightarrow> string" where
  "stop_effect_of state k = (case fmlookup (s_Attempts state) k of None \<Rightarrow> [] | Some r \<Rightarrow> a_StopEffectID r)"

definition upserted_record :: "runtimeAttemptRecord option \<Rightarrow> uint64 \<Rightarrow> Manifest \<Rightarrow> runtimeAttemptRecord" where
  "upserted_record previous generation m =
     \<lparr>a_Generation = generation,
      a_ObservationEpoch = (case previous of None \<Rightarrow> 0 | Some p \<Rightarrow> a_ObservationEpoch p),
      a_LastCycleID = (case previous of None \<Rightarrow> 0 | Some p \<Rightarrow> a_LastCycleID p),
      a_StopEffectID = [], a_WorkerAuthorityRevokedDigest = [], a_Manifest = m, a_WorkerSeal = None,
      a_ImplementationBinding = None, a_TerminalBroker = None\<rparr>"

definition upsert_blocked :: "Env \<Rightarrow> runtimeOwnerState \<Rightarrow> upsertAttemptCommand \<Rightarrow> owner_error option" where
  "upsert_blocked env state c =
     (let m = ua_Manifest c;
          issueKey = ownerIssueKey (m_Repository m) (m_Issue m);
          attemptKey = ownerAttemptKey (m_Repository m) (m_Issue m) (m_Attempt m) in
      if \<not> validateOwnerManifest env (s_Repository state) m then Some (OtherError ''invalid owner manifest'')
      else if issueGeneration state (m_Repository m) (m_Issue m) \<noteq> ua_ExpectedIssueGeneration c
      then Some StaleStateResult
      else if fm_has (s_Tombstones state) attemptKey then Some AttemptTombstoned
      else if fm_get (s_LegacyReviewerQuarantines state) issueKey [] \<noteq> [] then Some StateConflict
      else if fm_ex (\<lambda>_ p. p_Repository p = m_Repository m \<and> p_Issue p = m_Issue m \<and> p_Attempt p \<noteq> m_Attempt m \<and>
          \<not> p_NeverRan p \<and> (p_LegacyUnverified p \<or> p_ProfileDigest p \<noteq> activeWorkerProfileDigest env state))
        (s_ReviewerProofs state) then Some StateConflict
      else if attemptGeneration state (m_Repository m) (m_Issue m) (m_Attempt m) \<noteq> ua_ExpectedAttemptGeneration c
      then Some StaleStateResult
      else if stop_effect_of state attemptKey \<noteq> [] then Some StateConflict
      else None)"

definition applyUpsertAttemptAllowingReviewer ::
  "Env \<Rightarrow> runtimeOwnerState \<Rightarrow> upsertAttemptCommand \<Rightarrow> string \<Rightarrow> runtimeOwnerState owner_result" where
  "applyUpsertAttemptAllowingReviewer env state c supersededReviewerID =
     (let m = ua_Manifest c;
          attemptKey = ownerAttemptKey (m_Repository m) (m_Issue m) (m_Attempt m);
          generation = attemptGeneration state (m_Repository m) (m_Issue m) (m_Attempt m) in
      case upsert_blocked env state c of
        Some err \<Rightarrow> Inl err
      | None \<Rightarrow>
          err_bind (if generation = 0 then first_generation env state m (ua_ExpectedIssueGeneration c)
                    else next_generation state m generation supersededReviewerID)
            (\<lambda>s1. err_bind (deleteAttemptObservation env
                (s1\<lparr>s_AttemptGenerations := fmupd attemptKey (generation + 1) (s_AttemptGenerations s1)\<rparr>)
                (m_Repository m) (m_Issue m) (m_Attempt m))
              (\<lambda>s2. Inr (s2\<lparr>s_Attempts := fmupd attemptKey
                (upserted_record (fmlookup (s_Attempts s2) attemptKey) (generation + 1) m) (s_Attempts s2)\<rparr>))))"

definition applyUpsertAttempt ::
  "Env \<Rightarrow> runtimeOwnerState \<Rightarrow> upsertAttemptCommand \<Rightarrow> runtimeOwnerState owner_result" where
  "applyUpsertAttempt env state c = applyUpsertAttemptAllowingReviewer env state c []"

section \<open>Invalidated attempts\<close>

definition validTombstoneAction :: "string \<Rightarrow> bool" where
  "validTombstoneAction action \<longleftrightarrow> action \<in> set [''archived'', ''abandoned'', ''dismissed'', ''removed'']"

definition validCleanupPhase :: "string \<Rightarrow> bool" where
  "validCleanupPhase phase \<longleftrightarrow> phase \<in> set [''pending'', ''cleanup-started'', ''completed'']"

text \<open>The same request again: the tombstone is already there.\<close>

definition replay_invalidation ::
  "runtimeOwnerState \<Rightarrow> invalidateAttemptCommand \<Rightarrow> runtimeTombstone \<Rightarrow> runtimeEffectIntent option owner_result" where
  "replay_invalidation state c t =
     (if t_InvalidatedGeneration t \<noteq> iv_ExpectedAttemptGeneration c \<or> t_Action t \<noteq> iv_Action c \<or>
        t_CleanupPhase t \<noteq> iv_CleanupPhase c \<or> t_PublishedHead t \<noteq> iv_PublishedHead c \<or>
        t_Diagnostic t \<noteq> iv_Diagnostic c \<or> \<not> sameOptionalAttemptIdentity (t_Manifest t) (iv_Manifest c) \<or>
        t_CleanupPolicy t \<noteq> iv_CleanupPolicy c then Inl StateConflict
      else if iv_EffectAction c = [] \<and> t_EffectID t = [] then Inr None
      else case fmlookup (s_Effects state) (t_EffectID t) of
        None \<Rightarrow> Inl StateConflict
      | Some e \<Rightarrow>
          if e_Action e \<noteq> iv_EffectAction c \<or> e_RequestDigest e \<noteq> iv_EffectRequestDigest c \<or>
            \<not> e_of_attempt e (iv_Repository c) (iv_Issue c) (iv_Attempt c) then Inl StateConflict
          else Inr (Some e))"

definition invalidated_start ::
  "Env \<Rightarrow> runtimeOwnerState \<Rightarrow> invalidateAttemptCommand \<Rightarrow> startCandidateInvalidation option owner_result" where
  "invalidated_start env state c =
     (case iv_Manifest c of
        None \<Rightarrow> Inr None
      | Some m \<Rightarrow>
          err_bind (pendingStartCandidate env state m) (\<lambda>candidate. Inr
            (case candidate of
               None \<Rightarrow> None
             | Some s \<Rightarrow>
                 if WorkerConfinementBound (sc_Manifest s) (iv_ExpectedAttemptGeneration c)
                   (activeWorkerProfileDigest env state) then None else Some s)))"

definition revoked_digest :: "Env \<Rightarrow> runtimeOwnerState \<Rightarrow> invalidateAttemptCommand \<Rightarrow> string" where
  "revoked_digest env state c =
     (case (fmlookup (s_Attempts state) (ownerAttemptKey (iv_Repository c) (iv_Issue c) (iv_Attempt c)), iv_Manifest c) of
        (Some r, Some m) \<Rightarrow>
          if a_Manifest r = m \<and> revokedWorkerCredentialCurrent env r then a_WorkerAuthorityRevokedDigest r else []
      | _ \<Rightarrow> [])"

definition fresh_tombstone ::
  "Env \<Rightarrow> runtimeOwnerState \<Rightarrow> invalidateAttemptCommand \<Rightarrow> handoffCandidateInvalidation option \<Rightarrow>
   startCandidateInvalidation option \<Rightarrow> runtimeTombstone" where
  "fresh_tombstone env state c handoff start =
     empty_tombstone\<lparr>
       t_Repository := iv_Repository c, t_Issue := iv_Issue c, t_Attempt := iv_Attempt c, t_Action := iv_Action c,
       t_InvalidatedGeneration := iv_ExpectedAttemptGeneration c, t_Generation := iv_ExpectedAttemptGeneration c + 1,
       t_CleanupPhase := iv_CleanupPhase c, t_PublishedHead := iv_PublishedHead c, t_Manifest := iv_Manifest c,
       t_CleanupPolicy := iv_CleanupPolicy c, t_WorkerAuthorityRevokedDigest := revoked_digest env state c,
       t_Diagnostic := iv_Diagnostic c, t_InvalidatedHandoff := handoff, t_InvalidatedStart := start\<rparr>"

definition cleanup_intent :: "runtimeOwnerState \<Rightarrow> invalidateAttemptCommand \<Rightarrow> runtimeEffectIntent option owner_result" where
  "cleanup_intent state c =
     (if iv_EffectAction c = [] then Inr None
      else if iv_EffectAction c \<noteq> EffectCleanup \<or> \<not> ValidEffectRequestDigest (iv_EffectRequestDigest c)
      then Inl StateConflict
      else Inr (Some (empty_effect\<lparr>
        e_Action := iv_EffectAction c, e_Repository := iv_Repository c, e_Issue := iv_Issue c,
        e_Attempt := iv_Attempt c, e_IssueGeneration := iv_ExpectedIssueGeneration c,
        e_AttemptGeneration := iv_ExpectedAttemptGeneration c + 1, e_IntentEpoch := s_Epoch state,
        e_State := ''pending'', e_RequestDigest := iv_EffectRequestDigest c\<rparr>)))"

definition tombstone_attempt ::
  "Env \<Rightarrow> runtimeOwnerState \<Rightarrow> invalidateAttemptCommand \<Rightarrow> handoffCandidateInvalidation option \<Rightarrow>
   startCandidateInvalidation option \<Rightarrow> runtimeOwnerState owner_result" where
  "tombstone_attempt env state c handoff start =
     (let attemptKey = ownerAttemptKey (iv_Repository c) (iv_Issue c) (iv_Attempt c);
          generation = iv_ExpectedAttemptGeneration c + 1 in
      err_bind
        (deleteAttemptObservation env
          (state\<lparr>s_AttemptGenerations := fmupd attemptKey generation (s_AttemptGenerations state),
                 s_Attempts := fmdrop attemptKey (s_Attempts state)\<rparr>)
          (iv_Repository c) (iv_Issue c) (iv_Attempt c))
        (\<lambda>s1.
          let s2 = invalidateAttemptEffects (s1\<lparr>s_Recoveries := fmdrop attemptKey (s_Recoveries s1)\<rparr>)
                (iv_Repository c) (iv_Issue c) (iv_Attempt c);
              s3 = s2\<lparr>s_Tombstones := fmupd attemptKey (fresh_tombstone env state c handoff start) (s_Tombstones s2)\<rparr> in
          applyAdmitMachineStatus env s3
            (destructive_status (iv_Repository c) (iv_Issue c) (iv_Attempt c) (iv_ExpectedIssueGeneration c) generation
              (ms_Sequence (status_of s3 (iv_Repository c) (iv_Issue c))) (iv_Action c @ '':'' @ utoa generation)
              ''attempt invalidated'')))"

definition applyInvalidateAttempt ::
  "Env \<Rightarrow> runtimeOwnerState \<Rightarrow> invalidateAttemptCommand \<Rightarrow>
   (runtimeOwnerState \<times> runtimeEffectIntent option) owner_result" where
  "applyInvalidateAttempt env state c =
     (let issueKey = ownerIssueKey (iv_Repository c) (iv_Issue c);
          attemptKey = ownerAttemptKey (iv_Repository c) (iv_Issue c) (iv_Attempt c) in
      if iv_Repository c \<noteq> s_Repository state \<or> iv_Issue c < 1 \<or> iv_Attempt c < 1 \<or>
        \<not> validTombstoneAction (iv_Action c) \<or> \<not> validCleanupPhase (iv_CleanupPhase c) then Inl StateConflict
      else if issueGeneration state (iv_Repository c) (iv_Issue c) \<noteq> iv_ExpectedIssueGeneration c
      then Inl StaleStateResult
      else case fmlookup (s_Tombstones state) attemptKey of
        Some t \<Rightarrow> err_bind (replay_invalidation state c t) (\<lambda>e. Inr (state, e))
      | None \<Rightarrow>
          if attemptGeneration state (iv_Repository c) (iv_Issue c) (iv_Attempt c) \<noteq> iv_ExpectedAttemptGeneration c
          then Inl StaleStateResult
          else if (case iv_Manifest c of None \<Rightarrow> False | Some m \<Rightarrow>
              \<not> validateOwnerManifest env (s_Repository state) m \<or> m_Issue m \<noteq> iv_Issue c \<or> m_Attempt m \<noteq> iv_Attempt c)
          then Inl StateConflict
          else
            let s1 = invalidateControlSnapshot env state issueKey in
            err_bind (pendingHandoffCandidate env s1 (iv_Repository c) (iv_Issue c) (iv_Attempt c)) (\<lambda>handoff.
            err_bind (invalidated_start env s1 c) (\<lambda>start.
              if iv_ExpectedAttemptGeneration c = uint64_max then Inl (OtherError ''attempt generation overflow'')
              else err_bind (tombstone_attempt env s1 c handoff start) (\<lambda>s2.
                err_bind (cleanup_intent s2 c) (\<lambda>e. Inr (s2, e))))))"

section \<open>Worker seals\<close>

definition workerSealPath :: "Env \<Rightarrow> uint64 \<Rightarrow> Manifest \<Rightarrow> string \<Rightarrow> string" where
  "workerSealPath env generation m head =
     path_join [v_StateRoot env, ''seals'', RepositoryIdentifier (v_sha env) (m_Repository m),
       itoa (m_Issue m) @ ''-'' @ itoa (m_Attempt m) @ ''-'' @ utoa generation, head @ ''.git'']"

definition validWorkerSealSelection :: "Env \<Rightarrow> Manifest \<Rightarrow> uint64 \<Rightarrow> workerSealSelection \<Rightarrow> bool" where
  "validWorkerSealSelection env m generation w \<longleftrightarrow>
     generation \<noteq> 0 \<and> ws_Generation w = generation \<and> preflightObjectID (ws_HeadSHA w) \<and>
     ws_HeadSHA w \<noteq> m_BaseSHA m \<and> validDigest (ws_BundleSHA256 w) \<and> validDigest (ws_ProfileDigest w) \<and>
     ws_ProfileDigest w = m_WorkerProfileDigest m \<and>
     ws_Root w = workerSealPath env generation m (ws_HeadSHA w) \<and>
     wr_Type (ws_Result w) = ''agent-symphony-result-v1'' \<and>
     boundedText (wr_Validation (ws_Result w)) maxReconciliationStringBytes True \<and>
     boundedText (wr_Documentation (ws_Result w)) maxReconciliationStringBytes True \<and>
     boundedText (wr_Decisions (ws_Result w)) maxReconciliationStringBytes False"

definition applySelectWorkerSeal ::
  "Env \<Rightarrow> runtimeOwnerState \<Rightarrow> selectWorkerSealCommand \<Rightarrow> runtimeOwnerState owner_result" where
  "applySelectWorkerSeal env state c =
     (let k = ownerAttemptKey (sw_Repository c) (sw_Issue c) (sw_Attempt c) in
      case fmlookup (s_Attempts state) k of
        None \<Rightarrow> Inl StaleStateResult
      | Some r \<Rightarrow>
          if sw_Repository c \<noteq> s_Repository state \<or> sw_ExpectedGeneration c = 0 \<or>
            a_Generation r \<noteq> sw_ExpectedGeneration c \<or>
            attemptGeneration state (sw_Repository c) (sw_Issue c) (sw_Attempt c) \<noteq> sw_ExpectedGeneration c
          then Inl StaleStateResult
          else if fm_has (s_Tombstones state) k \<or> m_State (a_Manifest r) \<noteq> ''completed'' \<or>
            \<not> validWorkerSealSelection env (a_Manifest r) (sw_ExpectedGeneration c) (sw_Selection c)
          then Inl StateConflict
          else case a_WorkerSeal r of
            Some w \<Rightarrow> if w = sw_Selection c then Inr state else Inl StateConflict
          | None \<Rightarrow>
              Inr (state\<lparr>s_Attempts := fmupd k (r\<lparr>a_WorkerSeal := Some (sw_Selection c)\<rparr>) (s_Attempts state)\<rparr>))"

section \<open>Recorded effects\<close>

definition applyRecordEffect ::
  "runtimeOwnerState \<Rightarrow> recordEffectCommand \<Rightarrow> runtimeEffectIntent owner_result" where
  "applyRecordEffect state c =
     (let m = re_Manifest c; i = re_Identity c in
      if re_Action c = [] \<or> m_Repository m \<noteq> s_Repository state \<or> m_Issue m < 1 \<or> m_Attempt m < 1 \<or>
        id_Epoch i \<noteq> s_Epoch state \<or> id_SourceRevision i \<noteq> s_Revision state then Inl StaleStateResult
      else if issueGeneration state (m_Repository m) (m_Issue m) \<noteq> id_IssueGeneration i \<or>
        attemptGeneration state (m_Repository m) (m_Issue m) (m_Attempt m) \<noteq> id_AttemptGeneration i
      then Inl StaleStateResult
      else if fm_has (s_Tombstones state) (ownerAttemptKey (m_Repository m) (m_Issue m) (m_Attempt m))
      then Inl AttemptTombstoned
      else Inr (empty_effect\<lparr>e_Action := re_Action c, e_Repository := m_Repository m, e_Issue := m_Issue m,
        e_Attempt := m_Attempt m, e_IssueGeneration := id_IssueGeneration i,
        e_AttemptGeneration := id_AttemptGeneration i, e_State := ''pending''\<rparr>))"

definition complete_tombstone :: "string \<Rightarrow> string \<Rightarrow> runtimeOwnerState \<Rightarrow> runtimeOwnerState" where
  "complete_tombstone k effectID state =
     (case fmlookup (s_Tombstones state) k of
        None \<Rightarrow> state
      | Some t \<Rightarrow>
          if t_EffectID t = effectID
          then state\<lparr>s_Tombstones := fmupd k (t\<lparr>t_CleanupPhase := ''completed''\<rparr>) (s_Tombstones state)\<rparr>
          else state)"

definition applyCompleteEffect ::
  "runtimeOwnerState \<Rightarrow> completeEffectCommand \<Rightarrow> runtimeOwnerState owner_result" where
  "applyCompleteEffect state c =
     (let i = ce_Identity c in
      if id_Epoch i \<noteq> s_Epoch state \<or> id_EffectID i = [] then Inl StaleStateResult
      else case fmlookup (s_Effects state) (id_EffectID i) of
        None \<Rightarrow> Inl StaleStateResult
      | Some e \<Rightarrow>
          if e_IssueGeneration e \<noteq> id_IssueGeneration i \<or> e_AttemptGeneration e \<noteq> id_AttemptGeneration i \<or>
            issueGeneration state (e_Repository e) (e_Issue e) \<noteq> id_IssueGeneration i \<and>
            \<not> effectAuthorizedByTombstone state e then Inl StaleStateResult
          else if e_Action e = EffectStop \<or> e_Action e = EffectCleanup then Inl StateConflict
          else if e_State e = ''completed''
          then (if e_Diagnostic e = ce_Diagnostic c then Inr state else Inl StateConflict)
          else if e_State e \<noteq> ''pending'' then Inl StaleStateResult
          else if attemptGeneration state (e_Repository e) (e_Issue e) (e_Attempt e) \<noteq> id_AttemptGeneration i
          then Inl StaleStateResult
          else Inr (complete_tombstone (ownerAttemptKey (e_Repository e) (e_Issue e) (e_Attempt e)) (e_ID e)
            (state\<lparr>s_Effects := fmupd (e_ID e) (e\<lparr>e_State := ''completed'', e_Diagnostic := ce_Diagnostic c\<rparr>)
               (s_Effects state)\<rparr>)))"

end
