(* ===== verification/Owner_Runtime_Effects.thy ===== *)
theory Owner_Runtime_Effects
  imports Owner_Attempts
begin

text \<open>
  Runtime effects of \<^verbatim>\<open>state_owner.go\<close> and \<^verbatim>\<open>runtime_effects.go\<close>: an effect is begun (an intent is
  durable before the executor acts), authorised, its start gate rotated, diagnosed, and finished by
  the manifest the executor returned.
\<close>

section \<open>Inputs and results\<close>

definition validRuntimeEffectAction :: "string \<Rightarrow> bool" where
  "validRuntimeEffectAction action \<longleftrightarrow>
     action \<in> set [EffectPrepare, EffectStart, EffectMonitor, EffectStop, EffectReview, EffectHandoff, EffectCleanup]"

definition validRuntimeEffectInput :: "string \<Rightarrow> string \<Rightarrow> bool" where
  "validRuntimeEffectInput action reason \<longleftrightarrow>
     (if \<not> validRuntimeEffectAction action \<or> 4096 < length reason \<or> char_of (0::nat) \<in> set reason then False
      else action = EffectStop \<and> trim_space reason \<noteq> [] \<or> action \<noteq> EffectStop \<and> reason = [])"

definition runtimeEffectAppliesManifest :: "string \<Rightarrow> bool" where
  "runtimeEffectAppliesManifest action \<longleftrightarrow> action \<noteq> EffectCleanup"

definition owner_review_result :: "Env \<Rightarrow> Manifest \<Rightarrow> ReviewTransition \<Rightarrow> Manifest option" where
  "owner_review_result env m v = ReviewEffectResult (v_sha env) (v_AttemptRoot env) (v_StateRoot env) m v (v_now env)"

definition validOwnerRuntimeEffectInput ::
  "Env \<Rightarrow> string \<Rightarrow> Manifest \<Rightarrow> string \<Rightarrow> ReviewTransition option \<Rightarrow> bool" where
  "validOwnerRuntimeEffectInput env action m reason review \<longleftrightarrow>
     (if \<not> validRuntimeEffectInput action reason \<or> (action = EffectReview) \<noteq> (review \<noteq> None) then False
      else if action = EffectPrepare \<or> action = EffectStart then m_State m = ''preparing''
      else if action = EffectMonitor then m_State m = ''running''
      else if action = EffectStop then m_State m = ''preparing'' \<or> m_State m = ''running''
      else if action = EffectReview
      then (case review of None \<Rightarrow> False | Some v \<Rightarrow> owner_review_result env m v \<noteq> None)
      else if action = EffectHandoff then m_State m = ''completed'' \<or> m_State m = ''running''
      else False)"

text \<open>The fields that an action may change, reset to their current values.\<close>

definition without_action_fields :: "Manifest \<Rightarrow> Manifest \<Rightarrow> string \<Rightarrow> Manifest" where
  "without_action_fields current result action =
     (let m1 = result\<lparr>m_State := m_State current, m_Diagnostic := m_Diagnostic current, m_UpdatedAt := m_UpdatedAt current\<rparr>;
          m2 = (if action = EffectStart \<or> action = EffectHandoff
                then m1\<lparr>m_LaunchToken := m_LaunchToken current, m_LaunchID := m_LaunchID current\<rparr> else m1);
          m3 = (if action = EffectReview
                then m2\<lparr>m_ReviewState := m_ReviewState current, m_ReviewMode := m_ReviewMode current,
                  m_ReviewTarget := m_ReviewTarget current, m_ReviewRunID := m_ReviewRunID current,
                  m_ReviewRunCleaned := m_ReviewRunCleaned current, m_ReviewDiagnostic := m_ReviewDiagnostic current,
                  m_ReviewBase := m_ReviewBase current, m_ReviewHead := m_ReviewHead current,
                  m_ReviewSnapshot := m_ReviewSnapshot current, m_ReviewSession := m_ReviewSession current,
                  m_ReviewFindings := m_ReviewFindings current,
                  m_ReviewHandoffQueued := m_ReviewHandoffQueued current, m_ReviewHandoffAck := m_ReviewHandoffAck current\<rparr>
                else m2)
      in if action = EffectMonitor
         then m3\<lparr>m_WorkerStatus := m_WorkerStatus current, m_WorkerStatusReason := m_WorkerStatusReason current,
           m_WorkerStatusSeq := m_WorkerStatusSeq current, m_WorkerStatusApplied := m_WorkerStatusApplied current\<rparr>
         else m3)"

definition worker_status_advances :: "Manifest \<Rightarrow> Manifest \<Rightarrow> bool" where
  "worker_status_advances current result \<longleftrightarrow>
     m_WorkerStatusApplied result = m_WorkerStatusApplied current \<and>
     m_WorkerStatusSeq current \<le> m_WorkerStatusSeq result \<and>
     (m_WorkerStatusSeq result = m_WorkerStatusSeq current \<and> m_WorkerStatus result = m_WorkerStatus current \<and>
        m_WorkerStatusReason result = m_WorkerStatusReason current \<or>
      m_WorkerStatusSeq current < m_WorkerStatusSeq result \<and>
        m_WorkerStatus result \<in> set [''needs-attention'', ''clear''] \<and>
        trim_space (m_WorkerStatusReason result) \<noteq> [] \<and> length (m_WorkerStatusReason result) \<le> 1024)"

definition sameRuntimeEffectManifestBase :: "Manifest \<Rightarrow> Manifest \<Rightarrow> string \<Rightarrow> bool" where
  "sameRuntimeEffectManifestBase current result action \<longleftrightarrow>
     without_action_fields current result action = current \<and>
     (if action \<noteq> EffectMonitor
      then m_WorkerStatus result = m_WorkerStatus current \<and> m_WorkerStatusReason result = m_WorkerStatusReason current \<and>
        m_WorkerStatusSeq result = m_WorkerStatusSeq current \<and>
        m_WorkerStatusApplied result = m_WorkerStatusApplied current
      else worker_status_advances current result)"

definition reviewTransitionMatches :: "ReviewTransition \<Rightarrow> Manifest \<Rightarrow> Manifest \<Rightarrow> bool" where
  "reviewTransitionMatches v current result \<longleftrightarrow>
     (let resumed = rt_HandoffAcknowledged v \<and> m_State current = ''completed'';
          queued = (rt_State v = ''findings-queued'') in
      m_State result = (if resumed then ''running'' else m_State current) \<and>
      m_Diagnostic result = (if resumed then [] else m_Diagnostic current) \<and>
      m_ReviewState result = rt_State v \<and> m_ReviewDiagnostic result = m_ReviewDiagnostic current \<and>
      m_ReviewMode result = rt_Mode v \<and> m_ReviewTarget result = rt_Target v \<and> m_ReviewRunID result = rt_RunID v \<and>
      \<not> m_ReviewRunCleaned result \<and> m_ReviewBase result = rt_Base v \<and> m_ReviewHead result = rt_Head v \<and>
      m_ReviewSnapshot result = rt_Snapshot v \<and> m_ReviewSession result = rt_Session v \<and>
      m_ReviewFindings result = (if queued then rt_Findings v else []) \<and>
      m_ReviewHandoffQueued result = (queued \<and> rt_HandoffQueued v) \<and>
      m_ReviewHandoffAck result = (queued \<and> rt_HandoffAcknowledged v))"

definition launch_unexpected :: "string \<Rightarrow> runtimeEffectIntent \<Rightarrow> Manifest \<Rightarrow> Manifest \<Rightarrow> bool" where
  "launch_unexpected action e current result \<longleftrightarrow>
     (if action = EffectStart then
        m_LaunchToken result \<noteq> m_LaunchToken current \<or>
        m_LaunchID result \<noteq> m_LaunchID current \<and> m_LaunchID result \<noteq> e_StartGateNonce e \<or>
        m_State result = ''running'' \<and> m_LaunchID result \<noteq> e_StartGateNonce e
      else if action = EffectHandoff then
        \<not> (m_LaunchToken result = m_LaunchToken current \<and> m_LaunchID result = m_LaunchID current) \<and>
        \<not> (m_LaunchToken result = e_CandidateLaunchToken e \<and> m_LaunchID result = e_ID e \<and>
           ValidLaunchToken (e_CandidateLaunchToken e))
      else False)"

definition validRuntimeEffectResult ::
  "string \<Rightarrow> runtimeEffectIntent \<Rightarrow> Manifest \<Rightarrow> Manifest \<Rightarrow> bool" where
  "validRuntimeEffectResult action e current result \<longleftrightarrow>
     (if launch_unexpected action e current result then False
      else if \<not> sameRuntimeEffectManifestBase current result action then False
      else if action = EffectPrepare then
        m_State result = ''preparing'' \<and> m_Diagnostic result = m_Diagnostic current \<or>
        m_State result = ''failed'' \<and> m_Diagnostic result \<noteq> []
      else if action = EffectStart \<or> action = EffectHandoff then
        m_State result = ''running'' \<and> m_Diagnostic result = [] \<or>
        action = EffectStart \<and> m_State result = ''failed'' \<and> m_Diagnostic result \<noteq> []
      else if action = EffectStop then m_State result = ''cancelled'' \<and> m_Diagnostic result = e_Reason e
      else if action = EffectMonitor then
        m_State result = ''running'' \<and> m_Diagnostic result = m_Diagnostic current \<or>
        m_State result = ''completed'' \<and> m_Diagnostic result = [] \<or>
        m_State result = ''failed'' \<and> m_Diagnostic result \<noteq> []
      else if action = EffectReview
      then (case e_Review e of None \<Rightarrow> False | Some v \<Rightarrow> reviewTransitionMatches v current result)
      else False)"

definition normalizeStoppedReviewManifest :: "Manifest \<Rightarrow> Manifest" where
  "normalizeStoppedReviewManifest m =
     (if m_ReviewRunID m = [] \<and> m_ReviewSnapshot m = [] \<and> m_ReviewSession m = [] then m
      else
        let m1 = m\<lparr>m_ReviewRunID := [], m_ReviewSnapshot := [], m_ReviewSession := [], m_ReviewRunCleaned := True\<rparr> in
        if m_ReviewState m1 = ''preparing'' \<or> m_ReviewState m1 = ''running''
        then m1\<lparr>m_ReviewState := ''failed'', m_ReviewDiagnostic := ''reviewer stopped by runtime transition''\<rparr>
        else m1)"

section \<open>Authorisation and start gates\<close>

definition authorised_start :: "runtimeEffectIntent \<Rightarrow> runtimeEffectIntent" where
  "authorised_start e =
     e\<lparr>e_StartMayRun := True,
       e_StartCandidates := (e_StartCandidates e)
         [length (e_StartCandidates e) - 1 := (last (e_StartCandidates e))\<lparr>sg_MayRun := True\<rparr>]\<rparr>"

definition applyAuthorizeRuntimeEffect ::
  "runtimeOwnerState \<Rightarrow> authorizeRuntimeEffectCommand \<Rightarrow> runtimeOwnerState owner_result" where
  "applyAuthorizeRuntimeEffect state c =
     (let i = ar_Identity c in
      if \<not> validRuntimeEffectAction (ar_Action c) \<or> id_EffectID i = [] \<or> id_SourceRevision i = 0 \<or>
        \<not> ValidEffectRequestDigest (id_RequestDigest i) then Inl StaleStateResult
      else case fmlookup (s_Effects state) (id_EffectID i) of
        None \<Rightarrow> Inl StaleStateResult
      | Some e \<Rightarrow>
          if e_State e \<noteq> ''pending'' \<or> e_Action e \<noteq> ar_Action c \<or> \<not> effect_identity_matches e i
          then Inl StaleStateResult
          else if attemptGeneration state (e_Repository e) (e_Issue e) (e_Attempt e) \<noteq> id_AttemptGeneration i \<or>
            issueGeneration state (e_Repository e) (e_Issue e) \<noteq> id_IssueGeneration i \<and>
            \<not> effectAuthorizedByTombstone state e then Inl StaleStateResult
          else if fm_has (s_Tombstones state) (ownerAttemptKey (e_Repository e) (e_Issue e) (e_Attempt e)) \<and>
            \<not> effectAuthorizedByTombstone state e then Inl AttemptTombstoned
          else if ar_Action c = EffectStart then
            if \<not> ValidLaunchToken (ar_GateNonce c) \<or> e_StartGateNonce e \<noteq> ar_GateNonce c \<or>
              e_StartCandidates e = [] \<or> sg_Nonce (last (e_StartCandidates e)) \<noteq> ar_GateNonce c
            then Inl StaleStateResult
            else Inr (state\<lparr>s_Effects := fmupd (e_ID e) (authorised_start e) (s_Effects state)\<rparr>)
          else if ar_GateNonce c \<noteq> [] then Inl StateConflict
          else Inr state)"

definition applyRotateStartGate ::
  "runtimeOwnerState \<Rightarrow> rotateStartGateCommand \<Rightarrow> runtimeOwnerState owner_result" where
  "applyRotateStartGate state c =
     (let i = rg_Identity c in
      case fmlookup (s_Effects state) (id_EffectID i) of
        None \<Rightarrow> Inl StaleStateResult
      | Some e \<Rightarrow>
          if e_State e \<noteq> ''pending'' \<or> e_Action e \<noteq> EffectStart \<or> \<not> effect_identity_matches e i \<or>
            e_StartMayRun e \<or> e_StartGateNonce e \<noteq> rg_OldNonce c \<or> \<not> ValidLaunchToken (rg_NewNonce c) \<or>
            rg_NewNonce c = rg_OldNonce c \<or> \<not> validStartCandidates (e_StartCandidates e)
          then Inl StaleStateResult
          else if issueGeneration state (e_Repository e) (e_Issue e) \<noteq> id_IssueGeneration i \<or>
            attemptGeneration state (e_Repository e) (e_Issue e) (e_Attempt e) \<noteq> id_AttemptGeneration i
          then Inl StaleStateResult
          else if fm_has (s_Tombstones state) (ownerAttemptKey (e_Repository e) (e_Issue e) (e_Attempt e))
          then Inl AttemptTombstoned
          else if list_ex (\<lambda>s. sg_Nonce s = rg_NewNonce c \<or> sg_MayRun s) (e_StartCandidates e)
          then Inl StateConflict
          else Inr (state\<lparr>s_Effects := fmupd (e_ID e)
            (e\<lparr>e_StartGateNonce := rg_NewNonce c,
               e_StartCandidates := e_StartCandidates e @ [\<lparr>sg_Nonce = rg_NewNonce c, sg_MayRun = False\<rparr>]\<rparr>)
            (s_Effects state)\<rparr>))"

definition applyDiagnoseRuntimeEffect ::
  "runtimeOwnerState \<Rightarrow> diagnoseRuntimeEffectCommand \<Rightarrow> runtimeOwnerState owner_result" where
  "applyDiagnoseRuntimeEffect state c =
     (case fmlookup (s_Effects state) (id_EffectID (dr_Identity c)) of
        None \<Rightarrow> Inl StaleStateResult
      | Some e \<Rightarrow>
          if e_State e \<noteq> ''pending'' \<or> e_Reconciliation e \<noteq> None \<or> e_Action e \<noteq> dr_Action c \<or>
            \<not> effect_identity_matches e (dr_Identity c) then Inl StaleStateResult
          else if trim_space (dr_Diagnostic c) = [] \<or> 4096 < length (dr_Diagnostic c) \<or>
            char_of (0::nat) \<in> set (dr_Diagnostic c) then Inl StateConflict
          else Inr (state\<lparr>s_Effects := fmupd (e_ID e) (e\<lparr>e_Diagnostic := dr_Diagnostic c\<rparr>) (s_Effects state)\<rparr>))"

section \<open>Beginning an effect\<close>

definition m_effects :: "Env \<Rightarrow> runtimeOwnerState \<Rightarrow> Manifest \<Rightarrow> runtimeEffectIntent list" where
  "m_effects env state m =
     filter (\<lambda>e. e_of_attempt e (m_Repository m) (m_Issue m) (m_Attempt m) \<and> e_State e = ''pending'')
       (map snd (fm_entries (v_order env) (s_Effects state)))"

definition begin_malformed :: "Env \<Rightarrow> runtimeOwnerState \<Rightarrow> beginRuntimeEffectCommand \<Rightarrow> owner_error option" where
  "begin_malformed env state c =
     (let m = br_Manifest c; i = br_Identity c; action = br_Action c;
          attemptKey = ownerAttemptKey (m_Repository m) (m_Issue m) (m_Attempt m) in
      if action = EffectHandoff \<or> br_CandidateLaunchToken c \<noteq> [] \<or>
        action = EffectStart \<and> \<not> ValidLaunchToken (br_StartGateNonce c) \<or>
        action \<noteq> EffectStart \<and> br_StartGateNonce c \<noteq> [] then Some StateConflict
      else if \<not> validRuntimeEffectInput action (br_Reason c) \<or> \<not> ValidEffectRequestDigest (br_RequestDigest c) \<or>
        action = EffectCleanup \<or> action \<noteq> EffectStop \<and> br_SupersededReviewerID c \<noteq> [] \<or>
        id_Epoch i \<noteq> s_Epoch state \<or> id_EffectID i \<noteq> [] then Some StaleStateResult
      else if \<not> validateOwnerManifest env (s_Repository state) m then Some (OtherError ''invalid owner manifest'')
      else if \<not> validOwnerRuntimeEffectInput env action m (br_Reason c) (br_Review c) then Some StateConflict
      else if stop_effect_of state attemptKey \<noteq> [] \<and> action \<noteq> EffectStop then Some StateConflict
      else if action \<noteq> EffectStop \<and> action \<noteq> EffectMonitor \<and>
        issueHasUnconfinedReviewer env state (m_Repository m) (m_Issue m) then Some StateConflict
      else None)"

text \<open>A repeated Stop returns the pending intent; a different one conflicts with it.\<close>

definition repeated_stop ::
  "Env \<Rightarrow> runtimeOwnerState \<Rightarrow> beginRuntimeEffectCommand \<Rightarrow> runtimeEffectIntent option owner_result" where
  "repeated_stop env state c =
     (let m = br_Manifest c in
      case filter (\<lambda>e. e_Action e = EffectStop) (m_effects env state m) of
        [] \<Rightarrow> Inr None
      | e # _ \<Rightarrow>
          (case fmlookup (s_Attempts state) (ownerAttemptKey (m_Repository m) (m_Issue m) (m_Attempt m)) of
             None \<Rightarrow> Inl StateConflict
           | Some r \<Rightarrow>
               if a_Generation r = e_AttemptGeneration e \<and> a_Manifest r = m \<and>
                 e_IssueGeneration e = issueGeneration state (m_Repository m) (m_Issue m) \<and>
                 e_RequestDigest e = br_RequestDigest c \<and> e_Reason e = br_Reason c \<and>
                 e_SupersededReviewerID e = br_SupersededReviewerID c
               then Inr (Some e) else Inl StateConflict))"

definition begin_stale :: "Env \<Rightarrow> runtimeOwnerState \<Rightarrow> beginRuntimeEffectCommand \<Rightarrow> owner_error option" where
  "begin_stale env state c =
     (let m = br_Manifest c; i = br_Identity c in
      if id_SourceRevision i \<noteq> s_Revision state then Some StaleStateResult
      else if issueGeneration state (m_Repository m) (m_Issue m) \<noteq> id_IssueGeneration i \<or>
        attemptGeneration state (m_Repository m) (m_Issue m) (m_Attempt m) \<noteq> id_AttemptGeneration i
      then Some StaleStateResult
      else if fm_has (s_Tombstones state) (ownerAttemptKey (m_Repository m) (m_Issue m) (m_Attempt m))
      then Some AttemptTombstoned
      else if br_Action c \<noteq> EffectStop \<and> m_effects env state m \<noteq> [] then Some StateConflict
      else None)"

definition upsert_of :: "beginRuntimeEffectCommand \<Rightarrow> uint64 \<Rightarrow> upsertAttemptCommand" where
  "upsert_of c attemptGen =
     \<lparr>ua_Manifest = br_Manifest c, ua_ExpectedIssueGeneration = id_IssueGeneration (br_Identity c),
      ua_ExpectedAttemptGeneration = attemptGen\<rparr>"

definition begin_prepare :: "Env \<Rightarrow> runtimeOwnerState \<Rightarrow> beginRuntimeEffectCommand \<Rightarrow> runtimeOwnerState owner_result" where
  "begin_prepare env state c =
     (let m = br_Manifest c in
      if fm_has (s_Attempts state) (ownerAttemptKey (m_Repository m) (m_Issue m) (m_Attempt m)) \<or>
        id_AttemptGeneration (br_Identity c) \<noteq> 0 \<or>
        hasAttemptEffect state (m_Repository m) (m_Issue m) (m_Attempt m) then Inl StateConflict
      else applyUpsertAttempt env state (upsert_of c 0))"

definition carry_release :: "runtimeOwnerState \<Rightarrow> string \<Rightarrow> string \<Rightarrow> runtimeOwnerState" where
  "carry_release state old new =
     (case fmlookup (s_LegacyReviewerReleases state) old of
        None \<Rightarrow> state
      | Some release \<Rightarrow>
          if legacyRecordReleased state old
          then state\<lparr>s_LegacyReviewerReleases := fmupd new release (s_LegacyReviewerReleases state)\<rparr> else state)"

definition begin_stop ::
  "Env \<Rightarrow> runtimeOwnerState \<Rightarrow> beginRuntimeEffectCommand \<Rightarrow> (runtimeOwnerState \<times> runtimeEffectIntent option) owner_result" where
  "begin_stop env state c =
     (let m = br_Manifest c in
      case fmlookup (s_Attempts state) (ownerAttemptKey (m_Repository m) (m_Issue m) (m_Attempt m)) of
        None \<Rightarrow> Inl StateConflict
      | Some r \<Rightarrow>
          if a_Manifest r \<noteq> m then Inl StateConflict
          else
            (case pendingReviewerEffect env state (m_Repository m) (m_Issue m) (m_Attempt m) of
               Inl _ \<Rightarrow> Inl StateConflict
             | Inr reviewer \<Rightarrow>
                 if effect_id reviewer \<noteq> br_SupersededReviewerID c then Inl StateConflict
                 else
                   err_bind (applyUpsertAttemptAllowingReviewer env state
                       (upsert_of c (id_AttemptGeneration (br_Identity c))) (effect_id reviewer))
                     (\<lambda>s1. Inr (carry_release s1 (legacyManifestDigest env m (a_Generation r))
                         (legacyManifestDigest env m
                           (attemptGeneration s1 (m_Repository m) (m_Issue m) (m_Attempt m))), reviewer))))"

definition begin_other :: "runtimeOwnerState \<Rightarrow> beginRuntimeEffectCommand \<Rightarrow> runtimeOwnerState owner_result" where
  "begin_other state c =
     (let m = br_Manifest c in
      case fmlookup (s_Attempts state) (ownerAttemptKey (m_Repository m) (m_Issue m) (m_Attempt m)) of
        None \<Rightarrow> Inl StaleStateResult
      | Some r \<Rightarrow>
          if a_Generation r \<noteq> id_AttemptGeneration (br_Identity c) \<or> a_Manifest r \<noteq> m then Inl StaleStateResult
          else Inr (pruneCompletedAttemptEffects state (m_Repository m) (m_Issue m) (m_Attempt m)))"

definition begun_effect ::
  "runtimeOwnerState \<Rightarrow> beginRuntimeEffectCommand \<Rightarrow> handoffCandidateInvalidation option \<Rightarrow>
   startCandidateInvalidation option \<Rightarrow> runtimeEffectIntent option \<Rightarrow> runtimeEffectIntent" where
  "begun_effect state c handoff start reviewer =
     (let m = br_Manifest c;
          moved = (br_Action c = EffectPrepare \<or> br_Action c = EffectStop);
          e = empty_effect\<lparr>
            e_Action := br_Action c, e_Repository := m_Repository m, e_Issue := m_Issue m, e_Attempt := m_Attempt m,
            e_IssueGeneration := (if moved then issueGeneration state (m_Repository m) (m_Issue m)
              else id_IssueGeneration (br_Identity c)),
            e_AttemptGeneration := (if moved then attemptGeneration state (m_Repository m) (m_Issue m) (m_Attempt m)
              else id_AttemptGeneration (br_Identity c)),
            e_IntentEpoch := s_Epoch state, e_State := ''pending'', e_RequestDigest := br_RequestDigest c,
            e_Reason := br_Reason c, e_Review := br_Review c, e_CandidateLaunchToken := br_CandidateLaunchToken c,
            e_InvalidatedHandoff := handoff, e_InvalidatedStart := start\<rparr>;
          e1 = (if br_Action c = EffectMonitor
                then e\<lparr>e_MachineStatusSequence := ms_Sequence (status_of state (m_Repository m) (m_Issue m))\<rparr> else e);
          e2 = (if br_Action c = EffectStart
                then e1\<lparr>e_StartGateNonce := br_StartGateNonce c,
                  e_StartCandidates := [\<lparr>sg_Nonce = br_StartGateNonce c, sg_MayRun = False\<rparr>]\<rparr> else e1)
      in bindSupersededReviewer e2 reviewer)"

definition begin_move ::
  "Env \<Rightarrow> runtimeOwnerState \<Rightarrow> beginRuntimeEffectCommand \<Rightarrow> (runtimeOwnerState \<times> runtimeEffectIntent option) owner_result" where
  "begin_move env state c =
     (if br_Action c = EffectPrepare then err_bind (begin_prepare env state c) (\<lambda>s. Inr (s, None))
      else if br_Action c = EffectStop then begin_stop env state c
      else err_bind (begin_other state c) (\<lambda>s. Inr (s, None)))"

definition applyBeginRuntimeEffect ::
  "Env \<Rightarrow> runtimeOwnerState \<Rightarrow> beginRuntimeEffectCommand \<Rightarrow> (runtimeOwnerState \<times> runtimeEffectIntent) owner_result" where
  "applyBeginRuntimeEffect env state c =
     (let m = br_Manifest c; stop = (br_Action c = EffectStop) in
      case begin_malformed env state c of
        Some err \<Rightarrow> Inl err
      | None \<Rightarrow>
          err_bind (if stop then repeated_stop env state c else Inr None) (\<lambda>repeated.
          case repeated of
            Some e \<Rightarrow> Inr (state, e)
          | None \<Rightarrow>
              (case begin_stale env state c of
                 Some err \<Rightarrow> Inl err
               | None \<Rightarrow>
                   err_bind (if stop then pendingHandoffCandidate env state (m_Repository m) (m_Issue m) (m_Attempt m)
                             else Inr None) (\<lambda>handoff.
                   err_bind (if stop then pendingStartCandidate env state m else Inr None) (\<lambda>start.
                   err_bind (begin_move env state c) (\<lambda>(s1, reviewer).
                     Inr (s1, begun_effect s1 c handoff start reviewer)))))))"

end
