(* ===== verification/Owner_Finish.thy ===== *)
theory Owner_Finish
  imports Owner_Runtime_Effects
begin

text \<open>
  \<^verbatim>\<open>applyFinishRuntimeEffect\<close> of \<^verbatim>\<open>state_owner.go\<close>: the result of a runtime effect is bound to its
  intent, checked against the attempt's manifest and committed together with the completion of the
  intent.  A replayed result leaves the ledger alone (\<open>Done\<close>), a new one continues (\<open>Apply\<close>).
\<close>

datatype finish_step = Done runtimeOwnerState | Apply runtimeOwnerState Manifest

definition finished_stop ::
  "Env \<Rightarrow> runtimeOwnerState \<Rightarrow> finishRuntimeEffectCommand \<Rightarrow> runtimeEffectIntent \<Rightarrow> bool" where
  "finished_stop env state c e \<longleftrightarrow>
     (let m = fr_Manifest c in
      validateOwnerManifest env (s_Repository state) m \<and> e_of_attempt e (m_Repository m) (m_Issue m) (m_Attempt m) \<and>
      (case fmlookup (s_Attempts state) (ownerAttemptKey (e_Repository e) (e_Issue e) (e_Attempt e)) of
         None \<Rightarrow> False
       | Some r \<Rightarrow> a_StopEffectID r = [] \<and> a_Manifest r = normalizeStoppedReviewManifest m \<and>
           e_Diagnostic e = m_Diagnostic m \<and> revokedWorkerCredentialCurrent env r))"

definition finish_blocked ::
  "Env \<Rightarrow> runtimeOwnerState \<Rightarrow> finishRuntimeEffectCommand \<Rightarrow> runtimeEffectIntent \<Rightarrow> owner_error option" where
  "finish_blocked env state c e =
     (let m = fr_Manifest c; i = fr_Identity c; action = fr_Action c in
      if e_SupersededReviewerID e \<noteq> [] \<and> \<not> e_ReviewerStopped e then Some StateConflict
      else if (action = EffectCleanup \<or> action = EffectStop) \<and> effectReviewerCleanupBlocked env state e
      then Some StateConflict
      else if issueGeneration state (e_Repository e) (e_Issue e) \<noteq> id_IssueGeneration i \<and>
          \<not> effectAuthorizedByTombstone state e \<or>
        attemptGeneration state (e_Repository e) (e_Issue e) (e_Attempt e) \<noteq> id_AttemptGeneration i
      then Some StaleStateResult
      else if \<not> validateOwnerManifest env (s_Repository state) m \<or>
        \<not> e_of_attempt e (m_Repository m) (m_Issue m) (m_Attempt m) then Some StateConflict
      else if action = EffectStart \<and> m_State m = ''running'' \<and>
        (\<not> e_StartMayRun e \<or> \<not> validStartCandidates (e_StartCandidates e)) then Some StateConflict
      else None)"

text \<open>The manifest a Stop commits: the launch that was running and no reviewer resources.\<close>

definition stopped_manifest ::
  "Env \<Rightarrow> runtimeOwnerState \<Rightarrow> runtimeAttemptRecord \<Rightarrow> Manifest \<Rightarrow> Manifest owner_result" where
  "stopped_manifest env state r m =
     (let old = a_Manifest r in
      if m_LaunchID old \<noteq> [] \<and>
        \<not> WorkerConfinementBound old (m_WorkerGeneration old) (activeWorkerProfileDigest env state) then Inl StateConflict
      else
        let m1 = normalizeStoppedReviewManifest
              (m\<lparr>m_WorkerGeneration := m_WorkerGeneration old, m_WorkerProfileDigest := m_WorkerProfileDigest old\<rparr>) in
        if validateOwnerManifest env (s_Repository state) m1 then Inr m1 else Inl StateConflict)"

definition bind_launch ::
  "Env \<Rightarrow> finishRuntimeEffectCommand \<Rightarrow> runtimeAttemptRecord \<Rightarrow> Manifest \<Rightarrow> runtimeAttemptRecord owner_result" where
  "bind_launch env c r m =
     (let r1 = r\<lparr>a_Manifest := m\<rparr>;
          launchChanged = (m_LaunchID (a_Manifest r) \<noteq> m_LaunchID m) in
      if m_State m = ''running'' \<and> (fr_Action c = EffectStart \<or> fr_Action c = EffectHandoff \<and> launchChanged) then
        (case (fr_ImplementationBinding c, fr_TerminalBroker c) of
           (Some ib, Some tb) \<Rightarrow>
             if bound_pair (v_sha env) m ib tb
             then Inr (r1\<lparr>a_ImplementationBinding := Some ib, a_TerminalBroker := Some tb\<rparr>)
             else Inl StateConflict
         | _ \<Rightarrow> Inl StateConflict)
      else Inr r1)"

definition revoke_worker ::
  "Env \<Rightarrow> runtimeEffectIntent \<Rightarrow> runtimeAttemptRecord \<Rightarrow> runtimeAttemptRecord owner_result" where
  "revoke_worker env e r =
     (let digest = revokedWorkerDigest env (a_Manifest r) (a_Generation r);
          m = a_Manifest r in
      if m_LaunchID m \<noteq> [] \<and> digest = [] then Inl StateConflict
      else if a_StopEffectID r \<noteq> [] \<and> a_StopEffectID r \<noteq> e_ID e then Inl StateConflict
      else Inr (r\<lparr>a_WorkerAuthorityRevokedDigest := digest, a_StopEffectID := [],
        a_Manifest := (if m_LaunchID m = [] then m\<lparr>m_WorkerGeneration := 0, m_WorkerProfileDigest := []\<rparr> else m)\<rparr>))"

definition worker_status_of :: "Manifest \<Rightarrow> stateResultIdentity \<Rightarrow> uint64 \<Rightarrow> admitMachineStatusCommand" where
  "worker_status_of m i expected =
     \<lparr>am_Repository = m_Repository m, am_Issue = m_Issue m, am_Attempt = m_Attempt m,
      am_ExpectedIssueGeneration = id_IssueGeneration i, am_ExpectedAttemptGeneration = id_AttemptGeneration i,
      am_ExpectedObservationGeneration = 0, am_ExpectedStatusSequence = expected, am_Dependency = 0,
      am_PullRequest = 0, am_Source = ''worker'',
      am_SourceID = utoa (id_AttemptGeneration i) @ '':'' @ utoa (m_WorkerStatusSeq m),
      am_SourceSequence = m_WorkerStatusSeq m, am_ExpectedCausalityToken = [],
      am_Status = m_WorkerStatus m, am_Reason = m_WorkerStatusReason m\<rparr>"

definition admit_worker_status ::
  "Env \<Rightarrow> runtimeOwnerState \<Rightarrow> finishRuntimeEffectCommand \<Rightarrow> runtimeEffectIntent \<Rightarrow> uint64 \<Rightarrow> Manifest \<Rightarrow>
   runtimeOwnerState owner_result" where
  "admit_worker_status env state c e previous m =
     (if fr_Action c = EffectMonitor \<and> previous < m_WorkerStatusSeq m then
        (case applyAdmitMachineStatus env state (worker_status_of m (fr_Identity c) (e_MachineStatusSequence e)) of
           Inl StaleStateResult \<Rightarrow> Inr state
         | result \<Rightarrow> result)
      else Inr state)"

definition commit_manifest ::
  "Env \<Rightarrow> runtimeOwnerState \<Rightarrow> finishRuntimeEffectCommand \<Rightarrow> runtimeEffectIntent \<Rightarrow> runtimeAttemptRecord \<Rightarrow>
   Manifest \<Rightarrow> finish_step owner_result" where
  "commit_manifest env state c e r m =
     (let k = ownerAttemptKey (e_Repository e) (e_Issue e) (e_Attempt e) in
      if e_State e = ''completed'' then
        (if a_Manifest r = m \<and> e_Diagnostic e = m_Diagnostic m then Inr (Done state) else Inl StateConflict)
      else
        err_bind (bind_launch env c r m) (\<lambda>r1.
        err_bind (if fr_Action c = EffectStop then revoke_worker env e r1 else Inr r1) (\<lambda>r2.
        err_bind (admit_worker_status env (state\<lparr>s_Attempts := fmupd k r2 (s_Attempts state)\<rparr>) c e
            (m_WorkerStatusSeq (a_Manifest r)) m)
          (\<lambda>s1. Inr (Apply s1 m)))))"

definition finish_manifest ::
  "Env \<Rightarrow> runtimeOwnerState \<Rightarrow> finishRuntimeEffectCommand \<Rightarrow> runtimeEffectIntent \<Rightarrow> finish_step owner_result" where
  "finish_manifest env state c e =
     (let k = ownerAttemptKey (e_Repository e) (e_Issue e) (e_Attempt e); m = fr_Manifest c; action = fr_Action c in
      if fm_has (s_Tombstones state) k then Inl AttemptTombstoned
      else case fmlookup (s_Attempts state) k of
        None \<Rightarrow> Inl StaleStateResult
      | Some r \<Rightarrow>
          if a_Generation r \<noteq> id_AttemptGeneration (fr_Identity c) then Inl StaleStateResult
          else if action = EffectReview \<and>
            (case e_Review e of None \<Rightarrow> True | Some v \<Rightarrow> owner_review_result env (a_Manifest r) v = None)
          then Inl StateConflict
          else if \<not> validRuntimeEffectResult action e (a_Manifest r) m then Inl StateConflict
          else err_bind (if action = EffectStop then stopped_manifest env state r m else Inr m)
            (\<lambda>m1. commit_manifest env state c e r m1))"

text \<open>Cleanup leaves the stored manifest alone.\<close>

definition stored_manifest :: "runtimeOwnerState \<Rightarrow> string \<Rightarrow> Manifest \<Rightarrow> Manifest" where
  "stored_manifest state k m =
     (case (case fmlookup (s_Tombstones state) k of None \<Rightarrow> None | Some t \<Rightarrow> t_Manifest t) of
        Some stored \<Rightarrow> stored
      | None \<Rightarrow> (case fmlookup (s_Attempts state) k of Some r \<Rightarrow> a_Manifest r | None \<Rightarrow> m))"

definition finish_cleanup ::
  "runtimeOwnerState \<Rightarrow> finishRuntimeEffectCommand \<Rightarrow> runtimeEffectIntent \<Rightarrow> finish_step owner_result" where
  "finish_cleanup state c e =
     (let m = fr_Manifest c in
      if stored_manifest state (ownerAttemptKey (e_Repository e) (e_Issue e) (e_Attempt e)) m \<noteq> m then Inl StateConflict
      else if e_State e = ''completed''
      then (if e_Diagnostic e = m_Diagnostic m then Inr (Done state) else Inl StateConflict)
      else Inr (Apply state m))"

definition cleaned_tombstone :: "runtimeTombstone \<Rightarrow> runtimeTombstone" where
  "cleaned_tombstone t =
     t\<lparr>t_CleanupPhase := ''completed'', t_ReviewerLeaseID := [], t_Diagnostic := [],
       t_Manifest := (case t_Manifest t of
           None \<Rightarrow> None
         | Some m \<Rightarrow>
             if m_ReviewRunID m \<noteq> [] \<or> m_ReviewSnapshot m \<noteq> [] \<or> m_ReviewSession m \<noteq> []
             then Some (m\<lparr>m_ReviewRunID := [], m_ReviewSnapshot := [], m_ReviewSession := [], m_ReviewRunCleaned := True\<rparr>)
             else Some m)\<rparr>"

definition complete_intent ::
  "runtimeOwnerState \<Rightarrow> finishRuntimeEffectCommand \<Rightarrow> runtimeEffectIntent \<Rightarrow> Manifest \<Rightarrow> runtimeOwnerState" where
  "complete_intent state c e m =
     (let k = ownerAttemptKey (e_Repository e) (e_Issue e) (e_Attempt e);
          s1 = state\<lparr>s_Effects := fmupd (e_ID e) (e\<lparr>e_State := ''completed'', e_Diagnostic := m_Diagnostic m\<rparr>)
            (s_Effects state)\<rparr>;
          s2 = (if fr_Action c = EffectStop \<or> fr_Action c = EffectCleanup
                then s1\<lparr>s_ReviewerProofs := fm_keep (\<lambda>_ p. \<not> p_of_attempt p (e_Repository e) (e_Issue e) (e_Attempt e))
                  (s_ReviewerProofs s1)\<rparr>
                else s1)
      in case fmlookup (s_Tombstones s2) k of
           None \<Rightarrow> s2
         | Some t \<Rightarrow>
             if t_EffectID t = e_ID e
             then s2\<lparr>s_Tombstones := fmupd k (cleaned_tombstone t) (s_Tombstones s2)\<rparr> else s2)"

definition applyFinishRuntimeEffect ::
  "Env \<Rightarrow> runtimeOwnerState \<Rightarrow> finishRuntimeEffectCommand \<Rightarrow> runtimeOwnerState owner_result" where
  "applyFinishRuntimeEffect env state c =
     (let i = fr_Identity c in
      if \<not> validRuntimeEffectAction (fr_Action c) \<or> id_EffectID i = [] \<or> id_SourceRevision i = 0
      then Inl StaleStateResult
      else case fmlookup (s_Effects state) (id_EffectID i) of
        None \<Rightarrow> Inl StaleStateResult
      | Some e \<Rightarrow>
          if e_Action e \<noteq> fr_Action c \<or> \<not> effect_identity_matches e i then Inl StaleStateResult
          else if e_State e = ''completed'' \<and> fr_Action c = EffectStop
          then (if finished_stop env state c e then Inr state else Inl StateConflict)
          else (case finish_blocked env state c e of
                  Some err \<Rightarrow> Inl err
                | None \<Rightarrow>
                    err_bind (if runtimeEffectAppliesManifest (fr_Action c) then finish_manifest env state c e
                              else finish_cleanup state c e)
                      (\<lambda>step. case step of
                         Done s \<Rightarrow> Inr s
                       | Apply s m \<Rightarrow> Inr (complete_intent s c e m))))"

end
