(* ===== verification/Owner_Receipts.thy ===== *)
theory Owner_Receipts
  imports Owner_Finish
begin

text \<open>
  Operator control requests and their durable receipts (\<^verbatim>\<open>control.go\<close>, \<^verbatim>\<open>operator_mutations_v2.go\<close>,
  \<^verbatim>\<open>state_owner.go\<close>): validation, the bounded receipt list and the transitions that complete, fail,
  advance or supersede a receipt.
\<close>

section \<open>Requests and results\<close>

definition request_id_char :: "char \<Rightarrow> bool" where
  "request_id_char ch \<longleftrightarrow> is_alnum ch \<or> ch \<in> set ''._:-''"

definition controlRequestIDPattern :: "string \<Rightarrow> bool" where
  "controlRequestIDPattern s \<longleftrightarrow> list_all request_id_char s \<and> 1 \<le> length s \<and> length s \<le> 128"

definition validControlRequest :: "controlRequest \<Rightarrow> string \<Rightarrow> bool" where
  "validControlRequest q repository \<longleftrightarrow>
     (if q_Version q \<noteq> controlVersion \<or> q_Repository q \<noteq> repository \<or> \<not> controlRequestIDPattern (q_RequestID q)
      then False
      else if q_Action q \<in> set [''reconcile'', ''orchestrator-recover'', ''orchestrator-clear'',
        ''orchestrator-rebuild'', ''orchestrator-session''] then q_Issue q = 0 \<and> q_Attempt q = 0 \<and> \<not> q_Confirm q
      else if q_Action q \<in> set [''recover'', ''review-plan'', ''dismiss'', ''cancel'', ''orchestrator-investigate'']
      then 0 < q_Issue q \<and> 0 < q_Attempt q \<and> \<not> q_Confirm q
      else if q_Action q \<in> set [''archive'', ''abandon'', ''remove'']
      then 0 < q_Issue q \<and> 0 < q_Attempt q \<and> q_Confirm q
      else False)"

definition validOperatorRequest :: "controlRequest \<Rightarrow> string \<Rightarrow> bool" where
  "validOperatorRequest q repository \<longleftrightarrow>
     validControlRequest q repository \<and>
     q_Action q \<in> set [''dismiss'', ''archive'', ''abandon'', ''remove'', ''cancel'', ''recover'', ''review-plan'']"

definition validRecordedControlResult :: "Env \<Rightarrow> controlResult \<Rightarrow> controlRequest \<Rightarrow> bool" where
  "validRecordedControlResult env r q \<longleftrightarrow>
     cr_Version r = controlVersion \<and> cr_RequestID r = q_RequestID q \<and> cr_Action r = q_Action q \<and>
     100 \<le> cr_Status r \<and> cr_Status r \<le> 599 \<and> cr_OK r = (200 \<le> cr_Status r \<and> cr_Status r < 300) \<and>
     cr_Retryable r = (cr_Status r = 503) \<and> (cr_OK r \<or> cr_Error r \<noteq> []) \<and>
     (cr_Data r = [] \<or> v_json_valid env (cr_Data r))"

definition successfulOperatorResult :: "controlRequest \<Rightarrow> uint64 \<Rightarrow> controlResult" where
  "successfulOperatorResult q revision =
     \<lparr>cr_Version = controlVersion, cr_RequestID = q_RequestID q, cr_Action = q_Action q, cr_OK = True,
      cr_Retryable = False, cr_Status = 200, cr_OwnerRevision = revision, cr_Data = [], cr_Error = []\<rparr>"

definition failed_result :: "controlRequest \<Rightarrow> uint64 \<Rightarrow> int \<Rightarrow> string \<Rightarrow> controlResult" where
  "failed_result q revision status error =
     (successfulOperatorResult q revision)\<lparr>cr_OK := False, cr_Status := status, cr_Error := error\<rparr>"

definition operator_phases :: "string list" where
  "operator_phases = [operatorPhaseAdmissionPending, operatorPhaseCleanupPending, operatorPhaseCleanupStarted,
     operatorPhaseStopPending, operatorPhaseTerminalAwait, operatorPhaseTerminal, operatorPhaseRetryAwait,
     operatorPhaseRetryPending, operatorPhaseReviewPending, operatorPhaseHandoffCleanup, operatorPhaseStartCleanup,
     operatorPhaseCompleted]"

definition validOperatorReceiptBinding :: "controlReceipt \<Rightarrow> bool" where
  "validOperatorReceiptBinding r \<longleftrightarrow>
     (if r_Phase r = [] then r_EffectID r = [] \<and> r_Diagnostic r = [] \<and> r_Admission r = None
      else if r_Phase r \<notin> set operator_phases then False
      else if r_State r = ''completed''
      then r_Phase r = operatorPhaseCompleted \<and> r_Result r \<noteq> None \<and> r_Diagnostic r = [] \<and> r_Admission r = None
      else if r_Phase r = operatorPhaseAdmissionPending
      then r_EffectID r = [] \<and> r_Result r = None \<and> r_Diagnostic r = [] \<and> r_Admission r \<noteq> None
      else
        let legacyHandoff = (q_Action (r_Request r) = ''dismiss'' \<and> r_Phase r = operatorPhaseHandoffCleanup \<and>
              r_EffectID r = []) in
        r_State r = ''pending'' \<and> r_Phase r \<noteq> operatorPhaseCompleted \<and> (r_EffectID r \<noteq> [] \<or> legacyHandoff) \<and>
        r_Result r = None \<and> r_Admission r = None \<and> boundedText (r_Diagnostic r) maxReconciliationStringBytes False)"

definition github_update_kind :: "runtimeEffectIntent \<Rightarrow> string option" where
  "github_update_kind e =
     (case e_Reconciliation e of
        None \<Rightarrow> None
      | Some q \<Rightarrow>
          if rq_Action q = reconciliationGitHubIssueUpdate
          then (case rq_GitHubIssueUpdate q of None \<Rightarrow> None | Some u \<Rightarrow> Some (gu_Kind u)) else None)"

definition operatorReceiptMatchesEffect :: "controlReceipt \<Rightarrow> runtimeEffectIntent \<Rightarrow> bool" where
  "operatorReceiptMatchesEffect r e \<longleftrightarrow>
     (let q = r_Request r in
      if \<not> e_of_attempt e (q_Repository q) (q_Issue q) (q_Attempt q) then False
      else if q_Action q \<in> set [''dismiss'', ''archive'', ''abandon'', ''remove''] then e_Action e = EffectCleanup
      else if q_Action q = ''cancel'' then e_Action e = EffectStop
      else if q_Action q = ''recover'' then
        if r_Phase r = operatorPhaseStopPending \<or> r_Phase r = operatorPhaseTerminalAwait then e_Action e = EffectStop
        else if r_Phase r = operatorPhaseTerminal \<or> r_Phase r = operatorPhaseRetryAwait
        then github_update_kind e = Some githubIssueTerminalFailure
        else if r_Phase r = operatorPhaseRetryPending \<or> r_Phase r = operatorPhaseCompleted
        then github_update_kind e = Some githubIssueRetry
        else False
      else if q_Action q = ''review-plan'' then
        (case e_Reconciliation e of
           None \<Rightarrow> False
         | Some rq \<Rightarrow> rq_Action rq = reconciliationReviewer \<and>
             (case rq_Reviewer rq of None \<Rightarrow> False | Some v \<Rightarrow> rv_Mode v = ReviewModePlan))
      else False)"

definition operatorReceiptEffectState :: "controlReceipt \<Rightarrow> string" where
  "operatorReceiptEffectState r =
     (if r_State r = ''completed'' \<or> r_Phase r = operatorPhaseTerminalAwait \<or> r_Phase r = operatorPhaseRetryAwait
      then ''completed'' else ''pending'')"

definition operatorTombstoneAction :: "string \<Rightarrow> string" where
  "operatorTombstoneAction action =
     (if action = ''archive'' then ''archived'' else if action = ''abandon'' then ''abandoned''
      else if action = ''dismiss'' then ''dismissed'' else if action = ''remove'' then ''removed'' else [])"

definition bareCompletedArchive :: "runtimeTombstone \<Rightarrow> bool" where
  "bareCompletedArchive t \<longleftrightarrow>
     t_Action t = ''archived'' \<and> t_CleanupPhase t = ''completed'' \<and> t_PublishedHead t = [] \<and> t_Manifest t = None \<and>
     t_CleanupPolicy t = None \<and> t_EffectID t = []"

definition bareCompletedRemoval :: "runtimeTombstone \<Rightarrow> bool" where
  "bareCompletedRemoval t \<longleftrightarrow>
     t_Action t = ''removed'' \<and> t_CleanupPhase t = ''completed'' \<and> t_PublishedHead t = [] \<and> t_Manifest t = None \<and>
     t_CleanupPolicy t = None \<and> t_EffectID t = []"

definition validTombstoneCleanupPolicy :: "runtimeTombstone \<Rightarrow> bool" where
  "validTombstoneCleanupPolicy t \<longleftrightarrow>
     (if t_Action t = ''dismissed'' then
        if t_PublishedHead t \<noteq> [] then False
        else if t_EffectID t = []
        then t_CleanupPolicy t = None \<and> t_CleanupPhase t = ''completed'' \<and> t_ReviewerLeaseID t = []
        else (case t_CleanupPolicy t of
                None \<Rightarrow> False
              | Some p \<Rightarrow> cp_Action p = ''dismiss'' \<and> cp_PublishedHead p = [])
      else if t_ReviewerLeaseID t \<noteq> [] then False
      else if bareCompletedRemoval t \<or> bareCompletedArchive t then True
      else case t_CleanupPolicy t of
        None \<Rightarrow> False
      | Some p \<Rightarrow>
          let want = (if t_Action t = ''archived'' then ''archive'' else if t_Action t = ''abandoned'' then ''abandon''
                else if t_Action t = ''removed'' then ''remove'' else []) in
          t_EffectID t \<noteq> [] \<and> want \<noteq> [] \<and> cp_Action p = want \<and> cp_PublishedHead p = t_PublishedHead t \<and>
          (want = ''remove'' \<and> preflightObjectID (t_PublishedHead t) \<or> want \<noteq> ''remove'' \<and> t_PublishedHead t = []))"

section \<open>The receipt list\<close>

fun drop_completed :: "controlReceipt list \<Rightarrow> (controlReceipt \<times> controlReceipt list) option" where
  "drop_completed [] = None"
| "drop_completed (r # rs) =
     (if r_State r = ''completed'' then Some (r, rs)
      else map_option (\<lambda>(x, ys). (x, r # ys)) (drop_completed rs))"

definition operatorReceiptByID :: "runtimeOwnerState \<Rightarrow> string \<Rightarrow> controlReceipt option" where
  "operatorReceiptByID state requestID = find (\<lambda>r. q_RequestID (r_Request r) = requestID) (s_ControlReceipts state)"

text \<open>The first receipt with a given request id, replaced.\<close>

fun replace_receipt :: "string \<Rightarrow> (controlReceipt \<Rightarrow> controlReceipt) \<Rightarrow> controlReceipt list \<Rightarrow> controlReceipt list" where
  "replace_receipt requestID f [] = []"
| "replace_receipt requestID f (r # rs) =
     (if q_RequestID (r_Request r) = requestID then f r # rs else r # replace_receipt requestID f rs)"

definition invalid_receipt :: "Env \<Rightarrow> runtimeOwnerState \<Rightarrow> controlReceipt \<Rightarrow> bool" where
  "invalid_receipt env state r \<longleftrightarrow>
     \<not> validControlRequest (r_Request r) (s_Repository state) \<or>
     r_State r \<noteq> ''pending'' \<and> r_State r \<noteq> ''completed'' \<or> r_State r = ''pending'' \<and> r_Result r \<noteq> None \<or>
     r_State r = ''completed'' \<and>
       (case r_Result r of None \<Rightarrow> True | Some x \<Rightarrow> \<not> validRecordedControlResult env x (r_Request r)) \<or>
     \<not> validOperatorReceiptBinding r"

definition applyControlReceipt :: "Env \<Rightarrow> runtimeOwnerState \<Rightarrow> controlReceipt \<Rightarrow> runtimeOwnerState owner_result" where
  "applyControlReceipt env state receipt =
     (let requestID = q_RequestID (r_Request receipt) in
      if invalid_receipt env state receipt then Inl StateConflict
      else case operatorReceiptByID state requestID of
        Some existing \<Rightarrow>
          if r_Request existing \<noteq> r_Request receipt \<or> r_State existing = ''completed'' \<and> existing \<noteq> receipt
          then Inl StateConflict
          else Inr (state\<lparr>s_ControlReceipts := replace_receipt requestID (\<lambda>_. receipt) (s_ControlReceipts state)\<rparr>)
      | None \<Rightarrow>
          if length (s_ControlReceipts state) = maxControlReceipts then
            (case drop_completed (s_ControlReceipts state) of
               None \<Rightarrow> Inl StateConflict
             | Some (_, rest) \<Rightarrow> Inr (state\<lparr>s_ControlReceipts := rest @ [receipt]\<rparr>))
          else Inr (state\<lparr>s_ControlReceipts := s_ControlReceipts state @ [receipt]\<rparr>))"

definition forget_evicted :: "string \<Rightarrow> runtimeOwnerState \<Rightarrow> runtimeOwnerState" where
  "forget_evicted effectID state =
     (if effectID \<noteq> [] \<and> \<not> effectReferencedByReceipt state effectID \<and> \<not> tombstoneReferencesEffect state effectID \<and>
        (case fmlookup (s_Effects state) effectID of None \<Rightarrow> False | Some e \<Rightarrow> e_State e = ''completed'')
      then state\<lparr>s_Effects := fmdrop effectID (s_Effects state)\<rparr> else state)"

definition appendOperatorReceipt :: "runtimeOwnerState \<Rightarrow> controlReceipt \<Rightarrow> runtimeOwnerState owner_result" where
  "appendOperatorReceipt state receipt =
     (if length (s_ControlReceipts state) = maxControlReceipts then
        (case drop_completed (s_ControlReceipts state) of
           None \<Rightarrow> Inl StateConflict
         | Some (evicted, rest) \<Rightarrow>
             let s1 = forget_evicted (r_EffectID evicted) (state\<lparr>s_ControlReceipts := rest\<rparr>) in
             Inr (s1\<lparr>s_ControlReceipts := s_ControlReceipts s1 @ [receipt]\<rparr>))
      else Inr (state\<lparr>s_ControlReceipts := s_ControlReceipts state @ [receipt]\<rparr>))"

definition bindOperatorReceipt ::
  "runtimeOwnerState \<Rightarrow> string \<Rightarrow> runtimeEffectIntent option \<Rightarrow> uint64 \<Rightarrow> runtimeOwnerState" where
  "bindOperatorReceipt state requestID effect revision =
     state\<lparr>s_ControlReceipts := replace_receipt requestID
       (\<lambda>r. r\<lparr>r_EffectID := (case effect of None \<Rightarrow> r_EffectID r | Some e \<Rightarrow> e_ID e),
              r_Result := map_option (\<lambda>x. x\<lparr>cr_OwnerRevision := revision\<rparr>) (r_Result r)\<rparr>)
       (s_ControlReceipts state)\<rparr>"

section \<open>Receipt transitions\<close>

definition update_receipts ::
  "(controlReceipt \<Rightarrow> bool) \<Rightarrow> (controlReceipt \<Rightarrow> controlReceipt) \<Rightarrow> runtimeOwnerState \<Rightarrow> runtimeOwnerState" where
  "update_receipts P f state =
     state\<lparr>s_ControlReceipts := map (\<lambda>r. if P r then f r else r) (s_ControlReceipts state)\<rparr>"

definition completed_receipt :: "controlResult \<Rightarrow> controlReceipt \<Rightarrow> controlReceipt" where
  "completed_receipt result r =
     r\<lparr>r_State := ''completed'', r_Phase := operatorPhaseCompleted, r_Diagnostic := [], r_Result := Some result\<rparr>"

definition recover_awaits :: "string \<Rightarrow> string \<Rightarrow> controlReceipt \<Rightarrow> bool" where
  "recover_awaits effectID from r \<longleftrightarrow>
     q_Action (r_Request r) = ''recover'' \<and> r_State r = ''pending'' \<and> r_Phase r = from \<and> r_EffectID r = effectID"

definition advanceRecoverReceipts ::
  "runtimeOwnerState \<Rightarrow> string \<Rightarrow> string \<Rightarrow> string \<Rightarrow> runtimeOwnerState \<times> bool" where
  "advanceRecoverReceipts state effectID from to =
     (update_receipts (recover_awaits effectID from) (\<lambda>r. r\<lparr>r_Phase := to, r_Diagnostic := []\<rparr>) state,
      list_ex (recover_awaits effectID from) (s_ControlReceipts state))"

definition completeOperatorReceipts :: "runtimeOwnerState \<Rightarrow> string \<Rightarrow> runtimeOwnerState" where
  "completeOperatorReceipts state effectID =
     update_receipts (\<lambda>r. r_EffectID r = effectID \<and> r_State r = ''pending'')
       (\<lambda>r. completed_receipt (successfulOperatorResult (r_Request r) (s_Revision state + 1)) r) state"

definition failOperatorReceipts :: "runtimeOwnerState \<Rightarrow> string \<Rightarrow> string \<Rightarrow> runtimeOwnerState" where
  "failOperatorReceipts state effectID diagnostic =
     update_receipts (\<lambda>r. r_EffectID r = effectID \<and> r_State r = ''pending'')
       (\<lambda>r. completed_receipt (failed_result (r_Request r) (s_Revision state + 1) 500 diagnostic) r) state"

definition superseded_workflow :: "string \<Rightarrow> int \<Rightarrow> int \<Rightarrow> string \<Rightarrow> controlReceipt \<Rightarrow> bool" where
  "superseded_workflow repository issue attempt action r \<longleftrightarrow>
     (let q = r_Request r in r_State r = ''pending'' \<and> q_Repository q = repository \<and> q_Issue q = issue \<and>
        q_Attempt q = attempt \<and> q_Action q \<noteq> action)"

definition supersedePendingOperatorWorkflows ::
  "runtimeOwnerState \<Rightarrow> string \<Rightarrow> int \<Rightarrow> int \<Rightarrow> string \<Rightarrow> runtimeOwnerState" where
  "supersedePendingOperatorWorkflows state repository issue attempt action =
     (let P = superseded_workflow repository issue attempt action;
          remove = map r_EffectID (filter P (s_ControlReceipts state));
          s1 = update_receipts P
            (\<lambda>r. completed_receipt (failed_result (r_Request r) (s_Revision state + 1) 409
               (''operator workflow superseded by '' @ action)) (r\<lparr>r_EffectID := []\<rparr>)) state in
      s1\<lparr>s_Effects := fm_keep (\<lambda>k _. \<not> (k \<in> set remove \<and> k \<noteq> [] \<and> \<not> effectReferencedByReceipt s1 k \<and>
        \<not> tombstoneReferencesEffect s1 k)) (s_Effects s1)\<rparr>)"

definition effectForOperatorReceipt ::
  "runtimeOwnerState \<Rightarrow> controlReceipt \<Rightarrow> runtimeEffectIntent option owner_result" where
  "effectForOperatorReceipt state r =
     (if r_State r = ''completed'' then Inr None
      else case fmlookup (s_Effects state) (r_EffectID r) of
        None \<Rightarrow> Inl StateConflict
      | Some e \<Rightarrow>
          if e_State e \<noteq> operatorReceiptEffectState r \<or> \<not> operatorReceiptMatchesEffect r e then Inl StateConflict
          else Inr (Some e))"

definition applyRecordOperatorDiagnostic ::
  "runtimeOwnerState \<Rightarrow> recordOperatorDiagnosticCommand \<Rightarrow> runtimeOwnerState owner_result" where
  "applyRecordOperatorDiagnostic state c =
     (let mine = filter (\<lambda>r. q_RequestID (r_Request r) = od_RequestID c) (s_ControlReceipts state);
          awaits = (\<lambda>r. r_State r = ''pending'' \<and> r_Phase r = od_Phase c \<and> r_EffectID r = od_EffectID c) in
      if od_RequestID c = [] \<or>
        od_Phase c \<notin> {operatorPhaseTerminalAwait, operatorPhaseRetryAwait, operatorPhaseHandoffCleanup,
          operatorPhaseStartCleanup} \<or>
        \<not> boundedText (od_Diagnostic c) maxReconciliationStringBytes True then Inl StateConflict
      else if \<not> list_all awaits mine \<or> mine = [] then Inl StaleStateResult
      else Inr (update_receipts awaits (\<lambda>r. r\<lparr>r_Diagnostic := od_Diagnostic c\<rparr>) state))"

definition compensated_receipt :: "uint64 \<Rightarrow> string \<Rightarrow> controlReceipt \<Rightarrow> controlReceipt" where
  "compensated_receipt revision effectID r =
     (if effectID = [] then completed_receipt (successfulOperatorResult (r_Request r) (revision + 1)) r
      else r\<lparr>r_Phase := operatorPhaseCleanupPending, r_Diagnostic := []\<rparr>)"

definition receipt_key :: "controlReceipt \<Rightarrow> string" where
  "receipt_key r = ownerAttemptKey (q_Repository (r_Request r)) (q_Issue (r_Request r)) (q_Attempt (r_Request r))"

definition applyCompleteHandoffCompensation ::
  "runtimeOwnerState \<Rightarrow> completeHandoffCompensationCommand \<Rightarrow> runtimeOwnerState owner_result" where
  "applyCompleteHandoffCompensation state c =
     (let proof' = ch_Proof c in
      if ch_RequestID c = [] \<or> hp_EffectID proof' = [] then Inl StateConflict
      else case operatorReceiptByID state (ch_RequestID c) of
        None \<Rightarrow> Inl StaleStateResult
      | Some receipt \<Rightarrow>
          if q_Action (r_Request receipt) \<noteq> ''dismiss'' then Inl StateConflict
          else
            (case fmlookup (s_Tombstones state) (receipt_key receipt) of
               None \<Rightarrow> Inl StaleStateResult
             | Some t \<Rightarrow>
                 let awaits = (\<lambda>r. r_State r = ''pending'' \<and> r_Phase r = operatorPhaseHandoffCleanup \<and>
                       receipt_key r = receipt_key receipt) in
                 if t_Action t \<noteq> ''dismissed'' \<or>
                   (case t_InvalidatedHandoff t of None \<Rightarrow> True
                    | Some h \<Rightarrow> hc_EffectID h \<noteq> hp_EffectID proof' \<or> hc_Token h \<noteq> hp_Token proof') \<or>
                   \<not> hp_PreserveOld proof' \<or> hp_OldSessionID proof' = [] \<or> hp_OldPaneID proof' = [] \<or>
                   hp_Disposition proof' \<notin> set [''absent'', ''marked-old'', ''killed''] then Inl StaleStateResult
                 else if t_HandoffCompensated t then Inr state
                 else if \<not> list_ex awaits (s_ControlReceipts state) then Inl StateConflict
                 else
                   let s1 = update_receipts awaits (compensated_receipt (s_Revision state) (t_EffectID t)) state in
                   Inr (s1\<lparr>s_Tombstones := fmupd (receipt_key receipt) (t\<lparr>t_HandoffCompensated := True\<rparr>)
                     (s_Tombstones s1)\<rparr>)))"

section \<open>Admissions\<close>

record abortOperatorAdmissionCommand =
  ab_Request :: controlRequest

record failOperatorAdmissionCommand =
  fl_Request :: controlRequest
  fl_Result :: controlResult

fun remove_receipt :: "string \<Rightarrow> controlReceipt list \<Rightarrow> controlReceipt list" where
  "remove_receipt requestID [] = []"
| "remove_receipt requestID (r # rs) =
     (if q_RequestID (r_Request r) = requestID then rs else r # remove_receipt requestID rs)"

definition admission_open :: "controlReceipt \<Rightarrow> bool" where
  "admission_open r \<longleftrightarrow> r_State r = ''pending'' \<and> r_Phase r = operatorPhaseAdmissionPending \<and> r_Admission r \<noteq> None"

text \<open>The receipts that wait for the same validation of the same attempt.\<close>

definition same_admission :: "controlRequest \<Rightarrow> operatorAdmission option \<Rightarrow> controlReceipt \<Rightarrow> bool" where
  "same_admission q admission r \<longleftrightarrow>
     admission_open r \<and> q_Action (r_Request r) = q_Action q \<and>
     receipt_key r = ownerAttemptKey (q_Repository q) (q_Issue q) (q_Attempt q) \<and> r_Admission r = admission"

definition matchingOperatorAdmissions :: "runtimeOwnerState \<Rightarrow> controlRequest \<Rightarrow> controlRequest list" where
  "matchingOperatorAdmissions state q =
     (case operatorReceiptByID state (q_RequestID q) of
        None \<Rightarrow> []
      | Some receipt \<Rightarrow>
          if \<not> admission_open receipt then []
          else map r_Request (filter (same_admission q (r_Admission receipt)) (s_ControlReceipts state)))"

definition operatorAdmissionLeader :: "runtimeOwnerState \<Rightarrow> controlReceipt \<Rightarrow> bool" where
  "operatorAdmissionLeader state receipt \<longleftrightarrow>
     (case find (same_admission (r_Request receipt) (r_Admission receipt)) (s_ControlReceipts state) of
        None \<Rightarrow> False
      | Some leader \<Rightarrow> q_RequestID (r_Request leader) = q_RequestID (r_Request receipt))"

definition applyAbortOperatorAdmission ::
  "runtimeOwnerState \<Rightarrow> abortOperatorAdmissionCommand \<Rightarrow> runtimeOwnerState owner_result" where
  "applyAbortOperatorAdmission state c =
     (case operatorReceiptByID state (q_RequestID (ab_Request c)) of
        None \<Rightarrow> Inr state
      | Some r \<Rightarrow>
          if r_Request r \<noteq> ab_Request c \<or> \<not> admission_open r then Inl StateConflict
          else Inr (state\<lparr>s_ControlReceipts :=
            remove_receipt (q_RequestID (ab_Request c)) (s_ControlReceipts state)\<rparr>))"

definition applyFailOperatorAdmission ::
  "Env \<Rightarrow> runtimeOwnerState \<Rightarrow> failOperatorAdmissionCommand \<Rightarrow> runtimeOwnerState owner_result" where
  "applyFailOperatorAdmission env state c =
     (let q = fl_Request c; result = fl_Result c in
      case operatorReceiptByID state (q_RequestID q) of
        None \<Rightarrow> Inl StaleStateResult
      | Some r \<Rightarrow>
          if r_Request r \<noteq> q \<or> \<not> admission_open r \<or> s_Revision state = uint64_max \<or> cr_OK result \<or>
            cr_Status result < 400 \<or> \<not> validRecordedControlResult env result q then Inl StateConflict
          else Inr (update_receipts (same_admission q (r_Admission r))
            (\<lambda>x. x\<lparr>r_State := ''completed'', r_Phase := operatorPhaseCompleted, r_Admission := None,
              r_Result := Some (result\<lparr>cr_RequestID := q_RequestID (r_Request x), cr_Action := q_Action (r_Request x),
                cr_OwnerRevision := s_Revision state + 1\<rparr>)\<rparr>) state))"

section \<open>Operator effects\<close>

record startOperatorCleanupCommand =
  su_Identity :: stateResultIdentity

record finishOperatorRuntimeEffectCommand =
  fu_Finish :: finishRuntimeEffectCommand

definition applyStartOperatorCleanup ::
  "runtimeOwnerState \<Rightarrow> startOperatorCleanupCommand \<Rightarrow> runtimeOwnerState owner_result" where
  "applyStartOperatorCleanup state c =
     (let i = su_Identity c in
      case fmlookup (s_Effects state) (id_EffectID i) of
        None \<Rightarrow> Inl StaleStateResult
      | Some e \<Rightarrow>
          if e_Action e \<noteq> EffectCleanup \<or> e_State e \<noteq> ''pending'' then Inl StaleStateResult
          else
            err_bind (applyAuthorizeRuntimeEffect state \<lparr>ar_Identity = i, ar_Action = EffectCleanup, ar_GateNonce = []\<rparr>)
              (\<lambda>s. let k = ownerAttemptKey (e_Repository e) (e_Issue e) (e_Attempt e) in
                case fmlookup (s_Tombstones s) k of
                  None \<Rightarrow> Inl StateConflict
                | Some t \<Rightarrow>
                    if t_EffectID t \<noteq> e_ID e \<or> t_CleanupPhase t \<noteq> ''pending'' \<and> t_CleanupPhase t \<noteq> ''cleanup-started''
                    then Inl StateConflict
                    else if t_CleanupPhase t = ''cleanup-started'' then Inr s
                    else Inr (update_receipts (\<lambda>r. r_EffectID r = e_ID e \<and> r_State r = ''pending'')
                      (\<lambda>r. r\<lparr>r_Phase := operatorPhaseCleanupStarted, r_Diagnostic := []\<rparr>)
                      (s\<lparr>s_Tombstones := fmupd k (t\<lparr>t_CleanupPhase := ''cleanup-started''\<rparr>) (s_Tombstones s)\<rparr>))))"

definition applyFinishOperatorRuntimeEffect ::
  "Env \<Rightarrow> runtimeOwnerState \<Rightarrow> finishOperatorRuntimeEffectCommand \<Rightarrow> runtimeOwnerState owner_result" where
  "applyFinishOperatorRuntimeEffect env state c =
     (let effectID = id_EffectID (fr_Identity (fu_Finish c)) in
      err_bind (applyFinishRuntimeEffect env state (fu_Finish c)) (\<lambda>s.
        case advanceRecoverReceipts s effectID operatorPhaseStopPending operatorPhaseTerminalAwait of
          (s1, advanced) \<Rightarrow> Inr (if advanced then s1 else completeOperatorReceipts s effectID)))"

end
