(* ===== verification/Owner_Reviewer_Steps.thy ===== *)
theory Owner_Reviewer_Steps
  imports Owner_Receipts
begin

text \<open>
  The life of a reviewer process in the ledger (\<^verbatim>\<open>state_owner.go\<close>, \<^verbatim>\<open>reconciliation_effects_v2.go\<close>,
  \<^verbatim>\<open>reviewer_lifecycle.go\<close>): a live process group is bound before it is signalled, its death is
  proved, the proof is kept until the resources are cleaned, and a GitHub mutation whose attempt was
  invalidated after dispatch is resolved by an observed outcome.
\<close>

section \<open>Certificates\<close>

definition reviewerPaneCertificateFrom :: "reviewerPaneIdentity \<Rightarrow> reviewerPaneCertificate" where
  "reviewerPaneCertificateFrom pane =
     \<lparr>pc_ServerPID = pi_ServerPID pane, pc_ServerStart = pi_StartTime pane, pc_SessionName = pi_Name pane,
      pc_SessionID = pi_SessionID pane, pc_PaneID = pi_PaneID pane, pc_PanePID = pi_PID pane\<rparr>"

definition atoi_ok :: "string \<Rightarrow> bool" where
  "atoi_ok s \<longleftrightarrow> snd (atoi s)"

definition validReviewerTerminalCertificate :: "Env \<Rightarrow> reviewerProcessProof \<Rightarrow> bool" where
  "validReviewerTerminalCertificate env p \<longleftrightarrow>
     (case (p_Pane p, p_TerminalBroker p) of
        (Some pane, Some broker) \<Rightarrow>
          let path = p_BrokerPath p; root = v_SnapshotRoot env in
          if path = [] \<or> \<not> path_is_abs path \<or> path_clean path \<noteq> path \<or> path_base path \<noteq> ''broker.json'' then False
          else if \<not> path_is_abs root \<or> path_escapes (path_clean root) path then False
          else if pc_ServerPID pane < 2 \<or> pc_ServerStart pane = 0 \<or> pc_SessionName pane = [] \<or> pc_PanePID pane < 2 \<or>
            \<not> has_prefix (pc_SessionID pane) ''$'' \<or> \<not> has_prefix (pc_PaneID pane) ''%'' then False
          else if \<not> atoi_ok (trim_prefix (pc_SessionID pane) ''$'') \<or> \<not> atoi_ok (trim_prefix (pc_PaneID pane) ''%'')
          then False
          else tb_OuterPID broker = pc_PanePID pane \<and> tb_InnerPGID broker = p_GroupPID p \<and>
            ValidTerminalBrokerAt (v_sha env) path (TerminalBrokerSocketDirForState (v_sha env) (v_StateRoot env)) broker
      | _ \<Rightarrow> False)"

section \<open>Stopping a reviewer\<close>

definition stop_identity :: "runtimeEffectIntent \<Rightarrow> stateResultIdentity \<Rightarrow> bool" where
  "stop_identity e i \<longleftrightarrow> e_State e = ''pending'' \<and> effect_identity_matches e i"

definition superseded_proof :: "runtimeEffectIntent \<Rightarrow> reviewerProcessProof" where
  "superseded_proof e =
     empty_proof\<lparr>p_Repository := e_Repository e, p_Issue := e_Issue e, p_Attempt := e_Attempt e,
       p_Mode := e_SupersededReviewerMode e, p_Target := e_SupersededReviewerTarget e,
       p_RunID := e_SupersededReviewerRunID e, p_EffectID := e_SupersededReviewerID e,
       p_IssueGeneration := e_SupersededReviewerIssueGeneration e,
       p_AttemptGeneration := e_SupersededReviewerAttemptGeneration e,
       p_ProfileDigest := e_SupersededReviewerProfileDigest e,
       p_ConfinementVersion := e_SupersededReviewerConfinementVersion e\<rparr>"

definition stop_observation_bad :: "runtimeEffectIntent \<Rightarrow> reviewerStopObservation \<Rightarrow> bool" where
  "stop_observation_bad e ob \<longleftrightarrow>
     so_NeverRan ob \<noteq> (so_GroupPID ob = 0) \<or>
     so_NeverRan ob \<and> (\<not> e_SupersededReviewerGateProtocol e \<or> e_SupersededReviewerSessionRequested e) \<or>
     0 < e_SupersededReviewerGroupPID e \<and>
       (so_GroupPID ob \<noteq> e_SupersededReviewerGroupPID e \<or> so_NeverRan ob) \<or>
     e_SupersededReviewerGroupPID e = 0 \<and> \<not> so_NeverRan ob"

definition release_lease :: "runtimeOwnerState \<Rightarrow> runtimeEffectIntent \<Rightarrow> runtimeOwnerState" where
  "release_lease state e =
     (let k = ownerAttemptKey (e_Repository e) (e_Issue e) (e_Attempt e) in
      case fmlookup (s_Tombstones state) k of
        None \<Rightarrow> state
      | Some t \<Rightarrow>
          if t_EffectID t = e_ID e \<and> t_ReviewerLeaseID t = e_SupersededReviewerID e
          then state\<lparr>s_Tombstones := fmupd k
            (t\<lparr>t_ReviewerLeaseID := [], t_Diagnostic := ''reviewer resource cleanup remains pending''\<rparr>)
            (s_Tombstones state)\<rparr>
          else state)"

definition stopped_proof ::
  "runtimeOwnerState \<Rightarrow> runtimeEffectIntent \<Rightarrow> reviewerStopObservation \<Rightarrow> reviewerProcessProof option" where
  "stopped_proof state e ob =
     (if 0 < e_SupersededReviewerGroupPID e then
        (case fmlookup (s_ReviewerProofs state) (reviewerProofKey (e_Repository e) (e_Issue e) (e_Attempt e)
             (e_SupersededReviewerMode e) (e_SupersededReviewerTarget e)) of
           None \<Rightarrow> None
         | Some p \<Rightarrow>
             if reviewerProofMatchesSuperseded e p \<and> reviewerCleanupAuthorized (p\<lparr>p_DeadProved := True\<rparr>)
             then Some (p\<lparr>p_DeadProved := True\<rparr>) else None)
      else Some ((superseded_proof e)\<lparr>p_GroupPID := so_GroupPID ob, p_DeadProved := True, p_NeverRan := so_NeverRan ob\<rparr>))"

definition applyMarkReviewerStopped ::
  "runtimeOwnerState \<Rightarrow> markReviewerStoppedCommand \<Rightarrow> runtimeOwnerState owner_result" where
  "applyMarkReviewerStopped state c =
     (case fmlookup (s_Effects state) (id_EffectID (mk_Identity c)) of
        None \<Rightarrow> Inl StaleStateResult
      | Some e \<Rightarrow>
          if \<not> stop_identity e (mk_Identity c) \<or> e_SupersededReviewerID e = [] \<or>
            e_Action e \<noteq> EffectStop \<and> e_Action e \<noteq> EffectCleanup then Inl StaleStateResult
          else if e_ReviewerStopped e then Inr state
          else if stop_observation_bad e (mk_Observation c) then Inl StateConflict
          else case stopped_proof state e (mk_Observation c) of
            None \<Rightarrow> Inl StateConflict
          | Some p \<Rightarrow>
              Inr (release_lease (state\<lparr>
                s_ReviewerProofs := fmupd (reviewerProofKey (e_Repository e) (e_Issue e) (e_Attempt e)
                  (e_SupersededReviewerMode e) (e_SupersededReviewerTarget e)) p (s_ReviewerProofs state),
                s_Effects := fmupd (e_ID e) (e\<lparr>e_ReviewerStopped := True\<rparr>) (s_Effects state)\<rparr>) e))"

text \<open>The live group of a pending review, or of the review a Stop or Cleanup superseded.\<close>

definition stopping_proof ::
  "runtimeEffectIntent \<Rightarrow> int \<Rightarrow> (reviewerProcessProof \<times> runtimeEffectIntent) option" where
  "stopping_proof e pid =
     (case run_observe e of
        Some v \<Rightarrow>
          if \<not> e_ReviewerGateProtocol e \<or> \<not> e_ReviewerSessionRequested e \<or>
            e_ReviewerGroupPID e \<noteq> 0 \<and> e_ReviewerGroupPID e \<noteq> pid then None
          else Some (empty_proof\<lparr>p_Repository := e_Repository e, p_Issue := e_Issue e, p_Attempt := e_Attempt e,
              p_Mode := rv_Mode v, p_Target := rv_Target v, p_RunID := rv_RunID v, p_EffectID := e_ID e,
              p_IssueGeneration := e_IssueGeneration e, p_AttemptGeneration := e_AttemptGeneration e,
              p_GroupPID := pid, p_ProfileDigest := e_ReviewerProfileDigest e,
              p_ConfinementVersion := e_ReviewerConfinementVersion e\<rparr>,
            e\<lparr>e_ReviewerGroupPID := pid, e_ReviewerLaunched := True\<rparr>)
      | None \<Rightarrow>
          if e_SupersededReviewerID e \<noteq> [] \<and> (e_Action e = EffectStop \<or> e_Action e = EffectCleanup) then
            if \<not> e_SupersededReviewerGateProtocol e \<or> \<not> e_SupersededReviewerSessionRequested e \<or>
              e_SupersededReviewerGroupPID e \<noteq> 0 \<and> e_SupersededReviewerGroupPID e \<noteq> pid then None
            else Some ((superseded_proof e)\<lparr>p_GroupPID := pid\<rparr>, e\<lparr>e_SupersededReviewerGroupPID := pid\<rparr>)
          else None)"

definition applyBindReviewerStopping ::
  "Env \<Rightarrow> runtimeOwnerState \<Rightarrow> bindReviewerStoppingCommand \<Rightarrow> runtimeOwnerState owner_result" where
  "applyBindReviewerStopping env state c =
     (case fmlookup (s_Effects state) (id_EffectID (bs_Identity c)) of
        None \<Rightarrow> Inl StaleStateResult
      | Some e \<Rightarrow>
          if \<not> stop_identity e (bs_Identity c) \<or> bs_GroupPID c < 2 then Inl StaleStateResult
          else case (stopping_proof e (bs_GroupPID c), bs_Pane c, bs_TerminalBroker c) of
            (Some (p0, e1), Some pane, Some terminal) \<Rightarrow>
              let p = p0\<lparr>p_Pane := Some (reviewerPaneCertificateFrom pane), p_TerminalBroker := Some terminal,
                    p_BrokerPath := bs_BrokerPath c\<rparr>;
                  k = reviewerProofKey (p_Repository p) (p_Issue p) (p_Attempt p) (p_Mode p) (p_Target p) in
              if pi_PID pane \<noteq> tb_OuterPID terminal \<or> bs_GroupPID c \<noteq> tb_InnerPGID terminal \<or>
                \<not> validReviewerTerminalCertificate env p then Inl StateConflict
              else (case fmlookup (s_ReviewerProofs state) k of
                  Some old \<Rightarrow>
                    if sameReviewerProofIdentity old p
                    then Inr (state\<lparr>s_ReviewerProofs := fmupd k old (s_ReviewerProofs state),
                      s_Effects := fmupd (e_ID e) e1 (s_Effects state)\<rparr>)
                    else Inl StateConflict
                | None \<Rightarrow> Inr (state\<lparr>s_ReviewerProofs := fmupd k p (s_ReviewerProofs state),
                      s_Effects := fmupd (e_ID e) e1 (s_Effects state)\<rparr>))
          | _ \<Rightarrow> Inl StateConflict)"

definition applyForgetReviewerProof ::
  "runtimeOwnerState \<Rightarrow> forgetReviewerProofCommand \<Rightarrow> runtimeOwnerState owner_result" where
  "applyForgetReviewerProof state c =
     (case fmlookup (s_Effects state) (id_EffectID (fg_Identity c)) of
        None \<Rightarrow> Inl StaleStateResult
      | Some e \<Rightarrow>
          let p = fg_Proof c;
              k = reviewerProofKey (p_Repository p) (p_Issue p) (p_Attempt p) (p_Mode p) (p_Target p) in
          if e_State e \<noteq> ''pending'' \<or> \<not> reconciliationEffectIdentityMatches e (fg_Identity c) then Inl StaleStateResult
          else if e_Action e = EffectStop then Inl StateConflict
          else if fmlookup (s_ReviewerProofs state) k \<noteq> Some p \<or>
            \<not> p_of_attempt p (e_Repository e) (e_Issue e) (e_Attempt e) \<or> \<not> reviewerCleanupAuthorized p
          then Inl StateConflict
          else (case run_observe e of
              None \<Rightarrow> Inl StateConflict
            | Some v \<Rightarrow>
                if p_RunID p = rv_RunID v \<or> p_AttemptGeneration p = 0 \<or> e_AttemptGeneration e < p_AttemptGeneration p
                then Inl StateConflict
                else Inr (state\<lparr>s_ReviewerProofs := fmdrop k (s_ReviewerProofs state)\<rparr>)))"

definition applyMarkReviewerResourcesCleaned ::
  "Env \<Rightarrow> runtimeOwnerState \<Rightarrow> markReviewerResourcesCleanedCommand \<Rightarrow> runtimeOwnerState owner_result" where
  "applyMarkReviewerResourcesCleaned env state c =
     (case fmlookup (s_Effects state) (id_EffectID (mc_Identity c)) of
        None \<Rightarrow> Inl StaleStateResult
      | Some e \<Rightarrow>
          let proofs = attemptReviewerProofs state (e_Repository e) (e_Issue e) (e_Attempt e) in
          if e_State e \<noteq> ''pending'' \<or> e_Action e \<noteq> EffectStop \<or>
            \<not> reconciliationEffectIdentityMatches e (mc_Identity c) then Inl StaleStateResult
          else if proofs \<noteq> mc_Proofs c then Inl StateConflict
          else if e_SupersededReviewerID e \<noteq> [] \<and> \<not> e_ReviewerStopped e then Inl StateConflict
          else if list_ex (stop_proof_blocks e) proofs then Inl StateConflict
          else Inr (state\<lparr>s_Effects := fmupd (e_ID e)
            (e\<lparr>e_ReviewerCleanupDigest := reviewerProofSetDigest env proofs\<rparr>) (s_Effects state)\<rparr>))"

section \<open>Death proofs\<close>

definition proof_of_effect :: "runtimeEffectIntent \<Rightarrow> reviewerEffectRequest \<Rightarrow> int \<Rightarrow> reviewerProcessProof \<Rightarrow> bool" where
  "proof_of_effect e v pid p \<longleftrightarrow>
     p_EffectID p = e_ID e \<and> p_RunID p = rv_RunID v \<and> p_GroupPID p = pid \<and>
     p_IssueGeneration p = e_IssueGeneration e \<and> p_AttemptGeneration p = e_AttemptGeneration e \<and>
     p_ProfileDigest p = e_ReviewerProfileDigest e \<and> p_ConfinementVersion p = e_ReviewerConfinementVersion e"

definition death_claim_bad :: "runtimeEffectIntent \<Rightarrow> int \<Rightarrow> bool \<Rightarrow> bool" where
  "death_claim_bad e pid neverRan \<longleftrightarrow>
     neverRan \<noteq> (pid = 0) \<or>
     neverRan \<and> (\<not> e_ReviewerGateProtocol e \<or> e_ReviewerSessionRequested e) \<or>
     e_ReviewerLaunched e \<and> (neverRan \<or> e_ReviewerGroupPID e \<noteq> pid) \<or>
     \<not> e_ReviewerLaunched e \<and> \<not> neverRan \<and> pid < 2"

definition applyProveReviewerDead ::
  "runtimeOwnerState \<Rightarrow> proveReviewerDeadCommand \<Rightarrow> runtimeOwnerState owner_result" where
  "applyProveReviewerDead state c =
     (case fmlookup (s_Effects state) (id_EffectID (pv_Identity c)) of
        None \<Rightarrow> Inl StaleStateResult
      | Some e \<Rightarrow>
          (case (case e_Reconciliation e of
               None \<Rightarrow> None
             | Some q \<Rightarrow> if rq_Action q = reconciliationReviewer then rq_Reviewer q else None) of
             None \<Rightarrow> Inl StaleStateResult
           | Some v \<Rightarrow>
               let pid = pv_GroupPID c;
                   k = reviewerProofKey (e_Repository e) (e_Issue e) (e_Attempt e) (rv_Mode v) (rv_Target v);
                   stored = fmlookup (s_ReviewerProofs state) k;
                   fresh = empty_proof\<lparr>p_Repository := e_Repository e, p_Issue := e_Issue e, p_Attempt := e_Attempt e,
                     p_Mode := rv_Mode v, p_Target := rv_Target v, p_RunID := rv_RunID v, p_EffectID := e_ID e,
                     p_IssueGeneration := e_IssueGeneration e, p_AttemptGeneration := e_AttemptGeneration e,
                     p_GroupPID := pid, p_NeverRan := pv_NeverRan c, p_ProfileDigest := e_ReviewerProfileDigest e,
                     p_ConfinementVersion := e_ReviewerConfinementVersion e\<rparr>;
                   p = (case stored of Some old \<Rightarrow> old | None \<Rightarrow> fresh)\<lparr>p_DeadProved := True\<rparr> in
               if e_State e \<noteq> ''pending'' \<or> \<not> reconciliationEffectIdentityMatches e (pv_Identity c) then Inl StaleStateResult
               else if death_claim_bad e pid (pv_NeverRan c) then Inl StateConflict
               else if (case stored of Some old \<Rightarrow> \<not> proof_of_effect e v pid old | None \<Rightarrow> e_ReviewerLaunched e)
               then Inl StateConflict
               else if \<not> reviewerCleanupAuthorized p then Inl StateConflict
               else
                 let s1 = state\<lparr>s_ReviewerProofs := fmupd k p (s_ReviewerProofs state)\<rparr> in
                 Inr (if \<not> e_ReviewerLaunched e \<and> 1 < pid
                   then s1\<lparr>s_Effects := fmupd (e_ID e) (e\<lparr>e_ReviewerLaunched := True, e_ReviewerGroupPID := pid\<rparr>)
                     (s_Effects s1)\<rparr>
                   else s1)))"

section \<open>Invalidated external effects\<close>

definition validInvalidatedExternalOutcome :: "runtimeEffectIntent \<Rightarrow> invalidatedExternalOutcome \<Rightarrow> bool" where
  "validInvalidatedExternalOutcome e x \<longleftrightarrow>
     (case e_Reconciliation e of
        None \<Rightarrow> False
      | Some q \<Rightarrow>
          let none = (\<not> xo_Merged x \<and> xo_PR x = 0 \<and> xo_HeadSHA x = []) in
          if xo_Action x \<noteq> rq_Action q \<or> \<not> xo_Observed x then False
          else if xo_Action x = reconciliationGitHubBind then none \<and> xo_StatusSequence x = 0
          else if xo_Action x = reconciliationGitHubIssueUpdate then
            (case rq_GitHubIssueUpdate q of
               Some u \<Rightarrow>
                 if gu_Kind u = githubIssueMachineStatus then none \<and> gu_StatusSequence u < xo_StatusSequence x
                 else none \<and> xo_StatusSequence x = 0
             | None \<Rightarrow> none \<and> xo_StatusSequence x = 0)
          else if xo_Action x = reconciliationGitHubPublish then
            \<not> xo_Merged x \<and> 0 < xo_PR x \<and>
            (case rq_GitHubPublish q of None \<Rightarrow> False | Some u \<Rightarrow> xo_HeadSHA x = gq_HeadSHA u)
          else if xo_Action x = reconciliationGitHubPRGovernance then
            xo_Merged x \<noteq> xo_Superseded x \<and> 0 < xo_PR x \<and>
            (case rq_GitHubPRGovernance q of
               None \<Rightarrow> False | Some g \<Rightarrow> xo_PR x = gg_PR g \<and> xo_HeadSHA x = gg_HeadSHA g)
          else False)"

text \<open>An issue-scoped effect is settled by the newer status or control generation, an attempt's effect
  by its tombstone.\<close>

definition settle_issue_effect ::
  "runtimeOwnerState \<Rightarrow> runtimeEffectIntent \<Rightarrow> reconciliationEffectRequest \<Rightarrow> invalidatedExternalOutcome \<Rightarrow>
   runtimeOwnerState owner_result" where
  "settle_issue_effect state e q x =
     (let k = ownerIssueKey (e_Repository e) (e_Issue e) in
      case (case rq_GitHubIssueUpdate q of
          None \<Rightarrow> None | Some u \<Rightarrow> if gu_Kind u = githubIssueMachineStatus then Some u else None) of
        Some u \<Rightarrow>
          (case fmlookup (s_MachineStatuses state) k of
             None \<Rightarrow> Inl StaleStateResult
           | Some st \<Rightarrow>
               if ms_Sequence st \<le> gu_StatusSequence u \<or> xo_StatusSequence x \<noteq> ms_Sequence st then Inl StaleStateResult
               else Inr (state\<lparr>s_MachineStatuses := fmupd k (st\<lparr>ms_AppliedSequence := ms_Sequence st\<rparr>)
                 (s_MachineStatuses state)\<rparr>))
      | None \<Rightarrow> if controlGeneration state k \<le> rq_ControlGeneration q then Inl StaleStateResult else Inr state)"

definition settle_attempt_effect ::
  "runtimeOwnerState \<Rightarrow> runtimeEffectIntent \<Rightarrow> invalidatedExternalOutcome \<Rightarrow> runtimeOwnerState owner_result" where
  "settle_attempt_effect state e x =
     (let k = ownerAttemptKey (e_Repository e) (e_Issue e) (e_Attempt e) in
      case fmlookup (s_Tombstones state) k of
        None \<Rightarrow> Inl StaleStateResult
      | Some t \<Rightarrow>
          if t_InvalidatedGeneration t \<noteq> e_AttemptGeneration e then Inl StaleStateResult
          else Inr (state\<lparr>s_Tombstones := fmupd k
            (t\<lparr>t_ExternalOutcomes := fmupd (e_ID e) x (t_ExternalOutcomes t)\<rparr>) (s_Tombstones state)\<rparr>))"

definition applyResolveInvalidatedReconciliationEffect ::
  "runtimeOwnerState \<Rightarrow> resolveInvalidatedReconciliationEffectCommand \<Rightarrow> runtimeOwnerState owner_result" where
  "applyResolveInvalidatedReconciliationEffect state c =
     (case fmlookup (s_Effects state) (id_EffectID (resolveInvalidatedReconciliationEffectCommand.ri_Identity c)) of
        None \<Rightarrow> Inl StaleStateResult
      | Some e \<Rightarrow>
          (case e_Reconciliation e of
             None \<Rightarrow> Inl StaleStateResult
           | Some q \<Rightarrow>
               let x = resolveInvalidatedReconciliationEffectCommand.ri_Outcome c in
               if e_State e \<noteq> ''invalidated'' \<or> \<not> e_Dispatched e \<or> \<not> reconciliationMutatesGitHub (rq_Action q) \<or>
                 \<not> reconciliationEffectIdentityMatches e (resolveInvalidatedReconciliationEffectCommand.ri_Identity c) \<or>
                 \<not> validInvalidatedExternalOutcome e x then Inl StaleStateResult
               else
                 err_bind (if e_Attempt e = 0 then settle_issue_effect state e q x else settle_attempt_effect state e x)
                   (\<lambda>s. Inr (s\<lparr>s_Effects := fmupd (e_ID e)
                     (e\<lparr>e_State := ''invalidated-resolved'', e_Diagnostic := []\<rparr>) (s_Effects s)\<rparr>))))"

section \<open>The implementation lease\<close>

definition unconfined_attempt :: "Env \<Rightarrow> runtimeOwnerState \<Rightarrow> string \<Rightarrow> int \<Rightarrow> runtimeAttemptRecord \<Rightarrow> bool" where
  "unconfined_attempt env state repository issue r \<longleftrightarrow>
     (let m = a_Manifest r in
      m_Repository m = repository \<and> m_Issue m = issue \<and> m_Version m = ManifestVersion2 \<and> m_LaunchID m \<noteq> [] \<and>
      \<not> WorkerConfinementMatches m (a_Generation r) (activeWorkerProfileDigest env state) \<and>
      \<not> revokedWorkerCredentialCurrent env r)"

definition unconfined_start :: "Env \<Rightarrow> runtimeOwnerState \<Rightarrow> string \<Rightarrow> int \<Rightarrow> runtimeEffectIntent \<Rightarrow> bool" where
  "unconfined_start env state repository issue e \<longleftrightarrow>
     (let k = ownerAttemptKey (e_Repository e) (e_Issue e) (e_Attempt e);
          profile = activeWorkerProfileDigest env state in
      e_Repository e = repository \<and> e_Issue e = issue \<and> e_Action e = EffectStart \<and> e_StartMayRun e \<and>
      \<not> ((case fmlookup (s_Attempts state) k of
            None \<Rightarrow> False | Some r \<Rightarrow> WorkerConfinementBound (a_Manifest r) (e_AttemptGeneration e) profile) \<or>
         (case fmlookup (s_Tombstones state) k of
            None \<Rightarrow> False
          | Some t \<Rightarrow> (case t_InvalidatedStart t of
                None \<Rightarrow> False
              | Some s \<Rightarrow> WorkerConfinementBound (sc_Manifest s) (t_InvalidatedGeneration t) profile))))"

definition unconfined_tombstone :: "Env \<Rightarrow> runtimeOwnerState \<Rightarrow> string \<Rightarrow> int \<Rightarrow> runtimeTombstone \<Rightarrow> bool" where
  "unconfined_tombstone env state repository issue t \<longleftrightarrow>
     (let profile = activeWorkerProfileDigest env state;
          confined = (case t_Manifest t of
              None \<Rightarrow> False
            | Some m \<Rightarrow> WorkerConfinementBound m (t_InvalidatedGeneration t) profile \<or>
                revokedWorkerTombstoneCredentialCurrent env t);
          launched = (case t_Manifest t of None \<Rightarrow> False | Some m \<Rightarrow> m_Version m = ManifestVersion2 \<and> m_LaunchID m \<noteq> []) in
      t_Repository t = repository \<and> t_Issue t = issue \<and>
      (\<not> confined \<and> (launched \<or> t_InvalidatedHandoff t \<noteq> None) \<or>
       (case t_InvalidatedStart t of
          None \<Rightarrow> False
        | Some s \<Rightarrow> \<not> WorkerConfinementBound (sc_Manifest s) (t_InvalidatedGeneration t) profile \<and>
            list_ex sg_MayRun (sc_Candidates s))))"

definition implementationLeaseBlocksGitHub :: "Env \<Rightarrow> runtimeOwnerState \<Rightarrow> string \<Rightarrow> string \<Rightarrow> int \<Rightarrow> bool" where
  "implementationLeaseBlocksGitHub env state action repository issue \<longleftrightarrow>
     action \<in> set [reconciliationGitHubBind, reconciliationGitHubPublish, reconciliationGitHubIssueUpdate,
       reconciliationGitHubPRGovernance] \<and>
     (fm_ex (\<lambda>_ r. unconfined_attempt env state repository issue r) (s_Attempts state) \<or>
      fm_ex (\<lambda>_ e. unconfined_start env state repository issue e) (s_Effects state) \<or>
      fm_ex (\<lambda>_ t. unconfined_tombstone env state repository issue t) (s_Tombstones state))"

section \<open>Observations\<close>

definition reconciliationObservationMatches :: "runtimeOwnerState \<Rightarrow> reconciliationEffectRequest \<Rightarrow> bool" where
  "reconciliationObservationMatches state q \<longleftrightarrow>
     (case fmlookup (s_Observations state) (ownerIssueKey (rq_Repository q) (rq_Issue q)) of
        None \<Rightarrow> False
      | Some ob \<Rightarrow> ob_Present ob \<and> ob_Generation ob = rq_ObservationGeneration q \<and>
          ob_OwnerGeneration ob = issueGeneration state (rq_Repository q) (rq_Issue q) \<and>
          fi_BodyDigest (ob_Fact ob) = rq_BodyDigest q)"

definition reconciliationObservationCurrent :: "runtimeOwnerState \<Rightarrow> reconciliationEffectRequest \<Rightarrow> bool" where
  "reconciliationObservationCurrent state q \<longleftrightarrow>
     reconciliationObservationMatches state q \<and>
     (case fmlookup (s_Observations state) (ownerIssueKey (rq_Repository q) (rq_Issue q)) of
        None \<Rightarrow> False | Some ob \<Rightarrow> ob_ObservationEpoch ob = s_Epoch state)"

definition observedReconciliationAttempt :: "reconciliationObservation \<Rightarrow> int \<Rightarrow> reconciliationAttemptFact option" where
  "observedReconciliationAttempt ob attempt =
     (let fact = ob_Fact ob;
          facts = (case fi_ActiveAttempt fact of
              Some f \<Rightarrow> if af_Attempt f = attempt then Some f else find (\<lambda>f. af_Attempt f = attempt) (fi_TerminalAttempts fact)
            | None \<Rightarrow> find (\<lambda>f. af_Attempt f = attempt) (fi_TerminalAttempts fact)) in
      case fmlookup (ob_Attempts ob) (ownerAttemptKey (fi_Repository fact) (fi_Issue fact) attempt) of
        Some entry \<Rightarrow>
          if ao_Present entry \<and> ao_SourceIssueGeneration entry = ob_Generation ob then Some (ao_Fact entry) else facts
      | None \<Rightarrow> facts)"

definition sameManifestExceptUpdatedAt :: "Manifest \<Rightarrow> Manifest \<Rightarrow> bool" where
  "sameManifestExceptUpdatedAt current planned \<longleftrightarrow> planned\<lparr>m_UpdatedAt := m_UpdatedAt current\<rparr> = current"

definition sameReconciliationManifest :: "reconciliationEffectRequest \<Rightarrow> Manifest \<Rightarrow> Manifest \<Rightarrow> bool" where
  "sameReconciliationManifest q current planned \<longleftrightarrow>
     current = planned \<or>
     rq_Action q = reconciliationReviewer \<and>
     (case rq_Reviewer q of None \<Rightarrow> False | Some v \<Rightarrow> rv_Mode v = ReviewModePlan) \<and>
     sameManifestExceptUpdatedAt current planned"

definition reviewer_observation_matches ::
  "runtimeOwnerState \<Rightarrow> reconciliationEffectRequest \<Rightarrow> reviewerEffectRequest \<Rightarrow> bool" where
  "reviewer_observation_matches state q v \<longleftrightarrow>
     (case fmlookup (s_Observations state) (ownerIssueKey (rq_Repository q) (rq_Issue q)) of
        None \<Rightarrow> False
      | Some ob \<Rightarrow>
          let fact = ob_Fact ob in
          if \<not> ob_Present ob \<or> ob_OwnerGeneration ob \<noteq> issueGeneration state (rq_Repository q) (rq_Issue q) \<or>
            fi_BodyDigest fact \<noteq> rq_BodyDigest q \<or> fi_Closed fact \<or> fi_Cancelled fact \<or>
            fi_CurrentAttempt fact \<noteq> rq_Attempt q then False
          else if rv_Mode v = ReviewModePlan then fi_DispatchAuthorized fact
          else if rv_DigestVersion v = 0 \<and> ob_Generation ob \<noteq> rq_ObservationGeneration q then False
          else (case observedReconciliationAttempt ob (rq_Attempt q) of
              None \<Rightarrow> True
            | Some f \<Rightarrow> af_BaseSHA f = rv_BaseSHA v \<and> (af_HeadSHA f = [] \<or> af_HeadSHA f = rv_HeadSHA v) \<and>
                af_State f \<in> set [''active'', ''review-ready'', ''completed'']))"

definition retry_observation_matches :: "runtimeOwnerState \<Rightarrow> reconciliationEffectRequest \<Rightarrow> bool" where
  "retry_observation_matches state q \<longleftrightarrow>
     (case rq_GitHubIssueUpdate q of
        None \<Rightarrow> False
      | Some u \<Rightarrow>
          gu_Kind u = githubIssueRetry \<and>
          (case fmlookup (s_Observations state) (ownerIssueKey (rq_Repository q) (rq_Issue q)) of
             None \<Rightarrow> False
           | Some ob \<Rightarrow>
               let fact = ob_Fact ob in
               ob_Present ob \<and> ob_OwnerGeneration ob = issueGeneration state (rq_Repository q) (rq_Issue q) \<and>
               fi_BodyDigest fact = rq_BodyDigest q \<and> fi_CurrentAttempt fact = rq_Attempt q \<and>
               \<not> fi_Closed fact \<and> \<not> fi_Cancelled fact \<and> \<not> fi_Active fact \<and>
               (fi_RecoveryAuthorized fact \<or> fi_Blockers fact = [''control snapshot update is pending''])))"

definition reconciliationFinishObservationMatches :: "runtimeOwnerState \<Rightarrow> reconciliationEffectRequest \<Rightarrow> bool" where
  "reconciliationFinishObservationMatches state q \<longleftrightarrow>
     (case (if rq_Action q \<noteq> reconciliationReviewer then None
            else case rq_Reviewer q of
              None \<Rightarrow> None | Some v \<Rightarrow> if rv_Phase v = ''run-observe'' then Some v else None) of
        Some v \<Rightarrow> reviewer_observation_matches state q v
      | None \<Rightarrow> reconciliationObservationMatches state q \<or> retry_observation_matches state q)"

definition planReviewInvalidated :: "runtimeOwnerState \<Rightarrow> runtimeEffectIntent \<Rightarrow> reconciliationEffectRequest \<Rightarrow> bool" where
  "planReviewInvalidated state e q \<longleftrightarrow>
     (let attemptKey = ownerAttemptKey (e_Repository e) (e_Issue e) (e_Attempt e) in
      if e_ReviewerRevoked e then True
      else if issueGeneration state (e_Repository e) (e_Issue e) \<noteq> e_IssueGeneration e \<or>
        attemptGeneration state (e_Repository e) (e_Issue e) (e_Attempt e) \<noteq> e_AttemptGeneration e then True
      else if fm_has (s_Tombstones state) attemptKey then True
      else case fmlookup (s_Observations state) (ownerIssueKey (e_Repository e) (e_Issue e)) of
        None \<Rightarrow> False
      | Some ob \<Rightarrow>
          if ob_ObservationEpoch ob \<noteq> s_Epoch state then False
          else
            \<not> reconciliationFinishObservationMatches state q \<or>
            (case (fmlookup (s_Attempts state) attemptKey, rq_Manifest q) of
               (Some r, Some m) \<Rightarrow> \<not> sameReconciliationManifest q (a_Manifest r) m
             | _ \<Rightarrow> True) \<or>
            \<not> fi_DispatchAuthorized (ob_Fact ob) \<or>
            (case observedReconciliationAttempt ob (rq_Attempt q) of
               None \<Rightarrow> True
             | Some f \<Rightarrow> af_State f \<noteq> ''active'' \<and> af_State f \<noteq> ''review-ready''))"

text \<open>A running plan review whose facts are gone is revoked, not deleted.\<close>

definition revoked_reviewer :: "runtimeOwnerState \<Rightarrow> bool \<Rightarrow> runtimeEffectIntent \<Rightarrow> runtimeEffectIntent" where
  "revoked_reviewer state untracked e =
     (case (e_Reconciliation e, run_observe e) of
        (Some q, Some v) \<Rightarrow>
          if e_State e = ''pending'' \<and> rv_Mode v = ReviewModePlan \<and> (untracked \<or> planReviewInvalidated state e q)
          then e\<lparr>e_ReviewerRevoked := True\<rparr> else e
      | _ \<Rightarrow> e)"

definition revokeInvalidPlanReviewers :: "runtimeOwnerState \<Rightarrow> bool \<Rightarrow> runtimeOwnerState" where
  "revokeInvalidPlanReviewers state untracked =
     state\<lparr>s_Effects := fm_step (\<lambda>_ e. Some (revoked_reviewer state untracked e)) (s_Effects state)\<rparr>"

definition applyDiagnoseReconciliationEffect ::
  "runtimeOwnerState \<Rightarrow> diagnoseRuntimeEffectCommand \<Rightarrow> runtimeOwnerState owner_result" where
  "applyDiagnoseReconciliationEffect state c =
     (case fmlookup (s_Effects state) (id_EffectID (dr_Identity c)) of
        None \<Rightarrow> Inl StaleStateResult
      | Some e \<Rightarrow>
          if e_State e \<noteq> ''pending'' \<or> e_Reconciliation e = None \<or> e_Action e \<noteq> dr_Action c \<or>
            \<not> reconciliationEffectIdentityMatches e (dr_Identity c) then Inl StaleStateResult
          else if \<not> boundedText (dr_Diagnostic c) maxReconciliationStringBytes True then Inl StateConflict
          else Inr (state\<lparr>s_Effects := fmupd (e_ID e) (e\<lparr>e_Diagnostic := dr_Diagnostic c\<rparr>) (s_Effects state)\<rparr>))"

end
