(* ===== verification/Reconciliation_Requests.thy ===== *)
theory Reconciliation_Requests
  imports Owner_Reviewer_Steps
begin

text \<open>
  Validation of reconciliation requests and results and of persisted reconciliation effects
  (\<^verbatim>\<open>reconciliation_effects_v2.go\<close>).  The ledger is read from JSON with empty fields left out, so a nil
  slice and an empty one are the same list here.
\<close>

section \<open>Constants\<close>

definition reconciliationRetireCompleted :: string where "reconciliationRetireCompleted = ''retire-completed''"
definition reconciliationMonitoringCheckIn :: string where
  "reconciliationMonitoringCheckIn = ''monitoring-check-in''"
definition githubIssueEvidence :: string where "githubIssueEvidence = ''evidence''"
definition githubIssueFindings :: string where "githubIssueFindings = ''findings''"
definition maxReconciliationEffectBytes :: nat where "maxReconciliationEffectBytes = 1048576"
definition maxPRRecoveryEntries :: nat where "maxPRRecoveryEntries = 4096"
definition maxReconciliationBodyBytes :: nat where "maxReconciliationBodyBytes = 65536"

definition validStringList :: "string list \<Rightarrow> nat \<Rightarrow> nat \<Rightarrow> bool" where
  "validStringList values n size' \<longleftrightarrow>
     length values \<le> n \<and> list_all (\<lambda>v. length v \<le> size' \<and> char_of (0::nat) \<notin> set v) values"

definition validFindings :: "string list \<Rightarrow> bool" where
  "validFindings findings \<longleftrightarrow> 0 < length findings \<and> length findings \<le> 100 \<and> validStringList findings 100 4096"

definition countTrue :: "bool list \<Rightarrow> nat" where
  "countTrue values = length (filter (\<lambda>v. v) values)"

definition object_id :: "string \<Rightarrow> bool" where
  "object_id s \<longleftrightarrow> validOptionalObjectID s \<and> s \<noteq> []"

section \<open>Pull-request state\<close>

definition feedback_sources :: "string list" where
  "feedback_sources = [''issue'', ''conversation'', ''inline'', ''review'']"

definition validRecoveryFeedback :: "Feedback \<Rightarrow> bool" where
  "validRecoveryFeedback f \<longleftrightarrow>
     0 < fb_ID f \<and> 0 < fb_ActorID f \<and> fb_Source f \<in> set feedback_sources \<and>
     boundedText (fb_Body f) maxReconciliationBodyBytes True \<and>
     boundedText (fb_Evidence f) maxReconciliationBodyBytes False \<and>
     fb_State f \<in> set [[], ''pending'', ''addressed'', ''blocked''] \<and>
     fb_Execution f \<in> set [[], ''claimed'', ''in-flight'', ''completed'']"

definition validRecoveryHandoff :: "RecoveryHandoff \<Rightarrow> bool" where
  "validRecoveryHandoff h \<longleftrightarrow>
     validDigest (rh_Key h) \<and> rh_Repository h \<noteq> [] \<and> 1 \<le> rh_PR h \<and> 1 \<le> rh_Issue h \<and> 1 \<le> rh_Attempt h \<and>
     object_id (rh_HeadSHA h) \<and> length (rh_Feedback h) \<le> maxPRRecoveryEntries \<and>
     (rh_Validation h \<or> rh_Feedback h \<noteq> []) \<and>
     list_all (\<lambda>f. validRecoveryFeedback f \<and> fb_Execution f = ''in-flight'') (rh_Feedback h)"

definition validHandoffOutcome :: "HandoffOutcome \<Rightarrow> string \<Rightarrow> bool" where
  "validHandoffOutcome x k \<longleftrightarrow>
     ho_Key x = k \<and> length (ho_Feedback x) \<le> maxPRRecoveryEntries \<and>
     boundedText (ho_ValidationResult x) maxReconciliationStringBytes False \<and>
     boundedText (ho_ValidationEvidence x) maxReconciliationBodyBytes False \<and>
     list_all (\<lambda>f. 0 < fo_ID f \<and> fo_Source f \<in> set feedback_sources \<and>
       fo_State f \<in> set [''addressed'', ''blocked''] \<and>
       boundedText (fo_Evidence f) maxReconciliationBodyBytes True) (ho_Feedback x)"

definition empty_outcome :: HandoffOutcome where
  "empty_outcome = \<lparr>ho_Key = [], ho_Feedback = [], ho_ValidationResult = [], ho_ValidationEvidence = [],
     ho_Retryable = False\<rparr>"

definition validPreparedPublication :: "PRState \<Rightarrow> PreparedPublication \<Rightarrow> bool" where
  "validPreparedPublication s p \<longleftrightarrow>
     (let h = pp_Handoff p in
      if \<not> object_id (pp_HeadSHA p) \<or> pp_HeadSHA p = pr_HeadSHA s \<or> rh_Repository h \<noteq> pr_Repository s \<or>
        rh_PR h \<noteq> pr_Number s \<or> rh_Issue h \<noteq> pr_Issue s \<or> rh_Attempt h \<noteq> pr_Attempt s \<or> rh_HeadSHA h \<noteq> pr_HeadSHA s
      then False
      else if rh_Key h = [] then
        \<not> rh_Validation h \<and> rh_ValidationGeneration h = 0 \<and> rh_Feedback h = [] \<and> pp_Outcome p = empty_outcome
      else validRecoveryHandoff h \<and> fm_get (pr_HandoffReceipts s) (rh_Key h) False \<and>
        validHandoffOutcome (pp_Outcome p) (rh_Key h))"

definition validPRState :: "PRState \<Rightarrow> bool" where
  "validPRState s \<longleftrightarrow>
     pr_Repository s \<noteq> [] \<and> 1 \<le> pr_Number s \<and> 1 \<le> pr_Issue s \<and> 1 \<le> pr_Attempt s \<and> object_id (pr_HeadSHA s) \<and>
     validOptionalObjectID (pr_CheckHead s) \<and> validOptionalObjectID (pr_ValidationQueuedSHA s) \<and>
     validOptionalObjectID (pr_ValidationInFlightSHA s) \<and> validOptionalObjectID (pr_MergeAttemptSHA s) \<and>
     length (pf_Feedback (pr_Facts s)) \<le> maxPRRecoveryEntries \<and>
     length (pr_PendingDispositions s) \<le> maxPRRecoveryEntries \<and>
     length (pr_ConfirmedDispositions s) \<le> maxPRRecoveryEntries \<and> length (pr_Decisions s) \<le> maxPRRecoveryEntries \<and>
     fcard (fmdom (pr_HandoffReceipts s)) \<le> maxPRRecoveryEntries \<and>
     list_all (\<lambda>v. boundedText v maxReconciliationStringBytes False)
       [pr_PolicyStatus s, pr_ValidationResult s, pr_MergePhase s] \<and>
     list_all (\<lambda>v. boundedText v maxReconciliationBodyBytes False)
       [pr_ValidationEvidence s, pf_ValidationSHA (pr_Facts s), pf_DocumentationSHA (pr_Facts s)] \<and>
     list_all validRecoveryFeedback
       (pf_Feedback (pr_Facts s) @ pr_PendingDispositions s @ pr_ConfirmedDispositions s) \<and>
     list_all (\<lambda>d. boundedText (pd_ID d) maxReconciliationStringBytes True \<and>
       boundedText (pd_Body d) maxReconciliationBodyBytes True) (pr_Decisions s) \<and>
     fmpred (\<lambda>k present. present \<and> validDigest k) (pr_HandoffReceipts s) \<and>
     (case pr_PreparedPublication s of None \<Rightarrow> True | Some p \<Rightarrow> validPreparedPublication s p)"

section \<open>Requests\<close>

definition validGitHubBind :: "githubBindEffectRequest \<Rightarrow> bool" where
  "validGitHubBind q \<longleftrightarrow> object_id (gb_BaseSHA q) \<and> boundedText (gb_Branch q) 4096 True \<and> boundedText (gb_Detail q) 65536 True"

definition validGitHubPublish :: "githubPublishEffectRequest \<Rightarrow> bool" where
  "validGitHubPublish q \<longleftrightarrow>
     boundedText (gq_Title q) 4096 True \<and> boundedText (gq_BaseBranch q) 4096 True \<and> object_id (gq_HeadSHA q) \<and>
     boundedText (gq_Validation q) 65536 True \<and> boundedText (gq_Documentation q) 65536 True \<and>
     boundedText (gq_Decisions q) 65536 False"

definition no_attribution :: "githubIssueUpdateEffectRequest \<Rightarrow> bool" where
  "no_attribution q \<longleftrightarrow> gu_AttributionAttempt q = 0 \<and> gu_Dependency q = 0 \<and> gu_PullRequest q = 0"

definition validGitHubIssueUpdate :: "Env \<Rightarrow> githubIssueUpdateEffectRequest \<Rightarrow> bool \<Rightarrow> bool" where
  "validGitHubIssueUpdate env q issueScoped \<longleftrightarrow>
     (if gu_Kind q \<noteq> githubIssueMachineStatus \<and> (gu_Status q \<noteq> [] \<or> gu_StatusReason q \<noteq> [] \<or> gu_StatusSequence q \<noteq> 0 \<or>
        gu_StatusSource q \<noteq> [] \<or> gu_StatusSourceSequence q \<noteq> 0) then False
      else if gu_Kind q \<noteq> githubIssueControlSnapshot \<and> gu_ControlSnapshotBody q \<noteq> [] then False
      else if gu_Kind q = githubIssueTerminalFailure then
        \<not> issueScoped \<and> gu_FailedAtUnixNano q \<noteq> 0 \<and> boundedText (gu_Diagnostic q) 4096 True \<and> gu_HeadSHA q = [] \<and>
        gu_Findings q = [] \<and> gu_ControlSnapshotDigest q = [] \<and> no_attribution q
      else if gu_Kind q = githubIssueEvidence then
        \<not> issueScoped \<and> object_id (gu_HeadSHA q) \<and> gu_Diagnostic q = [] \<and> gu_Findings q = [] \<and>
        gu_FailedAtUnixNano q = 0 \<and> gu_ControlSnapshotDigest q = [] \<and> no_attribution q
      else if gu_Kind q = githubIssueFindings then
        \<not> issueScoped \<and> object_id (gu_HeadSHA q) \<and> validFindings (gu_Findings q) \<and> gu_Diagnostic q = [] \<and>
        gu_FailedAtUnixNano q = 0 \<and> gu_ControlSnapshotDigest q = [] \<and> no_attribution q
      else if gu_Kind q = githubIssueRetry then
        \<not> issueScoped \<and> gu_FailedAtUnixNano q \<noteq> 0 \<and> gu_HeadSHA q = [] \<and> gu_Diagnostic q = [] \<and> gu_Findings q = [] \<and>
        gu_ControlSnapshotDigest q = [] \<and> no_attribution q
      else if gu_Kind q = githubIssueControlSnapshot then
        issueScoped \<and> validDigest (gu_ControlSnapshotDigest q) \<and>
        (gu_ControlSnapshotBody q = [] \<or> digestText env (gu_ControlSnapshotBody q) = gu_ControlSnapshotDigest q) \<and>
        gu_HeadSHA q = [] \<and> gu_Diagnostic q = [] \<and> gu_Findings q = [] \<and> gu_FailedAtUnixNano q = 0 \<and> no_attribution q
      else if gu_Kind q = githubIssueDependencyClear then
        issueScoped \<and> 0 < gu_AttributionAttempt q \<and> 0 < gu_Dependency q \<and> 0 \<le> gu_PullRequest q \<and> gu_HeadSHA q = [] \<and>
        gu_Diagnostic q = [] \<and> gu_Findings q = [] \<and> gu_FailedAtUnixNano q = 0 \<and> gu_ControlSnapshotDigest q = []
      else if gu_Kind q = githubIssueMachineStatus then
        issueScoped \<and> 0 < gu_AttributionAttempt q \<and> gu_Dependency q = 0 \<and> gu_PullRequest q = 0 \<and> gu_HeadSHA q = [] \<and>
        gu_Diagnostic q = [] \<and> gu_Findings q = [] \<and> gu_FailedAtUnixNano q = 0 \<and> gu_ControlSnapshotDigest q = [] \<and>
        gu_Status q \<in> set [''needs-attention'', ''clear''] \<and> boundedText (gu_StatusReason q) 1024 True \<and>
        0 < gu_StatusSequence q \<and> 0 < gu_StatusSourceSequence q \<and> gu_StatusSource q \<in> set status_sources
      else False)"

definition validGitHubGovernance :: "githubGovernanceEffectRequest \<Rightarrow> bool" where
  "validGitHubGovernance q \<longleftrightarrow>
     0 < gg_PR q \<and> object_id (gg_HeadSHA q) \<and> pa_Repository (gg_Policy q) \<noteq> [] \<and> 0 < pa_ActorID (gg_Policy q)"

definition validReviewerRequest :: "reviewerEffectRequest \<Rightarrow> bool" where
  "validReviewerRequest q \<longleftrightarrow>
     (rv_Phase q = ''run-observe'' \<or> rv_Phase q = ''cleanup'') \<and>
     rv_Mode q \<in> set [ReviewModePlan, ReviewModeImplementation] \<and> (rv_RunID q = [] \<or> validDigest (rv_RunID q)) \<and>
     0 \<le> rv_DigestVersion q \<and> rv_DigestVersion q \<le> 1 \<and>
     (rv_DigestVersion q = 1 \<longrightarrow> rv_Mode q = ReviewModeImplementation \<and> rv_Phase q = ''run-observe'') \<and>
     boundedText (rv_Target q) 4096 True \<and> validOptionalObjectID (rv_BaseSHA q) \<and> validOptionalObjectID (rv_HeadSHA q) \<and>
     boundedText (rv_Snapshot q) 4096 True \<and> boundedText (rv_Session q) 4096 True \<and>
     (rv_Phase q = ''cleanup'' \<or> rv_BaseSHA q \<noteq> [] \<and> rv_HeadSHA q \<noteq> [])"

definition validHandoffRequest :: "handoffEffectRequest \<Rightarrow> bool" where
  "validHandoffRequest q \<longleftrightarrow>
     (if hf_Kind q \<notin> set [''review-findings'', ''recovery''] \<or> \<not> boundedText (hf_Key q) 4096 True \<or>
        \<not> boundedText (hf_OutcomePath q) 4096 True then False
      else if hf_Kind q = ''review-findings'' then
        hf_Recovery q = None \<and> hf_Outcome q = None \<and> object_id (hf_HeadSHA q) \<and> hf_OutcomeToken q = hf_HeadSHA q \<and>
        validFindings (hf_Findings q) \<and> validStringList (hf_HumanInstructions q) 1000 4096
      else
        (case hf_Recovery q of
           None \<Rightarrow> False
         | Some h \<Rightarrow> validRecoveryHandoff h \<and> rh_Key h = hf_Key q) \<and>
        validDigest (hf_OutcomeToken q) \<and> hf_HeadSHA q = [] \<and> hf_Findings q = [] \<and> hf_HumanInstructions q = [] \<and>
        (case hf_Outcome q of None \<Rightarrow> True | Some x \<Rightarrow> validHandoffOutcome x (hf_Key q)))"

definition validRetireRequest :: "retireCompletedEffectRequest \<Rightarrow> bool" where
  "validRetireRequest q \<longleftrightarrow> rc_Mode q \<in> set [''cleanup'', ''abandon''] \<and> object_id (rc_HeadSHA q)"

definition reconciliationEffectIssueScoped :: "reconciliationEffectRequest \<Rightarrow> bool" where
  "reconciliationEffectIssueScoped q \<longleftrightarrow>
     rq_Action q = reconciliationGitHubIssueUpdate \<and>
     (case rq_GitHubIssueUpdate q of
        None \<Rightarrow> False
      | Some u \<Rightarrow> gu_Kind u \<in> set [githubIssueControlSnapshot, githubIssueDependencyClear, githubIssueMachineStatus])"

section \<open>Bindings\<close>

definition handoffReceiptPath :: "string \<Rightarrow> string \<Rightarrow> string" where
  "handoffReceiptPath worktree k = path_join [worktree, ''.agent-symphony'', ''handoffs'', k @ ''.receipt'']"

definition handoff_launch_bound :: "Env \<Rightarrow> Manifest \<Rightarrow> handoffEffectRequest \<Rightarrow> bool" where
  "handoff_launch_bound env m h \<longleftrightarrow>
     (if m_Version m = ManifestVersion2 then
        ValidLaunchToken (hf_CandidateLaunchToken h) \<and> hf_CandidateLaunchToken h \<noteq> m_LaunchToken m \<and>
        (case (hf_CurrentImplementation h, hf_CurrentTerminal h) of
           (Some ib, Some tb) \<Rightarrow> bound_pair (v_sha env) m ib tb
         | _ \<Rightarrow> False)
      else hf_CandidateLaunchToken h = [] \<and> hf_CurrentImplementation h = None \<and> hf_CurrentTerminal h = None)"

definition handoff_bound :: "Env \<Rightarrow> reconciliationEffectRequest \<Rightarrow> Manifest \<Rightarrow> handoffEffectRequest \<Rightarrow> bool" where
  "handoff_bound env q m h \<longleftrightarrow>
     hf_OutcomePath h = handoffReceiptPath (m_Worktree m) (hf_Key h) \<and> handoff_launch_bound env m h \<and>
     (if hf_Kind h = ''recovery'' then
        (case hf_Recovery h of
           None \<Rightarrow> False
         | Some r \<Rightarrow>
             rh_Repository r = rq_Repository q \<and> rh_Issue r = rq_Issue q \<and> rh_Attempt r = rq_Attempt q \<and>
             rh_HeadSHA r \<noteq> [] \<and> hf_OutcomeToken h = v_sha env (''handoff-outcome'' @ NUL @ hf_Key h) \<and>
             (case hf_Outcome h of None \<Rightarrow> True | Some x \<Rightarrow> ho_Key x = rh_Key r))
      else hf_Key h = ''independent-review-'' @ hf_HeadSHA h \<and> hf_HeadSHA h = m_ReviewHead m)"

definition retire_mode :: "Manifest \<Rightarrow> string" where
  "retire_mode m = (if m_State m = ''preparing'' \<or> m_State m = ''running'' then ''abandon'' else ''cleanup'')"

definition validReconciliationEffectBindings :: "Env \<Rightarrow> reconciliationEffectRequest \<Rightarrow> bool" where
  "validReconciliationEffectBindings env q \<longleftrightarrow>
     (case rq_Manifest q of
        None \<Rightarrow> True
      | Some m \<Rightarrow> m_Repository m = rq_Repository q \<and> m_Issue m = rq_Issue q \<and> m_Attempt m = rq_Attempt q) \<and>
     (if rq_Action q = reconciliationGitHubBind then
        (case (rq_Manifest q, rq_GitHubBind q) of
           (Some m, Some b) \<Rightarrow> gb_BaseSHA b = m_BaseSHA m \<and> gb_Branch b = m_Branch m | _ \<Rightarrow> False)
      else if rq_Action q = reconciliationGitHubPublish then rq_Manifest q \<noteq> None
      else if rq_Action q = reconciliationGitHubPRGovernance then
        (case rq_GitHubPRGovernance q of None \<Rightarrow> False | Some g \<Rightarrow> pa_Repository (gg_Policy g) = rq_Repository q)
      else if rq_Action q = reconciliationReviewer then
        (case (rq_Manifest q, rq_Reviewer q) of
           (Some m, Some v) \<Rightarrow> ValidReviewTarget (rv_Mode v) (rv_Target v) (rq_Repository q) (rq_Issue q) | _ \<Rightarrow> False)
      else if rq_Action q = reconciliationHandoffDeliver then
        (case (rq_Manifest q, rq_Handoff q) of (Some m, Some h) \<Rightarrow> handoff_bound env q m h | _ \<Rightarrow> False)
      else if rq_Action q = reconciliationRetireCompleted then
        (case (rq_Manifest q, rq_Retire q) of (Some m, Some r) \<Rightarrow> rc_Mode r = retire_mode m | _ \<Rightarrow> False)
      else if rq_Action q = reconciliationMonitoringCheckIn then
        (case (rq_Manifest q, rq_CheckIn q) of (Some m, Some k) \<Rightarrow> ci_Session k = m_Session m | _ \<Rightarrow> False)
      else True)"

definition request_variants :: "reconciliationEffectRequest \<Rightarrow> bool list" where
  "request_variants q =
     [rq_GitHubBind q \<noteq> None, rq_GitHubPublish q \<noteq> None, rq_GitHubIssueUpdate q \<noteq> None, rq_GitHubPRGovernance q \<noteq> None,
      rq_Reviewer q \<noteq> None, rq_Handoff q \<noteq> None, rq_Retire q \<noteq> None, rq_CheckIn q \<noteq> None]"

definition request_payload_valid :: "Env \<Rightarrow> reconciliationEffectRequest \<Rightarrow> bool" where
  "request_payload_valid env q \<longleftrightarrow>
     (if rq_Action q = reconciliationGitHubBind then
        (case rq_GitHubBind q of None \<Rightarrow> False | Some x \<Rightarrow> validGitHubBind x)
      else if rq_Action q = reconciliationGitHubPublish then
        (case rq_GitHubPublish q of None \<Rightarrow> False | Some x \<Rightarrow> validGitHubPublish x)
      else if rq_Action q = reconciliationGitHubIssueUpdate then
        (case rq_GitHubIssueUpdate q of
           None \<Rightarrow> False | Some x \<Rightarrow> validGitHubIssueUpdate env x (reconciliationEffectIssueScoped q))
      else if rq_Action q = reconciliationGitHubPRGovernance then
        (case rq_GitHubPRGovernance q of None \<Rightarrow> False | Some x \<Rightarrow> validGitHubGovernance x)
      else if rq_Action q = reconciliationReviewer then
        (case rq_Reviewer q of None \<Rightarrow> False | Some x \<Rightarrow> validReviewerRequest x)
      else if rq_Action q = reconciliationHandoffDeliver then
        (case rq_Handoff q of None \<Rightarrow> False | Some x \<Rightarrow> validHandoffRequest x)
      else if rq_Action q = reconciliationRetireCompleted then
        (case rq_Retire q of None \<Rightarrow> False | Some x \<Rightarrow> validRetireRequest x)
      else if rq_Action q = reconciliationMonitoringCheckIn then
        (case rq_CheckIn q of
           None \<Rightarrow> False
         | Some x \<Rightarrow> boundedText (ci_Session x) 512 True \<and> validDigest (ci_Binding x) \<and> boundedText (ci_Payload x) 4096 True)
      else False)"

definition validReconciliationEffectRequest :: "Env \<Rightarrow> string \<Rightarrow> reconciliationEffectRequest \<Rightarrow> bool" where
  "validReconciliationEffectRequest env repository q \<longleftrightarrow>
     (let issueScoped = reconciliationEffectIssueScoped q in
      if rq_Repository q \<noteq> repository \<or> rq_Issue q < 1 \<or> rq_ObservationGeneration q = 0 \<or> rq_ObservationCycleID q = 0 \<or>
        \<not> validDigest (rq_BodyDigest q) \<or> \<not> validDigest (rq_ExecutionDigest q) then False
      else if \<not> issueScoped \<and> rq_ControlGeneration q \<noteq> 0 \<or>
        rq_ControlRepair q \<and> (\<not> issueScoped \<or> rq_ControlGeneration q = 0 \<or>
          (case rq_GitHubIssueUpdate q of None \<Rightarrow> True | Some u \<Rightarrow> gu_Kind u \<noteq> githubIssueControlSnapshot)) then False
      else if issueScoped \<noteq> (rq_Attempt q = 0 \<and> rq_Manifest q = None) \<or>
        \<not> issueScoped \<and> (rq_Attempt q < 1 \<or> rq_Manifest q = None) then False
      else if countTrue (request_variants q) \<noteq> 1 then False
      else request_payload_valid env q \<and> validReconciliationEffectBindings env q \<and>
        length (v_marshal env (v_json_request env q)) \<le> maxReconciliationEffectBytes)"

section \<open>Results\<close>

definition expectedPublishedBodyDigest :: "Env \<Rightarrow> reconciliationEffectRequest \<Rightarrow> int \<Rightarrow> string" where
  "expectedPublishedBodyDigest env q pr =
     (case (rq_GitHubPublish q, rq_Manifest q) of
        (Some p, Some m) \<Rightarrow>
          if pr < 1 then []
          else (case PullRequestBody (rq_Issue q) (rq_Attempt q) (gq_Validation p) (gq_Documentation p) (gq_Decisions p) of
              None \<Rightarrow> []
            | Some body \<Rightarrow>
                (case BindPullRequestBody (v_marshal env) body (rq_Issue q) (rq_Attempt q) (m_Branch m) (gq_HeadSHA p) pr of
                   None \<Rightarrow> [] | Some bound \<Rightarrow> v_sha env bound))
      | _ \<Rightarrow> [])"

definition validReviewerResult :: "reviewerEffectRequest \<Rightarrow> reviewerEffectResult \<Rightarrow> bool" where
  "validReviewerResult q r \<longleftrightarrow>
     (if rvr_Phase r \<noteq> rv_Phase q \<or> rvr_Mode r \<noteq> rv_Mode q \<or> rvr_Target r \<noteq> rv_Target q \<or> rvr_RunID r \<noteq> rv_RunID q \<or>
        rvr_BaseSHA r \<noteq> rv_BaseSHA q \<or> rvr_HeadSHA r \<noteq> rv_HeadSHA q \<or> rvr_Snapshot r \<noteq> rv_Snapshot q \<or>
        rvr_Session r \<noteq> rv_Session q then False
      else if rv_Phase q = ''cleanup'' then rvr_Status r = ''cleaned'' \<and> rvr_Findings r = [] \<and> rvr_Diagnostic r = []
      else if rvr_Status r = ''failed'' then rvr_Findings r = [] \<and> boundedText (rvr_Diagnostic r) 4096 True
      else if rvr_Diagnostic r \<noteq> [] then False
      else if rvr_Status r = ''clean'' then rvr_Findings r = []
      else rvr_Status r = ''findings'' \<and> validFindings (rvr_Findings r))"

definition result_variants :: "reconciliationEffectResult \<Rightarrow> bool list" where
  "result_variants r =
     [rs_GitHubBind r \<noteq> None, rs_GitHubPublish r \<noteq> None, rs_GitHubIssueUpdate r \<noteq> None, rs_GitHubPRGovernance r \<noteq> None,
      rs_Reviewer r \<noteq> None, rs_Handoff r \<noteq> None, rs_Retire r \<noteq> None, rs_CheckIn r \<noteq> None]"

definition valid_publish_result :: "Env \<Rightarrow> reconciliationEffectRequest \<Rightarrow> githubPublishEffectRequest \<Rightarrow> githubPublishEffectResult \<Rightarrow> bool" where
  "valid_publish_result env q p x \<longleftrightarrow>
     0 < gqr_PR x \<and> gqr_HeadSHA x = gq_HeadSHA p \<and>
     gqr_BoundBodyDigest x = expectedPublishedBodyDigest env q (gqr_PR x) \<and> gqr_Evidence x \<and> gqr_PublishedComment x"

definition valid_handoff_result :: "Manifest \<Rightarrow> handoffEffectRequest \<Rightarrow> handoffEffectResult \<Rightarrow> bool" where
  "valid_handoff_result m h x \<longleftrightarrow>
     hfr_Kind x = hf_Kind h \<and> hfr_Key x = hf_Key h \<and> hfr_OutcomePath x = hf_OutcomePath h \<and>
     hfr_OutcomeToken x = hf_OutcomeToken h \<and> hfr_Observed x \<and>
     (if m_Version m = ManifestVersion2 then hfr_LaunchToken x = hf_CandidateLaunchToken h \<and> hfr_LaunchID x \<noteq> []
      else hfr_LaunchToken x = [] \<and> hfr_LaunchID x = [])"

definition result_payload_valid :: "Env \<Rightarrow> reconciliationEffectRequest \<Rightarrow> reconciliationEffectResult \<Rightarrow> bool" where
  "result_payload_valid env q r \<longleftrightarrow>
     (if rq_Action q = reconciliationGitHubBind then
        (case rs_GitHubBind r of None \<Rightarrow> False | Some x \<Rightarrow> gbr_Observed x)
      else if rq_Action q = reconciliationGitHubPublish then
        (case (rs_GitHubPublish r, rq_GitHubPublish q) of
           (Some x, Some p) \<Rightarrow> valid_publish_result env q p x | _ \<Rightarrow> False)
      else if rq_Action q = reconciliationGitHubIssueUpdate then
        (case (rs_GitHubIssueUpdate r, rq_GitHubIssueUpdate q) of
           (Some x, Some u) \<Rightarrow> gur_Kind x = gu_Kind u \<and> gur_Observed x | _ \<Rightarrow> False)
      else if rq_Action q = reconciliationGitHubPRGovernance then
        (case (rs_GitHubPRGovernance r, rq_GitHubPRGovernance q) of
           (Some x, Some g) \<Rightarrow> ggr_PR x = gg_PR g \<and> ggr_HeadSHA x = gg_HeadSHA g \<and> ggr_Observed x | _ \<Rightarrow> False)
      else if rq_Action q = reconciliationReviewer then
        (case (rs_Reviewer r, rq_Reviewer q) of (Some x, Some v) \<Rightarrow> validReviewerResult v x | _ \<Rightarrow> False)
      else if rq_Action q = reconciliationHandoffDeliver then
        (case (rs_Handoff r, rq_Handoff q, rq_Manifest q) of
           (Some x, Some h, Some m) \<Rightarrow> valid_handoff_result m h x | _ \<Rightarrow> False)
      else if rq_Action q = reconciliationRetireCompleted then
        (case rs_Retire r of None \<Rightarrow> False | Some x \<Rightarrow> rcr_ResourcesGone x)
      else if rq_Action q = reconciliationMonitoringCheckIn then
        (case (rs_CheckIn r, rq_CheckIn q) of
           (Some x, Some k) \<Rightarrow> cir_Observed x \<and> cir_Session x = ci_Session k | _ \<Rightarrow> False)
      else False)"

definition validReconciliationEffectResult :: "Env \<Rightarrow> reconciliationEffectRequest \<Rightarrow> reconciliationEffectResult \<Rightarrow> bool" where
  "validReconciliationEffectResult env q r \<longleftrightarrow>
     rs_Action r = rq_Action q \<and> countTrue (result_variants r) = 1 \<and> result_payload_valid env q r \<and>
     length (v_marshal env (v_json_result env r)) \<le> maxReconciliationEffectBytes"

section \<open>Digests\<close>

definition reconciliationEffectDigest :: "Env \<Rightarrow> reconciliationEffectRequest \<Rightarrow> string" where
  "reconciliationEffectDigest env q = v_sha env (v_marshal env (v_json_request env q))"

definition reviewerResultDigest :: "Env \<Rightarrow> reconciliationEffectResult \<Rightarrow> string" where
  "reviewerResultDigest env r = v_sha env (v_marshal env (v_json_result env r))"

definition reviewerRunID ::
  "Env \<Rightarrow> uint64 \<Rightarrow> uint64 \<Rightarrow> uint64 \<Rightarrow> uint64 \<Rightarrow> string \<Rightarrow> int \<Rightarrow> int \<Rightarrow> string \<Rightarrow> string \<Rightarrow> string" where
  "reviewerRunID env epoch sourceRevision issueGen attemptGen repository issue attempt mode target =
     digestText env (join_str [''agent-symphony-review-run-v1'', utoa epoch, utoa sourceRevision, utoa issueGen,
       utoa attemptGen, repository, itoa issue, itoa attempt, mode, target] NUL)"

definition validGovernancePhase :: "Env \<Rightarrow> runtimeEffectIntent \<Rightarrow> GovernancePhase \<Rightarrow> bool" where
  "validGovernancePhase env e p \<longleftrightarrow>
     (case e_Reconciliation e of
        None \<Rightarrow> False
      | Some q \<Rightarrow>
          (case rq_GitHubPRGovernance q of
             None \<Rightarrow> False
           | Some g \<Rightarrow>
               gp_State p \<in> set [[], ''admitted'', ''completed''] \<and> ValidGovernancePhase (v_sha env) (p\<lparr>gp_State := []\<rparr>) \<and>
               boundedText (gp_Payload p) maxReconciliationBodyBytes True \<and> gp_Repository p = e_Repository e \<and>
               gp_PR p = gg_PR g \<and> gp_Issue p = e_Issue e \<and> gp_Attempt p = e_Attempt e \<and> gp_HeadSHA p = gg_HeadSHA g \<and>
               gp_Epoch p = e_IntentEpoch e \<and> gp_SourceRevision p = e_IntentRevision e \<and>
               gp_IssueGeneration p = e_IssueGeneration e \<and> gp_AttemptGeneration p = e_AttemptGeneration e \<and>
               gp_Kind p \<in> set governance_kinds))"

end
