(* ===== verification/Reconciliation_Facts.thy ===== *)
theory Reconciliation_Facts
  imports Reconciliation_Requests
begin

text \<open>
  Validation of the facts a reconciliation stores about issues and attempts
  (\<^verbatim>\<open>reconciliation_v2.go\<close>): bounded texts and lists, machine statuses read from GitHub, proposals of
  issue updates, and \<^verbatim>\<open>validateReconciliationObservations\<close>.
\<close>

section \<open>Bounds\<close>

definition maxReconciliationIssueCount :: nat where "maxReconciliationIssueCount = 1024"
definition maxReconciliationAttemptCount :: nat where "maxReconciliationAttemptCount = 4096"
definition maxReconciliationFactBytes :: nat where "maxReconciliationFactBytes = 4194304"
definition maxReconciliationPathBytes :: nat where "maxReconciliationPathBytes = 65536"
definition maxReconciliationRelationCount :: nat where "maxReconciliationRelationCount = 1000"
definition maxReconciliationPathCount :: nat where "maxReconciliationPathCount = 10000"
definition maxReconciliationCheckCount :: nat where "maxReconciliationCheckCount = 4096"

definition validIntList :: "int list \<Rightarrow> bool" where
  "validIntList values \<longleftrightarrow> length values \<le> maxReconciliationRelationCount \<and> list_all (\<lambda>v. 1 \<le> v) values"

definition no_NUL :: "string \<Rightarrow> bool" where
  "no_NUL s \<longleftrightarrow> char_of (0::nat) \<notin> set s"

section \<open>Facts\<close>

definition validateReconciliationAttemptFact :: "string \<Rightarrow> reconciliationAttemptFact \<Rightarrow> bool" where
  "validateReconciliationAttemptFact repository f \<longleftrightarrow>
     af_Repository f = repository \<and> 1 \<le> af_Issue f \<and> 1 \<le> af_Attempt f \<and> 0 \<le> af_PR f \<and>
     validOptionalObjectID (af_BaseSHA f) \<and> validOptionalObjectID (af_HeadSHA f) \<and> length (af_State f) \<le> 64 \<and>
     length (af_Diagnostic f) \<le> maxReconciliationStringBytes \<and> no_NUL (af_State f) \<and> no_NUL (af_Diagnostic f) \<and>
     validStringList (af_Checks f) maxReconciliationCheckCount maxReconciliationStringBytes"

definition validObservedMachineStatus :: "reconciliationIssueFact \<Rightarrow> bool" where
  "validObservedMachineStatus f \<longleftrightarrow>
     (if fi_MachineStatusProtocol f = 0 then
        fi_MachineStatusAttempt f = 0 \<and> fi_MachineStatusSequence f = 0 \<and> \<not> fi_MachineStatusNeedsAttention f \<and>
        fi_MachineStatusReason f = []
      else (fi_MachineStatusProtocol f = 1 \<or> fi_MachineStatusProtocol f = 2) \<and> 0 < fi_MachineStatusAttempt f \<and>
        0 < fi_MachineStatusSequence f \<and> boundedText (fi_MachineStatusReason f) 1024 True)"

definition validateReconciliationIssueFact :: "string \<Rightarrow> reconciliationIssueFact \<Rightarrow> bool" where
  "validateReconciliationIssueFact repository f \<longleftrightarrow>
     fi_Repository f = repository \<and> 1 \<le> fi_Issue f \<and> 0 \<le> fi_Attempt f \<and> 0 \<le> fi_CurrentAttempt f \<and>
     0 \<le> fi_RecoveryAttempt f \<and> length (fi_Title f) \<le> maxReconciliationStringBytes \<and>
     length (fi_BaseBranch f) \<le> maxReconciliationStringBytes \<and> no_NUL (fi_Title f) \<and> no_NUL (fi_BaseBranch f) \<and>
     validDigest (fi_BodyDigest f) \<and> validOptionalObjectID (fi_BaseSHA f) \<and> validIntList (fi_Dependencies f) \<and>
     validIntList (fi_SatisfiedDependencies f) \<and>
     validStringList (fi_Paths f) maxReconciliationPathCount maxReconciliationPathBytes \<and>
     validStringList (fi_Blockers f) maxReconciliationRelationCount maxReconciliationStringBytes \<and>
     length (fi_TerminalAttempts f) \<le> maxReconciliationRelationCount \<and> validObservedMachineStatus f \<and>
     (case fi_ActiveAttempt f of
        None \<Rightarrow> True | Some a \<Rightarrow> af_Issue a = fi_Issue f \<and> validateReconciliationAttemptFact repository a) \<and>
     list_all (\<lambda>a. af_Issue a = fi_Issue f \<and> validateReconciliationAttemptFact repository a) (fi_TerminalAttempts f)"

definition empty_attempt_fact :: reconciliationAttemptFact where
  "empty_attempt_fact = \<lparr>af_Repository = [], af_Issue = 0, af_Attempt = 0, af_PR = 0, af_BaseSHA = [], af_HeadSHA = [],
     af_State = [], af_PublicationConfirmed = False, af_Diagnostic = [], af_Checks = []\<rparr>"

definition empty_issue_fact :: reconciliationIssueFact where
  "empty_issue_fact = \<lparr>fi_Repository = [], fi_Title = [], fi_BodyDigest = [], fi_BaseSHA = [], fi_BaseBranch = [],
     fi_Issue = 0, fi_Attempt = 0, fi_CurrentAttempt = 0, fi_Priority = 0, fi_CreatedAtUnixNano = 0,
     fi_Dependencies = [], fi_SatisfiedDependencies = [], fi_Paths = [], fi_Blockers = [], fi_Eligible = False,
     fi_Active = False, fi_Completed = False, fi_Retry = False, fi_Cancelled = False, fi_Closed = False,
     fi_DispatchAuthorized = False, fi_RecoveryAuthorized = False, fi_RecoveryAttempt = 0, fi_NeedsAttention = False,
     fi_MachineStatusProtocol = 0, fi_MachineStatusAttempt = 0, fi_MachineStatusSequence = 0,
     fi_MachineStatusNeedsAttention = False, fi_MachineStatusReason = [], fi_ActiveAttempt = None,
     fi_TerminalAttempts = []\<rparr>"

section \<open>Proposals\<close>

definition validReconciliationIssueUpdateProposal :: "string \<Rightarrow> reconciliationIssueUpdateProposal \<Rightarrow> bool" where
  "validReconciliationIssueUpdateProposal repository u \<longleftrightarrow>
     up_Repository u = repository \<and> 1 \<le> up_Issue u \<and>
     (if up_Kind u = githubIssueControlSnapshot then
        validDigest (up_ControlSnapshotDigest u) \<and> up_AttributionAttempt u = 0 \<and> up_Dependency u = 0 \<and> up_PullRequest u = 0
      else if up_Kind u = githubIssueDependencyClear then
        up_ControlSnapshotDigest u = [] \<and> 0 < up_AttributionAttempt u \<and> 0 < up_Dependency u \<and> 0 \<le> up_PullRequest u
      else False)"

text \<open>The pull request of the current attempt: from the active attempt, then the terminal ones, then
  the observed ones, which must not contradict it.\<close>

definition terminal_pr :: "int \<Rightarrow> reconciliationAttemptFact list \<Rightarrow> int \<times> bool \<Rightarrow> int \<times> bool" where
  "terminal_pr current fs start =
     foldl (\<lambda>(pr, found) f. if af_Attempt f = current then (if 0 < af_PR f then af_PR f else pr, True) else (pr, found))
       start fs"

fun observed_pr :: "int \<Rightarrow> reconciliationAttemptFact list \<Rightarrow> int \<times> bool \<Rightarrow> (int \<times> bool) option" where
  "observed_pr current [] r = Some r"
| "observed_pr current (f # fs) (pr, found) =
     (if af_Attempt f \<noteq> current then observed_pr current fs (pr, found)
      else if af_PR f \<le> 0 then observed_pr current fs (pr, True)
      else if 0 < pr \<and> pr \<noteq> af_PR f then None
      else observed_pr current fs (af_PR f, True))"

definition bound_pr :: "reconciliationIssueFact \<Rightarrow> reconciliationAttemptFact list \<Rightarrow> (int \<times> bool) option" where
  "bound_pr f attempts =
     (let current = (if fi_CurrentAttempt f = 0 then fi_Attempt f else fi_CurrentAttempt f);
          start = (case fi_ActiveAttempt f of
              None \<Rightarrow> (0, False)
            | Some a \<Rightarrow> if af_Attempt a = fi_Attempt f \<or> af_Attempt a = fi_CurrentAttempt f
                then (af_PR a, True) else (0, False)) in
      observed_pr current attempts (terminal_pr current (fi_TerminalAttempts f) start))"

definition valid_dependency_clear :: "reconciliationIssueFact \<Rightarrow> reconciliationAttemptFact list \<Rightarrow> reconciliationIssueUpdateProposal \<Rightarrow> bool" where
  "valid_dependency_clear f attempts u \<longleftrightarrow>
     up_AttributionAttempt u = max 1 (fi_CurrentAttempt f) \<and> up_Dependency u \<in> set (fi_Dependencies f) \<and>
     up_Dependency u \<in> set (fi_SatisfiedDependencies f) \<and>
     (case bound_pr f attempts of None \<Rightarrow> False | Some (pr, found) \<Rightarrow> found \<longrightarrow> up_PullRequest u = pr)"

fun proposals_ok ::
  "string \<Rightarrow> reconciliationIssueFact \<Rightarrow> reconciliationAttemptFact list \<Rightarrow> string list \<Rightarrow> reconciliationIssueUpdateProposal list \<Rightarrow> bool" where
  "proposals_ok repository f attempts seen [] = True"
| "proposals_ok repository f attempts seen (u # us) \<longleftrightarrow>
     \<not> (up_Kind u \<in> set seen \<or> up_Repository u \<noteq> repository \<or> up_Issue u \<noteq> fi_Issue f \<or>
        \<not> validReconciliationIssueUpdateProposal repository u) \<and>
     (up_Kind u = githubIssueDependencyClear \<longrightarrow> valid_dependency_clear f attempts u) \<and>
     proposals_ok repository f attempts (up_Kind u # seen) us"

definition validIssueUpdateProposals ::
  "string \<Rightarrow> reconciliationIssueFact \<Rightarrow> reconciliationAttemptFact list \<Rightarrow> reconciliationIssueUpdateProposal list \<Rightarrow> bool" where
  "validIssueUpdateProposals repository f attempts proposals \<longleftrightarrow>
     proposals_ok repository f attempts [] proposals \<and> length proposals \<le> 2"

section \<open>Observations\<close>

definition attempt_facts :: "Env \<Rightarrow> reconciliationObservation \<Rightarrow> reconciliationAttemptFact list" where
  "attempt_facts env ob =
     map ao_Fact (filter (\<lambda>a. ao_Present a \<and> ao_SourceIssueGeneration a = ob_Generation ob)
       (map snd (fm_entries (v_order env) (ob_Attempts ob))))"

definition valid_attempt_observation :: "runtimeOwnerState \<Rightarrow> reconciliationObservation \<Rightarrow> string \<Rightarrow> reconciliationAttemptObservation \<Rightarrow> bool" where
  "valid_attempt_observation s ob k a \<longleftrightarrow>
     (case parseOwnerAttemptKey k of (repository, issue, number, ok) \<Rightarrow>
        ok \<and> repository = s_Repository s \<and> issue = fi_Issue (ob_Fact ob) \<and> 1 \<le> number) \<and>
     ao_Generation a \<noteq> 0 \<and> fm_get (s_AttemptGenerations s) k 0 = ao_OwnerGeneration a \<and>
     ao_SourceIssueGeneration a = ob_Generation ob \<and> ao_ObservationEpoch a \<noteq> 0 \<and>
     ao_ObservationEpoch a \<le> s_Epoch s \<and> ao_LastCycleID a \<noteq> 0 \<and> \<not> fm_has (s_Tombstones s) k \<and>
     (if ao_Present a then validateReconciliationAttemptFact (s_Repository s) (ao_Fact a)
      else ao_Fact a = empty_attempt_fact)"

definition valid_present_observation :: "Env \<Rightarrow> runtimeOwnerState \<Rightarrow> string \<Rightarrow> reconciliationObservation \<Rightarrow> bool" where
  "valid_present_observation env s k ob \<longleftrightarrow>
     (let f = ob_Fact ob; buried = (\<lambda>a. fm_has (s_Tombstones s) (ownerAttemptKey (s_Repository s) (fi_Issue f) (af_Attempt a))) in
      validateReconciliationIssueFact (s_Repository s) f \<and> k = ownerIssueKey (fi_Repository f) (fi_Issue f) \<and>
      validIssueUpdateProposals (s_Repository s) f (attempt_facts env ob) (ob_IssueUpdates ob) \<and>
      (case fi_ActiveAttempt f of None \<Rightarrow> True | Some a \<Rightarrow> \<not> buried a) \<and>
      list_all (\<lambda>a. \<not> buried a) (fi_TerminalAttempts f) \<and>
      fmpred (valid_attempt_observation s ob) (ob_Attempts ob))"

definition valid_observation :: "Env \<Rightarrow> runtimeOwnerState \<Rightarrow> string \<Rightarrow> reconciliationObservation \<Rightarrow> bool" where
  "valid_observation env s k ob \<longleftrightarrow>
     k = ownerIssueKey (s_Repository s) (issueFromOwnerKey k) \<and> ob_Generation ob \<noteq> 0 \<and>
     fm_get (s_IssueGenerations s) k 0 = ob_OwnerGeneration ob \<and> ob_ObservationEpoch ob \<noteq> 0 \<and>
     ob_ObservationEpoch ob \<le> s_Epoch s \<and> ob_LastCycleID ob \<noteq> 0 \<and> validDigest (ob_InputDigest ob) \<and>
     (if \<not> ob_Present ob then ob_Fact ob = empty_issue_fact \<and> ob_IssueUpdates ob = [] \<and> ob_Attempts ob = fmempty
      else valid_present_observation env s k ob)"

definition observed_attempts :: "Env \<Rightarrow> runtimeOwnerState \<Rightarrow> nat" where
  "observed_attempts env s =
     sum_list (map (\<lambda>(_, ob). if ob_Present ob then fcard (fmdom (ob_Attempts ob)) else 0)
       (fm_entries (v_order env) (s_Observations s)))"

definition validateReconciliationObservations :: "Env \<Rightarrow> runtimeOwnerState \<Rightarrow> bool" where
  "validateReconciliationObservations env s \<longleftrightarrow>
     fcard (fmdom (s_Observations s)) \<le> maxReconciliationIssueCount \<and>
     length (v_marshal env (v_json_observations env (s_Observations s))) \<le> maxReconciliationFactBytes \<and>
     fmpred (valid_observation env s) (s_Observations s) \<and> observed_attempts env s \<le> maxReconciliationAttemptCount"

end
