(* ===== verification/Pull_Policy.thy ===== *)
theory Pull_Policy
  imports Github_Text
begin

text \<open>
  The pull request policy of \<^verbatim>\<open>internal/github/pull_request.go\<close>: which feedback an attempt has to act
  on, what the policy check says about a pull request, when it may be merged, and the comments that
  record it.  Everything here is a function of the facts that were just read from GitHub.
\<close>

definition FeedbackPending :: string where "FeedbackPending = ''pending''"
definition FeedbackAddressed :: string where "FeedbackAddressed = ''addressed''"
definition FeedbackBlocked :: string where "FeedbackBlocked = ''blocked''"
definition FeedbackClaimed :: string where "FeedbackClaimed = ''claimed''"
definition FeedbackInFlight :: string where "FeedbackInFlight = ''in-flight''"
definition FeedbackCompleted :: string where "FeedbackCompleted = ''completed''"
definition feedbackInline :: string where "feedbackInline = ''inline''"

lemmas feedback_states = FeedbackPending_def FeedbackAddressed_def FeedbackBlocked_def FeedbackClaimed_def
  FeedbackInFlight_def FeedbackCompleted_def

lemma feedback_states_distinct [simp]:
  "FeedbackPending \<noteq> FeedbackAddressed" "FeedbackPending \<noteq> FeedbackBlocked" "FeedbackAddressed \<noteq> FeedbackPending"
  "FeedbackAddressed \<noteq> FeedbackBlocked" "FeedbackBlocked \<noteq> FeedbackPending" "FeedbackBlocked \<noteq> FeedbackAddressed"
  "FeedbackClaimed \<noteq> FeedbackInFlight" "FeedbackClaimed \<noteq> FeedbackCompleted" "FeedbackInFlight \<noteq> FeedbackClaimed"
  "FeedbackInFlight \<noteq> FeedbackCompleted" "FeedbackCompleted \<noteq> FeedbackClaimed" "FeedbackCompleted \<noteq> FeedbackInFlight"
  "FeedbackPending \<noteq> []" "FeedbackAddressed \<noteq> []" "FeedbackBlocked \<noteq> []" "FeedbackClaimed \<noteq> []" "FeedbackInFlight \<noteq> []"
  "FeedbackCompleted \<noteq> []" "[] \<noteq> FeedbackCompleted" "[] \<noteq> FeedbackInFlight" "[] \<noteq> FeedbackClaimed"
  by (simp_all add: feedback_states)

section \<open>Feedback\<close>

definition feedback_identity :: "Feedback \<Rightarrow> string" where
  "feedback_identity f =
     (let source = (if fb_Source f = [] then feedbackInline else fb_Source f) in source @ '':'' @ itoa (fb_ID f))"

definition hasAddressedFeedback :: "Feedback list \<Rightarrow> bool" where
  "hasAddressedFeedback fs = list_ex (\<lambda>f. fb_Authorized f \<and> fb_State f = FeedbackAddressed) fs"

definition compareFeedback :: "Feedback \<Rightarrow> Feedback \<Rightarrow> int" where
  "compareFeedback a b =
     (let n = compare_ord (fb_CreatedAt a) (fb_CreatedAt b) in
      if n \<noteq> 0 then n else compare_ord (feedback_identity a) (feedback_identity b))"

text \<open>
  \<^verbatim>\<open>slices.DeleteFunc\<close> visits the sorted feedback once; every identity counts as seen after its first
  entry, whether that entry stays or not.  \<^verbatim>\<open>slices.SortFunc\<close> leaves the order of two entries with the
  same time and identity open; the model takes the one of the input.
\<close>

definition feedback_dropped :: "(int \<Rightarrow> bool) \<Rightarrow> Feedback \<Rightarrow> bool" where
  "feedback_dropped authorized f \<longleftrightarrow>
     fb_ID f \<le> 0 \<or> trim_space (fb_Body f) = [] \<or> fb_State f = FeedbackAddressed \<or> fb_State f = FeedbackBlocked \<or>
     fb_Execution f \<noteq> [] \<or> \<not> fb_Authorized f \<or> \<not> authorized (fb_ActorID f)"

fun keep_actionable :: "(int \<Rightarrow> bool) \<Rightarrow> string list \<Rightarrow> Feedback list \<Rightarrow> Feedback list" where
  "keep_actionable authorized seen [] = []"
| "keep_actionable authorized seen (f # fs) =
     (let rest = keep_actionable authorized (feedback_identity f # seen) fs in
      if feedback_identity f \<in> set seen \<or> feedback_dropped authorized f then rest else f # rest)"

definition ActionableFeedback :: "Feedback list \<Rightarrow> (int \<Rightarrow> bool) option \<Rightarrow> Feedback list" where
  "ActionableFeedback feedback authorized =
     (case authorized of
        None \<Rightarrow> []
      | Some a \<Rightarrow> keep_actionable a [] (sort_func compareFeedback feedback))"

section \<open>The policy check\<close>

record PolicyResult =
  po_CheckStatus :: string
  po_CheckConclusion :: string
  po_Reasons :: "string list"
  po_MergeBlockers :: "string list"
  po_Merge :: bool

definition feedback_reasons :: "Feedback \<Rightarrow> string list" where
  "feedback_reasons f =
     (if fb_Authorized f \<and> (fb_State f = [] \<or> fb_State f = FeedbackPending) \<and>
        (fb_Execution f = FeedbackClaimed \<or> fb_Execution f = FeedbackInFlight)
      then [''feedback '' @ feedback_identity f @ '' execution is '' @ fb_Execution f] else []) @
     (if fb_Authorized f \<and> (fb_State f = FeedbackPending \<or> fb_State f = FeedbackBlocked \<or> fb_State f = [])
      then [''feedback '' @ itoa (fb_ID f) @ '' is '' @ (if fb_State f = [] then FeedbackPending else fb_State f)] else [])"

definition policy_reasons :: "PRFacts \<Rightarrow> string list" where
  "policy_reasons f =
     (if pf_HeadSHA f = [] \<or> pf_ValidationSHA f \<noteq> pf_HeadSHA f then [''validation evidence is missing or stale''] else []) @
     (if pf_HeadSHA f = [] \<or> pf_DocumentationSHA f \<noteq> pf_HeadSHA f
      then [''documentation impact assessment is missing or stale''] else []) @
     (if pf_NeedsHumanReview f then [''human review is required''] else []) @
     concat (map feedback_reasons (pf_Feedback f))"

definition merge_blockers :: "PRFacts \<Rightarrow> string list" where
  "merge_blockers f =
     (if \<not> pf_IssueOpen f \<or> \<not> pf_IssueEligible f then [''originating issue is not open and eligible''] else []) @
     (if \<not> pf_PRIsOpen f \<or> pf_Draft f \<or> \<not> pf_Mergeable f
      then [''pull request is not open, non-draft, and mergeable''] else []) @
     (if pf_ApprovalRequired f \<and> \<not> pf_Approved f \<or> pf_ChangesRequested f \<or>
        pf_CodeOwnerApprovalRequired f \<and> \<not> pf_CodeOwnerApproved f \<or>
        pf_LastPushApprovalRequired f \<and> \<not> pf_LastPushApproved f
      then [''required review approval is not satisfied''] else []) @
     (if \<not> pf_RequiredChecksPass f then [''required checks have not passed''] else []) @
     (if pf_BaseRequiresCurrent f \<and> pf_Behind f then [''branch is behind its required base''] else []) @
     (if pf_ConflictingScope f then [''another active attempt has conflicting path scope''] else []) @
     (if pf_BranchModifiedOutsideAttempt f then [''attempt branch was modified outside the attempt''] else []) @
     (if \<not> pf_MergePermission f then [''merge permission is unavailable''] else [])"

definition EvaluatePR :: "PRFacts \<Rightarrow> PolicyResult" where
  "EvaluatePR f =
     (let reasons = policy_reasons f; blockers = reasons @ merge_blockers f in
      \<lparr>po_CheckStatus = (if pf_NeedsHumanReview f then ''in_progress'' else ''completed''),
       po_CheckConclusion =
         (if pf_NeedsHumanReview f then [] else if blockers = [] then ''success'' else ''failure''),
       po_Reasons = reasons, po_MergeBlockers = blockers,
       po_Merge = (pf_AutonomousMerge f \<and> blockers = [])\<rparr>)"

definition policyStatus :: "PolicyResult \<Rightarrow> string" where
  "policyStatus r =
     (if po_CheckStatus r \<noteq> ''completed'' then ''pending''
      else if po_CheckConclusion r = ''success'' then ''success'' else ''failure'')"

definition status_description :: "int \<Rightarrow> int \<Rightarrow> PolicyResult \<Rightarrow> string" where
  "status_description issue attempt r =
     (let summary = (if po_MergeBlockers r \<noteq> [] then join_str (po_MergeBlockers r) ''; '' else ''Policy satisfied.'');
          description = ''issue #'' @ itoa issue @ '' attempt '' @ itoa attempt @ '': '' @ summary in
      if 140 < length description then take 137 description @ ''...'' else description)"

section \<open>Comments\<close>

definition mergeDisposition :: "string \<Rightarrow> string \<Rightarrow> string" where
  "mergeDisposition head state = ''Merge attempt for head `'' @ head @ ''`: **'' @ state @ ''**.''"

definition FeedbackDispositionBody :: "int \<Rightarrow> int \<Rightarrow> Feedback \<Rightarrow> string \<Rightarrow> string option" where
  "FeedbackDispositionBody issue attempt feedback detail =
     (if fb_ID feedback \<le> 0 \<or> fb_State feedback \<notin> set [FeedbackPending, FeedbackAddressed, FeedbackBlocked] then None
      else AttributedBody issue attempt
        (''Feedback '' @ feedback_identity feedback @ '': **'' @ fb_State feedback @ ''**'' @ LF @ LF @ trim_space detail))"

definition EvidenceBody :: "int \<Rightarrow> int \<Rightarrow> string \<Rightarrow> string \<Rightarrow> string option" where
  "EvidenceBody issue attempt kind head =
     (if kind \<notin> set [''validation'', ''documentation''] \<or> \<not> regexpSHA head then None
      else AttributedBody issue attempt (''Agent Symphony '' @ kind @ '' evidence for head `'' @ head @ ''`.''))"

function replace_all :: "string \<Rightarrow> string \<Rightarrow> string \<Rightarrow> string" where
  "replace_all s old new =
     (if old = [] then s
      else if has_prefix s old then (if s = [] then [] else new @ replace_all (drop (length old) s) old new)
      else case s of [] \<Rightarrow> [] | c # cs \<Rightarrow> c # replace_all cs old new)"
  by pat_completeness auto
termination by (relation "measure (\<lambda>(s, _, _). length s)") auto

declare replace_all.simps [simp del]

definition ReviewFindingsBody :: "int \<Rightarrow> int \<Rightarrow> string \<Rightarrow> string list \<Rightarrow> string option" where
  "ReviewFindingsBody issue attempt head findings =
     (if \<not> regexpSHA head \<or> findings = [] \<or> 100 < length findings then None
      else if list_ex (\<lambda>finding. trim_space finding = [] \<or> 4096 < length finding) findings then None
      else AttributedBody issue attempt
        (''Independent review findings for exact head `'' @ head @ ''`:'' @ LF @ LF @ ''- '' @
         join_str (map (\<lambda>finding. replace_all finding ''<!--'' ''&lt;!--'') findings) (LF @ ''- '')))"

definition PolicyFailureBody :: "int \<Rightarrow> int \<Rightarrow> string \<Rightarrow> string \<Rightarrow> string list \<Rightarrow> string option" where
  "PolicyFailureBody issue attempt head validation blockers =
     (if \<not> regexpSHA head \<or> blockers = [] \<or>
        validation \<noteq> [] \<and> validation \<notin> set [''passed'', ''failed'', ''blocked''] then None
      else
        let message = ''Agent Symphony could not resolve policy for head `'' @ head @ ''`:'' @ LF @ LF @ ''- '' @
              join_str (sort_compact blockers) (LF @ ''- '') in
        AttributedBody issue attempt
          (if validation \<noteq> []
           then message @ LF @ LF @ ''The remediation validation attempt ended as **'' @ validation @ ''**.'' else message))"

section \<open>Governance phases\<close>

definition validPullState :: "PRState \<Rightarrow> int \<Rightarrow> string \<Rightarrow> int \<Rightarrow> int \<Rightarrow> bool" where
  "validPullState s number repository issue attempt \<longleftrightarrow>
     pr_Number s = number \<and> pr_Repository s \<noteq> [] \<and> pr_Repository s = repository \<and> pr_HeadSHA s \<noteq> [] \<and>
     pf_HeadSHA (pr_Facts s) = pr_HeadSHA s \<and> pr_Issue s = issue \<and> pr_Attempt s = attempt \<and>
     0 < pr_Issue s \<and> 0 < pr_Attempt s"

definition NewGovernancePhase :: "(string \<Rightarrow> string) \<Rightarrow> PRState \<Rightarrow> string \<Rightarrow> string \<Rightarrow> GovernancePhase option" where
  "NewGovernancePhase sha s kind payload =
     (if \<not> validPullState s (pr_Number s) (pr_Repository s) (pr_Issue s) (pr_Attempt s) \<or> kind = [] \<or> payload = [] then None
      else Some \<lparr>
        gp_ID = sha (kind @ NUL @ pr_Repository s @ NUL @ itoa (pr_Number s) @ NUL @ pr_HeadSHA s @ NUL @ sha payload),
        gp_Kind = kind, gp_Repository = pr_Repository s, gp_HeadSHA = pr_HeadSHA s, gp_PayloadDigest = sha payload,
        gp_Payload = payload, gp_PR = pr_Number s, gp_Issue = pr_Issue s, gp_Attempt = pr_Attempt s, gp_Epoch = 0,
        gp_SourceRevision = 0, gp_IssueGeneration = 0, gp_AttemptGeneration = 0, gp_State = []\<rparr>)"

end
