(* ===== verification/Pull_Recovery.thy ===== *)
theory Pull_Recovery
  imports Pull_Policy Reconciliation_Requests
begin

text \<open>
  The recovery state of a pull request (\<^verbatim>\<open>internal/github/pr_adapters.go\<close>): which feedback and
  validation work was handed to the agent, what came back, and which publication is prepared.  The
  functions mutate a \<^verbatim>\<open>*PRState\<close>; the model returns it, and an error, a Go text, is \<open>Inl\<close>: every
  caller throws a state away whose change failed.  \<^verbatim>\<open>FileRecovery\<close> applies the same functions to the
  list of states it has read under its lock; reading and writing that file is left out.
\<close>

type_synonym RecoveryAttemptFact = reconciliationAttemptFact

abbreviation no_handoff :: RecoveryHandoff where
  "no_handoff \<equiv> \<lparr>rh_Key = [], rh_Repository = [], rh_PR = 0, rh_Issue = 0, rh_Attempt = 0, rh_HeadSHA = [],
     rh_Validation = False, rh_ValidationGeneration = 0, rh_Feedback = []\<rparr>"

definition handoff_text :: "RecoveryHandoff \<Rightarrow> string" where
  "handoff_text h =
     (let identities = sort (map (\<lambda>f. fb_Source f @ '':'' @ itoa (fb_ID f)) (rh_Feedback h)) in
      rh_Repository h @ NUL @ itoa (rh_PR h) @ NUL @ itoa (rh_Issue h) @ NUL @ itoa (rh_Attempt h) @ NUL @
      rh_HeadSHA h @ NUL @ utoa (rh_ValidationGeneration h) @ NUL @ join_str identities '','')"

definition handoffKey :: "(string \<Rightarrow> string) \<Rightarrow> RecoveryHandoff \<Rightarrow> string" where
  "handoffKey sha h = sha (handoff_text h)"

definition receipted :: "PRState \<Rightarrow> string \<Rightarrow> bool" where
  "receipted s key \<longleftrightarrow> fm_get (pr_HandoffReceipts s) key False"

definition with_feedback :: "PRState \<Rightarrow> Feedback list \<Rightarrow> PRState" where
  "with_feedback s fs = s\<lparr>pr_Facts := (pr_Facts s)\<lparr>pf_Feedback := fs\<rparr>\<rparr>"

abbreviation state_feedback :: "PRState \<Rightarrow> Feedback list" where
  "state_feedback s \<equiv> pf_Feedback (pr_Facts s)"

lemma with_feedback_fields [simp]:
  "state_feedback (with_feedback s fs) = fs" "pr_HeadSHA (with_feedback s fs) = pr_HeadSHA s"
  "pr_HandoffReceipts (with_feedback s fs) = pr_HandoffReceipts s" "pr_Repository (with_feedback s fs) = pr_Repository s"
  "pr_Number (with_feedback s fs) = pr_Number s" "pr_Issue (with_feedback s fs) = pr_Issue s"
  "pr_Attempt (with_feedback s fs) = pr_Attempt s"
  "pr_ValidationInFlightSHA (with_feedback s fs) = pr_ValidationInFlightSHA s"
  "pr_ValidationQueuedSHA (with_feedback s fs) = pr_ValidationQueuedSHA s"
  "pr_ValidationGeneration (with_feedback s fs) = pr_ValidationGeneration s"
  "pr_PreparedPublication (with_feedback s fs) = pr_PreparedPublication s"
  "pr_ValidationResult (with_feedback s fs) = pr_ValidationResult s"
  "pr_ValidationEvidence (with_feedback s fs) = pr_ValidationEvidence s"
  by (simp_all add: with_feedback_def)

section \<open>Claims\<close>

definition feedback_sources_known :: "string list" where
  "feedback_sources_known = [''issue'', ''conversation'', ''inline'', ''review'']"

definition claim_malformed :: "PRState \<Rightarrow> Feedback \<Rightarrow> bool" where
  "claim_malformed s f \<longleftrightarrow>
     pr_HeadSHA s = [] \<or> fb_ID f < 1 \<or> fb_ActorID f < 1 \<or> \<not> fb_Authorized f \<or> fb_Body f = [] \<or>
     65536 < length (fb_Body f) \<or> char_of (0::nat) \<in> set (fb_Body f) \<or> time_is_zero (fb_CreatedAt f) \<or>
     fb_Source f \<notin> set feedback_sources_known \<or> fb_State f \<noteq> [] \<or> fb_Execution f \<noteq> [] \<or> fb_Delegated f \<or>
     fb_Evidence f \<noteq> []"

definition immutable_changed :: "Feedback \<Rightarrow> Feedback \<Rightarrow> bool" where
  "immutable_changed a b \<longleftrightarrow>
     \<not> (fb_ID a = fb_ID b \<and> fb_Source a = fb_Source b \<and> fb_ActorID a = fb_ActorID b \<and> fb_Body a = fb_Body b \<and>
        fb_CreatedAt a = fb_CreatedAt b \<and> fb_Authorized a = fb_Authorized b)"

definition claimed_before :: "Feedback \<Rightarrow> bool" where
  "claimed_before f \<longleftrightarrow>
     fb_Execution f \<noteq> [] \<or> fb_Delegated f \<or> fb_State f = FeedbackAddressed \<or> fb_State f = FeedbackBlocked"

definition claimed_feedback :: "Feedback \<Rightarrow> Feedback" where
  "claimed_feedback f = f\<lparr>fb_State := FeedbackPending, fb_Execution := FeedbackClaimed, fb_Delegated := True\<rparr>"

fun claim_entry :: "bool \<Rightarrow> Feedback \<Rightarrow> Feedback list \<Rightarrow> string + Feedback list \<times> bool" where
  "claim_entry strict f [] = Inr ([claimed_feedback f], True)"
| "claim_entry strict f (current # rest) =
     (if feedback_identity current \<noteq> feedback_identity f then
        (case claim_entry strict f rest of Inl e \<Rightarrow> Inl e | Inr (fs, c) \<Rightarrow> Inr (current # fs, c))
      else if strict \<and> immutable_changed current f then Inl ''feedback claim immutable fields changed''
      else if claimed_before current then Inr (current # rest, False)
      else Inr (claimed_feedback current # rest, True))"

definition ClaimFeedbackState :: "PRState \<Rightarrow> Feedback \<Rightarrow> string + PRState \<times> bool" where
  "ClaimFeedbackState s f =
     (if claim_malformed s f then Inl ''feedback claim head no longer matches recovery state''
      else case claim_entry True f (state_feedback s) of
        Inl e \<Rightarrow> Inl e
      | Inr (fs, c) \<Rightarrow> Inr (with_feedback s fs, c))"

definition QueueValidationState :: "PRState \<Rightarrow> string \<Rightarrow> string + PRState" where
  "QueueValidationState s head =
     (if head = [] \<or> pr_HeadSHA s \<noteq> head then Inl ''validation head SHA is missing or stale''
      else if pr_ValidationQueuedSHA s = head \<or> pr_ValidationInFlightSHA s = head then Inr s
      else if pr_ValidationGeneration s = uint64_max then Inl ''validation generation overflow''
      else Inr (s\<lparr>pr_ValidationQueuedSHA := head, pr_ValidationGeneration := pr_ValidationGeneration s + 1\<rparr>))"

section \<open>Handoffs\<close>

definition executing :: "Feedback \<Rightarrow> bool" where
  "executing f \<longleftrightarrow> fb_Execution f = FeedbackClaimed \<or> fb_Execution f = FeedbackInFlight"

definition in_flight :: "Feedback \<Rightarrow> Feedback" where
  "in_flight f = f\<lparr>fb_Execution := FeedbackInFlight\<rparr>"

definition claim_work :: "bool \<Rightarrow> PRState \<Rightarrow> PRState" where
  "claim_work queued s =
     with_feedback
       (if queued then s\<lparr>pr_ValidationQueuedSHA := [], pr_ValidationInFlightSHA := pr_HeadSHA s\<rparr> else s)
       (map (\<lambda>f. if executing f then in_flight f else f) (state_feedback s))"

definition handoff_of :: "(string \<Rightarrow> string) \<Rightarrow> PRState \<Rightarrow> bool \<Rightarrow> Feedback list \<Rightarrow> RecoveryHandoff" where
  "handoff_of sha s validation fs =
     (let h = \<lparr>rh_Key = [], rh_Repository = pr_Repository s, rh_PR = pr_Number s, rh_Issue = pr_Issue s,
        rh_Attempt = pr_Attempt s, rh_HeadSHA = pr_HeadSHA s, rh_Validation = validation,
        rh_ValidationGeneration = pr_ValidationGeneration s, rh_Feedback = fs\<rparr> in
      h\<lparr>rh_Key := handoffKey sha h\<rparr>)"

definition ClaimHandoffState :: "(string \<Rightarrow> string) \<Rightarrow> PRState \<Rightarrow> string + PRState \<times> RecoveryHandoff \<times> bool" where
  "ClaimHandoffState sha s =
     (if pr_Repository s = [] \<or> pr_Number s < 1 \<or> pr_Issue s < 1 \<or> pr_Attempt s < 1 \<or> \<not> regexpSHA (pr_HeadSHA s)
      then Inl ''recovery state identity is invalid''
      else
        let queued = (pr_ValidationQueuedSHA s = pr_HeadSHA s);
            s' = claim_work queued s;
            validation = (queued \<or> pr_ValidationInFlightSHA s' = pr_HeadSHA s);
            h = handoff_of sha s' validation (filter (\<lambda>f. fb_Execution f = FeedbackInFlight) (state_feedback s')) in
        Inr (s', h, \<not> (receipted s' (rh_Key h) \<or> (\<not> rh_Validation h \<and> rh_Feedback h = []))))"

definition receivedHandoff :: "(string \<Rightarrow> string) \<Rightarrow> PRState \<Rightarrow> RecoveryHandoff" where
  "receivedHandoff sha s =
     handoff_of sha s (pr_ValidationInFlightSHA s = pr_HeadSHA s \<and> pr_HeadSHA s \<noteq> [])
       (filter (\<lambda>f. fb_Execution f = FeedbackInFlight) (state_feedback s))"

definition RecoveryHandoffCurrent :: "(string \<Rightarrow> string) \<Rightarrow> PRState \<Rightarrow> RecoveryHandoff \<Rightarrow> bool" where
  "RecoveryHandoffCurrent sha s h \<longleftrightarrow> rh_Key h \<noteq> [] \<and> rh_Key h = handoffKey sha h \<and> h = receivedHandoff sha s"

definition ReceiptHandoffState :: "(string \<Rightarrow> string) \<Rightarrow> PRState \<Rightarrow> RecoveryHandoff \<Rightarrow> string + PRState" where
  "ReceiptHandoffState sha s h =
     (if \<not> RecoveryHandoffCurrent sha s h then Inl ''handoff immutable key mismatch''
      else Inr (s\<lparr>pr_HandoffReceipts := fmupd (rh_Key h) True (pr_HandoffReceipts s)\<rparr>))"

definition same_work :: "PRState \<Rightarrow> RecoveryHandoff \<Rightarrow> bool" where
  "same_work s h \<longleftrightarrow> pr_Repository s = rh_Repository h \<and> pr_Number s = rh_PR h \<and> pr_Issue s = rh_Issue h \<and>
     pr_Attempt s = rh_Attempt h \<and> pr_HeadSHA s = rh_HeadSHA h"

section \<open>Outcomes\<close>

definition apply_validation_outcome :: "PRState \<Rightarrow> RecoveryHandoff \<Rightarrow> HandoffOutcome \<Rightarrow> string + PRState" where
  "apply_validation_outcome s h x =
     (if \<not> rh_Validation h then Inr s
      else if ho_ValidationEvidence x = [] \<or> ho_ValidationResult x \<notin> set [''passed'', ''failed'', ''blocked'']
      then Inl ''validation outcome requires result and evidence''
      else
        let replay = (pr_ValidationResult s = ho_ValidationResult x \<and> pr_ValidationEvidence s = ho_ValidationEvidence x \<and>
              pr_ValidationInFlightSHA s = []) in
        if \<not> replay \<and> pr_ValidationInFlightSHA s \<noteq> rh_HeadSHA h
        then Inl ''validation outcome does not match in-flight work''
        else
          let s1 = (if \<not> replay \<and> \<not> ho_Retryable x then s\<lparr>pr_ValidationInFlightSHA := []\<rparr> else s) in
          Inr (s1\<lparr>pr_ValidationResult := ho_ValidationResult x, pr_ValidationEvidence := ho_ValidationEvidence x\<rparr>))"

definition outcome_recorded :: "FeedbackOutcome \<Rightarrow> Feedback \<Rightarrow> bool" where
  "outcome_recorded got f \<longleftrightarrow> fb_ID f = fo_ID got \<and> fb_Source f = fo_Source got \<and> fb_Execution f = FeedbackCompleted \<and>
     fb_State f = fo_State got \<and> fb_Evidence f = fo_Evidence got"

definition outcome_awaited :: "FeedbackOutcome \<Rightarrow> Feedback \<Rightarrow> bool" where
  "outcome_awaited got f \<longleftrightarrow> fb_ID f = fo_ID got \<and> fb_Source f = fo_Source got \<and> fb_Execution f = FeedbackInFlight"

definition completed_feedback :: "FeedbackOutcome \<Rightarrow> Feedback \<Rightarrow> Feedback" where
  "completed_feedback got f =
     f\<lparr>fb_State := fo_State got, fb_Execution := FeedbackCompleted, fb_Evidence := fo_Evidence got\<rparr>"

fun apply_feedback_outcomes :: "FeedbackOutcome list \<Rightarrow> Feedback list \<Rightarrow> string + Feedback list" where
  "apply_feedback_outcomes [] fs = Inr fs"
| "apply_feedback_outcomes (got # rest) fs =
     (if fo_ID got \<le> 0 \<or> fo_Evidence got = [] \<or> (fo_State got \<noteq> FeedbackAddressed \<and> fo_State got \<noteq> FeedbackBlocked)
      then Inl ''feedback outcome requires addressed/blocked state and evidence''
      else if \<not> list_ex (\<lambda>f. outcome_recorded got f \<or> outcome_awaited got f) fs
      then Inl ''feedback outcome does not match in-flight work''
      else apply_feedback_outcomes rest
        (map (\<lambda>f. if outcome_awaited got f then completed_feedback got f else f) fs))"

definition ApplyHandoffOutcome ::
  "(string \<Rightarrow> string) \<Rightarrow> PRState \<Rightarrow> RecoveryHandoff \<Rightarrow> HandoffOutcome \<Rightarrow> string + PRState" where
  "ApplyHandoffOutcome sha s h x =
     (if rh_Key h = [] \<or> ho_Key x \<noteq> rh_Key h \<or> rh_Key h \<noteq> handoffKey sha h \<or> \<not> same_work s h
      then Inl ''handoff immutable key mismatch''
      else case apply_validation_outcome s h x of
        Inl e \<Rightarrow> Inl e
      | Inr s1 \<Rightarrow>
          (case apply_feedback_outcomes (ho_Feedback x) (state_feedback s1) of
             Inl e \<Rightarrow> Inl e
           | Inr fs \<Rightarrow> Inr (with_feedback s1 fs)))"

section \<open>Publications\<close>

definition recoveryWorkInFlight :: "PRState \<Rightarrow> bool" where
  "recoveryWorkInFlight s \<longleftrightarrow>
     pr_PreparedPublication s \<noteq> None \<or> pr_ValidationQueuedSHA s \<noteq> [] \<or> pr_ValidationInFlightSHA s \<noteq> [] \<or>
     pr_MergeAttemptSHA s \<noteq> [] \<or> pr_MergePhase s \<noteq> [] \<or> list_ex executing (state_feedback s)"

definition every_item_completed :: "Feedback list \<Rightarrow> Feedback list \<Rightarrow> bool" where
  "every_item_completed expected fs \<longleftrightarrow>
     list_all (\<lambda>e. list_ex (\<lambda>f. feedback_identity f = feedback_identity e \<and> fb_Execution f = FeedbackCompleted \<and>
       (fb_State f = FeedbackAddressed \<or> fb_State f = FeedbackBlocked) \<and> fb_Evidence f \<noteq> []) fs) expected"

definition bare_handoff :: "PRState \<Rightarrow> RecoveryHandoff" where
  "bare_handoff s = no_handoff\<lparr>rh_Repository := pr_Repository s, rh_PR := pr_Number s, rh_Issue := pr_Issue s,
     rh_Attempt := pr_Attempt s, rh_HeadSHA := pr_HeadSHA s\<rparr>"

definition check_prepared :: "(string \<Rightarrow> string) \<Rightarrow> PRState \<Rightarrow> PreparedPublication \<Rightarrow> string option" where
  "check_prepared sha s p =
     (let h = pp_Handoff p in
      if rh_Key h \<noteq> [] then
        if \<not> receipted s (rh_Key h) then Some ''prepared publication does not match received handoff''
        else case ApplyHandoffOutcome sha s h (pp_Outcome p) of
          Inl e \<Rightarrow> Some (''prepared publication outcome is incomplete'' @ LF @ e)
        | Inr candidate \<Rightarrow>
            if rh_Validation h \<and> pr_ValidationInFlightSHA candidate \<noteq> []
            then Some ''prepared publication outcome is incomplete''
            else if \<not> every_item_completed (rh_Feedback h) (state_feedback candidate)
            then Some ''prepared publication requires an outcome for every feedback item''
            else None
      else if h \<noteq> bare_handoff s \<or> pp_Outcome p \<noteq> empty_outcome \<or> recoveryWorkInFlight s
      then Some ''prepared attempt publication identity is invalid''
      else None)"

definition PreparePublicationState :: "(string \<Rightarrow> string) \<Rightarrow> PRState \<Rightarrow> PreparedPublication \<Rightarrow> string + PRState" where
  "PreparePublicationState sha s p =
     (if \<not> regexpSHA (pp_HeadSHA p) \<or> pp_HeadSHA p = pr_HeadSHA s \<or> \<not> same_work s (pp_Handoff p)
      then Inl ''prepared publication identity is invalid''
      else case pr_PreparedPublication s of
        Some q \<Rightarrow> if q = p then Inr s else Inl ''different publication is already prepared''
      | None \<Rightarrow>
          (case check_prepared sha s p of
             Some e \<Rightarrow> Inl e
           | None \<Rightarrow> Inr (s\<lparr>pr_PreparedPublication := Some p\<rparr>)))"

definition advancePublicationHead :: "PRState \<Rightarrow> string \<Rightarrow> PRState" where
  "advancePublicationHead s head =
     s\<lparr>pr_HeadSHA := head, pr_CheckHead := [], pr_PolicyStatus := [], pr_ValidationQueuedSHA := [],
       pr_ValidationInFlightSHA := [], pr_ValidationResult := [], pr_ValidationEvidence := [],
       pr_MergeAttemptSHA := [], pr_MergePhase := [],
       pr_Facts := (pr_Facts s)\<lparr>pf_HeadSHA := [], pf_ValidationSHA := [], pf_DocumentationSHA := [],
         pf_BranchModifiedOutsideAttempt := False\<rparr>,
       pr_PendingDispositions := [], pr_ConfirmedDispositions := [], pr_PreparedPublication := None\<rparr>"

definition CompletePreparedPublication ::
  "(string \<Rightarrow> string) \<Rightarrow> PRState \<Rightarrow> PreparedPublication \<Rightarrow> string + PRState" where
  "CompletePreparedPublication sha s p =
     (if pr_PreparedPublication s \<noteq> Some p \<or> \<not> regexpSHA (pp_HeadSHA p)
      then Inl ''prepared publication no longer matches durable handoff''
      else if rh_Key (pp_Handoff p) = [] then
        (if pp_Handoff p \<noteq> bare_handoff s \<or> pp_Outcome p \<noteq> empty_outcome
         then Inl ''prepared attempt publication no longer matches durable state''
         else Inr (advancePublicationHead s (pp_HeadSHA p)))
      else if \<not> receipted s (rh_Key (pp_Handoff p)) \<or> receivedHandoff sha s \<noteq> pp_Handoff p
      then Inl ''prepared publication no longer matches durable handoff''
      else case ApplyHandoffOutcome sha s (pp_Handoff p) (pp_Outcome p) of
        Inl e \<Rightarrow> Inl e
      | Inr s1 \<Rightarrow> Inr (advancePublicationHead s1 (pp_HeadSHA p)))"

text \<open>\<^verbatim>\<open>HydrateRecoveryState\<close>: a fact read from GitHub fills an empty state or moves the head.\<close>

definition fact_unusable :: "RecoveryAttemptFact \<Rightarrow> bool" where
  "fact_unusable f \<longleftrightarrow> af_PR f < 1 \<or> af_Issue f < 1 \<or> af_Attempt f < 1 \<or> \<not> regexpSHA (af_HeadSHA f)"

definition fresh_pr_state :: "PRState \<Rightarrow> RecoveryAttemptFact \<Rightarrow> PRState" where
  "fresh_pr_state zero f =
     zero\<lparr>pr_Repository := af_Repository f, pr_Number := af_PR f, pr_Issue := af_Issue f, pr_Attempt := af_Attempt f,
       pr_HeadSHA := af_HeadSHA f\<rparr>"

definition zero_pr_state :: PRState where
  "zero_pr_state = \<lparr>pr_Repository = [], pr_HeadSHA = [], pr_CheckHead = [], pr_PolicyStatus = [],
     pr_ValidationQueuedSHA = [], pr_ValidationInFlightSHA = [], pr_ValidationGeneration = 0, pr_ValidationResult = [],
     pr_ValidationEvidence = [], pr_MergeAttemptSHA = [], pr_MergePhase = [], pr_Number = 0, pr_Issue = 0,
     pr_Attempt = 0, pr_ReviewLabelPresent = False,
     pr_Facts = \<lparr>pf_IssueOpen = False, pf_IssueEligible = False, pf_AutonomousMerge = False, pf_PRIsOpen = False,
       pf_Draft = False, pf_Mergeable = False, pf_Behind = False, pf_BaseRequiresCurrent = False, pf_HeadSHA = [],
       pf_ValidationSHA = [], pf_DocumentationSHA = [], pf_NeedsHumanReview = False, pf_ApprovalRequired = False,
       pf_Approved = False, pf_ChangesRequested = False, pf_CodeOwnerApprovalRequired = False,
       pf_CodeOwnerApproved = False, pf_LastPushApprovalRequired = False, pf_LastPushApproved = False,
       pf_RequiredChecksPass = False, pf_PolicyCheckRequired = False, pf_MergePermission = False,
       pf_BranchProtectionAllows = False, pf_ConflictingScope = False, pf_BranchModifiedOutsideAttempt = False,
       pf_Feedback = []\<rparr>,
     pr_Decisions = [], pr_PendingDispositions = [], pr_ConfirmedDispositions = [], pr_HandoffReceipts = fmempty,
     pr_PreparedPublication = None\<rparr>"

definition advance_if_idle :: "PRState \<Rightarrow> RecoveryAttemptFact \<Rightarrow> string + PRState" where
  "advance_if_idle s f =
     (if af_PublicationConfirmed f \<and> \<not> recoveryWorkInFlight s then Inr (advancePublicationHead s (af_HeadSHA f))
      else Inl ''authoritative pull request attempt conflicts with recovery state'')"

definition move_head :: "(string \<Rightarrow> string) \<Rightarrow> PRState \<Rightarrow> RecoveryAttemptFact \<Rightarrow> string + PRState" where
  "move_head sha s f =
     (if pr_HeadSHA s = af_HeadSHA f then Inr s
      else case pr_PreparedPublication s of
        Some p \<Rightarrow> if pp_HeadSHA p = af_HeadSHA f then CompletePreparedPublication sha s p else advance_if_idle s f
      | None \<Rightarrow> advance_if_idle s f)"

definition HydrateRecoveryState :: "(string \<Rightarrow> string) \<Rightarrow> PRState \<Rightarrow> RecoveryAttemptFact \<Rightarrow> string + PRState" where
  "HydrateRecoveryState sha s f =
     (if af_Repository f = [] \<or> fact_unusable f \<or> af_State f \<notin> set [''active'', ''review-ready'']
      then Inl ''authoritative pull request attempt has invalid identity''
      else if pr_Number s = 0 then Inr (fresh_pr_state zero_pr_state f)
      else if pr_Repository s \<noteq> af_Repository f \<or> pr_Number s \<noteq> af_PR f \<or> pr_Issue s \<noteq> af_Issue f \<or>
        pr_Attempt s \<noteq> af_Attempt f
      then Inl ''authoritative pull request attempt conflicts with recovery state''
      else move_head sha s f)"

end
