(* ===== verification/Reconciliation_Effects.thy ===== *)
theory Reconciliation_Effects
  imports Reconciliation_Facts Pull_Recovery
begin

text \<open>
  The life of a reconciliation effect in the ledger (\<^verbatim>\<open>reconciliation_effects_v2.go\<close>): when a request
  is still bound to what the owner knows, how an effect begins, is authorized, marked and finished, and
  what a finished effect changes.  A payload that the action of a validated request always has, but that
  is missing here, makes a check fail: the Go code would dereference a nil pointer.
\<close>

section \<open>Names of reviewer resources\<close>

record reviewerLaunchIdentity =
  li_EffectID :: "string"
  li_RunID :: "string"
  li_IssueGeneration :: "uint64"
  li_AttemptGeneration :: "uint64"
  li_RequestDigest :: "string"
  li_ProfileDigest :: "string"
  li_ConfinementVersion :: "uint64"
  li_GateProtocol :: "bool"
  li_SessionRequested :: "bool"
  li_ChildPID :: "int"
  li_Broker :: "TerminalBrokerBinding option"

record reviewerTerminalRecord =
  tr_Identity :: "reviewerLaunchIdentity"
  tr_ExitCode :: "int"
  tr_Signal :: "int"

definition reviewerIdentity :: "stateResultIdentity \<Rightarrow> reviewerLaunchIdentity" where
  "reviewerIdentity i =
     \<lparr>li_EffectID = id_EffectID i, li_RunID = id_ReviewRunID i, li_IssueGeneration = id_IssueGeneration i,
      li_AttemptGeneration = id_AttemptGeneration i, li_RequestDigest = id_RequestDigest i,
      li_ProfileDigest = id_ReviewerProfileDigest i, li_ConfinementVersion = reviewerConfinementVersion,
      li_GateProtocol = False, li_SessionRequested = False, li_ChildPID = 0, li_Broker = None\<rparr>"

definition sameReviewerIdentity :: "reviewerLaunchIdentity \<Rightarrow> reviewerLaunchIdentity \<Rightarrow> bool" where
  "sameReviewerIdentity actual expected \<longleftrightarrow>
     actual\<lparr>li_ChildPID := 0, li_Broker := None\<rparr> = expected\<lparr>li_ChildPID := 0, li_Broker := None\<rparr>"

definition reviewIdentity :: "Env \<Rightarrow> string \<Rightarrow> int \<Rightarrow> int \<Rightarrow> string" where
  "reviewIdentity env repository issue attempt =
     path_join [v_SnapshotRoot env,
       RepositoryIdentifier (v_sha env) repository @ ''-'' @ itoa issue @ ''-'' @ itoa attempt]"

definition reviewRunIdentity :: "Env \<Rightarrow> string \<Rightarrow> int \<Rightarrow> int \<Rightarrow> string \<Rightarrow> string \<Rightarrow> string \<times> string" where
  "reviewRunIdentity env repository issue attempt target runID =
     (if \<not> validDigest runID then ([], [])
      else (reviewIdentity env repository issue attempt @ ''-target-'' @ take 48 (v_sha env target) @ ''-run-'' @ runID,
        case ReviewRunSessionName (v_sha env) repository issue attempt target runID of None \<Rightarrow> [] | Some s \<Rightarrow> s))"

definition reviewResultPath :: "Env \<Rightarrow> string \<Rightarrow> string \<Rightarrow> string" where
  "reviewResultPath env snapshot target =
     path_join [snapshot, ''.agent-symphony-review-'' @ take 16 (v_sha env target), ''result.json'']"

definition reviewerLifecyclePaths :: "Env \<Rightarrow> string \<Rightarrow> string \<Rightarrow> string \<times> string" where
  "reviewerLifecyclePaths env snapshot target =
     (let root = path_dir (reviewResultPath env snapshot target) in
      (path_join [root, ''launch.json''], path_join [root, ''terminal.json'']))"

definition reviewerBrokerPath :: "Env \<Rightarrow> string \<Rightarrow> string \<Rightarrow> string" where
  "reviewerBrokerPath env snapshot target = path_join [path_dir (reviewResultPath env snapshot target), ''broker.json'']"

definition reviewerSignal :: "reviewerLaunchIdentity \<Rightarrow> string" where
  "reviewerSignal i = ''review-'' @ li_EffectID i"

definition reviewerPaneStartMatches :: "string \<Rightarrow> string \<times> string \<Rightarrow> reviewerLaunchIdentity \<Rightarrow> bool" where
  "reviewerPaneStartMatches start paths i \<longleftrightarrow>
     contains_str start '' review-pane tmux '' \<and> contains_str start (fst paths) \<and> contains_str start (snd paths) \<and>
     contains_str start (reviewerSignal i) \<and> contains_str start (li_RequestDigest i)"

section \<open>Attempts prepared to replace another\<close>

definition preparing_after :: "runtimeOwnerState \<Rightarrow> reconciliationObservation \<Rightarrow> int \<Rightarrow> string \<Rightarrow> runtimeAttemptRecord \<Rightarrow> bool" where
  "preparing_after state ob proposed k r \<longleftrightarrow>
     (let m = a_Manifest r in
      m_Repository m = fi_Repository (ob_Fact ob) \<and> m_Issue m = fi_Issue (ob_Fact ob) \<and> proposed < m_Attempt m \<and>
      m_State m = ''preparing'' \<and> a_Generation r = fm_get (s_AttemptGenerations state) k 0 \<and>
      \<not> fm_has (s_Tombstones state) k)"

fun scan_replacement :: "int \<Rightarrow> int list \<Rightarrow> int owner_result" where
  "scan_replacement replacement [] = Inr replacement"
| "scan_replacement replacement (a # rest) =
     (if replacement \<noteq> 0 \<and> replacement \<noteq> a then Inl StateConflict else scan_replacement a rest)"

definition currentPreparingReplacement ::
  "Env \<Rightarrow> runtimeOwnerState \<Rightarrow> reconciliationObservation \<Rightarrow> int \<Rightarrow> int owner_result" where
  "currentPreparingReplacement env state ob proposed =
     scan_replacement 0 (map (\<lambda>(_, r). m_Attempt (a_Manifest r))
       (filter (\<lambda>(k, r). preparing_after state ob proposed k r) (fm_entries (v_order env) (s_Attempts state))))"

definition reconciliationObservationHasActiveBinding :: "reconciliationObservation \<Rightarrow> bool" where
  "reconciliationObservationHasActiveBinding ob \<longleftrightarrow>
     fm_ex (\<lambda>_ a. ao_Present a \<and> (af_State (ao_Fact a) = ''active'' \<or> af_State (ao_Fact a) = ''review-ready''))
       (ob_Attempts ob)"

definition reconciliationBindMatchesObservation ::
  "Env \<Rightarrow> runtimeOwnerState \<Rightarrow> reconciliationObservation \<Rightarrow> Manifest \<Rightarrow> bool owner_result" where
  "reconciliationBindMatchesObservation env state ob m =
     (if m_State m \<noteq> ''preparing'' \<or> \<not> fi_DispatchAuthorized (ob_Fact ob) \<or> fi_BaseSHA (ob_Fact ob) \<noteq> m_BaseSHA m
      then Inr False
      else if fi_Attempt (ob_Fact ob) = m_Attempt m then Inr True
      else err_bind (currentPreparingReplacement env state ob (fi_Attempt (ob_Fact ob)))
        (\<lambda>replacement. Inr (replacement = m_Attempt m \<and> \<not> reconciliationObservationHasActiveBinding ob)))"

section \<open>Bindings to the ledger\<close>

fun succeeds :: "'e + 'a \<Rightarrow> bool" where
  "succeeds (Inl e) = False"
| "succeeds (Inr x) = True"

text \<open>Times are nanoseconds since the zero time, \<^verbatim>\<open>UnixNano\<close> counts them from 1970 in 64 bits.\<close>

definition unix_nano :: "time \<Rightarrow> int" where
  "unix_nano t = sint (word_of_int (t - 62135596800000000000) :: 64 word)"

definition empty_observation :: reconciliationObservation where
  "empty_observation = \<lparr>ob_Present = False, ob_Generation = 0, ob_OwnerGeneration = 0, ob_ObservationEpoch = 0,
     ob_LastCycleID = 0, ob_InputDigest = [], ob_Fact = empty_issue_fact, ob_IssueUpdates = [], ob_Attempts = fmempty\<rparr>"

definition observation_for :: "runtimeOwnerState \<Rightarrow> string \<Rightarrow> int \<Rightarrow> reconciliationObservation" where
  "observation_for state repository issue = fm_get (s_Observations state) (ownerIssueKey repository issue) empty_observation"

definition reviewManifestMatches :: "Manifest \<Rightarrow> reviewerEffectRequest \<Rightarrow> bool" where
  "reviewManifestMatches m v \<longleftrightarrow>
     m_ReviewMode m = rv_Mode v \<and> m_ReviewTarget m = rv_Target v \<and> m_ReviewRunID m = rv_RunID v \<and>
     m_ReviewBase m = rv_BaseSHA v \<and> m_ReviewHead m = rv_HeadSHA v \<and> m_ReviewSnapshot m = rv_Snapshot v \<and>
     m_ReviewSession m = rv_Session v"

definition reviewerCleanupProved :: "runtimeOwnerState \<Rightarrow> string \<Rightarrow> int \<Rightarrow> int \<Rightarrow> string \<Rightarrow> string \<Rightarrow> string \<Rightarrow> bool" where
  "reviewerCleanupProved state repository issue attempt mode target runID \<longleftrightarrow>
     (case fmlookup (s_ReviewerProofs state) (reviewerProofKey repository issue attempt mode target) of
        None \<Rightarrow> False
      | Some p \<Rightarrow> p_RunID p = runID \<and> 0 < p_AttemptGeneration p \<and>
          p_AttemptGeneration p \<le> attemptGeneration state repository issue attempt \<and> reviewerCleanupAuthorized p)"

definition currentPRRecovery :: "runtimeOwnerState \<Rightarrow> reconciliationEffectRequest \<Rightarrow> runtimePRRecovery option" where
  "currentPRRecovery state q =
     (case fmlookup (s_Recoveries state) (ownerAttemptKey (rq_Repository q) (rq_Issue q) (rq_Attempt q)) of
        None \<Rightarrow> None
      | Some r \<Rightarrow>
          if rr_IssueGeneration r = issueGeneration state (rq_Repository q) (rq_Issue q) \<and>
            rr_AttemptGeneration r = attemptGeneration state (rq_Repository q) (rq_Issue q) (rq_Attempt q)
          then Some r else None)"

definition machine_status_bound :: "runtimeOwnerState \<Rightarrow> reconciliationEffectRequest \<Rightarrow> githubIssueUpdateEffectRequest \<Rightarrow> bool" where
  "machine_status_bound state q u \<longleftrightarrow>
     (case fmlookup (s_MachineStatuses state) (ownerIssueKey (rq_Repository q) (rq_Issue q)) of
        None \<Rightarrow> False
      | Some st \<Rightarrow>
          ms_IssueGeneration st = issueGeneration state (rq_Repository q) (rq_Issue q) \<and>
          ms_Sequence st = gu_StatusSequence u \<and> ms_Attempt st = gu_AttributionAttempt u \<and>
          ms_Status st = gu_Status u \<and> ms_Reason st = gu_StatusReason u \<and> ms_Source st = gu_StatusSource u \<and>
          ms_SourceSequence st = gu_StatusSourceSequence u)"

definition issue_bound :: "Env \<Rightarrow> runtimeOwnerState \<Rightarrow> reconciliationEffectRequest \<Rightarrow> githubIssueUpdateEffectRequest \<Rightarrow> bool" where
  "issue_bound env state q u \<longleftrightarrow>
     (let k = ownerIssueKey (rq_Repository q) (rq_Issue q);
          current = controlGeneration state k in
      if gu_Kind u = githubIssueMachineStatus then machine_status_bound state q u
      else if rq_ControlGeneration q \<noteq> 0 \<and> rq_ControlGeneration q \<noteq> current \<or>
        rq_ControlGeneration q = 0 \<and> current \<noteq> 1 then False
      else if rq_ControlRepair q then
        (case fmlookup (s_ControlRepairs state) k of
           None \<Rightarrow> False
         | Some r \<Rightarrow> sr_Generation r = rq_ControlGeneration q \<and> sr_Body r = gu_ControlSnapshotBody u \<and>
             digestText env (sr_Body r) = gu_ControlSnapshotDigest u)
      else
        \<lparr>up_Repository = rq_Repository q, up_Issue = rq_Issue q, up_Kind = gu_Kind u,
         up_ControlSnapshotDigest = gu_ControlSnapshotDigest u, up_AttributionAttempt = gu_AttributionAttempt u,
         up_Dependency = gu_Dependency u, up_PullRequest = gu_PullRequest u\<rparr>
        \<in> set (ob_IssueUpdates (observation_for state (rq_Repository q) (rq_Issue q))))"

definition publish_bound ::
  "Env \<Rightarrow> runtimeOwnerState \<Rightarrow> reconciliationEffectRequest \<Rightarrow> Manifest \<Rightarrow> githubPublishEffectRequest \<Rightarrow> bool" where
  "publish_bound env state q m g \<longleftrightarrow>
     (let fact = ob_Fact (observation_for state (rq_Repository q) (rq_Issue q)) in
      m_State m = ''completed'' \<and> m_ReviewState m = ''clean'' \<and> m_ReviewMode m = ReviewModeImplementation \<and>
      m_ReviewHead m = gq_HeadSHA g \<and> m_ReviewBase m \<noteq> [] \<and>
      m_ReviewTarget m = m_ReviewBase m @ ''..'' @ gq_HeadSHA g \<and> gq_Title g = fi_Title fact \<and>
      gq_BaseBranch g = fi_BaseBranch fact \<and>
      (case gq_Prepared g of
         None \<Rightarrow> True
       | Some p \<Rightarrow>
           (case currentPRRecovery state q of
              None \<Rightarrow> False
            | Some r \<Rightarrow>
                rh_PR (pp_Handoff p) = pr_Number (rr_State r) \<and> rh_HeadSHA (pp_Handoff p) = pr_HeadSHA (rr_State r) \<and>
                pp_HeadSHA p = gq_HeadSHA g \<and> succeeds (PreparePublicationState (v_sha env) (rr_State r) p))))"

definition governance_bound ::
  "runtimeOwnerState \<Rightarrow> reconciliationEffectRequest \<Rightarrow> Manifest \<Rightarrow> reconciliationAttemptFact option \<Rightarrow>
   githubGovernanceEffectRequest \<Rightarrow> bool" where
  "governance_bound state q m observed g \<longleftrightarrow>
     (case (observed, currentPRRecovery state q) of
        (Some f, Some r) \<Rightarrow>
          (af_State f = ''active'' \<or> af_State f = ''review-ready'') \<and> af_PublicationConfirmed f \<and>
          af_BaseSHA f = m_BaseSHA m \<and> af_PR f = gg_PR g \<and> af_HeadSHA f = gg_HeadSHA g \<and>
          pr_Number (rr_State r) = af_PR f \<and> pr_HeadSHA (rr_State r) = af_HeadSHA f
      | _ \<Rightarrow> False)"

definition review_target_bound ::
  "runtimeOwnerState \<Rightarrow> reconciliationEffectRequest \<Rightarrow> Manifest \<Rightarrow> reconciliationAttemptFact option \<Rightarrow>
   reviewerEffectRequest \<Rightarrow> bool" where
  "review_target_bound state q m observed v \<longleftrightarrow>
     (let fact = ob_Fact (observation_for state (rq_Repository q) (rq_Issue q)) in
      if rv_Mode v = ReviewModePlan then
        m_State m \<in> set [''running'', ''completed''] \<and> fi_DispatchAuthorized fact \<and>
        rv_Target v = rq_Repository q @ ''#'' @ itoa (rq_Issue q) @ '' plan sha256:'' @ rq_BodyDigest q \<and>
        rv_BaseSHA v = m_BaseSHA m \<and> rv_HeadSHA v = m_BaseSHA m \<and>
        (case observed of
           None \<Rightarrow> False
         | Some f \<Rightarrow> af_BaseSHA f = m_BaseSHA m \<and> (af_State f = ''active'' \<or> af_State f = ''review-ready''))
      else m_State m = ''completed'' \<and> rv_Target v = rv_BaseSHA v @ ''..'' @ rv_HeadSHA v \<and>
        rv_BaseSHA v = fi_BaseSHA fact)"

definition review_state_bound :: "Manifest \<Rightarrow> reviewerEffectRequest \<Rightarrow> bool" where
  "review_state_bound m v \<longleftrightarrow>
     (let detached = (m_ReviewSnapshot m = [] \<and> m_ReviewSession m = []) in
      if m_ReviewState m = [] then True
      else if m_ReviewState m = ''failed'' then
        detached \<and> (rv_Mode v = ReviewModePlan \<or>
          rv_Mode v = ReviewModeImplementation \<and>
            (m_ReviewHead m \<noteq> rv_HeadSHA v \<or> m_ReviewInvalidated m \<and> m_ReviewMode m = ReviewModeImplementation))
      else if m_ReviewState m = ''preparing'' \<or> m_ReviewState m = ''running'' then reviewManifestMatches m v
      else if m_ReviewState m = ''findings-queued'' then
        m_ReviewHandoffAck m \<and> detached \<and> m_ReviewHead m \<noteq> rv_HeadSHA v
      else if m_ReviewState m = ''clean'' then
        detached \<and> rv_Mode v = ReviewModeImplementation \<and>
        (m_ReviewMode m = ReviewModePlan \<or> m_ReviewMode m = ReviewModeImplementation) \<and>
        m_ReviewHead m \<noteq> rv_HeadSHA v \<and> rv_HeadSHA v \<noteq> m_BaseSHA m
      else False)"

definition reviewer_bound ::
  "Env \<Rightarrow> runtimeOwnerState \<Rightarrow> reconciliationEffectRequest \<Rightarrow> Manifest \<Rightarrow> reconciliationAttemptFact option \<Rightarrow>
   reviewerEffectRequest \<Rightarrow> bool" where
  "reviewer_bound env state q m observed v \<longleftrightarrow>
     (if (rv_Snapshot v, rv_Session v) \<noteq>
        reviewRunIdentity env (rq_Repository q) (rq_Issue q) (rq_Attempt q) (rv_Target v) (rv_RunID v) then False
      else if rv_Phase v = ''cleanup'' then
        m_ReviewState m \<in> set [''clean'', ''findings-queued'', ''failed''] \<and> reviewManifestMatches m v \<and>
        reviewerCleanupProved state (rq_Repository q) (rq_Issue q) (rq_Attempt q) (rv_Mode v) (rv_Target v) (rv_RunID v)
      else review_target_bound state q m observed v \<and> review_state_bound m v)"

definition handoff_current ::
  "Env \<Rightarrow> runtimeOwnerState \<Rightarrow> reconciliationEffectRequest \<Rightarrow> Manifest \<Rightarrow> reconciliationAttemptFact option \<Rightarrow>
   handoffEffectRequest \<Rightarrow> bool" where
  "handoff_current env state q m observed h \<longleftrightarrow>
     (if hf_Kind h = ''review-findings'' then
        m_ReviewState m = ''findings-queued'' \<and> m_ReviewHead m = hf_HeadSHA h \<and> m_ReviewFindings m = hf_Findings h \<and>
        \<not> m_ReviewHandoffAck m
      else
        (case (observed, currentPRRecovery state q, hf_Recovery h) of
           (Some f, Some r, Some wanted) \<Rightarrow>
             if af_PR f \<noteq> rh_PR wanted \<or> af_HeadSHA f \<noteq> rh_HeadSHA wanted \<or> pr_Number (rr_State r) \<noteq> af_PR f \<or>
               pr_HeadSHA (rr_State r) \<noteq> af_HeadSHA f then False
             else (case hf_Outcome h of
                 None \<Rightarrow>
                   (case ClaimHandoffState (v_sha env) (rr_State r) of
                      Inl e \<Rightarrow> False | Inr (s, handoff, runnable) \<Rightarrow> runnable \<and> handoff = wanted)
               | Some x \<Rightarrow>
                   receipted (rr_State r) (hf_Key h) \<and> RecoveryHandoffCurrent (v_sha env) (rr_State r) wanted \<and>
                   succeeds (ApplyHandoffOutcome (v_sha env) (rr_State r) wanted x))
         | _ \<Rightarrow> False))"

definition retire_bound ::
  "runtimeOwnerState \<Rightarrow> reconciliationEffectRequest \<Rightarrow> Manifest \<Rightarrow> reconciliationAttemptFact option \<Rightarrow>
   retireCompletedEffectRequest \<Rightarrow> bool" where
  "retire_bound state q m observed t \<longleftrightarrow>
     (case observed of
        None \<Rightarrow> False
      | Some f \<Rightarrow>
          af_State f = ''completed'' \<and> 0 < af_PR f \<and> af_BaseSHA f = m_BaseSHA m \<and> af_HeadSHA f = rc_HeadSHA t \<and>
          m_ReviewHead m = af_HeadSHA f \<and> m_ReviewSnapshot m = [] \<and> m_ReviewSession m = [] \<and>
          \<not> attemptHasReviewerProof state (rq_Repository q) (rq_Issue q) (rq_Attempt q) \<and> rc_Mode t = retire_mode m)"

definition update_bound ::
  "runtimeOwnerState \<Rightarrow> reconciliationEffectRequest \<Rightarrow> Manifest \<Rightarrow> reconciliationAttemptFact option \<Rightarrow>
   githubIssueUpdateEffectRequest \<Rightarrow> bool" where
  "update_bound state q m observed u \<longleftrightarrow>
     (let fact = ob_Fact (observation_for state (rq_Repository q) (rq_Issue q)) in
      if gu_Kind u = githubIssueEvidence then
        (case observed of
           None \<Rightarrow> False
         | Some f \<Rightarrow> 0 < af_PR f \<and> af_HeadSHA f = gu_HeadSHA u \<and> m_State m = ''completed'' \<and>
             m_ReviewHead m = af_HeadSHA f)
      else if gu_Kind u = githubIssueFindings then
        m_ReviewState m = ''findings-queued'' \<and> m_ReviewHead m = gu_HeadSHA u \<and> m_ReviewFindings m = gu_Findings u \<and>
        \<not> m_ReviewHandoffQueued m \<and> \<not> m_ReviewHandoffAck m
      else if gu_Kind u = githubIssueTerminalFailure \<or> gu_Kind u = githubIssueRetry then
        (m_State m = ''failed'' \<or> m_State m = ''cancelled'') \<and> gu_FailedAtUnixNano u = unix_nano (m_UpdatedAt m) \<and>
        (fi_Attempt fact = rq_Attempt q \<or> fi_CurrentAttempt fact = rq_Attempt q)
      else if gu_Kind u = githubIssueDependencyClear then
        gu_Dependency u \<in> set (fi_Dependencies fact) \<and> gu_Dependency u \<in> set (fi_SatisfiedDependencies fact)
      else gu_Kind u \<noteq> githubIssueMachineStatus)"

definition attempt_bound ::
  "Env \<Rightarrow> runtimeOwnerState \<Rightarrow> reconciliationEffectRequest \<Rightarrow> Manifest \<Rightarrow> reconciliationAttemptFact option \<Rightarrow> bool" where
  "attempt_bound env state q m observed \<longleftrightarrow>
     (let ob = observation_for state (rq_Repository q) (rq_Issue q) in
      if rq_Action q = reconciliationGitHubBind then reconciliationBindMatchesObservation env state ob m = Inr True
      else if rq_Action q = reconciliationGitHubPublish then
        (case rq_GitHubPublish q of None \<Rightarrow> False | Some g \<Rightarrow> publish_bound env state q m g)
      else if rq_Action q = reconciliationGitHubPRGovernance then
        (case rq_GitHubPRGovernance q of None \<Rightarrow> False | Some g \<Rightarrow> governance_bound state q m observed g)
      else if rq_Action q = reconciliationReviewer then
        (case rq_Reviewer q of None \<Rightarrow> False | Some v \<Rightarrow> reviewer_bound env state q m observed v)
      else if rq_Action q = reconciliationMonitoringCheckIn then
        m_State m = ''running'' \<and> fi_DispatchAuthorized (ob_Fact ob) \<and> fi_NeedsAttention (ob_Fact ob) \<and>
        (case observed of
           None \<Rightarrow> False
         | Some f \<Rightarrow> (af_State f = ''active'' \<or> af_State f = ''review-ready'') \<and> af_BaseSHA f = m_BaseSHA m)
      else if rq_Action q = reconciliationHandoffDeliver then
        (case rq_Handoff q of None \<Rightarrow> False | Some h \<Rightarrow> handoff_current env state q m observed h)
      else if rq_Action q = reconciliationRetireCompleted then
        (case rq_Retire q of None \<Rightarrow> False | Some t \<Rightarrow> retire_bound state q m observed t)
      else if rq_Action q = reconciliationGitHubIssueUpdate then
        (case rq_GitHubIssueUpdate q of None \<Rightarrow> False | Some u \<Rightarrow> update_bound state q m observed u)
      else True)"

definition validReconciliationEffectStateBindings :: "Env \<Rightarrow> runtimeOwnerState \<Rightarrow> reconciliationEffectRequest \<Rightarrow> bool" where
  "validReconciliationEffectStateBindings env state q \<longleftrightarrow>
     (if \<not> validReconciliationEffectBindings env q then False
      else if rq_Attempt q = 0 then
        rq_Action q = reconciliationGitHubIssueUpdate \<and>
        (case rq_GitHubIssueUpdate q of None \<Rightarrow> False | Some u \<Rightarrow> issue_bound env state q u)
      else (case (fmlookup (s_Attempts state) (ownerAttemptKey (rq_Repository q) (rq_Issue q) (rq_Attempt q)),
            rq_Manifest q) of
          (Some r, Some planned) \<Rightarrow>
            sameReconciliationManifest q (a_Manifest r) planned \<and>
            attempt_bound env state q (a_Manifest r)
              (observedReconciliationAttempt (observation_for state (rq_Repository q) (rq_Issue q)) (rq_Attempt q))
        | _ \<Rightarrow> False))"

section \<open>Currency of an effect\<close>

definition reviewer_forbids :: "Env \<Rightarrow> runtimeOwnerState \<Rightarrow> reconciliationEffectRequest \<Rightarrow> string \<Rightarrow> int \<Rightarrow> bool" where
  "reviewer_forbids env state q repository issue \<longleftrightarrow>
     \<not> machineStatusRequest q \<and> reconciliationMutatesGitHub (rq_Action q) \<and>
     (issueHasUnconfinedReviewer env state repository issue \<or> issueHasPendingReviewer state repository issue)"

definition attempt_still_current :: "runtimeOwnerState \<Rightarrow> reconciliationEffectRequest \<Rightarrow> runtimeEffectIntent \<Rightarrow> unit owner_result" where
  "attempt_still_current state q e =
     (if rq_Attempt q = 0 then Inr ()
      else if attemptGeneration state (e_Repository e) (e_Issue e) (e_Attempt e) \<noteq> e_AttemptGeneration e
      then Inl StaleStateResult
      else if fm_has (s_Tombstones state) (ownerAttemptKey (e_Repository e) (e_Issue e) (e_Attempt e))
      then Inl AttemptTombstoned else Inr ())"

definition v1_review :: "reconciliationEffectRequest \<Rightarrow> bool" where
  "v1_review q \<longleftrightarrow>
     rq_Action q = reconciliationReviewer \<and>
     (case rq_Reviewer q of None \<Rightarrow> False | Some v \<Rightarrow> rv_DigestVersion v = 1)"

definition observation_stale :: "runtimeOwnerState \<Rightarrow> reconciliationEffectRequest \<Rightarrow> runtimeEffectIntent \<Rightarrow> bool" where
  "observation_stale state q e \<longleftrightarrow>
     (let compatible = v1_review q \<and> reconciliationFinishObservationMatches state q in
      v1_review q \<and> \<not> compatible \<or>
      \<not> machineStatusRequest q \<and> \<not> reconciliationObservationCurrent state q \<and> \<not> compatible \<or>
      compatible \<and> ob_ObservationEpoch (observation_for state (e_Repository e) (e_Issue e)) \<noteq> s_Epoch state)"

definition reconciliationEffectCurrent :: "Env \<Rightarrow> runtimeOwnerState \<Rightarrow> runtimeEffectIntent \<Rightarrow> unit owner_result" where
  "reconciliationEffectCurrent env state e =
     (case e_Reconciliation e of
        None \<Rightarrow> Inl StaleStateResult
      | Some q \<Rightarrow>
          if reviewer_forbids env state q (e_Repository e) (e_Issue e) then Inl StateConflict
          else if e_ReviewerRevoked e \<or> issueGeneration state (e_Repository e) (e_Issue e) \<noteq> e_IssueGeneration e \<or>
            \<not> validReconciliationEffectStateBindings env state q then Inl StaleStateResult
          else if \<not> machineStatusRequest q \<and>
            implementationLeaseBlocksGitHub env state (rq_Action q) (e_Repository e) (e_Issue e) then Inl StateConflict
          else if observation_stale state q e then Inl StaleStateResult
          else attempt_still_current state q e)"

definition reconciliationEffectFinishCurrent :: "Env \<Rightarrow> runtimeOwnerState \<Rightarrow> runtimeEffectIntent \<Rightarrow> unit owner_result" where
  "reconciliationEffectFinishCurrent env state e =
     (case e_Reconciliation e of
        None \<Rightarrow> Inl StaleStateResult
      | Some q \<Rightarrow>
          if reviewer_forbids env state q (e_Repository e) (e_Issue e) then Inl StateConflict
          else if e_ReviewerRevoked e \<or> issueGeneration state (e_Repository e) (e_Issue e) \<noteq> e_IssueGeneration e \<or>
            \<not> machineStatusRequest q \<and> \<not> reconciliationFinishObservationMatches state q \<or>
            \<not> validReconciliationEffectStateBindings env state q then Inl StaleStateResult
          else if \<not> machineStatusRequest q \<and>
            implementationLeaseBlocksGitHub env state (rq_Action q) (e_Repository e) (e_Issue e) then Inl StateConflict
          else attempt_still_current state q e)"

section \<open>Beginning an effect\<close>

record beginReconciliationEffectCommand =
  bc_Identity :: "stateResultIdentity"
  bc_ReviewerSourceRevision :: "uint64"
  bc_Request :: "reconciliationEffectRequest"

definition pruneCompletedIssueScopedEffects :: "runtimeOwnerState \<Rightarrow> string \<Rightarrow> int \<Rightarrow> runtimeOwnerState" where
  "pruneCompletedIssueScopedEffects state repository issue =
     state\<lparr>s_Effects := fm_keep (\<lambda>_ e. \<not> (e_of_attempt e repository issue 0 \<and> e_State e = ''completed''))
       (s_Effects state)\<rparr>"

text \<open>A review run is named after the revision that will commit it.\<close>

definition review_run_refused ::
  "Env \<Rightarrow> runtimeOwnerState \<Rightarrow> stateResultIdentity \<Rightarrow> uint64 \<Rightarrow> reconciliationEffectRequest \<Rightarrow> reviewerEffectRequest \<Rightarrow>
   owner_error option" where
  "review_run_refused env state i given q v =
     (let source = (if given = 0 then s_Revision state + 1 else given) in
      if s_Revision state = uint64_max then Some (OtherError ''runtime revision overflow'')
      else if source \<noteq> s_Revision state + 1 \<or> \<not> validDigest (rv_RunID v) \<or>
        rv_Phase v = ''run-observe'' \<and>
          rv_RunID v \<noteq> reviewerRunID env (id_Epoch i) source (id_IssueGeneration i) (id_AttemptGeneration i)
            (rq_Repository q) (rq_Issue q) (rq_Attempt q) (rv_Mode v) (rv_Target v)
      then Some StateConflict
      else if rv_Phase v = ''cleanup'' \<and>
        (case rq_Manifest q of None \<Rightarrow> True | Some m \<Rightarrow> rv_RunID v \<noteq> m_ReviewRunID m)
      then Some StateConflict
      else None)"

definition mutation_pending :: "runtimeOwnerState \<Rightarrow> string \<Rightarrow> int \<Rightarrow> bool" where
  "mutation_pending state repository issue \<longleftrightarrow>
     fm_ex (\<lambda>_ e. e_Repository e = repository \<and> e_Issue e = issue \<and> e_State e = ''pending'' \<and>
       (case e_Reconciliation e of None \<Rightarrow> False | Some q \<Rightarrow> reconciliationMutatesGitHub (rq_Action q)))
       (s_Effects state)"

definition begin_identity_refused ::
  "Env \<Rightarrow> runtimeOwnerState \<Rightarrow> stateResultIdentity \<Rightarrow> reconciliationEffectRequest \<Rightarrow> owner_error option" where
  "begin_identity_refused env state i q =
     (if id_Epoch i \<noteq> s_Epoch state \<or> id_SourceRevision i = 0 \<or> s_Revision state < id_SourceRevision i \<or>
        id_EffectID i \<noteq> [] \<or> \<not> validReconciliationEffectRequest env (s_Repository state) q
      then Some StaleStateResult
      else if issueGeneration state (rq_Repository q) (rq_Issue q) \<noteq> id_IssueGeneration i then Some StaleStateResult
      else None)"

definition begin_admission_refused ::
  "Env \<Rightarrow> runtimeOwnerState \<Rightarrow> reconciliationEffectRequest \<Rightarrow> owner_error option" where
  "begin_admission_refused env state q =
     (let repository = rq_Repository q; issue = rq_Issue q in
      if \<not> machineStatusRequest q \<and>
        (implementationLeaseBlocksGitHub env state (rq_Action q) repository issue \<or>
         reconciliationMutatesGitHub (rq_Action q) \<and>
           (issueHasUnconfinedReviewer env state repository issue \<or> issueHasPendingReviewer state repository issue))
      then Some StateConflict
      else if rq_Action q = reconciliationReviewer \<and>
        (reviewerAdmissionBlocked env state q \<or> mutation_pending state repository issue)
      then Some StateConflict
      else if \<not> machineStatusRequest q \<and>
        (\<not> reconciliationObservationCurrent state q \<or>
         ob_LastCycleID (observation_for state repository issue) \<noteq> rq_ObservationCycleID q) \<or>
        \<not> validReconciliationEffectStateBindings env state q
      then Some StaleStateResult
      else None)"

definition begin_manifest_refused ::
  "Env \<Rightarrow> runtimeOwnerState \<Rightarrow> stateResultIdentity \<Rightarrow> reconciliationEffectRequest \<Rightarrow> owner_error option" where
  "begin_manifest_refused env state i q =
     (let k = ownerAttemptKey (rq_Repository q) (rq_Issue q) (rq_Attempt q) in
      case rq_Manifest q of
        None \<Rightarrow> if id_AttemptGeneration i \<noteq> 0 then Some StaleStateResult else None
      | Some m \<Rightarrow>
          if \<not> validateOwnerManifest env (s_Repository state) m \<or> m_Repository m \<noteq> rq_Repository q \<or>
            m_Issue m \<noteq> rq_Issue q \<or> m_Attempt m \<noteq> rq_Attempt q then Some StateConflict
          else if fm_get (s_AttemptGenerations state) k 0 \<noteq> id_AttemptGeneration i \<or> id_AttemptGeneration i = 0
          then Some StaleStateResult
          else if fm_has (s_Tombstones state) k then Some AttemptTombstoned
          else (case fmlookup (s_Attempts state) k of
              None \<Rightarrow> Some StaleStateResult
            | Some r \<Rightarrow>
                if a_StopEffectID r \<noteq> [] \<or> a_Generation r \<noteq> id_AttemptGeneration i \<or>
                  \<not> sameReconciliationManifest q (a_Manifest r) m
                then Some StaleStateResult else None))"

definition begin_refused ::
  "Env \<Rightarrow> runtimeOwnerState \<Rightarrow> beginReconciliationEffectCommand \<Rightarrow> owner_error option" where
  "begin_refused env state c =
     (let i = bc_Identity c; q = bc_Request c in
      case begin_identity_refused env state i q of
        Some x \<Rightarrow> Some x
      | None \<Rightarrow>
          (case (case rq_Reviewer q of
               None \<Rightarrow> None | Some v \<Rightarrow> review_run_refused env state i (bc_ReviewerSourceRevision c) q v) of
             Some x \<Rightarrow> Some x
           | None \<Rightarrow>
               (case begin_admission_refused env state q of
                  Some x \<Rightarrow> Some x
                | None \<Rightarrow> begin_manifest_refused env state i q)))"

definition samePendingRetryEffect ::
  "runtimeEffectIntent \<Rightarrow> reconciliationEffectRequest \<Rightarrow> uint64 \<Rightarrow> uint64 \<Rightarrow> bool" where
  "samePendingRetryEffect e q issueGen attemptGen \<longleftrightarrow>
     e_State e = ''pending'' \<and> e_Action e = reconciliationGitHubIssueUpdate \<and>
     rq_Action q = reconciliationGitHubIssueUpdate \<and> e_of_attempt e (rq_Repository q) (rq_Issue q) (rq_Attempt q) \<and>
     e_IssueGeneration e = issueGen \<and> e_AttemptGeneration e = attemptGen \<and>
     (case e_Reconciliation e of
        None \<Rightarrow> False
      | Some p \<Rightarrow>
          (case (rq_GitHubIssueUpdate p, rq_GitHubIssueUpdate q) of
             (Some u, Some w) \<Rightarrow>
               gu_Kind u = githubIssueRetry \<and> gu_Kind w = githubIssueRetry \<and> rq_Manifest p = rq_Manifest q \<and>
               gu_FailedAtUnixNano u = gu_FailedAtUnixNano w \<and> rq_BodyDigest p = rq_BodyDigest q \<and>
               rq_ExecutionDigest p = rq_ExecutionDigest q
           | _ \<Rightarrow> False))"

text \<open>The effects that already wait for the attempt: a plan review replaces a monitor, the same request
  is returned again, anything else refuses.\<close>

definition replaces_monitor :: "runtimeEffectIntent \<Rightarrow> reconciliationEffectRequest \<Rightarrow> bool" where
  "replaces_monitor e q \<longleftrightarrow>
     e_Action e = EffectMonitor \<and> rq_Action q = reconciliationReviewer \<and>
     (case rq_Reviewer q of None \<Rightarrow> False | Some v \<Rightarrow> rv_Mode v = ReviewModePlan)"

definition same_begun :: "Env \<Rightarrow> runtimeEffectIntent \<Rightarrow> reconciliationEffectRequest \<Rightarrow> uint64 \<Rightarrow> uint64 \<Rightarrow> bool" where
  "same_begun env e q issueGen attemptGen \<longleftrightarrow>
     e_Action e = rq_Action q \<and> e_RequestDigest e = reconciliationEffectDigest env q \<and>
     e_IssueGeneration e = issueGen \<and> e_AttemptGeneration e = attemptGen \<or>
     samePendingRetryEffect e q issueGen attemptGen"

fun scan_pending ::
  "Env \<Rightarrow> stateResultIdentity \<Rightarrow> reconciliationEffectRequest \<Rightarrow> uint64 \<Rightarrow> runtimeEffectIntent list \<Rightarrow> runtimeOwnerState \<Rightarrow>
   (runtimeOwnerState \<times> runtimeEffectIntent option) owner_result" where
  "scan_pending env i q attemptGen [] state = Inr (state, None)"
| "scan_pending env i q attemptGen (e # es) state =
     (if \<not> e_of_attempt e (rq_Repository q) (rq_Issue q) (rq_Attempt q) \<or> e_State e \<noteq> ''pending''
      then scan_pending env i q attemptGen es state
      else if replaces_monitor e q then
        if id_SourceRevision i \<noteq> s_Revision state \<or> e_IssueGeneration e \<noteq> id_IssueGeneration i \<or>
          e_AttemptGeneration e \<noteq> attemptGen then Inl StaleStateResult
        else scan_pending env i q attemptGen es (state\<lparr>s_Effects := fmdrop (e_ID e) (s_Effects state)\<rparr>)
      else if same_begun env e q (id_IssueGeneration i) attemptGen then Inr (state, Some e)
      else Inl StateConflict)"

definition with_recovery :: "runtimeOwnerState \<Rightarrow> string \<Rightarrow> runtimePRRecovery \<Rightarrow> runtimeOwnerState" where
  "with_recovery state k r = state\<lparr>s_Recoveries := fmupd k r (s_Recoveries state)\<rparr>"

definition claim_handoff_effect :: "Env \<Rightarrow> runtimeOwnerState \<Rightarrow> string \<Rightarrow> handoffEffectRequest \<Rightarrow> runtimeOwnerState owner_result" where
  "claim_handoff_effect env state k h =
     (case fmlookup (s_Recoveries state) k of
        None \<Rightarrow> Inl StaleStateResult
      | Some r \<Rightarrow>
          (case ClaimHandoffState (v_sha env) (rr_State r) of
             Inl e \<Rightarrow> Inl StateConflict
           | Inr (s, handoff, runnable) \<Rightarrow>
               if \<not> runnable \<or> Some handoff \<noteq> hf_Recovery h then Inl StateConflict
               else Inr (with_recovery state k (r\<lparr>rr_State := s\<rparr>))))"

definition prepare_publication_effect :: "Env \<Rightarrow> runtimeOwnerState \<Rightarrow> string \<Rightarrow> PreparedPublication \<Rightarrow> runtimeOwnerState owner_result" where
  "prepare_publication_effect env state k p =
     (case fmlookup (s_Recoveries state) k of
        None \<Rightarrow> Inl StateConflict
      | Some r \<Rightarrow>
          (case PreparePublicationState (v_sha env) (rr_State r) p of
             Inl e \<Rightarrow> Inl StateConflict
           | Inr s \<Rightarrow> Inr (with_recovery state k (r\<lparr>rr_State := s\<rparr>))))"

definition applyReconciliationBeginTransition ::
  "Env \<Rightarrow> runtimeOwnerState \<Rightarrow> reconciliationEffectRequest \<Rightarrow> runtimeOwnerState owner_result" where
  "applyReconciliationBeginTransition env state q =
     (let k = ownerAttemptKey (rq_Repository q) (rq_Issue q) (rq_Attempt q) in
      if rq_Attempt q = 0 then Inr state
      else if rq_Action q = reconciliationHandoffDeliver then
        (case rq_Handoff q of
           None \<Rightarrow> Inl StateConflict
         | Some h \<Rightarrow>
             if hf_Kind h = ''recovery'' \<and> hf_Outcome h = None then claim_handoff_effect env state k h else Inr state)
      else if rq_Action q = reconciliationGitHubPublish then
        (case rq_GitHubPublish q of
           None \<Rightarrow> Inl StateConflict
         | Some g \<Rightarrow>
             (case gq_Prepared g of None \<Rightarrow> Inr state | Some p \<Rightarrow> prepare_publication_effect env state k p))
      else Inr state)"

definition begun_reconciliation ::
  "Env \<Rightarrow> runtimeOwnerState \<Rightarrow> stateResultIdentity \<Rightarrow> reconciliationEffectRequest \<Rightarrow> uint64 \<Rightarrow> runtimeEffectIntent" where
  "begun_reconciliation env state i q attemptGen =
     (let gate = (rq_Action q = reconciliationReviewer \<and>
            (case rq_Reviewer q of None \<Rightarrow> False | Some v \<Rightarrow> rv_Phase v = ''run-observe''));
          e = empty_effect\<lparr>e_Action := rq_Action q, e_Repository := rq_Repository q, e_Issue := rq_Issue q,
            e_Attempt := rq_Attempt q, e_IssueGeneration := id_IssueGeneration i, e_AttemptGeneration := attemptGen,
            e_IntentEpoch := s_Epoch state, e_State := ''pending'',
            e_RequestDigest := reconciliationEffectDigest env q, e_Reconciliation := Some q,
            e_ReviewerGateProtocol := gate\<rparr> in
      if gate then e\<lparr>e_ReviewerSourceRevision := s_Revision state + 1,
        e_ReviewerProfileDigest := activeWorkerProfileDigest env state,
        e_ReviewerConfinementVersion := reviewerConfinementVersion\<rparr>
      else e)"

definition applyBeginReconciliationEffect ::
  "Env \<Rightarrow> runtimeOwnerState \<Rightarrow> beginReconciliationEffectCommand \<Rightarrow> (runtimeOwnerState \<times> runtimeEffectIntent) owner_result" where
  "applyBeginReconciliationEffect env state c =
     (let i = bc_Identity c; q = bc_Request c;
          attemptGen = (if rq_Manifest q = None then 0 else id_AttemptGeneration i) in
      case begin_refused env state c of
        Some x \<Rightarrow> Inl x
      | None \<Rightarrow>
          err_bind (scan_pending env i q attemptGen (map snd (fm_entries (v_order env) (s_Effects state))) state)
            (\<lambda>(s1, found).
              case found of
                Some e \<Rightarrow> Inr (s1, e)
              | None \<Rightarrow>
                  if id_SourceRevision i \<noteq> s_Revision state then Inl StaleStateResult
                  else
                    let s2 = (if 0 < rq_Attempt q
                          then pruneCompletedAttemptEffects s1 (rq_Repository q) (rq_Issue q) (rq_Attempt q)
                          else pruneCompletedIssueScopedEffects s1 (rq_Repository q) (rq_Issue q)) in
                    err_bind (applyReconciliationBeginTransition env s2 q)
                      (\<lambda>s3. Inr (s3, begun_reconciliation env s3 i q attemptGen))))"

section \<open>A pending effect\<close>

record authorizeReconciliationEffectCommand =
  ac_Identity :: "stateResultIdentity"
  ac_Action :: "string"

record mutateGovernancePhaseCommand =
  mg_Identity :: "stateResultIdentity"
  mg_Phase :: "GovernancePhase"
  mg_Complete :: "bool"

record mutatePRRecoveryCommand =
  mr_Identity :: "stateResultIdentity"
  mr_Kind :: "string"
  mr_State :: "PRState"
  mr_Feedback :: "Feedback"

definition with_effect :: "runtimeOwnerState \<Rightarrow> runtimeEffectIntent \<Rightarrow> runtimeOwnerState" where
  "with_effect state e = state\<lparr>s_Effects := fmupd (e_ID e) e (s_Effects state)\<rparr>"

text \<open>The pending reconciliation effect that an identity names, with its request.\<close>

definition pending_effect ::
  "runtimeOwnerState \<Rightarrow> stateResultIdentity \<Rightarrow> (runtimeEffectIntent \<times> reconciliationEffectRequest) option" where
  "pending_effect state i =
     (case fmlookup (s_Effects state) (id_EffectID i) of
        None \<Rightarrow> None
      | Some e \<Rightarrow>
          if e_State e \<noteq> ''pending'' \<or> \<not> reconciliationEffectIdentityMatches e i then None
          else (case e_Reconciliation e of None \<Rightarrow> None | Some q \<Rightarrow> Some (e, q)))"

definition applyAuthorizeReconciliationEffect ::
  "Env \<Rightarrow> runtimeOwnerState \<Rightarrow> authorizeReconciliationEffectCommand \<Rightarrow> runtimeOwnerState owner_result" where
  "applyAuthorizeReconciliationEffect env state c =
     (case pending_effect state (ac_Identity c) of
        None \<Rightarrow> Inl StaleStateResult
      | Some (e, q) \<Rightarrow>
          if e_Action e \<noteq> ac_Action c then Inl StaleStateResult
          else err_bind (reconciliationEffectCurrent env state e) (\<lambda>_.
            Inr (if reconciliationMutatesGitHub (rq_Action q) \<and> \<not> e_Dispatched e
              then with_effect state (e\<lparr>e_Dispatched := True\<rparr>) else state)))"

text \<open>The phases of a governance effect: admitted once, then completed.  \<open>None\<close> means not admitted yet.\<close>

fun advance_phase :: "GovernancePhase \<Rightarrow> bool \<Rightarrow> GovernancePhase list \<Rightarrow> GovernancePhase list option owner_result" where
  "advance_phase p complete [] = Inr None"
| "advance_phase p complete (g # gs) =
     (if gp_ID g \<noteq> gp_ID p then
        err_bind (advance_phase p complete gs)
          (\<lambda>r. Inr (case r of None \<Rightarrow> None | Some hs \<Rightarrow> Some (g # hs)))
      else if g \<noteq> p\<lparr>gp_State := gp_State g\<rparr> \<or> gp_State g \<noteq> ''admitted'' \<and> gp_State g \<noteq> ''completed''
      then Inl StateConflict
      else Inr (Some ((if complete then g\<lparr>gp_State := ''completed''\<rparr> else g) # gs)))"

definition applyMutateGovernancePhase ::
  "Env \<Rightarrow> runtimeOwnerState \<Rightarrow> mutateGovernancePhaseCommand \<Rightarrow> runtimeOwnerState owner_result" where
  "applyMutateGovernancePhase env state c =
     (case pending_effect state (mg_Identity c) of
        None \<Rightarrow> Inl StaleStateResult
      | Some (e, q) \<Rightarrow>
          if rq_Action q \<noteq> reconciliationGitHubPRGovernance \<or> \<not> validGovernancePhase env e (mg_Phase c)
          then Inl StaleStateResult
          else err_bind (reconciliationEffectCurrent env state e) (\<lambda>_.
            err_bind (advance_phase (mg_Phase c) (mg_Complete c) (e_GovernancePhases e)) (\<lambda>r.
              case r of
                Some ps \<Rightarrow> Inr (if mg_Complete c then with_effect state (e\<lparr>e_GovernancePhases := ps\<rparr>) else state)
              | None \<Rightarrow>
                  if mg_Complete c \<or> maxPRRecoveryEntries \<le> length (e_GovernancePhases e) then Inl StateConflict
                  else Inr (with_effect state (e\<lparr>e_Dispatched := True,
                    e_GovernancePhases := e_GovernancePhases e @ [(mg_Phase c)\<lparr>gp_State := ''admitted''\<rparr>]\<rparr>)))))"

definition samePRRecoveryAttempt :: "PRState \<Rightarrow> PRState \<Rightarrow> bool" where
  "samePRRecoveryAttempt l r \<longleftrightarrow>
     pr_Repository l = pr_Repository r \<and> pr_Number l = pr_Number r \<and> pr_Issue l = pr_Issue r \<and>
     pr_Attempt l = pr_Attempt r"

definition mutated_recovery :: "mutatePRRecoveryCommand \<Rightarrow> PRState \<Rightarrow> PRState owner_result" where
  "mutated_recovery c s =
     (if mr_Kind c = ''claim-feedback'' then
        (case ClaimFeedbackState s (mr_Feedback c) of
           Inl x \<Rightarrow> Inl StateConflict
         | Inr (s', claimed) \<Rightarrow>
             if claimed then Inr s' else Inl (OtherError ''PR feedback already claimed''))
      else if mr_Kind c = ''queue-validation'' then
        (case QueueValidationState s (pr_HeadSHA (mr_State c)) of Inl x \<Rightarrow> Inl StateConflict | Inr s' \<Rightarrow> Inr s')
      else Inl StateConflict)"

definition applyMutatePRRecovery ::
  "Env \<Rightarrow> runtimeOwnerState \<Rightarrow> mutatePRRecoveryCommand \<Rightarrow> runtimeOwnerState owner_result" where
  "applyMutatePRRecovery env state c =
     (case pending_effect state (mr_Identity c) of
        None \<Rightarrow> Inl StaleStateResult
      | Some (e, q) \<Rightarrow>
          if rq_Action q \<noteq> reconciliationGitHubPRGovernance then Inl StaleStateResult
          else err_bind (reconciliationEffectCurrent env state e) (\<lambda>_.
            case currentPRRecovery state q of
              None \<Rightarrow> Inl StaleStateResult
            | Some r \<Rightarrow>
                if \<not> samePRRecoveryAttempt (rr_State r) (mr_State c) \<or>
                  pr_HeadSHA (rr_State r) \<noteq> pr_HeadSHA (mr_State c) then Inl StaleStateResult
                else err_bind (mutated_recovery c (rr_State r)) (\<lambda>s.
                  Inr (with_recovery state (ownerAttemptKey (rq_Repository q) (rq_Issue q) (rq_Attempt q))
                    (r\<lparr>rr_State := s\<rparr>)))))"

definition applyMarkReviewerSessionRequested ::
  "Env \<Rightarrow> runtimeOwnerState \<Rightarrow> markReviewerSessionRequestedCommand \<Rightarrow> runtimeOwnerState owner_result" where
  "applyMarkReviewerSessionRequested env state c =
     (case pending_effect state (mq_Identity c) of
        None \<Rightarrow> Inl StaleStateResult
      | Some (e, q) \<Rightarrow>
          if \<not> e_ReviewerGateProtocol e \<or>
            (case rq_Reviewer q of None \<Rightarrow> True | Some v \<Rightarrow> rv_Phase v \<noteq> ''run-observe'') then Inl StaleStateResult
          else if e_ReviewerSessionRequested e then Inr state
          else if e_ReviewerLaunched e \<or> e_ReviewerGroupPID e \<noteq> 0 then Inl StateConflict
          else err_bind (reconciliationEffectCurrent env state e) (\<lambda>_.
            Inr (with_effect state (e\<lparr>e_ReviewerSessionRequested := True\<rparr>))))"

definition applyMarkHandoffPrepared ::
  "Env \<Rightarrow> runtimeOwnerState \<Rightarrow> markHandoffPreparedCommand \<Rightarrow> runtimeOwnerState owner_result" where
  "applyMarkHandoffPrepared env state c =
     (case pending_effect state (mh_Identity c) of
        None \<Rightarrow> Inl StaleStateResult
      | Some (e, q) \<Rightarrow>
          (case (rq_Handoff q, rq_Manifest q) of
             (Some h, Some m0) \<Rightarrow>
               if rq_Action q \<noteq> reconciliationHandoffDeliver \<or> m_Version m0 \<noteq> ManifestVersion2
               then Inl StaleStateResult
               else err_bind (reconciliationEffectCurrent env state e) (\<lambda>_.
                 let m = m0\<lparr>m_LaunchToken := hf_CandidateLaunchToken h, m_LaunchID := e_ID e\<rparr>;
                     ib = mh_Implementation c; tb = mh_Terminal c in
                 if \<not> bound_pair (v_sha env) m ib tb then Inl StateConflict
                 else if e_HandoffImplementation e \<noteq> None \<or> e_HandoffTerminal e \<noteq> None then
                   (if e_HandoffImplementation e = Some ib \<and> e_HandoffTerminal e = Some tb then Inr state
                    else Inl StateConflict)
                 else Inr (with_effect state (e\<lparr>e_HandoffImplementation := Some ib, e_HandoffTerminal := Some tb\<rparr>)))
           | _ \<Rightarrow> Inl StaleStateResult))"

section \<open>A running review\<close>

record sealReviewerResultCommand =
  sl_Identity :: "stateResultIdentity"
  sl_Result :: "reconciliationEffectResult"
  sl_Pane :: "reviewerPaneIdentity"
  sl_Terminal :: "reviewerTerminalRecord"

text \<open>The run that a pending effect observes.\<close>

definition pending_run ::
  "runtimeOwnerState \<Rightarrow> stateResultIdentity \<Rightarrow> (runtimeEffectIntent \<times> reconciliationEffectRequest \<times> reviewerEffectRequest) option" where
  "pending_run state i =
     (case pending_effect state i of
        None \<Rightarrow> None
      | Some (e, q) \<Rightarrow>
          (case rq_Reviewer q of
             None \<Rightarrow> None
           | Some v \<Rightarrow> if rq_Action q = reconciliationReviewer \<and> rv_Phase v = ''run-observe'' then Some (e, q, v) else None))"

definition proof_key :: "runtimeEffectIntent \<Rightarrow> reviewerEffectRequest \<Rightarrow> string" where
  "proof_key e v = reviewerProofKey (e_Repository e) (e_Issue e) (e_Attempt e) (rv_Mode v) (rv_Target v)"

definition running_proof ::
  "runtimeEffectIntent \<Rightarrow> reviewerEffectRequest \<Rightarrow> int \<Rightarrow> reviewerPaneIdentity \<Rightarrow> TerminalBrokerBinding \<Rightarrow> string \<Rightarrow>
   reviewerProcessProof" where
  "running_proof e v pid pane broker path =
     empty_proof\<lparr>p_Repository := e_Repository e, p_Issue := e_Issue e, p_Attempt := e_Attempt e, p_Mode := rv_Mode v,
       p_Target := rv_Target v, p_RunID := rv_RunID v, p_EffectID := e_ID e,
       p_IssueGeneration := e_IssueGeneration e, p_AttemptGeneration := e_AttemptGeneration e, p_GroupPID := pid,
       p_ProfileDigest := e_ReviewerProfileDigest e, p_ConfinementVersion := e_ReviewerConfinementVersion e,
       p_Pane := Some (reviewerPaneCertificateFrom pane), p_TerminalBroker := Some broker, p_BrokerPath := path\<rparr>"

definition pane_mismatch ::
  "Env \<Rightarrow> markPlanReviewRunningCommand \<Rightarrow> reviewerEffectRequest \<Rightarrow> reviewerPaneIdentity \<Rightarrow> TerminalBrokerBinding \<Rightarrow> bool" where
  "pane_mismatch env c v pane broker \<longleftrightarrow>
     mp_BrokerPath c \<noteq> reviewerBrokerPath env (rv_Snapshot v) (rv_Target v) \<or> ps_Dead (pi_Status pane) \<or>
     pi_Name pane \<noteq> rv_Session v \<or> pi_PID pane \<noteq> tb_OuterPID broker \<or> mp_GroupPID c \<noteq> tb_InnerPGID broker \<or>
     \<not> reviewerPaneStartMatches (pi_Start pane) (reviewerLifecyclePaths env (rv_Snapshot v) (rv_Target v))
       (reviewerIdentity (mp_Identity c))"

definition launch_review ::
  "Env \<Rightarrow> runtimeOwnerState \<Rightarrow> runtimeEffectIntent \<Rightarrow> reviewerEffectRequest \<Rightarrow> int \<Rightarrow> reviewerProcessProof \<Rightarrow>
   runtimeOwnerState owner_result" where
  "launch_review env state e v pid p =
     (let stored = fmlookup (s_ReviewerProofs state) (proof_key e v) in
      if e_ReviewerLaunched e then
        (if e_ReviewerGroupPID e \<noteq> pid \<or> stored \<noteq> Some p then Inl StateConflict else Inr state)
      else err_bind (reconciliationEffectFinishCurrent env state e) (\<lambda>_.
        if (case stored of
            None \<Rightarrow> False
          | Some old \<Rightarrow> p_EffectID old \<noteq> e_ID e \<or> p_RunID old \<noteq> rv_RunID v \<or>
              p_ProfileDigest old \<noteq> e_ReviewerProfileDigest e \<or>
              p_ConfinementVersion old \<noteq> e_ReviewerConfinementVersion e) then Inl StateConflict
        else Inr (with_effect
          (state\<lparr>s_ReviewerProofs := fmupd (proof_key e v) p (s_ReviewerProofs state)\<rparr>)
          (e\<lparr>e_ReviewerLaunched := True, e_ReviewerGroupPID := pid\<rparr>))))"

definition applyMarkPlanReviewRunning ::
  "Env \<Rightarrow> runtimeOwnerState \<Rightarrow> markPlanReviewRunningCommand \<Rightarrow> runtimeOwnerState owner_result" where
  "applyMarkPlanReviewRunning env state c =
     (case pending_effect state (mp_Identity c) of
        None \<Rightarrow> Inl StaleStateResult
      | Some (e, q) \<Rightarrow>
          (case (pending_run state (mp_Identity c), mp_Pane c, mp_TerminalBroker c) of
             (Some (_, _, v), Some pane, Some broker) \<Rightarrow>
               let p = running_proof e v (mp_GroupPID c) pane broker (mp_BrokerPath c) in
               if rq_Manifest q = None \<or> mp_GroupPID c < 2 \<or>
                 e_ReviewerGateProtocol e \<and> \<not> e_ReviewerSessionRequested e then Inl StateConflict
               else if pane_mismatch env c v pane broker \<or> \<not> validReviewerTerminalCertificate env p
               then Inl StateConflict
               else launch_review env state e v (mp_GroupPID c) p
           | _ \<Rightarrow> Inl StateConflict))"

text \<open>The wrapper's record of the exit must be that of the bound process.\<close>

definition seal_pane_bad :: "Env \<Rightarrow> sealReviewerResultCommand \<Rightarrow> reviewerEffectRequest \<Rightarrow> bool" where
  "seal_pane_bad env c v \<longleftrightarrow>
     (let pane = sl_Pane c in
      \<not> ps_Dead (pi_Status pane) \<or> \<not> ps_Ready (pi_Status pane) \<or> pi_Name pane \<noteq> rv_Session v \<or> pi_SessionID pane = [] \<or>
      pi_PID pane < 2 \<or> pi_ServerPID pane < 2 \<or> pi_StartTime pane = 0 \<or>
      \<not> reviewerPaneStartMatches (pi_Start pane) (reviewerLifecyclePaths env (rv_Snapshot v) (rv_Target v))
        (reviewerIdentity (sl_Identity c)))"

definition seal_terminal_bad ::
  "sealReviewerResultCommand \<Rightarrow> runtimeEffectIntent \<Rightarrow> reviewerProcessProof \<Rightarrow> string \<Rightarrow> bool" where
  "seal_terminal_bad c e p status \<longleftrightarrow>
     (let t = sl_Terminal c; i = tr_Identity t;
          expected = (reviewerIdentity (sl_Identity c))\<lparr>li_GateProtocol := e_ReviewerGateProtocol e,
            li_SessionRequested := e_ReviewerSessionRequested e, li_ChildPID := e_ReviewerGroupPID e\<rparr> in
      \<not> sameReviewerIdentity i expected \<or> li_ChildPID i \<noteq> li_ChildPID expected \<or> li_Broker i = None \<or>
      p_TerminalBroker p = None \<or> li_Broker i \<noteq> p_TerminalBroker p \<or>
      tr_ExitCode t = 0 \<and> tr_Signal t \<noteq> 0 \<or> status \<noteq> ''failed'' \<and> (tr_ExitCode t \<noteq> 0 \<or> tr_Signal t \<noteq> 0))"

definition applySealReviewerResult ::
  "Env \<Rightarrow> runtimeOwnerState \<Rightarrow> sealReviewerResultCommand \<Rightarrow> runtimeOwnerState owner_result" where
  "applySealReviewerResult env state c =
     (case pending_run state (sl_Identity c) of
        None \<Rightarrow> Inl StaleStateResult
      | Some (e, q, v) \<Rightarrow>
          (case rs_Reviewer (sl_Result c) of
             None \<Rightarrow> Inl StaleStateResult
           | Some outcome \<Rightarrow>
               if \<not> e_ReviewerLaunched e \<or> e_ReviewerGroupPID e < 2 \<or>
                 \<not> validReconciliationEffectResult env q (sl_Result c) then Inl StaleStateResult
               else err_bind (reconciliationEffectFinishCurrent env state e) (\<lambda>_.
                 case fmlookup (s_ReviewerProofs state) (proof_key e v) of
                   None \<Rightarrow> Inl StateConflict
                 | Some p \<Rightarrow>
                     let digest = reviewerResultDigest env (sl_Result c) in
                     if \<not> proof_of_effect e v (e_ReviewerGroupPID e) p \<or> p_NeverRan p then Inl StateConflict
                     else if seal_pane_bad env c v \<or> seal_terminal_bad c e p (rvr_Status outcome) then Inl StateConflict
                     else if e_ReviewerResultDigest e \<noteq> [] \<and> e_ReviewerResultDigest e \<noteq> digest then Inl StateConflict
                     else Inr (with_effect
                       (state\<lparr>s_ReviewerProofs := fmupd (proof_key e v) (p\<lparr>p_DeadProved := True\<rparr>)
                         (s_ReviewerProofs state)\<rparr>)
                       (e\<lparr>e_ReviewerResultDigest := digest\<rparr>)))))"

section \<open>What a finished effect changes\<close>

definition invalidatedEffectBlocksControlRepair :: "runtimeEffectIntent \<Rightarrow> string \<Rightarrow> int \<Rightarrow> bool" where
  "invalidatedEffectBlocksControlRepair e repository issue \<longleftrightarrow>
     e_Repository e = repository \<and> e_Issue e = issue \<and> e_State e = ''invalidated'' \<and>
     (case e_Reconciliation e of
        None \<Rightarrow> False
      | Some q \<Rightarrow> rq_Action q = reconciliationGitHubIssueUpdate \<and>
          (case rq_GitHubIssueUpdate q of None \<Rightarrow> False | Some u \<Rightarrow> gu_Kind u = githubIssueControlSnapshot))"

definition drop_effects :: "(runtimeEffectIntent \<Rightarrow> bool) \<Rightarrow> runtimeOwnerState \<Rightarrow> runtimeOwnerState" where
  "drop_effects P state = state\<lparr>s_Effects := fm_keep (\<lambda>_ e. \<not> P e) (s_Effects state)\<rparr>"

definition status_applied :: "runtimeOwnerState \<Rightarrow> machineStatusRecord \<Rightarrow> runtimeOwnerState" where
  "status_applied state st =
     (let k = ownerAttemptKey (ms_Repository st) (ms_Issue st) (ms_Attempt st) in
      if ms_Source st = ''worker'' then
        (case fmlookup (s_Attempts state) k of
           None \<Rightarrow> state
         | Some r \<Rightarrow>
             if a_Generation r = ms_AttemptGeneration st
             then state\<lparr>s_Attempts := fmupd k
               (r\<lparr>a_Manifest := (a_Manifest r)\<lparr>m_WorkerStatusApplied := ms_SourceSequence st\<rparr>\<rparr>) (s_Attempts state)\<rparr>
             else state)
      else state)"

definition status_outcome ::
  "runtimeOwnerState \<Rightarrow> reconciliationEffectRequest \<Rightarrow> githubIssueUpdateEffectRequest \<Rightarrow> runtimeOwnerState owner_result" where
  "status_outcome state q u =
     (let k = ownerIssueKey (rq_Repository q) (rq_Issue q) in
      case fmlookup (s_MachineStatuses state) k of
        None \<Rightarrow> Inl StaleStateResult
      | Some st \<Rightarrow>
          if ms_Sequence st \<noteq> gu_StatusSequence u then Inl StaleStateResult
          else Inr (drop_effects (\<lambda>e. e_Repository e = rq_Repository q \<and> e_Issue e = rq_Issue q \<and>
              e_State e = ''invalidated-resolved'' \<and>
              (case e_Reconciliation e of
                 None \<Rightarrow> False
               | Some p \<Rightarrow> (case rq_GitHubIssueUpdate p of
                   None \<Rightarrow> False | Some w \<Rightarrow> gu_Kind w = githubIssueMachineStatus)))
            (status_applied (state\<lparr>s_MachineStatuses := fmupd k (st\<lparr>ms_AppliedSequence := ms_Sequence st\<rparr>)
              (s_MachineStatuses state)\<rparr>) st)))"

definition repair_outcome ::
  "runtimeOwnerState \<Rightarrow> reconciliationEffectRequest \<Rightarrow> githubIssueUpdateEffectRequest \<Rightarrow> runtimeOwnerState owner_result" where
  "repair_outcome state q u =
     (let k = ownerIssueKey (rq_Repository q) (rq_Issue q) in
      case fmlookup (s_ControlRepairs state) k of
        None \<Rightarrow> Inl StaleStateResult
      | Some r \<Rightarrow>
          if sr_Generation r \<noteq> rq_ControlGeneration q \<or> sr_Body r \<noteq> gu_ControlSnapshotBody u then Inl StaleStateResult
          else if fm_ex (\<lambda>_ e. invalidatedEffectBlocksControlRepair e (rq_Repository q) (rq_Issue q)) (s_Effects state)
          then Inl StateConflict
          else Inr (drop_effects (\<lambda>e. e_Repository e = rq_Repository q \<and> e_Issue e = rq_Issue q \<and>
              e_State e = ''invalidated-resolved'')
            (state\<lparr>s_ControlRepairs := fmdrop k (s_ControlRepairs state)\<rparr>)))"

definition issue_outcome :: "runtimeOwnerState \<Rightarrow> reconciliationEffectRequest \<Rightarrow> runtimeOwnerState owner_result" where
  "issue_outcome state q =
     (case rq_GitHubIssueUpdate q of
        None \<Rightarrow> Inl StaleStateResult
      | Some u \<Rightarrow>
          if gu_Kind u = githubIssueMachineStatus then status_outcome state q u
          else if rq_ControlRepair q then repair_outcome state q u
          else Inr state)"

definition with_attempt :: "runtimeOwnerState \<Rightarrow> string \<Rightarrow> runtimeAttemptRecord \<Rightarrow> runtimeOwnerState" where
  "with_attempt state k r = state\<lparr>s_Attempts := fmupd k r (s_Attempts state)\<rparr>"

definition publish_outcome ::
  "Env \<Rightarrow> runtimeOwnerState \<Rightarrow> reconciliationEffectRequest \<Rightarrow> githubPublishEffectRequest \<Rightarrow> githubPublishEffectResult \<Rightarrow>
   runtimeOwnerState owner_result" where
  "publish_outcome env state q g x =
     (let k = ownerAttemptKey (rq_Repository q) (rq_Issue q) (rq_Attempt q) in
      case gq_Prepared g of
        None \<Rightarrow>
          if fm_has (s_Recoveries state) k then Inl StateConflict
          else Inr (with_recovery state k
            \<lparr>rr_IssueGeneration = issueGeneration state (rq_Repository q) (rq_Issue q),
             rr_AttemptGeneration = attemptGeneration state (rq_Repository q) (rq_Issue q) (rq_Attempt q),
             rr_State = zero_pr_state\<lparr>pr_Repository := rq_Repository q, pr_Number := gqr_PR x, pr_Issue := rq_Issue q,
               pr_Attempt := rq_Attempt q, pr_HeadSHA := gqr_HeadSHA x\<rparr>\<rparr>)
      | Some p \<Rightarrow>
          (case currentPRRecovery state q of
             None \<Rightarrow> Inl StaleStateResult
           | Some r \<Rightarrow>
               if pr_PreparedPublication (rr_State r) \<noteq> Some p then Inl StaleStateResult
               else (case CompletePreparedPublication (v_sha env) (rr_State r) p of
                   Inl e \<Rightarrow> Inl StateConflict
                 | Inr s \<Rightarrow> Inr (with_recovery state k (r\<lparr>rr_State := s\<rparr>)))))"

definition reviewed_manifest :: "reviewerEffectRequest \<Rightarrow> reviewerEffectResult \<Rightarrow> Manifest \<Rightarrow> Manifest" where
  "reviewed_manifest v x m =
     (if rv_Phase v = ''cleanup'' then
        m\<lparr>m_ReviewRunID := [], m_ReviewSnapshot := [], m_ReviewSession := [], m_ReviewRunCleaned := True\<rparr>
      else m\<lparr>m_ReviewState := (if rvr_Status x = ''findings'' then ''findings-queued'' else rvr_Status x),
        m_ReviewMode := rv_Mode v, m_ReviewTarget := rv_Target v, m_ReviewRunID := rv_RunID v,
        m_ReviewRunCleaned := False, m_ReviewInvalidated := False, m_ReviewBase := rv_BaseSHA v,
        m_ReviewHead := rv_HeadSHA v, m_ReviewSnapshot := rv_Snapshot v, m_ReviewSession := rv_Session v,
        m_ReviewFindings := rvr_Findings x, m_ReviewDiagnostic := rvr_Diagnostic x,
        m_ReviewHandoffQueued := False, m_ReviewHandoffAck := False\<rparr>)"

definition launched_record :: "Manifest \<Rightarrow> handoffEffectResult \<Rightarrow> runtimeAttemptRecord \<Rightarrow> runtimeAttemptRecord" where
  "launched_record planned x r =
     (if m_Version planned = ManifestVersion2
      then r\<lparr>a_Manifest := (a_Manifest r)\<lparr>m_LaunchToken := hfr_LaunchToken x, m_LaunchID := hfr_LaunchID x\<rparr>\<rparr> else r)"

text \<open>Delivered findings reopen the attempt: its old resources and its old seal are no longer current.\<close>

definition reopened_record :: "runtimeAttemptRecord \<Rightarrow> runtimeAttemptRecord" where
  "reopened_record r =
     (let m = (a_Manifest r)\<lparr>m_ReviewHandoffQueued := True, m_ReviewHandoffAck := True, m_ReviewSnapshot := [],
            m_ReviewSession := []\<rparr> in
      r\<lparr>a_Manifest := (if m_State m = ''completed'' then m\<lparr>m_State := ''running'', m_Diagnostic := []\<rparr> else m),
        a_WorkerSeal := None\<rparr>)"

definition delivered_recovery ::
  "Env \<Rightarrow> runtimePRRecovery \<Rightarrow> handoffEffectRequest \<Rightarrow> runtimePRRecovery owner_result" where
  "delivered_recovery env r h =
     (case hf_Recovery h of
        None \<Rightarrow> Inl StateConflict
      | Some wanted \<Rightarrow>
          (case (case hf_Outcome h of
               None \<Rightarrow> ReceiptHandoffState (v_sha env) (rr_State r) wanted
             | Some x \<Rightarrow> ApplyHandoffOutcome (v_sha env) (rr_State r) wanted x) of
             Inl e \<Rightarrow> Inl StateConflict
           | Inr s \<Rightarrow> Inr (r\<lparr>rr_State := s\<rparr>)))"

definition handoff_outcome ::
  "Env \<Rightarrow> runtimeOwnerState \<Rightarrow> reconciliationEffectRequest \<Rightarrow> handoffEffectRequest \<Rightarrow> runtimeAttemptRecord \<Rightarrow>
   runtimeOwnerState owner_result" where
  "handoff_outcome env state q h r =
     (let k = ownerAttemptKey (rq_Repository q) (rq_Issue q) (rq_Attempt q) in
      if hf_Kind h = ''review-findings'' then Inr (with_attempt state k (reopened_record r))
      else (case currentPRRecovery state q of
          None \<Rightarrow> Inl StaleStateResult
        | Some p \<Rightarrow> err_bind (delivered_recovery env p h) (\<lambda>p'.
            Inr (with_attempt (with_recovery state k p') k r))))"

definition retired :: "runtimeOwnerState \<Rightarrow> string \<Rightarrow> runtimeOwnerState" where
  "retired state k = state\<lparr>s_Attempts := fmdrop k (s_Attempts state), s_Recoveries := fmdrop k (s_Recoveries state)\<rparr>"

definition attempt_outcome ::
  "Env \<Rightarrow> runtimeOwnerState \<Rightarrow> reconciliationEffectRequest \<Rightarrow> reconciliationEffectResult \<Rightarrow> runtimeAttemptRecord \<Rightarrow>
   runtimeOwnerState owner_result" where
  "attempt_outcome env state q x r =
     (let k = ownerAttemptKey (rq_Repository q) (rq_Issue q) (rq_Attempt q) in
      if rq_Action q = reconciliationGitHubPublish then
        (case (rq_GitHubPublish q, rs_GitHubPublish x) of
           (Some g, Some y) \<Rightarrow> publish_outcome env state q g y | _ \<Rightarrow> Inl StateConflict)
      else if rq_Action q = reconciliationReviewer then
        (case (rq_Reviewer q, rs_Reviewer x) of
           (Some v, Some y) \<Rightarrow> Inr (with_attempt state k (r\<lparr>a_Manifest := reviewed_manifest v y (a_Manifest r)\<rparr>))
         | _ \<Rightarrow> Inl StateConflict)
      else if rq_Action q = reconciliationGitHubIssueUpdate then
        (case rq_GitHubIssueUpdate q of
           None \<Rightarrow> Inl StateConflict
         | Some u \<Rightarrow> if gu_Kind u = githubIssueMachineStatus then Inl StaleStateResult else Inr state)
      else if rq_Action q = reconciliationHandoffDeliver then
        (case (rq_Handoff q, rs_Handoff x, rq_Manifest q) of
           (Some h, Some y, Some planned) \<Rightarrow> handoff_outcome env state q h (launched_record planned y r)
         | _ \<Rightarrow> Inl StateConflict)
      else if rq_Action q = reconciliationRetireCompleted then Inr (retired state k)
      else Inr state)"

definition applyReconciliationEffectOutcome ::
  "Env \<Rightarrow> runtimeOwnerState \<Rightarrow> reconciliationEffectRequest \<Rightarrow> reconciliationEffectResult \<Rightarrow> runtimeOwnerState owner_result" where
  "applyReconciliationEffectOutcome env state q x =
     (if rq_Attempt q = 0 then issue_outcome state q
      else case fmlookup (s_Attempts state) (ownerAttemptKey (rq_Repository q) (rq_Issue q) (rq_Attempt q)) of
        None \<Rightarrow> Inl StaleStateResult
      | Some r \<Rightarrow> attempt_outcome env state q x r)"

section \<open>Finishing an effect\<close>

record finishReconciliationEffectCommand =
  fc_Identity :: "stateResultIdentity"
  fc_Result :: "reconciliationEffectResult"

text \<open>A result of a review counts only with the proof of its process: a run that was never launched needs
  the proof that it never ran, a launched run the sealed result.\<close>

definition review_result_unproved ::
  "Env \<Rightarrow> runtimeOwnerState \<Rightarrow> runtimeEffectIntent \<Rightarrow> reconciliationEffectRequest \<Rightarrow> reviewerEffectRequest \<Rightarrow>
   reconciliationEffectResult \<Rightarrow> bool" where
  "review_result_unproved env state e q v x \<longleftrightarrow>
     (let proof = fmlookup (s_ReviewerProofs state) (proof_key e v) in
      rv_Phase v = ''run-observe'' \<and> \<not> e_ReviewerLaunched e \<and>
        (case rs_Reviewer x of None \<Rightarrow> False | Some y \<Rightarrow> rvr_Status y \<noteq> ''failed'') \<or>
      e_ReviewerGateProtocol e \<and> \<not> e_ReviewerLaunched e \<and> rv_Phase v = ''run-observe'' \<and>
        (case proof of
           None \<Rightarrow> True
         | Some p \<Rightarrow> p_EffectID p \<noteq> e_ID e \<or> p_RunID p \<noteq> rv_RunID v \<or> \<not> p_DeadProved p \<or> \<not> p_NeverRan p \<or>
             p_GroupPID p \<noteq> 0) \<or>
      e_ReviewerLaunched e \<and>
        (case proof of
           None \<Rightarrow> True
         | Some p \<Rightarrow> \<not> proof_of_effect e v (e_ReviewerGroupPID e) p \<or> p_NeverRan p \<or>
             e_ReviewerResultDigest e \<noteq> reviewerResultDigest env x))"

definition reviewer_of :: "reconciliationEffectRequest \<Rightarrow> reviewerEffectRequest option" where
  "reviewer_of q = (if rq_Action q = reconciliationReviewer then rq_Reviewer q else None)"

definition bound_handoff :: "reconciliationEffectRequest \<Rightarrow> bool" where
  "bound_handoff q \<longleftrightarrow>
     rq_Action q = reconciliationHandoffDeliver \<and>
     (case rq_Manifest q of None \<Rightarrow> False | Some m \<Rightarrow> m_Version m = ManifestVersion2)"

definition bind_handoff :: "Env \<Rightarrow> runtimeOwnerState \<Rightarrow> runtimeEffectIntent \<Rightarrow> runtimeOwnerState owner_result" where
  "bind_handoff env state e =
     (let k = ownerAttemptKey (e_Repository e) (e_Issue e) (e_Attempt e) in
      case (fmlookup (s_Attempts state) k, e_HandoffImplementation e, e_HandoffTerminal e) of
        (Some r, Some ib, Some tb) \<Rightarrow>
          if \<not> bound_pair (v_sha env) (a_Manifest r) ib tb then Inl StateConflict
          else Inr (with_attempt state k (r\<lparr>a_ImplementationBinding := Some ib, a_TerminalBroker := Some tb\<rparr>))
      | _ \<Rightarrow> Inl StateConflict)"

definition forget_cleaned_proof ::
  "runtimeOwnerState \<Rightarrow> runtimeEffectIntent \<Rightarrow> reviewerEffectRequest \<Rightarrow> runtimeOwnerState owner_result" where
  "forget_cleaned_proof state e v =
     (case fmlookup (s_ReviewerProofs state) (proof_key e v) of
        None \<Rightarrow> Inl StateConflict
      | Some p \<Rightarrow>
          if p_RunID p \<noteq> rv_RunID v \<or> p_AttemptGeneration p = 0 \<or> e_AttemptGeneration e < p_AttemptGeneration p \<or>
            \<not> reviewerCleanupAuthorized p then Inl StateConflict
          else Inr (state\<lparr>s_ReviewerProofs := fmdrop (proof_key e v) (s_ReviewerProofs state)\<rparr>))"

definition settle_receipts ::
  "runtimeOwnerState \<Rightarrow> runtimeEffectIntent \<Rightarrow> reconciliationEffectRequest \<Rightarrow> reconciliationEffectResult \<Rightarrow> runtimeOwnerState" where
  "settle_receipts state e q x =
     (let terminal = (rq_Action q = reconciliationGitHubIssueUpdate \<and>
            (case rq_GitHubIssueUpdate q of None \<Rightarrow> False | Some u \<Rightarrow> gu_Kind u = githubIssueTerminalFailure));
          advanced = advanceRecoverReceipts state (e_ID e) operatorPhaseTerminal operatorPhaseRetryAwait in
      if terminal \<and> snd advanced then fst advanced
      else case rs_Reviewer x of
        Some y \<Rightarrow>
          if rvr_Status y = ''failed'' then failOperatorReceipts state (e_ID e) (rvr_Diagnostic y)
          else completeOperatorReceipts state (e_ID e)
      | None \<Rightarrow> completeOperatorReceipts state (e_ID e))"

definition finished_effect :: "runtimeEffectIntent \<Rightarrow> reconciliationEffectResult \<Rightarrow> runtimeEffectIntent" where
  "finished_effect e x = e\<lparr>e_State := ''completed'', e_ReconciliationResult := Some x, e_Diagnostic := []\<rparr>"

definition finish_effect ::
  "Env \<Rightarrow> runtimeOwnerState \<Rightarrow> runtimeEffectIntent \<Rightarrow> reconciliationEffectRequest \<Rightarrow> reconciliationEffectResult \<Rightarrow>
   runtimeOwnerState owner_result" where
  "finish_effect env state e q x =
     err_bind (applyReconciliationEffectOutcome env state q x) (\<lambda>s1.
     err_bind (if bound_handoff q then bind_handoff env s1 e else Inr s1) (\<lambda>s2.
     err_bind (case reviewer_of q of
         None \<Rightarrow> Inr s2 | Some v \<Rightarrow> if rv_Phase v = ''cleanup'' then forget_cleaned_proof s2 e v else Inr s2) (\<lambda>s3.
     Inr (settle_receipts (with_effect s3 (finished_effect e x)) e q x))))"

definition applyFinishReconciliationEffect ::
  "Env \<Rightarrow> runtimeOwnerState \<Rightarrow> finishReconciliationEffectCommand \<Rightarrow> runtimeOwnerState owner_result" where
  "applyFinishReconciliationEffect env state c =
     (let x = fc_Result c in
      case fmlookup (s_Effects state) (id_EffectID (fc_Identity c)) of
        None \<Rightarrow> Inl StaleStateResult
      | Some e \<Rightarrow>
          (case e_Reconciliation e of
             None \<Rightarrow> Inl StaleStateResult
           | Some q \<Rightarrow>
               if e_Action e \<noteq> rs_Action x \<or> \<not> reconciliationEffectIdentityMatches e (fc_Identity c)
               then Inl StaleStateResult
               else if \<not> validReconciliationEffectResult env q x \<or>
                 bound_handoff q \<and> (case rs_Handoff x of None \<Rightarrow> True | Some y \<Rightarrow> hfr_LaunchID y \<noteq> e_ID e)
               then Inl StateConflict
               else if e_State e = ''completed'' then
                 (if e_ReconciliationResult e = Some x then Inr state else Inl StateConflict)
               else err_bind (reconciliationEffectFinishCurrent env state e) (\<lambda>_.
                 if (case reviewer_of q of None \<Rightarrow> False | Some v \<Rightarrow> review_result_unproved env state e q v x)
                 then Inl StateConflict
                 else if bound_handoff q \<and> (e_HandoffImplementation e = None \<or> e_HandoffTerminal e = None)
                 then Inl StateConflict
                 else finish_effect env state e q x)))"

section \<open>Superseding a review\<close>

record supersedePlanReviewCommand =
  sp_Identity :: "stateResultIdentity"
  sp_CurrentHeadSHA :: "string"

definition supersede_invalid ::
  "runtimeOwnerState \<Rightarrow> runtimeEffectIntent \<Rightarrow> reconciliationEffectRequest \<Rightarrow> reviewerEffectRequest \<Rightarrow> string \<Rightarrow> bool" where
  "supersede_invalid state e q v head \<longleftrightarrow>
     (let k = ownerAttemptKey (e_Repository e) (e_Issue e) (e_Attempt e) in
      if e_ReviewerRevoked e \<or> issueGeneration state (e_Repository e) (e_Issue e) \<noteq> e_IssueGeneration e \<or>
        attemptGeneration state (e_Repository e) (e_Issue e) (e_Attempt e) \<noteq> e_AttemptGeneration e \<or>
        fm_has (s_Tombstones state) k then True
      else case fmlookup (s_Observations state) (ownerIssueKey (e_Repository e) (e_Issue e)) of
        None \<Rightarrow> False
      | Some ob \<Rightarrow>
          if ob_ObservationEpoch ob \<noteq> s_Epoch state then False
          else
            let fact = ob_Fact ob;
                invalid = (\<not> reconciliationFinishObservationMatches state q \<or>
                  (case (fmlookup (s_Attempts state) k, rq_Manifest q) of
                     (Some r, Some m) \<Rightarrow> \<not> sameReconciliationManifest q (a_Manifest r) m
                   | _ \<Rightarrow> True)) in
            if rv_Mode v = ReviewModePlan then
              invalid \<or> \<not> fi_DispatchAuthorized fact \<or>
              (case observedReconciliationAttempt ob (rq_Attempt q) of
                 None \<Rightarrow> True | Some f \<Rightarrow> af_State f \<noteq> ''active'' \<and> af_State f \<noteq> ''review-ready'')
            else if head \<noteq> [] \<and> \<not> invalid then
              fi_CurrentAttempt fact = rq_Attempt q \<and> fi_BaseSHA fact = rv_BaseSHA v
            else invalid)"

definition supersede_unproved :: "runtimeOwnerState \<Rightarrow> runtimeEffectIntent \<Rightarrow> reviewerEffectRequest \<Rightarrow> bool" where
  "supersede_unproved state e v \<longleftrightarrow>
     (case fmlookup (s_ReviewerProofs state) (proof_key e v) of
        None \<Rightarrow> True
      | Some p \<Rightarrow> \<not> proof_of_effect e v (e_ReviewerGroupPID e) p \<or> p_NeverRan p = e_ReviewerLaunched e \<or>
          \<not> reviewerCleanupAuthorized p)"

definition plan_receipt :: "runtimeEffectIntent \<Rightarrow> controlReceipt \<Rightarrow> bool" where
  "plan_receipt e r \<longleftrightarrow> r_EffectID r = e_ID e \<and> r_State r = ''pending'' \<and> q_Action (r_Request r) = ''review-plan''"

definition plan_invalidated :: string where
  "plan_invalidated = ''plan review was invalidated by current issue state''"

definition superseded_result :: "reviewerEffectRequest \<Rightarrow> reconciliationEffectResult" where
  "superseded_result v =
     \<lparr>rs_Action = reconciliationReviewer, rs_GitHubBind = None, rs_GitHubPublish = None, rs_GitHubIssueUpdate = None,
      rs_GitHubPRGovernance = None,
      rs_Reviewer = Some \<lparr>rvr_Phase = rv_Phase v, rvr_Status = ''failed'', rvr_Mode = rv_Mode v, rvr_Target = rv_Target v,
        rvr_RunID = rv_RunID v, rvr_BaseSHA = rv_BaseSHA v, rvr_HeadSHA = rv_HeadSHA v, rvr_Snapshot = rv_Snapshot v,
        rvr_Session = rv_Session v, rvr_Findings = [],
        rvr_Diagnostic = (if rv_Mode v = ReviewModeImplementation
          then ''implementation review was invalidated by current issue or worker state'' else plan_invalidated)\<rparr>,
      rs_Handoff = None, rs_Retire = None, rs_CheckIn = None\<rparr>"

definition mark_invalidated :: "runtimeOwnerState \<Rightarrow> string \<Rightarrow> runtimeOwnerState" where
  "mark_invalidated state k =
     (case fmlookup (s_Attempts state) k of
        None \<Rightarrow> state
      | Some r \<Rightarrow> with_attempt state k (r\<lparr>a_Manifest := (a_Manifest r)\<lparr>m_ReviewInvalidated := True\<rparr>\<rparr>))"

text \<open>The failed result reaches the manifest only while the effect's generations are still current.\<close>

definition record_superseded ::
  "Env \<Rightarrow> runtimeOwnerState \<Rightarrow> runtimeEffectIntent \<Rightarrow> reconciliationEffectRequest \<Rightarrow> reviewerEffectRequest \<Rightarrow>
   runtimeOwnerState owner_result" where
  "record_superseded env state e q v =
     (let k = ownerAttemptKey (e_Repository e) (e_Issue e) (e_Attempt e);
          current = ((case (fmlookup (s_Attempts state) k, rq_Manifest q) of
              (Some r, Some m) \<Rightarrow> sameReconciliationManifest q (a_Manifest r) m | _ \<Rightarrow> False) \<and>
            issueGeneration state (e_Repository e) (e_Issue e) = e_IssueGeneration e \<and>
            attemptGeneration state (e_Repository e) (e_Issue e) (e_Attempt e) = e_AttemptGeneration e \<and>
            \<not> fm_has (s_Tombstones state) k) in
      if \<not> current then Inr state
      else err_bind (applyReconciliationEffectOutcome env state q (superseded_result v))
        (\<lambda>s. Inr (if rv_Mode v = ReviewModeImplementation then mark_invalidated s k else s)))"

definition complete_superseded ::
  "Env \<Rightarrow> runtimeOwnerState \<Rightarrow> runtimeEffectIntent \<Rightarrow> reconciliationEffectRequest \<Rightarrow> reviewerEffectRequest \<Rightarrow>
   runtimeOwnerState owner_result" where
  "complete_superseded env state e q v =
     (let s1 = update_receipts (plan_receipt e)
            (\<lambda>r. completed_receipt (failed_result (r_Request r) (s_Revision state + 1) 409 plan_invalidated) r) state in
      if \<not> list_ex (plan_receipt e) (s_ControlReceipts state) \<and> rv_Mode v = ReviewModePlan then Inl StateConflict
      else err_bind (record_superseded env s1 e q v) (\<lambda>s2.
        Inr (with_effect s2 (e\<lparr>e_State := ''completed'', e_ReconciliationResult := Some (superseded_result v),
          e_ReviewerResultDigest := [], e_Diagnostic := []\<rparr>))))"

definition supersede_checked ::
  "Env \<Rightarrow> runtimeOwnerState \<Rightarrow> runtimeEffectIntent \<Rightarrow> reconciliationEffectRequest \<Rightarrow> reviewerEffectRequest \<Rightarrow> string \<Rightarrow>
   runtimeOwnerState owner_result" where
  "supersede_checked env state e q v head =
     (if head \<noteq> [] \<and> (rv_Mode v \<noteq> ReviewModeImplementation \<or> \<not> validOptionalObjectID head \<or> head = rv_HeadSHA v)
      then Inl StateConflict
      else if supersede_unproved state e v then Inl StateConflict
      else if rv_Mode v = ReviewModePlan \<and> \<not> planReviewInvalidated state e q then Inl StateConflict
      else if \<not> supersede_invalid state e q v head then Inl StateConflict
      else complete_superseded env state e q v)"

definition applySupersedePlanReview ::
  "Env \<Rightarrow> runtimeOwnerState \<Rightarrow> supersedePlanReviewCommand \<Rightarrow> runtimeOwnerState owner_result" where
  "applySupersedePlanReview env state c =
     (case fmlookup (s_Effects state) (id_EffectID (sp_Identity c)) of
        None \<Rightarrow> Inl StaleStateResult
      | Some e \<Rightarrow>
          (case e_Reconciliation e of
             None \<Rightarrow> Inl StaleStateResult
           | Some q \<Rightarrow>
               (case run_observe e of
                  None \<Rightarrow> Inl StaleStateResult
                | Some v \<Rightarrow>
                    if \<not> reconciliationEffectIdentityMatches e (sp_Identity c) then Inl StaleStateResult
                    else if e_State e = ''completed'' then Inr state
                    else supersede_checked env state e q v (sp_CurrentHeadSHA c))))"

end
