(* ===== verification/Reconciliation_Apply.thy ===== *)
theory Reconciliation_Apply
  imports Reconciliation_Effects
begin

text \<open>
  What one cycle of reconciliation changes in the ledger (\<^verbatim>\<open>reconciliation_v2.go\<close>,
  \<^verbatim>\<open>operator_mutations_v2.go\<close>): a collection of facts read from GitHub, captured together with the
  generations it was read under, is validated, masked where the owner has moved on, and stored as
  observations; pending operator admissions follow the observation they depend on.  The map of cycles
  already applied belongs to the owner's loop and is an argument.
\<close>

section \<open>Collections\<close>

definition maxReconciliationProposalCount :: nat where "maxReconciliationProposalCount = 2048"
definition reconciliationRepositoryScope :: string where "reconciliationRepositoryScope = ''repository''"
definition reconciliationIssueScope :: string where "reconciliationIssueScope = ''issue''"

record reconciliationCollection =
  cl_Identity :: "stateResultIdentity"
  cl_Scope :: "reconciliationScope"
  cl_Complete :: "bool"
  cl_IssueGenerations :: "(string, uint64) fmap"
  cl_AttemptGenerations :: "(string, uint64) fmap"
  cl_Issues :: "reconciliationIssueGroup list"

record applyReconciliationCommand =
  ap_Collection :: "reconciliationCollection"
  ap_OperatorRequestID :: "string"

record appliedReconciliationCycle =
  ay_cycle :: "uint64"
  ay_digest :: "string"

definition group_key :: "reconciliationIssueGroup \<Rightarrow> string" where
  "group_key g = ownerIssueKey (fi_Repository (ig_Fact g)) (fi_Issue (ig_Fact g))"

definition observed_key :: "reconciliationAttemptFact \<Rightarrow> string" where
  "observed_key f = ownerAttemptKey (af_Repository f) (af_Issue f) (af_Attempt f)"

definition compare_proposals :: "reconciliationIssueUpdateProposal \<Rightarrow> reconciliationIssueUpdateProposal \<Rightarrow> int" where
  "compare_proposals l r =
     (if compare_ord (up_Kind l) (up_Kind r) \<noteq> 0 then compare_ord (up_Kind l) (up_Kind r)
      else if compare_ord (up_Dependency l) (up_Dependency r) \<noteq> 0 then compare_ord (up_Dependency l) (up_Dependency r)
      else if compare_ord (up_AttributionAttempt l) (up_AttributionAttempt r) \<noteq> 0
      then compare_ord (up_AttributionAttempt l) (up_AttributionAttempt r)
      else compare_ord (up_PullRequest l) (up_PullRequest r))"

definition normal_group :: "reconciliationIssueGroup \<Rightarrow> reconciliationIssueGroup" where
  "normal_group g =
     g\<lparr>ig_IssueUpdates := sort_func compare_proposals (ig_IssueUpdates g),
       ig_Attempts := sort_func (\<lambda>l r. compare_ord (af_Attempt l) (af_Attempt r)) (ig_Attempts g)\<rparr>"

definition normalizeReconciliationCollection :: "reconciliationCollection \<Rightarrow> reconciliationCollection" where
  "normalizeReconciliationCollection c =
     c\<lparr>cl_Issues := map normal_group
       (sort_func (\<lambda>l r. compare_ord (fi_Issue (ig_Fact l)) (fi_Issue (ig_Fact r))) (cl_Issues c))\<rparr>"

definition validReconciliationScope :: "string \<Rightarrow> reconciliationScope \<Rightarrow> bool" where
  "validReconciliationScope repository scope \<longleftrightarrow>
     sk_Repository scope = repository \<and>
     (sk_Kind scope = reconciliationRepositoryScope \<and> sk_Issue scope = 0 \<or>
      sk_Kind scope = reconciliationIssueScope \<and> 0 < sk_Issue scope)"

definition reconciliationScopeContains :: "reconciliationScope \<Rightarrow> string \<Rightarrow> bool" where
  "reconciliationScopeContains scope k \<longleftrightarrow>
     (let issue = issueFromOwnerKey k in
      0 < issue \<and> (sk_Kind scope = reconciliationRepositoryScope \<or>
        sk_Kind scope = reconciliationIssueScope \<and> issue = sk_Issue scope))"

definition validateGenerationSnapshot :: "string \<Rightarrow> (string, uint64) fmap \<Rightarrow> (string, uint64) fmap \<Rightarrow> bool" where
  "validateGenerationSnapshot repository issues attempts \<longleftrightarrow>
     fmpred (\<lambda>k g. g \<noteq> 0 \<and> k = ownerIssueKey repository (issueFromOwnerKey k)) issues \<and>
     fmpred (\<lambda>k g. case parseOwnerAttemptKey k of (repo, issue, attempt, ok) \<Rightarrow>
       ok \<and> repo = repository \<and> 1 \<le> issue \<and> 1 \<le> attempt \<and> g \<noteq> 0) attempts"

definition valid_group :: "string \<Rightarrow> reconciliationScope \<Rightarrow> reconciliationIssueGroup \<Rightarrow> bool" where
  "valid_group repository scope g \<longleftrightarrow>
     reconciliationScopeContains scope (group_key g) \<and> validateReconciliationIssueFact repository (ig_Fact g) \<and>
     validIssueUpdateProposals repository (ig_Fact g) (ig_Attempts g) (ig_IssueUpdates g) \<and>
     distinct (map observed_key (ig_Attempts g)) \<and>
     list_all (\<lambda>f. af_Issue f = fi_Issue (ig_Fact g) \<and> validateReconciliationAttemptFact repository f) (ig_Attempts g)"

definition validateReconciliationCollection :: "Env \<Rightarrow> string \<Rightarrow> reconciliationCollection \<Rightarrow> owner_error option" where
  "validateReconciliationCollection env repository c =
     (let i = cl_Identity c in
      if id_Epoch i = 0 \<or> id_SourceRevision i = 0 \<or> id_CycleID i = 0 \<or> id_EffectID i \<noteq> [] \<or> id_RequestDigest i \<noteq> [] \<or>
        \<not> validReconciliationScope repository (cl_Scope c) \<or> maxReconciliationIssueCount < length (cl_Issues c) \<or>
        maxReconciliationIssueCount < fcard (fmdom (cl_IssueGenerations c)) \<or>
        maxReconciliationAttemptCount < fcard (fmdom (cl_AttemptGenerations c)) then Some StateConflict
      else if \<not> (distinct (map group_key (cl_Issues c)) \<and> list_all (valid_group repository (cl_Scope c)) (cl_Issues c))
      then Some StateConflict
      else if maxReconciliationAttemptCount < sum_list (map (\<lambda>g. length (ig_Attempts g)) (cl_Issues c)) \<or>
        maxReconciliationProposalCount < sum_list (map (\<lambda>g. length (ig_IssueUpdates g)) (cl_Issues c)) \<or>
        maxReconciliationFactBytes < length (v_marshal env (JArray (map (v_json_group env) (cl_Issues c))))
      then Some (OtherError ''reconciliation observation exceeds durable bounds'')
      else if \<not> validateGenerationSnapshot repository (cl_IssueGenerations c) (cl_AttemptGenerations c)
      then Some StateConflict
      else None)"

definition reconciliationInputDigest ::
  "Env \<Rightarrow> reconciliationScope \<Rightarrow> bool \<Rightarrow> string \<Rightarrow> reconciliationIssueGroup option \<Rightarrow> string" where
  "reconciliationInputDigest env scope complete k g =
     v_sha env (v_marshal env (JObject
       [(''Scope'', JObject ([(''kind'', JString (sk_Kind scope)), (''repository'', JString (sk_Repository scope))] @
          (if sk_Issue scope = 0 then [] else [(''issue'', JInt (sk_Issue scope))]))),
        (''Complete'', JBool complete), (''Key'', JString k),
        (''Group'', case g of None \<Rightarrow> JNull | Some x \<Rightarrow> v_json_group env x)]))"

section \<open>What the owner has moved past\<close>

definition countStaleReconciliation :: "runtimeOwnerState \<Rightarrow> runtimeOwnerState owner_result" where
  "countStaleReconciliation state =
     (if s_StaleReconciliations state = uint64_max then Inl (OtherError ''stale reconciliation count overflow'')
      else Inr (state\<lparr>s_StaleReconciliations := s_StaleReconciliations state + 1\<rparr>))"

fun count_stale :: "nat \<Rightarrow> runtimeOwnerState \<Rightarrow> runtimeOwnerState owner_result" where
  "count_stale 0 state = Inr state"
| "count_stale (Suc n) state = err_bind (countStaleReconciliation state) (count_stale n)"

definition reconciliationIssueGenerationMatches :: "runtimeOwnerState \<Rightarrow> string \<Rightarrow> uint64 \<Rightarrow> bool" where
  "reconciliationIssueGenerationMatches state k captured \<longleftrightarrow>
     (let current = fm_get (s_IssueGenerations state) k 0 in
      current = captured \<or>
      captured = 0 \<and> current = 1 \<and>
        (case fmlookup (s_Observations state) k of None \<Rightarrow> False | Some ob \<Rightarrow> ob_OwnerGeneration ob = current))"

definition attempt_uncurrent :: "runtimeOwnerState \<Rightarrow> reconciliationCollection \<Rightarrow> string \<Rightarrow> bool" where
  "attempt_uncurrent state c k \<longleftrightarrow>
     fm_has (s_Tombstones state) k \<or>
     fmlookup (cl_AttemptGenerations c) k \<noteq> Some (fm_get (s_AttemptGenerations state) k 0)"

definition clear_attribution :: "reconciliationIssueUpdateProposal \<Rightarrow> bool" where
  "clear_attribution u \<longleftrightarrow> up_Kind u = githubIssueDependencyClear \<and> 0 < up_AttributionAttempt u"

definition captured_keys :: "reconciliationCollection \<Rightarrow> reconciliationIssueFact \<Rightarrow> string list" where
  "captured_keys c f =
     concat (map (\<lambda>k. case parseOwnerAttemptKey k of (repository, issue, attempt, ok) \<Rightarrow>
         if ok \<and> repository = fi_Repository f \<and> issue = fi_Issue f then [ownerAttemptKey repository issue attempt] else [])
       (sorted_list_of_fset (fmdom (cl_AttemptGenerations c))))"

definition staleReconciliationAttemptKeys ::
  "runtimeOwnerState \<Rightarrow> reconciliationCollection \<Rightarrow> reconciliationIssueGroup \<Rightarrow> string list" where
  "staleReconciliationAttemptKeys state c g =
     filter (attempt_uncurrent state c) (remdups (
       (case fi_ActiveAttempt (ig_Fact g) of None \<Rightarrow> [] | Some a \<Rightarrow> [observed_key a]) @
       map observed_key (fi_TerminalAttempts (ig_Fact g)) @ map observed_key (ig_Attempts g) @
       map (\<lambda>u. ownerAttemptKey (up_Repository u) (up_Issue u) (up_AttributionAttempt u))
         (filter clear_attribution (ig_IssueUpdates g)) @
       captured_keys c (ig_Fact g)))"

definition maskStaleIssueAttemptFacts ::
  "runtimeOwnerState \<Rightarrow> reconciliationCollection \<Rightarrow> reconciliationIssueFact \<Rightarrow> reconciliationIssueFact" where
  "maskStaleIssueAttemptFacts state c f =
     (let current = (\<lambda>a. \<not> attempt_uncurrent state c (observed_key a)) in
      f\<lparr>fi_ActiveAttempt := (case fi_ActiveAttempt f of None \<Rightarrow> None | Some a \<Rightarrow> if current a then Some a else None),
        fi_TerminalAttempts := filter current (fi_TerminalAttempts f)\<rparr>)"

definition proposal_dropped :: "runtimeOwnerState \<Rightarrow> reconciliationCollection \<Rightarrow> reconciliationIssueUpdateProposal \<Rightarrow> bool" where
  "proposal_dropped state c u \<longleftrightarrow>
     (let k = ownerAttemptKey (up_Repository u) (up_Issue u) (up_AttributionAttempt u);
          known = fm_has (s_AttemptGenerations state) k in
      up_Kind u = githubIssueDependencyClear \<and>
      (fm_has (s_Tombstones state) k \<or>
       (case fmlookup (cl_AttemptGenerations c) k of
          Some captured \<Rightarrow> captured \<noteq> fm_get (s_AttemptGenerations state) k 0
        | None \<Rightarrow> known)))"

definition prepareReconciliationIssueGroup ::
  "runtimeOwnerState \<Rightarrow> reconciliationCollection \<Rightarrow> reconciliationIssueGroup \<Rightarrow> reconciliationIssueGroup" where
  "prepareReconciliationIssueGroup state c g =
     g\<lparr>ig_Fact := maskStaleIssueAttemptFacts state c (ig_Fact g),
       ig_IssueUpdates := filter (\<lambda>u. \<not> proposal_dropped state c u) (ig_IssueUpdates g)\<rparr>"

section \<open>Admissions that depend on an observation\<close>

definition observationSensitiveOperatorAdmission :: "controlReceipt \<Rightarrow> bool" where
  "observationSensitiveOperatorAdmission r \<longleftrightarrow>
     (case r_Admission r of
        None \<Rightarrow> False
      | Some a \<Rightarrow> q_Action (r_Request r) \<in> set [''dismiss'', ''recover''] \<or>
          q_Action (r_Request r) = ''archive'' \<and> ad_RemoteOnly a)"

definition awaiting_admission :: "controlReceipt \<Rightarrow> bool" where
  "awaiting_admission r \<longleftrightarrow> r_State r = ''pending'' \<and> r_Phase r = operatorPhaseAdmissionPending"

definition request_issue_key :: "controlReceipt \<Rightarrow> string" where
  "request_issue_key r = ownerIssueKey (q_Repository (r_Request r)) (q_Issue (r_Request r))"

definition hasObservationSensitiveAdmission :: "runtimeOwnerState \<Rightarrow> string \<Rightarrow> bool" where
  "hasObservationSensitiveAdmission state k \<longleftrightarrow>
     list_ex (\<lambda>r. awaiting_admission r \<and> observationSensitiveOperatorAdmission r \<and> request_issue_key r = k)
       (s_ControlReceipts state)"

section \<open>One issue\<close>

definition observed_generation :: "reconciliationAttemptObservation option \<Rightarrow> reconciliationAttemptFact \<Rightarrow> uint64 owner_result" where
  "observed_generation old f =
     (case old of
        None \<Rightarrow> Inr 1
      | Some o' \<Rightarrow>
          if ao_Present o' \<and> ao_Fact o' = f then Inr (ao_Generation o')
          else if ao_Generation o' = uint64_max then Inl (OtherError ''attempt observation generation overflow'')
          else Inr (ao_Generation o' + 1))"

fun observe_attempts ::
  "runtimeOwnerState \<Rightarrow> reconciliationCollection \<Rightarrow> uint64 \<Rightarrow> string list \<Rightarrow> reconciliationAttemptFact list \<Rightarrow>
   (string, reconciliationAttemptObservation) fmap \<Rightarrow> (string, reconciliationAttemptObservation) fmap owner_result" where
  "observe_attempts state c source seen [] attempts = Inr attempts"
| "observe_attempts state c source seen (f # fs) attempts =
     (let k = observed_key f; owner = fm_get (s_AttemptGenerations state) k 0 in
      if k \<in> set seen then Inl StateConflict
      else if fm_has (s_Tombstones state) k \<or> owner \<noteq> fm_get (cl_AttemptGenerations c) k 0
      then observe_attempts state c source (k # seen) fs attempts
      else err_bind (observed_generation (fmlookup attempts k) f) (\<lambda>generation.
        observe_attempts state c source (k # seen) fs (fmupd k
          \<lparr>ao_Present = True, ao_Generation = generation, ao_OwnerGeneration = owner, ao_SourceIssueGeneration = source,
           ao_ObservationEpoch = id_Epoch (cl_Identity c), ao_LastCycleID = id_CycleID (cl_Identity c), ao_Fact = f\<rparr>
          attempts)))"

text \<open>An attempt that a complete collection no longer lists is marked absent.\<close>

definition now_absent ::
  "runtimeOwnerState \<Rightarrow> reconciliationCollection \<Rightarrow> uint64 \<Rightarrow> string list \<Rightarrow> string \<Rightarrow> reconciliationAttemptObservation \<Rightarrow> bool" where
  "now_absent state c source seen k a \<longleftrightarrow>
     \<not> (k \<in> set seen \<or> ao_SourceIssueGeneration a \<noteq> source \<or>
        ao_ObservationEpoch a = id_Epoch (cl_Identity c) \<and> id_CycleID (cl_Identity c) \<le> ao_LastCycleID a) \<and>
     fmlookup (cl_AttemptGenerations c) k = Some (fm_get (s_AttemptGenerations state) k 0)"

definition absent_attempt ::
  "runtimeOwnerState \<Rightarrow> reconciliationCollection \<Rightarrow> uint64 \<Rightarrow> string \<Rightarrow> reconciliationAttemptObservation \<Rightarrow>
   reconciliationAttemptObservation" where
  "absent_attempt state c source k a =
     \<lparr>ao_Present = False, ao_Generation = (if ao_Present a then ao_Generation a + 1 else ao_Generation a),
      ao_OwnerGeneration = fm_get (s_AttemptGenerations state) k 0, ao_SourceIssueGeneration = source,
      ao_ObservationEpoch = id_Epoch (cl_Identity c), ao_LastCycleID = id_CycleID (cl_Identity c),
      ao_Fact = empty_attempt_fact\<rparr>"

definition withdraw_attempts ::
  "runtimeOwnerState \<Rightarrow> reconciliationCollection \<Rightarrow> uint64 \<Rightarrow> string list \<Rightarrow>
   (string, reconciliationAttemptObservation) fmap \<Rightarrow> (string, reconciliationAttemptObservation) fmap owner_result" where
  "withdraw_attempts state c source seen attempts =
     (if \<not> cl_Complete c then Inr attempts
      else if fm_ex (\<lambda>k a. now_absent state c source seen k a \<and> ao_Present a \<and> ao_Generation a = uint64_max) attempts
      then Inl (OtherError ''attempt observation generation overflow'')
      else Inr (fm_step (\<lambda>k a. Some (if now_absent state c source seen k a then absent_attempt state c source k a else a))
        attempts))"

definition observation_content :: "reconciliationObservation \<Rightarrow> reconciliationObservation" where
  "observation_content ob =
     ob\<lparr>ob_ObservationEpoch := 0, ob_LastCycleID := 0, ob_InputDigest := [],
       ob_Attempts := fmmap (\<lambda>a. a\<lparr>ao_ObservationEpoch := 0, ao_LastCycleID := 0\<rparr>) (ob_Attempts ob)\<rparr>"

definition reconciliationObservationContentEqual :: "reconciliationObservation \<Rightarrow> reconciliationObservation \<Rightarrow> bool" where
  "reconciliationObservationContentEqual l r \<longleftrightarrow> observation_content l = observation_content r"

definition issue_changed :: "reconciliationObservation \<Rightarrow> reconciliationIssueGroup \<Rightarrow> bool" where
  "issue_changed previous g \<longleftrightarrow>
     \<not> ob_Present previous \<or> ob_Fact previous \<noteq> ig_Fact g \<or> ob_IssueUpdates previous \<noteq> ig_IssueUpdates g"

definition next_issue_generation :: "reconciliationObservation option \<Rightarrow> reconciliationIssueGroup \<Rightarrow> uint64 owner_result" where
  "next_issue_generation previous g =
     (case previous of
        None \<Rightarrow> Inr 1
      | Some ob \<Rightarrow>
          if \<not> issue_changed ob g then Inr (ob_Generation ob)
          else if ob_Generation ob = uint64_max then Inl (OtherError ''issue observation generation overflow'')
          else Inr (ob_Generation ob + 1))"

definition kept_attempts ::
  "reconciliationObservation option \<Rightarrow> reconciliationIssueGroup \<Rightarrow> (string, reconciliationAttemptObservation) fmap" where
  "kept_attempts previous g =
     (case previous of None \<Rightarrow> fmempty | Some ob \<Rightarrow> if issue_changed ob g then fmempty else ob_Attempts ob)"

definition next_observation ::
  "Env \<Rightarrow> runtimeOwnerState \<Rightarrow> reconciliationCollection \<Rightarrow> reconciliationIssueGroup \<Rightarrow> reconciliationObservation option \<Rightarrow>
   reconciliationObservation owner_result" where
  "next_observation env state c g previous =
     err_bind (next_issue_generation previous g) (\<lambda>generation.
     err_bind (observe_attempts state c generation [] (ig_Attempts g) (kept_attempts previous g)) (\<lambda>seen.
     err_bind (withdraw_attempts state c generation (map observed_key (ig_Attempts g)) seen) (\<lambda>attempts.
     Inr \<lparr>ob_Present = True, ob_Generation = generation,
       ob_OwnerGeneration = fm_get (s_IssueGenerations state) (group_key g) 0,
       ob_ObservationEpoch = id_Epoch (cl_Identity c), ob_LastCycleID = id_CycleID (cl_Identity c),
       ob_InputDigest = reconciliationInputDigest env (cl_Scope c) (cl_Complete c) (group_key g) (Some g),
       ob_Fact = ig_Fact g, ob_IssueUpdates = ig_IssueUpdates g, ob_Attempts = attempts\<rparr>)))"

definition deleteIssueScopedEffects :: "runtimeOwnerState \<Rightarrow> string \<Rightarrow> int \<Rightarrow> runtimeOwnerState" where
  "deleteIssueScopedEffects state repository issue =
     state\<lparr>s_Effects := fm_keep (\<lambda>k e. effectReferencedByReceipt state k \<or> \<not> e_of_attempt e repository issue 0)
       (s_Effects state)\<rparr>"

text \<open>The first observation of an issue starts its generation.\<close>

definition own_issue :: "runtimeOwnerState \<Rightarrow> reconciliationIssueGroup \<Rightarrow> runtimeOwnerState" where
  "own_issue state g =
     (if fm_get (s_IssueGenerations state) (group_key g) 0 = 0
      then deleteIssueScopedEffects
        (state\<lparr>s_IssueGenerations := fmupd (group_key g) 1 (s_IssueGenerations state)\<rparr>)
        (fi_Repository (ig_Fact g)) (fi_Issue (ig_Fact g))
      else state)"

text \<open>A published attempt that the owner runs gets its recovery state.\<close>

definition hydratable :: "runtimeOwnerState \<Rightarrow> reconciliationObservation \<Rightarrow> reconciliationAttemptFact \<Rightarrow> bool" where
  "hydratable state ob f \<longleftrightarrow>
     (case (fmlookup (ob_Attempts ob) (observed_key f), fmlookup (s_Attempts state) (observed_key f)) of
        (Some a, Some r) \<Rightarrow>
          ao_Present a \<and> (af_State f = ''active'' \<or> af_State f = ''review-ready'') \<and> af_PublicationConfirmed f \<and>
          1 \<le> af_PR f \<and> af_HeadSHA f \<noteq> [] \<and> af_BaseSHA f = m_BaseSHA (a_Manifest r)
      | _ \<Rightarrow> False)"

definition hydrate_attempt ::
  "Env \<Rightarrow> reconciliationObservation \<Rightarrow> runtimeOwnerState \<Rightarrow> reconciliationAttemptFact \<Rightarrow> runtimeOwnerState owner_result" where
  "hydrate_attempt env ob state f =
     (if \<not> hydratable state ob f then Inr state
      else
        let stored = (case fmlookup (s_Recoveries state) (observed_key f) of None \<Rightarrow> zero_pr_state | Some r \<Rightarrow> rr_State r);
            owner = (case fmlookup (ob_Attempts ob) (observed_key f) of None \<Rightarrow> 0 | Some a \<Rightarrow> ao_OwnerGeneration a) in
        case HydrateRecoveryState (v_sha env) stored (f\<lparr>af_Diagnostic := [], af_Checks := []\<rparr>) of
          Inl e \<Rightarrow> Inl StateConflict
        | Inr s \<Rightarrow> Inr (with_recovery state (observed_key f)
            \<lparr>rr_IssueGeneration = ob_OwnerGeneration ob, rr_AttemptGeneration = owner, rr_State = s\<rparr>))"

fun hydrate_all ::
  "Env \<Rightarrow> reconciliationObservation \<Rightarrow> reconciliationAttemptFact list \<Rightarrow> runtimeOwnerState \<Rightarrow> runtimeOwnerState owner_result" where
  "hydrate_all env ob [] state = Inr state"
| "hydrate_all env ob (f # fs) state = err_bind (hydrate_attempt env ob state f) (hydrate_all env ob fs)"

definition observe_issue ::
  "Env \<Rightarrow> runtimeOwnerState \<Rightarrow> reconciliationCollection \<Rightarrow> reconciliationIssueGroup \<Rightarrow> runtimeOwnerState owner_result" where
  "observe_issue env state c g =
     (let k = group_key g; previous = fmlookup (s_Observations state) k; s1 = own_issue state g in
      err_bind (next_observation env s1 c g previous) (\<lambda>ob.
        if (case previous of
            None \<Rightarrow> False
          | Some old \<Rightarrow> ob_ObservationEpoch old = id_Epoch (cl_Identity c) \<and>
              reconciliationObservationContentEqual old ob) \<and> \<not> hasObservationSensitiveAdmission s1 k
        then Inr s1
        else hydrate_all env ob (ig_Attempts g) (s1\<lparr>s_Observations := fmupd k ob (s_Observations s1)\<rparr>)))"

definition applyReconciliationIssue ::
  "Env \<Rightarrow> runtimeOwnerState \<Rightarrow> reconciliationCollection \<Rightarrow> reconciliationIssueGroup \<Rightarrow> runtimeOwnerState owner_result" where
  "applyReconciliationIssue env state c g0 =
     err_bind (count_stale (length (staleReconciliationAttemptKeys state c g0)) state) (\<lambda>s1.
       let g = prepareReconciliationIssueGroup s1 c g0;
           digest = reconciliationInputDigest env (cl_Scope c) (cl_Complete c) (group_key g) (Some g);
           i = cl_Identity c in
       case fmlookup (s_Observations s1) (group_key g) of
         Some old \<Rightarrow>
           if ob_ObservationEpoch old = id_Epoch i \<and> id_CycleID i \<le> ob_LastCycleID old then
             (if id_CycleID i = ob_LastCycleID old \<and> ob_InputDigest old \<noteq> digest then Inl StateConflict else Inr s1)
           else observe_issue env s1 c g
       | None \<Rightarrow> observe_issue env s1 c g)"

section \<open>One collection\<close>

text \<open>A cycle applied before is not applied again: a repeated one must have read the same.\<close>

definition replayed_cycle ::
  "(string, appliedReconciliationCycle) fmap \<Rightarrow> reconciliationCollection \<Rightarrow> string \<Rightarrow> string \<Rightarrow> runtimeOwnerState \<Rightarrow>
   runtimeOwnerState owner_result option" where
  "replayed_cycle applied c k digest state =
     (case fmlookup applied k of
        None \<Rightarrow> None
      | Some a \<Rightarrow>
          let cycle = id_CycleID (cl_Identity c) in
          if ay_cycle a < cycle then None
          else Some (if cycle = ay_cycle a \<and> digest \<noteq> ay_digest a then Inl StateConflict
            else if cycle < ay_cycle a then countStaleReconciliation state else Inr state))"

definition apply_group ::
  "Env \<Rightarrow> (string, appliedReconciliationCycle) fmap \<Rightarrow> reconciliationCollection \<Rightarrow> reconciliationIssueGroup \<Rightarrow>
   runtimeOwnerState \<Rightarrow> runtimeOwnerState owner_result" where
  "apply_group env applied c g0 state =
     (let k = group_key g0 in
      if \<not> reconciliationIssueGenerationMatches state k (fm_get (cl_IssueGenerations c) k 0)
      then countStaleReconciliation state
      else
        let g = prepareReconciliationIssueGroup state c g0;
            digest = reconciliationInputDigest env (cl_Scope c) (cl_Complete c) k (Some g) in
        case replayed_cycle applied c k digest state of
          Some r \<Rightarrow> r
        | None \<Rightarrow> applyReconciliationIssue env state c g)"

fun apply_groups ::
  "Env \<Rightarrow> (string, appliedReconciliationCycle) fmap \<Rightarrow> reconciliationCollection \<Rightarrow> reconciliationIssueGroup list \<Rightarrow>
   runtimeOwnerState \<Rightarrow> runtimeOwnerState owner_result" where
  "apply_groups env applied c [] state = Inr state"
| "apply_groups env applied c (g # gs) state =
     err_bind (apply_group env applied c g state) (apply_groups env applied c gs)"

text \<open>The issues in scope that a complete collection did not list.\<close>

definition unlisted_keys :: "Env \<Rightarrow> runtimeOwnerState \<Rightarrow> reconciliationCollection \<Rightarrow> string list" where
  "unlisted_keys env state c =
     (let seen = map group_key (cl_Issues c);
          known = map fst (fm_entries (v_order env) (s_Observations state)) @
            map (\<lambda>(_, r). ownerIssueKey (m_Repository (a_Manifest r)) (m_Issue (a_Manifest r)))
              (fm_entries (v_order env) (s_Attempts state));
          keys = remdups (filter (\<lambda>k. reconciliationScopeContains (cl_Scope c) k \<and> k \<notin> set seen) known);
          own = ownerIssueKey (sk_Repository (cl_Scope c)) (sk_Issue (cl_Scope c)) in
      if sk_Kind (cl_Scope c) = reconciliationIssueScope \<and> own \<notin> set seen \<and> own \<notin> set keys then keys @ [own] else keys)"

definition absent_observation ::
  "runtimeOwnerState \<Rightarrow> reconciliationCollection \<Rightarrow> string \<Rightarrow> string \<Rightarrow> reconciliationObservation option \<Rightarrow>
   reconciliationObservation owner_result" where
  "absent_observation state c k digest previous =
     (let next = empty_observation\<lparr>ob_Generation := 1, ob_OwnerGeneration := fm_get (s_IssueGenerations state) k 0,
            ob_ObservationEpoch := id_Epoch (cl_Identity c), ob_LastCycleID := id_CycleID (cl_Identity c),
            ob_InputDigest := digest\<rparr> in
      case previous of
        None \<Rightarrow> Inr next
      | Some old \<Rightarrow>
          if \<not> ob_Present old then Inr (next\<lparr>ob_Generation := ob_Generation old\<rparr>)
          else if ob_Generation old = uint64_max then Inl (OtherError ''issue observation generation overflow'')
          else Inr (next\<lparr>ob_Generation := ob_Generation old + 1\<rparr>))"

definition withdraw_issue ::
  "runtimeOwnerState \<Rightarrow> reconciliationCollection \<Rightarrow> string \<Rightarrow> string \<Rightarrow> runtimeOwnerState owner_result" where
  "withdraw_issue state c k digest =
     (let previous = fmlookup (s_Observations state) k in
      if issueFromOwnerKey k < 1 then Inl StateConflict
      else err_bind (absent_observation state c k digest previous) (\<lambda>ob.
        Inr (if (case previous of
              None \<Rightarrow> False
            | Some old \<Rightarrow> ob_ObservationEpoch old = id_Epoch (cl_Identity c) \<and>
                reconciliationObservationContentEqual old ob) \<and> \<not> hasObservationSensitiveAdmission state k
          then state else state\<lparr>s_Observations := fmupd k ob (s_Observations state)\<rparr>)))"

definition apply_unlisted ::
  "Env \<Rightarrow> (string, appliedReconciliationCycle) fmap \<Rightarrow> reconciliationCollection \<Rightarrow> string \<Rightarrow> runtimeOwnerState \<Rightarrow>
   runtimeOwnerState owner_result" where
  "apply_unlisted env applied c k state =
     (if \<not> reconciliationIssueGenerationMatches state k (fm_get (cl_IssueGenerations c) k 0)
      then countStaleReconciliation state
      else
        let digest = reconciliationInputDigest env (cl_Scope c) (cl_Complete c) k None; i = cl_Identity c in
        case replayed_cycle applied c k digest state of
          Some r \<Rightarrow> r
        | None \<Rightarrow>
            (case fmlookup (s_Observations state) k of
               Some old \<Rightarrow>
                 if ob_ObservationEpoch old = id_Epoch i \<and> id_CycleID i \<le> ob_LastCycleID old then
                   (if id_CycleID i = ob_LastCycleID old then
                      (if ob_InputDigest old \<noteq> digest then Inl StateConflict else Inr state)
                    else countStaleReconciliation state)
                 else withdraw_issue state c k digest
             | None \<Rightarrow> withdraw_issue state c k digest))"

fun apply_all_unlisted ::
  "Env \<Rightarrow> (string, appliedReconciliationCycle) fmap \<Rightarrow> reconciliationCollection \<Rightarrow> string list \<Rightarrow> runtimeOwnerState \<Rightarrow>
   runtimeOwnerState owner_result" where
  "apply_all_unlisted env applied c [] state = Inr state"
| "apply_all_unlisted env applied c (k # ks) state =
     err_bind (apply_unlisted env applied c k state) (apply_all_unlisted env applied c ks)"

definition applyReconciliation ::
  "Env \<Rightarrow> runtimeOwnerState \<Rightarrow> reconciliationCollection \<Rightarrow> (string, appliedReconciliationCycle) fmap \<Rightarrow>
   runtimeOwnerState owner_result" where
  "applyReconciliation env state c0 applied =
     (let c = normalizeReconciliationCollection c0; i = cl_Identity c in
      case validateReconciliationCollection env (s_Repository state) c of
        Some x \<Rightarrow> Inl x
      | None \<Rightarrow>
          if id_Epoch i \<noteq> s_Epoch state \<or> id_SourceRevision i = 0 \<or> s_Revision state < id_SourceRevision i
          then countStaleReconciliation state
          else err_bind (apply_groups env applied c (cl_Issues c) state) (\<lambda>s1.
            err_bind (if cl_Complete c then apply_all_unlisted env applied c (unlisted_keys env s1 c) s1 else Inr s1)
              (\<lambda>s2. Inr (revokeInvalidPlanReviewers s2 False))))"

section \<open>Cycles already applied\<close>

definition recordAppliedReconciliationCycle ::
  "(string, appliedReconciliationCycle) fmap \<Rightarrow> string \<Rightarrow> uint64 \<Rightarrow> string \<Rightarrow> (string, appliedReconciliationCycle) fmap" where
  "recordAppliedReconciliationCycle applied k cycle digest =
     (case fmlookup applied k of
        Some a \<Rightarrow> if ay_cycle a < cycle then fmupd k \<lparr>ay_cycle = cycle, ay_digest = digest\<rparr> applied else applied
      | None \<Rightarrow> fmupd k \<lparr>ay_cycle = cycle, ay_digest = digest\<rparr> applied)"

definition recordAppliedReconciliationCycles ::
  "Env \<Rightarrow> (string, appliedReconciliationCycle) fmap \<Rightarrow> reconciliationCollection \<Rightarrow> runtimeOwnerState \<Rightarrow> bool \<Rightarrow>
   (string, appliedReconciliationCycle) fmap" where
  "recordAppliedReconciliationCycles env applied c state changed =
     (let i = cl_Identity c; cycle = id_CycleID i;
          maxSource = (if changed \<and> 0 < s_Revision state then s_Revision state - 1 else s_Revision state);
          current = (\<lambda>k. reconciliationIssueGenerationMatches state k (fm_get (cl_IssueGenerations c) k 0));
          digest = reconciliationInputDigest env (cl_Scope c) (cl_Complete c) in
      if id_Epoch i \<noteq> s_Epoch state \<or> id_SourceRevision i = 0 \<or> maxSource < id_SourceRevision i then applied
      else
        let a1 = foldl (\<lambda>a g. recordAppliedReconciliationCycle a (group_key g) cycle
              (digest (group_key g) (Some (prepareReconciliationIssueGroup state c g))))
              applied (filter (\<lambda>g. current (group_key g)) (cl_Issues c)) in
        if \<not> cl_Complete c then a1
        else foldl (\<lambda>a k. recordAppliedReconciliationCycle a k cycle (digest k None)) a1
          (filter current (filter (reconciliationScopeContains (cl_Scope c)) (unlisted_keys env state c))))"

end
