(* ===== verification/Status_Projection.thy ===== *)
theory Status_Projection
  imports Scheduler Attempt_Recovery Reconciliation_Apply
begin

text \<open>
  What the operator sees of the ledger (\<^verbatim>\<open>projectOwnerStatus\<close> of \<^verbatim>\<open>status_replica_v2.go\<close>, with the helpers
  of \<^verbatim>\<open>main.go\<close>): the observed facts and the manifests of the current generations are joined into one
  status per attempt, the scheduler decides about the issues without one, and pending physical work is
  written over both.  The operator commands decide on the same projection.  The scheduler's maps meet
  their keys in the order of the environment.
\<close>

section \<open>Facts of an issue\<close>

record RecoveryIssueFact =
  if_Repository :: string
  if_Title :: string
  if_Body :: string
  if_BaseSHA :: string
  if_BaseBranch :: string
  if_Issue :: int
  if_Attempt :: int
  if_CurrentAttempt :: int
  if_Priority :: int
  if_CreatedAt :: time
  if_Dependencies :: "int list"
  if_SatisfiedDependencies :: "int list"
  if_Paths :: "string list"
  if_Blockers :: "string list"
  if_Eligible :: bool
  if_Active :: bool
  if_Completed :: bool
  if_Retry :: bool
  if_Cancelled :: bool
  if_Closed :: bool
  if_DispatchAuthorized :: bool
  if_RecoveryAuthorized :: bool
  if_RecoveryAttempt :: int
  if_NeedsAttention :: bool
  if_MachineStatusProtocol :: int
  if_MachineStatusAttempt :: int
  if_MachineStatusSequence :: uint64
  if_MachineStatusNeedsAttention :: bool
  if_MachineStatusReason :: string
  if_ActiveAttempt :: "reconciliationAttemptFact option"
  if_TerminalAttempts :: "reconciliationAttemptFact list"

record dashboardIssueQuarantine =
  dq_Issue :: int
  dq_Diagnostic :: string

record dashboardStatusSnapshot =
  ds_UpdatedAt :: time
  ds_OwnerEpoch :: uint64
  ds_OwnerRevision :: uint64
  ds_Statuses :: "RecoveryStatus list"
  ds_IssueQuarantines :: "dashboardIssueQuarantine list"
  ds_ReconciliationError :: string
  ds_ReconciliationErrorAt :: time
  ds_ReadOnly :: bool

text \<open>A time is counted from the zero time, a \<^verbatim>\<open>UnixNano\<close> from 1970; zero stands for no time.\<close>

definition created_at :: "int \<Rightarrow> time" where
  "created_at nano = (if nano = 0 then 0 else nano + 62135596800000000000)"

definition expandIssueFact :: "reconciliationIssueFact \<Rightarrow> RecoveryIssueFact" where
  "expandIssueFact f =
     \<lparr>if_Repository = fi_Repository f, if_Title = fi_Title f, if_Body = [], if_BaseSHA = fi_BaseSHA f,
      if_BaseBranch = fi_BaseBranch f, if_Issue = fi_Issue f, if_Attempt = fi_Attempt f,
      if_CurrentAttempt = fi_CurrentAttempt f, if_Priority = fi_Priority f,
      if_CreatedAt = created_at (fi_CreatedAtUnixNano f), if_Dependencies = fi_Dependencies f,
      if_SatisfiedDependencies = fi_SatisfiedDependencies f, if_Paths = fi_Paths f, if_Blockers = fi_Blockers f,
      if_Eligible = fi_Eligible f, if_Active = fi_Active f, if_Completed = fi_Completed f, if_Retry = fi_Retry f,
      if_Cancelled = fi_Cancelled f, if_Closed = fi_Closed f, if_DispatchAuthorized = fi_DispatchAuthorized f,
      if_RecoveryAuthorized = fi_RecoveryAuthorized f, if_RecoveryAttempt = fi_RecoveryAttempt f,
      if_NeedsAttention = fi_NeedsAttention f, if_MachineStatusProtocol = fi_MachineStatusProtocol f,
      if_MachineStatusAttempt = fi_MachineStatusAttempt f, if_MachineStatusSequence = fi_MachineStatusSequence f,
      if_MachineStatusNeedsAttention = fi_MachineStatusNeedsAttention f,
      if_MachineStatusReason = fi_MachineStatusReason f, if_ActiveAttempt = fi_ActiveAttempt f,
      if_TerminalAttempts = fi_TerminalAttempts f\<rparr>"

section \<open>The join with the schedule\<close>

definition same_attempt_fact :: "reconciliationAttemptFact \<Rightarrow> reconciliationAttemptFact \<Rightarrow> bool" where
  "same_attempt_fact f g \<longleftrightarrow>
     af_Repository f = af_Repository g \<and> af_Issue f = af_Issue g \<and> af_Attempt f = af_Attempt g"

definition remote_fact :: "reconciliationAttemptFact \<Rightarrow> AttemptFact" where
  "remote_fact f = \<lparr>at_Repository = af_Repository f, at_Issue = af_Issue f, at_Attempt = af_Attempt f,
     at_BaseSHA = af_BaseSHA f, at_HeadSHA = af_HeadSHA f, at_PR = af_PR f, at_State = af_State f, at_Priority = 0,
     at_Dependencies = [], at_Checks = af_Checks f, at_Diagnostic = af_Diagnostic f\<rparr>"

definition binding_fact :: "reconciliationAttemptFact \<Rightarrow> AttemptFact" where
  "binding_fact f = (remote_fact f)\<lparr>at_HeadSHA := [], at_PR := 0, at_Checks := []\<rparr>"

definition same_binding :: "reconciliationAttemptFact \<Rightarrow> AttemptFact \<Rightarrow> bool" where
  "same_binding b f \<longleftrightarrow>
     at_Repository f = af_Repository b \<and> at_Issue f = af_Issue b \<and> at_Attempt f = af_Attempt b \<and>
     at_BaseSHA f = af_BaseSHA b \<and> at_State f = af_State b"

definition add_terminal :: "AttemptFact list \<Rightarrow> reconciliationAttemptFact \<Rightarrow> AttemptFact list" where
  "add_terminal facts b = (if list_ex (same_binding b) facts then facts else facts @ [binding_fact b])"

definition add_bindings ::
  "reconciliationAttemptFact list \<times> AttemptFact list \<Rightarrow> RecoveryIssueFact \<Rightarrow> reconciliationAttemptFact list \<times> AttemptFact list" where
  "add_bindings acc issue =
     (let (remote, facts) =
        (case if_ActiveAttempt issue of
           None \<Rightarrow> acc
         | Some b \<Rightarrow>
             if list_ex (same_attempt_fact b) (fst acc) then acc else (fst acc @ [b], snd acc @ [binding_fact b])) in
      (remote, foldl add_terminal facts (if_TerminalAttempts issue)))"

definition recoveryAttemptFacts ::
  "reconciliationAttemptFact list \<Rightarrow> RecoveryIssueFact list \<Rightarrow> reconciliationAttemptFact list \<times> AttemptFact list" where
  "recoveryAttemptFacts remote issues = foldl add_bindings (remote, map remote_fact remote) issues"

definition manifest_of_issue :: "RecoveryIssueFact \<Rightarrow> Manifest \<Rightarrow> bool" where
  "manifest_of_issue issue m \<longleftrightarrow> m_Repository m = if_Repository issue \<and> m_Issue m = if_Issue issue"

definition terminal_unconfirmed :: "AttemptFact list \<Rightarrow> RecoveryIssueFact \<Rightarrow> Manifest \<Rightarrow> bool" where
  "terminal_unconfirmed facts issue m \<longleftrightarrow>
     manifest_of_issue issue m \<and> m_State m \<in> set [''failed'', ''cancelled'', ''completed''] \<and>
     \<not> ((case if_ActiveAttempt issue of None \<Rightarrow> False | Some b \<Rightarrow> af_Attempt b = m_Attempt m) \<or>
        list_ex (\<lambda>b. af_Attempt b = m_Attempt m) (if_TerminalAttempts issue)) \<and>
     \<not> list_ex (MatchesPublishedAttempt m) facts"

definition terminal_blocker :: "AttemptFact list \<Rightarrow> RecoveryIssueFact \<Rightarrow> Manifest \<Rightarrow> RecoveryIssueFact" where
  "terminal_blocker facts issue m =
     (if \<not> terminal_unconfirmed facts issue m then issue
      else if if_Retry issue \<and> m_Attempt m < if_Attempt issue
      then issue\<lparr>if_Attempt := max (if_Attempt issue) (m_Attempt m + 1)\<rparr>
      else issue\<lparr>if_Eligible := False, if_RecoveryAuthorized := False,
        if_Blockers := if_Blockers issue @ [''local terminal attempt awaits or has durable GitHub outcome'']\<rparr>)"

definition addTerminalAttemptBlockers ::
  "RecoveryIssueFact list \<Rightarrow> Manifest list \<Rightarrow> AttemptFact list \<Rightarrow> RecoveryIssueFact list" where
  "addTerminalAttemptBlockers issues manifests facts =
     map (\<lambda>issue. foldl (terminal_blocker facts) issue manifests) issues"

fun state_text :: "State \<Rightarrow> string" where
  "state_text Blocked = ''blocked''"
| "state_text Queued = ''queued''"
| "state_text Runnable = ''runnable''"
| "state_text Active = ''active''"
| "state_text Completed = ''completed''"
| "state_text Cancelled = ''cancelled''"

definition scheduled_issue :: "RecoveryIssueFact \<Rightarrow> Issue" where
  "scheduled_issue f = \<lparr>i_Repository = if_Repository f, i_Number = if_Issue f, i_Priority = if_Priority f,
     i_CreatedAt = if_CreatedAt f, i_Dependencies = if_Dependencies f,
     i_SatisfiedDependencies = if_SatisfiedDependencies f, i_Paths = if_Paths f, i_Eligible = if_Eligible f,
     i_Blockers = if_Blockers f, i_Active = if_Active f, i_Completed = if_Completed f, i_Cancelled = False\<rparr>"

definition current_attempt :: "RecoveryIssueFact \<Rightarrow> int" where
  "current_attempt f = (if 0 < if_CurrentAttempt f then if_CurrentAttempt f else if_Attempt f)"

definition joined_issue :: "RecoveryIssueFact \<Rightarrow> RecoveryStatus \<Rightarrow> RecoveryStatus" where
  "joined_issue f s =
     (if \<not> (st_Repository s = if_Repository f \<and> st_Issue s = if_Issue f) then s
      else
        let current = (st_Attempt s = current_attempt f) in
        s\<lparr>st_Title := if_Title f, st_Priority := if_Priority f, st_Dependencies := if_Dependencies f,
          st_IssueClosed := if_Closed f, st_DispatchAuthorized := if_DispatchAuthorized f,
          st_NeedsAttention := (current \<and> if_NeedsAttention f),
          st_Blockers := (if current then st_Blockers s @ if_Blockers f else st_Blockers s),
          st_Retryable := (st_Retryable s \<and> if_RecoveryAuthorized f \<and>
            (st_State s = ''failed'' \<longrightarrow> if_RecoveryAttempt f = st_Attempt s))\<rparr>)"

definition scheduled_status :: "RecoveryIssueFact \<Rightarrow> Decision \<Rightarrow> RecoveryStatus" where
  "scheduled_status f d = empty_recovery_status\<lparr>st_Repository := if_Repository f, st_Issue := if_Issue f,
     st_Title := if_Title f, st_Attempt := if_Attempt f, st_State := state_text (d_State d),
     st_CurrentPhase := state_text (d_State d), st_Priority := if_Priority f, st_Dependencies := if_Dependencies f,
     st_Blockers := if_Blockers f, st_Action := d_Explanation d, st_NeedsAttention := if_NeedsAttention f,
     st_IssueClosed := if_Closed f\<rparr>"

definition join_issue :: "Decision list \<Rightarrow> RecoveryStatus list \<Rightarrow> RecoveryIssueFact \<Rightarrow> RecoveryStatus list" where
  "join_issue decisions statuses f =
     (if list_ex (\<lambda>s. st_Repository s = if_Repository f \<and> st_Issue s = if_Issue f) statuses
      then map (joined_issue f) statuses
      else if if_Completed f then statuses
      else (case find (\<lambda>d. d_Repository d = if_Repository f \<and> d_Number d = if_Issue f) decisions of
          None \<Rightarrow> statuses
        | Some d \<Rightarrow> statuses @ [scheduled_status f d]))"

text \<open>The scheduler always returns (\<^verbatim>\<open>Schedule_total\<close>), so the empty list of decisions is never used.\<close>

definition scheduled_decisions :: "map_orders \<Rightarrow> RecoveryIssueFact list \<Rightarrow> int \<Rightarrow> Decision list" where
  "scheduled_decisions mo issues capacity =
     (case Schedule mo (map scheduled_issue issues) \<lparr>c_Global = capacity, c_Repositories = []\<rparr> of
        None \<Rightarrow> [] | Some ds \<Rightarrow> ds)"

definition joinIssueProjection ::
  "map_orders \<Rightarrow> RecoveryStatus list \<Rightarrow> RecoveryIssueFact list \<Rightarrow> int \<Rightarrow> RecoveryStatus list \<times> Decision list" where
  "joinIssueProjection mo statuses issues capacity =
     (let decisions = scheduled_decisions mo issues capacity in
      (foldl (join_issue decisions) statuses issues, decisions))"

definition issue_order :: "(string list \<Rightarrow> string list) \<Rightarrow> Issue list \<Rightarrow> Issue list" where
  "issue_order ord issues = concat (map (\<lambda>k. filter (\<lambda>i. key i = k) issues) (ord (map key issues)))"

definition number_order :: "(string list \<Rightarrow> string list) \<Rightarrow> int list \<Rightarrow> int list" where
  "number_order ord numbers = concat (map (\<lambda>k. filter (\<lambda>n. itoa n = k) numbers) (ord (map itoa numbers)))"

definition env_orders :: "Env \<Rightarrow> map_orders" where
  "env_orders env = (issue_order (v_order env), v_order env, \<lambda>_. number_order (v_order env))"

definition active_issue :: "Manifest list \<Rightarrow> RecoveryIssueFact \<Rightarrow> RecoveryIssueFact" where
  "active_issue manifests f =
     f\<lparr>if_Active := (if_Active f \<or>
       list_ex (\<lambda>m. manifest_of_issue f m \<and> m_State m \<in> set [''preparing'', ''running'']) manifests)\<rparr>"

definition projectRecoveryStatuses ::
  "Env \<Rightarrow> AttemptFact list \<Rightarrow> RecoveryIssueFact list \<Rightarrow> Manifest list \<Rightarrow> int \<Rightarrow> RuntimeCheck option \<Rightarrow>
   RecoveryStatus list \<times> Decision list" where
  "projectRecoveryStatuses env facts issues manifests capacity check =
     joinIssueProjection (env_orders env) (RecoverChecked (v_sha env) (v_order env) facts manifests check)
       (addTerminalAttemptBlockers (map (active_issue manifests) issues) manifests facts) capacity"

section \<open>What the ledger holds currently\<close>

definition current_observations :: "Env \<Rightarrow> runtimeOwnerState \<Rightarrow> reconciliationObservation list" where
  "current_observations env state =
     map snd (filter (\<lambda>(k, ob). ob_Present ob \<and> ob_ObservationEpoch ob = s_Epoch state \<and>
         ob_OwnerGeneration ob = fm_get (s_IssueGenerations state) k 0)
       (fm_entries (v_order env) (s_Observations state)))"

definition observed_issue :: "runtimeOwnerState \<Rightarrow> reconciliationObservation \<Rightarrow> RecoveryIssueFact" where
  "observed_issue state ob =
     (let f = expandIssueFact (ob_Fact ob); live = (\<lambda>a. \<not> fm_has (s_Tombstones state) (observed_key a)) in
      f\<lparr>if_ActiveAttempt := (case if_ActiveAttempt f of None \<Rightarrow> None | Some a \<Rightarrow> if live a then Some a else None),
        if_TerminalAttempts := filter live (if_TerminalAttempts f)\<rparr>)"

definition current_attempt_facts :: "Env \<Rightarrow> runtimeOwnerState \<Rightarrow> reconciliationObservation \<Rightarrow> reconciliationAttemptFact list" where
  "current_attempt_facts env state ob =
     map (\<lambda>(_, a). ao_Fact a) (filter (\<lambda>(k, a). ao_Present a \<and> ao_SourceIssueGeneration a = ob_Generation ob \<and>
         ao_OwnerGeneration a = fm_get (s_AttemptGenerations state) k 0 \<and> \<not> fm_has (s_Tombstones state) k)
       (fm_entries (v_order env) (ob_Attempts ob)))"

definition current_manifests :: "Env \<Rightarrow> runtimeOwnerState \<Rightarrow> Manifest list" where
  "current_manifests env state =
     map (\<lambda>(_, r). a_Manifest r) (filter (\<lambda>(k, r). \<not> fm_has (s_Tombstones state) k \<and>
         a_Generation r = fm_get (s_AttemptGenerations state) k 0)
       (fm_entries (v_order env) (s_Attempts state)))"

definition compare_remote :: "reconciliationAttemptFact \<Rightarrow> reconciliationAttemptFact \<Rightarrow> int" where
  "compare_remote a b =
     (if compare_ord (af_Issue a) (af_Issue b) \<noteq> 0 then compare_ord (af_Issue a) (af_Issue b)
      else compare_ord (af_Attempt a) (af_Attempt b))"

definition status_key :: "RecoveryStatus \<Rightarrow> string" where
  "status_key s = ownerAttemptKey (st_Repository s) (st_Issue s) (st_Attempt s)"

definition joined_statuses :: "Env \<Rightarrow> runtimeOwnerState \<Rightarrow> int \<Rightarrow> RecoveryStatus list" where
  "joined_statuses env state capacity =
     (let obs = current_observations env state;
          issues = sort_func (\<lambda>a b. compare_ord (if_Issue a) (if_Issue b)) (map (observed_issue state) obs);
          remote = sort_func compare_remote (concat (map (current_attempt_facts env state) obs));
          facts = snd (recoveryAttemptFacts remote issues);
          joined = projectRecoveryStatuses env facts issues (current_manifests env state) capacity
            (Some (\<lambda>_ _. None)) in
      filter (\<lambda>s. \<not> fm_has (s_Tombstones state) (status_key s)) (fst joined))"

section \<open>Pending work over the join\<close>

definition reviewer_session :: "runtimeEffectIntent \<Rightarrow> reviewerEffectRequest \<Rightarrow> AttemptSession" where
  "reviewer_session e v = \<lparr>as_Role = SessionRoleReviewer, as_Name = rv_Session v,
     as_State = (if e_ReviewerLaunched e then ''running'' else ''preparing''), as_Mode = rv_Mode v,
     as_Target = rv_Target v, as_RunID = rv_RunID v, as_Current = True, as_CreatedAt = 0, as_UpdatedAt = 0\<rparr>"

definition reviewed_sessions :: "AttemptSession \<Rightarrow> AttemptSession list \<Rightarrow> AttemptSession list" where
  "reviewed_sessions session sessions =
     (let replaced = map (\<lambda>x. if as_Role x = SessionRoleReviewer then session else x\<lparr>as_Current := False\<rparr>) sessions in
      if list_ex (\<lambda>x. as_Role x = SessionRoleReviewer) sessions then replaced else replaced @ [session])"

definition show_reviewer :: "runtimeEffectIntent \<Rightarrow> reviewerEffectRequest \<Rightarrow> RecoveryStatus \<Rightarrow> RecoveryStatus" where
  "show_reviewer e v s =
     (if \<not> (st_Repository s = e_Repository e \<and> st_Issue s = e_Issue e \<and> st_Attempt s = e_Attempt e) then s
      else s\<lparr>st_Sessions := reviewed_sessions (reviewer_session e v) (st_Sessions s), st_CurrentPhase := ''review'',
        st_Diagnostic := [],
        st_Action := (if st_Blockers s = [] \<and> st_State s \<in> set live_states
          then ''monitor the independent reviewer session'' else st_Action s)\<rparr>)"

definition show_reviewers :: "Env \<Rightarrow> runtimeOwnerState \<Rightarrow> RecoveryStatus list \<Rightarrow> RecoveryStatus list" where
  "show_reviewers env state statuses =
     foldl (\<lambda>ss (_, e). if e_State e \<noteq> ''pending'' then ss
         else case run_observe e of None \<Rightarrow> ss | Some v \<Rightarrow> map (show_reviewer e v) ss)
       statuses (fm_entries (v_order env) (s_Effects state))"

definition attempt_blocked :: "runtimeOwnerState \<Rightarrow> RecoveryStatus \<Rightarrow> bool" where
  "attempt_blocked state s \<longleftrightarrow>
     (let k = status_key s; ob = observation_for state (st_Repository s) (st_Issue s);
          generation = fm_get (s_AttemptGenerations state) k 0;
          accepted = fmlookup (ob_Attempts ob) k in
      ob_ObservationEpoch ob \<noteq> s_Epoch state \<or>
      ob_OwnerGeneration ob \<noteq> issueGeneration state (st_Repository s) (st_Issue s) \<or>
      \<not> ob_Present ob \<and> \<not> fm_has (s_Attempts state) k \<or>
      (case fmlookup (s_Attempts state) k of None \<Rightarrow> True | Some r \<Rightarrow> a_Generation r \<noteq> generation) \<and>
        (case accepted of
           None \<Rightarrow> True
         | Some a \<Rightarrow> \<not> ao_Present a \<or> ao_OwnerGeneration a \<noteq> generation \<or> ao_ObservationEpoch a \<noteq> s_Epoch state) \<or>
      (case fmlookup (s_Attempts state) k of
         None \<Rightarrow> (case accepted of None \<Rightarrow> True | Some a \<Rightarrow> af_State (ao_Fact a) \<noteq> ''completed'')
       | Some r \<Rightarrow> st_State s = ''completed'' \<and> m_State (a_Manifest r) \<noteq> ''completed''))"

definition show_blocked :: "runtimeOwnerState \<Rightarrow> RecoveryStatus \<Rightarrow> RecoveryStatus" where
  "show_blocked state s = s\<lparr>st_OperatorBlocked := attempt_blocked state s\<rparr>"

definition show_inconsistent :: "runtimeOwnerState \<Rightarrow> RecoveryStatus \<Rightarrow> RecoveryStatus" where
  "show_inconsistent state s =
     (case fmlookup (s_Attempts state) (status_key s) of
        None \<Rightarrow> s
      | Some r \<Rightarrow>
          if m_State (a_Manifest r) = ''completed'' \<and>
            (st_State s = ''failed'' \<or> st_State s = ''cancelled'' \<or> st_Retryable s)
          then s\<lparr>st_Retryable := False, st_Action := ''inspect inconsistent completed local attempt before recovery''\<rparr>
          else s)"

definition launch_diagnostics :: "string list" where
  "launch_diagnostics = [''legacy launch identity unproved; manual migration required'',
     ''pending Start launch identity or worker absence is unproved'',
     ''waiting for exact fresh input reconstruction'']"

definition unproved_start :: "runtimeOwnerState \<Rightarrow> RecoveryStatus \<Rightarrow> string \<Rightarrow> runtimeEffectIntent \<Rightarrow> bool" where
  "unproved_start state s k e \<longleftrightarrow>
     k = e_ID e \<and> e_State e = ''pending'' \<and> e_Action e = EffectStart \<and>
     e_of_attempt e (st_Repository s) (st_Issue s) (st_Attempt s) \<and>
     e_IssueGeneration e = issueGeneration state (st_Repository s) (st_Issue s) \<and>
     e_AttemptGeneration e = fm_get (s_AttemptGenerations state) (status_key s) 0 \<and>
     (case fmlookup (s_Attempts state) (status_key s) of
        None \<Rightarrow> False | Some r \<Rightarrow> a_Generation r = e_AttemptGeneration e) \<and>
     e_Diagnostic e \<in> set launch_diagnostics"

definition show_start :: "Env \<Rightarrow> runtimeOwnerState \<Rightarrow> RecoveryStatus \<Rightarrow> RecoveryStatus" where
  "show_start env state s =
     (case find (\<lambda>(k, e). unproved_start state s k e) (fm_entries (v_order env) (s_Effects state)) of
        None \<Rightarrow> s
      | Some (_, e) \<Rightarrow>
          s\<lparr>st_Diagnostic := e_Diagnostic e,
            st_Action :=
              (if e_Diagnostic e = ''legacy launch identity unproved; manual migration required''
               then ''manually migrate the legacy implementation launch identity''
               else if e_Diagnostic e = ''waiting for exact fresh input reconstruction''
               then ''inspect the current GitHub issue snapshot and original implementation launch; no dashboard retry is safe''
               else ''inspect the unproved implementation launch; no dashboard retry is safe''),
            st_NeedsAttention := True, st_Retryable := False\<rparr>)"

definition reviewer_unproved :: string where
  "reviewer_unproved = ''reviewer descendant absence is unproved; physical cleanup remains pending''"

definition show_unconfined :: "Env \<Rightarrow> runtimeOwnerState \<Rightarrow> RecoveryStatus \<Rightarrow> RecoveryStatus" where
  "show_unconfined env state s =
     (if attemptHasUnconfinedReviewer env state (st_Repository s) (st_Issue s) (st_Attempt s)
      then s\<lparr>st_NeedsAttention := True, st_DispatchAuthorized := False, st_Retryable := False,
        st_Diagnostic := reviewer_unproved,
        st_Action := ''archive, abandon, remove, or dismiss can hide the attempt while physical cleanup remains pending''\<rparr>
      else s)"

definition reboot_action :: string where
  "reboot_action = ''start once to persist the boot baseline, reboot the host, then start and verify recovery''"

definition show_quarantine :: "runtimeOwnerState \<Rightarrow> RecoveryStatus \<Rightarrow> RecoveryStatus" where
  "show_quarantine state s =
     (let diagnostic = legacyQuarantineDiagnostic state (ownerIssueKey (st_Repository s) (st_Issue s)) in
      if diagnostic = [] then s
      else s\<lparr>st_NeedsAttention := True, st_OperatorBlocked := True, st_DispatchAuthorized := False,
        st_Retryable := False, st_CurrentPhase := ''physical-unverified'', st_Diagnostic := diagnostic,
        st_Action := reboot_action\<rparr>)"

definition show_stop :: "runtimeOwnerState \<Rightarrow> RecoveryStatus \<Rightarrow> RecoveryStatus" where
  "show_stop state s =
     (case fmlookup (s_Attempts state) (status_key s) of
        None \<Rightarrow> s
      | Some r \<Rightarrow>
          if a_StopEffectID r = [] then s
          else s\<lparr>st_State := ''blocked'', st_CurrentPhase := ''stop-pending'', st_NeedsAttention := True,
            st_OperatorBlocked := True, st_Retryable := False, st_DispatchAuthorized := False,
            st_Blockers := st_Blockers s @ [''physical stop remains pending''],
            st_Diagnostic := ''stop requested; reviewer descendant absence is unproved'',
            st_Action := ''wait for verified physical cleanup before retrying or dispatching''\<rparr>)"

definition show_obligations :: "Env \<Rightarrow> runtimeOwnerState \<Rightarrow> RecoveryStatus \<Rightarrow> RecoveryStatus" where
  "show_obligations env state s =
     show_stop state (show_quarantine state (show_unconfined env state (show_start env state
       (show_inconsistent state (show_blocked state s)))))"

definition legacyReviewerDiagnostic :: "runtimeOwnerState \<Rightarrow> string \<Rightarrow> int \<Rightarrow> int \<Rightarrow> string" where
  "legacyReviewerDiagnostic state repository issue attempt =
     (let diagnostic = legacyQuarantineDiagnostic state (ownerIssueKey repository issue) in
      if diagnostic \<noteq> [] then diagnostic
      else if fm_ex (\<lambda>_ p. p_of_attempt p repository issue attempt \<and> p_LegacyUnverified p) (s_ReviewerProofs state)
      then ''legacy reviewer descendant absence is unverified; physical cleanup cannot be certified''
      else [])"

definition add_reason :: "string \<Rightarrow> string \<Rightarrow> string" where
  "add_reason diagnostic reason = (if diagnostic = [] then reason else diagnostic @ ''; '' @ reason)"

definition tombstone_diagnostic :: "runtimeOwnerState \<Rightarrow> runtimeTombstone \<Rightarrow> string" where
  "tombstone_diagnostic state t =
     (let legacy = legacyReviewerDiagnostic state (t_Repository t) (t_Issue t) (t_Attempt t);
          d1 = (if (t_ReviewerLeaseID t \<noteq> [] \<or>
                attemptHasUnprovedReviewer state (t_Repository t) (t_Issue t) (t_Attempt t)) \<and> legacy = []
              then reviewer_unproved else legacy);
          d2 = (if t_InvalidatedStart t \<noteq> None
              then add_reason d1 ''implementation start candidate absence is unproved; physical cleanup remains pending''
              else d1) in
      if t_InvalidatedHandoff t \<noteq> None \<and> \<not> t_HandoffCompensated t
      then add_reason d2 ''implementation handoff compensation remains pending'' else d2)"

definition show_tombstone :: "runtimeOwnerState \<Rightarrow> RecoveryStatus list \<Rightarrow> runtimeTombstone \<Rightarrow> RecoveryStatus list" where
  "show_tombstone state statuses t =
     (let diagnostic = tombstone_diagnostic state t;
          action = (if fm_get (s_LegacyReviewerQuarantines state) (ownerIssueKey (t_Repository t) (t_Issue t)) [] \<noteq> []
            then reboot_action else ''inspect pending physical cleanup obligations before reusing this issue'');
          same = (\<lambda>s. st_Repository s = t_Repository t \<and> st_Issue s = t_Issue t \<and> st_Attempt s = t_Attempt t);
          mark = (\<lambda>s. s\<lparr>st_NeedsAttention := True, st_OperatorBlocked := True, st_DispatchAuthorized := False,
            st_CurrentPhase := ''physical-unverified'', st_Diagnostic := diagnostic, st_Action := action\<rparr>) in
      if t_Action t = ''dismissed'' \<or> diagnostic = [] then statuses
      else if list_ex same statuses then map (\<lambda>s. if same s then mark s else s) statuses
      else statuses @ [mark (empty_recovery_status\<lparr>st_Repository := t_Repository t, st_Issue := t_Issue t,
        st_Attempt := t_Attempt t, st_State := ''blocked''\<rparr>)])"

definition stamp_status :: "Env \<Rightarrow> runtimeOwnerState \<Rightarrow> RecoveryStatus \<Rightarrow> RecoveryStatus" where
  "stamp_status env state s =
     s\<lparr>st_IssueGeneration := issueGeneration state (st_Repository s) (st_Issue s),
       st_AttemptGeneration := fm_get (s_AttemptGenerations state) (status_key s) 0,
       st_MachineStatusSequence := ms_Sequence (status_of state (st_Repository s) (st_Issue s)),
       st_OwnerCausalityToken := ownerAttemptCausalityToken env state (st_Repository s) (st_Issue s) (st_Attempt s)\<rparr>"

definition issue_quarantines :: "Env \<Rightarrow> runtimeOwnerState \<Rightarrow> dashboardIssueQuarantine list" where
  "issue_quarantines env state =
     map (\<lambda>issue. \<lparr>dq_Issue = issue, dq_Diagnostic =
         ''a GitHub mutation has an unresolved external outcome; new attempts remain blocked until it is verified''\<rparr>)
       (sort_func compare_ord (remdups (map (\<lambda>(_, e). e_Issue e)
         (filter (\<lambda>(_, e). e_Repository e = s_Repository state \<and> unresolvedExternalEffect e)
           (fm_entries (v_order env) (s_Effects state))))))"

definition projected_statuses :: "Env \<Rightarrow> runtimeOwnerState \<Rightarrow> int \<Rightarrow> RecoveryStatus list" where
  "projected_statuses env state capacity =
     (let shown = map (show_obligations env state) (show_reviewers env state (joined_statuses env state capacity));
          tombstones = map snd (fm_entries (v_order env) (s_Tombstones state)) in
      sort_func compareStatus (map (stamp_status env state) (foldl (show_tombstone state) shown tombstones)))"

definition projectOwnerStatus :: "Env \<Rightarrow> runtimeOwnerState \<Rightarrow> int \<Rightarrow> time \<Rightarrow> dashboardStatusSnapshot option" where
  "projectOwnerStatus env state capacity now =
     (if s_Epoch state = 0 \<or> s_Revision state = 0 \<or> s_Repository state = [] \<or> time_is_zero now then None
      else Some \<lparr>ds_UpdatedAt = now, ds_OwnerEpoch = s_Epoch state, ds_OwnerRevision = s_Revision state,
        ds_Statuses = projected_statuses env state capacity, ds_IssueQuarantines = issue_quarantines env state,
        ds_ReconciliationError = s_CycleDiagnostic state, ds_ReconciliationErrorAt = s_CycleDiagnosticAt state,
        ds_ReadOnly = False\<rparr>)"

section \<open>The status an operator command is decided on\<close>

definition ownerOperatorStatus ::
  "Env \<Rightarrow> runtimeOwnerState \<Rightarrow> int \<Rightarrow> int \<Rightarrow> (RecoveryStatus \<times> RecoveryStatus list) option" where
  "ownerOperatorStatus env state issue attempt =
     (case projectOwnerStatus env state (int maxReconciliationAttemptCount) (created_at 1000000000) of
        None \<Rightarrow> None
      | Some snapshot \<Rightarrow>
          (case filter (\<lambda>s. st_Repository s = s_Repository state \<and> st_Issue s = issue \<and> st_Attempt s = attempt)
             (ds_Statuses snapshot) of
             [s] \<Rightarrow> Some (s, ds_Statuses snapshot)
           | _ \<Rightarrow> None))"

definition canDismissClosedAttempt :: "RecoveryStatus \<Rightarrow> bool" where
  "canDismissClosedAttempt s \<longleftrightarrow>
     st_Repository s \<noteq> [] \<and> 0 < st_Issue s \<and> 0 < st_Attempt s \<and> st_IssueClosed s \<and>
     st_State s \<in> set [''completed'', ''failed'', ''orphaned'', ''cancelled'']"

definition validDestructiveOperatorStatus :: "string \<Rightarrow> RecoveryStatus \<Rightarrow> RecoveryStatus list \<Rightarrow> bool" where
  "validDestructiveOperatorStatus action s statuses \<longleftrightarrow>
     (if action = ''archive'' then st_State s = ''completed''
      else if action = ''abandon'' then st_State s = ''orphaned''
      else if action = ''remove'' then
        st_State s \<in> set [''failed'', ''orphaned'', ''cancelled''] \<and> \<not> st_Retryable s \<and>
        list_ex (\<lambda>c. st_Repository c = st_Repository s \<and> st_Issue c = st_Issue s \<and> st_Attempt s < st_Attempt c) statuses
      else False)"

end
