(* ===== verification/Owner_Ledger.thy ===== *)
theory Owner_Ledger
  imports Reconciliation_Facts
begin

text \<open>
  \<^verbatim>\<open>validateRuntimeOwnerState\<close> (\<^verbatim>\<open>state_owner.go\<close>), the whole of it, and
  \<^verbatim>\<open>finishRuntimeOwnerTransition\<close>, which stamps a new revision, names the intent and runs the
  validation.  The maps that the validator requires to be non-nil are total values here.
\<close>

section \<open>Validation\<close>

definition valid_cycle_outcome :: "runtimeOwnerState \<Rightarrow> bool" where
  "valid_cycle_outcome s \<longleftrightarrow>
     boundedText (s_CycleDiagnostic s) maxReconciliationStringBytes False \<and>
     (s_CycleDiagnostic s = []) = time_is_zero (s_CycleDiagnosticAt s) \<and>
     (s_CycleOutcomeEpoch s = 0) = (s_CycleOutcomeID s = 0) \<and>
     (s_CycleOutcomeEpoch s = 0) = (s_CycleOutcomeSource s = 0) \<and>
     s_CycleOutcomeEpoch s \<le> s_Epoch s \<and> s_CycleOutcomeSource s \<le> s_Revision s"

definition validateLegacyReviewerBoot :: "runtimeOwnerState \<Rightarrow> bool" where
  "validateLegacyReviewerBoot s \<longleftrightarrow>
     fmpred (\<lambda>k b. fm_get (s_LegacyReviewerQuarantines s) k [] \<noteq> [] \<and> validDigest (lb_Evidence b) \<and>
       (lb_Boot b = zero_boot \<or> boot_valid (lb_Boot b))) (s_LegacyReviewerBaselines s) \<and>
     fmpred (\<lambda>d r. validDigest d \<and> laterThan (lr_After r) (lr_Before r)) (s_LegacyReviewerReleases s)"

definition valid_control_repairs :: "Env \<Rightarrow> runtimeOwnerState \<Rightarrow> bool" where
  "valid_control_repairs env s \<longleftrightarrow>
     fmpred (\<lambda>k r. case ParseSnapshotComment (v_decode_snapshot env) (sr_Body r) 1 1 of
         None \<Rightarrow> False
       | Some snapshot \<Rightarrow> sr_Generation r = controlGeneration s k \<and> sn_OwnerGeneration snapshot = sr_Generation r)
       (s_ControlRepairs s)"

definition valid_quarantines :: "runtimeOwnerState \<Rightarrow> bool" where
  "valid_quarantines s \<longleftrightarrow>
     fmpred (\<lambda>k d. 1 \<le> issueFromOwnerKey k \<and> k = ownerIssueKey (s_Repository s) (issueFromOwnerKey k) \<and>
       boundedText d maxReconciliationStringBytes True) (s_LegacyReviewerQuarantines s)"

definition own_issue_key :: "runtimeOwnerState \<Rightarrow> string \<Rightarrow> bool" where
  "own_issue_key s k \<longleftrightarrow> 1 \<le> issueFromOwnerKey k \<and> k = ownerIssueKey (s_Repository s) (issueFromOwnerKey k)"

definition valid_issue_generations :: "runtimeOwnerState \<Rightarrow> bool" where
  "valid_issue_generations s \<longleftrightarrow> fmpred (\<lambda>k g. g \<noteq> 0 \<and> own_issue_key s k) (s_IssueGenerations s)"

definition valid_control_generations :: "runtimeOwnerState \<Rightarrow> bool" where
  "valid_control_generations s \<longleftrightarrow> fmpred (\<lambda>k g. 2 \<le> g \<and> own_issue_key s k) (s_ControlGenerations s)"

definition valid_attempt_generations :: "runtimeOwnerState \<Rightarrow> bool" where
  "valid_attempt_generations s \<longleftrightarrow>
     fmpred (\<lambda>k g. case parseOwnerAttemptKey k of (repository, issue, attempt, ok) \<Rightarrow>
       ok \<and> repository = s_Repository s \<and> 1 \<le> issue \<and> 1 \<le> attempt \<and> g \<noteq> 0) (s_AttemptGenerations s)"

definition status_bound :: "runtimeOwnerState \<Rightarrow> machineStatusRecord \<Rightarrow> bool" where
  "status_bound s st \<longleftrightarrow>
     (ms_Source st = ''dependency'' \<or> ms_Source st = ''destructive'') \<and> ms_AttemptGeneration st = 0 \<or>
     0 < ms_AttemptGeneration st \<and>
     ms_AttemptGeneration st = attemptGeneration s (ms_Repository st) (ms_Issue st) (ms_Attempt st)"

definition valid_status :: "runtimeOwnerState \<Rightarrow> string \<Rightarrow> machineStatusRecord \<Rightarrow> bool" where
  "valid_status s k st \<longleftrightarrow>
     k = ownerIssueKey (ms_Repository st) (ms_Issue st) \<and> ms_Repository st = s_Repository s \<and> 1 \<le> ms_Issue st \<and>
     1 \<le> ms_Attempt st \<and> ms_IssueGeneration st \<noteq> 0 \<and>
     ms_IssueGeneration st = fm_get (s_IssueGenerations s) k 0 \<and> status_bound s st \<and> ms_Sequence st \<noteq> 0 \<and>
     ms_AppliedSequence st \<le> ms_Sequence st \<and> ms_SourceSequence st \<noteq> 0 \<and> boundedText (ms_SourceID st) 128 True \<and>
     ms_Source st \<in> set status_sources \<and> ms_Status st \<in> set [''needs-attention'', ''clear''] \<and>
     boundedText (ms_Reason st) 1024 True"

definition pending_stop :: "runtimeOwnerState \<Rightarrow> runtimeAttemptRecord \<Rightarrow> runtimeEffectIntent option" where
  "pending_stop s r =
     (case fmlookup (s_Effects s) (a_StopEffectID r) of
        None \<Rightarrow> None
      | Some e \<Rightarrow>
          let m = a_Manifest r in
          if e_Action e = EffectStop \<and> e_State e = ''pending'' \<and>
            e_of_attempt e (m_Repository m) (m_Issue m) (m_Attempt m) \<and> e_AttemptGeneration e = a_Generation r
          then Some e else None)"

definition review_identified :: "Env \<Rightarrow> runtimeOwnerState \<Rightarrow> Manifest \<Rightarrow> uint64 \<Rightarrow> bool" where
  "review_identified env s m generation \<longleftrightarrow>
     \<not> (s_ReviewerRunTracked s \<and> m_ReviewState m \<noteq> [] \<and> \<not> validDigest (m_ReviewRunID m) \<and> \<not> m_ReviewRunCleaned m \<and>
        fm_get (s_LegacyReviewerQuarantines s) (ownerIssueKey (m_Repository m) (m_Issue m)) [] = [] \<and>
        \<not> legacyRecordReleased s (legacyManifestDigest env m generation))"

definition valid_attempt :: "Env \<Rightarrow> runtimeOwnerState \<Rightarrow> string \<Rightarrow> runtimeAttemptRecord \<Rightarrow> bool" where
  "valid_attempt env s k r \<longleftrightarrow>
     (let m = a_Manifest r in
      fm_get (s_AttemptGenerations s) k 0 = a_Generation r \<and> a_Generation r \<noteq> 0 \<and>
      a_ObservationEpoch r \<le> s_Epoch s \<and> (a_ObservationEpoch r = 0) = (a_LastCycleID r = 0) \<and>
      k = ownerAttemptKey (m_Repository m) (m_Issue m) (m_Attempt m) \<and>
      validateOwnerManifest env (s_Repository s) m \<and> review_identified env s m (a_Generation r) \<and>
      (a_WorkerAuthorityRevokedDigest r = [] \<or> revokedWorkerCredentialCurrent env r) \<and>
      (m_WorkerProfileDigest m = [] \<or> m_WorkerGeneration m = a_Generation r \<or>
       revokedWorkerCredentialCurrent env r \<or>
       pending_stop s r \<noteq> None \<and> m_WorkerGeneration m \<noteq> uint64_max \<and> m_WorkerGeneration m + 1 = a_Generation r) \<and>
      (case a_WorkerSeal r of None \<Rightarrow> True | Some w \<Rightarrow> validWorkerSealSelection env m (a_Generation r) w) \<and>
      (case (a_ImplementationBinding r, a_TerminalBroker r) of
         (None, None) \<Rightarrow> True
       | (Some ib, Some tb) \<Rightarrow> bound_pair (v_sha env) m ib tb
       | _ \<Rightarrow> False) \<and>
      (a_StopEffectID r = [] \<or>
       (case pending_stop s r of
          None \<Rightarrow> False | Some e \<Rightarrow> e_IssueGeneration e = issueGeneration s (e_Repository e) (e_Issue e))))"

text \<open>External outcomes and the reviewer lease of a tombstone.\<close>

definition valid_external_outcome :: "runtimeOwnerState \<Rightarrow> runtimeTombstone \<Rightarrow> string \<Rightarrow> invalidatedExternalOutcome \<Rightarrow> bool" where
  "valid_external_outcome s t x outcome \<longleftrightarrow>
     hex_bytes 16 x \<and> xo_Action outcome \<noteq> [] \<and> 0 \<le> xo_PR outcome \<and>
     (xo_HeadSHA outcome = [] \<or> preflightObjectID (xo_HeadSHA outcome)) \<and>
     (case fmlookup (s_Effects s) x of
        None \<Rightarrow> True
      | Some e \<Rightarrow> e_State e = ''invalidated-resolved'' \<and> e_of_attempt e (t_Repository t) (t_Issue t) (t_Attempt t) \<and>
          e_AttemptGeneration e = t_InvalidatedGeneration t \<and> validInvalidatedExternalOutcome e outcome)"

definition valid_lease :: "runtimeOwnerState \<Rightarrow> runtimeTombstone \<Rightarrow> bool" where
  "valid_lease s t \<longleftrightarrow>
     t_ReviewerLeaseID t = [] \<or>
     (case fmlookup (s_Effects s) (t_EffectID t) of
        None \<Rightarrow> False
      | Some e \<Rightarrow> e_State e = ''pending'' \<and> e_Action e = EffectCleanup \<and>
          fm_ex (\<lambda>_ p. p_of_attempt p (t_Repository t) (t_Issue t) (t_Attempt t) \<and>
            p_EffectID p = t_ReviewerLeaseID t \<and> reviewerProofMatchesSuperseded e p) (s_ReviewerProofs s))"

definition valid_tombstone :: "Env \<Rightarrow> runtimeOwnerState \<Rightarrow> bool \<Rightarrow> string \<Rightarrow> runtimeTombstone \<Rightarrow> bool" where
  "valid_tombstone env s persisted k t \<longleftrightarrow>
     k = ownerAttemptKey (t_Repository t) (t_Issue t) (t_Attempt t) \<and> t_Repository t = s_Repository s \<and>
     validTombstoneAction (t_Action t) \<and> validCleanupPhase (t_CleanupPhase t) \<and> t_Generation t \<noteq> 0 \<and>
     t_InvalidatedGeneration t < t_Generation t \<and> fm_get (s_AttemptGenerations s) k 0 = t_Generation t \<and>
     t_Revision t \<le> s_Revision s \<and> (persisted \<longrightarrow> t_Revision t \<noteq> 0) \<and> \<not> fm_has (s_Attempts s) k \<and>
     (case t_Manifest t of
        Some m \<Rightarrow>
          validateOwnerManifest env (s_Repository s) m \<and> m_Issue m = t_Issue t \<and> m_Attempt m = t_Attempt t \<and>
          review_identified env s m (t_InvalidatedGeneration t) \<and>
          (t_WorkerAuthorityRevokedDigest t = [] \<or> revokedWorkerTombstoneCredentialCurrent env t) \<and>
          (m_WorkerProfileDigest m = [] \<or> m_WorkerGeneration m = t_InvalidatedGeneration t \<or>
           revokedWorkerTombstoneCredentialCurrent env t) \<and>
          (case t_InvalidatedHandoff t of None \<Rightarrow> True | Some h \<Rightarrow> validHandoffCandidateInvalidation (v_sha env) h m) \<and>
          (case t_InvalidatedStart t of None \<Rightarrow> True | Some c \<Rightarrow> validStartCandidateInvalidation c m)
      | None \<Rightarrow>
          t_WorkerAuthorityRevokedDigest t = [] \<and> t_InvalidatedHandoff t = None \<and> t_InvalidatedStart t = None \<and>
          t_CleanupPhase t = ''completed'') \<and>
     (t_HandoffCompensated t \<longrightarrow> t_InvalidatedHandoff t \<noteq> None) \<and>
     validTombstoneCleanupPolicy t \<and>
     fmpred (valid_external_outcome s t) (t_ExternalOutcomes t) \<and> valid_lease s t \<and>
     (t_Action t = ''removed'' \<and> t_CleanupPhase t \<noteq> ''completed'' \<longrightarrow> preflightObjectID (t_PublishedHead t)) \<and>
     (if t_EffectID t \<noteq> [] then
        (case fmlookup (s_Effects s) (t_EffectID t) of
           None \<Rightarrow> False
         | Some e \<Rightarrow> e_Action e = EffectCleanup \<and> e_of_attempt e (t_Repository t) (t_Issue t) (t_Attempt t) \<and>
             e_AttemptGeneration e = t_Generation t \<and>
             (if t_CleanupPhase t = ''completed'' then e_State e = ''completed'' else e_State e = ''pending''))
      else t_Action t = ''dismissed'' \<or> bareCompletedRemoval t \<or> bareCompletedArchive t)"

text \<open>\<^verbatim>\<open>review-\<close>, 32 lower-case hexadecimal characters and an optional \<^verbatim>\<open>-go\<close> and \<^verbatim>\<open>-start\<close>.\<close>

definition validReviewerWaitChannel :: "string \<Rightarrow> bool" where
  "validReviewerWaitChannel channel \<longleftrightarrow>
     has_prefix channel ''review-'' \<and>
     (let identity = trim_suffix (trim_suffix (trim_prefix channel ''review-'') ''-start'') ''-go'' in
      length identity = 32 \<and> list_all (\<lambda>c. c \<in> set ''0123456789abcdef'') identity)"

section \<open>Recoveries and effects\<close>

definition validateRuntimePRRecoveries :: "runtimeOwnerState \<Rightarrow> bool" where
  "validateRuntimePRRecoveries s \<longleftrightarrow>
     fcard (fmdom (s_Recoveries s)) \<le> maxPRRecoveryEntries \<and>
     fmpred (\<lambda>k r. let pr = rr_State r in
       k = ownerAttemptKey (pr_Repository pr) (pr_Issue pr) (pr_Attempt pr) \<and> pr_Repository pr = s_Repository s \<and>
       1 \<le> pr_Number pr \<and>
       fmpred (\<lambda>k' r'. k' = k \<or> pr_Number (rr_State r') \<noteq> pr_Number pr) (s_Recoveries s) \<and>
       rr_IssueGeneration r \<noteq> 0 \<and> rr_AttemptGeneration r \<noteq> 0 \<and>
       rr_IssueGeneration r = issueGeneration s (pr_Repository pr) (pr_Issue pr) \<and>
       rr_AttemptGeneration r = fm_get (s_AttemptGenerations s) k 0 \<and> \<not> fm_has (s_Tombstones s) k \<and>
       fm_has (s_Attempts s) k \<and> validPRState pr) (s_Recoveries s)"

definition legacy_reviewer_run :: "Env \<Rightarrow> runtimeOwnerState \<Rightarrow> runtimeEffectIntent \<Rightarrow> bool" where
  "legacy_reviewer_run env s e \<longleftrightarrow>
     (case e_Reconciliation e of
        None \<Rightarrow> False
      | Some q \<Rightarrow>
          (case rq_Reviewer q of
             None \<Rightarrow> False
           | Some v \<Rightarrow> \<not> validDigest (rv_RunID v) \<and>
               (\<not> s_ReviewerRunTracked s \<or> fm_get (s_LegacyReviewerQuarantines s) (ownerIssueKey (e_Repository e) (e_Issue e)) [] \<noteq> [] \<or>
                legacyRecordReleased s (legacyEffectDigest env e))))"

text \<open>The legacy exception of an effect: its issue is quarantined or its record was released.\<close>

definition legacy_excused :: "Env \<Rightarrow> runtimeOwnerState \<Rightarrow> runtimeEffectIntent \<Rightarrow> bool" where
  "legacy_excused env s e \<longleftrightarrow>
     fm_get (s_LegacyReviewerQuarantines s) (ownerIssueKey (e_Repository e) (e_Issue e)) [] \<noteq> [] \<or>
     legacyRecordReleased s (legacyEffectDigest env e)"

definition run_observe_request :: "reconciliationEffectRequest \<Rightarrow> bool" where
  "run_observe_request q \<longleftrightarrow>
     rq_Action q = reconciliationReviewer \<and>
     (case rq_Reviewer q of None \<Rightarrow> False | Some v \<Rightarrow> rv_Phase v = ''run-observe'')"

definition reviewer_fields_ok :: "Env \<Rightarrow> runtimeOwnerState \<Rightarrow> runtimeEffectIntent \<Rightarrow> reconciliationEffectRequest \<Rightarrow> bool" where
  "reviewer_fields_ok env s e q \<longleftrightarrow>
     (let gate = e_ReviewerGateProtocol e; legacy = legacy_reviewer_run env s e in
      e_ReviewerLaunched e = (1 < e_ReviewerGroupPID e) \<and> (e_ReviewerSessionRequested e \<longrightarrow> gate) \<and>
      (e_ReviewerProfileDigest e \<noteq> [] \<longrightarrow> gate \<and> validDigest (e_ReviewerProfileDigest e)) \<and>
      (gate \<longrightarrow> e_ReviewerConfinementVersion e = reviewerConfinementVersion \<or> legacy_excused env s e) \<and>
      (\<not> gate \<longrightarrow> e_ReviewerConfinementVersion e = 0 \<and> e_ReviewerSourceRevision e = 0) \<and>
      (gate \<longrightarrow> legacy \<or> e_ReviewerSourceRevision e \<noteq> 0 \<and> e_ReviewerSourceRevision e = e_IntentRevision e) \<and>
      (e_ReviewerLaunched e \<or> gate \<longrightarrow> run_observe_request q) \<and>
      (e_ReviewerRevoked e \<longrightarrow> run_observe_request q \<and>
        (case rq_Reviewer q of None \<Rightarrow> False | Some v \<Rightarrow> rv_Mode v = ReviewModePlan)) \<and>
      (e_ReviewerResultDigest e \<noteq> [] \<longrightarrow> validDigest (e_ReviewerResultDigest e) \<and> e_ReviewerLaunched e))"

definition prepared_handoff_ok :: "Env \<Rightarrow> runtimeEffectIntent \<Rightarrow> reconciliationEffectRequest \<Rightarrow> bool" where
  "prepared_handoff_ok env e q \<longleftrightarrow>
     (case (e_HandoffImplementation e, e_HandoffTerminal e) of
        (None, None) \<Rightarrow> True
      | (Some ib, Some tb) \<Rightarrow>
          rq_Action q = reconciliationHandoffDeliver \<and>
          (case (rq_Handoff q, rq_Manifest q) of
             (Some h, Some m) \<Rightarrow>
               bound_pair (v_sha env) (m\<lparr>m_LaunchToken := hf_CandidateLaunchToken h, m_LaunchID := e_ID e\<rparr>) ib tb
           | _ \<Rightarrow> False)
      | _ \<Rightarrow> False)"

definition reviewer_run_ok :: "Env \<Rightarrow> runtimeOwnerState \<Rightarrow> runtimeEffectIntent \<Rightarrow> reconciliationEffectRequest \<Rightarrow> bool" where
  "reviewer_run_ok env s e q \<longleftrightarrow>
     (case rq_Reviewer q of
        None \<Rightarrow> True
      | Some v \<Rightarrow> legacy_reviewer_run env s e \<or>
          (rv_Phase v = ''run-observe'' \<longrightarrow> rv_RunID v = reviewerRunID env (e_IntentEpoch e) (e_ReviewerSourceRevision e)
             (e_IssueGeneration e) (e_AttemptGeneration e) (e_Repository e) (e_Issue e) (e_Attempt e) (rv_Mode v) (rv_Target v)) \<and>
          (rv_Phase v = ''cleanup'' \<longrightarrow>
             (case rq_Manifest q of None \<Rightarrow> False | Some m \<Rightarrow> rv_RunID v = m_ReviewRunID m)))"

definition status_update_of :: "reconciliationEffectRequest \<Rightarrow> githubIssueUpdateEffectRequest option" where
  "status_update_of q =
     (case rq_GitHubIssueUpdate q of
        None \<Rightarrow> None | Some u \<Rightarrow> if gu_Kind u = githubIssueMachineStatus then Some u else None)"

definition effect_state_ok :: "Env \<Rightarrow> runtimeOwnerState \<Rightarrow> runtimeEffectIntent \<Rightarrow> reconciliationEffectRequest \<Rightarrow> bool" where
  "effect_state_ok env s e q \<longleftrightarrow>
     (let k = ownerIssueKey (e_Repository e) (e_Issue e);
          invalid = (e_Dispatched e \<and> e_ReconciliationResult e = None) in
      if e_State e = ''pending'' then e_ReconciliationResult e = None
      else if e_State e = ''invalidated'' then
        (case status_update_of q of
           Some u \<Rightarrow> invalid \<and>
             (case fmlookup (s_MachineStatuses s) k of None \<Rightarrow> False | Some st \<Rightarrow> gu_StatusSequence u < ms_Sequence st)
         | None \<Rightarrow> invalid \<and> reconciliationMutatesGitHub (rq_Action q) \<and>
             (0 < rq_Attempt q \<or> rq_ControlGeneration q < controlGeneration s k))
      else if e_State e = ''invalidated-resolved'' then
        invalid \<and> reconciliationMutatesGitHub (rq_Action q) \<and>
        (if rq_Attempt q = 0 then
           (case status_update_of q of
              Some u \<Rightarrow>
                (case fmlookup (s_MachineStatuses s) k of
                   None \<Rightarrow> False
                 | Some st \<Rightarrow> gu_StatusSequence u < ms_Sequence st \<and> ms_AppliedSequence st = ms_Sequence st)
            | None \<Rightarrow> rq_ControlGeneration q < controlGeneration s k)
         else (case fmlookup (s_Tombstones s) (ownerAttemptKey (e_Repository e) (e_Issue e) (e_Attempt e)) of
                 None \<Rightarrow> False | Some t \<Rightarrow> fm_has (t_ExternalOutcomes t) (e_ID e)))
      else e_Diagnostic e = [] \<and>
        (case e_ReconciliationResult e of
           None \<Rightarrow> False
         | Some r \<Rightarrow> validReconciliationEffectResult env q r \<and>
             (e_ReviewerResultDigest e = [] \<or> e_ReviewerResultDigest e = reviewerResultDigest env r)))"

definition validPersistedReconciliationEffect :: "Env \<Rightarrow> runtimeOwnerState \<Rightarrow> runtimeEffectIntent \<Rightarrow> bool" where
  "validPersistedReconciliationEffect env s e \<longleftrightarrow>
     (case e_Reconciliation e of
        None \<Rightarrow> False
      | Some q \<Rightarrow>
          e_Review e = None \<and> e_Reason e = [] \<and> e_SupersededReviewerID e = [] \<and>
          boundedText (e_Diagnostic e) maxReconciliationStringBytes False \<and> e_Action e = rq_Action q \<and>
          e_of_attempt e (rq_Repository q) (rq_Issue q) (rq_Attempt q) \<and>
          e_RequestDigest e = reconciliationEffectDigest env q \<and>
          validReconciliationEffectRequest env (s_Repository s) q \<and> e_IntentEpoch e \<noteq> 0 \<and> e_IntentEpoch e \<le> s_Epoch s \<and>
          reviewer_fields_ok env s e q \<and> prepared_handoff_ok env e q \<and> reviewer_run_ok env s e q \<and>
          distinct (map gp_ID (e_GovernancePhases e)) \<and> list_all (validGovernancePhase env e) (e_GovernancePhases e) \<and>
          effect_state_ok env s e q)"

definition receipt_bound :: "runtimeOwnerState \<Rightarrow> runtimeEffectIntent \<Rightarrow> bool" where
  "receipt_bound s e \<longleftrightarrow> e_State e = ''completed'' \<and> effectReferencedByReceipt s (e_ID e)"

definition issue_current :: "runtimeOwnerState \<Rightarrow> runtimeEffectIntent \<Rightarrow> bool" where
  "issue_current s e \<longleftrightarrow>
     issueGeneration s (e_Repository e) (e_Issue e) = e_IssueGeneration e \<or> effectAuthorizedByTombstone s e \<or>
     receipt_bound s e \<or> invalidatedExternalEffect s e"

text \<open>The zero tombstone of a missing key has invalidated generation 0.\<close>

definition attempt_current :: "runtimeOwnerState \<Rightarrow> runtimeEffectIntent \<Rightarrow> reconciliationEffectRequest \<Rightarrow> bool" where
  "attempt_current s e q \<longleftrightarrow>
     (let k = ownerAttemptKey (e_Repository e) (e_Issue e) (e_Attempt e);
          invalidated = (case fmlookup (s_Tombstones s) k of None \<Rightarrow> 0 | Some t \<Rightarrow> t_InvalidatedGeneration t) in
      if reconciliationEffectIssueScoped q then e_Attempt e = 0 \<and> e_AttemptGeneration e = 0
      else 0 < e_Attempt e \<and> 0 < e_AttemptGeneration e \<and>
        (fm_get (s_AttemptGenerations s) k 0 = e_AttemptGeneration e \<or> receipt_bound s e \<or>
         (e_State e = ''invalidated'' \<or> e_State e = ''invalidated-resolved'') \<and> invalidated = e_AttemptGeneration e))"

definition intent_named :: "Env \<Rightarrow> runtimeOwnerState \<Rightarrow> bool \<Rightarrow> string \<Rightarrow> runtimeEffectIntent \<Rightarrow> bool" where
  "intent_named env s persisted k e \<longleftrightarrow>
     k = e_ID e \<and> e_ID e = runtimeEffectID env e \<and> e_Repository e = s_Repository s \<and> 1 \<le> e_Issue e \<and>
     e_Action e \<noteq> [] \<and> e_IntentRevision e \<noteq> 0 \<and>
     e_IntentRevision e \<le> (if persisted then s_Revision s else s_Revision s + 1)"

definition valid_reconciliation_intent :: "Env \<Rightarrow> runtimeOwnerState \<Rightarrow> bool \<Rightarrow> string \<Rightarrow> runtimeEffectIntent \<Rightarrow> reconciliationEffectRequest \<Rightarrow> bool" where
  "valid_reconciliation_intent env s persisted k e q \<longleftrightarrow>
     intent_named env s persisted k e \<and>
     e_State e \<in> set [''pending'', ''completed'', ''invalidated'', ''invalidated-resolved''] \<and>
     issue_current s e \<and> attempt_current s e q \<and> validPersistedReconciliationEffect env s e"

definition superseded_ok :: "Env \<Rightarrow> runtimeOwnerState \<Rightarrow> runtimeEffectIntent \<Rightarrow> bool" where
  "superseded_ok env s e \<longleftrightarrow>
     (let stop_or_cleanup = (e_Action e = EffectStop \<or> e_Action e = EffectCleanup) in
      (e_SupersededReviewerGroupPID e \<noteq> 0 \<longrightarrow> e_SupersededReviewerID e \<noteq> [] \<and> 2 \<le> e_SupersededReviewerGroupPID e) \<and>
      (if e_SupersededReviewerID e \<noteq> [] then
         stop_or_cleanup \<and> validReviewerWaitChannel (''review-'' @ e_SupersededReviewerID e) \<and>
         ValidReviewTarget (e_SupersededReviewerMode e) (e_SupersededReviewerTarget e) (e_Repository e) (e_Issue e) \<and>
         (s_ReviewerRunTracked s \<longrightarrow> validDigest (e_SupersededReviewerRunID e) \<or> legacy_excused env s e) \<and>
         e_SupersededReviewerIssueGeneration e \<noteq> 0 \<and> e_SupersededReviewerAttemptGeneration e \<noteq> 0 \<and>
         (e_SupersededReviewerSessionRequested e \<longrightarrow> e_SupersededReviewerGateProtocol e) \<and>
         (e_SupersededReviewerGateProtocol e \<longrightarrow>
            validDigest (e_SupersededReviewerRequestDigest e) \<and>
            (validDigest (e_SupersededReviewerProfileDigest e) \<or> legacy_excused env s e) \<and>
            (s_ReviewerPolicyTracked s \<longrightarrow>
               e_SupersededReviewerConfinementVersion e = reviewerConfinementVersion \<or> legacy_excused env s e))
       else
         e_SupersededReviewerTarget e = [] \<and> e_SupersededReviewerRunID e = [] \<and> e_SupersededReviewerMode e = [] \<and>
         e_SupersededReviewerIssueGeneration e = 0 \<and> e_SupersededReviewerAttemptGeneration e = 0 \<and>
         \<not> e_ReviewerStopped e \<and> \<not> e_SupersededReviewerGateProtocol e \<and> \<not> e_SupersededReviewerSessionRequested e \<and>
         e_SupersededReviewerRequestDigest e = [] \<and> e_SupersededReviewerProfileDigest e = [] \<and>
         e_SupersededReviewerConfinementVersion e = 0) \<and>
      (e_ReviewerCleanupDigest e = [] \<or> e_Action e = EffectStop \<and> validDigest (e_ReviewerCleanupDigest e)))"

definition start_gate_ok :: "runtimeEffectIntent \<Rightarrow> bool" where
  "start_gate_ok e \<longleftrightarrow>
     (if e_Action e = EffectStart \<and> e_StartCandidates e \<noteq> [] then
        validStartCandidates (e_StartCandidates e) \<and> e_StartGateNonce e = sg_Nonce (last (e_StartCandidates e)) \<and>
        e_StartMayRun e = sg_MayRun (last (e_StartCandidates e))
      else e_StartGateNonce e = [] \<and> \<not> e_StartMayRun e \<and> e_StartCandidates e = [])"

definition stop_invalidations_ok :: "Env \<Rightarrow> runtimeOwnerState \<Rightarrow> runtimeEffectIntent \<Rightarrow> bool" where
  "stop_invalidations_ok env s e \<longleftrightarrow>
     (let r = fmlookup (s_Attempts s) (ownerAttemptKey (e_Repository e) (e_Issue e) (e_Attempt e)) in
      (case e_InvalidatedHandoff e of
         None \<Rightarrow> True
       | Some h \<Rightarrow> e_Action e = EffectStop \<and>
           (case r of None \<Rightarrow> False | Some x \<Rightarrow> validHandoffCandidateInvalidation (v_sha env) h (a_Manifest x))) \<and>
      (case e_InvalidatedStart e of
         None \<Rightarrow> True
       | Some c \<Rightarrow> e_Action e = EffectStop \<and>
           (case r of None \<Rightarrow> False | Some x \<Rightarrow> validStartCandidateInvalidation c (a_Manifest x))))"

definition valid_runtime_intent :: "Env \<Rightarrow> runtimeOwnerState \<Rightarrow> bool \<Rightarrow> string \<Rightarrow> runtimeEffectIntent \<Rightarrow> bool" where
  "valid_runtime_intent env s persisted k e \<longleftrightarrow>
     (let attemptKey = ownerAttemptKey (e_Repository e) (e_Issue e) (e_Attempt e) in
      e_ReconciliationResult e = None \<and> \<not> e_ReviewerRevoked e \<and> intent_named env s persisted k e \<and>
      1 \<le> e_Attempt e \<and> e_IssueGeneration e \<noteq> 0 \<and> e_AttemptGeneration e \<noteq> 0 \<and>
      (e_State e = ''pending'' \<or> e_State e = ''completed'') \<and> issue_current s e \<and>
      (fm_get (s_AttemptGenerations s) attemptKey 0 = e_AttemptGeneration e \<or> receipt_bound s e) \<and>
      (e_RequestDigest e \<noteq> [] \<longrightarrow>
         ValidEffectRequestDigest (e_RequestDigest e) \<and> e_IntentEpoch e \<noteq> 0 \<and>
         e_IntentEpoch e \<le> (if persisted then s_Epoch s else s_Epoch s + 1) \<and>
         validRuntimeEffectInput (e_Action e) (e_Reason e) \<and> (e_Action e = EffectReview) = (e_Review e \<noteq> None)) \<and>
      superseded_ok env s e \<and> stop_invalidations_ok env s e \<and> start_gate_ok e \<and>
      (e_RequestDigest e \<noteq> [] \<and> e_Action e = EffectReview \<longrightarrow>
         (case (fmlookup (s_Attempts s) attemptKey, e_Review e) of
            (Some r, Some v) \<Rightarrow> owner_review_result env (a_Manifest r) v \<noteq> None
          | _ \<Rightarrow> False)))"

definition valid_intent :: "Env \<Rightarrow> runtimeOwnerState \<Rightarrow> bool \<Rightarrow> string \<Rightarrow> runtimeEffectIntent \<Rightarrow> bool" where
  "valid_intent env s persisted k e \<longleftrightarrow>
     (case e_Reconciliation e of
        Some q \<Rightarrow> valid_reconciliation_intent env s persisted k e q
      | None \<Rightarrow> valid_runtime_intent env s persisted k e)"

section \<open>Reviewer proofs\<close>

definition proof_excused :: "Env \<Rightarrow> runtimeOwnerState \<Rightarrow> reviewerProcessProof \<Rightarrow> bool" where
  "proof_excused env s p \<longleftrightarrow>
     fm_get (s_LegacyReviewerQuarantines s) (ownerIssueKey (p_Repository p) (p_Issue p)) [] \<noteq> [] \<or>
     legacyRecordReleased s (legacyReviewerDigest env ''proof'' (v_json_proof env p))"

definition valid_proof :: "Env \<Rightarrow> runtimeOwnerState \<Rightarrow> string \<Rightarrow> reviewerProcessProof \<Rightarrow> bool" where
  "valid_proof env s k p \<longleftrightarrow>
     k = reviewerProofKey (p_Repository p) (p_Issue p) (p_Attempt p) (p_Mode p) (p_Target p) \<and>
     p_Repository p = s_Repository s \<and> 1 \<le> p_Issue p \<and> 1 \<le> p_Attempt p \<and>
     ValidReviewTarget (p_Mode p) (p_Target p) (p_Repository p) (p_Issue p) \<and>
     validReviewerWaitChannel (''review-'' @ p_EffectID p) \<and> (p_RunID p = [] \<or> validDigest (p_RunID p)) \<and>
     (s_ReviewerRunTracked s \<and> \<not> p_NeverRan p \<and> \<not> p_LegacyUnverified p \<longrightarrow>
        validDigest (p_RunID p) \<or> proof_excused env s p) \<and>
     (2 \<le> p_GroupPID p \<or> p_GroupPID p = 0 \<and> (\<not> p_DeadProved p \<or> p_NeverRan p)) \<and>
     (p_NeverRan p \<longrightarrow> p_GroupPID p = 0 \<and> p_DeadProved p \<and> \<not> p_LegacyUnverified p \<and>
        (p_ConfinementVersion p = 0 \<or> p_ConfinementVersion p = reviewerConfinementVersion)) \<and>
     \<not> (p_LegacyUnverified p \<and> p_DeadProved p) \<and> (p_ProfileDigest p = [] \<or> validDigest (p_ProfileDigest p)) \<and>
     (s_ReviewerPolicyTracked s \<and> \<not> p_NeverRan p \<and> \<not> p_LegacyUnverified p \<longrightarrow>
        p_ConfinementVersion p = reviewerConfinementVersion \<or> proof_excused env s p) \<and>
     p_IssueGeneration p \<noteq> 0 \<and> p_AttemptGeneration p \<noteq> 0 \<and>
     p_IssueGeneration p \<le> issueGeneration s (p_Repository p) (p_Issue p) \<and>
     p_AttemptGeneration p \<le> attemptGeneration s (p_Repository p) (p_Issue p) (p_Attempt p) \<and>
     (if p_Pane p \<noteq> None \<or> p_TerminalBroker p \<noteq> None \<or> p_BrokerPath p \<noteq> [] then validReviewerTerminalCertificate env p
      else p_DeadProved p \<or> p_NeverRan p \<or> p_LegacyUnverified p)"

section \<open>Receipts\<close>

definition remoteOnlyOperatorAdmissionEligible :: "runtimeOwnerState \<Rightarrow> controlReceipt \<Rightarrow> reconciliationObservation \<Rightarrow> bool" where
  "remoteOnlyOperatorAdmissionEligible s r ob \<longleftrightarrow>
     (let q = r_Request r; f = ob_Fact ob in
      case (r_Admission r, fmlookup (ob_Attempts ob) (receipt_key r)) of
        (Some ad, Some a) \<Rightarrow>
          ad_RemoteOnly ad \<and> q_Action q \<in> set [''archive'', ''dismiss''] \<and> \<not> fm_has (s_Attempts s) (receipt_key r) \<and>
          \<not> fm_has (s_Tombstones s) (receipt_key r) \<and> ob_Present ob \<and> ob_ObservationEpoch ob \<le> s_Epoch s \<and>
          ob_OwnerGeneration ob = ad_IssueGeneration ad \<and> fi_CurrentAttempt f = q_Attempt q \<and>
          (q_Action q = ''dismiss'' \<longrightarrow> ad_IssueClosed ad \<and> fi_Closed f) \<and> ao_Present a \<and>
          ao_ObservationEpoch a \<le> s_Epoch s \<and> ao_SourceIssueGeneration a = ob_Generation ob \<and>
          ao_OwnerGeneration a = ad_AttemptGeneration ad \<and> af_State (ao_Fact a) = ''completed'' \<and>
          af_Repository (ao_Fact a) = q_Repository q \<and> af_Issue (ao_Fact a) = q_Issue q \<and>
          af_Attempt (ao_Fact a) = q_Attempt q \<and>
          \<not> attemptHasReviewerProof s (q_Repository q) (q_Issue q) (q_Attempt q) \<and>
          fm_get (s_LegacyReviewerQuarantines s) (ownerIssueKey (q_Repository q) (q_Issue q)) [] = []
      | _ \<Rightarrow> False)"

definition same_observation :: "operatorAdmission \<Rightarrow> reconciliationObservation \<Rightarrow> bool" where
  "same_observation ad ob \<longleftrightarrow>
     ob_Generation ob = ad_ObservationGeneration ad \<and> ob_LastCycleID ob = ad_ObservationCycleID ad \<and>
     fi_BodyDigest (ob_Fact ob) = ad_ObservationBodyDigest ad"

definition admission_bound :: "runtimeOwnerState \<Rightarrow> controlReceipt \<Rightarrow> operatorAdmission \<Rightarrow> bool" where
  "admission_bound s r ad \<longleftrightarrow>
     (let q = r_Request r; ob = fmlookup (s_Observations s) (ownerIssueKey (q_Repository q) (q_Issue q)) in
      ad_Epoch ad = s_Epoch s \<and> ad_IssueGeneration ad = issueGeneration s (q_Repository q) (q_Issue q) \<and>
      ad_AttemptGeneration ad = fm_get (s_AttemptGenerations s) (receipt_key r) 0 \<and>
      q_Action q \<in> set [''dismiss'', ''archive'', ''abandon'', ''remove'', ''cancel'', ''recover''] \<and>
      (q_Action q \<noteq> ''dismiss'' \<longrightarrow> \<not> ad_IssueClosed ad) \<and>
      (if ad_RemoteOnly ad then
         \<not> fm_has (s_Attempts s) (receipt_key r) \<and> ad_Manifest ad = empty_manifest \<and>
         (case ob of
            None \<Rightarrow> False
          | Some b \<Rightarrow> remoteOnlyOperatorAdmissionEligible s r b \<and> same_observation ad b)
       else
         (case fmlookup (s_Attempts s) (receipt_key r) of
            None \<Rightarrow> False
          | Some x \<Rightarrow> a_Generation x = ad_AttemptGeneration ad \<and> a_Manifest x = ad_Manifest ad) \<and>
         (if q_Action q = ''recover'' \<or> q_Action q = ''dismiss'' then
            (case ob of
               None \<Rightarrow> False
             | Some b \<Rightarrow> (q_Action q = ''recover'' \<longrightarrow> ob_Present b) \<and> ob_ObservationEpoch b \<le> s_Epoch s \<and>
                 same_observation ad b)
          else ad_ObservationGeneration ad = 0 \<and> ad_ObservationCycleID ad = 0 \<and> ad_ObservationBodyDigest ad = [])))"

definition receipt_shape_ok :: "Env \<Rightarrow> runtimeOwnerState \<Rightarrow> bool \<Rightarrow> controlReceipt \<Rightarrow> bool" where
  "receipt_shape_ok env s persisted r \<longleftrightarrow>
     validControlRequest (r_Request r) (s_Repository s) \<and>
     (if r_State r = ''pending'' then r_Result r = None
      else r_State r = ''completed'' \<and>
        (case r_Result r of None \<Rightarrow> False | Some x \<Rightarrow> validRecordedControlResult env x (r_Request r))) \<and>
     validOperatorReceiptBinding r \<and>
     (r_Phase r \<noteq> [] \<and> r_State r = ''completed'' \<longrightarrow>
        (case r_Result r of
           None \<Rightarrow> False
         | Some x \<Rightarrow> cr_OwnerRevision x \<noteq> 0 \<and>
             cr_OwnerRevision x \<le> (if persisted then s_Revision s else s_Revision s + 1)))"

definition receipt_links_ok :: "runtimeOwnerState \<Rightarrow> controlReceipt \<Rightarrow> bool" where
  "receipt_links_ok s r \<longleftrightarrow>
     (r_EffectID r \<noteq> [] \<longrightarrow>
        (case fmlookup (s_Effects s) (r_EffectID r) of
           None \<Rightarrow> False
         | Some e \<Rightarrow> e_State e = operatorReceiptEffectState r \<and> operatorReceiptMatchesEffect r e)) \<and>
     (r_Phase r = operatorPhaseHandoffCleanup \<longrightarrow>
        (case fmlookup (s_Tombstones s) (receipt_key r) of
           None \<Rightarrow> False
         | Some t \<Rightarrow> t_Action t = ''dismissed'' \<and> t_InvalidatedHandoff t \<noteq> None \<and> \<not> t_HandoffCompensated t)) \<and>
     (r_Phase r = operatorPhaseStartCleanup \<longrightarrow>
        (case fmlookup (s_Tombstones s) (receipt_key r) of
           None \<Rightarrow> False | Some t \<Rightarrow> t_Action t = ''dismissed'' \<and> t_InvalidatedStart t \<noteq> None))"

text \<open>Admissions already met reserve their attempt for one action with one admission.\<close>

definition admission_ok :: "runtimeOwnerState \<Rightarrow> (string \<times> controlReceipt) list \<Rightarrow> controlReceipt \<Rightarrow> bool" where
  "admission_ok s reserved r \<longleftrightarrow>
     (case r_Admission r of
        None \<Rightarrow> False
      | Some ad \<Rightarrow>
          (case map_of reserved (receipt_key r) of
             None \<Rightarrow> True
           | Some x \<Rightarrow> q_Action (r_Request x) = q_Action (r_Request r) \<and> r_Admission x = r_Admission r) \<and>
          admission_bound s r ad)"

fun receipts_ok ::
  "Env \<Rightarrow> runtimeOwnerState \<Rightarrow> bool \<Rightarrow> string list \<Rightarrow> (string \<times> controlReceipt) list \<Rightarrow> controlReceipt list \<Rightarrow> bool" where
  "receipts_ok env s persisted seen reserved [] = True"
| "receipts_ok env s persisted seen reserved (r # rs) \<longleftrightarrow>
     q_RequestID (r_Request r) \<notin> set seen \<and> receipt_shape_ok env s persisted r \<and> receipt_links_ok s r \<and>
     (if r_Phase r = operatorPhaseAdmissionPending then
        admission_ok s reserved r \<and>
        receipts_ok env s persisted (q_RequestID (r_Request r) # seen) ((receipt_key r, r) # reserved) rs
      else receipts_ok env s persisted (q_RequestID (r_Request r) # seen) reserved rs)"

text \<open>The first receipt that is not valid fails for its admission, the one error of the validator that is stale.\<close>

fun receipts_stale ::
  "Env \<Rightarrow> runtimeOwnerState \<Rightarrow> bool \<Rightarrow> string list \<Rightarrow> (string \<times> controlReceipt) list \<Rightarrow> controlReceipt list \<Rightarrow> bool" where
  "receipts_stale env s persisted seen reserved [] = False"
| "receipts_stale env s persisted seen reserved (r # rs) \<longleftrightarrow>
     q_RequestID (r_Request r) \<notin> set seen \<and> receipt_shape_ok env s persisted r \<and> receipt_links_ok s r \<and>
     (if r_Phase r = operatorPhaseAdmissionPending then
        \<not> admission_ok s reserved r \<or>
        receipts_stale env s persisted (q_RequestID (r_Request r) # seen) ((receipt_key r, r) # reserved) rs
      else receipts_stale env s persisted (q_RequestID (r_Request r) # seen) reserved rs)"

section \<open>The validator\<close>

text \<open>The checks that come before those of the receipts.\<close>

definition ledger_parts_ok :: "Env \<Rightarrow> runtimeOwnerState \<Rightarrow> bool \<Rightarrow> bool" where
  "ledger_parts_ok env s persisted \<longleftrightarrow>
     validateLegacyReviewerBoot s \<and>
     s_Version s = runtimeOwnerStateVersion \<and> trim_space (s_Repository s) \<noteq> [] \<and>
     (persisted \<longrightarrow> s_Epoch s \<noteq> 0 \<and> s_Revision s \<noteq> 0) \<and>
     valid_cycle_outcome s \<and> valid_control_generations s \<and> valid_control_repairs env s \<and> valid_quarantines s \<and>
     valid_issue_generations s \<and> valid_attempt_generations s \<and>
     fmpred (valid_status s) (s_MachineStatuses s) \<and> fmpred (valid_attempt env s) (s_Attempts s) \<and>
     validateReconciliationObservations env s \<and> validateRuntimePRRecoveries s \<and>
     fmpred (valid_tombstone env s persisted) (s_Tombstones s) \<and> fmpred (valid_intent env s persisted) (s_Effects s) \<and>
     fmpred (valid_proof env s) (s_ReviewerProofs s) \<and> length (s_ControlReceipts s) \<le> maxControlReceipts"

definition validateRuntimeOwnerState :: "Env \<Rightarrow> runtimeOwnerState \<Rightarrow> bool \<Rightarrow> bool" where
  "validateRuntimeOwnerState env s persisted \<longleftrightarrow>
     ledger_parts_ok env s persisted \<and> receipts_ok env s persisted [] [] (s_ControlReceipts s)"

lemmas validate_parts = validateRuntimeOwnerState_def ledger_parts_ok_def

text \<open>The kind of the error of a ledger that is refused.\<close>

definition validation_error :: "Env \<Rightarrow> runtimeOwnerState \<Rightarrow> bool \<Rightarrow> string \<Rightarrow> owner_error" where
  "validation_error env s persisted message =
     (if ledger_parts_ok env s persisted \<and> receipts_stale env s persisted [] [] (s_ControlReceipts s)
      then StaleStateResult else OtherError message)"

section \<open>Commit\<close>

definition named_effect :: "Env \<Rightarrow> uint64 \<Rightarrow> runtimeEffectIntent \<Rightarrow> runtimeEffectIntent" where
  "named_effect env revision e =
     (let e1 = e\<lparr>e_IntentRevision := revision\<rparr> in e1\<lparr>e_ID := runtimeEffectID env e1\<rparr>)"

text \<open>A new intent enters the ledger; its tombstone or the attempt it stops is bound to it.\<close>

definition insert_effect :: "runtimeOwnerState \<Rightarrow> runtimeEffectIntent \<Rightarrow> runtimeOwnerState" where
  "insert_effect s e =
     (let k = ownerAttemptKey (e_Repository e) (e_Issue e) (e_Attempt e);
          s1 = s\<lparr>s_Effects := fmupd (e_ID e) e (s_Effects s)\<rparr>;
          s2 = (case fmlookup (s_Tombstones s1) k of
              None \<Rightarrow> s1
            | Some t \<Rightarrow> if t_Revision t = 0
                then s1\<lparr>s_Tombstones := fmupd k (t\<lparr>t_EffectID := e_ID e\<rparr>) (s_Tombstones s1)\<rparr> else s1) in
      if e_Action e = EffectStop then
        (case fmlookup (s_Attempts s2) k of
           None \<Rightarrow> s2
         | Some r \<Rightarrow> if a_Generation r = e_AttemptGeneration e
             then s2\<lparr>s_Attempts := fmupd k (r\<lparr>a_StopEffectID := e_ID e\<rparr>) (s_Attempts s2)\<rparr> else s2)
      else s2)"

definition stamp_tombstones :: "runtimeOwnerState \<Rightarrow> runtimeOwnerState" where
  "stamp_tombstones s =
     s\<lparr>s_Tombstones := fm_step (\<lambda>_ t. Some (if t_Revision t = 0 then t\<lparr>t_Revision := s_Revision s\<rparr> else t))
       (s_Tombstones s)\<rparr>"

definition committed_candidate ::
  "Env \<Rightarrow> runtimeOwnerState \<Rightarrow> runtimeEffectIntent option \<Rightarrow> string list \<Rightarrow> runtimeOwnerState \<times> runtimeEffectIntent option" where
  "committed_candidate env candidate effect requestIDs =
     (let s1 = candidate\<lparr>s_Revision := s_Revision candidate + 1\<rparr>;
          (s2, e) = (case effect of
              None \<Rightarrow> (s1, None)
            | Some e \<Rightarrow>
                if e_ID e = [] then
                  let e1 = named_effect env (s_Revision s1) e in (insert_effect s1 e1, Some e1)
                else (s1, Some e));
          s3 = foldl (\<lambda>s q. bindOperatorReceipt s q e (s_Revision s)) s2 requestIDs in
      (revokeInvalidPlanReviewers (stamp_tombstones s3) False, e))"

definition finishRuntimeOwnerTransition ::
  "Env \<Rightarrow> runtimeOwnerState \<Rightarrow> runtimeEffectIntent option \<Rightarrow> string list \<Rightarrow>
   (runtimeOwnerState \<times> runtimeEffectIntent option) owner_result" where
  "finishRuntimeOwnerTransition env candidate effect requestIDs =
     (if s_Revision candidate = uint64_max then Inl (OtherError ''runtime revision overflow'')
      else
        let result = committed_candidate env candidate effect requestIDs in
        if validateRuntimeOwnerState env (fst result) True then Inr result
        else Inl (validation_error env (fst result) True ''validate committed runtime owner transition''))"

end
