(* ===== verification/Operator_Mutations.thy ===== *)
theory Operator_Mutations
  imports Status_Projection Owner_Ledger
begin

text \<open>
  The commands of an operator (\<^verbatim>\<open>operator_mutations_v2.go\<close>): a request first reserves an admission, bound
  to the generations and, where it matters, to the observation it was decided on; a new observation
  refreshes or refuses it; the mutation then buries the attempt, stops it, asks for a retry or starts a
  plan review, and leaves a receipt that later transitions advance.
\<close>

record beginOperatorMutationCommand =
  bo_Request :: controlRequest
  bo_Identity :: stateResultIdentity
  bo_ObservationGeneration :: uint64
  bo_ObservationCycleID :: uint64
  bo_ObservationBodyDigest :: string
  bo_Manifest :: Manifest
  bo_PublishedHead :: string
  bo_CleanupDigest :: string
  bo_CleanupPolicy :: EffectCleanupPolicy
  bo_IssueClosed :: bool
  bo_RemoteOnly :: bool
  bo_CleanupValid :: bool
  bo_LivenessFailed :: bool
  bo_Runtime :: "beginRuntimeEffectCommand option"
  bo_Reconciliation :: "beginReconciliationEffectCommand option"

record reserveOperatorAdmissionCommand =
  ro_Request :: controlRequest

record advanceOperatorRecoveryCommand =
  av_RequestID :: string
  av_Identity :: stateResultIdentity
  av_Reconciliation :: beginReconciliationEffectCommand

record finishOperatorReconciliationEffectCommand =
  fo_Finish :: finishReconciliationEffectCommand

definition request_key :: "controlRequest \<Rightarrow> string" where
  "request_key q = ownerAttemptKey (q_Repository q) (q_Issue q) (q_Attempt q)"

definition request_issue :: "controlRequest \<Rightarrow> string" where
  "request_issue q = ownerIssueKey (q_Repository q) (q_Issue q)"

definition new_receipt :: "controlRequest \<Rightarrow> string \<Rightarrow> string \<Rightarrow> string \<Rightarrow> controlReceipt" where
  "new_receipt q state phase effectID = \<lparr>r_Request = q, r_State = state, r_Phase = phase, r_EffectID = effectID,
     r_Diagnostic = [], r_Result = None, r_Admission = None\<rparr>"

definition settled_receipt :: "controlRequest \<Rightarrow> string \<Rightarrow> controlResult \<Rightarrow> controlReceipt" where
  "settled_receipt q effectID result =
     (new_receipt q ''completed'' operatorPhaseCompleted effectID)\<lparr>r_Result := Some result\<rparr>"

definition pendingReviewerResult :: "Env \<Rightarrow> controlRequest \<Rightarrow> uint64 \<Rightarrow> string \<Rightarrow> controlResult" where
  "pendingReviewerResult env q revision diagnostic =
     (successfulOperatorResult q revision)\<lparr>cr_Status := 202,
       cr_Data := ''{\"phase\":\"cleanup-pending\",\"diagnostic\":'' @ v_quote env diagnostic @ ''}''\<rparr>"

section \<open>Reserving an admission\<close>

definition zero_admission :: "runtimeOwnerState \<Rightarrow> controlRequest \<Rightarrow> operatorAdmission" where
  "zero_admission state q = \<lparr>ad_Epoch = s_Epoch state,
     ad_IssueGeneration = issueGeneration state (q_Repository q) (q_Issue q),
     ad_AttemptGeneration = fm_get (s_AttemptGenerations state) (request_key q) 0, ad_Manifest = empty_manifest,
     ad_IssueClosed = False, ad_RemoteOnly = False, ad_ObservationGeneration = 0, ad_ObservationCycleID = 0,
     ad_ObservationBodyDigest = []\<rparr>"

definition bound_admission :: "reconciliationObservation \<Rightarrow> operatorAdmission \<Rightarrow> operatorAdmission" where
  "bound_admission ob ad = ad\<lparr>ad_ObservationGeneration := ob_Generation ob,
     ad_ObservationCycleID := ob_LastCycleID ob, ad_ObservationBodyDigest := fi_BodyDigest (ob_Fact ob)\<rparr>"

definition reserve_receipt :: "runtimeOwnerState \<Rightarrow> controlRequest \<Rightarrow> operatorAdmission \<Rightarrow> runtimeOwnerState owner_result" where
  "reserve_receipt state q ad =
     appendOperatorReceipt state
       ((new_receipt q ''pending'' operatorPhaseAdmissionPending [])\<lparr>r_Admission := Some ad\<rparr>)"

text \<open>Archiving or dismissing an attempt that only GitHub still knows.\<close>

definition remote_refused :: "runtimeOwnerState \<Rightarrow> controlRequest \<Rightarrow> reconciliationObservation \<Rightarrow> bool" where
  "remote_refused state q ob \<longleftrightarrow>
     \<not> ob_Present ob \<or> s_Epoch state < ob_ObservationEpoch ob \<or>
     ob_OwnerGeneration ob \<noteq> issueGeneration state (q_Repository q) (q_Issue q) \<or>
     fi_CurrentAttempt (ob_Fact ob) \<noteq> q_Attempt q \<or> q_Action q = ''dismiss'' \<and> \<not> fi_Closed (ob_Fact ob) \<or>
     (case fmlookup (ob_Attempts ob) (request_key q) of
        None \<Rightarrow> True
      | Some a \<Rightarrow>
          \<not> ao_Present a \<or> s_Epoch state < ao_ObservationEpoch a \<or> ao_SourceIssueGeneration a \<noteq> ob_Generation ob \<or>
          ao_OwnerGeneration a \<noteq> fm_get (s_AttemptGenerations state) (request_key q) 0 \<or>
          af_State (ao_Fact a) \<noteq> ''completed'' \<or> af_Repository (ao_Fact a) \<noteq> q_Repository q \<or>
          af_Issue (ao_Fact a) \<noteq> q_Issue q \<or> af_Attempt (ao_Fact a) \<noteq> q_Attempt q)"

definition reserve_remote :: "runtimeOwnerState \<Rightarrow> controlRequest \<Rightarrow> runtimeOwnerState owner_result" where
  "reserve_remote state q =
     (if q_Action q \<notin> set [''archive'', ''dismiss''] then Inl StaleStateResult
      else case fmlookup (s_Observations state) (request_issue q) of
        None \<Rightarrow> Inl StateConflict
      | Some ob \<Rightarrow>
          if remote_refused state q ob then Inl StateConflict
          else reserve_receipt state q (bound_admission ob
            ((zero_admission state q)\<lparr>ad_IssueClosed := (q_Action q = ''dismiss''), ad_RemoteOnly := True\<rparr>)))"

definition reserve_refused ::
  "runtimeOwnerState \<Rightarrow> controlRequest \<Rightarrow> RecoveryStatus \<Rightarrow> RecoveryStatus list \<Rightarrow> owner_error option" where
  "reserve_refused state q s statuses =
     (if q_Action q = ''dismiss'' then
        (case fmlookup (s_Observations state) (request_issue q) of
           None \<Rightarrow> Some StaleStateResult
         | Some ob \<Rightarrow>
             if s_Epoch state < ob_ObservationEpoch ob then Some StaleStateResult
             else if \<not> canDismissClosedAttempt (s\<lparr>st_IssueClosed := True\<rparr>) then Some StateConflict else None)
      else if q_Action q \<in> set [''archive'', ''abandon'', ''remove''] \<and>
        \<not> validDestructiveOperatorStatus (q_Action q) s statuses then Some StateConflict
      else None)"

definition reserve_local ::
  "Env \<Rightarrow> runtimeOwnerState \<Rightarrow> controlRequest \<Rightarrow> runtimeAttemptRecord \<Rightarrow> runtimeOwnerState owner_result" where
  "reserve_local env state q r =
     (if a_Generation r = 0 \<or> a_Generation r \<noteq> fm_get (s_AttemptGenerations state) (request_key q) 0
      then Inl StaleStateResult
      else case ownerOperatorStatus env state (q_Issue q) (q_Attempt q) of
        None \<Rightarrow> Inl StateConflict
      | Some (s, statuses) \<Rightarrow>
          (case reserve_refused state q s statuses of
             Some x \<Rightarrow> Inl x
           | None \<Rightarrow>
               let ad = (zero_admission state q)\<lparr>ad_AttemptGeneration := a_Generation r, ad_Manifest := a_Manifest r\<rparr> in
               reserve_receipt state q
                 (if q_Action q \<in> set [''recover'', ''dismiss'']
                  then bound_admission (observation_for state (q_Repository q) (q_Issue q)) ad else ad)))"

definition preparing_refused :: "runtimeOwnerState \<Rightarrow> controlRequest \<Rightarrow> bool" where
  "preparing_refused state q \<longleftrightarrow>
     (q_Action q = ''cancel'' \<or> q_Action q = ''recover'') \<and>
     (case fmlookup (s_Attempts state) (request_key q) of
        None \<Rightarrow> False | Some r \<Rightarrow> m_State (a_Manifest r) = ''preparing'')"

definition applyReserveOperatorAdmission ::
  "Env \<Rightarrow> runtimeOwnerState \<Rightarrow> reserveOperatorAdmissionCommand \<Rightarrow> runtimeOwnerState owner_result" where
  "applyReserveOperatorAdmission env state c =
     (let q = ro_Request c in
      if \<not> validOperatorRequest q (s_Repository state) \<or>
        q_Action q \<notin> set [''dismiss'', ''archive'', ''abandon'', ''remove'', ''cancel'', ''recover''] then Inl StateConflict
      else case operatorReceiptByID state (q_RequestID q) of
        Some r \<Rightarrow> if r_Request r \<noteq> q then Inl StateConflict else Inr state
      | None \<Rightarrow>
          if preparing_refused state q then Inl StateConflict
          else (case find (\<lambda>r. awaiting_admission r \<and> receipt_key r = request_key q) (s_ControlReceipts state) of
             Some r \<Rightarrow>
               (case r_Admission r of
                  None \<Rightarrow> Inl StateConflict
                | Some ad \<Rightarrow>
                    if q_Action (r_Request r) \<noteq> q_Action q then Inl StateConflict else reserve_receipt state q ad)
           | None \<Rightarrow>
               (case fmlookup (s_Attempts state) (request_key q) of
                  None \<Rightarrow> reserve_remote state q
                | Some r \<Rightarrow> reserve_local env state q r)))"

section \<open>Admissions follow the observation\<close>

definition admission_moved :: "reconciliationObservation \<Rightarrow> operatorAdmission \<Rightarrow> bool" where
  "admission_moved ob ad \<longleftrightarrow> \<not> same_observation ad ob"

definition admission_lost :: "runtimeOwnerState \<Rightarrow> controlReceipt \<Rightarrow> operatorAdmission \<Rightarrow> reconciliationObservation \<Rightarrow> bool" where
  "admission_lost state r ad ob \<longleftrightarrow>
     (if ad_RemoteOnly ad then \<not> remoteOnlyOperatorAdmissionEligible state r ob
      else q_Action (r_Request r) = ''recover'' \<and> \<not> ob_Present ob \<or>
        q_Action (r_Request r) = ''dismiss'' \<and> ob_Present ob \<and> \<not> fi_Closed (ob_Fact ob))"

definition refreshed_receipt :: "runtimeOwnerState \<Rightarrow> reconciliationCollection \<Rightarrow> controlReceipt \<Rightarrow> controlReceipt" where
  "refreshed_receipt state c r =
     (let k = request_issue (r_Request r) in
      if \<not> awaiting_admission r \<or> \<not> observationSensitiveOperatorAdmission r \<or>
        \<not> reconciliationScopeContains (cl_Scope c) k then r
      else case (fmlookup (s_Observations state) k, r_Admission r) of
        (Some ob, Some ad) \<Rightarrow>
          if ob_ObservationEpoch ob \<noteq> id_Epoch (cl_Identity c) \<or> ob_LastCycleID ob \<noteq> id_CycleID (cl_Identity c) \<or>
            \<not> admission_moved ob ad then r
          else if admission_lost state r ad ob then
            r\<lparr>r_State := ''completed'', r_Phase := operatorPhaseCompleted, r_Admission := None,
              r_Result := Some (failed_result (r_Request r) (s_Revision state + 1) 409
                ''attempt or issue changed; refresh and retry'')\<rparr>
          else r\<lparr>r_Admission := Some (bound_admission ob ad)\<rparr>
      | _ \<Rightarrow> r)"

definition reconcileOperatorAdmissions :: "runtimeOwnerState \<Rightarrow> reconciliationCollection \<Rightarrow> runtimeOwnerState" where
  "reconcileOperatorAdmissions state c =
     state\<lparr>s_ControlReceipts := map (refreshed_receipt state c) (s_ControlReceipts state)\<rparr>"

definition refresh_mismatch ::
  "runtimeOwnerState \<Rightarrow> reconciliationCollection \<Rightarrow> controlRequest \<Rightarrow> operatorAdmission \<Rightarrow> bool" where
  "refresh_mismatch state c q ad \<longleftrightarrow>
     (let i = cl_Identity c in
      cl_Scope c \<noteq> \<lparr>sk_Kind = reconciliationIssueScope, sk_Repository = q_Repository q, sk_Issue = q_Issue q\<rparr> \<or>
      \<not> cl_Complete c \<or> id_Epoch i \<noteq> ad_Epoch ad \<or> id_SourceRevision i = 0 \<or> s_Revision state < id_SourceRevision i \<or>
      id_CycleID i = 0 \<or> ad_IssueGeneration ad \<noteq> issueGeneration state (q_Repository q) (q_Issue q) \<or>
      ad_AttemptGeneration ad \<noteq> fm_get (s_AttemptGenerations state) (request_key q) 0 \<or>
      fm_get (cl_IssueGenerations c) (request_issue q) 0 \<noteq> ad_IssueGeneration ad \<or>
      fm_get (cl_AttemptGenerations c) (request_key q) 0 \<noteq> ad_AttemptGeneration ad \<or>
      (case fmlookup (s_Observations state) (request_issue q) of
         None \<Rightarrow> True | Some ob \<Rightarrow> admission_moved ob ad))"

definition validateOperatorAdmissionRefresh :: "runtimeOwnerState \<Rightarrow> applyReconciliationCommand \<Rightarrow> bool" where
  "validateOperatorAdmissionRefresh state c \<longleftrightarrow>
     (case operatorReceiptByID state (ap_OperatorRequestID c) of
        None \<Rightarrow> False
      | Some r \<Rightarrow>
          q_Action (r_Request r) = ''recover'' \<and> awaiting_admission r \<and>
          (case r_Admission r of
             None \<Rightarrow> False | Some ad \<Rightarrow> \<not> refresh_mismatch state (ap_Collection c) (r_Request r) ad))"

definition bindOperatorAdmissionRefresh ::
  "runtimeOwnerState \<Rightarrow> applyReconciliationCommand \<Rightarrow> runtimeOwnerState owner_result" where
  "bindOperatorAdmissionRefresh state c =
     (case operatorReceiptByID state (ap_OperatorRequestID c) of
        None \<Rightarrow> Inl StaleStateResult
      | Some r \<Rightarrow>
          let q = r_Request r;
              group = find (\<lambda>g. fi_Repository (ig_Fact g) = q_Repository q \<and> fi_Issue (ig_Fact g) = q_Issue q)
                (cl_Issues (ap_Collection c)) in
          (case (r_Admission r, fmlookup (s_Observations state) (request_issue q), group) of
             (Some previous, Some ob, Some g) \<Rightarrow>
               if \<not> ob_Present ob \<or> s_Epoch state < ob_ObservationEpoch ob \<or> ob_Fact ob \<noteq> ig_Fact g
               then Inl StaleStateResult
               else Inr (update_receipts
                 (\<lambda>x. awaiting_admission x \<and> q_Action (r_Request x) = ''recover'' \<and> r_Admission x = Some previous)
                 (\<lambda>x. x\<lparr>r_Admission := Some (bound_admission ob previous)\<rparr>) state)
           | _ \<Rightarrow> Inl StaleStateResult))"
end
