(* ===== verification/Operator_Begin.thy ===== *)
theory Operator_Begin
  imports Operator_Mutations
begin

text \<open>
  Starting an operator's mutation (\<^verbatim>\<open>applyBeginOperatorMutation\<close> of \<^verbatim>\<open>operator_mutations_v2.go\<close>): the
  request is matched with the admission it reserved, then with the pending work it may attach to, and
  only then carried out: a burial (\<^verbatim>\<open>dismiss\<close>, \<^verbatim>\<open>archive\<close>, \<^verbatim>\<open>abandon\<close>, \<^verbatim>\<open>remove\<close>), a stop (\<^verbatim>\<open>cancel\<close>,
  \<^verbatim>\<open>recover\<close>), a retry on GitHub or a review of the plan.  The new intent and the new receipt are numbered
  when the transition is finished.
\<close>

type_synonym operator_result = "(runtimeOwnerState \<times> runtimeEffectIntent option) owner_result"

definition empty_policy :: EffectCleanupPolicy where
  "empty_policy = \<lparr>cp_Action = [], cp_PublishedHead = [], cp_CompatibilityManifestSeen = False,
     cp_CompatibilityLogSeen = False, cp_Unlaunched = False\<rparr>"

definition sameOperatorBeginIdentity :: "stateResultIdentity \<Rightarrow> stateResultIdentity \<Rightarrow> bool" where
  "sameOperatorBeginIdentity b i \<longleftrightarrow>
     id_Epoch b = id_Epoch i \<and> id_SourceRevision b = id_SourceRevision i \<and>
     id_IssueGeneration b = id_IssueGeneration i \<and> id_AttemptGeneration b = id_AttemptGeneration i \<and>
     id_CycleID b = 0 \<and> id_EffectID b = [] \<and> id_RequestDigest b = []"

definition operatorAdmissionIdentityCurrent :: "stateResultIdentity \<Rightarrow> operatorAdmission \<Rightarrow> uint64 \<Rightarrow> bool" where
  "operatorAdmissionIdentityCurrent i ad revision \<longleftrightarrow>
     id_Epoch i = ad_Epoch ad \<and> 0 < id_SourceRevision i \<and> id_SourceRevision i \<le> revision \<and>
     id_IssueGeneration i = ad_IssueGeneration ad \<and> id_AttemptGeneration i = ad_AttemptGeneration ad \<and>
     id_CycleID i = 0 \<and> id_EffectID i = [] \<and> id_RequestDigest i = []"

section \<open>Matching the reserved admission\<close>

definition admission_stale ::
  "runtimeOwnerState \<Rightarrow> beginOperatorMutationCommand \<Rightarrow> controlReceipt \<Rightarrow> operatorAdmission \<Rightarrow> bool" where
  "admission_stale state c r ad \<longleftrightarrow>
     (let q = bo_Request c in
      ad_Epoch ad \<noteq> s_Epoch state \<or> ad_IssueGeneration ad \<noteq> issueGeneration state (q_Repository q) (q_Issue q) \<or>
      ad_AttemptGeneration ad \<noteq> fm_get (s_AttemptGenerations state) (request_key q) 0 \<or>
      ad_Manifest ad \<noteq> bo_Manifest c \<or> ad_RemoteOnly ad \<noteq> bo_RemoteOnly c \<or>
      observationSensitiveOperatorAdmission r \<and>
        (bo_ObservationGeneration c \<noteq> ad_ObservationGeneration ad \<or>
         bo_ObservationCycleID c \<noteq> ad_ObservationCycleID ad \<or>
         bo_ObservationBodyDigest c \<noteq> ad_ObservationBodyDigest ad) \<or>
      (case bo_Runtime c of
         None \<Rightarrow> False
       | Some b \<Rightarrow> \<not> operatorAdmissionIdentityCurrent (br_Identity b) ad (s_Revision state)) \<or>
      (case bo_Reconciliation c of
         None \<Rightarrow> False
       | Some b \<Rightarrow> \<not> operatorAdmissionIdentityCurrent (bc_Identity b) ad (s_Revision state)))"

definition admitted_identity :: "runtimeOwnerState \<Rightarrow> operatorAdmission \<Rightarrow> stateResultIdentity" where
  "admitted_identity state ad = \<lparr>id_Epoch = ad_Epoch ad, id_SourceRevision = s_Revision state, id_CycleID = 0,
     id_IssueGeneration = ad_IssueGeneration ad, id_AttemptGeneration = ad_AttemptGeneration ad,
     id_EffectID = [], id_RequestDigest = [], id_ReviewRunID = [], id_ReviewerProfileDigest = []\<rparr>"

definition bind_observation :: "runtimeOwnerState \<Rightarrow> beginOperatorMutationCommand \<Rightarrow> beginOperatorMutationCommand" where
  "bind_observation state c =
     (case fmlookup (s_Observations state) (request_issue (bo_Request c)) of
        None \<Rightarrow> c
      | Some ob \<Rightarrow> c\<lparr>bo_ObservationGeneration := ob_Generation ob, bo_ObservationCycleID := ob_LastCycleID ob,
          bo_ObservationBodyDigest := fi_BodyDigest (ob_Fact ob)\<rparr>)"

definition admitted_command ::
  "runtimeOwnerState \<Rightarrow> operatorAdmission \<Rightarrow> beginOperatorMutationCommand \<Rightarrow> beginOperatorMutationCommand" where
  "admitted_command state ad c =
     (let i = admitted_identity state ad in
      bind_observation state (c\<lparr>bo_Identity := i,
        bo_Runtime := map_option (\<lambda>b. b\<lparr>br_Identity := i\<rparr>) (bo_Runtime c),
        bo_Reconciliation := map_option (\<lambda>b. b\<lparr>bc_Identity := i\<rparr>) (bo_Reconciliation c)\<rparr>))"

definition without_receipt :: "string \<Rightarrow> runtimeOwnerState \<Rightarrow> runtimeOwnerState" where
  "without_receipt requestID state =
     state\<lparr>s_ControlReceipts := filter (\<lambda>r. q_RequestID (r_Request r) \<noteq> requestID) (s_ControlReceipts state)\<rparr>"

section \<open>The reviewer's lease\<close>

text \<open>The certificate a superseded reviewer leaves behind, if it has none yet.\<close>

definition superseded_certificate :: "runtimeEffectIntent \<Rightarrow> reviewerEffectRequest \<Rightarrow> reviewerProcessProof" where
  "superseded_certificate e v =
     (let neverRan = e_ReviewerGateProtocol e \<and> \<not> e_ReviewerSessionRequested e \<and> \<not> e_ReviewerLaunched e \<and>
          e_ReviewerGroupPID e = 0 in
      empty_proof\<lparr>p_Repository := e_Repository e, p_Issue := e_Issue e, p_Attempt := e_Attempt e, p_Mode := rv_Mode v,
        p_Target := rv_Target v, p_RunID := rv_RunID v, p_EffectID := e_ID e,
        p_IssueGeneration := e_IssueGeneration e, p_AttemptGeneration := e_AttemptGeneration e,
        p_GroupPID := e_ReviewerGroupPID e, p_DeadProved := neverRan, p_NeverRan := neverRan,
        p_ProfileDigest := e_ReviewerProfileDigest e, p_ConfinementVersion := e_ReviewerConfinementVersion e\<rparr>)"

definition record_superseded_certificate ::
  "runtimeOwnerState \<Rightarrow> runtimeEffectIntent option \<Rightarrow> runtimeOwnerState owner_result" where
  "record_superseded_certificate state pending =
     (case pending of
        None \<Rightarrow> Inr state
      | Some e \<Rightarrow>
          if e_ID e = [] then Inr state
          else (case run_observe e of
              None \<Rightarrow> Inr state
            | Some v \<Rightarrow>
                let k = reviewerProofKey (e_Repository e) (e_Issue e) (e_Attempt e) (rv_Mode v) (rv_Target v) in
                (case fmlookup (s_ReviewerProofs state) k of
                   Some p \<Rightarrow> if p_EffectID p \<noteq> e_ID e then Inl StateConflict else Inr state
                 | None \<Rightarrow> Inr (state\<lparr>s_ReviewerProofs := fmupd k (superseded_certificate e v) (s_ReviewerProofs state)\<rparr>))))"

definition leasing_proof :: "string \<Rightarrow> int \<Rightarrow> int \<Rightarrow> reviewerProcessProof \<Rightarrow> bool" where
  "leasing_proof repository issue attempt p \<longleftrightarrow>
     p_of_attempt p repository issue attempt \<and> \<not> reviewerCleanupAuthorized p"

definition demoted_proof :: "string \<Rightarrow> int \<Rightarrow> int \<Rightarrow> reviewerProcessProof \<Rightarrow> reviewerProcessProof" where
  "demoted_proof repository issue attempt p =
     (if leasing_proof repository issue attempt p \<and> p_DeadProved p \<and> p_LegacyUnverified p
      then p\<lparr>p_DeadProved := False\<rparr> else p)"

definition smaller_lease :: "string \<Rightarrow> string \<Rightarrow> string" where
  "smaller_lease lease x = (if lease = [] \<or> x < lease then x else lease)"

definition retainReviewerLease ::
  "Env \<Rightarrow> runtimeOwnerState \<Rightarrow> string \<Rightarrow> int \<Rightarrow> int \<Rightarrow> runtimeEffectIntent option \<Rightarrow>
   (runtimeOwnerState \<times> string) owner_result" where
  "retainReviewerLease env state repository issue attempt pending =
     err_bind (record_superseded_certificate state pending) (\<lambda>s1.
       let leasing = filter (leasing_proof repository issue attempt)
             (map snd (fm_entries (v_order env) (s_ReviewerProofs s1))) in
       Inr (s1\<lparr>s_ReviewerProofs := fmmap (demoted_proof repository issue attempt) (s_ReviewerProofs s1)\<rparr>,
            foldl smaller_lease [] (map p_EffectID leasing)))"

section \<open>A request repeated after the burial\<close>

definition keep_receipt :: "runtimeOwnerState \<Rightarrow> controlReceipt \<Rightarrow> runtimeEffectIntent option \<Rightarrow> operator_result" where
  "keep_receipt state r e = err_bind (appendOperatorReceipt state r) (\<lambda>s1. Inr (s1, e))"

definition pending_receipt :: "controlRequest \<Rightarrow> string \<Rightarrow> string \<Rightarrow> controlReceipt" where
  "pending_receipt q phase effectID = new_receipt q ''pending'' phase effectID"

definition replay_cleanup ::
  "runtimeOwnerState \<Rightarrow> controlRequest \<Rightarrow> runtimeTombstone \<Rightarrow> runtimeEffectIntent \<Rightarrow> Env \<Rightarrow> operator_result" where
  "replay_cleanup state q t e env =
     (if t_CleanupPhase t = ''completed'' then
        let diagnostic = legacyReviewerDiagnostic state (q_Repository q) (q_Issue q) (q_Attempt q) in
        keep_receipt state (settled_receipt q (t_EffectID t)
          (if diagnostic = [] then successfulOperatorResult q 0 else pendingReviewerResult env q 0 diagnostic)) None
      else if e_State e \<noteq> ''pending'' then Inl StateConflict
      else keep_receipt state
        (pending_receipt q (if t_CleanupPhase t = ''cleanup-started'' then operatorPhaseCleanupStarted
           else operatorPhaseCleanupPending) (e_ID e)) (Some e))"

definition replay_bound_cleanup ::
  "Env \<Rightarrow> runtimeOwnerState \<Rightarrow> beginOperatorMutationCommand \<Rightarrow> runtimeTombstone \<Rightarrow> operator_result" where
  "replay_bound_cleanup env state c t =
     (case fmlookup (s_Effects state) (t_EffectID t) of
        None \<Rightarrow> Inl StateConflict
      | Some e \<Rightarrow>
          if e_Action e \<noteq> EffectCleanup \<or> e_RequestDigest e \<noteq> bo_CleanupDigest c \<or>
            t_CleanupPolicy t \<noteq> Some (bo_CleanupPolicy c) then Inl StateConflict
          else replay_cleanup state (bo_Request c) t e env)"

definition replayOperatorTombstone ::
  "Env \<Rightarrow> runtimeOwnerState \<Rightarrow> beginOperatorMutationCommand \<Rightarrow> runtimeTombstone \<Rightarrow> operator_result" where
  "replayOperatorTombstone env state c t =
     (let q = bo_Request c in
      if t_Action t \<noteq> operatorTombstoneAction (q_Action q) \<or> t_Manifest t \<noteq> Some (bo_Manifest c) \<or>
        t_PublishedHead t \<noteq> bo_PublishedHead c then Inl StateConflict
      else if q_Action q \<noteq> ''dismiss'' then replay_bound_cleanup env state c t
      else if t_InvalidatedStart t \<noteq> None
      then keep_receipt state (pending_receipt q operatorPhaseStartCleanup (t_EffectID t)) None
      else if t_InvalidatedHandoff t \<noteq> None \<and> \<not> t_HandoffCompensated t
      then keep_receipt state (pending_receipt q operatorPhaseHandoffCleanup (t_EffectID t)) None
      else if t_EffectID t \<noteq> [] then replay_bound_cleanup env state c t
      else if bo_CleanupDigest c \<noteq> [] \<or> bo_CleanupPolicy c \<noteq> empty_policy \<or> t_CleanupPolicy t \<noteq> None \<or>
        t_CleanupPhase t \<noteq> ''completed'' then Inl StateConflict
      else keep_receipt state (settled_receipt q [] (successfulOperatorResult q 0)) None)"

section \<open>Attempts that only GitHub knows\<close>

definition remote_replay_refused ::
  "runtimeOwnerState \<Rightarrow> beginOperatorMutationCommand \<Rightarrow> runtimeTombstone \<Rightarrow> bool" where
  "remote_replay_refused state c t \<longleftrightarrow>
     (let q = bo_Request c in
      q_Action q \<notin> set [''archive'', ''dismiss''] \<or> t_Action t \<noteq> operatorTombstoneAction (q_Action q) \<or>
      t_Manifest t \<noteq> None \<or> t_CleanupPhase t \<noteq> ''completed'' \<or> t_EffectID t \<noteq> [] \<or> t_CleanupPolicy t \<noteq> None \<or>
      t_PublishedHead t \<noteq> [] \<or> id_AttemptGeneration (bo_Identity c) \<noteq> t_Generation t \<or>
      fm_get (s_AttemptGenerations state) (request_key q) 0 \<noteq> t_Generation t \<or> bo_Manifest c \<noteq> empty_manifest)"

definition epoch_refused :: "runtimeOwnerState \<Rightarrow> bool \<Rightarrow> uint64 \<Rightarrow> bool" where
  "epoch_refused state reserved epoch \<longleftrightarrow> epoch \<noteq> s_Epoch state \<and> (\<not> reserved \<or> s_Epoch state < epoch)"

definition observation_moved :: "beginOperatorMutationCommand \<Rightarrow> reconciliationObservation \<Rightarrow> bool" where
  "observation_moved c ob \<longleftrightarrow>
     bo_ObservationGeneration c \<noteq> ob_Generation ob \<or> bo_ObservationCycleID c \<noteq> ob_LastCycleID ob \<or>
     bo_ObservationBodyDigest c \<noteq> fi_BodyDigest (ob_Fact ob)"

definition remote_command_refused :: "beginOperatorMutationCommand \<Rightarrow> reconciliationObservation \<Rightarrow> bool" where
  "remote_command_refused c ob \<longleftrightarrow>
     (let q = bo_Request c in
      q_Action q \<notin> set [''archive'', ''dismiss''] \<or> q_Action q = ''dismiss'' \<and> \<not> bo_IssueClosed c \<or>
      bo_IssueClosed c \<noteq> fi_Closed (ob_Fact ob) \<or> bo_Manifest c \<noteq> empty_manifest \<or> bo_CleanupValid c \<or>
      bo_CleanupDigest c \<noteq> [] \<or> bo_CleanupPolicy c \<noteq> empty_policy \<or> bo_Runtime c \<noteq> None \<or>
      bo_Reconciliation c \<noteq> None \<or> bo_PublishedHead c \<noteq> [])"

definition remote_attempt_refused ::
  "runtimeOwnerState \<Rightarrow> beginOperatorMutationCommand \<Rightarrow> bool \<Rightarrow> reconciliationObservation \<Rightarrow>
   reconciliationAttemptObservation \<Rightarrow> bool" where
  "remote_attempt_refused state c reserved ob a \<longleftrightarrow>
     (let q = bo_Request c in
      \<not> ao_Present a \<or> epoch_refused state reserved (ao_ObservationEpoch a) \<or>
      ao_SourceIssueGeneration a \<noteq> ob_Generation ob \<or> ao_OwnerGeneration a \<noteq> id_AttemptGeneration (bo_Identity c) \<or>
      af_State (ao_Fact a) \<noteq> ''completed'' \<or> af_Repository (ao_Fact a) \<noteq> q_Repository q \<or>
      af_Issue (ao_Fact a) \<noteq> q_Issue q \<or> af_Attempt (ao_Fact a) \<noteq> q_Attempt q)"

definition remote_stale :: "runtimeOwnerState \<Rightarrow> beginOperatorMutationCommand \<Rightarrow> bool \<Rightarrow> bool" where
  "remote_stale state c reserved \<longleftrightarrow>
     (let q = bo_Request c in
      (case fmlookup (s_Observations state) (request_issue q) of
         None \<Rightarrow> True
       | Some ob \<Rightarrow>
           remote_command_refused c ob \<or> \<not> ob_Present ob \<or> epoch_refused state reserved (ob_ObservationEpoch ob) \<or>
           fi_CurrentAttempt (ob_Fact ob) \<noteq> q_Attempt q \<or> observation_moved c ob \<or>
           (case fmlookup (ob_Attempts ob) (request_key q) of
              None \<Rightarrow> True | Some a \<Rightarrow> remote_attempt_refused state c reserved ob a)) \<or>
      fm_get (s_AttemptGenerations state) (request_key q) 0 \<noteq> id_AttemptGeneration (bo_Identity c))"

definition burial :: "runtimeOwnerState \<Rightarrow> beginOperatorMutationCommand \<Rightarrow> string \<Rightarrow> invalidateAttemptCommand" where
  "burial state c phase =
     (let q = bo_Request c in
      \<lparr>iv_Repository = q_Repository q, iv_Issue = q_Issue q, iv_Attempt = q_Attempt q,
       iv_ExpectedIssueGeneration = issueGeneration state (q_Repository q) (q_Issue q),
       iv_ExpectedAttemptGeneration = id_AttemptGeneration (bo_Identity c),
       iv_Action = operatorTombstoneAction (q_Action q), iv_CleanupPhase = phase, iv_PublishedHead = [],
       iv_Manifest = None, iv_CleanupPolicy = None, iv_Diagnostic = [], iv_EffectAction = [],
       iv_EffectRequestDigest = []\<rparr>)"

definition applyRemoteOnlyOperatorMutation ::
  "Env \<Rightarrow> runtimeOwnerState \<Rightarrow> beginOperatorMutationCommand \<Rightarrow> bool \<Rightarrow> operator_result" where
  "applyRemoteOnlyOperatorMutation env state c reserved =
     (let q = bo_Request c; settled = settled_receipt q [] (successfulOperatorResult q 0) in
      case fmlookup (s_Tombstones state) (request_key q) of
        Some t \<Rightarrow> if remote_replay_refused state c t then Inl StateConflict else keep_receipt state settled None
      | None \<Rightarrow>
          if remote_stale state c reserved then Inl StaleStateResult
          else if fm_has (s_Attempts state) (request_key q) then Inl StateConflict
          else err_bind (applyInvalidateAttempt env state (burial state c ''completed''))
            (\<lambda>(s1, _). keep_receipt s1 settled None))"

section \<open>Attaching to work under way\<close>

definition live_recovery :: "controlRequest \<Rightarrow> controlReceipt \<Rightarrow> bool" where
  "live_recovery q r \<longleftrightarrow>
     q_Action (r_Request r) = ''recover'' \<and> r_State r = ''pending'' \<and> q_Repository (r_Request r) = q_Repository q \<and>
     q_Issue (r_Request r) = q_Issue q \<and> q_Attempt (r_Request r) = q_Attempt q \<and> r_Phase r \<noteq> operatorPhaseAdmissionPending"

definition attach_refused ::
  "runtimeOwnerState \<Rightarrow> beginOperatorMutationCommand \<Rightarrow> controlReceipt \<Rightarrow> runtimeEffectIntent \<Rightarrow> bool" where
  "attach_refused state c r e \<longleftrightarrow>
     (let generation = fm_get (s_AttemptGenerations state) (request_key (bo_Request c)) 0;
          captured = id_AttemptGeneration (bo_Identity c) in
      \<not> operatorReceiptMatchesEffect r e \<or> id_IssueGeneration (bo_Identity c) \<noteq> e_IssueGeneration e \<or>
      e_AttemptGeneration e \<noteq> generation \<or>
      captured \<noteq> generation \<and> (captured = uint64_max \<or> captured + 1 \<noteq> generation))"

definition retry_request :: "runtimeEffectIntent \<Rightarrow> bool" where
  "retry_request e \<longleftrightarrow>
     (case e_Reconciliation e of
        None \<Rightarrow> False
      | Some q \<Rightarrow> rq_Action q = reconciliationGitHubIssueUpdate \<and>
          (case rq_GitHubIssueUpdate q of None \<Rightarrow> False | Some u \<Rightarrow> gu_Kind u = githubIssueRetry))"

definition retry_candidate :: "runtimeOwnerState \<Rightarrow> string \<Rightarrow> int \<Rightarrow> int \<Rightarrow> runtimeEffectIntent \<Rightarrow> bool" where
  "retry_candidate state repository issue attempt e \<longleftrightarrow>
     e_of_attempt e repository issue attempt \<and> retry_request e \<and>
     e_IssueGeneration e = issueGeneration state repository issue \<and>
     e_AttemptGeneration e = fm_get (s_AttemptGenerations state) (ownerAttemptKey repository issue attempt) 0 \<and>
     (e_State e = ''pending'' \<or> e_State e = ''completed'')"

definition currentRetryEffect ::
  "Env \<Rightarrow> runtimeOwnerState \<Rightarrow> string \<Rightarrow> int \<Rightarrow> int \<Rightarrow> runtimeEffectIntent option" where
  "currentRetryEffect env state repository issue attempt =
     (case filter (retry_candidate state repository issue attempt)
        (map snd (fm_entries (v_order env) (s_Effects state))) of
        [e] \<Rightarrow> Some e
      | _ \<Rightarrow> None)"

definition attach_retry ::
  "runtimeOwnerState \<Rightarrow> beginOperatorMutationCommand \<Rightarrow> runtimeEffectIntent \<Rightarrow> operator_result" where
  "attach_retry state c e =
     (let q = bo_Request c; planned = (case e_Reconciliation e of None \<Rightarrow> None | Some g \<Rightarrow> rq_Manifest g) in
      if id_IssueGeneration (bo_Identity c) \<noteq> e_IssueGeneration e \<or>
        id_AttemptGeneration (bo_Identity c) \<noteq> e_AttemptGeneration e \<or>
        (case planned of None \<Rightarrow> True | Some m \<Rightarrow> \<not> sameRuntimeEffectManifestBase m (bo_Manifest c) [])
      then Inl StateConflict
      else keep_receipt state
        (if e_State e = ''completed''
         then settled_receipt q (e_ID e) (successfulOperatorResult q (s_Revision state + 1))
         else pending_receipt q operatorPhaseRetryPending (e_ID e)) (Some e))"

text \<open>The result is \<open>None\<close> when there is nothing to attach to.\<close>

definition attachOperatorRecovery ::
  "Env \<Rightarrow> runtimeOwnerState \<Rightarrow> beginOperatorMutationCommand \<Rightarrow> operator_result option" where
  "attachOperatorRecovery env state c =
     (let q = bo_Request c; i = bo_Identity c in
      if bo_CleanupDigest c \<noteq> [] \<or> bo_PublishedHead c \<noteq> [] \<or> id_Epoch i \<noteq> s_Epoch state \<or>
        id_SourceRevision i = 0 \<or> s_Revision state < id_SourceRevision i then None
      else case fmlookup (s_Attempts state) (request_key q) of
        None \<Rightarrow> None
      | Some record \<Rightarrow>
          if \<not> sameRuntimeEffectManifestBase (a_Manifest record) (bo_Manifest c) [] then None
          else (case find (live_recovery q) (s_ControlReceipts state) of
             Some r \<Rightarrow>
               (case fmlookup (s_Effects state) (r_EffectID r) of
                  None \<Rightarrow> Some (Inl StateConflict)
                | Some e \<Rightarrow>
                    if attach_refused state c r e then Some (Inl StateConflict)
                    else Some (keep_receipt state (pending_receipt q (r_Phase r) (e_ID e)) (Some e)))
           | None \<Rightarrow> map_option (attach_retry state c)
               (currentRetryEffect env state (q_Repository q) (q_Issue q) (q_Attempt q))))"

definition matching_stop ::
  "runtimeOwnerState \<Rightarrow> beginOperatorMutationCommand \<Rightarrow> beginRuntimeEffectCommand \<Rightarrow> runtimeEffectIntent \<Rightarrow> bool" where
  "matching_stop state c b e \<longleftrightarrow>
     (let q = bo_Request c in
      e_State e = ''pending'' \<and> e_Action e = EffectStop \<and>
      e_of_attempt e (q_Repository q) (q_Issue q) (q_Attempt q) \<and>
      e_IssueGeneration e = id_IssueGeneration (bo_Identity c) \<and>
      e_AttemptGeneration e = fm_get (s_AttemptGenerations state) (request_key q) 0 \<and>
      e_RequestDigest e = br_RequestDigest b \<and> e_Reason e = br_Reason b \<and> br_Manifest b = bo_Manifest c)"

definition matchingPendingOperatorStop ::
  "Env \<Rightarrow> runtimeOwnerState \<Rightarrow> beginOperatorMutationCommand \<Rightarrow> runtimeEffectIntent option" where
  "matchingPendingOperatorStop env state c =
     (case bo_Runtime c of
        None \<Rightarrow> None
      | Some b \<Rightarrow>
          if br_Action b \<noteq> EffectStop \<or> \<not> sameOperatorBeginIdentity (br_Identity b) (bo_Identity c) then None
          else find (matching_stop state c b) (map snd (fm_entries (v_order env) (s_Effects state))))"

section \<open>The actions\<close>

text \<open>A dismissal hides the attempt at once and keeps the reviewer's lease until its process is proved
  dead; the lease and the candidates it leaves decide the phase of the receipt.\<close>

definition dismiss_refused :: "beginOperatorMutationCommand \<Rightarrow> RecoveryStatus \<Rightarrow> bool" where
  "dismiss_refused c s \<longleftrightarrow>
     \<not> bo_IssueClosed c \<or> \<not> canDismissClosedAttempt (s\<lparr>st_IssueClosed := bo_IssueClosed c\<rparr>) \<or>
     \<not> bo_CleanupValid c \<or> \<not> ValidEffectRequestDigest (bo_CleanupDigest c) \<or>
     cp_Action (bo_CleanupPolicy c) \<noteq> q_Action (bo_Request c) \<or> cp_PublishedHead (bo_CleanupPolicy c) \<noteq> [] \<or>
     bo_PublishedHead c \<noteq> [] \<or> bo_Runtime c \<noteq> None \<or> bo_Reconciliation c \<noteq> None"

definition cleanup_burial ::
  "runtimeOwnerState \<Rightarrow> beginOperatorMutationCommand \<Rightarrow> string \<Rightarrow> invalidateAttemptCommand" where
  "cleanup_burial state c head =
     (burial state c ''pending'')\<lparr>iv_ExpectedIssueGeneration := id_IssueGeneration (bo_Identity c),
       iv_PublishedHead := head, iv_Manifest := Some (bo_Manifest c), iv_CleanupPolicy := Some (bo_CleanupPolicy c),
       iv_EffectAction := EffectCleanup, iv_EffectRequestDigest := bo_CleanupDigest c\<rparr>"

definition leased_tombstone :: "string \<Rightarrow> runtimeTombstone \<Rightarrow> runtimeTombstone" where
  "leased_tombstone lease t =
     t\<lparr>t_ReviewerLeaseID := lease, t_Diagnostic := ''reviewer cleanup remains pending''\<rparr>"

definition dismissed_phase :: "runtimeTombstone \<Rightarrow> string" where
  "dismissed_phase t =
     (if t_InvalidatedStart t \<noteq> None then operatorPhaseStartCleanup
      else if t_InvalidatedHandoff t \<noteq> None then operatorPhaseHandoffCleanup else operatorPhaseCleanupPending)"

type_synonym begun_action = "(runtimeOwnerState \<times> runtimeEffectIntent option \<times> string) owner_result"

definition begin_dismiss :: "Env \<Rightarrow> runtimeOwnerState \<Rightarrow> beginOperatorMutationCommand \<Rightarrow> RecoveryStatus \<Rightarrow> begun_action" where
  "begin_dismiss env state c s =
     (let q = bo_Request c; k = request_key q in
      if dismiss_refused c s then Inl StateConflict
      else err_bind (pendingReviewerEffect env state (q_Repository q) (q_Issue q) (q_Attempt q)) (\<lambda>reviewer.
        err_bind (retainReviewerLease env state (q_Repository q) (q_Issue q) (q_Attempt q) reviewer) (\<lambda>(s1, lease).
        err_bind (applyInvalidateAttempt env s1 (cleanup_burial state c [])) (\<lambda>(s2, intent).
          case intent of
            None \<Rightarrow> Inr (s2, None, operatorPhaseCompleted)
          | Some e \<Rightarrow>
              let s3 = supersedePendingOperatorWorkflows s2 (q_Repository q) (q_Issue q) (q_Attempt q) (q_Action q);
                  t = leased_tombstone lease (fm_get (s_Tombstones s3) k empty_tombstone) in
              Inr (s3\<lparr>s_Tombstones := fmupd k t (s_Tombstones s3)\<rparr>, Some (bindSupersededReviewer e reviewer),
                dismissed_phase t)))))"

definition destroy_refused ::
  "beginOperatorMutationCommand \<Rightarrow> RecoveryStatus \<Rightarrow> RecoveryStatus list \<Rightarrow> bool" where
  "destroy_refused c s statuses \<longleftrightarrow>
     (let action = q_Action (bo_Request c) in
      \<not> bo_CleanupValid c \<or> \<not> validDestructiveOperatorStatus action s statuses \<or>
      \<not> ValidEffectRequestDigest (bo_CleanupDigest c) \<or> cp_Action (bo_CleanupPolicy c) \<noteq> action \<or>
      cp_PublishedHead (bo_CleanupPolicy c) \<noteq> bo_PublishedHead c \<or> bo_Runtime c \<noteq> None \<or>
      bo_Reconciliation c \<noteq> None \<or> action = ''archive'' \<and> m_State (bo_Manifest c) \<noteq> ''completed'')"

definition unlaunched_refused :: "Env \<Rightarrow> runtimeOwnerState \<Rightarrow> beginOperatorMutationCommand \<Rightarrow> bool" where
  "unlaunched_refused env state c \<longleftrightarrow>
     cp_Unlaunched (bo_CleanupPolicy c) \<and>
     (q_Action (bo_Request c) \<noteq> ''abandon'' \<or> m_Version (bo_Manifest c) \<noteq> ManifestVersion2 \<or>
      m_State (bo_Manifest c) \<noteq> ''preparing'' \<or> m_LaunchID (bo_Manifest c) \<noteq> [] \<or>
      pendingStartCandidate env state (bo_Manifest c) \<noteq> Inr None)"

definition head_refused :: "beginOperatorMutationCommand \<Rightarrow> RecoveryStatus \<Rightarrow> bool" where
  "head_refused c s \<longleftrightarrow>
     (if q_Action (bo_Request c) = ''remove'' then
        \<not> preflightObjectID (bo_PublishedHead c) \<or>
        bo_PublishedHead c \<noteq> (if st_HeadSHA s \<noteq> [] then st_HeadSHA s else m_BaseSHA (bo_Manifest c))
      else bo_PublishedHead c \<noteq> [])"

definition begin_destroy ::
  "Env \<Rightarrow> runtimeOwnerState \<Rightarrow> beginOperatorMutationCommand \<Rightarrow> RecoveryStatus \<Rightarrow> RecoveryStatus list \<Rightarrow> begun_action" where
  "begin_destroy env state c s statuses =
     (let q = bo_Request c in
      if destroy_refused c s statuses \<or> unlaunched_refused env state c \<or> head_refused c s then Inl StateConflict
      else err_bind (pendingReviewerEffect env state (q_Repository q) (q_Issue q) (q_Attempt q)) (\<lambda>reviewer.
        err_bind (applyInvalidateAttempt env state
            (cleanup_burial state c (if q_Action q = ''remove'' then bo_PublishedHead c else []))) (\<lambda>(s1, intent).
          case intent of
            None \<Rightarrow> Inr (s1, None, operatorPhaseCleanupPending)
          | Some e \<Rightarrow>
              Inr (supersedePendingOperatorWorkflows s1 (q_Repository q) (q_Issue q) (q_Attempt q) (q_Action q),
                Some (bindSupersededReviewer e reviewer), operatorPhaseCleanupPending))))"

text \<open>Both \<^verbatim>\<open>cancel\<close> and \<^verbatim>\<open>recover\<close> of a running attempt stop it first.\<close>

definition begin_stop_by ::
  "Env \<Rightarrow> runtimeOwnerState \<Rightarrow> beginOperatorMutationCommand \<Rightarrow> beginRuntimeEffectCommand \<Rightarrow> begun_action" where
  "begin_stop_by env state c b =
     (let q = bo_Request c in
      if \<not> sameOperatorBeginIdentity (br_Identity b) (bo_Identity c) then Inl StaleStateResult
      else err_bind (pendingReviewerEffect env state (q_Repository q) (q_Issue q) (q_Attempt q)) (\<lambda>reviewer.
        err_bind (applyBeginRuntimeEffect env state
            (b\<lparr>br_Identity := (br_Identity b)\<lparr>id_SourceRevision := s_Revision state\<rparr>,
               br_SupersededReviewerID := effect_id reviewer\<rparr>)) (\<lambda>(s1, e).
          Inr (supersedePendingOperatorWorkflows s1 (q_Repository q) (q_Issue q) (q_Attempt q) (q_Action q),
            Some e, operatorPhaseStopPending))))"

definition cancel_refused :: "beginOperatorMutationCommand \<Rightarrow> beginRuntimeEffectCommand \<Rightarrow> bool" where
  "cancel_refused c b \<longleftrightarrow>
     m_State (bo_Manifest c) \<noteq> ''running'' \<or> bo_Reconciliation c \<noteq> None \<or> bo_CleanupDigest c \<noteq> [] \<or>
     bo_PublishedHead c \<noteq> [] \<or> br_Action b \<noteq> EffectStop \<or> br_Manifest b \<noteq> bo_Manifest c"

definition begin_cancel :: "Env \<Rightarrow> runtimeOwnerState \<Rightarrow> beginOperatorMutationCommand \<Rightarrow> begun_action" where
  "begin_cancel env state c =
     (case bo_Runtime c of
        None \<Rightarrow> Inl StateConflict
      | Some b \<Rightarrow> if cancel_refused c b then Inl StateConflict else begin_stop_by env state c b)"

definition recovery_prefix :: string where "recovery_prefix = ''dashboard recovery: ''"

definition livenessRecoverable :: "RecoveryStatus \<Rightarrow> bool" where
  "livenessRecoverable s \<longleftrightarrow>
     st_State s = ''active'' \<or> st_State s = ''review-ready'' \<or>
     st_State s = ''blocked'' \<and> st_Retryable s \<and> st_Blockers s = [''runtime liveness mismatch'']"

definition recover_refused ::
  "beginOperatorMutationCommand \<Rightarrow> RecoveryStatus \<Rightarrow> beginRuntimeEffectCommand \<Rightarrow> bool" where
  "recover_refused c s b \<longleftrightarrow>
     m_State (bo_Manifest c) \<noteq> ''running'' \<or> \<not> livenessRecoverable s \<or> 0 < st_PR s \<or> \<not> bo_LivenessFailed c \<or>
     bo_Reconciliation c \<noteq> None \<or> br_Action b \<noteq> EffectStop \<or> \<not> has_prefix (br_Reason b) recovery_prefix \<or>
     blank (trim_prefix (br_Reason b) recovery_prefix) \<or> br_Manifest b \<noteq> bo_Manifest c"

definition retry_refused ::
  "beginOperatorMutationCommand \<Rightarrow> RecoveryStatus \<Rightarrow> beginReconciliationEffectCommand \<Rightarrow> bool" where
  "retry_refused c s b \<longleftrightarrow>
     bo_LivenessFailed c \<or> \<not> st_Retryable s \<or> 0 < st_PR s \<or>
     m_State (bo_Manifest c) \<notin> set [''failed'', ''cancelled''] \<or>
     rq_Action (bc_Request b) \<noteq> reconciliationGitHubIssueUpdate \<or>
     (case rq_GitHubIssueUpdate (bc_Request b) of None \<Rightarrow> True | Some u \<Rightarrow> gu_Kind u \<noteq> githubIssueRetry)"

definition begin_reconciled ::
  "Env \<Rightarrow> runtimeOwnerState \<Rightarrow> beginReconciliationEffectCommand \<Rightarrow> string \<Rightarrow> begun_action" where
  "begin_reconciled env state b phase =
     err_bind (applyBeginReconciliationEffect env state
         (b\<lparr>bc_Identity := (bc_Identity b)\<lparr>id_SourceRevision := s_Revision state\<rparr>\<rparr>))
       (\<lambda>(s1, e). Inr (s1, Some e, phase))"

definition begin_recover :: "Env \<Rightarrow> runtimeOwnerState \<Rightarrow> beginOperatorMutationCommand \<Rightarrow> RecoveryStatus \<Rightarrow> begun_action" where
  "begin_recover env state c s =
     (if bo_CleanupDigest c \<noteq> [] \<or> bo_PublishedHead c \<noteq> [] then Inl StateConflict
      else case bo_Runtime c of
        Some b \<Rightarrow> if recover_refused c s b then Inl StateConflict else begin_stop_by env state c b
      | None \<Rightarrow>
          (case bo_Reconciliation c of
             None \<Rightarrow> Inl StateConflict
           | Some b \<Rightarrow>
               if retry_refused c s b then Inl StateConflict
               else if \<not> sameOperatorBeginIdentity (bc_Identity b) (bo_Identity c) then Inl StaleStateResult
               else begin_reconciled env state b operatorPhaseRetryPending))"

text \<open>The run of a plan review is named after the revision that will commit it.\<close>

definition named_review ::
  "Env \<Rightarrow> runtimeOwnerState \<Rightarrow> beginOperatorMutationCommand \<Rightarrow> beginReconciliationEffectCommand \<Rightarrow>
   reviewerEffectRequest \<Rightarrow> beginReconciliationEffectCommand" where
  "named_review env state c b v =
     (let q = bo_Request c; m = bo_Manifest c; i = bo_Identity c; revision = s_Revision state + 1;
          run = reviewerRunID env (s_Epoch state) revision (id_IssueGeneration i) (id_AttemptGeneration i)
            (q_Repository q) (q_Issue q) (q_Attempt q) (rv_Mode v) (rv_Target v);
          place = reviewRunIdentity env (m_Repository m) (m_Issue m) (m_Attempt m) (rv_Target v) run in
      b\<lparr>bc_Request := (bc_Request b)\<lparr>rq_Reviewer := Some (v\<lparr>rv_RunID := run, rv_Snapshot := fst place,
          rv_Session := snd place\<rparr>)\<rparr>, bc_ReviewerSourceRevision := revision\<rparr>)"

definition begin_review_plan :: "Env \<Rightarrow> runtimeOwnerState \<Rightarrow> beginOperatorMutationCommand \<Rightarrow> begun_action" where
  "begin_review_plan env state c =
     (case bo_Reconciliation c of
        None \<Rightarrow> Inl StateConflict
      | Some b \<Rightarrow>
          if bo_Runtime c \<noteq> None \<or> bo_CleanupDigest c \<noteq> [] \<or> bo_PublishedHead c \<noteq> [] \<or>
            m_State (bo_Manifest c) \<notin> set [''running'', ''completed''] \<or>
            rq_Action (bc_Request b) \<noteq> reconciliationReviewer then Inl StateConflict
          else (case rq_Reviewer (bc_Request b) of
              None \<Rightarrow> Inl StateConflict
            | Some v \<Rightarrow>
                if rv_Mode v \<noteq> ReviewModePlan then Inl StateConflict
                else if \<not> sameOperatorBeginIdentity (bc_Identity b) (bo_Identity c) then Inl StaleStateResult
                else if s_Revision state = uint64_max then Inl (OtherError ''runtime revision overflow'')
                else begin_reconciled env state (named_review env state c b v) operatorPhaseReviewPending))"

definition begin_action ::
  "Env \<Rightarrow> runtimeOwnerState \<Rightarrow> beginOperatorMutationCommand \<Rightarrow> RecoveryStatus \<Rightarrow> RecoveryStatus list \<Rightarrow> begun_action" where
  "begin_action env state c s statuses =
     (let action = q_Action (bo_Request c) in
      if action = ''dismiss'' then begin_dismiss env state c s
      else if action \<in> set [''archive'', ''abandon'', ''remove''] then begin_destroy env state c s statuses
      else if action = ''cancel'' then begin_cancel env state c
      else if action = ''recover'' then begin_recover env state c s
      else if action = ''review-plan'' then begin_review_plan env state c
      else Inl StateConflict)"

definition action_receipt :: "Env \<Rightarrow> runtimeOwnerState \<Rightarrow> controlRequest \<Rightarrow> string \<Rightarrow> controlReceipt" where
  "action_receipt env state q phase =
     (if phase \<noteq> operatorPhaseCompleted then pending_receipt q phase []
      else
        let t = fm_get (s_Tombstones state) (request_key q) empty_tombstone in
        settled_receipt q []
          (if q_Action q = ''dismiss'' \<and> t_ReviewerLeaseID t \<noteq> []
           then pendingReviewerResult env q 0 (t_Diagnostic t) else successfulOperatorResult q 0))"

section \<open>The mutation\<close>

definition absent_orphan :: "runtimeOwnerState \<Rightarrow> beginOperatorMutationCommand \<Rightarrow> reconciliationObservation \<Rightarrow> bool" where
  "absent_orphan state c ob \<longleftrightarrow>
     \<not> ob_Present ob \<and>
     (q_Action (bo_Request c) = ''dismiss'' \<and> bo_IssueClosed c \<or> q_Action (bo_Request c) = ''abandon'') \<and>
     ob_ObservationEpoch ob \<le> s_Epoch state"

definition identity_stale :: "runtimeOwnerState \<Rightarrow> beginOperatorMutationCommand \<Rightarrow> bool" where
  "identity_stale state c \<longleftrightarrow>
     (let i = bo_Identity c; q = bo_Request c in
      id_Epoch i \<noteq> s_Epoch state \<or> id_SourceRevision i = 0 \<or> s_Revision state < id_SourceRevision i \<or>
      id_IssueGeneration i \<noteq> issueGeneration state (q_Repository q) (q_Issue q))"

definition operator_observation_stale :: "runtimeOwnerState \<Rightarrow> beginOperatorMutationCommand \<Rightarrow> bool \<Rightarrow> bool" where
  "operator_observation_stale state c reserved \<longleftrightarrow>
     (case fmlookup (s_Observations state) (request_issue (bo_Request c)) of
        None \<Rightarrow> True
      | Some ob \<Rightarrow> \<not> ob_Present ob \<and> \<not> absent_orphan state c ob \<or> observation_moved c ob \<or>
          epoch_refused state reserved (ob_ObservationEpoch ob))"

definition record_stale :: "runtimeOwnerState \<Rightarrow> beginOperatorMutationCommand \<Rightarrow> bool" where
  "record_stale state c \<longleftrightarrow>
     (let q = bo_Request c; generation = id_AttemptGeneration (bo_Identity c); m = bo_Manifest c in
      generation \<noteq> fm_get (s_AttemptGenerations state) (request_key q) 0 \<or>
      (case fmlookup (s_Attempts state) (request_key q) of
         None \<Rightarrow> True
       | Some r \<Rightarrow> a_Generation r \<noteq> generation \<or>
           a_Manifest r \<noteq> m \<and> (q_Action q \<noteq> ''review-plan'' \<or> \<not> sameManifestExceptUpdatedAt (a_Manifest r) m)))"

definition carry_out_mutation ::
  "Env \<Rightarrow> runtimeOwnerState \<Rightarrow> beginOperatorMutationCommand \<Rightarrow> operator_result" where
  "carry_out_mutation env state c =
     (let q = bo_Request c; ob = observation_for state (q_Repository q) (q_Issue q) in
      if record_stale state c then Inl StaleStateResult
      else case ownerOperatorStatus env state (q_Issue q) (q_Attempt q) of
        None \<Rightarrow> Inl StateConflict
      | Some (s, statuses) \<Rightarrow>
          if absent_orphan state c ob \<and> st_State s \<noteq> ''orphaned'' then Inl StateConflict
          else err_bind (begin_action env state c s statuses) (\<lambda>(s1, e, phase).
            keep_receipt s1 (action_receipt env s1 q phase) e))"

definition begin_local ::
  "Env \<Rightarrow> runtimeOwnerState \<Rightarrow> beginOperatorMutationCommand \<Rightarrow> operator_result" where
  "begin_local env state c =
     (let q = bo_Request c in
      case (if q_Action q = ''recover'' then attachOperatorRecovery env state c else None) of
        Some result \<Rightarrow> result
      | None \<Rightarrow>
          (case (if q_Action q = ''cancel'' \<or> q_Action q = ''recover''
              then matchingPendingOperatorStop env state c else None) of
             Some e \<Rightarrow> keep_receipt state (pending_receipt q operatorPhaseStopPending (e_ID e)) (Some e)
           | None \<Rightarrow> carry_out_mutation env state c))"

definition manifest_refused :: "Env \<Rightarrow> runtimeOwnerState \<Rightarrow> beginOperatorMutationCommand \<Rightarrow> bool" where
  "manifest_refused env state c \<longleftrightarrow>
     (let q = bo_Request c; m = bo_Manifest c in
      \<not> validateOwnerManifest env (s_Repository state) m \<or> m_Issue m \<noteq> q_Issue q \<or> m_Attempt m \<noteq> q_Attempt q)"

definition begin_mutation ::
  "Env \<Rightarrow> runtimeOwnerState \<Rightarrow> beginOperatorMutationCommand \<Rightarrow> bool \<Rightarrow> operator_result" where
  "begin_mutation env state c reserved =
     (let q = bo_Request c; generation = id_AttemptGeneration (bo_Identity c) in
      if identity_stale state c then Inl StaleStateResult
      else if bo_RemoteOnly c then applyRemoteOnlyOperatorMutation env state c reserved
      else if manifest_refused env state c then Inl StateConflict
      else case fmlookup (s_Tombstones state) (request_key q) of
        Some t \<Rightarrow>
          if generation \<noteq> t_InvalidatedGeneration t \<and> generation \<noteq> t_Generation t then Inl StaleStateResult
          else replayOperatorTombstone env state c t
      | None \<Rightarrow>
          if preparing_refused state q then Inl StateConflict
          else if operator_observation_stale state c reserved then Inl StaleStateResult
          else begin_local env state c)"

definition applyBeginOperatorMutation ::
  "Env \<Rightarrow> runtimeOwnerState \<Rightarrow> beginOperatorMutationCommand \<Rightarrow> operator_result" where
  "applyBeginOperatorMutation env state c =
     (let q = bo_Request c in
      if \<not> validOperatorRequest q (s_Repository state) then Inl StateConflict
      else case operatorReceiptByID state (q_RequestID q) of
        None \<Rightarrow> begin_mutation env state c False
      | Some r \<Rightarrow>
          if r_Request r \<noteq> q then Inl StateConflict
          else if \<not> awaiting_admission r
          then err_bind (effectForOperatorReceipt state r) (\<lambda>e. Inr (state, e))
          else (case r_Admission r of
              None \<Rightarrow> err_bind (effectForOperatorReceipt state r) (\<lambda>e. Inr (state, e))
            | Some ad \<Rightarrow>
                if admission_stale state c r ad then Inl StaleStateResult
                else begin_mutation env (without_receipt (q_RequestID q) state) (admitted_command state ad c) True))"

section \<open>The rest of a recovery\<close>

definition advanced_recovery :: "string \<Rightarrow> string \<Rightarrow> controlReceipt \<Rightarrow> bool" where
  "advanced_recovery phase effectID r \<longleftrightarrow>
     q_Action (r_Request r) = ''recover'' \<and> r_State r = ''pending'' \<and> r_Phase r = phase \<and> r_EffectID r = effectID"

definition advance_refused ::
  "runtimeOwnerState \<Rightarrow> advanceOperatorRecoveryCommand \<Rightarrow> controlReceipt \<Rightarrow> string \<Rightarrow> owner_error option" where
  "advance_refused state c r kind =
     (let g = bc_Request (av_Reconciliation c); i = av_Identity c; q = r_Request r;
          k = ownerAttemptKey (rq_Repository g) (rq_Issue g) (rq_Attempt g) in
      if rq_Action g \<noteq> reconciliationGitHubIssueUpdate \<or>
        (case rq_GitHubIssueUpdate g of None \<Rightarrow> True | Some u \<Rightarrow> gu_Kind u \<noteq> kind) \<or>
        rq_Repository g \<noteq> q_Repository q \<or> rq_Issue g \<noteq> q_Issue q \<or> rq_Attempt g \<noteq> q_Attempt q
      then Some StateConflict
      else if id_IssueGeneration i \<noteq> issueGeneration state (rq_Repository g) (rq_Issue g) \<or>
        id_AttemptGeneration i \<noteq> fm_get (s_AttemptGenerations state) k 0 then Some StaleStateResult
      else if fm_has (s_Tombstones state) k then Some AttemptTombstoned
      else if \<not> sameOperatorBeginIdentity (bc_Identity (av_Reconciliation c)) i then Some StaleStateResult
      else None)"

definition advance_step ::
  "Env \<Rightarrow> runtimeOwnerState \<Rightarrow> advanceOperatorRecoveryCommand \<Rightarrow> controlReceipt \<Rightarrow>
   (runtimeOwnerState \<times> runtimeEffectIntent) owner_result" where
  "advance_step env state c r =
     (let retry = (r_Phase r = operatorPhaseRetryAwait); b = av_Reconciliation c in
      if \<not> retry \<and> r_Phase r \<noteq> operatorPhaseTerminalAwait then Inl StateConflict
      else case advance_refused state c r (if retry then githubIssueRetry else githubIssueTerminalFailure) of
        Some x \<Rightarrow> Inl x
      | None \<Rightarrow>
          err_bind (applyBeginReconciliationEffect env state
              (b\<lparr>bc_Identity := (bc_Identity b)\<lparr>id_SourceRevision := s_Revision state\<rparr>\<rparr>)) (\<lambda>(s1, e).
            Inr (update_receipts (advanced_recovery (r_Phase r) (r_EffectID r))
              (\<lambda>x. x\<lparr>r_Phase := (if retry then operatorPhaseRetryPending else operatorPhaseTerminal),
                 r_EffectID := [], r_Diagnostic := []\<rparr>) s1, e)))"

definition applyAdvanceOperatorRecovery ::
  "Env \<Rightarrow> runtimeOwnerState \<Rightarrow> advanceOperatorRecoveryCommand \<Rightarrow> (runtimeOwnerState \<times> runtimeEffectIntent) owner_result" where
  "applyAdvanceOperatorRecovery env state c =
     (let i = av_Identity c in
      case operatorReceiptByID state (av_RequestID c) of
        None \<Rightarrow> Inl StaleStateResult
      | Some r \<Rightarrow>
          if q_Action (r_Request r) \<noteq> ''recover'' \<or> r_State r \<noteq> ''pending'' \<or> id_Epoch i \<noteq> s_Epoch state \<or>
            id_SourceRevision i = 0 \<or> s_Revision state < id_SourceRevision i then Inl StaleStateResult
          else (case fmlookup (s_Effects state) (r_EffectID r) of
              None \<Rightarrow> Inl StateConflict
            | Some e \<Rightarrow>
                if e_State e \<noteq> ''completed'' \<or> \<not> operatorReceiptMatchesEffect r e then Inl StateConflict
                else advance_step env state c r))"

definition applyFinishOperatorReconciliationEffect ::
  "Env \<Rightarrow> runtimeOwnerState \<Rightarrow> finishOperatorReconciliationEffectCommand \<Rightarrow> runtimeOwnerState owner_result" where
  "applyFinishOperatorReconciliationEffect env state c = applyFinishReconciliationEffect env state (fo_Finish c)"
end
