(* ===== verification/Owner_Transition.thy ===== *)
theory Owner_Transition
  imports Operator_Begin
begin

text \<open>
  \<^verbatim>\<open>applyStateOwnerCommand\<close> of \<^verbatim>\<open>state_owner.go\<close>, every command but the one that starts an epoch: the
  command is applied to a copy of the committed ledger; an error leaves the ledger alone, an unchanged
  copy is returned as it is, anything else is finished as a new revision.
\<close>

section \<open>Commands\<close>

datatype owner_command =
    AdvanceIssueGeneration advanceIssueGenerationCommand
  | InvalidateAttempt invalidateAttemptCommand
  | RecordEffect recordEffectCommand
  | CompleteEffect completeEffectCommand
  | BeginRuntimeEffect beginRuntimeEffectCommand
  | FinishRuntimeEffect finishRuntimeEffectCommand
  | AuthorizeRuntimeEffect authorizeRuntimeEffectCommand
  | RotateStartGate rotateStartGateCommand
  | DiagnoseRuntimeEffect diagnoseRuntimeEffectCommand
  | ResolveInvalidatedReconciliationEffect resolveInvalidatedReconciliationEffectCommand
  | SelectWorkerSeal selectWorkerSealCommand
  | AdmitMachineStatus admitMachineStatusCommand
  | ProveReviewerDead proveReviewerDeadCommand
  | MarkReviewerStopped markReviewerStoppedCommand
  | BindReviewerStopping bindReviewerStoppingCommand
  | ForgetReviewerProof forgetReviewerProofCommand
  | MarkReviewerResourcesCleaned markReviewerResourcesCleanedCommand
  | DiagnoseReconciliationEffect diagnoseRuntimeEffectCommand
  | RecordControlReceipt controlReceipt
  | RecordOperatorDiagnostic recordOperatorDiagnosticCommand
  | CompleteHandoffCompensation completeHandoffCompensationCommand
  | AbortOperatorAdmission abortOperatorAdmissionCommand
  | FailOperatorAdmission failOperatorAdmissionCommand
  | StartOperatorCleanup startOperatorCleanupCommand
  | FinishOperatorRuntimeEffect finishOperatorRuntimeEffectCommand
  | RecordCycleOutcome recordCycleOutcomeCommand
  | ApplyReconciliation applyReconciliationCommand
  | BeginReconciliationEffect beginReconciliationEffectCommand
  | AuthorizeReconciliationEffect authorizeReconciliationEffectCommand
  | MarkHandoffPrepared markHandoffPreparedCommand
  | MarkPlanReviewRunning markPlanReviewRunningCommand
  | MarkReviewerSessionRequested markReviewerSessionRequestedCommand
  | SealReviewerResult sealReviewerResultCommand
  | SupersedePlanReview supersedePlanReviewCommand
  | FinishReconciliationEffect finishReconciliationEffectCommand
  | MutatePRRecovery mutatePRRecoveryCommand
  | MutateGovernancePhase mutateGovernancePhaseCommand
  | ReserveOperatorAdmission reserveOperatorAdmissionCommand
  | BeginOperatorMutation beginOperatorMutationCommand
  | FinishOperatorReconciliationEffect finishOperatorReconciliationEffectCommand
  | AdvanceOperatorRecovery advanceOperatorRecoveryCommand

definition applyCycleOutcome :: "runtimeOwnerState \<Rightarrow> recordCycleOutcomeCommand \<Rightarrow> runtimeOwnerState owner_result" where
  "applyCycleOutcome s c =
     (let i = co_Identity c in
      if id_Epoch i \<noteq> s_Epoch s \<or> id_CycleID i = 0 \<or> id_SourceRevision i = 0 \<or> s_Revision s < id_SourceRevision i \<or>
        \<not> boundedText (co_Diagnostic c) maxReconciliationStringBytes False \<or>
        (co_Diagnostic c = []) \<noteq> time_is_zero (co_At c) then Inl StateConflict
      else if s_CycleOutcomeEpoch s = id_Epoch i \<and> id_CycleID i < s_CycleOutcomeID s then Inl StaleStateResult
      else if s_CycleOutcomeEpoch s = id_Epoch i \<and> id_CycleID i = s_CycleOutcomeID s then
        (if s_CycleOutcomeSource s = id_SourceRevision i \<and> s_CycleDiagnostic s = co_Diagnostic c \<and>
           s_CycleDiagnosticAt s = co_At c then Inr s else Inl StateConflict)
      else Inr (s\<lparr>s_CycleDiagnostic := co_Diagnostic c, s_CycleDiagnosticAt := co_At c,
        s_CycleOutcomeEpoch := id_Epoch i, s_CycleOutcomeID := id_CycleID i,
        s_CycleOutcomeSource := id_SourceRevision i\<rparr>))"

text \<open>A reconciliation taken for one operator's request must not have met a stale issue.\<close>

definition apply_observed ::
  "Env \<Rightarrow> runtimeOwnerState \<Rightarrow> applyReconciliationCommand \<Rightarrow> (string, appliedReconciliationCycle) fmap \<Rightarrow>
   runtimeOwnerState owner_result" where
  "apply_observed env s c applied =
     (let operator = (ap_OperatorRequestID c \<noteq> []) in
      if operator \<and> \<not> validateOperatorAdmissionRefresh s c then Inl StaleStateResult
      else err_bind (applyReconciliation env s (ap_Collection c) applied) (\<lambda>s1.
        if \<not> operator then Inr (reconcileOperatorAdmissions s1 (ap_Collection c))
        else if s_StaleReconciliations s1 \<noteq> s_StaleReconciliations s then Inl StaleStateResult
        else bindOperatorAdmissionRefresh s1 c))"

text \<open>Requests admitted together with the one that begins share its receipt.\<close>

definition attached_copy :: "controlReceipt \<Rightarrow> controlRequest \<Rightarrow> controlReceipt" where
  "attached_copy primary q =
     primary\<lparr>r_Request := q,
       r_Result := map_option (\<lambda>x. x\<lparr>cr_RequestID := q_RequestID q, cr_Action := q_Action q\<rparr>) (r_Result primary)\<rparr>"

fun attach_admitted :: "controlReceipt \<Rightarrow> controlRequest list \<Rightarrow> runtimeOwnerState \<Rightarrow> runtimeOwnerState owner_result" where
  "attach_admitted primary [] s = Inr s"
| "attach_admitted primary (q # qs) s =
     err_bind (appendOperatorReceipt (without_receipt (q_RequestID q) s) (attached_copy primary q))
       (attach_admitted primary qs)"

definition begin_admitted ::
  "Env \<Rightarrow> runtimeOwnerState \<Rightarrow> beginOperatorMutationCommand \<Rightarrow>
   (runtimeOwnerState \<times> runtimeEffectIntent option \<times> string list) owner_result" where
  "begin_admitted env s c =
     (let x = q_RequestID (bo_Request c); reserved = matchingOperatorAdmissions s (bo_Request c);
          others = filter (\<lambda>q. q_RequestID q \<noteq> x) reserved in
      err_bind (applyBeginOperatorMutation env s c) (\<lambda>(s1, e).
        if length reserved \<le> 1 then Inr (s1, e, [x])
        else case operatorReceiptByID s1 x of
          None \<Rightarrow> Inl StateConflict
        | Some primary \<Rightarrow>
            if r_Phase primary = operatorPhaseAdmissionPending then Inl StateConflict
            else err_bind (attach_admitted primary others s1)
              (\<lambda>s2. Inr (s2, e, x # map q_RequestID others))))"

definition advancing_requests :: "runtimeOwnerState \<Rightarrow> string list" where
  "advancing_requests s =
     map (\<lambda>r. q_RequestID (r_Request r)) (filter (\<lambda>r. q_Action (r_Request r) = ''recover'' \<and> r_State r = ''pending'' \<and>
       r_EffectID r = [] \<and> (r_Phase r = operatorPhaseTerminal \<or> r_Phase r = operatorPhaseRetryPending))
       (s_ControlReceipts s))"

text \<open>A candidate with the intent it returns and the requests whose receipts are bound to it: \<open>New\<close> is
  finished even if the candidate is the committed ledger, \<open>Quiet\<close> only if the candidate differs, and
  \<open>Found\<close> is returned as it is, without a new revision.\<close>

datatype candidate =
    New runtimeOwnerState "runtimeEffectIntent option" "string list"
  | Quiet runtimeOwnerState "runtimeEffectIntent option" "string list"
  | Found runtimeOwnerState runtimeEffectIntent

abbreviation quietly :: "runtimeOwnerState owner_result \<Rightarrow> candidate owner_result" where
  "quietly r \<equiv> err_bind r (\<lambda>s. Inr (Quiet s None []))"

text \<open>An intent that has an identity was begun before.\<close>

definition begun :: "(runtimeOwnerState \<times> runtimeEffectIntent) owner_result \<Rightarrow> candidate owner_result" where
  "begun r = err_bind r (\<lambda>(s1, e). Inr (if e_ID e \<noteq> [] then Found s1 e else New s1 (Some e) []))"

text \<open>The cycles applied so far are kept by the loop that calls the transition.\<close>

type_synonym applied_cycles = "(string, appliedReconciliationCycle) fmap"

fun apply_candidate :: "Env \<Rightarrow> applied_cycles \<Rightarrow> runtimeOwnerState \<Rightarrow> owner_command \<Rightarrow> candidate owner_result" where
  "apply_candidate env applied s (AdvanceIssueGeneration c) = quietly (applyAdvanceIssueGeneration env s c)"
| "apply_candidate env applied s (InvalidateAttempt c) = err_bind (applyInvalidateAttempt env s c) (\<lambda>(s1, e). Inr (Quiet s1 e []))"
| "apply_candidate env applied s (RecordEffect c) = err_bind (applyRecordEffect s c) (\<lambda>e. Inr (New s (Some e) []))"
| "apply_candidate env applied s (CompleteEffect c) = quietly (applyCompleteEffect s c)"
| "apply_candidate env applied s (BeginRuntimeEffect c) =
     begun (applyBeginRuntimeEffect env s c)"
| "apply_candidate env applied s (FinishRuntimeEffect c) = quietly (applyFinishRuntimeEffect env s c)"
| "apply_candidate env applied s (AuthorizeRuntimeEffect c) = quietly (applyAuthorizeRuntimeEffect s c)"
| "apply_candidate env applied s (RotateStartGate c) =
     err_bind (applyRotateStartGate s c) (\<lambda>s1. 
       Inr (New s1 (fmlookup (s_Effects s1) (id_EffectID (rg_Identity c))) []))"
| "apply_candidate env applied s (DiagnoseRuntimeEffect c) = quietly (applyDiagnoseRuntimeEffect s c)"
| "apply_candidate env applied s (ResolveInvalidatedReconciliationEffect c) =
     quietly (applyResolveInvalidatedReconciliationEffect s c)"
| "apply_candidate env applied s (SelectWorkerSeal c) = quietly (applySelectWorkerSeal env s c)"
| "apply_candidate env applied s (AdmitMachineStatus c) = quietly (applyAdmitMachineStatus env s c)"
| "apply_candidate env applied s (ProveReviewerDead c) = quietly (applyProveReviewerDead s c)"
| "apply_candidate env applied s (MarkReviewerStopped c) = quietly (applyMarkReviewerStopped s c)"
| "apply_candidate env applied s (BindReviewerStopping c) = quietly (applyBindReviewerStopping env s c)"
| "apply_candidate env applied s (ForgetReviewerProof c) = quietly (applyForgetReviewerProof s c)"
| "apply_candidate env applied s (MarkReviewerResourcesCleaned c) = quietly (applyMarkReviewerResourcesCleaned env s c)"
| "apply_candidate env applied s (DiagnoseReconciliationEffect c) = quietly (applyDiagnoseReconciliationEffect s c)"
| "apply_candidate env applied s (RecordControlReceipt c) = quietly (applyControlReceipt env s c)"
| "apply_candidate env applied s (RecordOperatorDiagnostic c) = quietly (applyRecordOperatorDiagnostic s c)"
| "apply_candidate env applied s (CompleteHandoffCompensation c) = quietly (applyCompleteHandoffCompensation s c)"
| "apply_candidate env applied s (AbortOperatorAdmission c) = quietly (applyAbortOperatorAdmission s c)"
| "apply_candidate env applied s (FailOperatorAdmission c) = quietly (applyFailOperatorAdmission env s c)"
| "apply_candidate env applied s (StartOperatorCleanup c) = quietly (applyStartOperatorCleanup s c)"
| "apply_candidate env applied s (FinishOperatorRuntimeEffect c) = quietly (applyFinishOperatorRuntimeEffect env s c)"
| "apply_candidate env applied s (RecordCycleOutcome c) = quietly (applyCycleOutcome s c)"
| "apply_candidate env applied s (ApplyReconciliation c) = quietly (apply_observed env s c applied)"
| "apply_candidate env applied s (BeginReconciliationEffect c) = begun (applyBeginReconciliationEffect env s c)"
| "apply_candidate env applied s (AuthorizeReconciliationEffect c) = quietly (applyAuthorizeReconciliationEffect env s c)"
| "apply_candidate env applied s (MarkHandoffPrepared c) = quietly (applyMarkHandoffPrepared env s c)"
| "apply_candidate env applied s (MarkPlanReviewRunning c) = quietly (applyMarkPlanReviewRunning env s c)"
| "apply_candidate env applied s (MarkReviewerSessionRequested c) =
     quietly (applyMarkReviewerSessionRequested env s c)"
| "apply_candidate env applied s (SealReviewerResult c) = quietly (applySealReviewerResult env s c)"
| "apply_candidate env applied s (SupersedePlanReview c) = quietly (applySupersedePlanReview env s c)"
| "apply_candidate env applied s (FinishReconciliationEffect c) = quietly (applyFinishReconciliationEffect env s c)"
| "apply_candidate env applied s (MutatePRRecovery c) = quietly (applyMutatePRRecovery env s c)"
| "apply_candidate env applied s (MutateGovernancePhase c) = quietly (applyMutateGovernancePhase env s c)"
| "apply_candidate env applied s (ReserveOperatorAdmission c) = quietly (applyReserveOperatorAdmission env s c)"
| "apply_candidate env applied s (BeginOperatorMutation c) =
     err_bind (begin_admitted env s c) (\<lambda>(s1, e, ids). Inr (Quiet s1 e ids))"
| "apply_candidate env applied s (FinishOperatorReconciliationEffect c) =
     quietly (applyFinishOperatorReconciliationEffect env s c)"
| "apply_candidate env applied s (AdvanceOperatorRecovery c) =
     err_bind (applyAdvanceOperatorRecovery env s c) (\<lambda>(s1, e). Inr (New s1 (Some e) (advancing_requests s1)))"

definition applyStateOwnerCommand ::
  "Env \<Rightarrow> applied_cycles \<Rightarrow> runtimeOwnerState \<Rightarrow> owner_command \<Rightarrow>
   (runtimeOwnerState \<times> runtimeEffectIntent option) owner_result" where
  "applyStateOwnerCommand env applied s c =
     err_bind (apply_candidate env applied s c) (\<lambda>r.
       case r of
         New s1 e ids \<Rightarrow> finishRuntimeOwnerTransition env s1 e ids
       | Quiet s1 e ids \<Rightarrow> if s1 = s then Inr (s1, e) else finishRuntimeOwnerTransition env s1 e ids
       | Found s1 e \<Rightarrow> Inr (s1, Some e))"

section \<open>Runs of the owner\<close>

inductive owner_step :: "Env \<Rightarrow> runtimeOwnerState \<Rightarrow> runtimeOwnerState \<Rightarrow> bool" for env where
  owner_stepI: "applyStateOwnerCommand env applied s c = Inr (s', e) \<Longrightarrow> owner_step env s s'"

inductive owner_run :: "Env \<Rightarrow> runtimeOwnerState \<Rightarrow> runtimeOwnerState \<Rightarrow> bool" for env where
  owner_run_refl: "owner_run env s s"
| owner_run_step: "owner_run env s s' \<Longrightarrow> owner_step env s' s'' \<Longrightarrow> owner_run env s s''"

end
