(* ===== verification/Owner_Safety.thy ===== *)
theory Owner_Safety
  imports Owner_Transition
begin

text \<open>
  What no command of the owner ever undoes.  The relation \<open>keeps\<close> between a ledger and the candidate
  computed from it says that generations never fall, and that a tombstone stays, with everything that
  identifies it, while its attempt keeps its generation and never gets a record again.  Every
  transition is shown to keep; a commit adds a revision; the properties follow for whole runs.
\<close>

section \<open>The relation\<close>

definition phase_rank :: "string \<Rightarrow> nat" where
  "phase_rank phase = (if phase = ''completed'' then 2 else if phase = ''cleanup-started'' then 1 else 0)"

definition same_burial :: "runtimeTombstone \<Rightarrow> runtimeTombstone \<Rightarrow> bool" where
  "same_burial t t' \<longleftrightarrow>
     t_Repository t' = t_Repository t \<and> t_Issue t' = t_Issue t \<and> t_Attempt t' = t_Attempt t \<and>
     t_Action t' = t_Action t \<and> t_InvalidatedGeneration t' = t_InvalidatedGeneration t \<and>
     t_Generation t' = t_Generation t \<and> t_PublishedHead t' = t_PublishedHead t \<and>
     t_CleanupPolicy t' = t_CleanupPolicy t \<and>
     t_WorkerAuthorityRevokedDigest t' = t_WorkerAuthorityRevokedDigest t \<and>
     t_InvalidatedHandoff t' = t_InvalidatedHandoff t \<and> t_InvalidatedStart t' = t_InvalidatedStart t \<and>
     phase_rank (t_CleanupPhase t) \<le> phase_rank (t_CleanupPhase t') \<and>
     (t_HandoffCompensated t \<longrightarrow> t_HandoffCompensated t') \<and>
     fset (fmdom (t_ExternalOutcomes t)) \<subseteq> fset (fmdom (t_ExternalOutcomes t'))"

definition tombstone_kept :: "runtimeOwnerState \<Rightarrow> runtimeOwnerState \<Rightarrow> string \<Rightarrow> bool" where
  "tombstone_kept s s' k \<longleftrightarrow>
     (\<forall>t. fmlookup (s_Tombstones s) k = Some t \<longrightarrow>
        (\<exists>t'. fmlookup (s_Tombstones s') k = Some t' \<and> same_burial t t') \<and>
        fm_get (s_AttemptGenerations s') k 0 = fm_get (s_AttemptGenerations s) k 0 \<and>
        (fm_has (s_Attempts s') k \<longrightarrow> fm_has (s_Attempts s) k))"

definition keeps :: "runtimeOwnerState \<Rightarrow> runtimeOwnerState \<Rightarrow> bool" where
  "keeps s s' \<longleftrightarrow>
     s_Revision s' = s_Revision s \<and> s_Epoch s' = s_Epoch s \<and> s_Repository s' = s_Repository s \<and>
     (\<forall>k. fm_get (s_IssueGenerations s) k 0 \<le> fm_get (s_IssueGenerations s') k 0) \<and>
     (\<forall>k. fm_get (s_AttemptGenerations s) k 0 \<le> fm_get (s_AttemptGenerations s') k 0) \<and>
     (\<forall>k. tombstone_kept s s' k)"

lemma same_burial_refl [simp, intro]: "same_burial t t"
  by (simp add: same_burial_def)

lemma same_burial_trans: "same_burial t u \<Longrightarrow> same_burial u v \<Longrightarrow> same_burial t v"
  unfolding same_burial_def by (clarsimp, blast intro: order_trans)

lemma tombstone_kept_trans:
  assumes "tombstone_kept s s' k" "tombstone_kept s' s'' k"
  shows "tombstone_kept s s'' k"
  unfolding tombstone_kept_def
proof (intro allI impI)
  fix t assume t: "fmlookup (s_Tombstones s) k = Some t"
  with assms(1) obtain t' where t': "fmlookup (s_Tombstones s') k = Some t'" "same_burial t t'"
    and g: "fm_get (s_AttemptGenerations s') k 0 = fm_get (s_AttemptGenerations s) k 0"
    and a: "fm_has (s_Attempts s') k \<longrightarrow> fm_has (s_Attempts s) k"
    unfolding tombstone_kept_def by blast
  from assms(2) t'(1) obtain t'' where t'': "fmlookup (s_Tombstones s'') k = Some t''" "same_burial t' t''"
    and g': "fm_get (s_AttemptGenerations s'') k 0 = fm_get (s_AttemptGenerations s') k 0"
    and a': "fm_has (s_Attempts s'') k \<longrightarrow> fm_has (s_Attempts s') k"
    unfolding tombstone_kept_def by blast
  show "(\<exists>t'. fmlookup (s_Tombstones s'') k = Some t' \<and> same_burial t t') \<and>
    fm_get (s_AttemptGenerations s'') k 0 = fm_get (s_AttemptGenerations s) k 0 \<and>
    (fm_has (s_Attempts s'') k \<longrightarrow> fm_has (s_Attempts s) k)"
    using t'' g g' a a' same_burial_trans[OF t'(2)] by auto
qed

lemma keeps_refl [simp, intro]: "keeps s s"
  by (auto simp: keeps_def tombstone_kept_def)

lemma keeps_trans [trans]: "keeps s s' \<Longrightarrow> keeps s' s'' \<Longrightarrow> keeps s s''"
  unfolding keeps_def using order_trans tombstone_kept_trans by (metis (no_types, lifting))

section \<open>Transitions that touch none of it\<close>

definition same_core :: "runtimeOwnerState \<Rightarrow> runtimeOwnerState \<Rightarrow> bool" where
  "same_core s s' \<longleftrightarrow>
     s_Revision s' = s_Revision s \<and> s_Epoch s' = s_Epoch s \<and> s_Repository s' = s_Repository s \<and>
     s_IssueGenerations s' = s_IssueGenerations s \<and> s_AttemptGenerations s' = s_AttemptGenerations s \<and>
     s_Tombstones s' = s_Tombstones s \<and> s_Attempts s' = s_Attempts s"

lemma same_core_refl [simp, intro]: "same_core s s"
  by (simp add: same_core_def)

lemma same_core_trans: "same_core s s' \<Longrightarrow> same_core s' s'' \<Longrightarrow> same_core s s''"
  by (simp add: same_core_def)

lemma same_core_keeps: "same_core s s' \<Longrightarrow> keeps s s'"
  by (auto simp: same_core_def keeps_def tombstone_kept_def)

named_theorems core_simps "transitions that leave the core of the ledger alone"

lemma core_deleteIssueRecoveries [core_simps]: "same_core s (deleteIssueRecoveries s r i)"
  by (simp add: deleteIssueRecoveries_def same_core_def)

lemma core_deleteAttemptEffects [core_simps]: "same_core s (deleteAttemptEffects s r i a)"
  by (simp add: deleteAttemptEffects_def same_core_def)

lemma core_invalidateAttemptEffects [core_simps]: "same_core s (invalidateAttemptEffects s r i a)"
  by (simp add: invalidateAttemptEffects_def same_core_def)

lemma core_pruneSuperseded [core_simps]: "pruneSupersededIssueEffects s r i g = Inr s' \<Longrightarrow> same_core s s'"
  by (auto simp: pruneSupersededIssueEffects_def same_core_def split: if_splits)

lemma core_pruneCompleted [core_simps]: "same_core s (pruneCompletedAttemptEffects s r i a)"
  by (simp add: pruneCompletedAttemptEffects_def same_core_def Let_def)

lemma core_deleteAttemptObservation [core_simps]: "deleteAttemptObservation env s r i a = Inr s' \<Longrightarrow> same_core s s'"
  by (auto simp: deleteAttemptObservation_def same_core_def Let_def split: if_splits option.splits)

lemma core_invalidateControlSnapshot [core_simps]: "same_core s (invalidateControlSnapshot env s k)"
  by (simp add: invalidateControlSnapshot_def same_core_def Let_def split: option.split)

lemma core_admit [core_simps]: "applyAdmitMachineStatus env s c = Inr s' \<Longrightarrow> same_core s s'"
  by (auto simp: applyAdmitMachineStatus_def supersede_status_effects_def same_core_def Let_def split: if_splits)

lemma core_bump_issue [core_simps]: "bump_issue env s r i a g h x y = Inr s' \<Longrightarrow> same_core s s'"
  by (auto simp: bump_issue_def split: if_splits intro: core_admit)

lemma core_update_receipts [core_simps]: "same_core s (update_receipts P f s)"
  by (simp add: update_receipts_def same_core_def)

lemma core_authorize [core_simps]: "applyAuthorizeRuntimeEffect s c = Inr s' \<Longrightarrow> same_core s s'"
  by (auto simp: applyAuthorizeRuntimeEffect_def same_core_def Let_def split: if_splits option.splits)

lemma core_rotate [core_simps]: "applyRotateStartGate s c = Inr s' \<Longrightarrow> same_core s s'"
  by (auto simp: applyRotateStartGate_def same_core_def Let_def split: if_splits option.splits)

lemma core_diagnose [core_simps]: "applyDiagnoseRuntimeEffect s c = Inr s' \<Longrightarrow> same_core s s'"
  by (auto simp: applyDiagnoseRuntimeEffect_def same_core_def split: if_splits option.splits)

lemma core_diagnose_reconciliation [core_simps]: "applyDiagnoseReconciliationEffect s c = Inr s' \<Longrightarrow> same_core s s'"
  by (auto simp: applyDiagnoseReconciliationEffect_def same_core_def split: if_splits option.splits)

lemma core_prove_dead [core_simps]: "applyProveReviewerDead s c = Inr s' \<Longrightarrow> same_core s s'"
  by (auto simp: applyProveReviewerDead_def same_core_def Let_def split: if_splits option.splits)

lemma core_bind_stopping [core_simps]: "applyBindReviewerStopping env s c = Inr s' \<Longrightarrow> same_core s s'"
  by (auto simp: applyBindReviewerStopping_def same_core_def Let_def split: if_splits option.splits prod.splits)

lemma core_forget [core_simps]: "applyForgetReviewerProof s c = Inr s' \<Longrightarrow> same_core s s'"
  by (auto simp: applyForgetReviewerProof_def same_core_def Let_def split: if_splits option.splits)

lemma core_cleaned [core_simps]: "applyMarkReviewerResourcesCleaned env s c = Inr s' \<Longrightarrow> same_core s s'"
  by (auto simp: applyMarkReviewerResourcesCleaned_def same_core_def Let_def split: if_splits option.splits)

lemma core_receipt [core_simps]: "applyControlReceipt env s c = Inr s' \<Longrightarrow> same_core s s'"
  by (auto simp: applyControlReceipt_def same_core_def Let_def split: if_splits option.splits prod.splits)

lemma core_diagnostic [core_simps]: "applyRecordOperatorDiagnostic s c = Inr s' \<Longrightarrow> same_core s s'"
  by (auto simp: applyRecordOperatorDiagnostic_def Let_def core_simps split: if_splits)

lemma core_abort [core_simps]: "applyAbortOperatorAdmission s c = Inr s' \<Longrightarrow> same_core s s'"
  by (auto simp: applyAbortOperatorAdmission_def same_core_def split: if_splits option.splits)

lemma core_fail [core_simps]: "applyFailOperatorAdmission env s c = Inr s' \<Longrightarrow> same_core s s'"
  by (auto simp: applyFailOperatorAdmission_def Let_def core_simps split: if_splits option.splits)

lemma core_cycle [core_simps]: "applyCycleOutcome s c = Inr s' \<Longrightarrow> same_core s s'"
  by (auto simp: applyCycleOutcome_def same_core_def Let_def split: if_splits)

lemma core_complete_receipts [core_simps]: "same_core s (completeOperatorReceipts s x)"
  by (simp add: completeOperatorReceipts_def core_simps)

lemma core_advance_receipts [core_simps]: "same_core s (fst (advanceRecoverReceipts s x y z))"
  by (simp add: advanceRecoverReceipts_def core_simps)

lemma core_bind_receipt [core_simps]: "same_core s (bindOperatorReceipt s q e r)"
  by (simp add: bindOperatorReceipt_def same_core_def)

lemma core_revoke [core_simps]: "same_core s (revokeInvalidPlanReviewers s b)"
  by (simp add: revokeInvalidPlanReviewers_def same_core_def)

section \<open>Single updates\<close>

lemma keeps_issue_bump:
  assumes "fm_get (s_IssueGenerations s) k 0 \<noteq> uint64_max"
  shows "keeps s (s\<lparr>s_IssueGenerations := fmupd k (fm_get (s_IssueGenerations s) k 0 + 1) (s_IssueGenerations s)\<rparr>)"
  using uint64_inc_gt[OF assms] by (auto simp: keeps_def tombstone_kept_def)

lemma keeps_attempt_generation:
  assumes "\<not> fm_has (s_Tombstones s) k" "fm_get (s_AttemptGenerations s) k 0 \<le> g"
  shows "keeps s (s\<lparr>s_AttemptGenerations := fmupd k g (s_AttemptGenerations s)\<rparr>)"
  using assms by (auto simp: keeps_def tombstone_kept_def fm_has_def)

lemma keeps_attempts:
  assumes "\<And>k. fm_has (s_Tombstones s) k \<Longrightarrow> fm_has A k \<Longrightarrow> fm_has (s_Attempts s) k"
  shows "keeps s (s\<lparr>s_Attempts := A\<rparr>)"
  using assms by (auto simp: keeps_def tombstone_kept_def fm_has_def)

lemma keeps_attempt_set: "fm_has (s_Attempts s) k \<or> \<not> fm_has (s_Tombstones s) k \<Longrightarrow>
    keeps s (s\<lparr>s_Attempts := fmupd k r (s_Attempts s)\<rparr>)"
  by (rule keeps_attempts) auto

lemma keeps_attempt_drop: "keeps s (s\<lparr>s_Attempts := fmdrop k (s_Attempts s)\<rparr>)"
  by (rule keeps_attempts) auto

lemma keeps_tombstones:
  assumes "\<And>k t. fmlookup (s_Tombstones s) k = Some t \<Longrightarrow> \<exists>t'. fmlookup T k = Some t' \<and> same_burial t t'"
  shows "keeps s (s\<lparr>s_Tombstones := T\<rparr>)"
  using assms by (auto simp: keeps_def tombstone_kept_def)

lemma keeps_tombstone_set:
  assumes "\<And>t. fmlookup (s_Tombstones s) k = Some t \<Longrightarrow> same_burial t t'"
  shows "keeps s (s\<lparr>s_Tombstones := fmupd k t' (s_Tombstones s)\<rparr>)"
  by (rule keeps_tombstones) (use assms in auto)

text \<open>Updates of the same tombstone or of the maps no clause mentions.\<close>

lemma keeps_cong:
  assumes "keeps s s'" "same_core s' s''"
  shows "keeps s s''"
  using keeps_trans[OF assms(1) same_core_keeps[OF assms(2)]] .

lemma phase_rank_le: "phase_rank p \<le> 2"
  by (simp add: phase_rank_def)

lemma phase_rank_completed [simp]: "phase_rank ''completed'' = 2"
  by (simp add: phase_rank_def)

section \<open>Transitions of attempts\<close>

lemma keeps_advance:
  assumes "applyAdvanceIssueGeneration env s c = Inr s'"
  shows "keeps s s'"
proof -
  let ?k = "ownerIssueKey (ag_Repository c) (ag_Issue c)"
  let ?s0 = "s\<lparr>s_IssueGenerations := fmupd ?k (fm_get (s_IssueGenerations s) ?k 0 + 1) (s_IssueGenerations s)\<rparr>"
  from assms obtain s1 r i a g h x y where g: "fm_get (s_IssueGenerations s) ?k 0 \<noteq> uint64_max"
    and b: "bump_issue env ?s0 r i a g h x y = Inr s1"
    and e: "same_core s1 s'"
    by (auto simp: applyAdvanceIssueGeneration_def Let_def issueGeneration_def deleteIssueRecoveries_def same_core_def
        split: if_splits)
  have "keeps s ?s0" by (rule keeps_issue_bump[OF g])
  from keeps_cong[OF keeps_cong[OF this core_bump_issue[OF b]] e] show ?thesis .
qed

lemma keeps_first_generation:
  assumes "first_generation env s m g = Inr s'" "g = issueGeneration s (m_Repository m) (m_Issue m)"
    "\<not> fm_has (s_Tombstones s) (ownerAttemptKey (m_Repository m) (m_Issue m) (m_Attempt m))"
    "attemptGeneration s (m_Repository m) (m_Issue m) (m_Attempt m) = 0"
  shows "keeps s s'"
proof -
  let ?k = "ownerIssueKey (m_Repository m) (m_Issue m)"
  let ?a = "ownerAttemptKey (m_Repository m) (m_Issue m) (m_Attempt m)"
  let ?s0 = "s\<lparr>s_IssueGenerations := fmupd ?k (fm_get (s_IssueGenerations s) ?k 0 + 1) (s_IssueGenerations s)\<rparr>"
  let ?s1 = "?s0\<lparr>s_AttemptGenerations := fmupd ?a 1 (s_AttemptGenerations ?s0)\<rparr>"
  from assms(1,2) obtain s2 s3 r i a g h x y where g: "fm_get (s_IssueGenerations s) ?k 0 \<noteq> uint64_max"
    and b: "bump_issue env ?s1 r i a g h x y = Inr s2"
    and p: "pruneSupersededIssueEffects s2 (m_Repository m) (m_Issue m) (fm_get (s_IssueGenerations s) ?k 0 + 1) = Inr s3"
    and e: "same_core s3 s'"
    by (auto simp: first_generation_def Let_def issueGeneration_def deleteIssueRecoveries_def same_core_def
        split: if_splits)
  have k0: "keeps s ?s0" by (rule keeps_issue_bump[OF g])
  have "keeps ?s0 ?s1"
    by (rule keeps_attempt_generation) (use assms(3,4) in \<open>simp_all add: attemptGeneration_def\<close>)
  from keeps_cong[OF keeps_cong[OF keeps_cong[OF keeps_trans[OF k0 this] core_bump_issue[OF b]]
      core_pruneSuperseded[OF p]] e] show ?thesis .
qed

lemma keeps_next_generation: "next_generation s m g x = Inr s' \<Longrightarrow> keeps s s'"
  by (auto simp: next_generation_def Let_def deleteAttemptEffects_def same_core_def split: if_splits
      intro!: same_core_keeps)

lemma upsert_blocked_None:
  assumes "upsert_blocked env s c = None"
  shows "\<not> fm_has (s_Tombstones s)
      (ownerAttemptKey (m_Repository (ua_Manifest c)) (m_Issue (ua_Manifest c)) (m_Attempt (ua_Manifest c)))"
    and "issueGeneration s (m_Repository (ua_Manifest c)) (m_Issue (ua_Manifest c)) = ua_ExpectedIssueGeneration c"
    and "attemptGeneration s (m_Repository (ua_Manifest c)) (m_Issue (ua_Manifest c)) (m_Attempt (ua_Manifest c)) =
      ua_ExpectedAttemptGeneration c"
    and "validateOwnerManifest env (s_Repository s) (ua_Manifest c)"
  using assms by (simp_all add: upsert_blocked_def Let_def split: if_splits)

lemma first_generation_generations:
  assumes "first_generation env s m g = Inr s'"
  shows "s_AttemptGenerations s' = fmupd (ownerAttemptKey (m_Repository m) (m_Issue m) (m_Attempt m)) 1 (s_AttemptGenerations s)"
    and "s_IssueGenerations s' = fmupd (ownerIssueKey (m_Repository m) (m_Issue m)) (g + 1) (s_IssueGenerations s)"
    and "s_Tombstones s' = s_Tombstones s" and "s_Attempts s' = s_Attempts s"
  using assms
  by (auto simp: first_generation_def Let_def same_core_def deleteIssueRecoveries_def split: if_splits
      dest!: core_bump_issue core_pruneSuperseded)

lemma next_generation_core: "next_generation s m g x = Inr s' \<Longrightarrow> same_core s s' \<and> g \<noteq> uint64_max"
  by (auto simp: next_generation_def Let_def deleteAttemptEffects_def same_core_def split: if_splits)

lemma upsert_steps:
  assumes "applyUpsertAttemptAllowingReviewer env s c x = Inr s'"
  defines "m \<equiv> ua_Manifest c"
  defines "k \<equiv> ownerAttemptKey (m_Repository m) (m_Issue m) (m_Attempt m)"
  defines "g \<equiv> attemptGeneration s (m_Repository m) (m_Issue m) (m_Attempt m)"
  obtains s1 s2 where "upsert_blocked env s c = None"
    "if g = 0 then first_generation env s m (ua_ExpectedIssueGeneration c) = Inr s1 else next_generation s m g x = Inr s1"
    "deleteAttemptObservation env (s1\<lparr>s_AttemptGenerations := fmupd k (g + 1) (s_AttemptGenerations s1)\<rparr>)
      (m_Repository m) (m_Issue m) (m_Attempt m) = Inr s2"
    "s' = s2\<lparr>s_Attempts := fmupd k (upserted_record (fmlookup (s_Attempts s2) k) (g + 1) m) (s_Attempts s2)\<rparr>"
  using assms(1)
  by (fastforce simp: applyUpsertAttemptAllowingReviewer_def Let_def m_def k_def g_def split: option.splits if_splits)

lemma upsert_moves:
  assumes "applyUpsertAttemptAllowingReviewer env s c x = Inr s'"
  defines "m \<equiv> ua_Manifest c"
  defines "k \<equiv> ownerAttemptKey (m_Repository m) (m_Issue m) (m_Attempt m)"
  defines "g \<equiv> attemptGeneration s (m_Repository m) (m_Issue m) (m_Attempt m)"
  shows "keeps s s'" and "\<not> fm_has (s_Tombstones s) k" and "g \<noteq> uint64_max"
    and "s_AttemptGenerations s' = fmupd k (g + 1) (s_AttemptGenerations s)"
    and "s_Tombstones s' = s_Tombstones s"
    and "s_IssueGenerations s' = (if g = 0 then fmupd (ownerIssueKey (m_Repository m) (m_Issue m))
      (issueGeneration s (m_Repository m) (m_Issue m) + 1) (s_IssueGenerations s) else s_IssueGenerations s)"
    and "s_Attempts s' = fmupd k (upserted_record (fmlookup (s_Attempts s) k) (g + 1) m) (s_Attempts s)"
proof -
  from upsert_steps[OF assms(1), folded m_def, folded k_def g_def] obtain s1 s2 where st:
    "upsert_blocked env s c = None"
    "if g = 0 then first_generation env s m (ua_ExpectedIssueGeneration c) = Inr s1 else next_generation s m g x = Inr s1"
    "deleteAttemptObservation env (s1\<lparr>s_AttemptGenerations := fmupd k (g + 1) (s_AttemptGenerations s1)\<rparr>)
      (m_Repository m) (m_Issue m) (m_Attempt m) = Inr s2"
    "s' = s2\<lparr>s_Attempts := fmupd k (upserted_record (fmlookup (s_Attempts s2) k) (g + 1) m) (s_Attempts s2)\<rparr>" .
  note b = upsert_blocked_None[OF st(1), folded m_def, folded k_def g_def]
  show nt: "\<not> fm_has (s_Tombstones s) k" by (rule b(1))
  let ?s1 = "s1\<lparr>s_AttemptGenerations := fmupd k (g + 1) (s_AttemptGenerations s1)\<rparr>"
  have gm: "g \<noteq> uint64_max" and k1: "keeps s s1"
    and t1: "s_Tombstones s1 = s_Tombstones s" and a1: "s_Attempts s1 = s_Attempts s"
    and g1: "s_AttemptGenerations s1 = (if g = 0 then fmupd k 1 (s_AttemptGenerations s) else s_AttemptGenerations s)"
    and i1: "s_IssueGenerations s1 = (if g = 0 then fmupd (ownerIssueKey (m_Repository m) (m_Issue m))
      (ua_ExpectedIssueGeneration c + 1) (s_IssueGenerations s) else s_IssueGenerations s)"
  proof -
    show "g \<noteq> uint64_max" using st(2) next_generation_core by (cases "g = 0") auto
    show "keeps s s1"
    proof (cases "g = 0")
      case True
      with st(2) have f: "first_generation env s m (ua_ExpectedIssueGeneration c) = Inr s1" by simp
      show ?thesis
        by (rule keeps_first_generation[OF f b(2)[symmetric] b(1)[unfolded k_def] True[unfolded g_def]])
    next
      case False
      with st(2) show ?thesis by (simp add: keeps_next_generation)
    qed
    show "s_Tombstones s1 = s_Tombstones s" "s_Attempts s1 = s_Attempts s"
      "s_AttemptGenerations s1 = (if g = 0 then fmupd k 1 (s_AttemptGenerations s) else s_AttemptGenerations s)"
      "s_IssueGenerations s1 = (if g = 0 then fmupd (ownerIssueKey (m_Repository m) (m_Issue m))
        (ua_ExpectedIssueGeneration c + 1) (s_IssueGenerations s) else s_IssueGenerations s)"
      using st(2) first_generation_generations[of env s m "ua_ExpectedIssueGeneration c" s1] next_generation_core[of s m g x s1]
      by (auto simp: same_core_def k_def split: if_splits)
  qed
  show "g \<noteq> uint64_max" by (rule gm)
  note c2 = core_deleteAttemptObservation[OF st(3)]
  have le: "fm_get (s_AttemptGenerations s1) k 0 \<le> g + 1"
  proof (cases "g = 0")
    case False
    then have "fm_get (s_AttemptGenerations s1) k 0 = g" by (simp add: g1 g_def attemptGeneration_def k_def)
    then show ?thesis using uint64_inc_gt[OF gm] by simp
  qed (simp add: g1)
  have "keeps s1 ?s1" by (rule keeps_attempt_generation) (use nt t1 le in simp_all)
  from keeps_cong[OF keeps_trans[OF k1 this] c2] have k2: "keeps s s2" .
  have f2: "s_Tombstones s2 = s_Tombstones s" "s_Attempts s2 = s_Attempts s"
    "s_AttemptGenerations s2 = fmupd k (g + 1) (s_AttemptGenerations s)" "s_IssueGenerations s2 = s_IssueGenerations s1"
    using c2 by (simp_all add: same_core_def t1 a1 g1)
  have "keeps s2 s'" unfolding st(4) by (rule keeps_attempt_set) (use nt f2 in simp)
  with k2 show "keeps s s'" by (rule keeps_trans)
  show "s_AttemptGenerations s' = fmupd k (g + 1) (s_AttemptGenerations s)" "s_Tombstones s' = s_Tombstones s"
    "s_Attempts s' = fmupd k (upserted_record (fmlookup (s_Attempts s) k) (g + 1) m) (s_Attempts s)"
    by (simp_all add: st(4) f2)
  show "s_IssueGenerations s' = (if g = 0 then fmupd (ownerIssueKey (m_Repository m) (m_Issue m))
      (issueGeneration s (m_Repository m) (m_Issue m) + 1) (s_IssueGenerations s) else s_IssueGenerations s)"
    by (simp add: st(4) f2 i1 b(2))
qed

section \<open>Transitions of tombstones\<close>

lemma tombstone_attempt_moves:
  assumes "tombstone_attempt env s c h st = Inr s'" "iv_ExpectedAttemptGeneration c \<noteq> uint64_max"
  defines "k \<equiv> ownerAttemptKey (iv_Repository c) (iv_Issue c) (iv_Attempt c)"
  shows "s_AttemptGenerations s' = fmupd k (iv_ExpectedAttemptGeneration c + 1) (s_AttemptGenerations s)"
    and "s_IssueGenerations s' = s_IssueGenerations s"
    and "s_Attempts s' = fmdrop k (s_Attempts s)"
    and "s_Tombstones s' = fmupd k (fresh_tombstone env s c h st) (s_Tombstones s)"
    and "s_Revision s' = s_Revision s" and "s_Epoch s' = s_Epoch s" and "s_Repository s' = s_Repository s"
  using assms(1)
  by (auto simp: tombstone_attempt_def Let_def k_def same_core_def invalidateAttemptEffects_def
      dest!: core_admit core_deleteAttemptObservation)

lemma applyInvalidateAttempt_cases:
  assumes "applyInvalidateAttempt env s c = Inr (s', e)"
  defines "k \<equiv> ownerAttemptKey (iv_Repository c) (iv_Issue c) (iv_Attempt c)"
  obtains (replay) t where "fmlookup (s_Tombstones s) k = Some t" "s' = s" "replay_invalidation s c t = Inr e"
  | (fresh) h st where "fmlookup (s_Tombstones s) k = None"
      "attemptGeneration s (iv_Repository c) (iv_Issue c) (iv_Attempt c) = iv_ExpectedAttemptGeneration c"
      "iv_ExpectedAttemptGeneration c \<noteq> uint64_max"
      "tombstone_attempt env (invalidateControlSnapshot env s (ownerIssueKey (iv_Repository c) (iv_Issue c))) c h st = Inr s'"
      "cleanup_intent s' c = Inr e"
proof (cases "fmlookup (s_Tombstones s) k")
  case None
  with assms(1) have "\<exists>h st. attemptGeneration s (iv_Repository c) (iv_Issue c) (iv_Attempt c) = iv_ExpectedAttemptGeneration c \<and>
      iv_ExpectedAttemptGeneration c \<noteq> uint64_max \<and>
      tombstone_attempt env (invalidateControlSnapshot env s (ownerIssueKey (iv_Repository c) (iv_Issue c))) c h st = Inr s' \<and>
      cleanup_intent s' c = Inr e"
    by (auto simp: applyInvalidateAttempt_def Let_def k_def split: if_splits)
  with None fresh show ?thesis by blast
next
  case (Some t)
  with assms(1) have "s' = s" "replay_invalidation s c t = Inr e"
    by (auto simp: applyInvalidateAttempt_def Let_def k_def split: if_splits)
  with Some replay show ?thesis by blast
qed

lemma keeps_invalidate:
  assumes "applyInvalidateAttempt env s c = Inr (s', e)"
  shows "keeps s s'"
  using assms
proof (cases rule: applyInvalidateAttempt_cases)
  case (fresh h st)
  let ?s0 = "invalidateControlSnapshot env s (ownerIssueKey (iv_Repository c) (iv_Issue c))"
  have c0: "same_core s ?s0" by (rule core_invalidateControlSnapshot)
  note m = tombstone_attempt_moves[OF fresh(4,3)]
  show ?thesis
    using fresh(1,2) c0 uint64_inc_gt[OF fresh(3)]
    by (auto simp: keeps_def tombstone_kept_def same_core_def m attemptGeneration_def)
qed simp

lemma keeps_complete_tombstone: "keeps s (complete_tombstone k x s)"
  by (auto simp: complete_tombstone_def same_burial_def phase_rank_le split: option.split
      intro!: keeps_tombstone_set)

lemma keeps_complete: "applyCompleteEffect s c = Inr s' \<Longrightarrow> keeps s s'"
  by (auto simp: applyCompleteEffect_def Let_def same_core_def split: if_splits option.splits
      intro!: keeps_trans[OF same_core_keeps keeps_complete_tombstone])

lemma keeps_seal: "applySelectWorkerSeal env s c = Inr s' \<Longrightarrow> keeps s s'"
  by (auto simp: applySelectWorkerSeal_def Let_def fm_has_def split: if_splits option.splits
      intro!: keeps_attempt_set)

lemma keeps_release_lease: "keeps s (release_lease s e)"
  by (auto simp: release_lease_def Let_def same_burial_def split: option.split intro!: keeps_tombstone_set)

lemma keeps_mark_stopped: "applyMarkReviewerStopped s c = Inr s' \<Longrightarrow> keeps s s'"
  by (auto simp: applyMarkReviewerStopped_def same_core_def split: if_splits option.splits
      intro!: keeps_trans[OF same_core_keeps keeps_release_lease])

lemma keeps_settle_issue: "settle_issue_effect s e q x = Inr s' \<Longrightarrow> keeps s s'"
  by (auto simp: settle_issue_effect_def Let_def same_core_def split: if_splits option.splits intro!: same_core_keeps)

lemma keeps_settle_attempt: "settle_attempt_effect s e x = Inr s' \<Longrightarrow> keeps s s'"
  by (auto simp: settle_attempt_effect_def Let_def same_burial_def split: if_splits option.splits
      intro!: keeps_tombstone_set)

lemma keeps_resolve:
  assumes "applyResolveInvalidatedReconciliationEffect s c = Inr s'"
  shows "keeps s s'"
proof -
  from assms obtain e q x s1 where
    "(if e_Attempt e = 0 then settle_issue_effect s e q x else settle_attempt_effect s e x) = Inr s1"
    and "same_core s1 s'"
    by (fastforce simp: applyResolveInvalidatedReconciliationEffect_def Let_def same_core_def
        split: if_splits option.splits)
  then show ?thesis
    using keeps_cong[of s s1 s'] keeps_settle_issue[of s e q x s1] keeps_settle_attempt[of s e x s1]
    by (simp split: if_splits)
qed

lemma keeps_start_cleanup:
  assumes "applyStartOperatorCleanup s c = Inr s'"
  shows "keeps s s'"
proof -
  from assms obtain e where e: "fmlookup (s_Effects s) (id_EffectID (su_Identity c)) = Some e"
    by (cases "fmlookup (s_Effects s) (id_EffectID (su_Identity c))") (simp_all add: applyStartOperatorCleanup_def Let_def)
  let ?k = "ownerAttemptKey (e_Repository e) (e_Issue e) (e_Attempt e)"
  from assms e obtain s1 where a: "applyAuthorizeRuntimeEffect s
      \<lparr>ar_Identity = su_Identity c, ar_Action = EffectCleanup, ar_GateNonce = []\<rparr> = Inr s1"
    by (auto simp: applyStartOperatorCleanup_def Let_def split: if_splits)
  from assms e a obtain t where t: "fmlookup (s_Tombstones s1) ?k = Some t"
    by (cases "fmlookup (s_Tombstones s1) ?k") (simp_all add: applyStartOperatorCleanup_def Let_def split: if_splits)
  have b: "s' = s1 \<or> t_CleanupPhase t = ''pending'' \<and> (\<exists>P f. s' = update_receipts P f
      (s1\<lparr>s_Tombstones := fmupd ?k (t\<lparr>t_CleanupPhase := ''cleanup-started''\<rparr>) (s_Tombstones s1)\<rparr>))"
    using assms e a t by (simp add: applyStartOperatorCleanup_def Let_def split: if_splits) blast
  have "keeps s s1" using a by (intro same_core_keeps core_authorize)
  moreover have "keeps s1 s'"
    using b t by (auto simp: same_burial_def phase_rank_def intro!: keeps_cong[OF keeps_tombstone_set core_update_receipts])
  ultimately show ?thesis by (rule keeps_trans)
qed

lemma keeps_compensation:
  assumes "applyCompleteHandoffCompensation s c = Inr s'"
  shows "keeps s s'"
proof -
  obtain r where r: "operatorReceiptByID s (ch_RequestID c) = Some r"
    using assms by (cases "operatorReceiptByID s (ch_RequestID c)")
      (simp_all add: applyCompleteHandoffCompensation_def Let_def split: if_splits)
  obtain t where t: "fmlookup (s_Tombstones s) (receipt_key r) = Some t"
    using assms r by (cases "fmlookup (s_Tombstones s) (receipt_key r)")
      (simp_all add: applyCompleteHandoffCompensation_def Let_def split: if_splits)
  have "s' = s \<or> (\<exists>P f. s' = (update_receipts P f s)\<lparr>s_Tombstones :=
      fmupd (receipt_key r) (t\<lparr>t_HandoffCompensated := True\<rparr>) (s_Tombstones (update_receipts P f s))\<rparr>)"
    using assms r t by (simp add: applyCompleteHandoffCompensation_def Let_def split: if_splits) blast+
  then show ?thesis
  proof
    assume "\<exists>P f. s' = (update_receipts P f s)\<lparr>s_Tombstones :=
      fmupd (receipt_key r) (t\<lparr>t_HandoffCompensated := True\<rparr>) (s_Tombstones (update_receipts P f s))\<rparr>"
    then obtain P f where s': "s' = (update_receipts P f s)\<lparr>s_Tombstones :=
      fmupd (receipt_key r) (t\<lparr>t_HandoffCompensated := True\<rparr>) (s_Tombstones (update_receipts P f s))\<rparr>" by blast
    have "keeps (update_receipts P f s) s'" unfolding s'
      by (rule keeps_tombstone_set) (use t in \<open>simp add: update_receipts_def same_burial_def\<close>)
    then show ?thesis using same_core_keeps[OF core_update_receipts] keeps_trans by blast
  qed simp
qed

section \<open>Finished effects\<close>

lemma keeps_commit_manifest:
  assumes "commit_manifest env s c e r m = Inr step"
    "fm_has (s_Attempts s) (ownerAttemptKey (e_Repository e) (e_Issue e) (e_Attempt e))"
  shows "case step of Done s' \<Rightarrow> keeps s s' | Apply s' m' \<Rightarrow> keeps s s'"
proof -
  have w: "same_core s0 s1" if "admit_worker_status env s0 c e p m = Inr s1" for s0 s1 p
    using that by (auto simp: admit_worker_status_def split: if_splits sum.splits owner_error.splits intro: core_admit)
  show ?thesis
    using assms
    by (auto simp: commit_manifest_def Let_def split: if_splits dest!: w
        intro!: keeps_cong[OF keeps_attempt_set])
qed

lemma keeps_finish_manifest:
  assumes "finish_manifest env s c e = Inr step"
  shows "case step of Done s' \<Rightarrow> keeps s s' | Apply s' m' \<Rightarrow> keeps s s'"
proof -
  from assms obtain r m1 where "commit_manifest env s c e r m1 = Inr step"
    "fm_has (s_Attempts s) (ownerAttemptKey (e_Repository e) (e_Issue e) (e_Attempt e))"
    by (auto simp: finish_manifest_def Let_def fm_has_def split: if_splits option.splits)
  then show ?thesis by (rule keeps_commit_manifest)
qed

lemma same_burial_cleaned: "same_burial t (cleaned_tombstone t)"
  by (simp add: same_burial_def cleaned_tombstone_def phase_rank_le)

lemma keeps_cleaned:
  "keeps s (case fmlookup (s_Tombstones s) k of
      None \<Rightarrow> s
    | Some t \<Rightarrow> if t_EffectID t = x then s\<lparr>s_Tombstones := fmupd k (cleaned_tombstone t) (s_Tombstones s)\<rparr> else s)"
proof (cases "fmlookup (s_Tombstones s) k")
  case (Some t)
  have "keeps s (s\<lparr>s_Tombstones := fmupd k (cleaned_tombstone t) (s_Tombstones s)\<rparr>)"
    by (rule keeps_tombstone_set) (use Some same_burial_cleaned in simp)
  with Some show ?thesis by simp
qed simp

lemma keeps_complete_intent: "keeps s (complete_intent s c e m)"
  unfolding complete_intent_def Let_def
  by (rule keeps_trans[OF same_core_keeps keeps_cleaned]) (simp add: same_core_def)

lemma applyFinish_cases:
  assumes "applyFinishRuntimeEffect env s c = Inr s'"
  obtains (unchanged) "s' = s"
  | (stepped) e step where "fmlookup (s_Effects s) (id_EffectID (fr_Identity c)) = Some e"
      "finish_blocked env s c e = None"
      "(if runtimeEffectAppliesManifest (fr_Action c) then finish_manifest env s c e else finish_cleanup s c e) = Inr step"
      "s' = (case step of Done s1 \<Rightarrow> s1 | Apply s1 m \<Rightarrow> complete_intent s1 c e m)"
proof -
  obtain e where e: "fmlookup (s_Effects s) (id_EffectID (fr_Identity c)) = Some e"
    using assms by (cases "fmlookup (s_Effects s) (id_EffectID (fr_Identity c))")
      (simp_all add: applyFinishRuntimeEffect_def Let_def split: if_splits)
  show ?thesis
  proof (cases "e_State e = ''completed'' \<and> fr_Action c = EffectStop")
    case True
    then have "s' = s" using assms e by (simp add: applyFinishRuntimeEffect_def Let_def split: if_splits)
    then show ?thesis by (rule unchanged)
  next
    case False
    then have b: "finish_blocked env s c e = None" using assms e
      by (cases "finish_blocked env s c e") (simp_all add: applyFinishRuntimeEffect_def Let_def split: if_splits)
    obtain step where st:
      "(if runtimeEffectAppliesManifest (fr_Action c) then finish_manifest env s c e else finish_cleanup s c e) = Inr step"
      "s' = (case step of Done s1 \<Rightarrow> s1 | Apply s1 m \<Rightarrow> complete_intent s1 c e m)"
      using assms e b False
      by (cases "if runtimeEffectAppliesManifest (fr_Action c) then finish_manifest env s c e else finish_cleanup s c e")
        (auto simp: applyFinishRuntimeEffect_def Let_def split: if_splits finish_step.splits)
    from stepped[OF e b st] show ?thesis .
  qed
qed

lemma keeps_finish:
  assumes "applyFinishRuntimeEffect env s c = Inr s'"
  shows "keeps s s'"
  using assms
proof (cases rule: applyFinish_cases)
  case (stepped e step)
  have "case step of Done s1 \<Rightarrow> keeps s s1 | Apply s1 m \<Rightarrow> keeps s s1"
  proof (cases "runtimeEffectAppliesManifest (fr_Action c)")
    case True
    with stepped(3) show ?thesis by (simp add: keeps_finish_manifest)
  next
    case False
    with stepped(3) show ?thesis by (auto simp: finish_cleanup_def Let_def split: if_splits)
  qed
  with stepped(4) show ?thesis
    by (cases step) (auto intro: keeps_trans[OF _ keeps_complete_intent])
qed simp

lemma keeps_finish_operator:
  assumes "applyFinishOperatorRuntimeEffect env s c = Inr s'"
  shows "keeps s s'"
proof -
  let ?x = "id_EffectID (fr_Identity (fu_Finish c))"
  obtain s1 where f: "applyFinishRuntimeEffect env s (fu_Finish c) = Inr s1"
    using assms by (auto simp: applyFinishOperatorRuntimeEffect_def Let_def)
  obtain s2 b where p: "advanceRecoverReceipts s1 ?x operatorPhaseStopPending operatorPhaseTerminalAwait = (s2, b)"
    by (meson surj_pair)
  have "s' = s2 \<or> s' = completeOperatorReceipts s1 ?x"
    using assms f p by (simp add: applyFinishOperatorRuntimeEffect_def Let_def split: if_splits)
  then have c: "same_core s1 s'"
    using p core_advance_receipts[of s1 ?x operatorPhaseStopPending operatorPhaseTerminalAwait]
      core_complete_receipts[of s1 ?x] by auto
  from keeps_cong[OF keeps_finish[OF f] c] show ?thesis .
qed

section \<open>Begun effects\<close>

lemma core_carry_release [core_simps]: "same_core s (carry_release s x y)"
  by (simp add: carry_release_def same_core_def split: option.split)

lemma keeps_begin_move:
  assumes "begin_move env s c = Inr (s', r)"
  shows "keeps s s'"
proof (cases "br_Action c = EffectPrepare")
  case True
  then show ?thesis using assms
    by (auto simp: begin_move_def begin_prepare_def applyUpsertAttempt_def Let_def split: if_splits intro: upsert_moves(1))
next
  case np: False
  show ?thesis
  proof (cases "br_Action c = EffectStop")
    case True
    with assms np have "begin_stop env s c = Inr (s', r)" by (simp add: begin_move_def)
    then obtain s1 x y u v where "applyUpsertAttemptAllowingReviewer env s u v = Inr s1" "s' = carry_release s1 x y"
      by (auto simp: begin_stop_def Let_def split: if_splits option.splits sum.splits)
    then show ?thesis using keeps_cong[OF upsert_moves(1) core_carry_release] by blast
  next
    case False
    then show ?thesis using assms np
      by (auto simp: begin_move_def begin_other_def Let_def core_simps split: if_splits option.splits intro: same_core_keeps)
  qed
qed

lemma keeps_begin:
  assumes "applyBeginRuntimeEffect env s c = Inr (s', e)"
  shows "keeps s s'"
  using assms
  by (auto simp: applyBeginRuntimeEffect_def Let_def split: option.splits if_splits prod.splits dest: keeps_begin_move)

end
