(* ===== verification/Owner_Effect_Safety.thy ===== *)
theory Owner_Effect_Safety
  imports Owner_Safety
begin

text \<open>
  The transitions of reconciliation effects and of observations keep what \<open>keeps\<close> names: most touch
  only effects, recoveries, certificates and receipts, an outcome rewrites the record of an attempt
  that has one, and an observed issue may start its generation.
\<close>

section \<open>Effects and recoveries\<close>

lemma core_with_effect [core_simps]: "same_core s (with_effect s e)"
  by (simp add: with_effect_def same_core_def)

lemma core_with_recovery [core_simps]: "same_core s (with_recovery s k r)"
  by (simp add: with_recovery_def same_core_def)

lemma core_drop_effects [core_simps]: "same_core s (drop_effects P s)"
  by (simp add: drop_effects_def same_core_def)

lemma core_prune_issue [core_simps]: "same_core s (pruneCompletedIssueScopedEffects s r i)"
  by (simp add: pruneCompletedIssueScopedEffects_def same_core_def)

lemma core_delete_issue_effects [core_simps]: "same_core s (deleteIssueScopedEffects s r i)"
  by (simp add: deleteIssueScopedEffects_def same_core_def)

lemma core_fail_receipts [core_simps]: "same_core s (failOperatorReceipts s x d)"
  by (simp add: failOperatorReceipts_def core_simps)

lemma core_scan_pending [core_simps]: "scan_pending env i q g es s = Inr (s', found) \<Longrightarrow> same_core s s'"
proof (induction es arbitrary: s)
  case (Cons e es)
  let ?d = "s\<lparr>s_Effects := fmdrop (e_ID e) (s_Effects s)\<rparr>"
  have d: "same_core s ?d" by (simp add: same_core_def)
  from Cons.prems have "scan_pending env i q g es s = Inr (s', found) \<or> scan_pending env i q g es ?d = Inr (s', found) \<or> s' = s"
    by (simp split: if_splits)
  then show ?case using Cons.IH[of s] Cons.IH[of ?d] same_core_trans[OF d] by auto
qed simp

lemma core_begin_transition [core_simps]: "applyReconciliationBeginTransition env s q = Inr s' \<Longrightarrow> same_core s s'"
  by (auto simp: applyReconciliationBeginTransition_def claim_handoff_effect_def prepare_publication_effect_def Let_def
      core_simps split: if_splits option.splits sum.splits prod.splits)

lemma core_begin_reconciliation [core_simps]:
  assumes "applyBeginReconciliationEffect env s c = Inr (s', e)"
  shows "same_core s s'"
proof -
  let ?q = "bc_Request c"
  from assms obtain s1 found where a: "scan_pending env (bc_Identity c) ?q
      (if rq_Manifest ?q = None then 0 else id_AttemptGeneration (bc_Identity c))
      (map snd (fm_entries (v_order env) (s_Effects s))) s = Inr (s1, found)"
    by (cases "begin_refused env s c") (auto simp: applyBeginReconciliationEffect_def Let_def)
  have "same_core s1 s'"
  proof (cases found)
    case None
    with assms a obtain s2 where b: "applyReconciliationBeginTransition env s2 ?q = Inr s'"
      and c: "s2 = (if 0 < rq_Attempt ?q then pruneCompletedAttemptEffects s1 (rq_Repository ?q) (rq_Issue ?q) (rq_Attempt ?q)
        else pruneCompletedIssueScopedEffects s1 (rq_Repository ?q) (rq_Issue ?q))"
      by (cases "begin_refused env s c") (auto simp: applyBeginReconciliationEffect_def Let_def split: if_splits)
    have "same_core s1 s2" unfolding c by (simp add: core_pruneCompleted core_prune_issue)
    then show ?thesis using core_begin_transition[OF b] by (rule same_core_trans)
  next
    case (Some e')
    with assms a show ?thesis
      by (cases "begin_refused env s c") (auto simp: applyBeginReconciliationEffect_def Let_def)
  qed
  with core_scan_pending[OF a] show ?thesis by (rule same_core_trans)
qed

lemma core_authorize_reconciliation [core_simps]:
  "applyAuthorizeReconciliationEffect env s c = Inr s' \<Longrightarrow> same_core s s'"
  by (auto simp: applyAuthorizeReconciliationEffect_def core_simps split: if_splits option.splits prod.splits)

lemma core_governance [core_simps]: "applyMutateGovernancePhase env s c = Inr s' \<Longrightarrow> same_core s s'"
  by (auto simp: applyMutateGovernancePhase_def core_simps split: if_splits option.splits prod.splits)

lemma core_mutate_recovery [core_simps]: "applyMutatePRRecovery env s c = Inr s' \<Longrightarrow> same_core s s'"
  by (auto simp: applyMutatePRRecovery_def core_simps split: if_splits option.splits prod.splits)

lemma core_session_requested [core_simps]: "applyMarkReviewerSessionRequested env s c = Inr s' \<Longrightarrow> same_core s s'"
  by (auto simp: applyMarkReviewerSessionRequested_def core_simps split: if_splits option.splits prod.splits)

lemma core_handoff_prepared [core_simps]: "applyMarkHandoffPrepared env s c = Inr s' \<Longrightarrow> same_core s s'"
  by (auto simp: applyMarkHandoffPrepared_def Let_def core_simps split: if_splits option.splits prod.splits)

lemma core_proofs [core_simps]: "same_core s (s\<lparr>s_ReviewerProofs := P\<rparr>)"
  by (simp add: same_core_def)

lemma core_proof_effect [core_simps]: "same_core s (with_effect (s\<lparr>s_ReviewerProofs := P\<rparr>) e)"
  by (simp add: with_effect_def same_core_def)

lemma core_review_running [core_simps]: "applyMarkPlanReviewRunning env s c = Inr s' \<Longrightarrow> same_core s s'"
  by (auto simp: applyMarkPlanReviewRunning_def launch_review_def Let_def core_simps
      split: if_splits option.splits prod.splits)

lemma core_seal [core_simps]: "applySealReviewerResult env s c = Inr s' \<Longrightarrow> same_core s s'"
  by (auto simp: applySealReviewerResult_def Let_def core_simps split: if_splits option.splits prod.splits)

section \<open>Outcomes\<close>

lemma keeps_with_attempt: "fm_has (s_Attempts s) k \<Longrightarrow> keeps s (with_attempt s k r)"
  by (simp add: with_attempt_def keeps_attempt_set)

lemma keeps_status_applied: "keeps s (status_applied s st)"
proof (cases "fmlookup (s_Attempts s) (ownerAttemptKey (ms_Repository st) (ms_Issue st) (ms_Attempt st))")
  case None then show ?thesis by (simp add: status_applied_def Let_def)
next
  case (Some r)
  then have "fm_has (s_Attempts s) (ownerAttemptKey (ms_Repository st) (ms_Issue st) (ms_Attempt st))" by (simp add: fm_has_def)
  with Some show ?thesis by (simp add: status_applied_def Let_def keeps_attempt_set)
qed

lemma keeps_issue_outcome:
  assumes "issue_outcome s q = Inr s'"
  shows "keeps s s'"
proof -
  have "keeps s t" if "status_outcome s q u = Inr t" for u t
  proof -
    from that obtain P s1 st where "t = drop_effects P (status_applied s1 st)" "same_core s s1"
      by (auto simp: status_outcome_def Let_def same_core_def split: option.splits if_splits)
    then show ?thesis using keeps_cong[OF keeps_trans[OF same_core_keeps keeps_status_applied] core_drop_effects] by simp
  qed
  moreover have "keeps s t" if "repair_outcome s q u = Inr t" for u t
  proof -
    from that have "same_core s t"
      by (auto simp: repair_outcome_def Let_def same_core_def drop_effects_def split: option.splits if_splits)
    then show ?thesis by (rule same_core_keeps)
  qed
  ultimately show ?thesis using assms by (auto simp: issue_outcome_def split: option.splits if_splits)
qed

lemma keeps_publish_outcome: "publish_outcome env s q g x = Inr s' \<Longrightarrow> keeps s s'"
  by (auto simp: publish_outcome_def Let_def core_simps split: option.splits if_splits sum.splits
      intro!: same_core_keeps)

lemma keeps_handoff_outcome:
  assumes "handoff_outcome env s q h r = Inr s'"
    "fm_has (s_Attempts s) (ownerAttemptKey (rq_Repository q) (rq_Issue q) (rq_Attempt q))"
  shows "keeps s s'"
proof (cases "hf_Kind h = ''review-findings''")
  case True
  with assms show ?thesis by (auto simp: handoff_outcome_def Let_def intro: keeps_with_attempt)
next
  case False
  let ?k = "ownerAttemptKey (rq_Repository q) (rq_Issue q) (rq_Attempt q)"
  obtain p where p: "currentPRRecovery s q = Some p"
    using assms False by (cases "currentPRRecovery s q") (simp_all add: handoff_outcome_def Let_def)
  obtain p' where t: "s' = with_attempt (with_recovery s ?k p') ?k r"
    using that[OF sym] assms False p by (cases "delivered_recovery env p h") (simp_all add: handoff_outcome_def Let_def)
  have "fm_has (s_Attempts (with_recovery s ?k p')) ?k" using assms(2) by (simp add: with_recovery_def)
  from keeps_trans[OF same_core_keeps[OF core_with_recovery] keeps_with_attempt[OF this]]
  show ?thesis by (simp add: t)
qed

lemma keeps_retired: "keeps s (retired s k)"
proof -
  have "same_core (s\<lparr>s_Attempts := fmdrop k (s_Attempts s)\<rparr>) (retired s k)"
    by (simp add: retired_def same_core_def)
  with keeps_attempt_drop show ?thesis by (rule keeps_cong)
qed

lemma keeps_attempt_outcome:
  assumes "attempt_outcome env s q x r = Inr s'"
    "fm_has (s_Attempts s) (ownerAttemptKey (rq_Repository q) (rq_Issue q) (rq_Attempt q))"
  shows "keeps s s'"
  using assms
  by (auto simp: attempt_outcome_def Let_def split: option.splits if_splits
      intro: keeps_publish_outcome keeps_with_attempt keeps_handoff_outcome keeps_retired)

lemma keeps_outcome: "applyReconciliationEffectOutcome env s q x = Inr s' \<Longrightarrow> keeps s s'"
  by (auto simp: applyReconciliationEffectOutcome_def fm_has_def split: option.splits if_splits
      intro: keeps_issue_outcome keeps_attempt_outcome)

lemma keeps_bind_handoff: "bind_handoff env s e = Inr s' \<Longrightarrow> keeps s s'"
  by (auto simp: bind_handoff_def Let_def fm_has_def split: option.splits if_splits intro!: keeps_with_attempt)

lemma core_forget_cleaned [core_simps]: "forget_cleaned_proof s e v = Inr s' \<Longrightarrow> same_core s s'"
  by (auto simp: forget_cleaned_proof_def core_simps split: option.splits if_splits)

lemma core_settle_receipts [core_simps]: "same_core s (settle_receipts s e q x)"
  by (simp add: settle_receipts_def Let_def core_simps split: option.split)

lemma keeps_finish_effect:
  assumes "finish_effect env s e q x = Inr s'"
  shows "keeps s s'"
proof -
  from assms obtain s1 s2 s3 where a: "applyReconciliationEffectOutcome env s q x = Inr s1"
    and b: "(if bound_handoff q then bind_handoff env s1 e else Inr s1) = Inr s2"
    and c: "(case reviewer_of q of
         None \<Rightarrow> Inr s2 | Some v \<Rightarrow> if rv_Phase v = ''cleanup'' then forget_cleaned_proof s2 e v else Inr s2) = Inr s3"
    and d: "s' = settle_receipts (with_effect s3 (finished_effect e x)) e q x"
    by (auto simp: finish_effect_def)
  have "keeps s1 s2" using b by (auto split: if_splits intro: keeps_bind_handoff)
  moreover have "keeps s2 s3" using c by (auto split: option.splits if_splits intro: same_core_keeps core_forget_cleaned)
  ultimately have "keeps s s3" using keeps_outcome[OF a] keeps_trans by blast
  from keeps_cong[OF keeps_cong[OF this core_with_effect] core_settle_receipts] show ?thesis by (simp add: d)
qed

lemma keeps_finish_reconciliation:
  assumes "applyFinishReconciliationEffect env s c = Inr s'"
  shows "keeps s s'"
proof -
  from assms obtain e where e: "fmlookup (s_Effects s) (id_EffectID (fc_Identity c)) = Some e"
    by (auto simp: applyFinishReconciliationEffect_def Let_def split: option.splits)
  from assms e obtain q where q: "e_Reconciliation e = Some q"
    by (auto simp: applyFinishReconciliationEffect_def Let_def split: option.splits)
  from assms e q have "s' = s \<or> finish_effect env s e q (fc_Result c) = Inr s'"
    by (simp add: applyFinishReconciliationEffect_def Let_def split: if_splits)
  then show ?thesis using keeps_finish_effect by blast
qed

lemma keeps_record_superseded:
  assumes "record_superseded env s e q v = Inr s'"
  shows "keeps s s'"
proof -
  have m: "keeps t (mark_invalidated t k)" for t k
    by (auto simp: mark_invalidated_def fm_has_def split: option.split intro!: keeps_with_attempt)
  from assms have "s' = s \<or> (\<exists>s1. applyReconciliationEffectOutcome env s q (superseded_result v) = Inr s1 \<and>
      (s' = s1 \<or> s' = mark_invalidated s1 (ownerAttemptKey (e_Repository e) (e_Issue e) (e_Attempt e))))"
    by (auto simp: record_superseded_def Let_def split: if_splits)
  then show ?thesis using keeps_outcome m keeps_trans by blast
qed

lemma keeps_supersede:
  assumes "applySupersedePlanReview env s c = Inr s'"
  shows "keeps s s'"
proof -
  from assms obtain e where e: "fmlookup (s_Effects s) (id_EffectID (sp_Identity c)) = Some e"
    by (auto simp: applySupersedePlanReview_def split: option.splits)
  from assms e obtain q where q: "e_Reconciliation e = Some q"
    by (auto simp: applySupersedePlanReview_def split: option.splits)
  from assms e q obtain v where v: "run_observe e = Some v"
    by (auto simp: applySupersedePlanReview_def split: option.splits)
  from assms e q v have "s' = s \<or> complete_superseded env s e q v = Inr s'"
    by (simp add: applySupersedePlanReview_def supersede_checked_def split: if_splits)
  then show ?thesis
  proof
    assume "complete_superseded env s e q v = Inr s'"
    then have "\<exists>P f s2 e'. record_superseded env (update_receipts P f s) e q v = Inr s2 \<and> s' = with_effect s2 e'"
      by (simp add: complete_superseded_def Let_def split: if_splits) blast
    then obtain P f s2 e' where r: "record_superseded env (update_receipts P f s) e q v = Inr s2"
      and t: "s' = with_effect s2 e'" by blast
    from keeps_cong[OF keeps_trans[OF same_core_keeps[OF core_update_receipts] keeps_record_superseded[OF r]] core_with_effect]
    show ?thesis by (simp add: t)
  qed simp
qed

section \<open>Observations\<close>

lemma core_count_one [core_simps]: "countStaleReconciliation s = Inr s' \<Longrightarrow> same_core s s'"
  by (auto simp: countStaleReconciliation_def same_core_def split: if_splits)

lemma core_count_stale [core_simps]: "count_stale n s = Inr s' \<Longrightarrow> same_core s s'"
  by (induction n arbitrary: s) (auto intro: same_core_trans core_count_one)

lemma keeps_own_issue: "keeps s (own_issue s g)"
proof (cases "fm_get (s_IssueGenerations s) (group_key g) 0 = 0")
  case True
  let ?s = "s\<lparr>s_IssueGenerations := fmupd (group_key g) 1 (s_IssueGenerations s)\<rparr>"
  have "keeps s ?s" using keeps_issue_bump[of s "group_key g"] True by simp
  from keeps_cong[OF this core_delete_issue_effects] True show ?thesis by (simp add: own_issue_def)
qed (simp add: own_issue_def)

lemma core_hydrate_one [core_simps]: "hydrate_attempt env ob s f = Inr s' \<Longrightarrow> same_core s s'"
  by (auto simp: hydrate_attempt_def Let_def core_simps split: if_splits sum.splits)

lemma core_hydrate [core_simps]: "hydrate_all env ob fs s = Inr s' \<Longrightarrow> same_core s s'"
  by (induction fs arbitrary: s) (auto intro: same_core_trans core_hydrate_one)

lemma keeps_observe_issue:
  assumes "observe_issue env s c g = Inr s'"
  shows "keeps s s'"
proof -
  from assms have "same_core (own_issue s g) s'"
    by (auto simp: observe_issue_def Let_def same_core_def split: if_splits dest!: core_hydrate)
  with keeps_own_issue show ?thesis by (rule keeps_cong)
qed

lemma keeps_apply_issue:
  assumes "applyReconciliationIssue env s c g = Inr s'"
  shows "keeps s s'"
proof -
  from assms obtain s1 where a: "count_stale (length (staleReconciliationAttemptKeys s c g)) s = Inr s1"
    and b: "s' = s1 \<or> (\<exists>h. observe_issue env s1 c h = Inr s')"
    by (auto simp: applyReconciliationIssue_def Let_def split: option.splits if_splits)
  then show ?thesis using same_core_keeps[OF core_count_stale[OF a]] keeps_observe_issue keeps_trans by blast
qed

lemma core_replayed [core_simps]: "replayed_cycle applied c k d s = Some (Inr s') \<Longrightarrow> same_core s s'"
  by (auto simp: replayed_cycle_def Let_def split: option.splits if_splits dest: core_count_one)

lemma keeps_apply_group: "apply_group env applied c g s = Inr s' \<Longrightarrow> keeps s s'"
  by (auto simp: apply_group_def Let_def split: if_splits option.splits
      intro: same_core_keeps core_count_one core_replayed keeps_apply_issue)

lemma keeps_apply_groups: "apply_groups env applied c gs s = Inr s' \<Longrightarrow> keeps s s'"
  by (induction gs arbitrary: s) (auto intro: keeps_trans keeps_apply_group)

lemma core_withdraw [core_simps]: "withdraw_issue s c k d = Inr s' \<Longrightarrow> same_core s s'"
  by (auto simp: withdraw_issue_def Let_def same_core_def split: if_splits)

lemma core_unlisted [core_simps]: "apply_unlisted env applied c k s = Inr s' \<Longrightarrow> same_core s s'"
  by (auto simp: apply_unlisted_def Let_def split: if_splits option.splits
      intro: core_count_one core_replayed core_withdraw)

lemma core_all_unlisted [core_simps]: "apply_all_unlisted env applied c ks s = Inr s' \<Longrightarrow> same_core s s'"
  by (induction ks arbitrary: s) (auto intro: same_core_trans core_unlisted)

lemma keeps_apply_reconciliation:
  assumes "applyReconciliation env s c applied = Inr s'"
  shows "keeps s s'"
proof -
  let ?c = "normalizeReconciliationCollection c"
  from assms have "countStaleReconciliation s = Inr s' \<or> (\<exists>s1 s2. apply_groups env applied ?c (cl_Issues ?c) s = Inr s1 \<and>
      same_core s1 s2 \<and> s' = revokeInvalidPlanReviewers s2 False)"
    by (auto simp: applyReconciliation_def Let_def split: if_splits option.splits dest: core_all_unlisted)
  then show ?thesis
    using same_core_keeps[OF core_count_one] keeps_cong[OF keeps_cong[OF keeps_apply_groups] core_revoke] by blast
qed

lemma core_bind_refresh [core_simps]: "bindOperatorAdmissionRefresh s c = Inr s' \<Longrightarrow> same_core s s'"
  by (auto simp: bindOperatorAdmissionRefresh_def Let_def core_simps split: if_splits option.splits)

lemma core_reconcile_admissions [core_simps]: "same_core s (reconcileOperatorAdmissions s c)"
  by (simp add: reconcileOperatorAdmissions_def same_core_def)

lemma keeps_observed:
  assumes "apply_observed env s c applied = Inr s'"
  shows "keeps s s'"
proof -
  from assms obtain s1 where "applyReconciliation env s (ap_Collection c) applied = Inr s1" "same_core s1 s'"
    by (auto simp: apply_observed_def Let_def split: if_splits intro: core_bind_refresh core_reconcile_admissions)
  then show ?thesis using keeps_cong[OF keeps_apply_reconciliation] by blast
qed

end
