(* ===== verification/Owner_Operator_Safety.thy ===== *)
theory Owner_Operator_Safety
  imports Owner_Effect_Safety
begin

text \<open>
  The operator's commands keep what \<open>keeps\<close> names: a reservation only adds a receipt, a mutation
  combines a receipt with one of the transitions already known to keep (a burial, a begun effect).
\<close>

section \<open>Receipts and leases\<close>

lemma core_forget_evicted [core_simps]: "same_core s (forget_evicted x s)"
  by (simp add: forget_evicted_def same_core_def)

lemma core_append [core_simps]:
  assumes "appendOperatorReceipt s r = Inr s'"
  shows "same_core s s'"
proof -
  from assms have "s' = s\<lparr>s_ControlReceipts := s_ControlReceipts s @ [r]\<rparr> \<or>
      (\<exists>x rest R. s' = (forget_evicted x (s\<lparr>s_ControlReceipts := rest\<rparr>))\<lparr>s_ControlReceipts := R\<rparr>)"
    by (auto simp: appendOperatorReceipt_def Let_def split: if_splits option.splits prod.splits)
  then show ?thesis
  proof
    assume "\<exists>x rest R. s' = (forget_evicted x (s\<lparr>s_ControlReceipts := rest\<rparr>))\<lparr>s_ControlReceipts := R\<rparr>"
    then obtain x rest R where t: "s' = (forget_evicted x (s\<lparr>s_ControlReceipts := rest\<rparr>))\<lparr>s_ControlReceipts := R\<rparr>" by blast
    have "same_core s (forget_evicted x (s\<lparr>s_ControlReceipts := rest\<rparr>))"
      by (simp add: forget_evicted_def same_core_def)
    then show ?thesis by (simp add: t same_core_def)
  qed (simp add: same_core_def)
qed

lemma core_keep_receipt: "keep_receipt s r e = Inr (s', e') \<Longrightarrow> same_core s s' \<and> e' = e"
  by (auto simp: keep_receipt_def intro: core_append)

lemma core_without_receipt [core_simps]: "same_core s (without_receipt x s)"
  by (simp add: without_receipt_def same_core_def)

lemma core_supersede_workflows [core_simps]: "same_core s (supersedePendingOperatorWorkflows s r i a x)"
  by (simp add: supersedePendingOperatorWorkflows_def Let_def update_receipts_def same_core_def)

lemma core_record_superseded_certificate [core_simps]: "record_superseded_certificate s p = Inr s' \<Longrightarrow> same_core s s'"
  by (auto simp: record_superseded_certificate_def Let_def core_simps split: option.splits if_splits)

lemma core_retain_lease [core_simps]: "retainReviewerLease env s r i a p = Inr (s', l) \<Longrightarrow> same_core s s'"
  by (auto simp: retainReviewerLease_def Let_def intro: same_core_trans core_record_superseded_certificate core_proofs)

lemma core_reserve_remote [core_simps]: "reserve_remote s q = Inr s' \<Longrightarrow> same_core s s'"
  by (auto simp: reserve_remote_def reserve_receipt_def split: option.splits if_splits intro: core_append)

lemma core_reserve_local [core_simps]: "reserve_local env s q r = Inr s' \<Longrightarrow> same_core s s'"
  by (auto simp: reserve_local_def reserve_receipt_def Let_def split: option.splits if_splits prod.splits intro: core_append)

lemma core_reserve [core_simps]: "applyReserveOperatorAdmission env s c = Inr s' \<Longrightarrow> same_core s s'"
  by (auto simp: applyReserveOperatorAdmission_def reserve_receipt_def Let_def split: option.splits if_splits
      intro: core_append core_reserve_remote core_reserve_local)

section \<open>Actions\<close>

lemma keeps_dismiss:
  assumes "begin_dismiss env s c st = Inr (s', e, phase)"
  shows "keeps s s'"
proof -
  let ?q = "bo_Request c" and ?k = "request_key (bo_Request c)"
  from assms obtain reviewer where r: "pendingReviewerEffect env s (q_Repository ?q) (q_Issue ?q) (q_Attempt ?q) = Inr reviewer"
    by (auto simp: begin_dismiss_def Let_def split: if_splits)
  from assms r obtain s1 lease where l: "retainReviewerLease env s (q_Repository ?q) (q_Issue ?q) (q_Attempt ?q) reviewer = Inr (s1, lease)"
    by (auto simp: begin_dismiss_def Let_def split: if_splits)
  from assms r l obtain s2 intent where i: "applyInvalidateAttempt env s1 (cleanup_burial s c []) = Inr (s2, intent)"
    by (auto simp: begin_dismiss_def Let_def split: if_splits)
  have k2: "keeps s s2" using keeps_trans[OF same_core_keeps[OF core_retain_lease[OF l]] keeps_invalidate[OF i]] .
  show ?thesis
  proof (cases intent)
    case None
    with assms r l i k2 show ?thesis by (simp add: begin_dismiss_def Let_def split: if_splits)
  next
    case (Some x)
    let ?s3 = "supersedePendingOperatorWorkflows s2 (q_Repository ?q) (q_Issue ?q) (q_Attempt ?q) (q_Action ?q)"
    have "s' = ?s3\<lparr>s_Tombstones := fmupd ?k (leased_tombstone lease (fm_get (s_Tombstones ?s3) ?k empty_tombstone)) (s_Tombstones ?s3)\<rparr>"
      using assms r l i Some by (simp add: begin_dismiss_def Let_def split: if_splits)
    moreover have "keeps ?s3 (?s3\<lparr>s_Tombstones :=
        fmupd ?k (leased_tombstone lease (fm_get (s_Tombstones ?s3) ?k empty_tombstone)) (s_Tombstones ?s3)\<rparr>)"
      by (rule keeps_tombstone_set) (simp add: same_burial_def leased_tombstone_def fm_get_def)
    ultimately show ?thesis using keeps_trans[OF keeps_cong[OF k2 core_supersede_workflows]] by simp
  qed
qed

lemma keeps_destroy:
  assumes "begin_destroy env s c st sts = Inr (s', e, phase)"
  shows "keeps s s'"
proof -
  let ?q = "bo_Request c"
  from assms obtain s1 intent h where i: "applyInvalidateAttempt env s (cleanup_burial s c h) = Inr (s1, intent)"
    and t: "s' = s1 \<or> s' = supersedePendingOperatorWorkflows s1 (q_Repository ?q) (q_Issue ?q) (q_Attempt ?q) (q_Action ?q)"
    by (auto simp: begin_destroy_def Let_def split: if_splits option.splits)
  from t keeps_invalidate[OF i] keeps_cong[OF keeps_invalidate[OF i] core_supersede_workflows] show ?thesis by auto
qed

lemma keeps_stop_by:
  assumes "begin_stop_by env s c b = Inr (s', e, phase)"
  shows "keeps s s'"
proof -
  let ?q = "bo_Request c"
  from assms obtain s1 x b' where i: "applyBeginRuntimeEffect env s b' = Inr (s1, x)"
    and t: "s' = supersedePendingOperatorWorkflows s1 (q_Repository ?q) (q_Issue ?q) (q_Attempt ?q) (q_Action ?q)"
    by (auto simp: begin_stop_by_def Let_def split: if_splits)
  from keeps_cong[OF keeps_begin[OF i] core_supersede_workflows] show ?thesis by (simp add: t)
qed

lemma keeps_reconciled: "begin_reconciled env s b p = Inr (s', e, phase) \<Longrightarrow> keeps s s'"
  by (auto simp: begin_reconciled_def intro: same_core_keeps core_begin_reconciliation)

lemma keeps_action:
  assumes "begin_action env s c st sts = Inr (s', e, phase)"
  shows "keeps s s'"
proof -
  have "keeps s s'" if "begin_cancel env s c = Inr (s', e, phase)"
    using that by (auto simp: begin_cancel_def split: option.splits if_splits intro: keeps_stop_by)
  moreover have "keeps s s'" if "begin_recover env s c st = Inr (s', e, phase)"
    using that by (auto simp: begin_recover_def split: option.splits if_splits intro: keeps_stop_by keeps_reconciled)
  moreover have "keeps s s'" if "begin_review_plan env s c = Inr (s', e, phase)"
    using that by (auto simp: begin_review_plan_def split: option.splits if_splits intro: keeps_reconciled)
  ultimately show ?thesis
    using assms by (auto simp: begin_action_def Let_def split: if_splits intro: keeps_dismiss keeps_destroy)
qed

section \<open>Mutations\<close>

lemma keeps_carry_out:
  assumes "carry_out_mutation env s c = Inr (s', e)"
  shows "keeps s s'"
proof -
  from assms obtain st sts where o: "ownerOperatorStatus env s (q_Issue (bo_Request c)) (q_Attempt (bo_Request c)) = Some (st, sts)"
    by (auto simp: carry_out_mutation_def Let_def split: if_splits option.splits)
  from assms o obtain s1 e1 phase r where a: "begin_action env s c st sts = Inr (s1, e1, phase)"
    and k: "keep_receipt s1 r e1 = Inr (s', e)"
    by (auto simp: carry_out_mutation_def Let_def split: if_splits)
  from keeps_cong[OF keeps_action[OF a]] core_keep_receipt[OF k] show ?thesis by blast
qed

lemma core_attach_retry: "attach_retry s c x = Inr (s', e) \<Longrightarrow> same_core s s'"
  by (auto simp: attach_retry_def Let_def split: if_splits dest: core_keep_receipt)

lemma core_attach:
  assumes "attachOperatorRecovery env s c = Some (Inr (s', e))"
  shows "same_core s s'"
  using assms core_attach_retry[of s c _ s' e]
  by (auto simp: attachOperatorRecovery_def Let_def split: if_splits option.splits dest: core_keep_receipt)

lemma keeps_begin_local:
  assumes "begin_local env s c = Inr (s', e)"
  shows "keeps s s'"
proof (cases "if q_Action (bo_Request c) = ''recover'' then attachOperatorRecovery env s c else None")
  case None
  with assms show ?thesis
    by (auto simp: begin_local_def Let_def split: option.splits intro: keeps_carry_out same_core_keeps
        dest!: core_keep_receipt)
next
  case (Some r)
  with assms have "attachOperatorRecovery env s c = Some (Inr (s', e))"
    by (auto simp: begin_local_def Let_def split: if_splits)
  then show ?thesis using same_core_keeps core_attach by blast
qed

lemma keeps_remote:
  assumes "applyRemoteOnlyOperatorMutation env s c b = Inr (s', e)"
  shows "keeps s s'"
proof (cases "fmlookup (s_Tombstones s) (request_key (bo_Request c))")
  case None
  with assms obtain s1 x r where i: "applyInvalidateAttempt env s (burial s c ''completed'') = Inr (s1, x)"
    and k: "keep_receipt s1 r None = Inr (s', e)"
    by (auto simp: applyRemoteOnlyOperatorMutation_def Let_def split: if_splits)
  from keeps_cong[OF keeps_invalidate[OF i]] core_keep_receipt[OF k] show ?thesis by blast
next
  case (Some t)
  with assms show ?thesis
    by (auto simp: applyRemoteOnlyOperatorMutation_def Let_def split: if_splits dest!: core_keep_receipt intro: same_core_keeps)
qed

lemma core_replay_bound: "replay_bound_cleanup env s c t = Inr (s', e) \<Longrightarrow> same_core s s'"
  by (auto simp: replay_bound_cleanup_def replay_cleanup_def Let_def split: option.splits if_splits dest!: core_keep_receipt)

lemma core_replay_tombstone: "replayOperatorTombstone env s c t = Inr (s', e) \<Longrightarrow> same_core s s'"
  by (auto simp: replayOperatorTombstone_def Let_def split: if_splits dest!: core_keep_receipt core_replay_bound)

lemma keeps_begin_mutation:
  assumes "begin_mutation env s c b = Inr (s', e)"
  shows "keeps s s'"
  using assms
  by (auto simp: begin_mutation_def Let_def split: if_splits option.splits
      intro: keeps_remote keeps_begin_local same_core_keeps core_replay_tombstone)

lemma keeps_begin_operator:
  assumes "applyBeginOperatorMutation env s c = Inr (s', e)"
  shows "keeps s s'"
proof -
  from assms have "s' = s \<or> begin_mutation env s c False = Inr (s', e) \<or>
      (\<exists>x c'. begin_mutation env (without_receipt x s) c' True = Inr (s', e))"
    by (auto simp: applyBeginOperatorMutation_def Let_def split: if_splits option.splits)
  then show ?thesis
    using keeps_begin_mutation keeps_trans[OF same_core_keeps[OF core_without_receipt]] by blast
qed

lemma core_attach_admitted [core_simps]: "attach_admitted p qs s = Inr s' \<Longrightarrow> same_core s s'"
proof (induction qs arbitrary: s)
  case (Cons q qs)
  from Cons.prems obtain t where a: "appendOperatorReceipt (without_receipt (q_RequestID q) s) (attached_copy p q) = Inr t"
    and b: "attach_admitted p qs t = Inr s'" by auto
  from same_core_trans[OF same_core_trans[OF core_without_receipt core_append[OF a]] Cons.IH[OF b]] show ?case .
qed simp

lemma keeps_begin_admitted:
  assumes "begin_admitted env s c = Inr (s', e, ids)"
  shows "keeps s s'"
proof -
  from assms obtain s1 e1 where b: "applyBeginOperatorMutation env s c = Inr (s1, e1)" and t: "same_core s1 s'"
    by (auto simp: begin_admitted_def Let_def split: if_splits option.splits dest: core_attach_admitted)
  from keeps_cong[OF keeps_begin_operator[OF b] t] show ?thesis .
qed

lemma core_advance_recovery:
  assumes "applyAdvanceOperatorRecovery env s c = Inr (s', e)"
  shows "same_core s s'"
proof -
  from assms obtain r where "advance_step env s c r = Inr (s', e)"
    by (auto simp: applyAdvanceOperatorRecovery_def Let_def split: option.splits if_splits)
  then have "\<exists>b s1 P f. applyBeginReconciliationEffect env s b = Inr (s1, e) \<and> s' = update_receipts P f s1"
    by (simp add: advance_step_def Let_def split: if_splits option.splits prod.splits) blast+
  then show ?thesis using same_core_trans core_begin_reconciliation core_update_receipts by blast
qed

end
