(* ===== verification/Owner_Monitors.thy ===== *)
theory Owner_Monitors
  imports Owner_Operator_Safety
begin

text \<open>
  A review of the plan takes the place of a pending monitor.  When such a review is already pending,
  the candidate comes back without the monitor but at the old revision
  (\<^verbatim>\<open>stateOwnerBeginReconciliationEffect\<close> of \<^verbatim>\<open>applyStateOwnerCommand\<close>).  The ledger stays valid, since no
  receipt, tombstone or record refers to a monitor.
\<close>

section \<open>Ledgers that differ in their effects\<close>

named_theorems effect_free "parts of the validator that do not read the effects"

lemma ef_cycle [effect_free]: "valid_cycle_outcome (s\<lparr>s_Effects := E\<rparr>) = valid_cycle_outcome s"
  by (simp add: valid_cycle_outcome_def)
lemma ef_boot [effect_free]: "validateLegacyReviewerBoot (s\<lparr>s_Effects := E\<rparr>) = validateLegacyReviewerBoot s"
  by (simp add: validateLegacyReviewerBoot_def)
lemma ef_controlGeneration [effect_free]: "controlGeneration (s\<lparr>s_Effects := E\<rparr>) = controlGeneration s"
  by (simp add: controlGeneration_def fun_eq_iff)
lemma ef_repairs [effect_free]: "valid_control_repairs env (s\<lparr>s_Effects := E\<rparr>) = valid_control_repairs env s"
  by (simp add: valid_control_repairs_def effect_free cong: option.case_cong)
lemma ef_own_key [effect_free]: "own_issue_key (s\<lparr>s_Effects := E\<rparr>) = own_issue_key s"
  by (simp add: own_issue_key_def fun_eq_iff)
lemma ef_quarantines [effect_free]: "valid_quarantines (s\<lparr>s_Effects := E\<rparr>) = valid_quarantines s"
  by (simp add: valid_quarantines_def)
lemma ef_issue_generations [effect_free]: "valid_issue_generations (s\<lparr>s_Effects := E\<rparr>) = valid_issue_generations s"
  by (simp add: valid_issue_generations_def effect_free cong: option.case_cong)
lemma ef_control_generations [effect_free]: "valid_control_generations (s\<lparr>s_Effects := E\<rparr>) = valid_control_generations s"
  by (simp add: valid_control_generations_def effect_free cong: option.case_cong)
lemma ef_attempt_generations [effect_free]: "valid_attempt_generations (s\<lparr>s_Effects := E\<rparr>) = valid_attempt_generations s"
  by (simp add: valid_attempt_generations_def)
lemma ef_generation [effect_free]:
  "issueGeneration (s\<lparr>s_Effects := E\<rparr>) = issueGeneration s" "attemptGeneration (s\<lparr>s_Effects := E\<rparr>) = attemptGeneration s"
  by (simp_all add: issueGeneration_def attemptGeneration_def fun_eq_iff)
lemma ef_status [effect_free]: "valid_status (s\<lparr>s_Effects := E\<rparr>) = valid_status s"
  by (simp add: valid_status_def status_bound_def effect_free fun_eq_iff cong: option.case_cong)
lemma ef_released [effect_free]: "legacyRecordReleased (s\<lparr>s_Effects := E\<rparr>) = legacyRecordReleased s"
  by (simp add: legacyRecordReleased_def fun_eq_iff)
lemma ef_review_identified [effect_free]: "review_identified env (s\<lparr>s_Effects := E\<rparr>) m g = review_identified env s m g"
  by (simp add: review_identified_def effect_free cong: option.case_cong)
lemma ef_attempt_observation [effect_free]: "valid_attempt_observation (s\<lparr>s_Effects := E\<rparr>) = valid_attempt_observation s"
  by (simp add: valid_attempt_observation_def fun_eq_iff effect_free)
lemma ef_observation [effect_free]: "valid_observation env (s\<lparr>s_Effects := E\<rparr>) = valid_observation env s"
  by (simp add: valid_observation_def valid_present_observation_def
      effect_free fun_eq_iff cong: option.case_cong)
lemma ef_observations [effect_free]:
  "validateReconciliationObservations env (s\<lparr>s_Effects := E\<rparr>) = validateReconciliationObservations env s"
  by (simp add: validateReconciliationObservations_def observed_attempts_def effect_free fun_eq_iff cong: option.case_cong)
lemma ef_recoveries [effect_free]: "validateRuntimePRRecoveries (s\<lparr>s_Effects := E\<rparr>) = validateRuntimePRRecoveries s"
  by (simp add: validateRuntimePRRecoveries_def effect_free cong: option.case_cong)
lemma ef_legacy [effect_free]:
  "legacy_reviewer_run env (s\<lparr>s_Effects := E\<rparr>) = legacy_reviewer_run env s"
  "legacy_excused env (s\<lparr>s_Effects := E\<rparr>) = legacy_excused env s"
  "proof_excused env (s\<lparr>s_Effects := E\<rparr>) = proof_excused env s"
  by (simp_all add: legacy_reviewer_run_def legacy_excused_def proof_excused_def effect_free fun_eq_iff cong: option.case_cong)
lemma ef_proof [effect_free]: "valid_proof env (s\<lparr>s_Effects := E\<rparr>) = valid_proof env s"
  by (simp add: valid_proof_def effect_free fun_eq_iff cong: option.case_cong)
lemma ef_reviewer [effect_free]:
  "reviewer_fields_ok env (s\<lparr>s_Effects := E\<rparr>) = reviewer_fields_ok env s"
  "reviewer_run_ok env (s\<lparr>s_Effects := E\<rparr>) = reviewer_run_ok env s"
  "effect_state_ok env (s\<lparr>s_Effects := E\<rparr>) = effect_state_ok env s"
  by (simp_all add: reviewer_fields_ok_def reviewer_run_ok_def effect_state_ok_def effect_free fun_eq_iff cong: option.case_cong)
lemma ef_persisted [effect_free]:
  "validPersistedReconciliationEffect env (s\<lparr>s_Effects := E\<rparr>) = validPersistedReconciliationEffect env s"
  by (simp add: validPersistedReconciliationEffect_def effect_free fun_eq_iff cong: option.case_cong)
lemma ef_receipt_bound [effect_free]: "receipt_bound (s\<lparr>s_Effects := E\<rparr>) = receipt_bound s"
  by (simp add: receipt_bound_def effectReferencedByReceipt_def fun_eq_iff)
lemma ef_issue_current [effect_free]: "issue_current (s\<lparr>s_Effects := E\<rparr>) = issue_current s"
  by (simp add: issue_current_def effectAuthorizedByTombstone_def invalidatedExternalEffect_def effect_free fun_eq_iff cong: option.case_cong)
lemma ef_attempt_current [effect_free]: "attempt_current (s\<lparr>s_Effects := E\<rparr>) = attempt_current s"
  by (simp add: attempt_current_def effect_free fun_eq_iff cong: option.case_cong)
lemma ef_named [effect_free]: "intent_named env (s\<lparr>s_Effects := E\<rparr>) = intent_named env s"
  by (simp add: intent_named_def fun_eq_iff)
lemma ef_superseded [effect_free]:
  "superseded_ok env (s\<lparr>s_Effects := E\<rparr>) = superseded_ok env s"
  "stop_invalidations_ok env (s\<lparr>s_Effects := E\<rparr>) = stop_invalidations_ok env s"
  by (simp_all add: superseded_ok_def stop_invalidations_ok_def effect_free fun_eq_iff cong: option.case_cong)
lemma ef_intent [effect_free]: "valid_intent env (s\<lparr>s_Effects := E\<rparr>) = valid_intent env s"
  by (simp add: valid_intent_def valid_reconciliation_intent_def valid_runtime_intent_def effect_free fun_eq_iff cong: option.case_cong)
lemma ef_admission [effect_free]:
  "remoteOnlyOperatorAdmissionEligible (s\<lparr>s_Effects := E\<rparr>) = remoteOnlyOperatorAdmissionEligible s"
  "admission_bound (s\<lparr>s_Effects := E\<rparr>) = admission_bound s"
  "receipt_shape_ok env (s\<lparr>s_Effects := E\<rparr>) = receipt_shape_ok env s"
  by (simp_all add: remoteOnlyOperatorAdmissionEligible_def admission_bound_def receipt_shape_ok_def
      attemptHasReviewerProof_def effect_free fun_eq_iff cong: option.case_cong)

section \<open>Ledgers that lost monitors\<close>

definition without_monitors :: "runtimeOwnerState \<Rightarrow> runtimeOwnerState \<Rightarrow> bool" where
  "without_monitors s s' \<longleftrightarrow>
     (\<exists>E. s' = s\<lparr>s_Effects := E\<rparr> \<and>
       (\<forall>k. fmlookup E k = fmlookup (s_Effects s) k \<or> fmlookup E k = None \<and>
         (case fmlookup (s_Effects s) k of
            None \<Rightarrow> True | Some e \<Rightarrow> e_Action e = EffectMonitor \<and> e_Reconciliation e = None)))"

lemma without_monitors_cases:
  assumes "without_monitors s s'"
  shows "fmlookup (s_Effects s') k = fmlookup (s_Effects s) k \<or> fmlookup (s_Effects s') k = None"
    and "fmlookup (s_Effects s) k = Some e \<Longrightarrow> e_Action e \<noteq> EffectMonitor \<or> e_Reconciliation e \<noteq> None \<Longrightarrow>
      fmlookup (s_Effects s') k = Some e"
proof -
  from assms obtain E where s': "s' = s\<lparr>s_Effects := E\<rparr>" and l: "fmlookup E k = fmlookup (s_Effects s) k \<or>
      fmlookup E k = None \<and> (case fmlookup (s_Effects s) k of
        None \<Rightarrow> True | Some e \<Rightarrow> e_Action e = EffectMonitor \<and> e_Reconciliation e = None)"
    by (auto simp: without_monitors_def)
  from l show "fmlookup (s_Effects s') k = fmlookup (s_Effects s) k \<or> fmlookup (s_Effects s') k = None"
    by (auto simp: s')
  show "fmlookup (s_Effects s') k = Some e"
    if "fmlookup (s_Effects s) k = Some e" "e_Action e \<noteq> EffectMonitor \<or> e_Reconciliation e \<noteq> None"
    using l that by (auto simp: s')
qed

lemma without_monitors_refl: "without_monitors s s"
  unfolding without_monitors_def by (rule exI[of _ "s_Effects s"]) simp

lemma without_monitors_core: "without_monitors s s' \<Longrightarrow> same_core s s'"
  by (auto simp: without_monitors_def same_core_def)

lemma without_monitors_drop:
  assumes "without_monitors s s'" "fmlookup (s_Effects s) k = Some e" "e_Action e = EffectMonitor" "e_Reconciliation e = None"
  shows "without_monitors s (s'\<lparr>s_Effects := fmdrop k (s_Effects s')\<rparr>)"
proof -
  from assms(1) obtain E where s': "s' = s\<lparr>s_Effects := E\<rparr>" and "\<forall>k. fmlookup E k = fmlookup (s_Effects s) k \<or>
      fmlookup E k = None \<and> (case fmlookup (s_Effects s) k of
        None \<Rightarrow> True | Some e \<Rightarrow> e_Action e = EffectMonitor \<and> e_Reconciliation e = None)"
    by (auto simp: without_monitors_def)
  then have "\<forall>j. fmlookup (fmdrop k E) j = fmlookup (s_Effects s) j \<or> fmlookup (fmdrop k E) j = None \<and>
      (case fmlookup (s_Effects s) j of None \<Rightarrow> True | Some e \<Rightarrow> e_Action e = EffectMonitor \<and> e_Reconciliation e = None)"
    using assms(2-4) by simp
  then show ?thesis unfolding without_monitors_def s' by (intro exI[of _ "fmdrop k E"]) simp
qed

lemma monitor_distinct [simp]:
  "EffectStop \<noteq> EffectMonitor" "EffectCleanup \<noteq> EffectMonitor" "EffectMonitor \<noteq> EffectStop" "EffectMonitor \<noteq> EffectCleanup"
  by (simp_all add: EffectStop_def EffectCleanup_def EffectMonitor_def)

section \<open>Validity without monitors\<close>

lemma wm_stop: "without_monitors s s' \<Longrightarrow> pending_stop s r = Some e \<Longrightarrow> pending_stop s' r = Some e"
  using without_monitors_cases(2)[of s s' "a_StopEffectID r" e]
  by (auto simp: pending_stop_def Let_def split: option.splits if_splits)

lemma wm_attempt:
  assumes "without_monitors s s'" "valid_attempt env s k r"
  shows "valid_attempt env s' k r"
proof -
  from assms(1) obtain E where s': "s' = s\<lparr>s_Effects := E\<rparr>" by (auto simp: without_monitors_def)
  have st: "pending_stop s r = None \<or> pending_stop s' r = pending_stop s r"
    using wm_stop[OF assms(1)] by (cases "pending_stop s r") auto
  let ?m = "a_Manifest r"
  note v = assms(2)[unfolded valid_attempt_def Let_def]
  have a: "m_WorkerProfileDigest ?m = [] \<or> m_WorkerGeneration ?m = a_Generation r \<or> revokedWorkerCredentialCurrent env r \<or>
      pending_stop s' r \<noteq> None \<and> m_WorkerGeneration ?m \<noteq> uint64_max \<and> m_WorkerGeneration ?m + 1 = a_Generation r"
    using v st by (cases "pending_stop s r") fastforce+
  have b: "a_StopEffectID r = [] \<or> (case pending_stop s' r of
      None \<Rightarrow> False | Some e \<Rightarrow> e_IssueGeneration e = issueGeneration s' (e_Repository e) (e_Issue e))"
    using v st by (cases "pending_stop s r") (simp_all add: s' effect_free)
  show ?thesis
    unfolding valid_attempt_def Let_def by (insert v a b, elim conjE, intro conjI; simp add: effect_free s')
qed

lemma wm_lease:
  assumes "without_monitors s s'" "valid_lease s t"
  shows "valid_lease s' t"
proof (cases "fmlookup (s_Effects s) (t_EffectID t)")
  case None
  with assms(2) show ?thesis by (simp add: valid_lease_def)
next
  case (Some e)
  have p: "s_ReviewerProofs s' = s_ReviewerProofs s" using assms(1) by (auto simp: without_monitors_def)
  show ?thesis
  proof (cases "t_ReviewerLeaseID t = []")
    case False
    with assms(2) Some have "e_Action e = EffectCleanup" by (simp add: valid_lease_def)
    then have "fmlookup (s_Effects s') (t_EffectID t) = Some e" using without_monitors_cases(2)[OF assms(1) Some] by simp
    with assms(2) Some False show ?thesis by (simp add: valid_lease_def p)
  qed (simp add: valid_lease_def)
qed

lemma wm_tombstone:
  assumes "without_monitors s s'" "valid_tombstone env s b k t"
  shows "valid_tombstone env s' b k t"
proof -
  from assms(1) obtain E where s': "s' = s\<lparr>s_Effects := E\<rparr>" by (auto simp: without_monitors_def)
  note c = without_monitors_cases[OF assms(1)]
  have o: "valid_external_outcome s' t x x'" if "valid_external_outcome s t x x'" for x x'
    using that c(1)[of x] by (auto simp: valid_external_outcome_def)
  have outs: "fmpred (valid_external_outcome s' t) (t_ExternalOutcomes t)"
    using assms(2) o by (auto simp: valid_tombstone_def fmpred_iff)
  have "valid_lease s t" using assms(2) by (simp add: valid_tombstone_def)
  then have l: "valid_lease s' t" by (rule wm_lease[OF assms(1)])
  have e: "if t_EffectID t \<noteq> [] then
      (case fmlookup (s_Effects s') (t_EffectID t) of
         None \<Rightarrow> False
       | Some e \<Rightarrow> e_Action e = EffectCleanup \<and> e_of_attempt e (t_Repository t) (t_Issue t) (t_Attempt t) \<and>
           e_AttemptGeneration e = t_Generation t \<and>
           (if t_CleanupPhase t = ''completed'' then e_State e = ''completed'' else e_State e = ''pending''))
    else t_Action t = ''dismissed'' \<or> bareCompletedRemoval t \<or> bareCompletedArchive t"
    using assms(2) c(2)[of "t_EffectID t"] by (auto simp: valid_tombstone_def split: option.splits if_splits)
  show ?thesis
    unfolding valid_tombstone_def
    by (insert assms(2)[unfolded valid_tombstone_def] outs l e, elim conjE, intro conjI;
        simp add: effect_free s' cong: option.case_cong)
qed

lemma receipt_matches_no_monitor:
  assumes "operatorReceiptMatchesEffect r e"
  shows "e_Action e \<noteq> EffectMonitor \<or> e_Reconciliation e \<noteq> None"
  using assms by (auto simp: operatorReceiptMatchesEffect_def github_update_kind_def Let_def split: if_splits option.splits)

lemma wm_links:
  assumes "without_monitors s s'" "receipt_links_ok s r"
  shows "receipt_links_ok s' r"
proof -
  from assms(1) obtain E where s': "s' = s\<lparr>s_Effects := E\<rparr>" by (auto simp: without_monitors_def)
  have "r_EffectID r \<noteq> [] \<longrightarrow> (case fmlookup (s_Effects s') (r_EffectID r) of
      None \<Rightarrow> False | Some e \<Rightarrow> e_State e = operatorReceiptEffectState r \<and> operatorReceiptMatchesEffect r e)"
    using assms(2) without_monitors_cases(2)[OF assms(1), of "r_EffectID r"] receipt_matches_no_monitor[of r]
    by (auto simp: receipt_links_ok_def split: option.splits)
  then show ?thesis using assms(2) unfolding receipt_links_ok_def s' by simp
qed

lemma wm_receipts:
  assumes "without_monitors s s'"
  shows "receipts_ok env s b seen reserved rs \<Longrightarrow> receipts_ok env s' b seen reserved rs"
proof (induction rs arbitrary: seen reserved)
  case (Cons r rs)
  from assms obtain E where s': "s' = s\<lparr>s_Effects := E\<rparr>" by (auto simp: without_monitors_def)
  have a: "admission_bound s' = admission_bound s" "receipt_shape_ok env s' = receipt_shape_ok env s"
    by (simp_all add: s' effect_free)
  show ?case
    using Cons.prems Cons.IH wm_links[OF assms, of r] by (auto simp: a admission_ok_def split: if_splits option.splits)
qed simp

lemma valid_without_monitors:
  assumes "without_monitors s s'" "validateRuntimeOwnerState env s b"
  shows "validateRuntimeOwnerState env s' b"
proof -
  from assms(1) obtain E where s': "s' = s\<lparr>s_Effects := E\<rparr>" by (auto simp: without_monitors_def)
  note v = assms(2)[unfolded validate_parts]
  have "fmpred (valid_attempt env s') (s_Attempts s')" using v wm_attempt[OF assms(1)] by (auto simp: s' fmpred_iff)
  moreover have "fmpred (valid_tombstone env s' b) (s_Tombstones s')"
    using v wm_tombstone[OF assms(1)] by (auto simp: s' fmpred_iff)
  moreover have "fmpred (valid_intent env s' b) (s_Effects s')"
  proof (rule fmpredI)
    fix k e assume "fmlookup (s_Effects s') k = Some e"
    then have "fmlookup (s_Effects s) k = Some e" using without_monitors_cases(1)[OF assms(1), of k] by simp
    then have "valid_intent env s b k e" using v by (simp add: fmpred_iff)
    then show "valid_intent env s' b k e" by (simp add: s' effect_free)
  qed
  moreover have "receipts_ok env s' b [] [] (s_ControlReceipts s')" using v wm_receipts[OF assms(1)] by (simp add: s')
  ultimately show ?thesis
    using v unfolding validate_parts by (simp add: s' effect_free)
qed

section \<open>Looking for a pending effect\<close>

lemma scan_without_monitors:
  assumes "scan_pending env i q g es t = Inr (t', found)" "without_monitors s t"
    "\<And>e. e \<in> set es \<Longrightarrow> fmlookup (s_Effects s) (e_ID e) = Some e"
    "\<And>e. e \<in> set es \<Longrightarrow> e_Action e = EffectMonitor \<Longrightarrow> e_Reconciliation e = None"
  shows "without_monitors s t'"
  using assms
proof (induction es arbitrary: t)
  case (Cons e es)
  let ?d = "t\<lparr>s_Effects := fmdrop (e_ID e) (s_Effects t)\<rparr>"
  have m: "replaces_monitor e q \<Longrightarrow> e_Action e = EffectMonitor"
    by (auto simp: replaces_monitor_def)
  have d: "without_monitors s ?d" if "replaces_monitor e q"
    using without_monitors_drop[OF Cons.prems(2)] Cons.prems(3,4)[of e] m[OF that] by simp
  from Cons.prems(1) have "scan_pending env i q g es t = Inr (t', found) \<or>
      replaces_monitor e q \<and> scan_pending env i q g es ?d = Inr (t', found) \<or> t' = t"
    by (simp split: if_splits)
  then show ?case using Cons.IH[of t] Cons.IH[of ?d] Cons.prems d by auto
qed simp


lemma valid_monitor:
  assumes "valid_intent env s b k e" "e_Action e = EffectMonitor"
  shows "e_Reconciliation e = None"
proof (rule ccontr)
  assume "e_Reconciliation e \<noteq> None"
  then obtain q where q: "e_Reconciliation e = Some q" by auto
  with assms have "e_Action e = rq_Action q" "request_payload_valid env q"
    by (auto simp: valid_intent_def valid_reconciliation_intent_def validPersistedReconciliationEffect_def
        validReconciliationEffectRequest_def Let_def split: if_splits)
  with assms(2) show False
    by (simp add: request_payload_valid_def EffectMonitor_def reconciliationGitHubBind_def reconciliationGitHubPublish_def
        reconciliationGitHubIssueUpdate_def reconciliationGitHubPRGovernance_def reconciliationReviewer_def
        reconciliationHandoffDeliver_def reconciliationRetireCompleted_def reconciliationMonitoringCheckIn_def)
qed

text \<open>An environment visits each key of a map once, and no others.\<close>

lemma entries_values:
  assumes "\<And>xs :: string list. set (v_order env xs) \<subseteq> set xs" "e \<in> set (map snd (fm_entries (v_order env) m))"
  shows "\<exists>k. fmlookup m k = Some e"
proof -
  from assms(2) obtain k where k: "k \<in> set (v_order env (sorted_list_of_fset (fmdom m)))" "e = the (fmlookup m k)"
    by (auto simp: fm_entries_def)
  then have "k |\<in>| fmdom m" using assms(1) sorted_list_of_fset_simps(1) by fastforce
  then show ?thesis using k(2) by (auto simp: fmlookup_dom_iff)
qed

end
