(* ===== verification/Owner_Runs.thy ===== *)
theory Owner_Runs
  imports Owner_Monitors
begin

text \<open>
  Commits and runs of the owner.  Every candidate keeps what \<open>keeps\<close> names, a commit adds one
  revision to it and passes the validator, and so does every sequence of commands.
\<close>

section \<open>Candidates\<close>

fun candidate_state :: "candidate \<Rightarrow> runtimeOwnerState" where
  "candidate_state (New s e ids) = s"
| "candidate_state (Quiet s e ids) = s"
| "candidate_state (Found s e) = s"

lemma begun_effect_unnamed [simp]: "e_ID (begun_effect s c h st r) = []"
  by (simp add: begun_effect_def Let_def bindSupersededReviewer_def empty_effect_def split: option.split)

lemma begun_reconciliation_unnamed [simp]: "e_ID (begun_reconciliation env s i q g) = []"
  by (simp add: begun_reconciliation_def Let_def empty_effect_def)

lemma begin_runtime_found:
  "applyBeginRuntimeEffect env s c = Inr (s', e) \<Longrightarrow> e_ID e \<noteq> [] \<Longrightarrow> s' = s"
  by (auto simp: applyBeginRuntimeEffect_def Let_def split: option.splits if_splits prod.splits)

lemma begin_reconciliation_found:
  assumes "applyBeginReconciliationEffect env s c = Inr (s', e)" "e_ID e \<noteq> []"
  obtains i q g where "scan_pending env i q g (map snd (fm_entries (v_order env) (s_Effects s))) s = Inr (s', Some e)"
proof -
  let ?q = "bc_Request c"
  let ?g = "if rq_Manifest ?q = None then 0 else id_AttemptGeneration (bc_Identity c)"
  from assms(1) obtain s1 found where a: "scan_pending env (bc_Identity c) ?q ?g
      (map snd (fm_entries (v_order env) (s_Effects s))) s = Inr (s1, found)"
    by (cases "begin_refused env s c") (auto simp: applyBeginReconciliationEffect_def Let_def)
  show ?thesis
  proof (cases found)
    case None
    with assms a show ?thesis
      by (cases "begin_refused env s c") (auto simp: applyBeginReconciliationEffect_def Let_def split: if_splits)
  next
    case (Some x)
    with assms a have "s1 = s'" "x = e"
      by (cases "begin_refused env s c"; simp add: applyBeginReconciliationEffect_def Let_def)+
    with a Some that show ?thesis by blast
  qed
qed

lemma begun_cases:
  assumes "begun r = Inr x"
  obtains s1 e where "r = Inr (s1, e)" "x = (if e_ID e \<noteq> [] then Found s1 e else New s1 (Some e) [])"
  using assms by (cases r) (auto simp: begun_def)

lemma quietly_keeps:
  assumes "quietly q = Inr r" "\<And>s'. q = Inr s' \<Longrightarrow> keeps s s'"
  shows "keeps s (candidate_state r)"
  using assms by (cases q) auto

lemma apply_candidate_keeps:
  assumes "apply_candidate env applied s c = Inr r"
  shows "keeps s (candidate_state r)"
proof (cases c)
  case (AdvanceIssueGeneration x) with assms show ?thesis by (auto intro: quietly_keeps keeps_advance)
next
  case (InvalidateAttempt x)
  with assms obtain s1 e where "applyInvalidateAttempt env s x = Inr (s1, e)" "r = Quiet s1 e []"
    by (cases "applyInvalidateAttempt env s x") auto
  then show ?thesis using keeps_invalidate by simp
next
  case (RecordEffect x) with assms show ?thesis by (cases "applyRecordEffect s x") auto
next
  case (CompleteEffect x) with assms show ?thesis by (auto intro: quietly_keeps keeps_complete)
next
  case (BeginRuntimeEffect x)
  with assms have "begun (applyBeginRuntimeEffect env s x) = Inr r" by simp
  then show ?thesis by (rule begun_cases) (use keeps_begin in auto)
next
  case (FinishRuntimeEffect x) with assms show ?thesis by (auto intro: quietly_keeps keeps_finish)
next
  case (AuthorizeRuntimeEffect x)
  with assms show ?thesis by (auto elim!: quietly_keeps intro!: same_core_keeps[OF core_authorize])
next
  case (RotateStartGate x)
  with assms show ?thesis by (cases "applyRotateStartGate s x") (auto intro!: same_core_keeps[OF core_rotate])
next
  case (DiagnoseRuntimeEffect x)
  with assms show ?thesis by (auto elim!: quietly_keeps intro!: same_core_keeps[OF core_diagnose])
next
  case (ResolveInvalidatedReconciliationEffect x)
  with assms show ?thesis by (auto intro: quietly_keeps keeps_resolve)
next
  case (SelectWorkerSeal x) with assms show ?thesis by (auto intro: quietly_keeps keeps_seal)
next
  case (AdmitMachineStatus x) with assms show ?thesis by (auto elim!: quietly_keeps intro!: same_core_keeps[OF core_admit])
next
  case (ProveReviewerDead x) with assms show ?thesis by (auto elim!: quietly_keeps intro!: same_core_keeps[OF core_prove_dead])
next
  case (MarkReviewerStopped x) with assms show ?thesis by (auto intro: quietly_keeps keeps_mark_stopped)
next
  case (BindReviewerStopping x)
  with assms show ?thesis by (auto elim!: quietly_keeps intro!: same_core_keeps[OF core_bind_stopping])
next
  case (ForgetReviewerProof x) with assms show ?thesis by (auto elim!: quietly_keeps intro!: same_core_keeps[OF core_forget])
next
  case (MarkReviewerResourcesCleaned x)
  with assms show ?thesis by (auto elim!: quietly_keeps intro!: same_core_keeps[OF core_cleaned])
next
  case (DiagnoseReconciliationEffect x)
  with assms show ?thesis by (auto elim!: quietly_keeps intro!: same_core_keeps[OF core_diagnose_reconciliation])
next
  case (RecordControlReceipt x) with assms show ?thesis by (auto elim!: quietly_keeps intro!: same_core_keeps[OF core_receipt])
next
  case (RecordOperatorDiagnostic x)
  with assms show ?thesis by (auto elim!: quietly_keeps intro!: same_core_keeps[OF core_diagnostic])
next
  case (CompleteHandoffCompensation x) with assms show ?thesis by (auto intro: quietly_keeps keeps_compensation)
next
  case (AbortOperatorAdmission x) with assms show ?thesis by (auto elim!: quietly_keeps intro!: same_core_keeps[OF core_abort])
next
  case (FailOperatorAdmission x) with assms show ?thesis by (auto elim!: quietly_keeps intro!: same_core_keeps[OF core_fail])
next
  case (StartOperatorCleanup x) with assms show ?thesis by (auto intro: quietly_keeps keeps_start_cleanup)
next
  case (FinishOperatorRuntimeEffect x) with assms show ?thesis by (auto intro: quietly_keeps keeps_finish_operator)
next
  case (RecordCycleOutcome x) with assms show ?thesis by (auto elim!: quietly_keeps intro!: same_core_keeps[OF core_cycle])
next
  case (ApplyReconciliation x) with assms show ?thesis by (auto intro: quietly_keeps keeps_observed)
next
  case (BeginReconciliationEffect x)
  with assms have "begun (applyBeginReconciliationEffect env s x) = Inr r" by simp
  then show ?thesis by (rule begun_cases) (use same_core_keeps[OF core_begin_reconciliation] in auto)
next
  case (AuthorizeReconciliationEffect x)
  with assms show ?thesis by (auto elim!: quietly_keeps intro!: same_core_keeps[OF core_authorize_reconciliation])
next
  case (MarkHandoffPrepared x)
  with assms show ?thesis by (auto elim!: quietly_keeps intro!: same_core_keeps[OF core_handoff_prepared])
next
  case (MarkPlanReviewRunning x)
  with assms show ?thesis by (auto elim!: quietly_keeps intro!: same_core_keeps[OF core_review_running])
next
  case (MarkReviewerSessionRequested x)
  with assms show ?thesis by (auto elim!: quietly_keeps intro!: same_core_keeps[OF core_session_requested])
next
  case (SealReviewerResult x) with assms show ?thesis by (auto elim!: quietly_keeps intro!: same_core_keeps[OF core_seal])
next
  case (SupersedePlanReview x) with assms show ?thesis by (auto intro: quietly_keeps keeps_supersede)
next
  case (FinishReconciliationEffect x) with assms show ?thesis by (auto intro: quietly_keeps keeps_finish_reconciliation)
next
  case (MutatePRRecovery x)
  with assms show ?thesis by (auto elim!: quietly_keeps intro!: same_core_keeps[OF core_mutate_recovery])
next
  case (MutateGovernancePhase x)
  with assms show ?thesis by (auto elim!: quietly_keeps intro!: same_core_keeps[OF core_governance])
next
  case (ReserveOperatorAdmission x)
  with assms show ?thesis by (auto elim!: quietly_keeps intro!: same_core_keeps[OF core_reserve])
next
  case (BeginOperatorMutation x)
  with assms obtain s1 e ids where "begin_admitted env s x = Inr (s1, e, ids)" "r = Quiet s1 e ids"
    by (cases "begin_admitted env s x") auto
  then show ?thesis using keeps_begin_admitted by simp
next
  case (FinishOperatorReconciliationEffect x)
  with assms show ?thesis
    by (auto simp: applyFinishOperatorReconciliationEffect_def intro: quietly_keeps keeps_finish_reconciliation)
next
  case (AdvanceOperatorRecovery x)
  with assms obtain s1 e where "applyAdvanceOperatorRecovery env s x = Inr (s1, e)" "r = New s1 (Some e) (advancing_requests s1)"
    by (cases "applyAdvanceOperatorRecovery env s x") auto
  then show ?thesis using same_core_keeps[OF core_advance_recovery] by simp
qed

text \<open>The environment may visit a map in any order but invents no key.\<close>

definition sound_order :: "Env \<Rightarrow> bool" where
  "sound_order env \<longleftrightarrow> (\<forall>xs. set (v_order env xs) \<subseteq> set xs)"

text \<open>The one reply that changes the ledger without a new revision.\<close>

definition attached :: "owner_command \<Rightarrow> runtimeOwnerState \<Rightarrow> runtimeOwnerState \<Rightarrow> bool" where
  "attached c s s' \<longleftrightarrow> (\<exists>x E. c = BeginReconciliationEffect x \<and> s' = s\<lparr>s_Effects := E\<rparr>)"

lemma scan_pending_effects:
  "scan_pending env i q g es s = Inr (s', found) \<Longrightarrow> s' = s\<lparr>s_Effects := s_Effects s'\<rparr>"
proof (induction es arbitrary: s)
  case (Cons e es)
  let ?d = "s\<lparr>s_Effects := fmdrop (e_ID e) (s_Effects s)\<rparr>"
  from Cons.prems have "scan_pending env i q g es s = Inr (s', found) \<or> scan_pending env i q g es ?d = Inr (s', found) \<or> s' = s"
    by (simp split: if_splits)
  then show ?case
  proof (elim disjE)
    assume "scan_pending env i q g es ?d = Inr (s', found)"
    from Cons.IH[OF this] show ?thesis by simp
  next
    assume "scan_pending env i q g es s = Inr (s', found)"
    then show ?thesis by (rule Cons.IH)
  next
    assume "s' = s" then show ?thesis by simp
  qed
qed simp

lemma found_keeps:
  assumes "apply_candidate env applied s c = Inr (Found s1 e)"
  shows "s1 = s \<or> attached c s s1"
    and "sound_order env \<Longrightarrow> validateRuntimeOwnerState env s True \<Longrightarrow> without_monitors s s1"
proof -
  have q: "quietly x \<noteq> Inr (Found s1 e)" for x by (cases x) auto
  consider x where "c = BeginRuntimeEffect x" | x where "c = BeginReconciliationEffect x"
    using assms q by (cases c) auto
  then have "(s1 = s \<or> attached c s s1) \<and>
    (sound_order env \<longrightarrow> validateRuntimeOwnerState env s True \<longrightarrow> without_monitors s s1)"
  proof cases
    case 1
    with assms have "begun (applyBeginRuntimeEffect env s x) = Inr (Found s1 e)" by simp
    then have "s1 = s" by (rule begun_cases) (auto split: if_splits dest: begin_runtime_found)
    then show ?thesis by (simp add: without_monitors_refl)
  next
    case 2
    with assms have "begun (applyBeginReconciliationEffect env s x) = Inr (Found s1 e)" by simp
    then have "applyBeginReconciliationEffect env s x = Inr (s1, e)" "e_ID e \<noteq> []"
      by (auto elim!: begun_cases split: if_splits)
    then obtain i g q where sc: "scan_pending env i q g (map snd (fm_entries (v_order env) (s_Effects s))) s = Inr (s1, Some e)"
      by (rule begin_reconciliation_found)
    have "attached c s s1" using 2 scan_pending_effects[OF sc] unfolding attached_def by blast
    moreover have "without_monitors s s1" if o: "sound_order env" and v: "validateRuntimeOwnerState env s True"
    proof (rule scan_without_monitors[OF sc without_monitors_refl])
      fix x assume "x \<in> set (map snd (fm_entries (v_order env) (s_Effects s)))"
      then obtain k where k: "fmlookup (s_Effects s) k = Some x"
        using entries_values[of env x "s_Effects s"] o by (auto simp: sound_order_def)
      then have i: "valid_intent env s True k x" using v by (simp add: validate_parts fmpred_iff)
      then have "k = e_ID x"
        by (auto simp: valid_intent_def valid_reconciliation_intent_def valid_runtime_intent_def intent_named_def Let_def
            split: option.splits)
      with k show "fmlookup (s_Effects s) (e_ID x) = Some x" by simp
      show "e_Reconciliation x = None" if "e_Action x = EffectMonitor" using valid_monitor[OF i that] .
    qed
    ultimately show ?thesis by blast
  qed
  then show "s1 = s \<or> attached c s s1"
    "sound_order env \<Longrightarrow> validateRuntimeOwnerState env s True \<Longrightarrow> without_monitors s s1" by auto
qed

section \<open>Commits\<close>

definition grows :: "runtimeOwnerState \<Rightarrow> runtimeOwnerState \<Rightarrow> bool" where
  "grows s s' \<longleftrightarrow>
     s_Revision s \<le> s_Revision s' \<and> s_Epoch s' = s_Epoch s \<and> s_Repository s' = s_Repository s \<and>
     (\<forall>k. fm_get (s_IssueGenerations s) k 0 \<le> fm_get (s_IssueGenerations s') k 0) \<and>
     (\<forall>k. fm_get (s_AttemptGenerations s) k 0 \<le> fm_get (s_AttemptGenerations s') k 0) \<and>
     (\<forall>k. tombstone_kept s s' k)"

lemma grows_refl [simp, intro]: "grows s s"
  by (auto simp: grows_def tombstone_kept_def)

lemma grows_trans: "grows s s' \<Longrightarrow> grows s' s'' \<Longrightarrow> grows s s''"
  unfolding grows_def using order_trans tombstone_kept_trans by (metis (no_types, lifting))

lemma keeps_grows: "keeps s s' \<Longrightarrow> grows s s'"
  by (simp add: keeps_def grows_def)

lemma revised_grows: "s_Revision s \<le> r \<Longrightarrow> grows s (s\<lparr>s_Revision := r\<rparr>)"
  by (auto simp: grows_def tombstone_kept_def)

definition bind_new_tombstone :: "runtimeOwnerState \<Rightarrow> string \<Rightarrow> string \<Rightarrow> runtimeOwnerState" where
  "bind_new_tombstone s k x =
     (case fmlookup (s_Tombstones s) k of
        None \<Rightarrow> s
      | Some t \<Rightarrow> if t_Revision t = 0
          then s\<lparr>s_Tombstones := fmupd k (t\<lparr>t_EffectID := x\<rparr>) (s_Tombstones s)\<rparr> else s)"

definition bind_new_stop :: "runtimeOwnerState \<Rightarrow> string \<Rightarrow> runtimeEffectIntent \<Rightarrow> runtimeOwnerState" where
  "bind_new_stop s k e =
     (if e_Action e = EffectStop then
        (case fmlookup (s_Attempts s) k of
           None \<Rightarrow> s
         | Some r \<Rightarrow> if a_Generation r = e_AttemptGeneration e
             then s\<lparr>s_Attempts := fmupd k (r\<lparr>a_StopEffectID := e_ID e\<rparr>) (s_Attempts s)\<rparr> else s)
      else s)"

lemma insert_effect_split:
  "insert_effect s e = (let k = ownerAttemptKey (e_Repository e) (e_Issue e) (e_Attempt e) in
     bind_new_stop (bind_new_tombstone (s\<lparr>s_Effects := fmupd (e_ID e) e (s_Effects s)\<rparr>) k (e_ID e)) k e)"
  unfolding insert_effect_def bind_new_stop_def bind_new_tombstone_def Let_def by (rule refl)

lemma keeps_bind_new_tombstone: "keeps s (bind_new_tombstone s k x)"
proof (cases "fmlookup (s_Tombstones s) k")
  case (Some t)
  have "keeps s (s\<lparr>s_Tombstones := fmupd k (t\<lparr>t_EffectID := x\<rparr>) (s_Tombstones s)\<rparr>)"
    by (rule keeps_tombstone_set) (use Some in \<open>simp add: same_burial_def\<close>)
  with Some show ?thesis by (simp add: bind_new_tombstone_def)
qed (simp add: bind_new_tombstone_def)

lemma keeps_bind_new_stop: "keeps s (bind_new_stop s k e)"
proof (cases "fmlookup (s_Attempts s) k")
  case (Some r)
  have "keeps s (s\<lparr>s_Attempts := fmupd k (r\<lparr>a_StopEffectID := e_ID e\<rparr>) (s_Attempts s)\<rparr>)"
    by (rule keeps_attempt_set) (use Some in \<open>simp add: fm_has_def\<close>)
  with Some show ?thesis by (simp add: bind_new_stop_def)
qed (simp add: bind_new_stop_def)

lemma keeps_insert_effect: "keeps s (insert_effect s e)"
proof -
  have "keeps s (s\<lparr>s_Effects := fmupd (e_ID e) e (s_Effects s)\<rparr>)"
    by (rule same_core_keeps) (simp add: same_core_def)
  from keeps_trans[OF keeps_trans[OF this keeps_bind_new_tombstone] keeps_bind_new_stop]
  show ?thesis by (simp add: insert_effect_split Let_def)
qed

lemma keeps_stamp: "keeps s (stamp_tombstones s)"
  unfolding stamp_tombstones_def
  by (rule keeps_tombstones) (auto simp: same_burial_def fm_step_lookup intro!: exI)

lemma keeps_bind_receipts: "keeps s (foldl (\<lambda>s q. bindOperatorReceipt s q e (s_Revision s)) s qs)"
  by (induction qs arbitrary: s) (auto intro: keeps_trans[OF same_core_keeps[OF core_bind_receipt]])

lemma keeps_after_naming:
  assumes "keeps s s2"
  shows "keeps s (revokeInvalidPlanReviewers
      (stamp_tombstones (foldl (\<lambda>s q. bindOperatorReceipt s q e (s_Revision s)) s2 qs)) False)"
  by (rule keeps_cong[OF keeps_trans[OF keeps_trans[OF assms keeps_bind_receipts] keeps_stamp] core_revoke])

lemma committed_keeps:
  "keeps (candidate\<lparr>s_Revision := s_Revision candidate + 1\<rparr>) (fst (committed_candidate env candidate effect qs))"
proof (cases effect)
  case None
  then show ?thesis by (simp add: committed_candidate_def Let_def keeps_after_naming del: foldl_Cons)
next
  case (Some e)
  then show ?thesis
    by (cases "e_ID e = []")
      (simp_all add: committed_candidate_def Let_def keeps_after_naming keeps_insert_effect del: foldl_Cons)
qed

lemma finish_transition:
  assumes "finishRuntimeOwnerTransition env candidate effect qs = Inr (s', e)"
  shows "keeps (candidate\<lparr>s_Revision := s_Revision candidate + 1\<rparr>) s'"
    and "s_Revision candidate \<noteq> uint64_max" and "validateRuntimeOwnerState env s' True"
  using assms committed_keeps[of candidate env effect qs]
  by (auto simp: finishRuntimeOwnerTransition_def Let_def split: if_splits)

lemma applyStateOwnerCommand_cases:
  assumes "applyStateOwnerCommand env applied s c = Inr (s', e)"
  obtains (unchanged) "s' = s"
  | (committed) s1 e1 ids where "keeps s s1" "finishRuntimeOwnerTransition env s1 e1 ids = Inr (s', e)"
  | (found) x where "apply_candidate env applied s c = Inr (Found s' x)"
proof -
  obtain r where r: "apply_candidate env applied s c = Inr r"
    using assms by (cases "apply_candidate env applied s c") (auto simp: applyStateOwnerCommand_def)
  note k = apply_candidate_keeps[OF r]
  show ?thesis
  proof (cases r)
    case (New s1 e1 ids)
    then show ?thesis using committed[of s1 e1 ids] assms r k by (simp add: applyStateOwnerCommand_def)
  next
    case (Quiet s1 e1 ids)
    then show ?thesis using committed[of s1 e1 ids] unchanged assms r k
      by (auto simp: applyStateOwnerCommand_def split: if_splits)
  next
    case (Found s1 e1)
    then show ?thesis using found[of e1] assms r by (simp add: applyStateOwnerCommand_def)
  qed
qed

lemma commit_moves:
  assumes "keeps s s1" "finishRuntimeOwnerTransition env s1 e1 ids = Inr (s', e)"
  shows "s_Revision s' = s_Revision s + 1" "s_Revision s \<noteq> uint64_max" "validateRuntimeOwnerState env s' True" "grows s s'"
proof -
  note f = finish_transition[OF assms(2)]
  have r: "s_Revision s1 = s_Revision s" using assms(1) by (simp add: keeps_def)
  have r': "s_Revision s' = s_Revision s1 + 1" using f(1) by (simp add: keeps_def)
  have "s_Revision s1 \<le> s_Revision s1 + 1" using uint64_inc_gt[OF f(2)] by simp
  then show "grows s s'"
    using grows_trans[OF keeps_grows[OF assms(1)] grows_trans[OF revised_grows keeps_grows[OF f(1)]]] by simp
  show "s_Revision s' = s_Revision s + 1" "s_Revision s \<noteq> uint64_max" "validateRuntimeOwnerState env s' True"
    using r r' f(2,3) by simp_all
qed

lemma attached_grows: "attached c s s' \<Longrightarrow> grows s s'"
  by (auto simp: attached_def grows_def tombstone_kept_def)

lemma command_moves:
  assumes "applyStateOwnerCommand env applied s c = Inr (s', e)"
  shows "s' = s \<or> attached c s s' \<or>
      s_Revision s' = s_Revision s + 1 \<and> s_Revision s \<noteq> uint64_max \<and> validateRuntimeOwnerState env s' True"
    and "grows s s'"
    and "sound_order env \<Longrightarrow> validateRuntimeOwnerState env s True \<Longrightarrow> validateRuntimeOwnerState env s' True"
proof -
  have "(s' = s \<or> attached c s s' \<or>
      s_Revision s' = s_Revision s + 1 \<and> s_Revision s \<noteq> uint64_max \<and> validateRuntimeOwnerState env s' True) \<and> grows s s' \<and>
      (sound_order env \<longrightarrow> validateRuntimeOwnerState env s True \<longrightarrow> validateRuntimeOwnerState env s' True)"
    using assms
  proof (cases rule: applyStateOwnerCommand_cases)
    case (committed s1 e1 ids)
    from commit_moves[OF this] show ?thesis by simp
  next
    case (found x)
    note f = found_keeps[OF this]
    show ?thesis using f(1) attached_grows valid_without_monitors[OF f(2)] by auto
  qed simp
  then show "s' = s \<or> attached c s s' \<or>
      s_Revision s' = s_Revision s + 1 \<and> s_Revision s \<noteq> uint64_max \<and> validateRuntimeOwnerState env s' True"
    and "grows s s'"
    and "sound_order env \<Longrightarrow> validateRuntimeOwnerState env s True \<Longrightarrow> validateRuntimeOwnerState env s' True" by auto
qed

section \<open>Runs\<close>

text \<open>A system whose steps only move up a preorder, and one that keeps an invariant as well.\<close>

locale monotone_system =
  fixes step :: "'s \<Rightarrow> 's \<Rightarrow> bool" and below :: "'s \<Rightarrow> 's \<Rightarrow> bool"
  assumes below_refl: "below s s"
    and below_trans: "below s s' \<Longrightarrow> below s' s'' \<Longrightarrow> below s s''"
    and step_below: "step s s' \<Longrightarrow> below s s'"
begin

lemma run_below: "step\<^sup>*\<^sup>* s s' \<Longrightarrow> below s s'"
  by (induction rule: rtranclp_induct) (auto intro: below_refl below_trans step_below)

end

locale guarded_system = monotone_system +
  fixes inv :: "'a \<Rightarrow> bool"
  assumes step_guarded: "step s s' \<Longrightarrow> inv s \<Longrightarrow> inv s'"
begin

lemma run_guarded: "step\<^sup>*\<^sup>* s s' \<Longrightarrow> inv s \<Longrightarrow> inv s'"
  by (induction rule: rtranclp_induct) (auto intro: step_guarded)

end

inductive_cases owner_stepE: "owner_step env s s'"

lemma owner_run_rtranclp: "owner_run env s s' \<longleftrightarrow> (owner_step env)\<^sup>*\<^sup>* s s'"
proof
  show "owner_run env s s' \<Longrightarrow> (owner_step env)\<^sup>*\<^sup>* s s'" by (induction rule: owner_run.induct) auto
  show "(owner_step env)\<^sup>*\<^sup>* s s' \<Longrightarrow> owner_run env s s'"
    by (induction rule: rtranclp_induct) (auto intro: owner_run_refl owner_run_step)
qed

interpretation owner: guarded_system "owner_step env" grows "\<lambda>s. sound_order env \<and> validateRuntimeOwnerState env s True" for env
proof unfold_locales
  show "grows s s" for s by simp
  show "grows s s' \<Longrightarrow> grows s' s'' \<Longrightarrow> grows s s''" for s s' s'' by (rule grows_trans)
  show "owner_step env s s' \<Longrightarrow> grows s s'" for s s' by (auto elim!: owner_stepE dest: command_moves(2))
  show "owner_step env s s' \<Longrightarrow> sound_order env \<and> validateRuntimeOwnerState env s True \<Longrightarrow>
      sound_order env \<and> validateRuntimeOwnerState env s' True" for s s'
    by (auto elim!: owner_stepE dest: command_moves(3))
qed

lemma run_grows: "owner_run env s s' \<Longrightarrow> grows s s'"
  using owner.run_below by (simp add: owner_run_rtranclp)

lemma run_valid:
  "owner_run env s s' \<Longrightarrow> sound_order env \<Longrightarrow> validateRuntimeOwnerState env s True \<Longrightarrow> validateRuntimeOwnerState env s' True"
  using owner.run_guarded by (simp add: owner_run_rtranclp)

lemma owner_run_single: "applyStateOwnerCommand env applied s c = Inr (s', e) \<Longrightarrow> owner_run env s s'"
  by (rule owner_run_step[OF owner_run_refl owner_stepI])

section \<open>A small ledger\<close>

definition newRuntimeOwnerState :: "Env \<Rightarrow> string \<Rightarrow> runtimeOwnerState" where
  "newRuntimeOwnerState env repository =
     \<lparr>s_WorkerProfileDigest = v_profile env, s_Version = runtimeOwnerStateVersion, s_Repository = repository,
      s_Epoch = 0, s_Revision = 0, s_IssueGenerations = fmempty, s_AttemptGenerations = fmempty,
      s_Attempts = fmempty, s_Observations = fmempty, s_Recoveries = fmempty, s_Tombstones = fmempty,
      s_Effects = fmempty, s_ReviewerProofs = fmempty, s_ReviewerSafetyMigrated = True,
      s_ReviewerConfinementTracked = True, s_ReviewerRunTracked = True, s_ReviewerPolicyTracked = True,
      s_ReviewerPolicyVersion = reviewerConfinementVersion, s_DismissCleanupTracked = True,
      s_LegacyReviewerQuarantines = fmempty, s_LegacyReviewerBaselines = fmempty,
      s_LegacyReviewerReleases = fmempty, s_LegacyBootUnavailable = False, s_ReviewerRevocationTracked = True,
      s_ExternalDispatchTracked = True, s_ControlReceipts = [], s_ControlGenerations = fmempty,
      s_ControlRepairs = fmempty, s_MachineStatuses = fmempty, s_CycleDiagnostic = [], s_CycleDiagnosticAt = 0,
      s_CycleOutcomeEpoch = 0, s_CycleOutcomeID = 0, s_CycleOutcomeSource = 0, s_StaleReconciliations = 0\<rparr>"

definition sample_env :: Env where
  "sample_env =
     \<lparr>v_AttemptRoot = ''/r'', v_StateRoot = ''/s'', v_SnapshotRoot = ''/p'',
      v_sha = (\<lambda>_. replicate 64 CHR ''a''), v_marshal = (\<lambda>_. []), v_json_manifest = (\<lambda>_. JInt 0),
      v_json_proof = (\<lambda>_. JInt 0), v_json_request = (\<lambda>_. JInt 0), v_json_result = (\<lambda>_. JInt 0),
      v_json_fact = (\<lambda>_. JInt 0), v_json_proposal = (\<lambda>_. JInt 0),
      v_json_causality = (\<lambda>_ _ _ _ _ _ _ _. JInt 0), v_profile = replicate 64 CHR ''b'', v_order = (\<lambda>xs. xs),
      v_json_snapshot = (\<lambda>_. JInt 0), v_decode_snapshot = (\<lambda>_. None),
      v_json_observations = (\<lambda>_. JInt 0), v_json_valid = (\<lambda>_. True), v_now = 1, v_json_group = (\<lambda>_. JInt 0), v_quote = (\<lambda>s. s)\<rparr>"

text \<open>Attempt 1 of issue 7 archived, in revision 5 of epoch 2.\<close>

definition archived_attempt :: runtimeTombstone where
  "archived_attempt = empty_tombstone\<lparr>t_Repository := ''o/r'', t_Issue := 7, t_Attempt := 1, t_Action := ''archived'',
     t_InvalidatedGeneration := 1, t_Generation := 2, t_Revision := 4, t_CleanupPhase := ''completed''\<rparr>"

definition small_ledger :: runtimeOwnerState where
  "small_ledger = (newRuntimeOwnerState sample_env ''o/r'')\<lparr>s_Epoch := 2, s_Revision := 5,
     s_IssueGenerations := fmupd ''o/r#7'' 3 fmempty, s_AttemptGenerations := fmupd ''o/r#7/1'' 2 fmempty,
     s_Tombstones := fmupd ''o/r#7/1'' archived_attempt fmempty\<rparr>"

definition small_outcome :: recordCycleOutcomeCommand where
  "small_outcome = \<lparr>co_Identity = \<lparr>id_Epoch = 2, id_SourceRevision = 5, id_CycleID = 1, id_IssueGeneration = 0,
      id_AttemptGeneration = 0, id_EffectID = [], id_RequestDigest = [], id_ReviewRunID = [],
      id_ReviewerProfileDigest = []\<rparr>, co_Diagnostic = [], co_At = 0\<rparr>"

definition small_next :: runtimeOwnerState where
  "small_next = small_ledger\<lparr>s_Revision := 6, s_CycleOutcomeEpoch := 2, s_CycleOutcomeID := 1, s_CycleOutcomeSource := 5\<rparr>"

lemma fmpred_single [simp]: "fmpred P (fmupd k v fmempty) \<longleftrightarrow> P k v"
  by (auto simp: fmpred_iff)

lemma fm_step_empty [simp]: "fm_step f fmempty = fmempty"
  by (rule fmap_ext) (simp add: fm_step_lookup)

lemma fm_step_single [simp]: "fm_step f (fmupd k v fmempty) = (case f k v of None \<Rightarrow> fmempty | Some w \<Rightarrow> fmupd k w fmempty)"
  by (rule fmap_ext) (auto simp: fm_step_lookup split: option.split)

lemma fcard_none [simp]: "fcard {||} = 0"
  by (simp add: fcard.rep_eq)

lemma sorted_list_of_none [simp]: "sorted_list_of_fset {||} = []"
  by (simp add: sorted_list_of_fset.rep_eq)

lemma small_keys:
  "issueFromOwnerKey ''o/r#7'' = 7" "ownerIssueKey ''o/r'' 7 = ''o/r#7''" "ownerAttemptKey ''o/r'' 7 1 = ''o/r#7/1''"
  "parseOwnerAttemptKey ''o/r#7/1'' = (''o/r'', 7, 1, True)" "trim_space ''o/r'' = ''o/r''"
  "boundedText [] maxReconciliationStringBytes False"
  by code_simp+

lemmas small_defs =
  small_next_def small_ledger_def newRuntimeOwnerState_def archived_attempt_def empty_tombstone_def

lemma small_empty_parts:
  "validateLegacyReviewerBoot small_next" "valid_control_generations small_next"
  "valid_control_repairs sample_env small_next" "valid_quarantines small_next"
  "fmpred (valid_status small_next) (s_MachineStatuses small_next)"
  "fmpred (valid_attempt sample_env small_next) (s_Attempts small_next)"
  "validateRuntimePRRecoveries small_next" "fmpred (valid_intent sample_env small_next True) (s_Effects small_next)"
  "fmpred (valid_proof sample_env small_next) (s_ReviewerProofs small_next)"
  by (simp_all add: small_defs validateLegacyReviewerBoot_def valid_control_generations_def valid_control_repairs_def
      valid_quarantines_def validateRuntimePRRecoveries_def)

lemma small_cycle_part: "valid_cycle_outcome small_next"
  by (simp add: small_defs valid_cycle_outcome_def small_keys time_is_zero_def)

lemma small_issue_part: "valid_issue_generations small_next"
  by (simp add: small_defs valid_issue_generations_def own_issue_key_def small_keys)

lemma small_attempt_part: "valid_attempt_generations small_next"
  by (simp add: small_defs valid_attempt_generations_def small_keys)

lemma small_observation_part: "validateReconciliationObservations sample_env small_next"
  by (simp add: small_defs validateReconciliationObservations_def observed_attempts_def fm_entries_def sample_env_def
      maxReconciliationFactBytes_def)

lemma small_tombstone_part: "fmpred (valid_tombstone sample_env small_next True) (s_Tombstones small_next)"
  by (simp add: small_defs valid_tombstone_def small_keys validTombstoneAction_def validCleanupPhase_def fm_has_def
      validTombstoneCleanupPolicy_def bareCompletedArchive_def bareCompletedRemoval_def valid_lease_def)

lemma small_valid: "validateRuntimeOwnerState sample_env small_next True"
  unfolding validate_parts
  using small_empty_parts small_cycle_part small_issue_part small_attempt_part small_observation_part small_tombstone_part
  by (simp add: small_next_def small_ledger_def newRuntimeOwnerState_def small_keys)

lemma small_candidate:
  "apply_candidate sample_env fmempty small_ledger (RecordCycleOutcome small_outcome) =
     Inr (Quiet (small_next\<lparr>s_Revision := 5\<rparr>) None [])"
  by (simp add: small_defs applyCycleOutcome_def small_outcome_def Let_def small_keys time_is_zero_def)

lemma small_step:
  "applyStateOwnerCommand sample_env fmempty small_ledger (RecordCycleOutcome small_outcome) = Inr (small_next, None)"
proof -
  have "fst (committed_candidate sample_env (small_next\<lparr>s_Revision := 5\<rparr>) None []) = small_next"
    by (simp add: committed_candidate_def Let_def small_defs stamp_tombstones_def revokeInvalidPlanReviewers_def)
  moreover have "snd (committed_candidate sample_env (small_next\<lparr>s_Revision := 5\<rparr>) None []) = None"
    by (simp add: committed_candidate_def Let_def)
  ultimately have c: "committed_candidate sample_env (small_next\<lparr>s_Revision := 5\<rparr>) None [] = (small_next, None)"
    by (simp add: prod_eq_iff)
  have "s_CycleOutcomeEpoch (small_next\<lparr>s_Revision := 5\<rparr>) \<noteq> s_CycleOutcomeEpoch small_ledger"
    by (simp add: small_defs)
  then have n: "small_next\<lparr>s_Revision := 5\<rparr> \<noteq> small_ledger" by metis
  show ?thesis
    unfolding applyStateOwnerCommand_def small_candidate
    using n small_valid by (simp add: finishRuntimeOwnerTransition_def c)
qed

lemma small_run: "owner_run sample_env small_ledger small_next"
  by (rule owner_run_single[OF small_step])

lemma small_burial:
  "fmlookup (s_Tombstones small_ledger) (ownerAttemptKey ''o/r'' 7 1) = Some archived_attempt"
  "\<not> fm_has (s_Attempts small_ledger) (ownerAttemptKey ''o/r'' 7 1)"
  by (simp_all add: small_keys small_ledger_def newRuntimeOwnerState_def fm_has_def)

section \<open>Properties\<close>

text \<open>
  C2: Monotonicity.  No sequence of commands lowers the ledger's revision, an issue generation or an
  attempt generation, and none changes the epoch or the repository.
\<close>

theorem owner_run_monotone:
  assumes "owner_run env s s'"
  shows "s_Revision s \<le> s_Revision s' \<and> s_Epoch s' = s_Epoch s \<and> s_Repository s' = s_Repository s \<and>
    (\<forall>r i. issueGeneration s r i \<le> issueGeneration s' r i) \<and>
    (\<forall>r i a. attemptGeneration s r i a \<le> attemptGeneration s' r i a)"
  using run_grows[OF assms] by (simp add: grows_def issueGeneration_def attemptGeneration_def)

theorem owner_run_monotone_witness:
  "s_Revision small_ledger \<le> s_Revision small_next \<and> attemptGeneration small_next ''o/r'' 7 1 \<ge> attemptGeneration small_ledger ''o/r'' 7 1"
  using owner_run_monotone[OF small_run] by simp

text \<open>
  C1: A buried attempt stays buried.  Once an attempt has a tombstone and no record, no sequence of
  commands gives it a record again or moves its generation; the tombstone stays, keeps its identity,
  action and recorded invalidations, and its cleanup phase never goes back.
\<close>

theorem owner_run_buried:
  assumes "owner_run env s s'" "fmlookup (s_Tombstones s) (ownerAttemptKey r i a) = Some t"
    "\<not> fm_has (s_Attempts s) (ownerAttemptKey r i a)"
  shows "(\<exists>t'. fmlookup (s_Tombstones s') (ownerAttemptKey r i a) = Some t' \<and> same_burial t t') \<and>
    \<not> fm_has (s_Attempts s') (ownerAttemptKey r i a) \<and> attemptGeneration s' r i a = attemptGeneration s r i a"
  using run_grows[OF assms(1)] assms(2,3) by (auto simp: grows_def tombstone_kept_def attemptGeneration_def)

theorem owner_run_buried_witness:
  "(\<exists>t'. fmlookup (s_Tombstones small_next) (ownerAttemptKey ''o/r'' 7 1) = Some t' \<and> same_burial archived_attempt t') \<and>
   \<not> fm_has (s_Attempts small_next) (ownerAttemptKey ''o/r'' 7 1)"
  using owner_run_buried[OF small_run small_burial] by simp

text \<open>
  C3: Commits.  A command the owner accepts either leaves the ledger exactly as it was or installs a
  ledger that passed the validator, at the next revision, which cannot wrap.  The one exception is the
  beginning of a reconciliation effect that is already pending: its reply may change the effects alone.
\<close>

theorem owner_commit:
  assumes "applyStateOwnerCommand env applied s c = Inr (s', e)"
  shows "s' = s \<or> attached c s s' \<or>
    s_Revision s \<noteq> uint64_max \<and> s_Revision s' = s_Revision s + 1 \<and> s_Revision s < s_Revision s' \<and>
    validateRuntimeOwnerState env s' True"
  using command_moves(1)[OF assms] uint64_inc_gt by auto

theorem owner_commit_witness:
  "small_next = small_ledger \<or> s_Revision small_ledger < s_Revision small_next \<and> validateRuntimeOwnerState sample_env small_next True"
  using owner_commit[OF small_step] by (auto simp: attached_def)

text \<open>
  Validity.  Every ledger that commands reach from a valid one passes the whole validator again,
  in whatever order the maps are visited.
\<close>

theorem owner_run_valid:
  assumes "sound_order env" "validateRuntimeOwnerState env s True" "owner_run env s s'"
  shows "validateRuntimeOwnerState env s' True"
  using run_valid[OF assms(3,1,2)] .

lemma sample_order: "sound_order sample_env"
  by (simp add: sound_order_def sample_env_def)

theorem owner_run_valid_witness: "validateRuntimeOwnerState sample_env small_next True"
  using owner_run_valid[OF sample_order small_valid owner_run_refl] .

end
