(* ===== verification/Owner_Attempt_Properties.thy ===== *)
theory Owner_Attempt_Properties
  imports Owner_Runs
begin

text \<open>
  What single transitions of the owner do: a new manifest moves exactly one attempt generation, an
  invalidation buries exactly one attempt and can be repeated, a dispatched GitHub mutation outlives
  the attempt that asked for it, machine statuses are numbered without gaps.
\<close>

section \<open>A second attempt\<close>

text \<open>Attempt 2 of issue 7 of the small ledger, whose attempt 1 is archived.\<close>

definition sample_manifest :: Manifest where
  "sample_manifest = empty_manifest\<lparr>m_Version := 2, m_LaunchToken := replicate 32 CHR ''c'',
     m_Repository := ''o/r'', m_Issue := 7, m_Attempt := 2,
     m_Branch := ''agent-symphony/o-r-aaaaaaaaaaaa/7-2'', m_Worktree := ''/r/o-r-aaaaaaaaaaaa-7-2'',
     m_Session := ''as-o-r-aaaaaaaaaaaa-7-2'', m_LogPath := ''/s/attempts/o-r-aaaaaaaaaaaa/7-2/agent.log'',
     m_BaseSHA := replicate 40 CHR ''d'', m_State := ''preparing''\<rparr>"

definition sample_upsert :: upsertAttemptCommand where
  "sample_upsert = \<lparr>ua_Manifest = sample_manifest, ua_ExpectedIssueGeneration = 3, ua_ExpectedAttemptGeneration = 0\<rparr>"

definition second_ledger :: runtimeOwnerState where
  "second_ledger = projr (applyUpsertAttempt sample_env small_ledger sample_upsert)"

lemma second_upsert: "applyUpsertAttempt sample_env small_ledger sample_upsert = Inr second_ledger"
proof -
  have "\<not> isl (applyUpsertAttempt sample_env small_ledger sample_upsert)" by code_simp
  then show ?thesis by (simp add: second_ledger_def)
qed

text \<open>The same attempt with a shorter record and a request that GitHub may have received, and its
  abandonment.\<close>

definition sent_request :: reconciliationEffectRequest where
  "sent_request = \<lparr>rq_Action = reconciliationGitHubBind, rq_Repository = ''o/r'', rq_Issue = 7, rq_Attempt = 2,
     rq_Manifest = None, rq_ObservationGeneration = 1, rq_ObservationCycleID = 1, rq_BodyDigest = [],
     rq_ExecutionDigest = [], rq_ControlGeneration = 1, rq_ControlRepair = False, rq_GitHubBind = None,
     rq_GitHubPublish = None, rq_GitHubIssueUpdate = None, rq_GitHubPRGovernance = None, rq_Reviewer = None,
     rq_Handoff = None, rq_Retire = None, rq_CheckIn = None\<rparr>"

definition sent_effect :: runtimeEffectIntent where
  "sent_effect = empty_effect\<lparr>e_ID := ''e'', e_Action := reconciliationGitHubBind, e_Repository := ''o/r'', e_Issue := 7,
     e_Attempt := 2, e_State := ''pending'', e_Dispatched := True, e_Reconciliation := Some sent_request\<rparr>"

definition live_ledger :: runtimeOwnerState where
  "live_ledger = small_ledger\<lparr>s_Effects := fmupd ''e'' sent_effect fmempty,
     s_AttemptGenerations := fmupd ''o/r#7/2'' 1 (s_AttemptGenerations small_ledger),
     s_Attempts := fmupd ''o/r#7/2'' (upserted_record None 1 empty_manifest) fmempty\<rparr>"

definition sample_invalidation :: invalidateAttemptCommand where
  "sample_invalidation =
     \<lparr>iv_Repository = ''o/r'', iv_Issue = 7, iv_Attempt = 2, iv_ExpectedIssueGeneration = 3,
      iv_ExpectedAttemptGeneration = 1, iv_Action = ''abandoned'', iv_CleanupPhase = ''pending'', iv_PublishedHead = [],
      iv_Manifest = None, iv_CleanupPolicy = None, iv_Diagnostic = [], iv_EffectAction = [],
      iv_EffectRequestDigest = []\<rparr>"

section \<open>Upserts\<close>

lemma upsert_facts:
  assumes "applyUpsertAttempt env s c = Inr s'"
  defines "m \<equiv> ua_Manifest c"
  defines "k \<equiv> ownerAttemptKey (m_Repository m) (m_Issue m) (m_Attempt m)"
  defines "g \<equiv> ua_ExpectedAttemptGeneration c"
  shows "attemptGeneration s (m_Repository m) (m_Issue m) (m_Attempt m) = g"
    and "issueGeneration s (m_Repository m) (m_Issue m) = ua_ExpectedIssueGeneration c"
    and "validateOwnerManifest env (s_Repository s) m" and "\<not> fm_has (s_Tombstones s) k"
    and "unat (g + 1) = unat g + 1"
    and "s_AttemptGenerations s' = fmupd k (g + 1) (s_AttemptGenerations s)"
    and "s_IssueGenerations s' = (if g = 0 then fmupd (ownerIssueKey (m_Repository m) (m_Issue m))
      (ua_ExpectedIssueGeneration c + 1) (s_IssueGenerations s) else s_IssueGenerations s)"
    and "s_Attempts s' = fmupd k (upserted_record (fmlookup (s_Attempts s) k) (g + 1) m) (s_Attempts s)"
    and "s_Tombstones s' = s_Tombstones s"
proof -
  note u = upsert_moves[OF assms(1)[unfolded applyUpsertAttempt_def], folded m_def, folded k_def]
  from upsert_steps[OF assms(1)[unfolded applyUpsertAttempt_def]]
  have "upsert_blocked env s c = None" by blast
  note b = upsert_blocked_None[OF this, folded m_def, folded k_def g_def]
  show "attemptGeneration s (m_Repository m) (m_Issue m) (m_Attempt m) = g"
    "issueGeneration s (m_Repository m) (m_Issue m) = ua_ExpectedIssueGeneration c"
    "validateOwnerManifest env (s_Repository s) m" "\<not> fm_has (s_Tombstones s) k"
    by (fact b)+
  show "unat (g + 1) = unat g + 1" using u(3) by (simp add: b uint64_inc)
  show "s_AttemptGenerations s' = fmupd k (g + 1) (s_AttemptGenerations s)"
    "s_IssueGenerations s' = (if g = 0 then fmupd (ownerIssueKey (m_Repository m) (m_Issue m))
      (ua_ExpectedIssueGeneration c + 1) (s_IssueGenerations s) else s_IssueGenerations s)"
    "s_Attempts s' = fmupd k (upserted_record (fmlookup (s_Attempts s) k) (g + 1) m) (s_Attempts s)"
    "s_Tombstones s' = s_Tombstones s"
    using u(4-7) by (simp_all only: b)
qed

text \<open>
  An accepted manifest moves one attempt.  The command's generations were current and the attempt
  is not buried; the attempt generation grows by one without wrapping and the record carries it; the
  issue generation moves, by one, exactly when the attempt is new; no tombstone changes.
\<close>

theorem upsert_exact:
  assumes "applyUpsertAttempt env s c = Inr s'"
  shows "let m = ua_Manifest c; g = ua_ExpectedAttemptGeneration c;
      k = ownerAttemptKey (m_Repository m) (m_Issue m) (m_Attempt m) in
    attemptGeneration s (m_Repository m) (m_Issue m) (m_Attempt m) = g \<and>
    issueGeneration s (m_Repository m) (m_Issue m) = ua_ExpectedIssueGeneration c \<and>
    validateOwnerManifest env (s_Repository s) m \<and> \<not> fm_has (s_Tombstones s) k \<and> unat (g + 1) = unat g + 1 \<and>
    s_AttemptGenerations s' = fmupd k (g + 1) (s_AttemptGenerations s) \<and>
    s_IssueGenerations s' = (if g = 0 then fmupd (ownerIssueKey (m_Repository m) (m_Issue m))
      (ua_ExpectedIssueGeneration c + 1) (s_IssueGenerations s) else s_IssueGenerations s) \<and>
    s_Attempts s' = fmupd k (upserted_record (fmlookup (s_Attempts s) k) (g + 1) m) (s_Attempts s) \<and>
    s_Tombstones s' = s_Tombstones s"
  unfolding Let_def by (intro conjI; rule upsert_facts[OF assms])

theorem upsert_exact_witness:
  "s_AttemptGenerations second_ledger = fmupd ''o/r#7/2'' 1 (s_AttemptGenerations small_ledger) \<and>
   s_IssueGenerations second_ledger = fmupd ''o/r#7'' 4 (s_IssueGenerations small_ledger)"
proof -
  have m: "m_Repository sample_manifest = ''o/r''" "m_Issue sample_manifest = 7" "m_Attempt sample_manifest = 2"
    by (simp_all add: sample_manifest_def)
  have k: "ownerAttemptKey ''o/r'' 7 2 = ''o/r#7/2''" "ownerIssueKey ''o/r'' 7 = ''o/r#7''" by code_simp+
  show ?thesis
    using upsert_exact[OF second_upsert] by (simp add: sample_upsert_def m k Let_def)
qed

section \<open>Invalidations\<close>

lemma sameAttemptIdentity_refl [simp]: "sameAttemptIdentity m m"
  by (simp add: sameAttemptIdentity_def)

lemma sameOptionalAttemptIdentity_refl [simp]: "sameOptionalAttemptIdentity m m"
  by (simp add: sameOptionalAttemptIdentity_def split: option.split)

lemma fresh_tombstone_fields [simp]:
  "t_InvalidatedGeneration (fresh_tombstone env s c h st) = iv_ExpectedAttemptGeneration c"
  "t_Generation (fresh_tombstone env s c h st) = iv_ExpectedAttemptGeneration c + 1"
  "t_Action (fresh_tombstone env s c h st) = iv_Action c" "t_CleanupPhase (fresh_tombstone env s c h st) = iv_CleanupPhase c"
  "t_PublishedHead (fresh_tombstone env s c h st) = iv_PublishedHead c"
  "t_Diagnostic (fresh_tombstone env s c h st) = iv_Diagnostic c" "t_Manifest (fresh_tombstone env s c h st) = iv_Manifest c"
  "t_CleanupPolicy (fresh_tombstone env s c h st) = iv_CleanupPolicy c" "t_EffectID (fresh_tombstone env s c h st) = []"
  by (simp_all add: fresh_tombstone_def empty_tombstone_def)

lemma invalidate_fresh:
  assumes "applyInvalidateAttempt env s c = Inr (s', e)"
    "\<not> fm_has (s_Tombstones s) (ownerAttemptKey (iv_Repository c) (iv_Issue c) (iv_Attempt c))"
  defines "k \<equiv> ownerAttemptKey (iv_Repository c) (iv_Issue c) (iv_Attempt c)"
  obtains h st where "iv_ExpectedAttemptGeneration c \<noteq> uint64_max"
    "attemptGeneration s (iv_Repository c) (iv_Issue c) (iv_Attempt c) = iv_ExpectedAttemptGeneration c"
    "tombstone_attempt env (invalidateControlSnapshot env s (ownerIssueKey (iv_Repository c) (iv_Issue c))) c h st = Inr s'"
    "s_AttemptGenerations s' = fmupd k (iv_ExpectedAttemptGeneration c + 1) (s_AttemptGenerations s)"
    "s_IssueGenerations s' = s_IssueGenerations s" "s_Attempts s' = fmdrop k (s_Attempts s)"
    "s_Tombstones s' = fmupd k
       (fresh_tombstone env (invalidateControlSnapshot env s (ownerIssueKey (iv_Repository c) (iv_Issue c))) c h st) (s_Tombstones s)"
    "s_Repository s' = s_Repository s"
  using assms(1)
proof (cases rule: applyInvalidateAttempt_cases)
  case (replay t) then show ?thesis using assms(2) by (simp add: fm_has_def)
next
  case (fresh h st)
  note c = core_invalidateControlSnapshot[of s env "ownerIssueKey (iv_Repository c) (iv_Issue c)"]
  note m = tombstone_attempt_moves[OF fresh(4,3)]
  show ?thesis
    by (rule that[OF fresh(3,2,4)]) (use c m in \<open>simp_all add: same_core_def k_def\<close>)
qed

text \<open>
  An accepted invalidation of a live attempt buries it.  Its record is gone, its generation grows
  by one without wrapping, and its tombstone names the generation that ended, the action and the
  manifest; issue generations, every other attempt and every other tombstone are as before.
\<close>

theorem invalidate_exact:
  assumes "applyInvalidateAttempt env s c = Inr (s', e)"
    "\<not> fm_has (s_Tombstones s) (ownerAttemptKey (iv_Repository c) (iv_Issue c) (iv_Attempt c))"
  shows "let k = ownerAttemptKey (iv_Repository c) (iv_Issue c) (iv_Attempt c); g = iv_ExpectedAttemptGeneration c in
    attemptGeneration s (iv_Repository c) (iv_Issue c) (iv_Attempt c) = g \<and> unat (g + 1) = unat g + 1 \<and>
    s_AttemptGenerations s' = fmupd k (g + 1) (s_AttemptGenerations s) \<and> s_IssueGenerations s' = s_IssueGenerations s \<and>
    s_Attempts s' = fmdrop k (s_Attempts s) \<and>
    (\<exists>t. s_Tombstones s' = fmupd k t (s_Tombstones s) \<and> t_InvalidatedGeneration t = g \<and> t_Generation t = g + 1 \<and>
       t_Action t = iv_Action c \<and> t_Manifest t = iv_Manifest c \<and> t_EffectID t = [])"
  using assms by (rule invalidate_fresh) (force simp: Let_def uint64_inc)

lemma live_keys: "ownerAttemptKey ''o/r'' 7 2 = ''o/r#7/2''"
  "validTombstoneAction ''abandoned''" "validCleanupPhase ''pending''" "utoa 2 = ''2''"
  by code_simp+

lemma live_texts: "boundedText ''abandoned:2'' 128 True" "boundedText ''attempt invalidated'' 1024 True"
  "trim_space ''attempt invalidated'' = ''attempt invalidated''"
  by (simp_all add: boundedText_def trim_space_graphic graphic_def of_char_def char_of_def)

lemma sorted_list_of_one [simp]: "sorted_list_of_fset {|x|} = [x]"
  by (simp add: sorted_list_of_fset.rep_eq)

lemma sent_fields: "snapshot_effect k sent_effect = None" "e_Action sent_effect \<noteq> reconciliationHandoffDeliver"
  "\<not> status_effect r i sent_effect" "\<not> status_effect r i (sent_effect\<lparr>e_State := x, e_Diagnostic := y\<rparr>)"
  "invalidated_effect live_ledger' ''o/r'' 7 2 ''e'' sent_effect = (if effectReferencedByReceipt live_ledger' ''e''
     then Some sent_effect else Some (sent_effect\<lparr>e_State := ''invalidated'', e_Diagnostic := []\<rparr>))"
  by (simp_all add: sent_effect_def sent_request_def snapshot_effect_def status_effect_def invalidated_effect_def
      e_of_attempt_def mutating_effect_def reconciliationMutatesGitHub_def
      reconciliationGitHubBind_def reconciliationHandoffDeliver_def)

lemmas live_defs = live_ledger_def small_ledger_def newRuntimeOwnerState_def sample_env_def sample_invalidation_def

lemma live_snapshot: "invalidateControlSnapshot sample_env live_ledger ''o/r#7'' =
  live_ledger\<lparr>s_ControlGenerations := fmupd ''o/r#7'' 2 fmempty\<rparr>"
  by (simp add: invalidateControlSnapshot_def Let_def live_defs controlGeneration_def latest_body_def fm_entries_def sent_fields)


lemma live_views: "issueGeneration live_ledger ''o/r'' 7 = 3" "attemptGeneration live_ledger ''o/r'' 7 2 = 1"
  "fmlookup (s_Tombstones live_ledger) ''o/r#7/2'' = None" "s_Repository live_ledger = ''o/r''"
  by (simp_all add: issueGeneration_def attemptGeneration_def live_defs live_keys small_keys)

lemma live_handoff: "pendingHandoffCandidate sample_env (live_ledger\<lparr>s_ControlGenerations := g\<rparr>) ''o/r'' 7 2 = Inr None"
  by (simp add: pendingHandoffCandidate_def Let_def fm_entries_def live_defs sent_fields)

lemma live_tombstone: "\<exists>s'. tombstone_attempt sample_env (live_ledger\<lparr>s_ControlGenerations := g\<rparr>) sample_invalidation None None = Inr s'"
  by (simp add: tombstone_attempt_def Let_def live_defs live_keys live_texts small_keys deleteAttemptObservation_def
    invalidateAttemptEffects_def applyAdmitMachineStatus_def destructive_status_def admission_malformed_def admission_unbound_def
    issueGeneration_def attemptGeneration_def status_sources_def status_of_def empty_status_def sent_fields
    effectReferencedByReceipt_def supersede_status_effects_def admission_repeated_def fresh_tombstone_def revoked_digest_def)
definition buried_ledger :: runtimeOwnerState where
  "buried_ledger = fst (projr (applyInvalidateAttempt sample_env live_ledger sample_invalidation))"

lemma live_invalidation: "applyInvalidateAttempt sample_env live_ledger sample_invalidation = Inr (buried_ledger, None)"
proof -
  have i: "iv_Repository sample_invalidation = ''o/r''" "iv_Issue sample_invalidation = 7" "iv_Attempt sample_invalidation = 2"
    "iv_Action sample_invalidation = ''abandoned''" "iv_CleanupPhase sample_invalidation = ''pending''"
    "iv_ExpectedIssueGeneration sample_invalidation = 3" "iv_ExpectedAttemptGeneration sample_invalidation = 1"
    "iv_Manifest sample_invalidation = None" "iv_EffectAction sample_invalidation = []"
    by (simp_all add: sample_invalidation_def)
  obtain s' where t: "tombstone_attempt sample_env (live_ledger\<lparr>s_ControlGenerations := fmupd ''o/r#7'' 2 fmempty\<rparr>)
      sample_invalidation None None = Inr s'"
    using live_tombstone by blast
  have "applyInvalidateAttempt sample_env live_ledger sample_invalidation = Inr (s', None)"
    by (simp add: applyInvalidateAttempt_def Let_def i live_snapshot live_keys small_keys live_views live_handoff
        invalidated_start_def t cleanup_intent_def)
  then show ?thesis by (simp add: buried_ledger_def)
qed

lemma live_alive: "\<not> fm_has (s_Tombstones live_ledger) (ownerAttemptKey ''o/r'' 7 2)"
  by (simp add: fm_has_def live_keys live_views)

theorem invalidate_exact_witness:
  "s_Attempts buried_ledger = fmdrop ''o/r#7/2'' (s_Attempts live_ledger) \<and>
   (\<exists>t. s_Tombstones buried_ledger = fmupd ''o/r#7/2'' t (s_Tombstones live_ledger) \<and> t_Generation t = 2)"
  using invalidate_exact[OF live_invalidation] live_alive by (auto simp: sample_invalidation_def live_keys Let_def)

text \<open>
  Invalidation can be repeated.  When no cleanup effect was asked for, the same request on the
  ledger the first one made is accepted again and changes nothing, so a caller that lost the answer
  can retry.
\<close>

theorem invalidate_again:
  assumes "applyInvalidateAttempt env s c = Inr (s', e)" "iv_EffectAction c = []"
    "\<not> fm_has (s_Tombstones s) (ownerAttemptKey (iv_Repository c) (iv_Issue c) (iv_Attempt c))"
  shows "applyInvalidateAttempt env s' c = Inr (s', None)"
proof -
  from assms(1) have g: "iv_Repository c = s_Repository s" "1 \<le> iv_Issue c" "1 \<le> iv_Attempt c"
    "validTombstoneAction (iv_Action c)" "validCleanupPhase (iv_CleanupPhase c)"
    "issueGeneration s (iv_Repository c) (iv_Issue c) = iv_ExpectedIssueGeneration c"
    by (simp_all add: applyInvalidateAttempt_def Let_def split: if_splits)
  from assms(1,3) show ?thesis
    by (rule invalidate_fresh)
      (use g assms(2) in \<open>simp add: applyInvalidateAttempt_def Let_def issueGeneration_def replay_invalidation_def\<close>)
qed

theorem invalidate_again_witness:
  "applyInvalidateAttempt sample_env buried_ledger sample_invalidation = Inr (buried_ledger, None)"
  by (rule invalidate_again[OF live_invalidation]) (use live_alive in \<open>simp_all add: sample_invalidation_def\<close>)

section \<open>Dispatched GitHub mutations\<close>

text \<open>A pending GitHub mutation of the attempt, other than an issue update, that the executor may have
  sent, and that no receipt refers to.\<close>

definition dispatched_mutation :: "runtimeOwnerState \<Rightarrow> string \<Rightarrow> int \<Rightarrow> int \<Rightarrow> string \<Rightarrow> runtimeEffectIntent \<Rightarrow> bool" where
  "dispatched_mutation s repository issue attempt x e \<longleftrightarrow>
     fmlookup (s_Effects s) x = Some e \<and> e_of_attempt e repository issue attempt \<and> mutating_effect e \<and>
     e_State e = ''pending'' \<and> e_Dispatched e \<and> \<not> effectReferencedByReceipt s x \<and>
     (case e_Reconciliation e of None \<Rightarrow> False | Some q \<Rightarrow> rq_GitHubIssueUpdate q = None)"

lemma no_update_effect:
  assumes "case e_Reconciliation e of None \<Rightarrow> False | Some q \<Rightarrow> rq_GitHubIssueUpdate q = None"
  shows "snapshot_effect k e = None" "\<not> dependency_clear_effect r i a e" "\<not> status_effect r i e"
  using assms by (auto simp: snapshot_effect_def dependency_clear_effect_def status_effect_def split: option.splits)

lemma snapshot_keeps_effect:
  assumes "fmlookup (s_Effects s) x = Some e" "snapshot_effect k e = None"
  shows "fmlookup (s_Effects (invalidateControlSnapshot env s k)) x = Some e"
  using assms by (simp add: invalidateControlSnapshot_def Let_def fm_step_lookup split: option.split)

lemma observation_keeps_effect:
  assumes "deleteAttemptObservation env s r i a = Inr s'" "fmlookup (s_Effects s) x = Some e"
    "\<not> dependency_clear_effect r i a e"
  shows "fmlookup (s_Effects s') x = Some e" "s_ControlReceipts s' = s_ControlReceipts s"
  using assms by (auto simp: deleteAttemptObservation_def Let_def fm_keep_lookup split: option.splits if_splits)

lemma admit_keeps_effect:
  assumes "applyAdmitMachineStatus env s c = Inr s'" "fmlookup (s_Effects s) x = Some e"
    "\<And>r i. \<not> status_effect r i e"
  shows "fmlookup (s_Effects s') x = Some e"
  using assms by (auto simp: applyAdmitMachineStatus_def supersede_status_effects_def Let_def fm_step_lookup split: if_splits)

lemma dispatched_survives:
  assumes "tombstone_attempt env s c h st = Inr s'"
    "dispatched_mutation s (iv_Repository c) (iv_Issue c) (iv_Attempt c) x e"
  shows "fmlookup (s_Effects s') x = Some (e\<lparr>e_State := ''invalidated'', e_Diagnostic := []\<rparr>)"
proof -
  let ?k = "ownerAttemptKey (iv_Repository c) (iv_Issue c) (iv_Attempt c)"
  let ?e = "e\<lparr>e_State := ''invalidated'', e_Diagnostic := []\<rparr>"
  let ?s0 = "s\<lparr>s_AttemptGenerations := fmupd ?k (iv_ExpectedAttemptGeneration c + 1) (s_AttemptGenerations s),
                 s_Attempts := fmdrop ?k (s_Attempts s)\<rparr>"
  note d = assms(2)[unfolded dispatched_mutation_def]
  have u: "case e_Reconciliation e of None \<Rightarrow> False | Some q \<Rightarrow> rq_GitHubIssueUpdate q = None" using d by blast
  then have u': "case e_Reconciliation ?e of None \<Rightarrow> False | Some q \<Rightarrow> rq_GitHubIssueUpdate q = None" by simp
  obtain s1 where o: "deleteAttemptObservation env ?s0 (iv_Repository c) (iv_Issue c) (iv_Attempt c) = Inr s1"
    using assms(1) by (cases "deleteAttemptObservation env ?s0 (iv_Repository c) (iv_Issue c) (iv_Attempt c)")
      (simp_all add: tombstone_attempt_def Let_def)
  note e1 = observation_keeps_effect[OF o, of x e]
  have l: "fmlookup (s_Effects s1) x = Some e" and r: "s_ControlReceipts s1 = s_ControlReceipts s"
    using e1 d no_update_effect(2)[OF u] by simp_all
  let ?s2 = "invalidateAttemptEffects (s1\<lparr>s_Recoveries := fmdrop ?k (s_Recoveries s1)\<rparr>)
      (iv_Repository c) (iv_Issue c) (iv_Attempt c)"
  obtain s3 c' where a: "applyAdmitMachineStatus env s3 c' = Inr s'" and e3: "s_Effects s3 = s_Effects ?s2"
    using assms(1) o that[of "?s2\<lparr>s_Tombstones := fmupd ?k (fresh_tombstone env s c h st) (s_Tombstones ?s2)\<rparr>"] by (simp add: tombstone_attempt_def Let_def)
  have "fmlookup (s_Effects ?s2) x = Some ?e"
    using l r d by (simp add: invalidateAttemptEffects_def fm_step_lookup invalidated_effect_def effectReferencedByReceipt_def)
  with admit_keeps_effect[OF a] e3 no_update_effect(3)[OF u'] show ?thesis by simp
qed

text \<open>
  A dispatched GitHub mutation is never forgotten by an invalidation.  It stays in the ledger as
  invalidated, and while it does no new attempt of the issue gets its first generation: the request
  that may still reach GitHub is settled before the next attempt starts.
\<close>

theorem dispatched_mutation_blocks:
  assumes "applyInvalidateAttempt env s c = Inr (s', e')"
    "\<not> fm_has (s_Tombstones s) (ownerAttemptKey (iv_Repository c) (iv_Issue c) (iv_Attempt c))"
    "dispatched_mutation s (iv_Repository c) (iv_Issue c) (iv_Attempt c) x e"
  shows "fmlookup (s_Effects s') x = Some (e\<lparr>e_State := ''invalidated'', e_Diagnostic := []\<rparr>) \<and>
    (\<forall>u s''. m_Repository (ua_Manifest u) = iv_Repository c \<and> m_Issue (ua_Manifest u) = iv_Issue c \<and>
       ua_ExpectedAttemptGeneration u = 0 \<longrightarrow> applyUpsertAttempt env s' u \<noteq> Inr s'')"
proof -
  let ?e = "e\<lparr>e_State := ''invalidated'', e_Diagnostic := []\<rparr>"
  let ?k = "ownerIssueKey (iv_Repository c) (iv_Issue c)"
  note d = assms(3)[unfolded dispatched_mutation_def]
  have u: "case e_Reconciliation e of None \<Rightarrow> False | Some q \<Rightarrow> rq_GitHubIssueUpdate q = None" using d by blast
  have d1: "dispatched_mutation (invalidateControlSnapshot env s ?k) (iv_Repository c) (iv_Issue c) (iv_Attempt c) x e"
    using d snapshot_keeps_effect[of s x e ?k env] no_update_effect(1)[OF u]
    by (simp add: dispatched_mutation_def effectReferencedByReceipt_def invalidateControlSnapshot_def Let_def split: option.split)
  obtain h st where t: "tombstone_attempt env (invalidateControlSnapshot env s ?k) c h st = Inr s'"
    using invalidate_fresh[OF assms(1,2)] by metis
  note l = dispatched_survives[OF t d1]
  have "unresolvedExternalEffect ?e" using d by (simp add: unresolvedExternalEffect_def mutating_effect_def)
  then have unsettled: "issueHasUnresolvedExternalEffect s' (iv_Repository c) (iv_Issue c)"
    using l d by (auto simp: issueHasUnresolvedExternalEffect_def fm_ex_iff e_of_attempt_def intro!: exI[of _ x] exI[of _ ?e])
  have "applyUpsertAttempt env s' u \<noteq> Inr s''"
    if "m_Repository (ua_Manifest u) = iv_Repository c" "m_Issue (ua_Manifest u) = iv_Issue c"
      "ua_ExpectedAttemptGeneration u = 0" for u s''
  proof
    assume a: "applyUpsertAttempt env s' u = Inr s''"
    note g = upsert_facts(1)[OF a]
    from upsert_steps[OF a[unfolded applyUpsertAttempt_def]] g that(3)
    obtain s1 where "first_generation env s' (ua_Manifest u) (ua_ExpectedIssueGeneration u) = Inr s1" by (metis (full_types))
    then show False
      using unsettled that by (simp add: first_generation_def Let_def)
  qed
  with l show ?thesis by blast
qed

theorem dispatched_mutation_blocks_witness:
  "fmlookup (s_Effects buried_ledger) ''e'' = Some (sent_effect\<lparr>e_State := ''invalidated'', e_Diagnostic := []\<rparr>) \<and>
   (\<forall>s. applyUpsertAttempt sample_env buried_ledger
      (sample_upsert\<lparr>ua_Manifest := sample_manifest\<lparr>m_Attempt := 3\<rparr>\<rparr>) \<noteq> Inr s)"
proof -
  have "dispatched_mutation live_ledger ''o/r'' 7 2 ''e'' sent_effect"
    by (simp add: dispatched_mutation_def live_defs sent_effect_def sent_request_def e_of_attempt_def mutating_effect_def
        reconciliationMutatesGitHub_def effectReferencedByReceipt_def)
  with dispatched_mutation_blocks[OF live_invalidation, of "''e''" sent_effect] live_alive
  show ?thesis by (simp add: sample_invalidation_def sample_upsert_def sample_manifest_def)
qed

section \<open>Machine statuses\<close>

text \<open>
  Machine statuses are numbered without gaps.  An admitted status either repeats the current one
  and changes nothing, or becomes the status of its issue under the number the command expected plus
  one, without wrapping, for the current issue and attempt generation; the statuses of other issues
  stay, and no pending status update of the issue is left that GitHub could still be sent.
\<close>

theorem status_numbered:
  assumes "applyAdmitMachineStatus env s c = Inr s'"
  shows "s' = s \<or>
    (let k = ownerIssueKey (am_Repository c) (am_Issue c); old = status_of s (am_Repository c) (am_Issue c);
         new = status_of s' (am_Repository c) (am_Issue c) in
      ms_Sequence old = am_ExpectedStatusSequence c \<and> unat (ms_Sequence new) = unat (ms_Sequence old) + 1 \<and>
      ms_AppliedSequence new = ms_AppliedSequence old \<and>
      ms_IssueGeneration new = issueGeneration s (am_Repository c) (am_Issue c) \<and>
      ms_AttemptGeneration new = attemptGeneration s (am_Repository c) (am_Issue c) (am_Attempt c) \<and>
      s_MachineStatuses s' = fmupd k new (s_MachineStatuses s) \<and>
      \<not> fm_ex (\<lambda>_ e. status_effect (am_Repository c) (am_Issue c) e) (s_Effects s'))"
proof (cases "s' = s")
  case False
  define d where "d = c\<lparr>am_Reason := trim_space (am_Reason c)\<rparr>"
  have f: "am_Repository d = am_Repository c" "am_Issue d = am_Issue c" "am_Attempt d = am_Attempt c"
    "am_ExpectedStatusSequence d = am_ExpectedStatusSequence c"
    "am_ExpectedIssueGeneration d = am_ExpectedIssueGeneration c"
    "am_ExpectedAttemptGeneration d = am_ExpectedAttemptGeneration c"
    by (simp_all add: d_def)
  let ?old = "status_of s (am_Repository c) (am_Issue c)" and ?k = "ownerIssueKey (am_Repository c) (am_Issue c)"
  let ?s1 = "supersede_status_effects s (am_Repository c) (am_Issue c)"
  from assms False have g: "\<not> admission_malformed s d" "\<not> admission_unbound s d"
    "ms_Sequence ?old = am_ExpectedStatusSequence c" "ms_Sequence ?old \<noteq> uint64_max"
    and s': "s' = ?s1\<lparr>s_MachineStatuses := fmupd ?k (admitted_status ?old d) (s_MachineStatuses ?s1)\<rparr>"
    by (simp_all add: applyAdmitMachineStatus_def Let_def d_def split: if_splits)
  have n: "status_of s' (am_Repository c) (am_Issue c) = admitted_status ?old d"
    by (simp add: s' status_of_def)
  have "\<not> status_effect (am_Repository c) (am_Issue c) (e\<lparr>e_State := ''invalidated'', e_Diagnostic := []\<rparr>)" for e
    by (simp add: status_effect_def)
  then have "\<not> fm_ex (\<lambda>_ e. status_effect (am_Repository c) (am_Issue c) e) (s_Effects s')"
    by (auto simp: s' supersede_status_effects_def fm_ex_iff fm_step_lookup split: option.splits if_splits)
  moreover have "attemptGeneration s (am_Repository c) (am_Issue c) (am_Attempt c) = am_ExpectedAttemptGeneration c"
    using g(2) by (auto simp: admission_unbound_def Let_def f split: if_splits option.splits)
  moreover have "issueGeneration s (am_Repository c) (am_Issue c) = am_ExpectedIssueGeneration c"
    using g(1) unfolding admission_malformed_def f by blast
  ultimately show ?thesis
    using g(3,4) uint64_inc_nz[OF g(4)]
    unfolding Let_def n
    by (simp add: admitted_status_def Let_def f uint64_inc s' supersede_status_effects_def)
qed simp

theorem status_numbered_witness:
  "\<exists>s'. s' \<noteq> live_ledger \<and> unat (ms_Sequence (status_of s' ''o/r'' 7)) = 1"
proof -
  let ?c = "destructive_status ''o/r'' 7 2 3 1 0 ''abandoned:2'' ''attempt invalidated''"
  obtain s' where a: "applyAdmitMachineStatus sample_env live_ledger ?c = Inr s'" and n: "s' \<noteq> live_ledger"
  proof -
    have "\<exists>s'. applyAdmitMachineStatus sample_env live_ledger ?c = Inr s' \<and>
        fmlookup (s_MachineStatuses s') ''o/r#7'' \<noteq> fmlookup (s_MachineStatuses live_ledger) ''o/r#7''"
      by (simp add: Let_def live_defs live_keys live_texts small_keys applyAdmitMachineStatus_def destructive_status_def
          admission_malformed_def admission_unbound_def issueGeneration_def attemptGeneration_def status_sources_def
          status_of_def empty_status_def admission_repeated_def supersede_status_effects_def)
    then show thesis using that by metis
  qed
  have "status_of live_ledger ''o/r'' 7 = empty_status"
    by (simp add: status_of_def live_defs)
  with status_numbered[OF a] n show ?thesis
    by (auto simp: Let_def destructive_status_def empty_status_def intro!: exI[of _ s'])
qed

end
