(* ===== verification/Owner_Effect_Properties.thy ===== *)
theory Owner_Effect_Properties
  imports Owner_Attempt_Properties
begin

text \<open>
  What holds of effect intents: a start gate authorises one launch and then never moves, a rotated gate
  never authorises the old nonce, completing an effect can be repeated, and a Stop is refused by the
  validator as long as a machine status is bound to the attempt it stops.
\<close>

section \<open>Start gates\<close>

lemma applyAuthorize_start:
  assumes "applyAuthorizeRuntimeEffect s c = Inr s'" "ar_Action c = EffectStart"
  obtains e where "fmlookup (s_Effects s) (id_EffectID (ar_Identity c)) = Some e" "e_State e = ''pending''"
    "e_Action e = EffectStart" "effect_identity_matches e (ar_Identity c)" "e_StartGateNonce e = ar_GateNonce c"
    "e_StartCandidates e \<noteq> []" "sg_Nonce (last (e_StartCandidates e)) = ar_GateNonce c"
    "s' = s\<lparr>s_Effects := fmupd (e_ID e) (authorised_start e) (s_Effects s)\<rparr>"
  using assms by (auto simp: applyAuthorizeRuntimeEffect_def Let_def split: if_splits option.splits)

lemma applyRotate_steps:
  assumes "applyRotateStartGate s c = Inr s'"
  obtains e where "fmlookup (s_Effects s) (id_EffectID (rg_Identity c)) = Some e" "effect_identity_matches e (rg_Identity c)"
    "e_Action e = EffectStart" "\<not> e_StartMayRun e" "e_StartGateNonce e = rg_OldNonce c" "ValidLaunchToken (rg_NewNonce c)"
    "rg_NewNonce c \<noteq> rg_OldNonce c" "validStartCandidates (e_StartCandidates e)"
    "\<not> list_ex (\<lambda>g. sg_Nonce g = rg_NewNonce c \<or> sg_MayRun g) (e_StartCandidates e)"
    "s' = s\<lparr>s_Effects := fmupd (e_ID e)
      (e\<lparr>e_StartGateNonce := rg_NewNonce c,
         e_StartCandidates := e_StartCandidates e @ [\<lparr>sg_Nonce = rg_NewNonce c, sg_MayRun = False\<rparr>]\<rparr>) (s_Effects s)\<rparr>"
  using assms by (auto simp: applyRotateStartGate_def Let_def split: if_splits option.splits)

text \<open>Every effect is stored under its own id, as in every validated ledger.\<close>

definition keyed_effects :: "runtimeOwnerState \<Rightarrow> bool" where
  "keyed_effects s \<longleftrightarrow> fmpred (\<lambda>k e. e_ID e = k) (s_Effects s)"

lemma keyed_id: "keyed_effects s \<Longrightarrow> fmlookup (s_Effects s) k = Some e \<Longrightarrow> e_ID e = k"
  by (auto simp: keyed_effects_def fmpred_iff)

lemma start_candidates_snoc:
  "start_candidates_ok seen (cs @ [g]) \<longleftrightarrow> start_candidates_ok seen cs \<and> list_all (\<lambda>x. \<not> sg_MayRun x) cs \<and>
     ValidLaunchToken (sg_Nonce g) \<and> sg_Nonce g \<notin> set seen \<union> sg_Nonce ` set cs"
  by (induction cs arbitrary: seen) auto

lemma start_candidates_butlast:
  "start_candidates_ok seen cs \<Longrightarrow> list_all (\<lambda>x. \<not> sg_MayRun x) (butlast cs)"
  by (cases cs rule: rev_cases) (simp_all add: start_candidates_snoc)

text \<open>What the validator says of gates: effects are stored under their ids and the gate of a Start is well formed.\<close>

definition valid_gates :: "runtimeOwnerState \<Rightarrow> bool" where
  "valid_gates s \<longleftrightarrow> keyed_effects s \<and> fmpred (\<lambda>_ e. e_Action e = EffectStart \<longrightarrow> start_gate_ok e) (s_Effects s)"

lemmas request_actions = EffectStart_def reconciliationGitHubBind_def reconciliationGitHubPublish_def
  reconciliationGitHubIssueUpdate_def reconciliationGitHubPRGovernance_def reconciliationReviewer_def
  reconciliationHandoffDeliver_def reconciliationRetireCompleted_def reconciliationMonitoringCheckIn_def

lemma request_not_start:
  assumes "validReconciliationEffectRequest env repository q"
  shows "rq_Action q \<noteq> EffectStart"
proof
  assume "rq_Action q = EffectStart"
  then have "\<not> request_payload_valid env q" by (simp add: request_payload_valid_def request_actions)
  with assms show False by (simp add: validReconciliationEffectRequest_def Let_def split: if_splits)
qed

lemma validated_gates:
  assumes "validateRuntimeOwnerState env s persisted"
  shows "valid_gates s"
proof -
  have "e_ID e = k \<and> (e_Action e = EffectStart \<longrightarrow> start_gate_ok e)" if "fmlookup (s_Effects s) k = Some e" for k e
  proof -
    have i: "valid_intent env s persisted k e" using assms that by (simp add: validate_parts fmpred_iff)
    show ?thesis
    proof (cases "e_Reconciliation e")
      case None
      with i show ?thesis by (simp add: valid_intent_def valid_runtime_intent_def intent_named_def Let_def)
    next
      case (Some q)
      with i request_not_start[of env "s_Repository s" q] show ?thesis
        by (auto simp: valid_intent_def valid_reconciliation_intent_def intent_named_def validPersistedReconciliationEffect_def)
    qed
  qed
  then show ?thesis by (simp add: valid_gates_def keyed_effects_def fmpred_iff)
qed

text \<open>The last candidate of a well formed gate is let through, and no other.\<close>

lemma authorised_candidates:
  assumes "validStartCandidates (e_StartCandidates e)"
  shows "filter sg_MayRun (e_StartCandidates (authorised_start e)) = [(last (e_StartCandidates e))\<lparr>sg_MayRun := True\<rparr>]"
    "map sg_Nonce (e_StartCandidates (authorised_start e)) = map sg_Nonce (e_StartCandidates e)"
    "authorised_start (authorised_start e) = authorised_start e"
proof -
  obtain cs g where c: "e_StartCandidates e = cs @ [g]" "list_all (\<lambda>x. \<not> sg_MayRun x) cs"
    using assms by (cases "e_StartCandidates e" rule: rev_cases) (auto simp: validStartCandidates_def start_candidates_snoc)
  have "filter sg_MayRun cs = []" using c(2) by (simp add: filter_empty_conv list_all_iff)
  with c(1) show "filter sg_MayRun (e_StartCandidates (authorised_start e)) = [(last (e_StartCandidates e))\<lparr>sg_MayRun := True\<rparr>]"
    "map sg_Nonce (e_StartCandidates (authorised_start e)) = map sg_Nonce (e_StartCandidates e)"
    "authorised_start (authorised_start e) = authorised_start e"
    by (simp_all add: authorised_start_def)
qed

text \<open>
  C15: One launch per start.  When the start of a validated ledger is authorised, exactly one of its
  launch candidates may run, the one with the authorised nonce, which is the current one of the intent.
  From then on the gate does not move: no rotation of that intent is accepted, and an authorisation that
  is accepted names the same nonce and changes nothing.
\<close>

theorem start_authorised_once:
  assumes "applyAuthorizeRuntimeEffect s c = Inr s'" "ar_Action c = EffectStart" "valid_gates s"
  shows "\<exists>e. fmlookup (s_Effects s') (id_EffectID (ar_Identity c)) = Some e \<and> e_StartMayRun e \<and>
    e_StartGateNonce e = ar_GateNonce c \<and> map sg_Nonce (filter sg_MayRun (e_StartCandidates e)) = [ar_GateNonce c] \<and>
    (\<forall>r. id_EffectID (rg_Identity r) = id_EffectID (ar_Identity c) \<longrightarrow> applyRotateStartGate s' r = Inl StaleStateResult) \<and>
    (\<forall>a s''. id_EffectID (ar_Identity a) = id_EffectID (ar_Identity c) \<longrightarrow> applyAuthorizeRuntimeEffect s' a = Inr s'' \<longrightarrow>
       ar_GateNonce a = ar_GateNonce c \<and> s'' = s')"
  using assms(1,2)
proof (rule applyAuthorize_start)
  fix e assume k: "fmlookup (s_Effects s) (id_EffectID (ar_Identity c)) = Some e"
    and t: "e_Action e = EffectStart" and e: "e_StartGateNonce e = ar_GateNonce c" "e_StartCandidates e \<noteq> []"
      "sg_Nonce (last (e_StartCandidates e)) = ar_GateNonce c"
      "s' = s\<lparr>s_Effects := fmupd (e_ID e) (authorised_start e) (s_Effects s)\<rparr>"
  have g: "validStartCandidates (e_StartCandidates e)" "e_ID e = id_EffectID (ar_Identity c)"
    using assms(3) k t e(2) by (auto simp: valid_gates_def keyed_effects_def start_gate_ok_def fmpred_iff split: if_splits)
  have l: "fmlookup (s_Effects s') (id_EffectID (ar_Identity c)) = Some (authorised_start e)" by (simp add: e(4) g(2))
  have f: "e_StartMayRun (authorised_start e)" "e_StartGateNonce (authorised_start e) = ar_GateNonce c"
    "e_Action (authorised_start e) = EffectStart" "e_ID (authorised_start e) = e_ID e"
    by (simp_all add: authorised_start_def e(1) t)
  have "ar_GateNonce a = ar_GateNonce c \<and> s'' = s'"
    if a: "id_EffectID (ar_Identity a) = id_EffectID (ar_Identity c)" "applyAuthorizeRuntimeEffect s' a = Inr s''" for a s''
  proof -
    have "ar_Action a = EffectStart"
      using a l f(3) by (auto simp: applyAuthorizeRuntimeEffect_def Let_def split: if_splits)
    from a(2) this show ?thesis
      by (rule applyAuthorize_start) (use a(1) l f authorised_candidates(3)[OF g(1)] in \<open>auto simp: e(4)\<close>)
  qed
  moreover have "applyRotateStartGate s' r = Inl StaleStateResult"
    if "id_EffectID (rg_Identity r) = id_EffectID (ar_Identity c)" for r
    using that l f by (simp add: applyRotateStartGate_def Let_def)
  ultimately show ?thesis
    using l f e(3) authorised_candidates(1)[OF g(1)] by (intro exI[of _ "authorised_start e"]) simp
qed

text \<open>
  A rotated gate forgets the old nonce.  A rotation leaves a well formed list of distinct nonces of
  which none may run yet, and afterwards the old nonce authorises nothing.
\<close>

theorem start_rotated:
  assumes "applyRotateStartGate s c = Inr s'" "keyed_effects s"
  shows "\<exists>e. fmlookup (s_Effects s') (id_EffectID (rg_Identity c)) = Some e \<and> validStartCandidates (e_StartCandidates e) \<and>
    list_all (\<lambda>g. \<not> sg_MayRun g) (e_StartCandidates e) \<and> sg_Nonce (last (e_StartCandidates e)) = rg_NewNonce c \<and>
    (\<forall>a. id_EffectID (ar_Identity a) = id_EffectID (rg_Identity c) \<and> ar_GateNonce a = rg_OldNonce c \<longrightarrow>
       (\<exists>err. applyAuthorizeRuntimeEffect s' a = Inl err))"
  using assms(1)
proof (rule applyRotate_steps)
  fix e assume k: "fmlookup (s_Effects s) (id_EffectID (rg_Identity c)) = Some e" and t: "e_Action e = EffectStart"
    and e: "effect_identity_matches e (rg_Identity c)" "e_StartGateNonce e = rg_OldNonce c"
    "ValidLaunchToken (rg_NewNonce c)" "rg_NewNonce c \<noteq> rg_OldNonce c" "validStartCandidates (e_StartCandidates e)"
    "\<not> list_ex (\<lambda>g. sg_Nonce g = rg_NewNonce c \<or> sg_MayRun g) (e_StartCandidates e)"
    "s' = s\<lparr>s_Effects := fmupd (e_ID e)
      (e\<lparr>e_StartGateNonce := rg_NewNonce c,
         e_StartCandidates := e_StartCandidates e @ [\<lparr>sg_Nonce = rg_NewNonce c, sg_MayRun = False\<rparr>]\<rparr>) (s_Effects s)\<rparr>"
  let ?e = "e\<lparr>e_StartGateNonce := rg_NewNonce c,
         e_StartCandidates := e_StartCandidates e @ [\<lparr>sg_Nonce = rg_NewNonce c, sg_MayRun = False\<rparr>]\<rparr>"
  have l: "fmlookup (s_Effects s') (id_EffectID (rg_Identity c)) = Some ?e" by (simp add: e(7) keyed_id[OF assms(2) k])
  have "\<exists>err. applyAuthorizeRuntimeEffect s' a = Inl err"
    if "id_EffectID (ar_Identity a) = id_EffectID (rg_Identity c)" "ar_GateNonce a = rg_OldNonce c" for a
  proof (cases "applyAuthorizeRuntimeEffect s' a")
    case (Inr s'')
    show ?thesis
    proof (cases "ar_Action a = EffectStart")
      case True
      from Inr True show ?thesis
        by (rule applyAuthorize_start) (use l that e(4) in auto)
    next
      case False
      with Inr l that t show ?thesis
        by (auto simp: applyAuthorizeRuntimeEffect_def Let_def split: if_splits)
    qed
  qed blast
  then show ?thesis
    using l e by (auto simp: validStartCandidates_def start_candidates_snoc list_all_iff list_ex_iff intro!: exI[of _ ?e])
qed

text \<open>A pending Start of attempt 2 with one candidate.\<close>

definition gate_nonce :: "char \<Rightarrow> string" where
  "gate_nonce c = replicate 32 c"

definition gate_effect :: runtimeEffectIntent where
  "gate_effect = empty_effect\<lparr>e_ID := ''g'', e_Action := EffectStart, e_Repository := ''o/r'', e_Issue := 7, e_Attempt := 2,
     e_IssueGeneration := 3, e_AttemptGeneration := 1, e_IntentEpoch := 2, e_IntentRevision := 5, e_State := ''pending'',
     e_RequestDigest := replicate 64 CHR ''a'', e_StartGateNonce := gate_nonce CHR ''1'',
     e_StartCandidates := [\<lparr>sg_Nonce = gate_nonce CHR ''1'', sg_MayRun = False\<rparr>]\<rparr>"

definition gate_ledger :: runtimeOwnerState where
  "gate_ledger = small_ledger\<lparr>s_AttemptGenerations := fmupd ''o/r#7/2'' 1 (s_AttemptGenerations small_ledger),
     s_Effects := fmupd ''g'' gate_effect fmempty\<rparr>"

definition gate_identity :: stateResultIdentity where
  "gate_identity = \<lparr>id_Epoch = 2, id_SourceRevision = 5, id_CycleID = 0, id_IssueGeneration = 3,
      id_AttemptGeneration = 1, id_EffectID = ''g'', id_RequestDigest = replicate 64 CHR ''a'', id_ReviewRunID = [],
      id_ReviewerProfileDigest = []\<rparr>"

lemma gate_nonce_valid: "ValidLaunchToken (gate_nonce CHR ''1'')" "ValidLaunchToken (gate_nonce CHR ''2'')"
  "gate_nonce CHR ''2'' \<noteq> gate_nonce CHR ''1''" "ValidEffectRequestDigest (replicate 64 CHR ''a'')"
  by (simp_all add: gate_nonce_def ValidLaunchToken_def ValidEffectRequestDigest_def hex_bytes_def hex_char_def list_all_iff)

lemma gate_keyed: "keyed_effects gate_ledger"
  by (simp add: keyed_effects_def gate_ledger_def gate_effect_def small_ledger_def newRuntimeOwnerState_def)

lemma gate_valid: "valid_gates gate_ledger"
  unfolding valid_gates_def
proof
  show "fmpred (\<lambda>_ e. e_Action e = EffectStart \<longrightarrow> start_gate_ok e) (s_Effects gate_ledger)"
    using gate_nonce_valid by (simp add: gate_ledger_def gate_effect_def empty_effect_def start_gate_ok_def validStartCandidates_def)
qed (rule gate_keyed)

lemmas gate_defs = empty_effect_def gate_ledger_def gate_effect_def gate_identity_def small_ledger_def newRuntimeOwnerState_def

lemma gate_authorised:
  "\<exists>s'. applyAuthorizeRuntimeEffect gate_ledger
     \<lparr>ar_Identity = gate_identity, ar_Action = EffectStart, ar_GateNonce = gate_nonce CHR ''1''\<rparr> = Inr s'"
  by (simp add: applyAuthorizeRuntimeEffect_def Let_def gate_defs gate_nonce_valid validRuntimeEffectAction_def
      effect_identity_matches_def attemptGeneration_def issueGeneration_def small_keys live_keys effectAuthorizedByTombstone_def)

lemma gate_rotated:
  "\<exists>s'. applyRotateStartGate gate_ledger
     \<lparr>rg_Identity = gate_identity, rg_OldNonce = gate_nonce CHR ''1'', rg_NewNonce = gate_nonce CHR ''2''\<rparr> = Inr s'"
  by (simp add: applyRotateStartGate_def Let_def gate_defs gate_nonce_valid effect_identity_matches_def
      attemptGeneration_def issueGeneration_def small_keys live_keys validStartCandidates_def gate_nonce_valid(3)[symmetric])

theorem start_authorised_once_witness:
  "\<exists>s' e. fmlookup (s_Effects s') ''g'' = Some e \<and> e_StartMayRun e \<and>
     map sg_Nonce (filter sg_MayRun (e_StartCandidates e)) = [gate_nonce CHR ''1''] \<and>
     applyRotateStartGate s' \<lparr>rg_Identity = gate_identity, rg_OldNonce = gate_nonce CHR ''1'', rg_NewNonce = gate_nonce CHR ''2''\<rparr> =
       Inl StaleStateResult"
proof -
  have g: "id_EffectID gate_identity = ''g''" by (simp add: gate_identity_def)
  obtain s' where a: "applyAuthorizeRuntimeEffect gate_ledger
     \<lparr>ar_Identity = gate_identity, ar_Action = EffectStart, ar_GateNonce = gate_nonce CHR ''1''\<rparr> = Inr s'"
    using gate_authorised by blast
  from start_authorised_once[OF a _ gate_valid] show ?thesis by (auto simp: g intro!: exI[of _ s'])
qed

theorem start_rotated_witness:
  "\<exists>s' e err. fmlookup (s_Effects s') ''g'' = Some e \<and> validStartCandidates (e_StartCandidates e) \<and>
     applyAuthorizeRuntimeEffect s' \<lparr>ar_Identity = gate_identity, ar_Action = EffectStart, ar_GateNonce = gate_nonce CHR ''1''\<rparr> =
       Inl err"
proof -
  have g: "id_EffectID gate_identity = ''g''" by (simp add: gate_identity_def)
  obtain s' where a: "applyRotateStartGate gate_ledger
     \<lparr>rg_Identity = gate_identity, rg_OldNonce = gate_nonce CHR ''1'', rg_NewNonce = gate_nonce CHR ''2''\<rparr> = Inr s'"
    using gate_rotated by blast
  from start_rotated[OF a gate_keyed] show ?thesis by (auto simp: g intro!: exI[of _ s'])
qed

section \<open>Completion\<close>

text \<open>
  Completing an effect can be repeated.  Once a completion is accepted, the effect is completed with
  that diagnostic, and the same completion is accepted again and changes nothing.
\<close>

theorem complete_again:
  assumes "applyCompleteEffect s c = Inr s'" "keyed_effects s"
  shows "applyCompleteEffect s' c = Inr s' \<and>
    (\<exists>e. fmlookup (s_Effects s') (id_EffectID (ce_Identity c)) = Some e \<and> e_State e = ''completed'' \<and>
       e_Diagnostic e = ce_Diagnostic c)"
proof -
  let ?i = "ce_Identity c"
  obtain e where l: "fmlookup (s_Effects s) (id_EffectID ?i) = Some e"
    using assms(1) by (cases "fmlookup (s_Effects s) (id_EffectID ?i)")
      (simp_all add: applyCompleteEffect_def Let_def split: if_splits)
  note k = keyed_id[OF assms(2) l]
  show ?thesis
  proof (cases "e_State e = ''completed''")
    case True
    then have "s' = s" "e_Diagnostic e = ce_Diagnostic c"
      using assms(1) l by (simp_all add: applyCompleteEffect_def Let_def split: if_splits)
    with True l assms(1) show ?thesis by blast
  next
    case False
    have g: "id_Epoch ?i = s_Epoch s" "id_EffectID ?i \<noteq> []" "e_IssueGeneration e = id_IssueGeneration ?i"
        "e_AttemptGeneration e = id_AttemptGeneration ?i" "e_Action e \<noteq> EffectStop" "e_Action e \<noteq> EffectCleanup"
        "issueGeneration s (e_Repository e) (e_Issue e) = id_IssueGeneration ?i \<or> effectAuthorizedByTombstone s e"
      and s': "s' = complete_tombstone (ownerAttemptKey (e_Repository e) (e_Issue e) (e_Attempt e)) (e_ID e)
          (s\<lparr>s_Effects := fmupd (e_ID e) (e\<lparr>e_State := ''completed'', e_Diagnostic := ce_Diagnostic c\<rparr>) (s_Effects s)\<rparr>)"
      using assms(1) False l by (simp_all add: applyCompleteEffect_def Let_def split: if_splits)
  let ?e = "e\<lparr>e_State := ''completed'', e_Diagnostic := ce_Diagnostic c\<rparr>"
  have f: "fmlookup (s_Effects s') (id_EffectID ?i) = Some ?e" "s_Epoch s' = s_Epoch s"
    "issueGeneration s' (e_Repository e) (e_Issue e) = issueGeneration s (e_Repository e) (e_Issue e)"
    by (simp_all add: s' k complete_tombstone_def issueGeneration_def split: option.split)
  have "effectAuthorizedByTombstone s e \<Longrightarrow> effectAuthorizedByTombstone s' ?e"
    by (auto simp: s' complete_tombstone_def effectAuthorizedByTombstone_def split: option.splits)
  with g f show ?thesis by (auto simp: applyCompleteEffect_def Let_def)
  qed
qed

lemma gate_completed:
  "\<exists>s'. applyCompleteEffect gate_ledger \<lparr>ce_Identity = gate_identity, ce_Diagnostic = ''done''\<rparr> = Inr s'"
  by (simp add: applyCompleteEffect_def Let_def gate_defs issueGeneration_def attemptGeneration_def small_keys live_keys
      effectAuthorizedByTombstone_def EffectStart_def EffectStop_def EffectCleanup_def)

theorem complete_again_witness:
  "\<exists>s' e. fmlookup (s_Effects s') ''g'' = Some e \<and> e_State e = ''completed'' \<and>
     applyCompleteEffect s' \<lparr>ce_Identity = gate_identity, ce_Diagnostic = ''done''\<rparr> = Inr s'"
proof -
  have g: "id_EffectID gate_identity = ''g''" by (simp add: gate_identity_def)
  obtain s' where a: "applyCompleteEffect gate_ledger \<lparr>ce_Identity = gate_identity, ce_Diagnostic = ''done''\<rparr> = Inr s'"
    using gate_completed by blast
  from complete_again[OF a gate_keyed] show ?thesis by (auto simp: g intro!: exI[of _ s'])
qed

section \<open>Stops\<close>

definition same_statuses :: "runtimeOwnerState \<Rightarrow> runtimeOwnerState \<Rightarrow> bool" where
  "same_statuses s s' \<longleftrightarrow> s_MachineStatuses s' = s_MachineStatuses s \<and> s_AttemptGenerations s' = s_AttemptGenerations s"

lemma same_statuses_refl [simp, intro]: "same_statuses s s"
  by (simp add: same_statuses_def)

lemma same_statuses_trans: "same_statuses s s' \<Longrightarrow> same_statuses s' s'' \<Longrightarrow> same_statuses s s''"
  by (simp add: same_statuses_def)

lemma statuses_insert_effect: "same_statuses s (insert_effect s e)"
  by (simp add: insert_effect_def same_statuses_def Let_def split: option.split)

lemma statuses_bind_receipts: "same_statuses s (foldl (\<lambda>s q. bindOperatorReceipt s q e (s_Revision s)) s qs)"
  by (induction qs arbitrary: s) (auto simp: bindOperatorReceipt_def same_statuses_def)

lemma committed_statuses: "same_statuses candidate (fst (committed_candidate env candidate effect qs))"
proof -
  have rest: "same_statuses s (revokeInvalidPlanReviewers (stamp_tombstones s) b)" for s b
    by (simp add: same_statuses_def revokeInvalidPlanReviewers_def stamp_tombstones_def)
  have "same_statuses candidate s2 \<Longrightarrow> same_statuses candidate (revokeInvalidPlanReviewers
      (stamp_tombstones (foldl (\<lambda>s q. bindOperatorReceipt s q e (s_Revision s)) s2 qs)) False)" for s2 e
    by (rule same_statuses_trans[OF same_statuses_trans[OF _ statuses_bind_receipts] rest])
  moreover have "same_statuses candidate (candidate\<lparr>s_Revision := r\<rparr>)" for r by (simp add: same_statuses_def)
  ultimately show ?thesis
    by (cases effect)
      (simp_all add: committed_candidate_def Let_def same_statuses_trans[OF _ statuses_insert_effect] del: foldl_Cons)
qed

lemma next_generation_statuses: "next_generation s m g x = Inr s' \<Longrightarrow> s_MachineStatuses s' = s_MachineStatuses s"
  by (auto simp: next_generation_def Let_def deleteAttemptEffects_def split: if_splits)

lemma observation_statuses: "deleteAttemptObservation env s r i a = Inr s' \<Longrightarrow> s_MachineStatuses s' = s_MachineStatuses s"
  by (auto simp: deleteAttemptObservation_def Let_def split: option.splits if_splits)

lemma upsert_statuses:
  assumes "applyUpsertAttemptAllowingReviewer env s c x = Inr s'"
    "attemptGeneration s (m_Repository (ua_Manifest c)) (m_Issue (ua_Manifest c)) (m_Attempt (ua_Manifest c)) \<noteq> 0"
  shows "s_MachineStatuses s' = s_MachineStatuses s"
  using upsert_steps[OF assms(1)]
proof (cases, goal_cases)
  case (1 s1 s2)
  from 1(2) assms(2) have "s_MachineStatuses s1 = s_MachineStatuses s" by (auto dest: next_generation_statuses)
  with observation_statuses[OF 1(3)] show ?case by (simp add: 1(4))
qed

lemma stop_moves:
  assumes "begin_stop env s c = Inr (s', r)"
  defines "m \<equiv> br_Manifest c"
  assumes "attemptGeneration s (m_Repository m) (m_Issue m) (m_Attempt m) \<noteq> 0"
  shows "s_MachineStatuses s' = s_MachineStatuses s"
    and "attemptGeneration s' (m_Repository m) (m_Issue m) (m_Attempt m) =
      attemptGeneration s (m_Repository m) (m_Issue m) (m_Attempt m) + 1"
proof -
  obtain s1 x y z u where u: "applyUpsertAttemptAllowingReviewer env s u x = Inr s1" "ua_Manifest u = m"
    and c: "s' = carry_release s1 y z"
  proof -
    from assms(1) obtain s1 x y z where
      "applyUpsertAttemptAllowingReviewer env s (upsert_of c (id_AttemptGeneration (br_Identity c))) x = Inr s1"
      "s' = carry_release s1 y z"
      by (auto simp: begin_stop_def Let_def split: option.splits sum.splits if_splits)
    then show thesis using that by (simp add: upsert_of_def m_def)
  qed
  note f = upsert_moves(4)[OF u(1), unfolded u(2)] upsert_statuses[OF u(1), unfolded u(2), OF assms(3)]
  show "s_MachineStatuses s' = s_MachineStatuses s"
    using f by (simp add: c carry_release_def split: option.split)
  show "attemptGeneration s' (m_Repository m) (m_Issue m) (m_Attempt m) =
      attemptGeneration s (m_Repository m) (m_Issue m) (m_Attempt m) + 1"
    using f by (simp add: c carry_release_def attemptGeneration_def split: option.split)
qed

lemma applyBegin_stop:
  assumes "applyBeginRuntimeEffect env s c = Inr (s', e)" "br_Action c = EffectStop" "repeated_stop env s c = Inr None"
  obtains r where "begin_stop env s c = Inr (s', r)" "e_ID e = []"
proof -
  let ?m = "br_Manifest c"
  have ms: "begin_malformed env s c = None" using assms(1) by (cases "begin_malformed env s c") (auto simp: applyBeginRuntimeEffect_def)
  have st: "begin_stale env s c = None"
    using assms ms by (cases "begin_stale env s c") (auto simp: applyBeginRuntimeEffect_def)
  obtain h where h: "pendingHandoffCandidate env s (m_Repository ?m) (m_Issue ?m) (m_Attempt ?m) = Inr h"
    using assms ms st by (cases "pendingHandoffCandidate env s (m_Repository ?m) (m_Issue ?m) (m_Attempt ?m)")
      (auto simp: applyBeginRuntimeEffect_def Let_def)
  obtain g where g: "pendingStartCandidate env s ?m = Inr g"
    using assms ms st h by (cases "pendingStartCandidate env s ?m") (auto simp: applyBeginRuntimeEffect_def Let_def)
  obtain s1 r where b: "begin_stop env s c = Inr (s1, r)"
    using assms ms st h g by (cases "begin_stop env s c")
      (auto simp: applyBeginRuntimeEffect_def Let_def begin_move_def EffectStop_def EffectPrepare_def)
  have "s' = s1" "e = begun_effect s1 c h g r"
    using assms ms st h g b by (auto simp: applyBeginRuntimeEffect_def Let_def begin_move_def EffectStop_def EffectPrepare_def)
  moreover have "e_ID (begun_effect s1 c h g r) = []"
    by (simp add: begun_effect_def Let_def bindSupersededReviewer_def empty_effect_def split: option.split)
  ultimately show thesis using that b by blast
qed

text \<open>
  C30: A Stop cannot begin while a machine status is bound to its attempt.  Even when the transition
  itself accepts the Stop, the new attempt generation leaves the status, which names the old one, behind:
  the ledger it would commit does not validate and the command fails.
\<close>

theorem stop_refused_by_status:
  assumes "applyBeginRuntimeEffect env s c = Inr (s1, e)" "br_Action c = EffectStop" "repeated_stop env s c = Inr None"
    "fmlookup (s_MachineStatuses s) k = Some st" "ms_Repository st = m_Repository (br_Manifest c)"
    "ms_Issue st = m_Issue (br_Manifest c)" "ms_Attempt st = m_Attempt (br_Manifest c)"
    "0 < ms_AttemptGeneration st" "status_bound s st"
  shows "\<exists>err. applyStateOwnerCommand env applied s (BeginRuntimeEffect c) = Inl err"
proof -
  let ?m = "br_Manifest c"
  let ?g = "attemptGeneration s (m_Repository ?m) (m_Issue ?m) (m_Attempt ?m)"
  have g: "ms_AttemptGeneration st = ?g" using assms(5-9) by (auto simp: status_bound_def)
  from applyBegin_stop[OF assms(1-3)] obtain r where b: "begin_stop env s c = Inr (s1, r)" and n: "e_ID e = []" .
  have nz: "?g \<noteq> 0" using g assms(8) by auto
  note m = stop_moves[OF b nz]
  have "\<not> validateRuntimeOwnerState env (fst (committed_candidate env s1 (Some e) [])) True"
  proof
    let ?s2 = "fst (committed_candidate env s1 (Some e) [])"
    assume v: "validateRuntimeOwnerState env ?s2 True"
    have c: "same_statuses s1 ?s2" by (rule committed_statuses)
    have "fmpred (valid_status ?s2) (s_MachineStatuses ?s2)" using v by (simp add: validate_parts)
    moreover have "fmlookup (s_MachineStatuses ?s2) k = Some st" using c m(1) assms(4) by (simp add: same_statuses_def)
    ultimately have "status_bound ?s2 st" by (auto simp: fmpred_iff valid_status_def)
    then have "?g = ?g + 1 \<or> ?g = 0"
      using g c m(2) assms(5-8) by (auto simp: status_bound_def same_statuses_def attemptGeneration_def)
    then show False using nz by simp
  qed
  then show ?thesis
    using assms(1) n by (simp add: applyStateOwnerCommand_def begun_def finishRuntimeOwnerTransition_def Let_def)
qed

text \<open>Attempt 2 of the small ledger, preparing, while its worker asks for attention.\<close>

definition asking_status :: machineStatusRecord where
  "asking_status = empty_status\<lparr>ms_Repository := ''o/r'', ms_Issue := 7, ms_Attempt := 2, ms_IssueGeneration := 3,
     ms_AttemptGeneration := 1, ms_Sequence := 1, ms_Source := ''worker'', ms_SourceID := ''w'', ms_SourceSequence := 1,
     ms_Status := ''needs-attention'', ms_Reason := ''help''\<rparr>"

definition asking_ledger :: runtimeOwnerState where
  "asking_ledger = small_ledger\<lparr>s_AttemptGenerations := fmupd ''o/r#7/2'' 1 (s_AttemptGenerations small_ledger),
     s_Attempts := fmupd ''o/r#7/2'' (upserted_record None 1 sample_manifest) fmempty,
     s_MachineStatuses := fmupd ''o/r#7'' asking_status fmempty\<rparr>"

definition sample_stop :: beginRuntimeEffectCommand where
  "sample_stop =
     \<lparr>br_Identity = gate_identity\<lparr>id_EffectID := []\<rparr>, br_Action = EffectStop, br_Manifest = sample_manifest,
      br_Reason = ''cancelled'', br_RequestDigest = replicate 64 CHR ''a'', br_Review = None,
      br_SupersededReviewerID = [], br_CandidateLaunchToken = [], br_StartGateNonce = []\<rparr>"

lemma sample_manifest_valid: "validateOwnerManifest sample_env ''o/r'' sample_manifest"
  by code_simp

lemma sample_manifest_fields [simp]:
  "m_Repository sample_manifest = ''o/r''" "m_Issue sample_manifest = 7" "m_Attempt sample_manifest = 2"
  "m_State sample_manifest = ''preparing''" "m_LaunchID sample_manifest = []" "m_Version sample_manifest = 2"
  by (simp_all add: sample_manifest_def empty_manifest_def)

lemma sample_stop_fields [simp]:
  "br_Action sample_stop = EffectStop" "br_Manifest sample_stop = sample_manifest" "br_Reason sample_stop = ''cancelled''"
  "br_RequestDigest sample_stop = replicate 64 CHR ''a''" "br_Review sample_stop = None" "br_SupersededReviewerID sample_stop = []"
  "br_CandidateLaunchToken sample_stop = []" "br_StartGateNonce sample_stop = []"
  "br_Identity sample_stop = gate_identity\<lparr>id_EffectID := []\<rparr>"
  by (simp_all add: sample_stop_def)

lemma asking_fields [simp]:
  "s_Repository asking_ledger = ''o/r''" "s_Epoch asking_ledger = 2" "s_Revision asking_ledger = 5" "s_Effects asking_ledger = fmempty"
  "s_Observations asking_ledger = fmempty" "s_ReviewerProofs asking_ledger = fmempty" "s_LegacyReviewerQuarantines asking_ledger = fmempty"
  "s_LegacyReviewerReleases asking_ledger = fmempty"
  "fmlookup (s_Attempts asking_ledger) ''o/r#7/2'' = Some (upserted_record None 1 sample_manifest)"
  "fmlookup (s_Tombstones asking_ledger) ''o/r#7/2'' = None"
  "attemptGeneration asking_ledger ''o/r'' 7 2 = 1" "issueGeneration asking_ledger ''o/r'' 7 = 3"
  by (simp_all add: asking_ledger_def small_ledger_def newRuntimeOwnerState_def attemptGeneration_def issueGeneration_def live_keys small_keys)

lemma stop_reason: "validRuntimeEffectInput EffectStop ''cancelled''"
  by (simp add: validRuntimeEffectInput_def validRuntimeEffectAction_def char_of_def trim_space_graphic graphic_def of_char_def)

lemma stop_sample_malformed: "begin_malformed sample_env asking_ledger sample_stop = None"
  by (simp add: begin_malformed_def Let_def stop_reason gate_nonce_valid gate_identity_def sample_manifest_valid
      validOwnerRuntimeEffectInput_def live_keys stop_effect_of_def upserted_record_def
      EffectReview_def stop_reason[unfolded EffectStop_def]
      EffectStop_def EffectHandoff_def EffectStart_def EffectCleanup_def EffectPrepare_def EffectMonitor_def)

lemma stop_sample_stale: "begin_stale sample_env asking_ledger sample_stop = None"
  by (simp add: begin_stale_def Let_def gate_identity_def live_keys fm_has_def)

lemma stop_sample_upsert: "\<exists>s. applyUpsertAttemptAllowingReviewer sample_env asking_ledger (upsert_of sample_stop 1) [] = Inr s"
  by (simp add: applyUpsertAttemptAllowingReviewer_def Let_def upsert_of_def gate_identity_def live_keys small_keys
      upsert_blocked_def sample_manifest_valid fm_has_def fm_ex_def stop_effect_of_def upserted_record_def next_generation_def deleteAttemptEffects_def
      deleteAttemptObservation_def)

lemma stop_sample_fresh: "repeated_stop sample_env asking_ledger sample_stop = Inr None"
  by (simp add: repeated_stop_def m_effects_def fm_entries_def sample_env_def)

lemma stop_sample_accepted: "\<not> isl (applyBeginRuntimeEffect sample_env asking_ledger sample_stop)"
proof -
  obtain s where u: "applyUpsertAttemptAllowingReviewer sample_env asking_ledger (upsert_of sample_stop 1) [] = Inr s"
    using stop_sample_upsert by blast
  have r: "pendingReviewerEffect sample_env asking_ledger ''o/r'' 7 2 = Inr None"
    "pendingHandoffCandidate sample_env asking_ledger ''o/r'' 7 2 = Inr None"
    "pendingStartCandidate sample_env asking_ledger sample_manifest = Inr None"
    by (simp_all add: pendingReviewerEffect_def pendingHandoffCandidate_def pendingStartCandidate_def fm_entries_def sample_env_def)
  have "\<exists>y. begin_stop sample_env asking_ledger sample_stop = Inr y"
    using u r by (simp add: begin_stop_def Let_def live_keys upserted_record_def effect_id_def gate_identity_def)
  then show ?thesis
    using r by (auto simp: applyBeginRuntimeEffect_def Let_def stop_sample_malformed stop_sample_fresh stop_sample_stale begin_move_def
        EffectPrepare_def EffectStop_def)
qed

theorem stop_refused_by_status_witness:
  "\<not> isl (applyBeginRuntimeEffect sample_env asking_ledger sample_stop) \<and>
   isl (applyStateOwnerCommand sample_env fmempty asking_ledger (BeginRuntimeEffect sample_stop))"
proof -
  have l: "fmlookup (s_MachineStatuses asking_ledger) ''o/r#7'' = Some asking_status" by (simp add: asking_ledger_def)
  have b: "status_bound asking_ledger asking_status"
    by (simp add: status_bound_def asking_status_def asking_ledger_def attemptGeneration_def live_keys)
  obtain s1 e where a: "applyBeginRuntimeEffect sample_env asking_ledger sample_stop = Inr (s1, e)"
    using stop_sample_accepted by (cases "applyBeginRuntimeEffect sample_env asking_ledger sample_stop") auto
  from stop_refused_by_status[OF a _ stop_sample_fresh l _ _ _ _ b, of fmempty]
  show ?thesis using stop_sample_accepted by (auto simp: asking_status_def)
qed

end
