(* ===== verification/Owner_Receipt_Properties.thy ===== *)
theory Owner_Receipt_Properties
  imports Owner_Runs
begin

text \<open>
  The bounded list of operator receipts: it never grows beyond its limit, holds one receipt per request,
  never loses a pending receipt, and a completed receipt is final until it is evicted.
\<close>

section \<open>The receipt list\<close>

definition receipt_id :: "controlReceipt \<Rightarrow> string" where
  "receipt_id r = q_RequestID (r_Request r)"

text \<open>At most the limit, one receipt per request id.\<close>

definition receipt_list :: "controlReceipt list \<Rightarrow> bool" where
  "receipt_list rs \<longleftrightarrow> length rs \<le> maxControlReceipts \<and> distinct (map receipt_id rs)"

lemma drop_completed_split:
  assumes "drop_completed rs = Some (x, ys)"
  shows "r_State x = ''completed'' \<and> (\<exists>as bs. rs = as @ x # bs \<and> ys = as @ bs)"
  using assms
proof (induction rs arbitrary: ys)
  case (Cons r rs)
  show ?case
  proof (cases "r_State r = ''completed''")
    case True then show ?thesis using Cons.prems by (auto intro: exI[of _ "[]"])
  next
    case False
    then obtain zs where z: "drop_completed rs = Some (x, zs)" "ys = r # zs" using Cons.prems by auto
    from Cons.IH[OF z(1)] obtain as bs where "r_State x = ''completed''" "rs = as @ x # bs" "zs = as @ bs" by blast
    then show ?thesis using z(2) by (intro conjI exI[of _ "r # as"] exI[of _ bs]) auto
  qed
qed simp

lemma drop_completed_Some:
  assumes "drop_completed rs = Some (x, ys)"
  shows "r_State x = ''completed''" "length ys < length rs" "set ys \<subseteq> set rs"
    "distinct (map receipt_id rs) \<Longrightarrow> distinct (map receipt_id ys)"
    "y \<in> set rs \<Longrightarrow> r_State y \<noteq> ''completed'' \<Longrightarrow> y \<in> set ys"
  using drop_completed_split[OF assms] by auto

lemma drop_completed_None: "drop_completed rs = None \<longleftrightarrow> (\<forall>r \<in> set rs. r_State r \<noteq> ''completed'')"
  by (induction rs) (auto split: if_splits)

lemma replace_receipt_ids:
  "(\<And>x. receipt_id (f x) = i) \<Longrightarrow> map receipt_id (replace_receipt i f rs) = map receipt_id rs"
  by (induction rs) (auto simp: receipt_id_def)

lemma replace_receipt_other: "x \<in> set rs \<Longrightarrow> receipt_id x \<noteq> i \<Longrightarrow> x \<in> set (replace_receipt i f rs)"
  by (induction rs) (auto simp: receipt_id_def)

lemma replace_receipt_found: "i \<in> receipt_id ` set rs \<Longrightarrow> \<exists>x \<in> set rs. f x \<in> set (replace_receipt i f rs)"
  by (induction rs) (auto simp: receipt_id_def)

lemma find_receipt: "operatorReceiptByID s i = None \<longleftrightarrow> i \<notin> receipt_id ` set (s_ControlReceipts s)"
  by (auto simp: operatorReceiptByID_def find_None_iff receipt_id_def image_iff)

lemma find_receiptD: "operatorReceiptByID s i = Some x \<Longrightarrow> x \<in> set (s_ControlReceipts s) \<and> receipt_id x = i"
  by (auto simp: operatorReceiptByID_def find_Some_iff receipt_id_def)

lemma receipt_list_snoc:
  assumes "distinct (map receipt_id rs)" "length rs < maxControlReceipts" "receipt_id r \<notin> receipt_id ` set rs"
  shows "receipt_list (rs @ [r])"
  using assms by (auto simp: receipt_list_def)

section \<open>Recording a receipt\<close>

lemma applyControlReceipt_cases:
  assumes "applyControlReceipt env s r = Inr s'"
  obtains (replaced) x where "operatorReceiptByID s (receipt_id r) = Some x" "r_Request x = r_Request r"
      "r_State x = ''completed'' \<Longrightarrow> x = r"
      "s' = s\<lparr>s_ControlReceipts := replace_receipt (receipt_id r) (\<lambda>_. r) (s_ControlReceipts s)\<rparr>"
  | (evicted) x rs where "operatorReceiptByID s (receipt_id r) = None" "length (s_ControlReceipts s) = maxControlReceipts"
      "drop_completed (s_ControlReceipts s) = Some (x, rs)" "s' = s\<lparr>s_ControlReceipts := rs @ [r]\<rparr>"
  | (appended) "operatorReceiptByID s (receipt_id r) = None" "length (s_ControlReceipts s) \<noteq> maxControlReceipts"
      "s' = s\<lparr>s_ControlReceipts := s_ControlReceipts s @ [r]\<rparr>"
proof (cases "operatorReceiptByID s (receipt_id r)")
  case None
  note n = this
  show ?thesis
  proof (cases "length (s_ControlReceipts s) = maxControlReceipts")
    case True
    with assms n obtain x rs where d: "drop_completed (s_ControlReceipts s) = Some (x, rs)"
      by (cases "drop_completed (s_ControlReceipts s)") (auto simp: applyControlReceipt_def Let_def receipt_id_def split: if_splits)
    with assms n True have "s' = s\<lparr>s_ControlReceipts := rs @ [r]\<rparr>"
      by (simp add: applyControlReceipt_def Let_def receipt_id_def split: if_splits)
    with n True d show ?thesis by (rule evicted)
  next
    case False
    with assms n show ?thesis
      using appended by (simp add: applyControlReceipt_def Let_def receipt_id_def split: if_splits)
  qed
next
  case (Some x)
  have "r_Request x = r_Request r \<and> (r_State x = ''completed'' \<longrightarrow> x = r) \<and>
      s' = s\<lparr>s_ControlReceipts := replace_receipt (receipt_id r) (\<lambda>_. r) (s_ControlReceipts s)\<rparr>"
    using assms Some unfolding applyControlReceipt_def Let_def receipt_id_def
    by (cases "invalid_receipt env s r"; cases "r_Request x = r_Request r"; cases "r_State x = ''completed''"; cases "x = r")
      simp_all
  with Some show ?thesis using replaced by blast
qed

text \<open>
  Receipts.  Recording a receipt keeps the list within its limit with one receipt per request, and
  the new receipt is in it.  A receipt of another request that is not completed is still there, and a
  completed receipt of the same request is only accepted again as it is.
\<close>

theorem receipt_recorded:
  assumes "applyControlReceipt env s r = Inr s'" "receipt_list (s_ControlReceipts s)"
  shows "receipt_list (s_ControlReceipts s') \<and> r \<in> set (s_ControlReceipts s') \<and>
    (\<forall>x \<in> set (s_ControlReceipts s). receipt_id x \<noteq> receipt_id r \<and> r_State x \<noteq> ''completed'' \<longrightarrow> x \<in> set (s_ControlReceipts s')) \<and>
    (\<forall>x \<in> set (s_ControlReceipts s). receipt_id x = receipt_id r \<and> r_State x = ''completed'' \<longrightarrow> x = r)"
  using assms(1)
proof (cases rule: applyControlReceipt_cases)
  case (replaced x)
  note x = find_receiptD[OF replaced(1)]
  have "y = x" if "y \<in> set (s_ControlReceipts s)" "receipt_id y = receipt_id r" for y
    using assms(2) x that by (auto simp: receipt_list_def distinct_map inj_on_def)
  moreover have "receipt_id r \<in> receipt_id ` set (s_ControlReceipts s)" using x by (metis imageI)
  then have "r \<in> set (s_ControlReceipts s')"
    using replace_receipt_found[of "receipt_id r" "s_ControlReceipts s" "\<lambda>_. r"] by (auto simp: replaced(4))
  moreover have "map receipt_id (s_ControlReceipts s') = map receipt_id (s_ControlReceipts s)"
    by (simp add: replaced(4) replace_receipt_ids)
  then have "receipt_list (s_ControlReceipts s')"
    using assms(2) by (simp add: receipt_list_def) (metis length_map)
  moreover have "y \<in> set (s_ControlReceipts s')" if "y \<in> set (s_ControlReceipts s)" "receipt_id y \<noteq> receipt_id r" for y
    using replace_receipt_other[OF that] by (simp add: replaced(4))
  ultimately show ?thesis using replaced(3) by blast
next
  case (evicted x rs)
  note d = drop_completed_Some[OF evicted(3)]
  have "receipt_list (rs @ [r])"
    using assms(2) d evicted(1) by (intro receipt_list_snoc) (auto simp: receipt_list_def find_receipt)
  then show ?thesis
    using evicted d(5) by (auto simp: find_receipt) (metis imageI)
next
  case appended
  then show ?thesis
    using assms(2) by (auto simp: find_receipt receipt_list_def) (metis imageI)
qed

text \<open>The receipt of a reconcile request that waits for its answer.\<close>

definition sample_receipt :: controlReceipt where
  "sample_receipt = \<lparr>r_Request = \<lparr>q_Version = controlVersion, q_RequestID = ''r1'', q_Repository = ''o/r'', q_Action = ''reconcile'',
     q_Issue = 0, q_Attempt = 0, q_Confirm = False\<rparr>, r_State = ''pending'', r_Phase = [], r_EffectID = [], r_Diagnostic = [],
     r_Result = None, r_Admission = None\<rparr>"

theorem receipt_recorded_witness:
  "\<exists>s' :: runtimeOwnerState. receipt_list (s_ControlReceipts s') \<and> sample_receipt \<in> set (s_ControlReceipts s')"
proof -
  have q: "validControlRequest (r_Request sample_receipt) ''o/r''"
    by (simp add: sample_receipt_def validControlRequest_def controlRequestIDPattern_def request_id_char_def is_alnum_def)
  have "\<not> invalid_receipt sample_env small_ledger sample_receipt"
    using q by (simp add: invalid_receipt_def sample_receipt_def validOperatorReceiptBinding_def small_ledger_def newRuntimeOwnerState_def)
  then have "\<exists>s'. applyControlReceipt sample_env small_ledger sample_receipt = Inr s'"
    by (simp add: applyControlReceipt_def Let_def operatorReceiptByID_def small_ledger_def newRuntimeOwnerState_def
        maxControlReceipts_def)
  then obtain s' where a: "applyControlReceipt sample_env small_ledger sample_receipt = Inr s'" by blast
  have "receipt_list (s_ControlReceipts small_ledger)"
    by (simp add: receipt_list_def small_ledger_def newRuntimeOwnerState_def)
  then have "receipt_list (s_ControlReceipts s') \<and> sample_receipt \<in> set (s_ControlReceipts s')"
    using receipt_recorded[OF a] by simp
  then show ?thesis by blast
qed

section \<open>Appending for an operator mutation\<close>

text \<open>
  A full list of pending receipts refuses new work.  An operator mutation gets a receipt exactly
  when there is room or a completed receipt to evict; it is never admitted by dropping one that is
  still pending.
\<close>

theorem receipt_admission:
  "(\<exists>s'. appendOperatorReceipt s r = Inr s') \<longleftrightarrow>
    \<not> (length (s_ControlReceipts s) = maxControlReceipts \<and> \<not> list_ex (\<lambda>x. r_State x = ''completed'') (s_ControlReceipts s))"
  using drop_completed_None[of "s_ControlReceipts s"]
  by (auto simp: list_ex_iff appendOperatorReceipt_def Let_def split: option.split)

end
