(* ===== verification/Identity_Properties.thy ===== *)
theory Identity_Properties
  imports Owner_State
begin

text \<open>
  The names of an attempt's resources are a function of the attempt and determine it: two attempts of
  one repository never share a branch or a session, and the keys and branches can be read back.
\<close>

section \<open>Numbers and separators\<close>

lemma itoa_no_dash: "0 \<le> n \<Longrightarrow> CHR ''-'' \<notin> set (itoa n)"
  using digits_no_sign[of "nat n"] by (auto simp: itoa_def)

lemma numbered_inj:
  assumes "p @ itoa i @ ''-'' @ itoa a = p' @ itoa i' @ ''-'' @ itoa a'" "p = p'" "0 \<le> a" "0 \<le> a'"
  shows "i = i' \<and> a = a'"
proof -
  have e: "(p @ itoa i) @ CHR ''-'' # itoa a = (p @ itoa i') @ CHR ''-'' # itoa a'" using assms(1,2) by simp
  from sep_split_eq[OF e itoa_no_dash[OF assms(3)] itoa_no_dash[OF assms(4)]]
  show ?thesis by (simp add: key_simps)
qed

lemma split_char_word: "c \<notin> set w \<Longrightarrow> split_char c w = [w]"
  by (induction w) auto

lemma split_char_sep: "c \<notin> set w \<Longrightarrow> split_char c (w @ c # rest) = w # split_char c rest"
  by (induction w) auto

lemma split_char_nonempty [simp]: "split_char c w \<noteq> []"
  by (induction w) (auto split: list.split)

section \<open>Keys\<close>

text \<open>
  Attempt keys can be read back.  The ledger's key of an attempt parses to its repository, issue and
  attempt for every pair of numbers a Go int holds, when the repository name has no hash sign.
\<close>

theorem attempt_key_roundtrip:
  assumes "CHR ''#'' \<notin> set repository" "min_int \<le> issue" "issue \<le> max_int" "min_int \<le> attempt" "attempt \<le> max_int"
  shows "parseOwnerAttemptKey (ownerAttemptKey repository issue attempt) = (repository, issue, attempt, True) \<and>
    issueFromOwnerKey (ownerIssueKey repository issue) = issue"
  using assms
  by (simp add: parseOwnerAttemptKey_def ownerAttemptKey_def ownerIssueKey_def issueFromOwnerKey_def cut_str_char atoi_itoa)

theorem attempt_key_roundtrip_witness:
  "parseOwnerAttemptKey (ownerAttemptKey ''o/r'' 7 (-3)) = (''o/r'', 7, -3, True)"
  using attempt_key_roundtrip[of "''o/r''" 7 "-3"] by (simp add: min_int_def max_int_def)

section \<open>Manifests\<close>

lemma valid_manifest_names:
  assumes "ValidateManifest sha root stateRoot m"
  shows "1 \<le> m_Issue m" "1 \<le> m_Attempt m"
    and "m_Branch m = ''agent-symphony/'' @ RepositoryIdentifier sha (m_Repository m) @ ''/'' @ itoa (m_Issue m) @ ''-'' @ itoa (m_Attempt m)"
    and "m_Session m = ''as-'' @ RepositoryIdentifier sha (m_Repository m) @ ''-'' @ itoa (m_Issue m) @ ''-'' @ itoa (m_Attempt m)"
    and "m_Worktree m = path_join [root, RepositoryIdentifier sha (m_Repository m) @ ''-'' @ itoa (m_Issue m) @ ''-'' @ itoa (m_Attempt m)]"
    and "m_LogPath m = path_join [stateRoot, ''attempts'', RepositoryIdentifier sha (m_Repository m),
      itoa (m_Issue m) @ ''-'' @ itoa (m_Attempt m), ''agent.log'']"
proof -
  obtain want where w: "attemptIdentity sha root (m_Repository m) (m_Issue m) (m_Attempt m) (m_BaseSHA m) = Some want"
    and v: "validateManifestIdentity sha (want\<lparr>ri_LogPath := path_join [stateRoot, ''attempts'', RepositoryIdentifier sha (m_Repository m),
      itoa (m_Issue m) @ ''-'' @ itoa (m_Attempt m), ''agent.log'']\<rparr>) m"
    using assms by (cases "attemptIdentity sha root (m_Repository m) (m_Issue m) (m_Attempt m) (m_BaseSHA m)")
      (simp_all add: ValidateManifest_def Let_def)
  have n: "m_Branch m = ri_Branch want" "m_Session m = ri_Session want" "m_Worktree m = ri_Worktree want"
    "m_LogPath m = path_join [stateRoot, ''attempts'', RepositoryIdentifier sha (m_Repository m),
      itoa (m_Issue m) @ ''-'' @ itoa (m_Attempt m), ''agent.log'']"
    using v by (simp_all add: validateManifestIdentity_def)
  have p: "1 \<le> m_Issue m" "1 \<le> m_Attempt m"
    using w by (simp_all add: attemptIdentity_def split: if_splits)
  obtain br se where b: "AttemptBranch sha (m_Repository m) (m_Issue m) (m_Attempt m) = Some br"
    and s: "AttemptSessionName sha SessionRoleImplementation (m_Repository m) (m_Issue m) (m_Attempt m) = Some se"
    and e: "ri_Branch want = br" "ri_Session want = se" "ri_Worktree want = path_join [root,
      RepositoryIdentifier sha (m_Repository m) @ ''-'' @ itoa (m_Issue m) @ ''-'' @ itoa (m_Attempt m)]"
    using w by (cases "AttemptBranch sha (m_Repository m) (m_Issue m) (m_Attempt m)";
        cases "AttemptSessionName sha SessionRoleImplementation (m_Repository m) (m_Issue m) (m_Attempt m)")
      (auto simp: attemptIdentity_def Let_def split: if_splits)
  show "1 \<le> m_Issue m" "1 \<le> m_Attempt m" by (fact p)+
  show "m_Branch m = ''agent-symphony/'' @ RepositoryIdentifier sha (m_Repository m) @ ''/'' @ itoa (m_Issue m) @ ''-'' @ itoa (m_Attempt m)"
    using b by (simp add: n e AttemptBranch_def split: if_splits)
  show "m_Session m = ''as-'' @ RepositoryIdentifier sha (m_Repository m) @ ''-'' @ itoa (m_Issue m) @ ''-'' @ itoa (m_Attempt m)"
    using s by (simp add: n e AttemptSessionName_def Let_def split: if_splits)
  show "m_Worktree m = path_join [root, RepositoryIdentifier sha (m_Repository m) @ ''-'' @ itoa (m_Issue m) @ ''-'' @ itoa (m_Attempt m)]"
    "m_LogPath m = path_join [stateRoot, ''attempts'', RepositoryIdentifier sha (m_Repository m),
      itoa (m_Issue m) @ ''-'' @ itoa (m_Attempt m), ''agent.log'']"
    by (simp_all only: n e)
qed

text \<open>
  Resource names identify attempts.  Two valid manifests of one repository have the same branch
  exactly when they are manifests of the same attempt, and likewise the same session; manifests of the
  same attempt also share worktree and log.
\<close>

theorem resources_identify_attempt:
  assumes "ValidateManifest sha root stateRoot m" "ValidateManifest sha root stateRoot m'" "m_Repository m = m_Repository m'"
  shows "(m_Branch m = m_Branch m') = (m_Issue m = m_Issue m' \<and> m_Attempt m = m_Attempt m') \<and>
    (m_Session m = m_Session m') = (m_Issue m = m_Issue m' \<and> m_Attempt m = m_Attempt m') \<and>
    (m_Branch m = m_Branch m' \<longrightarrow> m_Worktree m = m_Worktree m' \<and> m_LogPath m = m_LogPath m')"
proof -
  note n = valid_manifest_names[OF assms(1)] and n' = valid_manifest_names[OF assms(2)]
  have inj: "m_Issue m = m_Issue m' \<and> m_Attempt m = m_Attempt m'"
    if "p @ itoa (m_Issue m) @ ''-'' @ itoa (m_Attempt m) = p @ itoa (m_Issue m') @ ''-'' @ itoa (m_Attempt m')" for p
    by (rule numbered_inj[OF that refl]) (use n(2) n'(2) in simp_all)
  show ?thesis
    using inj[of "[]"] unfolding n(3-6) n'(3-6) assms(3) by auto
qed

text \<open>Two attempts of one issue.\<close>

definition numbered_manifest :: "int \<Rightarrow> string \<Rightarrow> Manifest" where
  "numbered_manifest attempt text = empty_manifest\<lparr>m_Version := 2, m_LaunchToken := replicate 32 CHR ''c'',
     m_Repository := ''o/r'', m_Issue := 7, m_Attempt := attempt,
     m_Branch := ''agent-symphony/o-r-aaaaaaaaaaaa/7-'' @ text, m_Worktree := ''/r/o-r-aaaaaaaaaaaa-7-'' @ text,
     m_Session := ''as-o-r-aaaaaaaaaaaa-7-'' @ text, m_LogPath := ''/s/attempts/o-r-aaaaaaaaaaaa/7-'' @ text @ ''/agent.log'',
     m_BaseSHA := replicate 40 CHR ''d'', m_State := ''preparing''\<rparr>"

theorem resources_identify_attempt_witness:
  "m_Branch (numbered_manifest 2 ''2'') \<noteq> m_Branch (numbered_manifest 3 ''3'')"
proof -
  have v: "ValidateManifest (\<lambda>_. replicate 64 CHR ''a'') ''/r'' ''/s'' (numbered_manifest 2 ''2'')"
    "ValidateManifest (\<lambda>_. replicate 64 CHR ''a'') ''/r'' ''/s'' (numbered_manifest 3 ''3'')"
    by code_simp+
  from resources_identify_attempt[OF v] show ?thesis by (simp add: numbered_manifest_def)
qed

section \<open>Branches\<close>

lemma repository_identifier_no_slash:
  assumes "list_all hex_char (sha repository)"
  shows "CHR ''/'' \<notin> set (RepositoryIdentifier sha repository)"
proof -
  have l: "lower_char c \<noteq> CHR ''/''" if "c \<noteq> CHR ''/''" for c
  proof (cases "65 \<le> (of_char c :: nat) \<and> (of_char c :: nat) \<le> 90")
    case True
    then have "(of_char (lower_char c) :: nat) = of_char c + 32" by (simp add: lower_char_def Let_def)
    moreover have "(of_char CHR ''/'' :: nat) = 47" by simp
    ultimately show ?thesis using True by auto
  next
    case False
    then have "lower_char c = c" unfolding lower_char_def Let_def by (rule if_not_P)
    then show ?thesis using that by simp
  qed
  have t: "set (trim_right w cs) \<subseteq> set w" for w cs
    by (auto simp: trim_right_def dest: set_dropWhileD)
  have h: "CHR ''/'' \<notin> set (take 12 (sha repository))"
    using assms by (auto simp: list_all_iff hex_char_def dest!: in_set_takeD)
  define slug where "slug = map lower_char (map (\<lambda>c. if c = CHR ''/'' then CHR ''-'' else c) repository)"
  have s: "CHR ''/'' \<notin> set slug"
  proof
    assume "CHR ''/'' \<in> set slug"
    then obtain c where c: "CHR ''/'' = lower_char (if c = CHR ''/'' then CHR ''-'' else c)"
      unfolding slug_def set_map by blast
    have "(if c = CHR ''/'' then CHR ''-'' else c) \<noteq> CHR ''/''" by simp
    from l[OF this] c[symmetric] show False by contradiction
  qed
  then have "CHR ''/'' \<notin> set (trim_right (take 40 slug) ''.-_'')" using t by (meson in_set_takeD subsetD)
  with s h show ?thesis unfolding RepositoryIdentifier_def Let_def slug_def[symmetric] by simp
qed

text \<open>
  The branch of any other attempt follows from one branch.  From the branch of one attempt, the code
  that only knows the branch computes exactly the branch of every other attempt of the repository.
\<close>

theorem branch_roundtrip:
  assumes "AttemptBranch sha repository i a = Some b" "list_all hex_char (sha repository)" "1 \<le> i'" "1 \<le> a'"
  shows "AttemptBranchFromBranch b i' a' = AttemptBranch sha repository i' a'"
proof -
  let ?r = "RepositoryIdentifier sha repository"
  have two: "length (split_char CHR ''/'' repository) = 2"
    and b: "b = ''agent-symphony'' @ CHR ''/'' # ?r @ CHR ''/'' # itoa i @ ''-'' @ itoa a"
    using assms(1) by (auto simp: AttemptBranch_def split: if_splits)
  have no_slash: "CHR ''/'' \<notin> set ?r" using assms(2) by (rule repository_identifier_no_slash)
  have "split_char CHR ''/'' b = [''agent-symphony'', ?r, itoa i @ ''-'' @ itoa a]"
    unfolding b using split_char_sep[OF no_slash, of "itoa i @ ''-'' @ itoa a"]
      split_char_sep[of "CHR ''/''" "''agent-symphony''" "?r @ CHR ''/'' # itoa i @ ''-'' @ itoa a"]
      split_char_word[of "CHR ''/''" "itoa i @ ''-'' @ itoa a"]
    by simp
  then show ?thesis
    using two assms(3,4) by (simp add: AttemptBranchFromBranch_def AttemptBranch_def Let_def)
qed

theorem branch_roundtrip_witness:
  "AttemptBranchFromBranch ''agent-symphony/o-r-aaaaaaaaaaaa/7-1'' 7 2 = Some ''agent-symphony/o-r-aaaaaaaaaaaa/7-2''"
proof -
  have e: "AttemptBranch (\<lambda>_. replicate 64 CHR ''a'') ''o/r'' 7 1 = Some ''agent-symphony/o-r-aaaaaaaaaaaa/7-1''"
    "AttemptBranch (\<lambda>_. replicate 64 CHR ''a'') ''o/r'' 7 2 = Some ''agent-symphony/o-r-aaaaaaaaaaaa/7-2''"
    by code_simp+
  from branch_roundtrip[OF e(1)] show ?thesis by (simp add: e hex_char_def list_all_iff)
qed

end
