(* ===== verification/Pull_Recovery_File.thy ===== *)
theory Pull_Recovery_File
  imports Pull_Recovery
begin

text \<open>
  \<^verbatim>\<open>FileRecovery\<close> of \<^verbatim>\<open>internal/github/pr_adapters.go\<close>: the recovery states of all pull requests in one
  list.  \<^verbatim>\<open>update\<close> reads the list under a lock, changes it and writes it back when the change succeeds;
  here a change is a function from the list to the new list or an error.
\<close>

fun update_first :: "(PRState \<Rightarrow> bool) \<Rightarrow> (PRState \<Rightarrow> string + PRState) \<Rightarrow> string \<Rightarrow> PRState list \<Rightarrow> string + PRState list" where
  "update_first p change missing [] = Inl missing"
| "update_first p change missing (s # rest) =
     (if p s then (case change s of Inl e \<Rightarrow> Inl e | Inr s' \<Rightarrow> Inr (s' # rest))
      else case update_first p change missing rest of Inl e \<Rightarrow> Inl e | Inr rest' \<Rightarrow> Inr (s # rest'))"

definition attempt_missing :: string where
  "attempt_missing = ''recovered pull request attempt not found''"

definition head_missing :: string where
  "head_missing = ''recovered pull request attempt not found or head changed''"

text \<open>Claims: every state whose owner is asked for is moved; only unreceipted work is returned.\<close>

definition owner_wanted :: "(string, bool) fmap option \<Rightarrow> PRState \<Rightarrow> bool" where
  "owner_wanted owners s =
     (case owners of
        None \<Rightarrow> True
      | Some m \<Rightarrow> fm_get m (pr_Repository s @ ''#'' @ itoa (pr_Issue s) @ ''/'' @ itoa (pr_Attempt s)) False)"

definition claim_state :: "(string \<Rightarrow> string) \<Rightarrow> PRState \<Rightarrow> PRState \<times> RecoveryHandoff list" where
  "claim_state sha s =
     (let queued = (pr_ValidationQueuedSHA s = pr_HeadSHA s \<and> pr_HeadSHA s \<noteq> []);
          s' = claim_work queued s;
          validation = (queued \<or> pr_ValidationInFlightSHA s' = pr_HeadSHA s \<and> pr_HeadSHA s \<noteq> []);
          h = handoff_of sha s' validation (filter (\<lambda>f. fb_Execution f = FeedbackInFlight) (state_feedback s')) in
      (s', if receipted s' (rh_Key h) then [] else if rh_Validation h \<or> rh_Feedback h \<noteq> [] then [h] else []))"

definition ClaimHandoffsFor ::
  "(string \<Rightarrow> string) \<Rightarrow> PRState list \<Rightarrow> (string, bool) fmap option \<Rightarrow> PRState list \<times> RecoveryHandoff list" where
  "ClaimHandoffsFor sha states owners =
     (let claims = map (\<lambda>s. if owner_wanted owners s then claim_state sha s else (s, [])) states in
      (map fst claims, concat (map snd claims)))"

definition ClaimHandoffs :: "(string \<Rightarrow> string) \<Rightarrow> PRState list \<Rightarrow> PRState list \<times> RecoveryHandoff list" where
  "ClaimHandoffs sha states = ClaimHandoffsFor sha states None"

section \<open>Receipts and outcomes\<close>

definition ReceiptHandoff :: "(string \<Rightarrow> string) \<Rightarrow> PRState list \<Rightarrow> RecoveryHandoff \<Rightarrow> string + PRState list" where
  "ReceiptHandoff sha states h =
     update_first (\<lambda>s. same_work s h) (\<lambda>s. ReceiptHandoffState sha s h) head_missing states"

definition attempt_at :: "string \<Rightarrow> int \<Rightarrow> int \<Rightarrow> int \<Rightarrow> PRState \<Rightarrow> bool" where
  "attempt_at repository pr issue attempt s \<longleftrightarrow>
     pr_Repository s = repository \<and> pr_Number s = pr \<and> pr_Issue s = issue \<and> pr_Attempt s = attempt"

definition ReceivedHandoff ::
  "(string \<Rightarrow> string) \<Rightarrow> PRState list \<Rightarrow> string \<Rightarrow> int \<Rightarrow> int \<Rightarrow> int \<Rightarrow> string \<Rightarrow> (RecoveryHandoff \<times> bool) option" where
  "ReceivedHandoff sha states repository pr issue attempt head =
     (case find (\<lambda>s. attempt_at repository pr issue attempt s \<and> pr_HeadSHA s = head) states of
        None \<Rightarrow> None
      | Some s \<Rightarrow>
          let h = receivedHandoff sha s in
          Some (h, (rh_Validation h \<or> rh_Feedback h \<noteq> []) \<and> receipted s (rh_Key h)))"

definition complete_work :: "RecoveryHandoff \<Rightarrow> PRState \<Rightarrow> PRState" where
  "complete_work h s =
     (let s1 = (if rh_Validation h \<and> pr_ValidationInFlightSHA s = rh_HeadSHA h
                then s\<lparr>pr_ValidationInFlightSHA := []\<rparr> else s);
          identities = map feedback_identity (rh_Feedback h) in
      with_feedback s1
        (map (\<lambda>f. if feedback_identity f \<in> set identities \<and> fb_Execution f = FeedbackInFlight
           then f\<lparr>fb_Execution := FeedbackCompleted\<rparr> else f) (state_feedback s1)))"

definition CompleteHandoff :: "PRState list \<Rightarrow> RecoveryHandoff \<Rightarrow> string + PRState list" where
  "CompleteHandoff states h = update_first (\<lambda>s. same_work s h) (\<lambda>s. Inr (complete_work h s)) head_missing states"

definition CompleteHandoffOutcome ::
  "(string \<Rightarrow> string) \<Rightarrow> PRState list \<Rightarrow> RecoveryHandoff \<Rightarrow> HandoffOutcome \<Rightarrow> string + PRState list" where
  "CompleteHandoffOutcome sha states h x =
     (if rh_Key h = [] \<or> ho_Key x \<noteq> rh_Key h \<or> rh_Key h \<noteq> handoffKey sha h then Inl ''handoff immutable key mismatch''
      else update_first (\<lambda>s. same_work s h) (\<lambda>s. ApplyHandoffOutcome sha s h x) head_missing states)"

section \<open>Publications\<close>

definition prepare_handoff ::
  "(string \<Rightarrow> string) \<Rightarrow> RecoveryHandoff \<Rightarrow> string \<Rightarrow> HandoffOutcome \<Rightarrow> PRState \<Rightarrow> string + PRState" where
  "prepare_handoff sha h head x s =
     (if \<not> receipted s (rh_Key h) \<or> receivedHandoff sha s \<noteq> h
      then Inl ''prepared publication does not match received handoff''
      else case ApplyHandoffOutcome sha s h x of
        Inl e \<Rightarrow> Inl e
      | Inr candidate \<Rightarrow>
          if rh_Validation h \<and> pr_ValidationInFlightSHA candidate \<noteq> []
          then Inl ''prepared publication cannot retain in-flight validation''
          else if \<not> every_item_completed (rh_Feedback h) (state_feedback candidate)
          then Inl ''prepared publication requires an outcome for every feedback item''
          else
            let p = \<lparr>pp_Handoff = h, pp_Outcome = x, pp_HeadSHA = head\<rparr> in
            if pr_PreparedPublication s \<noteq> None \<and> pr_PreparedPublication s \<noteq> Some p
            then Inl ''different publication is already prepared''
            else Inr (s\<lparr>pr_PreparedPublication := Some p\<rparr>))"

definition PrepareHandoffPublication ::
  "(string \<Rightarrow> string) \<Rightarrow> PRState list \<Rightarrow> RecoveryHandoff \<Rightarrow> string \<Rightarrow> HandoffOutcome \<Rightarrow> string + PRState list" where
  "PrepareHandoffPublication sha states h head x =
     (if \<not> regexpSHA head \<or> rh_Key h = [] \<or> rh_Key h \<noteq> handoffKey sha h \<or> ho_Key x \<noteq> rh_Key h
      then Inl ''prepared publication identity is invalid''
      else update_first (\<lambda>s. same_work s h) (prepare_handoff sha h head x) head_missing states)"

definition PrepareAttemptPublication ::
  "PRState list \<Rightarrow> string \<Rightarrow> int \<Rightarrow> int \<Rightarrow> int \<Rightarrow> string \<Rightarrow> string \<Rightarrow> string + PRState list \<times> PreparedPublication" where
  "PrepareAttemptPublication states repository pr issue attempt oldHead head =
     (let p = \<lparr>pp_Handoff = no_handoff\<lparr>rh_Repository := repository, rh_PR := pr, rh_Issue := issue,
            rh_Attempt := attempt, rh_HeadSHA := oldHead\<rparr>, pp_Outcome = empty_outcome, pp_HeadSHA = head\<rparr> in
      if repository = [] \<or> pr < 1 \<or> issue < 1 \<or> attempt < 1 \<or> \<not> regexpSHA oldHead \<or> \<not> regexpSHA head \<or> oldHead = head
      then Inl ''prepared attempt publication identity is invalid''
      else case update_first (\<lambda>s. attempt_at repository pr issue attempt s \<and> pr_HeadSHA s = oldHead)
          (\<lambda>s. if pr_PreparedPublication s \<noteq> None \<and> pr_PreparedPublication s \<noteq> Some p
            then Inl ''different publication is already prepared''
            else Inr (s\<lparr>pr_PreparedPublication := Some p\<rparr>)) head_missing states of
        Inl e \<Rightarrow> Inl e
      | Inr states' \<Rightarrow> Inr (states', p))"

definition prepared_with_handoff :: "string \<Rightarrow> int \<Rightarrow> int \<Rightarrow> PRState \<Rightarrow> bool" where
  "prepared_with_handoff repository issue attempt s \<longleftrightarrow>
     pr_Repository s = repository \<and> pr_Issue s = issue \<and> pr_Attempt s = attempt \<and>
     (case pr_PreparedPublication s of None \<Rightarrow> False | Some p \<Rightarrow> rh_Key (pp_Handoff p) \<noteq> [])"

definition PreparedHandoffPublication ::
  "(string \<Rightarrow> string) \<Rightarrow> PRState list \<Rightarrow> string \<Rightarrow> int \<Rightarrow> int \<Rightarrow> string + PreparedPublication option" where
  "PreparedHandoffPublication sha states repository issue attempt =
     (case find (prepared_with_handoff repository issue attempt) states of
        None \<Rightarrow> Inr None
      | Some s \<Rightarrow>
          let p = the (pr_PreparedPublication s) in
          if \<not> regexpSHA (pp_HeadSHA p) \<or> \<not> receipted s (rh_Key (pp_Handoff p)) \<or> receivedHandoff sha s \<noteq> pp_Handoff p
          then Inl ''prepared publication no longer matches durable handoff''
          else Inr (Some p))"

definition CompleteHandoffPublication ::
  "(string \<Rightarrow> string) \<Rightarrow> PRState list \<Rightarrow> PreparedPublication \<Rightarrow> string + PRState list" where
  "CompleteHandoffPublication sha states p =
     update_first
       (attempt_at (rh_Repository (pp_Handoff p)) (rh_PR (pp_Handoff p)) (rh_Issue (pp_Handoff p)) (rh_Attempt (pp_Handoff p)))
       (\<lambda>s. CompletePreparedPublication sha s p) attempt_missing states"

definition PullRequestState :: "PRState list \<Rightarrow> string \<Rightarrow> int \<Rightarrow> int \<Rightarrow> int \<Rightarrow> string \<Rightarrow> string + PRState" where
  "PullRequestState states repository number issue attempt head =
     (case find (attempt_at repository number issue attempt) states of
        None \<Rightarrow> Inl attempt_missing
      | Some s \<Rightarrow> Inr (s\<lparr>pr_Facts := (pr_Facts s)\<lparr>pf_BranchModifiedOutsideAttempt :=
          pf_BranchModifiedOutsideAttempt (pr_Facts s) \<or> pr_HeadSHA s = [] \<or> pr_HeadSHA s \<noteq> head\<rparr>\<rparr>))"

section \<open>Facts, feedback and validation\<close>

fun hydrate_one :: "(string \<Rightarrow> string) \<Rightarrow> RecoveryAttemptFact \<Rightarrow> PRState list \<Rightarrow> string + PRState list" where
  "hydrate_one sha f [] = Inr [fresh_pr_state zero_pr_state f]"
| "hydrate_one sha f (s # rest) =
     (let samePR = (pr_Repository s = af_Repository f \<and> pr_Number s = af_PR f);
          sameAttempt = (pr_Repository s = af_Repository f \<and> pr_Issue s = af_Issue f \<and> pr_Attempt s = af_Attempt f) in
      if \<not> samePR \<and> \<not> sameAttempt then
        (case hydrate_one sha f rest of Inl e \<Rightarrow> Inl e | Inr rest' \<Rightarrow> Inr (s # rest'))
      else if \<not> samePR \<or> \<not> sameAttempt
      then Inl ''authoritative pull request attempt conflicts with recovery state''
      else case move_head sha s f of Inl e \<Rightarrow> Inl e | Inr s' \<Rightarrow> Inr (s' # rest))"

fun hydrateAttempts :: "(string \<Rightarrow> string) \<Rightarrow> string \<Rightarrow> RecoveryAttemptFact list \<Rightarrow> PRState list \<Rightarrow> string + PRState list" where
  "hydrateAttempts sha repository [] states = Inr states"
| "hydrateAttempts sha repository (f # fs) states =
     (if af_State f \<noteq> ''active'' \<and> af_State f \<noteq> ''review-ready'' then hydrateAttempts sha repository fs states
      else if af_Repository f \<noteq> repository \<or> fact_unusable f
      then Inl ''authoritative pull request attempt has invalid identity''
      else case hydrate_one sha f states of
        Inl e \<Rightarrow> Inl e
      | Inr states' \<Rightarrow> hydrateAttempts sha repository fs states')"

definition sameAttempt :: "PRState \<Rightarrow> PRState \<Rightarrow> bool" where
  "sameAttempt a b \<longleftrightarrow> pr_Repository a = pr_Repository b \<and> pr_Number a = pr_Number b \<and> pr_Issue a = pr_Issue b \<and>
     pr_Attempt a = pr_Attempt b"

fun ClaimFeedback :: "PRState \<Rightarrow> Feedback \<Rightarrow> PRState list \<Rightarrow> string + PRState list \<times> bool" where
  "ClaimFeedback state f [] = Inl attempt_missing"
| "ClaimFeedback state f (s # rest) =
     (if \<not> sameAttempt s state then
        (case ClaimFeedback state f rest of Inl e \<Rightarrow> Inl e | Inr (rest', c) \<Rightarrow> Inr (s # rest', c))
      else if pr_HeadSHA state = [] \<or> pr_HeadSHA s \<noteq> pr_HeadSHA state
      then Inl ''feedback claim head no longer matches recovery state''
      else case claim_entry False f (state_feedback s) of
        Inl e \<Rightarrow> Inl e
      | Inr (fs, c) \<Rightarrow> Inr (with_feedback s fs # rest, c))"

definition QueueValidation :: "PRState \<Rightarrow> PRState list \<Rightarrow> string + PRState list" where
  "QueueValidation state states =
     update_first (\<lambda>s. sameAttempt s state)
       (\<lambda>s. if pr_HeadSHA state = [] then Inl ''validation head SHA is required''
         else Inr (s\<lparr>pr_ValidationQueuedSHA := pr_HeadSHA state, pr_ValidationGeneration := pr_ValidationGeneration s + 1\<rparr>))
       attempt_missing states"

end
