(* ===== verification/Pull_Properties.thy ===== *)
theory Pull_Properties
  imports Pull_Recovery_File
begin

text \<open>
  What the pull request policy and the recovery state promise.
\<close>

section \<open>Merging\<close>

definition feedback_settled :: "Feedback \<Rightarrow> bool" where
  "feedback_settled f \<longleftrightarrow> \<not> fb_Authorized f \<or> fb_State f \<notin> {[], FeedbackPending, FeedbackBlocked}"

lemma no_reasons: "policy_reasons f = [] \<longleftrightarrow>
    pf_HeadSHA f \<noteq> [] \<and> pf_ValidationSHA f = pf_HeadSHA f \<and> pf_DocumentationSHA f = pf_HeadSHA f \<and>
    \<not> pf_NeedsHumanReview f \<and> list_all feedback_settled (pf_Feedback f)"
  by (auto simp: policy_reasons_def feedback_reasons_def feedback_settled_def list_all_iff)

lemma no_blockers: "merge_blockers f = [] \<longleftrightarrow>
    pf_IssueOpen f \<and> pf_IssueEligible f \<and> pf_PRIsOpen f \<and> \<not> pf_Draft f \<and> pf_Mergeable f \<and>
    (pf_ApprovalRequired f \<longrightarrow> pf_Approved f) \<and> \<not> pf_ChangesRequested f \<and>
    (pf_CodeOwnerApprovalRequired f \<longrightarrow> pf_CodeOwnerApproved f) \<and>
    (pf_LastPushApprovalRequired f \<longrightarrow> pf_LastPushApproved f) \<and> pf_RequiredChecksPass f \<and>
    \<not> (pf_BaseRequiresCurrent f \<and> pf_Behind f) \<and> \<not> pf_ConflictingScope f \<and>
    \<not> pf_BranchModifiedOutsideAttempt f \<and> pf_MergePermission f"
  by (auto simp: merge_blockers_def)

text \<open>
  When a pull request is merged.  The policy allows the merge exactly when the issue asked for it
  and is open and eligible, the evidence and the documentation are those of the head, no authorized
  feedback is open, every required review is given and no change is requested, the checks passed, the
  branch is current, unmodified and without a conflicting scope, and the permission is there; then, and
  only for a pull request without a human review, the published status is a success.
\<close>

theorem merge_allowed_iff:
  "(po_Merge (EvaluatePR f) = (pf_AutonomousMerge f \<and> po_MergeBlockers (EvaluatePR f) = [])) \<and>
   (policyStatus (EvaluatePR f) = ''success'') = (po_MergeBlockers (EvaluatePR f) = []) \<and>
   (po_MergeBlockers (EvaluatePR f) = []) =
     (pf_HeadSHA f \<noteq> [] \<and> pf_ValidationSHA f = pf_HeadSHA f \<and> pf_DocumentationSHA f = pf_HeadSHA f \<and>
      \<not> pf_NeedsHumanReview f \<and> list_all feedback_settled (pf_Feedback f) \<and>
      pf_IssueOpen f \<and> pf_IssueEligible f \<and> pf_PRIsOpen f \<and> \<not> pf_Draft f \<and> pf_Mergeable f \<and>
      \<not> (pf_ApprovalRequired f \<and> \<not> pf_Approved f) \<and> \<not> pf_ChangesRequested f \<and>
      \<not> (pf_CodeOwnerApprovalRequired f \<and> \<not> pf_CodeOwnerApproved f) \<and>
      \<not> (pf_LastPushApprovalRequired f \<and> \<not> pf_LastPushApproved f) \<and> pf_RequiredChecksPass f \<and>
      \<not> (pf_BaseRequiresCurrent f \<and> pf_Behind f) \<and> \<not> pf_ConflictingScope f \<and>
      \<not> pf_BranchModifiedOutsideAttempt f \<and> pf_MergePermission f)"
  unfolding EvaluatePR_def Let_def by (auto simp: policyStatus_def no_reasons no_blockers)

section \<open>Actionable feedback\<close>

interpretation feedback_order: go_compare compareFeedback
  by unfold_locales (auto simp: compareFeedback_def compare_ord_def split: if_splits)

lemma compareFeedback_0: "compareFeedback a b = 0 \<Longrightarrow> feedback_identity a = feedback_identity b"
  by (auto simp: compareFeedback_def Let_def split: if_splits)

lemma keep_actionable_sub: "set (keep_actionable a seen fs) \<subseteq> set fs"
  by (induction fs arbitrary: seen) (auto simp: Let_def)

lemma keep_actionable_seen: "f \<in> set (keep_actionable a seen fs) \<Longrightarrow> feedback_identity f \<notin> set seen"
  by (induction fs arbitrary: seen) (fastforce simp: Let_def split: if_splits)+

lemma keep_actionable_distinct: "distinct (map feedback_identity (keep_actionable a seen fs))"
  by (induction fs arbitrary: seen) (auto simp: Let_def dest: keep_actionable_seen)

lemma keep_actionable_dropped: "f \<in> set (keep_actionable a seen fs) \<Longrightarrow> \<not> feedback_dropped a f"
  by (induction fs arbitrary: seen) (auto simp: Let_def split: if_splits)

lemma keep_actionable_sorted: "sorted_wrt r fs \<Longrightarrow> sorted_wrt r (keep_actionable a seen fs)"
  by (induction fs arbitrary: seen) (use keep_actionable_sub in \<open>fastforce simp: Let_def\<close>)+

lemma keep_actionable_complete:
  "distinct (map feedback_identity fs) \<Longrightarrow> set (keep_actionable a seen fs) =
     {f \<in> set fs. feedback_identity f \<notin> set seen \<and> \<not> feedback_dropped a f}"
  by (induction fs arbitrary: seen) (auto simp: Let_def rev_image_eqI)

text \<open>
  The feedback to act on.  When no two pieces of feedback share an identity, the actionable ones
  are exactly those that are authorized, not blank, not settled and not in execution, each once and in
  the order of their creation, and the order in which GitHub listed them does not matter.
\<close>

theorem actionable_exact:
  assumes "distinct (map feedback_identity fs)" "mset gs = mset fs"
  shows "set (ActionableFeedback fs (Some a)) = {f \<in> set fs. \<not> feedback_dropped a f} \<and>
    distinct (ActionableFeedback fs (Some a)) \<and>
    sorted_wrt (\<lambda>f g. fb_CreatedAt f \<le> fb_CreatedAt g) (ActionableFeedback fs (Some a)) \<and>
    ActionableFeedback gs (Some a) = ActionableFeedback fs (Some a)"
proof -
  let ?s = "sort_func compareFeedback fs"
  have inj: "f = g" if "f \<in> set fs" "g \<in> set fs" "feedback_identity f = feedback_identity g" for f g
    using assms(1) that by (auto simp: distinct_map inj_on_def)
  have perm: "sort_func compareFeedback gs = ?s"
  proof (rule feedback_order.sort_func_perm[OF assms(2)])
    fix f g
    assume "f \<in> set gs" "g \<in> set gs" "compareFeedback f g = 0"
    then show "f = g" using inj assms(2) by (metis compareFeedback_0 mset_eq_setD)
  qed
  have d: "distinct (map feedback_identity ?s)"
    using assms(1) by (simp add: distinct_map)
  have "sorted_wrt (cmp_le compareFeedback) (keep_actionable a [] ?s)"
    by (rule keep_actionable_sorted[OF feedback_order.sorted_sort_func])
  then have "sorted_wrt (\<lambda>f g. fb_CreatedAt f \<le> fb_CreatedAt g) (keep_actionable a [] ?s)"
    by (rule sorted_wrt_mono_rel[rotated]) (auto simp: cmp_le_def compareFeedback_def compare_ord_def Let_def split: if_splits)
  moreover have "distinct (keep_actionable a [] ?s)"
    using keep_actionable_distinct[of a "[]" ?s] by (simp add: distinct_map)
  ultimately show ?thesis
    using perm keep_actionable_complete[OF d, of a "[]"] by (simp add: ActionableFeedback_def)
qed

definition sample_feedback :: "int \<Rightarrow> string \<Rightarrow> int \<Rightarrow> Feedback" where
  "sample_feedback i body at = \<lparr>fb_ID = i, fb_Source = ''review'', fb_ActorID = 9, fb_Body = body, fb_CreatedAt = at,
     fb_State = [], fb_Execution = [], fb_Authorized = True, fb_Delegated = False, fb_Evidence = []\<rparr>"

theorem actionable_exact_witness:
  "ActionableFeedback [sample_feedback 2 ''b'' 5, sample_feedback 1 ''a'' 3] (Some (\<lambda>_. True)) =
     ActionableFeedback [sample_feedback 1 ''a'' 3, sample_feedback 2 ''b'' 5] (Some (\<lambda>_. True))"
proof -
  have "feedback_identity (sample_feedback 1 ''a'' 3) \<noteq> feedback_identity (sample_feedback 2 ''b'' 5)"
    by code_simp
  then show ?thesis
    by (intro actionable_exact[THEN conjunct2, THEN conjunct2, THEN conjunct2]) simp_all
qed

end
