(* ===== verification/Pull_Recovery_Properties.thy ===== *)
theory Pull_Recovery_Properties
  imports Pull_Properties
begin

text \<open>
  What the recovery state of a pull request promises over any sequence of its operations: work is
  executed once, receipts and evidence are never lost, lost answers can be repeated, and a prepared
  publication can be completed.
\<close>

section \<open>Claims happen once\<close>

text \<open>The interface \<^verbatim>\<open>AttemptRecovery\<close> as its client \<^verbatim>\<open>RecoverySignals\<close> uses it.\<close>

locale feedback_claims =
  fixes claim :: "'st \<Rightarrow> PRState \<Rightarrow> Feedback \<Rightarrow> string + 'st \<times> bool"
  assumes claim_again: "claim st p f = Inr (st', c) \<Longrightarrow> claim st' p f = Inr (st', False)"
begin

lemma delegate_again:
  assumes "claim st p f = Inr (st1, c)" "claim st1 p f = Inr (st2, d)"
  shows "st2 = st1 \<and> \<not> d"
  using claim_again[OF assms(1)] assms(2) by simp

lemma claims_settle:
  assumes "claim st p f = Inr (st1, c)"
  shows "fold (\<lambda>_ r. case r of Inl e \<Rightarrow> Inl e | Inr st \<Rightarrow> map_sum id fst (claim st p f)) (ns::nat list) (Inr st1) = Inr st1"
  using claim_again[OF assms] by (induction ns) simp_all

end

lemma claim_entry_again:
  "claim_entry strict f fs = Inr (fs', c) \<Longrightarrow> claim_entry strict f fs' = Inr (fs', False)"
proof (induction fs arbitrary: fs' c)
  case (Cons x xs)
  show ?case
  proof (cases "feedback_identity x = feedback_identity f")
    case True
    then show ?thesis
      using Cons.prems by (auto simp: claimed_before_def claimed_feedback_def immutable_changed_def feedback_identity_def
          split: if_splits)
  next
    case False
    then obtain ys where "claim_entry strict f xs = Inr (ys, c)" "fs' = x # ys"
      using Cons.prems by (auto split: sum.splits)
    then show ?thesis using Cons.IH False by simp
  qed
qed (auto simp: claimed_before_def claimed_feedback_def immutable_changed_def feedback_identity_def)

lemma claim_state_again:
  assumes "ClaimFeedbackState s f = Inr (s', c)"
  shows "ClaimFeedbackState s' f = Inr (s', False)"
proof -
  obtain fs where fs: "claim_entry True f (state_feedback s) = Inr (fs, c)" and s': "s' = with_feedback s fs"
    using assms by (auto simp: ClaimFeedbackState_def split: if_splits sum.splits)
  have "\<not> claim_malformed s' f"
    using assms by (auto simp: ClaimFeedbackState_def claim_malformed_def s' split: if_splits)
  then show ?thesis
    using claim_entry_again[OF fs] by (simp add: ClaimFeedbackState_def s' with_feedback_def)
qed

lemma claim_file_again:
  "ClaimFeedback state f states = Inr (states', c) \<Longrightarrow> ClaimFeedback state f states' = Inr (states', False)"
proof (induction states arbitrary: states' c)
  case (Cons s rest)
  show ?case
  proof (cases "sameAttempt s state")
    case True
    then obtain fs where "pr_HeadSHA state \<noteq> []" "pr_HeadSHA s = pr_HeadSHA state"
      "claim_entry False f (state_feedback s) = Inr (fs, c)" "states' = with_feedback s fs # rest"
      using Cons.prems by (auto split: if_splits sum.splits)
    moreover have "sameAttempt (with_feedback s fs) state" using True by (simp add: sameAttempt_def)
    ultimately show ?thesis
      using claim_entry_again by (fastforce simp: with_feedback_def)
  next
    case False
    then obtain ys where "ClaimFeedback state f rest = Inr (ys, c)" "states' = s # ys"
      using Cons.prems by (auto split: sum.splits)
    then show ?thesis using Cons.IH False by simp
  qed
qed simp

interpretation state_claims: feedback_claims "\<lambda>s _ f. ClaimFeedbackState s f"
  by unfold_locales (rule claim_state_again)

interpretation file_claims: feedback_claims "\<lambda>states state f. ClaimFeedback state f states"
  by unfold_locales (rule claim_file_again)

text \<open>
  Feedback is delegated once.  However often the coordinator delegates the same feedback, to the
  file or to one state, only the first time can claim it, and every later time is accepted and
  changes nothing.
\<close>

theorem delegated_once:
  assumes "ClaimFeedback state f states = Inr (states', c)" "ClaimFeedbackState s g = Inr (s', d)"
  shows "ClaimFeedback state f states' = Inr (states', False) \<and> ClaimFeedbackState s' g = Inr (s', False)"
  using file_claims.claim_again[OF assms(1)] state_claims.claim_again[OF assms(2)] by simp

section \<open>Handoffs\<close>

lemma handoff_of_key [simp]: "rh_Key (handoff_of sha s v fs) = handoffKey sha (handoff_of sha s v fs)"
  by (simp add: handoff_of_def handoffKey_def handoff_text_def Let_def)

lemma claim_work_fields [simp]:
  "pr_HeadSHA (claim_work q s) = pr_HeadSHA s" "pr_HandoffReceipts (claim_work q s) = pr_HandoffReceipts s"
  "pr_Repository (claim_work q s) = pr_Repository s" "pr_Number (claim_work q s) = pr_Number s"
  "pr_Issue (claim_work q s) = pr_Issue s" "pr_Attempt (claim_work q s) = pr_Attempt s"
  "pr_ValidationInFlightSHA (claim_work q s) = (if q then pr_HeadSHA s else pr_ValidationInFlightSHA s)"
  "pr_ValidationQueuedSHA (claim_work q s) = (if q then [] else pr_ValidationQueuedSHA s)"
  "state_feedback (claim_work q s) = map (\<lambda>f. if executing f then in_flight f else f) (state_feedback s)"
  by (simp_all add: claim_work_def)

lemma executing_in_flight [simp]: "executing (in_flight f)" "in_flight (in_flight f) = in_flight f"
  by (simp_all add: executing_def in_flight_def)

lemma in_flight_settled [simp]:
  "map (\<lambda>f. if executing f then in_flight f else f) (map (\<lambda>f. if executing f then in_flight f else f) fs) =
   map (\<lambda>f. if executing f then in_flight f else f) fs"
  by simp

lemma claim_work_settled: "claim_work False (claim_work q s) = claim_work q s"
  by (simp add: claim_work_def with_feedback_def)

lemma claim_work_receipts: "claim_work q (s\<lparr>pr_HandoffReceipts := r\<rparr>) = (claim_work q s)\<lparr>pr_HandoffReceipts := r\<rparr>"
  by (cases s) (simp add: claim_work_def with_feedback_def)

lemma ClaimHandoffState_received:
  assumes "ClaimHandoffState sha s = Inr (s', h, b)"
  shows "s' = claim_work (pr_ValidationQueuedSHA s = pr_HeadSHA s) s" "h = receivedHandoff sha s'"
    "b = (\<not> receipted s' (rh_Key h) \<and> (rh_Validation h \<or> rh_Feedback h \<noteq> []))" "pr_HeadSHA s \<noteq> []"
proof -
  show head: "pr_HeadSHA s \<noteq> []"
    using assms by (auto simp: ClaimHandoffState_def regexpSHA_def split: if_splits)
  show "s' = claim_work (pr_ValidationQueuedSHA s = pr_HeadSHA s) s" "h = receivedHandoff sha s'"
    "b = (\<not> receipted s' (rh_Key h) \<and> (rh_Validation h \<or> rh_Feedback h \<noteq> []))"
    using assms head by (auto simp: ClaimHandoffState_def receivedHandoff_def Let_def split: if_splits)
qed

lemma claim_handoff_again:
  assumes "ClaimHandoffState sha s = Inr (s', h, b)"
  shows "ClaimHandoffState sha (s'\<lparr>pr_HandoffReceipts := r\<rparr>) =
    Inr (s'\<lparr>pr_HandoffReceipts := r\<rparr>, h, \<not> fm_get r (rh_Key h) False \<and> (rh_Validation h \<or> rh_Feedback h \<noteq> []))"
proof -
  note c = ClaimHandoffState_received[OF assms]
  let ?t = "s'\<lparr>pr_HandoffReceipts := r\<rparr>"
  have f: "pr_HeadSHA s' = pr_HeadSHA s" "pr_Repository s' = pr_Repository s" "pr_Number s' = pr_Number s"
    "pr_Issue s' = pr_Issue s" "pr_Attempt s' = pr_Attempt s"
    by (simp_all add: c(1))
  have i: "pr_Repository s' \<noteq> []" "\<not> pr_Number s' < 1" "\<not> pr_Issue s' < 1" "\<not> pr_Attempt s' < 1" "regexpSHA (pr_HeadSHA s')"
    using assms by (auto simp: ClaimHandoffState_def f split: if_splits)
  have q: "pr_ValidationQueuedSHA s' \<noteq> pr_HeadSHA s'" using c(4) by (simp add: c(1))
  have w: "claim_work False ?t = ?t"
    using claim_work_settled[of "pr_ValidationQueuedSHA s = pr_HeadSHA s" s] unfolding c(1)[symmetric]
    by (simp add: claim_work_receipts)
  have h: "handoff_of sha ?t (pr_ValidationInFlightSHA s' = pr_HeadSHA s')
      (filter (\<lambda>f. fb_Execution f = FeedbackInFlight) (state_feedback s')) = h"
    using c(2,4) f(1) by (simp add: receivedHandoff_def handoff_of_def)
  have m: "map (\<lambda>f. if executing f then in_flight f else f) (state_feedback s') = state_feedback s'"
    unfolding c(1) by (simp only: claim_work_fields in_flight_settled)
  have "rh_Key h = handoffKey sha h" using c(2) by (simp add: receivedHandoff_def)
  then show ?thesis
    using i q by (simp add: ClaimHandoffState_def Let_def receipted_def w h m)
qed

text \<open>
  A handoff is delivered until it is received, and then no more.  Claiming again without a receipt
  returns the same handoff and leaves the state as it is; the claimed handoff is accepted as received;
  after the receipt a claim still names it but asks for no delivery.
\<close>

theorem handoff_delivery:
  assumes "ClaimHandoffState sha s = Inr (s', h, b)" "rh_Key h \<noteq> []"
  shows "ClaimHandoffState sha s' = Inr (s', h, b) \<and>
    (let r = s'\<lparr>pr_HandoffReceipts := fmupd (rh_Key h) True (pr_HandoffReceipts s')\<rparr> in
     ReceiptHandoffState sha s' h = Inr r \<and> ReceiptHandoffState sha r h = Inr r \<and>
     ClaimHandoffState sha r = Inr (r, h, False))"
proof -
  note c = ClaimHandoffState_received[OF assms(1)] and again = claim_handoff_again[OF assms(1)]
  let ?r = "s'\<lparr>pr_HandoffReceipts := fmupd (rh_Key h) True (pr_HandoffReceipts s')\<rparr>"
  have "ClaimHandoffState sha s' = Inr (s', h, b)"
    using again[of "pr_HandoffReceipts s'"] c(3) by (simp add: receipted_def)
  moreover have "receivedHandoff sha ?r = receivedHandoff sha s'"
    by (simp add: receivedHandoff_def handoff_of_def)
  moreover have "rh_Key h = handoffKey sha h" using c(2) by (simp add: receivedHandoff_def)
  ultimately show ?thesis
    using again[of "fmupd (rh_Key h) True (pr_HandoffReceipts s')"] c(2) assms(2)
    by (simp add: ReceiptHandoffState_def RecoveryHandoffCurrent_def Let_def fm_get_upd fmupd_idem)
qed

text \<open>
  The file and the single state claim alike.  On a state with a valid identity the claim that goes
  over the whole file moves the state as the single claim does and returns its handoff exactly when the
  single claim asks for a delivery.
\<close>

theorem claims_agree:
  assumes "ClaimHandoffState sha s = Inr (s', h, b)"
  shows "claim_state sha s = (s', if b then [h] else []) \<and>
    ClaimHandoffs sha [s] = ([s'], if b then [h] else [])"
proof -
  note c = ClaimHandoffState_received[OF assms]
  have q: "pr_ValidationQueuedSHA s' \<noteq> [] \<Longrightarrow> pr_HeadSHA s' \<noteq> []" using c(1,4) by simp
  have "claim_state sha s = (s', if b then [h] else [])"
    using c by (auto simp: claim_state_def receivedHandoff_def Let_def)
  then show ?thesis
    by (simp add: ClaimHandoffs_def ClaimHandoffsFor_def owner_wanted_def Let_def)
qed

section \<open>Outcomes\<close>

lemma outcomes_unawaited:
  assumes "list_all (\<lambda>got. 0 < fo_ID got \<and> fo_Evidence got \<noteq> [] \<and>
      (fo_State got = FeedbackAddressed \<or> fo_State got = FeedbackBlocked) \<and>
      list_ex (outcome_recorded got) fs \<and> \<not> list_ex (outcome_awaited got) fs) xs"
  shows "apply_feedback_outcomes xs fs = Inr fs"
  using assms
proof (induction xs)
  case (Cons got xs)
  then have "map (\<lambda>f. if outcome_awaited got f then completed_feedback got f else f) fs = fs"
    by (auto simp: list_ex_iff intro!: map_idI)
  with Cons show ?case by (auto simp: list_ex_iff)
qed simp

lemma completed_not_awaited [simp]: "\<not> outcome_awaited got (completed_feedback other f)"
  by (simp add: outcome_awaited_def completed_feedback_def)

lemma outcome_recorded_completed:
  "outcome_awaited got f \<Longrightarrow> outcome_recorded got (completed_feedback got f)"
  by (simp add: outcome_awaited_def outcome_recorded_def completed_feedback_def)

lemma recorded_not_awaited: "outcome_recorded got f \<Longrightarrow> \<not> outcome_awaited other f"
  by (auto simp: outcome_recorded_def outcome_awaited_def)

lemma outcomes_keep_recorded:
  assumes "apply_feedback_outcomes xs fs = Inr gs" "list_ex (outcome_recorded got) fs"
  shows "list_ex (outcome_recorded got) gs"
  using assms
proof (induction xs arbitrary: fs)
  case (Cons x xs)
  have "list_ex (outcome_recorded got) (map (\<lambda>f. if outcome_awaited x f then completed_feedback x f else f) fs)"
    using Cons.prems(2) recorded_not_awaited by (fastforce simp: list_ex_iff)
  then show ?case using Cons.IH Cons.prems(1) by (auto split: if_splits)
qed simp

lemma outcomes_keep_unawaited:
  assumes "apply_feedback_outcomes xs fs = Inr gs" "\<not> list_ex (outcome_awaited got) fs"
  shows "\<not> list_ex (outcome_awaited got) gs"
  using assms
proof (induction xs arbitrary: fs)
  case (Cons x xs)
  have "\<not> list_ex (outcome_awaited got) (map (\<lambda>f. if outcome_awaited x f then completed_feedback x f else f) fs)"
    using Cons.prems(2) by (auto simp: list_ex_iff)
  then show ?case using Cons.IH Cons.prems(1) by (auto split: if_splits)
qed simp

lemma outcomes_again:
  assumes "apply_feedback_outcomes xs fs = Inr gs"
  shows "apply_feedback_outcomes xs gs = Inr gs"
proof (rule outcomes_unawaited)
  show "list_all (\<lambda>got. 0 < fo_ID got \<and> fo_Evidence got \<noteq> [] \<and>
      (fo_State got = FeedbackAddressed \<or> fo_State got = FeedbackBlocked) \<and>
      list_ex (outcome_recorded got) gs \<and> \<not> list_ex (outcome_awaited got) gs) xs"
    using assms
  proof (induction xs arbitrary: fs)
    case (Cons x xs)
    let ?fs = "map (\<lambda>f. if outcome_awaited x f then completed_feedback x f else f) fs"
    from Cons.prems have p: "0 < fo_ID x" "fo_Evidence x \<noteq> []" "fo_State x = FeedbackAddressed \<or> fo_State x = FeedbackBlocked"
      "list_ex (\<lambda>f. outcome_recorded x f \<or> outcome_awaited x f) fs" "apply_feedback_outcomes xs ?fs = Inr gs"
      by (auto split: if_splits)
    obtain f where f: "f \<in> set fs" "outcome_recorded x f \<or> outcome_awaited x f" using p(4) by (auto simp: list_ex_iff)
    then have "outcome_recorded x (if outcome_awaited x f then completed_feedback x f else f)"
      using outcome_recorded_completed by auto
    then have "list_ex (outcome_recorded x) ?fs" using f(1) unfolding list_ex_iff set_map by blast
    moreover have "\<not> list_ex (outcome_awaited x) ?fs" by (auto simp: list_ex_iff)
    ultimately show ?case
      using Cons.IH[OF p(5)] p(1-3) outcomes_keep_recorded[OF p(5)] outcomes_keep_unawaited[OF p(5)] by simp
  qed simp
qed

lemma ApplyHandoffOutcome_cases:
  assumes "ApplyHandoffOutcome sha s h x = Inr s'"
  obtains s1 fs where "rh_Key h \<noteq> []" "ho_Key x = rh_Key h" "rh_Key h = handoffKey sha h" "same_work s h"
    "apply_validation_outcome s h x = Inr s1" "apply_feedback_outcomes (ho_Feedback x) (state_feedback s1) = Inr fs"
    "s' = with_feedback s1 fs"
  using assms by (auto simp: ApplyHandoffOutcome_def split: if_splits sum.splits)

lemma validation_outcome_fields:
  assumes "apply_validation_outcome s h x = Inr s1"
  shows "pr_Facts s1 = pr_Facts s" "same_work s1 h = same_work s h" "pr_HandoffReceipts s1 = pr_HandoffReceipts s"
    "pr_HeadSHA s1 = pr_HeadSHA s" "pr_ValidationGeneration s1 = pr_ValidationGeneration s"
  using assms by (auto simp: apply_validation_outcome_def same_work_def Let_def split: if_splits)

lemma validation_result_same:
  "pr_ValidationResult t = a \<Longrightarrow> pr_ValidationEvidence t = b \<Longrightarrow> t\<lparr>pr_ValidationResult := a, pr_ValidationEvidence := b\<rparr> = t"
  by (cases t) simp

lemma validation_outcome_again:
  assumes "apply_validation_outcome s h x = Inr s1"
  shows "apply_validation_outcome (with_feedback s1 fs) h x = Inr (with_feedback s1 fs)"
proof (cases "rh_Validation h")
  case True
  then have g: "ho_ValidationEvidence x \<noteq> []" "ho_ValidationResult x \<in> set [''passed'', ''failed'', ''blocked'']"
    using assms by (simp_all add: apply_validation_outcome_def split: if_splits)
  have "pr_ValidationResult s1 = ho_ValidationResult x \<and> pr_ValidationEvidence s1 = ho_ValidationEvidence x \<and>
    (pr_ValidationInFlightSHA s1 = [] \<or> pr_ValidationInFlightSHA s1 = rh_HeadSHA h \<and> ho_Retryable x)"
    using assms True g unfolding apply_validation_outcome_def Let_def by (simp split: if_splits) force+
  then show ?thesis
    using True g validation_result_same[of "with_feedback s1 fs"]
    by (auto simp: apply_validation_outcome_def Let_def)
qed (use assms in \<open>simp add: apply_validation_outcome_def\<close>)

text \<open>
  Outcomes can be repeated.  An outcome that was accepted is accepted again on the state it made and
  changes nothing: the worker's report survives a restart between its persistence and its removal.
\<close>

theorem outcome_again:
  assumes "ApplyHandoffOutcome sha s h x = Inr s'"
  shows "ApplyHandoffOutcome sha s' h x = Inr s'"
  using assms
proof (cases rule: ApplyHandoffOutcome_cases)
  case (1 s1 fs)
  note v = validation_outcome_fields[OF 1(5)]
  have "same_work s' h" using 1(4,7) v(2) by (simp add: same_work_def)
  then show ?thesis
    using 1(1-3) validation_outcome_again[OF 1(5)] outcomes_again[OF 1(6)]
    by (simp add: ApplyHandoffOutcome_def 1(7)) (simp add: with_feedback_def)
qed

section \<open>Sequences of operations\<close>

datatype recovery_op =
    OpClaimFeedback Feedback
  | OpQueueValidation string
  | OpClaimHandoff
  | OpReceipt RecoveryHandoff
  | OpOutcome RecoveryHandoff HandoffOutcome
  | OpPrepare PreparedPublication
  | OpComplete PreparedPublication
  | OpHydrate RecoveryAttemptFact

fun recovery_apply :: "(string \<Rightarrow> string) \<Rightarrow> PRState \<Rightarrow> recovery_op \<Rightarrow> string + PRState" where
  "recovery_apply sha s (OpClaimFeedback f) = map_sum id fst (ClaimFeedbackState s f)"
| "recovery_apply sha s (OpQueueValidation head) = QueueValidationState s head"
| "recovery_apply sha s OpClaimHandoff = map_sum id fst (ClaimHandoffState sha s)"
| "recovery_apply sha s (OpReceipt h) = ReceiptHandoffState sha s h"
| "recovery_apply sha s (OpOutcome h x) = ApplyHandoffOutcome sha s h x"
| "recovery_apply sha s (OpPrepare p) = PreparePublicationState sha s p"
| "recovery_apply sha s (OpComplete p) = CompletePreparedPublication sha s p"
| "recovery_apply sha s (OpHydrate f) = HydrateRecoveryState sha s f"

inductive recovery_run :: "(string \<Rightarrow> string) \<Rightarrow> PRState \<Rightarrow> recovery_op list \<Rightarrow> PRState \<Rightarrow> bool" for sha where
  nothing: "recovery_run sha s [] s"
| accepted: "recovery_apply sha s oper = Inr s1 \<Longrightarrow> recovery_run sha s1 ops s2 \<Longrightarrow> recovery_run sha s (oper # ops) s2"
| refused: "recovery_apply sha s oper = Inl e \<Longrightarrow> recovery_run sha s ops s2 \<Longrightarrow> recovery_run sha s (oper # ops) s2"

inductive_cases recovery_run_NilE: "recovery_run sha s [] s'"
inductive_cases recovery_run_ConsE: "recovery_run sha s (oper # ops) s'"

text \<open>How far the execution of one piece of feedback is.\<close>

definition execution_rank :: "string \<Rightarrow> nat" where
  "execution_rank e = (if e = [] then 0 else if e = FeedbackClaimed then 1 else if e = FeedbackInFlight then 2 else 3)"

definition same_item :: "Feedback \<Rightarrow> Feedback \<Rightarrow> bool" where
  "same_item f g \<longleftrightarrow> fb_ID f = fb_ID g \<and> fb_Source f = fb_Source g \<and> fb_ActorID f = fb_ActorID g \<and>
     fb_Body f = fb_Body g \<and> fb_CreatedAt f = fb_CreatedAt g \<and> fb_Authorized f = fb_Authorized g"

definition item_progress :: "Feedback \<Rightarrow> Feedback \<Rightarrow> bool" where
  "item_progress f g \<longleftrightarrow> same_item f g \<and> execution_rank (fb_Execution f) \<le> execution_rank (fb_Execution g) \<and>
     (fb_Execution f = FeedbackCompleted \<longrightarrow> g = f)"

lemma item_progress_refl [simp]: "item_progress f f"
  by (simp add: item_progress_def same_item_def)

lemma item_progress_trans: "item_progress f g \<Longrightarrow> item_progress g h \<Longrightarrow> item_progress f h"
  by (auto simp: item_progress_def same_item_def)

lemma items_progress_refl [simp]: "list_all2 item_progress fs fs"
  by (simp add: list_all2_refl)

lemma items_progress_map: "(\<And>f. f \<in> set fs \<Longrightarrow> item_progress f (u f)) \<Longrightarrow> list_all2 item_progress fs (map u fs)"
  by (induction fs) auto

text \<open>What no operation undoes.\<close>

definition recovery_grows :: "PRState \<Rightarrow> PRState \<Rightarrow> bool" where
  "recovery_grows s s' \<longleftrightarrow>
     pr_Repository s' = pr_Repository s \<and> pr_Number s' = pr_Number s \<and> pr_Issue s' = pr_Issue s \<and>
     pr_Attempt s' = pr_Attempt s \<and> pr_ValidationGeneration s \<le> pr_ValidationGeneration s' \<and>
     (\<forall>k. receipted s k \<longrightarrow> receipted s' k) \<and>
     list_all2 item_progress (state_feedback s) (take (length (state_feedback s)) (state_feedback s'))"

lemma recovery_grows_refl [simp]: "recovery_grows s s"
  by (simp add: recovery_grows_def)

lemma items_progress_trans:
  assumes "list_all2 item_progress fs (take (length fs) gs)" "list_all2 item_progress gs (take (length gs) hs)"
  shows "list_all2 item_progress fs (take (length fs) hs)"
proof -
  have l: "length fs \<le> length gs" "length gs \<le> length hs"
    using assms by (auto dest!: list_all2_lengthD)
  have "item_progress (fs ! i) (hs ! i)" if "i < length fs" for i
    using that l list_all2_nthD[OF assms(1), of i] list_all2_nthD[OF assms(2), of i] item_progress_trans[of "fs ! i" "gs ! i" "hs ! i"]
    by simp
  with l show ?thesis by (simp add: list_all2_conv_all_nth)
qed

lemma recovery_grows_trans: "recovery_grows s t \<Longrightarrow> recovery_grows t u \<Longrightarrow> recovery_grows s u"
  unfolding recovery_grows_def using items_progress_trans by (metis order_trans)

lemma item_progress_claim: "\<not> claimed_before f \<Longrightarrow> item_progress f (claimed_feedback f)"
  by (auto simp: item_progress_def same_item_def claimed_feedback_def claimed_before_def execution_rank_def)

lemma item_progress_in_flight: "executing f \<Longrightarrow> item_progress f (in_flight f)"
  by (auto simp: item_progress_def same_item_def executing_def in_flight_def execution_rank_def)

lemma item_progress_completed: "outcome_awaited got f \<Longrightarrow> item_progress f (completed_feedback got f)"
  by (auto simp: item_progress_def same_item_def outcome_awaited_def completed_feedback_def execution_rank_def)

lemma claim_entry_progress:
  "claim_entry strict f fs = Inr (gs, c) \<Longrightarrow> list_all2 item_progress fs (take (length fs) gs)"
proof (induction fs arbitrary: gs c)
  case (Cons x xs)
  show ?case
  proof (cases "feedback_identity x = feedback_identity f")
    case True
    then show ?thesis using Cons.prems item_progress_claim by (auto split: if_splits)
  next
    case False
    then show ?thesis using Cons.prems Cons.IH by (auto split: sum.splits)
  qed
qed simp

lemma outcomes_progress:
  "apply_feedback_outcomes xs fs = Inr gs \<Longrightarrow> length gs = length fs \<and> list_all2 item_progress fs gs"
proof (induction xs arbitrary: fs)
  case (Cons x xs)
  let ?fs = "map (\<lambda>f. if outcome_awaited x f then completed_feedback x f else f) fs"
  have r: "length gs = length ?fs" "list_all2 item_progress ?fs gs"
    using Cons.IH[of ?fs] Cons.prems by (auto split: if_splits)
  have "list_all2 item_progress fs ?fs"
    by (rule items_progress_map) (simp add: item_progress_completed)
  then show ?case
    using r items_progress_trans[of fs ?fs gs] by simp
qed simp

lemma grows_outcome:
  assumes "ApplyHandoffOutcome sha s h x = Inr s'"
  shows "recovery_grows s s'"
  using assms
proof (cases rule: ApplyHandoffOutcome_cases)
  case (1 s1 fs)
  note v = validation_outcome_fields[OF 1(5)]
  have "pr_Repository s1 = pr_Repository s" "pr_Number s1 = pr_Number s" "pr_Issue s1 = pr_Issue s" "pr_Attempt s1 = pr_Attempt s"
    using 1(4) v(2) by (simp_all add: same_work_def)
  then show ?thesis
    using outcomes_progress[OF 1(6)] v by (simp add: 1(7) recovery_grows_def receipted_def)
qed

lemma grows_advance: "recovery_grows s (advancePublicationHead s head)"
  by (simp add: recovery_grows_def advancePublicationHead_def receipted_def)

lemma grows_complete:
  assumes "CompletePreparedPublication sha s p = Inr s'"
  shows "recovery_grows s s'"
  using assms recovery_grows_trans[OF grows_outcome grows_advance] grows_advance
  by (auto simp: CompletePreparedPublication_def split: if_splits sum.splits)

lemma grows_hydrate:
  assumes "HydrateRecoveryState sha s f = Inr s'" "pr_Number s \<noteq> 0"
  shows "recovery_grows s s'"
  using assms grows_complete grows_advance
  by (auto simp: HydrateRecoveryState_def move_head_def advance_if_idle_def split: if_splits option.splits)

lemma grows_apply:
  assumes "recovery_apply sha s oper = Inr s'" "pr_Number s \<noteq> 0"
  shows "recovery_grows s s'"
proof (cases oper)
  case (OpClaimFeedback f)
  then show ?thesis
    using assms(1) claim_entry_progress
    by (auto simp: ClaimFeedbackState_def recovery_grows_def receipted_def split: if_splits sum.splits)
next
  case (OpQueueValidation head)
  have "pr_ValidationGeneration s \<noteq> uint64_max \<Longrightarrow> pr_ValidationGeneration s \<le> pr_ValidationGeneration s + 1"
    using uint64_inc_gt[of "pr_ValidationGeneration s"] by simp
  then show ?thesis
    using OpQueueValidation assms(1) by (auto simp: QueueValidationState_def recovery_grows_def receipted_def split: if_splits)
next
  case OpClaimHandoff
  then obtain h b where "ClaimHandoffState sha s = Inr (s', h, b)"
    using assms(1) by (cases "ClaimHandoffState sha s") auto
  note c = ClaimHandoffState_received(1)[OF this]
  have "list_all2 item_progress (state_feedback s) (state_feedback s')"
    unfolding c claim_work_fields by (rule items_progress_map) (simp add: item_progress_in_flight)
  moreover have "length (state_feedback s') = length (state_feedback s)" by (simp add: c)
  moreover have "pr_ValidationGeneration s' = pr_ValidationGeneration s" by (simp add: c claim_work_def)
  ultimately show ?thesis
    by (simp add: recovery_grows_def receipted_def) (simp add: c)
next
  case (OpReceipt h)
  then show ?thesis
    using assms(1) by (auto simp: ReceiptHandoffState_def recovery_grows_def receipted_def fm_get_upd split: if_splits)
next
  case (OpOutcome h x)
  then show ?thesis using assms(1) grows_outcome by simp
next
  case (OpPrepare p)
  then show ?thesis
    using assms(1) by (auto simp: PreparePublicationState_def recovery_grows_def receipted_def split: if_splits option.splits)
next
  case (OpComplete p)
  then show ?thesis using assms(1) grows_complete by simp
next
  case (OpHydrate f)
  then show ?thesis using assms grows_hydrate by simp
qed

text \<open>
  No sequence of operations loses work.  Along any run the pull request stays the same, the
  validation generation never falls, a receipt is never forgotten, and no piece of feedback goes back
  in its execution: once completed it keeps its state and its evidence, so it is not executed again.
\<close>

theorem recovery_run_grows:
  assumes "recovery_run sha s ops s'" "pr_Number s \<noteq> 0"
  shows "recovery_grows s s'"
  using assms
proof (induction rule: recovery_run.induct)
  case (accepted s oper s1 ops s2)
  have g: "recovery_grows s s1" using accepted grows_apply by blast
  then have "pr_Number s1 \<noteq> 0" using accepted.prems by (simp add: recovery_grows_def)
  then show ?case using recovery_grows_trans[OF g] accepted.IH by blast
qed simp_all

end
