(* ===== verification/Pull_Publication.thy ===== *)
theory Pull_Publication
  imports Pull_Recovery_Properties
begin

text \<open>
  Prepared publications: when they can be completed, when they cannot, and what a fact read from GitHub
  does to the recovery state.  The second part runs the operations on a small state.
\<close>

section \<open>Completing what was prepared\<close>

lemma PreparePublicationState_cases:
  assumes "PreparePublicationState sha s p = Inr s'" "pr_PreparedPublication s = None"
  shows "regexpSHA (pp_HeadSHA p)" "same_work s (pp_Handoff p)" "check_prepared sha s p = None"
    "s' = s\<lparr>pr_PreparedPublication := Some p\<rparr>"
  using assms by (auto simp: PreparePublicationState_def split: if_splits option.splits)

lemma received_prepared [simp]: "receivedHandoff sha (s\<lparr>pr_PreparedPublication := q\<rparr>) = receivedHandoff sha s"
  by (simp add: receivedHandoff_def handoff_of_def)

lemma validation_outcome_prepared:
  "apply_validation_outcome (s\<lparr>pr_PreparedPublication := q\<rparr>) h x =
   map_sum id (\<lambda>t. t\<lparr>pr_PreparedPublication := q\<rparr>) (apply_validation_outcome s h x)"
  by (simp add: apply_validation_outcome_def Let_def)

lemma outcome_prepared:
  assumes "ApplyHandoffOutcome sha s h x = Inr t"
  shows "ApplyHandoffOutcome sha (s\<lparr>pr_PreparedPublication := q\<rparr>) h x = Inr (t\<lparr>pr_PreparedPublication := q\<rparr>)"
  using assms
proof (cases rule: ApplyHandoffOutcome_cases)
  case (1 s1 fs)
  then show ?thesis
    by (simp add: ApplyHandoffOutcome_def validation_outcome_prepared same_work_def) (cases s1, simp add: with_feedback_def)
qed

definition published :: "PRState \<Rightarrow> PreparedPublication \<Rightarrow> PRState \<Rightarrow> bool" where
  "published s p s' \<longleftrightarrow>
     pr_HeadSHA s' = pp_HeadSHA p \<and> pr_PreparedPublication s' = None \<and> pr_ValidationQueuedSHA s' = [] \<and>
     pr_ValidationInFlightSHA s' = [] \<and> pr_MergeAttemptSHA s' = [] \<and> pr_HandoffReceipts s' = pr_HandoffReceipts s \<and>
     every_item_completed (rh_Feedback (pp_Handoff p)) (state_feedback s')"

text \<open>
  A prepared publication can be completed.  When the prepared handoff, if there is one, is the one in
  flight, completing succeeds right away; the head moves to the published one, nothing is in flight on
  the old head, every receipt is kept and every piece of feedback handed over is completed with
  evidence.
\<close>

theorem prepared_completes:
  assumes "PreparePublicationState sha s p = Inr s'" "pr_PreparedPublication s = None"
    "rh_Key (pp_Handoff p) \<noteq> [] \<Longrightarrow> receivedHandoff sha s = pp_Handoff p"
  shows "\<exists>s''. CompletePreparedPublication sha s' p = Inr s'' \<and> published s p s''"
proof (cases "rh_Key (pp_Handoff p) = []")
  case True
  note c = PreparePublicationState_cases[OF assms(1,2)]
  from c(3) True have h: "pp_Handoff p = bare_handoff s" "pp_Outcome p = empty_outcome"
    by (simp_all add: check_prepared_def Let_def split: if_splits)
  have "bare_handoff s' = bare_handoff s" by (simp add: c(4) bare_handoff_def)
  then show ?thesis
    using c(1) h True
    by (simp add: CompletePreparedPublication_def published_def c(4) advancePublicationHead_def every_item_completed_def bare_handoff_def)
next
  case False
  note c = PreparePublicationState_cases[OF assms(1,2)] and r = assms(3)[OF False]
  from c(3) False obtain t where t: "receipted s (rh_Key (pp_Handoff p))" "ApplyHandoffOutcome sha s (pp_Handoff p) (pp_Outcome p) = Inr t"
    "every_item_completed (rh_Feedback (pp_Handoff p)) (state_feedback t)"
    by (auto simp: check_prepared_def Let_def split: if_splits sum.splits)
  have k: "pr_HandoffReceipts t = pr_HandoffReceipts s"
    using ApplyHandoffOutcome_cases[OF t(2)] validation_outcome_fields(3) by (metis with_feedback_fields(3))
  have "receipted s' (rh_Key (pp_Handoff p))" using t(1) by (simp add: c(4) receipted_def)
  then show ?thesis
    using c(1) False r k t(3) outcome_prepared[OF t(2), of "Some p"]
    by (simp add: CompletePreparedPublication_def published_def c(4) advancePublicationHead_def)
qed

section \<open>Facts from GitHub\<close>

lemma complete_head: "CompletePreparedPublication sha s p = Inr s' \<Longrightarrow> pr_HeadSHA s' = pp_HeadSHA p"
  by (auto simp: CompletePreparedPublication_def advancePublicationHead_def split: if_splits sum.splits)

lemma move_head_result: "move_head sha s f = Inr s' \<Longrightarrow> pr_HeadSHA s' = af_HeadSHA f"
  by (auto simp: move_head_def advance_if_idle_def advancePublicationHead_def dest: complete_head split: if_splits option.splits)

lemma hydrate_result:
  assumes "HydrateRecoveryState sha s f = Inr s'"
  shows "pr_HeadSHA s' = af_HeadSHA f" "pr_Repository s' = af_Repository f" "pr_Number s' = af_PR f"
    "pr_Issue s' = af_Issue f" "pr_Attempt s' = af_Attempt f"
proof -
  show "pr_HeadSHA s' = af_HeadSHA f"
    using assms move_head_result by (auto simp: HydrateRecoveryState_def fresh_pr_state_def split: if_splits)
  have "pr_Repository s' = af_Repository f \<and> pr_Number s' = af_PR f \<and> pr_Issue s' = af_Issue f \<and> pr_Attempt s' = af_Attempt f"
  proof (cases "pr_Number s = 0")
    case True
    then show ?thesis using assms by (auto simp: HydrateRecoveryState_def fresh_pr_state_def split: if_splits)
  next
    case False
    have "recovery_grows s s'" by (rule grows_hydrate[OF assms False])
    then show ?thesis using assms False by (auto simp: HydrateRecoveryState_def recovery_grows_def split: if_splits)
  qed
  then show "pr_Repository s' = af_Repository f" "pr_Number s' = af_PR f" "pr_Issue s' = af_Issue f" "pr_Attempt s' = af_Attempt f"
    by blast+
qed

text \<open>
  The recovery state follows GitHub.  A fact that is accepted leaves the state on exactly the head,
  the pull request and the attempt it names, and reading the same fact again changes nothing.
\<close>

theorem hydrate_follows:
  assumes "HydrateRecoveryState sha s f = Inr s'"
  shows "pr_HeadSHA s' = af_HeadSHA f \<and> pr_Repository s' = af_Repository f \<and> pr_Number s' = af_PR f \<and>
    pr_Issue s' = af_Issue f \<and> pr_Attempt s' = af_Attempt f \<and> HydrateRecoveryState sha s' f = Inr s'"
proof -
  have "\<not> (af_Repository f = [] \<or> fact_unusable f \<or> af_State f \<notin> set [''active'', ''review-ready''])"
    using assms unfolding HydrateRecoveryState_def by (metis Inl_Inr_False)
  moreover from this have "af_PR f \<noteq> 0" by (auto simp: fact_unusable_def)
  ultimately show ?thesis
    using hydrate_result[OF assms] by (simp add: HydrateRecoveryState_def move_head_def)
qed

text \<open>The file keeps one state per pull request and per attempt.\<close>

definition same_pull :: "PRState \<Rightarrow> PRState \<Rightarrow> bool" where
  "same_pull a b \<longleftrightarrow> pr_Repository a = pr_Repository b \<and>
     (pr_Number a = pr_Number b \<or> pr_Issue a = pr_Issue b \<and> pr_Attempt a = pr_Attempt b)"

fun unique_states :: "PRState list \<Rightarrow> bool" where
  "unique_states [] = True"
| "unique_states (s # rest) = (list_all (\<lambda>t. \<not> same_pull s t) rest \<and> unique_states rest)"

definition state_key :: "PRState \<Rightarrow> string \<times> int \<times> int \<times> int" where
  "state_key s = (pr_Repository s, pr_Number s, pr_Issue s, pr_Attempt s)"

lemma same_pull_key: "state_key a = state_key a' \<Longrightarrow> same_pull b a = same_pull b a'"
  by (simp add: state_key_def same_pull_def)

lemma same_pull_sym: "same_pull a b = same_pull b a"
  by (auto simp: same_pull_def)

lemma unique_states_keys: "map state_key xs = map state_key ys \<Longrightarrow> unique_states xs = unique_states ys"
proof (induction xs arbitrary: ys)
  case (Cons x xs)
  then obtain y ys' where ys: "ys = y # ys'" "state_key x = state_key y" "map state_key xs = map state_key ys'" by auto
  have "list_all (\<lambda>t. \<not> same_pull x t) xs = list_all (\<lambda>t. \<not> same_pull y t) ys'"
    using ys(2,3)
  proof (induction xs arbitrary: ys')
    case (Cons a xs)
    then obtain b zs where "ys' = b # zs" "state_key a = state_key b" "map state_key xs = map state_key zs" by auto
    then show ?case using Cons by (simp add: same_pull_def state_key_def)
  qed simp
  with Cons.IH ys show ?case by simp
qed simp

lemma move_head_key: "move_head sha s f = Inr s' \<Longrightarrow> state_key s' = state_key s"
  using grows_complete grows_advance
  by (fastforce simp: move_head_def advance_if_idle_def recovery_grows_def state_key_def split: if_splits option.splits)

lemma hydrate_one_cases:
  "hydrate_one sha f states = Inr states' \<Longrightarrow>
   map state_key states' = map state_key states \<and> list_ex (\<lambda>s. pr_HeadSHA s = af_HeadSHA f \<and> attempt_at (af_Repository f) (af_PR f) (af_Issue f) (af_Attempt f) s) states' \<or>
   states' = states @ [fresh_pr_state zero_pr_state f] \<and> list_all (\<lambda>s. \<not> same_pull (fresh_pr_state zero_pr_state f) s) states"
proof (induction states arbitrary: states')
  case (Cons s rest)
  show ?case
  proof (cases "same_pull (fresh_pr_state zero_pr_state f) s")
    case True
    then have "\<not> (\<not> (pr_Repository s = af_Repository f \<and> pr_Number s = af_PR f) \<and>
        \<not> (pr_Repository s = af_Repository f \<and> pr_Issue s = af_Issue f \<and> pr_Attempt s = af_Attempt f))"
      by (auto simp: same_pull_def fresh_pr_state_def)
    then obtain s' where "move_head sha s f = Inr s'" "states' = s' # rest" and
      a: "attempt_at (af_Repository f) (af_PR f) (af_Issue f) (af_Attempt f) s"
      using Cons.prems by (auto simp: Let_def attempt_at_def split: if_splits sum.splits)
    then show ?thesis
      using move_head_key[of sha s f s'] move_head_result[of sha s f s'] by (auto simp: attempt_at_def state_key_def)
  next
    case False
    then have "\<not> (pr_Repository s = af_Repository f \<and> pr_Number s = af_PR f)"
      "\<not> (pr_Repository s = af_Repository f \<and> pr_Issue s = af_Issue f \<and> pr_Attempt s = af_Attempt f)"
      by (auto simp: same_pull_def fresh_pr_state_def)
    then obtain rest' where "hydrate_one sha f rest = Inr rest'" "states' = s # rest'"
      using Cons.prems by (auto simp: Let_def split: sum.splits)
    then show ?thesis using Cons.IH[of rest'] False by auto
  qed
qed (simp add: list_ex_iff)

lemma unique_states_snoc:
  "unique_states (xs @ [x]) = (unique_states xs \<and> list_all (\<lambda>t. \<not> same_pull x t) xs)"
  by (induction xs) (auto simp: same_pull_sym)

lemma hydrate_one_unique: "hydrate_one sha f xs = Inr ys \<Longrightarrow> unique_states xs \<Longrightarrow> unique_states ys"
  using hydrate_one_cases[of sha f xs ys] unique_states_keys[of ys xs] by (auto simp: unique_states_snoc)

text \<open>
  One recovery state per pull request.  Reading any list of facts keeps at most one state for a pull
  request and for an attempt, and never drops a state or ties it to another pull request or attempt.
\<close>

theorem hydrate_unique:
  assumes "hydrateAttempts sha repository facts states = Inr states'" "unique_states states"
  shows "unique_states states' \<and> take (length states) (map state_key states') = map state_key states"
  using assms
proof (induction facts arbitrary: states)
  case (Cons f fs)
  show ?case
  proof (cases "af_State f \<noteq> ''active'' \<and> af_State f \<noteq> ''review-ready''")
    case True
    then show ?thesis using Cons by simp
  next
    case False
    then obtain mid where m: "hydrate_one sha f states = Inr mid" "hydrateAttempts sha repository fs mid = Inr states'"
      using Cons.prems(1) by (auto split: if_splits sum.splits)
    have u: "unique_states mid" by (rule hydrate_one_unique[OF m(1) Cons.prems(2)])
    have "take (length states) (map state_key mid) = map state_key states \<and> length states \<le> length mid"
      using hydrate_one_cases[OF m(1)]
    proof (elim disjE conjE)
      assume "map state_key mid = map state_key states"
      then show ?thesis by (metis length_map order_refl take_all)
    qed simp
    then show ?thesis
      using Cons.IH[OF m(2) u] by (metis min.absorb1 take_take)
  qed
qed simp

section \<open>A small pull request\<close>

definition sample_fact :: "string \<Rightarrow> RecoveryAttemptFact" where
  "sample_fact head = \<lparr>af_Repository = ''o/r'', af_Issue = 7, af_Attempt = 1, af_PR = 3, af_BaseSHA = ''0123456'',
     af_HeadSHA = head, af_State = ''active'', af_PublicationConfirmed = False, af_Diagnostic = [], af_Checks = []\<rparr>"

definition sample_pull :: PRState where
  "sample_pull = fresh_pr_state zero_pr_state (sample_fact ''abcdef1'')"

lemma sample_pull_fields [simp]:
  "pr_HeadSHA sample_pull = ''abcdef1''" "pr_Number sample_pull = 3" "pr_Repository sample_pull = ''o/r''"
  "pr_Issue sample_pull = 7" "pr_Attempt sample_pull = 1" "pr_HandoffReceipts sample_pull = fmempty"
  "pr_PreparedPublication sample_pull = None" "state_feedback sample_pull = []"
  "pr_ValidationQueuedSHA sample_pull = []" "pr_ValidationInFlightSHA sample_pull = []"
  "pr_ValidationGeneration sample_pull = 0"
  by (simp_all add: sample_pull_def fresh_pr_state_def zero_pr_state_def sample_fact_def)

lemma sample_fact_fields [simp]:
  "af_State (sample_fact head) = ''active''" "af_Repository (sample_fact head) = ''o/r''" "af_PR (sample_fact head) = 3"
  "af_Issue (sample_fact head) = 7" "af_Attempt (sample_fact head) = 1" "af_HeadSHA (sample_fact head) = head"
  by (simp_all add: sample_fact_def)

text \<open>The key of a handoff is its text here: the digest plays no role in what follows.\<close>

abbreviation sample_run :: "PRState \<Rightarrow> recovery_op list \<Rightarrow> PRState \<Rightarrow> bool" where
  "sample_run \<equiv> recovery_run (\<lambda>x. x)"

definition asked :: PRState where
  "asked = sample_pull\<lparr>pr_ValidationQueuedSHA := ''abcdef1'', pr_ValidationGeneration := 1\<rparr>"

definition sent :: PRState where
  "sent = sample_pull\<lparr>pr_ValidationInFlightSHA := ''abcdef1'', pr_ValidationGeneration := 1\<rparr>"

definition sample_handoff :: RecoveryHandoff where
  "sample_handoff = receivedHandoff (\<lambda>x. x) sent"

definition received :: PRState where
  "received = sent\<lparr>pr_HandoffReceipts := fmupd (rh_Key sample_handoff) True fmempty\<rparr>"

lemma sample_head: "regexpSHA ''abcdef1''" "regexpSHA ''abcdef2''"
  by code_simp+

lemma sample_key: "rh_Key sample_handoff \<noteq> []" "rh_Key sample_handoff = handoffKey (\<lambda>x. x) sample_handoff"
  by (simp_all add: sample_handoff_def receivedHandoff_def handoff_of_def handoffKey_def handoff_text_def Let_def sent_def)

lemma sample_queue: "QueueValidationState sample_pull ''abcdef1'' = Inr asked"
  by (simp add: QueueValidationState_def asked_def)

lemma sample_claim: "ClaimHandoffState (\<lambda>x. x) asked = Inr (sent, sample_handoff, True)"
proof -
  have "claim_work True asked = sent"
    by (simp add: claim_work_def asked_def sent_def with_feedback_def sample_pull_def fresh_pr_state_def zero_pr_state_def sample_fact_def)
  moreover have "receipted sent k = False" for k by (simp add: receipted_def fm_get_def sent_def)
  ultimately show ?thesis
    using sample_head(1) by (simp add: ClaimHandoffState_def sample_handoff_def receivedHandoff_def handoff_of_def asked_def sent_def Let_def)
qed

theorem delegated_once_witness:
  "\<exists>states s. ClaimFeedback sample_pull (sample_feedback 1 ''a'' 3) states = Inr (states, False) \<and>
     ClaimFeedbackState s (sample_feedback 1 ''a'' 3) = Inr (s, False)"
proof -
  let ?f = "sample_feedback 1 ''a'' 3"
  have "ClaimFeedback sample_pull ?f [sample_pull] = Inr ([with_feedback sample_pull [claimed_feedback ?f]], True)"
    by (simp add: sameAttempt_def)
  moreover have "ClaimFeedbackState sample_pull ?f = Inr (with_feedback sample_pull [claimed_feedback ?f], True)"
    by (simp add: ClaimFeedbackState_def claim_malformed_def sample_feedback_def feedback_sources_known_def time_is_zero_def
        char_of_def)
  ultimately show ?thesis using delegated_once by blast
qed

theorem handoff_delivery_witness:
  "ClaimHandoffState (\<lambda>x. x) received = Inr (received, sample_handoff, False)"
  using handoff_delivery[OF sample_claim sample_key(1)] by (simp add: Let_def received_def sent_def)

theorem claims_agree_witness:
  "ClaimHandoffs (\<lambda>x. x) [asked] = ([sent], [sample_handoff])"
  using claims_agree[OF sample_claim] by simp

definition sample_outcome :: HandoffOutcome where
  "sample_outcome = empty_outcome\<lparr>ho_Key := rh_Key sample_handoff, ho_ValidationResult := ''passed'',
     ho_ValidationEvidence := ''log''\<rparr>"

definition validated :: PRState where
  "validated = received\<lparr>pr_ValidationInFlightSHA := [], pr_ValidationResult := ''passed'', pr_ValidationEvidence := ''log''\<rparr>"

lemma sample_handoff_fields [simp]:
  "rh_Repository sample_handoff = ''o/r''" "rh_PR sample_handoff = 3" "rh_Issue sample_handoff = 7"
  "rh_Attempt sample_handoff = 1" "rh_HeadSHA sample_handoff = ''abcdef1''" "rh_Validation sample_handoff"
  "rh_Feedback sample_handoff = []"
  by (simp_all add: sample_handoff_def receivedHandoff_def handoff_of_def sent_def Let_def)

lemma sample_outcome_fields [simp]:
  "ho_Key sample_outcome = rh_Key sample_handoff" "ho_Feedback sample_outcome = []"
  "ho_ValidationResult sample_outcome = ''passed''" "ho_ValidationEvidence sample_outcome = ''log''"
  "\<not> ho_Retryable sample_outcome"
  by (simp_all add: sample_outcome_def empty_outcome_def)

lemma sample_validated: "ApplyHandoffOutcome (\<lambda>x. x) received sample_handoff sample_outcome = Inr validated"
  using sample_key
  by (simp add: ApplyHandoffOutcome_def same_work_def apply_validation_outcome_def received_def sent_def validated_def with_feedback_def
      sample_pull_def fresh_pr_state_def zero_pr_state_def sample_fact_def)

theorem outcome_again_witness:
  "ApplyHandoffOutcome (\<lambda>x. x) validated sample_handoff sample_outcome = Inr validated"
  by (rule outcome_again[OF sample_validated])

theorem recovery_run_grows_witness:
  "sample_run sample_pull [OpQueueValidation ''abcdef1'', OpClaimHandoff] sent \<and> recovery_grows sample_pull sent"
proof -
  have "sample_run sample_pull [OpQueueValidation ''abcdef1'', OpClaimHandoff] sent"
    by (rule recovery_run.accepted[of _ _ _ asked, OF _ recovery_run.accepted[OF _ recovery_run.nothing]])
      (simp_all only: recovery_apply.simps sample_queue sample_claim map_sum.simps fst_conv id_apply)
  then show ?thesis using recovery_run_grows by fastforce
qed

definition sample_publication :: PreparedPublication where
  "sample_publication = \<lparr>pp_Handoff = bare_handoff sample_pull, pp_Outcome = empty_outcome, pp_HeadSHA = ''abcdef2''\<rparr>"

theorem prepared_completes_witness:
  "\<exists>s' s''. PreparePublicationState (\<lambda>x. x) sample_pull sample_publication = Inr s' \<and>
     CompletePreparedPublication (\<lambda>x. x) s' sample_publication = Inr s'' \<and> pr_HeadSHA s'' = ''abcdef2''"
proof -
  have "\<not> recoveryWorkInFlight sample_pull"
    by (simp add: recoveryWorkInFlight_def sample_pull_def fresh_pr_state_def zero_pr_state_def)
  then have "PreparePublicationState (\<lambda>x. x) sample_pull sample_publication =
      Inr (sample_pull\<lparr>pr_PreparedPublication := Some sample_publication\<rparr>)"
    by (simp add: PreparePublicationState_def sample_publication_def sample_head same_work_def bare_handoff_def check_prepared_def)
  from this prepared_completes[OF this] show ?thesis
    by (fastforce simp: sample_publication_def bare_handoff_def published_def)
qed

theorem hydrate_follows_witness:
  "HydrateRecoveryState (\<lambda>x. x) sample_pull (sample_fact ''abcdef1'') = Inr sample_pull"
proof -
  have "HydrateRecoveryState (\<lambda>x. x) zero_pr_state (sample_fact ''abcdef1'') = Inr sample_pull"
    by (simp add: HydrateRecoveryState_def sample_pull_def fact_unusable_def sample_head) (simp add: sample_fact_def sample_head zero_pr_state_def)
  then show ?thesis using hydrate_follows by blast
qed

theorem hydrate_unique_witness:
  "\<exists>states. hydrateAttempts (\<lambda>x. x) ''o/r'' [sample_fact ''abcdef1'', sample_fact ''abcdef1''] [] = Inr states \<and> unique_states states"
proof -
  have "hydrateAttempts (\<lambda>x. x) ''o/r'' [sample_fact ''abcdef1'', sample_fact ''abcdef1''] [] = Inr [sample_pull]"
    by (simp add: fact_unusable_def move_head_def sample_pull_def[symmetric] sample_head)
  then show ?thesis using hydrate_unique by fastforce
qed

text \<open>
  Feedback that is handed over after a handoff was received makes another handoff the one in flight.
\<close>

definition reclaimed :: PRState where
  "reclaimed = with_feedback received [in_flight (claimed_feedback (sample_feedback 1 ''a'' 3))]"

definition overtaken_publication :: PreparedPublication where
  "overtaken_publication = \<lparr>pp_Handoff = sample_handoff, pp_Outcome = sample_outcome, pp_HeadSHA = ''abcdef2''\<rparr>"

definition overtaken :: PRState where
  "overtaken = reclaimed\<lparr>pr_PreparedPublication := Some overtaken_publication\<rparr>"

lemma received_fields [simp]:
  "pr_HeadSHA received = ''abcdef1''" "pr_Number received = 3" "pr_Repository received = ''o/r''"
  "pr_Issue received = 7" "pr_Attempt received = 1" "state_feedback received = []"
  "pr_PreparedPublication received = None" "pr_ValidationQueuedSHA received = []"
  "pr_ValidationInFlightSHA received = ''abcdef1''" "pr_ValidationGeneration received = 1"
  "receipted received k = (k = rh_Key sample_handoff)"
  by (auto simp: received_def sent_def receipted_def fm_get_def)

lemma receipted_with_feedback [simp]: "receipted (with_feedback s fs) k = receipted s k"
  by (simp add: receipted_def)

lemma reclaim_feedback:
  "ClaimFeedbackState received (sample_feedback 1 ''a'' 3) = Inr (with_feedback received [claimed_feedback (sample_feedback 1 ''a'' 3)], True)"
  by (simp add: ClaimFeedbackState_def claim_malformed_def sample_feedback_def feedback_sources_known_def time_is_zero_def char_of_def)

lemma reclaim_handoff:
  "map_sum id fst (ClaimHandoffState (\<lambda>x. x) (with_feedback received [claimed_feedback (sample_feedback 1 ''a'' 3)])) = Inr reclaimed"
proof -
  have "claim_work False (with_feedback received [claimed_feedback (sample_feedback 1 ''a'' 3)]) = reclaimed"
    by (simp add: claim_work_def reclaimed_def with_feedback_def executing_def claimed_feedback_def)
  then show ?thesis by (simp add: ClaimHandoffState_def sample_head Let_def)
qed

lemma reclaimed_not_received: "receivedHandoff (\<lambda>x. x) reclaimed \<noteq> sample_handoff"
proof -
  have "rh_Feedback (receivedHandoff (\<lambda>x. x) reclaimed) \<noteq> []"
    by (simp add: receivedHandoff_def handoff_of_def reclaimed_def Let_def in_flight_def)
  then show ?thesis by (metis sample_handoff_fields(7))
qed

lemma overtaken_prepared: "PreparePublicationState (\<lambda>x. x) reclaimed overtaken_publication = Inr overtaken"
proof -
  have "\<exists>t. ApplyHandoffOutcome (\<lambda>x. x) reclaimed sample_handoff sample_outcome = Inr t \<and> pr_ValidationInFlightSHA t = []"
    using sample_key by (simp add: ApplyHandoffOutcome_def same_work_def apply_validation_outcome_def reclaimed_def with_feedback_def)
  then show ?thesis
    using sample_key(1)
    by (auto simp: PreparePublicationState_def overtaken_publication_def sample_head same_work_def check_prepared_def Let_def
        every_item_completed_def overtaken_def reclaimed_def)
qed

text \<open>
  C32: A publication can be prepared that cannot be completed.  After new feedback was handed over, a
  publication of the earlier, received handoff is still accepted; completing it is refused, the fact
  that names the published head is refused, and no other publication is accepted in its place.
\<close>

theorem prepared_overtaken:
  "\<exists>ops s p. sample_run sample_pull ops s \<and> pr_PreparedPublication s = Some p \<and>
     CompletePreparedPublication (\<lambda>x. x) s p = Inl ''prepared publication no longer matches durable handoff'' \<and>
     HydrateRecoveryState (\<lambda>x. x) s (sample_fact (pp_HeadSHA p)) = Inl ''prepared publication no longer matches durable handoff'' \<and>
     (\<nexists>q s'. PreparePublicationState (\<lambda>x. x) s q = Inr s' \<and> q \<noteq> p)"
proof (intro exI conjI)
  have receipt: "ReceiptHandoffState (\<lambda>x. x) sent sample_handoff = Inr received"
    using sample_key
    by (simp add: ReceiptHandoffState_def RecoveryHandoffCurrent_def sample_handoff_def[symmetric]) (simp add: received_def sent_def)
  show "sample_run sample_pull [OpQueueValidation ''abcdef1'', OpClaimHandoff, OpReceipt sample_handoff,
      OpClaimFeedback (sample_feedback 1 ''a'' 3), OpClaimHandoff, OpPrepare overtaken_publication] overtaken"
    by (rule recovery_run.accepted[of _ _ _ asked], simp add: sample_queue,
        rule recovery_run.accepted[of _ _ _ sent], simp add: sample_claim,
        rule recovery_run.accepted[of _ _ _ received], simp add: receipt,
        rule recovery_run.accepted[of _ _ _ "with_feedback received [claimed_feedback (sample_feedback 1 ''a'' 3)]"],
        simp add: reclaim_feedback,
        rule recovery_run.accepted[of _ _ _ reclaimed], simp only: recovery_apply.simps reclaim_handoff,
        rule recovery_run.accepted[of _ _ _ overtaken], simp add: overtaken_prepared, rule recovery_run.nothing)
  show p: "pr_PreparedPublication overtaken = Some overtaken_publication" by (simp add: overtaken_def)
  show c: "CompletePreparedPublication (\<lambda>x. x) overtaken overtaken_publication = Inl ''prepared publication no longer matches durable handoff''"
    using reclaimed_not_received sample_key(1)
    by (simp add: CompletePreparedPublication_def overtaken_def overtaken_publication_def)
  have "pr_Number overtaken = 3" "pr_Repository overtaken = ''o/r''" "pr_Issue overtaken = 7" "pr_Attempt overtaken = 1"
    "pr_HeadSHA overtaken = ''abcdef1''"
    by (simp_all add: overtaken_def reclaimed_def)
  then show "HydrateRecoveryState (\<lambda>x. x) overtaken (sample_fact (pp_HeadSHA overtaken_publication)) =
      Inl ''prepared publication no longer matches durable handoff''"
    using c p by (simp add: HydrateRecoveryState_def fact_unusable_def move_head_def overtaken_publication_def sample_head)
  show "\<nexists>q s'. PreparePublicationState (\<lambda>x. x) overtaken q = Inr s' \<and> q \<noteq> overtaken_publication"
    using p by (auto simp: PreparePublicationState_def split: if_splits)
qed

end
