(* ===== verification/Pull_Coordinator.thy ===== *)
theory Pull_Coordinator
  imports Pull_Policy
begin

text \<open>
  The coordinator of pull requests (\<^verbatim>\<open>PRCoordinator\<close> in \<^verbatim>\<open>internal/github/pull_request.go\<close>).  It talks to
  GitHub, to the recovery owner and to the recorder of governance phases.  What those answer is the
  \<open>world\<close>: a function of the history of events so far, so that every behaviour of the outside is a
  world.  A step of the coordinator takes the history and returns its result with the longer history.
\<close>

datatype pr_mutation =
    CreateComment string int string
  | SyncReviewLabel string int string bool bool
  | DelegateFeedback PRState Feedback
  | RerunValidation PRState
  | PublishPolicyStatus string string PolicyResult
  | MergePullRequest string int string string

text \<open>A failure has a text and may be ambiguous: the mutation may have reached GitHub.\<close>

type_synonym pr_failure = "string \<times> bool"

datatype pr_event =
    FreshPull int "string + PRState"
  | FreshItem Feedback "string + Feedback"
  | AskedMerged int "string + bool"
  | AskedComment int string "string + bool"
  | AdmittedPhase GovernancePhase "string option"
  | CompletedPhase GovernancePhase "string option"
  | Mutated pr_mutation "pr_failure option"

record pr_world =
  w_fresh :: "pr_event list \<Rightarrow> int \<Rightarrow> string + PRState"
  w_item :: "pr_event list \<Rightarrow> PRState \<Rightarrow> Feedback \<Rightarrow> string + Feedback"
  w_merged :: "pr_event list \<Rightarrow> string \<Rightarrow> int \<Rightarrow> string + bool"
  w_comment :: "pr_event list \<Rightarrow> string \<Rightarrow> int \<Rightarrow> string \<Rightarrow> int \<Rightarrow> string + bool"
  w_admit :: "pr_event list \<Rightarrow> GovernancePhase \<Rightarrow> string option"
  w_complete :: "pr_event list \<Rightarrow> GovernancePhase \<Rightarrow> string option"
  w_mutate :: "pr_event list \<Rightarrow> pr_mutation \<Rightarrow> pr_failure option"

record pr_coordinator =
  pc_HasPhases :: bool
  pc_ReviewLabel :: string
  pc_MergeMethod :: string
  pc_ActorID :: int
  pc_sha :: "string \<Rightarrow> string"
  pc_marshal :: "json \<Rightarrow> string"
  pc_json_result :: "PolicyResult \<Rightarrow> json"

section \<open>Steps\<close>

type_synonym 'a act = "pr_event list \<Rightarrow> (pr_failure + 'a) \<times> pr_event list"

definition act_return :: "'a \<Rightarrow> 'a act" where
  "act_return x h = (Inr x, h)"

definition act_fail :: "string \<Rightarrow> 'a act" where
  "act_fail e h = (Inl (e, False), h)"

definition act_bind :: "'a act \<Rightarrow> ('a \<Rightarrow> 'b act) \<Rightarrow> 'b act" where
  "act_bind m k h = (case m h of (Inl e, h') \<Rightarrow> (Inl e, h') | (Inr x, h') \<Rightarrow> k x h')"

definition act_then :: "'a act \<Rightarrow> 'b act \<Rightarrow> 'b act" where
  "act_then m k = act_bind m (\<lambda>_. k)"

definition answer :: "string + 'a \<Rightarrow> pr_event \<Rightarrow> 'a act" where
  "answer r e h = (case r of Inl t \<Rightarrow> Inl (t, False) | Inr x \<Rightarrow> Inr x, h @ [e])"

definition verdict_of :: "pr_failure option \<Rightarrow> pr_event \<Rightarrow> unit act" where
  "verdict_of r e h = (case r of Some f \<Rightarrow> Inl f | None \<Rightarrow> Inr (), h @ [e])"

definition read_pull :: "pr_world \<Rightarrow> int \<Rightarrow> PRState act" where
  "read_pull w number h = answer (w_fresh w h number) (FreshPull number (w_fresh w h number)) h"

definition read_item :: "pr_world \<Rightarrow> PRState \<Rightarrow> Feedback \<Rightarrow> Feedback act" where
  "read_item w s f h = answer (w_item w h s f) (FreshItem f (w_item w h s f)) h"

definition ask_merged :: "pr_world \<Rightarrow> string \<Rightarrow> int \<Rightarrow> bool act" where
  "ask_merged w repository number h =
     answer (w_merged w h repository number) (AskedMerged number (w_merged w h repository number)) h"

definition ask_comment :: "pr_world \<Rightarrow> string \<Rightarrow> int \<Rightarrow> string \<Rightarrow> int \<Rightarrow> bool act" where
  "ask_comment w repository number body actor h =
     answer (w_comment w h repository number body actor) (AskedComment number body (w_comment w h repository number body actor)) h"

definition plain_failure :: "string option \<Rightarrow> pr_failure option" where
  "plain_failure r = map_option (\<lambda>t. (t, False)) r"

definition admit_phase :: "pr_world \<Rightarrow> GovernancePhase \<Rightarrow> unit act" where
  "admit_phase w p h = verdict_of (plain_failure (w_admit w h p)) (AdmittedPhase p (w_admit w h p)) h"

definition complete_phase :: "pr_world \<Rightarrow> GovernancePhase \<Rightarrow> unit act" where
  "complete_phase w p h = verdict_of (plain_failure (w_complete w h p)) (CompletedPhase p (w_complete w h p)) h"

definition mutate_now :: "pr_world \<Rightarrow> pr_mutation \<Rightarrow> unit act" where
  "mutate_now w m h = verdict_of (w_mutate w h m) (Mutated m (w_mutate w h m)) h"

text \<open>Write-ahead: the phase is admitted before and completed after the mutation.\<close>

definition governanceMutation ::
  "pr_world \<Rightarrow> pr_coordinator \<Rightarrow> PRState \<Rightarrow> string \<Rightarrow> string \<Rightarrow> pr_mutation \<Rightarrow> unit act" where
  "governanceMutation w c s kind payload m =
     (if \<not> pc_HasPhases c then act_fail ''pull request governance mutation requires durable phase recording''
      else case NewGovernancePhase (pc_sha c) s kind payload of
        None \<Rightarrow> act_fail ''governance phase identity is invalid''
      | Some p \<Rightarrow> act_then (admit_phase w p) (act_then (mutate_now w m) (complete_phase w p)))"

definition comment_text :: "string option \<Rightarrow> (string \<Rightarrow> unit act) \<Rightarrow> unit act" where
  "comment_text body k = (case body of None \<Rightarrow> act_fail ''comment text is invalid'' | Some b \<Rightarrow> k b)"

section \<open>The steps before the decision\<close>

definition attribution_ok :: "PRState \<Rightarrow> int \<Rightarrow> PRState \<Rightarrow> bool" where
  "attribution_ok s number s' \<longleftrightarrow> validPullState s' number (pr_Repository s) (pr_Issue s) (pr_Attempt s)"

definition merge_comment :: "pr_world \<Rightarrow> pr_coordinator \<Rightarrow> PRState \<Rightarrow> string \<Rightarrow> string \<Rightarrow> unit act" where
  "merge_comment w c s kind state =
     comment_text (AttributedBody (pr_Issue s) (pr_Attempt s) (mergeDisposition (pr_HeadSHA s) state))
       (\<lambda>body. governanceMutation w c s kind body (CreateComment (pr_Repository s) (pr_Issue s) body))"

definition settle_merge :: "pr_world \<Rightarrow> pr_coordinator \<Rightarrow> int \<Rightarrow> PRState \<Rightarrow> unit act" where
  "settle_merge w c number s =
     act_bind (ask_merged w (pr_Repository s) number)
       (\<lambda>merged. if merged then act_return () else merge_comment w c s ''merge-resolved-comment'' ''resolved'')"

definition sync_label :: "pr_world \<Rightarrow> pr_coordinator \<Rightarrow> int \<Rightarrow> PRState \<Rightarrow> unit act" where
  "sync_label w c number s =
     (if pr_ReviewLabelPresent s = pf_NeedsHumanReview (pr_Facts s) then act_return ()
      else governanceMutation w c s ''review-label''
        (pc_marshal c (JObject [(''Label'', JString (pc_ReviewLabel c)), (''Present'', JBool (pf_NeedsHumanReview (pr_Facts s)))]))
        (SyncReviewLabel (pr_Repository s) number (pc_ReviewLabel c) (pr_ReviewLabelPresent s) (pf_NeedsHumanReview (pr_Facts s))))"

fun record_decisions :: "pr_world \<Rightarrow> pr_coordinator \<Rightarrow> PRState \<Rightarrow> string list \<Rightarrow> PRDecision list \<Rightarrow> unit act" where
  "record_decisions w c s seen [] = act_return ()"
| "record_decisions w c s seen (d # ds) =
     (if pd_ID d = [] \<or> pd_ID d \<in> set seen \<or> trim_space (pd_Body d) = [] \<or> pd_Recorded d then record_decisions w c s seen ds
      else act_then
        (comment_text (AttributedBody (pr_Issue s) (pr_Attempt s)
            (''Implementation decision '' @ pd_ID d @ LF @ LF @ pd_Body d))
          (\<lambda>body. governanceMutation w c s ''decision-comment'' body (CreateComment (pr_Repository s) (pr_Issue s) body)))
        (record_decisions w c s (pd_ID d # seen) ds))"

fun record_dispositions :: "pr_world \<Rightarrow> pr_coordinator \<Rightarrow> PRState \<Rightarrow> Feedback list \<Rightarrow> unit act" where
  "record_dispositions w c s [] = act_return ()"
| "record_dispositions w c s (f # fs) =
     act_then
       (comment_text (FeedbackDispositionBody (pr_Issue s) (pr_Attempt s) f (fb_Evidence f))
         (\<lambda>body. governanceMutation w c s ''feedback-disposition-comment'' body
            (CreateComment (pr_Repository s) (pr_Issue s) body)))
       (record_dispositions w c s fs)"

definition confirm_head :: "pr_world \<Rightarrow> int \<Rightarrow> PRState \<Rightarrow> string \<Rightarrow> PRState act" where
  "confirm_head w number s complaint h =
     (case read_pull w number h of
        (Inr s', h') \<Rightarrow>
          if attribution_ok s number s' \<and> pr_HeadSHA s' = pr_HeadSHA s then (Inr s', h') else (Inl (complaint, False), h')
      | (Inl _, h') \<Rightarrow> (Inl (complaint, False), h'))"

definition item_changed :: "Feedback \<Rightarrow> Feedback \<Rightarrow> bool" where
  "item_changed f fresh \<longleftrightarrow>
     feedback_identity fresh \<noteq> feedback_identity f \<or> fb_ActorID fresh \<noteq> fb_ActorID f \<or> fb_Body fresh \<noteq> fb_Body f \<or>
     \<not> fb_Authorized fresh \<or> trim_space (fb_Body fresh) = []"

definition delegate_item :: "pr_world \<Rightarrow> pr_coordinator \<Rightarrow> int \<Rightarrow> PRState \<Rightarrow> Feedback \<Rightarrow> unit act" where
  "delegate_item w c number s f =
     act_bind (confirm_head w number s ''pull request identity changed before feedback delegation'') (\<lambda>fresh_state.
     act_bind (read_item w fresh_state f) (\<lambda>fresh.
       if item_changed f fresh
       then act_fail (''feedback '' @ itoa (fb_ID f) @ '' identity or authorization changed before delegation'')
       else act_bind (confirm_head w number s ''pull request identity changed immediately before feedback delegation'') (\<lambda>confirmed.
         governanceMutation w c confirmed ''feedback-delegation''
           (feedback_identity fresh @ '':'' @ itoa (fb_ActorID fresh) @ '':'' @ fb_Body fresh)
           (DelegateFeedback confirmed fresh))))"

fun delegate_items :: "pr_world \<Rightarrow> pr_coordinator \<Rightarrow> int \<Rightarrow> PRState \<Rightarrow> Feedback list \<Rightarrow> unit act" where
  "delegate_items w c number s [] = act_return ()"
| "delegate_items w c number s (f # fs) =
     (if fb_Delegated f then delegate_items w c number s fs
      else act_then
        (delegate_item w c number s (if fb_State f = [] then f\<lparr>fb_State := FeedbackPending\<rparr> else f))
        (delegate_items w c number s fs))"

definition queue_validation :: "pr_world \<Rightarrow> pr_coordinator \<Rightarrow> PRState \<Rightarrow> unit act" where
  "queue_validation w c s =
     (if hasAddressedFeedback (pf_Feedback (pr_Facts s)) \<and> pf_ValidationSHA (pr_Facts s) \<noteq> pr_HeadSHA s \<and>
        pr_ValidationQueuedSHA s \<noteq> pr_HeadSHA s
      then governanceMutation w c s ''validation-queue'' (pr_HeadSHA s) (RerunValidation s)
      else act_return ())"

section \<open>The decision\<close>

definition publish_status :: "pr_world \<Rightarrow> pr_coordinator \<Rightarrow> PRState \<Rightarrow> PolicyResult \<Rightarrow> unit act" where
  "publish_status w c s r =
     (if pr_CheckHead s \<noteq> pr_HeadSHA s \<or> pr_PolicyStatus s \<noteq> policyStatus r
      then governanceMutation w c s ''policy-status'' (pc_marshal c (pc_json_result c r))
        (PublishPolicyStatus (pr_Repository s) (pr_HeadSHA s) r)
      else act_return ())"

definition comment_failure :: "pr_world \<Rightarrow> pr_coordinator \<Rightarrow> PRState \<Rightarrow> PolicyResult \<Rightarrow> unit act" where
  "comment_failure w c s r =
     (if \<not> po_Merge r \<and> po_CheckStatus r = ''completed'' \<and> po_MergeBlockers r \<noteq> [] \<and> 0 < pc_ActorID c
      then comment_text (PolicyFailureBody (pr_Issue s) (pr_Attempt s) (pr_HeadSHA s) (pr_ValidationResult s) (po_MergeBlockers r))
        (\<lambda>body. act_bind (ask_comment w (pr_Repository s) (pr_Number s) body (pc_ActorID c)) (\<lambda>present.
           if present then act_return ()
           else governanceMutation w c s ''policy-failure-comment'' body (CreateComment (pr_Repository s) (pr_Number s) body)))
      else act_return ())"

definition merge_now :: "pr_world \<Rightarrow> pr_coordinator \<Rightarrow> int \<Rightarrow> PRState \<Rightarrow> unit act" where
  "merge_now w c number s h =
     (case governanceMutation w c s ''merge'' (pc_MergeMethod c)
         (MergePullRequest (pr_Repository s) number (pr_HeadSHA s) (pc_MergeMethod c)) h of
        (Inr _, h') \<Rightarrow> (Inr (), h')
      | (Inl (e, ambiguous), h') \<Rightarrow>
          if ambiguous then (Inl (e, True), h')
          else case merge_comment w c s ''merge-resolved-comment'' ''resolved'' h' of
            (Inr _, h'') \<Rightarrow> (Inl (e, False), h'')
          | (Inl (e', ambiguous'), h'') \<Rightarrow> (Inl (e @ LF @ e', ambiguous'), h''))"

definition merge_pull :: "pr_world \<Rightarrow> pr_coordinator \<Rightarrow> int \<Rightarrow> PRState \<Rightarrow> unit act" where
  "merge_pull w c number s =
     act_bind (read_pull w number) (\<lambda>s'.
       if \<not> attribution_ok s number s' \<or> pr_HeadSHA s' \<noteq> pr_HeadSHA s then act_return ()
       else if \<not> po_Merge (EvaluatePR (pr_Facts s')) then act_return ()
       else act_then
         (if pr_MergeAttemptSHA s' \<noteq> pr_HeadSHA s' \<or> pr_MergePhase s' \<noteq> ''prepared''
          then merge_comment w c s' ''merge-prepared-comment'' ''prepared'' else act_return ())
         (act_then (merge_comment w c s' ''merge-dispatched-comment'' ''dispatched'') (merge_now w c number s')))"

definition decide_pull :: "pr_world \<Rightarrow> pr_coordinator \<Rightarrow> int \<Rightarrow> PRState \<Rightarrow> unit act" where
  "decide_pull w c number first =
     act_bind (read_pull w number) (\<lambda>s.
       if \<not> attribution_ok first number s then act_fail ''pull request identity changed during reconciliation''
       else
         let r = EvaluatePR (pr_Facts s) in
         act_then (publish_status w c s r)
           (act_then (comment_failure w c s r) (if po_Merge r then merge_pull w c number s else act_return ())))"

definition prepare_pull :: "pr_world \<Rightarrow> pr_coordinator \<Rightarrow> int \<Rightarrow> PRState \<Rightarrow> unit act" where
  "prepare_pull w c number s =
     act_then (sync_label w c number s)
       (act_then (record_decisions w c s [] (pr_Decisions s))
         (act_then (record_dispositions w c s (pr_PendingDispositions s))
           (act_then (delegate_items w c number s (ActionableFeedback (pf_Feedback (pr_Facts s)) (Some (\<lambda>_. True))))
             (queue_validation w c s))))"

definition reconcileOne :: "pr_world \<Rightarrow> pr_coordinator \<Rightarrow> int \<Rightarrow> unit act" where
  "reconcileOne w c number =
     act_bind (read_pull w number) (\<lambda>s.
       if \<not> attribution_ok s number s then act_fail ''contradictory pull request identity or head''
       else if pr_MergeAttemptSHA s = pr_HeadSHA s \<and> pr_MergePhase s = ''dispatched'' then settle_merge w c number s
       else act_then (prepare_pull w c number s) (decide_pull w c number s))"

section \<open>All pull requests\<close>

text \<open>
  \<^verbatim>\<open>Reconcile\<close> puts the open pull requests into groups by issue, in the order in which the issues first
  appear; a group is worked through in the order of its attempts, different groups run concurrently.
  A pull request without a verified attempt belongs to issue 0 and counts as attempt 0.
\<close>

record pr_candidate =
  cd_index :: nat
  cd_number :: int
  cd_attempt :: int

definition compareCandidate :: "pr_candidate \<Rightarrow> pr_candidate \<Rightarrow> int" where
  "compareCandidate a b =
     (if cd_attempt a \<noteq> cd_attempt b then compare_ord (cd_attempt a) (cd_attempt b)
      else compare_ord (cd_number a) (cd_number b))"

definition candidate_issue :: "(int \<Rightarrow> (int \<times> int) option) \<Rightarrow> int \<Rightarrow> int" where
  "candidate_issue attempts number = (case attempts number of Some (issue, _) \<Rightarrow> issue | None \<Rightarrow> 0)"

definition candidates :: "(int \<Rightarrow> (int \<times> int) option) \<Rightarrow> int list \<Rightarrow> pr_candidate list" where
  "candidates attempts numbers =
     map (\<lambda>(i, n). \<lparr>cd_index = i, cd_number = n, cd_attempt = (case attempts n of Some (_, a) \<Rightarrow> a | None \<Rightarrow> 0)\<rparr>)
       (enumerate 0 numbers)"

definition reconcile_groups :: "(int \<Rightarrow> (int \<times> int) option) \<Rightarrow> int list \<Rightarrow> (int \<times> pr_candidate list) list" where
  "reconcile_groups attempts numbers =
     map (\<lambda>issue. (issue, sort_func compareCandidate
         (filter (\<lambda>x. candidate_issue attempts (cd_number x) = issue) (candidates attempts numbers))))
       (rev (remdups (rev (map (candidate_issue attempts) numbers))))"

fun reconcile_group :: "pr_world \<Rightarrow> pr_coordinator \<Rightarrow> pr_candidate list \<Rightarrow> pr_event list \<Rightarrow> (nat \<times> string) list \<times> pr_event list" where
  "reconcile_group w c [] h = ([], h)"
| "reconcile_group w c (x # xs) h =
     (case reconcileOne w c (cd_number x) h of
        (Inl (e, _), h') \<Rightarrow>
          (case reconcile_group w c xs h' of (errs, h'') \<Rightarrow>
             ((cd_index x, ''reconcile pull request '' @ itoa (cd_number x) @ '': '' @ e) # errs, h''))
      | (Inr _, h') \<Rightarrow> reconcile_group w c xs h')"

end
