(* ===== verification/Pull_Coordinator_Properties.thy ===== *)
theory Pull_Coordinator_Properties
  imports Pull_Coordinator
begin

text \<open>
  What the coordinator of pull requests promises in every world: each mutation is recorded ahead, and a
  pull request is merged at most once per round, on a head that the policy allowed twice.
\<close>

section \<open>Histories\<close>

definition emits :: "(pr_event list \<Rightarrow> bool) \<Rightarrow> 'a act \<Rightarrow> bool" where
  "emits P m \<longleftrightarrow> (\<forall>h. \<exists>seg. snd (m h) = h @ seg \<and> P seg)"

lemma emitsE: "emits P m \<Longrightarrow> \<exists>seg. snd (m h) = h @ seg \<and> P seg"
  by (simp add: emits_def)

definition merging :: "pr_mutation \<Rightarrow> bool" where
  "merging m \<longleftrightarrow> (case m of MergePullRequest _ _ _ _ \<Rightarrow> True | _ \<Rightarrow> False)"

lemma merging_simps [simp]: "merging (MergePullRequest r n h k)" "\<not> merging (CreateComment r i b)"
  "\<not> merging (SyncReviewLabel r i l p q)" "\<not> merging (DelegateFeedback s f)" "\<not> merging (RerunValidation s)"
  "\<not> merging (PublishPolicyStatus r h x)"
  by (simp_all add: merging_def)

text \<open>A property of histories that every step of the coordinator keeps.\<close>

locale pr_trace =
  fixes P :: "pr_event list \<Rightarrow> bool" and allowed :: "pr_mutation \<Rightarrow> bool"
  assumes nil: "P []"
    and app: "P a \<Longrightarrow> P b \<Longrightarrow> P (a @ b)"
    and pull: "P [FreshPull n rs]" and item: "P [FreshItem f rf]"
    and merged: "P [AskedMerged n rb]" and comment: "P [AskedComment n t rb]"
    and refused: "P [AdmittedPhase p (Some e)]"
    and failed: "allowed m \<Longrightarrow> P [AdmittedPhase p None, Mutated m (Some x)]"
    and done_with: "allowed m \<Longrightarrow> P [AdmittedPhase p None, Mutated m None, CompletedPhase p r]"
    and harmless: "\<not> merging m \<Longrightarrow> allowed m"
begin

lemma emits_return: "emits P (act_return x)"
  by (simp add: emits_def act_return_def nil)

lemma emits_fail: "emits P (act_fail e)"
  by (simp add: emits_def act_fail_def nil)

lemma emits_bind: "emits P m \<Longrightarrow> (\<And>x. emits P (k x)) \<Longrightarrow> emits P (act_bind m k)"
  unfolding emits_def
proof
  fix h
  assume m: "\<forall>h. \<exists>seg. snd (m h) = h @ seg \<and> P seg" and k: "\<And>x. \<forall>h. \<exists>seg. snd (k x h) = h @ seg \<and> P seg"
  obtain r seg where r: "m h = (r, h @ seg)" "P seg" using m by (metis prod.collapse)
  show "\<exists>seg. snd (act_bind m k h) = h @ seg \<and> P seg"
  proof (cases r)
    case (Inl e)
    then show ?thesis using r by (simp add: act_bind_def)
  next
    case (Inr x)
    obtain seg' where "snd (k x (h @ seg)) = (h @ seg) @ seg'" "P seg'" using k[of x] by blast
    then show ?thesis using Inr r app[of seg seg'] by (auto simp: act_bind_def)
  qed
qed

lemma emits_then: "emits P m \<Longrightarrow> emits P k \<Longrightarrow> emits P (act_then m k)"
  by (simp add: act_then_def emits_bind)

lemma emits_read: "emits P (read_pull w n)" "emits P (read_item w s f)" "emits P (ask_merged w r n)"
  "emits P (ask_comment w r n b a)"
  by (simp_all add: emits_def read_pull_def read_item_def ask_merged_def ask_comment_def answer_def pull item merged comment)

lemma emits_confirm: "emits P (confirm_head w n s e)"
  by (simp add: emits_def confirm_head_def read_pull_def answer_def pull split: sum.split)

lemma emits_governance: "allowed m \<Longrightarrow> emits P (governanceMutation w c s kind payload m)"
proof (cases "pc_HasPhases c \<and> NewGovernancePhase (pc_sha c) s kind payload \<noteq> None")
  case True
  assume a: "allowed m"
  from True obtain p where p: "NewGovernancePhase (pc_sha c) s kind payload = Some p" by blast
  show ?thesis
    unfolding emits_def
  proof
    fix h
    let ?h1 = "h @ [AdmittedPhase p None]"
    let ?h2 = "?h1 @ [Mutated m (w_mutate w ?h1 m)]"
    show "\<exists>seg. snd (governanceMutation w c s kind payload m h) = h @ seg \<and> P seg"
      using True p refused failed[OF a] done_with[OF a]
      by (cases "w_admit w h p"; cases "w_mutate w ?h1 m"; cases "w_complete w ?h2 p")
        (simp_all add: governanceMutation_def act_then_def act_bind_def admit_phase_def mutate_now_def complete_phase_def
          verdict_of_def plain_failure_def)
  qed
qed (auto simp: governanceMutation_def emits_fail)

lemma emits_comment_text: "(\<And>b. emits P (k b)) \<Longrightarrow> emits P (comment_text body k)"
  by (simp add: comment_text_def emits_fail split: option.split)

lemmas emits_steps = emits_return emits_fail emits_bind emits_then emits_read emits_confirm emits_comment_text
  emits_governance harmless

lemma emits_merge_comment: "emits P (merge_comment w c s kind state)"
  by (simp add: merge_comment_def emits_steps)

lemma emits_decisions: "emits P (record_decisions w c s seen ds)"
  by (induction ds arbitrary: seen) (simp_all add: emits_steps)

lemma emits_dispositions: "emits P (record_dispositions w c s fs)"
  by (induction fs) (simp_all add: emits_steps)

lemma emits_items: "emits P (delegate_items w c n s fs)"
  by (induction fs) (simp_all add: emits_steps delegate_item_def)

lemma emits_prepare: "emits P (prepare_pull w c n s)"
  by (simp add: prepare_pull_def sync_label_def queue_validation_def emits_steps emits_decisions emits_dispositions emits_items)

lemma emits_settle: "emits P (settle_merge w c n s)"
  by (simp add: settle_merge_def emits_steps emits_merge_comment)

lemma emits_publish: "emits P (publish_status w c s r)" "emits P (comment_failure w c s r)"
  by (simp_all add: publish_status_def comment_failure_def emits_steps)

lemma emits_merge_now:
  assumes "allowed (MergePullRequest (pr_Repository s) n (pr_HeadSHA s) (pc_MergeMethod c))"
  shows "emits P (merge_now w c n s)"
  unfolding emits_def
proof
  fix h
  let ?g = "governanceMutation w c s ''merge'' (pc_MergeMethod c) (MergePullRequest (pr_Repository s) n (pr_HeadSHA s) (pc_MergeMethod c))"
  obtain r seg where g: "?g h = (r, h @ seg)" "P seg"
    using emitsE[OF emits_governance[OF assms], of w c s "''merge''" "pc_MergeMethod c" h] by (metis prod.collapse)
  obtain r' seg' where g': "merge_comment w c s ''merge-resolved-comment'' ''resolved'' (h @ seg) = (r', (h @ seg) @ seg')" "P seg'"
    using emitsE[OF emits_merge_comment] by (metis prod.collapse)
  show "\<exists>seg. snd (merge_now w c n s h) = h @ seg \<and> P seg"
    using g g' app[OF g(2) g'(2)] by (auto simp: merge_now_def split: sum.split)
qed

lemma emits_all: "(\<And>m. allowed m) \<Longrightarrow> emits P (reconcileOne w c n)"
  by (simp add: reconcileOne_def decide_pull_def merge_pull_def Let_def emits_steps emits_settle emits_prepare emits_publish
      emits_merge_comment emits_merge_now)

end

section \<open>Recorded ahead\<close>

definition settled_event :: "pr_event \<Rightarrow> bool" where
  "settled_event e \<longleftrightarrow> (case e of Mutated _ _ \<Rightarrow> False | CompletedPhase _ _ \<Rightarrow> False | AdmittedPhase _ r \<Rightarrow> r \<noteq> None | _ \<Rightarrow> True)"

inductive write_ahead :: "pr_event list \<Rightarrow> bool" where
  nothing: "write_ahead []"
| event: "settled_event e \<Longrightarrow> write_ahead h \<Longrightarrow> write_ahead (e # h)"
| failed: "write_ahead h \<Longrightarrow> write_ahead (AdmittedPhase p None # Mutated m (Some x) # h)"
| completed: "write_ahead h \<Longrightarrow> write_ahead (AdmittedPhase p None # Mutated m None # CompletedPhase p r # h)"

lemma write_ahead_append: "write_ahead a \<Longrightarrow> write_ahead b \<Longrightarrow> write_ahead (a @ b)"
  by (induction rule: write_ahead.induct) (auto intro: write_ahead.intros)

interpretation ahead: pr_trace write_ahead "\<lambda>_. True"
  by unfold_locales (auto intro: write_ahead.intros write_ahead_append simp: settled_event_def)

lemma write_ahead_split:
  assumes "write_ahead h" "h = pre @ Mutated m r # post"
  shows "\<exists>p before. pre = before @ [AdmittedPhase p None] \<and> (r = None \<longrightarrow> (\<exists>x rest. post = CompletedPhase p x # rest))"
  using assms
proof (induction arbitrary: pre rule: write_ahead.induct)
  case (event e h)
  then show ?case by (cases pre) (auto simp: settled_event_def)
next
  case (failed h p m' x)
  show ?case
  proof (cases "pre = [AdmittedPhase p None]")
    case False
    then obtain pre' where "pre = AdmittedPhase p None # Mutated m' (Some x) # pre'" "h = pre' @ Mutated m r # post"
      using failed.prems by (auto simp: Cons_eq_append_conv)
    then show ?thesis using failed.IH by fastforce
  qed (use failed.prems in auto)
next
  case (completed h p m' y)
  show ?case
  proof (cases "pre = [AdmittedPhase p None]")
    case False
    then obtain pre' where "pre = AdmittedPhase p None # Mutated m' None # CompletedPhase p y # pre'" "h = pre' @ Mutated m r # post"
      using completed.prems by (auto simp: Cons_eq_append_conv)
    then show ?thesis using completed.IH by fastforce
  qed (use completed.prems in auto)
qed simp

text \<open>
  C17: Every mutation is recorded ahead.  Whatever the outside answers, a mutation of GitHub or of the
  recovery state directly follows the admission of a governance phase, and when it succeeds the same
  phase is completed next.
\<close>

theorem coordinator_write_ahead:
  assumes "snd (reconcileOne w c number []) = pre @ Mutated m r # post"
  shows "\<exists>p before. pre = before @ [AdmittedPhase p None] \<and> (r = None \<longrightarrow> (\<exists>x rest. post = CompletedPhase p x # rest))"
  using emitsE[OF ahead.emits_all[of w c number], of "[]"] write_ahead_split assms by force

section \<open>Merges\<close>

definition merge_event :: "pr_event \<Rightarrow> bool" where
  "merge_event e \<longleftrightarrow> (case e of Mutated m _ \<Rightarrow> merging m | _ \<Rightarrow> False)"

definition no_merge :: "pr_event list \<Rightarrow> bool" where
  "no_merge h \<longleftrightarrow> list_all (\<lambda>e. \<not> merge_event e) h"

lemma no_merge_simps [simp]: "no_merge []" "no_merge (a @ b) = (no_merge a \<and> no_merge b)"
  "no_merge (e # h) = (\<not> merge_event e \<and> no_merge h)"
  by (simp_all add: no_merge_def)

lemma merge_event_simps [simp]: "\<not> merge_event (FreshPull n rs)" "\<not> merge_event (FreshItem f rf)"
  "\<not> merge_event (AskedMerged n rb)" "\<not> merge_event (AskedComment n t rb)" "\<not> merge_event (AdmittedPhase p r)"
  "\<not> merge_event (CompletedPhase p r)" "merge_event (Mutated m x) = merging m"
  by (simp_all add: merge_event_def)

interpretation unmerged: pr_trace no_merge "\<lambda>m. \<not> merging m"
  by unfold_locales simp_all

lemma governance_success:
  assumes "governanceMutation w c s kind payload m h = (Inr u, h')"
  shows "\<exists>p. h' = h @ [AdmittedPhase p None, Mutated m None, CompletedPhase p None]"
proof -
  obtain p where p: "pc_HasPhases c" "NewGovernancePhase (pc_sha c) s kind payload = Some p"
    using assms by (auto simp: governanceMutation_def act_fail_def split: if_splits option.splits)
  let ?h1 = "h @ [AdmittedPhase p None]"
  let ?h2 = "?h1 @ [Mutated m (w_mutate w ?h1 m)]"
  show ?thesis
    using assms p
    by (cases "w_admit w h p"; cases "w_mutate w ?h1 m"; cases "w_complete w ?h2 p")
      (auto simp: governanceMutation_def act_then_def act_bind_def admit_phase_def mutate_now_def complete_phase_def
        verdict_of_def plain_failure_def)
qed

lemma governance_shape:
  obtains x seg where "governanceMutation w c s kind payload m h = (x, h @ seg)" "no_merge seg"
  | x p r rest where "governanceMutation w c s kind payload m h = (x, h @ AdmittedPhase p None # Mutated m r # rest)"
      "no_merge rest" "pc_HasPhases c" "NewGovernancePhase (pc_sha c) s kind payload = Some p"
      "\<And>q e post. rest = CompletedPhase q (Some e) # post \<Longrightarrow> post = [] \<and> x = Inl (e, False)"
proof (cases "pc_HasPhases c \<and> NewGovernancePhase (pc_sha c) s kind payload \<noteq> None")
  case True
  then obtain p where p: "pc_HasPhases c" "NewGovernancePhase (pc_sha c) s kind payload = Some p" by blast
  let ?h1 = "h @ [AdmittedPhase p None]"
  let ?h2 = "?h1 @ [Mutated m (w_mutate w ?h1 m)]"
  note run = governanceMutation_def act_then_def act_bind_def admit_phase_def mutate_now_def complete_phase_def
    verdict_of_def plain_failure_def
  show thesis
  proof (cases "w_admit w h p")
    case (Some e)
    then show ?thesis using p by (intro that(1)[of _ "[AdmittedPhase p (Some e)]"]) (simp_all add: run)
  next
    case None
    show ?thesis
    proof (cases "w_mutate w ?h1 m")
      case (Some f)
      then show ?thesis using p None by (intro that(2)[of _ p "Some f" "[]"]) (simp_all add: run)
    next
      case mutated: None
      show ?thesis using p None mutated
        by (cases "w_complete w ?h2 p") (rule that(2)[of _ p None "[CompletedPhase p (w_complete w ?h2 p)]"]; simp add: run)+
    qed
  qed
next
  case False
  then show thesis
    by (intro that(1)[of "fst (governanceMutation w c s kind payload m h)" "[]"]) (auto simp: governanceMutation_def act_fail_def)
qed

lemma merge_comment_success:
  assumes "merge_comment w c s kind state h = (Inr u, h')"
  shows "\<exists>p body. AttributedBody (pr_Issue s) (pr_Attempt s) (mergeDisposition (pr_HeadSHA s) state) = Some body \<and>
    h' = h @ [AdmittedPhase p None, Mutated (CreateComment (pr_Repository s) (pr_Issue s) body) None, CompletedPhase p None]"
  using assms governance_success
  by (fastforce simp: merge_comment_def comment_text_def act_fail_def split: option.splits)

abbreviation merge_of :: "pr_coordinator \<Rightarrow> int \<Rightarrow> PRState \<Rightarrow> pr_mutation" where
  "merge_of c number s \<equiv> MergePullRequest (pr_Repository s) number (pr_HeadSHA s) (pc_MergeMethod c)"

text \<open>The comment that marks the merge attempt as resolved is asked for, and written if its phase is admitted.\<close>

definition resolves :: "PRState \<Rightarrow> pr_event list \<Rightarrow> bool" where
  "resolves s h \<longleftrightarrow>
     (\<exists>q r rest body. h = AdmittedPhase q r # rest \<and> gp_Kind q = ''merge-resolved-comment'' \<and>
       AttributedBody (pr_Issue s) (pr_Attempt s) (mergeDisposition (pr_HeadSHA s) ''resolved'') = Some body \<and>
       (r = None \<longrightarrow> (\<exists>x rest'. rest = Mutated (CreateComment (pr_Repository s) (pr_Issue s) body) x # rest')))"

lemma disposition_body:
  assumes "0 < issue" "0 < attempt"
  obtains body where "AttributedBody issue attempt (mergeDisposition head state) = Some body" "body \<noteq> []"
proof -
  have "trim_space (mergeDisposition head state) = mergeDisposition head state"
    by (rule trim_space_graphic) (simp_all add: mergeDisposition_def graphic_def of_char_def)
  then show thesis using assms that by (simp add: AttributedBody_def mergeDisposition_def)
qed

lemma merge_comment_resolves:
  assumes "pc_HasPhases c" "NewGovernancePhase (pc_sha c) s kind payload = Some p"
  obtains x seg where "merge_comment w c s ''merge-resolved-comment'' ''resolved'' h = (x, h @ seg)" "no_merge seg" "resolves s seg"
proof -
  have v: "validPullState s (pr_Number s) (pr_Repository s) (pr_Issue s) (pr_Attempt s)"
    using assms(2) by (simp add: NewGovernancePhase_def split: if_splits)
  then have "0 < pr_Issue s" "0 < pr_Attempt s" by (simp_all add: validPullState_def)
  then obtain body where b: "AttributedBody (pr_Issue s) (pr_Attempt s) (mergeDisposition (pr_HeadSHA s) ''resolved'') = Some body"
    "body \<noteq> []" by (rule disposition_body)
  obtain q where q: "NewGovernancePhase (pc_sha c) s ''merge-resolved-comment'' body = Some q" "gp_Kind q = ''merge-resolved-comment''"
    using v b(2) by (simp add: NewGovernancePhase_def)
  let ?m = "CreateComment (pr_Repository s) (pr_Issue s) body"
  have m: "merge_comment w c s ''merge-resolved-comment'' ''resolved'' h = governanceMutation w c s ''merge-resolved-comment'' body ?m h"
    by (simp add: merge_comment_def comment_text_def b(1))
  let ?h1 = "h @ [AdmittedPhase q None]"
  let ?h2 = "?h1 @ [Mutated ?m (w_mutate w ?h1 ?m)]"
  define seg where "seg = AdmittedPhase q (w_admit w h q) # (if w_admit w h q \<noteq> None then [] else
      Mutated ?m (w_mutate w ?h1 ?m) # (if w_mutate w ?h1 ?m \<noteq> None then [] else [CompletedPhase q (w_complete w ?h2 q)]))"
  have "snd (governanceMutation w c s ''merge-resolved-comment'' body ?m h) = h @ seg"
    using assms(1) q(1)
    by (cases "w_admit w h q"; cases "w_mutate w ?h1 ?m"; cases "w_complete w ?h2 q")
      (simp_all add: seg_def governanceMutation_def act_then_def act_bind_def admit_phase_def mutate_now_def complete_phase_def
        verdict_of_def plain_failure_def)
  moreover have "no_merge seg" by (simp add: seg_def)
  moreover have "resolves s seg" using q(2) b(1) by (auto simp: resolves_def seg_def)
  ultimately show thesis using that m by (metis prod.collapse)
qed

lemma merge_now_shape:
  "\<exists>seg. snd (merge_now w c number s h) = h @ seg \<and>
     (no_merge seg \<or> (\<exists>p r rest. seg = AdmittedPhase p None # Mutated (merge_of c number s) r # rest \<and> no_merge rest \<and>
       (\<forall>q e post. rest = CompletedPhase q (Some e) # post \<longrightarrow> resolves s post)))"
proof (rule governance_shape[of w c s "''merge''" "pc_MergeMethod c" "merge_of c number s" h], goal_cases)
  case (1 x seg)
  obtain y seg' where g': "merge_comment w c s ''merge-resolved-comment'' ''resolved'' (h @ seg) = (y, (h @ seg) @ seg')" "no_merge seg'"
    using emitsE[OF unmerged.emits_merge_comment] by (metis prod.collapse)
  have "snd (merge_now w c number s h) = h @ seg \<or> snd (merge_now w c number s h) = h @ seg @ seg'"
    using 1(1) g'(1) by (auto simp: merge_now_def split: sum.split)
  then show ?case using 1(2) g'(2) by (metis no_merge_simps(2))
next
  case (2 x p r rest)
  let ?seg = "AdmittedPhase p None # Mutated (merge_of c number s) r # rest"
  obtain y seg' where g': "merge_comment w c s ''merge-resolved-comment'' ''resolved'' (h @ ?seg) = (y, (h @ ?seg) @ seg')" "no_merge seg'"
    "resolves s seg'"
    using merge_comment_resolves[OF 2(3,4)] .
  show ?case
  proof (cases "\<exists>e. x = Inl (e, False)")
    case True
    then have "snd (merge_now w c number s h) = h @ ?seg @ seg'"
      using 2(1) g'(1) by (auto simp: merge_now_def split: sum.split)
    moreover have "resolves s post" if "rest @ seg' = CompletedPhase q (Some e) # post" for q e post
    proof (cases rest)
      case Nil then show ?thesis using that g'(3) by (auto simp: resolves_def)
    next
      case (Cons a as)
      then show ?thesis using that 2(5)[of q e as] g'(3) by simp
    qed
    ultimately show ?thesis using 2(2) g'(2) by (intro exI[of _ "?seg @ seg'"]) auto
  next
    case False
    then have "snd (merge_now w c number s h) = h @ ?seg"
      using 2(1) by (auto simp: merge_now_def split: sum.split)
    then show ?thesis using 2(2,5) False by (intro exI[of _ ?seg]) auto
  qed
qed

text \<open>What surrounds a merge: the last reading of the pull request and the comment that announces it.\<close>

definition announced :: "PRState \<Rightarrow> pr_event list \<Rightarrow> bool" where
  "announced s b \<longleftrightarrow>
     (\<exists>body. AttributedBody (pr_Issue s) (pr_Attempt s) (mergeDisposition (pr_HeadSHA s) ''dispatched'') = Some body \<and>
       Mutated (CreateComment (pr_Repository s) (pr_Issue s) body) None \<in> set b)"

definition rereads :: "pr_event list \<Rightarrow> bool" where
  "rereads b \<longleftrightarrow> list_ex (\<lambda>e. case e of FreshPull _ _ \<Rightarrow> True | _ \<Rightarrow> False) b"

definition last_reading :: "pr_coordinator \<Rightarrow> int \<Rightarrow> PRState \<Rightarrow> pr_event list \<Rightarrow> PRState \<Rightarrow> pr_event list \<Rightarrow> bool" where
  "last_reading c number s seg s' rest \<longleftrightarrow>
     (\<exists>b r. seg = FreshPull number (Inr s') # b @ Mutated (merge_of c number s') r # rest \<and> attribution_ok s number s' \<and>
       pr_HeadSHA s' = pr_HeadSHA s \<and> po_Merge (EvaluatePR (pr_Facts s')) \<and> no_merge b \<and> \<not> rereads b \<and>
       announced s' b \<and> no_merge rest \<and>
       (\<forall>q e post. rest = CompletedPhase q (Some e) # post \<longrightarrow> resolves s' post))"

lemma merge_pull_shape:
  "\<exists>seg. snd (merge_pull w c number s h) = h @ seg \<and> (no_merge seg \<or> (\<exists>s' rest. last_reading c number s seg s' rest))"
proof (cases "w_fresh w h number")
  case (Inl e)
  then show ?thesis by (simp add: merge_pull_def act_bind_def read_pull_def answer_def)
next
  case (Inr s')
  let ?h1 = "h @ [FreshPull number (Inr s')]"
  show ?thesis
  proof (cases "attribution_ok s number s' \<and> pr_HeadSHA s' = pr_HeadSHA s \<and> po_Merge (EvaluatePR (pr_Facts s'))")
    case False
    then show ?thesis using Inr by (auto simp: merge_pull_def act_bind_def read_pull_def answer_def act_return_def)
  next
    case True
    define first where "first = (if pr_MergeAttemptSHA s' \<noteq> pr_HeadSHA s' \<or> pr_MergePhase s' \<noteq> ''prepared''
        then merge_comment w c s' ''merge-prepared-comment'' ''prepared'' else act_return ())"
    have all: "merge_pull w c number s h = act_then first
        (act_then (merge_comment w c s' ''merge-dispatched-comment'' ''dispatched'') (merge_now w c number s')) ?h1"
      using True Inr by (simp add: merge_pull_def act_bind_def read_pull_def answer_def first_def)
    have "emits no_merge first"
      unfolding first_def by (simp add: unmerged.emits_merge_comment unmerged.emits_return)
    then obtain x b1 where f: "first ?h1 = (x, ?h1 @ b1)" "no_merge b1" using emitsE by (metis prod.collapse)
    have r1: "\<not> rereads b1" if "x = Inr u" for u
      using f that merge_comment_success[of w c s' "''merge-prepared-comment''" "''prepared''" ?h1]
      by (auto simp: first_def act_return_def rereads_def split: if_splits)
    obtain y b2 where d: "merge_comment w c s' ''merge-dispatched-comment'' ''dispatched'' (?h1 @ b1) = (y, (?h1 @ b1) @ b2)" "no_merge b2"
      using emitsE[OF unmerged.emits_merge_comment] by (metis prod.collapse)
    have r2: "\<not> rereads b2 \<and> announced s' b2" if "y = Inr u" for u
      using d that merge_comment_success[of w c s' "''merge-dispatched-comment''" "''dispatched''" "?h1 @ b1"]
      by (auto simp: announced_def rereads_def)
    obtain b3 where n0: "snd (merge_now w c number s' ((?h1 @ b1) @ b2)) = ((?h1 @ b1) @ b2) @ b3 \<and>
      (no_merge b3 \<or> (\<exists>p r rest. b3 = AdmittedPhase p None # Mutated (merge_of c number s') r # rest \<and> no_merge rest \<and>
        (\<forall>q e post. rest = CompletedPhase q (Some e) # post \<longrightarrow> resolves s' post)))"
      by (rule exE[OF merge_now_shape])
    note n = conjunct1[OF n0] conjunct2[OF n0]
    consider "\<exists>e. x = Inl e" | "x = Inr ()" "\<exists>e. y = Inl e" | "x = Inr ()" "y = Inr ()"
      by (cases x; cases y) auto
    then show ?thesis
    proof cases
      case 1
      then have "snd (merge_pull w c number s h) = ?h1 @ b1" by (auto simp: all act_then_def act_bind_def f(1))
      then show ?thesis using f(2) by auto
    next
      case 2
      then have "snd (merge_pull w c number s h) = (?h1 @ b1) @ b2" by (auto simp: all act_then_def act_bind_def f(1) d(1)[simplified])
      then show ?thesis using f(2) d(2) by auto
    next
      case 3
      then have e: "snd (merge_pull w c number s h) = h @ FreshPull number (Inr s') # (b1 @ b2) @ b3"
        using n(1) by (simp add: all act_then_def act_bind_def f(1) d(1)[simplified])
      from n(2) show ?thesis
      proof (elim disjE exE conjE)
        fix p r rest
        assume b3: "b3 = AdmittedPhase p None # Mutated (merge_of c number s') r # rest" "no_merge rest"
          "\<forall>q e post. rest = CompletedPhase q (Some e) # post \<longrightarrow> resolves s' post"
        let ?b = "b1 @ b2 @ [AdmittedPhase p None]"
        have "announced s' ?b" "\<not> rereads ?b" using r1 r2 3 by (auto simp: announced_def rereads_def)
        then have "last_reading c number s (FreshPull number (Inr s') # (b1 @ b2) @ b3) s' rest"
          using True f(2) d(2) b3 unfolding last_reading_def by (intro exI[of _ ?b] exI[of _ r]) simp
        then show ?thesis using e by blast
      qed (use e f(2) d(2) in auto)
    qed
  qed
qed

lemma attribution_eq: "attribution_ok s number s' \<Longrightarrow> attribution_ok s number t = attribution_ok s' number t"
  by (simp add: attribution_ok_def validPullState_def)

lemma decide_shape:
  "\<exists>seg. snd (decide_pull w c number first h) = h @ seg \<and>
     (no_merge seg \<or> (\<exists>s q m s' rest. seg = FreshPull number (Inr s) # q @ m \<and> attribution_ok first number s \<and>
        po_Merge (EvaluatePR (pr_Facts s)) \<and> no_merge q \<and> last_reading c number s m s' rest))"
proof (cases "w_fresh w h number")
  case (Inl e)
  then show ?thesis by (simp add: decide_pull_def act_bind_def read_pull_def answer_def)
next
  case (Inr s)
  let ?h1 = "h @ [FreshPull number (Inr s)]" and ?r = "EvaluatePR (pr_Facts s)"
  show ?thesis
  proof (cases "attribution_ok first number s")
    case False
    then show ?thesis using Inr by (simp add: decide_pull_def act_bind_def read_pull_def answer_def act_fail_def)
  next
    case True
    let ?p = "act_then (publish_status w c s ?r) (comment_failure w c s ?r)"
    obtain x q where p: "?p ?h1 = (x, ?h1 @ q)" "no_merge q"
      using emitsE[OF unmerged.emits_then[OF unmerged.emits_publish]] by (metis prod.collapse)
    have all: "decide_pull w c number first h =
        act_then ?p (if po_Merge ?r then merge_pull w c number s else act_return ()) ?h1"
      using True Inr by (simp add: decide_pull_def act_then_def act_bind_def read_pull_def answer_def Let_def split: prod.split sum.split)
    show ?thesis
    proof (cases "isl x \<or> \<not> po_Merge ?r")
      case True
      then have "snd (decide_pull w c number first h) = ?h1 @ q"
        using p(1) by (cases x) (simp_all add: all act_then_def act_bind_def act_return_def split: sum.splits prod.splits)
      then show ?thesis using p(2) by auto
    next
      case False
      obtain m where m0: "snd (merge_pull w c number s (?h1 @ q)) = (?h1 @ q) @ m \<and>
          (no_merge m \<or> (\<exists>s' rest. last_reading c number s m s' rest))"
        by (rule exE[OF merge_pull_shape])
      have "snd (decide_pull w c number first h) = (?h1 @ q) @ m"
        using False p(1) m0 by (cases x) (simp_all add: all act_then_def act_bind_def split: sum.splits prod.splits)
      then show ?thesis using m0 p(2) True False by auto
    qed
  qed
qed

lemma one_merge:
  assumes "a @ e # b = pre @ e' # post" "no_merge a" "no_merge b" "merge_event e'"
  shows "pre = a \<and> e' = e \<and> post = b"
  using assms
proof (induction a arbitrary: pre)
  case Nil
  show ?case
  proof (cases pre)
    case (Cons x xs)
    then have "b = xs @ e' # post" using Nil.prems(1) by simp
    then show ?thesis using Nil.prems(3,4) by simp
  qed (use Nil in simp)
next
  case (Cons x xs)
  then obtain ys where "pre = x # ys" by (cases pre) auto
  then show ?case using Cons by simp
qed

lemma merge_located:
  assumes "snd (reconcileOne w c number []) = pre @ Mutated (MergePullRequest repository n head how) r # post"
  obtains a b d s s' where "pre = a @ FreshPull number (Inr s) # b @ FreshPull number (Inr s') # d" "n = number"
    "how = pc_MergeMethod c" "head = pr_HeadSHA s" "head = pr_HeadSHA s'" "repository = pr_Repository s'"
    "po_Merge (EvaluatePR (pr_Facts s))" "po_Merge (EvaluatePR (pr_Facts s'))" "attribution_ok s number s'"
    "announced s' d" "\<not> rereads d" "no_merge pre" "no_merge post"
    "\<And>q e rest. post = CompletedPhase q (Some e) # rest \<Longrightarrow> resolves s' rest"
proof (cases "w_fresh w [] number")
  case (Inl e)
  then show ?thesis using assms by (simp add: reconcileOne_def act_bind_def read_pull_def answer_def Cons_eq_append_conv)
next
  case (Inr first)
  let ?h1 = "[FreshPull number (Inr first)]"
  let ?e = "Mutated (MergePullRequest repository n head how) r"
  have one: "snd (reconcileOne w c number []) \<noteq> ?h1 @ seg" if "no_merge seg" for seg
  proof
    assume "snd (reconcileOne w c number []) = ?h1 @ seg"
    then have "no_merge (pre @ ?e # post)" using assms that by (metis merge_event_simps(1) no_merge_simps(1-3))
    then show False by simp
  qed
  have start: "reconcileOne w c number [] =
      (if \<not> attribution_ok first number first then act_fail ''contradictory pull request identity or head''
       else if pr_MergeAttemptSHA first = pr_HeadSHA first \<and> pr_MergePhase first = ''dispatched'' then settle_merge w c number first
       else act_then (prepare_pull w c number first) (decide_pull w c number first)) ?h1"
    using Inr by (simp add: reconcileOne_def act_bind_def read_pull_def answer_def)
  have ok: "attribution_ok first number first"
    using one[of "[]"] by (cases "attribution_ok first number first") (simp_all add: start act_fail_def)
  have n1: "\<not> (pr_MergeAttemptSHA first = pr_HeadSHA first \<and> pr_MergePhase first = ''dispatched'')"
  proof
    assume "pr_MergeAttemptSHA first = pr_HeadSHA first \<and> pr_MergePhase first = ''dispatched''"
    then have "reconcileOne w c number [] = settle_merge w c number first ?h1" using ok by (simp add: start)
    then show False using one emitsE[OF unmerged.emits_settle, of w c number first ?h1] by auto
  qed
  obtain x q where p: "prepare_pull w c number first ?h1 = (x, ?h1 @ q)" "no_merge q"
    using emitsE[OF unmerged.emits_prepare] by (metis prod.collapse)
  have all: "reconcileOne w c number [] = act_then (prepare_pull w c number first) (decide_pull w c number first) ?h1"
    using n1 ok by (auto simp: start)
  have x: "x = Inr ()"
    using one[of q] p by (cases x) (auto simp: all act_then_def act_bind_def)
  obtain seg where d0: "snd (decide_pull w c number first (?h1 @ q)) = (?h1 @ q) @ seg \<and>
     (no_merge seg \<or> (\<exists>s q m s' rest. seg = FreshPull number (Inr s) # q @ m \<and> attribution_ok first number s \<and>
        po_Merge (EvaluatePR (pr_Facts s)) \<and> no_merge q \<and> last_reading c number s m s' rest))"
    by (rule exE[OF decide_shape])
  have h: "snd (reconcileOne w c number []) = ?h1 @ q @ seg"
    using p(1) x d0 by (simp add: all act_then_def act_bind_def)
  then have "\<not> no_merge seg" using one[of "q @ seg"] p(2) by auto
  then obtain s q2 m s' rest where d: "seg = FreshPull number (Inr s) # q2 @ m" "attribution_ok first number s"
    "po_Merge (EvaluatePR (pr_Facts s))" "no_merge q2" "last_reading c number s m s' rest"
    using d0 by blast
  then obtain b e where l: "m = FreshPull number (Inr s') # b @ Mutated (merge_of c number s') e # rest" "attribution_ok s number s'"
    "pr_HeadSHA s' = pr_HeadSHA s" "po_Merge (EvaluatePR (pr_Facts s'))" "no_merge b" "\<not> rereads b" "announced s' b" "no_merge rest"
    "\<forall>q e post. rest = CompletedPhase q (Some e) # post \<longrightarrow> resolves s' post"
    unfolding last_reading_def by blast
  let ?pre = "?h1 @ q @ FreshPull number (Inr s) # q2 @ FreshPull number (Inr s') # b"
  have "?pre @ Mutated (merge_of c number s') e # rest = pre @ ?e # post"
    using h assms d(1) l(1) by simp
  then have u: "pre = ?pre \<and> ?e = Mutated (merge_of c number s') e \<and> post = rest"
    by (rule one_merge) (use p(2) d(4) l(5,8) in simp_all)
  show ?thesis
    by (rule that[of "?h1 @ q" s q2 s' b]) (use u d l p(2) in simp_all)
qed

text \<open>
  C16: A pull request is merged at most once in a round, and only a head that was allowed twice.  Before
  the merge the pull request was read at least twice, both times of the same attempt and with the head
  that is merged, the policy allowed the merge on both readings, after the last reading the merge was
  announced in a comment, and no other merge is asked for before or after.
\<close>

theorem merge_guarded:
  assumes "snd (reconcileOne w c number []) = pre @ Mutated (MergePullRequest repository n head how) r # post"
  shows "\<exists>a b d s s'. pre = a @ FreshPull number (Inr s) # b @ FreshPull number (Inr s') # d \<and> n = number \<and>
    how = pc_MergeMethod c \<and> head = pr_HeadSHA s \<and> head = pr_HeadSHA s' \<and> repository = pr_Repository s' \<and>
    po_Merge (EvaluatePR (pr_Facts s)) \<and> po_Merge (EvaluatePR (pr_Facts s')) \<and> attribution_ok s number s' \<and>
    announced s' d \<and> \<not> rereads d \<and> no_merge pre \<and> no_merge post"
  by (rule merge_located[OF assms]) blast

section \<open>A round that merges\<close>

text \<open>
  A pull request that may be merged, and a world in which everything succeeds but the completion of the
  merge phase.
\<close>

definition ready_facts :: PRFacts where
  "ready_facts = \<lparr>pf_IssueOpen = True, pf_IssueEligible = True, pf_AutonomousMerge = True, pf_PRIsOpen = True,
     pf_Draft = False, pf_Mergeable = True, pf_Behind = False, pf_BaseRequiresCurrent = False, pf_HeadSHA = ''abcdef1'',
     pf_ValidationSHA = ''abcdef1'', pf_DocumentationSHA = ''abcdef1'', pf_NeedsHumanReview = False,
     pf_ApprovalRequired = False, pf_Approved = False, pf_ChangesRequested = False, pf_CodeOwnerApprovalRequired = False,
     pf_CodeOwnerApproved = False, pf_LastPushApprovalRequired = False, pf_LastPushApproved = False,
     pf_RequiredChecksPass = True, pf_PolicyCheckRequired = False, pf_MergePermission = True,
     pf_BranchProtectionAllows = True, pf_ConflictingScope = False, pf_BranchModifiedOutsideAttempt = False,
     pf_Feedback = []\<rparr>"

definition ready_pull :: PRState where
  "ready_pull = \<lparr>pr_Repository = ''o/r'', pr_HeadSHA = ''abcdef1'', pr_CheckHead = ''abcdef1'', pr_PolicyStatus = ''success'',
     pr_ValidationQueuedSHA = [], pr_ValidationInFlightSHA = [], pr_ValidationGeneration = 0, pr_ValidationResult = [],
     pr_ValidationEvidence = [], pr_MergeAttemptSHA = ''abcdef1'', pr_MergePhase = ''prepared'', pr_Number = 3, pr_Issue = 7,
     pr_Attempt = 1, pr_ReviewLabelPresent = False, pr_Facts = ready_facts, pr_Decisions = [], pr_PendingDispositions = [],
     pr_ConfirmedDispositions = [], pr_HandoffReceipts = fmempty, pr_PreparedPublication = None\<rparr>"

definition ready_world :: pr_world where
  "ready_world = \<lparr>w_fresh = (\<lambda>_ _. Inr ready_pull), w_item = (\<lambda>_ _ f. Inr f), w_merged = (\<lambda>_ _ _. Inr False),
     w_comment = (\<lambda>_ _ _ _ _. Inr False), w_admit = (\<lambda>_ _. None),
     w_complete = (\<lambda>_ p. if gp_Kind p = ''merge'' then Some ''ledger was not written'' else None), w_mutate = (\<lambda>_ _. None)\<rparr>"

definition ready_coordinator :: pr_coordinator where
  "ready_coordinator = \<lparr>pc_HasPhases = True, pc_ReviewLabel = ''review'', pc_MergeMethod = ''squash'', pc_ActorID = 9,
     pc_sha = (\<lambda>x. x), pc_marshal = (\<lambda>_. []), pc_json_result = (\<lambda>_. JBool True)\<rparr>"

lemma ready_fields [simp]:
  "pr_Repository ready_pull = ''o/r''" "pr_HeadSHA ready_pull = ''abcdef1''" "pr_CheckHead ready_pull = ''abcdef1''"
  "pr_PolicyStatus ready_pull = ''success''" "pr_MergeAttemptSHA ready_pull = ''abcdef1''" "pr_MergePhase ready_pull = ''prepared''"
  "pr_Number ready_pull = 3" "pr_Issue ready_pull = 7" "pr_Attempt ready_pull = 1" "pr_ReviewLabelPresent ready_pull = False"
  "pr_Facts ready_pull = ready_facts" "pr_Decisions ready_pull = []" "pr_PendingDispositions ready_pull = []"
  "pf_HeadSHA ready_facts = ''abcdef1''" "pf_Feedback ready_facts = []" "\<not> pf_NeedsHumanReview ready_facts"
  by (simp_all add: ready_pull_def ready_facts_def)

lemma ready_merge: "EvaluatePR ready_facts = \<lparr>po_CheckStatus = ''completed'', po_CheckConclusion = ''success'', po_Reasons = [],
    po_MergeBlockers = [], po_Merge = True\<rparr>"
  by (simp add: EvaluatePR_def policy_reasons_def merge_blockers_def ready_facts_def)

definition disposition :: "string \<Rightarrow> string" where
  "disposition state = mergeDisposition ''abcdef1'' state @ LF @ LF @ ''<!-- agent-symphony:issue:'' @ itoa 7 @ '':attempt:'' @ itoa 1 @ '' -->''"

lemma ready_body: "AttributedBody 7 1 (mergeDisposition ''abcdef1'' state) = Some (disposition state)"
proof -
  have "trim_space (mergeDisposition ''abcdef1'' state) = mergeDisposition ''abcdef1'' state"
    by (rule trim_space_graphic) (simp_all add: mergeDisposition_def graphic_def of_char_def)
  then show ?thesis by (simp add: AttributedBody_def disposition_def) (simp add: mergeDisposition_def)
qed

lemma disposition_nonempty: "disposition state \<noteq> []"
  by (simp add: disposition_def mergeDisposition_def)

definition ready_phase :: "string \<Rightarrow> string \<Rightarrow> GovernancePhase" where
  "ready_phase kind payload = the (NewGovernancePhase (\<lambda>x. x) ready_pull kind payload)"

lemma ready_admission:
  "kind \<noteq> [] \<Longrightarrow> payload \<noteq> [] \<Longrightarrow> NewGovernancePhase (\<lambda>x. x) ready_pull kind payload = Some (ready_phase kind payload) \<and>
     gp_Kind (ready_phase kind payload) = kind"
  by (simp add: ready_phase_def NewGovernancePhase_def validPullState_def)

lemma ready_mutation:
  "kind \<noteq> [] \<Longrightarrow> payload \<noteq> [] \<Longrightarrow> governanceMutation ready_world ready_coordinator ready_pull kind payload m h =
     (if kind = ''merge'' then Inl (''ledger was not written'', False) else Inr (),
      h @ [AdmittedPhase (ready_phase kind payload) None, Mutated m None,
           CompletedPhase (ready_phase kind payload) (if kind = ''merge'' then Some ''ledger was not written'' else None)])"
  using ready_admission[of kind payload]
  by (simp add: governanceMutation_def act_then_def act_bind_def admit_phase_def mutate_now_def complete_phase_def verdict_of_def
      plain_failure_def ready_world_def ready_coordinator_def)

lemma ready_comment: "kind \<noteq> [] \<Longrightarrow> kind \<noteq> ''merge'' \<Longrightarrow> merge_comment ready_world ready_coordinator ready_pull kind state h =
     (Inr (), h @ [AdmittedPhase (ready_phase kind (disposition state)) None,
        Mutated (CreateComment ''o/r'' 7 (disposition state)) None, CompletedPhase (ready_phase kind (disposition state)) None])"
  by (simp add: merge_comment_def ready_body comment_text_def ready_mutation disposition_nonempty)

lemma ready_read: "read_pull ready_world 3 h = (Inr ready_pull, h @ [FreshPull 3 (Inr ready_pull)])"
  by (simp add: read_pull_def answer_def ready_world_def)

lemma ready_attribution: "attribution_ok ready_pull 3 ready_pull"
  by (simp add: attribution_ok_def validPullState_def)

lemma ready_prepare: "prepare_pull ready_world ready_coordinator 3 ready_pull h = (Inr (), h)"
  by (simp add: prepare_pull_def sync_label_def queue_validation_def hasAddressedFeedback_def act_then_def act_bind_def
      act_return_def ActionableFeedback_def)

abbreviation ready_merge_event :: "pr_failure option \<Rightarrow> pr_event" where
  "ready_merge_event \<equiv> Mutated (MergePullRequest ''o/r'' 3 ''abcdef1'' ''squash'')"

lemma ready_round:
  "reconcileOne ready_world ready_coordinator 3 [] = (Inl (''ledger was not written'', False),
     [FreshPull 3 (Inr ready_pull), FreshPull 3 (Inr ready_pull), FreshPull 3 (Inr ready_pull),
      AdmittedPhase (ready_phase ''merge-dispatched-comment'' (disposition ''dispatched'')) None,
      Mutated (CreateComment ''o/r'' 7 (disposition ''dispatched'')) None,
      CompletedPhase (ready_phase ''merge-dispatched-comment'' (disposition ''dispatched'')) None,
      AdmittedPhase (ready_phase ''merge'' ''squash'') None, ready_merge_event None,
      CompletedPhase (ready_phase ''merge'' ''squash'') (Some ''ledger was not written''),
      AdmittedPhase (ready_phase ''merge-resolved-comment'' (disposition ''resolved'')) None,
      Mutated (CreateComment ''o/r'' 7 (disposition ''resolved'')) None,
      CompletedPhase (ready_phase ''merge-resolved-comment'' (disposition ''resolved'')) None])"
proof -
  have how: "pc_MergeMethod ready_coordinator = ''squash''" by (simp add: ready_coordinator_def)
  have merge: "merge_now ready_world ready_coordinator 3 ready_pull h = (Inl (''ledger was not written'', False),
      h @ [AdmittedPhase (ready_phase ''merge'' ''squash'') None, ready_merge_event None,
        CompletedPhase (ready_phase ''merge'' ''squash'') (Some ''ledger was not written''),
        AdmittedPhase (ready_phase ''merge-resolved-comment'' (disposition ''resolved'')) None,
        Mutated (CreateComment ''o/r'' 7 (disposition ''resolved'')) None,
        CompletedPhase (ready_phase ''merge-resolved-comment'' (disposition ''resolved'')) None])" for h
    by (simp add: merge_now_def ready_mutation ready_comment how)
  show ?thesis
    by (simp add: reconcileOne_def decide_pull_def merge_pull_def act_bind_def act_then_def ready_read ready_attribution
        ready_prepare ready_merge publish_status_def comment_failure_def policyStatus_def Let_def act_return_def
        ready_comment merge)
qed

theorem coordinator_write_ahead_witness:
  "\<exists>p pre post. snd (reconcileOne ready_world ready_coordinator 3 []) = pre @ AdmittedPhase p None # ready_merge_event None # post"
proof -
  obtain pre post where h: "snd (reconcileOne ready_world ready_coordinator 3 []) = pre @ ready_merge_event None # post"
    using that[of "_ # _ # _ # _ # _ # _ # [_]"] by (simp add: ready_round)
  from coordinator_write_ahead[OF h] h show ?thesis by force
qed

theorem merge_guarded_witness:
  "\<exists>a b d s s'. take 7 (snd (reconcileOne ready_world ready_coordinator 3 [])) =
     a @ FreshPull 3 (Inr s) # b @ FreshPull 3 (Inr s') # d \<and> po_Merge (EvaluatePR (pr_Facts s')) \<and> announced s' d"
proof -
  let ?h = "snd (reconcileOne ready_world ready_coordinator 3 [])"
  have h: "?h = take 7 ?h @ ready_merge_event None # drop 8 ?h" by (simp add: ready_round)
  from merge_guarded[OF h] show ?thesis by blast
qed

text \<open>
  C33: A merge that went through is recorded as one that did not.  Whenever GitHub has merged the pull
  request and the completion of the merge phase then fails, in any round of any world, the coordinator
  next asks for the admission of the comment that marks the merge attempt as resolved, and if that phase
  is admitted it writes the comment on the issue.  Elsewhere the comment means that the pull request was
  not merged.
\<close>

theorem merge_recorded_resolved:
  assumes "snd (reconcileOne w c number []) =
    pre @ Mutated (MergePullRequest repository n head how) None # CompletedPhase p (Some e) # post"
  shows "\<exists>q r rest issue attempt body. post = AdmittedPhase q r # rest \<and> gp_Kind q = ''merge-resolved-comment'' \<and>
    AttributedBody issue attempt (mergeDisposition head ''resolved'') = Some body \<and>
    (r = None \<longrightarrow> (\<exists>x rest'. rest = Mutated (CreateComment repository issue body) x # rest'))"
proof -
  obtain s' where "head = pr_HeadSHA s'" "repository = pr_Repository s'" "resolves s' post"
    by (rule merge_located[OF assms]) blast
  then show ?thesis unfolding resolves_def by blast
qed

theorem merge_recorded_resolved_witness:
  "\<exists>pre p issue body x post. snd (reconcileOne ready_world ready_coordinator 3 []) =
     pre @ ready_merge_event None # CompletedPhase p (Some ''ledger was not written'') # post \<and>
     (\<exists>q attempt rest. post = AdmittedPhase q None # Mutated (CreateComment ''o/r'' issue body) x # rest \<and>
       AttributedBody issue attempt (mergeDisposition ''abcdef1'' ''resolved'') = Some body)"
proof -
  let ?h = "snd (reconcileOne ready_world ready_coordinator 3 [])"
  obtain p rest where h: "?h = take 7 ?h @ ready_merge_event None # CompletedPhase p (Some ''ledger was not written'') # rest"
    and r: "\<exists>q y ys. rest = AdmittedPhase q None # y # ys"
    by (rule that[of "ready_phase ''merge'' ''squash''" "drop 9 ?h"]) (simp_all add: ready_round)
  obtain q r' rest' issue attempt body where m: "rest = AdmittedPhase q r' # rest'"
    "AttributedBody issue attempt (mergeDisposition ''abcdef1'' ''resolved'') = Some body"
    "r' = None \<longrightarrow> (\<exists>x ys. rest' = Mutated (CreateComment ''o/r'' issue body) x # ys)"
    using merge_recorded_resolved[OF h] by blast
  then obtain x ys where "rest = AdmittedPhase q None # Mutated (CreateComment ''o/r'' issue body) x # ys" using r by auto
  then show ?thesis using h m(2) by blast
qed

end
