(* ===== verification/Attempt_Recovery_Properties.thy ===== *)
theory Attempt_Recovery_Properties
  imports Attempt_Recovery Owner_State
begin

text \<open>
  What the join of GitHub facts and local manifests promises: every attempt appears, the order of a Go
  map does not show, at most one attempt of an issue is live, and a retry is offered only when no other
  attempt of the issue is live or completed.
\<close>

type_synonym attempt_id = "string \<times> int \<times> int"

definition fact_id :: "AttemptFact \<Rightarrow> attempt_id" where
  "fact_id f = (at_Repository f, at_Issue f, at_Attempt f)"

definition local_id :: "Manifest \<Rightarrow> attempt_id" where
  "local_id m = (m_Repository m, m_Issue m, m_Attempt m)"

definition status_id :: "RecoveryStatus \<Rightarrow> attempt_id" where
  "status_id s = (st_Repository s, st_Issue s, st_Attempt s)"

lemma attemptKey_owner: "attemptKey = ownerAttemptKey"
  by (rule ext)+ (simp add: attemptKey_def ownerAttemptKey_def ownerIssueKey_def)

lemma fact_key_inj: "fact_key f = fact_key g \<longleftrightarrow> fact_id f = fact_id g"
  by (simp add: fact_key_def attemptKey_owner ownerAttemptKey_inj fact_id_def)

lemma local_matches_id: "local_matches f m \<longleftrightarrow> local_id m = fact_id f"
  by (auto simp: local_matches_def local_id_def fact_id_def)

section \<open>Facts\<close>

lemma seen_step:
  "fmlookup (foldl (\<lambda>m f. fmupd (fact_key f) f m) m fs) k = Some f \<Longrightarrow> f \<in> set fs \<and> fact_key f = k \<or> fmlookup m k = Some f"
proof (induction fs arbitrary: m)
  case (Cons x xs)
  from Cons.prems Cons.IH[of "fmupd (fact_key x) x m"] show ?case by (auto split: if_splits)
qed simp

lemma seen_dom: "fmdom (foldl (\<lambda>m f. fmupd (fact_key f) f m) m fs) = fmdom m |\<union>| fset_of_list (map fact_key fs)"
  by (induction fs arbitrary: m) auto

lemma seen_facts_Some: "fmlookup (seen_facts facts) k = Some f \<Longrightarrow> f \<in> set facts \<and> fact_key f = k"
  using seen_step[of fmempty facts k f] by (simp add: seen_facts_def)

lemma seen_facts_dom: "fmdom (seen_facts facts) = fset_of_list (map fact_key facts)"
  by (simp add: seen_facts_def seen_dom)

lemma conflict_free:
  "k \<notin> set (conflicting_keys seen fs) \<Longrightarrow> f \<in> set fs \<Longrightarrow> fact_key f = k \<Longrightarrow>
   (\<forall>old. fmlookup seen k = Some old \<longrightarrow> f = old) \<and> (\<forall>g \<in> set fs. fact_key g = k \<longrightarrow> f = g)"
proof (induction fs arbitrary: seen f)
  case (Cons x xs)
  let ?seen = "fmupd (fact_key x) x seen"
  have k: "k \<notin> set (conflicting_keys ?seen xs)"
    using Cons.prems(1) by (auto simp: Let_def split: option.splits if_splits)
  show ?case
  proof (cases "fact_key x = k")
    case True
    then have old: "old = x" if "fmlookup seen k = Some old" for old
      using Cons.prems(1) that by (auto simp: Let_def split: if_splits)
    have "g = x" if "g \<in> set xs" "fact_key g = k" for g
      using Cons.IH[OF k that] True by simp
    with old Cons.prems True show ?thesis by auto
  next
    case False
    then have "f \<in> set xs" using Cons.prems by auto
    then show ?thesis using Cons.IH[OF k _ Cons.prems(3)] False by auto
  qed
qed simp

lemma entry_fact:
  assumes "arrangement ord" "(k, f) \<in> set (fm_entries ord (seen_facts facts))"
  shows "f \<in> set facts" "fact_key f = k"
  using assms seen_facts_Some by (auto simp: fm_entries_set)

lemma fact_entry:
  assumes "arrangement ord" "f \<in> set facts"
  obtains g where "(fact_key f, g) \<in> set (fm_entries ord (seen_facts facts))" "fact_id g = fact_id f"
proof -
  have "fact_key f |\<in>| fmdom (seen_facts facts)"
    using assms(2) by (simp add: seen_facts_dom fset_of_list_elem)
  then obtain g where "fmlookup (seen_facts facts) (fact_key f) = Some g" by auto
  then have "fact_key g = fact_key f" "(fact_key f, g) \<in> set (fm_entries ord (seen_facts facts))"
    using seen_facts_Some by (simp_all add: fm_entries_set[OF assms(1)])
  then show thesis using that fact_key_inj by simp
qed

section \<open>Identities\<close>

lemma project_id [simp]: "status_id (projectAttemptLifecycle sha s m) = status_id s"
  by (simp add: projectAttemptLifecycle_def project_phase_def status_id_def Let_def)

lemma joined_id [simp]: "status_id (joined_status check c r s f m) = status_id s"
  by (simp add: joined_status_def blocked_as_def failed_status_def status_id_def Let_def)

lemma close_id [simp]: "status_id (close_status s) = status_id s"
  by (simp add: close_status_def status_id_def Let_def)

lemma bind_id [simp]: "status_id (bind_local s m) = status_id s"
  by (simp add: bind_local_def status_id_def)

lemma status_of_fact_id [simp]: "status_id (status_of_fact sha check facts locals f) = fact_id f"
proof -
  have "status_id (conflicting_status f) = fact_id f" "status_id (fact_status f) = fact_id f"
    "status_id (blocked_as (fact_status f) b d a q) = fact_id f" for b d a q
    by (simp_all add: conflicting_status_def fact_status_def blocked_as_def status_id_def fact_id_def)
  then show ?thesis by (simp add: status_of_fact_def Let_def split: option.split)
qed

lemma orphan_id [simp]: "status_id (orphan_status sha m) = local_id m"
  by (simp add: orphan_status_def) (simp add: status_id_def local_id_def)

lemma unused_sub: "set (unused_locals joined before ms) \<subseteq> set ms"
  by (induction ms arbitrary: before) (auto simp: Let_def)

lemma unused_complete:
  "m \<in> set ms \<Longrightarrow> m \<in> set (unused_locals joined before ms) \<or> joined m"
  by (induction ms arbitrary: before) (auto simp: Let_def)

interpretation status_order: go_compare compareStatus
  by unfold_locales (auto simp: compareStatus_def compare_ord_def split: if_splits)

lemma compareStatus_0: "compareStatus a b = 0 \<longleftrightarrow> status_id a = status_id b"
  by (auto simp: compareStatus_def status_id_def)

text \<open>
  Every attempt appears.  The statuses are exactly of the attempts that GitHub or a local manifest
  names, one for each fact's attempt and one for each manifest that joins no fact, sorted by
  repository, issue and attempt.
\<close>

theorem recovered_attempts:
  assumes "arrangement ord"
  shows "let result = RecoverChecked sha ord facts locals check in
    status_id ` set result = fact_id ` set facts \<union> local_id ` set locals \<and>
    length result = card (fact_id ` set facts) + length (unused_locals (joins_fact facts) [] locals) \<and>
    sorted_wrt (\<lambda>a b. compareStatus a b \<le> 0) result"
proof -
  let ?entries = "fm_entries ord (seen_facts facts)" and ?unused = "unused_locals (joins_fact facts) [] locals"
  let ?result = "RecoverChecked sha ord facts locals check"
  have ids: "status_id ` set ?result = (\<lambda>(_, f). fact_id f) ` set ?entries \<union> local_id ` set ?unused"
    by (simp add: RecoverChecked_def image_Un image_image case_prod_unfold)
  have "(\<lambda>(_, f). fact_id f) ` set ?entries = fact_id ` set facts"
  proof (intro subset_antisym subsetI)
    fix x
    assume "x \<in> (\<lambda>(_, f). fact_id f) ` set ?entries"
    then show "x \<in> fact_id ` set facts" using entry_fact(1)[OF assms] by force
  next
    fix x
    assume "x \<in> fact_id ` set facts"
    then obtain f where f: "f \<in> set facts" "x = fact_id f" by blast
    then obtain g where "(fact_key f, g) \<in> set ?entries" "fact_id g = x" using fact_entry[OF assms f(1)] by metis
    then show "x \<in> (\<lambda>(_, f). fact_id f) ` set ?entries" by (force intro: rev_image_eqI)
  qed
  moreover have "local_id ` set locals \<subseteq> fact_id ` set facts \<union> local_id ` set ?unused"
  proof (rule image_subsetI)
    fix m
    assume "m \<in> set locals"
    then consider "m \<in> set ?unused" | "joins_fact facts m" using unused_complete by blast
    then show "local_id m \<in> fact_id ` set facts \<union> local_id ` set ?unused"
      by cases (auto simp: joins_fact_def list_ex_iff local_matches_id)
  qed
  moreover have "local_id ` set ?unused \<subseteq> local_id ` set locals" by (rule image_mono[OF unused_sub])
  ultimately have a: "status_id ` set ?result = fact_id ` set facts \<union> local_id ` set locals" unfolding ids by auto
  have "length ?entries = length (sorted_list_of_fset (fmdom (seen_facts facts)))"
    using mset_eq_length[OF arrangement_mset[OF assms]] by (simp add: fm_entries_def)
  also have "\<dots> = card (fact_key ` set facts)"
    by (simp add: seen_facts_dom fset_of_list.rep_eq sorted_list_of_fset.rep_eq)
  also have "card (fact_key ` set facts) = card (fact_id ` set facts)"
  proof -
    obtain h where h: "fact_key f = h (fact_id f)" for f
      using that[of "\<lambda>(r, i, a). attemptKey r i a"] by (auto simp: fact_key_def fact_id_def)
    have "fact_key ` set facts = h ` fact_id ` set facts" by (auto simp: h image_image)
    moreover have "inj_on h (fact_id ` set facts)" using fact_key_inj h by (auto simp: inj_on_def)
    ultimately show ?thesis by (simp add: card_image)
  qed
  finally have l: "length ?result = card (fact_id ` set facts) + length ?unused"
    by (simp add: RecoverChecked_def mset_eq_length[OF mset_sort_func])
  have "sorted_wrt (cmp_le compareStatus) ?result"
    unfolding RecoverChecked_def by (rule status_order.sorted_sort_func)
  then show ?thesis using a l unfolding Let_def by (simp add: cmp_le_def[abs_def])
qed

definition sample_attempt_fact :: "int \<Rightarrow> string \<Rightarrow> AttemptFact" where
  "sample_attempt_fact a state = \<lparr>at_Repository = ''o/r'', at_Issue = 7, at_Attempt = a, at_BaseSHA = ''b'', at_HeadSHA = [],
     at_PR = 0, at_State = state, at_Priority = 0, at_Dependencies = [], at_Checks = [], at_Diagnostic = []\<rparr>"

lemma sample_attempt_fields [simp]:
  "at_Repository (sample_attempt_fact a s) = ''o/r''" "at_Issue (sample_attempt_fact a s) = 7"
  "at_Attempt (sample_attempt_fact a s) = a" "at_State (sample_attempt_fact a s) = s"
  "at_BaseSHA (sample_attempt_fact a s) = ''b''" "at_PR (sample_attempt_fact a s) = 0"
  by (simp_all add: sample_attempt_fact_def)

theorem recovered_attempts_witness:
  "status_id ` set (RecoverChecked (\<lambda>x. x) (\<lambda>ks. ks) [sample_attempt_fact 2 ''failed'', sample_attempt_fact 1 ''failed''] [] None) =
     {(''o/r'', 7, 1), (''o/r'', 7, 2)}"
  using recovered_attempts[OF arrangement_id(1), of "\<lambda>x. x" "[sample_attempt_fact 2 ''failed'', sample_attempt_fact 1 ''failed'']" "[]" None]
  by (auto simp: Let_def sample_attempt_fact_def fact_id_def)

section \<open>The order of the map\<close>

lemma unused_id:
  "m \<in> set (unused_locals joined before ms) \<Longrightarrow> joined m \<Longrightarrow>
   list_ex (\<lambda>x. local_id x = local_id m) before \<or> \<not> distinct (map local_id ms)"
proof (induction ms arbitrary: before)
  case (Cons x xs)
  show ?case
  proof (cases "m \<in> set (unused_locals joined (x # before) xs)")
    case True
    have "local_id x = local_id m \<Longrightarrow> \<not> distinct (map local_id (x # xs))"
      using True unused_sub by fastforce
    then show ?thesis using Cons.IH[OF True Cons.prems(2)] by auto
  next
    case False
    then have "m = x" "m \<in> set (unused_locals joined before (x # xs))" using Cons.prems by (auto simp: Let_def split: if_splits)
    then show ?thesis using False Cons.prems by (auto simp: Let_def local_id_def list_ex_iff split: if_splits)
  qed
qed simp

lemma unused_distinct: "distinct ms \<Longrightarrow> distinct (unused_locals joined before ms)"
  by (induction ms arbitrary: before) (use unused_sub in \<open>fastforce simp: Let_def\<close>)+

text \<open>
  C31: The order of a Go map does not show.  When no fact contradicts another of the same attempt and no
  two manifests are of the same attempt, the statuses are the same, in the same order, however the
  range loop meets the facts.
\<close>

theorem recovery_order_free:
  assumes "arrangement ord" "arrangement ord'" "conflicting_keys fmempty facts = []" "distinct (map local_id locals)"
  shows "RecoverChecked sha ord facts locals check = RecoverChecked sha ord' facts locals check"
  unfolding RecoverChecked_def
proof (rule status_order.sort_func_perm)
  let ?status = "\<lambda>(_ :: string, f). status_of_fact sha check facts locals f"
  let ?unused = "unused_locals (joins_fact facts) [] locals"
  have "mset (fm_entries ord (seen_facts facts)) = mset (fm_entries ord' (seen_facts facts))"
    using assms(1,2) by (simp add: fm_entries_def)
  then show "mset (map ?status (fm_entries ord (seen_facts facts)) @ map (orphan_status sha) ?unused) =
      mset (map ?status (fm_entries ord' (seen_facts facts)) @ map (orphan_status sha) ?unused)"
    by simp
  have entry: "f = g" if "(k, f) \<in> set (fm_entries ord (seen_facts facts))" "(k', g) \<in> set (fm_entries ord (seen_facts facts))"
    "fact_id f = fact_id g" for k k' f g
    using that entry_fact[OF assms(1)] fact_key_inj[of f g] assms(1) by (auto simp: fm_entries_set)
  have orphan: "m = n" if "m \<in> set ?unused" "n \<in> set ?unused" "local_id m = local_id n" for m n
    using that assms(4) unused_sub[of "joins_fact facts" "[]" locals] by (auto simp: distinct_map inj_on_def)
  have apart: "fact_id f \<noteq> local_id m" if "(k, f) \<in> set (fm_entries ord (seen_facts facts))" "m \<in> set ?unused" for k f m
  proof
    assume "fact_id f = local_id m"
    then have "local_matches f m" by (simp add: local_matches_id)
    then have "joins_fact facts m"
      using entry_fact(1)[OF assms(1) that(1)] assms(3) by (auto simp: joins_fact_def list_ex_iff)
    then show False using unused_id[OF that(2)] assms(4) by simp
  qed
  fix a b
  assume ab: "a \<in> set (map ?status (fm_entries ord (seen_facts facts)) @ map (orphan_status sha) ?unused)"
    "b \<in> set (map ?status (fm_entries ord (seen_facts facts)) @ map (orphan_status sha) ?unused)" and "compareStatus a b = 0"
  then have i: "status_id a = status_id b" by (simp add: compareStatus_0)
  from ab i show "a = b"
    using entry orphan apart by (auto simp: case_prod_unfold) metis+
qed

text \<open>Two facts of different attempts, met in either order.\<close>

theorem recovery_order_free_witness:
  "RecoverChecked (\<lambda>x. x) rev [sample_attempt_fact 2 ''failed'', sample_attempt_fact 1 ''active''] [] None =
   RecoverChecked (\<lambda>x. x) (\<lambda>ks. ks) [sample_attempt_fact 2 ''failed'', sample_attempt_fact 1 ''active''] [] None"
proof (rule recovery_order_free)
  have "fact_key (sample_attempt_fact 1 ''active'') \<noteq> fact_key (sample_attempt_fact 2 ''failed'')"
    by (simp add: fact_key_inj fact_id_def sample_attempt_fact_def)
  then show "conflicting_keys fmempty [sample_attempt_fact 2 ''failed'', sample_attempt_fact 1 ''active''] = []"
    by simp
qed (simp_all add: arrangement_def)

section \<open>Live attempts and retries\<close>

lemma one_of_two:
  assumes "f \<in> set fs" "g \<in> set fs" "f \<noteq> g" "P f" "P g"
  shows "1 < length (filter P fs)"
proof -
  have "{f, g} \<subseteq> set (filter P fs)" using assms by simp
  then have "card {f, g} \<le> length (filter P fs)"
    by (meson card_length card_mono finite_set order_trans)
  with assms(3) show ?thesis by simp
qed

lemma same_issue_facts: "f \<in> set facts \<Longrightarrow> at_Repository f = at_Repository g \<Longrightarrow> at_Issue f = at_Issue g \<Longrightarrow> f \<in> set (issue_facts facts g)"
  by (simp add: issue_facts_def)

lemma no_issue_conflict:
  assumes "\<not> issue_conflict (issue_facts facts f)" "f \<in> set facts" "g \<in> set facts" "f \<noteq> g"
    "at_Repository g = at_Repository f" "at_Issue g = at_Issue f" "at_State f \<in> set live_states"
  shows "at_State g \<notin> set live_states \<and> at_State g \<noteq> ''completed''"
proof (rule ccontr)
  let ?others = "issue_facts facts f"
  have o: "f \<in> set ?others" "g \<in> set ?others" using assms same_issue_facts by auto
  assume "\<not> ?thesis"
  then consider "at_State g \<in> set live_states" | "at_State g = ''completed''" by blast
  then show False
  proof cases
    case 1
    then have "1 < length (filter (\<lambda>x. at_State x \<in> set live_states) ?others)" using o assms(4,7) by (intro one_of_two)
    then show False using assms(1) by (simp add: issue_conflict_def Let_def)
  next
    case 2
    have "0 < length (filter (\<lambda>x. at_State x \<in> set live_states) ?others)" "0 < length (filter (\<lambda>x. at_State x = ''completed'') ?others)"
      using o assms(7) 2 by (auto simp: length_greater_0_conv filter_empty_conv)
    then show False using assms(1) by (simp add: issue_conflict_def Let_def)
  qed
qed

lemma project_keeps [simp]:
  "st_State (projectAttemptLifecycle sha s m) = st_State s" "st_Retryable (projectAttemptLifecycle sha s m) = st_Retryable s"
  by (simp_all add: projectAttemptLifecycle_def project_phase_def Let_def)

lemma close_keeps [simp]:
  "st_Retryable (close_status s) = st_Retryable s" "st_State (close_status s) \<in> {st_State s, ''blocked''}"
  by (simp_all add: close_status_def Let_def)

lemma live_not_blocked [simp]: "''blocked'' \<notin> set live_states" "''completed'' \<notin> set live_states" "''failed'' \<notin> set live_states"
  "''cancelled'' \<notin> set live_states" "''conflicting'' \<notin> set live_states" "''orphaned'' \<notin> set live_states"
  by (simp_all add: live_states_def)

lemma bind_keeps [simp]: "st_State (bind_local s m) = st_State s" "st_Retryable (bind_local s m) = st_Retryable s"
  by (simp_all add: bind_local_def)

lemma joined_live:
  "st_State (joined_status check conflict r s f m) \<in> set live_states \<Longrightarrow>
   st_State (joined_status check conflict r s f m) = st_State s \<and> at_State f \<noteq> ''completed''"
  by (auto simp: joined_status_def blocked_as_def failed_status_def Let_def split: if_splits)

lemma joined_retryable:
  assumes "st_Retryable (joined_status check conflict r s f m)" "\<not> st_Retryable s"
  shows "\<not> conflict \<and> (at_State f = ''failed'' \<and> r \<or> at_State f \<in> set live_states)"
  using assms by (auto simp: joined_status_def blocked_as_def failed_status_def Let_def split: if_splits)

lemma status_of_fact_live:
  assumes "st_State (status_of_fact sha check facts locals f) \<in> set live_states"
  shows "at_State f \<in> set live_states" "\<not> issue_conflict (issue_facts facts f)"
proof -
  let ?s = "status_of_fact sha check facts locals f" and ?c = "issue_conflict (issue_facts facts f)"
  have k: "fact_key f \<notin> set (conflicting_keys fmempty facts)"
    using assms by (auto simp: status_of_fact_def Let_def conflicting_status_def split: if_splits)
  define t where "t = (if ?c then blocked_as (fact_status f) ''conflicting authoritative attempts''
    ''GitHub reports duplicate active/completed attempts for this issue''
    ''repair coordinator-authored markers; dispatch is suppressed'' False else fact_status f)"
  have "st_State t \<in> set live_states"
  proof (cases "find (local_matches f) locals")
    case None
    then show ?thesis
      using assms k close_keeps(2)[of t] by (auto simp: status_of_fact_def Let_def t_def[symmetric])
  next
    case (Some m)
    define r where "r = (at_Attempt f = latest_attempt (issue_facts facts f) f \<and>
      \<not> retry_conflict (conflicting_keys fmempty facts) (issue_facts facts f) f)"
    have "?s = close_status (projectAttemptLifecycle sha (joined_status check ?c r (bind_local t m) f m) m)"
      using k Some by (simp add: status_of_fact_def Let_def t_def r_def)
    then have "st_State (joined_status check ?c r (bind_local t m) f m) \<in> set live_states"
      using assms close_keeps(2) by (metis insertE live_not_blocked(1) project_keeps(1) singletonD)
    then show ?thesis using joined_live by (metis bind_keeps(1))
  qed
  then show "at_State f \<in> set live_states" "\<not> ?c"
    by (auto simp: t_def blocked_as_def fact_status_def split: if_splits)
qed

lemma status_of_fact_retryable:
  assumes "st_Retryable (status_of_fact sha check facts locals f)"
  shows "\<not> issue_conflict (issue_facts facts f)"
    "at_State f = ''failed'' \<and> \<not> retry_conflict (conflicting_keys fmempty facts) (issue_facts facts f) f \<or>
     at_State f \<in> set live_states"
proof -
  let ?c = "issue_conflict (issue_facts facts f)"
  have k: "fact_key f \<notin> set (conflicting_keys fmempty facts)"
    using assms by (auto simp: status_of_fact_def Let_def conflicting_status_def empty_recovery_status_def split: if_splits)
  define t where "t = (if ?c then blocked_as (fact_status f) ''conflicting authoritative attempts''
    ''GitHub reports duplicate active/completed attempts for this issue''
    ''repair coordinator-authored markers; dispatch is suppressed'' False else fact_status f)"
  have t: "\<not> st_Retryable t"
    by (simp add: t_def blocked_as_def fact_status_def empty_recovery_status_def)
  obtain m r where "find (local_matches f) locals = Some m" and
    r: "r = (at_Attempt f = latest_attempt (issue_facts facts f) f \<and>
      \<not> retry_conflict (conflicting_keys fmempty facts) (issue_facts facts f) f)"
    using assms k t by (cases "find (local_matches f) locals") (auto simp: status_of_fact_def Let_def t_def[symmetric])
  then have "st_Retryable (joined_status check ?c r (bind_local t m) f m)"
    using assms k by (simp add: status_of_fact_def Let_def t_def)
  then show "\<not> ?c" "at_State f = ''failed'' \<and> \<not> retry_conflict (conflicting_keys fmempty facts) (issue_facts facts f) f \<or>
     at_State f \<in> set live_states"
    using joined_retryable t r by fastforce+
qed

lemma orphan_states [simp]: "st_State (orphan_status sha m) = ''orphaned''" "\<not> st_Retryable (orphan_status sha m)"
  by (simp_all add: orphan_status_def empty_recovery_status_def)

lemma result_cases:
  assumes "arrangement ord" "s \<in> set (RecoverChecked sha ord facts locals check)"
  obtains (fact) f where "f \<in> set facts" "s = status_of_fact sha check facts locals f"
    | (orphan) m where "m \<in> set locals" "s = orphan_status sha m"
proof -
  consider k f where "(k, f) \<in> set (fm_entries ord (seen_facts facts))" "s = status_of_fact sha check facts locals f"
    | m where "m \<in> set (unused_locals (joins_fact facts) [] locals)" "s = orphan_status sha m"
    using assms(2) by (auto simp: RecoverChecked_def case_prod_unfold)
  then show thesis
    using entry_fact(1)[OF assms(1)] unused_sub that by cases blast+
qed

text \<open>
  C24: One live attempt, and exclusive retries.  Two statuses of one issue that are both shown as live are
  of the same attempt; and a retry of an attempt is offered only when no other attempt of the issue is
  live or completed on GitHub.
\<close>

theorem live_attempt_exclusive:
  assumes "arrangement ord" "s \<in> set (RecoverChecked sha ord facts locals check)"
    "f \<in> set facts" "at_Repository f = st_Repository s" "at_Issue f = st_Issue s" "at_Attempt f \<noteq> st_Attempt s"
    "st_State s \<in> set live_states \<or> st_Retryable s"
  shows "at_State f \<notin> set live_states \<and> at_State f \<noteq> ''completed'' \<and>
    list_all (\<lambda>s'. status_id s' = fact_id f \<longrightarrow> st_State s' \<notin> set live_states) (RecoverChecked sha ord facts locals check)"
  using assms(1,2)
proof (cases rule: result_cases)
  case (fact g)
  have g: "at_Repository f = at_Repository g" "at_Issue f = at_Issue g" "at_Attempt f \<noteq> at_Attempt g"
    using assms(4-6) status_of_fact_id[of sha check facts locals g] by (auto simp: fact(2) status_id_def fact_id_def)
  have "at_State f \<notin> set live_states \<and> at_State f \<noteq> ''completed''"
  proof (cases "at_State g \<in> set live_states")
    case True
    then have "\<not> issue_conflict (issue_facts facts g)"
      using assms(7) status_of_fact_live(2) status_of_fact_retryable(1) unfolding fact(2) by blast
    then show ?thesis using no_issue_conflict[OF _ fact(1) assms(3)] g True by metis
  next
    case False
    then have "\<not> retry_conflict (conflicting_keys fmempty facts) (issue_facts facts g) g"
      using assms(7) status_of_fact_live(1) status_of_fact_retryable(2) unfolding fact(2) by blast
    then have "at_State f = ''failed''"
      using same_issue_facts[OF assms(3) g(1,2)] g(3) by (auto simp: retry_conflict_def list_ex_iff)
    then show ?thesis by simp
  qed
  moreover have "st_State s' \<notin> set live_states"
    if "s' \<in> set (RecoverChecked sha ord facts locals check)" "status_id s' = fact_id f" for s'
    using assms(1) that(1)
  proof (cases rule: result_cases)
    case (fact h)
    then have h: "fact_id h = fact_id f" using that(2) by simp
    show ?thesis
    proof
      assume l: "st_State s' \<in> set live_states"
      have "\<not> issue_conflict (issue_facts facts h)" "at_State h \<in> set live_states"
        using l status_of_fact_live unfolding fact(2) by blast+
      moreover have "fact_key h \<notin> set (conflicting_keys fmempty facts)"
        using l by (auto simp: fact(2) status_of_fact_def Let_def conflicting_status_def split: if_splits)
      then have "h = f" using conflict_free[OF _ fact(1)] assms(3) h fact_key_inj by metis
      ultimately show False using \<open>at_State f \<notin> set live_states \<and> at_State f \<noteq> ''completed''\<close> by blast
    qed
  qed simp
  ultimately show ?thesis by (auto simp: list_all_iff)
next
  case (orphan m)
  then show ?thesis using assms(7) by simp
qed

text \<open>A failed attempt beside a live one: the live one is shown, no retry of the failed one is offered.\<close>

definition sample_local :: Manifest where
  "sample_local = empty_manifest\<lparr>m_Repository := ''o/r'', m_Issue := 7, m_Attempt := 2, m_BaseSHA := ''b'',
     m_Session := ''x'', m_State := ''completed''\<rparr>"

lemma sample_local_fields [simp]:
  "m_Repository sample_local = ''o/r''" "m_Issue sample_local = 7" "m_Attempt sample_local = 2" "m_BaseSHA sample_local = ''b''"
  "m_Session sample_local = ''x''" "m_State sample_local = ''completed''"
  by (simp_all add: sample_local_def)

lemma project_session: "st_Session (projectAttemptLifecycle sha s m) = st_Session s"
  by (simp add: projectAttemptLifecycle_def project_phase_def Let_def)

lemma sample_live_status:
  "st_State (status_of_fact (\<lambda>x. x) None [sample_attempt_fact 1 ''failed'', sample_attempt_fact 2 ''active''] [sample_local]
     (sample_attempt_fact 2 ''active'')) = ''active''"
proof -
  have "fact_key (sample_attempt_fact 1 s) \<noteq> fact_key (sample_attempt_fact 2 t)" for s t
    by (simp add: fact_key_inj fact_id_def sample_attempt_fact_def)
  then have "conflicting_keys fmempty [sample_attempt_fact 1 ''failed'', sample_attempt_fact 2 ''active''] = []"
    by simp
  moreover have "issue_facts [sample_attempt_fact 1 ''failed'', sample_attempt_fact 2 ''active''] (sample_attempt_fact 2 ''active'') =
      [sample_attempt_fact 1 ''failed'', sample_attempt_fact 2 ''active'']"
    by (simp add: issue_facts_def)
  moreover have "\<not> issue_conflict [sample_attempt_fact 1 ''failed'', sample_attempt_fact 2 ''active'']"
    by (simp add: issue_conflict_def live_states_def)
  moreover have "find (local_matches (sample_attempt_fact 2 ''active'')) [sample_local] = Some sample_local"
    by (simp add: local_matches_def)
  moreover have "joined_status None False r (bind_local t sample_local) (sample_attempt_fact 2 ''active'') sample_local =
      (bind_local t sample_local)\<lparr>st_Action := ''resume publication of the matching completed attempt''\<rparr>" for r t
    by (simp add: joined_status_def Let_def)
  ultimately show ?thesis
    by (simp add: status_of_fact_def Let_def close_status_def project_session) (simp add: bind_local_def fact_status_def)
qed

theorem live_attempt_exclusive_witness:
  "at_State (sample_attempt_fact 1 ''failed'') \<notin> set live_states"
proof -
  let ?facts = "[sample_attempt_fact 1 ''failed'', sample_attempt_fact 2 ''active'']"
  let ?s = "status_of_fact (\<lambda>x. x) None ?facts [sample_local] (sample_attempt_fact 2 ''active'')"
  have "fact_key (sample_attempt_fact 1 s) \<noteq> fact_key (sample_attempt_fact 2 t)" for s t
    by (simp add: fact_key_inj fact_id_def sample_attempt_fact_def)
  then have "(fact_key (sample_attempt_fact 2 ''active''), sample_attempt_fact 2 ''active'') \<in>
      set (fm_entries (\<lambda>ks. ks) (seen_facts ?facts))"
    by (simp add: fm_entries_set[OF arrangement_id(1)] seen_facts_def)
  then have "?s \<in> set (RecoverChecked (\<lambda>x. x) (\<lambda>ks. ks) ?facts [sample_local] None)"
    by (force simp: RecoverChecked_def)
  moreover have "status_id ?s = (''o/r'', 7, 2)" by (simp add: fact_id_def sample_attempt_fact_def)
  ultimately show ?thesis
    using live_attempt_exclusive[OF arrangement_id(1), of ?s "\<lambda>x. x" ?facts "[sample_local]" None "sample_attempt_fact 1 ''failed''"]
      sample_live_status by (simp add: status_id_def live_states_def sample_attempt_fact_def)
qed

section \<open>The loop\<close>

lemma next_after_bounds:
  "0 < interval \<Longrightarrow> next_at \<le> current + interval \<Longrightarrow>
   current < next_after interval current next_at \<and> next_after interval current next_at \<le> current + interval"
proof (induction interval current next_at rule: next_after.induct)
  case (1 interval current next_at)
  then show ?case by (subst (1 2) next_after.simps) auto
qed

lemma loop_delays_bounded:
  "0 < interval \<Longrightarrow> sorted (start # map fst rounds) \<Longrightarrow> next_at \<le> start + interval \<Longrightarrow>
   list_all (\<lambda>d. 0 < d \<and> d \<le> interval) (loop_delays interval next_at rounds)"
proof (induction rounds arbitrary: start next_at)
  case (Cons r rounds)
  obtain current failed where r: "r = (current, failed)" by (cases r)
  have "next_at \<le> current + interval" using Cons.prems r by simp
  note b = next_after_bounds[OF Cons.prems(1) this]
  have "sorted (current # map fst rounds)" using Cons.prems(2) r by simp
  then have "list_all (\<lambda>d. 0 < d \<and> d \<le> interval) (loop_delays interval (next_after interval current next_at) rounds)"
    using Cons.IH Cons.prems(1) b by blast
  then show ?case using b r by (simp add: Let_def)
qed simp

text \<open>
  The loop keeps its pace.  When the clock does not run backwards, every wait between two rounds is
  positive and at most the interval, which is at most a minute: a slow round delays the next one only
  to the next planned time, and rounds that were missed are not made up for.
\<close>

theorem loop_pace:
  assumes "reconcileLoop interval start rounds = Some delays" "sorted (start # map fst rounds)"
  shows "list_all (\<lambda>d. 0 < d \<and> d \<le> interval) delays \<and> interval \<le> MaxReconcileInterval"
  using assms loop_delays_bounded[of interval start rounds "start + interval"]
  by (auto simp: reconcileLoop_def split: if_splits)

theorem loop_pace_witness:
  "\<exists>delays. reconcileLoop 10 0 [(3, False), (45, False), (45, True)] = Some delays \<and> list_all (\<lambda>d. 0 < d \<and> d \<le> 10) delays"
proof -
  obtain delays where d: "reconcileLoop 10 0 [(3, False), (45, False), (45, True)] = Some delays"
    by (simp add: reconcileLoop_def MaxReconcileInterval_def)
  from loop_pace[OF d] d show ?thesis by simp
qed

end
