(* ===== verification/Owner_Start.thy ===== *)
theory Owner_Start
  imports Owner_Transition
begin

text \<open>
  The command that starts an epoch (\<^verbatim>\<open>stateOwnerStart\<close> in \<^verbatim>\<open>applyStateOwnerCommand\<close>, \<^verbatim>\<open>state_owner.go\<close>),
  with the migrations it runs once per ledger, and \<^verbatim>\<open>startStateOwner\<close>, which validates a ledger read from
  disk before it starts.  Loops over maps whose entries may interfere are folds over the entries in
  the order of the environment.
\<close>

section \<open>Old dismissals\<close>

abbreviation entries_of :: "Env \<Rightarrow> (string, 'v) fmap \<Rightarrow> (string \<times> 'v) list" where
  "entries_of env m \<equiv> fm_entries (v_order env) m"

definition proof_of_tombstone :: "runtimeTombstone \<Rightarrow> reviewerProcessProof \<Rightarrow> bool" where
  "proof_of_tombstone t p \<longleftrightarrow>
     p_Repository p = t_Repository t \<and> p_Issue p = t_Issue t \<and> p_Attempt p = t_Attempt t"

definition reviewer_uncleaned :: "Manifest \<Rightarrow> bool" where
  "reviewer_uncleaned m \<longleftrightarrow> m_ReviewState m \<noteq> [] \<and> \<not> m_ReviewRunCleaned m"

definition dismiss_diagnostic :: string where
  "dismiss_diagnostic = ''legacy Dismiss cleanup authority is unavailable; reviewer resources are quarantined''"

definition unverified_proof :: "reviewerProcessProof \<Rightarrow> reviewerProcessProof" where
  "unverified_proof p = p\<lparr>p_DeadProved := False, p_LegacyUnverified := True\<rparr>"

definition dismissed_receipt :: "runtimeOwnerState \<Rightarrow> string \<Rightarrow> runtimeTombstone \<Rightarrow> controlReceipt \<Rightarrow> controlReceipt" where
  "dismissed_receipt state k t r =
     (let q = r_Request r in
      if q_Action q \<noteq> ''dismiss'' \<or> ownerAttemptKey (q_Repository q) (q_Issue q) (q_Attempt q) \<noteq> k then r
      else if r_State r = ''pending'' \<and> r_Phase r = operatorPhaseHandoffCleanup \<and> t_InvalidatedHandoff t \<noteq> None \<and>
        \<not> t_HandoffCompensated t then r\<lparr>r_EffectID := []\<rparr>
      else r\<lparr>r_State := ''completed'', r_Phase := operatorPhaseCompleted, r_EffectID := [], r_Diagnostic := [],
        r_Result := Some (successfulOperatorResult q (max 1 (s_Revision state)))\<rparr>)"

definition migrate_dismissed :: "Env \<Rightarrow> runtimeOwnerState \<Rightarrow> string \<times> runtimeTombstone \<Rightarrow> runtimeOwnerState" where
  "migrate_dismissed env state = (\<lambda>(k, t).
     if t_Action t \<noteq> ''dismissed'' \<or> t_EffectID t \<noteq> [] \<or>
       legacyRecordReleased state (legacyTombstoneDigest env t) then state
     else
       let proofs = fm_step (\<lambda>_ p. Some (if proof_of_tombstone t p \<and>
               (p_Pane p = None \<or> p_TerminalBroker p = None \<or> p_BrokerPath p = [])
             then unverified_proof p else p)) (s_ReviewerProofs state);
           unresolved = (t_ReviewerLeaseID t \<noteq> [] \<or> t_InvalidatedStart t \<noteq> None \<or>
             (case t_Manifest t of None \<Rightarrow> False | Some m \<Rightarrow> reviewer_uncleaned m) \<or>
             fm_ex (\<lambda>_ p. proof_of_tombstone t p) (s_ReviewerProofs state));
           t1 = t\<lparr>t_CleanupPhase := ''completed'', t_CleanupPolicy := None, t_ReviewerLeaseID := []\<rparr>;
           t2 = (if unresolved then t1\<lparr>t_Diagnostic := dismiss_diagnostic\<rparr> else t1);
           s1 = state\<lparr>s_ReviewerProofs := proofs\<rparr>;
           s2 = (if unresolved then admitLegacyReviewerQuarantine s1 (ownerIssueKey (t_Repository t) (t_Issue t)) (t_Diagnostic t2)
                 else s1)
       in s2\<lparr>s_Tombstones := fmupd k t2 (s_Tombstones s2),
             s_ControlReceipts := map (dismissed_receipt state k t2) (s_ControlReceipts s2)\<rparr>)"

definition migrateLegacyDismissCleanup :: "Env \<Rightarrow> runtimeOwnerState \<Rightarrow> runtimeOwnerState" where
  "migrateLegacyDismissCleanup env state =
     (if s_DismissCleanupTracked state then state
      else (foldl (migrate_dismissed env) state (entries_of env (s_Tombstones state)))\<lparr>s_DismissCleanupTracked := True\<rparr>)"

section \<open>Old reviewer proofs\<close>

text \<open>A proof whose digest was certified by a reboot keeps its old form.\<close>

definition proof_released :: "Env \<Rightarrow> runtimeOwnerState \<Rightarrow> reviewerProcessProof \<Rightarrow> bool" where
  "proof_released env state p \<longleftrightarrow> legacyRecordReleased state (legacyReviewerDigest env ''proof'' (v_json_proof env p))"

definition quarantine_of :: "string \<Rightarrow> string \<Rightarrow> int \<Rightarrow> runtimeOwnerState \<Rightarrow> runtimeOwnerState" where
  "quarantine_of diagnostic repository issue state =
     admitLegacyReviewerQuarantine state (ownerIssueKey repository issue) diagnostic"

definition safety_effect :: "Env \<Rightarrow> runtimeOwnerState \<Rightarrow> string \<times> runtimeEffectIntent \<Rightarrow> runtimeOwnerState" where
  "safety_effect env state = (\<lambda>(_, e).
     if \<not> e_ReviewerLaunched e \<or> legacyRecordReleased state (legacyEffectDigest env e) then state
     else case (case e_Reconciliation e of None \<Rightarrow> None | Some q \<Rightarrow> rq_Reviewer q) of
       None \<Rightarrow> quarantine_of ''legacy reviewer identity is incomplete; physical cleanup cannot be certified''
                 (e_Repository e) (e_Issue e) state
     | Some reviewer \<Rightarrow>
         if e_ReviewerGroupPID e < 2 then
           quarantine_of ''legacy reviewer identity is incomplete; physical cleanup cannot be certified''
             (e_Repository e) (e_Issue e) state
         else
           let k = reviewerProofKey (e_Repository e) (e_Issue e) (e_Attempt e) (rv_Mode reviewer) (rv_Target reviewer) in
           case fmlookup (s_ReviewerProofs state) k of
             Some existing \<Rightarrow>
               if p_EffectID existing \<noteq> e_ID e then
                 quarantine_of ''legacy reviewer identity conflicts; physical cleanup cannot be certified''
                   (e_Repository e) (e_Issue e) state
               else state
           | None \<Rightarrow> state\<lparr>s_ReviewerProofs := fmupd k (empty_proof\<lparr>p_Repository := e_Repository e,
               p_Issue := e_Issue e, p_Attempt := e_Attempt e, p_Mode := rv_Mode reviewer, p_Target := rv_Target reviewer,
               p_EffectID := e_ID e, p_IssueGeneration := e_IssueGeneration e,
               p_AttemptGeneration := e_AttemptGeneration e, p_GroupPID := e_ReviewerGroupPID e,
               p_LegacyUnverified := True\<rparr>) (s_ReviewerProofs state)\<rparr>)"

definition ran_reviewer :: "runtimeOwnerState \<Rightarrow> string \<Rightarrow> int \<Rightarrow> int \<Rightarrow> bool" where
  "ran_reviewer state repository issue attempt \<longleftrightarrow>
     fm_ex (\<lambda>_ p. p_Repository p = repository \<and> p_Issue p = issue \<and> p_Attempt p = attempt \<and> \<not> p_NeverRan p)
       (s_ReviewerProofs state)"

definition safety_attempt :: "Env \<Rightarrow> runtimeOwnerState \<Rightarrow> string \<times> runtimeAttemptRecord \<Rightarrow> runtimeOwnerState" where
  "safety_attempt env state = (\<lambda>(_, r).
     let m = a_Manifest r in
     if m_ReviewState m = [] \<or> legacyRecordReleased state (legacyManifestDigest env m (a_Generation r)) then state
     else if ran_reviewer state (m_Repository m) (m_Issue m) (m_Attempt m) then state
     else quarantine_of ''legacy reviewer history is incomplete; physical cleanup cannot be certified''
            (m_Repository m) (m_Issue m) state)"

definition safety_tombstone :: "Env \<Rightarrow> runtimeOwnerState \<Rightarrow> string \<times> runtimeTombstone \<Rightarrow> runtimeOwnerState" where
  "safety_tombstone env state = (\<lambda>(_, t).
     if legacyRecordReleased state (legacyTombstoneDigest env t) then state
     else if ran_reviewer state (t_Repository t) (t_Issue t) (t_Attempt t) then state
     else quarantine_of ''legacy reviewer absence unknown; physical cleanup cannot be certified''
            (t_Repository t) (t_Issue t) state)"

definition migrateLegacyReviewerSafety :: "Env \<Rightarrow> runtimeOwnerState \<Rightarrow> runtimeOwnerState" where
  "migrateLegacyReviewerSafety env state =
     (let s0 = state\<lparr>s_ReviewerProofs := fm_step (\<lambda>_ p. Some (if p_NeverRan p \<or> proof_released env state p then p
            else unverified_proof p)) (s_ReviewerProofs state)\<rparr>;
          s1 = foldl (safety_effect env) s0 (entries_of env (s_Effects s0));
          s2 = foldl (safety_attempt env) s1 (entries_of env (s_Attempts s1))
      in foldl (safety_tombstone env) s2 (entries_of env (s_Tombstones s2)))"

section \<open>Confinement and run identities\<close>

definition trackReviewerConfinement :: "Env \<Rightarrow> runtimeOwnerState \<Rightarrow> runtimeOwnerState" where
  "trackReviewerConfinement env state =
     state\<lparr>s_ReviewerProofs := fm_step (\<lambda>_ p. Some (if \<not> p_NeverRan p \<and> \<not> proof_released env state p
            then p\<lparr>p_ProfileDigest := [], p_LegacyUnverified := True\<rparr> else p)) (s_ReviewerProofs state),
       s_ReviewerConfinementTracked := True\<rparr>"

definition run_diagnostic :: string where
  "run_diagnostic = ''legacy reviewer run identity is missing; physical cleanup cannot be certified''"

definition run_proof :: "Env \<Rightarrow> runtimeOwnerState \<Rightarrow> string \<times> reviewerProcessProof \<Rightarrow> runtimeOwnerState" where
  "run_proof env state = (\<lambda>(k, p).
     if \<not> p_NeverRan p \<and> \<not> validDigest (p_RunID p) \<and> \<not> proof_released env state p then
       quarantine_of run_diagnostic (p_Repository p) (p_Issue p)
         (state\<lparr>s_ReviewerProofs := fmupd k (unverified_proof p) (s_ReviewerProofs state)\<rparr>)
     else state)"

definition manifest_run_missing :: "Env \<Rightarrow> runtimeOwnerState \<Rightarrow> Manifest \<Rightarrow> uint64 \<Rightarrow> bool" where
  "manifest_run_missing env state m generation \<longleftrightarrow>
     reviewer_uncleaned m \<and> \<not> validDigest (m_ReviewRunID m) \<and>
     \<not> legacyRecordReleased state (legacyManifestDigest env m generation)"

definition run_attempt :: "Env \<Rightarrow> runtimeOwnerState \<Rightarrow> string \<times> runtimeAttemptRecord \<Rightarrow> runtimeOwnerState" where
  "run_attempt env state = (\<lambda>(_, r).
     let m = a_Manifest r in
     if manifest_run_missing env state m (a_Generation r)
     then quarantine_of run_diagnostic (m_Repository m) (m_Issue m) state else state)"

definition run_tombstone :: "Env \<Rightarrow> runtimeOwnerState \<Rightarrow> string \<times> runtimeTombstone \<Rightarrow> runtimeOwnerState" where
  "run_tombstone env state = (\<lambda>(_, t).
     case t_Manifest t of
       None \<Rightarrow> state
     | Some m \<Rightarrow>
         if manifest_run_missing env state m (t_InvalidatedGeneration t)
         then quarantine_of run_diagnostic (t_Repository t) (t_Issue t) state else state)"

definition run_effect :: "Env \<Rightarrow> runtimeOwnerState \<Rightarrow> string \<times> runtimeEffectIntent \<Rightarrow> runtimeOwnerState" where
  "run_effect env state = (\<lambda>(_, e).
     if legacyRecordReleased state (legacyEffectDigest env e) then state
     else if (case e_Reconciliation e of None \<Rightarrow> False
         | Some q \<Rightarrow> (case rq_Reviewer q of None \<Rightarrow> False | Some reviewer \<Rightarrow> \<not> validDigest (rv_RunID reviewer))) \<or>
       e_SupersededReviewerID e \<noteq> [] \<and> \<not> validDigest (e_SupersededReviewerRunID e)
     then quarantine_of run_diagnostic (e_Repository e) (e_Issue e) state else state)"

definition trackReviewerRuns :: "Env \<Rightarrow> runtimeOwnerState \<Rightarrow> runtimeOwnerState" where
  "trackReviewerRuns env state =
     (let s1 = foldl (run_proof env) state (entries_of env (s_ReviewerProofs state));
          s2 = foldl (run_attempt env) s1 (entries_of env (s_Attempts s1));
          s3 = foldl (run_tombstone env) s2 (entries_of env (s_Tombstones s2));
          s4 = foldl (run_effect env) s3 (entries_of env (s_Effects s3))
      in s4\<lparr>s_ReviewerRunTracked := True\<rparr>)"

section \<open>The version of the confinement policy\<close>

definition policy_diagnostic :: string where
  "policy_diagnostic = ''legacy reviewer confinement policy is unknown; physical cleanup cannot be certified''"

definition policy_proof :: "Env \<Rightarrow> uint64 \<Rightarrow> runtimeOwnerState \<Rightarrow> string \<times> reviewerProcessProof \<Rightarrow> runtimeOwnerState" where
  "policy_proof env current state = (\<lambda>(k, p).
     if proof_released env state p then state
     else if p_NeverRan p \<and> p_ConfinementVersion p \<noteq> 0 \<and> p_ConfinementVersion p \<noteq> current then
       state\<lparr>s_ReviewerProofs := fmupd k (p\<lparr>p_ConfinementVersion := 0\<rparr>) (s_ReviewerProofs state)\<rparr>
     else if \<not> p_NeverRan p \<and> p_ConfinementVersion p \<noteq> current then
       quarantine_of policy_diagnostic (p_Repository p) (p_Issue p)
         (state\<lparr>s_ReviewerProofs := fmupd k (unverified_proof p) (s_ReviewerProofs state)\<rparr>)
     else state)"

definition policy_effect :: "Env \<Rightarrow> uint64 \<Rightarrow> runtimeOwnerState \<Rightarrow> string \<times> runtimeEffectIntent \<Rightarrow> runtimeOwnerState" where
  "policy_effect env current state = (\<lambda>(_, e).
     if legacyRecordReleased state (legacyEffectDigest env e) then state
     else if e_ReviewerGateProtocol e \<and> e_ReviewerConfinementVersion e \<noteq> current \<or>
       e_SupersededReviewerID e \<noteq> [] \<and> e_SupersededReviewerConfinementVersion e \<noteq> current
     then quarantine_of policy_diagnostic (e_Repository e) (e_Issue e) state else state)"

definition migrateReviewerPolicyTo :: "Env \<Rightarrow> runtimeOwnerState \<Rightarrow> uint64 \<Rightarrow> runtimeOwnerState" where
  "migrateReviewerPolicyTo env state current =
     (let s0 = (if s_ReviewerPolicyVersion state = 0 \<and> s_ReviewerPolicyTracked state
                then state\<lparr>s_ReviewerPolicyVersion := 1\<rparr> else state) in
      if s_ReviewerPolicyTracked s0 \<and> s_ReviewerPolicyVersion s0 = current then s0
      else
        let s1 = foldl (policy_proof env current) s0 (entries_of env (s_ReviewerProofs s0));
            s2 = foldl (policy_effect env current) s1 (entries_of env (s_Effects s1))
        in s2\<lparr>s_ReviewerPolicyTracked := True, s_ReviewerPolicyVersion := current\<rparr>)"

definition migrateReviewerPolicy :: "Env \<Rightarrow> runtimeOwnerState \<Rightarrow> runtimeOwnerState" where
  "migrateReviewerPolicy env state = migrateReviewerPolicyTo env state reviewerConfinementVersion"

section \<open>Quarantines that a reboot releases\<close>

definition legacy_effect_evidence :: "runtimeEffectIntent \<Rightarrow> bool" where
  "legacy_effect_evidence e \<longleftrightarrow>
     (case e_Reconciliation e of None \<Rightarrow> False
      | Some q \<Rightarrow> (case rq_Reviewer q of None \<Rightarrow> False | Some reviewer \<Rightarrow> \<not> validDigest (rv_RunID reviewer))) \<or>
     e_ReviewerGateProtocol e \<and> e_ReviewerConfinementVersion e \<noteq> reviewerConfinementVersion \<or>
     e_SupersededReviewerID e \<noteq> [] \<and>
       (\<not> validDigest (e_SupersededReviewerRunID e) \<or> \<not> validDigest (e_SupersededReviewerProfileDigest e) \<or>
        e_SupersededReviewerConfinementVersion e \<noteq> reviewerConfinementVersion)"

definition legacy_manifest_evidence :: "Manifest \<Rightarrow> bool" where
  "legacy_manifest_evidence m \<longleftrightarrow> m_ReviewState m \<noteq> [] \<and> \<not> validDigest (m_ReviewRunID m) \<and> \<not> m_ReviewRunCleaned m"

definition legacy_proof_evidence :: "reviewerProcessProof \<Rightarrow> bool" where
  "legacy_proof_evidence p \<longleftrightarrow>
     \<not> p_NeverRan p \<and> (p_LegacyUnverified p \<or> \<not> validDigest (p_RunID p) \<or>
       p_ConfinementVersion p \<noteq> reviewerConfinementVersion)"

text \<open>The records of an issue as a sorted list of their digests: \<^verbatim>\<open>json.Marshal\<close> sorts the keys of the map.\<close>

definition tombstone_evidence :: "Env \<Rightarrow> bool \<Rightarrow> runtimeTombstone \<Rightarrow> string list" where
  "tombstone_evidence env historicalOnly t =
     legacyTombstoneDigest env t #
     (case t_Manifest t of None \<Rightarrow> []
      | Some m \<Rightarrow> if \<not> historicalOnly \<or> legacy_manifest_evidence m
          then [legacyManifestDigest env m (t_InvalidatedGeneration t)] else [])"

definition legacyReviewerEvidence :: "Env \<Rightarrow> runtimeOwnerState \<Rightarrow> string \<Rightarrow> bool \<Rightarrow> string list" where
  "legacyReviewerEvidence env state issueKey historicalOnly =
     (let attempts = [legacyManifestDigest env (a_Manifest r) (a_Generation r).
            (_, r) \<leftarrow> entries_of env (s_Attempts state),
            ownerIssueKey (m_Repository (a_Manifest r)) (m_Issue (a_Manifest r)) = issueKey \<and>
            (\<not> historicalOnly \<or> legacy_manifest_evidence (a_Manifest r))];
          tombstones = concat [tombstone_evidence env historicalOnly t.
            (_, t) \<leftarrow> entries_of env (s_Tombstones state), ownerIssueKey (t_Repository t) (t_Issue t) = issueKey];
          effects = [legacyEffectDigest env e. (_, e) \<leftarrow> entries_of env (s_Effects state),
            ownerIssueKey (e_Repository e) (e_Issue e) = issueKey \<and> (\<not> historicalOnly \<or> legacy_effect_evidence e)];
          proofs = [legacyReviewerDigest env ''proof'' (v_json_proof env p).
            (_, p) \<leftarrow> entries_of env (s_ReviewerProofs state),
            ownerIssueKey (p_Repository p) (p_Issue p) = issueKey \<and> (\<not> historicalOnly \<or> legacy_proof_evidence p)]
      in sorted_list_of_set (set (attempts @ tombstones @ effects @ proofs)))"

definition evidence_json :: "string list \<Rightarrow> json" where
  "evidence_json records = JObject (map (\<lambda>digest. (digest, JBool True)) records)"

definition reconcile_quarantine :: "Env \<Rightarrow> hostBootIdentity \<Rightarrow> runtimeOwnerState \<Rightarrow> string \<times> string \<Rightarrow> runtimeOwnerState" where
  "reconcile_quarantine env boot state = (\<lambda>(k, diagnostic).
     let evidence = legacyReviewerDigest env diagnostic (evidence_json (legacyReviewerEvidence env state k False));
         bound = fmlookup (s_LegacyReviewerBaselines state) k
     in
     if \<not> boot_valid boot then
       (if (case bound of None \<Rightarrow> True | Some b \<Rightarrow> lb_Evidence b \<noteq> evidence)
        then state\<lparr>s_LegacyReviewerBaselines :=
          fmupd k \<lparr>lb_Boot = zero_boot, lb_Evidence = evidence\<rparr> (s_LegacyReviewerBaselines state)\<rparr>
        else state)
     else case bound of
       Some b \<Rightarrow>
         if lb_Evidence b = evidence \<and> laterThan boot (lb_Boot b) then
           state\<lparr>s_LegacyReviewerReleases := foldl (\<lambda>m digest. fmupd digest \<lparr>lr_Before = lb_Boot b, lr_After = boot\<rparr> m)
                   (s_LegacyReviewerReleases state) (legacyReviewerEvidence env state k True),
                 s_LegacyReviewerQuarantines := fmdrop k (s_LegacyReviewerQuarantines state),
                 s_LegacyReviewerBaselines := fmdrop k (s_LegacyReviewerBaselines state)\<rparr>
         else state\<lparr>s_LegacyReviewerBaselines :=
           fmupd k \<lparr>lb_Boot = boot, lb_Evidence = evidence\<rparr> (s_LegacyReviewerBaselines state)\<rparr>
     | None \<Rightarrow> state\<lparr>s_LegacyReviewerBaselines :=
           fmupd k \<lparr>lb_Boot = boot, lb_Evidence = evidence\<rparr> (s_LegacyReviewerBaselines state)\<rparr>)"

definition reconcileLegacyReviewerBoot :: "Env \<Rightarrow> runtimeOwnerState \<Rightarrow> hostBootIdentity \<Rightarrow> runtimeOwnerState" where
  "reconcileLegacyReviewerBoot env state boot =
     foldl (reconcile_quarantine env boot) (state\<lparr>s_LegacyBootUnavailable := \<not> boot_valid boot\<rparr>)
       (entries_of env (s_LegacyReviewerQuarantines state))"

section \<open>The start of an epoch\<close>

definition trackExternalDispatch :: "runtimeOwnerState \<Rightarrow> runtimeOwnerState" where
  "trackExternalDispatch state =
     state\<lparr>s_Effects := fm_step (\<lambda>_ e. Some (if e_State e = ''pending'' \<and>
            (case e_Reconciliation e of None \<Rightarrow> False | Some q \<Rightarrow> reconciliationMutatesGitHub (rq_Action q))
          then e\<lparr>e_Dispatched := True\<rparr> else e)) (s_Effects state),
       s_ExternalDispatchTracked := True\<rparr>"

definition bind_pending_stop :: "runtimeOwnerState \<Rightarrow> string \<times> runtimeEffectIntent \<Rightarrow> runtimeOwnerState" where
  "bind_pending_stop state = (\<lambda>(x, e).
     if e_Action e = EffectStop \<and> e_State e = ''pending'' then
       let k = ownerAttemptKey (e_Repository e) (e_Issue e) (e_Attempt e) in
       case fmlookup (s_Attempts state) k of
         None \<Rightarrow> state
       | Some r \<Rightarrow>
           if a_Generation r = e_AttemptGeneration e \<and> a_StopEffectID r = []
           then state\<lparr>s_Attempts := fmupd k (r\<lparr>a_StopEffectID := x\<rparr>) (s_Attempts state)\<rparr> else state
     else state)"

definition stamp_admission :: "uint64 \<Rightarrow> controlReceipt \<Rightarrow> controlReceipt" where
  "stamp_admission epoch r =
     (if r_Phase r = operatorPhaseAdmissionPending
      then r\<lparr>r_Admission := map_option (\<lambda>a. a\<lparr>ad_Epoch := epoch\<rparr>) (r_Admission r)\<rparr> else r)"

definition start_migrated :: "Env \<Rightarrow> hostBootIdentity \<Rightarrow> runtimeOwnerState \<Rightarrow> runtimeOwnerState" where
  "start_migrated env boot s =
     (let s1 = (if s_ReviewerRevocationTracked s then s
                else (revokeInvalidPlanReviewers s True)\<lparr>s_ReviewerRevocationTracked := True\<rparr>);
          s2 = (if s_ReviewerSafetyMigrated s1 then s1
                else (migrateLegacyReviewerSafety env s1)\<lparr>s_ReviewerSafetyMigrated := True\<rparr>);
          s3 = (if s_ReviewerConfinementTracked s2 then s2 else trackReviewerConfinement env s2);
          s4 = (if s_ReviewerRunTracked s3 then s3 else trackReviewerRuns env s3);
          s5 = reconcileLegacyReviewerBoot env (migrateReviewerPolicy env s4) boot
      in if s_ExternalDispatchTracked s5 then s5 else trackExternalDispatch s5)"

definition start_candidate :: "Env \<Rightarrow> hostBootIdentity \<Rightarrow> runtimeOwnerState \<Rightarrow> runtimeOwnerState owner_result" where
  "start_candidate env boot s =
     (let s0 = migrateLegacyDismissCleanup env s in
      if s_Epoch s0 = uint64_max then Inl (OtherError ''runtime epoch overflow'')
      else
        let s1 = start_migrated env boot s0;
            s2 = foldl bind_pending_stop s1 (entries_of env (s_Effects s1));
            epoch = s_Epoch s2 + 1
        in Inr (s2\<lparr>s_Epoch := epoch, s_ControlReceipts := map (stamp_admission epoch) (s_ControlReceipts s2)\<rparr>))"

definition applyStateOwnerStart :: "Env \<Rightarrow> runtimeOwnerState \<Rightarrow> hostBootIdentity \<Rightarrow> runtimeOwnerState owner_result" where
  "applyStateOwnerStart env s boot =
     err_bind (start_candidate env boot s) (\<lambda>s1. err_bind (finishRuntimeOwnerTransition env s1 None []) (\<lambda>(s2, _). Inr s2))"

section \<open>Opening a ledger\<close>

text \<open>\<open>recorded\<close> says that the file had a map of machine statuses; an older one had none.\<close>

definition legacy_source :: "string \<Rightarrow> uint64 \<Rightarrow> string" where
  "legacy_source source sequence = ''legacy:'' @ source @ '':'' @ utoa sequence"

definition status_from_manifest :: "runtimeOwnerState \<Rightarrow> string \<times> runtimeAttemptRecord \<Rightarrow> runtimeOwnerState" where
  "status_from_manifest state = (\<lambda>(k, r).
     let m = a_Manifest r; issueKey = ownerIssueKey (m_Repository m) (m_Issue m);
         current = fm_get (s_MachineStatuses state) issueKey empty_status
     in
     if m_WorkerStatusSeq m = 0 \<or> m_WorkerStatus m \<notin> {''needs-attention'', ''clear''} \<or>
       trim_space (m_WorkerStatusReason m) = [] then state
     else if ms_Repository current \<noteq> [] \<and> m_Attempt m \<le> ms_Attempt current then state
     else state\<lparr>s_MachineStatuses := fmupd issueKey
       \<lparr>ms_Repository = m_Repository m, ms_Issue = m_Issue m, ms_Attempt = m_Attempt m,
        ms_IssueGeneration = fm_get (s_IssueGenerations state) issueKey 0,
        ms_AttemptGeneration = fm_get (s_AttemptGenerations state) k 0, ms_Sequence = 1, ms_AppliedSequence = 0,
        ms_Source = ''worker'', ms_SourceID = legacy_source ''worker'' (m_WorkerStatusSeq m),
        ms_SourceSequence = m_WorkerStatusSeq m, ms_Status = m_WorkerStatus m,
        ms_Reason = trim_space (m_WorkerStatusReason m)\<rparr> (s_MachineStatuses state)\<rparr>)"

definition status_from_effect :: "runtimeOwnerState \<Rightarrow> string \<times> runtimeEffectIntent \<Rightarrow> runtimeOwnerState" where
  "status_from_effect state = (\<lambda>(x, e).
     if (case e_Reconciliation e of None \<Rightarrow> False
         | Some q \<Rightarrow> (case rq_GitHubIssueUpdate q of None \<Rightarrow> False | Some u \<Rightarrow> gu_Kind u = githubIssueMachineStatus)) \<and>
       0 < e_Attempt e then
       let issueKey = ownerIssueKey (e_Repository e) (e_Issue e);
           attemptGeneration = fm_get (s_AttemptGenerations state) (ownerAttemptKey (e_Repository e) (e_Issue e) (e_Attempt e)) 0;
           issueGeneration = fm_get (s_IssueGenerations state) issueKey 0;
           s1 = (if \<not> fm_has (s_MachineStatuses state) issueKey \<and> 0 < issueGeneration \<and> 0 < attemptGeneration
             then state\<lparr>s_MachineStatuses := fmupd issueKey
               \<lparr>ms_Repository = e_Repository e, ms_Issue = e_Issue e, ms_Attempt = e_Attempt e,
                ms_IssueGeneration = issueGeneration, ms_AttemptGeneration = attemptGeneration, ms_Sequence = 1,
                ms_AppliedSequence = 0, ms_Source = ''destructive'',
                ms_SourceID = legacy_source ''destructive'' attemptGeneration, ms_SourceSequence = 1,
                ms_Status = ''clear'', ms_Reason = ''legacy status intent invalidated''\<rparr> (s_MachineStatuses state)\<rparr>
             else state)
       in s1\<lparr>s_Effects := fmdrop x (s_Effects s1)\<rparr>
     else state)"

definition sourced_status :: "machineStatusRecord \<Rightarrow> machineStatusRecord" where
  "sourced_status st =
     (let st1 = (if ms_SourceID st = [] then st\<lparr>ms_SourceID := legacy_source (ms_Source st) (ms_SourceSequence st)\<rparr> else st)
      in if ms_Source st1 \<noteq> ''worker'' then st1\<lparr>ms_SourceSequence := ms_Sequence st1\<rparr> else st1)"

definition migrateLegacyMachineStatuses :: "Env \<Rightarrow> bool \<Rightarrow> runtimeOwnerState \<Rightarrow> runtimeOwnerState" where
  "migrateLegacyMachineStatuses env recorded state =
     (if recorded then state\<lparr>s_MachineStatuses := fm_step (\<lambda>_ st. Some (sourced_status st)) (s_MachineStatuses state)\<rparr>
      else
        let s1 = foldl status_from_manifest (state\<lparr>s_MachineStatuses := fmempty\<rparr>) (entries_of env (s_Attempts state))
        in foldl status_from_effect s1 (entries_of env (s_Effects s1)))"

text \<open>The ledger an owner starts from in memory: the loaded one, migrated and checked.\<close>

definition opened_ledger :: "Env \<Rightarrow> bool \<Rightarrow> runtimeOwnerState \<Rightarrow> runtimeOwnerState owner_result" where
  "opened_ledger env recorded loaded =
     (let s = migrateLegacyDismissCleanup env (migrateLegacyMachineStatuses env recorded loaded) in
      if \<not> validateRuntimeOwnerState env s False
      then Inl (validation_error env s False ''runtime owner state is invalid'')
      else Inr s)"

end
