(* ===== verification/Owner_Loop.thy ===== *)
theory Owner_Loop
  imports Owner_Start
begin

text \<open>
  The goroutine of the runtime owner (\<^verbatim>\<open>stateOwner.run\<close> of \<^verbatim>\<open>state_owner.go\<close>) with its persistence
  worker.  The local variables of \<^verbatim>\<open>run\<close> are the fields of \<open>owner_loop\<close>; a channel of capacity one is
  an option, the channels on which replies are sent are logs of ticket and reply.  One event is one
  turn of the \<^verbatim>\<open>for\<close> loop: the case of \<^verbatim>\<open>select\<close> that fires, then \<^verbatim>\<open>startNext\<close> and \<^verbatim>\<open>finish\<close>, which open
  the next turn.  Cancellation by a submitter may come between two turns and, by \<open>late\<close>, between the
  check at the head of \<^verbatim>\<open>startNext\<close> and the claim.
\<close>

section \<open>State\<close>

type_synonym ticket = nat

datatype owner_input =
    Start hostBootIdentity
  | Command owner_command

definition apply_input ::
  "Env \<Rightarrow> applied_cycles \<Rightarrow> runtimeOwnerState \<Rightarrow> owner_input \<Rightarrow>
   (runtimeOwnerState \<times> runtimeEffectIntent option) owner_result" where
  "apply_input env applied s i =
     (case i of
        Start boot \<Rightarrow> err_bind (applyStateOwnerStart env s boot) (\<lambda>s'. Inr (s', None))
      | Command c \<Rightarrow> applyStateOwnerCommand env applied s c)"

datatype arbitration = Undecided | Canceled | Claimed

datatype loop_error =
    OwnerStopped
  | CommandCanceled
  | Rejected owner_error
  | PersistError string

text \<open>What the persistence worker reports: the ledger is installed and synchronised, was not
  installed, or was installed without the directory being synchronised.\<close>

datatype persist_outcome =
    Persisted
  | PersistFailed string
  | PersistInstalled string

record stateOwnerResult =
  w_State :: runtimeOwnerState
  w_CycleID :: uint64
  w_Effect :: "runtimeEffectIntent option"
  w_Stale :: bool
  w_Subscription :: uint64

datatype reply =
    Answer stateOwnerResult
  | Refusal loop_error

record pendingStateCommit =
  pn_ticket :: ticket
  pn_command :: owner_input
  pn_candidate :: runtimeOwnerState
  pn_effect :: "runtimeEffectIntent option"
  pn_stale :: bool

record owner_loop =
  lo_committed :: runtimeOwnerState
  lo_queue :: "(ticket \<times> owner_input) list"
  lo_inFlight :: "pendingStateCommit option"
  lo_stopping :: bool
  lo_poisoned :: "loop_error option"
  lo_cycleID :: uint64
  lo_subscriptionID :: uint64
  lo_subscribers :: "(uint64, runtimeOwnerState option) fmap"
  lo_commits :: "runtimeOwnerState option"
  lo_applied :: applied_cycles
  lo_done :: bool
  lo_arbitration :: "ticket \<Rightarrow> arbitration"
  lo_submitted :: "ticket list"
  lo_replies :: "(ticket \<times> reply) list"
  lo_reads :: "(ticket \<times> reply) list"
  lo_disk :: runtimeOwnerState

definition stateOwnerQueueSize :: nat where
  "stateOwnerQueueSize = 64"

text \<open>On disk is the ledger as it was loaded, in memory the migrated one.\<close>

definition loop_init :: "runtimeOwnerState \<Rightarrow> runtimeOwnerState \<Rightarrow> owner_loop" where
  "loop_init loaded initial =
     \<lparr>lo_committed = initial, lo_queue = [], lo_inFlight = None, lo_stopping = False, lo_poisoned = None,
      lo_cycleID = 0, lo_subscriptionID = 0, lo_subscribers = fmempty, lo_commits = None, lo_applied = fmempty,
      lo_done = False, lo_arbitration = (\<lambda>_. Undecided), lo_submitted = [], lo_replies = [], lo_reads = [],
      lo_disk = loaded\<rparr>"

section \<open>Replies\<close>

definition send_reply :: "ticket \<Rightarrow> reply \<Rightarrow> owner_loop \<Rightarrow> owner_loop" where
  "send_reply t r l = l\<lparr>lo_replies := lo_replies l @ [(t, r)]\<rparr>"

definition send_read :: "ticket \<Rightarrow> reply \<Rightarrow> owner_loop \<Rightarrow> owner_loop" where
  "send_read t r l = l\<lparr>lo_reads := lo_reads l @ [(t, r)]\<rparr>"

definition refuse_queue :: "loop_error \<Rightarrow> owner_loop \<Rightarrow> owner_loop" where
  "refuse_queue e l =
     l\<lparr>lo_replies := lo_replies l @ map (\<lambda>(t, _). (t, Refusal e)) (lo_queue l), lo_queue := []\<rparr>"

definition result_of ::
  "runtimeOwnerState \<Rightarrow> runtimeEffectIntent option \<Rightarrow> bool \<Rightarrow> stateOwnerResult" where
  "result_of s e stale = \<lparr>w_State = s, w_CycleID = 0, w_Effect = e, w_Stale = stale, w_Subscription = 0\<rparr>"

text \<open>A full channel of capacity one is emptied first, so it always holds the newest ledger.\<close>

definition publish :: "owner_loop \<Rightarrow> owner_loop" where
  "publish l = l\<lparr>lo_commits := Some (lo_committed l),
     lo_subscribers := fmmap (\<lambda>_. Some (lo_committed l)) (lo_subscribers l)\<rparr>"

definition record_applied ::
  "Env \<Rightarrow> applied_cycles \<Rightarrow> owner_input \<Rightarrow> runtimeOwnerState \<Rightarrow> bool \<Rightarrow> applied_cycles" where
  "record_applied env applied i s changed =
     (case i of
        Command (ApplyReconciliation c) \<Rightarrow> recordAppliedReconciliationCycles env applied (ap_Collection c) s changed
      | _ \<Rightarrow> applied)"

definition reconciliation_stale :: "owner_input \<Rightarrow> runtimeOwnerState \<Rightarrow> runtimeOwnerState \<Rightarrow> bool" where
  "reconciliation_stale i committed candidate \<longleftrightarrow>
     (case i of Command (ApplyReconciliation c) \<Rightarrow> s_StaleReconciliations committed < s_StaleReconciliations candidate
      | _ \<Rightarrow> False)"

section \<open>Starting the next command\<close>

definition claimStateOwnerCommand :: "ticket \<Rightarrow> owner_loop \<Rightarrow> (owner_loop \<times> bool)" where
  "claimStateOwnerCommand t l =
     (if lo_arbitration l t = Undecided
      then (l\<lparr>lo_arbitration := (lo_arbitration l)(t := Claimed)\<rparr>, True) else (l, False))"

definition cancel_command :: "ticket \<Rightarrow> owner_loop \<Rightarrow> owner_loop" where
  "cancel_command t l =
     (if lo_arbitration l t = Undecided then l\<lparr>lo_arbitration := (lo_arbitration l)(t := Canceled)\<rparr> else l)"

definition accept_candidate ::
  "Env \<Rightarrow> ticket \<Rightarrow> owner_input \<Rightarrow> runtimeOwnerState \<Rightarrow> runtimeEffectIntent option \<Rightarrow> owner_loop \<Rightarrow> owner_loop" where
  "accept_candidate env t i candidate e l =
     (let stale = reconciliation_stale i (lo_committed l) candidate; (l1, claimed) = claimStateOwnerCommand t l in
      if \<not> claimed then send_reply t (Refusal CommandCanceled) l1
      else if candidate = lo_committed l then
        send_reply t (Answer (result_of (lo_committed l) e stale))
          (l1\<lparr>lo_applied := record_applied env (lo_applied l1) i (lo_committed l) False\<rparr>)
      else l1\<lparr>lo_inFlight := Some \<lparr>pn_ticket = t, pn_command = i, pn_candidate = candidate, pn_effect = e, pn_stale = stale\<rparr>\<rparr>)"

definition start_command :: "Env \<Rightarrow> bool \<Rightarrow> ticket \<Rightarrow> owner_input \<Rightarrow> owner_loop \<Rightarrow> owner_loop" where
  "start_command env late t i l =
     (if lo_arbitration l t = Canceled then send_reply t (Refusal CommandCanceled) l
      else case lo_poisoned l of
        Some e \<Rightarrow> send_reply t (Refusal e) l
      | None \<Rightarrow>
          (case apply_input env (lo_applied l) (lo_committed l) i of
             Inl e \<Rightarrow> send_reply t (Refusal (Rejected e)) l
           | Inr (candidate, e) \<Rightarrow>
               accept_candidate env t i candidate e (if late then cancel_command t l else l)))"

fun start_queue :: "Env \<Rightarrow> (ticket \<Rightarrow> bool) \<Rightarrow> (ticket \<times> owner_input) list \<Rightarrow> owner_loop \<Rightarrow> owner_loop" where
  "start_queue env late [] l = l"
| "start_queue env late ((t, i) # q) l =
     (if lo_inFlight l \<noteq> None then l
      else start_queue env late q (start_command env (late t) t i (l\<lparr>lo_queue := q\<rparr>)))"

definition startNext :: "Env \<Rightarrow> (ticket \<Rightarrow> bool) \<Rightarrow> owner_loop \<Rightarrow> owner_loop" where
  "startNext env late l = start_queue env late (lo_queue l) l"

definition finish_loop :: "owner_loop \<Rightarrow> owner_loop" where
  "finish_loop l =
     (if \<not> lo_stopping l \<or> lo_inFlight l \<noteq> None then l
      else l\<lparr>lo_done := True, lo_subscribers := fmempty\<rparr>)"

section \<open>Events\<close>

datatype loop_event =
    Submit ticket owner_input
  | ReadState ticket bool bool
  | Unsubscribe uint64
  | PersistDone persist_outcome
  | StopOwner

definition event_enabled :: "loop_event \<Rightarrow> owner_loop \<Rightarrow> bool" where
  "event_enabled v l \<longleftrightarrow>
     (case v of
        Submit t i \<Rightarrow> length (lo_queue l) \<noteq> stateOwnerQueueSize \<and> t \<notin> set (lo_submitted l)
      | ReadState t cycle subscribe \<Rightarrow> True
      | Unsubscribe x \<Rightarrow> True
      | PersistDone out \<Rightarrow> lo_inFlight l \<noteq> None
      | StopOwner \<Rightarrow> \<not> lo_stopping l)"

definition receive_command :: "ticket \<Rightarrow> owner_input \<Rightarrow> owner_loop \<Rightarrow> owner_loop" where
  "receive_command t i l =
     (let l0 = l\<lparr>lo_submitted := lo_submitted l @ [t]\<rparr> in
      if lo_stopping l then send_reply t (Refusal OwnerStopped) l0
      else case lo_poisoned l of
        Some e \<Rightarrow> send_reply t (Refusal e) l0
      | None \<Rightarrow> l0\<lparr>lo_queue := lo_queue l @ [(t, i)]\<rparr>)"

definition read_state :: "ticket \<Rightarrow> bool \<Rightarrow> bool \<Rightarrow> owner_loop \<Rightarrow> owner_loop" where
  "read_state t cycle subscribe l =
     (let l1 = (if cycle then l\<lparr>lo_cycleID := lo_cycleID l + 1\<rparr> else l);
          l2 = (if subscribe then l1\<lparr>lo_subscriptionID := lo_subscriptionID l1 + 1,
                  lo_subscribers := fmupd (lo_subscriptionID l1 + 1) None (lo_subscribers l1)\<rparr> else l1)
      in send_read t (Answer \<lparr>w_State = lo_committed l, w_CycleID = (if cycle then lo_cycleID l2 else 0), w_Effect = None,
           w_Stale = False, w_Subscription = (if subscribe then lo_subscriptionID l2 else 0)\<rparr>) l2)"

text \<open>As in the source, the branch of a stopping owner does not leave the case.\<close>

definition receive_read :: "ticket \<Rightarrow> bool \<Rightarrow> bool \<Rightarrow> owner_loop \<Rightarrow> owner_loop" where
  "receive_read t cycle subscribe l =
     (if lo_stopping l then read_state t cycle subscribe (send_read t (Refusal OwnerStopped) l)
      else case lo_poisoned l of
        Some e \<Rightarrow> send_read t (Refusal e) l
      | None \<Rightarrow> read_state t cycle subscribe l)"

definition persist_done :: "Env \<Rightarrow> persist_outcome \<Rightarrow> pendingStateCommit \<Rightarrow> owner_loop \<Rightarrow> owner_loop" where
  "persist_done env out p l =
     (let l0 = l\<lparr>lo_inFlight := None\<rparr> in
      case out of
        Persisted \<Rightarrow>
          (let l1 = publish (l0\<lparr>lo_committed := pn_candidate p, lo_disk := pn_candidate p\<rparr>);
               l2 = l1\<lparr>lo_applied := record_applied env (lo_applied l1) (pn_command p) (lo_committed l1) True\<rparr>
           in send_reply (pn_ticket p) (Answer (result_of (lo_committed l2) (pn_effect p) (pn_stale p))) l2)
      | PersistFailed e \<Rightarrow> send_reply (pn_ticket p) (Refusal (PersistError e)) l0
      | PersistInstalled e \<Rightarrow>
          refuse_queue (PersistError e)
            ((send_reply (pn_ticket p) (Refusal (PersistError e)) (l0\<lparr>lo_disk := pn_candidate p\<rparr>))
              \<lparr>lo_poisoned := Some (PersistError e)\<rparr>))"

definition handle_event :: "Env \<Rightarrow> loop_event \<Rightarrow> owner_loop \<Rightarrow> owner_loop" where
  "handle_event env v l =
     (case v of
        Submit t i \<Rightarrow> receive_command t i l
      | ReadState t cycle subscribe \<Rightarrow> receive_read t cycle subscribe l
      | Unsubscribe x \<Rightarrow> l\<lparr>lo_subscribers := fmdrop x (lo_subscribers l)\<rparr>
      | PersistDone out \<Rightarrow> (case lo_inFlight l of None \<Rightarrow> l | Some p \<Rightarrow> persist_done env out p l)
      | StopOwner \<Rightarrow> refuse_queue OwnerStopped (l\<lparr>lo_stopping := True\<rparr>))"

definition loop_turn :: "Env \<Rightarrow> (ticket \<Rightarrow> bool) \<Rightarrow> loop_event \<Rightarrow> owner_loop \<Rightarrow> owner_loop" where
  "loop_turn env late v l = finish_loop (startNext env late (handle_event env v l))"

section \<open>The start of an owner\<close>

text \<open>\<^verbatim>\<open>startStateOwnerWithBootIdentity\<close>: the owner is handed out when it has answered its first command, the
  start of an epoch, whose ledger is persisted with \<open>outcome\<close>.  A caller that gives up meanwhile is not
  part of this definition.\<close>

definition startStateOwnerWithBootIdentity ::
  "Env \<Rightarrow> bool \<Rightarrow> runtimeOwnerState \<Rightarrow> hostBootIdentity \<Rightarrow> persist_outcome \<Rightarrow> loop_error + owner_loop" where
  "startStateOwnerWithBootIdentity env recorded loaded boot outcome =
     (case opened_ledger env recorded loaded of
        Inl e \<Rightarrow> Inl (Rejected e)
      | Inr s \<Rightarrow>
          let l1 = loop_turn env (\<lambda>_. False) (Submit 0 (Start boot)) (loop_init loaded s);
              l2 = (if lo_inFlight l1 = None then l1 else loop_turn env (\<lambda>_. False) (PersistDone outcome) l1) in
          case map_of (lo_replies l2) 0 of
            Some (Answer _) \<Rightarrow> Inr l2
          | Some (Refusal e) \<Rightarrow> Inl e
          | None \<Rightarrow> Inl OwnerStopped)"

section \<open>Runs\<close>

text \<open>A submitter may cancel at any time; consumers empty the channels of capacity one.\<close>

inductive loop_step :: "Env \<Rightarrow> owner_loop \<Rightarrow> owner_loop \<Rightarrow> bool" for env where
  loop_turnI: "\<not> lo_done l \<Longrightarrow> event_enabled v l \<Longrightarrow> loop_step env l (loop_turn env late v l)"
| loop_cancelI: "loop_step env l (cancel_command t l)"
| loop_takeI: "loop_step env l (l\<lparr>lo_commits := None\<rparr>)"
| loop_updateI: "x |\<in>| fmdom (lo_subscribers l) \<Longrightarrow> loop_step env l (l\<lparr>lo_subscribers := fmupd x None (lo_subscribers l)\<rparr>)"

inductive loop_run :: "Env \<Rightarrow> owner_loop \<Rightarrow> owner_loop \<Rightarrow> bool" for env where
  loop_run_refl: "loop_run env l l"
| loop_run_step: "loop_run env l l' \<Longrightarrow> loop_step env l' l'' \<Longrightarrow> loop_run env l l''"

inductive_cases loop_stepE: "loop_step env l l'"

end
