(* ===== verification/Owner_Start_Properties.thy ===== *)
theory Owner_Start_Properties
  imports Owner_Start Owner_Runs
begin

text \<open>
  What the start of an epoch promises: it carries the whole ledger over, up to the fields that its
  migrations are about, and it releases a quarantine only on the evidence of a reboot.
\<close>

section \<open>What a start carries over\<close>

definition erase_attempt :: "runtimeAttemptRecord \<Rightarrow> runtimeAttemptRecord" where
  "erase_attempt r = r\<lparr>a_StopEffectID := []\<rparr>"

definition erase_tombstone :: "runtimeTombstone \<Rightarrow> runtimeTombstone" where
  "erase_tombstone t = t\<lparr>t_Revision := 0, t_CleanupPhase := [], t_CleanupPolicy := None, t_ReviewerLeaseID := [], t_Diagnostic := []\<rparr>"

definition erase_intent :: "runtimeEffectIntent \<Rightarrow> runtimeEffectIntent" where
  "erase_intent e = e\<lparr>e_Dispatched := False, e_ReviewerRevoked := False\<rparr>"

definition erase_receipt :: "controlReceipt \<Rightarrow> controlReceipt" where
  "erase_receipt r = r\<lparr>r_State := [], r_Phase := [], r_EffectID := [], r_Diagnostic := [], r_Result := None, r_Admission := None\<rparr>"

definition lasting :: "runtimeOwnerState \<Rightarrow> runtimeOwnerState" where
  "lasting s =
     s\<lparr>s_Epoch := 0, s_Revision := 0, s_ReviewerProofs := fmempty, s_ReviewerSafetyMigrated := True,
       s_ReviewerConfinementTracked := True, s_ReviewerRunTracked := True, s_ReviewerPolicyTracked := True,
       s_ReviewerPolicyVersion := 0, s_DismissCleanupTracked := True, s_LegacyReviewerQuarantines := fmempty,
       s_LegacyReviewerBaselines := fmempty, s_LegacyReviewerReleases := fmempty, s_LegacyBootUnavailable := False,
       s_ReviewerRevocationTracked := True, s_ExternalDispatchTracked := True,
       s_Attempts := fmmap erase_attempt (s_Attempts s), s_Tombstones := fmmap erase_tombstone (s_Tombstones s),
       s_Effects := fmmap erase_intent (s_Effects s), s_ControlReceipts := map erase_receipt (s_ControlReceipts s)\<rparr>"

named_theorems lasting_simps

lemma fmmap_step: "(\<And>k v. fmlookup m k = Some v \<Longrightarrow> f (g k v) = f v) \<Longrightarrow> fmmap f (fm_step (\<lambda>k v. Some (g k v)) m) = fmmap f m"
  by (rule fmap_ext) (auto simp: fm_step_lookup split: option.split)

lemma fmmap_set: "fmlookup m k = Some v \<Longrightarrow> f w = f v \<Longrightarrow> fmmap f (fmupd k w m) = fmmap f m"
  by (rule fmap_ext) auto

lemma lasting_foldl: "(\<And>s x. x \<in> set xs \<Longrightarrow> lasting (f s x) = lasting s) \<Longrightarrow> lasting (foldl f s xs) = lasting s"
  by (induction xs arbitrary: s) auto

lemma lasting_quarantine [lasting_simps]: "lasting (quarantine_of d r i s) = lasting s"
  by (simp add: quarantine_of_def admitLegacyReviewerQuarantine_def lasting_def)

lemma lasting_admit [lasting_simps]: "lasting (admitLegacyReviewerQuarantine s k d) = lasting s"
  by (simp add: admitLegacyReviewerQuarantine_def lasting_def)

lemma lasting_proofs [lasting_simps]: "lasting (s\<lparr>s_ReviewerProofs := p\<rparr>) = lasting s"
  by (simp add: lasting_def)

lemma lasting_quarantine_maps [lasting_simps]:
  "lasting (s\<lparr>s_LegacyReviewerBaselines := b\<rparr>) = lasting s" "lasting (s\<lparr>s_LegacyReviewerReleases := r\<rparr>) = lasting s"
  "lasting (s\<lparr>s_LegacyReviewerQuarantines := q\<rparr>) = lasting s" "lasting (s\<lparr>s_LegacyBootUnavailable := u\<rparr>) = lasting s"
  by (simp_all add: lasting_def)

lemma lasting_flags [lasting_simps]:
  "lasting (s\<lparr>s_ReviewerSafetyMigrated := a\<rparr>) = lasting s" "lasting (s\<lparr>s_ReviewerConfinementTracked := a\<rparr>) = lasting s"
  "lasting (s\<lparr>s_ReviewerRunTracked := a\<rparr>) = lasting s" "lasting (s\<lparr>s_ReviewerPolicyTracked := a\<rparr>) = lasting s"
  "lasting (s\<lparr>s_ReviewerPolicyVersion := n\<rparr>) = lasting s" "lasting (s\<lparr>s_DismissCleanupTracked := a\<rparr>) = lasting s"
  "lasting (s\<lparr>s_ReviewerRevocationTracked := a\<rparr>) = lasting s" "lasting (s\<lparr>s_ExternalDispatchTracked := a\<rparr>) = lasting s"
  "lasting (s\<lparr>s_Epoch := n\<rparr>) = lasting s" "lasting (s\<lparr>s_Revision := n\<rparr>) = lasting s"
  by (simp_all add: lasting_def)

lemma lasting_effects [lasting_simps]:
  assumes "\<And>k e. fmlookup (s_Effects s) k = Some e \<Longrightarrow> erase_intent (f k e) = erase_intent e"
  shows "lasting (s\<lparr>s_Effects := fm_step (\<lambda>k e. Some (f k e)) (s_Effects s)\<rparr>) = lasting s"
  using fmmap_step[of "s_Effects s" erase_intent f, OF assms] by (simp add: lasting_def)

lemma lasting_revoke [lasting_simps]: "lasting (revokeInvalidPlanReviewers s b) = lasting s"
  unfolding revokeInvalidPlanReviewers_def
  by (rule lasting_effects) (simp add: revoked_reviewer_def erase_intent_def split: option.split)

lemma lasting_dispatch [lasting_simps]: "lasting (trackExternalDispatch s) = lasting s"
proof -
  have "lasting (trackExternalDispatch s) = lasting (s\<lparr>s_Effects := s_Effects (trackExternalDispatch s)\<rparr>)"
    by (simp add: trackExternalDispatch_def lasting_def)
  also have "\<dots> = lasting s"
    unfolding trackExternalDispatch_def by simp (rule lasting_effects, simp add: erase_intent_def)
  finally show ?thesis .
qed

lemma lasting_safety [lasting_simps]:
  "lasting (safety_effect env s x) = lasting s" "lasting (safety_attempt env s y) = lasting s"
  "lasting (safety_tombstone env s z) = lasting s"
  by (simp_all add: safety_effect_def safety_attempt_def safety_tombstone_def Let_def lasting_simps case_prod_unfold
      split: option.split)

lemma lasting_migrate_safety [lasting_simps]: "lasting (migrateLegacyReviewerSafety env s) = lasting s"
  by (simp add: migrateLegacyReviewerSafety_def Let_def lasting_foldl lasting_simps)

lemma lasting_confinement [lasting_simps]: "lasting (trackReviewerConfinement env s) = lasting s"
  by (simp add: trackReviewerConfinement_def lasting_simps)

lemma lasting_run [lasting_simps]:
  "lasting (run_proof env s w) = lasting s" "lasting (run_attempt env s x) = lasting s"
  "lasting (run_tombstone env s y) = lasting s" "lasting (run_effect env s z) = lasting s"
  by (simp_all add: run_proof_def run_attempt_def run_tombstone_def run_effect_def Let_def lasting_simps case_prod_unfold
      split: option.split)

lemma lasting_track_runs [lasting_simps]: "lasting (trackReviewerRuns env s) = lasting s"
  by (simp add: trackReviewerRuns_def Let_def lasting_foldl lasting_simps)

lemma lasting_policy [lasting_simps]: "lasting (migrateReviewerPolicy env s) = lasting s"
proof -
  have "lasting (policy_proof env n s x) = lasting s" "lasting (policy_effect env n s y) = lasting s" for n s x y
    by (simp_all add: policy_proof_def policy_effect_def lasting_simps case_prod_unfold)
  then show ?thesis
    by (simp add: migrateReviewerPolicy_def migrateReviewerPolicyTo_def Let_def lasting_foldl lasting_simps)
qed

lemma lasting_boot [lasting_simps]: "lasting (reconcileLegacyReviewerBoot env s boot) = lasting s"
proof -
  have "lasting (reconcile_quarantine env boot s x) = lasting s" for s x
    by (simp add: reconcile_quarantine_def Let_def lasting_simps case_prod_unfold split: option.split)
  then show ?thesis by (simp add: reconcileLegacyReviewerBoot_def lasting_foldl lasting_simps)
qed

lemma lasting_migrated [lasting_simps]: "lasting (start_migrated env boot s) = lasting s"
  by (simp add: start_migrated_def Let_def lasting_simps)

lemma lasting_stop [lasting_simps]: "lasting (bind_pending_stop s x) = lasting s"
proof (cases x)
  case (Pair k e)
  have "fmmap erase_attempt (fmupd k (r\<lparr>a_StopEffectID := y\<rparr>) (s_Attempts s)) = fmmap erase_attempt (s_Attempts s)"
    if "fmlookup (s_Attempts s) k = Some r" for k r y
    by (rule fmmap_set[OF that]) (simp add: erase_attempt_def)
  with Pair show ?thesis by (simp add: bind_pending_stop_def Let_def lasting_def split: option.split)
qed

lemma lasting_finish:
  assumes "finishRuntimeOwnerTransition env s None [] = Inr (s', e)"
  shows "lasting s' = lasting s"
proof -
  have "fmmap erase_tombstone (fm_step (\<lambda>_ t. Some (if t_Revision t = 0 then t\<lparr>t_Revision := n\<rparr> else t)) m) = fmmap erase_tombstone m"
    for n :: uint64 and m :: "(string, runtimeTombstone) fmap" by (rule fmmap_step) (simp add: erase_tombstone_def)
  then have "lasting (stamp_tombstones s) = lasting s" for s by (simp add: stamp_tombstones_def lasting_def)
  with assms show ?thesis
    by (auto simp: finishRuntimeOwnerTransition_def committed_candidate_def Let_def lasting_simps split: if_splits)
qed

lemma entries_lookup:
  assumes "sound_order env" "(k, v) \<in> set (entries_of env m)"
  shows "fmlookup m k = Some v"
  using assms by (auto simp: sound_order_def fm_entries_def fmlookup_dom_iff[symmetric] dest!: subsetD
      simp flip: fmdom.rep_eq intro: option.collapse)

lemma lasting_dismissed:
  assumes "fmlookup (fmmap erase_tombstone (s_Tombstones s)) k = Some (erase_tombstone t)"
  shows "lasting (migrate_dismissed env s (k, t)) = lasting s"
proof (cases "t_Action t \<noteq> ''dismissed'' \<or> t_EffectID t \<noteq> [] \<or> legacyRecordReleased s (legacyTombstoneDigest env t)")
  case True
  then show ?thesis by (auto simp: migrate_dismissed_def)
next
  case False
  obtain v where v: "fmlookup (s_Tombstones s) k = Some v" "erase_tombstone v = erase_tombstone t"
    using assms by (cases "fmlookup (s_Tombstones s) k") auto
  have r: "map erase_receipt (map (dismissed_receipt s k u) rs) = map erase_receipt rs" for u rs
    by (simp add: dismissed_receipt_def erase_receipt_def Let_def)
  define u where "u = (\<lambda>b. if b then t\<lparr>t_CleanupPhase := ''completed'', t_CleanupPolicy := None, t_ReviewerLeaseID := [],
      t_Diagnostic := dismiss_diagnostic\<rparr> else t\<lparr>t_CleanupPhase := ''completed'', t_CleanupPolicy := None, t_ReviewerLeaseID := []\<rparr>)"
  have "erase_tombstone (u b) = erase_tombstone t" for b by (simp add: u_def erase_tombstone_def)
  then have e: "fmmap erase_tombstone (fmupd k (u b) (s_Tombstones s)) = fmmap erase_tombstone (s_Tombstones s)" for b
    using fmmap_set[OF v(1), where f = erase_tombstone] v(2) by metis
  obtain p q c b where "migrate_dismissed env s (k, t) = s\<lparr>s_ReviewerProofs := p, s_LegacyReviewerQuarantines := q,
      s_LegacyReviewerBaselines := c, s_Tombstones := fmupd k (u b) (s_Tombstones s),
      s_ControlReceipts := map (dismissed_receipt s k (u b)) (s_ControlReceipts s)\<rparr>"
  proof -
    let ?un = "t_ReviewerLeaseID t \<noteq> [] \<or> t_InvalidatedStart t \<noteq> None \<or>
      (case t_Manifest t of None \<Rightarrow> False | Some m \<Rightarrow> reviewer_uncleaned m) \<or>
      fm_ex (\<lambda>_ p. proof_of_tombstone t p) (s_ReviewerProofs s)"
    let ?pr = "fm_step (\<lambda>_ p. Some (if proof_of_tombstone t p \<and>
        (p_Pane p = None \<or> p_TerminalBroker p = None \<or> p_BrokerPath p = []) then unverified_proof p else p)) (s_ReviewerProofs s)"
    show ?thesis
    proof (cases ?un)
      case True
      show ?thesis
        by (rule that[where p = ?pr and b = True
            and q = "fmupd (ownerIssueKey (t_Repository t) (t_Issue t)) dismiss_diagnostic (s_LegacyReviewerQuarantines s)"
            and c = "fmdrop (ownerIssueKey (t_Repository t) (t_Issue t)) (s_LegacyReviewerBaselines s)"])
          (use False True in \<open>simp add: migrate_dismissed_def Let_def u_def admitLegacyReviewerQuarantine_def\<close>)
    next
      case un: False
      show ?thesis
        by (rule that[where p = ?pr and q = "s_LegacyReviewerQuarantines s" and c = "s_LegacyReviewerBaselines s" and b = False])
          (use False un in \<open>simp add: migrate_dismissed_def Let_def u_def\<close>)
    qed
  qed
  then show ?thesis using e r by (simp add: lasting_def)
qed

lemma lasting_foldl_entries:
  assumes "sound_order env" "\<And>s k t. fmlookup (fmmap erase_tombstone (s_Tombstones s)) k = Some (erase_tombstone t) \<Longrightarrow> lasting (f s (k, t)) = lasting s"
  shows "set xs \<subseteq> set (entries_of env (s_Tombstones s0)) \<Longrightarrow> lasting s = lasting s0 \<Longrightarrow> lasting (foldl f s xs) = lasting s0"
proof (induction xs arbitrary: s)
  case (Cons x xs)
  obtain k t where x: "x = (k, t)" by (cases x)
  have "fmlookup (s_Tombstones s0) k = Some t" using Cons.prems(1) x entries_lookup[OF assms(1)] by auto
  moreover have "s_Tombstones (lasting s) = s_Tombstones (lasting s0)" using Cons.prems(2) by simp
  then have "fmmap erase_tombstone (s_Tombstones s) = fmmap erase_tombstone (s_Tombstones s0)" by (simp add: lasting_def)
  ultimately have "lasting (f s x) = lasting s" using assms(2)[of s k t] x by simp
  with Cons.prems show ?case using Cons.IH[of "f s x"] by simp
qed simp

lemma lasting_dismiss:
  assumes "sound_order env"
  shows "lasting (migrateLegacyDismissCleanup env s) = lasting s"
  using lasting_foldl_entries[where f = "migrate_dismissed env" and ?s0.0 = s and s = s, OF assms lasting_dismissed subset_refl refl]
  by (simp add: migrateLegacyDismissCleanup_def lasting_simps)

lemma stamped_receipts: "map erase_receipt (map (stamp_admission n) rs) = map erase_receipt rs"
  by (simp add: stamp_admission_def erase_receipt_def)

section \<open>Epochs and revisions\<close>

lemma foldl_field: "(\<And>s k v. g (f s (k, v)) = g s) \<Longrightarrow> g (foldl f s xs) = g s"
  by (induction xs arbitrary: s) auto

definition counters :: "runtimeOwnerState \<Rightarrow> uint64 \<times> uint64" where
  "counters s = (s_Epoch s, s_Revision s)"

lemma counters_parts [simp]:
  "counters (quarantine_of d r i s) = counters s" "counters (s\<lparr>s_ReviewerProofs := p\<rparr>) = counters s"
  "counters (revokeInvalidPlanReviewers s b) = counters s" "counters (trackExternalDispatch s) = counters s"
  "counters (s\<lparr>s_ReviewerSafetyMigrated := a\<rparr>) = counters s" "counters (s\<lparr>s_ReviewerRevocationTracked := a\<rparr>) = counters s"
  "counters (s\<lparr>s_ReviewerRunTracked := a\<rparr>) = counters s" "counters (s\<lparr>s_ReviewerPolicyTracked := a\<rparr>) = counters s"
  "counters (s\<lparr>s_ReviewerPolicyVersion := n\<rparr>) = counters s" "counters (s\<lparr>s_DismissCleanupTracked := a\<rparr>) = counters s"
  "counters (s\<lparr>s_LegacyBootUnavailable := a\<rparr>) = counters s" "counters (trackReviewerConfinement env s) = counters s"
  by (simp_all add: counters_def quarantine_of_def admitLegacyReviewerQuarantine_def revokeInvalidPlanReviewers_def
      trackExternalDispatch_def trackReviewerConfinement_def)

lemma counters_safety [simp]:
  "counters (safety_effect env s x) = counters s" "counters (safety_attempt env s y) = counters s"
  "counters (safety_tombstone env s z) = counters s"
  by (simp_all add: safety_effect_def safety_attempt_def safety_tombstone_def Let_def case_prod_unfold split: option.split)

lemma counters_run [simp]:
  "counters (run_proof env s w) = counters s" "counters (run_attempt env s x) = counters s"
  "counters (run_tombstone env s y) = counters s" "counters (run_effect env s z) = counters s"
  by (simp_all add: run_proof_def run_attempt_def run_tombstone_def run_effect_def Let_def case_prod_unfold split: option.split)

lemma counters_policy [simp]:
  "counters (policy_proof env n s x) = counters s" "counters (policy_effect env n s y) = counters s"
  by (simp_all add: policy_proof_def policy_effect_def case_prod_unfold)

lemma counters_admit [simp]: "counters (admitLegacyReviewerQuarantine s k d) = counters s"
  by (simp add: counters_def admitLegacyReviewerQuarantine_def)

lemma counters_dismissed [simp]: "counters (migrate_dismissed env s (k, t)) = counters s"
proof -
  have "counters (s\<lparr>s_Tombstones := T, s_ControlReceipts := R\<rparr>) = counters s" for s T R by (simp add: counters_def)
  then show ?thesis by (simp add: migrate_dismissed_def Let_def)
qed

lemma counters_quarantine [simp]: "counters (reconcile_quarantine env boot s (k, d)) = counters s"
proof -
  have b: "counters (s\<lparr>s_LegacyReviewerBaselines := B\<rparr>) = counters s" for B by (simp add: counters_def)
  have r: "counters (s\<lparr>s_LegacyReviewerReleases := R, s_LegacyReviewerQuarantines := Q, s_LegacyReviewerBaselines := B\<rparr>) = counters s"
    for R Q B by (simp add: counters_def)
  show ?thesis by (simp add: reconcile_quarantine_def Let_def b r split: option.split)
qed

lemma counters_stop [simp]: "counters (bind_pending_stop s (k, e)) = counters s"
proof -
  have "counters (s\<lparr>s_Attempts := A\<rparr>) = counters s" for A by (simp add: counters_def)
  then show ?thesis by (simp add: bind_pending_stop_def Let_def split: option.split)
qed

lemma counters_dismiss [simp]: "counters (migrateLegacyDismissCleanup env s) = counters s"
  by (simp add: migrateLegacyDismissCleanup_def foldl_field[where g = counters])

lemma counters_migrate_safety [simp]: "counters (migrateLegacyReviewerSafety env s) = counters s"
  by (simp add: migrateLegacyReviewerSafety_def Let_def foldl_field[where g = counters])

lemma counters_track_runs [simp]: "counters (trackReviewerRuns env s) = counters s"
  by (simp add: trackReviewerRuns_def Let_def foldl_field[where g = counters])

lemma counters_migrate_policy [simp]: "counters (migrateReviewerPolicy env s) = counters s"
  by (simp add: migrateReviewerPolicy_def migrateReviewerPolicyTo_def Let_def foldl_field[where g = counters])

lemma counters_boot [simp]: "counters (reconcileLegacyReviewerBoot env s boot) = counters s"
  by (simp add: reconcileLegacyReviewerBoot_def foldl_field[where g = counters])

lemma counters_start [simp]: "counters (start_migrated env boot s) = counters s"
  by (simp add: start_migrated_def Let_def)

lemma start_candidate_cases:
  assumes "start_candidate env boot s = Inr s1"
  shows "s_Epoch s \<noteq> uint64_max" "s_Epoch s1 = s_Epoch s + 1" "s_Revision s1 = s_Revision s"
    and "sound_order env \<Longrightarrow> lasting s1 = lasting s"
proof -
  let ?m = "start_migrated env boot (migrateLegacyDismissCleanup env s)"
  let ?b = "foldl bind_pending_stop ?m (entries_of env (s_Effects ?m))"
  have d: "counters (migrateLegacyDismissCleanup env s) = counters s" by simp
  have c: "counters ?b = counters s" by (simp add: foldl_field[where g = counters])
  have s1: "s_Epoch (migrateLegacyDismissCleanup env s) \<noteq> uint64_max"
      "s1 = ?b\<lparr>s_Epoch := s_Epoch ?b + 1, s_ControlReceipts := map (stamp_admission (s_Epoch ?b + 1)) (s_ControlReceipts ?b)\<rparr>"
    using assms by (auto simp: start_candidate_def Let_def split: if_splits)
  then show "s_Epoch s \<noteq> uint64_max" "s_Epoch s1 = s_Epoch s + 1" "s_Revision s1 = s_Revision s"
    using c d by (simp_all add: counters_def)
  have "lasting s1 = lasting ?b" using s1(2) stamped_receipts[of "s_Epoch ?b + 1"] by (simp add: lasting_def)
  then show "lasting s1 = lasting s" if "sound_order env"
    using that by (simp add: lasting_foldl lasting_simps lasting_dismiss)
qed

lemma start_moves:
  assumes "applyStateOwnerStart env s boot = Inr s'"
  obtains s1 e where "start_candidate env boot s = Inr s1" "finishRuntimeOwnerTransition env s1 None [] = Inr (s', e)"
  using assms
  by (cases "start_candidate env boot s"; cases "finishRuntimeOwnerTransition env (projr (start_candidate env boot s)) None []")
    (auto simp: applyStateOwnerStart_def)

section \<open>Quarantines\<close>

definition legacy_maps :: "runtimeOwnerState \<Rightarrow> (string, string) fmap \<times> (string, legacyReviewerBaseline) fmap" where
  "legacy_maps s = (s_LegacyReviewerQuarantines s, s_LegacyReviewerBaselines s)"

text \<open>The migrations only add quarantines and only drop baselines.\<close>

definition admits :: "runtimeOwnerState \<Rightarrow> runtimeOwnerState \<Rightarrow> bool" where
  "admits s s' \<longleftrightarrow>
     (\<forall>k. fm_has (s_LegacyReviewerQuarantines s) k \<longrightarrow> fm_has (s_LegacyReviewerQuarantines s') k) \<and>
     (\<forall>k b. fmlookup (s_LegacyReviewerBaselines s') k = Some b \<longrightarrow> fmlookup (s_LegacyReviewerBaselines s) k = Some b)"

lemma admits_same: "legacy_maps s' = legacy_maps s \<Longrightarrow> admits s s'"
  by (simp add: admits_def legacy_maps_def)

lemma admits_trans: "admits s s' \<Longrightarrow> admits s' s'' \<Longrightarrow> admits s s''"
  by (simp add: admits_def)

lemma admits_refl [simp, intro]: "admits s s"
  by (simp add: admits_def)

lemma admits_admit: "legacy_maps s' = legacy_maps s \<Longrightarrow> admits s (admitLegacyReviewerQuarantine s' k d)"
  by (simp add: admits_def legacy_maps_def admitLegacyReviewerQuarantine_def)

lemma admits_quarantine: "legacy_maps s' = legacy_maps s \<Longrightarrow> admits s (quarantine_of d r i s')"
  by (simp add: quarantine_of_def admits_admit)

lemma admits_foldl: "(\<And>s k v. admits s (f s (k, v))) \<Longrightarrow> admits s (foldl f s xs)"
proof (induction xs arbitrary: s)
  case (Cons x xs)
  obtain k v where x: "x = (k, v)" by (cases x)
  from Cons.prems have "admits s (f s x)" by (simp add: x)
  moreover have "admits (f s x) (foldl f (f s x) xs)" by (rule Cons.IH) (rule Cons.prems)
  ultimately show ?case by (simp add: admits_trans)
qed simp

lemma legacy_maps_parts [simp]:
  "legacy_maps (s\<lparr>s_ReviewerProofs := p\<rparr>) = legacy_maps s" "legacy_maps (s\<lparr>s_Tombstones := t\<rparr>) = legacy_maps s"
  "legacy_maps (s\<lparr>s_ControlReceipts := r\<rparr>) = legacy_maps s" "legacy_maps (s\<lparr>s_Effects := e\<rparr>) = legacy_maps s"
  "legacy_maps (s\<lparr>s_Attempts := x\<rparr>) = legacy_maps s" "legacy_maps (s\<lparr>s_Epoch := n\<rparr>) = legacy_maps s"
  "legacy_maps (s\<lparr>s_Revision := n\<rparr>) = legacy_maps s"
  "legacy_maps (s\<lparr>s_ReviewerSafetyMigrated := a\<rparr>) = legacy_maps s" "legacy_maps (s\<lparr>s_ReviewerConfinementTracked := a\<rparr>) = legacy_maps s"
  "legacy_maps (s\<lparr>s_ReviewerRunTracked := a\<rparr>) = legacy_maps s" "legacy_maps (s\<lparr>s_ReviewerPolicyTracked := a\<rparr>) = legacy_maps s"
  "legacy_maps (s\<lparr>s_ReviewerPolicyVersion := n\<rparr>) = legacy_maps s" "legacy_maps (s\<lparr>s_DismissCleanupTracked := a\<rparr>) = legacy_maps s"
  "legacy_maps (s\<lparr>s_ReviewerRevocationTracked := a\<rparr>) = legacy_maps s" "legacy_maps (s\<lparr>s_ExternalDispatchTracked := a\<rparr>) = legacy_maps s"
  "legacy_maps (s\<lparr>s_LegacyBootUnavailable := a\<rparr>) = legacy_maps s"
  by (simp_all add: legacy_maps_def)

lemma admits_safety:
  "admits s (safety_effect env s (k1, x))" "admits s (safety_attempt env s (k2, y))" "admits s (safety_tombstone env s (k3, z))"
  by (simp_all add: safety_effect_def safety_attempt_def safety_tombstone_def Let_def admits_quarantine admits_same split: option.split)

lemma admits_run:
  "admits s (run_proof env s (k1, w))" "admits s (run_attempt env s (k2, x))" "admits s (run_tombstone env s (k3, y))"
  "admits s (run_effect env s (k4, z))"
  by (simp_all add: run_proof_def run_attempt_def run_tombstone_def run_effect_def Let_def admits_quarantine split: option.split)

lemma admits_policy: "admits s (policy_proof env n s (k, p))" "admits s (policy_effect env n s (k', e))"
  by (simp_all add: policy_proof_def policy_effect_def admits_quarantine admits_same)

lemma admits_dismissed: "admits s (migrate_dismissed env s (k, t))"
proof -
  have "admits s (s'\<lparr>s_Tombstones := T, s_ControlReceipts := R\<rparr>)" if "admits s s'" for s' T R
    by (rule admits_trans[OF that admits_same]) simp
  then show ?thesis by (simp add: migrate_dismissed_def Let_def admits_admit admits_same)
qed

lemma admits_flagged:
  assumes "admits s s'"
  shows "admits s (s'\<lparr>s_ReviewerSafetyMigrated := a\<rparr>)" "admits s (s'\<lparr>s_ReviewerConfinementTracked := a\<rparr>)"
    "admits s (s'\<lparr>s_ReviewerRunTracked := a\<rparr>)" "admits s (s'\<lparr>s_DismissCleanupTracked := a\<rparr>)"
    "admits s (s'\<lparr>s_ReviewerPolicyTracked := a, s_ReviewerPolicyVersion := n\<rparr>)" "admits s (s'\<lparr>s_ReviewerRevocationTracked := a\<rparr>)"
  by (rule admits_trans[OF assms admits_same], simp)+

lemma admits_dismiss: "admits s (migrateLegacyDismissCleanup env s)"
  by (simp add: migrateLegacyDismissCleanup_def admits_flagged admits_foldl admits_dismissed)

lemma admits_migrate_safety: "admits s (migrateLegacyReviewerSafety env s)"
  unfolding migrateLegacyReviewerSafety_def Let_def
  by (intro admits_trans[OF _ admits_foldl] admits_safety admits_same) simp

lemma admits_track_runs: "admits s (trackReviewerRuns env s)"
  unfolding trackReviewerRuns_def Let_def
  by (intro admits_flagged admits_trans[OF _ admits_foldl] admits_run admits_refl)

lemma admits_migrate_policy: "admits s (migrateReviewerPolicy env s)"
proof -
  let ?s = "if s_ReviewerPolicyVersion s = 0 \<and> s_ReviewerPolicyTracked s then s\<lparr>s_ReviewerPolicyVersion := 1\<rparr> else s"
  have "admits s ?s" by (simp add: admits_same)
  moreover have "admits ?s (if s_ReviewerPolicyTracked ?s \<and> s_ReviewerPolicyVersion ?s = n then ?s else
      (foldl (policy_effect env n) (foldl (policy_proof env n) ?s (entries_of env (s_ReviewerProofs ?s)))
        (entries_of env (s_Effects (foldl (policy_proof env n) ?s (entries_of env (s_ReviewerProofs ?s))))))
      \<lparr>s_ReviewerPolicyTracked := True, s_ReviewerPolicyVersion := n\<rparr>)" for n
    by (cases "s_ReviewerPolicyTracked ?s \<and> s_ReviewerPolicyVersion ?s = n"; (simp only: if_True if_False simp_thms))
      (intro admits_refl admits_flagged admits_trans[OF _ admits_foldl] admits_policy | assumption)+
  ultimately show ?thesis unfolding migrateReviewerPolicy_def migrateReviewerPolicyTo_def Let_def by (rule admits_trans)
qed

lemma reconcile_releases:
  assumes "\<And>b. fmlookup (s_LegacyReviewerBaselines s) k = Some b \<Longrightarrow> b0 = Some b \<or> \<not> laterThan boot (lb_Boot b)"
    "fm_has (s_LegacyReviewerQuarantines s) k"
    "\<not> fm_has (s_LegacyReviewerQuarantines (foldl (reconcile_quarantine env boot) s xs)) k"
  shows "\<exists>b. b0 = Some b \<and> laterThan boot (lb_Boot b)"
  using assms
proof (induction xs arbitrary: s)
  case (Cons x xs)
  obtain k' d where x: "x = (k', d)" by (cases x)
  let ?s = "reconcile_quarantine env boot s (k', d)"
  have refl: "\<not> laterThan boot boot" "\<not> laterThan boot zero_boot" by (auto simp: laterThan_def boot_valid_def)
  have kept: "fmlookup (s_LegacyReviewerBaselines ?s) k = Some b \<Longrightarrow> b0 = Some b \<or> \<not> laterThan boot (lb_Boot b)" for b
    using Cons.prems(1) refl by (auto simp: reconcile_quarantine_def Let_def split: option.splits if_splits)
  have gone: "\<exists>b. fmlookup (s_LegacyReviewerBaselines s) k = Some b \<and> laterThan boot (lb_Boot b)"
    if "\<not> fm_has (s_LegacyReviewerQuarantines ?s) k"
    using that Cons.prems(2) by (auto simp: reconcile_quarantine_def Let_def split: option.splits if_splits)
  show ?case
  proof (cases "fm_has (s_LegacyReviewerQuarantines ?s) k")
    case True
    from Cons.IH[OF kept this] Cons.prems(3) x show ?thesis by simp
  next
    case False
    from gone[OF this] Cons.prems(1) show ?thesis by blast
  qed
qed simp

lemma reboot_releases:
  assumes "admits s s1" "fm_has (s_LegacyReviewerQuarantines s) k"
    "\<not> fm_has (s_LegacyReviewerQuarantines (reconcileLegacyReviewerBoot env s1 boot)) k"
  shows "\<exists>b. fmlookup (s_LegacyReviewerBaselines s) k = Some b \<and> laterThan boot (lb_Boot b)"
proof (rule reconcile_releases)
  let ?s = "s1\<lparr>s_LegacyBootUnavailable := \<not> boot_valid boot\<rparr>"
  show "fm_has (s_LegacyReviewerQuarantines ?s) k" using assms(1,2) by (simp add: admits_def)
  show "\<not> fm_has (s_LegacyReviewerQuarantines (foldl (reconcile_quarantine env boot) ?s
      (entries_of env (s_LegacyReviewerQuarantines s1)))) k"
    using assms(3) by (simp add: reconcileLegacyReviewerBoot_def)
  show "fmlookup (s_LegacyReviewerBaselines s) k = Some b \<or> \<not> laterThan boot (lb_Boot b)"
    if "fmlookup (s_LegacyReviewerBaselines ?s) k = Some b" for b
    using that assms(1) by (simp add: admits_def)
qed

lemma start_migrated_split:
  obtains s1 where "admits s s1" "legacy_maps (start_migrated env boot s) = legacy_maps (reconcileLegacyReviewerBoot env s1 boot)"
proof -
  define s1 where "s1 = (if s_ReviewerRevocationTracked s then s
      else (revokeInvalidPlanReviewers s True)\<lparr>s_ReviewerRevocationTracked := True\<rparr>)"
  define s2 where "s2 = (if s_ReviewerSafetyMigrated s1 then s1
      else (migrateLegacyReviewerSafety env s1)\<lparr>s_ReviewerSafetyMigrated := True\<rparr>)"
  define s3 where "s3 = (if s_ReviewerConfinementTracked s2 then s2 else trackReviewerConfinement env s2)"
  define s4 where "s4 = (if s_ReviewerRunTracked s3 then s3 else trackReviewerRuns env s3)"
  let ?s5 = "reconcileLegacyReviewerBoot env (migrateReviewerPolicy env s4) boot"
  have "admits s s1" by (simp add: s1_def admits_same revokeInvalidPlanReviewers_def)
  moreover have "admits s1 s2" by (simp add: s2_def admits_flagged admits_migrate_safety)
  moreover have "admits s2 s3" by (simp add: s3_def admits_same trackReviewerConfinement_def)
  moreover have "admits s3 s4" by (simp add: s4_def admits_track_runs)
  ultimately have "admits s (migrateReviewerPolicy env s4)" using admits_trans admits_migrate_policy by metis
  moreover have "start_migrated env boot s = (if s_ExternalDispatchTracked ?s5 then ?s5 else trackExternalDispatch ?s5)"
    unfolding start_migrated_def Let_def s1_def s2_def s3_def s4_def by (rule refl)
  then have "legacy_maps (start_migrated env boot s) = legacy_maps ?s5" by (simp add: trackExternalDispatch_def)
  ultimately show ?thesis by (rule that)
qed

lemma legacy_maps_stop: "legacy_maps (bind_pending_stop s (k, e)) = legacy_maps s"
  by (simp add: bind_pending_stop_def Let_def split: option.split)

lemma legacy_maps_start:
  assumes "start_candidate env boot s = Inr s1"
  obtains s0 where "admits s s0" "legacy_maps s1 = legacy_maps (reconcileLegacyReviewerBoot env s0 boot)"
proof -
  let ?d = "migrateLegacyDismissCleanup env s"
  obtain s0 where m: "admits ?d s0" "legacy_maps (start_migrated env boot ?d) = legacy_maps (reconcileLegacyReviewerBoot env s0 boot)"
    by (rule start_migrated_split)
  have "legacy_maps s1 = legacy_maps (start_migrated env boot ?d)"
    using assms by (auto simp: start_candidate_def Let_def foldl_field[where g = legacy_maps] legacy_maps_stop split: if_splits)
  then show ?thesis using that[OF admits_trans[OF admits_dismiss m(1)]] m(2) by simp
qed

lemma legacy_maps_finish: "finishRuntimeOwnerTransition env s None [] = Inr (s', e) \<Longrightarrow> legacy_maps s' = legacy_maps s"
  by (auto simp: finishRuntimeOwnerTransition_def committed_candidate_def Let_def revokeInvalidPlanReviewers_def
      stamp_tombstones_def split: if_splits)

section \<open>A ledger with a quarantine\<close>

definition first_boot :: hostBootIdentity where
  "first_boot = \<lparr>hb_Source = ''linux-boot-id-v1'', hb_UUID = ''00000000-0000-0000-0000-000000000001''\<rparr>"

definition second_boot :: hostBootIdentity where
  "second_boot = \<lparr>hb_Source = ''linux-boot-id-v1'', hb_UUID = ''00000000-0000-0000-0000-000000000002''\<rparr>"

definition quarantined_ledger :: runtimeOwnerState where
  "quarantined_ledger = small_ledger\<lparr>s_LegacyReviewerQuarantines := fmupd ''o/r#7'' ''unknown'' fmempty,
     s_LegacyReviewerBaselines := fmupd ''o/r#7'' \<lparr>lb_Boot = first_boot, lb_Evidence = replicate 64 CHR ''a''\<rparr> fmempty\<rparr>"

definition released_ledger :: runtimeOwnerState where
  "released_ledger = small_ledger\<lparr>s_Epoch := 3, s_Revision := 6,
     s_LegacyReviewerReleases := fmupd (replicate 64 CHR ''a'') \<lparr>lr_Before = first_boot, lr_After = second_boot\<rparr> fmempty\<rparr>"

lemma boot_facts: "boot_valid first_boot" "boot_valid second_boot" "laterThan second_boot first_boot"
  by code_simp+

lemmas released_defs = released_ledger_def small_ledger_def newRuntimeOwnerState_def archived_attempt_def empty_tombstone_def

lemma digest_facts: "validDigest (replicate 64 CHR ''a'')"
  by code_simp

lemma released_parts:
  "validateLegacyReviewerBoot released_ledger" "valid_control_generations released_ledger"
  "valid_control_repairs sample_env released_ledger" "valid_quarantines released_ledger"
  "fmpred (valid_status released_ledger) (s_MachineStatuses released_ledger)"
  "fmpred (valid_attempt sample_env released_ledger) (s_Attempts released_ledger)"
  "validateRuntimePRRecoveries released_ledger" "fmpred (valid_intent sample_env released_ledger True) (s_Effects released_ledger)"
  "fmpred (valid_proof sample_env released_ledger) (s_ReviewerProofs released_ledger)"
  by (simp_all add: released_defs validateLegacyReviewerBoot_def valid_control_generations_def valid_control_repairs_def
      valid_quarantines_def validateRuntimePRRecoveries_def boot_facts digest_facts)

lemma released_more_parts:
  "valid_cycle_outcome released_ledger" "valid_issue_generations released_ledger" "valid_attempt_generations released_ledger"
  "validateReconciliationObservations sample_env released_ledger"
  by (simp_all add: released_defs valid_cycle_outcome_def valid_issue_generations_def own_issue_key_def
      valid_attempt_generations_def small_keys time_is_zero_def validateReconciliationObservations_def observed_attempts_def
      fm_entries_def sample_env_def maxReconciliationFactBytes_def)

lemma released_tombstone_part: "fmpred (valid_tombstone sample_env released_ledger True) (s_Tombstones released_ledger)"
  by (simp add: released_defs valid_tombstone_def small_keys validTombstoneAction_def validCleanupPhase_def fm_has_def
      validTombstoneCleanupPolicy_def bareCompletedArchive_def bareCompletedRemoval_def valid_lease_def)

lemma released_valid: "validateRuntimeOwnerState sample_env released_ledger True"
  unfolding validate_parts
  using released_parts released_more_parts released_tombstone_part
  by (simp add: released_ledger_def small_ledger_def newRuntimeOwnerState_def small_keys)

lemma sample_digest [simp]: "legacyReviewerDigest sample_env kind value = replicate 64 CHR ''a''"
  by (simp add: legacyReviewerDigest_def digestText_def sample_env_def)

lemma sample_entries [simp]:
  "entries_of sample_env fmempty = []" "entries_of sample_env (fmupd k v fmempty) = [(k, v)]"
  by (simp_all add: fm_entries_def sample_env_def sorted_list_of_fset.rep_eq)

lemma sample_evidence: "legacyReviewerEvidence sample_env (quarantined_ledger\<lparr>s_LegacyBootUnavailable := False\<rparr>) ''o/r#7'' True = [replicate 64 CHR ''a'']"
proof -
  have "ownerIssueKey (t_Repository archived_attempt) (t_Issue archived_attempt) = ''o/r#7''"
    by (simp add: archived_attempt_def empty_tombstone_def small_keys)
  moreover have "tombstone_evidence sample_env True archived_attempt = [replicate 64 CHR ''a'']"
    by (simp add: tombstone_evidence_def legacyTombstoneDigest_def archived_attempt_def empty_tombstone_def)
  ultimately show ?thesis
    by (simp add: legacyReviewerEvidence_def quarantined_ledger_def small_ledger_def newRuntimeOwnerState_def Let_def)
qed

lemma quarantined_fields:
  "s_DismissCleanupTracked quarantined_ledger" "s_ReviewerRevocationTracked quarantined_ledger"
  "s_ReviewerSafetyMigrated quarantined_ledger" "s_ReviewerConfinementTracked quarantined_ledger"
  "s_ReviewerRunTracked quarantined_ledger" "s_ReviewerPolicyTracked quarantined_ledger"
  "s_ReviewerPolicyVersion quarantined_ledger = 1" "s_ExternalDispatchTracked quarantined_ledger"
  "s_Effects quarantined_ledger = fmempty" "s_ControlReceipts quarantined_ledger = []" "s_Epoch quarantined_ledger = 2"
  "s_LegacyReviewerQuarantines quarantined_ledger = fmupd ''o/r#7'' ''unknown'' fmempty"
  by (simp_all add: quarantined_ledger_def small_ledger_def newRuntimeOwnerState_def reviewerConfinementVersion_def)

lemma quarantined_reboot: "reconcileLegacyReviewerBoot sample_env quarantined_ledger second_boot = released_ledger\<lparr>s_Epoch := 2, s_Revision := 5\<rparr>"
proof -
  let ?q = "quarantined_ledger\<lparr>s_LegacyBootUnavailable := False\<rparr>"
  have d: "fmdrop k (fmupd k v fmempty) = fmempty" for k :: string and v :: 'v by (rule fmap_ext) simp
  have "reconcileLegacyReviewerBoot sample_env quarantined_ledger second_boot =
    reconcile_quarantine sample_env second_boot ?q (''o/r#7'', ''unknown'')"
    by (simp add: reconcileLegacyReviewerBoot_def quarantined_fields boot_facts)
  also have "\<dots> = ?q\<lparr>s_LegacyReviewerReleases := fmupd (replicate 64 CHR ''a'') \<lparr>lr_Before = first_boot, lr_After = second_boot\<rparr> fmempty,
      s_LegacyReviewerQuarantines := fmempty, s_LegacyReviewerBaselines := fmempty\<rparr>"
  proof -
    have b: "fmlookup (s_LegacyReviewerBaselines quarantined_ledger) ''o/r#7'' = Some \<lparr>lb_Boot = first_boot, lb_Evidence = replicate 64 CHR ''a''\<rparr>"
      by (simp add: quarantined_ledger_def)
    have e: "s_LegacyReviewerReleases quarantined_ledger = fmempty" "fmdrop ''o/r#7'' (s_LegacyReviewerQuarantines quarantined_ledger) = fmempty"
      "fmdrop ''o/r#7'' (s_LegacyReviewerBaselines quarantined_ledger) = fmempty"
      by (simp_all add: quarantined_ledger_def small_ledger_def newRuntimeOwnerState_def d)
    show ?thesis by (simp add: reconcile_quarantine_def sample_evidence boot_facts Let_def b e)
  qed
  also have "\<dots> = released_ledger\<lparr>s_Epoch := 2, s_Revision := 5\<rparr>"
    by (simp add: quarantined_ledger_def released_ledger_def small_ledger_def newRuntimeOwnerState_def)
  finally show ?thesis .
qed

lemma quarantined_start: "applyStateOwnerStart sample_env quarantined_ledger second_boot = Inr released_ledger"
proof -
  let ?r = "released_ledger\<lparr>s_Epoch := 2, s_Revision := 5\<rparr>"
  have p: "migrateReviewerPolicy sample_env quarantined_ledger = quarantined_ledger"
    by (simp add: migrateReviewerPolicy_def migrateReviewerPolicyTo_def quarantined_fields reviewerConfinementVersion_def Let_def)
  have m: "start_migrated sample_env second_boot quarantined_ledger = ?r"
    by (simp add: start_migrated_def quarantined_fields p quarantined_reboot Let_def)
      (simp add: released_ledger_def small_ledger_def newRuntimeOwnerState_def)
  have r: "s_Effects ?r = fmempty" "s_ControlReceipts ?r = []" "s_Epoch ?r = 2"
    by (simp_all add: released_ledger_def small_ledger_def newRuntimeOwnerState_def)
  have c: "start_candidate sample_env second_boot quarantined_ledger = Inr (?r\<lparr>s_Epoch := 3, s_ControlReceipts := []\<rparr>)"
    by (simp add: start_candidate_def migrateLegacyDismissCleanup_def quarantined_fields m r Let_def)
  have "?r\<lparr>s_Epoch := 3, s_ControlReceipts := []\<rparr> = released_ledger\<lparr>s_Revision := 5\<rparr>"
    by (simp add: released_ledger_def small_ledger_def newRuntimeOwnerState_def)
  moreover have "committed_candidate sample_env (released_ledger\<lparr>s_Revision := 5\<rparr>) None [] = (released_ledger, None)"
    by (simp add: committed_candidate_def stamp_tombstones_def revokeInvalidPlanReviewers_def Let_def released_defs)
  moreover have "s_Revision (released_ledger\<lparr>s_Revision := 5\<rparr>) \<noteq> uint64_max" by simp
  ultimately show ?thesis
    using released_valid c by (simp add: applyStateOwnerStart_def finishRuntimeOwnerTransition_def)
qed

section \<open>Properties\<close>

text \<open>
  C9: Starting an epoch.  A start that is accepted opens the next epoch and the next revision, neither
  of which can wrap, with a ledger the validator accepts.  Up to those counters and what the migrations
  are about (reviewer proofs, quarantines, flags, the state of receipts and of old dismissals, the
  dispatch and revocation marks of effects) the ledger is carried over unchanged.
\<close>

theorem start_carries_over:
  assumes "sound_order env" "applyStateOwnerStart env s boot = Inr s'"
  shows "s_Epoch s < s_Epoch s' \<and> s_Epoch s' = s_Epoch s + 1 \<and> s_Revision s < s_Revision s' \<and>
    s_Revision s' = s_Revision s + 1 \<and> validateRuntimeOwnerState env s' True \<and> lasting s' = lasting s"
proof -
  obtain s1 e where m: "start_candidate env boot s = Inr s1" "finishRuntimeOwnerTransition env s1 None [] = Inr (s', e)"
    using start_moves[OF assms(2)] .
  note c = start_candidate_cases[OF m(1)] and f = finish_transition[OF m(2)]
  have "s_Epoch s' = s_Epoch s1" "s_Revision s' = s_Revision s1 + 1" using f(1) by (simp_all add: keeps_def)
  then show ?thesis
    using c(1,2,3) c(4)[OF assms(1)] f(2,3) lasting_finish[OF m(2)] uint64_inc_gt by simp
qed

theorem start_carries_over_witness:
  "s_Epoch released_ledger = s_Epoch quarantined_ledger + 1 \<and> lasting released_ledger = lasting quarantined_ledger"
  using start_carries_over[OF sample_order quarantined_start] by simp

text \<open>
  C10: Quarantines.  A start lifts the quarantine of an issue only if the ledger recorded a baseline for
  it and the host has since booted again, by the same source of boot identities.
\<close>

theorem quarantine_needs_reboot:
  assumes "applyStateOwnerStart env s boot = Inr s'" "fm_has (s_LegacyReviewerQuarantines s) k"
    "\<not> fm_has (s_LegacyReviewerQuarantines s') k"
  shows "\<exists>b. fmlookup (s_LegacyReviewerBaselines s) k = Some b \<and> laterThan boot (lb_Boot b)"
proof -
  obtain s1 e where m: "start_candidate env boot s = Inr s1" "finishRuntimeOwnerTransition env s1 None [] = Inr (s', e)"
    using start_moves[OF assms(1)] .
  obtain s0 where a: "admits s s0" "legacy_maps s1 = legacy_maps (reconcileLegacyReviewerBoot env s0 boot)"
    by (rule legacy_maps_start[OF m(1)])
  have "legacy_maps s' = legacy_maps (reconcileLegacyReviewerBoot env s0 boot)" using legacy_maps_finish[OF m(2)] a(2) by simp
  then have "\<not> fm_has (s_LegacyReviewerQuarantines (reconcileLegacyReviewerBoot env s0 boot)) k"
    using assms(3) by (simp add: legacy_maps_def)
  from reboot_releases[OF a(1) assms(2) this] show ?thesis .
qed

theorem quarantine_needs_reboot_witness:
  "\<exists>b. fmlookup (s_LegacyReviewerBaselines quarantined_ledger) ''o/r#7'' = Some b \<and> laterThan second_boot (lb_Boot b)"
  by (rule quarantine_needs_reboot[OF quarantined_start])
    (simp_all add: quarantined_fields released_ledger_def small_ledger_def newRuntimeOwnerState_def)

end
