(* ===== verification/Owner_Loop_Properties.thy ===== *)
theory Owner_Loop_Properties
  imports Owner_Loop Owner_Start_Properties
begin

text \<open>
  What the goroutine of the runtime owner guarantees in every interleaving of submissions, reads,
  cancellations, persistence outcomes and the stop.  The locale \<open>loop_invariant\<close> reduces an invariant
  to the operations of one turn.  The abstract server has no persistence, no arbitration and no
  channels: it executes the waiting commands one after the other.
\<close>

section \<open>Invariants of the loop\<close>

locale loop_invariant =
  fixes env :: Env and inv :: "owner_loop \<Rightarrow> bool"
  assumes inv_start: "inv l \<Longrightarrow> lo_queue l = (t, i) # q \<Longrightarrow> lo_inFlight l = None \<Longrightarrow>
      inv (start_command env late t i (l\<lparr>lo_queue := q\<rparr>))"
    and inv_event: "inv l \<Longrightarrow> event_enabled v l \<Longrightarrow> inv (handle_event env v l)"
    and inv_finish: "inv l \<Longrightarrow> inv (finish_loop l)"
    and inv_cancel: "inv l \<Longrightarrow> inv (cancel_command t l)"
    and inv_take: "inv l \<Longrightarrow> inv (l\<lparr>lo_commits := None\<rparr>)"
    and inv_update: "inv l \<Longrightarrow> inv (l\<lparr>lo_subscribers := fmupd x None (lo_subscribers l)\<rparr>)"

lemma start_command_queue [simp]: "lo_queue (start_command env late t i l) = lo_queue l"
  by (simp add: start_command_def accept_candidate_def claimStateOwnerCommand_def cancel_command_def send_reply_def Let_def
      split: option.split sum.split)

context loop_invariant begin

lemma inv_queue: "inv l \<Longrightarrow> lo_queue l = q \<Longrightarrow> inv (start_queue env late q l)"
proof (induction q arbitrary: l)
  case (Cons x q)
  obtain t i where x: "x = (t, i)" by (cases x)
  show ?case
  proof (cases "lo_inFlight l")
    case None
    with Cons.prems x have "inv (start_command env (late t) t i (l\<lparr>lo_queue := q\<rparr>))" by (simp add: inv_start)
    from Cons.IH[OF this] None x show ?thesis by simp
  qed (use Cons.prems x in simp)
qed simp

lemma inv_turn: "inv l \<Longrightarrow> event_enabled v l \<Longrightarrow> inv (loop_turn env late v l)"
  by (simp add: loop_turn_def startNext_def inv_finish inv_queue inv_event)

lemma inv_step: "loop_step env l l' \<Longrightarrow> inv l \<Longrightarrow> inv l'"
  by (erule loop_stepE) (auto intro: inv_turn inv_cancel inv_take inv_update)

lemma inv_run: "loop_run env l l' \<Longrightarrow> inv l \<Longrightarrow> inv l'"
  by (induction rule: loop_run.induct) (auto intro: inv_step)

end

section \<open>The abstract server\<close>

record owner_server =
  sv_state :: runtimeOwnerState
  sv_applied :: applied_cycles
  sv_waiting :: "(ticket \<times> owner_input) list"
  sv_log :: "(ticket \<times> reply) list"

text \<open>A refused command leaves the server alone; it is rejected only for what the transition says
  about the current ledger.\<close>

inductive server_step :: "Env \<Rightarrow> owner_server \<Rightarrow> owner_server \<Rightarrow> bool" for env where
  server_accept: "server_step env v (v\<lparr>sv_waiting := sv_waiting v @ [(t, i)]\<rparr>)"
| server_refuse: "sv_waiting v = a @ (t, i) # b \<Longrightarrow>
    (\<And>x. e = Rejected x \<Longrightarrow> a = [] \<and> apply_input env (sv_applied v) (sv_state v) i = Inl x) \<Longrightarrow>
    server_step env v (v\<lparr>sv_waiting := a @ b, sv_log := sv_log v @ [(t, Refusal e)]\<rparr>)"
| server_execute: "sv_waiting v = (t, i) # q \<Longrightarrow> apply_input env (sv_applied v) (sv_state v) i = Inr (s', e) \<Longrightarrow>
    server_step env v
      \<lparr>sv_state = s', sv_applied = record_applied env (sv_applied v) i s' (s' \<noteq> sv_state v), sv_waiting = q,
       sv_log = sv_log v @ [(t, Answer (result_of s' e (reconciliation_stale i (sv_state v) s')))]\<rparr>"

abbreviation server_run :: "Env \<Rightarrow> owner_server \<Rightarrow> owner_server \<Rightarrow> bool" where
  "server_run env \<equiv> (server_step env)\<^sup>*\<^sup>*"

definition waiting_of :: "owner_loop \<Rightarrow> (ticket \<times> owner_input) list" where
  "waiting_of l = (case lo_inFlight l of None \<Rightarrow> [] | Some p \<Rightarrow> [(pn_ticket p, pn_command p)]) @ lo_queue l"

definition server_of :: "owner_loop \<Rightarrow> owner_server" where
  "server_of l = \<lparr>sv_state = lo_committed l, sv_applied = lo_applied l, sv_waiting = waiting_of l, sv_log = lo_replies l\<rparr>"

section \<open>The loop implements the server\<close>

definition pending_sound :: "Env \<Rightarrow> owner_loop \<Rightarrow> bool" where
  "pending_sound env l \<longleftrightarrow>
     (case lo_inFlight l of
        None \<Rightarrow> True
      | Some p \<Rightarrow>
          apply_input env (lo_applied l) (lo_committed l) (pn_command p) = Inr (pn_candidate p, pn_effect p) \<and>
          pn_candidate p \<noteq> lo_committed l \<and>
          pn_stale p = reconciliation_stale (pn_command p) (lo_committed l) (pn_candidate p))"

definition poison_sound :: "owner_loop \<Rightarrow> bool" where
  "poison_sound l \<longleftrightarrow> (\<forall>x. lo_poisoned l \<noteq> Some (Rejected x))"

definition refining :: "Env \<Rightarrow> owner_server \<Rightarrow> owner_loop \<Rightarrow> bool" where
  "refining env v l \<longleftrightarrow> server_run env v (server_of l) \<and> pending_sound env l \<and> poison_sound l"

lemma server_run_refuse_queue:
  assumes "\<And>x. e \<noteq> Rejected x"
  shows "server_run env \<lparr>sv_state = s, sv_applied = a, sv_waiting = w @ q, sv_log = lg\<rparr>
    \<lparr>sv_state = s, sv_applied = a, sv_waiting = w, sv_log = lg @ map (\<lambda>(t, _). (t, Refusal e)) q\<rparr>"
proof (induction q arbitrary: lg)
  case (Cons x q)
  obtain t i where x: "x = (t, i)" by (cases x)
  have "server_step env \<lparr>sv_state = s, sv_applied = a, sv_waiting = w @ x # q, sv_log = lg\<rparr>
      \<lparr>sv_state = s, sv_applied = a, sv_waiting = w @ q, sv_log = lg @ [(t, Refusal e)]\<rparr>"
    using server_refuse[of "\<lparr>sv_state = s, sv_applied = a, sv_waiting = w @ x # q, sv_log = lg\<rparr>" w t i q e env] assms x by simp
  then show ?case using Cons.IH[of "lg @ [(t, Refusal e)]"] x by (simp add: converse_rtranclp_into_rtranclp)
qed simp

lemma refining_moves:
  assumes "refining env v l" "server_run env (server_of l) (server_of l')" "pending_sound env l'" "poison_sound l'"
  shows "refining env v l'"
  using assms by (auto simp: refining_def)

lemma refining_same:
  assumes "refining env v l" "server_of l' = server_of l" "lo_inFlight l' = lo_inFlight l" "lo_poisoned l' = lo_poisoned l"
  shows "refining env v l'"
  using assms by (auto simp: refining_def pending_sound_def poison_sound_def server_of_def split: option.splits)

lemma server_refused_head:
  assumes "lo_inFlight l = None" "lo_queue l = (t, i) # q"
    "\<And>x. e = Rejected x \<Longrightarrow> apply_input env (lo_applied l) (lo_committed l) i = Inl x"
  shows "server_step env (server_of l) (server_of (send_reply t (Refusal e) (l\<lparr>lo_queue := q\<rparr>)))"
  using server_refuse[of "server_of l" "[]" t i q e env] assms
  by (simp add: server_of_def waiting_of_def send_reply_def)

lemma refining_refused:
  assumes "refining env v l" "lo_inFlight l = None" "lo_queue l = (t, i) # q"
    "\<And>x. e = Rejected x \<Longrightarrow> apply_input env (lo_applied l) (lo_committed l) i = Inl x"
  shows "refining env v (send_reply t (Refusal e) (l\<lparr>lo_queue := q\<rparr>))"
  by (rule refining_moves[OF assms(1)])
    (use server_refused_head[OF assms(2,3,4)] assms(1,2) in
      \<open>auto simp: refining_def pending_sound_def poison_sound_def send_reply_def\<close>)

lemma refining_arbitration: "refining env v l \<Longrightarrow> refining env v (l\<lparr>lo_arbitration := A\<rparr>)"
  by (erule refining_same) (simp_all add: server_of_def waiting_of_def)


lemma refining_accept:
  assumes r: "refining env v l" and n: "lo_inFlight l = None" and q: "lo_queue l = (t, i) # q"
    and a: "apply_input env (lo_applied l) (lo_committed l) i = Inr (candidate, e)"
  shows "refining env v (accept_candidate env t i candidate e (l\<lparr>lo_queue := q\<rparr>))"
proof -
  let ?l = "l\<lparr>lo_queue := q\<rparr>" and ?c = "l\<lparr>lo_queue := q, lo_arbitration := (lo_arbitration l)(t := Claimed)\<rparr>"
  have s: "server_step env (server_of l)
      \<lparr>sv_state = candidate, sv_applied = record_applied env (lo_applied l) i candidate (candidate \<noteq> lo_committed l),
       sv_waiting = q, sv_log = lo_replies l @ [(t, Answer (result_of candidate e (reconciliation_stale i (lo_committed l) candidate)))]\<rparr>"
    using server_execute[of "server_of l" t i q env candidate e] n q a by (simp add: server_of_def waiting_of_def)
  have p: "pending_sound env ?l" "poison_sound ?l" using r n by (auto simp: refining_def pending_sound_def poison_sound_def)
  consider "lo_arbitration l t \<noteq> Undecided" | "lo_arbitration l t = Undecided" "candidate = lo_committed l"
    | "lo_arbitration l t = Undecided" "candidate \<noteq> lo_committed l" by blast
  then show ?thesis
  proof cases
    case 1
    then have "accept_candidate env t i candidate e ?l = send_reply t (Refusal CommandCanceled) ?l"
      by (simp add: accept_candidate_def claimStateOwnerCommand_def)
    then show ?thesis using refining_refused[OF r n q, of CommandCanceled] by simp
  next
    case 2
    let ?n = "send_reply t (Answer (result_of candidate e (reconciliation_stale i candidate candidate)))
        (?c\<lparr>lo_applied := record_applied env (lo_applied l) i candidate False\<rparr>)"
    have "accept_candidate env t i candidate e ?l = ?n"
      using 2 by (simp add: accept_candidate_def claimStateOwnerCommand_def Let_def)
    moreover have "refining env v ?n"
      by (rule refining_moves[OF r]) (use s n 2 p in \<open>auto simp: server_of_def waiting_of_def send_reply_def pending_sound_def poison_sound_def\<close>)
    ultimately show ?thesis by simp
  next
    case 3
    let ?p = "\<lparr>pn_ticket = t, pn_command = i, pn_candidate = candidate, pn_effect = e,
        pn_stale = reconciliation_stale i (lo_committed l) candidate\<rparr>"
    have "accept_candidate env t i candidate e ?l = ?c\<lparr>lo_inFlight := Some ?p\<rparr>"
      using 3 by (simp add: accept_candidate_def claimStateOwnerCommand_def Let_def)
    moreover have "refining env v (?c\<lparr>lo_inFlight := Some ?p\<rparr>)"
      by (rule refining_moves[OF r])
        (use n q a 3 p in \<open>auto simp: server_of_def waiting_of_def pending_sound_def poison_sound_def\<close>)
    ultimately show ?thesis by simp
  qed
qed

lemma cancel_queue: "cancel_command t (l\<lparr>lo_queue := q\<rparr>) = (cancel_command t l)\<lparr>lo_queue := q\<rparr>"
  by (simp add: cancel_command_def)

lemma refining_cancel: "refining env v l \<Longrightarrow> refining env v (cancel_command t l)"
  by (simp add: cancel_command_def refining_arbitration)

lemma cancel_fields [simp]:
  "lo_inFlight (cancel_command t l) = lo_inFlight l" "lo_queue (cancel_command t l) = lo_queue l"
  "lo_applied (cancel_command t l) = lo_applied l" "lo_committed (cancel_command t l) = lo_committed l"
  "lo_poisoned (cancel_command t l) = lo_poisoned l" "lo_submitted (cancel_command t l) = lo_submitted l"
  "lo_replies (cancel_command t l) = lo_replies l" "lo_disk (cancel_command t l) = lo_disk l"
  "lo_reads (cancel_command t l) = lo_reads l" "lo_stopping (cancel_command t l) = lo_stopping l" "lo_done (cancel_command t l) = lo_done l"
  by (simp_all add: cancel_command_def)

lemma refining_start:
  assumes r: "refining env v l" and q: "lo_queue l = (t, i) # q" and n: "lo_inFlight l = None"
  shows "refining env v (start_command env late t i (l\<lparr>lo_queue := q\<rparr>))"
proof (cases "apply_input env (lo_applied l) (lo_committed l) i")
  case (Inl x)
  then show ?thesis
    using refining_refused[OF r n q, of CommandCanceled] refining_refused[OF r n q, of "Rejected x"]
      refining_refused[OF r n q, of "the (lo_poisoned l)"] r
    by (auto simp: start_command_def refining_def poison_sound_def split: option.split)
next
  case (Inr y)
  obtain candidate e where y: "y = (candidate, e)" by (cases y)
  note a = Inr[unfolded y]
  have "refining env v (accept_candidate env t i candidate e (l\<lparr>lo_queue := q\<rparr>))"
    by (rule refining_accept[OF r n q a])
  moreover have "refining env v (accept_candidate env t i candidate e ((cancel_command t l)\<lparr>lo_queue := q\<rparr>))"
    by (rule refining_accept[OF refining_cancel[OF r]]) (use n q a in simp_all)
  ultimately show ?thesis
    using refining_refused[OF r n q, of CommandCanceled] refining_refused[OF r n q, of "the (lo_poisoned l)"] r a
    by (auto simp: start_command_def cancel_queue refining_def poison_sound_def split: option.split)
qed

lemma refining_receive:
  assumes r: "refining env v l"
  shows "refining env v (receive_command t i l)"
proof -
  let ?a = "(server_of l)\<lparr>sv_waiting := waiting_of l @ [(t, i)]\<rparr>"
  have a: "server_step env (server_of l) ?a"
    using server_accept[of env "server_of l" t i] by (simp add: server_of_def)
  have "server_step env ?a ((server_of l)\<lparr>sv_log := lo_replies l @ [(t, Refusal e)]\<rparr>)" if "\<And>x. e \<noteq> Rejected x" for e
    using server_refuse[of ?a "waiting_of l" t i "[]" e env] that by (simp add: server_of_def)
  then have f: "server_run env (server_of l) ((server_of l)\<lparr>sv_log := lo_replies l @ [(t, Refusal e)]\<rparr>)"
    if "\<And>x. e \<noteq> Rejected x" for e
    using a that by (metis rtranclp.rtrancl_into_rtrancl r_into_rtranclp)
  have p: "pending_sound env (receive_command t i l)" "poison_sound (receive_command t i l)"
    using r by (auto simp: refining_def pending_sound_def poison_sound_def receive_command_def send_reply_def Let_def
        split: option.splits)
  have "server_run env (server_of l) (server_of (receive_command t i l))"
  proof (cases "lo_stopping l")
    case True
    then show ?thesis using f[of OwnerStopped]
      by (simp add: receive_command_def send_reply_def server_of_def waiting_of_def Let_def)
  next
    case False
    then show ?thesis
    proof (cases "lo_poisoned l")
      case None
      with False show ?thesis using a by (simp add: receive_command_def server_of_def waiting_of_def Let_def r_into_rtranclp)
    next
      case (Some e)
      with False show ?thesis using f[of e] r
        by (simp add: receive_command_def send_reply_def server_of_def waiting_of_def Let_def refining_def poison_sound_def)
    qed
  qed
  from refining_moves[OF r this p] show ?thesis .
qed

lemma refining_read: "refining env v l \<Longrightarrow> refining env v (receive_read t cycle subscribe l)"
  by (erule refining_same)
    (auto simp: receive_read_def read_state_def send_read_def server_of_def waiting_of_def Let_def split: option.split)

lemma refining_persist:
  assumes r: "refining env v l" and p: "lo_inFlight l = Some p"
  shows "refining env v (persist_done env out p l)"
proof -
  let ?i = "pn_command p" and ?t = "pn_ticket p" and ?c = "pn_candidate p"
  have ps: "apply_input env (lo_applied l) (lo_committed l) ?i = Inr (?c, pn_effect p)" "?c \<noteq> lo_committed l"
    "pn_stale p = reconciliation_stale ?i (lo_committed l) ?c" "poison_sound l"
    using r p by (auto simp: refining_def pending_sound_def)
  have refused: "server_step env (server_of l) \<lparr>sv_state = lo_committed l, sv_applied = lo_applied l, sv_waiting = lo_queue l,
      sv_log = lo_replies l @ [(?t, Refusal (PersistError x))]\<rparr>" for x
    using server_refuse[of "server_of l" "[]" ?t ?i "lo_queue l" "PersistError x" env] p by (simp add: server_of_def waiting_of_def)
  show ?thesis
  proof (cases out)
    case Persisted
    have "server_step env (server_of l) (server_of (persist_done env out p l))"
      using server_execute[of "server_of l" ?t ?i "lo_queue l" env ?c "pn_effect p"] p ps Persisted
      by (simp add: server_of_def waiting_of_def persist_done_def publish_def send_reply_def Let_def)
    then show ?thesis
      by (intro refining_moves[OF r]) (use Persisted ps(4) in \<open>auto simp: persist_done_def publish_def send_reply_def Let_def
          pending_sound_def poison_sound_def\<close>)
  next
    case (PersistFailed x)
    then show ?thesis
      by (intro refining_moves[OF r]) (use refused[of x] ps(4) in \<open>auto simp: server_of_def waiting_of_def persist_done_def send_reply_def
          Let_def pending_sound_def poison_sound_def\<close>)
  next
    case (PersistInstalled x)
    have "server_run env (server_of l) (server_of (persist_done env out p l))"
      using refused[of x] server_run_refuse_queue[of "PersistError x" env "lo_committed l" "lo_applied l" "[]" "lo_queue l"
          "lo_replies l @ [(?t, Refusal (PersistError x))]"] PersistInstalled
      by (simp add: server_of_def waiting_of_def persist_done_def refuse_queue_def send_reply_def Let_def converse_rtranclp_into_rtranclp)
    then show ?thesis
      by (intro refining_moves[OF r]) (use PersistInstalled in \<open>auto simp: persist_done_def refuse_queue_def send_reply_def Let_def
          pending_sound_def poison_sound_def\<close>)
  qed
qed

lemma refining_stop:
  assumes r: "refining env v l"
  shows "refining env v (refuse_queue OwnerStopped (l\<lparr>lo_stopping := True\<rparr>))"
proof (rule refining_moves[OF r])
  let ?w = "case lo_inFlight l of None \<Rightarrow> [] | Some p \<Rightarrow> [(pn_ticket p, pn_command p)]"
  show "server_run env (server_of l) (server_of (refuse_queue OwnerStopped (l\<lparr>lo_stopping := True\<rparr>)))"
    using server_run_refuse_queue[of OwnerStopped env "lo_committed l" "lo_applied l" ?w "lo_queue l" "lo_replies l"]
    by (simp add: server_of_def waiting_of_def refuse_queue_def)
qed (use r in \<open>auto simp: refining_def pending_sound_def poison_sound_def refuse_queue_def split: option.splits\<close>)

lemma refining_event:
  assumes r: "refining env v l"
  shows "refining env v (handle_event env x l)"
proof (cases x)
  case (Unsubscribe y)
  then show ?thesis using refining_same[OF r] by (simp add: handle_event_def server_of_def waiting_of_def)
next
  case (PersistDone out)
  then show ?thesis using r refining_persist[OF r] by (auto simp: handle_event_def split: option.split)
qed (use r in \<open>simp_all add: handle_event_def refining_receive refining_read refining_stop\<close>)

lemma refining_finish: "refining env v l \<Longrightarrow> refining env v (finish_loop l)"
  by (erule refining_same) (simp_all add: finish_loop_def server_of_def waiting_of_def)

interpretation refinement: loop_invariant env "refining env v" for env v
  by unfold_locales (auto intro: refining_start refining_event refining_finish refining_cancel
      elim: refining_same simp: server_of_def waiting_of_def)

lemma loop_refines:
  assumes "loop_run env (loop_init d s) l"
  shows "server_run env (server_of (loop_init d s)) (server_of l)"
proof -
  have "refining env (server_of (loop_init d s)) (loop_init d s)"
    by (simp add: refining_def pending_sound_def poison_sound_def loop_init_def)
  from refinement.inv_run[OF assms this] show ?thesis by (simp add: refining_def)
qed

section \<open>Every command is answered once\<close>

definition accounted :: "owner_loop \<Rightarrow> bool" where
  "accounted l \<longleftrightarrow>
     distinct (lo_submitted l) \<and>
     mset (lo_submitted l) = mset (map fst (lo_replies l)) + mset (map fst (waiting_of l)) \<and>
     length (lo_queue l) \<le> stateOwnerQueueSize \<and> (lo_stopping l \<longrightarrow> lo_queue l = []) \<and>
     (lo_done l \<longrightarrow> lo_stopping l \<and> lo_inFlight l = None)"

lemma mset_refused [simp]: "image_mset fst (image_mset (\<lambda>(t, _). (t, r)) M) = image_mset fst M"
  by (simp add: case_prod_unfold image_mset.compositionality comp_def)

lemma fst_refused [simp]: "fst \<circ> (\<lambda>(t, _). (t, r)) = fst"
  by (simp add: fun_eq_iff case_prod_unfold)

lemma accounted_start:
  assumes "accounted l" "lo_queue l = (t, i) # q" "lo_inFlight l = None"
  shows "accounted (start_command env late t i (l\<lparr>lo_queue := q\<rparr>))"
proof -
  have refused: "accounted (send_reply t r (l\<lparr>lo_queue := q, lo_arbitration := A, lo_applied := a\<rparr>))" for r A a
    using assms by (auto simp: accounted_def waiting_of_def send_reply_def)
  have taken: "accounted (l\<lparr>lo_queue := q, lo_arbitration := A,
      lo_inFlight := Some \<lparr>pn_ticket = t, pn_command = i, pn_candidate = c, pn_effect = e, pn_stale = b\<rparr>\<rparr>)" for c e b A
    using assms by (auto simp: accounted_def waiting_of_def)
  show ?thesis
    using refused[where A = "lo_arbitration l" and a = "lo_applied l"]
      refused[where A = "(lo_arbitration l)(t := Canceled)" and a = "lo_applied l"]
      refused[where A = "(lo_arbitration l)(t := Claimed)"] taken
    by (simp add: start_command_def accept_candidate_def claimStateOwnerCommand_def cancel_command_def Let_def
        split: option.split sum.split)
qed

lemma accounted_event:
  assumes "accounted l" "event_enabled v l"
  shows "accounted (handle_event env v l)"
proof (cases v)
  case (Submit t i)
  with assms show ?thesis
    by (auto simp: accounted_def waiting_of_def handle_event_def event_enabled_def receive_command_def send_reply_def Let_def
        split: option.split)
next
  case (ReadState t c b)
  with assms show ?thesis
    by (auto simp: accounted_def waiting_of_def handle_event_def receive_read_def read_state_def send_read_def Let_def
        split: option.split)
next
  case (Unsubscribe x)
  with assms show ?thesis by (simp add: accounted_def waiting_of_def handle_event_def)
next
  case (PersistDone out)
  with assms show ?thesis
    by (cases out) (auto simp: accounted_def waiting_of_def handle_event_def event_enabled_def persist_done_def publish_def
        refuse_queue_def send_reply_def Let_def)
next
  case StopOwner
  with assms show ?thesis
    by (auto simp: accounted_def waiting_of_def handle_event_def refuse_queue_def)
qed

lemma accounted_other:
  "accounted l \<Longrightarrow> accounted (finish_loop l)"
  "accounted l \<Longrightarrow> accounted (cancel_command t l)"
  "accounted l \<Longrightarrow> accounted (l\<lparr>lo_commits := c\<rparr>)"
  "accounted l \<Longrightarrow> accounted (l\<lparr>lo_subscribers := b\<rparr>)"
  by (simp_all add: accounted_def waiting_of_def finish_loop_def)

interpretation accounting: loop_invariant env accounted for env
  by unfold_locales (auto intro: accounted_start accounted_event accounted_other)

lemma loop_accounted: "loop_run env (loop_init d s) l \<Longrightarrow> accounted l"
  by (erule accounting.inv_run) (simp add: accounted_def waiting_of_def loop_init_def)

section \<open>The ledger on disk\<close>

text \<open>Until a ledger is installed, the one that was loaded is on disk and the one it was migrated to in memory.\<close>

definition durable :: "runtimeOwnerState \<Rightarrow> runtimeOwnerState \<Rightarrow> owner_loop \<Rightarrow> bool" where
  "durable d s l \<longleftrightarrow>
     (lo_poisoned l = None \<longrightarrow> lo_disk l = lo_committed l \<or> lo_disk l = d \<and> lo_committed l = s)"

definition frozen :: "loop_error \<Rightarrow> runtimeOwnerState \<Rightarrow> runtimeOwnerState \<Rightarrow> owner_loop \<Rightarrow> bool" where
  "frozen e committed disk l \<longleftrightarrow>
     lo_poisoned l = Some e \<and> lo_committed l = committed \<and> lo_disk l = disk \<and> lo_queue l = [] \<and> lo_inFlight l = None"

lemmas turn_defs = handle_event_def receive_command_def receive_read_def read_state_def send_read_def send_reply_def
  refuse_queue_def persist_done_def publish_def Let_def

lemma start_command_disk [simp]:
  "lo_disk (start_command env late t i l) = lo_disk l"
  "lo_committed (start_command env late t i l) = lo_committed l"
  "lo_poisoned (start_command env late t i l) = lo_poisoned l"
  by (simp_all add: start_command_def accept_candidate_def claimStateOwnerCommand_def send_reply_def Let_def
      split: option.split sum.split)

lemma durable_event: "durable d s l \<Longrightarrow> durable d s (handle_event env v l)"
  by (cases v) (auto simp: durable_def turn_defs split: option.splits persist_outcome.split)

lemma frozen_event: "frozen e c d l \<Longrightarrow> frozen e c d (handle_event env v l)"
  by (cases v) (auto simp: frozen_def turn_defs)

interpretation durability: loop_invariant env "durable d s" for env d s
  by unfold_locales (auto simp: durable_event, auto simp: durable_def finish_loop_def)

interpretation freeze: loop_invariant env "frozen e c d" for env e c d
  by unfold_locales (auto simp: frozen_event, auto simp: frozen_def finish_loop_def)

text \<open>An installed ledger that could not be synchronised empties the queue.\<close>

definition poison_idle :: "owner_loop \<Rightarrow> bool" where
  "poison_idle l \<longleftrightarrow> (lo_poisoned l \<noteq> None \<longrightarrow> lo_queue l = [] \<and> lo_inFlight l = None)"

lemma poison_idle_event: "poison_idle l \<Longrightarrow> poison_idle (handle_event env v l)"
  by (cases v) (auto simp: poison_idle_def turn_defs split: option.splits persist_outcome.split)

interpretation idle: loop_invariant env poison_idle for env
  by unfold_locales (auto simp: poison_idle_event, auto simp: poison_idle_def finish_loop_def)

section \<open>Cancelled commands\<close>

definition answers_claimed :: "owner_loop \<Rightarrow> bool" where
  "answers_claimed l \<longleftrightarrow>
     (\<forall>t w. (t, Answer w) \<in> set (lo_replies l) \<longrightarrow> lo_arbitration l t = Claimed) \<and>
     (\<forall>p. lo_inFlight l = Some p \<longrightarrow> lo_arbitration l (pn_ticket p) = Claimed)"

definition canceled_at :: "ticket \<Rightarrow> owner_loop \<Rightarrow> bool" where
  "canceled_at t l \<longleftrightarrow> lo_arbitration l t = Canceled"

lemma answers_claimed_start:
  assumes "answers_claimed l" "lo_inFlight l = None"
  shows "answers_claimed (start_command env late t i (l\<lparr>lo_queue := q\<rparr>))"
  using assms
  by (auto simp: answers_claimed_def start_command_def accept_candidate_def claimStateOwnerCommand_def cancel_command_def
      send_reply_def Let_def split: option.split sum.split)

lemma answers_claimed_event: "answers_claimed l \<Longrightarrow> answers_claimed (handle_event env v l)"
  by (cases v) (auto simp: answers_claimed_def turn_defs split: option.splits persist_outcome.split)

lemma answers_claimed_cancel: "answers_claimed l \<Longrightarrow> answers_claimed (cancel_command t l)"
  by (auto simp: answers_claimed_def cancel_command_def)

interpretation claims: loop_invariant env answers_claimed for env
  by unfold_locales (auto simp: answers_claimed_start answers_claimed_event answers_claimed_cancel,
      auto simp: answers_claimed_def finish_loop_def)

lemma canceled_start: "canceled_at x l \<Longrightarrow> canceled_at x (start_command env late t i (l\<lparr>lo_queue := q\<rparr>))"
  by (auto simp: canceled_at_def start_command_def accept_candidate_def claimStateOwnerCommand_def cancel_command_def
      send_reply_def Let_def split: option.split sum.split)

lemma canceled_event: "canceled_at x l \<Longrightarrow> canceled_at x (handle_event env v l)"
  by (cases v) (auto simp: canceled_at_def turn_defs split: option.splits persist_outcome.split)

interpretation cancellation: loop_invariant env "canceled_at x" for env x
  by unfold_locales (auto simp: canceled_start canceled_event, auto simp: canceled_at_def finish_loop_def cancel_command_def)

section \<open>Valid ledgers only\<close>

text \<open>Every ledger the owner works from, installs, publishes or answers with.\<close>

definition all_ledgers :: "(runtimeOwnerState \<Rightarrow> bool) \<Rightarrow> owner_loop \<Rightarrow> bool" where
  "all_ledgers P l \<longleftrightarrow>
     P (lo_disk l) \<and> P (lo_committed l) \<and> (\<forall>s. lo_commits l = Some s \<longrightarrow> P s) \<and>
     (\<forall>x s. fmlookup (lo_subscribers l) x = Some (Some s) \<longrightarrow> P s) \<and>
     (\<forall>t w. (t, Answer w) \<in> set (lo_replies l) \<union> set (lo_reads l) \<longrightarrow> P (w_State w))"

definition valid_loop :: "Env \<Rightarrow> owner_loop \<Rightarrow> bool" where
  "valid_loop env l \<longleftrightarrow>
     sound_order env \<and> all_ledgers (\<lambda>s. validateRuntimeOwnerState env s True) l \<and>
     (\<forall>p. lo_inFlight l = Some p \<longrightarrow> validateRuntimeOwnerState env (pn_candidate p) True)"

lemma apply_start:
  assumes "apply_input env applied s (Start boot) = Inr (s', e)"
  shows "applyStateOwnerStart env s boot = Inr s'"
  using assms by (cases "applyStateOwnerStart env s boot") (simp_all add: apply_input_def)

lemma apply_input_valid:
  assumes "apply_input env applied s i = Inr (s', e)" "sound_order env" "validateRuntimeOwnerState env s True"
  shows "validateRuntimeOwnerState env s' True"
proof (cases i)
  case (Start boot)
  from apply_start[OF assms(1)[unfolded Start]] obtain s1 x
    where "finishRuntimeOwnerTransition env s1 None [] = Inr (s', x)" by (rule start_moves)
  then show ?thesis by (rule finish_transition)
next
  case (Command c)
  with assms show ?thesis using command_moves(3)[of env applied s c s' e] by (simp add: apply_input_def)
qed

lemma valid_loop_start:
  assumes "valid_loop env l" "lo_inFlight l = None"
  shows "valid_loop env (start_command env late t i (l\<lparr>lo_queue := q\<rparr>))"
proof (cases "apply_input env (lo_applied l) (lo_committed l) i")
  case (Inl x)
  with assms show ?thesis by (auto simp: valid_loop_def all_ledgers_def start_command_def send_reply_def split: option.split)
next
  case (Inr y)
  obtain candidate e where y: "y = (candidate, e)" by (cases y)
  have "validateRuntimeOwnerState env candidate True"
    using apply_input_valid[OF Inr[unfolded y]] assms(1) by (simp add: valid_loop_def all_ledgers_def)
  with assms Inr y show ?thesis
    by (auto simp: valid_loop_def all_ledgers_def start_command_def accept_candidate_def claimStateOwnerCommand_def cancel_command_def
        send_reply_def result_of_def Let_def split: option.split)
qed

lemma valid_loop_event: "valid_loop env l \<Longrightarrow> valid_loop env (handle_event env v l)"
  by (cases v) (auto simp: valid_loop_def all_ledgers_def turn_defs result_of_def split: option.splits persist_outcome.split if_splits)

interpretation validity: loop_invariant env "valid_loop env" for env
  by unfold_locales (auto simp: valid_loop_start valid_loop_event,
      auto simp: valid_loop_def all_ledgers_def finish_loop_def cancel_command_def split: if_splits)

lemma start_differs: "applyStateOwnerStart env s boot = Inr s' \<Longrightarrow> s' \<noteq> s \<and> validateRuntimeOwnerState env s' True"
proof (erule start_moves)
  fix s1 e assume m: "start_candidate env boot s = Inr s1" "finishRuntimeOwnerTransition env s1 None [] = Inr (s', e)"
  note f = finish_transition[OF m(2)]
  have "s_Revision s' = s_Revision s + 1" using f(1) start_candidate_cases(3)[OF m(1)] by (simp add: keeps_def)
  then have "s_Revision s' \<noteq> s_Revision s" by simp
  then show ?thesis using f(3) by auto
qed

text \<open>An owner that is handed out has installed the ledger of its start, and holds no other.\<close>

lemma started_owner:
  assumes "startStateOwnerWithBootIdentity env recorded loaded boot outcome = Inr l"
  obtains s s' where "opened_ledger env recorded loaded = Inr s" "applyStateOwnerStart env s boot = Inr s'"
    "lo_inFlight l = None" "all_ledgers (\<lambda>x. x = s') l"
proof -
  obtain s where s: "opened_ledger env recorded loaded = Inr s"
    using assms by (auto simp: startStateOwnerWithBootIdentity_def split: sum.splits)
  note steps = startStateOwnerWithBootIdentity_def loop_turn_def handle_event_def receive_command_def startNext_def loop_init_def
    start_command_def accept_candidate_def claimStateOwnerCommand_def reconciliation_stale_def finish_loop_def send_reply_def
    record_applied_def result_of_def Let_def
  show thesis
  proof (cases "apply_input env fmempty s (Start boot)")
    case (Inl e)
    then show ?thesis using assms s by (simp add: steps)
  next
    case (Inr y)
    obtain s' e where y: "y = (s', e)" by (cases y)
    note a = apply_start[OF Inr[unfolded y]]
    have "lo_inFlight l = None \<and> all_ledgers (\<lambda>x. x = s') l"
      using assms s Inr y conjunct1[OF start_differs[OF a]]
      by (cases outcome) (auto simp: steps persist_done_def publish_def refuse_queue_def all_ledgers_def)
    then show ?thesis using that[OF s a] by simp
  qed
qed

section \<open>What readers see\<close>

definition never_older :: "runtimeOwnerState \<Rightarrow> runtimeOwnerState \<Rightarrow> bool" where
  "never_older s s' \<longleftrightarrow>
     s_Epoch s \<le> s_Epoch s' \<and> s_Revision s \<le> s_Revision s' \<and>
     (\<forall>r i. issueGeneration s r i \<le> issueGeneration s' r i) \<and>
     (\<forall>r i a. attemptGeneration s r i a \<le> attemptGeneration s' r i a)"

lemma never_older_refl [simp]: "never_older s s" by (simp add: never_older_def)

lemma never_older_trans: "never_older s s' \<Longrightarrow> never_older s' s'' \<Longrightarrow> never_older s s''"
  unfolding never_older_def using order_trans by (metis (no_types, lifting))

lemma apply_input_newer:
  assumes "apply_input env applied s i = Inr (s', e)" "sound_order env"
  shows "never_older s s'"
proof (cases i)
  case (Start boot)
  from apply_start[OF assms(1)[unfolded Start]] obtain s1 x where m: "start_candidate env boot s = Inr s1"
    "finishRuntimeOwnerTransition env s1 None [] = Inr (s', x)" by (rule start_moves)
  note c = start_candidate_cases[OF m(1)] and f = finish_transition[OF m(2)]
  have e: "s_Epoch s' = s_Epoch s + 1" "s_Revision s' = s_Revision s + 1" using f(1) c(2,3) by (simp_all add: keeps_def)
  have "lasting s' = lasting s" using c(4)[OF assms(2)] lasting_finish[OF m(2)] by simp
  then have "s_IssueGenerations (lasting s') = s_IssueGenerations (lasting s)"
    "s_AttemptGenerations (lasting s') = s_AttemptGenerations (lasting s)" by simp_all
  then have "s_IssueGenerations s' = s_IssueGenerations s" "s_AttemptGenerations s' = s_AttemptGenerations s"
    by (simp_all add: lasting_def)
  moreover have "s_Epoch s < s_Epoch s + 1" "s_Revision s < s_Revision s + 1"
    using uint64_inc_gt[OF c(1)] uint64_inc_gt[of "s_Revision s"] f(2) c(3) by simp_all
  ultimately show ?thesis using e by (simp add: never_older_def issueGeneration_def attemptGeneration_def less_imp_le)
next
  case (Command c)
  then have "grows s s'" using assms command_moves(2)[of env applied s c s' e] by (simp add: apply_input_def)
  then show ?thesis by (simp add: grows_def never_older_def issueGeneration_def attemptGeneration_def)
qed

fun answers_of :: "(ticket \<times> reply) list \<Rightarrow> stateOwnerResult list" where
  "answers_of [] = []"
| "answers_of ((t, Answer w) # rs) = w # answers_of rs"
| "answers_of ((t, Refusal e) # rs) = answers_of rs"

lemma answers_of_append [simp]: "answers_of (a @ b) = answers_of a @ answers_of b"
  by (induction a rule: answers_of.induct) simp_all

definition cycles_of :: "stateOwnerResult list \<Rightarrow> uint64 list" where
  "cycles_of ws = filter (\<lambda>i. i \<noteq> 0) (map w_CycleID ws)"

definition read_ledgers :: "owner_loop \<Rightarrow> runtimeOwnerState list" where
  "read_ledgers l = map w_State (answers_of (lo_reads l))"

text \<open>No more cycles are counted than there are reads, so the count cannot wrap before \<open>2 ^ 64\<close> of them.\<close>

definition reads_forward :: "Env \<Rightarrow> owner_loop \<Rightarrow> bool" where
  "reads_forward env l \<longleftrightarrow>
     sound_order env \<and> sorted_wrt never_older (read_ledgers l @ [lo_committed l]) \<and>
     (\<forall>p. lo_inFlight l = Some p \<longrightarrow> never_older (lo_committed l) (pn_candidate p)) \<and>
     (length (lo_reads l) < 2 ^ 64 \<longrightarrow> unat (lo_cycleID l) \<le> length (lo_reads l) \<and>
        sorted_wrt (<) (cycles_of (answers_of (lo_reads l))) \<and>
        (\<forall>i \<in> set (cycles_of (answers_of (lo_reads l))). i \<le> lo_cycleID l))"

lemma newer_commit:
  assumes "sorted_wrt never_older (ss @ [s])" "never_older s s'"
  shows "sorted_wrt never_older (ss @ [s'])"
  using assms never_older_trans by (auto simp: sorted_wrt_append)

lemma reads_forward_moved:
  assumes "reads_forward env l" "lo_reads l' = lo_reads l" "lo_cycleID l' = lo_cycleID l" "never_older (lo_committed l) (lo_committed l')"
    "\<And>p. lo_inFlight l' = Some p \<Longrightarrow> never_older (lo_committed l') (pn_candidate p)"
  shows "reads_forward env l'"
  using assms newer_commit[of "read_ledgers l" "lo_committed l" "lo_committed l'"] by (simp add: reads_forward_def read_ledgers_def)

lemma reads_forward_same:
  assumes "reads_forward env l" "lo_reads l' = lo_reads l" "lo_cycleID l' = lo_cycleID l" "lo_committed l' = lo_committed l"
    "lo_inFlight l' = lo_inFlight l"
  shows "reads_forward env l'"
  by (rule reads_forward_moved[OF assms(1-3)]) (use assms in \<open>simp_all add: reads_forward_def\<close>)

text \<open>A refused read, and an answered one.\<close>

lemma reads_forward_refused:
  assumes "reads_forward env l"
  shows "reads_forward env (send_read t (Refusal e) l)"
proof -
  have "length (lo_reads l) < 2 ^ 64" if "length (lo_reads l) + 1 < 2 ^ 64" using that by simp
  then show ?thesis
    using assms by (auto simp: reads_forward_def read_ledgers_def send_read_def simp del: power_numeral)
qed

lemma reads_forward_answered:
  assumes "reads_forward env l"
  shows "reads_forward env (read_state t cycle subscribe l)"
proof -
  let ?l = "read_state t cycle subscribe l" and ?ws = "answers_of (lo_reads l)"
  define i where "i = (if cycle then lo_cycleID l + 1 else 0)"
  define j where "j = (if cycle then lo_cycleID l + 1 else lo_cycleID l)"
  obtain w where r: "lo_reads ?l = lo_reads l @ [(t, Answer w)]" "w_State w = lo_committed l" "w_CycleID w = i"
    "lo_committed ?l = lo_committed l" "lo_inFlight ?l = lo_inFlight l" "lo_cycleID ?l = j"
    by (simp add: read_state_def send_read_def Let_def i_def j_def)
  have n: "unat (lo_cycleID l) \<le> length (lo_reads l)" "sorted_wrt (<) (cycles_of ?ws)" "\<forall>k \<in> set (cycles_of ?ws). k \<le> lo_cycleID l"
    if "length (lo_reads ?l) < 2 ^ 64"
    using assms that r(1) by (auto simp: reads_forward_def)
  have up: "lo_cycleID l < lo_cycleID l + 1 \<and> unat (lo_cycleID l + 1) = unat (lo_cycleID l) + 1" if "length (lo_reads ?l) < 2 ^ 64"
  proof -
    have "unat (lo_cycleID l) + 1 < 2 ^ 64" using n(1)[OF that] that r(1) by simp
    then have "unat (lo_cycleID l + 1) = unat (lo_cycleID l) + 1" by (simp add: unat_word_ariths(1) take_bit_nat_eq_self)
    then show ?thesis by (simp add: word_less_nat_alt)
  qed
  have "unat j \<le> length (lo_reads ?l) \<and> sorted_wrt (<) (cycles_of (answers_of (lo_reads ?l))) \<and>
      (\<forall>k \<in> set (cycles_of (answers_of (lo_reads ?l))). k \<le> j)" if b: "length (lo_reads ?l) < 2 ^ 64"
    using n[OF b] up[OF b] r(1,3)
    by (cases cycle) (auto simp: i_def j_def cycles_of_def sorted_wrt_append intro: order.trans[OF _ less_imp_le] le_less_trans)
  moreover have "sorted_wrt never_older (read_ledgers ?l @ [lo_committed ?l])"
    using assms r(1,2,4) by (auto simp: reads_forward_def read_ledgers_def sorted_wrt_append)
  ultimately show ?thesis using assms r(4,5,6) by (simp add: reads_forward_def)
qed

lemma reads_forward_start:
  assumes "reads_forward env l" "lo_inFlight l = None"
  shows "reads_forward env (start_command env late t i (l\<lparr>lo_queue := q\<rparr>))"
proof (rule reads_forward_moved[OF assms(1)], goal_cases)
  case (4 p)
  then show ?case
    using assms apply_input_newer[of env "lo_applied l" "lo_committed l" i]
    by (auto simp: reads_forward_def start_command_def accept_candidate_def claimStateOwnerCommand_def cancel_command_def send_reply_def
        Let_def split: option.splits sum.splits prod.splits if_splits)
qed (simp_all add: start_command_def accept_candidate_def claimStateOwnerCommand_def cancel_command_def send_reply_def Let_def
    split: option.split sum.split)

lemma reads_forward_event: "reads_forward env l \<Longrightarrow> reads_forward env (handle_event env v l)"
proof (cases v)
  case (ReadState t cycle subscribe)
  then show "reads_forward env l \<Longrightarrow> ?thesis"
    by (auto simp: handle_event_def receive_read_def reads_forward_refused reads_forward_answered split: option.split)
next
  case (PersistDone out)
  assume r: "reads_forward env l"
  show ?thesis
  proof (cases "lo_inFlight l")
    case (Some p)
    then have "never_older (lo_committed l) (pn_candidate p)" using r by (simp add: reads_forward_def)
    then show ?thesis
      by (intro reads_forward_moved[OF r]; cases out) (use PersistDone Some in \<open>auto simp: turn_defs\<close>)
  qed (use PersistDone r in \<open>simp add: handle_event_def\<close>)
qed (erule reads_forward_same; simp add: turn_defs split: option.split)+

interpretation reading: loop_invariant env "reads_forward env" for env
  by unfold_locales (auto simp: reads_forward_start reads_forward_event,
      auto simp: reads_forward_def read_ledgers_def finish_loop_def cancel_command_def)

section \<open>A small run\<close>

definition small_pending :: owner_loop where
  "small_pending = (loop_init small_ledger small_ledger)\<lparr>lo_submitted := [0], lo_arbitration := (\<lambda>_. Undecided)(0 := Claimed),
     lo_inFlight := Some \<lparr>pn_ticket = 0, pn_command = Command (RecordCycleOutcome small_outcome),
       pn_candidate = small_next, pn_effect = None, pn_stale = False\<rparr>\<rparr>"

definition small_done :: owner_loop where
  "small_done = (loop_init small_next small_next)\<lparr>lo_submitted := [0], lo_arbitration := (\<lambda>_. Undecided)(0 := Claimed),
     lo_commits := Some small_next, lo_replies := [(0, Answer (result_of small_next None False))]\<rparr>"

definition small_poisoned :: owner_loop where
  "small_poisoned = small_pending\<lparr>lo_inFlight := None, lo_disk := small_next, lo_poisoned := Some (PersistError ''sync''),
     lo_replies := [(0, Refusal (PersistError ''sync''))]\<rparr>"

definition small_stopped :: owner_loop where
  "small_stopped = small_done\<lparr>lo_stopping := True, lo_done := True\<rparr>"

lemma small_moves: "small_next \<noteq> small_ledger"
proof
  assume "small_next = small_ledger"
  then have "s_Revision small_next = s_Revision small_ledger" by simp
  then show False by (simp add: small_next_def small_ledger_def)
qed

lemma small_submit:
  "loop_turn sample_env (\<lambda>_. False) (Submit 0 (Command (RecordCycleOutcome small_outcome))) (loop_init small_ledger small_ledger) = small_pending"
  by (simp add: loop_turn_def handle_event_def receive_command_def startNext_def loop_init_def start_command_def
      apply_input_def small_step accept_candidate_def claimStateOwnerCommand_def small_moves reconciliation_stale_def
      small_pending_def finish_loop_def Let_def)

lemma small_persisted: "loop_turn sample_env (\<lambda>_. False) (PersistDone Persisted) small_pending = small_done"
  by (simp add: loop_turn_def handle_event_def startNext_def small_pending_def loop_init_def persist_done_def publish_def
      record_applied_def send_reply_def finish_loop_def small_done_def Let_def)

lemma small_installed: "loop_turn sample_env (\<lambda>_. False) (PersistDone (PersistInstalled ''sync'')) small_pending = small_poisoned"
  by (simp add: loop_turn_def handle_event_def startNext_def small_pending_def loop_init_def persist_done_def
      refuse_queue_def send_reply_def finish_loop_def small_poisoned_def Let_def)

lemma small_stop: "loop_turn sample_env (\<lambda>_. False) StopOwner small_done = small_stopped"
  by (simp add: loop_turn_def handle_event_def startNext_def small_done_def loop_init_def refuse_queue_def finish_loop_def
      small_stopped_def)

lemma loop_run_turn:
  "loop_run env l l1 \<Longrightarrow> \<not> lo_done l1 \<Longrightarrow> event_enabled v l1 \<Longrightarrow> loop_turn env late v l1 = l2 \<Longrightarrow> loop_run env l l2"
  using loop_run_step[OF _ loop_turnI] by blast

lemmas small_loops = small_pending_def small_done_def small_poisoned_def small_stopped_def loop_init_def

lemma small_pending_run: "loop_run sample_env (loop_init small_ledger small_ledger) small_pending"
  by (rule loop_run_turn[OF loop_run_refl _ _ small_submit])
    (simp_all add: event_enabled_def loop_init_def stateOwnerQueueSize_def)

lemma small_done_run: "loop_run sample_env (loop_init small_ledger small_ledger) small_done"
  by (rule loop_run_turn[OF small_pending_run _ _ small_persisted]) (simp_all add: event_enabled_def small_loops)

lemma small_poisoned_run: "loop_run sample_env (loop_init small_ledger small_ledger) small_poisoned"
  by (rule loop_run_turn[OF small_pending_run _ _ small_installed]) (simp_all add: event_enabled_def small_loops)

lemma small_stopped_run: "loop_run sample_env (loop_init small_ledger small_ledger) small_stopped"
  by (rule loop_run_turn[OF small_done_run _ _ small_stop]) (simp_all add: event_enabled_def small_loops)

text \<open>A second command that waits behind the first and is cancelled.\<close>

definition small_queued :: owner_loop where
  "small_queued = cancel_command 1 (small_pending\<lparr>lo_submitted := [0, 1],
     lo_queue := [(1, Command (RecordCycleOutcome small_outcome))]\<rparr>)"

lemma small_queued_run: "loop_run sample_env (loop_init small_ledger small_ledger) small_queued"
proof -
  let ?l = "small_pending\<lparr>lo_submitted := [0, 1], lo_queue := [(1, Command (RecordCycleOutcome small_outcome))]\<rparr>"
  have "loop_turn sample_env (\<lambda>_. False) (Submit 1 (Command (RecordCycleOutcome small_outcome))) small_pending = ?l"
    by (simp add: loop_turn_def handle_event_def receive_command_def startNext_def small_pending_def loop_init_def
        finish_loop_def Let_def)
  then have "loop_run sample_env (loop_init small_ledger small_ledger) ?l"
    by (rule loop_run_turn[OF small_pending_run, rotated 2])
      (simp_all add: event_enabled_def small_pending_def loop_init_def stateOwnerQueueSize_def)
  then show ?thesis unfolding small_queued_def by (rule loop_run_step) (rule loop_cancelI)
qed

text \<open>A start that is persisted.\<close>

lemma quarantined_valid: "validateRuntimeOwnerState sample_env quarantined_ledger False"
proof -
  note q = quarantined_ledger_def small_ledger_def newRuntimeOwnerState_def archived_attempt_def empty_tombstone_def
  have "fmpred (valid_tombstone sample_env quarantined_ledger False) (s_Tombstones quarantined_ledger)"
    by (simp add: q valid_tombstone_def small_keys validTombstoneAction_def validCleanupPhase_def fm_has_def
        validTombstoneCleanupPolicy_def bareCompletedArchive_def bareCompletedRemoval_def valid_lease_def)
  moreover have "validateLegacyReviewerBoot quarantined_ledger" "valid_quarantines quarantined_ledger"
  proof -
    have "boundedText ''unknown'' maxReconciliationStringBytes True" by code_simp
    then show "validateLegacyReviewerBoot quarantined_ledger" "valid_quarantines quarantined_ledger"
      by (simp_all add: q validateLegacyReviewerBoot_def valid_quarantines_def own_issue_key_def boot_facts digest_facts small_keys
          fm_get_def)
  qed
  moreover have "valid_cycle_outcome quarantined_ledger" "valid_issue_generations quarantined_ledger"
    "valid_attempt_generations quarantined_ledger" "validateReconciliationObservations sample_env quarantined_ledger"
    "valid_control_generations quarantined_ledger" "valid_control_repairs sample_env quarantined_ledger"
    "validateRuntimePRRecoveries quarantined_ledger"
    by (simp_all add: q valid_cycle_outcome_def valid_issue_generations_def own_issue_key_def valid_control_generations_def
        valid_attempt_generations_def small_keys time_is_zero_def validateReconciliationObservations_def observed_attempts_def
        fm_entries_def sample_env_def maxReconciliationFactBytes_def valid_control_repairs_def validateRuntimePRRecoveries_def)
  ultimately show ?thesis
    unfolding validate_parts by (simp add: quarantined_ledger_def small_ledger_def newRuntimeOwnerState_def small_keys)
qed

lemma quarantined_opened: "opened_ledger sample_env True quarantined_ledger = Inr quarantined_ledger"
proof -
  have "s_MachineStatuses quarantined_ledger = fmempty" by (simp add: quarantined_ledger_def small_ledger_def newRuntimeOwnerState_def)
  then have "migrateLegacyMachineStatuses sample_env True quarantined_ledger = quarantined_ledger"
    by (simp add: migrateLegacyMachineStatuses_def)
  moreover have "migrateLegacyDismissCleanup sample_env quarantined_ledger = quarantined_ledger"
    by (simp add: migrateLegacyDismissCleanup_def quarantined_fields)
  ultimately show ?thesis using quarantined_valid by (simp add: opened_ledger_def)
qed

definition started_loop :: owner_loop where
  "started_loop = (loop_init released_ledger released_ledger)\<lparr>lo_submitted := [0], lo_arbitration := (\<lambda>_. Undecided)(0 := Claimed),
     lo_commits := Some released_ledger, lo_replies := [(0, Answer (result_of released_ledger None False))]\<rparr>"

lemma quarantined_owner:
  "startStateOwnerWithBootIdentity sample_env True quarantined_ledger second_boot Persisted = Inr started_loop"
proof -
  have "released_ledger \<noteq> quarantined_ledger" using start_differs[OF quarantined_start] by simp
  then show ?thesis
    by (simp add: startStateOwnerWithBootIdentity_def quarantined_opened loop_turn_def handle_event_def receive_command_def
        startNext_def loop_init_def start_command_def apply_input_def quarantined_start accept_candidate_def
        claimStateOwnerCommand_def reconciliation_stale_def finish_loop_def persist_done_def publish_def record_applied_def
        send_reply_def started_loop_def Let_def)
qed

section \<open>Properties\<close>

text \<open>
  C4: Refinement.  Whatever the interleaving of submissions, reads, cancellations, persistence outcomes
  and the stop, the goroutine does what a server does that executes the submitted commands one at a
  time in the order of their submission, each atomically against the ledger of its predecessor.  A
  command is rejected only for what the transition says about that ledger.
\<close>

theorem owner_loop_refines:
  assumes "loop_run env (loop_init d s) l"
  shows "server_run env (server_of (loop_init d s)) (server_of l)"
  using loop_refines[OF assms] .

theorem owner_loop_refines_witness:
  "server_run sample_env (server_of (loop_init small_ledger small_ledger)) (server_of small_stopped) \<and>
   sv_state (server_of small_stopped) = small_next"
  using owner_loop_refines[OF small_stopped_run] by (simp add: server_of_def small_stopped_def small_done_def loop_init_def)

text \<open>
  C5: One reply.  When the owner has stopped, every command it ever received has been answered, and
  none twice.
\<close>

theorem owner_loop_answers:
  assumes "loop_run env (loop_init d s) l" "lo_done l"
  shows "distinct (map fst (lo_replies l)) \<and> set (map fst (lo_replies l)) = set (lo_submitted l)"
proof -
  have "mset (map fst (lo_replies l)) = mset (lo_submitted l)" "distinct (lo_submitted l)"
    using loop_accounted[OF assms(1)] assms(2) by (auto simp: accounted_def waiting_of_def)
  then show ?thesis using mset_eq_imp_distinct_iff mset_eq_setD by blast
qed

theorem owner_loop_answers_witness: "map fst (lo_replies small_stopped) = [0] \<and> set [0] = set (lo_submitted small_stopped)"
  using owner_loop_answers[OF small_stopped_run] by (simp add: small_stopped_def small_done_def loop_init_def)

text \<open>
  C6: Durability.  Unless the owner is poisoned, the ledger it works from, shows and answers with is
  the one on disk, or nothing has been installed yet: on disk is the loaded ledger, in memory the one it
  was migrated to.  Once an installed ledger could not be synchronised, neither of the two changes again,
  whatever is submitted.
\<close>

theorem owner_loop_durable:
  assumes "loop_run env (loop_init d s) l" "loop_run env l l'"
  shows "if lo_poisoned l = None then lo_disk l = lo_committed l \<or> lo_disk l = d \<and> lo_committed l = s
    else lo_committed l' = lo_committed l \<and> lo_disk l' = lo_disk l"
proof (cases "lo_poisoned l")
  case None
  have "durable d s l" by (rule durability.inv_run[OF assms(1)]) (simp add: durable_def loop_init_def)
  with None show ?thesis by (simp add: durable_def)
next
  case (Some e)
  have "poison_idle l" by (rule idle.inv_run[OF assms(1)]) (simp add: poison_idle_def loop_init_def)
  with Some have "frozen e (lo_committed l) (lo_disk l) l" by (simp add: frozen_def poison_idle_def)
  from freeze.inv_run[OF assms(2) this] Some show ?thesis by (simp add: frozen_def)
qed

theorem owner_loop_durable_witness:
  "lo_disk small_done = lo_committed small_done \<and>
   lo_committed (loop_turn sample_env (\<lambda>_. False) StopOwner small_poisoned) = small_ledger"
proof -
  have "loop_run sample_env small_poisoned (loop_turn sample_env (\<lambda>_. False) StopOwner small_poisoned)"
    by (rule loop_run_step[OF loop_run_refl loop_turnI])
      (simp_all add: event_enabled_def small_poisoned_def small_pending_def loop_init_def)
  from owner_loop_durable[OF small_poisoned_run this] owner_loop_durable[OF small_done_run loop_run_refl]
  show ?thesis by (simp add: small_done_def small_poisoned_def small_pending_def loop_init_def)
qed

text \<open>
  C7: Cancellation.  A submitter whose cancellation was recorded can rely on it: its command is never
  answered as executed, at no later time and in no interleaving.
\<close>

theorem owner_loop_canceled:
  assumes "loop_run env (loop_init d s) l" "lo_arbitration l t = Canceled" "loop_run env l l'"
  shows "(t, Answer w) \<notin> set (lo_replies l')"
proof -
  have "answers_claimed l" by (rule claims.inv_run[OF assms(1)]) (simp add: answers_claimed_def loop_init_def)
  then have "answers_claimed l'" by (rule claims.inv_run[OF assms(3)])
  moreover have "canceled_at t l'" by (rule cancellation.inv_run[OF assms(3)]) (simp add: canceled_at_def assms(2))
  ultimately show ?thesis by (auto simp: answers_claimed_def canceled_at_def)
qed

theorem owner_loop_canceled_witness:
  "let l = loop_turn sample_env (\<lambda>_. False) (PersistDone Persisted) small_queued in
   map fst (lo_replies l) = [0, 1] \<and> (1, Refusal CommandCanceled) \<in> set (lo_replies l) \<and>
   (1, Answer (result_of small_next None False)) \<notin> set (lo_replies l)"
proof -
  let ?l = "loop_turn sample_env (\<lambda>_. False) (PersistDone Persisted) small_queued"
  have c: "lo_arbitration small_queued 1 = Canceled"
    by (simp add: small_queued_def cancel_command_def small_pending_def loop_init_def)
  have "loop_run sample_env small_queued ?l"
    by (rule loop_run_step[OF loop_run_refl loop_turnI])
      (simp_all add: event_enabled_def small_queued_def cancel_command_def small_pending_def loop_init_def)
  from owner_loop_canceled[OF small_queued_run c this] show ?thesis
    by (simp add: loop_turn_def handle_event_def startNext_def small_queued_def cancel_command_def small_pending_def loop_init_def
        persist_done_def publish_def record_applied_def send_reply_def start_command_def finish_loop_def Let_def)
qed

text \<open>
  C8: Valid ledgers.  Once an owner has been started, it never installs, publishes to the commit channel
  or to a subscriber, or answers a command or a read with a ledger that the validator refuses, across
  further starts of epochs and persistence failures.  The ledger it was started from only had to pass the
  weaker check of ledgers that were not persisted yet.
\<close>

theorem owner_loop_valid:
  assumes "startStateOwnerWithBootIdentity env recorded loaded boot outcome = Inr l0" "loop_run env l0 l" "sound_order env"
  shows "all_ledgers (\<lambda>s. validateRuntimeOwnerState env s True) l"
proof -
  obtain s s' where s: "applyStateOwnerStart env s boot = Inr s'" "lo_inFlight l0 = None" "all_ledgers (\<lambda>x. x = s') l0"
    using started_owner[OF assms(1)] .
  then have "valid_loop env l0"
    using assms(3) conjunct2[OF start_differs[OF s(1)]] by (auto simp: valid_loop_def all_ledgers_def)
  from validity.inv_run[OF assms(2) this] show ?thesis by (simp add: valid_loop_def)
qed

theorem owner_loop_valid_witness:
  "validateRuntimeOwnerState sample_env (lo_disk (loop_turn sample_env (\<lambda>_. False) StopOwner started_loop)) True \<and>
   lo_commits started_loop = Some released_ledger \<and> validateRuntimeOwnerState sample_env released_ledger True"
proof -
  have "loop_run sample_env started_loop (loop_turn sample_env (\<lambda>_. False) StopOwner started_loop)"
    by (rule loop_run_step[OF loop_run_refl loop_turnI]) (simp_all add: event_enabled_def started_loop_def loop_init_def)
  from owner_loop_valid[OF quarantined_owner this sample_order] owner_loop_valid[OF quarantined_owner loop_run_refl sample_order]
  show ?thesis by (simp add: all_ledgers_def started_loop_def)
qed

text \<open>
  C11: Readers never go back.  In every interleaving, the ledgers that readers are shown come one after
  the other in the order of their epochs, revisions and generations, so a later read never shows an older
  ledger; and the numbers given to reconciliation cycles strictly increase, so no two cycles of an epoch
  share one, for as long as there are fewer than \<open>2 ^ 64\<close> reads.
\<close>

theorem readers_go_forward:
  assumes "loop_run env (loop_init d s) l" "sound_order env"
  shows "sorted_wrt never_older (read_ledgers l @ [lo_committed l]) \<and>
    (length (lo_reads l) < 2 ^ 64 \<longrightarrow> sorted_wrt (<) (cycles_of (answers_of (lo_reads l))))"
proof -
  have "reads_forward env l"
    by (rule reading.inv_run[OF assms(1)]) (use assms(2) in \<open>simp add: reads_forward_def read_ledgers_def cycles_of_def loop_init_def\<close>)
  then show ?thesis by (simp add: reads_forward_def)
qed

text \<open>One reader before and one after the commit.\<close>

definition small_read :: owner_loop where
  "small_read = read_state 8 True False (read_state 7 True False small_pending
     \<lparr>lo_inFlight := None, lo_committed := small_next, lo_disk := small_next, lo_commits := Some small_next,
      lo_replies := [(0, Answer (result_of small_next None False))]\<rparr>)"

lemma small_read_run: "loop_run sample_env (loop_init small_ledger small_ledger) small_read"
proof -
  let ?l1 = "read_state 7 True False small_pending"
  let ?l2 = "?l1\<lparr>lo_inFlight := None, lo_committed := small_next, lo_disk := small_next, lo_commits := Some small_next,
      lo_replies := [(0, Answer (result_of small_next None False))]\<rparr>"
  have 1: "loop_turn sample_env (\<lambda>_. False) (ReadState 7 True False) small_pending = ?l1"
    by (simp add: loop_turn_def handle_event_def receive_read_def read_state_def send_read_def startNext_def finish_loop_def
        small_pending_def loop_init_def Let_def)
  have 2: "loop_turn sample_env (\<lambda>_. False) (PersistDone Persisted) ?l1 = ?l2"
    by (simp add: loop_turn_def handle_event_def read_state_def send_read_def startNext_def finish_loop_def persist_done_def
        publish_def record_applied_def send_reply_def small_pending_def loop_init_def Let_def)
  have 3: "loop_turn sample_env (\<lambda>_. False) (ReadState 8 True False) ?l2 = small_read"
    by (simp add: loop_turn_def handle_event_def receive_read_def read_state_def send_read_def startNext_def finish_loop_def
        small_read_def small_pending_def loop_init_def Let_def)
  have "loop_run sample_env (loop_init small_ledger small_ledger) ?l1"
    by (rule loop_run_turn[OF small_pending_run _ _ 1]) (simp_all add: event_enabled_def small_loops)
  then have "loop_run sample_env (loop_init small_ledger small_ledger) ?l2"
    by (rule loop_run_turn[OF _ _ _ 2]) (simp_all add: event_enabled_def read_state_def send_read_def small_loops)
  then show ?thesis
    by (rule loop_run_turn[OF _ _ _ 3]) (simp_all add: event_enabled_def read_state_def send_read_def small_loops)
qed

theorem readers_go_forward_witness:
  "read_ledgers small_read = [small_ledger, small_next] \<and> never_older small_ledger small_next \<and>
   cycles_of (answers_of (lo_reads small_read)) = [1, 2] \<and> sorted_wrt (<) [1 :: uint64, 2]"
proof -
  have "lo_reads small_read =
      [(7, Answer \<lparr>w_State = small_ledger, w_CycleID = 1, w_Effect = None, w_Stale = False, w_Subscription = 0\<rparr>),
       (8, Answer \<lparr>w_State = small_next, w_CycleID = 2, w_Effect = None, w_Stale = False, w_Subscription = 0\<rparr>)]"
    by (simp add: small_read_def read_state_def send_read_def small_pending_def loop_init_def Let_def)
  then have r: "read_ledgers small_read = [small_ledger, small_next]" "cycles_of (answers_of (lo_reads small_read)) = [1, 2]"
    "length (lo_reads small_read) < 2 ^ 64"
    by (simp_all add: read_ledgers_def cycles_of_def)
  then show ?thesis using readers_go_forward[OF small_read_run sample_order] by simp
qed

end
