(* ===== verification/Reconciliation_Trigger.thy ===== *)
theory Reconciliation_Trigger
  imports Go_Maps
begin

text \<open>
  \<^verbatim>\<open>reconciliationTriggerRunner\<close> of \<^verbatim>\<open>reconciliation_v2.go\<close>: requests for a reconciliation cycle are
  coalesced, and whoever waits is answered by a cycle.  One step is one critical section of the mutex,
  one receive of the loop or the end of one cycle.  Identifiers count up from one; that the \<^verbatim>\<open>uint64\<close>
  could wrap after 2 to the 64 requests is not modelled.  \<open>tg_starts\<close>, \<open>tg_asked\<close>, \<open>tg_removed\<close> and
  \<open>tg_answers\<close> record the history: how many cycles were started, how many had been when a waiter was
  accepted, who gave up, and which cycle answered whom.
\<close>

section \<open>State\<close>

type_synonym waiter = nat

datatype run_outcome =
    RunOk
  | RunRecollect
  | RunError string

datatype wait_reply =
    CycleDone "string option"
  | RunnerStopped

datatype loop_point =
    AtSelect
  | Woken nat
  | InRun nat
  | LoopExited

record reconciliationTriggerRunner =
  tg_canceled :: bool
  tg_stopped :: bool
  tg_running :: bool
  tg_runs :: nat
  tg_lastErr :: "string option"
  tg_nextID :: nat
  tg_queuedID :: nat
  tg_runningID :: nat
  tg_wake :: "nat option"
  tg_waiters :: "(nat, waiter list) fmap option"
  tg_loop :: loop_point
  tg_starts :: nat
  tg_asked :: "(waiter, nat) fmap"
  tg_removed :: "waiter list"
  tg_answers :: "(waiter \<times> wait_reply \<times> nat) list"

definition newReconciliationTrigger :: reconciliationTriggerRunner where
  "newReconciliationTrigger =
     \<lparr>tg_canceled = False, tg_stopped = False, tg_running = False, tg_runs = 0, tg_lastErr = None, tg_nextID = 0,
      tg_queuedID = 0, tg_runningID = 0, tg_wake = None, tg_waiters = Some fmempty, tg_loop = AtSelect,
      tg_starts = 0, tg_asked = fmempty, tg_removed = [], tg_answers = []\<rparr>"

section \<open>Requests\<close>

text \<open>An entry into a nil map panics.\<close>

datatype request_result =
    Accepted reconciliationTriggerRunner
  | RefusedStopped
  | Panicked

definition queue_request :: "reconciliationTriggerRunner \<Rightarrow> reconciliationTriggerRunner" where
  "queue_request r =
     (if tg_queuedID r = 0
      then r\<lparr>tg_nextID := tg_nextID r + 1, tg_queuedID := tg_nextID r + 1, tg_wake := Some (tg_nextID r + 1)\<rparr>
      else r)"

definition add_waiter :: "nat \<Rightarrow> waiter list \<Rightarrow> (nat, waiter list) fmap \<Rightarrow> (nat, waiter list) fmap" where
  "add_waiter k ws m = fmupd k (fm_get m k [] @ ws) m"

definition trigger_request :: "waiter option \<Rightarrow> reconciliationTriggerRunner \<Rightarrow> request_result" where
  "trigger_request wait r =
     (if tg_stopped r then RefusedStopped
      else
        let r1 = queue_request r in
        case wait of
          None \<Rightarrow> Accepted r1
        | Some w \<Rightarrow>
            (case tg_waiters r1 of
               None \<Rightarrow> Panicked
             | Some m \<Rightarrow> Accepted (r1\<lparr>tg_waiters := Some (add_waiter (tg_queuedID r1) [w] m),
                 tg_asked := fmupd w (tg_starts r1) (tg_asked r1)\<rparr>)))"

definition without_waiter :: "waiter \<Rightarrow> (nat, waiter list) fmap \<Rightarrow> (nat, waiter list) fmap" where
  "without_waiter w m = fm_step (\<lambda>_ ws. if w \<in> set ws \<and> remove1 w ws = [] then None else Some (remove1 w ws)) m"

definition removeWaiter :: "waiter \<Rightarrow> reconciliationTriggerRunner \<Rightarrow> reconciliationTriggerRunner" where
  "removeWaiter w r = r\<lparr>tg_waiters := map_option (without_waiter w) (tg_waiters r), tg_removed := w # tg_removed r\<rparr>"

definition shutdown_trigger :: "reconciliationTriggerRunner \<Rightarrow> reconciliationTriggerRunner" where
  "shutdown_trigger r = (if tg_stopped r then r else r\<lparr>tg_stopped := True, tg_canceled := True\<rparr>)"

section \<open>The loop\<close>

definition answer_all :: "wait_reply \<Rightarrow> waiter list \<Rightarrow> reconciliationTriggerRunner \<Rightarrow> reconciliationTriggerRunner" where
  "answer_all reply ws r = r\<lparr>tg_answers := tg_answers r @ map (\<lambda>w. (w, reply, tg_starts r)) ws\<rparr>"

text \<open>The waiters that are left, in some order of the map.\<close>

definition all_waiters :: "(nat, waiter list) fmap \<Rightarrow> waiter list" where
  "all_waiters m = concat (map (\<lambda>k. fm_get m k []) (sorted_list_of_fset (fmdom m)))"

definition exit_loop :: "reconciliationTriggerRunner \<Rightarrow> reconciliationTriggerRunner" where
  "exit_loop r =
     (answer_all RunnerStopped (case tg_waiters r of None \<Rightarrow> [] | Some m \<Rightarrow> all_waiters m) r)
       \<lparr>tg_waiters := None, tg_loop := LoopExited\<rparr>"

definition take_wake :: "nat \<Rightarrow> reconciliationTriggerRunner \<Rightarrow> reconciliationTriggerRunner" where
  "take_wake k r = r\<lparr>tg_wake := None, tg_loop := Woken k\<rparr>"

definition begin_run :: "nat \<Rightarrow> reconciliationTriggerRunner \<Rightarrow> reconciliationTriggerRunner" where
  "begin_run k r =
     r\<lparr>tg_queuedID := 0, tg_runningID := k, tg_running := True, tg_loop := InRun k, tg_starts := tg_starts r + 1\<rparr>"

definition run_error :: "run_outcome \<Rightarrow> string option" where
  "run_error out = (case out of RunError e \<Rightarrow> Some e | _ \<Rightarrow> None)"

text \<open>A cycle that must be collected again hands its waiters to the next one.\<close>

definition settle_waiters :: "nat \<Rightarrow> run_outcome \<Rightarrow> reconciliationTriggerRunner \<Rightarrow> reconciliationTriggerRunner" where
  "settle_waiters k out r =
     (let ws = (case tg_waiters r of None \<Rightarrow> [] | Some m \<Rightarrow> fm_get m k []) in
      if out = RunRecollect \<and> \<not> tg_canceled r then
        let r1 = queue_request r in r1\<lparr>tg_waiters := map_option (add_waiter (tg_queuedID r1) ws) (tg_waiters r1)\<rparr>
      else answer_all (CycleDone (run_error out)) ws r)"

definition finish_run :: "nat \<Rightarrow> run_outcome \<Rightarrow> reconciliationTriggerRunner \<Rightarrow> reconciliationTriggerRunner" where
  "finish_run k out r =
     (let r1 = settle_waiters k out (r\<lparr>tg_runs := tg_runs r + 1, tg_lastErr := run_error out\<rparr>);
          r2 = r1\<lparr>tg_waiters := map_option (fmdrop k) (tg_waiters r1), tg_runningID := 0, tg_running := False, tg_loop := AtSelect\<rparr>
      in if tg_canceled r2 then exit_loop r2 else r2)"

section \<open>Steps\<close>

inductive trigger_step :: "reconciliationTriggerRunner \<Rightarrow> reconciliationTriggerRunner \<Rightarrow> bool" where
  step_request: "trigger_request wait r = Accepted r' \<Longrightarrow> (\<And>w. wait = Some w \<Longrightarrow> \<not> fm_has (tg_asked r) w) \<Longrightarrow> trigger_step r r'"
| step_remove: "fm_has (tg_asked r) w \<Longrightarrow> trigger_step r (removeWaiter w r)"
| step_shutdown: "trigger_step r (shutdown_trigger r)"
| step_cancel: "trigger_step r (r\<lparr>tg_canceled := True\<rparr>)"
| step_exit: "tg_loop r = AtSelect \<Longrightarrow> tg_canceled r \<Longrightarrow> trigger_step r (exit_loop r)"
| step_take: "tg_loop r = AtSelect \<Longrightarrow> tg_wake r = Some k \<Longrightarrow> trigger_step r (take_wake k r)"
| step_begin: "tg_loop r = Woken k \<Longrightarrow> trigger_step r (begin_run k r)"
| step_finish: "tg_loop r = InRun k \<Longrightarrow> trigger_step r (finish_run k out r)"

abbreviation trigger_run :: "reconciliationTriggerRunner \<Rightarrow> reconciliationTriggerRunner \<Rightarrow> bool" where
  "trigger_run \<equiv> trigger_step\<^sup>*\<^sup>*"

section \<open>Queue and wake-up\<close>

definition queue_sound :: "reconciliationTriggerRunner \<Rightarrow> bool" where
  "queue_sound r \<longleftrightarrow>
     (tg_queuedID r = 0 \<longrightarrow> tg_wake r = None \<and> (\<forall>k. tg_loop r \<noteq> Woken k)) \<and>
     (tg_queuedID r \<noteq> 0 \<longrightarrow> (tg_wake r = Some (tg_queuedID r) \<and> (\<forall>k. tg_loop r \<noteq> Woken k)) \<or>
       tg_wake r = None \<and> tg_loop r = Woken (tg_queuedID r)) \<and>
     (\<forall>k. tg_loop r = InRun k \<longrightarrow> k \<noteq> 0 \<and> k \<noteq> tg_queuedID r \<and> k \<le> tg_nextID r) \<and> tg_queuedID r \<le> tg_nextID r"

lemma queue_sound_request: "queue_sound r \<Longrightarrow> queue_sound (queue_request r)"
  by (auto simp: queue_sound_def queue_request_def)

lemma queue_sound_same:
  assumes "queue_sound r" "tg_queuedID r' = tg_queuedID r" "tg_wake r' = tg_wake r" "tg_nextID r' = tg_nextID r"
    "tg_loop r' = tg_loop r \<or> (\<exists>k. tg_loop r = InRun k) \<and> tg_loop r' = AtSelect \<or> tg_loop r = AtSelect \<and> tg_loop r' = LoopExited"
  shows "queue_sound r'"
  using assms(5) by (elim disjE exE conjE) (use assms(1-4) in \<open>auto simp: queue_sound_def\<close>)

lemma queue_request_fields [simp]:
  "tg_loop (queue_request r) = tg_loop r" "tg_waiters (queue_request r) = tg_waiters r" "tg_starts (queue_request r) = tg_starts r"
  "tg_asked (queue_request r) = tg_asked r" "tg_answers (queue_request r) = tg_answers r"
  "tg_canceled (queue_request r) = tg_canceled r" "tg_removed (queue_request r) = tg_removed r"
  "0 < tg_queuedID (queue_request r)" "tg_stopped (queue_request r) = tg_stopped r"
  by (simp_all add: queue_request_def)

lemma exit_fields [simp]:
  "tg_queuedID (exit_loop r) = tg_queuedID r" "tg_wake (exit_loop r) = tg_wake r" "tg_nextID (exit_loop r) = tg_nextID r"
  "tg_loop (exit_loop r) = LoopExited" "tg_waiters (exit_loop r) = None" "tg_starts (exit_loop r) = tg_starts r"
  "tg_asked (exit_loop r) = tg_asked r" "tg_removed (exit_loop r) = tg_removed r"
  by (simp_all add: exit_loop_def answer_all_def)

lemma queue_sound_finish:
  assumes "queue_sound r" "tg_loop r = InRun k"
  shows "queue_sound (finish_run k out r)"
proof -
  let ?a = "r\<lparr>tg_runs := tg_runs r + 1, tg_lastErr := run_error out\<rparr>"
  let ?r1 = "settle_waiters k out ?a"
  have "queue_sound ?a" using assms(1) by (simp add: queue_sound_def)
  then have q: "queue_sound (queue_request ?a)" by (rule queue_sound_request)
  have "tg_queuedID ?r1 = tg_queuedID (queue_request ?a) \<and> tg_wake ?r1 = tg_wake (queue_request ?a) \<and>
      tg_nextID ?r1 = tg_nextID (queue_request ?a) \<and> tg_loop ?r1 = InRun k \<or>
    tg_queuedID ?r1 = tg_queuedID r \<and> tg_wake ?r1 = tg_wake r \<and> tg_nextID ?r1 = tg_nextID r \<and> tg_loop ?r1 = InRun k"
    using assms(2) by (simp add: settle_waiters_def answer_all_def Let_def)
  then have s: "queue_sound ?r1" "tg_loop ?r1 = InRun k"
    using q assms by (auto intro: queue_sound_same)
  let ?r2 = "?r1\<lparr>tg_waiters := map_option (fmdrop k) (tg_waiters ?r1), tg_runningID := 0, tg_running := False, tg_loop := AtSelect\<rparr>"
  have "queue_sound ?r2" using s by (auto elim!: queue_sound_same)
  moreover have "queue_sound (exit_loop ?r2)" by (rule queue_sound_same[OF \<open>queue_sound ?r2\<close>]) simp_all
  ultimately show ?thesis by (simp add: finish_run_def Let_def)
qed

lemma queue_sound_step: "trigger_step r r' \<Longrightarrow> queue_sound r \<Longrightarrow> queue_sound r'"
proof (induction rule: trigger_step.induct)
  case (step_request wait r r')
  have "queue_sound (queue_request r)" using step_request(3) by (rule queue_sound_request)
  moreover have "r' = queue_request r \<or> (\<exists>m a. r' = (queue_request r)\<lparr>tg_waiters := m, tg_asked := a\<rparr>)"
    using step_request(1) by (auto simp: trigger_request_def Let_def split: if_splits option.splits)
  ultimately show ?case by (elim disjE exE) (auto elim: queue_sound_same)
next
  case (step_finish r k out) then show ?case by (simp add: queue_sound_finish)
qed (auto simp: queue_sound_def removeWaiter_def shutdown_trigger_def take_wake_def begin_run_def exit_loop_def answer_all_def)

section \<open>Waiters\<close>

definition waits_on :: "reconciliationTriggerRunner \<Rightarrow> nat \<Rightarrow> waiter list" where
  "waits_on r k = (case tg_waiters r of None \<Rightarrow> [] | Some m \<Rightarrow> fm_get m k [])"

definition waiters_sound :: "reconciliationTriggerRunner \<Rightarrow> bool" where
  "waiters_sound r \<longleftrightarrow>
     (tg_waiters r = None \<longleftrightarrow> tg_loop r = LoopExited) \<and>
     (\<forall>k w. w \<in> set (waits_on r k) \<longrightarrow>
        k \<noteq> 0 \<and> (k = tg_queuedID r \<or> tg_loop r = InRun k) \<and>
        (\<exists>n. fmlookup (tg_asked r) w = Some n \<and> n \<le> tg_starts r \<and> (tg_loop r = InRun k \<longrightarrow> n < tg_starts r))) \<and>
     (\<forall>w e c. (w, CycleDone e, c) \<in> set (tg_answers r) \<longrightarrow> (\<exists>n. fmlookup (tg_asked r) w = Some n \<and> n < c \<and> c \<le> tg_starts r))"

definition answered :: "reconciliationTriggerRunner \<Rightarrow> waiter list" where
  "answered r = map fst (tg_answers r)"

definition once_sound :: "reconciliationTriggerRunner \<Rightarrow> bool" where
  "once_sound r \<longleftrightarrow>
     distinct (answered r) \<and> (\<forall>w \<in> set (answered r). fm_has (tg_asked r) w) \<and>
     (\<forall>k. distinct (waits_on r k)) \<and>
     (\<forall>k w. w \<in> set (waits_on r k) \<longrightarrow> fm_has (tg_asked r) w \<and> w \<notin> set (answered r)) \<and>
     (\<forall>k k' w. w \<in> set (waits_on r k) \<longrightarrow> w \<in> set (waits_on r k') \<longrightarrow> k = k') \<and>
     (\<forall>w. fm_has (tg_asked r) w \<longrightarrow> w \<in> set (answered r) \<or> w \<in> set (tg_removed r) \<or> (\<exists>k. w \<in> set (waits_on r k)))"

lemma add_waiter_get [simp]: "fm_get (add_waiter k ws m) k' [] = (if k' = k then fm_get m k [] @ ws else fm_get m k' [])"
  by (simp add: add_waiter_def)

lemma without_waiter_get [simp]: "fm_get (without_waiter w m) k [] = remove1 w (fm_get m k [])"
  by (auto simp: without_waiter_def fm_get_def fm_step_lookup split: option.split)

lemma set_all_waiters: "set (all_waiters m) = (\<Union>k. set (fm_get m k []))"
proof -
  have "fm_get m k [] = []" if "k |\<notin>| fmdom m" for k using that by (simp add: fm_get_def fmdom_notD)
  then have "k |\<in>| fmdom m" if "x \<in> set (fm_get m k [])" for k x using that by (metis empty_iff list.set(1))
  then show ?thesis by (auto simp: all_waiters_def)
qed

lemma distinct_all_waiters:
  assumes "\<And>k. distinct (fm_get m k [])" "\<And>k k' w. w \<in> set (fm_get m k []) \<Longrightarrow> w \<in> set (fm_get m k' []) \<Longrightarrow> k = k'"
  shows "distinct (all_waiters m)"
proof -
  have "distinct ks \<Longrightarrow> distinct (concat (map (\<lambda>k. fm_get m k []) ks))" for ks
    by (induction ks) (use assms in auto)
  moreover have "distinct (sorted_list_of_fset (fmdom m))" by (simp add: sorted_list_of_fset.rep_eq)
  ultimately show ?thesis unfolding all_waiters_def .
qed

lemma answered_after:
  assumes "waiters_sound r" "(w, CycleDone e, c) \<in> set (tg_answers r)"
  obtains n where "fmlookup (tg_asked r) w = Some n" "n < c" "c \<le> tg_starts r"
  using assms unfolding waiters_sound_def by blast

lemma waits_after:
  assumes "waiters_sound r" "w \<in> set (waits_on r k)"
  obtains n where "k \<noteq> 0" "k = tg_queuedID r \<or> tg_loop r = InRun k" "fmlookup (tg_asked r) w = Some n" "n \<le> tg_starts r"
    "tg_loop r = InRun k \<longrightarrow> n < tg_starts r"
  using assms unfolding waiters_sound_def by blast

text \<open>What a critical section does, seen from the waiters.\<close>

lemma request_cases:
  assumes "trigger_request wait r = Accepted r'"
  obtains (signal) "wait = None" "r' = queue_request r"
  | (waiter) w m where "wait = Some w" "tg_waiters r = Some m"
      "r' = (queue_request r)\<lparr>tg_waiters := Some (add_waiter (tg_queuedID (queue_request r)) [w] m),
        tg_asked := fmupd w (tg_starts r) (tg_asked r)\<rparr>"
  using assms by (auto simp: trigger_request_def Let_def split: if_splits option.splits)

lemma queue_request_id: "tg_queuedID r \<noteq> 0 \<Longrightarrow> queue_request r = r"
  by (simp add: queue_request_def)

lemma queued_of_sound:
  assumes "queue_sound r" "k = tg_queuedID r \<or> tg_loop r = InRun k" "k \<noteq> 0"
  shows "k = tg_queuedID (queue_request r) \<or> tg_loop r = InRun k"
  using assms by (auto simp: queue_request_def)

lemma waits_parts [simp]:
  "waits_on (queue_request r) k = waits_on r k" "answered (queue_request r) = answered r"
  by (simp_all add: waits_on_def answered_def)

lemma waiters_sound_request:
  assumes "queue_sound r" "waiters_sound r" "trigger_request wait r = Accepted r'" "\<And>w. wait = Some w \<Longrightarrow> \<not> fm_has (tg_asked r) w"
  shows "waiters_sound r'"
  using assms(3)
proof (cases rule: request_cases)
  case signal
  then show ?thesis using assms(2) queued_of_sound[OF assms(1)] unfolding waiters_sound_def by simp
next
  case (waiter w m)
  let ?q = "queue_request r"
  have new: "fmlookup (tg_asked r) w = None" using assms(4) waiter(1) by (simp add: fm_has_def)
  have on: "waits_on r' k = (if k = tg_queuedID ?q then waits_on r k @ [w] else waits_on r k)" for k
    using waiter by (simp add: waits_on_def)
  have run: "tg_loop r \<noteq> InRun (tg_queuedID ?q)" using queue_sound_request[OF assms(1)] by (auto simp: queue_sound_def)
  have old: "fmlookup (tg_asked r') v = fmlookup (tg_asked r) v" if "fmlookup (tg_asked r) v \<noteq> None" for v
    using that new waiter by auto
  have f: "tg_loop r' = tg_loop r" "tg_starts r' = tg_starts r" "tg_answers r' = tg_answers r" "tg_waiters r' \<noteq> None"
    "tg_queuedID r' = tg_queuedID ?q" "fmlookup (tg_asked r') w = Some (tg_starts r)"
    using waiter by simp_all
  show ?thesis
    unfolding waiters_sound_def
  proof (intro conjI allI impI)
    show "(tg_waiters r' = None) = (tg_loop r' = LoopExited)" using f(1,4) assms(2) waiter(2) by (simp add: waiters_sound_def)
  next
    fix k v assume v: "v \<in> set (waits_on r' k)"
    have o: "k \<noteq> 0 \<and> (k = tg_queuedID r \<or> tg_loop r = InRun k) \<and>
      (\<exists>n. fmlookup (tg_asked r) v = Some n \<and> n \<le> tg_starts r \<and> (tg_loop r = InRun k \<longrightarrow> n < tg_starts r))"
      if "v \<in> set (waits_on r k)" using that assms(2) by (simp add: waiters_sound_def)
    show "k \<noteq> 0"
      using v o on[of k] by (auto split: if_splits)
    show "k = tg_queuedID r' \<or> tg_loop r' = InRun k"
      using v o on[of k] queued_of_sound[OF assms(1)] f(1,5) by (auto split: if_splits)
    show "\<exists>n. fmlookup (tg_asked r') v = Some n \<and> n \<le> tg_starts r' \<and> (tg_loop r' = InRun k \<longrightarrow> n < tg_starts r')"
    proof (cases "v \<in> set (waits_on r k)")
      case True
      from o[OF this] old[of v] f(1,2) show ?thesis by auto
    next
      case False
      then show ?thesis using v on[of k] f run by (auto split: if_splits)
    qed
  next
    fix v e c assume "(v, CycleDone e, c) \<in> set (tg_answers r')"
    then obtain n where "fmlookup (tg_asked r) v = Some n" "n < c" "c \<le> tg_starts r"
      using answered_after[OF assms(2)] f(3) by metis
    then show "\<exists>n. fmlookup (tg_asked r') v = Some n \<and> n < c \<and> c \<le> tg_starts r'" using old[of v] f(2) by auto
  qed
qed

lemma waiters_sound_exit:
  assumes "waiters_sound r" shows "waiters_sound (exit_loop r)"
proof -
  have "waits_on (exit_loop r) k = []" for k by (simp add: waits_on_def)
  then show ?thesis using assms by (auto simp: waiters_sound_def exit_loop_def answer_all_def)
qed

text \<open>The end of a cycle, before the loop looks at its context again.\<close>

definition settled :: "nat \<Rightarrow> run_outcome \<Rightarrow> reconciliationTriggerRunner \<Rightarrow> reconciliationTriggerRunner" where
  "settled k out r =
     (let r1 = settle_waiters k out (r\<lparr>tg_runs := tg_runs r + 1, tg_lastErr := run_error out\<rparr>)
      in r1\<lparr>tg_waiters := map_option (fmdrop k) (tg_waiters r1), tg_runningID := 0, tg_running := False, tg_loop := AtSelect\<rparr>)"

lemma finish_settled: "finish_run k out r = (if tg_canceled (settled k out r) then exit_loop (settled k out r) else settled k out r)"
  by (simp add: finish_run_def settled_def Let_def)

lemma settled_cases:
  assumes "queue_sound r" "waiters_sound r" "tg_loop r = InRun k"
  obtains (again) t where "t \<noteq> k" "t \<noteq> 0" "t = tg_queuedID (settled k out r)" "tg_answers (settled k out r) = tg_answers r"
      "\<And>j. waits_on (settled k out r) j = (if j = k then [] else if j = t then waits_on r t @ waits_on r k else waits_on r j)"
      "tg_queuedID r = 0 \<or> t = tg_queuedID r"
  | (replied) "tg_queuedID (settled k out r) = tg_queuedID r"
      "tg_answers (settled k out r) = tg_answers r @ map (\<lambda>w. (w, CycleDone (run_error out), tg_starts r)) (waits_on r k)"
      "\<And>j. waits_on (settled k out r) j = (if j = k then [] else waits_on r j)"
proof -
  obtain m where m: "tg_waiters r = Some m" using assms(2,3) by (auto simp: waiters_sound_def)
  let ?q = "queue_request (r\<lparr>tg_runs := tg_runs r + 1, tg_lastErr := run_error out\<rparr>)"
  have q: "tg_queuedID ?q = tg_queuedID (queue_request r)" by (simp add: queue_request_def)
  have t: "tg_queuedID (queue_request r) \<noteq> k"
    using queue_sound_request[OF assms(1)] assms(3) by (auto simp: queue_sound_def)
  have z: "tg_queuedID r = 0 \<or> tg_queuedID (queue_request r) = tg_queuedID r" by (simp add: queue_request_def)
  show ?thesis
  proof (cases "out = RunRecollect \<and> \<not> tg_canceled r")
    case True
    show ?thesis
      by (rule again[of "tg_queuedID (queue_request r)"])
        (use True m q t z in \<open>auto simp: settled_def settle_waiters_def waits_on_def Let_def\<close>)
  next
    case False
    show ?thesis
      by (rule replied) (use False m in \<open>auto simp: settled_def settle_waiters_def answer_all_def waits_on_def Let_def\<close>)
  qed
qed

lemma settled_fields [simp]:
  "tg_asked (settled k out r) = tg_asked r" "tg_starts (settled k out r) = tg_starts r" "tg_loop (settled k out r) = AtSelect"
  "tg_removed (settled k out r) = tg_removed r" "tg_waiters (settled k out r) = None \<longleftrightarrow> tg_waiters r = None"
  by (simp_all add: settled_def settle_waiters_def answer_all_def Let_def)

lemma waiters_sound_settled:
  assumes "queue_sound r" "waiters_sound r" "tg_loop r = InRun k"
  shows "waiters_sound (settled k out r)"
proof -
  have w: "j \<noteq> 0 \<and> (j = tg_queuedID r \<or> j = k) \<and> (\<exists>n. fmlookup (tg_asked r) v = Some n \<and> n \<le> tg_starts r \<and> (j = k \<longrightarrow> n < tg_starts r))"
    if "v \<in> set (waits_on r j)" for j v
    using that assms(2,3) by (auto simp: waiters_sound_def)
  have some: "tg_waiters r \<noteq> None" using assms(2,3) by (simp add: waiters_sound_def)
  have a: "\<exists>n. fmlookup (tg_asked r) v = Some n \<and> n < c \<and> c \<le> tg_starts r" if "(v, CycleDone e, c) \<in> set (tg_answers r)" for v e c
    using that assms(2) by (auto simp: waiters_sound_def)
  from assms show ?thesis
  proof (cases rule: settled_cases[where out = out])
    case (again t)
    have "j \<noteq> 0 \<and> j = t \<and> (\<exists>n. fmlookup (tg_asked r) v = Some n \<and> n \<le> tg_starts r)"
      if "v \<in> set (waits_on (settled k out r) j)" for j v
      using that w[of v j] w[of v k] again(1,2,6) unfolding again(5) by (auto split: if_splits)
    then show ?thesis using again(3,4) a some by (auto simp: waiters_sound_def)
  next
    case replied
    have "j \<noteq> 0 \<and> j = tg_queuedID r \<and> (\<exists>n. fmlookup (tg_asked r) v = Some n \<and> n \<le> tg_starts r)"
      if "v \<in> set (waits_on (settled k out r) j)" for j v
      using that w[of v j] unfolding replied(3) by (auto split: if_splits)
    moreover have "\<exists>n. fmlookup (tg_asked r) v = Some n \<and> n < c \<and> c \<le> tg_starts r"
      if "(v, CycleDone e, c) \<in> set (tg_answers (settled k out r))" for v e c
      using that a[of v e c] w[of v k] unfolding replied(2) by auto
    ultimately show ?thesis using replied(1) some by (auto simp: waiters_sound_def)
  qed
qed

lemma waiters_sound_step:
  assumes "trigger_step r r'" "queue_sound r" "waiters_sound r"
  shows "waiters_sound r'"
  using assms
proof (induction rule: trigger_step.induct)
  case (step_request wait r r') then show ?case by (meson waiters_sound_request)
next
  case (step_remove r w)
  have "waits_on (removeWaiter w r) k = remove1 w (waits_on r k)" for k
    by (simp add: waits_on_def removeWaiter_def split: option.split)
  then show ?case using step_remove(3) by (auto simp: waiters_sound_def removeWaiter_def dest!: subsetD[OF set_remove1_subset])
next
  case (step_begin r k)
  have "k \<noteq> 0" "tg_queuedID r = k" using step_begin(1,2) by (auto simp: queue_sound_def)
  moreover have "waits_on (begin_run k r) j = waits_on r j" for j by (simp add: waits_on_def begin_run_def)
  moreover have "\<exists>n. fmlookup (tg_asked r) w = Some n \<and> n < c \<and> c \<le> tg_starts r + 1"
    if "(w, CycleDone e, c) \<in> set (tg_answers r)" for w e c
    using answered_after[OF step_begin(3) that] by (metis le_add1 order_trans)
  moreover have "j \<noteq> 0 \<and> j = k \<and> (\<exists>n. fmlookup (tg_asked r) w = Some n \<and> n \<le> Suc (tg_starts r) \<and> n \<le> tg_starts r)"
    if "w \<in> set (waits_on r j)" for j w
    by (rule waits_after[OF step_begin(3) that]) (use step_begin(1) \<open>tg_queuedID r = k\<close> in auto)
  ultimately show ?case using step_begin(1,3) by (auto simp: waiters_sound_def begin_run_def less_Suc_eq_le)
next
  case (step_finish r k out)
  then show ?case by (simp add: finish_settled waiters_sound_settled waiters_sound_exit)
qed (auto simp: waiters_sound_exit, auto simp: waiters_sound_def waits_on_def shutdown_trigger_def take_wake_def)

section \<open>Answers\<close>

lemma once_sound_request:
  assumes "once_sound r" "trigger_request wait r = Accepted r'" "\<And>w. wait = Some w \<Longrightarrow> \<not> fm_has (tg_asked r) w"
  shows "once_sound r'"
  using assms(2)
proof (cases rule: request_cases)
  case signal
  then show ?thesis using assms(1) by (simp add: once_sound_def)
next
  case (waiter w m)
  let ?t = "tg_queuedID (queue_request r)"
  have new: "\<not> fm_has (tg_asked r) w" using assms(3) waiter(1) by simp
  have on: "waits_on r' k = (if k = ?t then waits_on r k @ [w] else waits_on r k)" for k
    using waiter by (simp add: waits_on_def)
  have f: "answered r' = answered r" "tg_removed r' = tg_removed r" "tg_asked r' = fmupd w (tg_starts r) (tg_asked r)"
    using waiter by (simp_all add: answered_def)
  have c: "w \<notin> set (answered r)" "w \<notin> set (waits_on r k)" for k using new assms(1) unfolding once_sound_def by blast+
  show ?thesis
    unfolding once_sound_def
  proof (intro conjI allI impI ballI)
    show "distinct (answered r')" using assms(1) f(1) by (simp add: once_sound_def)
    show "fm_has (tg_asked r') v" if "v \<in> set (answered r')" for v using that assms(1) f by (simp add: once_sound_def)
    show "distinct (waits_on r' k)" for k
      using assms(1) c(2)[of k] unfolding on[of k] by (cases "k = ?t") (auto simp: once_sound_def)
    show "fm_has (tg_asked r') v" if "v \<in> set (waits_on r' k)" for k v
      using that assms(1) f(3) unfolding on once_sound_def by (auto split: if_splits)
    show "v \<notin> set (answered r')" if "v \<in> set (waits_on r' k)" for k v
      using that assms(1) f(1) c(1) unfolding on once_sound_def by (auto split: if_splits)
    show "k = k'" if "v \<in> set (waits_on r' k)" "v \<in> set (waits_on r' k')" for k k' v
    proof (cases "v = w")
      case True with that c(2) show ?thesis unfolding on by (metis (full_types))
    next
      case False
      with that have "v \<in> set (waits_on r k)" "v \<in> set (waits_on r k')" unfolding on by (auto split: if_splits)
      with assms(1) show ?thesis unfolding once_sound_def by blast
    qed
    show "v \<in> set (answered r') \<or> v \<in> set (tg_removed r') \<or> (\<exists>k. v \<in> set (waits_on r' k))" if "fm_has (tg_asked r') v" for v
    proof (cases "v = w")
      case True
      then have "v \<in> set (waits_on r' ?t)" using on[of ?t] by simp
      then show ?thesis by blast
    next
      case False
      then have "fm_has (tg_asked r) v" using that f(3) by simp
      then have "v \<in> set (answered r) \<or> v \<in> set (tg_removed r) \<or> (\<exists>k. v \<in> set (waits_on r k))"
        using assms(1) unfolding once_sound_def by blast
      moreover have "set (waits_on r k) \<subseteq> set (waits_on r' k)" for k unfolding on by auto
      ultimately show ?thesis unfolding f by blast
    qed
  qed
qed

lemma once_sound_remove:
  assumes "once_sound r" shows "once_sound (removeWaiter w r)"
proof -
  have on: "waits_on (removeWaiter w r) k = remove1 w (waits_on r k)" for k
    by (simp add: waits_on_def removeWaiter_def split: option.split)
  have sub: "v \<in> set (waits_on r k)" if "v \<in> set (waits_on (removeWaiter w r) k)" for v k
    using that set_remove1_subset unfolding on by fastforce
  have sup: "v \<in> set (waits_on (removeWaiter w r) k)" if "v \<in> set (waits_on r k)" "v \<noteq> w" for v k
    using that unfolding on by simp
  have f: "answered (removeWaiter w r) = answered r" "tg_asked (removeWaiter w r) = tg_asked r"
    "tg_removed (removeWaiter w r) = w # tg_removed r" by (simp_all add: answered_def removeWaiter_def)
  have "distinct (waits_on (removeWaiter w r) k)" for k using assms unfolding on once_sound_def by (simp add: distinct_remove1)
  then show ?thesis
    using assms sub sup unfolding once_sound_def f by (metis (no_types, lifting) list.set_intros(1) list.set_intros(2))
qed

lemma once_sound_exit:
  assumes "once_sound r" shows "once_sound (exit_loop r)"
proof -
  let ?all = "case tg_waiters r of None \<Rightarrow> [] | Some m \<Rightarrow> all_waiters m"
  have all: "set ?all = (\<Union>k. set (waits_on r k))" by (cases "tg_waiters r") (simp_all add: set_all_waiters waits_on_def)
  have "distinct ?all"
    using assms distinct_all_waiters unfolding once_sound_def waits_on_def by (auto split: option.splits)
  moreover have "waits_on (exit_loop r) k = []" for k by (simp add: waits_on_def)
  moreover have "answered (exit_loop r) = answered r @ ?all" by (simp add: answered_def exit_loop_def answer_all_def comp_def)
  moreover have "set (answered r) \<inter> set ?all = {}" using assms unfolding all once_sound_def by auto
  ultimately show ?thesis
    using assms all unfolding once_sound_def by auto
qed

lemma once_sound_settled:
  assumes "queue_sound r" "waiters_sound r" "tg_loop r = InRun k" "once_sound r"
  shows "once_sound (settled k out r)"
  using assms(1,2,3)
proof (cases rule: settled_cases[where out = out])
  case (again t)
  note o = assms(4)[unfolded once_sound_def]
  have m: "(v \<in> set (waits_on (settled k out r) j)) = (j \<noteq> k \<and> (v \<in> set (waits_on r j) \<or> j = t \<and> v \<in> set (waits_on r k)))" for v j
    using again(1) unfolding again(5) by auto
  have a: "answered (settled k out r) = answered r" using again(4) by (simp add: answered_def)
  have "set (waits_on r t) \<inter> set (waits_on r k) = {}" using o again(1) by blast
  then have "distinct (waits_on (settled k out r) j)" for j using o unfolding again(5) by simp
  moreover have "\<exists>j. v \<in> set (waits_on (settled k out r) j)" if "v \<in> set (waits_on r j)" for v j
    unfolding m using that again(1) by (cases "j = k") auto
  ultimately show ?thesis using o unfolding once_sound_def a m settled_fields by (smt (verit, best))
next
  case replied
  note o = assms(4)[unfolded once_sound_def]
  have m: "(v \<in> set (waits_on (settled k out r) j)) = (j \<noteq> k \<and> v \<in> set (waits_on r j))" for v j
    unfolding replied(3) by auto
  have a: "answered (settled k out r) = answered r @ waits_on r k"
    using replied(2) by (simp add: answered_def comp_def)
  have "distinct (waits_on (settled k out r) j)" for j using o unfolding replied(3) by simp
  moreover have "distinct (answered (settled k out r))" using o unfolding a by auto
  moreover have "fm_has (tg_asked r) v" if "v \<in> set (answered (settled k out r))" for v using that o unfolding a by auto
  moreover have "v \<notin> set (answered (settled k out r))" if "j \<noteq> k" "v \<in> set (waits_on r j)" for v j
    using that o unfolding a by auto
  moreover have "v \<in> set (answered (settled k out r)) \<or> v \<in> set (tg_removed r) \<or> (\<exists>j. j \<noteq> k \<and> v \<in> set (waits_on r j))"
    if "fm_has (tg_asked r) v" for v using that o unfolding a by (cases "v \<in> set (waits_on r k)") auto
  ultimately show ?thesis using o unfolding once_sound_def m settled_fields by blast
qed

lemma once_sound_step:
  assumes "trigger_step r r'" "queue_sound r" "waiters_sound r" "once_sound r"
  shows "once_sound r'"
  using assms
proof (induction rule: trigger_step.induct)
  case (step_request wait r r') then show ?case by (meson once_sound_request)
next
  case (step_finish r k out) then show ?case by (simp add: finish_settled once_sound_settled once_sound_exit)
qed (auto simp: once_sound_remove once_sound_exit,
    auto simp: once_sound_def answered_def waits_on_def shutdown_trigger_def take_wake_def begin_run_def)

lemma trigger_invariant:
  assumes "trigger_run newReconciliationTrigger r"
  shows "queue_sound r \<and> waiters_sound r \<and> once_sound r"
  using assms
proof (induction rule: rtranclp_induct)
  case base
  show ?case
    by (simp add: queue_sound_def waiters_sound_def once_sound_def waits_on_def answered_def newReconciliationTrigger_def fm_has_def)
next
  case (step r r')
  then show ?case using queue_sound_step waiters_sound_step once_sound_step by blast
qed

lemma count_list_distinct: "distinct xs \<Longrightarrow> x \<in> set xs \<Longrightarrow> count_list xs x = 1"
  by (induction xs) (auto simp: count_list_0_iff)

section \<open>A small run\<close>

text \<open>Waiter 1 asks, the cycle starts, waiter 2 asks, the cycle asks to be collected again, the next
  one answers both; the context is cancelled and the loop exits.\<close>

definition small_trigger :: reconciliationTriggerRunner where
  "small_trigger =
     \<lparr>tg_canceled = False, tg_stopped = False, tg_running = False, tg_runs = 2, tg_lastErr = None, tg_nextID = 2,
      tg_queuedID = 0, tg_runningID = 0, tg_wake = None, tg_waiters = Some fmempty, tg_loop = AtSelect, tg_starts = 2,
      tg_asked = fmupd 2 1 (fmupd 1 0 fmempty), tg_removed = [],
      tg_answers = [(2, CycleDone None, 2), (1, CycleDone None, 2)]\<rparr>"

lemma fmdrop_own [simp]: "fmdrop k (fmupd k v m) = fmdrop k m"
  by (rule fmap_ext) simp

lemma fmdrop_other: "k \<noteq> k' \<Longrightarrow> fmdrop k (fmupd k' v m) = fmupd k' v (fmdrop k m)"
  by (rule fmap_ext) simp

lemma fmdrop_none [simp]: "fmdrop k fmempty = fmempty"
  by (rule fmap_ext) simp

lemma fmupd_twice: "fmupd k v (fmupd k v' m) = fmupd k v m"
  by (rule fmap_ext) simp

lemmas trigger_defs = trigger_request_def queue_request_def add_waiter_def take_wake_def begin_run_def finish_run_def
  settle_waiters_def answer_all_def run_error_def Let_def fmupd_twice fmdrop_other numeral_2_eq_2

lemma small_trigger_run: "trigger_run newReconciliationTrigger small_trigger"
proof -
  define r1 where "r1 = newReconciliationTrigger\<lparr>tg_nextID := 1, tg_queuedID := 1, tg_wake := Some 1,
    tg_waiters := Some (fmupd 1 [1] fmempty), tg_asked := fmupd 1 0 fmempty\<rparr>"
  define r2 where "r2 = r1\<lparr>tg_wake := None, tg_queuedID := 0, tg_runningID := 1, tg_running := True, tg_loop := InRun 1, tg_starts := 1\<rparr>"
  define r3 where "r3 = r2\<lparr>tg_nextID := 2, tg_queuedID := 2, tg_wake := Some 2,
    tg_waiters := Some (fmupd 2 [2] (fmupd 1 [1] fmempty)), tg_asked := fmupd 2 1 (fmupd 1 0 fmempty)\<rparr>"
  define r4 where "r4 = r3\<lparr>tg_runs := 1, tg_waiters := Some (fmupd 2 [2, 1] fmempty), tg_runningID := 0, tg_running := False, tg_loop := AtSelect\<rparr>"
  define r5 where "r5 = r4\<lparr>tg_wake := None, tg_queuedID := 0, tg_runningID := 2, tg_running := True, tg_loop := InRun 2, tg_starts := 2\<rparr>"
  note d = r1_def r2_def r3_def r4_def r5_def newReconciliationTrigger_def
  have "trigger_step newReconciliationTrigger r1"
    by (rule step_request[of "Some 1"]) (simp_all add: trigger_defs d)
  moreover have "trigger_step r1 (take_wake 1 r1)" by (rule step_take) (simp_all add: d)
  moreover have "trigger_step (take_wake 1 r1) (begin_run 1 (take_wake 1 r1))" by (rule step_begin) (simp add: take_wake_def)
  moreover have "begin_run 1 (take_wake 1 r1) = r2" by (simp add: trigger_defs d)
  moreover have "trigger_step r2 r3" by (rule step_request[of "Some 2"]) (simp_all add: trigger_defs d)
  moreover have "trigger_step r3 (finish_run 1 RunRecollect r3)" by (rule step_finish) (simp add: d)
  moreover have "finish_run 1 RunRecollect r3 = r4" by (simp add: trigger_defs d)
  moreover have "trigger_step r4 (take_wake 2 r4)" by (rule step_take) (simp_all add: d)
  moreover have "trigger_step (take_wake 2 r4) (begin_run 2 (take_wake 2 r4))" by (rule step_begin) (simp add: take_wake_def)
  moreover have "begin_run 2 (take_wake 2 r4) = r5" by (simp add: trigger_defs d)
  moreover have "trigger_step r5 (finish_run 2 RunOk r5)" by (rule step_finish) (simp add: d)
  moreover have "finish_run 2 RunOk r5 = small_trigger" by (simp add: trigger_defs d small_trigger_def)
  ultimately show ?thesis by (metis (mono_tags, lifting) r_into_rtranclp rtranclp_trans)
qed

definition small_exited :: reconciliationTriggerRunner where
  "small_exited = exit_loop (small_trigger\<lparr>tg_canceled := True\<rparr>)"

lemma small_exited_run: "trigger_run newReconciliationTrigger small_exited"
proof -
  have "trigger_step small_trigger (small_trigger\<lparr>tg_canceled := True\<rparr>)" by (rule step_cancel)
  moreover have "trigger_step (small_trigger\<lparr>tg_canceled := True\<rparr>) small_exited"
    unfolding small_exited_def by (rule step_exit) (simp_all add: small_trigger_def)
  ultimately show ?thesis using small_trigger_run by (meson rtranclp.rtrancl_into_rtrancl)
qed

section \<open>Properties\<close>

text \<open>
  C12: Fresh cycles.  Whoever waits for a cycle is answered only by one that started after the request
  was accepted, also when requests are coalesced and when a cycle must be collected again.
\<close>

theorem trigger_fresh:
  assumes "trigger_run newReconciliationTrigger r" "(w, CycleDone e, c) \<in> set (tg_answers r)"
  shows "\<exists>n. fmlookup (tg_asked r) w = Some n \<and> n < c \<and> c \<le> tg_starts r"
  using trigger_invariant[OF assms(1)] assms(2) unfolding waiters_sound_def by blast

theorem trigger_fresh_witness: "\<exists>n. fmlookup (tg_asked small_trigger) 2 = Some n \<and> n < 2 \<and> 2 \<le> tg_starts small_trigger"
  by (rule trigger_fresh[OF small_trigger_run, of 2 None 2]) (simp add: small_trigger_def)

text \<open>
  C13: No lost request.  While somebody waits, the cycle that will answer is running or its wake-up is
  pending; and once the loop has exited everybody who has not given up has exactly one answer.
\<close>

theorem trigger_answers:
  assumes "trigger_run newReconciliationTrigger r" "fm_has (tg_asked r) w" "w \<notin> set (tg_removed r)"
  shows "if tg_loop r = LoopExited then count_list (map fst (tg_answers r)) w = 1
    else count_list (map fst (tg_answers r)) w = 1 \<or>
      (\<exists>k. w \<in> set (waits_on r k) \<and> (tg_wake r = Some k \<or> tg_loop r = Woken k \<or> tg_loop r = InRun k))"
proof -
  note i = trigger_invariant[OF assms(1)]
  have one: "count_list (map fst (tg_answers r)) w = 1" if "w \<in> set (answered r)"
    by (rule count_list_distinct) (use that i in \<open>simp_all add: once_sound_def answered_def\<close>)
  have wait: "tg_wake r = Some k \<or> tg_loop r = Woken k \<or> tg_loop r = InRun k" if v: "w \<in> set (waits_on r k)" for k
    by (rule waits_after[OF _ v]) (use i in \<open>auto simp: queue_sound_def\<close>)
  have out: "waits_on r k = []" if "tg_loop r = LoopExited" for k
    using that i by (auto simp: waiters_sound_def waits_on_def)
  have "once_sound r" using i by simp
  then have "w \<in> set (answered r) \<or> (\<exists>k. w \<in> set (waits_on r k))"
    using assms(2,3) unfolding once_sound_def by blast
  then show ?thesis using one wait out by auto
qed

theorem trigger_answers_witness: "count_list (map fst (tg_answers small_exited)) 2 = 1"
  using trigger_answers[OF small_exited_run, of 2]
  by (simp add: small_exited_def exit_loop_def answer_all_def small_trigger_def)

text \<open>
  C14: A request after the exit.  When the context of the runner is cancelled without a shutdown, the
  loop exits and drops the map of waiters, and the next request that waits panics.
\<close>

theorem trigger_panics:
  assumes "trigger_run newReconciliationTrigger r" "tg_loop r = LoopExited" "\<not> tg_stopped r"
  shows "trigger_request (Some w) r = Panicked"
proof -
  have "tg_waiters r = None" using trigger_invariant[OF assms(1)] assms(2) by (simp add: waiters_sound_def)
  then show ?thesis using assms(3) by (simp add: trigger_request_def Let_def)
qed

theorem trigger_panics_witness: "trigger_request (Some 3) small_exited = Panicked"
  by (rule trigger_panics[OF small_exited_run]) (simp_all add: small_exited_def small_trigger_def exit_loop_def answer_all_def)

end
