(* ===== verification/Reconciliation_Collect.thy ===== *)
theory Reconciliation_Collect
  imports Status_Projection
begin

text \<open>
  From what a cycle read on GitHub to the collection it hands the owner
  (\<^verbatim>\<open>collectionFromSnapshot\<close> and its helpers in \<^verbatim>\<open>reconciliation_v2.go\<close>, \<^verbatim>\<open>reduceIssueUpdateProposal\<close>
  and the second half of \<^verbatim>\<open>collect\<close> in \<^verbatim>\<open>reconciliation_pipeline_v2.go\<close>): the facts are reduced and validated,
  grouped by issue without the buried attempts, and the generations they were read under are captured.
  The groups are met in the order of the environment.
\<close>

section \<open>What was read\<close>

record reconciliationInput =
  ni_Scope :: "reconciliationScope"
  ni_Complete :: "bool"
  ni_Issues :: "RecoveryIssueFact list"
  ni_IssueUpdates :: "reconciliationIssueUpdateProposal list"
  ni_Attempts :: "RecoveryAttemptFact list"

section \<open>Reduced facts\<close>

definition reduceAttemptFact :: "string \<Rightarrow> RecoveryAttemptFact \<Rightarrow> reconciliationAttemptFact owner_result" where
  "reduceAttemptFact repository raw =
     (if \<not> validateReconciliationAttemptFact repository raw then Inl StateConflict else Inr raw)"

fun reduce_attempts :: "string \<Rightarrow> RecoveryAttemptFact list \<Rightarrow> reconciliationAttemptFact list owner_result" where
  "reduce_attempts repository [] = Inr []"
| "reduce_attempts repository (raw # rest) =
     err_bind (reduceAttemptFact repository raw) (\<lambda>f. err_bind (reduce_attempts repository rest) (\<lambda>fs. Inr (f # fs)))"

definition reduced_fact :: "Env \<Rightarrow> RecoveryIssueFact \<Rightarrow> reconciliationIssueFact" where
  "reduced_fact env raw =
     (let known = if_MachineStatusProtocol raw \<noteq> 0 in
      \<lparr>fi_Repository = if_Repository raw, fi_Title = if_Title raw, fi_BodyDigest = v_sha env (if_Body raw),
       fi_BaseSHA = if_BaseSHA raw, fi_BaseBranch = if_BaseBranch raw, fi_Issue = if_Issue raw,
       fi_Attempt = if_Attempt raw, fi_CurrentAttempt = if_CurrentAttempt raw, fi_Priority = if_Priority raw,
       fi_CreatedAtUnixNano = (if if_CreatedAt raw = 0 then 0 else unix_nano (if_CreatedAt raw)),
       fi_Dependencies = if_Dependencies raw, fi_SatisfiedDependencies = if_SatisfiedDependencies raw,
       fi_Paths = if_Paths raw, fi_Blockers = if_Blockers raw, fi_Eligible = if_Eligible raw,
       fi_Active = if_Active raw, fi_Completed = if_Completed raw, fi_Retry = if_Retry raw,
       fi_Cancelled = if_Cancelled raw, fi_Closed = if_Closed raw,
       fi_DispatchAuthorized = if_DispatchAuthorized raw, fi_RecoveryAuthorized = if_RecoveryAuthorized raw,
       fi_RecoveryAttempt = if_RecoveryAttempt raw, fi_NeedsAttention = if_NeedsAttention raw,
       fi_MachineStatusProtocol = if_MachineStatusProtocol raw,
       fi_MachineStatusAttempt = (if known then if_MachineStatusAttempt raw else 0),
       fi_MachineStatusSequence = (if known then if_MachineStatusSequence raw else 0),
       fi_MachineStatusNeedsAttention = (known \<and> if_MachineStatusNeedsAttention raw),
       fi_MachineStatusReason = (if known then if_MachineStatusReason raw else []),
       fi_ActiveAttempt = None, fi_TerminalAttempts = []\<rparr>)"

definition reduceIssueFact :: "Env \<Rightarrow> string \<Rightarrow> RecoveryIssueFact \<Rightarrow> reconciliationIssueFact owner_result" where
  "reduceIssueFact env repository raw =
     (if maxReconciliationBodyBytes < length (if_Body raw) \<or> \<not> no_NUL (if_Body raw)
      then Inl (OtherError ''reconciliation issue body exceeds durable bounds'')
      else
        err_bind (case if_ActiveAttempt raw of
            None \<Rightarrow> Inr None | Some a \<Rightarrow> err_bind (reduceAttemptFact repository a) (\<lambda>f. Inr (Some f))) (\<lambda>active.
        err_bind (reduce_attempts repository (if_TerminalAttempts raw)) (\<lambda>terminal.
          let f = (reduced_fact env raw)\<lparr>fi_ActiveAttempt := active, fi_TerminalAttempts := terminal\<rparr> in
          if \<not> validateReconciliationIssueFact repository f then Inl StateConflict else Inr f)))"

section \<open>Groups\<close>

definition appendReconciliationAttempt ::
  "reconciliationIssueGroup \<Rightarrow> reconciliationAttemptFact \<Rightarrow> reconciliationIssueGroup owner_result" where
  "appendReconciliationAttempt g f =
     (case find (\<lambda>c. same_attempt_fact c f) (ig_Attempts g) of
        Some c \<Rightarrow> if c \<noteq> f then Inl StateConflict else Inr g
      | None \<Rightarrow> Inr (g\<lparr>ig_Attempts := ig_Attempts g @ [f]\<rparr>))"

fun append_attempts ::
  "reconciliationIssueGroup \<Rightarrow> reconciliationAttemptFact list \<Rightarrow> reconciliationIssueGroup owner_result" where
  "append_attempts g [] = Inr g"
| "append_attempts g (f # fs) = err_bind (appendReconciliationAttempt g f) (\<lambda>g'. append_attempts g' fs)"

definition without_buried :: "runtimeOwnerState \<Rightarrow> reconciliationIssueFact \<Rightarrow> reconciliationIssueFact" where
  "without_buried state f =
     f\<lparr>fi_ActiveAttempt := (case fi_ActiveAttempt f of
           None \<Rightarrow> None | Some a \<Rightarrow> if fm_has (s_Tombstones state) (observed_key a) then None else Some a),
       fi_TerminalAttempts := filter (\<lambda>a. \<not> fm_has (s_Tombstones state) (observed_key a)) (fi_TerminalAttempts f)\<rparr>"

definition group_of :: "reconciliationIssueFact \<Rightarrow> reconciliationIssueGroup owner_result" where
  "group_of f =
     append_attempts
       \<lparr>ig_Fact = f, ig_IssueUpdates = [], ig_Attempts = (case fi_ActiveAttempt f of None \<Rightarrow> [] | Some a \<Rightarrow> [a])\<rparr>
       (fi_TerminalAttempts f)"

fun group_issues ::
  "Env \<Rightarrow> runtimeOwnerState \<Rightarrow> RecoveryIssueFact list \<Rightarrow> (string, reconciliationIssueGroup) fmap \<Rightarrow>
   (string, reconciliationIssueGroup) fmap owner_result" where
  "group_issues env state [] groups = Inr groups"
| "group_issues env state (raw # rest) groups =
     err_bind (reduceIssueFact env (s_Repository state) raw) (\<lambda>f.
       let k = ownerIssueKey (fi_Repository f) (fi_Issue f) in
       if fm_has groups k then Inl StateConflict
       else err_bind (group_of (without_buried state f)) (\<lambda>g. group_issues env state rest (fmupd k g groups)))"

fun group_attempts ::
  "runtimeOwnerState \<Rightarrow> RecoveryAttemptFact list \<Rightarrow> (string, reconciliationIssueGroup) fmap \<Rightarrow>
   (string, reconciliationIssueGroup) fmap owner_result" where
  "group_attempts state [] groups = Inr groups"
| "group_attempts state (raw # rest) groups =
     err_bind (reduceAttemptFact (s_Repository state) raw) (\<lambda>f.
       if fm_has (s_Tombstones state) (observed_key f) then group_attempts state rest groups
       else
         let k = ownerIssueKey (af_Repository f) (af_Issue f) in
         case fmlookup groups k of
           None \<Rightarrow> group_attempts state rest groups
         | Some g \<Rightarrow> err_bind (appendReconciliationAttempt g f) (\<lambda>g'. group_attempts state rest (fmupd k g' groups)))"

fun group_updates ::
  "runtimeOwnerState \<Rightarrow> reconciliationIssueUpdateProposal list \<Rightarrow> (string, reconciliationIssueGroup) fmap \<Rightarrow>
   (string, reconciliationIssueGroup) fmap owner_result" where
  "group_updates state [] groups = Inr groups"
| "group_updates state (u # rest) groups =
     (let k = ownerIssueKey (up_Repository u) (up_Issue u) in
      case fmlookup groups k of
        None \<Rightarrow> Inl StateConflict
      | Some g \<Rightarrow>
          if \<not> validReconciliationIssueUpdateProposal (s_Repository state) u then Inl StateConflict
          else group_updates state rest (fmupd k (g\<lparr>ig_IssueUpdates := ig_IssueUpdates g @ [u]\<rparr>) groups))"

section \<open>Captured generations\<close>

text \<open>The keys whose generations are captured; \<^verbatim>\<open>addIssue\<close> and \<^verbatim>\<open>addAttempt\<close> copy those the owner has.\<close>

definition owned_in_scope :: "Env \<Rightarrow> runtimeOwnerState \<Rightarrow> reconciliationScope \<Rightarrow> (string \<times> string) list" where
  "owned_in_scope env state scope =
     concat (map (\<lambda>(k, _). case parseOwnerAttemptKey k of (repository, issue, _, ok) \<Rightarrow>
         if ok \<and> reconciliationScopeContains scope (ownerIssueKey repository issue)
         then [(k, ownerIssueKey repository issue)] else [])
       (fm_entries (v_order env) (s_Attempts state)))"

definition observed_in_scope :: "Env \<Rightarrow> runtimeOwnerState \<Rightarrow> reconciliationScope \<Rightarrow> (string \<times> reconciliationObservation) list" where
  "observed_in_scope env state scope =
     filter (\<lambda>(k, _). reconciliationScopeContains scope k) (fm_entries (v_order env) (s_Observations state))"

definition group_attempt_keys :: "reconciliationIssueGroup \<Rightarrow> string list" where
  "group_attempt_keys g =
     (case fi_ActiveAttempt (ig_Fact g) of None \<Rightarrow> [] | Some a \<Rightarrow> [observed_key a]) @
     map observed_key (fi_TerminalAttempts (ig_Fact g)) @ map observed_key (ig_Attempts g)"

definition captured_issue_keys ::
  "Env \<Rightarrow> runtimeOwnerState \<Rightarrow> reconciliationScope \<Rightarrow> bool \<Rightarrow> reconciliationIssueGroup list \<Rightarrow> string list" where
  "captured_issue_keys env state scope complete groups =
     (if sk_Kind scope = reconciliationIssueScope then [ownerIssueKey (sk_Repository scope) (sk_Issue scope)] else []) @
     (if complete then map snd (owned_in_scope env state scope) else []) @
     map fst (observed_in_scope env state scope) @ map group_key groups"

definition captured_attempt_keys ::
  "Env \<Rightarrow> runtimeOwnerState \<Rightarrow> reconciliationScope \<Rightarrow> bool \<Rightarrow> reconciliationIssueGroup list \<Rightarrow> string list" where
  "captured_attempt_keys env state scope complete groups =
     (if complete then map fst (owned_in_scope env state scope) else []) @
     concat (map (\<lambda>(_, ob). map fst (fm_entries (v_order env) (ob_Attempts ob))) (observed_in_scope env state scope)) @
     concat (map group_attempt_keys groups)"

definition capture :: "(string, uint64) fmap \<Rightarrow> string list \<Rightarrow> (string, uint64) fmap" where
  "capture generations ks = fmfilter (\<lambda>k. k \<in> set ks) generations"

definition captureReconciliationGenerations ::
  "Env \<Rightarrow> runtimeOwnerState \<Rightarrow> reconciliationScope \<Rightarrow> bool \<Rightarrow> reconciliationIssueGroup list \<Rightarrow>
   (string, uint64) fmap \<times> (string, uint64) fmap" where
  "captureReconciliationGenerations env state scope complete groups =
     (capture (s_IssueGenerations state) (captured_issue_keys env state scope complete groups),
      capture (s_AttemptGenerations state) (captured_attempt_keys env state scope complete groups))"

section \<open>The collection\<close>

definition input_too_large :: "reconciliationInput \<Rightarrow> bool" where
  "input_too_large input \<longleftrightarrow>
     maxReconciliationIssueCount < length (ni_Issues input) \<or>
     maxReconciliationProposalCount < length (ni_IssueUpdates input) \<or>
     maxReconciliationAttemptCount < length (ni_Attempts input)"

definition grouped_input ::
  "Env \<Rightarrow> runtimeOwnerState \<Rightarrow> reconciliationInput \<Rightarrow> (string, reconciliationIssueGroup) fmap owner_result" where
  "grouped_input env state input =
     err_bind (group_issues env state (ni_Issues input) fmempty) (\<lambda>groups.
     err_bind (group_attempts state (ni_Attempts input) groups) (\<lambda>groups.
       group_updates state (ni_IssueUpdates input) groups))"

definition collection_of ::
  "Env \<Rightarrow> runtimeOwnerState \<Rightarrow> uint64 \<Rightarrow> reconciliationInput \<Rightarrow> (string, reconciliationIssueGroup) fmap \<Rightarrow>
   reconciliationCollection" where
  "collection_of env state cycleID input groups =
     (let c = normalizeReconciliationCollection
          \<lparr>cl_Identity = \<lparr>id_Epoch = s_Epoch state, id_SourceRevision = s_Revision state, id_CycleID = cycleID,
             id_IssueGeneration = 0, id_AttemptGeneration = 0, id_EffectID = [], id_RequestDigest = [],
             id_ReviewRunID = [], id_ReviewerProfileDigest = []\<rparr>,
           cl_Scope = ni_Scope input, cl_Complete = ni_Complete input, cl_IssueGenerations = fmempty,
           cl_AttemptGenerations = fmempty, cl_Issues = map snd (fm_entries (v_order env) groups)\<rparr>;
          g = captureReconciliationGenerations env state (cl_Scope c) (cl_Complete c) (cl_Issues c)
      in c\<lparr>cl_IssueGenerations := fst g, cl_AttemptGenerations := snd g\<rparr>)"

definition collectionFromSnapshot ::
  "Env \<Rightarrow> runtimeOwnerState \<Rightarrow> uint64 \<Rightarrow> reconciliationInput \<Rightarrow> reconciliationCollection owner_result" where
  "collectionFromSnapshot env state cycleID input =
     (if input_too_large input then Inl (OtherError ''reconciliation observation exceeds durable bounds'')
      else err_bind (grouped_input env state input) (\<lambda>groups.
        let c = collection_of env state cycleID input groups in
        case validateReconciliationCollection env (s_Repository state) c of
          Some e \<Rightarrow> Inl e
        | None \<Rightarrow> Inr c))"

end
