(* ===== verification/Reconciliation_Plan.thy ===== *)
theory Reconciliation_Plan
  imports Reconciliation_Collect
begin

text \<open>
  The planners of \<^verbatim>\<open>reconciliation_pipeline_v2.go\<close> and of \<^verbatim>\<open>handoff_outcomes_v2.go\<close>: pure functions of a
  snapshot of the ledger, of what the cycle read and of the configuration, whose results are the
  requests the cycle asks the owner to begin.  A loop over a map meets its entries in the order of the
  environment; the plans are sorted at the end.  The record \<open>Planner\<close> holds what the planners use besides
  the ledger's environment: how \<^verbatim>\<open>time.Time\<close> is encoded, the redaction of secrets and the random launch
  tokens, one for every attempt key.  A nil slice and an empty one are not told apart.
\<close>

record Planner =
  px_time :: "time \<Rightarrow> string"
  px_redact :: "string \<Rightarrow> string"
  px_token :: "string \<Rightarrow> string option"

section \<open>Material and plans\<close>

record reconciliationIssueUpdateMaterial =
  mt_Proposal :: "reconciliationIssueUpdateProposal option"
  mt_Config :: "PRAdapterConfig option"
  mt_ControlSnapshotBody :: "string"
  mt_Issue :: "RecoveryIssueFact option"
  mt_Attempt :: "RecoveryAttemptFact option"

record reconciliationV2Batch =
  vb_Input :: "reconciliationInput"
  vb_IssueUpdates :: "reconciliationIssueUpdateMaterial list"

record reconciliationPlannedEffect =
  pl_Identity :: "stateResultIdentity"
  pl_Request :: "reconciliationEffectRequest"
  pl_Material :: "reconciliationIssueUpdateMaterial"
  pl_Attempt :: "RecoveryAttemptFact option"

record reviewerExecutionMaterial =
  xr_Issue :: "RecoveryIssueFact"
  xr_Source :: "string"
  xr_HeadSHA :: "string"
  xr_Env :: "string list"
  xr_Command :: "string list"
  xr_Replay :: "bool"

record publicationExecutionMaterial =
  xp_Issue :: "RecoveryIssueFact"
  xp_Config :: "PRAdapterConfig"
  xp_Root :: "string"
  xp_Head :: "string"
  xp_Validation :: "string"
  xp_Documentation :: "string"
  xp_Decisions :: "string"

record IssueUpdateProposal =
  iu_Kind :: "string"
  iu_Repository :: "string"
  iu_Issue :: "int"
  iu_AttributionAttempt :: "int"
  iu_Dependency :: "int"
  iu_PullRequest :: "int"
  iu_ControlSnapshotBody :: "string"

text \<open>The zero material; its zero proposal and zero configuration are \<open>None\<close>.\<close>

definition no_material :: reconciliationIssueUpdateMaterial where
  "no_material = \<lparr>mt_Proposal = None, mt_Config = None, mt_ControlSnapshotBody = [], mt_Issue = None, mt_Attempt = None\<rparr>"

definition empty_request :: reconciliationEffectRequest where
  "empty_request = \<lparr>rq_Action = [], rq_Repository = [], rq_Issue = 0, rq_Attempt = 0, rq_Manifest = None,
     rq_ObservationGeneration = 0, rq_ObservationCycleID = 0, rq_BodyDigest = [], rq_ExecutionDigest = [],
     rq_ControlGeneration = 0, rq_ControlRepair = False, rq_GitHubBind = None, rq_GitHubPublish = None,
     rq_GitHubIssueUpdate = None, rq_GitHubPRGovernance = None, rq_Reviewer = None, rq_Handoff = None, rq_Retire = None,
     rq_CheckIn = None\<rparr>"

text \<open>What all requests of one observation share, and all of one attempt.\<close>

definition observed_request :: "string \<Rightarrow> string \<Rightarrow> int \<Rightarrow> reconciliationObservation \<Rightarrow> reconciliationEffectRequest" where
  "observed_request action repository issue ob =
     empty_request\<lparr>rq_Action := action, rq_Repository := repository, rq_Issue := issue,
       rq_ObservationGeneration := ob_Generation ob, rq_ObservationCycleID := ob_LastCycleID ob,
       rq_BodyDigest := fi_BodyDigest (ob_Fact ob)\<rparr>"

definition attempt_request :: "string \<Rightarrow> Manifest \<Rightarrow> reconciliationObservation \<Rightarrow> reconciliationEffectRequest" where
  "attempt_request action m ob =
     (observed_request action (m_Repository m) (m_Issue m) ob)\<lparr>rq_Attempt := m_Attempt m, rq_Manifest := Some m\<rparr>"

definition ownerReconciliationBeginIdentity :: "Env \<Rightarrow> runtimeOwnerState \<Rightarrow> reconciliationEffectRequest \<Rightarrow> stateResultIdentity" where
  "ownerReconciliationBeginIdentity env state q =
     \<lparr>id_Epoch = s_Epoch state, id_SourceRevision = s_Revision state, id_CycleID = 0,
      id_IssueGeneration = issueGeneration state (rq_Repository q) (rq_Issue q),
      id_AttemptGeneration = attemptGeneration state (rq_Repository q) (rq_Issue q) (rq_Attempt q),
      id_EffectID = [], id_RequestDigest = [],
      id_ReviewRunID = (case rq_Reviewer q of None \<Rightarrow> [] | Some v \<Rightarrow> rv_RunID v),
      id_ReviewerProfileDigest = activeWorkerProfileDigest env state\<rparr>"

definition plan_of :: "Env \<Rightarrow> runtimeOwnerState \<Rightarrow> reconciliationEffectRequest \<Rightarrow> reconciliationPlannedEffect" where
  "plan_of env state q =
     \<lparr>pl_Identity = ownerReconciliationBeginIdentity env state q, pl_Request = q, pl_Material = no_material,
      pl_Attempt = None\<rparr>"

definition compare_plans :: "reconciliationPlannedEffect \<Rightarrow> reconciliationPlannedEffect \<Rightarrow> int" where
  "compare_plans a b =
     (let l = pl_Request a; r = pl_Request b in
      if compare_ord (rq_Issue l) (rq_Issue r) \<noteq> 0 then compare_ord (rq_Issue l) (rq_Issue r)
      else if compare_ord (rq_Attempt l) (rq_Attempt r) \<noteq> 0 then compare_ord (rq_Attempt l) (rq_Attempt r)
      else if compare_ord (rq_Action l) (rq_Action r) \<noteq> 0 then compare_ord (rq_Action l) (rq_Action r)
      else compare_ord (rq_ExecutionDigest l) (rq_ExecutionDigest r))"

definition sortReconciliationPlans :: "reconciliationPlannedEffect list \<Rightarrow> reconciliationPlannedEffect list" where
  "sortReconciliationPlans plans = sort_func compare_plans plans"

text \<open>A loop that appends a plan, goes on without one, or returns an error.\<close>

fun plan_each :: "('a \<Rightarrow> 'p option owner_result) \<Rightarrow> 'a list \<Rightarrow> 'p list owner_result" where
  "plan_each f [] = Inr []"
| "plan_each f (x # xs) =
     err_bind (f x) (\<lambda>p. err_bind (plan_each f xs) (\<lambda>ps. Inr (case p of None \<Rightarrow> ps | Some y \<Rightarrow> y # ps)))"

definition attempt_entries :: "Env \<Rightarrow> runtimeOwnerState \<Rightarrow> (string \<times> runtimeAttemptRecord) list" where
  "attempt_entries env state = fm_entries (v_order env) (s_Attempts state)"

definition current_record :: "runtimeOwnerState \<Rightarrow> string \<Rightarrow> runtimeAttemptRecord \<Rightarrow> bool" where
  "current_record state k r \<longleftrightarrow> a_Generation r = fm_get (s_AttemptGenerations state) k 0"

definition manifest_observation :: "runtimeOwnerState \<Rightarrow> Manifest \<Rightarrow> reconciliationObservation option" where
  "manifest_observation state m = fmlookup (s_Observations state) (ownerIssueKey (m_Repository m) (m_Issue m))"

section \<open>Execution digests\<close>

definition json_strings :: "string list \<Rightarrow> json" where
  "json_strings xs = JArray (map JString xs)"

definition json_config :: "PRAdapterConfig \<Rightarrow> json" where
  "json_config c = JObject
     [(''Repository'', JString (pa_Repository c)), (''ReadyLabel'', JString (pa_ReadyLabel c)),
      (''IssueFilterLabel'', JString (pa_IssueFilterLabel c)), (''HumanReviewLabel'', JString (pa_HumanReviewLabel c)),
      (''AutonomousMergeLabel'', JString (pa_AutonomousMergeLabel c)), (''MergeMethod'', JString (pa_MergeMethod c)),
      (''PriorityP1Label'', JString (pa_PriorityP1Label c)), (''PriorityP2Label'', JString (pa_PriorityP2Label c)),
      (''PriorityP3Label'', JString (pa_PriorityP3Label c)), (''DependencySection'', JString (pa_DependencySection c)),
      (''DefaultCompletion'', JString (pa_DefaultCompletion c)), (''ApprovalCommand'', JString (pa_ApprovalCommand c)),
      (''CancelCommand'', JString (pa_CancelCommand c)), (''RetryCommand'', JString (pa_RetryCommand c)),
      (''ActorID'', JInt (pa_ActorID c))]"

definition json_update :: "githubIssueUpdateEffectRequest \<Rightarrow> json" where
  "json_update u = JObject
     [(''Kind'', JString (gu_Kind u)), (''HeadSHA'', JString (gu_HeadSHA u)), (''Diagnostic'', JString (gu_Diagnostic u)),
      (''Findings'', json_strings (gu_Findings u)), (''FailedAtUnixNano'', JInt (gu_FailedAtUnixNano u)),
      (''ControlSnapshotDigest'', JString (gu_ControlSnapshotDigest u)),
      (''ControlSnapshotBody'', JString (gu_ControlSnapshotBody u)),
      (''AttributionAttempt'', JInt (gu_AttributionAttempt u)), (''Dependency'', JInt (gu_Dependency u)),
      (''PullRequest'', JInt (gu_PullRequest u)), (''Status'', JString (gu_Status u)),
      (''StatusReason'', JString (gu_StatusReason u)), (''StatusSequence'', JUint (gu_StatusSequence u)),
      (''StatusSource'', JString (gu_StatusSource u)), (''StatusSourceSequence'', JUint (gu_StatusSourceSequence u))]"

definition json_attempt :: "RecoveryAttemptFact \<Rightarrow> json" where
  "json_attempt f = JObject
     [(''Repository'', JString (af_Repository f)), (''Issue'', JInt (af_Issue f)), (''Attempt'', JInt (af_Attempt f)),
      (''PR'', JInt (af_PR f)), (''BaseSHA'', JString (af_BaseSHA f)), (''HeadSHA'', JString (af_HeadSHA f)),
      (''State'', JString (af_State f)), (''PublicationConfirmed'', JBool (af_PublicationConfirmed f)),
      (''Diagnostic'', JString (af_Diagnostic f)), (''Checks'', json_strings (af_Checks f))]"

definition json_opt :: "('a \<Rightarrow> json) \<Rightarrow> 'a option \<Rightarrow> json" where
  "json_opt f x = (case x of None \<Rightarrow> JNull | Some y \<Rightarrow> f y)"

definition json_issue :: "Planner \<Rightarrow> RecoveryIssueFact \<Rightarrow> json" where
  "json_issue px f = JObject
     [(''Repository'', JString (if_Repository f)), (''Title'', JString (if_Title f)), (''Body'', JString (if_Body f)),
      (''BaseSHA'', JString (if_BaseSHA f)), (''BaseBranch'', JString (if_BaseBranch f)), (''Issue'', JInt (if_Issue f)),
      (''Attempt'', JInt (if_Attempt f)), (''CurrentAttempt'', JInt (if_CurrentAttempt f)),
      (''Priority'', JInt (if_Priority f)), (''CreatedAt'', JString (px_time px (if_CreatedAt f))),
      (''Dependencies'', JArray (map JInt (if_Dependencies f))),
      (''SatisfiedDependencies'', JArray (map JInt (if_SatisfiedDependencies f))),
      (''Paths'', json_strings (if_Paths f)), (''Blockers'', json_strings (if_Blockers f)),
      (''Eligible'', JBool (if_Eligible f)), (''Active'', JBool (if_Active f)), (''Completed'', JBool (if_Completed f)),
      (''Retry'', JBool (if_Retry f)), (''Cancelled'', JBool (if_Cancelled f)), (''Closed'', JBool (if_Closed f)),
      (''DispatchAuthorized'', JBool (if_DispatchAuthorized f)),
      (''RecoveryAuthorized'', JBool (if_RecoveryAuthorized f)), (''RecoveryAttempt'', JInt (if_RecoveryAttempt f)),
      (''NeedsAttention'', JBool (if_NeedsAttention f)), (''MachineStatusProtocol'', JInt (if_MachineStatusProtocol f)),
      (''MachineStatusAttempt'', JInt (if_MachineStatusAttempt f)),
      (''MachineStatusSequence'', JUint (if_MachineStatusSequence f)),
      (''MachineStatusNeedsAttention'', JBool (if_MachineStatusNeedsAttention f)),
      (''MachineStatusReason'', JString (if_MachineStatusReason f)),
      (''ActiveAttempt'', json_opt json_attempt (if_ActiveAttempt f)),
      (''TerminalAttempts'', JArray (map json_attempt (if_TerminalAttempts f)))]"

definition zero_config :: PRAdapterConfig where
  "zero_config = \<lparr>pa_Repository = [], pa_ReadyLabel = [], pa_IssueFilterLabel = [], pa_HumanReviewLabel = [],
     pa_AutonomousMergeLabel = [], pa_MergeMethod = [], pa_PriorityP1Label = [], pa_PriorityP2Label = [],
     pa_PriorityP3Label = [], pa_DependencySection = [], pa_DefaultCompletion = [], pa_ApprovalCommand = [],
     pa_CancelCommand = [], pa_RetryCommand = [], pa_ActorID = 0\<rparr>"

definition material_config :: "reconciliationIssueUpdateMaterial \<Rightarrow> PRAdapterConfig" where
  "material_config m = (case mt_Config m of None \<Rightarrow> zero_config | Some c \<Rightarrow> c)"

text \<open>The digest of a request without its digest, with what its execution reads besides.\<close>

definition unsigned :: "reconciliationEffectRequest \<Rightarrow> reconciliationEffectRequest" where
  "unsigned q = q\<lparr>rq_ExecutionDigest := []\<rparr>"

definition request_digest :: "Env \<Rightarrow> reconciliationEffectRequest \<Rightarrow> (string \<times> json) list \<Rightarrow> string" where
  "request_digest env q xs =
     v_sha env (v_marshal env (JObject ((''Request'', v_json_request env (unsigned q)) # xs)))"

definition publicationExecutionDigest :: "Env \<Rightarrow> reconciliationEffectRequest \<Rightarrow> publicationExecutionMaterial \<Rightarrow> string" where
  "publicationExecutionDigest env q x =
     request_digest env q [(''Config'', json_config (xp_Config x)), (''Root'', JString (xp_Root x)), (''Head'', JString (xp_Head x))]"

definition handoffExecutionDigest :: "Env \<Rightarrow> reconciliationEffectRequest \<Rightarrow> string list \<Rightarrow> string" where
  "handoffExecutionDigest env q command = request_digest env q [(''Command'', json_strings command)]"

definition handoffOutcomeExecutionDigest :: "Env \<Rightarrow> reconciliationEffectRequest \<Rightarrow> string \<Rightarrow> string" where
  "handoffOutcomeExecutionDigest env q path = request_digest env q [(''Path'', JString path)]"

definition retirementExecutionDigest :: "Env \<Rightarrow> reconciliationEffectRequest \<Rightarrow> string" where
  "retirementExecutionDigest env q = reconciliationEffectDigest env (unsigned q)"

definition githubBindExecutionDigest :: "Env \<Rightarrow> reconciliationEffectRequest \<Rightarrow> PRAdapterConfig \<Rightarrow> string" where
  "githubBindExecutionDigest env q cfg = request_digest env q [(''Config'', json_config cfg)]"

definition governanceExecutionDigest :: "Env \<Rightarrow> reconciliationEffectRequest \<Rightarrow> RecoveryAttemptFact \<Rightarrow> string" where
  "governanceExecutionDigest env q f = request_digest env q [(''Attempt'', json_attempt f)]"

text \<open>The prompt of a plan review, and of a review of digest version 1, depends on few fields of the issue.\<close>

definition prompt_issue :: "RecoveryIssueFact \<Rightarrow> RecoveryIssueFact" where
  "prompt_issue f = (expandIssueFact empty_issue_fact)
     \<lparr>if_Repository := if_Repository f, if_Issue := if_Issue f, if_Attempt := if_Attempt f, if_BaseSHA := if_BaseSHA f,
      if_Body := if_Body f\<rparr>"

definition reviewerExecutionDigest ::
  "Env \<Rightarrow> Planner \<Rightarrow> reconciliationEffectRequest \<Rightarrow> reviewerExecutionMaterial \<Rightarrow> string" where
  "reviewerExecutionDigest env px q x =
     (let q' = q\<lparr>rq_Reviewer := map_option (\<lambda>v. v\<lparr>rv_RunID := [], rv_Snapshot := [], rv_Session := []\<rparr>) (rq_Reviewer q)\<rparr>;
          issue = (case rq_Reviewer q of
              None \<Rightarrow> xr_Issue x
            | Some v \<Rightarrow> if rv_Mode v = ReviewModePlan \<or> rv_DigestVersion v = 1 then prompt_issue (xr_Issue x) else xr_Issue x) in
      request_digest env q'
        [(''Issue'', json_issue px issue), (''Source'', JString (xr_Source x)), (''HeadSHA'', JString (xr_HeadSHA x)),
         (''Env'', json_strings (xr_Env x)), (''Command'', json_strings (xr_Command x))])"

definition empty_update :: githubIssueUpdateEffectRequest where
  "empty_update = \<lparr>gu_Kind = [], gu_HeadSHA = [], gu_Diagnostic = [], gu_Findings = [], gu_FailedAtUnixNano = 0,
     gu_ControlSnapshotDigest = [], gu_ControlSnapshotBody = [], gu_AttributionAttempt = 0, gu_Dependency = 0,
     gu_PullRequest = 0, gu_Status = [], gu_StatusReason = [], gu_StatusSequence = 0, gu_StatusSource = [],
     gu_StatusSourceSequence = 0\<rparr>"

text \<open>Only called on requests that carry an update.\<close>

definition issueUpdateExecutionDigest ::
  "Env \<Rightarrow> Planner \<Rightarrow> reconciliationEffectRequest \<Rightarrow> reconciliationIssueUpdateMaterial \<Rightarrow> string" where
  "issueUpdateExecutionDigest env px q x =
     v_sha env (v_marshal env (JObject
       [(''Repository'', JString (rq_Repository q)), (''Body'', JString (mt_ControlSnapshotBody x)),
        (''Issue'', JInt (rq_Issue q)), (''Config'', json_config (material_config x)),
        (''Update'', json_update (case rq_GitHubIssueUpdate q of None \<Rightarrow> empty_update | Some u \<Rightarrow> u)),
        (''IssueFact'', json_opt (json_issue px) (mt_Issue x)), (''AttemptFact'', json_opt json_attempt (mt_Attempt x))]))"

section \<open>Proposals read on GitHub\<close>

definition reduceIssueUpdateProposal ::
  "Env \<Rightarrow> IssueUpdateProposal \<Rightarrow> (reconciliationIssueUpdateProposal \<times> reconciliationIssueUpdateMaterial) owner_result" where
  "reduceIssueUpdateProposal env raw =
     (let base = \<lparr>up_Repository = iu_Repository raw, up_Issue = iu_Issue raw, up_Kind = iu_Kind raw,
            up_ControlSnapshotDigest = [], up_AttributionAttempt = 0, up_Dependency = 0, up_PullRequest = 0\<rparr>;
          snapshot = (iu_Kind raw = githubIssueControlSnapshot);
          u = (if snapshot then base\<lparr>up_ControlSnapshotDigest := v_sha env (iu_ControlSnapshotBody raw)\<rparr>
            else base\<lparr>up_AttributionAttempt := iu_AttributionAttempt raw, up_Dependency := iu_Dependency raw,
              up_PullRequest := iu_PullRequest raw\<rparr>) in
      if \<not> snapshot \<and> iu_Kind raw \<noteq> githubIssueDependencyClear
      then Inl (OtherError ''unknown issue update proposal'')
      else if \<not> validReconciliationIssueUpdateProposal (iu_Repository raw) u \<or>
        snapshot \<and> (iu_AttributionAttempt raw \<noteq> 0 \<or> iu_ControlSnapshotBody raw = []) \<or>
        \<not> snapshot \<and> iu_ControlSnapshotBody raw \<noteq> []
      then Inl (OtherError ''invalid issue update proposal'')
      else Inr (u, no_material\<lparr>mt_Proposal := Some u, mt_ControlSnapshotBody := iu_ControlSnapshotBody raw\<rparr>))"

definition compare_materials :: "reconciliationIssueUpdateMaterial \<Rightarrow> reconciliationIssueUpdateMaterial \<Rightarrow> int" where
  "compare_materials a b =
     (case (mt_Proposal a, mt_Proposal b) of
        (Some l, Some r) \<Rightarrow>
          if compare_ord (up_Issue l) (up_Issue r) \<noteq> 0 then compare_ord (up_Issue l) (up_Issue r)
          else if compare_ord (up_Kind l) (up_Kind r) \<noteq> 0 then compare_ord (up_Kind l) (up_Kind r)
          else compare_ord (up_Dependency l) (up_Dependency r)
      | _ \<Rightarrow> 0)"

definition collected_batch ::
  "Env \<Rightarrow> PRAdapterConfig \<Rightarrow> reconciliationScope \<Rightarrow> RecoveryIssueFact list \<Rightarrow> RecoveryAttemptFact list \<Rightarrow>
   IssueUpdateProposal list \<Rightarrow> reconciliationV2Batch owner_result" where
  "collected_batch env cfg scope issues attempts proposals =
     err_bind (plan_each (\<lambda>p. err_bind (reduceIssueUpdateProposal env p) (\<lambda>r. Inr (Some r))) proposals) (\<lambda>rs.
       Inr \<lparr>vb_Input = \<lparr>ni_Scope = scope, ni_Complete = True, ni_Issues = issues, ni_IssueUpdates = map fst rs,
              ni_Attempts = attempts\<rparr>,
            vb_IssueUpdates = sort_func compare_materials (map (\<lambda>r. (snd r)\<lparr>mt_Config := Some cfg\<rparr>) rs)\<rparr>)"

end
