(* ===== verification/Reconciliation_Planners.thy ===== *)
theory Reconciliation_Planners
  imports Reconciliation_Plan
begin

text \<open>
  One planner per phase of a reconciliation cycle (\<^verbatim>\<open>reconciliation_pipeline_v2.go\<close>,
  \<^verbatim>\<open>handoff_outcomes_v2.go\<close>): publications, handoffs and their outcomes, reviews, binds, retirements,
  governance, updates of issues, machine statuses and repairs of control snapshots.
\<close>

section \<open>Publications\<close>

definition completedHandoffPublicationOutcome :: "RecoveryHandoff \<Rightarrow> string \<Rightarrow> HandoffOutcome" where
  "completedHandoffPublicationOutcome h head =
     \<lparr>ho_Key = rh_Key h,
      ho_Feedback = map (\<lambda>f. \<lparr>fo_ID = fb_ID f, fo_Source = fb_Source f, fo_State = FeedbackAddressed,
        fo_Evidence = ''published in head '' @ head\<rparr>) (rh_Feedback h),
      ho_ValidationResult = (if rh_Validation h then ''blocked'' else []),
      ho_ValidationEvidence = (if rh_Validation h then ''pull request head changed to '' @ head @
        ''; validation must run against the published feedback head'' else []),
      ho_Retryable = False\<rparr>"

text \<open>The recovery handoff that a completed effect delivered for the attempt, with its outcome if it has one.\<close>

definition delivered_handoff ::
  "reconciliationEffectRequest \<Rightarrow> runtimePRRecovery \<Rightarrow> runtimeEffectIntent \<Rightarrow> (RecoveryHandoff \<times> HandoffOutcome option) option" where
  "delivered_handoff q recovery e =
     (if e_State e \<noteq> ''completed'' \<or> e_ReconciliationResult e = None \<or> e_Repository e \<noteq> rq_Repository q \<or>
        e_Issue e \<noteq> rq_Issue q \<or> e_Attempt e \<noteq> rq_Attempt q \<or> e_IssueGeneration e \<noteq> rr_IssueGeneration recovery \<or>
        e_AttemptGeneration e \<noteq> rr_AttemptGeneration recovery then None
      else (case e_Reconciliation e of
          None \<Rightarrow> None
        | Some r \<Rightarrow>
            if rq_Action r \<noteq> reconciliationHandoffDeliver then None
            else (case rq_Handoff r of
                None \<Rightarrow> None
              | Some h \<Rightarrow> (case hf_Recovery h of None \<Rightarrow> None | Some x \<Rightarrow> Some (x, hf_Outcome h)))))"

definition delivered_publications ::
  "Env \<Rightarrow> runtimeOwnerState \<Rightarrow> reconciliationEffectRequest \<Rightarrow> runtimePRRecovery \<Rightarrow> string \<Rightarrow> PreparedPublication list" where
  "delivered_publications env state q recovery head =
     filter (\<lambda>p. succeeds (PreparePublicationState (v_sha env) (rr_State recovery) p))
       (List.map_filter (\<lambda>(_, e). map_option (\<lambda>(h, x).
          \<lparr>pp_Handoff = h, pp_Outcome = (case x of None \<Rightarrow> completedHandoffPublicationOutcome h head | Some y \<Rightarrow> y),
           pp_HeadSHA = head\<rparr>) (delivered_handoff q recovery e))
         (fm_entries (v_order env) (s_Effects state)))"

text \<open>\<open>Inr None\<close>: publishing now would change nothing, or is not possible yet.\<close>

definition publication_prepared ::
  "Env \<Rightarrow> runtimeOwnerState \<Rightarrow> reconciliationEffectRequest \<Rightarrow> string \<Rightarrow> string \<Rightarrow> PreparedPublication option option owner_result" where
  "publication_prepared env state q k head =
     (case fmlookup (s_Recoveries state) k of
        None \<Rightarrow> Inr (Some None)
      | Some recovery \<Rightarrow>
          (case pr_PreparedPublication (rr_State recovery) of
             Some p \<Rightarrow> Inr (Some (Some p))
           | None \<Rightarrow>
               if pr_HeadSHA (rr_State recovery) = head then Inr None
               else (case delivered_publications env state q recovery head of
                   [p] \<Rightarrow> Inr (Some (Some p))
                 | _ # _ # _ \<Rightarrow> Inl (OtherError ''multiple completed handoff outcomes match publication'')
                 | [] \<Rightarrow>
                     let p = \<lparr>pp_Handoff = no_handoff\<lparr>rh_Repository := rq_Repository q,
                           rh_PR := pr_Number (rr_State recovery), rh_Issue := rq_Issue q, rh_Attempt := rq_Attempt q,
                           rh_HeadSHA := pr_HeadSHA (rr_State recovery)\<rparr>,
                         pp_Outcome = empty_outcome, pp_HeadSHA = head\<rparr> in
                     Inr (if succeeds (PreparePublicationState (v_sha env) (rr_State recovery) p)
                       then Some (Some p) else None))))"

definition publication_key :: "publicationExecutionMaterial \<Rightarrow> string" where
  "publication_key x = ownerAttemptKey (if_Repository (xp_Issue x)) (if_Issue (xp_Issue x)) (if_Attempt (xp_Issue x))"

definition publishable ::
  "Env \<Rightarrow> runtimeOwnerState \<Rightarrow> publicationExecutionMaterial \<Rightarrow> (runtimeAttemptRecord \<times> reconciliationObservation) option" where
  "publishable env state x =
     (let issue = xp_Issue x; k = publication_key x in
      case (fmlookup (s_Attempts state) k,
          fmlookup (s_Observations state) (ownerIssueKey (if_Repository issue) (if_Issue issue))) of
        (Some r, Some ob) \<Rightarrow>
          let m = a_Manifest r in
          if \<not> ob_Present ob \<or> \<not> current_record state k r \<or>
            digestText env (if_Body issue) \<noteq> fi_BodyDigest (ob_Fact ob) \<or>
            pa_Repository (xp_Config x) \<noteq> if_Repository issue \<or> pa_ActorID (xp_Config x) < 1 \<or>
            m_State m \<noteq> ''completed'' \<or> m_ReviewState m \<noteq> ''clean'' \<or> m_ReviewHead m \<noteq> xp_Head x
          then None else Some (r, ob)
      | _ \<Rightarrow> None)"

definition plan_publication ::
  "Env \<Rightarrow> runtimeOwnerState \<Rightarrow> publicationExecutionMaterial \<Rightarrow> reconciliationPlannedEffect option owner_result" where
  "plan_publication env state x =
     (case publishable env state x of
        None \<Rightarrow> Inr None
      | Some (r, ob) \<Rightarrow>
          let issue = xp_Issue x;
              g = \<lparr>gq_Title = if_Title issue, gq_BaseBranch = if_BaseBranch issue, gq_HeadSHA = xp_Head x,
                gq_Validation = xp_Validation x, gq_Documentation = xp_Documentation x, gq_Decisions = xp_Decisions x,
                gq_Prepared = None\<rparr>;
              q = (observed_request reconciliationGitHubPublish (if_Repository issue) (if_Issue issue) ob)
                \<lparr>rq_Attempt := if_Attempt issue, rq_Manifest := Some (a_Manifest r)\<rparr> in
          err_bind (publication_prepared env state q (publication_key x) (xp_Head x)) (\<lambda>prepared.
            Inr (case prepared of
                None \<Rightarrow> None
              | Some p \<Rightarrow>
                  let q1 = q\<lparr>rq_GitHubPublish := Some (g\<lparr>gq_Prepared := p\<rparr>)\<rparr>;
                      q2 = q1\<lparr>rq_ExecutionDigest := publicationExecutionDigest env q1 x\<rparr> in
                  Some (plan_of env state q2))))"

fun plan_publications ::
  "Env \<Rightarrow> runtimeOwnerState \<Rightarrow> string list \<Rightarrow> publicationExecutionMaterial list \<Rightarrow>
   (reconciliationPlannedEffect \<times> publicationExecutionMaterial) list owner_result" where
  "plan_publications env state seen [] = Inr []"
| "plan_publications env state seen (x # xs) =
     (if publication_key x \<in> set seen then Inl (OtherError ''duplicate publication candidate'')
      else err_bind (plan_publication env state x) (\<lambda>p.
        err_bind (plan_publications env state (publication_key x # seen) xs) (\<lambda>ps.
          Inr (case p of None \<Rightarrow> ps | Some y \<Rightarrow> (y, x) # ps))))"

definition planReconciliationPublications ::
  "Env \<Rightarrow> runtimeOwnerState \<Rightarrow> publicationExecutionMaterial list \<Rightarrow>
   (reconciliationPlannedEffect list \<times> (string \<rightharpoonup> publicationExecutionMaterial)) owner_result" where
  "planReconciliationPublications env state candidates =
     err_bind (plan_publications env state [] candidates) (\<lambda>ps.
       Inr (sortReconciliationPlans (map fst ps), map_of (map (\<lambda>(_, x). (publication_key x, x)) ps)))"

section \<open>Handoffs\<close>

definition ManagedWorkspacePlaceholder :: string where "ManagedWorkspacePlaceholder = ''{managed_workspace}''"
definition OrchestratorWorkspacePlaceholder :: string where
  "OrchestratorWorkspacePlaceholder = ''{orchestrator_workspace}''"

definition ExpandManagedWorkspace :: "Env \<Rightarrow> string list \<Rightarrow> string \<Rightarrow> string list owner_result" where
  "ExpandManagedWorkspace env command workspace =
     (if \<not> path_is_abs workspace \<or> path_clean workspace \<noteq> workspace \<or> \<not> no_NUL workspace
      then Inl (OtherError ''managed workspace must be a clean absolute path'')
      else
        let escaped = butlast (tl (v_marshal env (JString workspace))) in
        Inr (map (\<lambda>word. replace_all (replace_all word ManagedWorkspacePlaceholder escaped)
          OrchestratorWorkspacePlaceholder escaped) command))"

definition no_handoff_request :: handoffEffectRequest where
  "no_handoff_request = \<lparr>hf_Kind = [], hf_HeadSHA = [], hf_Key = [], hf_Findings = [], hf_HumanInstructions = [],
     hf_Recovery = None, hf_Outcome = None, hf_OutcomePath = [], hf_OutcomeToken = [], hf_CandidateLaunchToken = [],
     hf_CurrentImplementation = None, hf_CurrentTerminal = None\<rparr>"

definition findings_handoff :: "Manifest \<Rightarrow> string list \<Rightarrow> handoffEffectRequest" where
  "findings_handoff m human =
     (let k = ''independent-review-'' @ m_ReviewHead m in
      no_handoff_request\<lparr>hf_Kind := ''review-findings'', hf_HeadSHA := m_ReviewHead m, hf_Key := k,
        hf_Findings := m_ReviewFindings m, hf_HumanInstructions := human,
        hf_OutcomePath := handoffReceiptPath (m_Worktree m) k, hf_OutcomeToken := m_ReviewHead m\<rparr>)"

definition recovery_handoff :: "Env \<Rightarrow> Manifest \<Rightarrow> RecoveryHandoff \<Rightarrow> handoffEffectRequest" where
  "recovery_handoff env m h =
     no_handoff_request\<lparr>hf_Kind := ''recovery'', hf_Key := rh_Key h, hf_Recovery := Some h,
       hf_OutcomePath := handoffReceiptPath (m_Worktree m) (rh_Key h),
       hf_OutcomeToken := digestText env (''handoff-outcome'' @ NUL @ rh_Key h)\<rparr>"

definition chosen_handoff ::
  "Env \<Rightarrow> runtimeOwnerState \<Rightarrow> string list \<Rightarrow> string \<Rightarrow> Manifest \<Rightarrow> handoffEffectRequest option owner_result" where
  "chosen_handoff env state human k m =
     (if m_ReviewState m = ''findings-queued'' \<and> \<not> m_ReviewHandoffAck m then Inr (Some (findings_handoff m human))
      else (case fmlookup (s_Recoveries state) k of
          None \<Rightarrow> Inr None
        | Some recovery \<Rightarrow>
            (case ClaimHandoffState (v_sha env) (rr_State recovery) of
               Inl e \<Rightarrow> Inl (OtherError e)
             | Inr (_, claimed, runnable) \<Rightarrow> Inr (if runnable then Some (recovery_handoff env m claimed) else None))))"

definition resumed_handoff :: "Manifest \<Rightarrow> handoffEffectRequest \<Rightarrow> runtimeEffectIntent \<Rightarrow> handoffEffectRequest option" where
  "resumed_handoff m h e =
     (if e_State e \<noteq> ''pending'' \<or> e_Action e \<noteq> reconciliationHandoffDeliver \<or> e_Repository e \<noteq> m_Repository m \<or>
        e_Issue e \<noteq> m_Issue m \<or> e_Attempt e \<noteq> m_Attempt m then None
      else (case e_Reconciliation e of
          None \<Rightarrow> None
        | Some q \<Rightarrow>
            (case rq_Handoff q of
               None \<Rightarrow> None
             | Some p \<Rightarrow> if hf_Kind p = hf_Kind h \<and> hf_Key p = hf_Key h \<and> rq_Manifest q = Some m then Some p else None)))"

text \<open>The token of a pending delivery of the same handoff is used again; otherwise a new one is drawn.\<close>

definition candidate_token ::
  "Env \<Rightarrow> Planner \<Rightarrow> runtimeOwnerState \<Rightarrow> string \<Rightarrow> Manifest \<Rightarrow> handoffEffectRequest \<Rightarrow> string owner_result" where
  "candidate_token env px state k m h =
     (let resumed = (case List.map_filter (\<lambda>(_, e). resumed_handoff m h e) (fm_entries (v_order env) (s_Effects state)) of
            [] \<Rightarrow> [] | p # _ \<Rightarrow> hf_CandidateLaunchToken p) in
      if resumed \<noteq> [] then Inr resumed
      else (case px_token px k of None \<Rightarrow> Inl (OtherError ''launch token is unavailable'') | Some t \<Rightarrow> Inr t))"

definition token_handoff ::
  "Env \<Rightarrow> Planner \<Rightarrow> runtimeOwnerState \<Rightarrow> string \<Rightarrow> runtimeAttemptRecord \<Rightarrow> handoffEffectRequest \<Rightarrow>
   handoffEffectRequest owner_result" where
  "token_handoff env px state k r h =
     (let m = a_Manifest r in
      if m_Version m \<noteq> ManifestVersion2 then Inr h
      else (case (a_ImplementationBinding r, a_TerminalBroker r) of
          (Some ib, Some tb) \<Rightarrow>
            if \<not> ValidImplementationBinding m ib (m_LaunchID m) \<or> \<not> ValidImplementationTerminalBinding (v_sha env) m tb \<or>
              tb_OuterPID tb \<noteq> ib_PanePID ib
            then Inl (OtherError ''handoff current terminal certificate is unavailable'')
            else
              let h1 = h\<lparr>hf_CurrentImplementation := Some ib, hf_CurrentTerminal := Some tb\<rparr> in
              err_bind (candidate_token env px state k m h1) (\<lambda>t. Inr (h1\<lparr>hf_CandidateLaunchToken := t\<rparr>))
        | _ \<Rightarrow> Inl (OtherError ''handoff current terminal certificate is unavailable'')))"

definition plan_handoff ::
  "Env \<Rightarrow> Planner \<Rightarrow> runtimeOwnerState \<Rightarrow> string list \<Rightarrow> string list \<Rightarrow> string \<times> runtimeAttemptRecord \<Rightarrow>
   (reconciliationPlannedEffect \<times> string \<times> string list) option owner_result" where
  "plan_handoff env px state command human = (\<lambda>(k, r).
     let m = a_Manifest r in
     case manifest_observation state m of
       None \<Rightarrow> Inr None
     | Some ob \<Rightarrow>
         if \<not> ob_Present ob \<or> \<not> current_record state k r then Inr None
         else err_bind (ExpandManagedWorkspace env command (m_Worktree m)) (\<lambda>expanded.
           err_bind (chosen_handoff env state human k m) (\<lambda>chosen.
             case chosen of
               None \<Rightarrow> Inr None
             | Some h0 \<Rightarrow> err_bind (token_handoff env px state k r h0) (\<lambda>h.
                 let q = (attempt_request reconciliationHandoffDeliver m ob)\<lparr>rq_Handoff := Some h\<rparr>;
                     q' = q\<lparr>rq_ExecutionDigest := handoffExecutionDigest env q expanded\<rparr> in
                 Inr (Some (plan_of env state q', k, expanded))))))"

definition planReconciliationHandoffs ::
  "Env \<Rightarrow> Planner \<Rightarrow> runtimeOwnerState \<Rightarrow> string list \<Rightarrow> string list \<Rightarrow>
   (reconciliationPlannedEffect list \<times> (string \<rightharpoonup> string list)) owner_result" where
  "planReconciliationHandoffs env px state command human =
     err_bind (plan_each (plan_handoff env px state command human) (attempt_entries env state)) (\<lambda>ps.
       Inr (sortReconciliationPlans (map fst ps), map_of (map snd ps)))"

end
