(* ===== verification/Attempt_Planners.thy ===== *)
theory Attempt_Planners
  imports Reconciliation_Planners
begin

text \<open>
  The planners of a cycle that work on the attempts of the ledger (\<^verbatim>\<open>reconciliation_pipeline_v2.go\<close>,
  \<^verbatim>\<open>handoff_outcomes_v2.go\<close>): reviews and their cleanup, the outcomes of handoffs, the binding of a
  prepared attempt on GitHub, the retirement of a completed one, the governance of a published one.
\<close>

section \<open>Reviews\<close>

definition reviewer_key :: "reviewerExecutionMaterial \<Rightarrow> string" where
  "reviewer_key x = ownerAttemptKey (if_Repository (xr_Issue x)) (if_Issue (xr_Issue x)) (if_Attempt (xr_Issue x))"

definition no_reviewer :: reviewerExecutionMaterial where
  "no_reviewer = \<lparr>xr_Issue = (expandIssueFact empty_issue_fact), xr_Source = [], xr_HeadSHA = [], xr_Env = [],
     xr_Command = [], xr_Replay = False\<rparr>"

definition review_ended :: "Manifest \<Rightarrow> bool" where
  "review_ended m \<longleftrightarrow> m_ReviewState m \<in> set [''clean'', ''findings-queued'', ''failed'']"

definition review_due :: "Manifest \<Rightarrow> string \<Rightarrow> bool" where
  "review_due m head \<longleftrightarrow>
     m_State m = ''completed'' \<and> validOptionalObjectID head \<and> head \<noteq> [] \<and> head \<noteq> m_BaseSHA m \<and>
     (head \<noteq> m_ReviewHead m \<or> m_ReviewInvalidated m) \<and> (m_ReviewState m \<noteq> ''findings-queued'' \<or> m_ReviewHandoffAck m)"

definition manifest_review :: "Manifest \<Rightarrow> string \<Rightarrow> string \<Rightarrow> string \<Rightarrow> reviewerEffectRequest" where
  "manifest_review m phase snapshot session =
     \<lparr>rv_Phase = phase, rv_Mode = m_ReviewMode m, rv_Target = m_ReviewTarget m, rv_BaseSHA = m_ReviewBase m,
      rv_HeadSHA = m_ReviewHead m, rv_RunID = m_ReviewRunID m, rv_Snapshot = snapshot, rv_Session = session,
      rv_DigestVersion = 0\<rparr>"

text \<open>What is to be reviewed or cleaned up; the identity of a run is filled in afterwards.\<close>

definition chosen_review :: "Env \<Rightarrow> runtimeOwnerState \<Rightarrow> Manifest \<Rightarrow> string \<Rightarrow> reviewerEffectRequest option" where
  "chosen_review env state m head =
     (let run = reviewRunIdentity env (m_Repository m) (m_Issue m) (m_Attempt m) (m_ReviewTarget m) (m_ReviewRunID m) in
      if review_ended m \<and> (m_ReviewSnapshot m \<noteq> [] \<or> m_ReviewSession m \<noteq> []) then
        (if fst run = [] \<or> m_ReviewSnapshot m \<noteq> fst run \<or> m_ReviewSession m \<noteq> snd run \<or>
           \<not> reviewerCleanupProved state (m_Repository m) (m_Issue m) (m_Attempt m) (m_ReviewMode m) (m_ReviewTarget m)
             (m_ReviewRunID m)
         then None
         else Some (manifest_review m ''cleanup'' (m_ReviewSnapshot m) (m_ReviewSession m)))
      else if review_due m head then
        Some \<lparr>rv_Phase = ''run-observe'', rv_Mode = ReviewModeImplementation,
          rv_Target = m_BaseSHA m @ ''..'' @ head, rv_BaseSHA = m_BaseSHA m, rv_HeadSHA = head, rv_RunID = [],
          rv_Snapshot = [], rv_Session = [], rv_DigestVersion = 0\<rparr>
      else if m_ReviewState m = ''clean'' \<or> m_ReviewState m = ''findings-queued'' then None
      else if m_ReviewState m = ''preparing'' \<or> m_ReviewState m = ''running'' then
        (let v = manifest_review m ''run-observe'' (fst run) (snd run) in
         if reviewManifestMatches m v then Some v else None)
      else None)"

definition identified_review ::
  "Env \<Rightarrow> runtimeOwnerState \<Rightarrow> string \<Rightarrow> Manifest \<Rightarrow> reviewerEffectRequest \<Rightarrow> reviewerEffectRequest owner_result" where
  "identified_review env state k m v =
     (if rv_Phase v \<noteq> ''run-observe'' then Inr v
      else if rv_RunID v = [] \<and> s_Revision state = uint64_max then Inl (OtherError ''runtime revision overflow'')
      else
        let runID = (if rv_RunID v \<noteq> [] then rv_RunID v
              else reviewerRunID env (s_Epoch state) (s_Revision state + 1)
                (issueGeneration state (m_Repository m) (m_Issue m)) (fm_get (s_AttemptGenerations state) k 0)
                (m_Repository m) (m_Issue m) (m_Attempt m) (rv_Mode v) (rv_Target v));
            run = reviewRunIdentity env (m_Repository m) (m_Issue m) (m_Attempt m) (rv_Target v) runID in
        Inr (v\<lparr>rv_RunID := runID, rv_Snapshot := fst run, rv_Session := snd run,
          rv_DigestVersion := (if rv_Mode v = ReviewModeImplementation then 1 else 0)\<rparr>))"

definition plan_reviewer ::
  "Env \<Rightarrow> Planner \<Rightarrow> runtimeOwnerState \<Rightarrow> (string \<rightharpoonup> reviewerExecutionMaterial) \<Rightarrow> string \<times> runtimeAttemptRecord \<Rightarrow>
   (reconciliationPlannedEffect \<times> string \<times> reviewerExecutionMaterial) option owner_result" where
  "plan_reviewer env px state candidates = (\<lambda>(k, r).
     let m = a_Manifest r; x = (case candidates k of None \<Rightarrow> no_reviewer | Some y \<Rightarrow> y) in
     case manifest_observation state m of
       None \<Rightarrow> Inr None
     | Some ob \<Rightarrow>
         if \<not> ob_Present ob \<or> \<not> current_record state k r \<or> if_Repository (xr_Issue x) \<noteq> m_Repository m \<or>
           digestText env (if_Body (xr_Issue x)) \<noteq> fi_BodyDigest (ob_Fact ob)
         then Inr None
         else (case chosen_review env state m (xr_HeadSHA x) of
             None \<Rightarrow> Inr None
           | Some v0 \<Rightarrow> err_bind (identified_review env state k m v0) (\<lambda>v.
               let q = (attempt_request reconciliationReviewer m ob)\<lparr>rq_Reviewer := Some v\<rparr>;
                   q' = q\<lparr>rq_ExecutionDigest := reviewerExecutionDigest env px q x\<rparr> in
               Inr (Some (plan_of env state q',
                 ownerAttemptKey (m_Repository m) (m_Issue m) (m_Attempt m), x)))))"

definition planReconciliationReviewers ::
  "Env \<Rightarrow> Planner \<Rightarrow> runtimeOwnerState \<Rightarrow> reviewerExecutionMaterial list \<Rightarrow>
   (reconciliationPlannedEffect list \<times> (string \<rightharpoonup> reviewerExecutionMaterial)) owner_result" where
  "planReconciliationReviewers env px state candidates =
     (if \<not> distinct (map reviewer_key candidates) then Inl (OtherError ''duplicate reviewer candidate'')
      else err_bind (plan_each (plan_reviewer env px state (map_of (map (\<lambda>x. (reviewer_key x, x)) candidates)))
          (attempt_entries env state)) (\<lambda>ps.
        Inr (sortReconciliationPlans (map fst ps), map_of (map snd ps))))"

section \<open>Outcomes of handoffs\<close>

record handoffOutcomeFile =
  of_Name :: "string"
  of_Handoff :: "RecoveryHandoff"
  of_Outcome :: "HandoffOutcome"
  of_OutcomeToken :: "string"

definition outcome_file_matches :: "Env \<Rightarrow> handoffOutcomeFile \<Rightarrow> bool" where
  "outcome_file_matches env f \<longleftrightarrow>
     of_Name f = rh_Key (of_Handoff f) @ ''.json'' \<and> ho_Key (of_Outcome f) = rh_Key (of_Handoff f) \<and>
     of_OutcomeToken f = digestText env (''handoff-outcome'' @ NUL @ rh_Key (of_Handoff f))"

definition outcome_handoff :: "Manifest \<Rightarrow> handoffOutcomeFile \<Rightarrow> handoffEffectRequest" where
  "outcome_handoff m f =
     (let h = of_Handoff f in
      no_handoff_request\<lparr>hf_Kind := ''recovery'', hf_Key := rh_Key h, hf_Recovery := Some h,
        hf_Outcome := Some (of_Outcome f), hf_OutcomePath := handoffReceiptPath (m_Worktree m) (rh_Key h),
        hf_OutcomeToken := of_OutcomeToken f\<rparr>)"

definition outcome_path :: "Env \<Rightarrow> handoffOutcomeFile \<Rightarrow> string" where
  "outcome_path env f = path_join [path_join [v_StateRoot env, ''handoff-outcomes''], of_Name f]"

definition outcome_key :: "handoffOutcomeFile \<Rightarrow> string" where
  "outcome_key f = ownerAttemptKey (rh_Repository (of_Handoff f)) (rh_Issue (of_Handoff f)) (rh_Attempt (of_Handoff f))"

definition plan_outcome ::
  "Env \<Rightarrow> runtimeOwnerState \<Rightarrow> handoffOutcomeFile \<Rightarrow> (reconciliationPlannedEffect \<times> string \<times> string) option" where
  "plan_outcome env state f =
     (let h = of_Handoff f; k = outcome_key f in
      case (fmlookup (s_Recoveries state) k, fmlookup (s_Attempts state) k,
          fmlookup (s_Observations state) (ownerIssueKey (rh_Repository h) (rh_Issue h))) of
        (Some recovery, Some r, Some ob) \<Rightarrow>
          if \<not> ob_Present ob \<or> \<not> receipted (rr_State recovery) (rh_Key h) then None
          else
            let q = (observed_request reconciliationHandoffDeliver (rh_Repository h) (rh_Issue h) ob)
                  \<lparr>rq_Attempt := rh_Attempt h, rq_Manifest := Some (a_Manifest r),
                   rq_Handoff := Some (outcome_handoff (a_Manifest r) f)\<rparr>;
                q' = q\<lparr>rq_ExecutionDigest := handoffOutcomeExecutionDigest env q (outcome_path env f)\<rparr> in
            Some (plan_of env state q', rh_Key h, outcome_path env f)
      | _ \<Rightarrow> None)"

text \<open>The files are the readable ones of the directory whose names end in \<^verbatim>\<open>.json\<close>, in its order.\<close>

fun plan_outcomes ::
  "Env \<Rightarrow> runtimeOwnerState \<Rightarrow> string list \<Rightarrow> handoffOutcomeFile list \<Rightarrow>
   (reconciliationPlannedEffect \<times> string \<times> string) list owner_result" where
  "plan_outcomes env state seen [] = Inr []"
| "plan_outcomes env state seen (f # fs) =
     (if \<not> outcome_file_matches env f then Inl (OtherError ''handoff outcome identity mismatch'')
      else if outcome_key f \<in> set seen then Inl (OtherError ''multiple handoff outcomes target one attempt'')
      else err_bind (plan_outcomes env state (outcome_key f # seen) fs) (\<lambda>ps.
        Inr (case plan_outcome env state f of None \<Rightarrow> ps | Some p \<Rightarrow> p # ps)))"

definition compare_handoff_plans :: "reconciliationPlannedEffect \<Rightarrow> reconciliationPlannedEffect \<Rightarrow> int" where
  "compare_handoff_plans a b =
     (let k = (\<lambda>p. case rq_Handoff (pl_Request p) of None \<Rightarrow> [] | Some h \<Rightarrow> hf_Key h) in compare_ord (k a) (k b))"

definition collectHandoffOutcomePlans ::
  "Env \<Rightarrow> runtimeOwnerState \<Rightarrow> handoffOutcomeFile list \<Rightarrow>
   (reconciliationPlannedEffect list \<times> (string \<rightharpoonup> string)) owner_result" where
  "collectHandoffOutcomePlans env state files =
     err_bind (plan_outcomes env state [] files) (\<lambda>ps.
       Inr (sort_func compare_handoff_plans (map fst ps), map_of (rev (map snd ps))))"

section \<open>Binds, retirements and governance\<close>

definition config_owns :: "PRAdapterConfig \<Rightarrow> runtimeOwnerState \<Rightarrow> bool" where
  "config_owns cfg state \<longleftrightarrow> pa_Repository cfg \<noteq> [] \<and> pa_Repository cfg = s_Repository state"

definition remotely_live :: "string \<Rightarrow> bool" where
  "remotely_live s \<longleftrightarrow> s = ''active'' \<or> s = ''review-ready''"

definition bind_detail :: "Manifest \<Rightarrow> string" where
  "bind_detail m = ''Implementation session reserved.'' @ LF @ LF @ ''- Project: `'' @ m_Repository m @ ''`'' @ LF @
     ''- Branch: `'' @ m_Branch m @ ''`'' @ LF @ ''- Worktree: `'' @ m_Worktree m @ ''`'' @ LF @ ''- Session: `'' @
     m_Session m @ ''`''"

definition plan_bind ::
  "Env \<Rightarrow> runtimeOwnerState \<Rightarrow> PRAdapterConfig \<Rightarrow> string \<times> runtimeAttemptRecord \<Rightarrow> reconciliationPlannedEffect option owner_result" where
  "plan_bind env state cfg = (\<lambda>(k, r).
     let m = a_Manifest r in
     case manifest_observation state m of
       None \<Rightarrow> Inr None
     | Some ob \<Rightarrow>
         if \<not> ob_Present ob \<or> ob_OwnerGeneration ob \<noteq> issueGeneration state (m_Repository m) (m_Issue m) \<or>
           \<not> current_record state k r then Inr None
         else err_bind (reconciliationBindMatchesObservation env state ob m) (\<lambda>matches.
           if \<not> matches \<or>
             (case observedReconciliationAttempt ob (m_Attempt m) of
                None \<Rightarrow> False | Some f \<Rightarrow> remotely_live (af_State f) \<and> af_BaseSHA f = m_BaseSHA m)
           then Inr None
           else
             let q = (attempt_request reconciliationGitHubBind m ob)
                   \<lparr>rq_GitHubBind := Some \<lparr>gb_BaseSHA = m_BaseSHA m, gb_Branch = m_Branch m, gb_Detail = bind_detail m\<rparr>\<rparr>;
                 q' = q\<lparr>rq_ExecutionDigest := githubBindExecutionDigest env q cfg\<rparr> in
             Inr (Some ((plan_of env state q')\<lparr>pl_Material := no_material\<lparr>mt_Config := Some cfg\<rparr>\<rparr>))))"

definition planReconciliationBinds ::
  "Env \<Rightarrow> runtimeOwnerState \<Rightarrow> PRAdapterConfig \<Rightarrow> reconciliationPlannedEffect list owner_result" where
  "planReconciliationBinds env state cfg =
     (if \<not> config_owns cfg state \<or> pa_ActorID cfg < 1 then Inl (OtherError ''GitHub bind config does not match owner'')
      else err_bind (plan_each (plan_bind env state cfg) (attempt_entries env state)) (\<lambda>ps. Inr (sortReconciliationPlans ps)))"

definition retirable :: "runtimeOwnerState \<Rightarrow> Manifest \<Rightarrow> reconciliationAttemptFact \<Rightarrow> bool" where
  "retirable state m f \<longleftrightarrow>
     af_State f = ''completed'' \<and> 1 \<le> af_PR f \<and> af_BaseSHA f = m_BaseSHA m \<and> af_HeadSHA f \<noteq> [] \<and>
     m_ReviewHead m = af_HeadSHA f \<and> m_ReviewSnapshot m = [] \<and> m_ReviewSession m = [] \<and>
     \<not> attemptHasReviewerProof state (m_Repository m) (m_Issue m) (m_Attempt m)"

definition plan_retirement ::
  "Env \<Rightarrow> runtimeOwnerState \<Rightarrow> string \<times> runtimeAttemptRecord \<Rightarrow> reconciliationPlannedEffect option" where
  "plan_retirement env state = (\<lambda>(k, r).
     let m = a_Manifest r in
     case manifest_observation state m of
       None \<Rightarrow> None
     | Some ob \<Rightarrow>
         (case observedReconciliationAttempt ob (m_Attempt m) of
            None \<Rightarrow> None
          | Some f \<Rightarrow>
              if \<not> current_record state k r \<or> \<not> retirable state m f then None
              else
                let mode = (if m_State m = ''preparing'' \<or> m_State m = ''running'' then ''abandon'' else ''cleanup'');
                    q = (attempt_request reconciliationRetireCompleted m ob)
                      \<lparr>rq_Retire := Some \<lparr>rc_Mode = mode, rc_HeadSHA = af_HeadSHA f\<rparr>\<rparr>;
                    q' = q\<lparr>rq_ExecutionDigest := retirementExecutionDigest env q\<rparr> in
                Some (plan_of env state q')))"

definition planReconciliationRetirements :: "Env \<Rightarrow> runtimeOwnerState \<Rightarrow> reconciliationPlannedEffect list" where
  "planReconciliationRetirements env state =
     sortReconciliationPlans (List.map_filter (plan_retirement env state) (attempt_entries env state))"

definition completedReconciliationRequest :: "Env \<Rightarrow> runtimeOwnerState \<Rightarrow> reconciliationEffectRequest \<Rightarrow> bool" where
  "completedReconciliationRequest env state q \<longleftrightarrow>
     fm_ex (\<lambda>_ e. e_State e = ''completed'' \<and> e_Reconciliation e \<noteq> None \<and>
       e_RequestDigest e = reconciliationEffectDigest env q) (s_Effects state)"

definition governable :: "runtimeAttemptRecord \<Rightarrow> reconciliationAttemptFact \<Rightarrow> bool" where
  "governable r f \<longleftrightarrow>
     remotely_live (af_State f) \<and> af_PublicationConfirmed f \<and> 1 \<le> af_PR f \<and> af_HeadSHA f \<noteq> [] \<and>
     af_BaseSHA f = m_BaseSHA (a_Manifest r)"

definition plan_governance ::
  "Env \<Rightarrow> runtimeOwnerState \<Rightarrow> PRAdapterConfig \<Rightarrow> reconciliationObservation \<Rightarrow> string \<times> reconciliationAttemptObservation \<Rightarrow>
   reconciliationPlannedEffect option" where
  "plan_governance env state cfg ob = (\<lambda>(k, accepted).
     let f = ao_Fact accepted in
     if \<not> ao_Present accepted \<or> ao_SourceIssueGeneration accepted \<noteq> ob_Generation ob \<or>
       ao_OwnerGeneration accepted \<noteq> fm_get (s_AttemptGenerations state) k 0 then None
     else (case fmlookup (s_Attempts state) k of
         None \<Rightarrow> None
       | Some r \<Rightarrow>
           if \<not> governable r f then None
           else
             let q = (observed_request reconciliationGitHubPRGovernance (af_Repository f) (af_Issue f) ob)
                   \<lparr>rq_Attempt := af_Attempt f, rq_Manifest := Some (a_Manifest r),
                    rq_GitHubPRGovernance := Some \<lparr>gg_PR = af_PR f, gg_HeadSHA = af_HeadSHA f, gg_Policy = cfg\<rparr>\<rparr>;
                 q' = q\<lparr>rq_ExecutionDigest := governanceExecutionDigest env q f\<rparr> in
             if completedReconciliationRequest env state q' then None
             else Some ((plan_of env state q')\<lparr>pl_Attempt := Some f\<rparr>)))"

definition governed_observation :: "Env \<Rightarrow> runtimeOwnerState \<Rightarrow> PRAdapterConfig \<Rightarrow> string \<times> reconciliationObservation \<Rightarrow>
   reconciliationPlannedEffect list" where
  "governed_observation env state cfg = (\<lambda>(k, ob).
     if \<not> ob_Present ob \<or> ob_OwnerGeneration ob \<noteq> fm_get (s_IssueGenerations state) k 0 then []
     else List.map_filter (plan_governance env state cfg ob) (fm_entries (v_order env) (ob_Attempts ob)))"

definition planReconciliationGovernance ::
  "Env \<Rightarrow> runtimeOwnerState \<Rightarrow> PRAdapterConfig \<Rightarrow> reconciliationPlannedEffect list owner_result" where
  "planReconciliationGovernance env state cfg =
     (if \<not> config_owns cfg state then Inl (OtherError ''PR governance config does not match owner'')
      else Inr (sortReconciliationPlans
        (concat (map (governed_observation env state cfg) (fm_entries (v_order env) (s_Observations state))))))"

end
