(* ===== verification/Update_Planners.thy ===== *)
theory Update_Planners
  imports Attempt_Planners
begin

text \<open>
  The planners that update issues on GitHub (\<^verbatim>\<open>reconciliation_pipeline_v2.go\<close>): what an attempt has to say
  (its failure, a retry, findings, evidence), machine statuses, accepted proposals, and the repair of
  control snapshots; and the admission of cleared dependencies as machine statuses
  (\<^verbatim>\<open>admitDependencyStatuses\<close> of \<^verbatim>\<open>production_cycle_v2.go\<close>).  \<^verbatim>\<open>validReconciliationEffectStateBindings\<close>
  is called there without a state root, which it reads for reviews only.
\<close>

definition issue_key_of :: "RecoveryIssueFact \<Rightarrow> string" where
  "issue_key_of f = ownerIssueKey (if_Repository f) (if_Issue f)"

definition update_valid :: "Env \<Rightarrow> runtimeOwnerState \<Rightarrow> reconciliationEffectRequest \<Rightarrow> bool" where
  "update_valid env state q \<longleftrightarrow>
     validReconciliationEffectRequest env (s_Repository state) q \<and> validReconciliationEffectStateBindings env state q"

section \<open>Updates of an attempt\<close>

definition failure_update :: "Planner \<Rightarrow> Manifest \<Rightarrow> githubIssueUpdateEffectRequest" where
  "failure_update px m =
     (let text = px_redact px (m_Diagnostic m) in
      empty_update\<lparr>gu_Kind := githubIssueTerminalFailure, gu_FailedAtUnixNano := unix_nano (m_UpdatedAt m),
        gu_Diagnostic := (if text = [] then ''attempt failed closed'' else text)\<rparr>)"

definition attempt_update :: "Planner \<Rightarrow> reconciliationObservation \<Rightarrow> Manifest \<Rightarrow> githubIssueUpdateEffectRequest option" where
  "attempt_update px ob m =
     (let fact = ob_Fact ob;
          terminal = list_ex (\<lambda>a. af_Attempt a = m_Attempt m) (fi_TerminalAttempts fact) in
      if m_State m = ''failed'' \<or> m_State m = ''cancelled'' then
        (if terminal \<and> fi_RecoveryAuthorized fact \<and> \<not> fi_Retry fact
         then Some (empty_update\<lparr>gu_Kind := githubIssueRetry, gu_FailedAtUnixNano := unix_nano (m_UpdatedAt m)\<rparr>)
         else if terminal then None else Some (failure_update px m))
      else if m_ReviewState m = ''findings-queued'' \<and> \<not> m_ReviewHandoffQueued m \<and> \<not> m_ReviewHandoffAck m then
        Some (empty_update\<lparr>gu_Kind := githubIssueFindings, gu_HeadSHA := m_ReviewHead m, gu_Findings := m_ReviewFindings m\<rparr>)
      else if m_State m = ''completed'' \<and>
        (case observedReconciliationAttempt ob (m_Attempt m) of
           None \<Rightarrow> False | Some f \<Rightarrow> 0 < af_PR f \<and> af_HeadSHA f = m_ReviewHead m)
      then Some (empty_update\<lparr>gu_Kind := githubIssueEvidence, gu_HeadSHA := m_ReviewHead m\<rparr>)
      else None)"

definition plan_attempt_update ::
  "Env \<Rightarrow> Planner \<Rightarrow> runtimeOwnerState \<Rightarrow> PRAdapterConfig \<Rightarrow> (string \<rightharpoonup> RecoveryIssueFact) \<Rightarrow>
   (string \<rightharpoonup> RecoveryAttemptFact) \<Rightarrow> string \<times> runtimeAttemptRecord \<Rightarrow> reconciliationPlannedEffect option" where
  "plan_attempt_update env px state cfg issues attempts = (\<lambda>(k, r).
     let m = a_Manifest r in
     case (manifest_observation state m, issues (ownerIssueKey (m_Repository m) (m_Issue m))) of
       (Some ob, Some issue) \<Rightarrow>
         if \<not> ob_Present ob \<or> \<not> current_record state k r \<or>
           digestText env (if_Body issue) \<noteq> fi_BodyDigest (ob_Fact ob) then None
         else (case attempt_update px ob m of
             None \<Rightarrow> None
           | Some u \<Rightarrow>
               let x = no_material\<lparr>mt_Config := Some cfg, mt_Issue := Some issue, mt_Attempt := attempts k\<rparr>;
                   q = (attempt_request reconciliationGitHubIssueUpdate m ob)\<lparr>rq_GitHubIssueUpdate := Some u\<rparr>;
                   q' = q\<lparr>rq_ExecutionDigest := issueUpdateExecutionDigest env px q x\<rparr> in
               if \<not> update_valid env state q' \<or> completedReconciliationRequest env state q' then None
               else Some ((plan_of env state q')\<lparr>pl_Material := x\<rparr>))
     | _ \<Rightarrow> None)"

definition planReconciliationAttemptIssueUpdates ::
  "Env \<Rightarrow> Planner \<Rightarrow> runtimeOwnerState \<Rightarrow> reconciliationV2Batch \<Rightarrow> PRAdapterConfig \<Rightarrow>
   reconciliationPlannedEffect list owner_result" where
  "planReconciliationAttemptIssueUpdates env px state batch cfg =
     (let issues = ni_Issues (vb_Input batch); attempts = ni_Attempts (vb_Input batch) in
      if \<not> config_owns cfg state \<or> pa_ActorID cfg < 1
      then Inl (OtherError ''GitHub issue update config does not match owner'')
      else if \<not> distinct (map issue_key_of issues) \<or> \<not> distinct (map observed_key attempts) then Inl StateConflict
      else Inr (sortReconciliationPlans (List.map_filter
        (plan_attempt_update env px state cfg (map_of (map (\<lambda>f. (issue_key_of f, f)) issues))
          (map_of (map (\<lambda>f. (observed_key f, f)) attempts)))
        (attempt_entries env state))))"

section \<open>Machine statuses\<close>

definition status_remote :: "reconciliationIssueFact \<Rightarrow> machineStatusRecord \<Rightarrow> bool" where
  "status_remote f st \<longleftrightarrow>
     (let attention = (ms_Status st = ''needs-attention'') in
      fi_NeedsAttention f = attention \<and> fi_MachineStatusProtocol f = 2 \<and>
      fi_MachineStatusAttempt f = ms_Attempt st \<and> fi_MachineStatusSequence f = ms_Sequence st \<and>
      fi_MachineStatusNeedsAttention f = attention \<and> fi_MachineStatusReason f = ms_Reason st)"

definition status_update :: "machineStatusRecord \<Rightarrow> githubIssueUpdateEffectRequest" where
  "status_update st =
     empty_update\<lparr>gu_Kind := githubIssueMachineStatus, gu_AttributionAttempt := ms_Attempt st, gu_Status := ms_Status st,
       gu_StatusReason := ms_Reason st, gu_StatusSequence := ms_Sequence st, gu_StatusSource := ms_Source st,
       gu_StatusSourceSequence := ms_SourceSequence st\<rparr>"

definition status_request ::
  "Env \<Rightarrow> Planner \<Rightarrow> PRAdapterConfig \<Rightarrow> reconciliationObservation \<Rightarrow> machineStatusRecord \<Rightarrow> reconciliationEffectRequest" where
  "status_request env px cfg ob st =
     (let q = (observed_request reconciliationGitHubIssueUpdate (ms_Repository st) (ms_Issue st) ob)
            \<lparr>rq_GitHubIssueUpdate := Some (status_update st)\<rparr> in
      q\<lparr>rq_ExecutionDigest := issueUpdateExecutionDigest env px q (no_material\<lparr>mt_Config := Some cfg\<rparr>)\<rparr>)"

definition plan_status ::
  "Env \<Rightarrow> Planner \<Rightarrow> runtimeOwnerState \<Rightarrow> PRAdapterConfig \<Rightarrow> string \<times> machineStatusRecord \<Rightarrow>
   reconciliationPlannedEffect option owner_result" where
  "plan_status env px state cfg = (\<lambda>(k, st).
     case fmlookup (s_Observations state) k of
       None \<Rightarrow> Inr None
     | Some ob \<Rightarrow>
         if \<not> ob_Present ob \<or> ob_OwnerGeneration ob \<noteq> ms_IssueGeneration st \<or>
           ms_IssueGeneration st \<noteq> fm_get (s_IssueGenerations state) k 0 \<or>
           ms_AppliedSequence st = ms_Sequence st \<and> status_remote (ob_Fact ob) st
         then Inr None
         else
           let q = status_request env px cfg ob st in
           if \<not> update_valid env state q then Inl StateConflict
           else if ms_AppliedSequence st \<noteq> ms_Sequence st \<and> completedReconciliationRequest env state q then Inr None
           else Inr (Some ((plan_of env state q)\<lparr>pl_Material := no_material\<lparr>mt_Config := Some cfg\<rparr>\<rparr>)))"

definition planMachineStatusUpdates ::
  "Env \<Rightarrow> Planner \<Rightarrow> runtimeOwnerState \<Rightarrow> PRAdapterConfig \<Rightarrow> reconciliationPlannedEffect list owner_result" where
  "planMachineStatusUpdates env px state cfg =
     (if \<not> config_owns cfg state \<or> pa_ActorID cfg < 1 then Inl (OtherError ''machine status config does not match owner'')
      else err_bind (plan_each (plan_status env px state cfg) (fm_entries (v_order env) (s_MachineStatuses state)))
        (\<lambda>ps. Inr (sortReconciliationPlans ps)))"

section \<open>Accepted proposals\<close>

definition plain_identity :: "runtimeOwnerState \<Rightarrow> uint64 \<Rightarrow> stateResultIdentity" where
  "plain_identity state generation =
     \<lparr>id_Epoch = s_Epoch state, id_SourceRevision = s_Revision state, id_CycleID = 0, id_IssueGeneration = generation,
      id_AttemptGeneration = 0, id_EffectID = [], id_RequestDigest = [], id_ReviewRunID = [], id_ReviewerProfileDigest = []\<rparr>"

definition proposal_update :: "reconciliationIssueUpdateProposal \<Rightarrow> string \<Rightarrow> githubIssueUpdateEffectRequest" where
  "proposal_update u body =
     empty_update\<lparr>gu_Kind := up_Kind u, gu_ControlSnapshotDigest := up_ControlSnapshotDigest u,
       gu_ControlSnapshotBody := body, gu_AttributionAttempt := up_AttributionAttempt u, gu_Dependency := up_Dependency u,
       gu_PullRequest := up_PullRequest u\<rparr>"

definition proposal_mismatch ::
  "Env \<Rightarrow> reconciliationObservation \<Rightarrow> reconciliationIssueUpdateProposal \<Rightarrow> reconciliationIssueUpdateMaterial \<Rightarrow> string option" where
  "proposal_mismatch env ob u x =
     (let body = mt_ControlSnapshotBody x in
      if up_Kind u = githubIssueControlSnapshot \<and> v_sha env body \<noteq> up_ControlSnapshotDigest u
      then Some ''control snapshot material does not match the accepted proposal''
      else if up_Kind u \<noteq> githubIssueControlSnapshot \<and>
        (body \<noteq> [] \<or> up_AttributionAttempt u \<noteq> max 1 (fi_CurrentAttempt (ob_Fact ob)))
      then Some ''dependency clear material does not match the accepted observation''
      else if pa_Repository (material_config x) \<noteq> up_Repository u
      then Some ''issue update config does not match the accepted repository''
      else None)"

definition no_proposal :: reconciliationIssueUpdateProposal where
  "no_proposal = \<lparr>up_Repository = [], up_Issue = 0, up_Kind = [], up_ControlSnapshotDigest = [], up_AttributionAttempt = 0,
     up_Dependency = 0, up_PullRequest = 0\<rparr>"

definition plan_proposal ::
  "Env \<Rightarrow> Planner \<Rightarrow> runtimeOwnerState \<Rightarrow> reconciliationIssueUpdateMaterial \<Rightarrow> reconciliationPlannedEffect option owner_result" where
  "plan_proposal env px state x =
     (let u = (case mt_Proposal x of None \<Rightarrow> no_proposal | Some p \<Rightarrow> p);
          k = ownerIssueKey (up_Repository u) (up_Issue u) in
      if up_Kind u = githubIssueDependencyClear then Inr None
      else (case fmlookup (s_Observations state) k of
          None \<Rightarrow> Inr None
        | Some ob \<Rightarrow>
            if \<not> ob_Present ob \<or> ob_OwnerGeneration ob \<noteq> fm_get (s_IssueGenerations state) k 0 \<or>
              u \<notin> set (ob_IssueUpdates ob) then Inr None
            else (case proposal_mismatch env ob u x of
                Some e \<Rightarrow> Inl (OtherError e)
              | None \<Rightarrow>
                  let q = (observed_request reconciliationGitHubIssueUpdate (up_Repository u) (up_Issue u) ob)
                        \<lparr>rq_ControlGeneration := controlGeneration state k,
                         rq_GitHubIssueUpdate := Some (proposal_update u (mt_ControlSnapshotBody x))\<rparr>;
                      q' = q\<lparr>rq_ExecutionDigest := issueUpdateExecutionDigest env px q x\<rparr> in
                  if \<not> validReconciliationEffectRequest env (s_Repository state) q'
                  then Inl (OtherError ''planned issue update is invalid'')
                  else Inr (Some \<lparr>pl_Identity = plain_identity state (ob_OwnerGeneration ob), pl_Request = q',
                    pl_Material = x, pl_Attempt = None\<rparr>))))"

definition planReconciliationIssueUpdates ::
  "Env \<Rightarrow> Planner \<Rightarrow> runtimeOwnerState \<Rightarrow> reconciliationV2Batch \<Rightarrow> reconciliationPlannedEffect list owner_result" where
  "planReconciliationIssueUpdates env px state batch =
     (if s_Repository state = [] then Inl (OtherError ''owner snapshot is invalid'')
      else plan_each (plan_proposal env px state) (vb_IssueUpdates batch))"

section \<open>Repairs\<close>

definition repair_request :: "Env \<Rightarrow> Planner \<Rightarrow> runtimeOwnerState \<Rightarrow> reconciliationObservation \<Rightarrow> controlSnapshotRepair \<Rightarrow>
   PRAdapterConfig \<Rightarrow> reconciliationEffectRequest \<times> reconciliationIssueUpdateMaterial" where
  "repair_request env px state ob repair cfg =
     (let digest = digestText env (sr_Body repair);
          q = (observed_request reconciliationGitHubIssueUpdate (s_Repository state) (fi_Issue (ob_Fact ob)) ob)
            \<lparr>rq_ControlGeneration := sr_Generation repair, rq_ControlRepair := True,
             rq_GitHubIssueUpdate := Some (empty_update\<lparr>gu_Kind := githubIssueControlSnapshot,
               gu_ControlSnapshotDigest := digest, gu_ControlSnapshotBody := sr_Body repair\<rparr>)\<rparr>;
          x = no_material\<lparr>mt_Proposal := Some (no_proposal\<lparr>up_Repository := rq_Repository q, up_Issue := rq_Issue q,
              up_Kind := githubIssueControlSnapshot, up_ControlSnapshotDigest := digest\<rparr>),
            mt_Config := Some cfg, mt_ControlSnapshotBody := sr_Body repair\<rparr> in
      (q\<lparr>rq_ExecutionDigest := issueUpdateExecutionDigest env px q x\<rparr>, x))"

definition plan_repair ::
  "Env \<Rightarrow> Planner \<Rightarrow> runtimeOwnerState \<Rightarrow> PRAdapterConfig \<Rightarrow> string \<times> controlSnapshotRepair \<Rightarrow>
   reconciliationPlannedEffect option owner_result" where
  "plan_repair env px state cfg = (\<lambda>(k, repair).
     case fmlookup (s_Observations state) k of
       None \<Rightarrow> Inr None
     | Some ob \<Rightarrow>
         if \<not> ob_Present ob \<or> sr_Generation repair \<noteq> controlGeneration state k \<or> sr_Body repair = [] \<or>
           pa_Repository cfg \<noteq> s_Repository state \<or> pa_ActorID cfg < 1 \<or>
           fm_ex (\<lambda>_ e. invalidatedEffectBlocksControlRepair e (s_Repository state) (fi_Issue (ob_Fact ob))) (s_Effects state)
         then Inr None
         else (case repair_request env px state ob repair cfg of (q, x) \<Rightarrow>
           if \<not> update_valid env state q then Inl (OtherError ''control snapshot repair is invalid'')
           else Inr (Some \<lparr>pl_Identity = plain_identity state (fm_get (s_IssueGenerations state) k 0), pl_Request = q,
             pl_Material = x, pl_Attempt = None\<rparr>)))"

definition planControlSnapshotRepairs ::
  "Env \<Rightarrow> Planner \<Rightarrow> runtimeOwnerState \<Rightarrow> PRAdapterConfig \<Rightarrow> reconciliationPlannedEffect list owner_result" where
  "planControlSnapshotRepairs env px state cfg =
     plan_each (plan_repair env px state cfg) (fm_entries id (s_ControlRepairs state))"

section \<open>Cleared dependencies\<close>

text \<open>The status a cleared dependency is admitted with; the owner's transition decides about it.\<close>

definition dependency_admission ::
  "runtimeOwnerState \<Rightarrow> string \<Rightarrow> reconciliationObservation \<Rightarrow> reconciliationIssueUpdateProposal \<Rightarrow>
   admitMachineStatusCommand option" where
  "dependency_admission state k ob u =
     (if up_Kind u \<noteq> githubIssueDependencyClear \<or>
        (case fmlookup (s_MachineStatuses state) k of None \<Rightarrow> False | Some st \<Rightarrow> ms_Source st \<noteq> ''dependency'') then None
      else Some
        \<lparr>am_Repository = up_Repository u, am_Issue = up_Issue u, am_Attempt = up_AttributionAttempt u,
         am_ExpectedIssueGeneration = ob_OwnerGeneration ob,
         am_ExpectedAttemptGeneration =
           fm_get (s_AttemptGenerations state) (ownerAttemptKey (up_Repository u) (up_Issue u) (up_AttributionAttempt u)) 0,
         am_ExpectedObservationGeneration = ob_Generation ob,
         am_ExpectedStatusSequence = (case fmlookup (s_MachineStatuses state) k of None \<Rightarrow> 0 | Some st \<Rightarrow> ms_Sequence st),
         am_Dependency = up_Dependency u, am_PullRequest = up_PullRequest u, am_Source = ''dependency'',
         am_SourceID = utoa (ob_Generation ob) @ '':'' @ itoa (up_Dependency u) @ '':'' @ itoa (up_PullRequest u),
         am_SourceSequence = 0, am_ExpectedCausalityToken = [], am_Status = ''clear'',
         am_Reason = ''monitoring: dependency #'' @ itoa (up_Dependency u) @ '' is complete''\<rparr>)"

end
