(* ===== verification/Planner_Properties.thy ===== *)
theory Planner_Properties
  imports Update_Planners Owner_Runs
begin

text \<open>
  What the planners of a cycle promise about the requests they make: the bindings they plan are the
  ones the owner checks, the retirements are of attempts that were published and completed, and the
  outcome of a handoff is planned in a form that the owner refuses.
\<close>

section \<open>A ledger to plan from\<close>

text \<open>The small ledger with an eligible issue 7, whose attempt 1 is archived.\<close>

definition observed_fact :: reconciliationIssueFact where
  "observed_fact = empty_issue_fact\<lparr>fi_Repository := ''o/r'', fi_Title := ''t'', fi_BodyDigest := replicate 64 CHR ''a'',
     fi_BaseSHA := replicate 40 CHR ''e'', fi_Issue := 7, fi_Attempt := 1, fi_Priority := 1, fi_CreatedAtUnixNano := 1,
     fi_Paths := [''a''], fi_Eligible := True, fi_DispatchAuthorized := True\<rparr>"

definition observed_seven :: reconciliationObservation where
  "observed_seven = \<lparr>ob_Present = True, ob_Generation = 1, ob_OwnerGeneration = 3, ob_ObservationEpoch = 2,
     ob_LastCycleID = 1, ob_InputDigest = replicate 64 CHR ''a'', ob_Fact = observed_fact, ob_IssueUpdates = [],
     ob_Attempts = fmempty\<rparr>"

definition planned_ledger :: runtimeOwnerState where
  "planned_ledger = small_next\<lparr>s_Observations := fmupd ''o/r#7'' observed_seven fmempty\<rparr>"

definition sample_planner :: Planner where
  "sample_planner = \<lparr>px_time = (\<lambda>_. []), px_redact = (\<lambda>s. s), px_token = (\<lambda>_. Some (replicate 32 CHR ''c''))\<rparr>"

lemma arrangement_sample: "arrangement (v_order sample_env)"
  by (simp add: arrangement_def sample_env_def)

lemma observed_seven_valid: "valid_observation sample_env planned_ledger ''o/r#7'' observed_seven"
proof -
  have d: "validDigest (replicate 64 CHR ''a'')" "validOptionalObjectID (replicate 40 CHR ''e'')"
    by code_simp+
  have c: "char_of (0::nat) \<noteq> CHR ''t''" "char_of (0::nat) \<noteq> CHR ''a''" by code_simp+
  have f: "validateReconciliationIssueFact ''o/r'' observed_fact"
    using d c by (simp add: validateReconciliationIssueFact_def observed_fact_def empty_issue_fact_def validIntList_def
        validStringList_def maxReconciliationPathCount_def maxReconciliationPathBytes_def no_NUL_def validObservedMachineStatus_def maxReconciliationStringBytes_def)
  show ?thesis
    using d f by (simp add: valid_observation_def valid_present_observation_def observed_seven_def observed_fact_def
        empty_issue_fact_def planned_ledger_def small_defs small_keys validIssueUpdateProposals_def)
qed

lemma planned_valid: "validateRuntimeOwnerState sample_env planned_ledger True"
proof -
  have e: "validateLegacyReviewerBoot planned_ledger" "valid_control_generations planned_ledger"
    "valid_control_repairs sample_env planned_ledger" "valid_quarantines planned_ledger"
    "validateRuntimePRRecoveries planned_ledger" "valid_cycle_outcome planned_ledger"
    "valid_issue_generations planned_ledger" "valid_attempt_generations planned_ledger"
    by (simp_all add: planned_ledger_def small_defs small_keys validateLegacyReviewerBoot_def valid_control_generations_def
        valid_control_repairs_def valid_quarantines_def validateRuntimePRRecoveries_def valid_cycle_outcome_def
        time_is_zero_def valid_issue_generations_def own_issue_key_def valid_attempt_generations_def)
  have o: "validateReconciliationObservations sample_env planned_ledger"
    using observed_seven_valid
    by (simp add: validateReconciliationObservations_def planned_ledger_def small_defs observed_attempts_def fm_entries_def
        sample_env_def maxReconciliationFactBytes_def maxReconciliationIssueCount_def observed_seven_def fcard.rep_eq
        maxReconciliationAttemptCount_def sorted_list_of_fset.rep_eq)
  have t: "fmpred (valid_tombstone sample_env planned_ledger True) (s_Tombstones planned_ledger)"
    by (simp add: planned_ledger_def small_defs valid_tombstone_def small_keys validTombstoneAction_def validCleanupPhase_def
        fm_has_def validTombstoneCleanupPolicy_def bareCompletedArchive_def bareCompletedRemoval_def valid_lease_def)
  show ?thesis
    unfolding validate_parts
    using e o t by (simp add: planned_ledger_def small_next_def small_ledger_def newRuntimeOwnerState_def small_keys)
qed

text \<open>Attempt 2 of issue 7, completed; the default branch has moved since.  Reviewed, and merged as pull request 3.\<close>

definition done_manifest :: Manifest where
  "done_manifest = empty_manifest\<lparr>m_Version := 2, m_LaunchToken := replicate 32 CHR ''c'',
     m_Repository := ''o/r'', m_Issue := 7, m_Attempt := 2,
     m_Branch := ''agent-symphony/o-r-aaaaaaaaaaaa/7-2'', m_Worktree := ''/r/o-r-aaaaaaaaaaaa-7-2'',
     m_Session := ''as-o-r-aaaaaaaaaaaa-7-2'', m_LogPath := ''/s/attempts/o-r-aaaaaaaaaaaa/7-2/agent.log'',
     m_BaseSHA := replicate 40 CHR ''d'', m_State := ''completed''\<rparr>"

definition merged_manifest :: Manifest where
  "merged_manifest = done_manifest\<lparr>m_ReviewState := ''clean'', m_ReviewMode := ReviewModeImplementation,
     m_ReviewBase := replicate 40 CHR ''d'', m_ReviewHead := replicate 40 CHR ''f'',
     m_ReviewTarget := replicate 40 CHR ''d'' @ ''..'' @ replicate 40 CHR ''f'', m_ReviewRunCleaned := True\<rparr>"

definition merged_fact :: reconciliationAttemptFact where
  "merged_fact = empty_attempt_fact\<lparr>af_Repository := ''o/r'', af_Issue := 7, af_Attempt := 2, af_PR := 3,
     af_BaseSHA := replicate 40 CHR ''d'', af_HeadSHA := replicate 40 CHR ''f'', af_State := ''completed''\<rparr>"

definition done_ledger :: "Manifest \<Rightarrow> runtimeOwnerState" where
  "done_ledger m = planned_ledger\<lparr>s_Attempts := fmupd ''o/r#7/2'' (upserted_record None 1 m) fmempty,
     s_AttemptGenerations := fmupd ''o/r#7/2'' 1 (s_AttemptGenerations planned_ledger),
     s_Observations := fmupd ''o/r#7'' (observed_seven\<lparr>ob_Fact := observed_fact\<lparr>fi_TerminalAttempts := [merged_fact]\<rparr>\<rparr>) fmempty\<rparr>"

lemma done_manifest_valid: "validateOwnerManifest sample_env ''o/r'' done_manifest"
  by code_simp

lemma merged_manifest_valid: "validateOwnerManifest sample_env ''o/r'' merged_manifest"
  by code_simp

section \<open>Loops that append\<close>

lemma plan_each_mem: "plan_each f xs = Inr ps \<Longrightarrow> p \<in> set ps \<Longrightarrow> \<exists>x \<in> set xs. f x = Inr (Some p)"
  by (induction xs arbitrary: ps) (auto split: option.splits)

lemma plan_each_all: "plan_each f xs = Inr ps \<Longrightarrow> x \<in> set xs \<Longrightarrow> f x = Inr (Some p) \<Longrightarrow> p \<in> set ps"
  by (induction xs arbitrary: ps) (auto split: option.splits)

lemma set_sort_plans [simp]: "set (sortReconciliationPlans ps) = set ps"
  by (simp add: sortReconciliationPlans_def)

lemma order_entry: "sound_order env \<Longrightarrow> (k, v) \<in> set (fm_entries (v_order env) m) \<Longrightarrow> fmlookup m k = Some v"
  by (auto simp: sound_order_def fm_entries_def fmlookup_dom_iff[symmetric] dest!: subsetD)

lemma attempt_entry: "sound_order env \<Longrightarrow> (k, r) \<in> set (attempt_entries env state) \<Longrightarrow> fmlookup (s_Attempts state) k = Some r"
  by (simp add: attempt_entries_def order_entry)

section \<open>Outcomes of handoffs\<close>

lemma plan_outcomes_mem:
  "plan_outcomes env state seen fs = Inr ps \<Longrightarrow> p \<in> set ps \<Longrightarrow> \<exists>f \<in> set fs. plan_outcome env state f = Some p"
  by (induction fs arbitrary: seen ps) (fastforce split: if_splits option.splits)+

lemma outcome_no_token [simp]: "hf_CandidateLaunchToken (outcome_handoff m f) = []"
  by (simp add: outcome_handoff_def no_handoff_request_def Let_def)

lemma outcome_plan_request:
  assumes "collectHandoffOutcomePlans env state files = Inr (plans, paths)" "p \<in> set plans"
  obtains m f where "rq_Action (pl_Request p) = reconciliationHandoffDeliver"
    "rq_Handoff (pl_Request p) = Some (outcome_handoff m f)"
proof -
  obtain f k x where "plan_outcome env state f = Some (p, k, x)"
    using assms plan_outcomes_mem[of env state "[]" files] by (fastforce simp: collectHandoffOutcomePlans_def)
  then have "rq_Action (pl_Request p) = reconciliationHandoffDeliver \<and>
      rq_Handoff (pl_Request p) = Some (outcome_handoff (a_Manifest (the (fmlookup (s_Attempts state) (outcome_key f)))) f)"
    by (auto simp: plan_outcome_def observed_request_def plan_of_def Let_def split: option.splits if_splits)
  then show thesis using that by blast
qed

lemma request_bindings: "validReconciliationEffectRequest env repository q \<Longrightarrow> validReconciliationEffectBindings env q"
  by (simp add: validReconciliationEffectRequest_def Let_def split: if_splits)

lemma outcome_stale:
  assumes "collectHandoffOutcomePlans env state files = Inr (plans, paths)" "p \<in> set plans"
    "rq_Manifest (pl_Request p) = Some m" "m_Version m = ManifestVersion2"
  shows "applyBeginReconciliationEffect env' now \<lparr>bc_Identity = i, bc_ReviewerSourceRevision = n, bc_Request = pl_Request p\<rparr> =
    Inl StaleStateResult"
proof -
  let ?q = "pl_Request p"
  obtain m' f where h: "rq_Action ?q = reconciliationHandoffDeliver" "rq_Handoff ?q = Some (outcome_handoff m' f)"
    using outcome_plan_request[OF assms(1,2)] .
  have "\<not> handoff_launch_bound env' m (outcome_handoff m' f)"
    using assms(4) by (simp add: handoff_launch_bound_def ValidLaunchToken_def hex_bytes_def)
  then have "\<not> validReconciliationEffectBindings env' ?q"
    using assms(3) h by (simp add: validReconciliationEffectBindings_def handoff_bound_def reconciliation_actions)
  then have "\<not> validReconciliationEffectRequest env' (s_Repository now) ?q"
    by (auto dest: request_bindings)
  then show ?thesis
    by (simp add: applyBeginReconciliationEffect_def begin_refused_def begin_identity_refused_def)
qed

definition outcome_file :: handoffOutcomeFile where
  "outcome_file = \<lparr>of_Name = ''k.json'', of_Handoff = no_handoff\<lparr>rh_Key := ''k'', rh_Repository := ''o/r'', rh_PR := 3,
       rh_Issue := 7, rh_Attempt := 2, rh_HeadSHA := replicate 40 CHR ''f''\<rparr>,
     of_Outcome = empty_outcome\<lparr>ho_Key := ''k''\<rparr>, of_OutcomeToken = replicate 64 CHR ''a''\<rparr>"

definition outcome_ledger :: runtimeOwnerState where
  "outcome_ledger = (done_ledger merged_manifest)\<lparr>s_Recoveries := fmupd ''o/r#7/2''
     \<lparr>rr_IssueGeneration = 3, rr_AttemptGeneration = 1,
      rr_State = zero_pr_state\<lparr>pr_HandoffReceipts := fmupd ''k'' True fmempty\<rparr>\<rparr> fmempty\<rparr>"

lemma sample_outcome_plan:
  "case collectHandoffOutcomePlans sample_env outcome_ledger [outcome_file] of
     Inl e \<Rightarrow> False | Inr (ps, _) \<Rightarrow> map (\<lambda>p. map_option m_Version (rq_Manifest (pl_Request p))) ps = [Some 2]"
  by code_simp

text \<open>
  The outcome of a handoff is never begun.  Whatever the owner's ledger is when it is asked, it
  refuses the request that the planner makes for the recorded outcome of a handoff, with the error of
  a stale result, when the attempt's manifest is of version 2, the only one that is created: the
  request carries no launch token, which the owner requires of every handoff of such an attempt.
\<close>

theorem outcome_never_begun:
  assumes "collectHandoffOutcomePlans env state files = Inr (plans, paths)" "p \<in> set plans"
    "rq_Manifest (pl_Request p) = Some m" "m_Version m = ManifestVersion2"
  shows "applyBeginReconciliationEffect env' now \<lparr>bc_Identity = i, bc_ReviewerSourceRevision = n, bc_Request = pl_Request p\<rparr> =
    Inl StaleStateResult"
  by (rule outcome_stale[OF assms])

theorem outcome_never_begun_witness:
  "\<exists>p paths. collectHandoffOutcomePlans sample_env outcome_ledger [outcome_file] = Inr ([p], paths) \<and>
    applyBeginReconciliationEffect sample_env outcome_ledger
      \<lparr>bc_Identity = pl_Identity p, bc_ReviewerSourceRevision = 0, bc_Request = pl_Request p\<rparr> = Inl StaleStateResult"
proof -
  obtain p m paths where p: "collectHandoffOutcomePlans sample_env outcome_ledger [outcome_file] = Inr ([p], paths)"
    "rq_Manifest (pl_Request p) = Some m" "m_Version m = 2"
    using sample_outcome_plan by (auto split: sum.splits simp: map_eq_Cons_conv)
  then have "m_Version m = ManifestVersion2" by (simp add: ManifestVersion2_def)
  then show ?thesis using outcome_never_begun[OF p(1) _ p(2)] p(1) by auto
qed

section \<open>Requests the owner can accept\<close>

text \<open>What the validated ledger says of an attempt.\<close>

lemma valid_attempts: "validateRuntimeOwnerState env state True \<Longrightarrow> fmpred (valid_attempt env state) (s_Attempts state)"
  by (simp add: validate_parts)

lemma valid_record:
  assumes "fmpred (valid_attempt env state) (s_Attempts state)" "fmlookup (s_Attempts state) k = Some r"
  defines "m \<equiv> a_Manifest r"
  shows "k = ownerAttemptKey (m_Repository m) (m_Issue m) (m_Attempt m)" "m_Repository m = s_Repository state"
    "1 \<le> m_Issue m" "1 \<le> m_Attempt m" "a_Generation r = fm_get (s_AttemptGenerations state) k 0" "a_Generation r \<noteq> 0"
    "validateOwnerManifest env (s_Repository state) m"
proof -
  have v: "valid_attempt env state k r"
    using assms(1,2) by (simp add: fmpred_iff)
  show "k = ownerAttemptKey (m_Repository m) (m_Issue m) (m_Attempt m)" "a_Generation r = fm_get (s_AttemptGenerations state) k 0"
    "a_Generation r \<noteq> 0" "validateOwnerManifest env (s_Repository state) m"
    using v by (auto simp: valid_attempt_def Let_def m_def)
  then show "m_Repository m = s_Repository state" "1 \<le> m_Issue m" "1 \<le> m_Attempt m"
    by (simp_all add: validateOwnerManifest_def)
qed

lemma attempt_request_fields [simp]:
  "rq_Action (attempt_request action m ob) = action" "rq_Repository (attempt_request action m ob) = m_Repository m"
  "rq_Issue (attempt_request action m ob) = m_Issue m" "rq_Attempt (attempt_request action m ob) = m_Attempt m"
  "rq_Manifest (attempt_request action m ob) = Some m"
  by (simp_all add: attempt_request_def observed_request_def)

lemma observation_of_manifest:
  "manifest_observation state m = Some ob \<Longrightarrow> observation_for state (m_Repository m) (m_Issue m) = ob"
  by (simp add: manifest_observation_def observation_for_def fm_get_def)

text \<open>A request about a manifest of the ledger is bound when what its action asks for holds.\<close>

lemma attempt_request_bound:
  assumes "fmpred (valid_attempt env state) (s_Attempts state)" "fmlookup (s_Attempts state) k = Some r" "m = a_Manifest r"
    and "rq_Repository q = m_Repository m" "rq_Issue q = m_Issue m" "rq_Attempt q = m_Attempt m" "rq_Manifest q = Some m"
    and "manifest_observation state m = Some ob" "validReconciliationEffectBindings env q"
    and "attempt_bound env state q m (observedReconciliationAttempt ob (m_Attempt m))"
  shows "validReconciliationEffectStateBindings env state q"
proof -
  note r = valid_record[OF assms(1,2)]
  show ?thesis
    using assms(2-10) r(1,4) observation_of_manifest[OF assms(8)]
    by (simp add: validReconciliationEffectStateBindings_def sameReconciliationManifest_def)
qed

lemma map_filter_mem: "y \<in> set (List.map_filter f xs) \<longleftrightarrow> (\<exists>x \<in> set xs. f x = Some y)"
  by (induction xs) (auto simp: List.map_filter_def)

lemma retirement_bound:
  assumes "fmpred (valid_attempt env state) (s_Attempts state)" "sound_order env" "p \<in> set (planReconciliationRetirements env state)"
  shows "validReconciliationEffectStateBindings env state (pl_Request p)"
proof -
  obtain k r where e: "(k, r) \<in> set (attempt_entries env state)" "plan_retirement env state (k, r) = Some p"
    using assms(3) by (auto simp: planReconciliationRetirements_def map_filter_mem)
  have l: "fmlookup (s_Attempts state) k = Some r" using attempt_entry[OF assms(2) e(1)] .
  note v = valid_record[OF assms(1) l]
  define m where "m = a_Manifest r"
  let ?q = "pl_Request p"
  obtain ob f where o: "manifest_observation state m = Some ob" "observedReconciliationAttempt ob (m_Attempt m) = Some f"
    "retirable state m f"
    and q: "rq_Action ?q = reconciliationRetireCompleted" "rq_Repository ?q = m_Repository m" "rq_Issue ?q = m_Issue m"
      "rq_Attempt ?q = m_Attempt m" "rq_Manifest ?q = Some m"
      "rq_Retire ?q = Some \<lparr>rc_Mode = retire_mode m, rc_HeadSHA = af_HeadSHA f\<rparr>"
    using e(2) by (auto simp: plan_retirement_def Let_def plan_of_def m_def retire_mode_def split: option.splits if_splits)
  show ?thesis
    using q o v m_def
    by (intro attempt_request_bound[OF assms(1) l m_def q(2-5) o(1)])
      (auto simp: validReconciliationEffectBindings_def attempt_bound_def retire_bound_def retirable_def
        reconciliationRetireCompleted_def reconciliation_actions reconciliationMonitoringCheckIn_def)
qed

lemma bind_bound:
  assumes "fmpred (valid_attempt env state) (s_Attempts state)" "sound_order env" "planReconciliationBinds env state cfg = Inr ps" "p \<in> set ps"
  shows "validReconciliationEffectStateBindings env state (pl_Request p)"
proof -
  obtain qs where "plan_each (plan_bind env state cfg) (attempt_entries env state) = Inr qs" "p \<in> set qs"
    using assms(3,4) by (auto simp: planReconciliationBinds_def split: if_splits)
  then obtain k r where e: "(k, r) \<in> set (attempt_entries env state)" "plan_bind env state cfg (k, r) = Inr (Some p)"
    using plan_each_mem by fast
  have l: "fmlookup (s_Attempts state) k = Some r" using attempt_entry[OF assms(2) e(1)] .
  define m where "m = a_Manifest r"
  let ?q = "pl_Request p"
  obtain ob where o: "manifest_observation state m = Some ob" "reconciliationBindMatchesObservation env state ob m = Inr True"
    and q: "rq_Action ?q = reconciliationGitHubBind" "rq_Repository ?q = m_Repository m" "rq_Issue ?q = m_Issue m"
      "rq_Attempt ?q = m_Attempt m" "rq_Manifest ?q = Some m"
      "rq_GitHubBind ?q = Some \<lparr>gb_BaseSHA = m_BaseSHA m, gb_Branch = m_Branch m, gb_Detail = bind_detail m\<rparr>"
    using e(2) by (auto simp: plan_bind_def Let_def plan_of_def m_def split: option.splits if_splits)
  show ?thesis
    using q o observation_of_manifest[OF o(1)]
    by (intro attempt_request_bound[OF assms(1) l m_def q(2-5) o(1)])
      (auto simp: validReconciliationEffectBindings_def attempt_bound_def)
qed

text \<open>
  C37: Planned requests are bound.  In a ledger whose attempts pass the validator every retirement and
  every binding that is planned passes what the owner checks against its ledger before it begins an
  effect: the manifest is the one of the ledger, a retired attempt was completed on GitHub at its
  reviewed head with no review attached or unproved, a bound one is prepared on the observed base.
\<close>

theorem plans_bound:
  assumes "fmpred (valid_attempt env state) (s_Attempts state)" "sound_order env"
    "p \<in> set (planReconciliationRetirements env state) \<or>
     planReconciliationBinds env state cfg = Inr ps \<and> p \<in> set ps"
  shows "validReconciliationEffectStateBindings env state (pl_Request p)"
  using assms retirement_bound bind_bound by blast

lemma done_ledger_valid:
  assumes "m = done_manifest \<or> m = merged_manifest"
  shows "fmpred (valid_attempt sample_env (done_ledger m)) (s_Attempts (done_ledger m))"
proof -
  have k: "ownerAttemptKey ''o/r'' 7 2 = ''o/r#7/2''" by code_simp
  have "validateOwnerManifest sample_env ''o/r'' m" "m_Repository m = ''o/r''" "m_Issue m = 7" "m_Attempt m = 2"
    "m_WorkerProfileDigest m = []" "m_ReviewState m = [] \<or> m_ReviewRunCleaned m"
    using assms done_manifest_valid merged_manifest_valid
    by (auto simp: done_manifest_def merged_manifest_def empty_manifest_def)
  then show ?thesis
    by (auto simp: valid_attempt_def done_ledger_def planned_ledger_def small_defs upserted_record_def k
        review_identified_def)
qed

lemma sample_sound: "sound_order sample_env"
  by (simp add: sound_order_def sample_env_def)

lemma sample_retirement:
  "map (rq_Action \<circ> pl_Request) (planReconciliationRetirements sample_env (done_ledger merged_manifest)) =
     [reconciliationRetireCompleted]"
  by code_simp

theorem plans_bound_witness:
  "\<exists>p :: reconciliationPlannedEffect. rq_Action (pl_Request p) = reconciliationRetireCompleted \<and>
    validReconciliationEffectStateBindings sample_env (done_ledger merged_manifest) (pl_Request p)"
proof -
  obtain p where p: "planReconciliationRetirements sample_env (done_ledger merged_manifest) = [p]"
    "rq_Action (pl_Request p) = reconciliationRetireCompleted"
    using sample_retirement by (auto simp: map_eq_Cons_conv)
  have "p \<in> set (planReconciliationRetirements sample_env (done_ledger merged_manifest)) \<or>
      planReconciliationBinds sample_env (done_ledger merged_manifest) zero_config = Inr [] \<and> p \<in> set []"
    by (simp add: p(1))
  from plans_bound[OF done_ledger_valid[OF disjI2[OF refl]] sample_sound this] p(2) show ?thesis by blast
qed

section \<open>Reviews of an older base\<close>

text \<open>
  The review of an implementation that is planned has the base its manifest names, the head of the
  default branch when the attempt was prepared; the owner compares it with the head of that branch in
  its observation.
\<close>

lemma review_plan_request:
  assumes "planReconciliationReviewers env px state candidates = Inr (plans, material)" "p \<in> set plans"
  obtains v where "rq_Action (pl_Request p) = reconciliationReviewer" "rq_Reviewer (pl_Request p) = Some v"
proof -
  obtain qs where "plan_each (plan_reviewer env px state (map_of (map (\<lambda>x. (reviewer_key x, x)) candidates)))
      (attempt_entries env state) = Inr qs" "p \<in> set (map fst qs)"
    using assms by (auto simp: planReconciliationReviewers_def split: if_splits)
  then obtain k r j x where e: "plan_reviewer env px state (map_of (map (\<lambda>x. (reviewer_key x, x)) candidates)) (k, r) =
      Inr (Some (p, j, x))"
    using plan_each_mem by fastforce
  then have "rq_Action (pl_Request p) = reconciliationReviewer \<and> rq_Reviewer (pl_Request p) \<noteq> None"
    by (auto simp: plan_reviewer_def Let_def plan_of_def split: option.splits if_splits)
  then show thesis using that by blast
qed

lemma review_base_unbound:
  assumes "rq_Action q = reconciliationReviewer" "rq_Reviewer q = Some v" "rv_Phase v \<noteq> ''cleanup''" "rv_Mode v \<noteq> ReviewModePlan"
    and "rv_BaseSHA v \<noteq> fi_BaseSHA (ob_Fact (observation_for state (rq_Repository q) (rq_Issue q)))"
  shows "\<not> validReconciliationEffectStateBindings env state q"
  using assms
  by (auto simp: validReconciliationEffectStateBindings_def attempt_bound_def reviewer_bound_def review_target_bound_def
      reconciliation_actions reconciliationGitHubIssueUpdate_def reconciliationMonitoringCheckIn_def Let_def
      split: option.splits)

text \<open>
  C40: A review of an older base is never begun.  When the default branch has moved since an attempt was
  prepared, the owner refuses the review of its implementation that the planner makes, in whatever
  ledger holds that observation; no effect is begun and the ledger stays as it is.
\<close>

theorem moved_base_never_reviewed:
  assumes "planReconciliationReviewers env px state candidates = Inr (plans, material)" "p \<in> set plans"
    "rq_Reviewer (pl_Request p) = Some v" "rv_Phase v = ''run-observe''" "rv_Mode v = ReviewModeImplementation"
    "fi_BaseSHA (ob_Fact (observation_for now (rq_Repository (pl_Request p)) (rq_Issue (pl_Request p)))) \<noteq> rv_BaseSHA v"
  shows "\<exists>e. applyBeginReconciliationEffect env' now
      \<lparr>bc_Identity = i, bc_ReviewerSourceRevision = n, bc_Request = pl_Request p\<rparr> = Inl e"
proof -
  let ?q = "pl_Request p"
  have a: "rq_Action ?q = reconciliationReviewer" using review_plan_request[OF assms(1,2)] by blast
  have "\<not> validReconciliationEffectStateBindings env' now ?q"
    using review_base_unbound[OF a assms(3)] assms(4-6) by (simp add: ReviewModePlan_def ReviewModeImplementation_def)
  then have "begin_admission_refused env' now ?q \<noteq> None"
    by (simp add: begin_admission_refused_def Let_def)
  then have "begin_refused env' now \<lparr>bc_Identity = i, bc_ReviewerSourceRevision = n, bc_Request = ?q\<rparr> \<noteq> None"
    by (auto simp: begin_refused_def Let_def split: option.splits)
  then show ?thesis by (auto simp: applyBeginReconciliationEffect_def Let_def)
qed

definition outdated_candidate :: reviewerExecutionMaterial where
  "outdated_candidate = no_reviewer\<lparr>xr_Issue := (expandIssueFact observed_fact)\<lparr>if_Attempt := 2\<rparr>, xr_HeadSHA := replicate 40 CHR ''f''\<rparr>"

lemma sample_review_plan:
  "case planReconciliationReviewers sample_env sample_planner (done_ledger done_manifest) [outdated_candidate] of
     Inl e \<Rightarrow> False
   | Inr (ps, _) \<Rightarrow> map (\<lambda>p. map_option (\<lambda>v. (rv_Phase v, rv_Mode v,
         fi_BaseSHA (ob_Fact (observation_for (done_ledger done_manifest) (rq_Repository (pl_Request p)) (rq_Issue (pl_Request p))))
           = rv_BaseSHA v)) (rq_Reviewer (pl_Request p))) ps =
       [Some (''run-observe'', ReviewModeImplementation, False)]"
  by code_simp

theorem moved_base_never_reviewed_witness:
  "\<exists>p material e. planReconciliationReviewers sample_env sample_planner (done_ledger done_manifest) [outdated_candidate] =
      Inr ([p], material) \<and>
    applyBeginReconciliationEffect sample_env (done_ledger done_manifest)
      \<lparr>bc_Identity = pl_Identity p, bc_ReviewerSourceRevision = 0, bc_Request = pl_Request p\<rparr> = Inl e"
proof -
  obtain p v material where p: "planReconciliationReviewers sample_env sample_planner (done_ledger done_manifest)
      [outdated_candidate] = Inr ([p], material)" "rq_Reviewer (pl_Request p) = Some v" "rv_Phase v = ''run-observe''"
    "rv_Mode v = ReviewModeImplementation" "fi_BaseSHA (ob_Fact (observation_for (done_ledger done_manifest)
      (rq_Repository (pl_Request p)) (rq_Issue (pl_Request p)))) \<noteq> rv_BaseSHA v"
    using sample_review_plan by (auto split: sum.splits simp: map_eq_Cons_conv)
  then show ?thesis using moved_base_never_reviewed[OF p(1) _ p(2-5)] by auto
qed

end
