(* ===== verification/Lifecycle_Plan.thy ===== *)
theory Lifecycle_Plan
  imports Update_Planners
begin

text \<open>
  Which attempt a cycle prepares, starts or monitors (\<^verbatim>\<open>planRuntimeLifecycle\<close> and its helpers in
  \<^verbatim>\<open>production_cycle_v2.go\<close>): the scheduler decides on the observed facts, a number is chosen for a new
  attempt, and its identity, command and prompt are put together (\<^verbatim>\<open>main.go\<close>, \<^verbatim>\<open>internal/config\<close>,
  \<^verbatim>\<open>internal/runtime/effects.go\<close>).  The attempt root of the environment is canonical: \<^verbatim>\<open>AttemptIdentity\<close>
  resolves its symbolic links.  Attempt numbers are integers; the search for a free one ends where the
  largest \<^verbatim>\<open>int\<close> would be passed.
\<close>

section \<open>Attempts and their commands\<close>

record Attempt =
  tt_Repository :: "string"
  tt_Issue :: "int"
  tt_Number :: "int"
  tt_BaseSHA :: "string"
  tt_Context :: "string"
  tt_Command :: "string list"
  tt_Interactive :: "bool"

record runtimeLifecyclePlan =
  lp_Action :: "string"
  lp_Attempt :: "Attempt"
  lp_Manifest :: "Manifest"

record cycle_config =
  cy_Repository :: "string"
  cy_Concurrency :: "int"
  cy_Implementation :: "string list"

definition workspaceTrustConfig :: string where
  \<open>workspaceTrustConfig = ''projects={"{managed_workspace}"={trust_level="untrusted"}}''\<close>

definition workerPermissions :: string where
  \<open>workerPermissions = ''permissions.agent-symphony-worker={filesystem={":root"="deny",":minimal"="read",'' @
     ''":tmpdir"="deny",":slash_tmp"="deny",":workspace_roots"={"."="write",".git"="write",".agent-symphony"="write",'' @
     ''".codex"="deny",".agents"="deny"}},network={enabled=false}}''\<close>

definition workerEnvironment :: string where
  \<open>workerEnvironment = ''shell_environment_policy={inherit="all",include_only=["^(PATH|TMPDIR|XDG_CACHE_HOME|GOCACHE|'' @
     ''npm_config_cache|LANG|LC_ALL|TERM|COLORTERM|NO_COLOR|CODEX_HOME|AGENT_SYMPHONY_IMPLEMENTATION_RESULT|'' @
     ''AGENT_SYMPHONY_STATUS_REQUEST|AGENT_SYMPHONY_WORKER_GENERATION|AGENT_SYMPHONY_WORKER_LAUNCH_ID|'' @
     ''AGENT_SYMPHONY_REVIEW_RESULT)$"]}''\<close>

definition workerSafetyArgs :: "string list" where
  \<open>workerSafetyArgs =
     [''--strict-config'', ''--ask-for-approval'', ''never'', ''-c'', workspaceTrustConfig, ''-c'',
      ''default_permissions="agent-symphony-worker"'', ''-c'', workerPermissions, ''-c'', workerEnvironment, ''-c'',
      ''web_search="disabled"'', ''-c'', ''skills.bundled.enabled=false''] @
     concat (map (\<lambda>feature. [''--disable'', feature])
       [''apps'', ''browser_use'', ''browser_use_external'', ''computer_use'', ''hooks'', ''image_generation'',
        ''in_app_browser'', ''multi_agent'', ''multi_agent_v2'', ''plugins'', ''skill_mcp_dependency_install'',
        ''skill_search''])\<close>

definition defaultWorkerCommand :: "bool \<Rightarrow> string list" where
  "defaultWorkerCommand interactive =
     [''codex''] @ workerSafetyArgs @ [''exec'', ''--ignore-user-config'', ''--ignore-rules'', ''--ephemeral''] @
     (if interactive then [] else [''-''])"

definition interactiveImplementationCommand :: "string list \<Rightarrow> string list \<times> bool" where
  "interactiveImplementationCommand command =
     (case command of
        [] \<Rightarrow> (command, False)
      | name # args \<Rightarrow>
          if path_base name = ''codex'' \<and>
            (args = [''exec'', ''--dangerously-bypass-approvals-and-sandbox'', ''-''] \<or>
             args = tl (defaultWorkerCommand False))
          then (name # tl (defaultWorkerCommand True), True)
          else (command, False))"

definition completion_contract :: "bool \<Rightarrow> string" where
  "completion_contract interactive =
     (if interactive
      then ''Before exiting, write exactly one JSON line of at most 64 KiB with nonempty validation and documentation '' @
        ''evidence to the existing private file named by AGENT_SYMPHONY_IMPLEMENTATION_RESULT. Write the file in place '' @
        ''without replacing it. Terminal output is operator-visible conversation, not the result artifact.''
      else ''Make stdout exactly one JSON line of at most 64 KiB with nonempty validation and documentation evidence; '' @
        ''progress and diagnostics belong on stderr. Agent Symphony captures stdout outside the worktree. Do not wrap it '' @
        ''in Markdown fences or emit another stdout object.'')"

definition implementationPrompt :: "RecoveryIssueFact \<Rightarrow> string \<Rightarrow> string \<Rightarrow> string \<Rightarrow> bool \<Rightarrow> string" where
  \<open>implementationPrompt issue branch worktree session interactive =
     ''Project: '' @ if_Repository issue @ LF @ ''Issue: #'' @ itoa (if_Issue issue) @ LF @ ''Attempt: '' @
     itoa (if_Attempt issue) @ LF @ ''Base branch: '' @ if_BaseBranch issue @ LF @ ''Branch: '' @ branch @ LF @
     ''Worktree: '' @ worktree @ LF @ ''Session: '' @ session @ LF @ LF @ if_Body issue @ LF @ LF @
     ''GitHub and runtime-state mutations are owner-only. Do not use gh, GitHub credentials, coordinator control '' @
     ''sockets, or paths outside this disposable workspace. To request needs-attention or clear it while running, '' @
     ''atomically replace the path in AGENT_SYMPHONY_STATUS_REQUEST with a 0600 regular file containing one JSON '' @
     ''object: {"type":"agent-symphony-status-v1","generation":<decimal from AGENT_SYMPHONY_WORKER_GENERATION>,'' @
     ''"launch_id":"<exact AGENT_SYMPHONY_WORKER_LAUNCH_ID>","sequence":<increasing positive integer>,'' @
     ''"status":"needs-attention|clear","reason":"specific nonempty reason"}. The owner validates and applies the '' @
     ''request.'' @ LF @ LF @ ''Completion contract: '' @ completion_contract interactive @ LF @
     ''{"type":"agent-symphony-result-v1","validation":"tests run and results","documentation":"documentation '' @
     ''impact or none"}''\<close>

text \<open>\<open>identity\<close> is the branch, worktree and session of a manifest that exists already.\<close>

definition runtimeLaunchAttempt ::
  "Env \<Rightarrow> cycle_config \<Rightarrow> RecoveryIssueFact \<Rightarrow> (string \<times> string \<times> string) option \<Rightarrow> Attempt owner_result" where
  "runtimeLaunchAttempt env cfg issue existing =
     (let (command, interactive) = interactiveImplementationCommand (cy_Implementation cfg) in
      err_bind (case existing of
          Some i \<Rightarrow> Inr i
        | None \<Rightarrow>
            (case attemptIdentity (v_sha env) (v_AttemptRoot env) (if_Repository issue) (if_Issue issue) (if_Attempt issue)
                (if_BaseSHA issue) of
               None \<Rightarrow> Inl (OtherError ''invalid attempt identity or base SHA'')
             | Some i \<Rightarrow> Inr (ri_Branch i, ri_Worktree i, ri_Session i))) (\<lambda>(branch, worktree, session).
      err_bind (ExpandManagedWorkspace env command worktree) (\<lambda>expanded.
        Inr \<lparr>tt_Repository = if_Repository issue, tt_Issue = if_Issue issue, tt_Number = if_Attempt issue,
             tt_BaseSHA = if_BaseSHA issue, tt_Context = implementationPrompt issue branch worktree session interactive,
             tt_Command = expanded, tt_Interactive = interactive\<rparr>)))"

definition PreparingManifest :: "Env \<Rightarrow> Planner \<Rightarrow> Attempt \<Rightarrow> time \<Rightarrow> Manifest owner_result" where
  "PreparingManifest env px a now =
     (case attemptIdentity (v_sha env) (v_AttemptRoot env) (tt_Repository a) (tt_Issue a) (tt_Number a) (tt_BaseSHA a) of
        None \<Rightarrow> Inl (OtherError ''invalid attempt identity or base SHA'')
      | Some i \<Rightarrow>
          if \<not> path_is_abs (v_StateRoot env) \<or> path_clean (v_StateRoot env) \<noteq> v_StateRoot env
          then Inl (OtherError ''runtime state root must be canonical and absolute'')
          else
            (case px_token px (ownerAttemptKey (tt_Repository a) (tt_Issue a) (tt_Number a)) of
               None \<Rightarrow> Inl (OtherError ''launch token is unavailable'')
             | Some token \<Rightarrow>
                 let m = empty_manifest\<lparr>m_Version := ManifestVersion2, m_LaunchToken := token,
                     m_Repository := tt_Repository a, m_Issue := tt_Issue a, m_Attempt := tt_Number a,
                     m_Branch := ri_Branch i, m_Worktree := ri_Worktree i, m_Session := ri_Session i,
                     m_BaseSHA := tt_BaseSHA a,
                     m_LogPath := path_join [v_StateRoot env, ''attempts'', RepositoryIdentifier (v_sha env) (tt_Repository a),
                       itoa (tt_Issue a) @ ''-'' @ itoa (tt_Number a), ''agent.log''],
                     m_State := ''preparing'', m_Interactive := tt_Interactive a, m_CreatedAt := now, m_UpdatedAt := now\<rparr> in
                 if \<not> ValidateManifest (v_sha env) (v_AttemptRoot env) (v_StateRoot env) m
                 then Inl (OtherError ''manifest is invalid'') else Inr m))"

section \<open>The number of a new attempt\<close>

definition attempt_reserved :: "runtimeOwnerState \<Rightarrow> string \<Rightarrow> int \<Rightarrow> int \<Rightarrow> bool" where
  "attempt_reserved state repository issue n \<longleftrightarrow>
     (let k = ownerAttemptKey repository issue n in
      fm_get (s_AttemptGenerations state) k 0 \<noteq> 0 \<or> fm_has (s_Attempts state) k \<or> fm_has (s_Tombstones state) k)"

fun unreserved_from :: "nat \<Rightarrow> runtimeOwnerState \<Rightarrow> string \<Rightarrow> int \<Rightarrow> int \<Rightarrow> int option" where
  "unreserved_from 0 state repository issue n = None"
| "unreserved_from (Suc fuel) state repository issue n =
     (if max_int < n then None
      else if \<not> attempt_reserved state repository issue n then Some n
      else unreserved_from fuel state repository issue (n + 1))"

text \<open>
  As many steps as there are keys, and one more: enough by \<open>unreserved_found\<close>.  A number beyond the last
  Go int is negative in the code, which ends its loop without a number.
\<close>

definition reserved_bound :: "runtimeOwnerState \<Rightarrow> nat" where
  "reserved_bound state =
     Suc (fcard (fmdom (s_AttemptGenerations state)) + fcard (fmdom (s_Attempts state)) + fcard (fmdom (s_Tombstones state)))"

definition firstUnreservedAttempt :: "runtimeOwnerState \<Rightarrow> string \<Rightarrow> int \<Rightarrow> int \<Rightarrow> int" where
  "firstUnreservedAttempt state repository issue proposed =
     (if proposed \<le> 0 then 0
      else case unreserved_from (reserved_bound state) state repository issue proposed of None \<Rightarrow> 0 | Some n \<Rightarrow> n)"

section \<open>The plan\<close>

definition currentReconciliationObservation :: "runtimeOwnerState \<Rightarrow> string \<Rightarrow> reconciliationObservation \<Rightarrow> bool" where
  "currentReconciliationObservation state k ob \<longleftrightarrow>
     ob_Present ob \<and> ob_OwnerGeneration ob \<noteq> 0 \<and> ob_OwnerGeneration ob = fm_get (s_IssueGenerations state) k 0 \<and>
     ob_ObservationEpoch ob = s_Epoch state"

definition pendingAttemptEffect :: "runtimeOwnerState \<Rightarrow> string \<Rightarrow> bool" where
  "pendingAttemptEffect state k \<longleftrightarrow>
     fm_ex (\<lambda>_ e. e_State e = ''pending'' \<and> ownerAttemptKey (e_Repository e) (e_Issue e) (e_Attempt e) = k) (s_Effects state)"

definition observed_schedule_issue :: "reconciliationObservation \<Rightarrow> Issue" where
  "observed_schedule_issue ob =
     (let f = ob_Fact ob in
      \<lparr>i_Repository = fi_Repository f, i_Number = fi_Issue f, i_Priority = fi_Priority f,
       i_CreatedAt = created_at (fi_CreatedAtUnixNano f), i_Dependencies = fi_Dependencies f,
       i_SatisfiedDependencies = fi_SatisfiedDependencies f, i_Paths = fi_Paths f, i_Eligible = fi_Eligible f,
       i_Blockers = fi_Blockers f, i_Active = fi_Active f, i_Completed = fi_Completed f, i_Cancelled = fi_Cancelled f\<rparr>)"

definition current_entries :: "Env \<Rightarrow> runtimeOwnerState \<Rightarrow> (string \<times> reconciliationObservation) list" where
  "current_entries env state =
     filter (\<lambda>(k, ob). currentReconciliationObservation state k ob) (fm_entries (v_order env) (s_Observations state))"

definition lifecycle_decisions :: "Env \<Rightarrow> cycle_config \<Rightarrow> runtimeOwnerState \<Rightarrow> Decision list" where
  "lifecycle_decisions env cfg state =
     (case Schedule (env_orders env) (map (\<lambda>(_, ob). observed_schedule_issue ob) (current_entries env state))
         \<lparr>c_Global = cy_Concurrency cfg, c_Repositories = []\<rparr> of
        None \<Rightarrow> [] | Some ds \<Rightarrow> ds)"

definition runnable_key :: "Decision list \<Rightarrow> string \<Rightarrow> bool" where
  "runnable_key decisions k \<longleftrightarrow>
     list_ex (\<lambda>d. ownerIssueKey (d_Repository d) (d_Number d) = k \<and> d_State d = Runnable) decisions"

definition live_fact :: "reconciliationAttemptFact option \<Rightarrow> bool" where
  "live_fact observed \<longleftrightarrow> (case observed of None \<Rightarrow> False | Some f \<Rightarrow> remotely_live (af_State f))"

definition owned_attempt :: "runtimeOwnerState \<Rightarrow> string \<Rightarrow> bool" where
  "owned_attempt state k \<longleftrightarrow>
     (case fmlookup (s_Attempts state) k of None \<Rightarrow> False | Some r \<Rightarrow> current_record state k r)"

definition proposed_number :: "RecoveryIssueFact \<Rightarrow> int" where
  "proposed_number issue = (case if_ActiveAttempt issue of None \<Rightarrow> if_Attempt issue | Some a \<Rightarrow> af_Attempt a)"

text \<open>The number of the attempt to look at; below one, there is none.\<close>

definition lifecycle_number ::
  "Env \<Rightarrow> runtimeOwnerState \<Rightarrow> reconciliationObservation \<Rightarrow> RecoveryIssueFact \<Rightarrow> int owner_result" where
  "lifecycle_number env state ob issue =
     (let n = proposed_number issue in
      if n < 1 then Inr 0
      else if live_fact (observedReconciliationAttempt ob n) \<or>
        owned_attempt state (ownerAttemptKey (if_Repository issue) (if_Issue issue) n) then Inr n
      else err_bind (currentPreparingReplacement env state ob n) (\<lambda>replacement.
        Inr (if 0 < replacement then replacement
          else firstUnreservedAttempt state (if_Repository issue) (if_Issue issue) n)))"

definition plan_prepare ::
  "Env \<Rightarrow> Planner \<Rightarrow> cycle_config \<Rightarrow> time \<Rightarrow> runtimeOwnerState \<Rightarrow> bool \<Rightarrow> reconciliationAttemptFact option \<Rightarrow>
   RecoveryIssueFact \<Rightarrow> int \<Rightarrow> runtimeLifecyclePlan option owner_result" where
  "plan_prepare env px cfg now state runnable observed issue0 n =
     (let k = ownerAttemptKey (if_Repository issue0) (if_Issue issue0) n in
      if \<not> runnable \<and> \<not> live_fact observed \<or> fm_get (s_AttemptGenerations state) k 0 \<noteq> 0 then Inr None
      else
        let issue = issue0\<lparr>if_Attempt := n,
            if_BaseSHA := (case observed of None \<Rightarrow> if_BaseSHA issue0 | Some f \<Rightarrow> af_BaseSHA f)\<rparr> in
        err_bind (runtimeLaunchAttempt env cfg issue None) (\<lambda>a.
        err_bind (PreparingManifest env px a now) (\<lambda>m.
          Inr (Some \<lparr>lp_Action = EffectPrepare, lp_Attempt = a, lp_Manifest = m\<rparr>))))"

definition bare_attempt :: "Manifest \<Rightarrow> Attempt" where
  "bare_attempt m = \<lparr>tt_Repository = m_Repository m, tt_Issue = m_Issue m, tt_Number = m_Attempt m,
     tt_BaseSHA = m_BaseSHA m, tt_Context = [], tt_Command = [], tt_Interactive = False\<rparr>"

definition plan_start ::
  "Env \<Rightarrow> cycle_config \<Rightarrow> reconciliationObservation \<Rightarrow> RecoveryIssueFact \<Rightarrow> Manifest \<Rightarrow>
   runtimeLifecyclePlan option owner_result" where
  "plan_start env cfg ob issue0 m =
     (case observedReconciliationAttempt ob (m_Attempt m) of
        None \<Rightarrow> Inr None
      | Some f \<Rightarrow>
          if m_Version m \<noteq> ManifestVersion2 \<or> af_BaseSHA f \<noteq> m_BaseSHA m \<or> \<not> remotely_live (af_State f) then Inr None
          else
            err_bind (runtimeLaunchAttempt env cfg (issue0\<lparr>if_Attempt := m_Attempt m, if_BaseSHA := m_BaseSHA m\<rparr>)
                (Some (m_Branch m, m_Worktree m, m_Session m))) (\<lambda>a.
              Inr (Some \<lparr>lp_Action = EffectStart, lp_Attempt = a, lp_Manifest = m\<rparr>)))"

definition plan_owned ::
  "Env \<Rightarrow> cycle_config \<Rightarrow> reconciliationObservation \<Rightarrow> RecoveryIssueFact \<Rightarrow> Manifest \<Rightarrow>
   runtimeLifecyclePlan option owner_result" where
  "plan_owned env cfg ob issue m =
     (if m_State m = ''preparing'' then plan_start env cfg ob issue m
      else if m_State m = ''running'' \<and> m_Version m = ManifestVersion2
      then Inr (Some \<lparr>lp_Action = EffectMonitor, lp_Attempt = bare_attempt m, lp_Manifest = m\<rparr>)
      else Inr None)"

definition raw_issue_for ::
  "Env \<Rightarrow> (string \<rightharpoonup> RecoveryIssueFact) \<Rightarrow> string \<Rightarrow> reconciliationObservation \<Rightarrow> RecoveryIssueFact option" where
  "raw_issue_for env raws k ob =
     (case raws k of
        None \<Rightarrow> None
      | Some raw \<Rightarrow>
          if digestText env (if_Body raw) \<noteq> fi_BodyDigest (ob_Fact ob) then None
          else Some ((expandIssueFact (ob_Fact ob))\<lparr>if_Body := if_Body raw\<rparr>))"

definition plan_issue ::
  "Env \<Rightarrow> Planner \<Rightarrow> cycle_config \<Rightarrow> time \<Rightarrow> runtimeOwnerState \<Rightarrow> Decision list \<Rightarrow> (string \<rightharpoonup> RecoveryIssueFact) \<Rightarrow>
   string \<times> reconciliationObservation \<Rightarrow> runtimeLifecyclePlan option owner_result" where
  "plan_issue env px cfg now state decisions raws = (\<lambda>(k, ob).
     if \<not> fi_DispatchAuthorized (ob_Fact ob) then Inr None
     else (case raw_issue_for env raws k ob of
         None \<Rightarrow> Inr None
       | Some issue \<Rightarrow>
           err_bind (lifecycle_number env state ob issue) (\<lambda>n.
             let ak = ownerAttemptKey (if_Repository issue) (if_Issue issue) n in
             if n < 1 \<or> fm_has (s_Tombstones state) ak \<or> pendingAttemptEffect state ak then Inr None
             else (case fmlookup (s_Attempts state) ak of
                 None \<Rightarrow>
                   plan_prepare env px cfg now state (runnable_key decisions k) (observedReconciliationAttempt ob n) issue n
               | Some r \<Rightarrow> if \<not> current_record state ak r then Inr None else plan_owned env cfg ob issue (a_Manifest r)))))"

definition compare_lifecycle :: "runtimeLifecyclePlan \<Rightarrow> runtimeLifecyclePlan \<Rightarrow> int" where
  "compare_lifecycle a b =
     (let l = lp_Manifest a; r = lp_Manifest b in
      if compare_ord (m_Issue l) (m_Issue r) \<noteq> 0 then compare_ord (m_Issue l) (m_Issue r)
      else if compare_ord (m_Attempt l) (m_Attempt r) \<noteq> 0 then compare_ord (m_Attempt l) (m_Attempt r)
      else compare_ord (lp_Action a) (lp_Action b))"

definition planRuntimeLifecycle ::
  "Env \<Rightarrow> Planner \<Rightarrow> cycle_config \<Rightarrow> time \<Rightarrow> runtimeOwnerState \<Rightarrow> uint64 \<Rightarrow> reconciliationV2Batch \<Rightarrow>
   runtimeLifecyclePlan list owner_result" where
  "planRuntimeLifecycle env px cfg now state cycleID batch =
     (let issues = ni_Issues (vb_Input batch) in
      if s_Repository state = [] \<or> s_Repository state \<noteq> cy_Repository cfg \<or> cycleID \<noteq> 0 \<or> now = 0
      then Inl (OtherError ''runtime lifecycle input is invalid'')
      else if \<not> distinct (map issue_key_of issues) then Inl StateConflict
      else err_bind (plan_each (plan_issue env px cfg now state (lifecycle_decisions env cfg state)
          (map_of (map (\<lambda>f. (issue_key_of f, f)) issues))) (current_entries env state))
        (\<lambda>ps. Inr (sort_func compare_lifecycle ps)))"

end
