(* ===== verification/Lifecycle_Properties.thy ===== *)
theory Lifecycle_Properties
  imports Planner_Properties Lifecycle_Plan
begin

text \<open>
  What the planner of the runtime lifecycle promises: the number of a new attempt is the least one
  that was never used, a plan is made only for an attempt that is in the state its action needs, at
  most one for every issue, and new attempts stay within the capacity that GitHub shows to be free.
\<close>

section \<open>The number of a new attempt\<close>

definition ledger_keys :: "runtimeOwnerState \<Rightarrow> string fset" where
  "ledger_keys state = fmdom (s_AttemptGenerations state) |\<union>| fmdom (s_Attempts state) |\<union>| fmdom (s_Tombstones state)"

lemma reserved_key: "attempt_reserved state repository issue n \<Longrightarrow> ownerAttemptKey repository issue n |\<in>| ledger_keys state"
  by (auto simp: attempt_reserved_def ledger_keys_def Let_def fm_get_def fm_has_def fmlookup_dom_iff split: option.splits)

lemma unreserved_from_Some:
  "unreserved_from fuel state repository issue n = Some k \<Longrightarrow>
   n \<le> k \<and> k \<le> max_int \<and> \<not> attempt_reserved state repository issue k \<and>
   (\<forall>m. n \<le> m \<and> m < k \<longrightarrow> attempt_reserved state repository issue m)"
proof (induction fuel arbitrary: n)
  case (Suc fuel)
  show ?case
  proof (cases "attempt_reserved state repository issue n \<and> n \<le> max_int")
    case True
    then have "unreserved_from fuel state repository issue (n + 1) = Some k" using Suc.prems by simp
    from Suc.IH[OF this] have ih: "n + 1 \<le> k" "k \<le> max_int" "\<not> attempt_reserved state repository issue k"
      "\<forall>m. n + 1 \<le> m \<and> m < k \<longrightarrow> attempt_reserved state repository issue m" by blast+
    moreover have "attempt_reserved state repository issue m" if "n \<le> m" "m < k" for m
      using that True ih(4) by (cases "m = n") auto
    ultimately show ?thesis by auto
  next
    case False
    then show ?thesis using Suc.prems by (auto split: if_splits)
  qed
qed simp

lemma unreserved_from_None:
  "unreserved_from fuel state repository issue n = None \<Longrightarrow> n \<le> m \<Longrightarrow> m < n + int fuel \<Longrightarrow> m \<le> max_int \<Longrightarrow>
   attempt_reserved state repository issue m"
proof (induction fuel arbitrary: n)
  case (Suc fuel)
  show ?case
  proof (cases "n = m")
    case False
    then show ?thesis using Suc.IH[of "n + 1"] Suc.prems by (auto split: if_splits)
  qed (use Suc.prems in \<open>auto split: if_splits\<close>)
qed simp

lemma unreserved_found:
  assumes "\<And>m. n \<le> m \<Longrightarrow> m < n + int (reserved_bound state) \<Longrightarrow> attempt_reserved state repository issue m"
  shows False
proof -
  let ?key = "\<lambda>i. ownerAttemptKey repository issue (n + int i)"
  have "?key ` {..< reserved_bound state} \<subseteq> fset (ledger_keys state)"
    using assms reserved_key by fastforce
  moreover have "inj_on ?key {..< reserved_bound state}"
    by (auto intro: inj_onI simp: ownerAttemptKey_inj)
  ultimately have "reserved_bound state \<le> fcard (ledger_keys state)"
    using card_inj_on_le[of ?key "{..< reserved_bound state}" "fset (ledger_keys state)"] by (simp add: fcard.rep_eq)
  moreover have "fcard (ledger_keys state) < reserved_bound state"
    unfolding ledger_keys_def reserved_bound_def
    using card_Un_le[of "fset (fmdom (s_AttemptGenerations state))" "fset (fmdom (s_Attempts state))"]
      card_Un_le[of "fset (fmdom (s_AttemptGenerations state)) \<union> fset (fmdom (s_Attempts state))" "fset (fmdom (s_Tombstones state))"]
    by (simp add: fcard.rep_eq)
  ultimately show False by simp
qed

lemma firstUnreserved_least:
  assumes "1 \<le> proposed" "firstUnreservedAttempt state repository issue proposed = n" "n \<noteq> 0"
  shows "proposed \<le> n \<and> n \<le> max_int \<and> \<not> attempt_reserved state repository issue n \<and>
    (\<forall>m. proposed \<le> m \<and> m < n \<longrightarrow> attempt_reserved state repository issue m)"
  using assms unreserved_from_Some[of "reserved_bound state" state repository issue proposed n]
  by (auto simp: firstUnreservedAttempt_def split: option.splits if_splits)

lemma firstUnreserved_exhausted:
  assumes "1 \<le> proposed" "firstUnreservedAttempt state repository issue proposed = 0" "proposed \<le> m" "m \<le> max_int"
  shows "attempt_reserved state repository issue m"
proof -
  have none: "unreserved_from (reserved_bound state) state repository issue proposed = None"
    using assms(1,2) unreserved_from_Some[of "reserved_bound state" state repository issue proposed 0]
    by (auto simp: firstUnreservedAttempt_def split: option.splits)
  show ?thesis
  proof (cases "m < proposed + int (reserved_bound state)")
    case False
    have "attempt_reserved state repository issue j" if "proposed \<le> j" "j < proposed + int (reserved_bound state)" for j
      using unreserved_from_None[OF none that] that(2) False assms(4) by linarith
    then show ?thesis using unreserved_found by blast
  qed (rule unreserved_from_None[OF none assms(3) _ assms(4)])
qed

section \<open>Where a plan comes from\<close>

text \<open>The record of the ledger that a plan starts or watches.\<close>

definition watched :: "runtimeOwnerState \<Rightarrow> string \<Rightarrow> reconciliationObservation \<Rightarrow> runtimeLifecyclePlan \<Rightarrow> bool" where
  "watched state k ob p \<longleftrightarrow>
     (\<exists>r. fmlookup (s_Attempts state) k = Some r \<and> a_Manifest r = lp_Manifest p \<and>
       m_Version (lp_Manifest p) = ManifestVersion2 \<and>
       (lp_Action p = EffectMonitor \<and> m_State (lp_Manifest p) = ''running'' \<or>
        lp_Action p = EffectStart \<and> m_State (lp_Manifest p) = ''preparing'' \<and>
        (\<exists>f. observedReconciliationAttempt ob (m_Attempt (lp_Manifest p)) = Some f \<and> remotely_live (af_State f) \<and>
          af_BaseSHA f = m_BaseSHA (lp_Manifest p))))"

lemma launch_attempt_fields:
  "runtimeLaunchAttempt env cfg issue existing = Inr a \<Longrightarrow>
   tt_Repository a = if_Repository issue \<and> tt_Issue a = if_Issue issue \<and> tt_Number a = if_Attempt issue \<and>
   tt_BaseSHA a = if_BaseSHA issue"
  by (auto simp: runtimeLaunchAttempt_def Let_def split: prod.splits)

lemma preparing_manifest_fields:
  assumes "PreparingManifest env px a now = Inr m"
  shows "m_Repository m = tt_Repository a" "m_Issue m = tt_Issue a" "m_Attempt m = tt_Number a"
    "m_State m = ''preparing''" "m_Version m = ManifestVersion2" "m_BaseSHA m = tt_BaseSHA a"
    "ValidateManifest (v_sha env) (v_AttemptRoot env) (v_StateRoot env) m"
  using assms by (auto simp: PreparingManifest_def Let_def split: option.splits if_splits)

lemma plan_prepare_fields:
  assumes "plan_prepare env px cfg now state runnable observed issue n = Inr (Some p)"
  shows "lp_Action p = EffectPrepare" "m_Repository (lp_Manifest p) = if_Repository issue"
    "m_Issue (lp_Manifest p) = if_Issue issue" "m_Attempt (lp_Manifest p) = n" "runnable \<or> live_fact observed"
    "fm_get (s_AttemptGenerations state) (ownerAttemptKey (if_Repository issue) (if_Issue issue) n) 0 = 0"
    "m_BaseSHA (lp_Manifest p) = (case observed of None \<Rightarrow> if_BaseSHA issue | Some f \<Rightarrow> af_BaseSHA f)"
proof -
  from assms obtain a m where r: "runnable \<or> live_fact observed"
      "fm_get (s_AttemptGenerations state) (ownerAttemptKey (if_Repository issue) (if_Issue issue) n) 0 = 0"
    and a: "runtimeLaunchAttempt env cfg (issue\<lparr>if_Attempt := n,
        if_BaseSHA := (case observed of None \<Rightarrow> if_BaseSHA issue | Some f \<Rightarrow> af_BaseSHA f)\<rparr>) None = Inr a"
    and m: "PreparingManifest env px a now = Inr m"
    and p: "p = \<lparr>lp_Action = EffectPrepare, lp_Attempt = a, lp_Manifest = m\<rparr>"
    by (auto simp: plan_prepare_def Let_def split: if_splits)
  show "lp_Action p = EffectPrepare" "runnable \<or> live_fact observed"
    "fm_get (s_AttemptGenerations state) (ownerAttemptKey (if_Repository issue) (if_Issue issue) n) 0 = 0"
    using p r by simp_all
  show "m_Repository (lp_Manifest p) = if_Repository issue" "m_Issue (lp_Manifest p) = if_Issue issue"
    "m_Attempt (lp_Manifest p) = n"
    "m_BaseSHA (lp_Manifest p) = (case observed of None \<Rightarrow> if_BaseSHA issue | Some f \<Rightarrow> af_BaseSHA f)"
    using launch_attempt_fields[OF a] preparing_manifest_fields[OF m] p by simp_all
qed

lemma plan_owned_watched:
  assumes "plan_owned env cfg ob issue (a_Manifest r) = Inr (Some p)" "fmlookup (s_Attempts state) k = Some r"
  shows "watched state k ob p" "lp_Manifest p = a_Manifest r" "lp_Action p \<noteq> EffectPrepare"
proof -
  have "lp_Manifest p = a_Manifest r \<and> m_Version (lp_Manifest p) = ManifestVersion2 \<and>
      (lp_Action p = EffectMonitor \<and> m_State (lp_Manifest p) = ''running'' \<or>
       lp_Action p = EffectStart \<and> m_State (lp_Manifest p) = ''preparing'' \<and>
       (\<exists>f. observedReconciliationAttempt ob (m_Attempt (lp_Manifest p)) = Some f \<and> remotely_live (af_State f) \<and>
         af_BaseSHA f = m_BaseSHA (lp_Manifest p)))"
    using assms(1) by (auto simp: plan_owned_def plan_start_def split: if_splits option.splits)
  then show "watched state k ob p" "lp_Manifest p = a_Manifest r" "lp_Action p \<noteq> EffectPrepare"
    using assms(2) by (auto simp: watched_def EffectPrepare_def EffectStart_def EffectMonitor_def)
qed

lemma plan_issue_cases:
  assumes "plan_issue env px cfg now state decisions raws (k, ob) = Inr (Some p)"
  obtains issue n where "fi_DispatchAuthorized (ob_Fact ob)" "raw_issue_for env raws k ob = Some issue"
    "lifecycle_number env state ob issue = Inr n" "1 \<le> n"
    "\<not> fm_has (s_Tombstones state) (ownerAttemptKey (if_Repository issue) (if_Issue issue) n)"
    "\<not> pendingAttemptEffect state (ownerAttemptKey (if_Repository issue) (if_Issue issue) n)"
    "case fmlookup (s_Attempts state) (ownerAttemptKey (if_Repository issue) (if_Issue issue) n) of
       None \<Rightarrow> plan_prepare env px cfg now state (runnable_key decisions k) (observedReconciliationAttempt ob n) issue n =
         Inr (Some p)
     | Some r \<Rightarrow> current_record state (ownerAttemptKey (if_Repository issue) (if_Issue issue) n) r \<and>
         plan_owned env cfg ob issue (a_Manifest r) = Inr (Some p)"
  using assms by (auto simp: plan_issue_def Let_def split: if_splits option.splits)

lemma raw_issue_fields:
  "raw_issue_for env raws k ob = Some issue \<Longrightarrow>
   if_Repository issue = fi_Repository (ob_Fact ob) \<and> if_Issue issue = fi_Issue (ob_Fact ob) \<and>
   if_BaseSHA issue = fi_BaseSHA (ob_Fact ob)"
  by (auto simp: raw_issue_for_def expandIssueFact_def split: option.splits if_splits)

lemma current_entry:
  assumes "sound_order env" "(k, ob) \<in> set (current_entries env state)"
  shows "fmlookup (s_Observations state) k = Some ob" "currentReconciliationObservation state k ob"
  using assms order_entry by (auto simp: current_entries_def)

lemma observation_key:
  assumes "validateRuntimeOwnerState env state True" "fmlookup (s_Observations state) k = Some ob" "ob_Present ob"
  shows "k = ownerIssueKey (fi_Repository (ob_Fact ob)) (fi_Issue (ob_Fact ob))"
proof -
  have "valid_observation env state k ob"
    using assms(1,2) by (simp add: validate_parts validateReconciliationObservations_def fmpred_iff)
  then show ?thesis using assms(3) by (simp add: valid_observation_def valid_present_observation_def Let_def)
qed

text \<open>What a plan is made from, in the terms of its manifest.\<close>

lemma plan_issue_sound:
  assumes "validateRuntimeOwnerState env state True" "sound_order env" "(j, ob) \<in> set (current_entries env state)"
    and "plan_issue env px cfg now state decisions raws (j, ob) = Inr (Some p)"
  defines "m \<equiv> lp_Manifest p"
  defines "k \<equiv> ownerAttemptKey (m_Repository m) (m_Issue m) (m_Attempt m)"
  shows "j = ownerIssueKey (m_Repository m) (m_Issue m)" "fi_DispatchAuthorized (ob_Fact ob)"
    "\<not> fm_has (s_Tombstones state) k" "\<not> pendingAttemptEffect state k"
    "lp_Action p = EffectPrepare \<Longrightarrow> \<not> attempt_reserved state (m_Repository m) (m_Issue m) (m_Attempt m) \<and>
       m_State m = ''preparing'' \<and> (runnable_key decisions j \<or> live_fact (observedReconciliationAttempt ob (m_Attempt m)))"
    "lp_Action p \<noteq> EffectPrepare \<Longrightarrow> watched state k ob p"
proof -
  note c = current_entry[OF assms(2,3)]
  obtain issue n where i: "fi_DispatchAuthorized (ob_Fact ob)" "raw_issue_for env raws j ob = Some issue" "1 \<le> n"
    "\<not> fm_has (s_Tombstones state) (ownerAttemptKey (if_Repository issue) (if_Issue issue) n)"
    "\<not> pendingAttemptEffect state (ownerAttemptKey (if_Repository issue) (if_Issue issue) n)"
    and p: "case fmlookup (s_Attempts state) (ownerAttemptKey (if_Repository issue) (if_Issue issue) n) of
       None \<Rightarrow> plan_prepare env px cfg now state (runnable_key decisions j) (observedReconciliationAttempt ob n) issue n =
         Inr (Some p)
     | Some r \<Rightarrow> current_record state (ownerAttemptKey (if_Repository issue) (if_Issue issue) n) r \<and>
         plan_owned env cfg ob issue (a_Manifest r) = Inr (Some p)"
    by (rule plan_issue_cases[OF assms(4)])
  note f = raw_issue_fields[OF i(2)]
  have j: "j = ownerIssueKey (if_Repository issue) (if_Issue issue)"
    using observation_key[OF assms(1) c(1)] c(2) f by (simp add: currentReconciliationObservation_def)
  have m: "m_Repository m = if_Repository issue \<and> m_Issue m = if_Issue issue \<and> m_Attempt m = n \<and>
      (lp_Action p = EffectPrepare \<longrightarrow> \<not> attempt_reserved state (m_Repository m) (m_Issue m) (m_Attempt m) \<and>
        m_State m = ''preparing'' \<and> (runnable_key decisions j \<or> live_fact (observedReconciliationAttempt ob n))) \<and>
      (lp_Action p \<noteq> EffectPrepare \<longrightarrow> watched state k ob p)"
  proof (cases "fmlookup (s_Attempts state) (ownerAttemptKey (if_Repository issue) (if_Issue issue) n)")
    case None
    then have q: "plan_prepare env px cfg now state (runnable_key decisions j) (observedReconciliationAttempt ob n) issue n =
        Inr (Some p)" using p by simp
    have "m_State m = ''preparing''"
      using q preparing_manifest_fields by (auto simp: plan_prepare_def Let_def m_def split: if_splits)
    then show ?thesis
      using plan_prepare_fields[OF q] None i(4) by (simp add: m_def attempt_reserved_def Let_def fm_has_def fmlookup_dom_iff)
  next
    case (Some r)
    then have q: "plan_owned env cfg ob issue (a_Manifest r) = Inr (Some p)" using p by simp
    have key: "m_Repository m = if_Repository issue \<and> m_Issue m = if_Issue issue \<and> m_Attempt m = n"
      using valid_record(1)[OF valid_attempts[OF assms(1)] Some] plan_owned_watched(2)[OF q Some] by (simp add: m_def key_simps)
    then show ?thesis using plan_owned_watched(1,3)[OF q Some] by (simp add: k_def)
  qed
  show "j = ownerIssueKey (m_Repository m) (m_Issue m)" "fi_DispatchAuthorized (ob_Fact ob)"
    "\<not> fm_has (s_Tombstones state) k" "\<not> pendingAttemptEffect state k"
    using j i m by (simp_all add: k_def)
  show "lp_Action p = EffectPrepare \<Longrightarrow> \<not> attempt_reserved state (m_Repository m) (m_Issue m) (m_Attempt m) \<and>
       m_State m = ''preparing'' \<and> (runnable_key decisions j \<or> live_fact (observedReconciliationAttempt ob (m_Attempt m)))"
    "lp_Action p \<noteq> EffectPrepare \<Longrightarrow> watched state k ob p"
    using m by metis+
qed

section \<open>Plans of the lifecycle\<close>

lemma lifecycle_members:
  assumes "planRuntimeLifecycle env px cfg now state cycle batch = Inr plans"
  obtains raws qs where "plan_each (plan_issue env px cfg now state (lifecycle_decisions env cfg state) raws)
      (current_entries env state) = Inr qs" "plans = sort_func compare_lifecycle qs"
  using assms by (auto simp: planRuntimeLifecycle_def Let_def split: if_splits)

lemma lifecycle_origin:
  assumes "planRuntimeLifecycle env px cfg now state cycle batch = Inr plans" "p \<in> set plans"
  obtains raws i ob where "(i, ob) \<in> set (current_entries env state)"
    "plan_issue env px cfg now state (lifecycle_decisions env cfg state) raws (i, ob) = Inr (Some p)"
proof -
  obtain raws qs where q: "plan_each (plan_issue env px cfg now state (lifecycle_decisions env cfg state) raws)
      (current_entries env state) = Inr qs" "plans = sort_func compare_lifecycle qs"
    using lifecycle_members[OF assms(1)] by blast
  then have "p \<in> set qs" using assms(2) by simp
  from plan_each_mem[OF q(1) this] obtain e where e: "e \<in> set (current_entries env state)"
    "plan_issue env px cfg now state (lifecycle_decisions env cfg state) raws e = Inr (Some p)" by blast
  show thesis by (rule that[of "fst e" "snd e" raws]) (use e in simp_all)
qed

text \<open>
  C34: Plans of the lifecycle fit the ledger.  Every plan made from a validated ledger is about an issue
  that is observed in this epoch and authorised for dispatch, and about an attempt that is neither
  tombstoned nor waited for by a pending effect.  A Prepare plan is for a number that no generation, no
  attempt and no tombstone of the ledger uses, of an issue that is runnable or already live on GitHub;
  every other plan is for a manifest of version 2 of the ledger: a Monitor of a running one, or a Start
  of a preparing one whose live binding on GitHub names the same base.
\<close>

theorem lifecycle_sound:
  assumes "validateRuntimeOwnerState env state True" "sound_order env"
    "planRuntimeLifecycle env px cfg now state cycle batch = Inr plans" "p \<in> set plans"
  defines "m \<equiv> lp_Manifest p"
  defines "k \<equiv> ownerAttemptKey (m_Repository m) (m_Issue m) (m_Attempt m)"
    and "j \<equiv> ownerIssueKey (m_Repository m) (m_Issue m)"
  shows "\<not> fm_has (s_Tombstones state) k \<and> \<not> pendingAttemptEffect state k \<and>
    (\<exists>ob. fmlookup (s_Observations state) j = Some ob \<and> currentReconciliationObservation state j ob \<and>
      fi_DispatchAuthorized (ob_Fact ob) \<and>
      (if lp_Action p = EffectPrepare
       then \<not> attempt_reserved state (m_Repository m) (m_Issue m) (m_Attempt m) \<and> m_State m = ''preparing'' \<and>
         (runnable_key (lifecycle_decisions env cfg state) j \<or> live_fact (observedReconciliationAttempt ob (m_Attempt m)))
       else watched state k ob p))"
proof -
  obtain raws i ob where x: "(i, ob) \<in> set (current_entries env state)"
    "plan_issue env px cfg now state (lifecycle_decisions env cfg state) raws (i, ob) = Inr (Some p)"
    by (rule lifecycle_origin[OF assms(3,4)])
  note f = plan_issue_sound[OF assms(1,2) x, folded m_def, folded k_def]
  have "i = j" using f(1) by (simp add: j_def)
  then show ?thesis using f(2-6) current_entry[OF assms(2) x(1)] by auto
qed

lemma plan_each_distinct:
  assumes "plan_each f xs = Inr ps" "distinct (map h xs)" "\<And>x p. x \<in> set xs \<Longrightarrow> f x = Inr (Some p) \<Longrightarrow> g p = h x"
  shows "distinct (map g ps) \<and> set (map g ps) \<subseteq> set (map h xs)"
  using assms
proof (induction xs arbitrary: ps)
  case (Cons x xs)
  then obtain p qs where p: "f x = Inr p" "plan_each f xs = Inr qs" "ps = (case p of None \<Rightarrow> qs | Some y \<Rightarrow> y # qs)"
    by auto
  have ih: "distinct (map g qs) \<and> set (map g qs) \<subseteq> set (map h xs)" using Cons p(2) by simp
  show ?case using ih p Cons.prems(2) Cons.prems(3)[of x] by (cases p) (auto simp: subset_iff)
qed simp

lemma current_entries_distinct: "arrangement (v_order env) \<Longrightarrow> distinct (map fst (current_entries env state))"
proof -
  assume a: "arrangement (v_order env)"
  have "map fst (fm_entries (v_order env) (s_Observations state)) = v_order env (sorted_list_of_fset (fmdom (s_Observations state)))"
    by (simp add: fm_entries_def comp_def)
  moreover have "distinct (v_order env (sorted_list_of_fset (fmdom (s_Observations state))))"
    using a mset_eq_imp_distinct_iff[of "v_order env (sorted_list_of_fset (fmdom (s_Observations state)))"
        "sorted_list_of_fset (fmdom (s_Observations state))"]
    by (simp add: arrangement_def sorted_list_of_fset.rep_eq)
  ultimately show ?thesis by (simp add: current_entries_def distinct_map_filter)
qed

text \<open>A plan that GitHub does not show as live yet: it takes one more place.\<close>

definition fresh_prepare :: "runtimeOwnerState \<Rightarrow> runtimeLifecyclePlan \<Rightarrow> bool" where
  "fresh_prepare state p \<longleftrightarrow>
     lp_Action p = EffectPrepare \<and>
     (case manifest_observation state (lp_Manifest p) of
        None \<Rightarrow> True
      | Some ob \<Rightarrow> \<not> live_fact (observedReconciliationAttempt ob (m_Attempt (lp_Manifest p))))"

lemma arrangement_sound: "arrangement (v_order env) \<Longrightarrow> sound_order env"
  by (simp add: sound_order_def)

abbreviation plan_key :: "runtimeLifecyclePlan \<Rightarrow> string" where
  "plan_key p \<equiv> ownerIssueKey (m_Repository (lp_Manifest p)) (m_Issue (lp_Manifest p))"

lemma lifecycle_distinct:
  assumes "validateRuntimeOwnerState env state True" "arrangement (v_order env)"
    "planRuntimeLifecycle env px cfg now state cycle batch = Inr plans"
  shows "distinct (map plan_key plans)"
proof -
  obtain raws qs where q: "plan_each (plan_issue env px cfg now state (lifecycle_decisions env cfg state) raws)
      (current_entries env state) = Inr qs" "plans = sort_func compare_lifecycle qs"
    using lifecycle_members[OF assms(3)] by blast
  have "distinct (map plan_key qs)"
    using plan_each_distinct[OF q(1) current_entries_distinct[OF assms(2)], of plan_key]
      plan_issue_sound(1)[OF assms(1) arrangement_sound[OF assms(2)]] by auto
  moreover have "mset (map plan_key plans) = mset (map plan_key qs)" using q(2) by simp
  ultimately show ?thesis using mset_eq_imp_distinct_iff by blast
qed

lemma runnable_length:
  assumes "length is = length ds"
  shows "length (runnable_issues is ds) = length (filter (\<lambda>d. d_State d = Runnable) ds)"
  using assms by (induction "is" ds rule: list_induct2) (simp_all add: runnable_issues_Cons)

lemma fresh_prepare_runnable:
  assumes "validateRuntimeOwnerState env state True" "sound_order env" "p \<in> set plans" "fresh_prepare state p"
    "planRuntimeLifecycle env px cfg now state cycle batch = Inr plans"
  shows "runnable_key (lifecycle_decisions env cfg state) (plan_key p)"
proof -
  obtain raws i ob where x: "(i, ob) \<in> set (current_entries env state)"
    "plan_issue env px cfg now state (lifecycle_decisions env cfg state) raws (i, ob) = Inr (Some p)"
    by (rule lifecycle_origin[OF assms(5,3)])
  note f = plan_issue_sound[OF assms(1,2) x]
  have "manifest_observation state (lp_Manifest p) = Some ob"
    using current_entry(1)[OF assms(2) x(1)] f(1) by (simp add: manifest_observation_def)
  then show ?thesis using f(1,5) assms(4) by (simp add: fresh_prepare_def)
qed

text \<open>
  C35: New attempts keep the capacity.  In one plan every issue has at most one entry.  If a plan
  prepares attempts that GitHub does not show as live, then they and the issues that hold capacity in
  the owner's observations together do not exceed the configured concurrency.
\<close>

theorem lifecycle_capacity:
  assumes "validateRuntimeOwnerState env state True" "arrangement (v_order env)"
    "planRuntimeLifecycle env px cfg now state cycle batch = Inr plans"
    "Schedule (env_orders env) backlog_input \<lparr>c_Global = cy_Concurrency cfg, c_Repositories = []\<rparr> = Some ds"
    "backlog_input = map (\<lambda>(_, ob). observed_schedule_issue ob) (current_entries env state)"
    "filter (fresh_prepare state) plans \<noteq> []"
  shows "distinct (map plan_key plans) \<and>
    int (length (filter (fresh_prepare state) plans) + length (backlog_active (fst (env_orders env)) backlog_input))
      \<le> cy_Concurrency cfg"
proof -
  let ?f = "filter (fresh_prepare state) plans" and ?R = "filter (\<lambda>d. d_State d = Runnable) ds"
  let ?is = "backlog (fst (env_orders env)) backlog_input" and ?A = "backlog_active (fst (env_orders env)) backlog_input"
  have d: "distinct (map plan_key plans)" by (rule lifecycle_distinct[OF assms(1-3)])
  have ds: "lifecycle_decisions env cfg state = ds" using assms(4,5) by (simp add: lifecycle_decisions_def)
  have len: "length ?is = length ds" using assms(4) by (elim Schedule_SomeE) simp
  have sub: "set (map plan_key ?f) \<subseteq> set (map (\<lambda>d. ownerIssueKey (d_Repository d) (d_Number d)) ?R)"
  proof
    fix k
    assume "k \<in> set (map plan_key ?f)"
    then have "runnable_key ds k"
      using fresh_prepare_runnable[OF assms(1) arrangement_sound[OF assms(2)] _ _ assms(3)] ds by auto
    then show "k \<in> set (map (\<lambda>d. ownerIssueKey (d_Repository d) (d_Number d)) ?R)"
      by (auto simp: runnable_key_def list_ex_iff)
  qed
  have "distinct (map plan_key ?f)" using d by (simp add: distinct_map_filter)
  then have "length ?f = card (set (map plan_key ?f))" by (metis distinct_card length_map)
  also have "\<dots> \<le> length ?R"
    using card_mono[OF _ sub] card_length[of "map (\<lambda>d. ownerIssueKey (d_Repository d) (d_Number d)) ?R"] by simp
  finally have le: "length ?f \<le> length (runnable_issues ?is ds)" using runnable_length[OF len] by simp
  have "admitted \<lparr>c_Global = cy_Concurrency cfg, c_Repositories = []\<rparr> ?A (runnable_issues ?is ds)"
    using assms(4) unfolding backlog_active_def
    by (elim Schedule_SomeE) (simp add: schedule_loop_admitted active_occupancy_occupies)
  moreover have "runnable_issues ?is ds \<noteq> []" using le assms(6) by (cases "runnable_issues ?is ds") auto
  ultimately have "int (length ?A + length (runnable_issues ?is ds)) \<le> cy_Concurrency cfg"
    using admitted_global by fastforce
  then show ?thesis using d le by simp
qed

text \<open>
  C36: The number of a new attempt.  Looking from a proposed number on, the least number that no
  generation, attempt or tombstone of the ledger uses is found; zero is returned only when every number
  a Go int can hold is used.
\<close>

theorem first_unreserved:
  assumes "1 \<le> proposed" "firstUnreservedAttempt state repository issue proposed = n"
  shows "(if n = 0 then \<forall>m \<in> {proposed .. max_int}. attempt_reserved state repository issue m
    else n \<in> {proposed .. max_int} \<and> \<not> attempt_reserved state repository issue n \<and>
      (\<forall>m \<in> {proposed ..< n}. attempt_reserved state repository issue m))"
  using firstUnreserved_least[OF assms] firstUnreserved_exhausted[OF assms(1), of state repository issue] assms(2) by auto

theorem first_unreserved_witness:
  "firstUnreservedAttempt small_ledger ''o/r'' 7 1 = 2 \<and> attempt_reserved small_ledger ''o/r'' 7 1"
proof -
  have "firstUnreservedAttempt small_ledger ''o/r'' 7 1 = 2" by code_simp
  then show ?thesis using first_unreserved[of 1 small_ledger "''o/r''" 7 2] by simp
qed

section \<open>A plan\<close>

definition sample_cycle :: cycle_config where
  "sample_cycle = \<lparr>cy_Repository = ''o/r'', cy_Concurrency = 1, cy_Implementation = [''w'']\<rparr>"

definition sample_batch :: reconciliationV2Batch where
  "sample_batch = \<lparr>vb_Input = \<lparr>ni_Scope = \<lparr>sk_Kind = [], sk_Repository = [], sk_Issue = 0\<rparr>, ni_Complete = True,
     ni_Issues = [expandIssueFact observed_fact], ni_IssueUpdates = [], ni_Attempts = []\<rparr>, vb_IssueUpdates = []\<rparr>"

definition sample_plans :: "runtimeLifecyclePlan list" where
  "sample_plans = projr (planRuntimeLifecycle sample_env sample_planner sample_cycle 1 planned_ledger 0 sample_batch)"

lemma sample_planned:
  "planRuntimeLifecycle sample_env sample_planner sample_cycle 1 planned_ledger 0 sample_batch = Inr sample_plans"
proof -
  have "\<not> isl (planRuntimeLifecycle sample_env sample_planner sample_cycle 1 planned_ledger 0 sample_batch)" by code_simp
  then show ?thesis by (simp add: sample_plans_def)
qed

lemma sample_plan_fields:
  "map (\<lambda>p. (lp_Action p, m_Attempt (lp_Manifest p), fresh_prepare planned_ledger p)) sample_plans = [(EffectPrepare, 2, True)]"
  by code_simp

theorem lifecycle_sound_witness:
  "\<exists>p. sample_plans = [p] \<and> m_Attempt (lp_Manifest p) = 2 \<and>
    \<not> attempt_reserved planned_ledger (m_Repository (lp_Manifest p)) (m_Issue (lp_Manifest p)) 2"
proof -
  obtain p where p: "sample_plans = [p]" "lp_Action p = EffectPrepare" "m_Attempt (lp_Manifest p) = 2"
    using sample_plan_fields by (auto simp: map_eq_Cons_conv)
  have "p \<in> set sample_plans" by (simp add: p(1))
  from lifecycle_sound[OF planned_valid sample_sound sample_planned this] p(2,3) show ?thesis
    by (intro exI[of _ p]) (auto simp: p(1))
qed

theorem lifecycle_capacity_witness:
  "length (filter (fresh_prepare planned_ledger) sample_plans) = 1 \<and> 1 \<le> cy_Concurrency sample_cycle"
proof -
  obtain p where p: "sample_plans = [p]" "fresh_prepare planned_ledger p"
    using sample_plan_fields by (auto simp: map_eq_Cons_conv)
  let ?input = "map (\<lambda>(_, ob). observed_schedule_issue ob) (current_entries sample_env planned_ledger)"
  have "Schedule (env_orders sample_env) ?input \<lparr>c_Global = cy_Concurrency sample_cycle, c_Repositories = []\<rparr> \<noteq> None"
    by code_simp
  then obtain ds where ds: "Schedule (env_orders sample_env) ?input
      \<lparr>c_Global = cy_Concurrency sample_cycle, c_Repositories = []\<rparr> = Some ds" by blast
  have "filter (fresh_prepare planned_ledger) sample_plans \<noteq> []" by (simp add: p)
  from lifecycle_capacity[OF planned_valid arrangement_sample sample_planned ds refl this] show ?thesis by (simp add: p)
qed

end
