(* ===== verification/Effect_Coordinator.thy ===== *)
theory Effect_Coordinator
  imports Reconciliation_Effects
begin

text \<open>
  \<^verbatim>\<open>runtimeEffectCoordinator\<close> of \<^verbatim>\<open>runtime_effects.go\<close>: effects of one key run one at a time.  A run is
  entered in a table under its key when it is admitted and removed when it is released; who finds the key
  taken waits for the run's \<^verbatim>\<open>done\<close> channel and starts over.  Runs are cancelled one by one, by a sweep
  over a ledger that was committed, or all at a shutdown.  One step is one critical section of the mutex,
  one receive or one call to the owner.  A pointer to a run is a number; \<open>ar_canceled\<close> is the state of
  its context, \<open>ar_done\<close> says that its channel is closed.  What an effect does between its admission and
  its release is not part of this theory.
\<close>

section \<open>State\<close>

record activeRuntimeEffect =
  ar_issueGeneration :: "uint64"
  ar_attemptGeneration :: "uint64"
  ar_observationGeneration :: "uint64"
  ar_admittedRevision :: "uint64"
  ar_effectID :: "string"
  ar_canceled :: "bool"
  ar_done :: "bool"

record runtimeEffectCoordinator =
  co_active :: "(string, nat) fmap"
  co_runs :: "(nat, activeRuntimeEffect) fmap"
  co_next :: "nat"
  co_stopped :: "bool"
  co_ended :: "bool"
  co_panicked :: "bool"

definition newRuntimeEffectCoordinator :: runtimeEffectCoordinator where
  "newRuntimeEffectCoordinator =
     \<lparr>co_active = fmempty, co_runs = fmempty, co_next = 0, co_stopped = False, co_ended = False, co_panicked = False\<rparr>"

datatype acquire_error =
    SnapshotFailed owner_error
  | CoordinatorStopped
  | LifecycleEnded
  | CallerCanceled

text \<open>Where a call of \<^verbatim>\<open>acquireKey\<close> is: before its snapshot, before the mutex with the revision of the
  snapshot, waiting for a run, returned with a run or an error, inside the release of its run, between its
  critical section and the cancellation of the run's context, or after it.\<close>

datatype acquire_point =
    BeforeSnapshot
  | BeforeLock uint64
  | Waiting nat
  | Holding nat
  | Refused acquire_error
  | Releasing nat
  | Released nat

record acquire_call =
  ac_key :: "string"
  ac_issueGeneration :: "uint64"
  ac_attemptGeneration :: "uint64"
  ac_observationGeneration :: "uint64"
  ac_effectID :: "string list"
  ac_canceled :: "bool"
  ac_point :: "acquire_point"

section \<open>Critical sections\<close>

definition update_run :: "(activeRuntimeEffect \<Rightarrow> activeRuntimeEffect) \<Rightarrow> nat \<Rightarrow> runtimeEffectCoordinator \<Rightarrow> runtimeEffectCoordinator" where
  "update_run f r c =
     (case fmlookup (co_runs c) r of None \<Rightarrow> c | Some run \<Rightarrow> c\<lparr>co_runs := fmupd r (f run) (co_runs c)\<rparr>)"

definition cancel_run :: "nat \<Rightarrow> runtimeEffectCoordinator \<Rightarrow> runtimeEffectCoordinator" where
  "cancel_run = update_run (\<lambda>run. run\<lparr>ar_canceled := True\<rparr>)"

definition run_done :: "runtimeEffectCoordinator \<Rightarrow> nat \<Rightarrow> bool" where
  "run_done c r \<longleftrightarrow> (case fmlookup (co_runs c) r of None \<Rightarrow> False | Some run \<Rightarrow> ar_done run)"

text \<open>Closing a closed channel panics.\<close>

definition close_done :: "nat \<Rightarrow> runtimeEffectCoordinator \<Rightarrow> runtimeEffectCoordinator" where
  "close_done r c =
     (if run_done c r then c\<lparr>co_panicked := True\<rparr> else update_run (\<lambda>run. run\<lparr>ar_done := True\<rparr>) r c)"

text \<open>The run's context is derived from the caller's.\<close>

definition admitted_run :: "acquire_call \<Rightarrow> uint64 \<Rightarrow> activeRuntimeEffect" where
  "admitted_run a revision =
     \<lparr>ar_issueGeneration = ac_issueGeneration a, ar_attemptGeneration = ac_attemptGeneration a,
      ar_observationGeneration = ac_observationGeneration a, ar_admittedRevision = revision,
      ar_effectID = (case ac_effectID a of [] \<Rightarrow> [] | e # _ \<Rightarrow> e), ar_canceled = ac_canceled a, ar_done = False\<rparr>"

definition acquire_locked :: "acquire_call \<Rightarrow> uint64 \<Rightarrow> runtimeEffectCoordinator \<Rightarrow> acquire_point \<times> runtimeEffectCoordinator" where
  "acquire_locked a revision c =
     (if co_stopped c then (Refused CoordinatorStopped, c)
      else if co_ended c then (Refused LifecycleEnded, c)
      else case fmlookup (co_active c) (ac_key a) of
        Some r \<Rightarrow> (Waiting r, c)
      | None \<Rightarrow>
          (Holding (co_next c),
           c\<lparr>co_active := fmupd (ac_key a) (co_next c) (co_active c),
             co_runs := fmupd (co_next c) (admitted_run a revision) (co_runs c), co_next := co_next c + 1\<rparr>))"

text \<open>The critical section of \<^verbatim>\<open>releaseKey\<close>.  The run is cancelled after it, in the step \<open>step_released\<close>.\<close>

definition releaseKey :: "string \<Rightarrow> nat \<Rightarrow> runtimeEffectCoordinator \<Rightarrow> runtimeEffectCoordinator" where
  "releaseKey k r c =
     (if fmlookup (co_active c) k = Some r then close_done r (c\<lparr>co_active := fmdrop k (co_active c)\<rparr>) else c)"

text \<open>A loop over the table that cancels some of its runs.\<close>

definition cancel_where :: "(string \<Rightarrow> activeRuntimeEffect \<Rightarrow> bool) \<Rightarrow> runtimeEffectCoordinator \<Rightarrow> runtimeEffectCoordinator" where
  "cancel_where P c =
     c\<lparr>co_runs := fmmap_keys (\<lambda>r run.
         if fm_ex (\<lambda>k r'. r' = r \<and> P k run) (co_active c) then run\<lparr>ar_canceled := True\<rparr> else run) (co_runs c)\<rparr>"

definition cancelOlder :: "Manifest \<Rightarrow> uint64 \<Rightarrow> runtimeEffectCoordinator \<Rightarrow> runtimeEffectCoordinator" where
  "cancelOlder m generation c =
     (case fmlookup (co_active c) (ownerAttemptKey (m_Repository m) (m_Issue m) (m_Attempt m)) of
        None \<Rightarrow> c
      | Some r \<Rightarrow>
          (case fmlookup (co_runs c) r of
             None \<Rightarrow> c
           | Some run \<Rightarrow> if ar_attemptGeneration run < generation then cancel_run r c else c))"

definition effectActive :: "Manifest \<Rightarrow> string \<Rightarrow> runtimeEffectCoordinator \<Rightarrow> bool" where
  "effectActive m effectID c \<longleftrightarrow>
     (case fmlookup (co_active c) (ownerAttemptKey (m_Repository m) (m_Issue m) (m_Attempt m)) of
        None \<Rightarrow> False
      | Some r \<Rightarrow> (case fmlookup (co_runs c) r of None \<Rightarrow> False | Some run \<Rightarrow> ar_effectID run = effectID))"

definition cancelEffect :: "string \<Rightarrow> runtimeEffectCoordinator \<Rightarrow> runtimeEffectCoordinator" where
  "cancelEffect effectID = cancel_where (\<lambda>_ run. ar_effectID run = effectID)"

definition effect_invalid :: "Env \<Rightarrow> runtimeOwnerState \<Rightarrow> string \<Rightarrow> bool" where
  "effect_invalid env state effectID \<longleftrightarrow>
     (case fmlookup (s_Effects state) effectID of
        None \<Rightarrow> True
      | Some e \<Rightarrow>
          e_State e \<noteq> ''pending'' \<or> e_ReviewerRevoked e \<or>
          (case e_Reconciliation e of
             None \<Rightarrow> False
           | Some q \<Rightarrow>
               rq_Action q = reconciliationReviewer \<and>
               (case rq_Reviewer q of None \<Rightarrow> False | Some v \<Rightarrow> rv_DigestVersion v = 1) \<and>
               reconciliationEffectFinishCurrent env state e \<noteq> Inr ()))"

definition key_invalid :: "runtimeOwnerState \<Rightarrow> string \<Rightarrow> activeRuntimeEffect \<Rightarrow> bool" where
  "key_invalid state k run \<longleftrightarrow>
     (case cut_str k ''#'' of
        None \<Rightarrow> True
      | Some (repository, rest) \<Rightarrow>
          let (issueText, attemptText, attemptScoped) =
            (case cut_str rest ''/'' of None \<Rightarrow> (rest, [], False) | Some (i, n) \<Rightarrow> (i, n, True));
            (issue, ok) = atoi issueText in
          if \<not> ok \<or> issueGeneration state repository issue \<noteq> ar_issueGeneration run then True
          else if ar_observationGeneration run \<noteq> 0 \<and>
            (case fmlookup (s_Observations state) (ownerIssueKey repository issue) of
               None \<Rightarrow> True | Some ob \<Rightarrow> ob_Generation ob \<noteq> ar_observationGeneration run) then True
          else attemptScoped \<and>
            (let (attempt, ok) = atoi attemptText in
             \<not> ok \<or> attemptGeneration state repository issue attempt \<noteq> ar_attemptGeneration run))"

definition run_invalidated :: "Env \<Rightarrow> runtimeOwnerState \<Rightarrow> string \<Rightarrow> activeRuntimeEffect \<Rightarrow> bool" where
  "run_invalidated env state k run \<longleftrightarrow>
     (if s_Revision state < ar_admittedRevision run then False
      else if ar_effectID run \<noteq> [] \<and> effect_invalid env state (ar_effectID run) then True
      else key_invalid state k run)"

definition cancelInvalidated :: "Env \<Rightarrow> runtimeOwnerState \<Rightarrow> runtimeEffectCoordinator \<Rightarrow> runtimeEffectCoordinator" where
  "cancelInvalidated env state = cancel_where (run_invalidated env state)"

text \<open>The first critical section of \<^verbatim>\<open>shutdown\<close>: the runs it will wait for.\<close>

definition shutdown_locked :: "Env \<Rightarrow> runtimeEffectCoordinator \<Rightarrow> nat list \<times> runtimeEffectCoordinator" where
  "shutdown_locked env c =
     (map snd (fm_entries (v_order env) (co_active c)), (cancel_where (\<lambda>_ _. True) c)\<lparr>co_stopped := True\<rparr>)"

section \<open>Steps\<close>

text \<open>A call of \<^verbatim>\<open>shutdown\<close> waits for the runs of its list, one after the other.\<close>

datatype shutdown_call =
    Closing "nat list"
  | Closed
  | GaveUp

record effect_system =
  es_coordinator :: "runtimeEffectCoordinator"
  es_calls :: "(nat, acquire_call) fmap"
  es_shutdowns :: "(nat, shutdown_call) fmap"

definition empty_system :: effect_system where
  "empty_system = \<lparr>es_coordinator = newRuntimeEffectCoordinator, es_calls = fmempty, es_shutdowns = fmempty\<rparr>"

definition at_point :: "nat \<Rightarrow> acquire_call \<Rightarrow> acquire_point \<Rightarrow> effect_system \<Rightarrow> effect_system" where
  "at_point t a p w = w\<lparr>es_calls := fmupd t (a\<lparr>ac_point := p\<rparr>) (es_calls w)\<rparr>"

definition on_coordinator :: "(runtimeEffectCoordinator \<Rightarrow> runtimeEffectCoordinator) \<Rightarrow> effect_system \<Rightarrow> effect_system" where
  "on_coordinator f w = w\<lparr>es_coordinator := f (es_coordinator w)\<rparr>"

definition set_shutdown :: "nat \<Rightarrow> shutdown_call \<Rightarrow> effect_system \<Rightarrow> effect_system" where
  "set_shutdown s p w = w\<lparr>es_shutdowns := fmupd s p (es_shutdowns w)\<rparr>"

definition held_run :: "acquire_call \<Rightarrow> nat option" where
  "held_run a = (case ac_point a of Holding r \<Rightarrow> Some r | Releasing r \<Rightarrow> Some r | Released r \<Rightarrow> Some r | _ \<Rightarrow> None)"

definition cancel_caller :: "nat \<Rightarrow> acquire_call \<Rightarrow> effect_system \<Rightarrow> effect_system" where
  "cancel_caller t a w =
     on_coordinator (case held_run a of None \<Rightarrow> (\<lambda>c. c) | Some r \<Rightarrow> cancel_run r)
       (w\<lparr>es_calls := fmupd t (a\<lparr>ac_canceled := True\<rparr>) (es_calls w)\<rparr>)"

inductive effect_step :: "Env \<Rightarrow> effect_system \<Rightarrow> effect_system \<Rightarrow> bool" for env where
  step_call: "\<not> fm_has (es_calls w) t \<Longrightarrow> effect_step env w (at_point t a BeforeSnapshot w)"
| step_snapshot: "fmlookup (es_calls w) t = Some a \<Longrightarrow> ac_point a = BeforeSnapshot \<Longrightarrow>
    effect_step env w (at_point t a (BeforeLock (s_Revision (state :: runtimeOwnerState))) w)"
| step_no_snapshot: "fmlookup (es_calls w) t = Some a \<Longrightarrow> ac_point a = BeforeSnapshot \<Longrightarrow>
    effect_step env w (at_point t a (Refused (SnapshotFailed e)) w)"
| step_lock: "fmlookup (es_calls w) t = Some a \<Longrightarrow> ac_point a = BeforeLock revision \<Longrightarrow>
    acquire_locked a revision (es_coordinator w) = (p, c) \<Longrightarrow>
    effect_step env w (at_point t a p (w\<lparr>es_coordinator := c\<rparr>))"
| step_wake: "fmlookup (es_calls w) t = Some a \<Longrightarrow> ac_point a = Waiting r \<Longrightarrow> run_done (es_coordinator w) r \<Longrightarrow>
    effect_step env w (at_point t a BeforeSnapshot w)"
| step_give_up: "fmlookup (es_calls w) t = Some a \<Longrightarrow> ac_point a = Waiting r \<Longrightarrow> ac_canceled a \<Longrightarrow>
    effect_step env w (at_point t a (Refused CallerCanceled) w)"
| step_cancel: "fmlookup (es_calls w) t = Some a \<Longrightarrow> effect_step env w (cancel_caller t a w)"
| step_release: "fmlookup (es_calls w) t = Some a \<Longrightarrow> ac_point a = Holding r \<or> ac_point a = Released r \<Longrightarrow>
    effect_step env w (at_point t a (Releasing r) (on_coordinator (releaseKey (ac_key a) r) w))"
| step_released: "fmlookup (es_calls w) t = Some a \<Longrightarrow> ac_point a = Releasing r \<Longrightarrow>
    effect_step env w (at_point t a (Released r) (on_coordinator (cancel_run r) w))"
| step_older: "effect_step env w (on_coordinator (cancelOlder m generation) w)"
| step_effect: "effect_step env w (on_coordinator (cancelEffect effectID) w)"
| step_invalidated: "effect_step env w (on_coordinator (cancelInvalidated env state) w)"
| step_lifecycle: "effect_step env w (on_coordinator (\<lambda>c. c\<lparr>co_ended := True\<rparr>) w)"
| step_shutdown: "\<not> fm_has (es_shutdowns w) s \<Longrightarrow> shutdown_locked env (es_coordinator w) = (rs, c) \<Longrightarrow>
    effect_step env w (set_shutdown s (Closing rs) (w\<lparr>es_coordinator := c\<rparr>))"
| step_finished: "fmlookup (es_shutdowns w) s = Some (Closing (r # rs)) \<Longrightarrow> run_done (es_coordinator w) r \<Longrightarrow>
    effect_step env w (set_shutdown s (Closing rs) w)"
| step_closed: "fmlookup (es_shutdowns w) s = Some (Closing []) \<Longrightarrow> effect_step env w (set_shutdown s Closed w)"
| step_abandon: "fmlookup (es_shutdowns w) s = Some (Closing (r # rs)) \<Longrightarrow> effect_step env w (set_shutdown s GaveUp w)"

abbreviation effect_run :: "Env \<Rightarrow> effect_system \<Rightarrow> effect_system \<Rightarrow> bool" where
  "effect_run env \<equiv> (effect_step env)\<^sup>*\<^sup>*"

section \<open>What the operations change\<close>

definition run_canceled :: "runtimeEffectCoordinator \<Rightarrow> nat \<Rightarrow> bool" where
  "run_canceled c r \<longleftrightarrow> (case fmlookup (co_runs c) r of None \<Rightarrow> False | Some run \<Rightarrow> ar_canceled run)"

text \<open>Only contexts are cancelled.\<close>

definition same_table :: "runtimeEffectCoordinator \<Rightarrow> runtimeEffectCoordinator \<Rightarrow> bool" where
  "same_table c c' \<longleftrightarrow>
     co_active c' = co_active c \<and> co_next c' = co_next c \<and> co_panicked c' = co_panicked c \<and>
     fmdom (co_runs c') = fmdom (co_runs c) \<and> run_done c' = run_done c \<and> (\<forall>r. run_canceled c r \<longrightarrow> run_canceled c' r)"

lemma same_table_refl [simp]: "same_table c c" by (simp add: same_table_def)

lemma update_run_fields [simp]:
  "co_active (update_run f r c) = co_active c" "co_next (update_run f r c) = co_next c"
  "co_stopped (update_run f r c) = co_stopped c" "co_panicked (update_run f r c) = co_panicked c"
  "fmdom (co_runs (update_run f r c)) = fmdom (co_runs c)"
  "fmlookup (co_runs (update_run f r c)) r' = (if r' = r then map_option f (fmlookup (co_runs c) r) else fmlookup (co_runs c) r')"
  by (auto simp: update_run_def fmdomI split: option.splits)

lemma cancel_run_canceled [simp]: "run_canceled (cancel_run r c) r' \<longleftrightarrow> run_canceled c r' \<or> r' = r \<and> r |\<in>| fmdom (co_runs c)"
  by (auto simp: run_canceled_def cancel_run_def fmlookup_dom_iff split: option.splits)

lemma cancel_run_fields [simp]:
  "co_active (cancel_run r c) = co_active c" "co_next (cancel_run r c) = co_next c"
  "co_stopped (cancel_run r c) = co_stopped c" "co_panicked (cancel_run r c) = co_panicked c"
  "fmdom (co_runs (cancel_run r c)) = fmdom (co_runs c)" "run_done (cancel_run r c) r' = run_done c r'"
  by (auto simp: cancel_run_def run_done_def split: option.split)

lemma cancel_where_fields [simp]:
  "co_active (cancel_where P c) = co_active c" "co_next (cancel_where P c) = co_next c"
  "co_stopped (cancel_where P c) = co_stopped c" "co_panicked (cancel_where P c) = co_panicked c"
  "fmdom (co_runs (cancel_where P c)) = fmdom (co_runs c)" "run_done (cancel_where P c) r' = run_done c r'"
  by (auto simp: cancel_where_def run_done_def split: option.split)

lemma cancel_where_canceled [simp]:
  "run_canceled (cancel_where P c) r \<longleftrightarrow>
     run_canceled c r \<or> (\<exists>k run. fmlookup (co_active c) k = Some r \<and> fmlookup (co_runs c) r = Some run \<and> P k run)"
  by (auto simp: cancel_where_def run_canceled_def fm_ex_iff split: option.split)

lemma same_table_cancel_run [simp]: "same_table c (cancel_run r c)" by (auto simp: same_table_def)

lemma same_table_cancel_where [simp]: "same_table c (cancel_where P c)" by (auto simp: same_table_def)

lemma same_table_cancelOlder [simp]: "same_table c (cancelOlder m g c)"
  by (auto simp: cancelOlder_def split: option.split)

lemma stopped_cancelOlder [simp]: "co_stopped (cancelOlder m g c) = co_stopped c"
  by (auto simp: cancelOlder_def split: option.split)

lemma run_done_dom: "run_done c r \<Longrightarrow> r |\<in>| fmdom (co_runs c)"
  by (auto simp: run_done_def fmlookup_dom_iff split: option.splits)

lemma close_done_fields:
  assumes "\<not> run_done c r"
  shows "co_active (close_done r c) = co_active c" "co_next (close_done r c) = co_next c"
    "co_stopped (close_done r c) = co_stopped c" "co_panicked (close_done r c) = co_panicked c"
    "fmdom (co_runs (close_done r c)) = fmdom (co_runs c)"
    "run_done (close_done r c) r' = (run_done c r' \<or> r' = r \<and> r |\<in>| fmdom (co_runs c))"
    "run_canceled (close_done r c) r' = run_canceled c r'"
  using assms by (auto simp: close_done_def run_done_def run_canceled_def fmlookup_dom_iff split: option.splits)

lemma table_update [simp]:
  "run_done (c\<lparr>co_active := m\<rparr>) = run_done c" "run_canceled (c\<lparr>co_active := m\<rparr>) = run_canceled c"
  "run_done (c\<lparr>co_stopped := b\<rparr>) = run_done c" "run_canceled (c\<lparr>co_stopped := b\<rparr>) = run_canceled c"
  "run_done (c\<lparr>co_ended := b\<rparr>) = run_done c" "run_canceled (c\<lparr>co_ended := b\<rparr>) = run_canceled c"
  by (auto simp: run_done_def run_canceled_def fun_eq_iff)

lemma same_table_flags [simp]: "same_table c (c\<lparr>co_ended := b\<rparr>)" "same_table c (c\<lparr>co_stopped := b\<rparr>)"
  by (simp_all add: same_table_def)

text \<open>A release of the run that is in the table, and any other.\<close>

lemma releaseKey_active:
  assumes "fmlookup (co_active c) k = Some r" "\<not> run_done c r"
  shows "co_active (releaseKey k r c) = fmdrop k (co_active c)" "co_next (releaseKey k r c) = co_next c"
    "co_stopped (releaseKey k r c) = co_stopped c" "co_panicked (releaseKey k r c) = co_panicked c"
    "fmdom (co_runs (releaseKey k r c)) = fmdom (co_runs c)"
    "run_done (releaseKey k r c) r' = (run_done c r' \<or> r' = r \<and> r |\<in>| fmdom (co_runs c))"
    "run_canceled (releaseKey k r c) r' = run_canceled c r'"
  using assms by (auto simp: releaseKey_def close_done_fields)

lemma releaseKey_other:
  assumes "fmlookup (co_active c) k \<noteq> Some r"
  shows "releaseKey k r c = c"
  using assms by (simp add: releaseKey_def)

section \<open>The table is sound\<close>

text \<open>A run that has left the table is done, and cancelled unless its call is about to cancel it.\<close>

definition over :: "effect_system \<Rightarrow> nat \<Rightarrow> bool" where
  "over w r \<longleftrightarrow> run_done (es_coordinator w) r \<and>
     (run_canceled (es_coordinator w) r \<or> (\<exists>t a. fmlookup (es_calls w) t = Some a \<and> ac_point a = Releasing r))"

definition table_sound :: "effect_system \<Rightarrow> bool" where
  "table_sound w \<longleftrightarrow>
     (let c = es_coordinator w in
      \<not> co_panicked c \<and>
      (\<forall>r. r |\<in>| fmdom (co_runs c) \<longleftrightarrow> r < co_next c) \<and>
      (\<forall>k r. fmlookup (co_active c) k = Some r \<longrightarrow> r < co_next c \<and> \<not> run_done c r \<and>
        (\<exists>t a. fmlookup (es_calls w) t = Some a \<and> ac_key a = k \<and> ac_point a = Holding r)) \<and>
      (\<forall>t a r. fmlookup (es_calls w) t = Some a \<longrightarrow> ac_point a = Holding r \<longrightarrow> fmlookup (co_active c) (ac_key a) = Some r) \<and>
      (\<forall>t a r. fmlookup (es_calls w) t = Some a \<longrightarrow> held_run a = Some r \<longrightarrow> r < co_next c) \<and>
      (\<forall>t a t' a' r. fmlookup (es_calls w) t = Some a \<longrightarrow> fmlookup (es_calls w) t' = Some a' \<longrightarrow>
        held_run a = Some r \<longrightarrow> held_run a' = Some r \<longrightarrow> t = t') \<and>
      (\<forall>r < co_next c. over w r \<or> (\<exists>k. fmlookup (co_active c) k = Some r)) \<and>
      (\<forall>t a r. fmlookup (es_calls w) t = Some a \<longrightarrow> ac_point a = Waiting r \<longrightarrow>
        run_done c r \<or> fmlookup (co_active c) (ac_key a) = Some r))"

lemma over_kept:
  assumes "over w r" "run_done (es_coordinator w) r \<Longrightarrow> run_done (es_coordinator w') r"
    "run_canceled (es_coordinator w) r \<Longrightarrow> run_canceled (es_coordinator w') r"
    "\<And>t a. fmlookup (es_calls w) t = Some a \<Longrightarrow> ac_point a = Releasing r \<Longrightarrow>
      fmlookup (es_calls w') t = Some a \<or> run_canceled (es_coordinator w') r \<or>
      (\<exists>b. fmlookup (es_calls w') t = Some b \<and> ac_point b = Releasing r)"
  shows "over w' r"
  using assms unfolding over_def by blast

lemma held_run_cases [simp]:
  "held_run (a\<lparr>ac_point := p\<rparr>) = (case p of Holding r \<Rightarrow> Some r | Releasing r \<Rightarrow> Some r | Released r \<Rightarrow> Some r | _ \<Rightarrow> None)"
  "held_run (a\<lparr>ac_canceled := b\<rparr>) = held_run a"
  by (simp_all add: held_run_def)

text \<open>Steps that leave the table and move one call between points without a run.\<close>

lemma table_sound_cancels:
  assumes "table_sound w" "same_table (es_coordinator w) c"
  shows "table_sound (w\<lparr>es_coordinator := c\<rparr>)"
  using assms unfolding table_sound_def same_table_def over_def Let_def by (simp; blast)

lemma table_soundD:
  assumes "table_sound w"
  shows "\<not> co_panicked (es_coordinator w)"
    "r |\<in>| fmdom (co_runs (es_coordinator w)) \<longleftrightarrow> r < co_next (es_coordinator w)"
    "fmlookup (co_active (es_coordinator w)) k = Some r \<Longrightarrow> r < co_next (es_coordinator w) \<and> \<not> run_done (es_coordinator w) r"
    "fmlookup (es_calls w) t = Some a \<Longrightarrow> ac_point a = Holding r \<Longrightarrow> fmlookup (co_active (es_coordinator w)) (ac_key a) = Some r"
    "fmlookup (es_calls w) t = Some a \<Longrightarrow> held_run a = Some r \<Longrightarrow> r < co_next (es_coordinator w)"
    "fmlookup (es_calls w) t = Some a \<Longrightarrow> fmlookup (es_calls w) t' = Some a' \<Longrightarrow> held_run a = Some r \<Longrightarrow>
      held_run a' = Some r \<Longrightarrow> t = t'"
    "fmlookup (es_calls w) t = Some a \<Longrightarrow> ac_point a = Waiting r \<Longrightarrow>
      run_done (es_coordinator w) r \<or> fmlookup (co_active (es_coordinator w)) (ac_key a) = Some r"
  using assms unfolding table_sound_def Let_def by blast+

lemma table_sound_holder:
  assumes "table_sound w" "fmlookup (co_active (es_coordinator w)) k = Some r"
  obtains t a where "fmlookup (es_calls w) t = Some a" "ac_key a = k" "ac_point a = Holding r"
  using assms unfolding table_sound_def Let_def by blast

lemma table_sound_gone:
  assumes "table_sound w" "r < co_next (es_coordinator w)" "\<And>k. fmlookup (co_active (es_coordinator w)) k \<noteq> Some r"
  shows "over w r"
  using assms unfolding table_sound_def Let_def by blast

lemma table_soundI:
  assumes "\<not> co_panicked (es_coordinator w)"
    "\<And>r. r |\<in>| fmdom (co_runs (es_coordinator w)) \<longleftrightarrow> r < co_next (es_coordinator w)"
    "\<And>k r. fmlookup (co_active (es_coordinator w)) k = Some r \<Longrightarrow> r < co_next (es_coordinator w) \<and>
      \<not> run_done (es_coordinator w) r \<and> (\<exists>t a. fmlookup (es_calls w) t = Some a \<and> ac_key a = k \<and> ac_point a = Holding r)"
    "\<And>t a r. fmlookup (es_calls w) t = Some a \<Longrightarrow> ac_point a = Holding r \<Longrightarrow>
      fmlookup (co_active (es_coordinator w)) (ac_key a) = Some r"
    "\<And>t a r. fmlookup (es_calls w) t = Some a \<Longrightarrow> held_run a = Some r \<Longrightarrow> r < co_next (es_coordinator w)"
    "\<And>t a t' a' r. fmlookup (es_calls w) t = Some a \<Longrightarrow> fmlookup (es_calls w) t' = Some a' \<Longrightarrow> held_run a = Some r \<Longrightarrow>
      held_run a' = Some r \<Longrightarrow> t = t'"
    "\<And>r. r < co_next (es_coordinator w) \<Longrightarrow> (\<And>k. fmlookup (co_active (es_coordinator w)) k \<noteq> Some r) \<Longrightarrow> over w r"
    "\<And>t a r. fmlookup (es_calls w) t = Some a \<Longrightarrow> ac_point a = Waiting r \<Longrightarrow>
      run_done (es_coordinator w) r \<or> fmlookup (co_active (es_coordinator w)) (ac_key a) = Some r"
  shows "table_sound w"
  unfolding table_sound_def Let_def using assms by blast

text \<open>A call that has no run before and after its step.\<close>

lemma table_sound_at_point:
  assumes "table_sound w" "fmlookup (es_calls w) t = None \<or> fmlookup (es_calls w) t = Some b \<and> held_run b = None"
    "held_run (a\<lparr>ac_point := p\<rparr>) = None"
    "\<And>r. p = Waiting r \<Longrightarrow> fmlookup (co_active (es_coordinator w)) (ac_key a) = Some r"
  shows "table_sound (at_point t a p w)"
proof -
  note s = table_soundD[OF assms(1)]
  have nh: "p \<noteq> Holding r" for r using assms(3) by auto
  have nb: "ac_point a' \<noteq> Holding r" if "fmlookup (es_calls w) t = Some a'" for a' r
    using assms(2) that by (auto simp: held_run_def)
  show ?thesis
  proof (rule table_soundI, goal_cases)
    case (3 k r)
    then have k: "fmlookup (co_active (es_coordinator w)) k = Some r" by (simp add: at_point_def)
    obtain t' a' where h: "fmlookup (es_calls w) t' = Some a'" "ac_key a' = k" "ac_point a' = Holding r"
      using table_sound_holder[OF assms(1) k] .
    then have "t' \<noteq> t" using nb by blast
    then show ?case using h s(3)[OF k] by (auto simp: at_point_def)
  next
    case (8 t' a' r) then show ?case using s(7) assms(4) by (auto simp: at_point_def split: if_splits)
  next
    case (7 r)
    then have "over w r" using table_sound_gone[OF assms(1), of r] by (simp add: at_point_def)
    then show ?case by (rule over_kept) (use assms(2) in \<open>auto simp: at_point_def held_run_def\<close>)
  next
    case (6 t1 a1 t2 a2 r) then show ?case using s(6) assms(3) by (auto simp: at_point_def split: if_splits)
  qed (use s nh assms(3) in \<open>auto simp: at_point_def split: if_splits\<close>)
qed

text \<open>An admission.\<close>

lemma table_sound_admit:
  assumes "table_sound w" "fmlookup (es_calls w) t = Some a" "ac_point a = BeforeLock revision"
    "fmlookup (co_active (es_coordinator w)) (ac_key a) = None"
    "c = (es_coordinator w)\<lparr>co_active := fmupd (ac_key a) (co_next (es_coordinator w)) (co_active (es_coordinator w)),
       co_runs := fmupd (co_next (es_coordinator w)) (admitted_run a revision) (co_runs (es_coordinator w)),
       co_next := co_next (es_coordinator w) + 1\<rparr>"
  shows "table_sound (at_point t a (Holding (co_next (es_coordinator w))) (w\<lparr>es_coordinator := c\<rparr>))"
proof -
  note s = table_soundD[OF assms(1)]
  let ?c = "es_coordinator w" and ?n = "co_next (es_coordinator w)"
  have d: "run_done c r \<longleftrightarrow> run_done ?c r" "run_canceled c r \<longleftrightarrow> run_canceled ?c r" if "r \<noteq> ?n" for r
    using that assms(5) by (simp_all add: run_done_def run_canceled_def)
  have n: "\<not> run_done c ?n" using assms(5) by (simp add: run_done_def admitted_run_def)
  have below: "run_done ?c r \<Longrightarrow> r < ?n" for r using run_done_dom s(2) by blast
  have dc: "run_done ?c r \<Longrightarrow> run_done c r" for r using d(1)[of r] below[of r] by fastforce
  have act: "fmlookup (co_active c) k = (if k = ac_key a then Some ?n else fmlookup (co_active ?c) k)" for k
    using assms(5) by simp
  have nxt: "co_next c = ?n + 1" "co_panicked c = co_panicked ?c" using assms(5) by simp_all
  have h: "held_run a = None" using assms(3) by (simp add: held_run_def)
  show ?thesis
  proof (rule table_soundI, goal_cases)
    case (2 r)
    have "fmdom (co_runs c) = finsert ?n (fmdom (co_runs ?c))" using assms(5) by simp
    then show ?case using s(2)[of r] nxt by (simp add: at_point_def less_Suc_eq disj_commute)
  next
    case (3 k r)
    show ?case
    proof (cases "k = ac_key a")
      case True
      then have "r = ?n" using 3 act by (simp add: at_point_def)
      then show ?thesis using True n nxt by (auto simp: at_point_def)
    next
      case False
      then have k: "fmlookup (co_active ?c) k = Some r" using 3 act by (simp add: at_point_def)
      obtain t' a' where t': "fmlookup (es_calls w) t' = Some a'" "ac_key a' = k" "ac_point a' = Holding r"
        using table_sound_holder[OF assms(1) k] .
      then have "t' \<noteq> t" using assms(2,3) by auto
      then show ?thesis using t' s(3)[OF k] d(1)[of r] nxt by (auto simp: at_point_def)
    qed
  next
    case (4 t' a' r) then show ?case using s(4)[of t' a' r] act assms(4) by (auto simp: at_point_def split: if_splits)
  next
    case (5 t' a' r) then show ?case using s(5)[of t' a' r] nxt by (auto simp: at_point_def split: if_splits)
  next
    case (6 t1 a1 t2 a2 r) then show ?case
      using s(6)[of t1 a1 t2 a2 r] s(5)[of t1 a1 r] s(5)[of t2 a2 r] by (auto simp: at_point_def split: if_splits)
  next
    case (7 r)
    then have "r \<noteq> ?n" using act[of "ac_key a"] by (auto simp: at_point_def)
    moreover have "fmlookup (co_active ?c) k \<noteq> Some r" for k
      using 7(2)[of k] act[of k] assms(4) by (auto simp: at_point_def split: if_splits)
    ultimately have "over w r" using 7(1) nxt table_sound_gone[OF assms(1), of r] by (simp add: at_point_def)
    then show ?case by (rule over_kept) (use assms(2,3) d \<open>r \<noteq> ?n\<close> in \<open>auto simp: at_point_def\<close>)
  next
    case (8 t' a' r)
    then have "fmlookup (es_calls w) t' = Some a'" "t' \<noteq> t" by (auto simp: at_point_def split: if_splits)
    then show ?case using s(7)[OF _ 8(2)] dc act assms(4) by (auto simp: at_point_def)
  qed (use s(1) nxt in \<open>simp add: at_point_def\<close>)
qed

text \<open>A run that is in the table is held by one call; its release takes it out.\<close>

lemma held_active:
  assumes "table_sound w" "fmlookup (es_calls w) t = Some a" "held_run a = Some r"
    "fmlookup (co_active (es_coordinator w)) k = Some r"
  shows "ac_point a = Holding r \<and> k = ac_key a"
proof -
  obtain t' a' where h: "fmlookup (es_calls w) t' = Some a'" "ac_key a' = k" "ac_point a' = Holding r"
    using table_sound_holder[OF assms(1,4)] .
  then have "t = t'" using table_soundD(6)[OF assms(1,2) h(1) assms(3)] by (simp add: held_run_def)
  then show ?thesis using h assms(2) by simp
qed

lemma table_sound_released:
  assumes "table_sound w" "fmlookup (es_calls w) t = Some a" "ac_point a = Holding r"
  shows "table_sound (at_point t a (Releasing r) (on_coordinator (releaseKey (ac_key a) r) w))"
proof -
  note s = table_soundD[OF assms(1)]
  let ?c = "es_coordinator w" and ?k = "ac_key a"
  have k: "fmlookup (co_active ?c) ?k = Some r" using s(4)[OF assms(2,3)] .
  have held: "held_run a = Some r" using assms(3) by (simp add: held_run_def)
  have r: "r |\<in>| fmdom (co_runs ?c)" "\<not> run_done ?c r" "r < co_next ?c" using s(2)[of r] s(3)[OF k] by auto
  note rel = releaseKey_active[OF k r(2)]
  have only: "fmlookup (co_active ?c) k' = Some r \<Longrightarrow> k' = ?k" for k'
    using held_active[OF assms(1,2) held] by blast
  show ?thesis
  proof (rule table_soundI, goal_cases)
    case (3 k' r')
    then have k': "fmlookup (co_active ?c) k' = Some r'" "k' \<noteq> ?k"
      by (auto simp: at_point_def on_coordinator_def rel split: if_splits)
    then have "r' \<noteq> r" using only by blast
    obtain t' a' where h: "fmlookup (es_calls w) t' = Some a'" "ac_key a' = k'" "ac_point a' = Holding r'"
      using table_sound_holder[OF assms(1) k'(1)] .
    then have "t' \<noteq> t" using assms(2) k'(2) by auto
    then show ?case using h s(3)[OF k'(1)] \<open>r' \<noteq> r\<close> by (auto simp: at_point_def on_coordinator_def rel)
  next
    case (4 t' a' r')
    then have h: "fmlookup (es_calls w) t' = Some a'" "t' \<noteq> t" by (auto simp: at_point_def on_coordinator_def split: if_splits)
    have "fmlookup (co_active ?c) (ac_key a') = Some r'" using s(4)[OF h(1) 4(2)] .
    moreover have "r' \<noteq> r" using s(6)[OF assms(2) h(1) held] h(2) 4(2) by (auto simp: held_run_def)
    ultimately show ?case using k by (auto simp: at_point_def on_coordinator_def rel)
  next
    case (5 t' a' r') then show ?case using s(5)[of t' a' r'] r(3) by (auto simp: at_point_def on_coordinator_def rel split: if_splits)
  next
    case (6 t1 a1 t2 a2 r') then show ?case
      using s(6)[of t1 a1 t2 a2 r'] s(6)[OF assms(2) _ held, of t1 a1] s(6)[OF assms(2) _ held, of t2 a2]
      by (auto simp: at_point_def on_coordinator_def split: if_splits)
  next
    case (7 r')
    show ?case
    proof (cases "r' = r")
      case True then show ?thesis using r by (auto simp: over_def at_point_def on_coordinator_def rel)
    next
      case False
      then have "fmlookup (co_active ?c) k' \<noteq> Some r'" for k'
        using 7(2)[of k'] k by (auto simp: at_point_def on_coordinator_def rel split: if_splits)
      then have "over w r'" using 7(1) table_sound_gone[OF assms(1), of r'] by (simp add: at_point_def on_coordinator_def rel)
      then show ?thesis by (rule over_kept) (use assms(2,3) in \<open>auto simp: at_point_def on_coordinator_def rel\<close>)
    qed
  next
    case (8 t' a' r')
    then have h: "fmlookup (es_calls w) t' = Some a'" by (auto simp: at_point_def on_coordinator_def split: if_splits)
    show ?case using s(7)[OF h 8(2)] k r(1) by (auto simp: at_point_def on_coordinator_def rel)
  qed (use s(1,2) in \<open>simp_all add: at_point_def on_coordinator_def rel\<close>)
qed

lemma table_sound_call:
  assumes "table_sound w" "fmlookup (es_calls w) t = Some a" "held_run a' = held_run a" "ac_key a' = ac_key a"
    "\<And>r. ac_point a' = Holding r \<longleftrightarrow> ac_point a = Holding r" "\<And>r. ac_point a' = Waiting r \<longleftrightarrow> ac_point a = Waiting r"
    "\<And>r. ac_point a = Releasing r \<Longrightarrow> ac_point a' = Releasing r \<or> run_canceled (es_coordinator w) r"
  shows "table_sound (w\<lparr>es_calls := fmupd t a' (es_calls w)\<rparr>)"
proof -
  note s = table_soundD[OF assms(1)]
  show ?thesis
  proof (rule table_soundI, goal_cases)
    case (3 k r)
    then have k: "fmlookup (co_active (es_coordinator w)) k = Some r" by simp
    obtain t' b where h: "fmlookup (es_calls w) t' = Some b" "ac_key b = k" "ac_point b = Holding r"
      using table_sound_holder[OF assms(1) k] .
    then show ?case using s(3)[OF k] assms(2,4,5) by (cases "t' = t") (auto intro!: exI[of _ t'])
  next
    case (4 t' b r) then show ?case using s(4)[of t' b r] s(4)[OF assms(2)] assms(4,5) by (auto split: if_splits)
  next
    case (5 t' b r) then show ?case using s(5)[of t' b r] s(5)[OF assms(2)] assms(3) by (auto split: if_splits)
  next
    case (6 t1 a1 t2 a2 r) then show ?case
      using s(6)[of t1 a1 t2 a2 r] s(6)[OF assms(2), of t1 a1 r] s(6)[OF assms(2), of t2 a2 r] assms(3) by (auto split: if_splits)
  next
    case (7 r)
    then have "over w r" using table_sound_gone[OF assms(1), of r] by simp
    then show ?case by (rule over_kept) (use assms(2,7) in \<open>auto\<close>)
  next
    case (8 t' b r) then show ?case using s(7)[of t' b r] s(7)[OF assms(2)] assms(4,6) by (auto split: if_splits)
  qed (use s(1,2) in simp_all)
qed

lemma table_sound_shutdowns [simp]: "table_sound (w\<lparr>es_shutdowns := m\<rparr>) \<longleftrightarrow> table_sound w"
  by (simp add: table_sound_def over_def)

lemma table_sound_step: "effect_step env w w' \<Longrightarrow> table_sound w \<Longrightarrow> table_sound w'"
proof (induction rule: effect_step.induct)
  case (step_call w t a)
  then show ?case by (intro table_sound_at_point) (auto simp: fm_has_def)
next
  case (step_lock w t a revision p c)
  consider (refused) e where "p = Refused e" "c = es_coordinator w"
    | (wait) r where "p = Waiting r" "c = es_coordinator w" "fmlookup (co_active c) (ac_key a) = Some r"
    | (admit) "p = Holding (co_next (es_coordinator w))" "fmlookup (co_active (es_coordinator w)) (ac_key a) = None"
    using step_lock(3) by (auto simp: acquire_locked_def split: if_splits option.splits)
  then show ?case
  proof cases
    case admit
    then show ?thesis
      using table_sound_admit[OF step_lock(4,1,2) admit(2), of c] step_lock(3)
      by (auto simp: acquire_locked_def split: if_splits option.splits)
  qed (use step_lock in \<open>auto intro!: table_sound_at_point simp: held_run_def\<close>)
next
  case (step_release w t a r)
  show ?case
  proof (cases "ac_point a = Holding r")
    case True then show ?thesis using table_sound_released[OF step_release(3,1)] by simp
  next
    case False
    then have r: "ac_point a = Released r" "held_run a = Some r" using step_release(2) by (auto simp: held_run_def)
    have "fmlookup (co_active (es_coordinator w)) (ac_key a) \<noteq> Some r"
      using held_active[OF step_release(3,1) r(2), of "ac_key a"] False by blast
    then have "on_coordinator (releaseKey (ac_key a) r) w = w" by (simp add: releaseKey_other on_coordinator_def)
    then show ?thesis
      using table_sound_call[OF step_release(3,1), of "a\<lparr>ac_point := Releasing r\<rparr>"] r by (simp add: at_point_def)
  qed
next
  case (step_released w t a r)
  let ?w = "w\<lparr>es_coordinator := cancel_run r (es_coordinator w)\<rparr>"
  have "table_sound ?w" by (rule table_sound_cancels[OF step_released(3)]) simp
  moreover have "r |\<in>| fmdom (co_runs (es_coordinator w))"
    using table_soundD(2,5)[OF step_released(3)] step_released(1,2) by (auto simp: held_run_def)
  ultimately show ?case
    using table_sound_call[of ?w t a "a\<lparr>ac_point := Released r\<rparr>"] step_released(1,2)
    by (simp add: at_point_def on_coordinator_def held_run_def)
next
  case (step_cancel w t a)
  have "table_sound (w\<lparr>es_calls := fmupd t (a\<lparr>ac_canceled := True\<rparr>) (es_calls w)\<rparr>)"
    by (rule table_sound_call[OF step_cancel(2,1)]) simp_all
  then show ?case
    unfolding cancel_caller_def on_coordinator_def
    by (rule table_sound_cancels) (simp split: option.split)
next
  case (step_shutdown w s rs c)
  have "table_sound (w\<lparr>es_coordinator := c\<rparr>)"
    using step_shutdown(2) by (intro table_sound_cancels[OF step_shutdown(3)]) (auto simp: shutdown_locked_def same_table_def)
  then show ?case by (simp add: set_shutdown_def)
next
  case (step_lifecycle w)
  then show ?case unfolding on_coordinator_def by (intro table_sound_cancels) (auto simp: same_table_def)
qed (auto intro!: table_sound_at_point table_sound_cancels simp: on_coordinator_def set_shutdown_def held_run_def
  cancelEffect_def cancelInvalidated_def)

section \<open>Shutdown\<close>

definition shutdown_sound :: "effect_system \<Rightarrow> bool" where
  "shutdown_sound w \<longleftrightarrow>
     (let c = es_coordinator w in
      (co_stopped c \<longrightarrow> (\<forall>k r. fmlookup (co_active c) k = Some r \<longrightarrow> run_canceled c r)) \<and>
      (\<forall>s rs. fmlookup (es_shutdowns w) s = Some (Closing rs) \<longrightarrow>
        co_stopped c \<and> (\<forall>k r. fmlookup (co_active c) k = Some r \<longrightarrow> r \<in> set rs)) \<and>
      (\<forall>s. fmlookup (es_shutdowns w) s = Some Closed \<longrightarrow> co_stopped c \<and> (\<forall>k. fmlookup (co_active c) k = None)))"

text \<open>Once stopped, the table only shrinks.\<close>

definition shrinks :: "runtimeEffectCoordinator \<Rightarrow> runtimeEffectCoordinator \<Rightarrow> bool" where
  "shrinks c c' \<longleftrightarrow>
     (co_stopped c \<longrightarrow> co_stopped c' \<and> (\<forall>k r. fmlookup (co_active c') k = Some r \<longrightarrow> fmlookup (co_active c) k = Some r) \<and>
       (\<forall>r. run_canceled c r \<longrightarrow> run_canceled c' r)) \<and>
     (co_stopped c' \<longrightarrow> co_stopped c)"

lemma same_table_shrinks: "same_table c c' \<Longrightarrow> co_stopped c' = co_stopped c \<Longrightarrow> shrinks c c'"
  by (simp add: same_table_def shrinks_def)

lemma shutdown_sound_shrinks:
  assumes "shutdown_sound w" "shrinks (es_coordinator w) (es_coordinator w')" "es_shutdowns w' = es_shutdowns w"
  shows "shutdown_sound w'"
proof (cases "co_stopped (es_coordinator w)")
  case True
  then have t: "co_stopped (es_coordinator w')"
    "\<And>k r. fmlookup (co_active (es_coordinator w')) k = Some r \<Longrightarrow> fmlookup (co_active (es_coordinator w)) k = Some r"
    "\<And>r. run_canceled (es_coordinator w) r \<Longrightarrow> run_canceled (es_coordinator w') r"
    using assms(2) True by (auto simp: shrinks_def)
  have n: "fmlookup (co_active (es_coordinator w)) k = None \<Longrightarrow> fmlookup (co_active (es_coordinator w')) k = None" for k
    using t(2)[of k] by (cases "fmlookup (co_active (es_coordinator w')) k") auto
  show ?thesis using assms(1,3) t True n unfolding shutdown_sound_def Let_def by (simp; blast)
next
  case False
  moreover have "\<not> co_stopped (es_coordinator w')" using assms(2) False by (simp add: shrinks_def)
  ultimately show ?thesis using assms(1,3) by (simp add: shutdown_sound_def Let_def)
qed

lemma releaseKey_shrinks:
  assumes "fmlookup (co_active c) k = Some r \<Longrightarrow> \<not> run_done c r"
  shows "shrinks c (releaseKey k r c)"
proof (cases "fmlookup (co_active c) k = Some r")
  case True
  then show ?thesis using releaseKey_active[OF True assms[OF True]] by (simp add: shrinks_def)
qed (simp add: releaseKey_other same_table_shrinks)

lemma shutdown_sound_step:
  assumes "effect_step env w w'" "table_sound w" "shutdown_sound w" "arrangement (v_order env)"
  shows "shutdown_sound w'"
  using assms(1-3)
proof (induction rule: effect_step.induct)
  case (step_lock w t a revision p c)
  have c: "shrinks (es_coordinator w) c"
    using step_lock(3) by (auto simp: acquire_locked_def shrinks_def run_canceled_def admitted_run_def split: if_splits option.splits)
  show ?case by (rule shutdown_sound_shrinks[OF step_lock(5)]) (use c in \<open>simp_all add: at_point_def\<close>)
next
  case (step_release w t a r)
  have c: "shrinks (es_coordinator w) (releaseKey (ac_key a) r (es_coordinator w))"
    by (rule releaseKey_shrinks) (use table_soundD(3)[OF step_release(3)] in blast)
  show ?case
    by (rule shutdown_sound_shrinks[OF step_release(4)]) (use c in \<open>simp_all add: at_point_def on_coordinator_def\<close>)
next
  case (step_shutdown w s rs c)
  let ?c = "es_coordinator w"
  have rs: "r \<in> set rs" if "fmlookup (co_active ?c) k = Some r" for k r
    using step_shutdown(2) that fm_entries_set[OF assms(4), of "co_active ?c"] by (force simp: shutdown_locked_def)
  have c: "c = (cancel_where (\<lambda>_ _. True) ?c)\<lparr>co_stopped := True\<rparr>" using step_shutdown(2) by (simp add: shutdown_locked_def)
  have "run_canceled c r" if k: "fmlookup (co_active ?c) k = Some r" for k r
  proof -
    have "r |\<in>| fmdom (co_runs ?c)" using table_soundD(2,3)[OF step_shutdown(3)] k by blast
    then obtain run where "fmlookup (co_runs ?c) r = Some run" by (auto simp: fmlookup_dom_iff)
    then show ?thesis using k c by auto
  qed
  then show ?case using step_shutdown(4) rs c by (auto simp: shutdown_sound_def set_shutdown_def Let_def split: if_splits)
next
  case (step_finished w s r rs)
  have "fmlookup (co_active (es_coordinator w)) k \<noteq> Some r" for k
    using table_soundD(3)[OF step_finished(3)] step_finished(2) by blast
  then show ?case
    using step_finished(1,4) by (fastforce simp: shutdown_sound_def set_shutdown_def Let_def split: if_splits)
next
  case (step_closed w s)
  have "fmlookup (co_active (es_coordinator w)) k = None" for k
    using step_closed(1,3) by (cases "fmlookup (co_active (es_coordinator w)) k") (force simp: shutdown_sound_def Let_def)+
  then show ?case using step_closed(1,3) by (auto simp: shutdown_sound_def set_shutdown_def Let_def split: if_splits)
next
  case (step_abandon w s r rs)
  then show ?case by (auto simp: shutdown_sound_def set_shutdown_def Let_def split: if_splits)
qed (auto elim!: shutdown_sound_shrinks intro!: same_table_shrinks
  simp: at_point_def on_coordinator_def cancelEffect_def cancelInvalidated_def cancel_caller_def shrinks_def split: option.split)

lemma system_sound:
  assumes "effect_run env empty_system w" "arrangement (v_order env)"
  shows "table_sound w" "shutdown_sound w"
  using assms(1)
proof (induction rule: rtranclp_induct)
  case base
  {
    case 1 show ?case by (simp add: empty_system_def newRuntimeEffectCoordinator_def table_sound_def)
  next
    case 2 show ?case by (simp add: empty_system_def newRuntimeEffectCoordinator_def shutdown_sound_def)
  }
next
  case (step w w')
  {
    case 1 show ?case using table_sound_step[OF step(2,3)] .
  next
    case 2 show ?case using shutdown_sound_step[OF step(2,3,4) assms(2)] .
  }
qed

end
