(* ===== verification/Effect_Coordinator_Properties.thy ===== *)
theory Effect_Coordinator_Properties
  imports Effect_Coordinator Owner_Runs
begin

text \<open>
  What \<open>Effect_Coordinator\<close> promises: one run per key, no waiter that sleeps for ever, a shutdown after
  which nothing runs, and which runs a sweep cancels.
\<close>

section \<open>A system of two calls\<close>

text \<open>Call 0 holds a run for attempt 1 of issue 7; call 1 wants the same key and waits.\<close>

definition sample_call :: acquire_call where
  "sample_call =
     \<lparr>ac_key = ''o/r#7/1'', ac_issueGeneration = 3, ac_attemptGeneration = 2, ac_observationGeneration = 0,
      ac_effectID = [], ac_canceled = False, ac_point = BeforeSnapshot\<rparr>"

definition sample_holder :: effect_system where
  "sample_holder =
     at_point 0 sample_call (Holding 0) (empty_system\<lparr>es_coordinator := snd (acquire_locked sample_call 5 newRuntimeEffectCoordinator)\<rparr>)"

definition sample_waiting :: effect_system where
  "sample_waiting = at_point 1 sample_call (Waiting 0) sample_holder"

lemma sample_acquired:
  "acquire_locked sample_call 5 newRuntimeEffectCoordinator =
     (Holding 0, snd (acquire_locked sample_call 5 newRuntimeEffectCoordinator))"
  by (simp add: acquire_locked_def newRuntimeEffectCoordinator_def)

lemma at_point_again [simp]: "at_point t (a\<lparr>ac_point := q\<rparr>) p w = at_point t a p w"
  by (simp add: at_point_def)

lemma at_point_twice [simp]: "at_point t a p (at_point t b q w) = at_point t a p w"
  by (simp add: at_point_def)

lemma at_point_calls [simp]:
  "fmlookup (es_calls (at_point t a p w)) t' = (if t' = t then Some (a\<lparr>ac_point := p\<rparr>) else fmlookup (es_calls w) t')"
  "es_coordinator (at_point t a p w) = es_coordinator w" "es_shutdowns (at_point t a p w) = es_shutdowns w"
  by (simp_all add: at_point_def)

text \<open>A call up to its critical section.\<close>

lemma run_to_lock:
  fixes state :: runtimeOwnerState
  assumes "\<not> fm_has (es_calls w) t" "acquire_locked a (s_Revision state) (es_coordinator w) = (p, c)"
  shows "effect_run env w (at_point t a p (w\<lparr>es_coordinator := c\<rparr>))"
proof -
  let ?w1 = "at_point t a BeforeSnapshot w" and ?w2 = "at_point t a (BeforeLock (s_Revision state)) w"
  have "effect_step env w ?w1" using assms(1) by (rule step_call)
  moreover have "effect_step env ?w1 ?w2"
    using step_snapshot[of ?w1 t "a\<lparr>ac_point := BeforeSnapshot\<rparr>" env state] by simp
  moreover have "effect_step env ?w2 (at_point t a p (w\<lparr>es_coordinator := c\<rparr>))"
  proof -
    have "acquire_locked (a\<lparr>ac_point := q\<rparr>) r c' = acquire_locked a r c'" for q r c'
      by (simp add: acquire_locked_def admitted_run_def split: option.split)
    then have "acquire_locked (a\<lparr>ac_point := BeforeLock (s_Revision state)\<rparr>) (s_Revision state) (es_coordinator ?w2) = (p, c)"
      using assms(2) by simp
    from step_lock[OF _ _ this, of t env] show ?thesis by (simp add: at_point_def)
  qed
  ultimately show ?thesis by (meson converse_rtranclp_into_rtranclp r_into_rtranclp)
qed

lemma run_sample_holder: "effect_run env empty_system sample_holder"
  using run_to_lock[of empty_system 0 sample_call small_ledger "Holding 0" _ env] sample_acquired
  by (simp add: sample_holder_def empty_system_def small_ledger_def newRuntimeEffectCoordinator_def fm_has_def)

lemma sample_locked:
  "fmlookup (es_calls sample_holder) (Suc 0) = None" "\<not> fm_has (es_calls sample_holder) (Suc 0)"
  "acquire_locked sample_call 5 (es_coordinator sample_holder) = (Waiting 0, es_coordinator sample_holder)"
  "sample_holder\<lparr>es_coordinator := es_coordinator sample_holder\<rparr> = sample_holder"
  by (simp_all add: sample_holder_def empty_system_def fm_has_def acquire_locked_def sample_call_def newRuntimeEffectCoordinator_def)

lemma run_sample_waiting: "effect_run env empty_system sample_waiting"
proof -
  have "effect_run env sample_holder sample_waiting"
    using run_to_lock[of sample_holder 1 sample_call small_ledger "Waiting 0" "es_coordinator sample_holder" env]
    using sample_locked by (simp add: sample_waiting_def small_ledger_def)
  with run_sample_holder[of env] show ?thesis by (rule rtranclp_trans)
qed

lemma sample_arranged: "arrangement (v_order sample_env)" by (simp add: sample_env_def arrangement_def)

section \<open>One run per key\<close>

text \<open>
  C20: One effect per key.  Whatever calls are made, cancelled and released, two calls that hold runs at
  the same time hold them under different keys: effects of one attempt never run at the same time.
\<close>

theorem one_effect_per_key:
  assumes "effect_run env empty_system w" "arrangement (v_order env)"
    "fmlookup (es_calls w) t = Some a" "ac_point a = Holding r"
    "fmlookup (es_calls w) t' = Some a'" "ac_point a' = Holding r'" "t \<noteq> t'"
  shows "ac_key a \<noteq> ac_key a'"
proof
  assume "ac_key a = ac_key a'"
  note s = table_soundD[OF system_sound(1)[OF assms(1,2)]]
  have "r = r'" using s(4)[OF assms(3,4)] s(4)[OF assms(5,6)] \<open>ac_key a = ac_key a'\<close> by simp
  then show False using s(6)[OF assms(3,5)] assms(4,6,7) by (simp add: held_run_def)
qed

theorem one_effect_per_key_witness:
  "let b = sample_call\<lparr>ac_key := ''o/r#7/2''\<rparr>; c = snd (acquire_locked b 5 (es_coordinator sample_holder));
     w = at_point 1 b (Holding 1) (sample_holder\<lparr>es_coordinator := c\<rparr>) in
   effect_run sample_env empty_system w \<and> fmlookup (es_calls w) 0 = Some (sample_call\<lparr>ac_point := Holding 0\<rparr>) \<and>
   fmlookup (es_calls w) 1 = Some (b\<lparr>ac_point := Holding 1\<rparr>) \<and> ac_key sample_call \<noteq> ac_key b"
proof -
  let ?b = "sample_call\<lparr>ac_key := ''o/r#7/2''\<rparr>"
  let ?c = "snd (acquire_locked ?b 5 (es_coordinator sample_holder))"
  let ?w = "at_point 1 ?b (Holding 1) (sample_holder\<lparr>es_coordinator := ?c\<rparr>)"
  have "acquire_locked ?b 5 (es_coordinator sample_holder) = (Holding 1, ?c)"
    by (simp add: sample_holder_def acquire_locked_def sample_call_def newRuntimeEffectCoordinator_def)
  then have "effect_run sample_env sample_holder ?w"
    using run_to_lock[of sample_holder 1 ?b small_ledger "Holding 1" ?c sample_env]
    by (simp add: small_ledger_def sample_holder_def empty_system_def fm_has_def)
  with run_sample_holder have run: "effect_run sample_env empty_system ?w" by (rule rtranclp_trans)
  have calls: "fmlookup (es_calls ?w) 0 = Some (sample_call\<lparr>ac_point := Holding 0\<rparr>)"
    "fmlookup (es_calls ?w) 1 = Some (?b\<lparr>ac_point := Holding 1\<rparr>)"
    by (simp_all add: sample_holder_def)
  have "ac_key (sample_call\<lparr>ac_point := Holding 0\<rparr>) \<noteq> ac_key (?b\<lparr>ac_point := Holding 1\<rparr>)"
    by (rule one_effect_per_key[OF run sample_arranged calls(1) _ calls(2)]) simp_all
  then show ?thesis unfolding Let_def using run calls by simp
qed

section \<open>No lost wake-up\<close>

text \<open>
  C21: Nobody waits in vain.  A call that waits for a run can go on, or the run is held by another call
  under the same key, and the release of that call lets it go on.  No release closes a channel twice.
\<close>

theorem waiter_wakes:
  assumes "effect_run env empty_system w" "arrangement (v_order env)"
    "fmlookup (es_calls w) t = Some a" "ac_point a = Waiting r"
  shows "\<not> co_panicked (es_coordinator w) \<and>
    (run_done (es_coordinator w) r \<or>
     (\<exists>t' a'. t' \<noteq> t \<and> fmlookup (es_calls w) t' = Some a' \<and> ac_key a' = ac_key a \<and> ac_point a' = Holding r \<and>
       run_done (releaseKey (ac_key a') r (es_coordinator w)) r \<and>
       \<not> co_panicked (releaseKey (ac_key a') r (es_coordinator w))))"
proof -
  let ?c = "es_coordinator w"
  note s = system_sound(1)[OF assms(1,2)]
  show ?thesis
  proof (cases "run_done ?c r")
    case False
    then have k: "fmlookup (co_active ?c) (ac_key a) = Some r" using table_soundD(7)[OF s assms(3,4)] by simp
    obtain t' a' where h: "fmlookup (es_calls w) t' = Some a'" "ac_key a' = ac_key a" "ac_point a' = Holding r"
      using table_sound_holder[OF s k] .
    have "t' \<noteq> t" using h assms(3,4) by auto
    moreover have "r |\<in>| fmdom (co_runs ?c)" using table_soundD(2,3)[OF s] k by blast
    ultimately show ?thesis using h releaseKey_active[OF k False] table_soundD(1)[OF s] by auto
  qed (use table_soundD(1)[OF s] in simp)
qed

theorem waiter_wakes_witness:
  "fmlookup (es_calls sample_waiting) 1 = Some (sample_call\<lparr>ac_point := Waiting 0\<rparr>) \<and>
   (\<exists>t a. t \<noteq> 1 \<and> fmlookup (es_calls sample_waiting) t = Some a \<and> ac_point a = Holding 0)"
proof -
  have w: "fmlookup (es_calls sample_waiting) 1 = Some (sample_call\<lparr>ac_point := Waiting 0\<rparr>)" by (simp add: sample_waiting_def)
  have "\<not> run_done (es_coordinator sample_waiting) 0"
    by (simp add: sample_waiting_def sample_holder_def run_done_def acquire_locked_def newRuntimeEffectCoordinator_def admitted_run_def)
  then show ?thesis
    using waiter_wakes[OF run_sample_waiting sample_arranged w] w by auto
qed

section \<open>Shutdown\<close>

text \<open>
  C22: After a shutdown nothing runs.  Once a shutdown has returned without an error, then and for ever
  after no call holds a run and every run there has been is done.  A run whose context is not cancelled
  yet belongs to a call that has left the critical section of its release and whose next step cancels it.
\<close>

theorem shutdown_quiesces:
  assumes "effect_run env empty_system w" "arrangement (v_order env)" "fmlookup (es_shutdowns w) s = Some Closed"
    "effect_run env w w'"
  shows "(\<nexists>t a r. fmlookup (es_calls w') t = Some a \<and> ac_point a = Holding r) \<and>
    (\<forall>r. r |\<in>| fmdom (co_runs (es_coordinator w')) \<longrightarrow> run_done (es_coordinator w') r \<and>
      (run_canceled (es_coordinator w') r \<or> (\<exists>t a. fmlookup (es_calls w') t = Some a \<and> ac_point a = Releasing r)))"
proof -
  have "fmlookup (es_shutdowns w') s = Some Closed"
    using assms(4,3)
  proof (induction rule: rtranclp_induct)
    case (step w1 w2)
    from step(2) step(3)[OF step(4)] show ?case
      by (cases rule: effect_step.cases)
        (auto simp: at_point_def on_coordinator_def set_shutdown_def cancel_caller_def fm_has_def)
  qed simp
  have run: "effect_run env empty_system w'" using assms(1,4) by simp
  note t = system_sound(1)[OF run assms(2)] and d = system_sound(2)[OF run assms(2)]
  have e: "fmlookup (co_active (es_coordinator w')) k = None" for k
    using d \<open>fmlookup (es_shutdowns w') s = Some Closed\<close> by (auto simp: shutdown_sound_def Let_def)
  have "ac_point a \<noteq> Holding r" if "fmlookup (es_calls w') t' = Some a" for t' a r
    using table_soundD(4)[OF t that, of r] e by auto
  moreover have "over w' r" if "r |\<in>| fmdom (co_runs (es_coordinator w'))" for r
    using table_sound_gone[OF t] table_soundD(2)[OF t] that e by simp
  ultimately show ?thesis unfolding over_def by blast
qed

text \<open>Shutdown 0 finds the run of call 0, and returns between the critical section of the run's release and
  its cancellation.\<close>

definition sample_stopped :: runtimeEffectCoordinator where
  "sample_stopped = snd (shutdown_locked sample_env (es_coordinator sample_holder))"

definition sample_closed :: effect_system where
  "sample_closed =
     set_shutdown 0 Closed (at_point 0 sample_call (Releasing 0)
       (on_coordinator (releaseKey ''o/r#7/1'' 0) (sample_holder\<lparr>es_coordinator := sample_stopped\<rparr>)))"

lemma sample_coordinator:
  "shutdown_locked sample_env (es_coordinator sample_holder) = ([0], sample_stopped)"
  "run_done (releaseKey ''o/r#7/1'' 0 sample_stopped) 0" "es_shutdowns sample_holder = fmempty"
  "fmlookup (es_calls sample_holder) 0 = Some (sample_call\<lparr>ac_point := Holding 0\<rparr>)"
proof -
  have a: "co_active (es_coordinator sample_holder) = fmupd ''o/r#7/1'' 0 fmempty"
    by (simp add: sample_holder_def acquire_locked_def newRuntimeEffectCoordinator_def sample_call_def)
  then show "shutdown_locked sample_env (es_coordinator sample_holder) = ([0], sample_stopped)"
    by (simp add: sample_stopped_def shutdown_locked_def sample_env_def fm_entries_def sorted_list_of_fset.rep_eq)
  have r: "run_done sample_stopped 0 = False" "0 |\<in>| fmdom (co_runs sample_stopped)"
    by (simp_all add: sample_stopped_def shutdown_locked_def cancel_where_def sample_holder_def acquire_locked_def
        newRuntimeEffectCoordinator_def sample_call_def run_done_def admitted_run_def)
  have "fmlookup (co_active sample_stopped) ''o/r#7/1'' = Some 0"
    using a by (simp add: sample_stopped_def shutdown_locked_def)
  from releaseKey_active(6)[OF this] r show "run_done (releaseKey ''o/r#7/1'' 0 sample_stopped) 0" by simp
qed (simp_all add: sample_holder_def empty_system_def)

lemma run_sample_closed: "effect_run sample_env empty_system sample_closed"
proof -
  let ?s1 = "set_shutdown 0 (Closing [0]) (sample_holder\<lparr>es_coordinator := sample_stopped\<rparr>)"
  let ?s2 = "at_point 0 sample_call (Releasing 0) (on_coordinator (releaseKey ''o/r#7/1'' 0) ?s1)"
  let ?s3 = "set_shutdown 0 (Closing []) ?s2"
  have "effect_step sample_env sample_holder ?s1"
    using sample_coordinator by (intro step_shutdown) (simp_all add: fm_has_def)
  moreover have "effect_step sample_env ?s1 ?s2"
  proof -
    have "fmlookup (es_calls ?s1) 0 = Some (sample_call\<lparr>ac_point := Holding 0\<rparr>)" "ac_key sample_call = ''o/r#7/1''"
      using sample_coordinator(4) by (simp_all add: set_shutdown_def sample_call_def)
    then show ?thesis using step_release[of ?s1 0 "sample_call\<lparr>ac_point := Holding 0\<rparr>" 0 sample_env] by simp
  qed
  moreover have "effect_step sample_env ?s2 ?s3"
    using sample_coordinator(2)
    by (intro step_finished) (simp_all add: set_shutdown_def at_point_def on_coordinator_def)
  moreover have "effect_step sample_env ?s3 sample_closed"
  proof -
    have "effect_step sample_env ?s3 (set_shutdown 0 Closed ?s3)" by (rule step_closed) (simp add: set_shutdown_def)
    moreover have "set_shutdown 0 Closed ?s3 = sample_closed"
      by (simp add: sample_closed_def set_shutdown_def at_point_def on_coordinator_def)
    ultimately show ?thesis by simp
  qed
  ultimately have "effect_run sample_env sample_holder sample_closed"
    by (meson converse_rtranclp_into_rtranclp r_into_rtranclp)
  with run_sample_holder show ?thesis by (rule rtranclp_trans)
qed

theorem shutdown_quiesces_witness:
  "let w = at_point 0 sample_call (Released 0) (on_coordinator (cancel_run 0) sample_closed) in
   fmlookup (es_shutdowns sample_closed) 0 = Some Closed \<and> effect_run sample_env sample_closed w \<and>
   0 |\<in>| fmdom (co_runs (es_coordinator w)) \<and> run_done (es_coordinator w) 0 \<and> run_canceled (es_coordinator w) 0"
proof -
  let ?w = "at_point 0 sample_call (Released 0) (on_coordinator (cancel_run 0) sample_closed)"
  have c: "fmlookup (es_shutdowns sample_closed) 0 = Some Closed" by (simp add: sample_closed_def set_shutdown_def)
  have calls: "fmlookup (es_calls sample_closed) 0 = Some (sample_call\<lparr>ac_point := Releasing 0\<rparr>)"
    "fmlookup (es_calls sample_closed) t = None" if "t \<noteq> 0" for t
    using that by (simp_all add: sample_closed_def set_shutdown_def on_coordinator_def sample_holder_def empty_system_def)
  have run: "effect_run sample_env sample_closed ?w"
    using step_released[of sample_closed 0 "sample_call\<lparr>ac_point := Releasing 0\<rparr>" 0 sample_env] calls(1)[of 1] by simp
  have "run_done (es_coordinator sample_closed) 0"
    using sample_coordinator(2) by (simp add: sample_closed_def set_shutdown_def on_coordinator_def)
  then have "0 |\<in>| fmdom (co_runs (es_coordinator sample_closed))" by (rule run_done_dom)
  then have d: "0 |\<in>| fmdom (co_runs (es_coordinator ?w))" by (simp add: on_coordinator_def)
  have "fmlookup (es_calls ?w) t = Some a \<Longrightarrow> ac_point a \<noteq> Releasing 0" for t a
    using calls(2)[of t] by (auto simp: on_coordinator_def split: if_splits)
  then show ?thesis
    unfolding Let_def using shutdown_quiesces[OF run_sample_closed sample_arranged c run] c run d by blast
qed

section \<open>The sweep\<close>

lemma active_once:
  assumes "table_sound w" "fmlookup (co_active (es_coordinator w)) k = Some r" "fmlookup (co_active (es_coordinator w)) k' = Some r"
  shows "k = k'"
proof -
  obtain t a where "fmlookup (es_calls w) t = Some a" "ac_point a = Holding r" using table_sound_holder[OF assms(1,2)] .
  then have "held_run a = Some r" "fmlookup (es_calls w) t = Some a" by (simp_all add: held_run_def)
  then show ?thesis using held_active[OF assms(1)] assms(2,3) by metis
qed

text \<open>Runs are entered under the key of an attempt or of an issue.\<close>

definition scope_key :: "string \<Rightarrow> int \<Rightarrow> int option \<Rightarrow> string" where
  "scope_key repository issue attempt =
     (case attempt of None \<Rightarrow> ownerIssueKey repository issue | Some n \<Rightarrow> ownerAttemptKey repository issue n)"

lemma cut_str_none: "c \<notin> set xs \<Longrightarrow> cut_str xs [c] = None"
  by (induction xs) (auto simp: has_prefix_def)

lemma key_invalid_scope:
  assumes "CHR ''#'' \<notin> set repository" "int64 issue" "\<And>n. attempt = Some n \<Longrightarrow> int64 n"
  shows "\<not> key_invalid state (scope_key repository issue attempt) run \<longleftrightarrow>
    issueGeneration state repository issue = ar_issueGeneration run \<and>
    (\<forall>n. attempt = Some n \<longrightarrow> attemptGeneration state repository issue n = ar_attemptGeneration run) \<and>
    (ar_observationGeneration run = 0 \<or>
      (\<exists>ob. fmlookup (s_Observations state) (ownerIssueKey repository issue) = Some ob \<and>
        ob_Generation ob = ar_observationGeneration run))"
proof (cases attempt)
  case None
  have k: "scope_key repository issue attempt = repository @ CHR ''#'' # itoa issue"
    by (simp add: None scope_key_def ownerIssueKey_def)
  show ?thesis
    using assms(1,2) None unfolding key_invalid_def k
    by (auto simp: cut_str_char cut_str_none atoi_itoa int64_def split: option.splits)
next
  case (Some n)
  have k: "scope_key repository issue attempt = repository @ CHR ''#'' # (itoa issue @ CHR ''/'' # itoa n)"
    by (simp add: Some scope_key_def ownerAttemptKey_def ownerIssueKey_def)
  show ?thesis
    using assms(1,2) assms(3)[OF Some] Some unfolding key_invalid_def k
    by (auto simp: cut_str_char atoi_itoa int64_def split: option.splits)
qed

text \<open>The effect of a run is still to be carried out: it is pending, its reviewer is not revoked, and a
  reviewer of the first digest version could still be finished.\<close>

definition effect_wanted :: "Env \<Rightarrow> runtimeOwnerState \<Rightarrow> string \<Rightarrow> bool" where
  "effect_wanted env state effectID \<longleftrightarrow>
     (\<exists>e. fmlookup (s_Effects state) effectID = Some e \<and> e_State e = ''pending'' \<and> \<not> e_ReviewerRevoked e \<and>
       (\<forall>q v. e_Reconciliation e = Some q \<longrightarrow> rq_Action q = reconciliationReviewer \<longrightarrow> rq_Reviewer q = Some v \<longrightarrow>
          rv_DigestVersion v = 1 \<longrightarrow> reconciliationEffectFinishCurrent env state e = Inr ()))"

lemma effect_wanted_iff: "\<not> effect_invalid env state effectID \<longleftrightarrow> effect_wanted env state effectID"
  by (auto simp: effect_invalid_def effect_wanted_def split: option.splits)

text \<open>
  C23: What a sweep cancels.  A sweep over a committed ledger leaves a run of an attempt or of an issue
  alone exactly when the ledger is older than the one the run was admitted on, or two things hold.  The
  run has no effect, or its effect is recorded, pending and not revoked, and if it is a reviewer of digest
  version 1 the ledger would still accept its result.  And the generations of the issue, of the attempt if
  the key names one, and of the observation if the run names one are those it was admitted with.  No run
  is added, removed or replaced.
\<close>

theorem sweep_exact:
  fixes state :: runtimeOwnerState
  assumes "effect_run env empty_system w" "arrangement (v_order env)"
    "CHR ''#'' \<notin> set repository" "int64 issue" "\<And>n. attempt = Some n \<Longrightarrow> int64 n"
    "fmlookup (co_active (es_coordinator w)) (scope_key repository issue attempt) = Some r"
    "fmlookup (co_runs (es_coordinator w)) r = Some run" "\<not> ar_canceled run"
  defines "c \<equiv> cancelInvalidated env state (es_coordinator w)"
  shows "co_active c = co_active (es_coordinator w) \<and>
    (\<not> run_canceled c r \<longleftrightarrow>
      s_Revision state < ar_admittedRevision run \<or>
      (ar_effectID run = [] \<or> effect_wanted env state (ar_effectID run)) \<and>
      issueGeneration state repository issue = ar_issueGeneration run \<and>
      (\<forall>n. attempt = Some n \<longrightarrow> attemptGeneration state repository issue n = ar_attemptGeneration run) \<and>
      (ar_observationGeneration run = 0 \<or>
        (\<exists>ob. fmlookup (s_Observations state) (ownerIssueKey repository issue) = Some ob \<and>
          ob_Generation ob = ar_observationGeneration run)))"
proof -
  let ?k = "scope_key repository issue attempt"
  have "\<not> run_canceled (es_coordinator w) r" using assms(7,8) by (simp add: run_canceled_def)
  moreover have "(\<exists>k run'. fmlookup (co_active (es_coordinator w)) k = Some r \<and>
      fmlookup (co_runs (es_coordinator w)) r = Some run' \<and> run_invalidated env state k run') \<longleftrightarrow>
    run_invalidated env state ?k run"
    using active_once[OF system_sound(1)[OF assms(1,2)] assms(6)] assms(6,7) by (metis option.inject)
  ultimately have swept: "run_canceled c r \<longleftrightarrow> run_invalidated env state ?k run"
    unfolding c_def cancelInvalidated_def cancel_where_canceled by (simp only: simp_thms)
  have "co_active c = co_active (es_coordinator w)" by (simp add: c_def cancelInvalidated_def)
  moreover have "\<not> run_invalidated env state ?k run \<longleftrightarrow>
      s_Revision state < ar_admittedRevision run \<or>
      (ar_effectID run = [] \<or> effect_wanted env state (ar_effectID run)) \<and> \<not> key_invalid state ?k run"
    by (auto simp: run_invalidated_def effect_wanted_iff[symmetric])
  moreover note key_invalid_scope[OF assms(3-5), where state = state and run = run]
  ultimately show ?thesis unfolding swept by (simp only: simp_thms)
qed

text \<open>A run of an effect, with a ledger in which the effect is pending.\<close>

definition sample_effect_call :: acquire_call where
  "sample_effect_call = sample_call\<lparr>ac_effectID := [''e'']\<rparr>"

definition sample_effect_holder :: effect_system where
  "sample_effect_holder = at_point 0 sample_effect_call (Holding 0)
     (empty_system\<lparr>es_coordinator := snd (acquire_locked sample_effect_call 5 newRuntimeEffectCoordinator)\<rparr>)"

definition sample_effect_ledger :: "bool \<Rightarrow> runtimeOwnerState" where
  "sample_effect_ledger revoked =
     small_ledger\<lparr>s_Effects := fmupd ''e'' (empty_effect\<lparr>e_State := ''pending'', e_ReviewerRevoked := revoked\<rparr>) fmempty\<rparr>"

lemma run_sample_effect_holder: "effect_run env empty_system sample_effect_holder"
  using run_to_lock[of empty_system 0 sample_effect_call small_ledger "Holding 0" _ env]
  by (simp add: sample_effect_holder_def empty_system_def small_ledger_def newRuntimeEffectCoordinator_def fm_has_def
      acquire_locked_def)

theorem sweep_exact_witness:
  "\<not> run_canceled (cancelInvalidated sample_env (sample_effect_ledger False) (es_coordinator sample_effect_holder)) 0 \<and>
   run_canceled (cancelInvalidated sample_env (sample_effect_ledger True) (es_coordinator sample_effect_holder)) 0 \<and>
   run_canceled (cancelInvalidated sample_env ((sample_effect_ledger False)\<lparr>s_AttemptGenerations := fmempty\<rparr>)
     (es_coordinator sample_effect_holder)) 0"
proof -
  have k: "ownerAttemptKey ''o/r'' 7 1 = ''o/r#7/1''" "ownerIssueKey ''o/r'' 7 = ''o/r#7''" by code_simp+
  have a: "fmlookup (co_active (es_coordinator sample_effect_holder)) (scope_key ''o/r'' 7 (Some 1)) = Some 0"
    "fmlookup (co_runs (es_coordinator sample_effect_holder)) 0 = Some (admitted_run sample_effect_call 5)"
    by (simp_all add: k scope_key_def sample_effect_holder_def acquire_locked_def newRuntimeEffectCoordinator_def
        sample_call_def sample_effect_call_def)
  have r: "\<not> ar_canceled (admitted_run sample_effect_call 5)" "CHR ''#'' \<notin> set ''o/r''" "int64 7"
    "Some 1 = Some n \<Longrightarrow> int64 n" for n
    by (simp_all add: admitted_run_def sample_call_def sample_effect_call_def int64_def max_int_def min_int_def)
  note sweep = sweep_exact[OF run_sample_effect_holder sample_arranged r(2-4) a r(1)]
  show ?thesis
    using sweep[of "sample_effect_ledger False"] sweep[of "sample_effect_ledger True"]
      sweep[of "(sample_effect_ledger False)\<lparr>s_AttemptGenerations := fmempty\<rparr>"]
    by (simp add: k issueGeneration_def attemptGeneration_def small_ledger_def admitted_run_def sample_call_def fm_get_def
        sample_effect_call_def sample_effect_ledger_def effect_wanted_def empty_effect_def)
qed

end
