(* ===== verification/Cycle_Phases.thy ===== *)
theory Cycle_Phases
  imports Lifecycle_Plan Owner_Loop
begin

text \<open>
  One reconciliation cycle (\<^verbatim>\<open>cycleFromSnapshot\<close>, \<^verbatim>\<open>runCycle\<close> and the phases of \<^verbatim>\<open>production_cycle_v2.go\<close>):
  collect, apply to the ledger, resume what is pending, then phase by phase plan from a fresh snapshot,
  begin the first plan with the owner and execute it.  The ledger and everything outside are one state;
  what the executions do to it, and what other goroutines submit between two calls of the owner, are
  functions of the environment; there, too, are the cancellations and the scans that a cycle sets off in
  other goroutines.  Begun, pending and executed effects are recorded as events.
  A phase that loops may loop for ever: it is a partial function.
\<close>

section \<open>State, errors and sequencing\<close>

record 'w cycle_core =
  cw_Ledger :: "runtimeOwnerState"
  cw_Applied :: "applied_cycles"
  cw_CycleID :: "uint64"
  cw_Outside :: "'w"

text \<open>\<open>Executed\<close> says of which effect and whether GitHub was changed; \<open>Pending\<close> that a snapshot had it pending.\<close>

datatype cycle_event =
    Begun string
  | Pending string
  | Executed string bool

record 'w cycle_world =
  cw_Core :: "'w cycle_core"
  cw_Events :: "cycle_event list"

datatype cycle_error =
    CycleFailed owner_error
  | Recollect

type_synonym ('w, 'a) cycle = "'w cycle_world \<Rightarrow> ((cycle_error + 'a) \<times> 'w cycle_world) option"

definition cy_ok :: "'a \<Rightarrow> ('w, 'a) cycle" where
  "cy_ok x w = Some (Inr x, w)"

definition cy_fail :: "cycle_error \<Rightarrow> ('w, 'a) cycle" where
  "cy_fail e w = Some (Inl e, w)"

definition cy_bind :: "('w, 'a) cycle \<Rightarrow> ('a \<Rightarrow> ('w, 'b) cycle) \<Rightarrow> ('w, 'b) cycle" where
  "cy_bind m f w = Option.bind (m w) (\<lambda>s. case s of (Inl e, w') \<Rightarrow> Some (Inl e, w') | (Inr x, w') \<Rightarrow> f x w')"

text \<open>A \<^verbatim>\<open>for\<close> loop whose body returns (\<open>Some\<close>) or goes round again.\<close>

partial_function (option) cy_loop :: "('w, 'a option) cycle \<Rightarrow> ('w, 'a) cycle" where
  "cy_loop body w = Option.bind (body w) (\<lambda>s.
     case s of
       (Inl e, w') \<Rightarrow> Some (Inl e, w')
     | (Inr None, w') \<Rightarrow> cy_loop body w'
     | (Inr (Some x), w') \<Rightarrow> Some (Inr x, w'))"

definition cy_of :: "'a owner_result \<Rightarrow> ('w, 'a) cycle" where
  "cy_of r = (case r of Inl e \<Rightarrow> cy_fail (CycleFailed e) | Inr x \<Rightarrow> cy_ok x)"

definition cy_core :: "('w cycle_core \<Rightarrow> 'a owner_result \<times> 'w cycle_core) \<Rightarrow> ('w, 'a) cycle" where
  "cy_core f w = (case f (cw_Core w) of (r, c) \<Rightarrow> cy_of r (w\<lparr>cw_Core := c\<rparr>))"

definition cy_event :: "cycle_event \<Rightarrow> ('w, unit) cycle" where
  "cy_event e w = Some (Inr (), w\<lparr>cw_Events := cw_Events w @ [e]\<rparr>)"

section \<open>The environment\<close>

record execution =
  xe_Error :: "owner_error option"
  xe_Pending :: "bool"
  xe_Mutated :: "bool"

datatype cycle_material =
    NoMaterial
  | ReviewMaterial reviewerExecutionMaterial
  | OutcomePath string
  | HandoffCommand "string list"
  | PublicationMaterial publicationExecutionMaterial

record worker_export =
  we_Result :: "workerResult"
  we_Head :: "string"
  we_Root :: "string"

text \<open>
  \<open>cx_Between\<close> is what happens outside and in the ledger before a call of the owner is served,
  \<open>cx_Unavailable\<close> the error of a call that is not served, \<open>cx_Text\<close> the redacted text of an error.
\<close>

record 'w cycle_env =
  cx_Env :: "Env"
  cx_Planner :: "Planner"
  cx_Config :: "cycle_config"
  cx_Adapter :: "PRAdapterConfig"
  cx_ReviewEnv :: "string list"
  cx_ReviewCommand :: "string list"
  cx_Operator :: "bool"
  cx_Between :: "'w cycle_core \<Rightarrow> 'w cycle_core"
  cx_Unavailable :: "'w cycle_core \<Rightarrow> owner_error option"
  cx_Canceled :: "'w cycle_core \<Rightarrow> owner_error option"
  cx_Text :: "owner_error \<Rightarrow> string"
  cx_Now :: "'w \<Rightarrow> time"
  cx_Collect :: "runtimeOwnerState \<Rightarrow> 'w cycle_core \<Rightarrow> reconciliationV2Batch owner_result \<times> 'w cycle_core"
  cx_Seed :: "string \<Rightarrow> string \<Rightarrow> 'w cycle_core \<Rightarrow> string owner_result \<times> 'w cycle_core"
  cx_OutcomeFiles :: "'w \<Rightarrow> handoffOutcomeFile list owner_result"
  cx_VerifyWorker :: "'w \<Rightarrow> owner_error option"
  cx_Export :: "runtimeAttemptRecord \<Rightarrow> 'w cycle_core \<Rightarrow> worker_export owner_result \<times> 'w cycle_core"
  cx_Execute :: "reconciliationPlannedEffect \<Rightarrow> cycle_material \<Rightarrow> 'w cycle_core \<Rightarrow> execution \<times> 'w cycle_core"
  cx_BindRequest :: "string \<Rightarrow> runtimeLifecyclePlan \<Rightarrow> 'w \<Rightarrow> (Manifest \<times> string) owner_result"
  cx_ExecuteRuntime :: "string \<Rightarrow> runtimeLifecyclePlan \<Rightarrow> runtimeEffectIntent \<Rightarrow> 'w cycle_core \<Rightarrow> unit owner_result \<times> 'w cycle_core"
  cx_Dispatch :: "string \<Rightarrow> runtimeLifecyclePlan \<Rightarrow> runtimeEffectIntent \<Rightarrow> 'w cycle_core \<Rightarrow> unit owner_result \<times> 'w cycle_core"
  cx_Resolve :: "runtimeEffectIntent \<Rightarrow> 'w cycle_core \<Rightarrow> bool owner_result \<times> 'w cycle_core"
  cx_Supersede :: "runtimeEffectIntent \<Rightarrow> string \<Rightarrow> 'w cycle_core \<Rightarrow> bool owner_result \<times> 'w cycle_core"
  cx_VerifyMarker :: "runtimeEffectIntent \<Rightarrow> 'w cycle_core \<Rightarrow> bool owner_result \<times> 'w cycle_core"
  cx_SaveCache :: "'w cycle_core \<Rightarrow> unit owner_result \<times> 'w cycle_core"
  cx_ResumeRuntime :: "reconciliationV2Batch \<Rightarrow> string \<Rightarrow> 'w cycle_core \<Rightarrow> unit owner_result \<times> 'w cycle_core"

section \<open>Calls of the owner\<close>

definition served :: "'w cycle_env \<Rightarrow> ('w cycle_core \<Rightarrow> 'a owner_result \<times> 'w cycle_core) \<Rightarrow> ('w, 'a) cycle" where
  "served cx f = cy_core (\<lambda>c0.
     let c = cx_Between cx c0 in
     case cx_Unavailable cx c of Some e \<Rightarrow> (Inl e, c) | None \<Rightarrow> f c)"

definition owner_snapshot :: "'w cycle_env \<Rightarrow> ('w, runtimeOwnerState) cycle" where
  "owner_snapshot cx = served cx (\<lambda>c. (Inr (cw_Ledger c), c))"

definition reconciliationSnapshot :: "'w cycle_env \<Rightarrow> ('w, runtimeOwnerState \<times> uint64) cycle" where
  "reconciliationSnapshot cx =
     served cx (\<lambda>c. let i = cw_CycleID c + 1 in (Inr (cw_Ledger c, i), c\<lparr>cw_CycleID := i\<rparr>))"

definition submit_core ::
  "Env \<Rightarrow> owner_command \<Rightarrow> 'w cycle_core \<Rightarrow> (runtimeOwnerState \<times> runtimeEffectIntent option) owner_result \<times> 'w cycle_core" where
  "submit_core env command c =
     (case applyStateOwnerCommand env (cw_Applied c) (cw_Ledger c) command of
        Inl e \<Rightarrow> (Inl e, c)
      | Inr (s, e) \<Rightarrow>
          (Inr (s, e), c\<lparr>cw_Ledger := s,
             cw_Applied := record_applied env (cw_Applied c) (Command command) s (s \<noteq> cw_Ledger c)\<rparr>))"

definition submit_command ::
  "'w cycle_env \<Rightarrow> owner_command \<Rightarrow> ('w, runtimeOwnerState \<times> runtimeEffectIntent option) cycle" where
  "submit_command cx command = served cx (submit_core (cx_Env cx) command)"

definition ownerReconciliationEffectIdentity :: "runtimeEffectIntent \<Rightarrow> stateResultIdentity" where
  "ownerReconciliationEffectIdentity e =
     \<lparr>id_Epoch = e_IntentEpoch e, id_SourceRevision = e_IntentRevision e, id_CycleID = 0,
      id_IssueGeneration = e_IssueGeneration e, id_AttemptGeneration = e_AttemptGeneration e, id_EffectID = e_ID e,
      id_RequestDigest = e_RequestDigest e,
      id_ReviewRunID = (case e_Reconciliation e of None \<Rightarrow> [] | Some q \<Rightarrow>
        (case rq_Reviewer q of None \<Rightarrow> [] | Some v \<Rightarrow> rv_RunID v)),
      id_ReviewerProfileDigest = e_ReviewerProfileDigest e\<rparr>"

text \<open>The owner returns the intent it holds, which may be an older one of the same request.\<close>

definition begun_plan :: "reconciliationPlannedEffect \<Rightarrow> runtimeEffectIntent \<Rightarrow> reconciliationPlannedEffect" where
  "begun_plan p e =
     p\<lparr>pl_Identity := ownerReconciliationEffectIdentity e,
       pl_Request := (case e_Reconciliation e of None \<Rightarrow> pl_Request p | Some q \<Rightarrow> q)\<rparr>"

definition beginReconciliation ::
  "'w cycle_env \<Rightarrow> reconciliationPlannedEffect \<Rightarrow> ('w, reconciliationPlannedEffect) cycle" where
  "beginReconciliation cx p =
     cy_bind (submit_command cx (BeginReconciliationEffect
         \<lparr>bc_Identity = pl_Identity p, bc_ReviewerSourceRevision = 0, bc_Request = pl_Request p\<rparr>))
       (\<lambda>(_, found). case found of
          None \<Rightarrow> cy_fail (CycleFailed StateConflict)
        | Some e \<Rightarrow> cy_bind (cy_event (Begun (e_ID e))) (\<lambda>_. cy_ok (begun_plan p e)))"

section \<open>Executions\<close>

text \<open>What of an execution counts as a change of GitHub: its success, what its metrics say, or nothing.\<close>

definition succeeded :: "execution \<Rightarrow> bool" where
  "succeeded x \<longleftrightarrow> xe_Error x = None"

definition run_execution ::
  "'w cycle_env \<Rightarrow> (execution \<Rightarrow> bool) \<Rightarrow> reconciliationPlannedEffect \<Rightarrow> cycle_material \<Rightarrow> ('w, execution) cycle" where
  "run_execution cx changes p x w =
     (case cx_Execute cx p x (cw_Core w) of
        (r, c) \<Rightarrow> Some (Inr r, \<lparr>cw_Core = c, cw_Events = cw_Events w @ [Executed (id_EffectID (pl_Identity p)) (changes r)]\<rparr>))"

definition cy_check :: "owner_error option \<Rightarrow> 'a \<Rightarrow> ('w, 'a) cycle" where
  "cy_check r x = (case r of Some e \<Rightarrow> cy_fail (CycleFailed e) | None \<Rightarrow> cy_ok x)"

definition begin_and_execute ::
  "'w cycle_env \<Rightarrow> (execution \<Rightarrow> bool) \<Rightarrow> reconciliationPlannedEffect \<Rightarrow> (reconciliationPlannedEffect \<Rightarrow> cycle_material) \<Rightarrow>
   (reconciliationPlannedEffect \<Rightarrow> execution \<Rightarrow> ('w, 'a) cycle) \<Rightarrow> ('w, 'a) cycle" where
  "begin_and_execute cx changes p material k =
     cy_bind (beginReconciliation cx p) (\<lambda>q. cy_bind (run_execution cx changes q (material q)) (k q))"

section \<open>Phases that update GitHub\<close>

definition runMachineStatusPlan :: "'w cycle_env \<Rightarrow> reconciliationPlannedEffect \<Rightarrow> ('w, bool) cycle" where
  "runMachineStatusPlan cx p =
     begin_and_execute cx succeeded p (\<lambda>_. NoMaterial) (\<lambda>_ x. cy_check (xe_Error x) True)"

definition runMachineStatusPhase :: "'w cycle_env \<Rightarrow> ('w, bool) cycle" where
  "runMachineStatusPhase cx =
     cy_bind (owner_snapshot cx) (\<lambda>s.
     cy_bind (cy_of (planMachineStatusUpdates (cx_Env cx) (cx_Planner cx) s (cx_Adapter cx))) (\<lambda>plans.
       case plans of [] \<Rightarrow> cy_ok False | p # _ \<Rightarrow> runMachineStatusPlan cx p))"

definition issue_update_plans ::
  "'w cycle_env \<Rightarrow> runtimeOwnerState \<Rightarrow> reconciliationV2Batch \<Rightarrow> bool \<Rightarrow> reconciliationPlannedEffect list owner_result" where
  "issue_update_plans cx s batch attempts =
     (let env = cx_Env cx; px = cx_Planner cx; cfg = cx_Adapter cx in
      if attempts then planReconciliationAttemptIssueUpdates env px s batch cfg
      else err_bind (planControlSnapshotRepairs env px s cfg) (\<lambda>plans.
        if plans = [] then planReconciliationIssueUpdates env px s batch else Inr plans))"

definition runIssueUpdatePhase :: "'w cycle_env \<Rightarrow> reconciliationV2Batch \<Rightarrow> bool \<Rightarrow> ('w, bool) cycle" where
  "runIssueUpdatePhase cx batch attempts =
     cy_bind (owner_snapshot cx) (\<lambda>s.
     cy_bind (cy_of (issue_update_plans cx s batch attempts)) (\<lambda>plans.
       case plans of
         [] \<Rightarrow> cy_ok False
       | p # _ \<Rightarrow> begin_and_execute cx succeeded p (\<lambda>_. NoMaterial) (\<lambda>_ x. cy_check (xe_Error x) True)))"

definition runBindPhase :: "'w cycle_env \<Rightarrow> ('w, bool) cycle" where
  "runBindPhase cx =
     cy_bind (owner_snapshot cx) (\<lambda>s.
     cy_bind (cy_of (planReconciliationBinds (cx_Env cx) s (cx_Adapter cx))) (\<lambda>plans.
       case plans of
         [] \<Rightarrow> cy_ok False
       | p # _ \<Rightarrow> begin_and_execute cx xe_Mutated p (\<lambda>_. NoMaterial) (\<lambda>_ x. cy_check (xe_Error x) (xe_Mutated x))))"

definition plan_key_of :: "reconciliationPlannedEffect \<Rightarrow> string" where
  "plan_key_of p = ownerAttemptKey (rq_Repository (pl_Request p)) (rq_Issue (pl_Request p)) (rq_Attempt (pl_Request p))"

definition material_for :: "('a \<Rightarrow> cycle_material) \<Rightarrow> (string \<rightharpoonup> 'a) \<Rightarrow> string \<Rightarrow> cycle_material" where
  "material_for f m k = (case m k of None \<Rightarrow> NoMaterial | Some x \<Rightarrow> f x)"

definition runPublicationPhase :: "'w cycle_env \<Rightarrow> publicationExecutionMaterial list \<Rightarrow> ('w, bool) cycle" where
  "runPublicationPhase cx candidates =
     cy_bind (owner_snapshot cx) (\<lambda>s.
     cy_bind (cy_of (planReconciliationPublications (cx_Env cx) s candidates)) (\<lambda>(plans, material).
       case plans of
         [] \<Rightarrow> cy_ok False
       | p # _ \<Rightarrow> begin_and_execute cx succeeded p (\<lambda>q. material_for PublicationMaterial material (plan_key_of q))
           (\<lambda>_ x. cy_check (xe_Error x) True)))"

definition runGovernancePhase :: "'w cycle_env \<Rightarrow> ('w, bool) cycle" where
  "runGovernancePhase cx =
     cy_bind (owner_snapshot cx) (\<lambda>s.
     cy_bind (cy_of (planReconciliationGovernance (cx_Env cx) s (cx_Adapter cx))) (\<lambda>plans.
       case plans of
         [] \<Rightarrow> cy_ok False
       | p # _ \<Rightarrow> begin_and_execute cx xe_Mutated p (\<lambda>_. NoMaterial) (\<lambda>_ x. cy_check (xe_Error x) (xe_Mutated x))))"

section \<open>Phases on the host\<close>

definition diagnosis :: "string \<Rightarrow> string \<Rightarrow> string" where
  "diagnosis prefix text = take maxReconciliationStringBytes (prefix @ text)"

definition cy_try :: "('w, 'a) cycle \<Rightarrow> (cycle_error + 'a \<Rightarrow> ('w, 'b) cycle) \<Rightarrow> ('w, 'b) cycle" where
  "cy_try m k w = Option.bind (m w) (\<lambda>(r, w'). k r w')"

definition diagnose_command :: "stateResultIdentity \<Rightarrow> string \<Rightarrow> string \<Rightarrow> owner_command" where
  "diagnose_command i action text =
     DiagnoseReconciliationEffect \<lparr>dr_Identity = i, dr_Action = action, dr_Diagnostic = text\<rparr>"

text \<open>The errors of the run and of its diagnosis are joined; the first decides what the joined error is.\<close>

definition reviewer_failed :: "'w cycle_env \<Rightarrow> reconciliationPlannedEffect \<Rightarrow> owner_error \<Rightarrow> ('w, 'a) cycle" where
  "reviewer_failed cx p e =
     cy_try (submit_command cx (diagnose_command (pl_Identity p) reconciliationReviewer
         (diagnosis ''reviewer effect failed: '' (cx_Text cx e))))
       (\<lambda>_. cy_fail (CycleFailed e))"

definition unchanged :: "execution \<Rightarrow> bool" where
  "unchanged x = False"

definition runReviewerPhase :: "'w cycle_env \<Rightarrow> reviewerExecutionMaterial list \<Rightarrow> ('w, unit) cycle" where
  "runReviewerPhase cx candidates = cy_loop (
     cy_bind (cy_core (\<lambda>c. (case cx_VerifyWorker cx (cw_Outside c) of Some e \<Rightarrow> Inl e | None \<Rightarrow> Inr (), c))) (\<lambda>_.
     cy_bind (owner_snapshot cx) (\<lambda>s.
     cy_bind (cy_of (planReconciliationReviewers (cx_Env cx) (cx_Planner cx) s candidates)) (\<lambda>(plans, material).
       case plans of
         [] \<Rightarrow> cy_ok (Some ())
       | p # _ \<Rightarrow> begin_and_execute cx unchanged p (\<lambda>q. material_for ReviewMaterial material (plan_key_of q)) (\<lambda>q x.
           case xe_Error x of
             Some e \<Rightarrow> reviewer_failed cx q e
           | None \<Rightarrow> cy_ok (if xe_Pending x then Some () else None))))))"

definition outcome_files :: "'w cycle_env \<Rightarrow> ('w, handoffOutcomeFile list) cycle" where
  "outcome_files cx = cy_core (\<lambda>c. (cx_OutcomeFiles cx (cw_Outside c), c))"

definition handoff_key_of :: "reconciliationPlannedEffect \<Rightarrow> string" where
  "handoff_key_of p = (case rq_Handoff (pl_Request p) of None \<Rightarrow> [] | Some h \<Rightarrow> hf_Key h)"

definition runHandoffOutcomePhase :: "'w cycle_env \<Rightarrow> ('w, unit) cycle" where
  "runHandoffOutcomePhase cx = cy_loop (
     cy_bind (owner_snapshot cx) (\<lambda>s.
     cy_bind (outcome_files cx) (\<lambda>files.
     cy_bind (cy_of (collectHandoffOutcomePlans (cx_Env cx) s files)) (\<lambda>(plans, paths).
       case plans of
         [] \<Rightarrow> cy_ok (Some ())
       | p # _ \<Rightarrow> begin_and_execute cx unchanged p (\<lambda>q. material_for OutcomePath paths (handoff_key_of q))
           (\<lambda>_ x. cy_check (xe_Error x) None)))))"

definition runHandoffPhase :: "'w cycle_env \<Rightarrow> ('w, unit) cycle" where
  "runHandoffPhase cx = cy_loop (
     cy_bind (owner_snapshot cx) (\<lambda>s.
     cy_bind (cy_of (planReconciliationHandoffs (cx_Env cx) (cx_Planner cx) s (cy_Implementation (cx_Config cx)) []))
       (\<lambda>(plans, material).
       case plans of
         [] \<Rightarrow> cy_ok (Some ())
       | p # _ \<Rightarrow> begin_and_execute cx unchanged p (\<lambda>q. material_for HandoffCommand material (plan_key_of q))
           (\<lambda>_ x. cy_check (xe_Error x) None))))"

definition runRetirementPhase :: "'w cycle_env \<Rightarrow> ('w, unit) cycle" where
  "runRetirementPhase cx = cy_loop (
     cy_bind (owner_snapshot cx) (\<lambda>s.
       case planReconciliationRetirements (cx_Env cx) s of
         [] \<Rightarrow> cy_ok (Some ())
       | p # _ \<Rightarrow> begin_and_execute cx unchanged p (\<lambda>_. NoMaterial) (\<lambda>_ x. cy_check (xe_Error x) None)))"

text \<open>An effect of the life cycle: bound to its request outside, begun with the generations of the snapshot.\<close>

definition runtime_begin_command :: "runtimeOwnerState \<Rightarrow> runtimeLifecyclePlan \<Rightarrow> Manifest \<times> string \<Rightarrow> owner_command" where
  "runtime_begin_command s p bound =
     (let m = lp_Manifest p in BeginRuntimeEffect
       \<lparr>br_Identity = \<lparr>id_Epoch = s_Epoch s, id_SourceRevision = s_Revision s, id_CycleID = 0,
          id_IssueGeneration = issueGeneration s (m_Repository m) (m_Issue m),
          id_AttemptGeneration = attemptGeneration s (m_Repository m) (m_Issue m) (m_Attempt m), id_EffectID = [],
          id_RequestDigest = [], id_ReviewRunID = [], id_ReviewerProfileDigest = []\<rparr>,
        br_Action = lp_Action p, br_Manifest = fst bound, br_Reason = [], br_RequestDigest = snd bound, br_Review = None,
        br_SupersededReviewerID = [], br_CandidateLaunchToken = [], br_StartGateNonce = []\<rparr>)"

definition beginWithSource ::
  "'w cycle_env \<Rightarrow> string \<Rightarrow> runtimeOwnerState \<Rightarrow> runtimeLifecyclePlan \<Rightarrow> ('w, runtimeEffectIntent) cycle" where
  "beginWithSource cx source s p =
     (if s_Epoch s = 0 \<or> s_Revision s = 0 then cy_fail (CycleFailed StaleStateResult)
      else cy_bind (cy_core (\<lambda>c. (cx_BindRequest cx source p (cw_Outside c), c))) (\<lambda>bound.
        cy_bind (submit_command cx (runtime_begin_command s p bound)) (\<lambda>(_, found).
          case found of
            None \<Rightarrow> cy_fail (CycleFailed StateConflict)
          | Some e \<Rightarrow> cy_bind (cy_event (Begun (e_ID e))) (\<lambda>_. cy_ok e))))"

definition execute_runtime ::
  "('w cycle_core \<Rightarrow> unit owner_result \<times> 'w cycle_core) \<Rightarrow> runtimeEffectIntent \<Rightarrow> ('w, unit) cycle" where
  "execute_runtime f e = cy_bind (cy_event (Executed (e_ID e) False)) (\<lambda>_. cy_core f)"

definition runRuntimePhase :: "'w cycle_env \<Rightarrow> reconciliationV2Batch \<Rightarrow> string \<Rightarrow> string \<Rightarrow> ('w, unit) cycle" where
  "runRuntimePhase cx batch source action = cy_loop (
     cy_bind (owner_snapshot cx) (\<lambda>s.
     cy_bind (cy_core (\<lambda>c. (Inr (cx_Now cx (cw_Outside c)), c))) (\<lambda>now.
     cy_bind (cy_of (planRuntimeLifecycle (cx_Env cx) (cx_Planner cx) (cx_Config cx) now s 0 batch)) (\<lambda>plans.
       case find (\<lambda>p. lp_Action p = action) plans of
         None \<Rightarrow> cy_ok (Some ())
       | Some p \<Rightarrow> cy_bind (beginWithSource cx source s p) (\<lambda>e.
           cy_bind (execute_runtime ((if action = EffectMonitor then cx_Dispatch else cx_ExecuteRuntime) cx source p e) e)
             (\<lambda>_. cy_ok None))))))"

section \<open>Candidates\<close>

text \<open>A key that occurs twice has its last entry, as in a map that is filled in a loop.\<close>

definition raw_issues :: "reconciliationV2Batch \<Rightarrow> (string \<rightharpoonup> RecoveryIssueFact)" where
  "raw_issues batch = map_of (rev (map (\<lambda>f. (issue_key_of f, f)) (ni_Issues (vb_Input batch))))"

definition raw_attempts :: "reconciliationV2Batch \<Rightarrow> (string \<rightharpoonup> RecoveryAttemptFact)" where
  "raw_attempts batch = map_of (rev (map (\<lambda>f. (observed_key f, f)) (ni_Attempts (vb_Input batch))))"

definition export_candidate ::
  "'w cycle_env \<Rightarrow> runtimeOwnerState \<Rightarrow> (string \<rightharpoonup> RecoveryIssueFact) \<Rightarrow> string \<Rightarrow> runtimeAttemptRecord \<Rightarrow>
   RecoveryIssueFact option" where
  "export_candidate cx s raw k r =
     (let m = a_Manifest r; ik = ownerIssueKey (m_Repository m) (m_Issue m) in
      if \<not> current_record s k r \<or> m_State m \<noteq> ''completed'' \<or> pendingAttemptEffect s k then None
      else (case (raw ik, fmlookup (s_Observations s) ik) of
          (Some issue, Some ob) \<Rightarrow>
            if \<not> currentReconciliationObservation s ik ob \<or>
              digestText (cx_Env cx) (if_Body issue) \<noteq> fi_BodyDigest (ob_Fact ob) then None
            else Some (issue\<lparr>if_Attempt := m_Attempt m\<rparr>)
        | _ \<Rightarrow> None))"

definition review_material :: "'w cycle_env \<Rightarrow> RecoveryIssueFact \<Rightarrow> worker_export \<Rightarrow> bool \<Rightarrow> reviewerExecutionMaterial" where
  "review_material cx issue x replay =
     \<lparr>xr_Issue = issue, xr_Source = we_Root x, xr_HeadSHA = we_Head x, xr_Env = cx_ReviewEnv cx,
      xr_Command = cx_ReviewCommand cx, xr_Replay = replay\<rparr>"

definition publication_material :: "'w cycle_env \<Rightarrow> RecoveryIssueFact \<Rightarrow> worker_export \<Rightarrow> publicationExecutionMaterial" where
  "publication_material cx issue x =
     \<lparr>xp_Issue = issue, xp_Config = cx_Adapter cx, xp_Root = we_Root x, xp_Head = we_Head x,
      xp_Validation = wr_Validation (we_Result x), xp_Documentation = wr_Documentation (we_Result x),
      xp_Decisions = wr_Decisions (we_Result x)\<rparr>"

text \<open>An export that cannot be imported is passed over, unless the cycle is cancelled.\<close>

fun execution_candidates ::
  "'w cycle_env \<Rightarrow> (RecoveryIssueFact \<times> runtimeAttemptRecord) list \<Rightarrow>
   ('w, reviewerExecutionMaterial list \<times> publicationExecutionMaterial list) cycle" where
  "execution_candidates cx [] = cy_ok ([], [])"
| "execution_candidates cx ((issue, r) # rs) =
     cy_try (cy_core (cx_Export cx r)) (\<lambda>exported. case exported of
         Inl _ \<Rightarrow> cy_bind (cy_core (\<lambda>c. (case cx_Canceled cx c of Some e \<Rightarrow> Inl e | None \<Rightarrow> Inr (), c)))
           (\<lambda>_. execution_candidates cx rs)
       | Inr x \<Rightarrow> cy_bind (execution_candidates cx rs) (\<lambda>(vs, ps).
           cy_ok (review_material cx issue x False # vs, publication_material cx issue x # ps)))"

definition executionCandidates ::
  "'w cycle_env \<Rightarrow> runtimeOwnerState \<Rightarrow> reconciliationV2Batch \<Rightarrow>
   ('w, reviewerExecutionMaterial list \<times> publicationExecutionMaterial list) cycle" where
  "executionCandidates cx s batch =
     execution_candidates cx (List.map_filter
       (\<lambda>(k, r). map_option (\<lambda>issue. (issue, r)) (export_candidate cx s (raw_issues batch) k r))
       (fm_entries id (s_Attempts s)))"

section \<open>What is pending\<close>

text \<open>Effects that an operator's receipt waits for are left to the operator's requests.\<close>

definition operator_effects :: "runtimeOwnerState \<Rightarrow> string list" where
  "operator_effects s =
     map r_EffectID (filter (\<lambda>r. r_State r = ''pending'' \<and> r_EffectID r \<noteq> []) (s_ControlReceipts s))"

definition pending_reconciliations ::
  "runtimeOwnerState \<Rightarrow> (runtimeEffectIntent \<times> reconciliationEffectRequest) list" where
  "pending_reconciliations s =
     List.map_filter (\<lambda>(k, e). case e_Reconciliation e of
         None \<Rightarrow> None
       | Some q \<Rightarrow> if e_State e = ''pending'' \<and> k \<notin> set (operator_effects s) then Some (e, q) else None)
       (fm_entries id (s_Effects s))"

definition invalidated_effects :: "runtimeOwnerState \<Rightarrow> runtimeEffectIntent list" where
  "invalidated_effects s =
     List.map_filter (\<lambda>(_, e). case e_Reconciliation e of
         None \<Rightarrow> None
       | Some q \<Rightarrow> if e_State e = ''invalidated'' \<and> e_Dispatched e \<and> reconciliationMutatesGitHub (rq_Action q)
           then Some e else None)
       (fm_entries id (s_Effects s))"

fun resolve_each :: "'w cycle_env \<Rightarrow> bool \<Rightarrow> runtimeEffectIntent list \<Rightarrow> ('w, bool) cycle" where
  "resolve_each cx resolved [] = cy_ok resolved"
| "resolve_each cx resolved (e # es) =
     cy_bind (cy_core (cx_Resolve cx e)) (\<lambda>changed. resolve_each cx (resolved \<or> changed) es)"

definition resolveInvalidatedGitHubEffect :: "'w cycle_env \<Rightarrow> ('w, bool) cycle" where
  "resolveInvalidatedGitHubEffect cx = cy_bind (owner_snapshot cx) (\<lambda>s. resolve_each cx False (invalidated_effects s))"

text \<open>Diagnosing an effect that is no longer pending is no error.\<close>

definition diagnose_effect :: "'w cycle_env \<Rightarrow> runtimeEffectIntent \<Rightarrow> string \<Rightarrow> string \<Rightarrow> ('w, unit) cycle" where
  "diagnose_effect cx e action text =
     cy_try (submit_command cx (diagnose_command (ownerReconciliationEffectIdentity e) action text)) (\<lambda>r.
       case r of
         Inl (CycleFailed StaleStateResult) \<Rightarrow> cy_ok ()
       | Inl x \<Rightarrow> cy_fail x
       | Inr _ \<Rightarrow> cy_ok ())"

definition invalid_plan_reviews :: "runtimeOwnerState \<Rightarrow> runtimeEffectIntent list" where
  "invalid_plan_reviews s =
     List.map_filter (\<lambda>r.
       if r_State r \<noteq> ''pending'' \<or> q_Action (r_Request r) \<noteq> ''review-plan'' then None
       else (case fmlookup (s_Effects s) (r_EffectID r) of
           None \<Rightarrow> None
         | Some e \<Rightarrow>
             (case e_Reconciliation e of
                None \<Rightarrow> None
              | Some q \<Rightarrow>
                  (case rq_Reviewer q of
                     None \<Rightarrow> None
                   | Some v \<Rightarrow> if e_State e = ''pending'' \<and> rv_Mode v = ReviewModePlan \<and> planReviewInvalidated s e q
                       then Some e else None))))
       (s_ControlReceipts s)"

definition canceled_or :: "'w cycle_env \<Rightarrow> ('w, 'a) cycle \<Rightarrow> ('w, 'a) cycle" where
  "canceled_or cx m = cy_bind (cy_core (\<lambda>c. (case cx_Canceled cx c of Some e \<Rightarrow> Inl e | None \<Rightarrow> Inr (), c))) (\<lambda>_. m)"

fun error_text :: "'w cycle_env \<Rightarrow> cycle_error \<Rightarrow> string" where
  "error_text cx (CycleFailed e) = cx_Text cx e"
| "error_text cx Recollect = []"

fun supersede_each :: "'w cycle_env \<Rightarrow> runtimeEffectIntent list \<Rightarrow> ('w, bool) cycle" where
  "supersede_each cx [] = cy_ok False"
| "supersede_each cx (e # es) =
     cy_try (cy_core (cx_Supersede cx e [])) (\<lambda>r. case r of
         Inl x \<Rightarrow> canceled_or cx (cy_bind (diagnose_effect cx e reconciliationReviewer
             (diagnosis ''revoked Plan reviewer stop remains pending: '' (error_text cx x)))
             (\<lambda>_. supersede_each cx es))
       | Inr superseded \<Rightarrow> if superseded then cy_ok True else supersede_each cx es)"

definition supersedeInvalidPendingPlanReviewers :: "'w cycle_env \<Rightarrow> runtimeOwnerState \<Rightarrow> ('w, bool) cycle" where
  "supersedeInvalidPendingPlanReviewers cx s = supersede_each cx (invalid_plan_reviews s)"

section \<open>Replaying a pending effect\<close>

text \<open>The pending effect is executed again only if its request is the one this input would be planned with.\<close>

definition replay ::
  "'w cycle_env \<Rightarrow> (execution \<Rightarrow> bool) \<Rightarrow> reconciliationPlannedEffect \<Rightarrow> cycle_material \<Rightarrow> bool \<Rightarrow> ('w, bool) cycle" where
  "replay cx changes p material same =
     (if \<not> same then cy_fail (CycleFailed StateConflict)
      else cy_bind (run_execution cx changes p material) 
        (\<lambda>x. cy_check (xe_Error x) (rq_Action (pl_Request p) = reconciliationReviewer \<longrightarrow> \<not> xe_Pending x)))"

definition pending_plan :: "runtimeEffectIntent \<Rightarrow> reconciliationEffectRequest \<Rightarrow> reconciliationPlannedEffect" where
  "pending_plan e q =
     \<lparr>pl_Identity = ownerReconciliationEffectIdentity e, pl_Request = q, pl_Material = no_material, pl_Attempt = None\<rparr>"

definition accepted_proposal :: "reconciliationEffectRequest \<Rightarrow> githubIssueUpdateEffectRequest \<Rightarrow> reconciliationIssueUpdateProposal" where
  "accepted_proposal q u =
     \<lparr>up_Repository = rq_Repository q, up_Issue = rq_Issue q, up_Kind = gu_Kind u,
      up_ControlSnapshotDigest = gu_ControlSnapshotDigest u, up_AttributionAttempt = gu_AttributionAttempt u,
      up_Dependency = gu_Dependency u, up_PullRequest = gu_PullRequest u\<rparr>"

definition replay_update ::
  "'w cycle_env \<Rightarrow> reconciliationV2Batch \<Rightarrow> runtimeEffectIntent \<Rightarrow> reconciliationEffectRequest \<Rightarrow>
   githubIssueUpdateEffectRequest \<Rightarrow> ('w, bool) cycle" where
  "replay_update cx batch e q u =
     (let p = pending_plan e q;
          same = (\<lambda>x. issueUpdateExecutionDigest (cx_Env cx) (cx_Planner cx) q x = rq_ExecutionDigest q);
          replayed = (\<lambda>x. replay cx succeeded (p\<lparr>pl_Material := x\<rparr>) NoMaterial (same x)) in
      if gu_Kind u = githubIssueMachineStatus then replayed (no_material\<lparr>mt_Config := Some (cx_Adapter cx)\<rparr>)
      else if reconciliationEffectIssueScoped q then
        (case find (\<lambda>x. mt_Proposal x = Some (accepted_proposal q u) \<and> same x) (vb_IssueUpdates batch) of
           None \<Rightarrow> cy_fail (CycleFailed StaleStateResult)
         | Some x \<Rightarrow> replayed x)
      else (case raw_issues batch (ownerIssueKey (rq_Repository q) (rq_Issue q)) of
          None \<Rightarrow> cy_fail (CycleFailed StaleStateResult)
        | Some issue \<Rightarrow> replayed (no_material\<lparr>mt_Config := Some (cx_Adapter cx), mt_Issue := Some issue,
            mt_Attempt := raw_attempts batch (ownerAttemptKey (rq_Repository q) (rq_Issue q) (rq_Attempt q))\<rparr>)))"

definition replay_exported ::
  "'w cycle_env \<Rightarrow> reconciliationV2Batch \<Rightarrow> runtimeOwnerState \<Rightarrow> reconciliationEffectRequest \<Rightarrow>
   (RecoveryIssueFact \<Rightarrow> worker_export \<Rightarrow> ('w, bool) cycle) \<Rightarrow> ('w, bool) cycle" where
  "replay_exported cx batch s q k =
     (case (fmlookup (s_Attempts s) (ownerAttemptKey (rq_Repository q) (rq_Issue q) (rq_Attempt q)),
         raw_issues batch (ownerIssueKey (rq_Repository q) (rq_Issue q))) of
        (Some r, Some issue) \<Rightarrow>
          cy_bind (cy_core (cx_Export cx r)) (k (issue\<lparr>if_Attempt := m_Attempt (a_Manifest r)\<rparr>))
      | _ \<Rightarrow> cy_fail (CycleFailed StaleStateResult))"

definition replay_handoff ::
  "'w cycle_env \<Rightarrow> runtimeEffectIntent \<Rightarrow> reconciliationEffectRequest \<Rightarrow> handoffEffectRequest \<Rightarrow> Manifest \<Rightarrow> ('w, bool) cycle" where
  "replay_handoff cx e q h m =
     (let env = cx_Env cx; p = pending_plan e q in
      if hf_Outcome h \<noteq> None then
        let path = path_join [v_StateRoot env, ''handoff-outcomes'', hf_Key h @ ''.json''] in
        replay cx unchanged p (OutcomePath path) (handoffOutcomeExecutionDigest env q path = rq_ExecutionDigest q)
      else cy_bind (cy_of (ExpandManagedWorkspace env (cy_Implementation (cx_Config cx)) (m_Worktree m))) (\<lambda>expanded.
        replay cx unchanged p (HandoffCommand expanded) (handoffExecutionDigest env q expanded = rq_ExecutionDigest q)))"

text \<open>A request that passed the owner's validator has the part that its action names.\<close>

definition resumeUnmarkedReconciliation ::
  "'w cycle_env \<Rightarrow> reconciliationV2Batch \<Rightarrow> runtimeOwnerState \<Rightarrow> runtimeEffectIntent \<Rightarrow> reconciliationEffectRequest \<Rightarrow>
   ('w, bool) cycle" where
  "resumeUnmarkedReconciliation cx batch s e q =
     (let env = cx_Env cx; p = pending_plan e q; a = rq_Action q; digest = rq_ExecutionDigest q in
      if a = reconciliationGitHubBind then
        replay cx succeeded (p\<lparr>pl_Material := no_material\<lparr>mt_Config := Some (cx_Adapter cx)\<rparr>\<rparr>) NoMaterial
          (githubBindExecutionDigest env q (cx_Adapter cx) = digest)
      else if a = reconciliationGitHubPublish then
        replay_exported cx batch s q (\<lambda>issue x.
          replay cx succeeded p (PublicationMaterial (publication_material cx issue x))
            (publicationExecutionDigest env q (publication_material cx issue x) = digest))
      else if a = reconciliationGitHubIssueUpdate then
        (case rq_GitHubIssueUpdate q of None \<Rightarrow> cy_fail (CycleFailed StateConflict) | Some u \<Rightarrow> replay_update cx batch e q u)
      else if a = reconciliationGitHubPRGovernance then
        (case raw_attempts batch (ownerAttemptKey (rq_Repository q) (rq_Issue q) (rq_Attempt q)) of
           None \<Rightarrow> cy_fail (CycleFailed StaleStateResult)
         | Some f \<Rightarrow>
             if governanceExecutionDigest env q f \<noteq> digest then cy_fail (CycleFailed StaleStateResult)
             else replay cx succeeded (p\<lparr>pl_Attempt := Some f\<rparr>) NoMaterial True)
      else if a = reconciliationReviewer then
        replay_exported cx batch s q (\<lambda>issue x.
          replay cx unchanged p (ReviewMaterial (review_material cx issue x True))
            (reviewerExecutionDigest env (cx_Planner cx) q (review_material cx issue x True) = digest \<and>
             digestText env (if_Body issue) = rq_BodyDigest q))
      else if a = reconciliationHandoffDeliver then
        (case (rq_Handoff q, rq_Manifest q) of
           (Some h, Some m) \<Rightarrow> replay_handoff cx e q h m
         | _ \<Rightarrow> cy_fail (CycleFailed StateConflict))
      else if a = reconciliationRetireCompleted then
        replay cx unchanged p NoMaterial (retirementExecutionDigest env q = digest)
      else if a = reconciliationMonitoringCheckIn then
        cy_fail (CycleFailed (OtherError ''check-in delivery has no safe unmarked completion proof''))
      else cy_fail (CycleFailed StateConflict))"

text \<open>\<open>True\<close>: something was resumed; the cycle starts over.  A failure is diagnosed and passed over.\<close>

definition diagnose_and ::
  "'w cycle_env \<Rightarrow> runtimeEffectIntent \<Rightarrow> reconciliationEffectRequest \<Rightarrow> string \<Rightarrow> cycle_error \<Rightarrow> ('w, bool) cycle" where
  "diagnose_and cx e q prefix x =
     canceled_or cx (cy_bind (diagnose_effect cx e (rq_Action q) (diagnosis prefix (error_text cx x))) (\<lambda>_. cy_ok False))"

definition resume_marked ::
  "'w cycle_env \<Rightarrow> reconciliationV2Batch \<Rightarrow> runtimeOwnerState \<Rightarrow> runtimeEffectIntent \<Rightarrow> reconciliationEffectRequest \<Rightarrow>
   ('w, bool) cycle" where
  "resume_marked cx batch s e q =
     cy_try (cy_core (cx_VerifyMarker cx e)) (\<lambda>verified. case verified of
         Inl x \<Rightarrow> diagnose_and cx e q ''pending effect marker verification failed: '' x
       | Inr True \<Rightarrow> cy_ok True
       | Inr False \<Rightarrow>
           cy_try (resumeUnmarkedReconciliation cx batch s e q) (\<lambda>resumed. case resumed of
               Inl x \<Rightarrow> diagnose_and cx e q ''pending effect reconstruction failed: '' x
             | Inr b \<Rightarrow> cy_ok b))"

definition resume_superseded ::
  "'w cycle_env \<Rightarrow> runtimeEffectIntent \<Rightarrow> reconciliationEffectRequest \<Rightarrow> string \<Rightarrow> ('w, bool) cycle" where
  "resume_superseded cx e q head =
     (if \<not> cx_Operator cx then cy_fail (CycleFailed (OtherError ''implementation reviewer supersession is unavailable''))
      else cy_try (cy_core (cx_Supersede cx e head)) (\<lambda>r. case r of
          Inl x \<Rightarrow> diagnose_and cx e q ''pending reviewer stop remains pending: '' x
        | Inr superseded \<Rightarrow> cy_ok superseded))"

definition implementation_review :: "reconciliationEffectRequest \<Rightarrow> reviewerEffectRequest option" where
  "implementation_review q =
     (if rq_Action q \<noteq> reconciliationReviewer then None
      else case rq_Reviewer q of
        None \<Rightarrow> None
      | Some v \<Rightarrow> if rv_Mode v = ReviewModeImplementation \<and> rv_Phase v = ''run-observe'' then Some v else None)"

text \<open>A review of an implementation that is no longer current, or whose head has moved, is superseded.  A current
  one has an attempt in the ledger.\<close>

definition resume_one ::
  "'w cycle_env \<Rightarrow> reconciliationV2Batch \<Rightarrow> runtimeOwnerState \<Rightarrow> runtimeEffectIntent \<Rightarrow> reconciliationEffectRequest \<Rightarrow>
   ('w, bool) cycle" where
  "resume_one cx batch s e q =
     (case implementation_review q of
        None \<Rightarrow> resume_marked cx batch s e q
      | Some v \<Rightarrow>
          if reconciliationEffectFinishCurrent (cx_Env cx) s e \<noteq> Inr () then resume_superseded cx e q []
          else (case fmlookup (s_Attempts s) (ownerAttemptKey (e_Repository e) (e_Issue e) (e_Attempt e)) of
              None \<Rightarrow> diagnose_and cx e q ''pending reviewer export import failed: '' (CycleFailed StaleStateResult)
            | Some r \<Rightarrow> cy_try (cy_core (cx_Export cx r)) (\<lambda>exported. case exported of
                  Inl x \<Rightarrow> diagnose_and cx e q ''pending reviewer export import failed: '' x
                | Inr x \<Rightarrow>
                    if we_Head x \<noteq> rv_HeadSHA v \<and> we_Head x \<noteq> [] then resume_superseded cx e q (we_Head x)
                    else resume_marked cx batch s e q)))"

fun resume_each ::
  "'w cycle_env \<Rightarrow> reconciliationV2Batch \<Rightarrow> runtimeOwnerState \<Rightarrow>
   (runtimeEffectIntent \<times> reconciliationEffectRequest) list \<Rightarrow> ('w, bool) cycle" where
  "resume_each cx batch s [] = cy_ok False"
| "resume_each cx batch s ((e, q) # es) =
     cy_bind (cy_event (Pending (e_ID e))) (\<lambda>_.
     cy_bind (resume_one cx batch s e q) (\<lambda>resumed.
       if resumed then cy_ok True else resume_each cx batch s es))"

definition resumePendingReconciliation :: "'w cycle_env \<Rightarrow> reconciliationV2Batch \<Rightarrow> ('w, bool) cycle" where
  "resumePendingReconciliation cx batch =
     cy_bind (owner_snapshot cx) (\<lambda>s. resume_each cx batch s (pending_reconciliations s))"

section \<open>The cycle\<close>

text \<open>A phase that changed something ends the cycle: what follows would rest on old observations.\<close>

definition settle :: "('w, bool) cycle \<Rightarrow> ('w, unit) cycle" where
  "settle m = cy_bind m (\<lambda>changed. if changed then cy_fail Recollect else cy_ok ())"

fun admit_each ::
  "'w cycle_env \<Rightarrow> string \<Rightarrow> reconciliationObservation \<Rightarrow> reconciliationIssueUpdateProposal list \<Rightarrow> runtimeOwnerState \<Rightarrow>
   ('w, runtimeOwnerState) cycle" where
  "admit_each cx k ob [] s = cy_ok s"
| "admit_each cx k ob (u # us) s =
     (case dependency_admission s k ob u of
        None \<Rightarrow> admit_each cx k ob us s
      | Some c \<Rightarrow> cy_bind (submit_command cx (AdmitMachineStatus c)) (\<lambda>(s', _). admit_each cx k ob us s'))"

fun admit_observations ::
  "'w cycle_env \<Rightarrow> (string \<times> reconciliationObservation) list \<Rightarrow> runtimeOwnerState \<Rightarrow> ('w, runtimeOwnerState) cycle" where
  "admit_observations cx [] s = cy_ok s"
| "admit_observations cx ((k, ob) # obs) s =
     (if \<not> ob_Present ob \<or> \<not> fi_NeedsAttention (ob_Fact ob) \<or>
        ob_OwnerGeneration ob \<noteq> fm_get (s_IssueGenerations s) k 0 then admit_observations cx obs s
      else cy_bind (admit_each cx k ob (ob_IssueUpdates ob) s) (admit_observations cx obs))"

definition admitDependencyStatuses :: "'w cycle_env \<Rightarrow> runtimeOwnerState \<Rightarrow> ('w, runtimeOwnerState) cycle" where
  "admitDependencyStatuses cx s =
     admit_observations cx (fm_entries (v_order (cx_Env cx)) (s_Observations s)) s"

definition collected ::
  "'w cycle_env \<Rightarrow> runtimeOwnerState \<Rightarrow> uint64 \<Rightarrow> ('w, reconciliationV2Batch \<times> runtimeOwnerState) cycle" where
  "collected cx s cycleID =
     cy_bind (cy_core (cx_Collect cx s)) (\<lambda>batch.
     cy_bind (cy_of (collectionFromSnapshot (cx_Env cx) s cycleID (vb_Input batch))) (\<lambda>collection.
     cy_bind (submit_command cx (ApplyReconciliation \<lparr>ap_Collection = collection, ap_OperatorRequestID = []\<rparr>)) (\<lambda>(applied, _).
     cy_bind (admitDependencyStatuses cx applied) (\<lambda>s'. cy_ok (batch, s')))))"

definition resume_phases :: "'w cycle_env \<Rightarrow> reconciliationV2Batch \<Rightarrow> runtimeOwnerState \<Rightarrow> ('w, unit) cycle" where
  "resume_phases cx batch applied =
     cy_bind (settle (resolveInvalidatedGitHubEffect cx)) (\<lambda>_.
     cy_bind (if cx_Operator cx then settle (supersedeInvalidPendingPlanReviewers cx applied) else cy_ok ()) (\<lambda>_.
     cy_bind (settle (resumePendingReconciliation cx batch)) (\<lambda>_.
     cy_bind (settle (runMachineStatusPhase cx)) (\<lambda>_.
       settle (runIssueUpdatePhase cx batch False)))))"

definition runtime_phases :: "'w cycle_env \<Rightarrow> reconciliationV2Batch \<Rightarrow> ('w, unit) cycle" where
  "runtime_phases cx batch =
     (let (branch, sha) = (case ni_Issues (vb_Input batch) of [] \<Rightarrow> ([], []) | f # _ \<Rightarrow> (if_BaseBranch f, if_BaseSHA f)) in
      cy_bind (cy_core (cx_Seed cx branch sha)) (\<lambda>source.
      cy_bind (cy_core (cx_ResumeRuntime cx batch source)) (\<lambda>_.
      cy_bind (runRuntimePhase cx batch source EffectPrepare) (\<lambda>_.
      cy_bind (settle (runBindPhase cx)) (\<lambda>_.
      cy_bind (runRuntimePhase cx batch source EffectStart) (\<lambda>_.
        runRuntimePhase cx batch source EffectMonitor))))))"

definition outcome_phases ::
  "'w cycle_env \<Rightarrow> reconciliationV2Batch \<Rightarrow> publicationExecutionMaterial list \<Rightarrow> ('w, unit) cycle" where
  "outcome_phases cx batch publications =
     cy_bind (runHandoffOutcomePhase cx) (\<lambda>_.
     cy_bind (runHandoffPhase cx) (\<lambda>_.
     cy_bind (settle (runPublicationPhase cx publications)) (\<lambda>_.
     cy_bind (settle (runIssueUpdatePhase cx batch True)) (\<lambda>_.
     cy_bind (settle (runGovernancePhase cx)) (\<lambda>_.
       runRetirementPhase cx)))))"

definition review_phases :: "'w cycle_env \<Rightarrow> reconciliationV2Batch \<Rightarrow> ('w, unit) cycle" where
  "review_phases cx batch =
     cy_bind (owner_snapshot cx) (\<lambda>s.
     cy_bind (executionCandidates cx s batch) (\<lambda>(reviewers, publications).
     cy_bind (runReviewerPhase cx reviewers) (\<lambda>_. outcome_phases cx batch publications)))"

definition cycleFromSnapshot :: "'w cycle_env \<Rightarrow> runtimeOwnerState \<Rightarrow> uint64 \<Rightarrow> ('w, unit) cycle" where
  "cycleFromSnapshot cx s cycleID =
     cy_bind (collected cx s cycleID) (\<lambda>(batch, applied).
     cy_bind (resume_phases cx batch applied) (\<lambda>_.
     cy_bind (runtime_phases cx batch) (\<lambda>_. review_phases cx batch)))"

section \<open>The outcome of a cycle\<close>

definition reconciliationCycleDisposition :: "cycle_error option \<Rightarrow> cycle_error option \<Rightarrow> cycle_error option" where
  "reconciliationCycleDisposition phase outcome =
     (if outcome \<noteq> None then outcome
      else if phase = Some (CycleFailed StaleStateResult) then Some Recollect
      else phase)"

definition failed_with :: "cycle_error + 'a \<Rightarrow> cycle_error option" where
  "failed_with r = (case r of Inl e \<Rightarrow> Some e | Inr _ \<Rightarrow> None)"

definition cy_disposed :: "cycle_error option \<Rightarrow> ('w, unit) cycle" where
  "cy_disposed e = (case e of None \<Rightarrow> cy_ok () | Some x \<Rightarrow> cy_fail x)"

definition outcome_command ::
  "'w cycle_env \<Rightarrow> runtimeOwnerState \<Rightarrow> uint64 \<Rightarrow> cycle_error option \<Rightarrow> time \<Rightarrow> owner_command" where
  "outcome_command cx s cycleID e now =
     (let (text, at) = (case e of Some (CycleFailed x) \<Rightarrow> (cx_Text cx x, now) | _ \<Rightarrow> ([], 0)) in RecordCycleOutcome
       \<lparr>co_Identity = \<lparr>id_Epoch = s_Epoch s, id_SourceRevision = s_Revision s, id_CycleID = cycleID, id_IssueGeneration = 0,
          id_AttemptGeneration = 0, id_EffectID = [], id_RequestDigest = [], id_ReviewRunID = [],
          id_ReviewerProfileDigest = []\<rparr>,
        co_Diagnostic = text, co_At = at\<rparr>)"

text \<open>An error of the cache that is joined to \<open>Recollect\<close> leaves it one.\<close>

definition cache_saved :: "'w cycle_env \<Rightarrow> cycle_error option \<Rightarrow> ('w, cycle_error option) cycle" where
  "cache_saved cx e =
     (if e \<noteq> None \<and> e \<noteq> Some Recollect then cy_ok e
      else cy_try (cy_core (cx_SaveCache cx)) (\<lambda>r. cy_ok (if e = None then failed_with r else e)))"

definition runCycle :: "'w cycle_env \<Rightarrow> ('w, unit) cycle" where
  "runCycle cx =
     cy_bind (reconciliationSnapshot cx) (\<lambda>(s, cycleID).
     cy_try (cycleFromSnapshot cx s cycleID) (\<lambda>r.
     cy_bind (cache_saved cx (reconciliationCycleDisposition (failed_with r) None)) (\<lambda>e.
     cy_bind (cy_core (\<lambda>c. (Inr (cx_Now cx (cw_Outside c)), c))) (\<lambda>now.
     cy_try (submit_command cx (outcome_command cx s cycleID e now)) (\<lambda>recorded.
     cy_disposed (case recorded of Inl x \<Rightarrow> reconciliationCycleDisposition e (Some x) | Inr _ \<Rightarrow> e))))))"

end
