(* ===== verification/Cycle_Laws.thy ===== *)
theory Cycle_Laws
  imports Cycle_Phases Planner_Properties
begin

text \<open>
  What a cycle does in every environment.  The locale \<open>cycle_law\<close> is a law of event histories that can be
  put together from the histories of phases; its two interpretations say that nothing is executed after a
  change of GitHub, and that nothing is executed that the owner had not begun.
\<close>

section \<open>Laws of histories\<close>

text \<open>\<open>ends\<close> says of a phase's result that the cycle stops with it.\<close>

definition with_events :: "('w, 'a) cycle \<Rightarrow> (cycle_event list \<Rightarrow> (cycle_error + 'a) \<Rightarrow> bool) \<Rightarrow> bool" where
  "with_events m P \<longleftrightarrow>
     (\<forall>w r w'. m w = Some (r, w') \<longrightarrow> (\<exists>es. cw_Events w' = cw_Events w @ es \<and> P es r))"

lemma with_eventsD:
  assumes "with_events m P" "m w = Some (r, w')"
  obtains es where "cw_Events w' = cw_Events w @ es" "P es r"
  using assms unfolding with_events_def by blast

lemma with_eventsI:
  assumes "\<And>w r w'. m w = Some (r, w') \<Longrightarrow> \<exists>es. cw_Events w' = cw_Events w @ es \<and> P es r"
  shows "with_events m P"
  using assms unfolding with_events_def by blast

lemma with_events_mono: "with_events m P \<Longrightarrow> (\<And>es r. P es r \<Longrightarrow> Q es r) \<Longrightarrow> with_events m Q"
  unfolding with_events_def by blast

lemma with_events_try:
  assumes "with_events m P" "\<And>es r. P es r \<Longrightarrow> with_events (k r) (\<lambda>es' r'. Q (es @ es') r')"
  shows "with_events (cy_try m k) Q"
proof (rule with_eventsI)
  fix w r w' assume "cy_try m k w = Some (r, w')"
  then obtain r1 w1 where m: "m w = Some (r1, w1)" and k: "k r1 w1 = Some (r, w')"
    by (auto simp: cy_try_def Option.bind_eq_Some_conv)
  from with_eventsD[OF assms(1) m] obtain es where e: "cw_Events w1 = cw_Events w @ es" "P es r1" .
  from with_eventsD[OF assms(2)[OF e(2)] k] obtain es' where "cw_Events w' = cw_Events w1 @ es'" "Q (es @ es') r" .
  then show "\<exists>es. cw_Events w' = cw_Events w @ es \<and> Q es r" using e(1) by auto
qed

lemma cy_bind_try: "cy_bind m f = cy_try m (\<lambda>r. case r of Inl e \<Rightarrow> cy_fail e | Inr x \<Rightarrow> f x)"
  by (auto simp: cy_bind_def cy_try_def cy_fail_def fun_eq_iff split: sum.split intro!: arg_cong2[where f = Option.bind])

lemma with_events_fail: "P [] (Inl e) \<Longrightarrow> with_events (cy_fail e) P"
  by (simp add: with_events_def cy_fail_def)

lemma with_events_ok: "P [] (Inr x) \<Longrightarrow> with_events (cy_ok x) P"
  by (simp add: with_events_def cy_ok_def)

lemma with_events_bind:
  assumes "with_events m P" "\<And>es x. P es (Inr x) \<Longrightarrow> with_events (f x) (\<lambda>es' r'. Q (es @ es') r')"
    "\<And>es e. P es (Inl e) \<Longrightarrow> Q es (Inl e)"
  shows "with_events (cy_bind m f) Q"
  unfolding cy_bind_try
proof (rule with_events_try[OF assms(1)])
  fix es r assume "P es r"
  then show "with_events (case r of Inl e \<Rightarrow> cy_fail e | Inr x \<Rightarrow> f x) (\<lambda>es' r'. Q (es @ es') r')"
    using assms(2,3) by (cases r) (auto intro: with_events_fail)
qed

lemma with_events_core: "with_events (cy_core f) (\<lambda>es r. es = [])"
  by (auto simp: with_events_def cy_core_def cy_of_def cy_fail_def cy_ok_def split: prod.splits sum.splits)

lemma with_events_of: "with_events (cy_of x) (\<lambda>es r. es = [])"
  by (auto simp: with_events_def cy_of_def cy_fail_def cy_ok_def split: sum.splits)

lemma with_events_served: "with_events (served cx f) (\<lambda>es r. es = [])"
  unfolding served_def by (rule with_events_core)

lemmas silent_calls = with_events_core with_events_of
  with_events_served[where f = "\<lambda>c. (Inr (cw_Ledger c), c)", folded owner_snapshot_def]
  with_events_served[where f = "submit_core env c" for env c]

text \<open>The induction rule of a loop, for results that are reached.\<close>

lemma with_events_loop:
  assumes body: "with_events body (\<lambda>es r. case r of
      Inl e \<Rightarrow> Q es (Inl e) | Inr None \<Rightarrow> G es | Inr (Some x) \<Rightarrow> Q es (Inr x))"
    and seq: "\<And>es es' r. G es \<Longrightarrow> Q es' r \<Longrightarrow> Q (es @ es') r"
  shows "with_events (cy_loop body) Q"
proof (rule with_eventsI)
  fix w r w' assume "cy_loop body w = Some (r, w')"
  moreover have "\<exists>es. cw_Events (snd s) = cw_Events w @ es \<and> Q es (fst s)" if "cy_loop b w = Some s" "b = body" for b w s
    using that
  proof (induction rule: cy_loop.raw_induct[rotated, consumes 1, case_names step])
    case (step loop b w s)
    then obtain r1 w1 where m: "body w = Some (r1, w1)" by (auto simp: Option.bind_eq_Some_conv)
    from with_eventsD[OF body m] obtain es where
      e: "cw_Events w1 = cw_Events w @ es" "case r1 of Inl e \<Rightarrow> Q es (Inl e) | Inr None \<Rightarrow> G es | Inr (Some x) \<Rightarrow> Q es (Inr x)" .
    show ?case
    proof (cases "\<exists>x. r1 = Inr None")
      case True
      then have "loop b w1 = Some s" using step.hyps step.prems m by simp
      from step.IH[OF this step.prems] obtain es' where "cw_Events (snd s) = cw_Events w1 @ es'" "Q es' (fst s)" by blast
      then show ?thesis using e True seq[of es es'] by auto
    next
      case False
      then show ?thesis using step.hyps step.prems m e by (auto split: sum.splits option.splits)
    qed
  qed
  ultimately show "\<exists>es. cw_Events w' = cw_Events w @ es \<and> Q es r" by fastforce
qed


definition silent :: "('w, 'a) cycle \<Rightarrow> bool" where
  "silent m \<longleftrightarrow> with_events m (\<lambda>es r. es = [])"

definition follows :: "(cycle_event list \<Rightarrow> bool \<Rightarrow> bool) \<Rightarrow> (cycle_error + 'a \<Rightarrow> bool) \<Rightarrow> ('w, 'a) cycle \<Rightarrow> bool" where
  "follows law ends m \<longleftrightarrow> with_events m (\<lambda>es r. law es (\<not> ends r))"

text \<open>How a phase ends the cycle: with an error, or because it changed something.\<close>

definition changed :: "cycle_error + bool \<Rightarrow> bool" where
  "changed r \<longleftrightarrow> r \<noteq> Inr False"

lemma silent_intros [intro]:
  "silent (cy_core f)" "silent (cy_of x)" "silent (served cx g)" "silent (owner_snapshot cx)" "silent (submit_command cx c)"
  "silent (cy_ok y)" "silent (cy_fail e)" "silent (cy_check x0 z)"
  unfolding silent_def owner_snapshot_def submit_command_def cy_check_def
  by (auto intro: with_events_core with_events_of with_events_served with_events_ok with_events_fail split: option.split)

lemma silent_try: "silent m \<Longrightarrow> (\<And>r. silent (k r)) \<Longrightarrow> silent (cy_try m k)"
  unfolding silent_def by (rule with_events_try[where P = "\<lambda>es r. es = []"]) auto

lemma silent_bind: "silent m \<Longrightarrow> (\<And>x. silent (f x)) \<Longrightarrow> silent (cy_bind m f)"
  unfolding cy_bind_try by (rule silent_try) (auto split: sum.split)

lemma silent_diagnose: "silent (diagnose_effect cx e a text)" "silent (diagnose_and cx e q prefix x)" "silent (reviewer_failed cx p x')"
  unfolding diagnose_effect_def diagnose_and_def canceled_or_def reviewer_failed_def
  by (auto intro!: silent_try silent_bind split: sum.split cycle_error.split owner_error.split)

lemma begin_events:
  "with_events (beginReconciliation cx p)
    (\<lambda>es r. case r of Inl e \<Rightarrow> es = [] | Inr q \<Rightarrow> es = [Begun (id_EffectID (pl_Identity q))])"
  unfolding beginReconciliation_def
proof (rule with_events_bind)
  show "with_events (submit_command cx (BeginReconciliationEffect
      \<lparr>bc_Identity = pl_Identity p, bc_ReviewerSourceRevision = 0, bc_Request = pl_Request p\<rparr>)) (\<lambda>es r. es = [])"
    using silent_intros(5) by (simp add: silent_def)
next
  fix es :: "cycle_event list" and x :: "runtimeOwnerState \<times> runtimeEffectIntent option" assume "es = []"
  moreover obtain s found where "x = (s, found)" by (cases x)
  ultimately show "with_events (case x of (_, None) \<Rightarrow> cy_fail (CycleFailed StateConflict)
        | (_, Some e) \<Rightarrow> cy_bind (cy_event (Begun (e_ID e))) (\<lambda>_. cy_ok (begun_plan p e)))
      (\<lambda>es' r. case r of Inl e \<Rightarrow> es @ es' = [] | Inr q \<Rightarrow> es @ es' = [Begun (id_EffectID (pl_Identity q))])"
    by (cases found) (auto simp: with_events_def cy_fail_def cy_bind_def cy_event_def cy_ok_def begun_plan_def
        ownerReconciliationEffectIdentity_def)
qed simp

lemma execution_events:
  "with_events (run_execution cx ch q m) (\<lambda>es r. \<exists>x. r = Inr x \<and> es = [Executed (id_EffectID (pl_Identity q)) (ch x)])"
  by (auto simp: with_events_def run_execution_def split: prod.splits)

locale cycle_law =
  fixes law :: "cycle_event list \<Rightarrow> bool \<Rightarrow> bool"
  assumes law_nil: "law [] b"
    and sequence: "law es True \<Longrightarrow> law es' b \<Longrightarrow> law (es @ es') b"
    and stopping: "law es b \<Longrightarrow> law es False"
    and begun: "law [Begun i] b"
    and pending: "law [Pending i] b"
    and begun_executed: "(t \<Longrightarrow> \<not> b) \<Longrightarrow> law [Begun i, Executed i t] b"
    and pending_executed: "(t \<Longrightarrow> \<not> b) \<Longrightarrow> law [Pending i, Executed i t] b"
begin

lemma follows_silent [intro]: "silent m \<Longrightarrow> follows law ends m"
  unfolding silent_def follows_def by (erule with_events_mono) (simp add: law_nil)

lemma follows_ok [simp]: "follows law ends (cy_ok x)"
  by (rule follows_silent) (rule silent_intros)

lemma follows_bind:
  assumes "follows law isl m" "\<And>x. follows law ends (f x)" "\<And>e. ends (Inl e)"
  shows "follows law ends (cy_bind m f)"
  unfolding follows_def
proof (rule with_events_bind[OF assms(1)[unfolded follows_def]], goal_cases)
  case (1 es x)
  then show ?case using assms(2)[of x] unfolding follows_def by (elim with_events_mono) (auto intro: sequence)
qed (use assms(3) in auto)

lemma follows_settle:
  assumes "follows law changed m"
  shows "follows law isl (settle m)"
  unfolding follows_def settle_def
proof (rule with_events_bind[OF assms[unfolded follows_def]])
  fix es x assume "law es (\<not> changed (Inr x))"
  then show "with_events (if x then cy_fail Recollect else cy_ok ()) (\<lambda>es' r'. law (es @ es') (\<not> isl r'))"
    by (cases x) (auto simp: changed_def intro: with_events_fail with_events_ok)
qed (auto simp: changed_def)

lemma follows_loop:
  assumes "follows law isl body"
  shows "follows law isl (cy_loop body)"
  unfolding follows_def
proof (rule with_events_loop[where G = "\<lambda>es. law es True"])
  show "with_events body (\<lambda>es r. case r of Inl e \<Rightarrow> law es (\<not> isl (Inl e)) | Inr None \<Rightarrow> law es True
      | Inr (Some x) \<Rightarrow> law es (\<not> isl (Inr x)))"
    using assms unfolding follows_def by (rule with_events_mono) (auto split: sum.splits option.splits)
qed (rule sequence)

lemma follows_begin_and_execute:
  assumes "\<And>q x. with_events (k q x) (\<lambda>es r. es = [] \<and> (ch x \<longrightarrow> ends r))" "\<And>e. ends (Inl e)"
  shows "follows law ends (begin_and_execute cx ch p material k)"
  unfolding follows_def begin_and_execute_def
proof (rule with_events_bind[OF begin_events], goal_cases)
  case (1 es q)
  then have es: "es = [Begun (id_EffectID (pl_Identity q))]" by simp
  show ?case
  proof (rule with_events_bind[OF execution_events], goal_cases)
    case (1 es' x)
    then have "es' = [Executed (id_EffectID (pl_Identity q)) (ch x)]" by simp
    then show ?case
      using assms(1)[of q x] es by (elim with_events_mono) (auto intro: begun_executed)
  qed simp
qed (use assms(2) law_nil in simp)

end

text \<open>A pending effect is executed at most once, and a change of GitHub is reported.\<close>

definition once_only :: "string \<Rightarrow> ('w, bool) cycle \<Rightarrow> bool" where
  "once_only i m \<longleftrightarrow> with_events m (\<lambda>es r. es = [] \<or> (\<exists>t. es = [Executed i t] \<and> (t \<longrightarrow> r = Inr True)))"

lemma once_only_silent [intro]: "silent m \<Longrightarrow> once_only i m"
  unfolding silent_def once_only_def by (erule with_events_mono) simp

lemma once_only_ok [simp]: "once_only i (cy_ok x)" "once_only i (cy_fail e)"
  by (auto intro!: once_only_silent silent_intros)

lemma once_only_after:
  assumes "silent m" "\<And>r. once_only i (k r)"
  shows "once_only i (cy_try m k)"
  unfolding once_only_def
proof (rule with_events_try[OF assms(1)[unfolded silent_def]])
  fix es :: "cycle_event list" and r assume "es = []"
  then show "with_events (k r) (\<lambda>es' r'. es @ es' = [] \<or> (\<exists>t. es @ es' = [Executed i t] \<and> (t \<longrightarrow> r' = Inr True)))"
    using assms(2)[of r] by (simp add: once_only_def)
qed

lemma once_only_bind: "silent m \<Longrightarrow> (\<And>x. once_only i (f x)) \<Longrightarrow> once_only i (cy_bind m f)"
  unfolding cy_bind_try by (rule once_only_after) (auto split: sum.split)

lemma once_only_replay:
  assumes "\<And>x. ch x \<Longrightarrow> xe_Error x = None \<and> rq_Action (pl_Request p) \<noteq> reconciliationReviewer" "id_EffectID (pl_Identity p) = i"
  shows "once_only i (replay cx ch p material same)"
proof (cases same)
  case True
  have "with_events (cy_bind (run_execution cx ch p material)
      (\<lambda>x. cy_check (xe_Error x) (rq_Action (pl_Request p) = reconciliationReviewer \<longrightarrow> \<not> xe_Pending x)))
    (\<lambda>es r. es = [] \<or> (\<exists>t. es = [Executed i t] \<and> (t \<longrightarrow> r = Inr True)))"
  proof (rule with_events_bind[OF execution_events], goal_cases)
    case (1 es x)
    then show ?case using assms(1)[of x] assms(2)
      by (auto simp: cy_check_def split: option.split intro!: with_events_ok with_events_fail)
  qed simp
  then show ?thesis using True by (simp add: replay_def once_only_def)
qed (auto simp: replay_def)

lemma succeeded_replay:
  "rq_Action q \<noteq> reconciliationReviewer \<Longrightarrow> once_only (e_ID e) (replay cx succeeded ((pending_plan e q)\<lparr>pl_Material := x\<rparr>) material same)"
  "rq_Action q \<noteq> reconciliationReviewer \<Longrightarrow> once_only (e_ID e) (replay cx succeeded ((pending_plan e q)\<lparr>pl_Attempt := y\<rparr>) material same)"
  "rq_Action q \<noteq> reconciliationReviewer \<Longrightarrow> once_only (e_ID e) (replay cx succeeded (pending_plan e q) material same)"
  "once_only (e_ID e) (replay cx unchanged (pending_plan e q) material same)"
  by (auto intro!: once_only_replay simp: succeeded_def unchanged_def pending_plan_def ownerReconciliationEffectIdentity_def)

lemma once_only_exported: "(\<And>issue x. once_only i (k issue x)) \<Longrightarrow> once_only i (replay_exported cx batch s q k)"
  unfolding replay_exported_def by (auto intro!: once_only_bind split: option.split)

lemmas request_actions = reconciliationGitHubBind_def reconciliationGitHubPublish_def reconciliationGitHubIssueUpdate_def
  reconciliationGitHubPRGovernance_def reconciliationReviewer_def reconciliationHandoffDeliver_def

lemma once_only_if:
  "(c \<Longrightarrow> once_only i m) \<Longrightarrow> (\<not> c \<Longrightarrow> once_only i m') \<Longrightarrow> once_only i (if c then m else m')"
  by simp

lemma once_only_update:
  assumes "rq_Action q \<noteq> reconciliationReviewer"
  shows "once_only (e_ID e) (replay_update cx batch e q u)"
  unfolding replay_update_def Let_def using assms
  by (auto intro!: succeeded_replay(1) split: option.split)

lemma once_only_handoff: "once_only (e_ID e) (replay_handoff cx e q h m)"
  unfolding replay_handoff_def Let_def by (auto intro!: once_only_bind succeeded_replay(4))

lemma once_only_unmarked: "once_only (e_ID e) (resumeUnmarkedReconciliation cx batch s e q)"
proof -
  have a: "reconciliationGitHubBind \<noteq> reconciliationReviewer" "reconciliationGitHubPublish \<noteq> reconciliationReviewer"
    "reconciliationGitHubIssueUpdate \<noteq> reconciliationReviewer" "reconciliationGitHubPRGovernance \<noteq> reconciliationReviewer"
    by (simp_all add: request_actions)
  show ?thesis
    unfolding resumeUnmarkedReconciliation_def Let_def
  proof (intro once_only_if, goal_cases)
    case 1 then show ?case using a(1) by (intro succeeded_replay(1)) simp
  next
    case 2 then show ?case using a(2) by (intro once_only_exported succeeded_replay(3)) simp
  next
    case 3 then show ?case using a(3) by (auto intro: once_only_update split: option.split)
  next
    case 4 then show ?case using a(4) by (auto intro!: succeeded_replay(2) split: option.split)
  next
    case 5 show ?case by (intro once_only_exported succeeded_replay(4))
  next
    case 6 show ?case by (auto intro: once_only_handoff split: option.split)
  next
    case 7 show ?case by (rule succeeded_replay(4))
  qed auto
qed

lemma once_only_marked: "once_only (e_ID e) (resume_marked cx batch s e q)"
proof -
  have "once_only (e_ID e) (cy_try (resumeUnmarkedReconciliation cx batch s e q)
      (\<lambda>r. case r of Inl x \<Rightarrow> diagnose_and cx e q prefix x | Inr b \<Rightarrow> cy_ok b))" for prefix
    unfolding once_only_def
  proof (rule with_events_try[OF once_only_unmarked[unfolded once_only_def]])
    fix es :: "cycle_event list" and r :: "cycle_error + bool"
    assume r: "es = [] \<or> (\<exists>t. es = [Executed (e_ID e) t] \<and> (t \<longrightarrow> r = Inr True))"
    have silent: "silent (case r of Inl x \<Rightarrow> diagnose_and cx e q prefix x | Inr b \<Rightarrow> cy_ok b)"
      by (auto simp: silent_diagnose split: sum.split)
    show "with_events (case r of Inl x \<Rightarrow> diagnose_and cx e q prefix x | Inr b \<Rightarrow> cy_ok b)
        (\<lambda>es' r'. es @ es' = [] \<or> (\<exists>t. es @ es' = [Executed (e_ID e) t] \<and> (t \<longrightarrow> r' = Inr True)))"
    proof (cases "r = Inr True")
      case True then show ?thesis using r by (auto intro!: with_events_ok)
    next
      case False
      from silent show ?thesis unfolding silent_def by (rule with_events_mono) (use r False in auto)
    qed
  qed
  then show ?thesis
    unfolding resume_marked_def
    by (auto intro!: once_only_after simp: silent_diagnose once_only_silent split: sum.split bool.split)
qed

lemma once_only_superseded: "silent (resume_superseded cx e q head)"
  unfolding resume_superseded_def by (auto intro!: silent_try simp: silent_diagnose split: sum.split)

lemma once_only_one: "once_only (e_ID e) (resume_one cx batch s e q)"
  unfolding resume_one_def
  by (auto intro!: once_only_after once_only_marked simp: silent_diagnose once_only_silent once_only_superseded
      split: option.split sum.split)

section \<open>The laws of a cycle\<close>

context cycle_law
begin

lemma follows_try_silent:
  assumes "silent m" "\<And>r. follows law ends (k r)"
  shows "follows law ends (cy_try m k)"
  unfolding follows_def
proof (rule with_events_try[OF assms(1)[unfolded silent_def]], goal_cases)
  case (1 es r)
  then show ?case using assms(2)[of r] by (simp add: follows_def)
qed

lemma follows_check:
  "follows law changed (begin_and_execute cx succeeded p material (\<lambda>_ x. cy_check (xe_Error x) True))"
  "follows law changed (begin_and_execute cx xe_Mutated p material (\<lambda>_ x. cy_check (xe_Error x) (xe_Mutated x)))"
  by (rule follows_begin_and_execute;
      auto simp: changed_def cy_check_def intro!: with_events_ok with_events_fail split: option.split)+

lemma follows_updates:
  "follows law changed (runMachineStatusPhase cx)" "follows law changed (runIssueUpdatePhase cx batch attempts)"
  "follows law changed (runBindPhase cx)" "follows law changed (runPublicationPhase cx candidates)"
  "follows law changed (runGovernancePhase cx)"
  unfolding runMachineStatusPhase_def runMachineStatusPlan_def runIssueUpdatePhase_def runBindPhase_def
    runPublicationPhase_def runGovernancePhase_def
  by (auto intro!: follows_bind follows_check simp: changed_def split: list.split)

lemma follows_unchanged:
  assumes "\<And>q x. silent (k q x)" "\<And>e. ends (Inl e)"
  shows "follows law ends (begin_and_execute cx unchanged p material k)"
  using assms by (intro follows_begin_and_execute) (auto simp: silent_def unchanged_def)

lemma follows_host:
  "follows law isl (runReviewerPhase cx reviewers)" "follows law isl (runHandoffOutcomePhase cx)"
  "follows law isl (runHandoffPhase cx)" "follows law isl (runRetirementPhase cx)"
  unfolding runReviewerPhase_def runHandoffOutcomePhase_def runHandoffPhase_def runRetirementPhase_def outcome_files_def
  by (auto intro!: follows_loop follows_bind follows_unchanged simp: silent_diagnose silent_intros split: list.split option.split)

lemma follows_resume_each: "follows law changed (resume_each cx batch s es)"
proof (induction es)
  case (Cons eq es)
  obtain e q where eq: "eq = (e, q)" by (cases eq)
  let ?rest = "\<lambda>resumed. if resumed then cy_ok True else resume_each cx batch s es"
  have "with_events (cy_bind (cy_event (Pending (e_ID e))) (\<lambda>_. cy_bind (resume_one cx batch s e q) ?rest))
      (\<lambda>es r. law es (\<not> changed r))"
  proof (rule with_events_bind[where P = "\<lambda>es r. es = [Pending (e_ID e)] \<and> isl r = False"], goal_cases)
    case 1 show ?case by (simp add: with_events_def cy_event_def)
  next
    case (2 es1 u)
    show ?case
    proof (rule with_events_bind[OF once_only_one[unfolded once_only_def]], goal_cases)
      case (1 es2 resumed)
      have e: "law (es1 @ es2) (\<not> resumed)"
        using 1 2 pending pending_executed by auto
      then show ?case
      proof (cases resumed)
        case True
        then show ?thesis using e by (auto simp: changed_def intro!: with_events_ok)
      next
        case False
        then show ?thesis
          using Cons.IH e unfolding follows_def by (simp, elim with_events_mono) (auto dest: sequence)
      qed
    next
      case (2 es2 x) then show ?case using \<open>es1 = _ \<and> _\<close> pending pending_executed by (auto simp: changed_def)
    qed
  qed simp
  then show ?case by (simp add: eq follows_def)
qed simp

lemma follows_resume: "follows law changed (resumePendingReconciliation cx batch)"
  unfolding resumePendingReconciliation_def
  by (rule follows_bind) (auto intro: follows_resume_each simp: changed_def)

lemma follows_runtime: "follows law isl (runRuntimePhase cx batch source action)"
proof -
  have b: "with_events (beginWithSource cx source s p) (\<lambda>es r. case r of Inl e \<Rightarrow> es = [] | Inr e \<Rightarrow> es = [Begun (e_ID e)])" for s p
    unfolding beginWithSource_def
  proof (cases "s_Epoch s = 0 \<or> s_Revision s = 0", simp add: with_events_fail, simp, goal_cases)
    case 1
    show ?case
    proof (rule with_events_bind[OF with_events_core], goal_cases)
      case (1 es bound)
      show ?case
      proof (rule with_events_bind[OF silent_intros(5)[unfolded silent_def]], goal_cases)
        case (1 es' x)
        then show ?case using \<open>es = []\<close>
          by (cases x; cases "snd x") (auto simp: with_events_def cy_fail_def cy_bind_def cy_event_def cy_ok_def)
      qed (use \<open>es = []\<close> in simp)
    qed simp
  qed
  have x: "with_events (cy_bind (execute_runtime f e) (\<lambda>_. cy_ok None)) (\<lambda>es r. es = [Executed (e_ID e) False])" for f e
    by (auto simp: with_events_def execute_runtime_def cy_bind_def cy_event_def cy_core_def cy_of_def cy_fail_def cy_ok_def
        Option.bind_eq_Some_conv split: prod.splits sum.splits)
  have "follows law isl (cy_bind (beginWithSource cx source s p)
      (\<lambda>e. cy_bind (execute_runtime (f e) e) (\<lambda>_. cy_ok None)))" for s p f
    unfolding follows_def
  proof (rule with_events_bind[OF b], goal_cases)
    case (1 es e)
    show ?case by (rule with_events_mono[OF x]) (use 1 begun_executed in auto)
  qed (simp add: law_nil)
  then show ?thesis
    unfolding runRuntimePhase_def
    by (intro follows_loop follows_bind) (auto split: option.split)
qed

end

lemma silent_candidates: "silent (executionCandidates cx s batch)"
proof -
  have "silent (execution_candidates cx rs)" for rs
    by (induction rs) (auto intro!: silent_try silent_bind silent_intros split: sum.split)
  then show ?thesis by (simp add: executionCandidates_def)
qed

lemma silent_admissions: "silent (admitDependencyStatuses cx s)"
proof -
  have e: "silent (admit_each cx k ob us s)" for k ob us s
    by (induction us arbitrary: s) (auto intro!: silent_bind split: option.split)
  have "silent (admit_observations cx obs s)" for obs s
    by (induction obs arbitrary: s) (auto intro!: silent_bind e)
  then show ?thesis by (simp add: admitDependencyStatuses_def)
qed

lemma silent_collected: "silent (collected cx s cycleID)"
  unfolding collected_def by (auto intro!: silent_bind silent_admissions)

lemma silent_resolved: "silent (resolveInvalidatedGitHubEffect cx)"
proof -
  have "silent (resolve_each cx b es)" for b es
    by (induction es arbitrary: b) (auto intro!: silent_bind)
  then show ?thesis unfolding resolveInvalidatedGitHubEffect_def by (auto intro!: silent_bind)
qed

lemma silent_superseded: "silent (supersedeInvalidPendingPlanReviewers cx s)"
proof -
  have "silent (supersede_each cx es)" for es
    by (induction es) (auto intro!: silent_try silent_bind simp: silent_diagnose canceled_or_def split: sum.split)
  then show ?thesis by (simp add: supersedeInvalidPendingPlanReviewers_def)
qed

lemma silent_settle: "silent m \<Longrightarrow> silent (settle m)"
  unfolding settle_def by (rule silent_bind) auto

context cycle_law
begin

lemma follows_outcome_phases: "follows law isl (outcome_phases cx batch publications)"
  unfolding outcome_phases_def
  by (intro follows_bind follows_settle follows_host follows_updates) auto

lemma follows_cycle: "follows law isl (cycleFromSnapshot cx s cycleID)"
proof -
  have r: "follows law isl (resume_phases cx batch applied)" for batch applied
    unfolding resume_phases_def
    by (intro follows_bind follows_settle follows_updates follows_resume)
      (auto intro!: follows_silent silent_settle silent_resolved silent_superseded)
  have t: "follows law isl (runtime_phases cx batch)" for batch
    unfolding runtime_phases_def
    by (auto intro!: follows_bind follows_settle follows_updates follows_runtime split: prod.split)
  have v: "follows law isl (review_phases cx batch)" for batch
    unfolding review_phases_def
    by (intro follows_bind follows_silent[OF silent_candidates] follows_silent[OF silent_intros(4)])
      (auto intro!: follows_bind follows_host follows_outcome_phases split: prod.split)
  show ?thesis
    unfolding cycleFromSnapshot_def
    by (intro follows_bind follows_silent[OF silent_collected]) (auto intro!: follows_bind r t v split: prod.split)
qed

end


section \<open>Nothing after a change of GitHub\<close>

definition github_changed :: "cycle_event \<Rightarrow> bool" where
  "github_changed e \<longleftrightarrow> (case e of Executed _ t \<Rightarrow> t | _ \<Rightarrow> False)"

definition stops_on_change :: "cycle_event list \<Rightarrow> bool \<Rightarrow> bool" where
  "stops_on_change es b \<longleftrightarrow> (\<forall>e \<in> set (butlast es). \<not> github_changed e) \<and> (b \<longrightarrow> (\<forall>e \<in> set es. \<not> github_changed e))"

interpretation fresh: cycle_law stops_on_change
  by unfold_locales (auto simp: stops_on_change_def github_changed_def butlast_append split: if_splits)

text \<open>\<open>es\<close> is in order when every execution comes after the begin of its effect, or after a snapshot had it pending.\<close>

definition authorised :: "cycle_event list \<Rightarrow> bool" where
  "authorised es \<longleftrightarrow> (\<forall>xs ys i t. es = xs @ Executed i t # ys \<longrightarrow> Begun i \<in> set xs \<or> Pending i \<in> set xs)"

lemma authorised_append: "authorised es \<Longrightarrow> authorised es' \<Longrightarrow> authorised (es @ es')"
  unfolding authorised_def
proof (intro allI impI)
  fix xs ys i t
  assume a: "\<forall>xs ys i t. es = xs @ Executed i t # ys \<longrightarrow> Begun i \<in> set xs \<or> Pending i \<in> set xs"
    "\<forall>xs ys i t. es' = xs @ Executed i t # ys \<longrightarrow> Begun i \<in> set xs \<or> Pending i \<in> set xs"
    and e: "es @ es' = xs @ Executed i t # ys"
  from e consider us where "es = xs @ us" "us @ es' = Executed i t # ys" | us where "es @ us = xs" "es' = us @ Executed i t # ys"
    by (auto simp: append_eq_append_conv2)
  then show "Begun i \<in> set xs \<or> Pending i \<in> set xs"
  proof cases
    case (1 us)
    then show ?thesis using a by (cases us) (auto, metis self_append_conv2 empty_iff list.set(1))
  next
    case (2 us) then show ?thesis using a(2)[rule_format, of us i t ys] by auto
  qed
qed

interpretation intent: cycle_law "\<lambda>es b. authorised es"
  by unfold_locales (auto intro: authorised_append, auto simp: authorised_def Cons_eq_append_conv)

end
