(* ===== verification/Cycle_Properties.thy ===== *)
theory Cycle_Properties
  imports Cycle_Laws
begin

text \<open>
  Properties of a reconciliation cycle, and a ledger and an environment in which a whole cycle is carried out:
  no effect follows a change of GitHub, every execution was begun or pending, what holds when a cycle ends
  without an error, the plan that ends every cycle, and the error that is not recorded.
\<close>

section \<open>A quiet cycle\<close>

definition sample_adapter :: PRAdapterConfig where
  "sample_adapter = \<lparr>pa_Repository = ''o/r'', pa_ReadyLabel = [], pa_IssueFilterLabel = [], pa_HumanReviewLabel = [],
     pa_AutonomousMergeLabel = [], pa_MergeMethod = [], pa_PriorityP1Label = [], pa_PriorityP2Label = [],
     pa_PriorityP3Label = [], pa_DependencySection = [], pa_DefaultCompletion = [], pa_ApprovalCommand = [],
     pa_CancelCommand = [], pa_RetryCommand = [], pa_ActorID = 1\<rparr>"

definition empty_batch :: reconciliationV2Batch where
  "empty_batch = \<lparr>vb_Input = \<lparr>ni_Scope = \<lparr>sk_Kind = reconciliationRepositoryScope, sk_Repository = ''o/r'', sk_Issue = 0\<rparr>,
     ni_Complete = True, ni_Issues = [], ni_IssueUpdates = [], ni_Attempts = []\<rparr>, vb_IssueUpdates = []\<rparr>"

definition sample_cx :: "'w cycle_env" where
  "sample_cx = \<lparr>cx_Env = sample_env, cx_Planner = sample_planner,
     cx_Config = \<lparr>cy_Repository = ''o/r'', cy_Concurrency = 1, cy_Implementation = [''w'']\<rparr>, cx_Adapter = sample_adapter,
     cx_ReviewEnv = [], cx_ReviewCommand = [], cx_Operator = True, cx_Between = (\<lambda>c. c), cx_Unavailable = (\<lambda>_. None),
     cx_Canceled = (\<lambda>_. None), cx_Text = (\<lambda>_. ''failed''), cx_Now = (\<lambda>_. 1), cx_Collect = (\<lambda>_ c. (Inr empty_batch, c)),
     cx_Seed = (\<lambda>_ _ c. (Inr ''/s'', c)), cx_OutcomeFiles = (\<lambda>_. Inr []), cx_VerifyWorker = (\<lambda>_. None),
     cx_Export = (\<lambda>_ c. (Inl StateConflict, c)),
     cx_Execute = (\<lambda>_ _ c. (\<lparr>xe_Error = None, xe_Pending = False, xe_Mutated = True\<rparr>, c)),
     cx_BindRequest = (\<lambda>_ p _. Inr (lp_Manifest p, replicate 64 CHR ''a'')), cx_ExecuteRuntime = (\<lambda>_ _ _ c. (Inr (), c)),
     cx_Dispatch = (\<lambda>_ _ _ c. (Inr (), c)), cx_Resolve = (\<lambda>_ c. (Inr False, c)), cx_Supersede = (\<lambda>_ _ c. (Inr False, c)),
     cx_VerifyMarker = (\<lambda>_ c. (Inr False, c)), cx_SaveCache = (\<lambda>c. (Inr (), c)),
     cx_ResumeRuntime = (\<lambda>_ _ c. (Inr (), c))\<rparr>"

definition sample_core :: "runtimeOwnerState \<Rightarrow> 'w \<Rightarrow> 'w cycle_core" where
  "sample_core s x = \<lparr>cw_Ledger = s, cw_Applied = fmempty, cw_CycleID = 1, cw_Outside = x\<rparr>"

lemma cy_loop_stop: "body w = Some (Inr (Some x), w') \<Longrightarrow> cy_loop body w = Some (Inr x, w')"
  by (subst cy_loop.simps) simp

lemma quiet_entries [simp]: "fm_entries ord fmempty = map (\<lambda>k. (k, the None)) (ord [])"
  by (simp add: fm_entries_def)

definition empty_collection :: reconciliationCollection where
  "empty_collection = collection_of sample_env small_next 1 (vb_Input empty_batch) fmempty"

lemmas planner_defs = planReconciliationReviewers_def planReconciliationHandoffs_def collectHandoffOutcomePlans_def
  planReconciliationPublications_def planReconciliationAttemptIssueUpdates_def planReconciliationGovernance_def planReconciliationRetirements_def
  planMachineStatusUpdates_def planControlSnapshotRepairs_def planReconciliationIssueUpdates_def planReconciliationBinds_def

lemma quiet_fields: "s_Observations small_next = fmempty" "s_Attempts small_next = fmempty" "s_Effects small_next = fmempty"
  "s_MachineStatuses small_next = fmempty" "s_ControlReceipts small_next = []" "s_ControlRepairs small_next = fmempty"
  "s_Repository small_next = ''o/r''"
  by (simp_all add: small_defs)

lemma sample_cycle_order: "v_order sample_env = (\<lambda>xs. xs)" by (simp add: sample_env_def)

lemma quiet_plans: "planReconciliationReviewers sample_env sample_planner small_next [] = Inr ([], Map.empty)"
  "planReconciliationHandoffs sample_env sample_planner small_next [''w''] [] = Inr ([], Map.empty)"
  "collectHandoffOutcomePlans sample_env small_next [] = Inr ([], Map.empty)"
  "planReconciliationPublications sample_env small_next [] = Inr ([], Map.empty)"
  "planReconciliationGovernance sample_env small_next sample_adapter = Inr []"
  "planReconciliationRetirements sample_env small_next = []"
  "planMachineStatusUpdates sample_env sample_planner small_next sample_adapter = Inr []"
  "planControlSnapshotRepairs sample_env sample_planner small_next sample_adapter = Inr []"
  "planReconciliationIssueUpdates sample_env sample_planner small_next empty_batch = Inr []"
  "planReconciliationBinds sample_env small_next sample_adapter = Inr []"
  "planReconciliationAttemptIssueUpdates sample_env sample_planner small_next empty_batch sample_adapter = Inr []"
  by (simp_all add: planner_defs quiet_fields attempt_entries_def sample_cycle_order empty_batch_def config_owns_def sample_adapter_def
    sortReconciliationPlans_def)

lemma quiet_lifecycle: "now \<noteq> 0 \<Longrightarrow> planRuntimeLifecycle sample_env sample_planner \<lparr>cy_Repository = ''o/r'', cy_Concurrency = 1, cy_Implementation = [''w'']\<rparr> now
    small_next 0 empty_batch = Inr []"
  by (simp add: planRuntimeLifecycle_def quiet_fields empty_batch_def current_entries_def sample_cycle_order)

lemma quiet_collection: "collectionFromSnapshot sample_env small_next 1 (vb_Input empty_batch) = Inr empty_collection"
  by (simp add: collectionFromSnapshot_def input_too_large_def grouped_input_def empty_collection_def collection_of_def
    empty_batch_def validateReconciliationCollection_def Let_def normalizeReconciliationCollection_def
    captureReconciliationGenerations_def captured_issue_keys_def captured_attempt_keys_def owned_in_scope_def observed_in_scope_def quiet_fields sample_cycle_order
    capture_def validReconciliationScope_def validateGenerationSnapshot_def sample_env_def small_defs
    reconciliationRepositoryScope_def reconciliationIssueScope_def)


lemma empty_collection_fields: "empty_collection = \<lparr>cl_Identity = \<lparr>id_Epoch = 2, id_SourceRevision = 6, id_CycleID = 1,
             id_IssueGeneration = 0, id_AttemptGeneration = 0, id_EffectID = [], id_RequestDigest = [],
             id_ReviewRunID = [], id_ReviewerProfileDigest = []\<rparr>,
           cl_Scope = \<lparr>sk_Kind = reconciliationRepositoryScope, sk_Repository = ''o/r'', sk_Issue = 0\<rparr>, cl_Complete = True, cl_IssueGenerations = fmempty,
           cl_AttemptGenerations = fmempty, cl_Issues = []\<rparr>"
  by (simp add: empty_collection_def collection_of_def
    empty_batch_def Let_def normalizeReconciliationCollection_def 
    captureReconciliationGenerations_def captured_issue_keys_def captured_attempt_keys_def owned_in_scope_def observed_in_scope_def quiet_fields sample_cycle_order
    capture_def reconciliationRepositoryScope_def reconciliationIssueScope_def small_defs)

lemma quiet_apply: "applyStateOwnerCommand sample_env fmempty small_next (ApplyReconciliation \<lparr>ap_Collection = empty_collection, ap_OperatorRequestID = []\<rparr>)
   = Inr (small_next, None)"
proof -
  have "applyReconciliation sample_env small_next empty_collection fmempty = Inr small_next"
    by (simp add: applyReconciliation_def empty_collection_fields Let_def normalizeReconciliationCollection_def validateReconciliationCollection_def
      validReconciliationScope_def validateGenerationSnapshot_def unlisted_keys_def quiet_fields sample_cycle_order 
      reconciliationRepositoryScope_def reconciliationIssueScope_def revokeInvalidPlanReviewers_def,
      simp add: sample_env_def small_defs)
  then show ?thesis
    by (simp add: applyStateOwnerCommand_def apply_observed_def Let_def reconcileOperatorAdmissions_def quiet_fields)
qed

lemma served_sample: "served sample_cx f = cy_core f"
  by (simp add: served_def sample_cx_def cy_core_def fun_eq_iff)

lemma snapshot_sample: "owner_snapshot sample_cx w = Some (Inr (cw_Ledger (cw_Core w)), w)"
  by (simp add: owner_snapshot_def served_sample cy_core_def cy_of_def cy_ok_def)

definition quiet_world :: "unit cycle_world" where
  "quiet_world = \<lparr>cw_Core = sample_core small_next (), cw_Events = []\<rparr>"

lemma quiet_applied: "record_applied sample_env fmempty (Command (ApplyReconciliation \<lparr>ap_Collection = empty_collection, ap_OperatorRequestID = []\<rparr>)) small_next False = fmempty"
  by (simp add: record_applied_def recordAppliedReconciliationCycles_def empty_collection_fields unlisted_keys_def quiet_fields
    sample_cycle_order Let_def reconciliationRepositoryScope_def reconciliationIssueScope_def)

lemma collected_sample: "collected sample_cx small_next 1 quiet_world = Some (Inr (empty_batch, small_next), quiet_world)"
  by (simp add: collected_def cy_bind_def cy_core_def cy_of_def cy_ok_def sample_cx_def quiet_collection submit_command_def served_def
    submit_core_def quiet_world_def sample_core_def quiet_apply admitDependencyStatuses_def quiet_fields sample_cycle_order quiet_applied)

lemma quiet_ledger: "cw_Ledger (cw_Core quiet_world) = small_next" "cw_Outside (cw_Core quiet_world) = ()"
  by (simp_all add: quiet_world_def sample_core_def)

lemmas quiet_calls = cy_bind_def cy_ok_def cy_fail_def cy_of_def cy_core_def settle_def snapshot_sample quiet_ledger

lemma quiet_pending: "invalidated_effects small_next = []" "invalid_plan_reviews small_next = []" "pending_reconciliations small_next = []"
  by (simp_all add: invalidated_effects_def invalid_plan_reviews_def pending_reconciliations_def quiet_fields map_filter_simps)

lemma sample_parts: "cx_Env sample_cx = sample_env" "cx_Planner sample_cx = sample_planner" "cx_Adapter sample_cx = sample_adapter"
  "cx_Config sample_cx = \<lparr>cy_Repository = ''o/r'', cy_Concurrency = 1, cy_Implementation = [''w'']\<rparr>" "cx_Operator sample_cx"
  "cx_Now sample_cx u = 1" "cx_VerifyWorker sample_cx u = None" "cx_OutcomeFiles sample_cx u = Inr []"
  "cx_Seed sample_cx b h c = (Inr ''/s'', c)" "cx_ResumeRuntime sample_cx batch source c = (Inr (), c)"
  by (simp_all add: sample_cx_def)

lemma quiet_resume: "resume_phases sample_cx empty_batch small_next quiet_world = Some (Inr (), quiet_world)"
  by (simp add: resume_phases_def quiet_calls resolveInvalidatedGitHubEffect_def quiet_pending resumePendingReconciliation_def
    supersedeInvalidPendingPlanReviewers_def runMachineStatusPhase_def runIssueUpdatePhase_def issue_update_plans_def sample_parts
    quiet_plans Let_def)

lemma quiet_runtime_phase: "runRuntimePhase sample_cx empty_batch source action quiet_world = Some (Inr (), quiet_world)"
  unfolding runRuntimePhase_def
  by (rule cy_loop_stop) (simp add: quiet_calls sample_parts quiet_lifecycle)

lemma quiet_runtime: "runtime_phases sample_cx empty_batch quiet_world = Some (Inr (), quiet_world)"
  by (simp add: runtime_phases_def quiet_calls sample_parts quiet_runtime_phase runBindPhase_def quiet_plans split: list.split)

lemma quiet_host: "runReviewerPhase sample_cx [] quiet_world = Some (Inr (), quiet_world)"
  "runHandoffOutcomePhase sample_cx quiet_world = Some (Inr (), quiet_world)"
  "runHandoffPhase sample_cx quiet_world = Some (Inr (), quiet_world)"
  "runRetirementPhase sample_cx quiet_world = Some (Inr (), quiet_world)"
  unfolding runReviewerPhase_def runHandoffOutcomePhase_def runHandoffPhase_def runRetirementPhase_def outcome_files_def
  by (rule cy_loop_stop; simp add: quiet_calls sample_parts quiet_plans)+

lemma quiet_outcome: "outcome_phases sample_cx empty_batch [] quiet_world = Some (Inr (), quiet_world)"
  by (simp add: outcome_phases_def quiet_host quiet_calls runPublicationPhase_def runIssueUpdatePhase_def issue_update_plans_def
    runGovernancePhase_def sample_parts quiet_plans Let_def)

lemma quiet_review: "review_phases sample_cx empty_batch quiet_world = Some (Inr (), quiet_world)"
  by (simp add: review_phases_def quiet_host quiet_outcome quiet_calls executionCandidates_def quiet_fields map_filter_simps)

lemma quiet_cycle: "cycleFromSnapshot sample_cx small_next 1 quiet_world = Some (Inr (), quiet_world)"
  unfolding cycleFromSnapshot_def
  by (simp add: cy_bind_def collected_sample quiet_resume quiet_runtime quiet_review)

section \<open>A cycle that resumes an effect\<close>

text \<open>After the first call of the owner another goroutine has put a pending bind into the ledger.\<close>

definition resumed_effect :: runtimeEffectIntent where
  "resumed_effect = empty_effect\<lparr>e_ID := ''e'', e_Action := reconciliationGitHubBind, e_State := ''pending'',
     e_Reconciliation := Some (empty_request\<lparr>rq_Action := reconciliationGitHubBind,
       rq_ExecutionDigest := githubBindExecutionDigest sample_env empty_request sample_adapter\<rparr>)\<rparr>"

definition busy_ledger :: runtimeOwnerState where
  "busy_ledger = small_next\<lparr>s_Revision := 7, s_Effects := fmupd ''e'' resumed_effect fmempty\<rparr>"

definition busy_cx :: "bool cycle_env" where
  "busy_cx = sample_cx\<lparr>cx_Between := (\<lambda>c. if cw_Outside c then c\<lparr>cw_Ledger := busy_ledger\<rparr> else c\<lparr>cw_Outside := True\<rparr>)\<rparr>"

definition busy_world :: "runtimeOwnerState \<Rightarrow> bool \<Rightarrow> cycle_event list \<Rightarrow> bool cycle_world" where
  "busy_world s x es = \<lparr>cw_Core = sample_core s x, cw_Events = es\<rparr>"

lemma busy_collected: "collected busy_cx small_next 1 (busy_world small_next False []) = Some (Inr (empty_batch, small_next), busy_world small_next True [])"
  by (simp add: collected_def cy_bind_def cy_core_def cy_of_def cy_ok_def busy_cx_def sample_cx_def quiet_collection submit_command_def served_def
    submit_core_def busy_world_def sample_core_def quiet_apply admitDependencyStatuses_def quiet_fields sample_cycle_order quiet_applied)

lemma busy_snapshot: "owner_snapshot busy_cx (busy_world s True es) = Some (Inr busy_ledger, busy_world busy_ledger True es)"
  by (simp add: owner_snapshot_def served_def cy_core_def cy_of_def cy_ok_def busy_cx_def sample_cx_def busy_world_def sample_core_def)

lemma busy_pending: "invalidated_effects busy_ledger = []"
  "pending_reconciliations busy_ledger = [(resumed_effect, the (e_Reconciliation resumed_effect))]"
  by (simp_all add: invalidated_effects_def pending_reconciliations_def busy_ledger_def quiet_fields map_filter_simps resumed_effect_def
    empty_effect_def operator_effects_def fm_entries_def sorted_list_of_fset.rep_eq)

lemma busy_same: "githubBindExecutionDigest sample_env q cfg = githubBindExecutionDigest sample_env q' cfg'"
  by (simp add: githubBindExecutionDigest_def request_digest_def sample_env_def)

lemma resumed_parts: "e_ID resumed_effect = ''e''" "e_Reconciliation resumed_effect = Some (the (e_Reconciliation resumed_effect))"
  "rq_Action (the (e_Reconciliation resumed_effect)) = reconciliationGitHubBind"
  "githubBindExecutionDigest sample_env (the (e_Reconciliation resumed_effect)) sample_adapter =
     rq_ExecutionDigest (the (e_Reconciliation resumed_effect))"
  using busy_same[of "the (e_Reconciliation resumed_effect)" sample_adapter empty_request sample_adapter]
  by (simp_all add: resumed_effect_def empty_effect_def)

lemma busy_replayed: "resumeUnmarkedReconciliation busy_cx batch s resumed_effect (the (e_Reconciliation resumed_effect))
    (busy_world busy_ledger True es) = Some (Inr True, busy_world busy_ledger True (es @ [Executed ''e'' True]))"
proof -
  have "reconciliationGitHubBind \<noteq> reconciliationReviewer" by (simp add: request_actions)
  then show ?thesis
    using resumed_parts
    by (simp add: resumeUnmarkedReconciliation_def Let_def replay_def busy_cx_def sample_parts cy_bind_def run_execution_def
      succeeded_def pending_plan_def ownerReconciliationEffectIdentity_def cy_check_def cy_ok_def,
      simp add: sample_cx_def busy_world_def cy_ok_def)
qed

lemma busy_marked: "resume_one busy_cx batch s resumed_effect (the (e_Reconciliation resumed_effect))
    (busy_world busy_ledger True es) = Some (Inr True, busy_world busy_ledger True (es @ [Executed ''e'' True]))"
proof -
  have "implementation_review (the (e_Reconciliation resumed_effect)) = None"
    using resumed_parts by (simp add: implementation_review_def request_actions)
  moreover have "cx_VerifyMarker busy_cx e c = (Inr False, c)" for e c by (simp add: busy_cx_def sample_cx_def)
  moreover have "(busy_world busy_ledger True es)\<lparr>cw_Core := cw_Core (busy_world busy_ledger True es)\<rparr> = busy_world busy_ledger True es" by simp
  ultimately show ?thesis
    by (simp add: resume_one_def resume_marked_def cy_try_def cy_core_def cy_of_def cy_ok_def busy_replayed)
qed

lemma busy_resumed: "resumePendingReconciliation busy_cx empty_batch (busy_world s True []) =
    Some (Inr True, busy_world busy_ledger True [Pending ''e'', Executed ''e'' True])"
proof -
  have "cy_event (Pending ''e'') (busy_world busy_ledger True []) = Some (Inr (), busy_world busy_ledger True [Pending ''e''])"
    by (simp add: cy_event_def busy_world_def)
  then show ?thesis
    by (simp add: resumePendingReconciliation_def cy_bind_def busy_snapshot busy_pending busy_marked cy_ok_def resumed_parts(1))
qed

lemma busy_cycle: "cycleFromSnapshot busy_cx small_next 1 (busy_world small_next False []) =
    Some (Inl Recollect, busy_world busy_ledger True [Pending ''e'', Executed ''e'' True])"
proof -
  have "resume_phases busy_cx empty_batch small_next (busy_world small_next True []) =
      Some (Inl Recollect, busy_world busy_ledger True [Pending ''e'', Executed ''e'' True])"
    by (simp add: resume_phases_def cy_bind_def settle_def resolveInvalidatedGitHubEffect_def busy_snapshot busy_pending cy_ok_def
      supersedeInvalidPendingPlanReviewers_def quiet_pending busy_resumed cy_fail_def)
  then show ?thesis
    by (simp add: cycleFromSnapshot_def cy_bind_def busy_collected)
qed

section \<open>What a cycle does\<close>

lemma appended: "cw_Events w' = cw_Events w @ es \<Longrightarrow> drop (length (cw_Events w)) (cw_Events w') = es"
  by simp

lemma law_of_cycle:
  assumes "follows law isl (cycleFromSnapshot cx s i)" "cycleFromSnapshot cx s i w = Some (r, w')"
  shows "law (drop (length (cw_Events w)) (cw_Events w')) (\<not> isl r)"
  using assms unfolding follows_def with_events_def by (metis appended)

text \<open>
  C18: A cycle stops at the first change of GitHub.  In every environment, when an execution of a cycle has
  changed GitHub (as its phase tells it: by the metrics of a bind or of governance, by the success of the
  others), it is the last thing the cycle begins, finds pending or executes, and the cycle ends with an
  error (the request to collect again among them): no later phase acts on the observations that the change
  has made old.  An execution that failed counts as no change, as in the source, even if it wrote to GitHub
  before it failed.  What the resolution of invalidated effects and the resumption of runtime effects write
  is part of the parameters \<open>cx_Resolve\<close> and \<open>cx_ResumeRuntime\<close> and not of the history.
\<close>

theorem cycle_stops_on_change:
  assumes "cycleFromSnapshot cx s i w = Some (r, w')"
    "drop (length (cw_Events w)) (cw_Events w') = before @ e # after" "github_changed e"
  shows "after = [] \<and> isl r"
proof -
  have "stops_on_change (before @ e # after) (\<not> isl r)"
    using law_of_cycle[OF fresh.follows_cycle assms(1)] assms(2) by simp
  then show ?thesis
    using assms(3) by (auto simp: stops_on_change_def butlast_append split: if_splits)
qed

theorem cycle_stops_on_change_witness:
  "\<exists>r w'. cycleFromSnapshot busy_cx small_next 1 (busy_world small_next False []) = Some (r, w') \<and>
     cw_Events w' = [Pending ''e'', Executed ''e'' True] \<and> isl r"
  using cycle_stops_on_change[OF busy_cycle, of "[Pending ''e'']" "Executed ''e'' True" "[]"] busy_cycle
  by (simp add: busy_world_def github_changed_def)

text \<open>
  C19: No cycle executes what the owner had not accepted.  Whatever the collected facts, the planners, the
  executions and the commands of other goroutines are, every execution of a cycle comes after the owner
  has accepted the effect's begin in the same cycle, or after a snapshot of the ledger had the effect
  pending.  This is about the executions that the cycle itself makes: those of resumed runtime effects and
  of the resolution of invalidated effects belong to the parameters \<open>cx_ResumeRuntime\<close> and \<open>cx_Resolve\<close>.
\<close>

theorem cycle_write_ahead:
  assumes "cycleFromSnapshot cx s i w = Some (r, w')"
    "drop (length (cw_Events w)) (cw_Events w') = before @ Executed e t # after"
  shows "Begun e \<in> set before \<or> Pending e \<in> set before"
  using law_of_cycle[OF intent.follows_cycle assms(1)] assms(2) by (simp add: authorised_def)

theorem cycle_write_ahead_witness:
  "\<exists>r w'. cycleFromSnapshot busy_cx small_next 1 (busy_world small_next False []) = Some (r, w') \<and>
     cw_Events w' = [Pending ''e''] @ Executed ''e'' True # [] \<and>
     (Begun ''e'' \<in> set [Pending ''e''] \<or> Pending ''e'' \<in> set [Pending ''e''])"
  using cycle_write_ahead[OF busy_cycle, of "[Pending ''e'']" "''e''" True "[]"] busy_cycle
  by (simp add: busy_world_def)

section \<open>Cycles without an error\<close>

lemma cy_loop_last:
  assumes "cy_loop body w = Some (Inr x, w')"
  shows "\<exists>w0. body w0 = Some (Inr (Some x), w')"
proof -
  have "\<exists>w0. body w0 = Some (Inr (Some (projr (fst s))), snd s)" if "cy_loop b w = Some s" "b = body" "\<not> isl (fst s)" for b w s
    using that
  proof (induction rule: cy_loop.raw_induct[rotated, consumes 1, case_names step])
    case (step loop b w s)
    then obtain r1 w1 where m: "body w = Some (r1, w1)" by (auto simp: Option.bind_eq_Some_conv)
    show ?case
    proof (cases "r1 = Inr None")
      case True
      then have "loop b w1 = Some s" using step.hyps step.prems m by simp
      from step.IH[OF this step.prems] show ?thesis .
    next
      case False
      then show ?thesis using step.hyps step.prems m by (auto split: sum.splits option.splits)
    qed
  qed
  from this[OF assms] show ?thesis by simp
qed

lemma cy_bind_result: "cy_bind m f w = Some (Inr y, w') \<longleftrightarrow> (\<exists>x w1. m w = Some (Inr x, w1) \<and> f x w1 = Some (Inr y, w'))"
  by (cases "m w") (auto simp: cy_bind_def split: prod.splits sum.splits)

lemma snapshot_result: "owner_snapshot cx w = Some (Inr s, w') \<Longrightarrow> cw_Ledger (cw_Core w') = s"
  by (auto simp: owner_snapshot_def served_def cy_core_def cy_of_def cy_ok_def cy_fail_def Let_def split: option.splits sum.splits)

lemma begin_never_stops: "begin_and_execute cx ch p m (\<lambda>_ x. cy_check (xe_Error x) None) w \<noteq> Some (Inr (Some y), w')"
  by (auto simp: begin_and_execute_def cy_bind_result cy_check_def cy_ok_def cy_fail_def split: option.splits)

lemma retirement_phase_end:
  assumes "runRetirementPhase cx w = Some (Inr (), w')"
  shows "planReconciliationRetirements (cx_Env cx) (cw_Ledger (cw_Core w')) = []"
proof -
  from cy_loop_last[OF assms[unfolded runRetirementPhase_def]] obtain w0 s w1 where
    s: "owner_snapshot cx w0 = Some (Inr s, w1)" and
    rest: "(case planReconciliationRetirements (cx_Env cx) s of [] \<Rightarrow> cy_ok (Some ())
       | p # _ \<Rightarrow> begin_and_execute cx unchanged p (\<lambda>_. NoMaterial) (\<lambda>_ x. cy_check (xe_Error x) None)) w1 = Some (Inr (Some ()), w')"
    by (auto simp: cy_bind_result)
  from rest show ?thesis
    using snapshot_result[OF s] by (cases "planReconciliationRetirements (cx_Env cx) s") (auto simp: cy_ok_def begin_never_stops)
qed

text \<open>
  What holds when a cycle ends without an error.  Then it has changed nothing on GitHub, and the
  ledger it leaves has no retirement that could be planned: every attempt that is ready to be retired,
  the ones made ready while the cycle ran among them, has been.
\<close>

theorem quiet_end:
  assumes "cycleFromSnapshot cx s i w = Some (Inr (), w')"
  shows "(\<forall>e \<in> set (drop (length (cw_Events w)) (cw_Events w')). \<not> github_changed e) \<and>
    planReconciliationRetirements (cx_Env cx) (cw_Ledger (cw_Core w')) = []"
proof
  show "\<forall>e \<in> set (drop (length (cw_Events w)) (cw_Events w')). \<not> github_changed e"
    using law_of_cycle[OF fresh.follows_cycle assms] by (simp add: stops_on_change_def)
  show "planReconciliationRetirements (cx_Env cx) (cw_Ledger (cw_Core w')) = []"
    using assms
    by (auto simp: cycleFromSnapshot_def review_phases_def outcome_phases_def cy_bind_result intro: retirement_phase_end)
qed

theorem quiet_end_witness:
  "cycleFromSnapshot sample_cx small_next 1 quiet_world = Some (Inr (), quiet_world) \<and>
   planReconciliationRetirements (cx_Env (sample_cx :: unit cycle_env)) (cw_Ledger (cw_Core quiet_world)) = []"
  using quiet_end[OF quiet_cycle] quiet_cycle by simp

section \<open>The plan that ends every cycle\<close>

lemma begin_stale:
  assumes "\<And>now. applyBeginReconciliationEffect (cx_Env cx) now \<lparr>bc_Identity = pl_Identity p, bc_ReviewerSourceRevision = 0,
      bc_Request = pl_Request p\<rparr> = Inl StaleStateResult"
    and "cx_Unavailable cx (cx_Between cx (cw_Core w)) = None"
  shows "begin_and_execute cx ch p material k w = Some (Inl (CycleFailed StaleStateResult), w\<lparr>cw_Core := cx_Between cx (cw_Core w)\<rparr>)"
proof -
  have "submit_command cx (BeginReconciliationEffect \<lparr>bc_Identity = pl_Identity p, bc_ReviewerSourceRevision = 0,
      bc_Request = pl_Request p\<rparr>) w = Some (Inl (CycleFailed StaleStateResult), w\<lparr>cw_Core := cx_Between cx (cw_Core w)\<rparr>)"
    using assms
    by (simp add: submit_command_def served_def cy_core_def submit_core_def applyStateOwnerCommand_def begun_def cy_of_def cy_fail_def Let_def)
  then show ?thesis
    by (simp add: begin_and_execute_def beginReconciliation_def cy_bind_def)
qed

text \<open>
  C38: The recorded outcome of a handoff ends every cycle.  When the ledger that the outcome phase reads
  and the outcome files plan one (of an attempt whose manifest is of version 2, the only one that is
  created), and the owner answers, nothing is begun or executed, the phases after it (handoffs,
  publications, issue updates, governance and retirements) are not reached, and the cycle ends as one
  that collects again, where the same plan is found again.
\<close>

theorem outcome_starves:
  fixes cx :: "'w cycle_env" and w :: "'w cycle_world"
  defines "c1 \<equiv> cx_Between cx (cw_Core w)"
  assumes "cx_Unavailable cx c1 = None" "cx_Unavailable cx (cx_Between cx c1) = None"
    "cx_OutcomeFiles cx (cw_Outside c1) = Inr files"
    "collectHandoffOutcomePlans (cx_Env cx) (cw_Ledger c1) files = Inr (p # ps, paths)"
    "rq_Manifest (pl_Request p) = Some m" "m_Version m = ManifestVersion2"
  shows "map_option (\<lambda>(r, w'). (reconciliationCycleDisposition (failed_with r) None, w')) (outcome_phases cx batch publications w) =
    Some (Some Recollect, w\<lparr>cw_Core := cx_Between cx c1\<rparr>)"
proof -
  let ?body = "\<lambda>w. cy_bind (owner_snapshot cx) (\<lambda>s. cy_bind (outcome_files cx) (\<lambda>files.
     cy_bind (cy_of (collectHandoffOutcomePlans (cx_Env cx) s files)) (\<lambda>(plans, paths).
       case plans of
         [] \<Rightarrow> cy_ok (Some ())
       | p # _ \<Rightarrow> begin_and_execute cx unchanged p (\<lambda>q. material_for OutcomePath paths (handoff_key_of q))
           (\<lambda>_ x. cy_check (xe_Error x) None)))) w"
  have "applyBeginReconciliationEffect (cx_Env cx) now \<lparr>bc_Identity = pl_Identity p, bc_ReviewerSourceRevision = 0,
      bc_Request = pl_Request p\<rparr> = Inl StaleStateResult" for now
    using outcome_stale[OF assms(5) _ assms(6,7)] by simp
  then have "?body w = Some (Inl (CycleFailed StaleStateResult), w\<lparr>cw_Core := cx_Between cx c1\<rparr>)"
    using assms(2-5)
    by (simp add: cy_bind_def owner_snapshot_def served_def cy_core_def cy_of_def cy_ok_def outcome_files_def begin_stale c1_def Let_def)
  then have "runHandoffOutcomePhase cx w = Some (Inl (CycleFailed StaleStateResult), w\<lparr>cw_Core := cx_Between cx c1\<rparr>)"
    unfolding runHandoffOutcomePhase_def by (subst cy_loop.simps) simp
  then show ?thesis
    by (simp add: outcome_phases_def cy_bind_def failed_with_def reconciliationCycleDisposition_def)
qed

definition starved_cx :: "unit cycle_env" where
  "starved_cx = sample_cx\<lparr>cx_OutcomeFiles := (\<lambda>_. Inr [outcome_file])\<rparr>"

definition starved_world :: "unit cycle_world" where
  "starved_world = \<lparr>cw_Core = sample_core outcome_ledger (), cw_Events = []\<rparr>"

theorem outcome_starves_witness:
  "map_option (\<lambda>(r, w'). (reconciliationCycleDisposition (failed_with r) None, w')) (outcome_phases starved_cx empty_batch [] starved_world) =
    Some (Some Recollect, starved_world)"
proof -
  obtain p m paths where p: "collectHandoffOutcomePlans sample_env outcome_ledger [outcome_file] = Inr ([p], paths)"
    "rq_Manifest (pl_Request p) = Some m" "m_Version m = 2"
    using sample_outcome_plan by (auto split: sum.splits simp: map_eq_Cons_conv)
  have c: "cx_Between starved_cx = (\<lambda>c. c)" "cx_Unavailable starved_cx c = None" "cx_OutcomeFiles starved_cx x = Inr [outcome_file]"
    "cx_Env starved_cx = sample_env" "cw_Ledger (cw_Core starved_world) = outcome_ledger" for c x
    by (simp_all add: starved_cx_def sample_cx_def starved_world_def sample_core_def)
  show ?thesis
    using outcome_starves[of starved_cx starved_world "[outcome_file]" p "[]" paths m empty_batch "[]"] p
    by (simp add: c ManifestVersion2_def)
qed

section \<open>The error that is not recorded\<close>

lemma long_outcome_refused:
  "maxReconciliationStringBytes < length text \<Longrightarrow> applyCycleOutcome s \<lparr>co_Identity = i, co_Diagnostic = text, co_At = t\<rparr> = Inl StateConflict"
  by (simp add: applyCycleOutcome_def boundedText_def Let_def)

text \<open>
  C39: A long error is not recorded.  When a cycle fails (and not with a stale result) with an error whose
  text is longer than 4096 bytes, the owner refuses the outcome: the ledger keeps the outcome of an earlier
  cycle, and the error that the cycle returns is the refusal, not what failed.
\<close>

theorem long_error_unrecorded:
  assumes "reconciliationSnapshot cx w = Some (Inr (s, i), w1)"
    "cycleFromSnapshot cx s i w1 = Some (Inl (CycleFailed x), w2)" "x \<noteq> StaleStateResult"
    "maxReconciliationStringBytes < length (cx_Text cx x)" "cx_Unavailable cx (cx_Between cx (cw_Core w2)) = None"
  shows "runCycle cx w = Some (Inl (CycleFailed StateConflict), w2\<lparr>cw_Core := cx_Between cx (cw_Core w2)\<rparr>)"
proof -
  let ?d = "reconciliationCycleDisposition (Some (CycleFailed x)) None"
  have d: "?d = Some (CycleFailed x)" using assms(3) by (simp add: reconciliationCycleDisposition_def)
  have "submit_command cx (outcome_command cx s i (Some (CycleFailed x)) t) w2 =
      Some (Inl (CycleFailed StateConflict), w2\<lparr>cw_Core := cx_Between cx (cw_Core w2)\<rparr>)" for t
    using long_outcome_refused[OF assms(4)] assms(5)
    by (simp add: submit_command_def served_def cy_core_def submit_core_def applyStateOwnerCommand_def outcome_command_def
        cy_of_def cy_fail_def Let_def)
  then show ?thesis
    using assms(1-3) d
    by (simp add: runCycle_def cy_bind_def cy_try_def failed_with_def cache_saved_def cy_ok_def cy_core_def cy_of_def
        reconciliationCycleDisposition_def cy_disposed_def cy_fail_def)
qed

definition long_error :: owner_error where
  "long_error = OtherError (replicate 4097 CHR ''x'')"

definition failing_cx :: "unit cycle_env" where
  "failing_cx = sample_cx\<lparr>cx_Collect := (\<lambda>_ c. (Inl long_error, c)),
     cx_Text := (\<lambda>e. case e of OtherError t \<Rightarrow> t | _ \<Rightarrow> ''stale'')\<rparr>"

definition failed_world :: "unit cycle_world" where
  "failed_world = quiet_world\<lparr>cw_Core := (sample_core small_next ())\<lparr>cw_CycleID := 2\<rparr>\<rparr>"

theorem long_error_unrecorded_witness:
  "runCycle failing_cx quiet_world = Some (Inl (CycleFailed StateConflict), failed_world)"
proof -
  have s: "reconciliationSnapshot failing_cx quiet_world = Some (Inr (small_next, 2), failed_world)"
    by (simp add: reconciliationSnapshot_def served_def cy_core_def cy_of_def cy_ok_def failing_cx_def sample_cx_def
        quiet_world_def failed_world_def sample_core_def Let_def)
  have f: "cycleFromSnapshot failing_cx small_next 2 failed_world = Some (Inl (CycleFailed long_error), failed_world)"
    by (simp add: cycleFromSnapshot_def collected_def cy_bind_def cy_core_def failing_cx_def cy_of_def cy_fail_def)
  show ?thesis
    using long_error_unrecorded[OF s f]
    by (simp add: long_error_def failing_cx_def sample_cx_def maxReconciliationStringBytes_def)
qed

end
