(* ===== verification/Spec2Isabelle.thy ===== *)
theory Spec2Isabelle
  imports Scheduler Owner_Effect_Properties Owner_Receipt_Properties Identity_Properties Pull_Publication
    Pull_Coordinator_Properties Attempt_Recovery_Properties Owner_Loop_Properties Reconciliation_Trigger Lifecycle_Properties
    Effect_Coordinator_Properties Cycle_Properties
begin

text \<open>
  Verification library of agent-symphony.

  agent-symphony is an orchestrator: it reads issues from GitHub, decides which may be worked on,
  starts a coding agent per attempt in its own worktree and terminal, follows it, has it reviewed, and
  publishes the result.  Its core logic is modelled here from the Go source.

  \<^item> The scheduler (\<^verbatim>\<open>internal/orchestrator/scheduler.go\<close>) is a pure function of a backlog and a
    capacity.  \<^verbatim>\<open>Backlog\<close> has its data and the normalisation of snapshots, \<^verbatim>\<open>Dependency_Cycles\<close> the
    depth-first search for dependency cycles, \<^verbatim>\<open>Scheduler\<close> the decisions.
  \<^item> The runtime owner (\<^verbatim>\<open>cmd/agent-symphony/state_owner.go\<close> and the files that define its
    transitions) is one goroutine that owns a ledger of issue and attempt generations, attempt
    records, tombstones, effect intents, reviewer proofs, machine statuses and operator receipts.
    Every command is applied to a copy, validated and persisted before it is published.
  \<^item> The pull request side (\<^verbatim>\<open>internal/github\<close>) decides what the policy check says and when a pull
    request is merged (\<^verbatim>\<open>Pull_Policy\<close>), runs a round over one pull request against GitHub
    (\<^verbatim>\<open>Pull_Coordinator\<close>), and keeps the recovery state of the feedback and publications that were
    handed to an agent (\<^verbatim>\<open>Pull_Recovery\<close>, and \<^verbatim>\<open>Pull_Recovery_File\<close> for the file of all states).
  \<^item> The recovery of attempts (\<^verbatim>\<open>internal/orchestrator/recovery.go\<close>) joins facts from GitHub with local
    manifests into one status per attempt (\<^verbatim>\<open>Attempt_Recovery\<close>).

  Theories.
  \<^item> \<^verbatim>\<open>Go_Prelude\<close>, \<^verbatim>\<open>Go_Maps\<close>, \<^verbatim>\<open>Go_Text\<close>: what the source uses of Go: strings as byte lists, decimal
    numbers, sorting by a comparison function (a locale, interpreted on \<^verbatim>\<open>compareIssues\<close>), maps as
    finite maps with an explicit iteration order wherever a loop's result depends on it, paths,
    errors as values of a sum.
  \<^item> \<^verbatim>\<open>Owner_Types\<close>: the structs of the ledger and of its commands, field by field.
  \<^item> \<^verbatim>\<open>Runtime_Identity\<close>: the deterministic resource names of an attempt and the validation of
    manifests and terminal bindings (\<^verbatim>\<open>internal/runtime\<close>, \<^verbatim>\<open>internal/github\<close>).
  \<^item> \<^verbatim>\<open>Github_Text\<close>: snapshot comments, provenance markers, pull request bodies and their digests.
  \<^item> \<^verbatim>\<open>Owner_State\<close>, \<^verbatim>\<open>Owner_Reviewers\<close>, \<^verbatim>\<open>Owner_Status\<close>: keys, read-only predicates, reviewer proofs,
    pruning of effects, machine statuses.
  \<^item> \<^verbatim>\<open>Owner_Attempts\<close>, \<^verbatim>\<open>Owner_Runtime_Effects\<close>, \<^verbatim>\<open>Owner_Finish\<close>, \<^verbatim>\<open>Owner_Receipts\<close>,
    \<^verbatim>\<open>Owner_Reviewer_Steps\<close>: one definition per transition function, split at its guards.
  \<^item> \<^verbatim>\<open>Reconciliation_Requests\<close>, \<^verbatim>\<open>Reconciliation_Facts\<close>: the validators of reconciliation effects,
    their results, and of the facts, proposals and observations of a reconciliation cycle.
    \<^verbatim>\<open>Reconciliation_Effects\<close> has the life of such an effect (begin, authorise, mark, finish, diagnose and
    what each finish changes), \<^verbatim>\<open>Reconciliation_Apply\<close> the application of a cycle's observations,
    \<^verbatim>\<open>Reconciliation_Trigger\<close> the loop that runs the cycles and answers those who wait for one.
  \<^item> \<^verbatim>\<open>Status_Projection\<close>, \<^verbatim>\<open>Operator_Mutations\<close>, \<^verbatim>\<open>Operator_Begin\<close>: the statuses an operator acts on,
    the admission of operator requests and the mutations they begin, one per action.
  \<^item> \<^verbatim>\<open>Reconciliation_Collect\<close>, \<^verbatim>\<open>Reconciliation_Plan\<close>: what a cycle asks GitHub about, made from a snapshot
    of the ledger, and the batch of facts with its bounds and digests.  \<^verbatim>\<open>Reconciliation_Planners\<close>,
    \<^verbatim>\<open>Attempt_Planners\<close>, \<^verbatim>\<open>Update_Planners\<close> are the planners of \<^verbatim>\<open>reconciliation_pipeline_v2.go\<close> and
    \<^verbatim>\<open>handoff_outcomes_v2.go\<close>: pure functions of the ledger that name the effects to begin next.
    \<^verbatim>\<open>Lifecycle_Plan\<close> is the planner of \<^verbatim>\<open>production_cycle_v2.go\<close> that prepares, starts and monitors attempts.
    \<^verbatim>\<open>Cycle_Phases\<close> is the cycle that uses them: \<^verbatim>\<open>runCycle\<close> and \<^verbatim>\<open>cycleFromSnapshot\<close> with their phases,
    in a monad of the ledger, the world and a history of begun, pending and executed effects.
  \<^item> \<^verbatim>\<open>Effect_Coordinator\<close>: the table of running effects (\<^verbatim>\<open>runtime_effects.go\<close>): one run per key, waiting
    and releasing (the critical section and the cancellation after it are two steps), cancellation by a sweep over a committed ledger, shutdown, as a step relation.
  \<^item> \<^verbatim>\<open>Owner_Ledger\<close>, \<^verbatim>\<open>Owner_Transition\<close>: the validator, the commit and the dispatch on commands, with
    \<^verbatim>\<open>owner_step\<close> and \<^verbatim>\<open>owner_run\<close>.  \<^verbatim>\<open>Owner_Start\<close> has the command that starts an epoch, with its
    migrations, and the check of a ledger that was loaded from disk.
  \<^item> \<^verbatim>\<open>Owner_Loop\<close>: the goroutine (\<^verbatim>\<open>stateOwner.run\<close>): its queue, the arbitration between a submitter that
    cancels and the owner that claims, the persistence worker, subscribers, stop and poisoning, as a
    step relation whose steps are turns of the loop.  The ledger on disk and the one in memory are two
    fields: \<^verbatim>\<open>loop_init\<close> takes the loaded ledger and the migrated one,
    \<^verbatim>\<open>startStateOwnerWithBootIdentity\<close> starts the first epoch and gives the owner or its error.
  \<^item> \<^verbatim>\<open>Owner_Safety\<close>, \<^verbatim>\<open>Owner_Effect_Safety\<close>, \<^verbatim>\<open>Owner_Operator_Safety\<close>, \<^verbatim>\<open>Owner_Monitors\<close>, \<^verbatim>\<open>Owner_Runs\<close>: what no
    command and no run ever undoes, and that the validator holds on throughout.
  \<^item> \<^verbatim>\<open>Owner_Loop_Properties\<close>: the loop refines a sequential server; every command is answered once, the
    ledger in use is the one on disk, a recorded cancellation is final, every ledger that leaves a started
    owner was validated, readers are never shown an older ledger than before.  \<^verbatim>\<open>Owner_Start_Properties\<close>:
    what a start carries over, and that only a reboot lifts a quarantine.
  \<^item> \<^verbatim>\<open>Owner_Attempt_Properties\<close>, \<^verbatim>\<open>Owner_Effect_Properties\<close>, \<^verbatim>\<open>Owner_Receipt_Properties\<close>,
    \<^verbatim>\<open>Identity_Properties\<close>: what single transitions promise, with small ledgers on which they run.
  \<^item> \<^verbatim>\<open>Planner_Properties\<close>, \<^verbatim>\<open>Lifecycle_Properties\<close>: planners and owner composed: which plans the owner
    accepts and which it always refuses; that lifecycle plans fit the ledger and the capacity.
  \<^item> \<^verbatim>\<open>Effect_Coordinator_Properties\<close>: effects of one key exclude each other, waiters wake, a shutdown ends
    everything, what a sweep cancels.  \<^verbatim>\<open>Cycle_Laws\<close>, \<^verbatim>\<open>Cycle_Properties\<close>: laws of a cycle's history in
    every environment (a locale with two interpretations), the plan that ends every cycle, the error
    that is not recorded.
  \<^item> \<^verbatim>\<open>Pull_Properties\<close>, \<^verbatim>\<open>Pull_Recovery_Properties\<close>, \<^verbatim>\<open>Pull_Publication\<close>: the policy, the recovery state over
    any sequence of its operations, prepared publications.  \<^verbatim>\<open>Pull_Coordinator_Properties\<close>: what a round
    does in every world, by a locale of properties of event histories.  \<^verbatim>\<open>Attempt_Recovery_Properties\<close>: the
    join and the loop.

  Conventions.  A Go \<^verbatim>\<open>uint64\<close> is a 64-bit word, an \<^verbatim>\<open>int\<close> an integer, a \<^verbatim>\<open>time.Time\<close> an integer with
  0 the zero time, a pointer an option.  A function that mutates the ledger takes and returns it; an
  error is \<^verbatim>\<open>Inl\<close>.  A nil slice and an empty one are the same list, except where the source tells them
  apart by what it encodes.  SHA-256 and the JSON encoder of the standard library are fields of the record \<^verbatim>\<open>Env\<close>,
  as are the directories, the clock and the orders in which searches meet map entries.  What the
  planners take from elsewhere, the formatting of times, the redaction of texts and fresh launch
  tokens, is the record \<^verbatim>\<open>Planner\<close>.
  The depth-first search of the scheduler carries fuel one above the number of issues, which is
  proved to be enough.

  Not modelled.  Everything that is input and output: the GitHub client, git, tmux and process
  supervision, the terminal user interface, the reading and writing of files, and the execution of planned
  effects.  Where the modelled code calls it, its result is an argument.  In a cycle the resumption of
  runtime effects and the resolution of invalidated effects are such arguments too (\<^verbatim>\<open>cx_ResumeRuntime\<close>,
  \<^verbatim>\<open>cx_Resolve\<close>): what they dispatch or write to GitHub is not in the history of the cycle, so the laws of
  that history do not speak of it.  A channel is modelled by what it holds; that a send may block is not.
\<close>

end
